(* ===== verification/Prelude.thy ===== *)
theory Prelude
  imports Complex_Main "HOL-Library.AList" "HOL-Library.Sublist" "HOL-Library.Multiset"
begin

text \<open>
  What the components of the Milimo model share: the named collections of simplification
  facts, the JSON values the Python code reads and writes, the Python string and dictionary
  operations it uses, and the generic facts about them.

  Python's insertion-ordered dictionaries are association lists wherever the code iterates
  over them (\<open>AList.update\<close> keeps the position of a key and appends a new one, as
  Python does) and maps \<open>'k \<rightharpoonup> 'v\<close> where only lookups matter.
  Instants are integers: microseconds since the epoch, which is what an ISO timestamp written
  by \<open>datetime.isoformat\<close> and read by \<open>datetime.fromisoformat\<close> denotes.
  Python's floats are rational numbers (\<open>JFloat\<close> in a JSON value): arithmetic on them is exact,
  so no theorem speaks about rounding.
\<close>

named_theorems op_simps \<open>definitions of state-changing operations, for evaluation on concrete states\<close>
named_theorems frame_simps \<open>fields an operation leaves alone\<close>
named_theorems str_simps \<open>facts about Python strings and the action identifiers built from them\<close>

section \<open>JSON values\<close>

datatype json =
    JNull
  | JBool bool
  | JInt int
  | JFloat rat
  | JStr string
  | JList "json list"
  | JObj "(string \<times> json) list"

type_synonym 'v dict = "(string \<times> 'v) list"

text \<open>\<open>d.get(k, default)\<close> at a string, at an integer and at an optional string.\<close>

definition get_str :: "json dict \<Rightarrow> string \<Rightarrow> string \<Rightarrow> string" where
  "get_str d k def = (case map_of d k of Some (JStr s) \<Rightarrow> s | _ \<Rightarrow> def)"

definition get_int :: "json dict \<Rightarrow> string \<Rightarrow> int \<Rightarrow> int" where
  "get_int d k def = (case map_of d k of Some (JInt i) \<Rightarrow> i | _ \<Rightarrow> def)"

definition get_str_opt :: "json dict \<Rightarrow> string \<Rightarrow> string option" where
  "get_str_opt d k = (case map_of d k of Some (JStr s) \<Rightarrow> Some s | _ \<Rightarrow> None)"

text \<open>Python's truth value of an optional string: \<open>None\<close> and the empty string are false.\<close>

definition truthy_str :: "string option \<Rightarrow> bool" where
  "truthy_str s = (case s of None \<Rightarrow> False | Some t \<Rightarrow> t \<noteq> [])"

lemma truthy_str_simps [simp]:
  "\<not> truthy_str None" "truthy_str (Some s) = (s \<noteq> [])"
  by (simp_all add: truthy_str_def)

lemma truthy_strE: "truthy_str x \<Longrightarrow> (\<And>s. x = Some s \<Longrightarrow> s \<noteq> [] \<Longrightarrow> P) \<Longrightarrow> P"
  by (cases x) auto

section \<open>Python strings\<close>

text \<open>\<open>s.replace(old, new)\<close> for a non-empty \<open>old\<close>: every occurrence, left to right.\<close>

function py_replace :: "string \<Rightarrow> string \<Rightarrow> string \<Rightarrow> string" where
  "py_replace old new [] = []"
| "py_replace old new (c # cs) =
     (if old \<noteq> [] \<and> take (length old) (c # cs) = old
      then new @ py_replace old new (drop (length old) (c # cs))
      else c # py_replace old new cs)"
  by pat_completeness auto
termination
  by (relation "measure (\<lambda>(old, new, s). length s)") auto

text \<open>\<open>needle in hay\<close>.\<close>

fun py_in :: "string \<Rightarrow> string \<Rightarrow> bool" where
  "py_in needle [] = (needle = [])"
| "py_in needle (c # cs) = (take (length needle) (c # cs) = needle \<or> py_in needle cs)"

text \<open>\<open>s[-n:]\<close> for a positive \<open>n\<close>.\<close>

definition py_tail :: "nat \<Rightarrow> string \<Rightarrow> string" where
  "py_tail n s = drop (length s - n) s"

lemma length_py_tail: "length (py_tail n s) \<le> n"
  by (simp add: py_tail_def)

definition lower_char :: "char \<Rightarrow> char" where
  "lower_char c = (let n = of_char c :: nat in if 65 \<le> n \<and> n \<le> 90 then char_of (n + 32) else c)"

definition py_lower :: "string \<Rightarrow> string" where
  "py_lower s = map lower_char s"

text \<open>\<open>sep.join(parts)\<close>.\<close>

fun py_join :: "string \<Rightarrow> string list \<Rightarrow> string" where
  "py_join sep [] = []"
| "py_join sep [x] = x"
| "py_join sep (x # y # ys) = x @ sep @ py_join sep (y # ys)"

text \<open>\<open>str(n)\<close> for an integer.\<close>

fun digits_of_nat :: "nat \<Rightarrow> string" where
  "digits_of_nat n = (if n < 10 then [char_of (48 + n)]
                      else digits_of_nat (n div 10) @ [char_of (48 + n mod 10)])"

declare digits_of_nat.simps [simp del]

definition py_str_int :: "int \<Rightarrow> string" where
  "py_str_int i = (if i < 0 then ''-'' @ digits_of_nat (nat (- i)) else digits_of_nat (nat i))"

text \<open>
  Removing a marker that the rest of the string does not contain gives the rest back: the way
  the handlers recover an identifier from an action identifier.
\<close>

lemma py_replace_absent:
  "\<not> py_in old s \<Longrightarrow> py_replace old new s = s"
  by (induction s) auto

lemma py_replace_prefix:
  assumes "old \<noteq> []" and "\<not> py_in old s"
  shows "py_replace old [] (old @ s) = s"
proof -
  obtain c cs where old: "old = c # cs" using assms(1) by (cases old) auto
  have "py_replace old [] (c # (cs @ s)) = py_replace old [] (drop (length old) (c # (cs @ s)))"
    by (simp add: old)
  also have "drop (length old) (c # (cs @ s)) = s" by (simp add: old)
  finally show ?thesis using assms(2) by (simp add: old py_replace_absent)
qed

lemma py_in_prefix: "py_in a (a @ b)"
  by (cases a; cases b) simp_all

lemma py_in_append1: "py_in a s \<Longrightarrow> py_in a (p @ s)"
  by (induction p) auto

section \<open>Dictionaries and lists\<close>

lemma map_of_alist_update [simp]: "map_of (AList.update k v al) = (map_of al)(k \<mapsto> v)"
  by (rule update_conv')

lemma map_of_alist_delete [simp]: "map_of (AList.delete k al) = (map_of al)(k := None)"
  by (rule delete_conv')

end
