(* ===== verification/Spend_Model.thy ===== *)
theory Spend_Model
  imports Prelude
begin

text \<open>
  \<^verbatim>\<open>milimo-core/src/milimo_core/finance/spend_handler.py\<close>: agent-initiated purchases.

  A purchase passes a REVIEW stage and a HOLD stage in the War Room; releasing the HOLD runs
  the external \<^verbatim>\<open>link-cli\<close>. Every decision is appended to \<^verbatim>\<open>decisions.log\<close>, from which a
  restarted handler rebuilds its requests. The requests are Python objects shared between the
  handler's dictionary, its callers and the polling threads, so they live in an explicit
  store: a reference is a natural number, \<open>heap\<close> gives the object behind it and \<open>requests\<close>
  is the dictionary from spend identifiers to references.

  The answers of \<^verbatim>\<open>link-cli\<close>, the clock and the process table are inputs of the operations.
\<close>

section \<open>Requests\<close>

datatype spend_status =
  PendingReview | Held | Released | Blocked | Cancelled | ApprovalPending

fun status_str :: "spend_status \<Rightarrow> string" where
  "status_str PendingReview = ''pending_review''"
| "status_str Held = ''held''"
| "status_str Released = ''released''"
| "status_str Blocked = ''blocked''"
| "status_str Cancelled = ''cancelled''"
| "status_str ApprovalPending = ''approval_pending''"

record spend_request =
  spend_id :: string
  claw :: string
  merchant_name :: string
  merchant_url :: string
  amount_cents :: int
  currency :: string
  justification :: string
  payment_method_id :: "string option"
  credential_type :: string
  status :: spend_status
  created_at :: int
  link_spend_request_id :: "string option"

datatype spend_error =
    ErrKey string
  | ErrJustification nat
  | ErrLocked string
  | ErrCliNotFound
  | ErrCliTimeout

definition LINK_CLI_MIN_CONTEXT_LENGTH :: nat where
  "LINK_CLI_MIN_CONTEXT_LENGTH = 100"

definition validate_justification :: "spend_request \<Rightarrow> spend_error option" where
  "validate_justification rq =
     (if length (justification rq) < LINK_CLI_MIN_CONTEXT_LENGTH
      then Some (ErrJustification (length (justification rq))) else None)"

section \<open>The log files and the handler's state\<close>

text \<open>
  A line of \<^verbatim>\<open>decisions.log\<close> is blank, is not JSON, or is a decision. The finance handler of
  invoices writes to the same file, so a decision may lack a spend identifier.
\<close>

record decision =
  d_action_id :: string
  d_spend_id :: "string option"
  d_stage :: string
  d_action_type :: string
  d_timestamp :: int
  d_operator :: string
  d_details :: "json dict"

datatype log_line = LBlank | LBad | LDec decision

datatype spend_line = SBlank | SBad | SEntry (sl_spend_id: string) (sl_lsrq: "string option")
  (sl_timestamp: "int option") (sl_amount: int)

record queue_entry =
  q_spend_id :: string
  q_claw :: string
  q_stage :: string
  q_status :: string
  q_action_id :: string
  q_merchant_name :: string
  q_amount :: int
  q_timestamp :: int
  q_lsrq :: "string option"

record op_entry =
  o_timestamp :: int
  o_action_type :: string
  o_entity_id :: string
  o_amount_cents :: int
  o_outcome :: string
  o_details :: decision

record warroom_card =
  wc_action_id :: string
  wc_mode :: string
  wc_action_type :: string

datatype lock_file = LockBad | LockPid "int option"

record poll_thread =
  p_request :: nat
  p_action_id :: string
  p_operator_id :: "string option"

record spend_state =
  heap :: "nat \<Rightarrow> spend_request"
  fresh :: nat
  requests :: "string \<rightharpoonup> nat"
  lsrq_index :: "string \<rightharpoonup> string"
  decisions :: "log_line list option"
  spend_log :: "spend_line list option"
  queue_log :: "queue_entry list"
  op_log :: "op_entry list"
  cards :: "warroom_card list"
  polls :: "poll_thread list"
  locks :: "string \<rightharpoonup> lock_file"
  shutdown :: bool

record spend_config =
  link_cli_path :: string
  daily_spend_cap_cents :: int
  test_mode :: bool
  warroom_bridge_available :: bool

text \<open>
  \<open>daily_spend_cap_cents or int(os.environ.get("MILIMO_DAILY_SPEND_CAP_CENTS", "10000"))\<close>:
  \<open>None\<close> and zero both select the environment's value.
\<close>

definition resolve_cap :: "int option \<Rightarrow> int option \<Rightarrow> int" where
  "resolve_cap arg env =
     (case arg of Some c \<Rightarrow> (if c \<noteq> 0 then c else (case env of Some e \<Rightarrow> e | None \<Rightarrow> 10000))
      | None \<Rightarrow> (case env of Some e \<Rightarrow> e | None \<Rightarrow> 10000))"

definition log_lines :: "spend_state \<Rightarrow> log_line list" where
  "log_lines st = (case decisions st of None \<Rightarrow> [] | Some ls \<Rightarrow> ls)"

definition spend_lines :: "spend_state \<Rightarrow> spend_line list" where
  "spend_lines st = (case spend_log st of None \<Rightarrow> [] | Some ls \<Rightarrow> ls)"

text \<open>Attribute assignment on the request object behind a reference.\<close>

definition upd_request :: "nat \<Rightarrow> (spend_request \<Rightarrow> spend_request) \<Rightarrow> spend_state \<Rightarrow> spend_state"
where
  "upd_request r f st = st\<lparr>heap := (heap st)(r := f (heap st r))\<rparr>"

definition set_status :: "nat \<Rightarrow> spend_status \<Rightarrow> spend_state \<Rightarrow> spend_state" where
  "set_status r s st = upd_request r (\<lambda>rq. rq\<lparr>status := s\<rparr>) st"

definition set_lsrq :: "nat \<Rightarrow> string option \<Rightarrow> spend_state \<Rightarrow> spend_state" where
  "set_lsrq r l st = upd_request r (\<lambda>rq. rq\<lparr>link_spend_request_id := l\<rparr>) st"

text \<open>\<open>SpendRequest(...)\<close>: the caller's constructor call allocates the object.\<close>

definition alloc :: "spend_request \<Rightarrow> spend_state \<Rightarrow> nat \<times> spend_state" where
  "alloc rq st =
     (fresh st, st\<lparr>heap := (heap st)(fresh st := rq), fresh := Suc (fresh st)\<rparr>)"

section \<open>Writing the logs\<close>

text \<open>
  \<open>_log_decision\<close>. The amount of the operational entry is the float \<open>amount_cents / 100\<close>; the
  model keeps the cents.
\<close>

definition op_entry_of :: "string \<Rightarrow> decision \<Rightarrow> op_entry" where
  "op_entry_of sid d =
     \<lparr>o_timestamp = d_timestamp d,
      o_action_type = ''approval_'' @ d_stage d @ ''_'' @ d_action_type d,
      o_entity_id = sid,
      o_amount_cents = get_int (d_details d) ''amount_cents'' 0,
      o_outcome = ''logged'',
      o_details = d\<rparr>"

definition log_decision :: "decision \<Rightarrow> spend_state \<Rightarrow> spend_state" where
  "log_decision d st =
     (case d_spend_id d of
        None \<Rightarrow> st
      | Some sid \<Rightarrow>
          if sid = [] then st
          else st\<lparr>decisions := Some (log_lines st @ [LDec d]),
                  op_log := op_log st @ [op_entry_of sid d]\<rparr>)"

definition append_spend_log :: "nat \<Rightarrow> int \<Rightarrow> spend_state \<Rightarrow> spend_state" where
  "append_spend_log r now st =
     st\<lparr>spend_log := Some (spend_lines st @
          [SEntry (spend_id (heap st r)) (link_spend_request_id (heap st r))
                  (Some now) (amount_cents (heap st r))])\<rparr>"

definition persist_queue_state :: "nat \<Rightarrow> string \<Rightarrow> string \<Rightarrow> int \<Rightarrow> spend_state \<Rightarrow> spend_state"
where
  "persist_queue_state r stg aid now st =
     st\<lparr>queue_log := queue_log st @
          [\<lparr>q_spend_id = spend_id (heap st r), q_claw = claw (heap st r), q_stage = stg,
            q_status = status_str (status (heap st r)), q_action_id = aid,
            q_merchant_name = merchant_name (heap st r), q_amount = amount_cents (heap st r),
            q_timestamp = now, q_lsrq = None\<rparr>]\<rparr>"

text \<open>\<open>write_warroom_action\<close> of the bridge module, when it can be imported.\<close>

definition add_card :: "spend_config \<Rightarrow> string \<Rightarrow> string \<Rightarrow> string \<Rightarrow> spend_state \<Rightarrow> spend_state" where
  "add_card cfg aid mode kind st =
     (if warroom_bridge_available cfg
      then st\<lparr>cards := cards st @ [\<lparr>wc_action_id = aid, wc_mode = mode, wc_action_type = kind\<rparr>]\<rparr>
      else st)"

text \<open>\<open>_get_daily_spend_aggregate\<close>: what was spent in the 24 hours up to now.\<close>

definition day_us :: int where
  "day_us = 24 * 60 * 60 * 1000000"

fun sum_since :: "int \<Rightarrow> spend_line list \<Rightarrow> int" where
  "sum_since cutoff [] = 0"
| "sum_since cutoff (SEntry i l (Some ts) amt # ls) =
     (if ts \<ge> cutoff then amt + sum_since cutoff ls else sum_since cutoff ls)"
| "sum_since cutoff (_ # ls) = sum_since cutoff ls"

definition daily_spend_aggregate :: "int \<Rightarrow> spend_state \<Rightarrow> int" where
  "daily_spend_aggregate now st = sum_since (now - day_us) (spend_lines st)"

end
