(* ===== verification/Spend_Handler.thy ===== *)
theory Spend_Handler
  imports Spend_Model
begin

text \<open>
  The operations of \<open>SpendApprovalHandler\<close>: recovering a request from the log, the REVIEW
  stage, the HOLD stage with its call of \<^verbatim>\<open>link-cli\<close>, the polling thread and the recovery scan
  of the constructor. An operation returns a value or an error together with the state it
  leaves, since a Python exception does not undo the assignments made before it.
\<close>

section \<open>Recovering a request from the decisions log\<close>

definition request_of_review :: "string \<Rightarrow> int \<Rightarrow> json dict \<Rightarrow> spend_request" where
  "request_of_review sid now d =
     \<lparr>spend_id = sid, claw = get_str d ''claw'' [],
      merchant_name = get_str d ''merchant_name'' [], merchant_url = get_str d ''merchant_url'' [],
      amount_cents = get_int d ''amount_cents'' 0, currency = get_str d ''currency'' ''USD'',
      justification = get_str d ''justification'' [],
      payment_method_id = get_str_opt d ''payment_method_id'',
      credential_type = get_str d ''credential_type'' ''card'',
      status = PendingReview, created_at = now, link_spend_request_id = None\<rparr>"

definition request_of_hold :: "string \<Rightarrow> int \<Rightarrow> json dict \<Rightarrow> spend_request" where
  "request_of_hold sid now d =
     (request_of_review sid now d)\<lparr>claw := get_str d ''claw'' (get_str d ''requesting_claw'' [])\<rparr>"

text \<open>
  The first pass: the first \<open>queued\<close> decision of the identifier gives the request; a line that
  is not JSON raises, which ends the pass.
\<close>

fun scan_queued :: "string \<Rightarrow> int \<Rightarrow> log_line list \<Rightarrow> (string \<rightharpoonup> string)
    \<Rightarrow> spend_request option \<times> (string \<rightharpoonup> string)" where
  "scan_queued sid now [] idx = (None, idx)"
| "scan_queued sid now (LBlank # ls) idx = scan_queued sid now ls idx"
| "scan_queued sid now (LBad # ls) idx = (None, idx)"
| "scan_queued sid now (LDec d # ls) idx =
     (if d_spend_id d \<noteq> Some sid then scan_queued sid now ls idx
      else if d_stage d = ''review'' \<and> d_action_type d = ''queued''
        then (Some (request_of_review sid now (d_details d)), idx)
      else if d_stage d = ''hold'' \<and> d_action_type d = ''queued''
        then (Some (request_of_hold sid now (d_details d)), idx)
      else if d_stage d = ''hold'' \<and> d_action_type d = ''release''
        then scan_queued sid now ls
               (case get_str_opt (d_details d) ''link_spend_request_id'' of
                  Some l \<Rightarrow> if l \<noteq> [] then idx(l \<mapsto> sid) else idx
                | None \<Rightarrow> idx)
      else scan_queued sid now ls idx)"

text \<open>The second pass replays the state changes, in the order of the log.\<close>

definition replay_decision :: "decision \<Rightarrow> spend_request \<Rightarrow> spend_request" where
  "replay_decision d rq0 =
     (let rq = (if d_stage d = ''review'' \<and> d_action_type d = ''approve''
                then rq0\<lparr>status := Held\<rparr>
                else if d_stage d = ''review'' \<and> d_action_type d = ''block''
                then rq0\<lparr>status := Blocked\<rparr> else rq0)
      in if d_stage d = ''hold'' \<and> d_action_type d = ''release''
         then rq\<lparr>status := Released,
                  link_spend_request_id := get_str_opt (d_details d) ''link_spend_request_id''\<rparr>
         else if d_stage d = ''hold'' \<and> d_action_type d = ''purchase_approved''
         then rq\<lparr>status := Released\<rparr>
         else if d_stage d = ''hold'' \<and>
              d_action_type d \<in> {''purchase_denied'', ''purchase_expired'', ''release_failed''}
         then rq\<lparr>status := Blocked\<rparr>
         else if d_stage d = ''hold'' \<and> d_action_type d = ''cancel''
         then rq\<lparr>status := Cancelled\<rparr>
         else rq)"

fun replay :: "string \<Rightarrow> log_line list \<Rightarrow> spend_request \<Rightarrow> spend_request" where
  "replay sid [] rq = rq"
| "replay sid (LBlank # ls) rq = replay sid ls rq"
| "replay sid (LBad # ls) rq = rq"
| "replay sid (LDec d # ls) rq =
     replay sid ls (if d_spend_id d = Some sid then replay_decision d rq else rq)"

definition get_request_ref :: "string \<Rightarrow> int \<Rightarrow> spend_state
    \<Rightarrow> (spend_error + nat) \<times> spend_state" where
  "get_request_ref sid now st =
     (case requests st sid of
        Some r \<Rightarrow> (Inr r, st)
      | None \<Rightarrow>
          (case scan_queued sid now (log_lines st) (lsrq_index st) of
             (None, idx) \<Rightarrow> (Inl (ErrKey sid), st\<lparr>lsrq_index := idx\<rparr>)
           | (Some rq, idx) \<Rightarrow>
               (case alloc (replay sid (log_lines st) rq) (st\<lparr>lsrq_index := idx\<rparr>) of
                  (r, st') \<Rightarrow> (Inr r, st'\<lparr>requests := (requests st')(sid \<mapsto> r)\<rparr>))))"

text \<open>The public \<open>get_request\<close> turns the error into \<open>None\<close>.\<close>

definition get_request :: "string \<Rightarrow> int \<Rightarrow> spend_state \<Rightarrow> nat option \<times> spend_state" where
  "get_request sid now st =
     (case get_request_ref sid now st of
        (Inl _, st') \<Rightarrow> (None, st') | (Inr r, st') \<Rightarrow> (Some r, st'))"

section \<open>Stage 1: REVIEW\<close>

definition review_prefix :: string where "review_prefix = ''spend-review-''"
definition hold_prefix :: string where "hold_prefix = ''spend-hold-''"

definition mk_decision :: "string \<Rightarrow> string \<Rightarrow> string \<Rightarrow> string \<Rightarrow> int \<Rightarrow> string \<Rightarrow> json dict \<Rightarrow> decision"
where
  "mk_decision aid sid stg act now op d =
     \<lparr>d_action_id = aid, d_spend_id = Some sid, d_stage = stg, d_action_type = act,
      d_timestamp = now, d_operator = op, d_details = d\<rparr>"

definition review_details :: "spend_request \<Rightarrow> json dict" where
  "review_details rq =
     [(''claw'', JStr (claw rq)), (''merchant_name'', JStr (merchant_name rq)),
      (''merchant_url'', JStr (merchant_url rq)), (''amount_cents'', JInt (amount_cents rq)),
      (''currency'', JStr (currency rq)), (''justification'', JStr (justification rq)),
      (''credential_type'', JStr (credential_type rq))]"

definition queue_spend_review :: "spend_config \<Rightarrow> int \<Rightarrow> nat \<Rightarrow> spend_state \<Rightarrow> string \<times> spend_state"
where
  "queue_spend_review cfg now r st =
     (let sid = spend_id (heap st r);
          aid = review_prefix @ sid;
          st1 = persist_queue_state r ''review'' aid now
                  (st\<lparr>requests := (requests st)(sid \<mapsto> r)\<rparr>);
          spent = daily_spend_aggregate now st1;
          amt = amount_cents (heap st1 r)
      in if spent + amt > daily_spend_cap_cents cfg
         then (aid, log_decision
                 (mk_decision aid sid ''review'' ''auto_blocked'' now ''system''
                    [(''reason'', JStr ''exceeds_daily_spend_cap''), (''amount_cents'', JInt amt),
                     (''daily_spent_cents'', JInt spent),
                     (''cap_cents'', JInt (daily_spend_cap_cents cfg))])
                 (set_status r Blocked st1))
         else (aid, add_card cfg aid ''REVIEW'' ''spend_review''
                 (log_decision
                    (mk_decision aid sid ''review'' ''queued'' now ''system''
                       (review_details (heap st1 r))) st1)))"

definition hold_warning :: string where
  "hold_warning = ''This will create a Stripe Link spend request and '' @
                  ''ping the user'' @ [CHR 0x27] @ ''s Link app for final approval.''"

definition queue_spend_hold :: "spend_config \<Rightarrow> int \<Rightarrow> nat \<Rightarrow> spend_state \<Rightarrow> string \<times> spend_state"
where
  "queue_spend_hold cfg now r st =
     (let sid = spend_id (heap st r);
          aid = hold_prefix @ sid;
          st1 = persist_queue_state r ''hold'' aid now
                  (st\<lparr>requests := (requests st)(sid \<mapsto> r)\<rparr>)
      in (aid, add_card cfg aid ''HOLD'' ''spend_hold''
            (log_decision
               (mk_decision aid sid ''hold'' ''queued'' now ''system''
                  [(''merchant_name'', JStr (merchant_name (heap st1 r))),
                   (''amount_cents'', JInt (amount_cents (heap st1 r))),
                   (''warning'', JStr hold_warning)]) st1)))"

definition handle_review_approve :: "spend_config \<Rightarrow> int \<Rightarrow> string \<Rightarrow> spend_state
    \<Rightarrow> (spend_error + string) \<times> spend_state" where
  "handle_review_approve cfg now aid st =
     (let sid = py_replace review_prefix [] aid in
      case get_request_ref sid now st of
        (Inl e, st1) \<Rightarrow> (Inl e, st1)
      | (Inr r, st1) \<Rightarrow>
          (case queue_spend_hold cfg now r (set_status r Held st1) of
             (hold_aid, st2) \<Rightarrow>
               (Inr hold_aid, log_decision
                  (mk_decision aid sid ''review'' ''approve'' now ''operator''
                     [(''outcome'', JStr ''moved_to_hold'')]) st2)))"

definition handle_review_edit :: "int \<Rightarrow> string \<Rightarrow> int \<Rightarrow> string \<Rightarrow> spend_state
    \<Rightarrow> (spend_error + unit) \<times> spend_state" where
  "handle_review_edit now aid amt just st =
     (let sid = py_replace review_prefix [] aid in
      case get_request_ref sid now st of
        (Inl e, st1) \<Rightarrow> (Inl e, st1)
      | (Inr r, st1) \<Rightarrow>
          (let st2 = upd_request r (\<lambda>rq. rq\<lparr>amount_cents := amt, justification := just\<rparr>) st1
           in case validate_justification (heap st2 r) of
                Some e \<Rightarrow> (Inl e, st2)
              | None \<Rightarrow>
                  (Inr (), log_decision
                     (mk_decision aid sid ''review'' ''edit'' now ''operator''
                        [(''amount_cents'', JInt amt), (''justification'', JStr just)]) st2)))"

definition handle_review_block :: "int \<Rightarrow> string \<Rightarrow> string \<Rightarrow> spend_state
    \<Rightarrow> (spend_error + unit) \<times> spend_state" where
  "handle_review_block now aid reason st =
     (let sid = py_replace review_prefix [] aid in
      case get_request_ref sid now st of
        (Inl e, st1) \<Rightarrow> (Inl e, st1)
      | (Inr r, st1) \<Rightarrow>
          (Inr (), log_decision
             (mk_decision aid sid ''review'' ''block'' now ''operator'' [(''reason'', JStr reason)])
             (set_status r Blocked st1)))"

definition handle_invoice_ready :: "int \<Rightarrow> string \<Rightarrow> int \<Rightarrow> spend_state \<Rightarrow> spend_state" where
  "handle_invoice_ready now iid amt st =
     log_decision
       (mk_decision (''invoice-'' @ iid) iid ''review'' ''invoice_received'' now ''system''
          [(''invoice_id'', JStr iid), (''amount_cents'', JInt amt)]) st"

end
