(* ===== verification/Spend_Release.thy ===== *)
theory Spend_Release
  imports Spend_Handler
begin

text \<open>
  Stage 2 of \<open>SpendApprovalHandler\<close>: \<open>handle_hold_release\<close> with its lock file, idempotency
  check, daily cap, the two \<^verbatim>\<open>link-cli\<close> calls and their failures; \<open>handle_hold_cancel\<close>; the
  polling thread; the constructor's recovery scan.
\<close>

section \<open>What the environment answers\<close>

text \<open>
  A \<^verbatim>\<open>subprocess.run\<close> ends with a return code, the JSON value \<open>_parse_json_stdout\<close> finds in its
  output (if any) and its standard error, or raises \<open>FileNotFoundError\<close> or \<open>TimeoutExpired\<close>.
\<close>

datatype cli_outcome = CliExit int "json option" string | CliMissing | CliTimeout

record release_env =
  now_start :: int
  now_cap :: int
  now_spend :: int
  now_log :: int
  my_pid :: int
  pid_alive :: "int \<Rightarrow> bool"
  cli_create :: cli_outcome
  cli_notify :: cli_outcome
  cli_notify_retry :: cli_outcome

definition operator_name :: "string option \<Rightarrow> string" where
  "operator_name op = (if truthy_str op then the op else ''operator'')"

section \<open>The lock file\<close>

definition lock_holder_alive :: "(int \<Rightarrow> bool) \<Rightarrow> int option \<Rightarrow> bool" where
  "lock_holder_alive alive p = (case p of None \<Rightarrow> False | Some n \<Rightarrow> n \<noteq> 0 \<and> alive n)"

definition acquire_lock :: "release_env \<Rightarrow> string \<Rightarrow> spend_state \<Rightarrow> (spend_error + unit) \<times> spend_state"
where
  "acquire_lock env sid st =
     (let taken = (Inr (), st\<lparr>locks := (locks st)(sid \<mapsto> LockPid (Some (my_pid env)))\<rparr>)
      in case locks st sid of
           None \<Rightarrow> taken
         | Some LockBad \<Rightarrow> (Inl (ErrLocked sid), st)
         | Some (LockPid p) \<Rightarrow>
             if lock_holder_alive (pid_alive env) p then (Inl (ErrLocked sid), st) else taken)"

definition release_lock :: "string \<Rightarrow> spend_state \<Rightarrow> spend_state" where
  "release_lock sid st = st\<lparr>locks := (locks st)(sid := None)\<rparr>"

section \<open>Idempotency check\<close>

definition release_actions :: "string list" where
  "release_actions = [''release'', ''release_failed'', ''purchase_approved'', ''purchase_denied'',
                      ''purchase_expired'', ''cancel'']"

text \<open>\<open>_find_prior_release\<close> keeps the last such decision and skips lines that are not JSON.\<close>

fun find_prior_release :: "string \<Rightarrow> log_line list \<Rightarrow> decision option \<Rightarrow> decision option" where
  "find_prior_release sid [] acc = acc"
| "find_prior_release sid (LDec d # ls) acc =
     find_prior_release sid ls
       (if d_spend_id d = Some sid \<and> d_stage d = ''hold'' \<and> d_action_type d \<in> set release_actions
        then Some d else acc)"
| "find_prior_release sid (_ # ls) acc = find_prior_release sid ls acc"

section \<open>The command lines\<close>

definition create_command :: "spend_config \<Rightarrow> spend_request \<Rightarrow> string list" where
  "create_command cfg rq =
     [link_cli_path cfg, ''spend-request'', ''create'', ''--merchant-name'', merchant_name rq,
      ''--merchant-url'', merchant_url rq, ''--context'', justification rq,
      ''--amount'', py_str_int (amount_cents rq),
      ''--total'', ''type:total,display_text:Total,amount:'' @ py_str_int (amount_cents rq),
      ''--no-request-approval'', ''--format'', ''json'']
     @ (if truthy_str (payment_method_id rq)
        then [''--payment-method-id'', the (payment_method_id rq)] else [])
     @ (if credential_type rq = ''shared_payment_token''
        then [''--credential-type'', ''shared_payment_token''] else [])
     @ (if test_mode cfg then [''--test''] else [])"

definition approval_command :: "spend_config \<Rightarrow> spend_request \<Rightarrow> string list" where
  "approval_command cfg rq =
     [link_cli_path cfg, ''spend-request'', ''request-approval'',
      the (link_spend_request_id rq), ''--format'', ''json'']"

definition retrieve_command :: "spend_config \<Rightarrow> spend_request \<Rightarrow> string list" where
  "retrieve_command cfg rq =
     [link_cli_path cfg, ''spend-request'', ''retrieve'',
      the (link_spend_request_id rq), ''--format'', ''json'']"

section \<open>HOLD release\<close>

text \<open>The payload of an answer: the first element of a non-empty list, the value itself otherwise.\<close>

fun payload_dict :: "json option \<Rightarrow> json dict option" where
  "payload_dict (Some (JList (JObj d # _))) = Some d"
| "payload_dict (Some (JObj d)) = Some d"
| "payload_dict _ = None"

text \<open>\<open>request.link_spend_request_id = payload.get("id")\<close> and the index, when there is a payload.\<close>

definition record_session :: "string \<Rightarrow> nat \<Rightarrow> json option \<Rightarrow> spend_state \<Rightarrow> spend_state" where
  "record_session sid r out st =
     (case payload_dict out of
        None \<Rightarrow> st
      | Some d \<Rightarrow>
          (let l = get_str_opt d ''id''; st1 = set_lsrq r l st
           in if truthy_str l then st1\<lparr>lsrq_index := (lsrq_index st1)(the l \<mapsto> sid)\<rparr> else st1))"

definition fail_release :: "release_env \<Rightarrow> string \<Rightarrow> string \<Rightarrow> string \<Rightarrow> json dict \<Rightarrow> nat \<Rightarrow> spend_state
    \<Rightarrow> spend_state" where
  "fail_release env aid sid op d r st =
     log_decision (mk_decision aid sid ''hold'' ''release_failed'' (now_log env) op d)
       (set_status r Blocked st)"

definition start_polling :: "nat \<Rightarrow> string \<Rightarrow> string option \<Rightarrow> spend_state \<Rightarrow> spend_state" where
  "start_polling r aid op st =
     st\<lparr>polls := polls st @ [\<lparr>p_request = r, p_action_id = aid, p_operator_id = op\<rparr>]\<rparr>"

definition lsrq_json :: "string option \<Rightarrow> json" where
  "lsrq_json l = (case l of None \<Rightarrow> JNull | Some s \<Rightarrow> JStr s)"

text \<open>After the session exists: \<^verbatim>\<open>request-approval\<close>, once more after a failure that may pass.\<close>

definition is_permanent :: "string \<Rightarrow> bool" where
  "is_permanent err =
     (py_in ''unknown flag'' (py_lower err) \<or> py_in ''no such command'' (py_lower err))"

definition notify_outcome :: "release_env \<Rightarrow> cli_outcome" where
  "notify_outcome env =
     (case cli_notify env of
        CliExit rc out err \<Rightarrow>
          if rc \<noteq> 0 \<and> \<not> is_permanent err then cli_notify_retry env else cli_notify env
      | out \<Rightarrow> out)"

definition notify_step :: "release_env \<Rightarrow> string \<Rightarrow> string \<Rightarrow> string option \<Rightarrow> nat \<Rightarrow> spend_state
    \<Rightarrow> (spend_error + nat) \<times> spend_state" where
  "notify_step env aid sid op r st =
     (let l = link_spend_request_id (heap st r) in
      case notify_outcome env of
        CliMissing \<Rightarrow> (Inl ErrCliNotFound, st)
      | CliTimeout \<Rightarrow> (Inl ErrCliTimeout, st)
      | CliExit rc out err \<Rightarrow>
          if rc \<noteq> 0
          then (Inr r, start_polling r aid op (log_decision
                  (mk_decision aid sid ''hold'' ''release'' (now_log env) (operator_name op)
                     [(''outcome'', JStr ''notify_failed''),
                      (''link_spend_request_id'', lsrq_json l), (''stderr'', JStr (py_tail 500 err))])
                  (set_status r ApprovalPending st)))
          else (Inr r, start_polling r aid op (log_decision
                  (mk_decision aid sid ''hold'' ''release'' (now_log env) (operator_name op)
                     [(''outcome'', JStr ''release_initiated''),
                      (''link_spend_request_id'', lsrq_json l)])
                  (set_status r Released st))))"

text \<open>Creating the session.\<close>

definition create_step :: "release_env \<Rightarrow> string \<Rightarrow> string \<Rightarrow> string option \<Rightarrow> nat \<Rightarrow> spend_state
    \<Rightarrow> (spend_error + nat) \<times> spend_state" where
  "create_step env aid sid op r st =
     (case cli_create env of
        CliMissing \<Rightarrow> (Inl ErrCliNotFound, st)
      | CliTimeout \<Rightarrow> (Inl ErrCliTimeout, st)
      | CliExit rc out err \<Rightarrow>
          if rc \<noteq> 0
          then (Inr r, fail_release env aid sid (operator_name op)
                  [(''outcome'', JStr ''create_failed''), (''stderr'', JStr (py_tail 500 err))] r st)
          else (let st1 = record_session sid r out st in
                if \<not> truthy_str (link_spend_request_id (heap st1 r))
                then (Inr r, fail_release env aid sid (operator_name op)
                        [(''outcome'', JStr ''missing_spend_request_id'')] r st1)
                else notify_step env aid sid op r (append_spend_log r (now_spend env) st1)))"

text \<open>The daily cap, then the session.\<close>

definition cap_step :: "spend_config \<Rightarrow> release_env \<Rightarrow> string \<Rightarrow> string \<Rightarrow> string option \<Rightarrow> nat
    \<Rightarrow> spend_state \<Rightarrow> (spend_error + nat) \<times> spend_state" where
  "cap_step cfg env aid sid op r st =
     (let spent = daily_spend_aggregate (now_cap env) st; amt = amount_cents (heap st r) in
      if spent + amt > daily_spend_cap_cents cfg
      then (Inr r, fail_release env aid sid (operator_name op)
              [(''outcome'', JStr ''exceeds_daily_spend_cap''), (''daily_spent_cents'', JInt spent),
               (''request_cents'', JInt amt), (''cap_cents'', JInt (daily_spend_cap_cents cfg))] r st)
      else create_step env aid sid op r st)"

text \<open>Inside the \<open>try ... finally\<close>: the idempotency check comes first.\<close>

definition release_body :: "spend_config \<Rightarrow> release_env \<Rightarrow> string \<Rightarrow> string \<Rightarrow> string option \<Rightarrow> nat
    \<Rightarrow> spend_state \<Rightarrow> (spend_error + nat) \<times> spend_state" where
  "release_body cfg env aid sid op r st =
     (case find_prior_release sid (log_lines st) None of
        None \<Rightarrow> cap_step cfg env aid sid op r st
      | Some d \<Rightarrow>
          (let outcome = get_str (d_details d) ''outcome'' [];
               l = get_str_opt (d_details d) ''link_spend_request_id''
           in if outcome = ''release_initiated'' \<and> truthy_str l
              then (Inr r, set_lsrq r l (set_status r Released st))
              else if outcome = ''notify_failed'' \<and> truthy_str l
              then cap_step cfg env aid sid op r (set_lsrq r l st)
              else cap_step cfg env aid sid op r st))"

definition handle_hold_release :: "spend_config \<Rightarrow> release_env \<Rightarrow> string \<Rightarrow> string option \<Rightarrow> spend_state
    \<Rightarrow> (spend_error + nat) \<times> spend_state" where
  "handle_hold_release cfg env aid op st =
     (let sid = py_replace hold_prefix [] aid in
      case get_request_ref sid (now_start env) st of
        (Inl e, st1) \<Rightarrow> (Inl e, st1)
      | (Inr r, st1) \<Rightarrow>
          if validate_justification (heap st1 r) \<noteq> None
          then (Inr r, fail_release env aid sid (operator_name op)
                  [(''outcome'', JStr ''invalid_justification'')] r st1)
          else (case acquire_lock env sid st1 of
                  (Inl e, st2) \<Rightarrow> (Inl e, st2)
                | (Inr _, st2) \<Rightarrow>
                    (case release_body cfg env aid sid op r st2 of
                       (res, st3) \<Rightarrow> (res, release_lock sid st3))))"

definition handle_hold_cancel :: "int \<Rightarrow> string \<Rightarrow> string \<Rightarrow> spend_state
    \<Rightarrow> (spend_error + unit) \<times> spend_state" where
  "handle_hold_cancel now aid reason st =
     (let sid = py_replace hold_prefix [] aid in
      case get_request_ref sid now st of
        (Inl e, st1) \<Rightarrow> (Inl e, st1)
      | (Inr r, st1) \<Rightarrow>
          (Inr (), log_decision
             (mk_decision aid sid ''hold'' ''cancel'' now ''operator'' [(''reason'', JStr reason)])
             (set_status r Cancelled st1)))"

section \<open>The polling thread\<close>

datatype poll_end = PollDecided string nat | PollDied nat

definition max_attempts :: nat where "max_attempts = 150"

definition poll_verdict :: "json option \<Rightarrow> string option" where
  "poll_verdict out =
     (case payload_dict out of
        None \<Rightarrow> None
      | Some d \<Rightarrow>
          (let s = get_str_opt d ''status'' in
           if s = Some ''approved'' then Some ''purchase_approved''
           else if s = Some ''denied'' then Some ''purchase_denied''
           else if s = Some ''expired'' then Some ''purchase_expired'' else None))"

text \<open>
  \<open>n\<close> attempts are left, \<open>k\<close> were made; \<open>stop k\<close> says whether the shutdown event is set before
  attempt \<open>k + 1\<close> and \<open>ans (k + 1)\<close> is the answer to it. A time-out of the call is not caught
  and ends the thread.
\<close>

fun poll_loop :: "nat \<Rightarrow> (nat \<Rightarrow> bool) \<Rightarrow> (nat \<Rightarrow> cli_outcome) \<Rightarrow> nat \<Rightarrow> poll_end" where
  "poll_loop 0 stop ans k = PollDecided ''purchase_expired'' k"
| "poll_loop (Suc n) stop ans k =
     (if stop k then PollDecided ''purchase_expired'' k
      else (case ans (Suc k) of
              CliMissing \<Rightarrow> PollDecided ''release_failed'' (Suc k)
            | CliTimeout \<Rightarrow> PollDied (Suc k)
            | CliExit rc out err \<Rightarrow>
                if rc = 0
                then (case poll_verdict out of
                        Some v \<Rightarrow> PollDecided v (Suc k)
                      | None \<Rightarrow> poll_loop n stop ans (Suc k))
                else poll_loop n stop ans (Suc k)))"

definition poll_spend_request :: "(nat \<Rightarrow> bool) \<Rightarrow> (nat \<Rightarrow> cli_outcome) \<Rightarrow> int \<Rightarrow> poll_thread
    \<Rightarrow> spend_state \<Rightarrow> spend_state" where
  "poll_spend_request stop ans now p st =
     (case poll_loop max_attempts stop ans 0 of
        PollDied k \<Rightarrow> st
      | PollDecided v k \<Rightarrow>
          (let r = p_request p;
               st1 = set_status r (if v = ''purchase_approved'' then Released else Blocked) st
           in log_decision
                (mk_decision (p_action_id p) (spend_id (heap st1 r)) ''hold'' v now
                   (operator_name (p_operator_id p))
                   [(''outcome'', JStr (if v = ''purchase_approved'' then ''approved''
                                        else ''failed_or_denied'')),
                    (''link_spend_request_id'', lsrq_json (link_spend_request_id (heap st1 r))),
                    (''attempts'', JInt (int k))]) st1))"

text \<open>The thread of index \<open>i\<close> ends: its effect, and its entry leaves the list of live threads.\<close>

definition finish_poll :: "nat \<Rightarrow> (nat \<Rightarrow> bool) \<Rightarrow> (nat \<Rightarrow> cli_outcome) \<Rightarrow> int \<Rightarrow> spend_state
    \<Rightarrow> spend_state" where
  "finish_poll i stop ans now st =
     (if i < length (polls st)
      then (let st1 = poll_spend_request stop ans now (polls st ! i) st
            in st1\<lparr>polls := take i (polls st1) @ drop (Suc i) (polls st1)\<rparr>)
      else st)"

section \<open>Recovery after a restart\<close>

record pending_release =
  pr_action_id :: string
  pr_lsrq :: "string option"
  pr_operator_id :: "string option"

type_synonym recovery = "pending_release dict \<times> (string \<rightharpoonup> string)"

definition recover_decision :: "decision \<Rightarrow> recovery \<Rightarrow> recovery" where
  "recover_decision d acc =
     (case acc of (pend, unidx) \<Rightarrow>
      (case d_spend_id d of
         None \<Rightarrow> acc
       | Some sid \<Rightarrow>
          if sid = [] \<or> d_stage d \<noteq> ''hold'' then acc
          else if d_action_type d = ''release''
          then (let outcome = get_str (d_details d) ''outcome'' ''release_initiated'';
                    l = get_str_opt (d_details d) ''link_spend_request_id''
                in if outcome \<in> {''release_initiated'', ''notify_failed''} \<and> truthy_str l
                   then (AList.update sid
                           \<lparr>pr_action_id = d_action_id d, pr_lsrq = l,
                            pr_operator_id = Some (d_operator d)\<rparr> pend,
                         unidx(the l \<mapsto> sid))
                   else acc)
          else if d_action_type d \<in> {''purchase_approved'', ''purchase_denied'',
                                     ''purchase_expired'', ''cancel'', ''release_failed''}
          then (AList.delete sid pend, unidx)
          else acc))"

fun recover_decisions :: "log_line list \<Rightarrow> recovery \<Rightarrow> recovery" where
  "recover_decisions [] acc = acc"
| "recover_decisions (LBlank # ls) acc = recover_decisions ls acc"
| "recover_decisions (LBad # ls) acc = acc"
| "recover_decisions (LDec d # ls) acc = recover_decisions ls (recover_decision d acc)"

text \<open>The queue log, for identifiers the index does not know.\<close>

definition recover_queue_entry :: "(string \<rightharpoonup> string) \<Rightarrow> queue_entry \<Rightarrow> recovery \<Rightarrow> recovery" where
  "recover_queue_entry idx q acc =
     (case acc of (pend, unidx) \<Rightarrow>
      if truthy_str (q_lsrq q) \<and> idx (the (q_lsrq q)) = None \<and> q_spend_id q \<noteq> []
      then (if map_of pend (q_spend_id q) = None
            then AList.update (q_spend_id q)
                   \<lparr>pr_action_id = q_action_id q, pr_lsrq = q_lsrq q, pr_operator_id = None\<rparr> pend
            else pend,
            unidx(the (q_lsrq q) \<mapsto> q_spend_id q))
      else acc)"

text \<open>Resuming the pending releases, in the order of the dictionary.\<close>

fun resume_polls :: "int \<Rightarrow> pending_release dict \<Rightarrow> spend_state \<Rightarrow> spend_state" where
  "resume_polls now [] st = st"
| "resume_polls now ((sid, pr) # ps) st =
     (if truthy_str (pr_lsrq pr)
      then (case get_request_ref sid now st of
              (Inl _, st1) \<Rightarrow> resume_polls now ps st1
            | (Inr r, st1) \<Rightarrow>
                resume_polls now ps (start_polling r (pr_action_id pr) (pr_operator_id pr) st1))
      else resume_polls now ps st)"

definition recover_and_resume_polling :: "int \<Rightarrow> spend_state \<Rightarrow> spend_state" where
  "recover_and_resume_polling now st =
     (if decisions st = None then st
      else (case fold (recover_queue_entry (lsrq_index st)) (queue_log st)
                   (recover_decisions (log_lines st) ([], Map.empty)) of
              (pend, unidx) \<Rightarrow>
                resume_polls now pend (st\<lparr>lsrq_index := lsrq_index st ++ unidx\<rparr>)))"

text \<open>
  The constructor: empty dictionaries over the files that are there. What dies with the process
  is the store, the two dictionaries, the threads and the shutdown event.
\<close>

definition new_handler :: "int \<Rightarrow> spend_state \<Rightarrow> spend_state" where
  "new_handler now st =
     recover_and_resume_polling now
       (st\<lparr>requests := Map.empty, lsrq_index := Map.empty, polls := [], shutdown := False\<rparr>)"

text \<open>\<open>close()\<close>: the event is set; the threads then end by \<open>finish_poll\<close>.\<close>

definition close_handler :: "spend_state \<Rightarrow> spend_state" where
  "close_handler st = st\<lparr>shutdown := True\<rparr>"

end
