(* ===== verification/Spend_Facts.thy ===== *)
theory Spend_Facts
  imports Spend_Release
begin

text \<open>
  The library of the spend handler: what each operation leaves alone, how the log files grow,
  and the case rules through which the properties of \<^verbatim>\<open>Spend_Safety\<close> and \<^verbatim>\<open>Spend_Recovery\<close>
  see the operations.
\<close>

section \<open>Frames\<close>

lemma log_decision_frame [simp, frame_simps]:
  "heap (log_decision d st) = heap st" "fresh (log_decision d st) = fresh st"
  "requests (log_decision d st) = requests st" "lsrq_index (log_decision d st) = lsrq_index st"
  "spend_log (log_decision d st) = spend_log st" "queue_log (log_decision d st) = queue_log st"
  "cards (log_decision d st) = cards st" "polls (log_decision d st) = polls st"
  "locks (log_decision d st) = locks st" "shutdown (log_decision d st) = shutdown st"
  by (simp_all add: log_decision_def split: option.split)

lemma upd_request_frame [simp, frame_simps]:
  "fresh (upd_request r f st) = fresh st" "requests (upd_request r f st) = requests st"
  "lsrq_index (upd_request r f st) = lsrq_index st" "decisions (upd_request r f st) = decisions st"
  "spend_log (upd_request r f st) = spend_log st" "queue_log (upd_request r f st) = queue_log st"
  "op_log (upd_request r f st) = op_log st" "cards (upd_request r f st) = cards st"
  "polls (upd_request r f st) = polls st" "locks (upd_request r f st) = locks st"
  "heap (upd_request r f st) r' = (if r' = r then f (heap st r) else heap st r')"
  by (simp_all add: upd_request_def)

lemma set_status_frame [simp, frame_simps]:
  "fresh (set_status r s st) = fresh st" "requests (set_status r s st) = requests st"
  "lsrq_index (set_status r s st) = lsrq_index st" "decisions (set_status r s st) = decisions st"
  "spend_log (set_status r s st) = spend_log st" "queue_log (set_status r s st) = queue_log st"
  "op_log (set_status r s st) = op_log st" "cards (set_status r s st) = cards st"
  "polls (set_status r s st) = polls st" "locks (set_status r s st) = locks st"
  "heap (set_status r s st) r' = (if r' = r then (heap st r)\<lparr>status := s\<rparr> else heap st r')"
  by (simp_all add: set_status_def)

lemma set_lsrq_frame [simp, frame_simps]:
  "fresh (set_lsrq r l st) = fresh st" "requests (set_lsrq r l st) = requests st"
  "lsrq_index (set_lsrq r l st) = lsrq_index st" "decisions (set_lsrq r l st) = decisions st"
  "spend_log (set_lsrq r l st) = spend_log st" "queue_log (set_lsrq r l st) = queue_log st"
  "op_log (set_lsrq r l st) = op_log st" "cards (set_lsrq r l st) = cards st"
  "polls (set_lsrq r l st) = polls st" "locks (set_lsrq r l st) = locks st"
  "heap (set_lsrq r l st) r' =
     (if r' = r then (heap st r)\<lparr>link_spend_request_id := l\<rparr> else heap st r')"
  by (simp_all add: set_lsrq_def)

lemma add_card_frame [simp, frame_simps]:
  "heap (add_card cfg a m k st) = heap st" "fresh (add_card cfg a m k st) = fresh st"
  "requests (add_card cfg a m k st) = requests st"
  "lsrq_index (add_card cfg a m k st) = lsrq_index st"
  "decisions (add_card cfg a m k st) = decisions st"
  "spend_log (add_card cfg a m k st) = spend_log st" "op_log (add_card cfg a m k st) = op_log st"
  "polls (add_card cfg a m k st) = polls st" "locks (add_card cfg a m k st) = locks st"
  by (simp_all add: add_card_def)

lemma cards_add_card [simp]:
  "cards (add_card cfg a m k st) = cards st @
     (if warroom_bridge_available cfg
      then [\<lparr>wc_action_id = a, wc_mode = m, wc_action_type = k\<rparr>] else [])"
  by (simp add: add_card_def)

lemma persist_queue_state_frame [simp, frame_simps]:
  "heap (persist_queue_state r s a n st) = heap st"
  "fresh (persist_queue_state r s a n st) = fresh st"
  "requests (persist_queue_state r s a n st) = requests st"
  "lsrq_index (persist_queue_state r s a n st) = lsrq_index st"
  "decisions (persist_queue_state r s a n st) = decisions st"
  "spend_log (persist_queue_state r s a n st) = spend_log st"
  "polls (persist_queue_state r s a n st) = polls st"
  "locks (persist_queue_state r s a n st) = locks st"
  "cards (persist_queue_state r s a n st) = cards st"
  by (simp_all add: persist_queue_state_def)

lemma start_polling_frame [simp, frame_simps]:
  "heap (start_polling r a p st) = heap st" "requests (start_polling r a p st) = requests st"
  "fresh (start_polling r a p st) = fresh st"
  "decisions (start_polling r a p st) = decisions st"
  "spend_log (start_polling r a p st) = spend_log st"
  "locks (start_polling r a p st) = locks st"
  by (simp_all add: start_polling_def)

lemma append_spend_log_frame [simp, frame_simps]:
  "heap (append_spend_log r n st) = heap st" "requests (append_spend_log r n st) = requests st"
  "fresh (append_spend_log r n st) = fresh st"
  "decisions (append_spend_log r n st) = decisions st"
  "polls (append_spend_log r n st) = polls st" "locks (append_spend_log r n st) = locks st"
  by (simp_all add: append_spend_log_def)

text \<open>The lines of the files depend on one field each.\<close>

lemma log_lines_cong: "decisions st = decisions st' \<Longrightarrow> log_lines st = log_lines st'"
  by (simp add: log_lines_def)

lemma spend_lines_cong: "spend_log st = spend_log st' \<Longrightarrow> spend_lines st = spend_lines st'"
  by (simp add: spend_lines_def)

lemma log_lines_frame [simp, frame_simps]:
  "log_lines (upd_request r f st) = log_lines st" "log_lines (set_status r s st) = log_lines st"
  "log_lines (set_lsrq r l st) = log_lines st" "log_lines (add_card cfg a m k st) = log_lines st"
  "log_lines (persist_queue_state r s' a n st) = log_lines st"
  "log_lines (start_polling r a p st) = log_lines st"
  "log_lines (append_spend_log r n st) = log_lines st"
  "log_lines (st\<lparr>requests := rs\<rparr>) = log_lines st" "log_lines (st\<lparr>locks := lk\<rparr>) = log_lines st"
  "log_lines (st\<lparr>lsrq_index := ix\<rparr>) = log_lines st" "log_lines (st\<lparr>polls := ps\<rparr>) = log_lines st"
  "log_lines (st\<lparr>heap := h\<rparr>) = log_lines st" "log_lines (st\<lparr>fresh := f'\<rparr>) = log_lines st"
  "log_lines (st\<lparr>shutdown := b\<rparr>) = log_lines st"
  by (simp_all add: log_lines_def)

lemma spend_lines_frame [simp, frame_simps]:
  "spend_lines (upd_request r f st) = spend_lines st"
  "spend_lines (set_status r s st) = spend_lines st"
  "spend_lines (set_lsrq r l st) = spend_lines st"
  "spend_lines (log_decision d st) = spend_lines st"
  "spend_lines (add_card cfg a m k st) = spend_lines st"
  "spend_lines (persist_queue_state r s' a n st) = spend_lines st"
  "spend_lines (start_polling r a p st) = spend_lines st"
  "spend_lines (st\<lparr>requests := rs\<rparr>) = spend_lines st"
  "spend_lines (st\<lparr>locks := lk\<rparr>) = spend_lines st"
  "spend_lines (st\<lparr>lsrq_index := ix\<rparr>) = spend_lines st"
  "spend_lines (st\<lparr>polls := ps\<rparr>) = spend_lines st"
  "spend_lines (st\<lparr>heap := h\<rparr>) = spend_lines st"
  "spend_lines (st\<lparr>fresh := f'\<rparr>) = spend_lines st"
  "spend_lines (st\<lparr>shutdown := b\<rparr>) = spend_lines st"
  by (simp_all add: spend_lines_def)

lemma log_lines_log_decision [simp]:
  "log_lines (log_decision (mk_decision aid sid stg act now op d) st) =
     (if sid = [] then log_lines st
      else log_lines st @ [LDec (mk_decision aid sid stg act now op d)])"
  by (auto simp: log_decision_def mk_decision_def log_lines_def)

lemma spend_lines_append_spend_log [simp]:
  "spend_lines (append_spend_log r now st) = spend_lines st @
     [SEntry (spend_id (heap st r)) (link_spend_request_id (heap st r)) (Some now)
             (amount_cents (heap st r))]"
  by (simp add: append_spend_log_def spend_lines_def)

lemma mk_decision_sel [simp]:
  "d_action_id (mk_decision aid sid stg act now op d) = aid"
  "d_spend_id (mk_decision aid sid stg act now op d) = Some sid"
  "d_stage (mk_decision aid sid stg act now op d) = stg"
  "d_action_type (mk_decision aid sid stg act now op d) = act"
  "d_details (mk_decision aid sid stg act now op d) = d"
  "d_timestamp (mk_decision aid sid stg act now op d) = now"
  "d_operator (mk_decision aid sid stg act now op d) = op"
  by (simp_all add: mk_decision_def)

lemma validate_justification_None [simp]:
  "validate_justification rq = None \<longleftrightarrow> LINK_CLI_MIN_CONTEXT_LENGTH \<le> length (justification rq)"
  by (simp add: validate_justification_def not_less)

section \<open>Identifiers\<close>

lemma strip_hold [str_simps]:
  "\<not> py_in hold_prefix sid \<Longrightarrow> py_replace hold_prefix [] (hold_prefix @ sid) = sid"
  by (rule py_replace_prefix) (simp_all add: hold_prefix_def)

lemma strip_review [str_simps]:
  "\<not> py_in review_prefix sid \<Longrightarrow> py_replace review_prefix [] (review_prefix @ sid) = sid"
  by (rule py_replace_prefix) (simp_all add: review_prefix_def)

section \<open>Looking a request up\<close>

text \<open>
  A lookup changes neither a log file, nor a lock, nor a thread, nor an object that was there;
  it may allocate one object and enter it under the identifier.
\<close>

lemma get_request_ref_frame:
  assumes "get_request_ref sid now st = (res, st')"
  shows "decisions st' = decisions st" "spend_log st' = spend_log st" "polls st' = polls st"
    "locks st' = locks st" "queue_log st' = queue_log st" "op_log st' = op_log st"
    "cards st' = cards st" "log_lines st' = log_lines st" "spend_lines st' = spend_lines st"
    "shutdown st' = shutdown st"
  using assms
  by (auto simp: get_request_ref_def alloc_def log_lines_def spend_lines_def
      split: option.splits prod.splits)

lemma get_request_ref_hit [simp]:
  "requests st sid = Some r \<Longrightarrow> get_request_ref sid now st = (Inr r, st)"
  by (simp add: get_request_ref_def)

lemma get_request_ref_requests:
  assumes "get_request_ref sid now st = (Inr r, st')"
  shows "requests st' = (requests st)(sid \<mapsto> r)"
  using assms
  by (auto simp: get_request_ref_def alloc_def split: option.splits prod.splits)

lemma get_request_ref_heap:
  assumes "get_request_ref sid now st = (Inr r, st')" and "r' < fresh st"
  shows "heap st' r' = heap st r'"
  using assms
  by (auto simp: get_request_ref_def alloc_def split: option.splits prod.splits)

text \<open>Replaying and rebuilding keep the identifier.\<close>

lemma replay_decision_frame [simp, frame_simps]:
  "spend_id (replay_decision d rq) = spend_id rq"
  "amount_cents (replay_decision d rq) = amount_cents rq"
  "justification (replay_decision d rq) = justification rq"
  "claw (replay_decision d rq) = claw rq"
  "merchant_name (replay_decision d rq) = merchant_name rq"
  "merchant_url (replay_decision d rq) = merchant_url rq"
  "currency (replay_decision d rq) = currency rq"
  "credential_type (replay_decision d rq) = credential_type rq"
  by (simp_all add: replay_decision_def Let_def)

lemma replay_frame [simp, frame_simps]:
  "spend_id (replay sid ls rq) = spend_id rq"
  "amount_cents (replay sid ls rq) = amount_cents rq"
  "justification (replay sid ls rq) = justification rq"
  by (induction sid ls rq rule: replay.induct) auto

lemma scan_queued_spend_id:
  "scan_queued sid now ls idx = (Some rq, idx') \<Longrightarrow> spend_id rq = sid"
  by (induction sid now ls idx rule: scan_queued.induct)
     (auto simp: request_of_review_def request_of_hold_def split: if_splits)

lemma scan_queued_amount:
  "scan_queued sid now ls idx = (Some rq, idx') \<Longrightarrow>
     \<exists>d. LDec d \<in> set ls \<and> amount_cents rq = get_int (d_details d) ''amount_cents'' 0"
  by (induction sid now ls idx rule: scan_queued.induct)
     (force simp: request_of_review_def request_of_hold_def split: if_splits)+

end
