(* ===== verification/Spend_Safety.thy ===== *)
theory Spend_Safety
  imports Spend_Facts
begin

text \<open>
  What the HOLD release guarantees: the daily cap, idempotency, the lock, the command line.
\<close>

section \<open>The daily aggregate\<close>

lemma sum_since_append [simp]: "sum_since c (xs @ ys) = sum_since c xs + sum_since c ys"
  by (induction c xs rule: sum_since.induct) auto

definition nonneg_spends :: "spend_line list \<Rightarrow> bool" where
  "nonneg_spends ls \<longleftrightarrow> (\<forall>i l t a. SEntry i l t a \<in> set ls \<longrightarrow> 0 \<le> a)"

lemma nonneg_spends_simps [simp]:
  "nonneg_spends []" "nonneg_spends (SBlank # ls) = nonneg_spends ls"
  "nonneg_spends (SBad # ls) = nonneg_spends ls"
  "nonneg_spends (SEntry i l t a # ls) = (0 \<le> a \<and> nonneg_spends ls)"
  by (auto simp: nonneg_spends_def)

lemma nonneg_spends_append [simp]:
  "nonneg_spends (xs @ ys) = (nonneg_spends xs \<and> nonneg_spends ys)"
  by (auto simp: nonneg_spends_def)

text \<open>A window that starts later holds less.\<close>

lemma sum_since_nonneg: "nonneg_spends ls \<Longrightarrow> 0 \<le> sum_since c ls"
  by (induction c ls rule: sum_since.induct) auto

lemma sum_since_antimono:
  "nonneg_spends ls \<Longrightarrow> c \<le> c' \<Longrightarrow> sum_since c' ls \<le> sum_since c ls"
  by (induction c ls rule: sum_since.induct) (auto simp: sum_since_nonneg)

section \<open>What a release does to the spend log\<close>

text \<open>The line a release appends: the amount the request has, at the time of the append.\<close>

definition charge_line :: "release_env \<Rightarrow> spend_request \<Rightarrow> string \<Rightarrow> spend_line" where
  "charge_line env rq l = SEntry (spend_id rq) (Some l) (Some (now_spend env)) (amount_cents rq)"

lemma fail_release_frame [simp]:
  "spend_lines (fail_release env aid sid op d r st) = spend_lines st"
  "spend_log (fail_release env aid sid op d r st) = spend_log st"
  "requests (fail_release env aid sid op d r st) = requests st"
  "locks (fail_release env aid sid op d r st) = locks st"
  "polls (fail_release env aid sid op d r st) = polls st"
  "fresh (fail_release env aid sid op d r st) = fresh st"
  "heap (fail_release env aid sid op d r st) r' = heap (set_status r Blocked st) r'"
  by (simp_all add: fail_release_def)

lemma record_session_frame [simp]:
  "spend_lines (record_session sid r out st) = spend_lines st"
  "log_lines (record_session sid r out st) = log_lines st"
  "requests (record_session sid r out st) = requests st"
  "locks (record_session sid r out st) = locks st"
  "polls (record_session sid r out st) = polls st"
  "fresh (record_session sid r out st) = fresh st"
  "spend_id (heap (record_session sid r out st) r') = spend_id (heap st r')"
  "amount_cents (heap (record_session sid r out st) r') = amount_cents (heap st r')"
  "status (heap (record_session sid r out st) r') = status (heap st r')"
  by (simp_all add: record_session_def Let_def split: option.split)

lemma notify_step_spend_lines:
  "notify_step env aid sid op r st = (res, st') \<Longrightarrow> spend_lines st' = spend_lines st"
  by (auto simp: notify_step_def Let_def split: cli_outcome.splits if_splits)

lemma create_step_spend_lines:
  assumes "create_step env aid sid op r st = (res, st')"
  shows "spend_lines st' = spend_lines st \<or>
         (\<exists>l. l \<noteq> [] \<and> spend_lines st' = spend_lines st @ [charge_line env (heap st r) l])"
  using assms
  by (auto simp: create_step_def Let_def charge_line_def truthy_str_def
      split: cli_outcome.splits if_splits option.splits dest!: notify_step_spend_lines)

lemma cap_step_spend_lines:
  assumes "cap_step cfg env aid sid op r st = (res, st')"
  shows "spend_lines st' = spend_lines st \<or>
         (\<exists>l. l \<noteq> [] \<and> spend_lines st' = spend_lines st @ [charge_line env (heap st r) l] \<and>
              daily_spend_aggregate (now_cap env) st + amount_cents (heap st r)
                \<le> daily_spend_cap_cents cfg)"
  using assms create_step_spend_lines
  by (auto simp: cap_step_def Let_def split: if_splits)

lemma daily_spend_aggregate_set_lsrq [simp]:
  "daily_spend_aggregate now (set_lsrq r l st) = daily_spend_aggregate now st"
  by (simp add: daily_spend_aggregate_def)

lemma release_body_spend_lines:
  assumes "release_body cfg env aid sid op r st = (res, st')"
  shows "spend_lines st' = spend_lines st \<or>
         (\<exists>l. l \<noteq> [] \<and> spend_lines st' = spend_lines st @ [charge_line env (heap st r) l] \<and>
              daily_spend_aggregate (now_cap env) st + amount_cents (heap st r)
                \<le> daily_spend_cap_cents cfg)"
  using assms cap_step_spend_lines
  by (fastforce simp: release_body_def Let_def charge_line_def split: option.splits if_splits)

lemma acquire_lock_frame:
  assumes "acquire_lock env sid st = (res, st')"
  shows "spend_lines st' = spend_lines st" "log_lines st' = log_lines st" "heap st' = heap st"
    "requests st' = requests st" "polls st' = polls st" "fresh st' = fresh st"
    "daily_spend_aggregate now st' = daily_spend_aggregate now st"
  using assms
  by (auto simp: acquire_lock_def Let_def daily_spend_aggregate_def
      split: option.splits lock_file.splits if_splits)

lemma release_lock_frame [simp]:
  "spend_lines (release_lock sid st) = spend_lines st"
  "log_lines (release_lock sid st) = log_lines st"
  "heap (release_lock sid st) = heap st" "requests (release_lock sid st) = requests st"
  "polls (release_lock sid st) = polls st" "fresh (release_lock sid st) = fresh st"
  "locks (release_lock sid st) = (locks st)(sid := None)"
  by (simp_all add: release_lock_def)

text \<open>The request a release of \<open>aid\<close> works on.\<close>

definition release_target :: "release_env \<Rightarrow> string \<Rightarrow> spend_state \<Rightarrow> spend_request option" where
  "release_target env aid st =
     (case get_request_ref (py_replace hold_prefix [] aid) (now_start env) st of
        (Inl _, _) \<Rightarrow> None | (Inr r, st1) \<Rightarrow> Some (heap st1 r))"

lemma handle_hold_release_cases:
  assumes "handle_hold_release cfg env aid op st = (res, st')"
  obtains
    (unknown) e st1 where "get_request_ref (py_replace hold_prefix [] aid) (now_start env) st
        = (Inl e, st1)" "res = Inl e" "st' = st1"
  | (invalid) r st1 where "get_request_ref (py_replace hold_prefix [] aid) (now_start env) st
        = (Inr r, st1)" "validate_justification (heap st1 r) \<noteq> None" "res = Inr r"
      "st' = fail_release env aid (py_replace hold_prefix [] aid) (operator_name op)
               [(''outcome'', JStr ''invalid_justification'')] r st1"
  | (locked) r st1 e where "get_request_ref (py_replace hold_prefix [] aid) (now_start env) st
        = (Inr r, st1)" "validate_justification (heap st1 r) = None"
      "acquire_lock env (py_replace hold_prefix [] aid) st1 = (Inl e, st')" "res = Inl e"
  | (body) r st1 st2 st3 where "get_request_ref (py_replace hold_prefix [] aid) (now_start env) st
        = (Inr r, st1)" "validate_justification (heap st1 r) = None"
      "acquire_lock env (py_replace hold_prefix [] aid) st1 = (Inr (), st2)"
      "release_body cfg env aid (py_replace hold_prefix [] aid) op r st2 = (res, st3)"
      "st' = release_lock (py_replace hold_prefix [] aid) st3"
  using assms
  by (auto simp: handle_hold_release_def Let_def split: prod.splits sum.splits if_splits)

lemma handle_hold_release_spend_lines:
  assumes "handle_hold_release cfg env aid op st = (res, st')"
  shows "spend_lines st' = spend_lines st \<or>
         (\<exists>rq l. release_target env aid st = Some rq \<and> l \<noteq> [] \<and>
            spend_lines st' = spend_lines st @ [charge_line env rq l] \<and>
            daily_spend_aggregate (now_cap env) st + amount_cents rq \<le> daily_spend_cap_cents cfg)"
  using assms
proof (cases rule: handle_hold_release_cases)
  case (unknown e st1)
  then show ?thesis by (simp add: get_request_ref_frame)
next
  case (invalid r st1)
  then show ?thesis by (simp add: get_request_ref_frame)
next
  case (locked r st1 e)
  then show ?thesis by (simp add: get_request_ref_frame acquire_lock_frame)
next
  case (body r st1 st2 st3)
  have agg: "daily_spend_aggregate (now_cap env) st2 = daily_spend_aggregate (now_cap env) st"
    using acquire_lock_frame[OF body(3)] get_request_ref_frame[OF body(1)]
    by (simp add: daily_spend_aggregate_def)
  have "release_target env aid st = Some (heap st2 r)"
    using body(1) acquire_lock_frame[OF body(3)] by (simp add: release_target_def)
  then show ?thesis
    using release_body_spend_lines[OF body(4)] body(5) agg acquire_lock_frame[OF body(3)]
      get_request_ref_frame[OF body(1)]
    by auto
qed

section \<open>When a release charges\<close>

text \<open>The session identifier \<^verbatim>\<open>link-cli\<close> hands out, if the create call succeeds.\<close>

definition session_of :: "release_env \<Rightarrow> string option" where
  "session_of env =
     (case cli_create env of
        CliExit rc out err \<Rightarrow>
          if rc = 0 then Option.bind (payload_dict out) (\<lambda>d. get_str_opt d ''id'') else None
      | _ \<Rightarrow> None)"

text \<open>Nothing but the idempotency check stands between the release and the charge.\<close>

definition release_ready :: "spend_config \<Rightarrow> release_env \<Rightarrow> string \<Rightarrow> nat \<Rightarrow> string \<Rightarrow> spend_state \<Rightarrow> bool"
where
  "release_ready cfg env sid r l st \<longleftrightarrow>
     requests st sid = Some r \<and> validate_justification (heap st r) = None \<and> locks st sid = None \<and>
     daily_spend_aggregate (now_cap env) st + amount_cents (heap st r) \<le> daily_spend_cap_cents cfg \<and>
     session_of env = Some l \<and> l \<noteq> []"

definition already_released :: "string \<Rightarrow> log_line list \<Rightarrow> bool" where
  "already_released sid ls =
     (case find_prior_release sid ls None of
        None \<Rightarrow> False
      | Some d \<Rightarrow> get_str (d_details d) ''outcome'' [] = ''release_initiated'' \<and>
                  truthy_str (get_str_opt (d_details d) ''link_spend_request_id''))"

lemma record_session_lsrq:
  assumes "cli_create env = CliExit 0 out err" and "session_of env = Some l"
  shows "link_spend_request_id (heap (record_session sid r out st) r) = Some l"
  using assms
  by (auto simp: session_of_def record_session_def Let_def bind_eq_Some_conv truthy_str_def)

lemma session_ofE:
  assumes "session_of env = Some l"
  obtains out err where "cli_create env = CliExit 0 out err"
  using assms by (auto simp: session_of_def split: cli_outcome.splits if_splits)

lemma create_step_charges:
  assumes "session_of env = Some l" and "l \<noteq> []"
    and "create_step env aid sid op r st = (res, st')"
  shows "spend_lines st' = spend_lines st @ [charge_line env (heap st r) l]"
proof -
  obtain out err where c: "cli_create env = CliExit 0 out err" by (rule session_ofE[OF assms(1)])
  note l = record_session_lsrq[OF c assms(1), of sid r st]
  let ?st1 = "append_spend_log r (now_spend env) (record_session sid r out st)"
  have "notify_step env aid sid op r ?st1 = (res, st')"
    using assms(2,3) by (simp add: create_step_def c l Let_def)
  then have "spend_lines st' = spend_lines ?st1" by (rule notify_step_spend_lines)
  then show ?thesis by (simp add: charge_line_def l)
qed

lemma cap_step_charges:
  assumes "session_of env = Some l" and "l \<noteq> []"
    and "daily_spend_aggregate (now_cap env) st + amount_cents (heap st r) \<le> daily_spend_cap_cents cfg"
    and "cap_step cfg env aid sid op r st = (res, st')"
  shows "spend_lines st' = spend_lines st @ [charge_line env (heap st r) l]"
  using assms(3,4) create_step_charges[OF assms(1,2)] by (simp add: cap_step_def Let_def)

lemma charge_line_set_lsrq [simp]:
  "charge_line env (rq\<lparr>link_spend_request_id := x\<rparr>) l = charge_line env rq l"
  "charge_line env (rq\<lparr>status := s\<rparr>) l = charge_line env rq l"
  by (simp_all add: charge_line_def)

lemma release_body_charges:
  assumes "session_of env = Some l" and "l \<noteq> []"
    and "daily_spend_aggregate (now_cap env) st + amount_cents (heap st r) \<le> daily_spend_cap_cents cfg"
    and "release_body cfg env aid sid op r st = (res, st')"
  shows "spend_lines st' = (if already_released sid (log_lines st) then spend_lines st
           else spend_lines st @ [charge_line env (heap st r) l])"
  using assms(4) cap_step_charges[OF assms(1,2,3)]
    cap_step_charges[OF assms(1,2), of "set_lsrq r x st" r cfg aid sid op res st' for x] assms(3)
  by (auto simp: release_body_def already_released_def Let_def split: option.splits if_splits)

lemma handle_hold_release_charges:
  assumes "release_ready cfg env sid r l st" and "py_replace hold_prefix [] aid = sid"
  shows "spend_lines (snd (handle_hold_release cfg env aid op st)) =
           (if already_released sid (log_lines st) then spend_lines st
            else spend_lines st @ [charge_line env (heap st r) l])"
proof -
  let ?st2 = "st\<lparr>locks := (locks st)(sid \<mapsto> LockPid (Some (my_pid env)))\<rparr>"
  obtain res st3 where b: "release_body cfg env aid sid op r ?st2 = (res, st3)"
    by (cases "release_body cfg env aid sid op r ?st2")
  have "handle_hold_release cfg env aid op st = (res, release_lock sid st3)"
    using assms b by (simp add: handle_hold_release_def release_ready_def acquire_lock_def)
  moreover have "spend_lines st3 = (if already_released sid (log_lines ?st2) then spend_lines ?st2
      else spend_lines ?st2 @ [charge_line env (heap ?st2 r) l])"
    by (rule release_body_charges[OF _ _ _ b])
       (use assms in \<open>simp_all add: release_ready_def daily_spend_aggregate_def\<close>)
  ultimately show ?thesis by simp
qed

section \<open>A second release\<close>

lemma already_released_snoc:
  assumes "d_spend_id d = Some sid" "d_stage d = ''hold''" "d_action_type d = ''release''"
    and "get_str (d_details d) ''outcome'' [] = ''release_initiated''"
    and "truthy_str (get_str_opt (d_details d) ''link_spend_request_id'')"
  shows "already_released sid (ls @ [LDec d])"
proof -
  have "find_prior_release sid (ls @ [LDec d]) acc = Some d" for acc
    using assms(1-3)
    by (induction sid ls acc rule: find_prior_release.induct) (simp_all add: release_actions_def)
  then show ?thesis using assms(4,5) by (simp add: already_released_def)
qed

lemma notify_step_released:
  assumes "notify_step env aid sid op r st = (Inr r', st')" "sid \<noteq> []"
    and "truthy_str (link_spend_request_id (heap st r))" and "status (heap st' r) = Released"
  shows "already_released sid (log_lines st')"
  using assms
  by (auto simp: notify_step_def Let_def get_str_def get_str_opt_def lsrq_json_def truthy_str_def
      intro!: already_released_snoc split: cli_outcome.splits if_splits option.splits)

lemma cap_step_released:
  assumes "cap_step cfg env aid sid op r st = (Inr r', st')" "sid \<noteq> []"
    and "status (heap st' r) = Released"
  shows "already_released sid (log_lines st')"
  using assms
  by (auto simp: cap_step_def create_step_def Let_def intro: notify_step_released
      split: cli_outcome.splits if_splits)

lemma release_body_released:
  assumes b: "release_body cfg env aid sid op r st = (Inr r', st')" and "sid \<noteq> []"
    and "status (heap st' r) = Released"
  shows "already_released sid (log_lines st')"
proof (cases "already_released sid (log_lines st)")
  case True
  then have "log_lines st' = log_lines st"
    using b by (auto simp: release_body_def already_released_def Let_def split: option.splits)
  then show ?thesis using True by simp
next
  case False
  then have "\<exists>st0. cap_step cfg env aid sid op r st0 = (Inr r', st')"
    using b by (auto simp: release_body_def already_released_def Let_def split: option.splits if_splits)
  then show ?thesis using cap_step_released assms(2,3) by blast
qed

text \<open>An already released purchase: nothing but the object's status and the lock is touched.\<close>

lemma release_again:
  assumes "requests st sid = Some r" "validate_justification (heap st r) = None"
    "locks st sid = None" "already_released sid (log_lines st)" "py_replace hold_prefix [] aid = sid"
    "handle_hold_release cfg env aid op st = (res, st')"
  shows "res = Inr r" "status (heap st' r) = Released" "log_lines st' = log_lines st"
    "spend_lines st' = spend_lines st" "polls st' = polls st"
  using assms
  by (auto simp: handle_hold_release_def acquire_lock_def release_body_def already_released_def Let_def
      release_lock_def split: option.splits)

section \<open>The lock\<close>

lemma notify_step_locks: "notify_step env aid sid op r st = (res, st') \<Longrightarrow> locks st' = locks st"
  by (auto simp: notify_step_def Let_def split: cli_outcome.splits if_splits)

lemma release_body_locks:
  "release_body cfg env aid sid op r st = (res, st') \<Longrightarrow> locks st' = locks st"
  by (auto simp: release_body_def cap_step_def create_step_def Let_def dest!: notify_step_locks
      split: option.splits cli_outcome.splits if_splits)

lemma handle_hold_release_locks:
  assumes "handle_hold_release cfg env aid op st = (res, st')"
    and "locks st (py_replace hold_prefix [] aid) = None"
  shows "locks st' = locks st"
  using assms(1)
proof (cases rule: handle_hold_release_cases)
  case (body r st1 st2 st3)
  have "locks st3 = (locks st1)(py_replace hold_prefix [] aid \<mapsto> LockPid (Some (my_pid env)))"
    using release_body_locks[OF body(4)] body(3) assms(2) get_request_ref_frame(4)[OF body(1)]
    by (auto simp: acquire_lock_def Let_def)
  then show ?thesis using body(5) get_request_ref_frame(4)[OF body(1)] assms(2) by auto
next
  case (locked r st1 e)
  then show ?thesis using assms(2) get_request_ref_frame(4)[OF locked(1)]
    by (auto simp: acquire_lock_def Let_def)
qed (simp_all add: get_request_ref_frame)

end
