(* ===== verification/Spend_Runs.thy ===== *)
theory Spend_Runs
  imports Spend_Safety
begin

text \<open>
  Sequences of operations on one handler: the operator's decisions, the claws' requests, the
  ends of polling threads and restarts, in any order. The daily cap holds along every run.
\<close>

datatype spend_event =
    EvSubmit spend_request int
  | EvRequeue nat int
  | EvApprove int string
  | EvEdit int string int string
  | EvBlock int string string
  | EvRelease release_env string "string option"
  | EvCancel int string string
  | EvInvoice int string int
  | EvPollEnd nat "nat \<Rightarrow> bool" "nat \<Rightarrow> cli_outcome" int
  | EvRestart int
  | EvClose

text \<open>A claw submits a request object it has just built (\<open>EvSubmit\<close>) or one it kept (\<open>EvRequeue\<close>).\<close>

fun exec_event :: "spend_config \<Rightarrow> spend_event \<Rightarrow> spend_state \<Rightarrow> spend_state" where
  "exec_event cfg (EvSubmit rq now) st =
     (case alloc rq st of (r, st1) \<Rightarrow> snd (queue_spend_review cfg now r st1))"
| "exec_event cfg (EvRequeue r now) st = snd (queue_spend_review cfg now r st)"
| "exec_event cfg (EvApprove now aid) st = snd (handle_review_approve cfg now aid st)"
| "exec_event cfg (EvEdit now aid amt just) st = snd (handle_review_edit now aid amt just st)"
| "exec_event cfg (EvBlock now aid reason) st = snd (handle_review_block now aid reason st)"
| "exec_event cfg (EvRelease env aid op) st = snd (handle_hold_release cfg env aid op st)"
| "exec_event cfg (EvCancel now aid reason) st = snd (handle_hold_cancel now aid reason st)"
| "exec_event cfg (EvInvoice now iid amt) st = handle_invoice_ready now iid amt st"
| "exec_event cfg (EvPollEnd i stop ans now) st = finish_poll i stop ans now st"
| "exec_event cfg (EvRestart now) st = new_handler now st"
| "exec_event cfg EvClose st = close_handler st"

fun run :: "spend_config \<Rightarrow> spend_event list \<Rightarrow> spend_state \<Rightarrow> spend_state" where
  "run cfg [] st = st"
| "run cfg (e # es) st = run cfg es (exec_event cfg e st)"

lemma run_append: "run cfg (xs @ ys) st = run cfg ys (run cfg xs st)"
  by (induction xs arbitrary: st) auto

section \<open>Only a release touches the spend log\<close>

lemma queue_spend_review_spend_lines [simp]:
  "spend_lines (snd (queue_spend_review cfg now r st)) = spend_lines st"
  by (simp add: queue_spend_review_def Let_def)

lemma queue_spend_hold_frame [simp]:
  "spend_lines (snd (queue_spend_hold cfg now r st)) = spend_lines st"
  "heap (snd (queue_spend_hold cfg now r st)) = heap st"
  "fresh (snd (queue_spend_hold cfg now r st)) = fresh st"
  by (simp_all add: queue_spend_hold_def Let_def)

lemma poll_spend_request_frame [simp]:
  "spend_lines (poll_spend_request stop ans now p st) = spend_lines st"
  "requests (poll_spend_request stop ans now p st) = requests st"
  "fresh (poll_spend_request stop ans now p st) = fresh st"
  by (simp_all add: poll_spend_request_def Let_def split: poll_end.split)

lemma resume_polls_frame [simp]:
  "spend_lines (resume_polls now ps st) = spend_lines st"
  "log_lines (resume_polls now ps st) = log_lines st"
  by (induction now ps st rule: resume_polls.induct)
     (auto simp: get_request_ref_frame split: prod.splits sum.splits)

lemma new_handler_frame [simp]:
  "spend_lines (new_handler now st) = spend_lines st"
  "log_lines (new_handler now st) = log_lines st"
  by (simp_all add: new_handler_def recover_and_resume_polling_def split: prod.split)

lemma exec_event_spend_lines:
  assumes "\<And>env aid op. e \<noteq> EvRelease env aid op"
  shows "spend_lines (exec_event cfg e st) = spend_lines st"
proof (cases e)
  case (EvSubmit rq now)
  then show ?thesis by (simp add: alloc_def)
next
  case (EvApprove now aid)
  then show ?thesis
    by (auto simp: handle_review_approve_def Let_def case_prod_unfold get_request_ref_frame
        split: sum.split prod.splits)
       (metis get_request_ref_frame(9) prod.collapse)+
next
  case (EvEdit now aid amt just)
  then show ?thesis
    by (auto simp: handle_review_edit_def Let_def get_request_ref_frame
        split: sum.splits prod.splits option.splits)
next
  case (EvBlock now aid reason)
  then show ?thesis
    by (auto simp: handle_review_block_def Let_def get_request_ref_frame
        split: sum.splits prod.splits)
next
  case (EvCancel now aid reason)
  then show ?thesis
    by (auto simp: handle_hold_cancel_def Let_def get_request_ref_frame
        split: sum.splits prod.splits)
next
  case (EvRelease env aid op)
  with assms show ?thesis by blast
qed (simp_all add: handle_invoice_ready_def finish_poll_def Let_def close_handler_def)

section \<open>Amounts are never negative\<close>

text \<open>Neither in a request object, nor in a line of the spend log, nor in a logged decision.\<close>

definition nonneg_state :: "spend_state \<Rightarrow> bool" where
  "nonneg_state st \<longleftrightarrow> (\<forall>r. 0 \<le> amount_cents (heap st r)) \<and> nonneg_spends (spend_lines st) \<and>
     (\<forall>d. LDec d \<in> set (log_lines st) \<longrightarrow> 0 \<le> get_int (d_details d) ''amount_cents'' 0)"

fun nonneg_event :: "spend_event \<Rightarrow> bool" where
  "nonneg_event (EvSubmit rq now) = (0 \<le> amount_cents rq)"
| "nonneg_event (EvEdit now aid amt just) = (0 \<le> amt)"
| "nonneg_event (EvInvoice now iid amt) = (0 \<le> amt)"
| "nonneg_event _ = True"

lemma nonneg_log_decision:
  "nonneg_state st \<Longrightarrow> 0 \<le> get_int d ''amount_cents'' 0 \<Longrightarrow>
     nonneg_state (log_decision (mk_decision aid sid stg act now op d) st)"
  by (auto simp: nonneg_state_def)

lemma nonneg_set_status [simp]: "nonneg_state st \<Longrightarrow> nonneg_state (set_status r s st)"
  by (auto simp: nonneg_state_def)

lemma nonneg_state_upd [simp]:
  "nonneg_state (st\<lparr>requests := rs\<rparr>) = nonneg_state st"
  "nonneg_state (st\<lparr>lsrq_index := ix\<rparr>) = nonneg_state st"
  "nonneg_state (st\<lparr>locks := lk\<rparr>) = nonneg_state st"
  "nonneg_state (st\<lparr>polls := ps\<rparr>) = nonneg_state st"
  "nonneg_state (st\<lparr>shutdown := b\<rparr>) = nonneg_state st"
  "nonneg_state (persist_queue_state r s a n st) = nonneg_state st"
  "nonneg_state (add_card cfg a m k st) = nonneg_state st"
  "nonneg_state (start_polling r a p st) = nonneg_state st"
  "nonneg_state (set_lsrq r l st) = nonneg_state st"
  by (auto simp: nonneg_state_def)

lemma get_int_amount_simps [simp]:
  "get_int ((k, v) # d) ''amount_cents'' z =
     (if k = ''amount_cents'' then (case v of JInt i \<Rightarrow> i | _ \<Rightarrow> z) else get_int d ''amount_cents'' z)"
  "get_int [] k' z = z"
  by (auto simp: get_int_def split: json.split)

lemma nonneg_get_request_ref:
  assumes "get_request_ref sid now st = (res, st')" and "nonneg_state st"
  shows "nonneg_state st'"
proof -
  have "0 \<le> amount_cents rq" if "scan_queued sid now (log_lines st) idx = (Some rq, idx')" for rq idx idx'
    using scan_queued_amount[OF that] assms(2) by (auto simp: nonneg_state_def)
  then show ?thesis
    using assms by (auto simp: get_request_ref_def alloc_def nonneg_state_def
        split: option.splits prod.splits)
qed

lemma nonneg_queue_spend_review:
  "nonneg_state st \<Longrightarrow> nonneg_state (snd (queue_spend_review cfg now r st))"
  by (auto simp: queue_spend_review_def Let_def review_details_def intro!: nonneg_log_decision)
     (auto simp: nonneg_state_def)

lemma nonneg_queue_spend_hold:
  "nonneg_state st \<Longrightarrow> nonneg_state (snd (queue_spend_hold cfg now r st))"
  by (auto simp: queue_spend_hold_def Let_def intro!: nonneg_log_decision)
     (auto simp: nonneg_state_def)

lemma nonneg_fail_release:
  "nonneg_state st \<Longrightarrow> 0 \<le> get_int d ''amount_cents'' 0 \<Longrightarrow>
     nonneg_state (fail_release env aid sid op d r st)"
  by (simp add: fail_release_def nonneg_log_decision)

lemma nonneg_notify_step:
  "notify_step env aid sid op r st = (res, st') \<Longrightarrow> nonneg_state st \<Longrightarrow> nonneg_state st'"
  by (auto simp: notify_step_def Let_def intro!: nonneg_log_decision
      split: cli_outcome.splits if_splits)

lemma nonneg_record_session [simp]:
  "nonneg_state st \<Longrightarrow> nonneg_state (record_session sid r out st)"
  by (simp add: record_session_def Let_def split: option.split)

lemma nonneg_append_spend_log [simp]:
  "nonneg_state st \<Longrightarrow> nonneg_state (append_spend_log r n st)"
  by (auto simp: nonneg_state_def)

lemma nonneg_cap_step:
  "cap_step cfg env aid sid op r st = (res, st') \<Longrightarrow> nonneg_state st \<Longrightarrow> nonneg_state st'"
  by (auto simp: cap_step_def create_step_def Let_def nonneg_fail_release
      dest!: nonneg_notify_step split: cli_outcome.splits if_splits)

lemma nonneg_release_body:
  "release_body cfg env aid sid op r st = (res, st') \<Longrightarrow> nonneg_state st \<Longrightarrow> nonneg_state st'"
  by (auto simp: release_body_def Let_def dest!: nonneg_cap_step
      split: option.splits if_splits)

lemma nonneg_handle_hold_release:
  assumes "handle_hold_release cfg env aid op st = (res, st')" and "nonneg_state st"
  shows "nonneg_state st'"
  using assms(1)
proof (cases rule: handle_hold_release_cases)
  case (body r st1 st2 st3)
  have "nonneg_state st1" by (rule nonneg_get_request_ref[OF body(1) assms(2)])
  then have "nonneg_state st2"
    using acquire_lock_frame[OF body(3)] by (simp add: nonneg_state_def)
  then have "nonneg_state st3" by (rule nonneg_release_body[OF body(4)])
  then show ?thesis by (simp add: body(5) release_lock_def)
next
  case (locked r st1 e)
  have "nonneg_state st1" by (rule nonneg_get_request_ref[OF locked(1) assms(2)])
  then show ?thesis using acquire_lock_frame[OF locked(3)] by (simp add: nonneg_state_def)
qed (auto simp: nonneg_fail_release dest: nonneg_get_request_ref[OF _ assms(2)])

lemma nonneg_poll [simp]:
  "nonneg_state st \<Longrightarrow> nonneg_state (poll_spend_request stop ans now p st)"
  by (auto simp: poll_spend_request_def Let_def intro!: nonneg_log_decision split: poll_end.split)

lemma nonneg_resume_polls: "nonneg_state st \<Longrightarrow> nonneg_state (resume_polls now ps st)"
proof (induction ps arbitrary: st)
  case (Cons p ps)
  obtain sid pr where p: "p = (sid, pr)" by (cases p)
  obtain res st1 where g: "get_request_ref sid now st = (res, st1)"
    by (cases "get_request_ref sid now st")
  have "nonneg_state st1" by (rule nonneg_get_request_ref[OF g Cons.prems])
  then show ?case using Cons by (simp add: p g split: sum.split)
qed simp

lemma nonneg_exec_event:
  assumes "nonneg_event e" and "nonneg_state st"
  shows "nonneg_state (exec_event cfg e st)"
proof (cases e)
  case (EvSubmit rq now)
  then have "nonneg_state (snd (alloc rq st))"
    using assms by (auto simp: alloc_def nonneg_state_def)
  then show ?thesis using EvSubmit by (simp add: nonneg_queue_spend_review case_prod_unfold)
next
  case (EvApprove now aid)
  then show ?thesis using assms(2)
    by (auto simp: handle_review_approve_def Let_def case_prod_unfold nonneg_get_request_ref
        intro!: nonneg_log_decision nonneg_queue_spend_hold nonneg_set_status
        split: sum.split) (metis nonneg_get_request_ref prod.collapse)+
next
  case (EvEdit now aid amt just)
  have upd: "nonneg_state s \<Longrightarrow> 0 \<le> amt \<Longrightarrow>
    nonneg_state (upd_request r (\<lambda>rq. rq\<lparr>amount_cents := amt, justification := just\<rparr>) s)" for r s
    by (auto simp: nonneg_state_def)
  show ?thesis using EvEdit assms
    by (auto simp: handle_review_edit_def Let_def upd intro!: nonneg_log_decision
        dest!: nonneg_get_request_ref split: sum.splits prod.splits option.splits)
next
  case (EvBlock now aid reason)
  then show ?thesis using assms(2)
    by (auto simp: handle_review_block_def Let_def intro!: nonneg_log_decision
        dest!: nonneg_get_request_ref split: sum.splits prod.splits)
next
  case (EvCancel now aid reason)
  then show ?thesis using assms(2)
    by (auto simp: handle_hold_cancel_def Let_def intro!: nonneg_log_decision
        dest!: nonneg_get_request_ref split: sum.splits prod.splits)
next
  case (EvRelease env aid op)
  then show ?thesis using assms(2) nonneg_handle_hold_release
    by (metis exec_event.simps(6) prod.collapse)
next
  case (EvRestart now)
  then show ?thesis using assms(2)
    by (simp add: new_handler_def recover_and_resume_polling_def nonneg_resume_polls
        split: prod.split)
qed (use assms in \<open>simp_all add: handle_invoice_ready_def finish_poll_def Let_def
       close_handler_def nonneg_queue_spend_review nonneg_log_decision\<close>)

section \<open>The daily cap along a run\<close>

text \<open>
  \<open>clocked t es\<close>: the clock does not go back, from \<open>t\<close>, at the cap checks of the releases;
  \<open>clock_after\<close> is the last of these times.
\<close>

fun clocked :: "int \<Rightarrow> spend_event list \<Rightarrow> bool" where
  "clocked t [] = True"
| "clocked t (EvRelease env aid op # es) = (t \<le> now_cap env \<and> clocked (now_cap env) es)"
| "clocked t (_ # es) = clocked t es"

fun clock_after :: "int \<Rightarrow> spend_event list \<Rightarrow> int" where
  "clock_after t [] = t"
| "clock_after t (EvRelease env aid op # es) = clock_after (now_cap env) es"
| "clock_after t (_ # es) = clock_after t es"

definition spends_within :: "int \<Rightarrow> int \<Rightarrow> spend_state \<Rightarrow> bool" where
  "spends_within cap t st \<longleftrightarrow> (\<forall>t'\<ge>t. daily_spend_aggregate t' st \<le> cap)"

lemma spends_withinD: "spends_within cap t st \<Longrightarrow> t \<le> t' \<Longrightarrow> daily_spend_aggregate t' st \<le> cap"
  by (simp add: spends_within_def)

lemma release_target_nonneg:
  "nonneg_state st \<Longrightarrow> release_target env aid st = Some rq \<Longrightarrow> 0 \<le> amount_cents rq"
  using nonneg_get_request_ref
  by (fastforce simp: release_target_def nonneg_state_def split: prod.splits sum.splits)

lemma release_spends_within:
  assumes "handle_hold_release cfg env aid op st = (res, st')"
    and "nonneg_state st" and "spends_within (daily_spend_cap_cents cfg) t st"
    and "t \<le> now_cap env"
  shows "spends_within (daily_spend_cap_cents cfg) (now_cap env) st'"
  using handle_hold_release_spend_lines[OF assms(1)]
proof
  assume "spend_lines st' = spend_lines st"
  then show ?thesis using assms(3,4) by (auto simp: spends_within_def daily_spend_aggregate_def)
next
  assume "\<exists>rq l. release_target env aid st = Some rq \<and> l \<noteq> [] \<and>
      spend_lines st' = spend_lines st @ [charge_line env rq l] \<and>
      daily_spend_aggregate (now_cap env) st + amount_cents rq \<le> daily_spend_cap_cents cfg"
  then obtain rq l where tgt: "release_target env aid st = Some rq"
    and app: "spend_lines st' = spend_lines st @ [charge_line env rq l]"
    and cap: "daily_spend_aggregate (now_cap env) st + amount_cents rq \<le> daily_spend_cap_cents cfg"
    by blast
  have pos: "0 \<le> amount_cents rq" by (rule release_target_nonneg[OF assms(2) tgt])
  have nn: "nonneg_spends (spend_lines st)" using assms(2) by (simp add: nonneg_state_def)
  have "daily_spend_aggregate t' st' \<le> daily_spend_cap_cents cfg" if "now_cap env \<le> t'" for t'
    using sum_since_antimono[OF nn, of "now_cap env - day_us" "t' - day_us"] that cap pos
    by (simp add: daily_spend_aggregate_def app charge_line_def)
  then show ?thesis by (simp add: spends_within_def)
qed

lemma run_spends_within:
  assumes "nonneg_state st" "\<forall>e\<in>set es. nonneg_event e"
    and "spends_within (daily_spend_cap_cents cfg) t st" and "clocked t es"
  shows "spends_within (daily_spend_cap_cents cfg) (clock_after t es) (run cfg es st)"
  using assms
proof (induction es arbitrary: st t)
  case Nil
  then show ?case by simp
next
  case (Cons e es)
  have nn: "nonneg_state (exec_event cfg e st)"
    using Cons.prems(1,2) by (simp add: nonneg_exec_event)
  show ?case
  proof (cases "\<exists>env aid op. e = EvRelease env aid op")
    case True
    then obtain env aid op where e: "e = EvRelease env aid op" by blast
    obtain res st' where h: "handle_hold_release cfg env aid op st = (res, st')"
      by (cases "handle_hold_release cfg env aid op st")
    have "spends_within (daily_spend_cap_cents cfg) (now_cap env) st'"
      using release_spends_within[OF h Cons.prems(1,3)] Cons.prems(4) e by simp
    then show ?thesis using Cons.IH[of st' "now_cap env"] Cons.prems nn e h by simp
  next
    case False
    then have "spend_lines (exec_event cfg e st) = spend_lines st"
      by (intro exec_event_spend_lines) auto
    then have "spends_within (daily_spend_cap_cents cfg) t (exec_event cfg e st)"
      using Cons.prems(3) by (simp add: spends_within_def daily_spend_aggregate_def)
    moreover have "clocked t es" "clock_after t (e # es) = clock_after t es"
      using False Cons.prems(4) by (cases e; auto)+
    ultimately show ?thesis using Cons.IH[of "exec_event cfg e st" t] Cons.prems(2) nn by simp
  qed
qed

section \<open>The decisions log only grows\<close>

definition log_ext :: "spend_state \<Rightarrow> spend_state \<Rightarrow> bool" where
  "log_ext st st' \<longleftrightarrow> prefix (log_lines st) (log_lines st')"

lemma log_ext_refl [simp]: "log_ext st st"
  by (simp add: log_ext_def)

lemma log_ext_trans [trans]: "log_ext a b \<Longrightarrow> log_ext b c \<Longrightarrow> log_ext a c"
  using prefix_order.trans by (auto simp: log_ext_def)

lemma log_ext_same: "log_lines st' = log_lines st \<Longrightarrow> log_ext st st'"
  by (simp add: log_ext_def)

lemma log_ext_log_decision [simp]: "log_ext st (log_decision (mk_decision a s g t n o' d) st)"
  by (simp add: log_ext_def)

lemma log_ext_log_decision_trans:
  "log_ext st st' \<Longrightarrow> log_ext st (log_decision (mk_decision a s g t n o' d) st')"
  by (erule log_ext_trans) (rule log_ext_log_decision)

lemma log_ext_frame [simp]:
  "log_ext st (set_status r s st') = log_ext st st'"
  "log_ext st (add_card cfg a m k st') = log_ext st st'"
  "log_ext st (persist_queue_state r s' a n st') = log_ext st st'"
  "log_ext st (start_polling r a p st') = log_ext st st'"
  "log_ext st (append_spend_log r n st') = log_ext st st'"
  "log_ext st (record_session s'' r out st') = log_ext st st'"
  "log_ext st (upd_request r f st') = log_ext st st'"
  "log_ext st (st'\<lparr>requests := rs\<rparr>) = log_ext st st'"
  "log_ext st (st'\<lparr>polls := ps\<rparr>) = log_ext st st'"
  "log_ext st (st'\<lparr>shutdown := b\<rparr>) = log_ext st st'"
  "log_ext st (release_lock s'' st') = log_ext st st'"
  by (simp_all add: log_ext_def)

lemma log_ext_get_request:
  "get_request_ref sid now st = (res, st') \<Longrightarrow> log_ext st st'"
  by (rule log_ext_same) (rule get_request_ref_frame)

lemma log_ext_fail_release: "log_ext st st' \<Longrightarrow> log_ext st (fail_release env aid sid op d r st')"
  unfolding fail_release_def by (rule log_ext_log_decision_trans) simp

lemma log_ext_notify_step:
  "notify_step env aid sid op r st = (res, st') \<Longrightarrow> log_ext st0 st \<Longrightarrow> log_ext st0 st'"
  by (auto simp: notify_step_def Let_def intro!: log_ext_log_decision_trans
      split: cli_outcome.splits if_splits)

lemma log_ext_cap_step:
  "cap_step cfg env aid sid op r st = (res, st') \<Longrightarrow> log_ext st0 st \<Longrightarrow> log_ext st0 st'"
  by (auto simp: cap_step_def create_step_def Let_def intro: log_ext_fail_release log_ext_notify_step
      split: cli_outcome.splits if_splits)

lemma log_ext_release_body:
  assumes "release_body cfg env aid sid op r st = (res, st')"
  shows "log_ext st st'"
proof -
  have "log_ext st (set_lsrq r l st)" for l by (simp add: log_ext_def)
  then show ?thesis using assms
    by (auto simp: release_body_def Let_def log_ext_def[of st "set_lsrq _ _ _"]
        intro: log_ext_cap_step split: option.splits if_splits)
qed

lemma log_ext_release:
  assumes "handle_hold_release cfg env aid op st = (res, st')"
  shows "log_ext st st'"
  using assms
proof (cases rule: handle_hold_release_cases)
  case (body r st1 st2 st3)
  have "log_ext st st2"
    using log_ext_get_request[OF body(1)] acquire_lock_frame(2)[OF body(3)] by (simp add: log_ext_def)
  then show ?thesis using log_ext_release_body[OF body(4)] log_ext_trans by (simp add: body(5))
next
  case (locked r st1 e)
  then show ?thesis
    using log_ext_get_request[OF locked(1)] acquire_lock_frame(2)[OF locked(3)] by (simp add: log_ext_def)
qed (simp_all add: log_ext_get_request log_ext_fail_release)

lemma log_ext_exec_event: "log_ext st (exec_event cfg e st)"
proof (cases e)
  case (EvSubmit rq now)
  then show ?thesis
    by (simp add: alloc_def queue_spend_review_def Let_def)
       (auto simp: log_ext_def)
next
  case (EvRequeue r now)
  then show ?thesis
    by (simp add: queue_spend_review_def Let_def) (auto simp: log_ext_def)
next
  case (EvApprove now aid)
  then show ?thesis
    by (auto simp: handle_review_approve_def queue_spend_hold_def Let_def log_ext_get_request
        intro!: log_ext_log_decision_trans split: prod.splits sum.splits)
next
  case (EvEdit now aid amt just)
  then show ?thesis
    by (auto simp: handle_review_edit_def Let_def log_ext_get_request
        intro!: log_ext_log_decision_trans split: prod.splits sum.splits option.splits)
next
  case (EvBlock now aid reason)
  then show ?thesis
    by (auto simp: handle_review_block_def Let_def log_ext_get_request
        intro!: log_ext_log_decision_trans split: prod.splits sum.splits)
next
  case (EvCancel now aid reason)
  then show ?thesis
    by (auto simp: handle_hold_cancel_def Let_def log_ext_get_request
        intro!: log_ext_log_decision_trans split: prod.splits sum.splits)
next
  case (EvRelease env aid op)
  then show ?thesis using log_ext_release by (metis exec_event.simps(6) prod.collapse)
next
  case (EvPollEnd i stop ans now)
  then show ?thesis
    by (auto simp: finish_poll_def poll_spend_request_def Let_def intro!: log_ext_log_decision_trans
        split: poll_end.splits)
qed (simp_all add: handle_invoice_ready_def close_handler_def log_ext_same)

lemma log_ext_run: "log_ext st (run cfg es st)"
proof (induction es arbitrary: st)
  case (Cons e es)
  show ?case using log_ext_trans[OF log_ext_exec_event Cons.IH] by simp
qed simp

section \<open>The polling loop\<close>

definition undecided :: "cli_outcome \<Rightarrow> bool" where
  "undecided a = (case a of CliExit rc out err \<Rightarrow> rc \<noteq> 0 \<or> poll_verdict out = None | _ \<Rightarrow> False)"

definition approves :: "cli_outcome \<Rightarrow> bool" where
  "approves a = (case a of CliExit rc out err \<Rightarrow> rc = 0 \<and> poll_verdict out = Some ''purchase_approved''
     | _ \<Rightarrow> False)"

text \<open>Attempts that decide nothing are skipped.\<close>

lemma poll_loop_skip:
  "\<forall>i. k \<le> i \<and> i < k + m \<longrightarrow> \<not> stop i \<and> undecided (ans (Suc i)) \<Longrightarrow>
     poll_loop (m + n) stop ans k = poll_loop n stop ans (k + m)"
proof (induction m arbitrary: k)
  case (Suc m)
  have "\<not> stop k \<and> undecided (ans (Suc k))" using Suc.prems by simp
  then have "poll_loop (Suc m + n) stop ans k = poll_loop (m + n) stop ans (Suc k)"
    by (auto simp: undecided_def split: cli_outcome.splits)
  also have "\<dots> = poll_loop n stop ans (Suc k + m)"
    by (rule Suc.IH) (use Suc.prems in simp)
  finally show ?case by simp
qed simp

lemma poll_loop_approved:
  "poll_loop n stop ans k0 = PollDecided ''purchase_approved'' k \<longleftrightarrow>
     k0 < k \<and> k \<le> k0 + n \<and> (\<forall>i. k0 \<le> i \<and> i < k \<longrightarrow> \<not> stop i) \<and>
     (\<forall>i. k0 < i \<and> i < k \<longrightarrow> undecided (ans i)) \<and> approves (ans k)" (is "?l n k0 \<longleftrightarrow> ?r n k0")
proof
  show "?l n k0 \<Longrightarrow> ?r n k0"
  proof (induction n arbitrary: k0)
    case (Suc n)
    have ns: "\<not> stop k0" using Suc.prems by auto
    show ?case
    proof (cases "undecided (ans (Suc k0))")
      case True
      then have "poll_loop n stop ans (Suc k0) = PollDecided ''purchase_approved'' k"
        using Suc.prems ns by (auto simp: undecided_def split: cli_outcome.splits if_splits)
      then have r: "?r n (Suc k0)" by (rule Suc.IH)
      have "i = k0 \<or> Suc k0 \<le> i" "i = Suc k0 \<or> Suc k0 < i" if "k0 \<le> i" "k0 < i" for i
        using that by auto
      then show ?thesis using r ns True by (metis Suc_leI Suc_lessD add_Suc_right add_Suc
            le_neq_implies_less)
    next
      case False
      then have "k = Suc k0 \<and> approves (ans (Suc k0))"
        using Suc.prems ns by (auto simp: undecided_def approves_def split: cli_outcome.splits if_splits)
      then show ?thesis using ns by (auto simp: less_Suc_eq)
    qed
  qed simp
  assume r: "?r n k0"
  then obtain m where m: "k = Suc (k0 + m)" by (metis less_iff_Suc_add)
  obtain n' where n': "n = m + Suc n'" using r m by (metis add_Suc_right add_le_cancel_left
      le_iff_add add_Suc group_cancel.add1)
  have "poll_loop n stop ans k0 = poll_loop (Suc n') stop ans (k0 + m)"
    unfolding n' by (rule poll_loop_skip) (use r m in auto)
  then show "?l n k0" using r m by (auto simp: approves_def split: cli_outcome.splits)
qed

end
