(* ===== verification/Warroom.thy ===== *)
theory Warroom
  imports Prelude
begin

text \<open>
  \<^verbatim>\<open>milimo-blueprint/orchestrator/solo_warroom.py\<close>: the single-operator queue of actions. An
  action object is in one place at a time, so objects are values here: the queue holds the pending
  ones, a decision takes the object out, marks it and appends it to the processed list. The
  identifier of a new action and the time are arguments; the module prints and logs nothing the
  rest of the program reads. \<open>export_log\<close> and the printed briefs render the same lists.
\<close>

section \<open>Data\<close>

datatype action_priority = PHold | PReview | PAuto

fun priority_value :: "action_priority \<Rightarrow> nat" where
  "priority_value PHold = 1"
| "priority_value PReview = 2"
| "priority_value PAuto = 3"

lemma priority_value_inj: "priority_value p = priority_value q \<Longrightarrow> p = q"
  by (cases p; cases q) simp_all

instantiation action_priority :: linorder
begin

definition less_eq_action_priority :: "action_priority \<Rightarrow> action_priority \<Rightarrow> bool" where
  "less_eq_action_priority p q = (priority_value p \<le> priority_value q)"

definition less_action_priority :: "action_priority \<Rightarrow> action_priority \<Rightarrow> bool" where
  "less_action_priority p q = (priority_value p < priority_value q)"

instance
  by standard (auto simp: less_eq_action_priority_def less_action_priority_def priority_value_inj)

end

datatype action_status = APending | AApproved | ABlocked | AAutoExecuted

record war_action =
  a_id :: string
  a_claw :: string
  a_type :: string
  a_priority :: action_priority
  a_status :: action_status
  a_payload :: "json dict"
  a_created :: int
  a_decided :: "int option"
  a_decision :: "string option"

record action_event =
  e_claw :: string
  e_type :: string
  e_priority :: action_priority
  e_payload :: "json dict"

record warroom =
  w_operator :: string
  w_modes :: "string \<rightharpoonup> (string \<rightharpoonup> string)"
  w_queue :: "war_action list"
  w_processed :: "war_action list"
  w_auto :: "war_action list"
  w_events :: "string \<rightharpoonup> action_event"

definition new_warroom :: "string option \<Rightarrow> (string \<rightharpoonup> (string \<rightharpoonup> string)) option \<Rightarrow> warroom" where
  "new_warroom op modes =
     \<lparr>w_operator = (case op of Some x \<Rightarrow> x | None \<Rightarrow> ''operator''),
      w_modes = (case modes of Some m \<Rightarrow> m | None \<Rightarrow> Map.empty),
      w_queue = [], w_processed = [], w_auto = [], w_events = Map.empty\<rparr>"

section \<open>Operations\<close>

definition get_action_priority :: "warroom \<Rightarrow> string \<Rightarrow> string \<Rightarrow> action_priority" where
  "get_action_priority w c t =
     (let claw_modes = (case w_modes w c of Some m \<Rightarrow> m | None \<Rightarrow> Map.empty);
          mode = (case claw_modes t of Some m \<Rightarrow> m | None \<Rightarrow> ''REVIEW'')
      in if mode = ''HOLD'' then PHold else if mode = ''REVIEW'' then PReview
         else if mode = ''AUTO'' then PAuto else PReview)"

text \<open>\<open>list.sort(key=...)\<close> is stable, and so is \<^const>\<open>sort_key\<close>.\<close>

definition sort_queue :: "war_action list \<Rightarrow> war_action list" where
  "sort_queue q = sort_key a_priority q"

definition find_action :: "string \<Rightarrow> war_action list \<Rightarrow> war_action option" where
  "find_action i q = find (\<lambda>a. a_id a = i) q"

definition decided :: "action_status \<Rightarrow> int \<Rightarrow> string \<Rightarrow> war_action \<Rightarrow> war_action" where
  "decided s now d a = a\<lparr>a_status := s, a_decided := Some now, a_decision := Some d\<rparr>"

fun remove_action :: "string \<Rightarrow> war_action list \<Rightarrow> war_action list" where
  "remove_action i [] = []"
| "remove_action i (a # q) = (if a_id a = i then q else a # remove_action i q)"

definition approve_action :: "int \<Rightarrow> string \<Rightarrow> warroom \<Rightarrow> war_action option \<times> warroom" where
  "approve_action now i w =
     (case find_action i (w_queue w) of
        None \<Rightarrow> (None, w)
      | Some a \<Rightarrow>
          (let a' = decided AApproved now ''approved'' a
           in (Some a', w\<lparr>w_queue := remove_action i (w_queue w), w_processed := w_processed w @ [a']\<rparr>)))"

definition block_action :: "int \<Rightarrow> string \<Rightarrow> string \<Rightarrow> warroom \<Rightarrow> war_action option \<times> warroom" where
  "block_action now i reason w =
     (case find_action i (w_queue w) of
        None \<Rightarrow> (None, w)
      | Some a \<Rightarrow>
          (let a' = decided ABlocked now (if reason \<noteq> [] then ''blocked: '' @ reason else ''blocked'') a
           in (Some a', w\<lparr>w_queue := remove_action i (w_queue w), w_processed := w_processed w @ [a']\<rparr>)))"

definition auto_execute :: "int \<Rightarrow> string \<Rightarrow> warroom \<Rightarrow> war_action option \<times> warroom" where
  "auto_execute now i w =
     (case find_action i (w_queue w) of
        None \<Rightarrow> (None, w)
      | Some a \<Rightarrow>
          (let a' = decided AAutoExecuted now ''auto_executed'' a
           in (Some a', w\<lparr>w_queue := remove_action i (w_queue w), w_auto := w_auto w @ [a'],
                          w_processed := w_processed w @ [a']\<rparr>)))"

definition emit_action_event :: "war_action \<Rightarrow> warroom \<Rightarrow> warroom" where
  "emit_action_event a w = w\<lparr>w_events := (w_events w)(a_id a \<mapsto>
     \<lparr>e_claw = a_claw a, e_type = a_type a, e_priority = a_priority a, e_payload = a_payload a\<rparr>)\<rparr>"

definition queue_action :: "int \<Rightarrow> string \<Rightarrow> string \<Rightarrow> string \<Rightarrow> json dict \<Rightarrow> warroom \<Rightarrow> war_action \<times> warroom"
where
  "queue_action now i c t p w =
     (let prio = get_action_priority w c t;
          a = \<lparr>a_id = i, a_claw = c, a_type = t, a_priority = prio, a_status = APending,
               a_payload = p, a_created = now, a_decided = None, a_decision = None\<rparr>;
          w1 = emit_action_event a (w\<lparr>w_queue := sort_queue (w_queue w @ [a])\<rparr>)
      in if prio = PAuto
         then (case auto_execute now i w1 of (Some a', w2) \<Rightarrow> (a', w2) | (None, w2) \<Rightarrow> (a, w2))
         else (a, w1))"

definition get_pending :: "action_priority option \<Rightarrow> warroom \<Rightarrow> war_action list" where
  "get_pending flt w =
     (let pending = filter (\<lambda>a. a_status a = APending) (w_queue w)
      in case flt of None \<Rightarrow> pending | Some p \<Rightarrow> filter (\<lambda>a. a_priority a = p) pending)"

record warroom_stats =
  total_pending :: nat
  hold_count :: nat
  review_count :: nat
  auto_count :: nat
  processed_today :: nat
  auto_executed_today :: nat

definition get_stats :: "warroom \<Rightarrow> warroom_stats" where
  "get_stats w =
     (let pending = get_pending None w in
      \<lparr>total_pending = length pending,
       hold_count = length (filter (\<lambda>a. a_priority a = PHold) pending),
       review_count = length (filter (\<lambda>a. a_priority a = PReview) pending),
       auto_count = length (filter (\<lambda>a. a_priority a = PAuto) pending),
       processed_today = length (w_processed w),
       auto_executed_today = length (w_auto w)\<rparr>)"

text \<open>
  \<open>handle_approve\<close> runs the callback once the action is approved. The callback is a function on
  the state \<open>'s\<close> it works on, with the war room inside it, read by \<open>get\<close> and written by \<open>put\<close>;
  an exception of the callback is logged, and what it did before stays.
\<close>

definition handle_approve :: "('s \<Rightarrow> warroom) \<Rightarrow> (warroom \<Rightarrow> 's \<Rightarrow> 's) \<Rightarrow> int \<Rightarrow> string
    \<Rightarrow> ('s \<Rightarrow> 's) \<Rightarrow> 's \<Rightarrow> war_action option \<times> 's" where
  "handle_approve get put now i run s =
     (case approve_action now i (get s) of
        (None, w) \<Rightarrow> (None, put w s)
      | (Some a, w) \<Rightarrow> (Some a, run (put w s)))"

text \<open>The rows of the pending queue and of the log of automatic executions.\<close>

record action_row =
  r_id :: string
  r_mode :: action_priority
  r_claw :: string
  r_type :: string
  r_summary :: string
  r_at :: "int option"

definition get_pending_queue :: "warroom \<Rightarrow> action_row list" where
  "get_pending_queue w =
     map (\<lambda>a. \<lparr>r_id = a_id a, r_mode = a_priority a, r_claw = a_claw a, r_type = a_type a,
               r_summary = get_str (a_payload a) ''summary'' [], r_at = Some (a_created a)\<rparr>)
       (get_pending None w)"

definition get_auto_log :: "warroom \<Rightarrow> action_row list" where
  "get_auto_log w =
     map (\<lambda>a. \<lparr>r_id = a_id a, r_mode = a_priority a, r_claw = a_claw a, r_type = a_type a,
               r_summary = get_str (a_payload a) ''summary'' [], r_at = a_decided a\<rparr>) (w_auto w)"

text \<open>The module-level \<open>queue_action\<close>: its \<open>mode\<close> argument is not used.\<close>

definition module_queue_action :: "int \<Rightarrow> string \<Rightarrow> warroom \<Rightarrow> string \<Rightarrow> string \<Rightarrow> string \<Rightarrow> string
    \<Rightarrow> string \<Rightarrow> json \<Rightarrow> string \<times> warroom" where
  "module_queue_action now i w c mode t entity summary ctx =
     (case queue_action now i c t
         [(''entity_id'', JStr entity), (''summary'', JStr summary), (''context'', ctx)] w of
        (a, w') \<Rightarrow> (a_id a, w'))"

end
