(* ===== verification/Decision_Queue.thy ===== *)
theory Decision_Queue
  imports Warroom
begin

text \<open>
  The contract between the War Room queue and the code that puts decisions into it, as a locale:
  an entry waits, is settled once, by an approval or a refusal, and never comes back. The solo War
  Room provides it.
\<close>

section \<open>The contract\<close>

datatype 'e queue_op = Enter string 'e | Approve string | Refuse string string

fun entered :: "'e queue_op list \<Rightarrow> string list" where
  "entered [] = []"
| "entered (Enter i e # ops) = i # entered ops"
| "entered (_ # ops) = entered ops"

fun run_ops :: "(string \<Rightarrow> 'e \<Rightarrow> 'q \<Rightarrow> 'q) \<Rightarrow> (string \<Rightarrow> 'q \<Rightarrow> 'a option \<times> 'q)
    \<Rightarrow> (string \<Rightarrow> string \<Rightarrow> 'q \<Rightarrow> 'a option \<times> 'q) \<Rightarrow> 'e queue_op list \<Rightarrow> 'q \<Rightarrow> 'q" where
  "run_ops ent app ref [] q = q"
| "run_ops ent app ref (Enter i e # ops) q = run_ops ent app ref ops (ent i e q)"
| "run_ops ent app ref (Approve i # ops) q = run_ops ent app ref ops (snd (app i q))"
| "run_ops ent app ref (Refuse i why # ops) q = run_ops ent app ref ops (snd (ref i why q))"

locale decision_queue =
  fixes ok :: "'q \<Rightarrow> bool"
    and waiting :: "'q \<Rightarrow> string set"
    and settled :: "'q \<Rightarrow> string set"
    and approvals :: "'q \<Rightarrow> nat"
    and ent :: "string \<Rightarrow> 'e \<Rightarrow> 'q \<Rightarrow> 'q"
    and app :: "string \<Rightarrow> 'q \<Rightarrow> 'a option \<times> 'q"
    and ref :: "string \<Rightarrow> string \<Rightarrow> 'q \<Rightarrow> 'a option \<times> 'q"
  assumes disjoint: "ok q \<Longrightarrow> waiting q \<inter> settled q = {}"
    and ent_law: "\<lbrakk>ok q; i \<notin> waiting q; i \<notin> settled q\<rbrakk> \<Longrightarrow>
      ok (ent i e q) \<and> waiting (ent i e q) \<union> settled (ent i e q) = insert i (waiting q \<union> settled q) \<and>
      settled q \<subseteq> settled (ent i e q) \<and> approvals (ent i e q) = approvals q"
    and app_waiting: "\<lbrakk>ok q; i \<in> waiting q\<rbrakk> \<Longrightarrow> \<exists>a q'. app i q = (Some a, q') \<and> ok q' \<and>
      waiting q' = waiting q - {i} \<and> settled q' = insert i (settled q) \<and> approvals q' = Suc (approvals q)"
    and app_absent: "i \<notin> waiting q \<Longrightarrow> app i q = (None, q)"
    and ref_waiting: "\<lbrakk>ok q; i \<in> waiting q\<rbrakk> \<Longrightarrow> \<exists>a q'. ref i why q = (Some a, q') \<and> ok q' \<and>
      waiting q' = waiting q - {i} \<and> settled q' = insert i (settled q) \<and> approvals q' = approvals q"
    and ref_absent: "i \<notin> waiting q \<Longrightarrow> ref i why q = (None, q)"
begin

lemma app_ok: "ok q \<Longrightarrow> ok (snd (app i q))"
  using app_waiting[of q i] app_absent[of i q] by (cases "i \<in> waiting q") auto

lemma ref_ok: "ok q \<Longrightarrow> ok (snd (ref i why q))"
  using ref_waiting[of q i why] ref_absent[of i q why] by (cases "i \<in> waiting q") auto

lemma app_known:
  "ok q \<Longrightarrow> waiting (snd (app i q)) \<union> settled (snd (app i q)) = waiting q \<union> settled q"
  using app_waiting[of q i] app_absent[of i q] by (cases "i \<in> waiting q") auto

lemma ref_known:
  "ok q \<Longrightarrow> waiting (snd (ref i why q)) \<union> settled (snd (ref i why q)) = waiting q \<union> settled q"
  using ref_waiting[of q i why] ref_absent[of i q why] by (cases "i \<in> waiting q") auto

lemma app_settled: "ok q \<Longrightarrow> settled q \<subseteq> settled (snd (app i q))"
  using app_waiting[of q i] app_absent[of i q] by (cases "i \<in> waiting q") auto

lemma ref_settled: "ok q \<Longrightarrow> settled q \<subseteq> settled (snd (ref i why q))"
  using ref_waiting[of q i why] ref_absent[of i q why] by (cases "i \<in> waiting q") auto

lemma app_counts:
  "ok q \<Longrightarrow> approvals (snd (app i q)) = approvals q + (if i \<in> waiting q then 1 else 0)"
  using app_waiting[of q i] app_absent[of i q] by (cases "i \<in> waiting q") auto

lemma ref_counts: "ok q \<Longrightarrow> approvals (snd (ref i why q)) = approvals q"
  using ref_waiting[of q i why] ref_absent[of i q why] by (cases "i \<in> waiting q") auto

text \<open>Entries with fresh identifiers keep the queue in order, and what is settled stays settled.\<close>

lemma run_ok:
  assumes "ok q" and "distinct (entered ops)" and "set (entered ops) \<inter> (waiting q \<union> settled q) = {}"
  shows "ok (run_ops ent app ref ops q) \<and> settled q \<subseteq> settled (run_ops ent app ref ops q) \<and>
    waiting (run_ops ent app ref ops q) \<union> settled (run_ops ent app ref ops q) =
      waiting q \<union> settled q \<union> set (entered ops)"
  using assms
proof (induction ops arbitrary: q)
  case (Cons op ops)
  show ?case
  proof (cases op)
    case (Enter i e)
    have law: "ok (ent i e q) \<and> waiting (ent i e q) \<union> settled (ent i e q) = insert i (waiting q \<union> settled q) \<and>
        settled q \<subseteq> settled (ent i e q)"
      using ent_law[of q i e] Cons.prems Enter by auto
    note IH = Cons.IH[of "ent i e q"]
    have "ok (run_ops ent app ref ops (ent i e q)) \<and>
        settled (ent i e q) \<subseteq> settled (run_ops ent app ref ops (ent i e q)) \<and>
        waiting (run_ops ent app ref ops (ent i e q)) \<union> settled (run_ops ent app ref ops (ent i e q)) =
          insert i (waiting q \<union> settled q) \<union> set (entered ops)"
      using IH law Cons.prems Enter by auto
    then show ?thesis using law Enter by auto
  next
    case (Approve i)
    show ?thesis
      using Cons.IH[of "snd (app i q)"] app_ok[of q i] app_known[of q i] app_settled[of q i] Cons.prems
        Approve by auto
  next
    case (Refuse i why)
    show ?thesis
      using Cons.IH[of "snd (ref i why q)"] ref_ok[of q i why] ref_known[of q i why]
        ref_settled[of q i why] Cons.prems Refuse by auto
  qed
qed simp

text \<open>A settled entry is never approved again, whatever happens in between.\<close>

lemma settled_never_again:
  assumes "ok q" and "i \<in> settled q" and "distinct (entered ops)"
    and "set (entered ops) \<inter> (waiting q \<union> settled q) = {}"
  shows "app i (run_ops ent app ref ops q) = (None, run_ops ent app ref ops q)"
  using run_ok[OF assms(1,3,4)] assms(2) disjoint app_absent by blast

end

section \<open>The solo War Room provides it\<close>

definition waiting_ids :: "warroom \<Rightarrow> string set" where
  "waiting_ids w = a_id ` set (w_queue w)"

definition settled_ids :: "warroom \<Rightarrow> string set" where
  "settled_ids w = a_id ` set (w_processed w)"

definition approved_count :: "warroom \<Rightarrow> nat" where
  "approved_count w = length (filter (\<lambda>a. a_status a = AApproved) (w_processed w))"

definition wf_warroom :: "warroom \<Rightarrow> bool" where
  "wf_warroom w \<longleftrightarrow>
     sorted (map a_priority (w_queue w)) \<and>
     (\<forall>a\<in>set (w_queue w). a_status a = APending \<and> a_priority a \<noteq> PAuto) \<and>
     (\<forall>a\<in>set (w_processed w). a_status a \<noteq> APending) \<and>
     distinct (map a_id (w_queue w @ w_processed w)) \<and>
     w_auto w = filter (\<lambda>a. a_status a = AAutoExecuted) (w_processed w)"

lemma find_action_None: "find_action i q = None \<longleftrightarrow> i \<notin> a_id ` set q"
  by (auto simp: find_action_def find_None_iff)

lemma find_action_Some: "find_action i q = Some a \<Longrightarrow> a \<in> set q \<and> a_id a = i"
  by (auto simp: find_action_def find_Some_iff)

lemma remove_action_filter:
  "distinct (map a_id q) \<Longrightarrow> remove_action i q = filter (\<lambda>a. a_id a \<noteq> i) q"
  by (induction q) (auto intro!: filter_True[symmetric] simp: image_iff)

lemma decided_fields [simp]:
  "a_id (decided s now d a) = a_id a" "a_status (decided s now d a) = s"
  "a_priority (decided s now d a) = a_priority a" "a_payload (decided s now d a) = a_payload a"
  "a_claw (decided s now d a) = a_claw a" "a_type (decided s now d a) = a_type a"
  by (simp_all add: decided_def)

text \<open>Taking an action out of the queue and putting its decided copy behind the processed ones.\<close>

definition settle :: "war_action \<Rightarrow> warroom \<Rightarrow> warroom" where
  "settle a w = w\<lparr>w_queue := remove_action (a_id a) (w_queue w), w_processed := w_processed w @ [a],
     w_auto := w_auto w @ (if a_status a = AAutoExecuted then [a] else [])\<rparr>"

lemma approve_action_settle:
  "approve_action now i w =
     (case find_action i (w_queue w) of None \<Rightarrow> (None, w)
      | Some a \<Rightarrow> (Some (decided AApproved now ''approved'' a), settle (decided AApproved now ''approved'' a) w))"
  by (auto simp: approve_action_def settle_def Let_def split: option.splits dest: find_action_Some)

lemma block_action_settle:
  "block_action now i reason w =
     (case find_action i (w_queue w) of None \<Rightarrow> (None, w)
      | Some a \<Rightarrow> (let a' = decided ABlocked now (if reason \<noteq> [] then ''blocked: '' @ reason else ''blocked'') a
                  in (Some a', settle a' w)))"
  by (auto simp: block_action_def settle_def Let_def split: option.splits dest: find_action_Some)

lemma auto_execute_settle:
  "auto_execute now i w =
     (case find_action i (w_queue w) of None \<Rightarrow> (None, w)
      | Some a \<Rightarrow> (Some (decided AAutoExecuted now ''auto_executed'' a),
                   settle (decided AAutoExecuted now ''auto_executed'' a) w))"
  by (auto simp: auto_execute_def settle_def Let_def split: option.splits dest: find_action_Some)

lemma settle_laws:
  assumes "wf_warroom w" and "i \<in> waiting_ids w" and "a_id a = i" and "a_status a \<noteq> APending"
  shows "wf_warroom (settle a w)" and "waiting_ids (settle a w) = waiting_ids w - {i}"
    and "settled_ids (settle a w) = insert i (settled_ids w)"
    and "approved_count (settle a w) = approved_count w + (if a_status a = AApproved then 1 else 0)"
proof -
  have q: "w_queue (settle a w) = filter (\<lambda>x. a_id x \<noteq> i) (w_queue w)"
    using assms(1,3) by (simp add: settle_def remove_action_filter wf_warroom_def)
  show "waiting_ids (settle a w) = waiting_ids w - {i}" by (auto simp: waiting_ids_def q)
  show "settled_ids (settle a w) = insert i (settled_ids w)"
    using assms(3) by (simp add: settled_ids_def settle_def)
  show "approved_count (settle a w) = approved_count w + (if a_status a = AApproved then 1 else 0)"
    by (simp add: approved_count_def settle_def)
  have fields: "w_processed (settle a w) = w_processed w @ [a]"
    "w_auto (settle a w) = w_auto w @ (if a_status a = AAutoExecuted then [a] else [])"
    by (simp_all add: settle_def)
  have "i \<notin> a_id ` set (w_processed w)"
    using assms(1,2) by (auto simp: wf_warroom_def waiting_ids_def)
  then have "distinct (map a_id (w_queue (settle a w) @ w_processed (settle a w)))"
    using assms(1,3) by (auto simp: q fields wf_warroom_def distinct_map_filter)
  moreover have "sorted (map a_priority (w_queue (settle a w)))"
    using assms(1) by (simp add: q wf_warroom_def sorted_filter)
  ultimately show "wf_warroom (settle a w)"
    using assms(1,4) by (simp add: wf_warroom_def q fields)
qed

lemma find_waiting: "i \<in> waiting_ids w \<Longrightarrow> \<exists>a. find_action i (w_queue w) = Some a \<and> a_id a = i"
  using find_action_None[of i "w_queue w"] find_action_Some[of i "w_queue w"]
  by (cases "find_action i (w_queue w)") (auto simp: waiting_ids_def)

text \<open>Entering an action: a HOLD or REVIEW action waits, an AUTO action is processed at once.\<close>

lemma sort_queue_fields:
  "set (sort_queue q) = set q" "sorted (map a_priority (sort_queue q))"
  "distinct (map a_id (sort_queue q)) = distinct (map a_id q)"
proof -
  have "mset (map a_id (sort_queue q)) = mset (map a_id q)" by (simp add: sort_queue_def)
  then show "distinct (map a_id (sort_queue q)) = distinct (map a_id q)" by (rule mset_eq_imp_distinct_iff)
qed (simp_all add: sort_queue_def)

definition new_action :: "int \<Rightarrow> string \<Rightarrow> string \<Rightarrow> string \<Rightarrow> json dict \<Rightarrow> warroom \<Rightarrow> war_action" where
  "new_action now i c t p w =
     \<lparr>a_id = i, a_claw = c, a_type = t, a_priority = get_action_priority w c t, a_status = APending,
      a_payload = p, a_created = now, a_decided = None, a_decision = None\<rparr>"

definition queued :: "war_action \<Rightarrow> warroom \<Rightarrow> warroom" where
  "queued a w = emit_action_event a (w\<lparr>w_queue := sort_queue (w_queue w @ [a])\<rparr>)"

lemma new_action_fields [simp]:
  "a_id (new_action now i c t p w) = i" "a_status (new_action now i c t p w) = APending"
  "a_priority (new_action now i c t p w) = get_action_priority w c t"
  "a_payload (new_action now i c t p w) = p"
  by (simp_all add: new_action_def)

lemma queued_fields [simp]:
  "w_queue (queued a w) = sort_queue (w_queue w @ [a])" "w_processed (queued a w) = w_processed w"
  "w_auto (queued a w) = w_auto w" "w_modes (queued a w) = w_modes w" "w_operator (queued a w) = w_operator w"
  by (simp_all add: queued_def emit_action_event_def)

lemma find_action_unique:
  "distinct (map a_id q) \<Longrightarrow> a \<in> set q \<Longrightarrow> find_action (a_id a) q = Some a"
  by (induction q) (auto simp: find_action_def image_iff)

lemma auto_last: "p \<le> PAuto"
  by (cases p) (simp_all add: less_eq_action_priority_def)

text \<open>An AUTO action goes through the end of the queue and leaves it as it was.\<close>

lemma queue_action_eq:
  assumes "wf_warroom w" and "i \<notin> waiting_ids w"
  shows "queue_action now i c t p w =
    (if get_action_priority w c t = PAuto
     then (let a = decided AAutoExecuted now ''auto_executed'' (new_action now i c t p w)
           in (a, settle a (queued (new_action now i c t p w) w)))
     else (new_action now i c t p w, queued (new_action now i c t p w) w))"
proof -
  let ?a = "new_action now i c t p w"
  have "distinct (map a_id (sort_queue (w_queue w @ [?a])))"
    using assms by (auto simp: sort_queue_fields wf_warroom_def waiting_ids_def)
  from find_action_unique[OF this, of ?a]
  have "find_action i (sort_queue (w_queue w @ [?a])) = Some ?a" by (simp add: sort_queue_fields)
  moreover have "queue_action now i c t p w =
      (if a_priority ?a = PAuto
       then (case auto_execute now i (queued ?a w) of (Some a', w2) \<Rightarrow> (a', w2) | (None, w2) \<Rightarrow> (?a, w2))
       else (?a, queued ?a w))"
    unfolding queue_action_def Let_def queued_def new_action_def by simp
  ultimately show ?thesis by (simp add: auto_execute_settle Let_def)
qed

lemma queued_auto_settled:
  assumes "wf_warroom w" and "i \<notin> waiting_ids w" and "get_action_priority w c t = PAuto"
  shows "remove_action i (sort_queue (w_queue w @ [new_action now i c t p w])) = w_queue w"
proof -
  let ?a = "new_action now i c t p w"
  have "sorted (map a_priority (w_queue w @ [?a]))"
    using assms(1,3) by (auto simp: wf_warroom_def sorted_append auto_last)
  then have "sort_queue (w_queue w @ [?a]) = w_queue w @ [?a]"
    by (simp add: sort_queue_def sort_key_id_if_sorted del: map_append)
  moreover have "distinct (map a_id (w_queue w @ [?a]))"
    using assms(1,2) by (auto simp: wf_warroom_def waiting_ids_def)
  moreover have "filter (\<lambda>a. a_id a \<noteq> i) (w_queue w) = w_queue w"
    using assms(2) by (auto simp: waiting_ids_def intro!: filter_True)
  ultimately show ?thesis by (simp add: remove_action_filter)
qed

lemma wf_queued:
  assumes "wf_warroom w" and "i \<notin> waiting_ids w \<union> settled_ids w" and "get_action_priority w c t \<noteq> PAuto"
  shows "wf_warroom (queued (new_action now i c t p w) w)"
  using assms by (auto simp: wf_warroom_def sort_queue_fields waiting_ids_def settled_ids_def)

lemma queue_action_laws:
  assumes "wf_warroom w" and "i \<notin> waiting_ids w \<union> settled_ids w"
    and "queue_action now i c t p w = (a, w')"
  shows "a_id a = i" and "a_payload a = p" and "wf_warroom w'"
    and "waiting_ids w' \<union> settled_ids w' = insert i (waiting_ids w \<union> settled_ids w)"
    and "settled_ids w \<subseteq> settled_ids w'" and "approved_count w' = approved_count w"
    and "w_modes w' = w_modes w" and "w_operator w' = w_operator w"
proof -
  have i: "i \<notin> waiting_ids w" using assms(2) by simp
  note eq = queue_action_eq[OF assms(1) i, of now c t p, unfolded assms(3)]
  show "a_id a = i" "a_payload a = p" using eq by (auto simp: Let_def split: if_splits)
  have "wf_warroom w' \<and> waiting_ids w' \<union> settled_ids w' = insert i (waiting_ids w \<union> settled_ids w) \<and>
      settled_ids w \<subseteq> settled_ids w' \<and> approved_count w' = approved_count w \<and>
      w_modes w' = w_modes w \<and> w_operator w' = w_operator w"
  proof (cases "get_action_priority w c t = PAuto")
    case True
    then have w': "w_queue w' = w_queue w" "w_auto w' = w_auto w @ [a]" "w_processed w' = w_processed w @ [a]"
      "a_status a = AAutoExecuted" "a_id a = i" "w_modes w' = w_modes w" "w_operator w' = w_operator w"
      using eq queued_auto_settled[OF assms(1) i True] by (simp_all add: Let_def settle_def)
    then show ?thesis using assms(1,2)
      by (auto simp: wf_warroom_def waiting_ids_def settled_ids_def approved_count_def)
  next
    case False
    then have w': "w' = queued (new_action now i c t p w) w" using eq by simp
    then show ?thesis using wf_queued[OF assms(1,2) False]
      by (auto simp: waiting_ids_def settled_ids_def approved_count_def sort_queue_fields)
  qed
  then show "wf_warroom w'" "waiting_ids w' \<union> settled_ids w' = insert i (waiting_ids w \<union> settled_ids w)"
    "settled_ids w \<subseteq> settled_ids w'" "approved_count w' = approved_count w"
    "w_modes w' = w_modes w" "w_operator w' = w_operator w" by blast+
qed

text \<open>The entry of the queue as the client sees it: claw, type, payload and the time.\<close>

definition enter_action :: "string \<Rightarrow> (string \<times> string \<times> json dict \<times> int) \<Rightarrow> warroom \<Rightarrow> warroom" where
  "enter_action i e w = (case e of (c, t, p, now) \<Rightarrow> snd (queue_action now i c t p w))"

interpretation wr: decision_queue wf_warroom waiting_ids settled_ids approved_count enter_action
  "approve_action now" "block_action now" for now
proof (unfold_locales, goal_cases)
  case (1 q)
  then show ?case by (auto simp: wf_warroom_def waiting_ids_def settled_ids_def)
next
  case (2 q i e)
  obtain c t p n where e: "e = (c, t, p, n)" by (cases e)
  obtain a w' where qa: "queue_action n i c t p q = (a, w')" by (cases "queue_action n i c t p q")
  have "i \<notin> waiting_ids q \<union> settled_ids q" using 2 by simp
  from queue_action_laws[OF 2(1) this qa] show ?case by (simp add: enter_action_def e qa)
next
  case (3 q i)
  obtain a where a: "find_action i (w_queue q) = Some a" "a_id a = i" using find_waiting[OF 3(2)] by blast
  then show ?case using settle_laws[OF 3, of "decided AApproved now ''approved'' a"]
    by (simp add: approve_action_settle)
next
  case (4 i q)
  then show ?case by (simp add: approve_action_settle waiting_ids_def find_action_None[THEN iffD2])
next
  case (5 q i why)
  obtain a where a: "find_action i (w_queue q) = Some a" "a_id a = i" using find_waiting[OF 5(2)] by blast
  then show ?case
    using settle_laws[OF 5, of "decided ABlocked now (if why \<noteq> [] then ''blocked: '' @ why else ''blocked'') a"]
    by (simp add: block_action_settle Let_def)
next
  case (6 i q why)
  then show ?case by (simp add: block_action_settle waiting_ids_def find_action_None[THEN iffD2])
qed

end
