(* ===== verification/Spend_Bridge.thy ===== *)
theory Spend_Bridge
  imports Spend_Runs Decision_Queue
begin

text \<open>
  \<^verbatim>\<open>milimo-blueprint/orchestrator/finance/spend_warroom_bridge.py\<close>: the spend handler driven through
  the queue of the solo War Room. The bridge owns two dictionaries from War Room actions to the
  handler's action identifiers; the handler and the War Room are the states of their own theories.
  Identifiers of new War Room actions and the times of the calls are arguments.
\<close>

section \<open>State\<close>

record bridge =
  br_handler :: spend_state
  br_room :: warroom
  br_review :: "string \<rightharpoonup> string"
  br_hold :: "string \<rightharpoonup> string"

definition new_bridge :: "spend_state \<Rightarrow> warroom \<Rightarrow> bridge" where
  "new_bridge h w = \<lparr>br_handler = h, br_room = w, br_review = Map.empty, br_hold = Map.empty\<rparr>"

section \<open>Texts\<close>

text \<open>\<open>f"${cents / 100:.2f}"\<close>, exact while the quotient is a float of full precision.\<close>

definition money_text :: "int \<Rightarrow> string" where
  "money_text c =
     (let n = nat \<bar>c\<bar> in
      ''$'' @ (if c < 0 then ''-'' else []) @ digits_of_nat (n div 100) @ ''.''
      @ [char_of (48 + (n mod 100) div 10), char_of (48 + n mod 10)])"

text \<open>The dash of the summaries, as its UTF-8 bytes.\<close>

definition em_dash :: string where
  "em_dash = [CHR 0xE2, CHR 0x80, CHR 0x94]"

definition review_payload :: "string \<Rightarrow> spend_request \<Rightarrow> json dict" where
  "review_payload aid rq =
     [(''spend_action_id'', JStr aid), (''spend_id'', JStr (spend_id rq)),
      (''requesting_claw'', JStr (claw rq)), (''merchant_name'', JStr (merchant_name rq)),
      (''merchant_url'', JStr (merchant_url rq)), (''amount_cents'', JInt (amount_cents rq)),
      (''currency'', JStr (currency rq)), (''justification'', JStr (justification rq)),
      (''summary'', JStr (claw rq @ '' wants to buy from '' @ merchant_name rq @ '': ''
         @ money_text (amount_cents rq) @ '' '' @ em_dash @ '' '' @ justification rq))]"

definition hold_payload :: "string \<Rightarrow> spend_request \<Rightarrow> json dict" where
  "hold_payload aid rq =
     [(''spend_action_id'', JStr aid), (''spend_id'', JStr (spend_id rq)),
      (''requesting_claw'', JStr (claw rq)), (''merchant_name'', JStr (merchant_name rq)),
      (''amount_cents'', JInt (amount_cents rq)),
      (''summary'', JStr (''Ready to charge '' @ merchant_name rq @ '': '' @ money_text (amount_cents rq)
         @ '' '' @ em_dash @ '' release sends a Link app approval request to your phone''))]"

section \<open>Finding the handler's action\<close>

definition find_action_payload :: "warroom \<Rightarrow> string \<Rightarrow> json dict option" where
  "find_action_payload w i = map_option a_payload (find_action i (w_queue w @ w_processed w))"

definition tracked :: "(string \<rightharpoonup> string) \<Rightarrow> warroom \<Rightarrow> string \<Rightarrow> string option" where
  "tracked m w i =
     (let direct = m i;
          aid = (if truthy_str direct then direct
                 else (case find_action_payload w i of
                         Some p \<Rightarrow> if p \<noteq> [] then get_str_opt p ''spend_action_id'' else direct
                       | None \<Rightarrow> direct))
      in if truthy_str aid then aid else None)"

section \<open>Operations\<close>

definition submit_spend_request :: "spend_config \<Rightarrow> int \<Rightarrow> int \<Rightarrow> string \<Rightarrow> nat \<Rightarrow> bridge
    \<Rightarrow> string option \<times> bridge" where
  "submit_spend_request cfg now now_w i r b =
     (case queue_spend_review cfg now r (br_handler b) of
        (aid, h) \<Rightarrow>
          if status (heap h r) = Blocked then (None, b\<lparr>br_handler := h\<rparr>)
          else (case queue_action now_w i ''finance'' ''spend_review'' (review_payload aid (heap h r))
                       (br_room b) of
                  (a, w) \<Rightarrow> (Some (a_id a), b\<lparr>br_handler := h, br_room := w,
                                              br_review := (br_review b)(a_id a \<mapsto> aid)\<rparr>)))"

text \<open>The callback of an approved REVIEW action; an exception ends it.\<close>

definition execute_review :: "spend_config \<Rightarrow> int \<Rightarrow> int \<Rightarrow> string \<Rightarrow> string \<Rightarrow> bridge \<Rightarrow> bridge" where
  "execute_review cfg now now_w i aid b =
     (case handle_review_approve cfg now aid (br_handler b) of
        (Inl e, h) \<Rightarrow> b\<lparr>br_handler := h\<rparr>
      | (Inr hold_aid, h) \<Rightarrow>
          (case get_request_ref (py_replace review_prefix [] aid) now h of
             (Inl e, h1) \<Rightarrow> b\<lparr>br_handler := h1\<rparr>
           | (Inr r, h1) \<Rightarrow>
               (case queue_action now_w i ''finance'' ''spend_hold'' (hold_payload hold_aid (heap h1 r))
                       (br_room b) of
                  (a, w) \<Rightarrow> b\<lparr>br_handler := h1, br_room := w,
                             br_hold := (br_hold b)(a_id a \<mapsto> hold_aid)\<rparr>)))"

definition approve_review :: "spend_config \<Rightarrow> int \<Rightarrow> int \<Rightarrow> int \<Rightarrow> string \<Rightarrow> string \<Rightarrow> bridge
    \<Rightarrow> war_action option \<times> bridge" where
  "approve_review cfg now_d now now_w i wid b =
     (case tracked (br_review b) (br_room b) wid of
        None \<Rightarrow> (None, b)
      | Some aid \<Rightarrow> handle_approve br_room (\<lambda>w b. b\<lparr>br_room := w\<rparr>) now_d wid
                      (execute_review cfg now now_w i aid) b)"

definition block_review :: "int \<Rightarrow> int \<Rightarrow> string \<Rightarrow> string \<Rightarrow> bridge
    \<Rightarrow> (spend_error + war_action option) \<times> bridge" where
  "block_review now_d now wid reason b =
     (case tracked (br_review b) (br_room b) wid of
        None \<Rightarrow> (Inr None, b)
      | Some aid \<Rightarrow>
          (case block_action now_d wid reason (br_room b) of
             (act, w) \<Rightarrow>
               (case handle_review_block now aid reason (br_handler b) of
                  (Inl e, h) \<Rightarrow> (Inl e, b\<lparr>br_room := w, br_handler := h\<rparr>)
                | (Inr _, h) \<Rightarrow> (Inr act, b\<lparr>br_room := w, br_handler := h\<rparr>))))"

text \<open>The callback of a released HOLD action hands its result out in a dictionary.\<close>

definition execute_release :: "spend_config \<Rightarrow> release_env \<Rightarrow> string \<Rightarrow> bridge \<times> nat option
    \<Rightarrow> bridge \<times> nat option" where
  "execute_release cfg env aid s =
     (case s of (b, out) \<Rightarrow>
       (case handle_hold_release cfg env aid (Some (w_operator (br_room b))) (br_handler b) of
          (Inl e, h) \<Rightarrow> (b\<lparr>br_handler := h\<rparr>, out)
        | (Inr r, h) \<Rightarrow> (b\<lparr>br_handler := h\<rparr>, Some r)))"

definition release_hold :: "spend_config \<Rightarrow> int \<Rightarrow> release_env \<Rightarrow> string \<Rightarrow> bridge
    \<Rightarrow> (war_action option \<times> nat option) \<times> bridge" where
  "release_hold cfg now_d env wid b =
     (case tracked (br_hold b) (br_room b) wid of
        None \<Rightarrow> ((None, None), b)
      | Some aid \<Rightarrow>
          (case handle_approve (\<lambda>s. br_room (fst s)) (\<lambda>w s. ((fst s)\<lparr>br_room := w\<rparr>, snd s)) now_d wid
                  (execute_release cfg env aid) (b, None) of
             (act, (b', out)) \<Rightarrow> ((act, out), b')))"

definition cancel_hold :: "int \<Rightarrow> int \<Rightarrow> string \<Rightarrow> string \<Rightarrow> bridge
    \<Rightarrow> (spend_error + war_action option) \<times> bridge" where
  "cancel_hold now_d now wid reason b =
     (case tracked (br_hold b) (br_room b) wid of
        None \<Rightarrow> (Inr None, b)
      | Some aid \<Rightarrow>
          (case block_action now_d wid reason (br_room b) of
             (act, w) \<Rightarrow>
               (case handle_hold_cancel now aid reason (br_handler b) of
                  (Inl e, h) \<Rightarrow> (Inl e, b\<lparr>br_room := w, br_handler := h\<rparr>)
                | (Inr _, h) \<Rightarrow> (Inr act, b\<lparr>br_room := w, br_handler := h\<rparr>))))"

section \<open>What the handler's share of each operation does to the spend log\<close>

lemma handle_review_approve_spend_lines [simp]:
  "spend_lines (snd (handle_review_approve cfg now aid st)) = spend_lines st"
  using exec_event_spend_lines[of "EvApprove now aid"] by simp

lemma handle_review_block_spend_lines [simp]:
  "spend_lines (snd (handle_review_block now aid reason st)) = spend_lines st"
  using exec_event_spend_lines[of "EvBlock now aid reason"] by simp

lemma handle_hold_cancel_spend_lines [simp]:
  "spend_lines (snd (handle_hold_cancel now aid reason st)) = spend_lines st"
  using exec_event_spend_lines[of "EvCancel now aid reason"] by simp

lemma handle_hold_release_at_most_one:
  "length (spend_lines (snd (handle_hold_release cfg env aid op st))) \<le> Suc (length (spend_lines st))"
  by (cases "handle_hold_release cfg env aid op st") (auto dest!: handle_hold_release_spend_lines)

section \<open>Sessions of the bridge\<close>

text \<open>
  One step of a session: a claw submits an object, the operator presses a key, or a polling thread
  of the handler ends. A new War Room action gets an identifier no action has.
\<close>

definition new_id :: "string \<Rightarrow> bridge \<Rightarrow> bool" where
  "new_id i b \<longleftrightarrow> i \<notin> waiting_ids (br_room b) \<union> settled_ids (br_room b)"

inductive bridge_step :: "spend_config \<Rightarrow> bridge \<Rightarrow> bridge \<Rightarrow> bool" for cfg where
  Submit: "new_id i b \<Longrightarrow> alloc rq (br_handler b) = (r, h) \<Longrightarrow>
     bridge_step cfg b (snd (submit_spend_request cfg now now_w i r (b\<lparr>br_handler := h\<rparr>)))"
| Approve: "new_id i b \<Longrightarrow> bridge_step cfg b (snd (approve_review cfg now_d now now_w i wid b))"
| Block: "bridge_step cfg b (snd (block_review now_d now wid reason b))"
| Release: "bridge_step cfg b (snd (release_hold cfg now_d env wid b))"
| Cancel: "bridge_step cfg b (snd (cancel_hold now_d now wid reason b))"
| Thread: "bridge_step cfg b (b\<lparr>br_handler := finish_poll k stop ans now (br_handler b)\<rparr>)"

inductive bridge_reach :: "spend_config \<Rightarrow> bridge \<Rightarrow> bridge \<Rightarrow> bool" for cfg where
  Start: "bridge_reach cfg b b"
| Step: "bridge_reach cfg b b1 \<Longrightarrow> bridge_step cfg b1 b2 \<Longrightarrow> bridge_reach cfg b b2"

end
