(* ===== verification/Spend_Recovery.thy ===== *)
theory Spend_Recovery
  imports Spend_Runs
begin

text \<open>
  The decisions log as the durable half of the state: a request rebuilt from the log agrees
  with the object a crash destroyed, in everything the log records.
\<close>

section \<open>What the log records of a request\<close>

text \<open>
  \<open>approval_pending\<close> is logged as a release, so it comes back as \<open>released\<close>. The payment method
  and the creation time are not logged at all.
\<close>

fun logged_status :: "spend_status \<Rightarrow> spend_status" where
  "logged_status ApprovalPending = Released"
| "logged_status s = s"

definition log_desc :: "spend_request \<Rightarrow>
    string \<times> string \<times> string \<times> string \<times> int \<times> string \<times> string \<times> string" where
  "log_desc rq = (spend_id rq, claw rq, merchant_name rq, merchant_url rq, amount_cents rq,
     currency rq, justification rq, credential_type rq)"

definition log_view :: "spend_request \<Rightarrow>
    (string \<times> string \<times> string \<times> string \<times> int \<times> string \<times> string \<times> string) \<times> spend_status" where
  "log_view rq = (log_desc rq, logged_status (status rq))"

lemma log_desc_upd [simp]:
  "log_desc (rq\<lparr>link_spend_request_id := l\<rparr>) = log_desc rq"
  "log_desc (rq\<lparr>status := s\<rparr>) = log_desc rq"
  by (simp_all add: log_desc_def)

lemma log_view_upd [simp]:
  "log_view (rq\<lparr>link_spend_request_id := l\<rparr>) = log_view rq"
  "log_view (rq\<lparr>status := s\<rparr>) = (log_desc rq, logged_status s)"
  by (simp_all add: log_view_def)

text \<open>The first \<open>queued\<close> decision of an identifier, which \<open>_get_request\<close> rebuilds it from.\<close>

definition is_queued :: "string \<Rightarrow> log_line \<Rightarrow> bool" where
  "is_queued sid l = (case l of LDec d \<Rightarrow> d_spend_id d = Some sid \<and> d_action_type d = ''queued'' \<and>
     (d_stage d = ''review'' \<or> d_stage d = ''hold'') | _ \<Rightarrow> False)"

fun first_queued :: "string \<Rightarrow> log_line list \<Rightarrow> decision option" where
  "first_queued sid [] = None"
| "first_queued sid (LDec d # ls) = (if is_queued sid (LDec d) then Some d else first_queued sid ls)"
| "first_queued sid (_ # ls) = first_queued sid ls"

definition review_logged :: "string \<Rightarrow> log_line list \<Rightarrow> bool" where
  "review_logged sid ls =
     (case first_queued sid ls of None \<Rightarrow> False | Some d \<Rightarrow> d_stage d = ''review'')"

definition mentioned :: "string \<Rightarrow> log_line list \<Rightarrow> bool" where
  "mentioned sid ls = list_ex (\<lambda>l. case l of LDec d \<Rightarrow> d_spend_id d = Some sid | _ \<Rightarrow> False) ls"

lemma first_queued_append:
  "first_queued sid (xs @ ys) =
     (case first_queued sid xs of Some d \<Rightarrow> Some d | None \<Rightarrow> first_queued sid ys)"
  by (induction sid xs rule: first_queued.induct) auto

lemma review_logged_append [simp]: "review_logged sid xs \<Longrightarrow> review_logged sid (xs @ ys)"
  by (auto simp: review_logged_def first_queued_append split: option.splits)

lemma first_queued_mentioned: "\<not> mentioned sid ls \<Longrightarrow> first_queued sid ls = None"
  by (induction sid ls rule: first_queued.induct) (auto simp: mentioned_def is_queued_def)

lemma scan_queued_skip:
  assumes "\<not> is_queued sid (LDec e)"
  shows "\<exists>idx2. scan_queued sid now (LDec e # ls) idx = scan_queued sid now ls idx2"
proof (cases "d_spend_id e = Some sid \<and> d_stage e = ''hold'' \<and> d_action_type e = ''release''")
  case True
  then show ?thesis by simp blast
next
  case nrel: False
  show ?thesis
  proof (cases "d_spend_id e = Some sid")
    case True
    then have "\<not> (d_stage e = ''review'' \<and> d_action_type e = ''queued'')"
      "\<not> (d_stage e = ''hold'' \<and> d_action_type e = ''queued'')"
      "\<not> (d_stage e = ''hold'' \<and> d_action_type e = ''release'')"
      using assms nrel by (auto simp: is_queued_def)
    then show ?thesis by (simp only: scan_queued.simps if_False) auto
  next
    case False
    then show ?thesis by auto
  qed
qed

lemma scan_queued_first:
  assumes "LBad \<notin> set ls" and "first_queued sid ls = Some d" and "d_stage d = ''review''"
  shows "\<exists>idx'. scan_queued sid now ls idx = (Some (request_of_review sid now (d_details d)), idx')"
  using assms
proof (induction ls arbitrary: idx)
  case (Cons l ls)
  show ?case
  proof (cases l)
    case (LDec e)
    show ?thesis
    proof (cases "is_queued sid l")
      case True
      then have "e = d" "d_spend_id e = Some sid" "d_action_type e = ''queued''"
        using Cons.prems LDec by (simp_all add: is_queued_def)
      then show ?thesis using Cons.prems(3) LDec by simp
    next
      case False
      then obtain idx2 where "scan_queued sid now (l # ls) idx = scan_queued sid now ls idx2"
        using scan_queued_skip LDec by blast
      moreover have "LBad \<notin> set ls" "first_queued sid ls = Some d"
        using Cons.prems False LDec by simp_all
      ultimately show ?thesis using Cons.IH Cons.prems(3) by simp
    qed
  qed (use Cons in auto)
qed simp

section \<open>Replay is a fold over the decisions of the identifier\<close>

lemma replay_append:
  "LBad \<notin> set xs \<Longrightarrow> replay sid (xs @ ys) rq = replay sid ys (replay sid xs rq)"
  by (induction sid xs rq rule: replay.induct) auto

lemma replay_not_mentioned: "\<not> mentioned sid ls \<Longrightarrow> replay sid ls rq = rq"
  by (induction sid ls rq rule: replay.induct) (auto simp: mentioned_def)

lemma find_prior_release_append:
  "find_prior_release sid (xs @ ys) acc = find_prior_release sid ys (find_prior_release sid xs acc)"
  by (induction sid xs acc rule: find_prior_release.induct) auto

lemma find_prior_release_not_mentioned: "\<not> mentioned sid ls \<Longrightarrow> find_prior_release sid ls acc = acc"
  by (induction sid ls acc rule: find_prior_release.induct) (auto simp: mentioned_def)

lemma find_prior_release_mem:
  "find_prior_release sid ls acc = Some d \<Longrightarrow> acc = Some d \<or> LDec d \<in> set ls"
  by (induction sid ls acc rule: find_prior_release.induct) (auto split: if_splits)

text \<open>Descriptive fields survive the replay; only the status (and the session) moves.\<close>

lemma log_desc_replay_decision [simp]: "log_desc (replay_decision d rq) = log_desc rq"
  by (simp add: log_desc_def)

lemma log_desc_replay [simp]: "log_desc (replay sid ls rq) = log_desc rq"
  by (induction sid ls rq rule: replay.induct) auto

text \<open>The status a HOLD decision stands for, whatever came before it.\<close>

definition hold_status :: "string \<Rightarrow> spend_status" where
  "hold_status act =
     (if act = ''release'' \<or> act = ''purchase_approved'' then Released
      else if act = ''cancel'' then Cancelled else Blocked)"

lemma replay_decision_hold:
  "d_stage d = ''hold'' \<Longrightarrow> d_action_type d \<in> set release_actions \<Longrightarrow>
     status (replay_decision d rq) = hold_status (d_action_type d)"
  by (auto simp: replay_decision_def hold_status_def release_actions_def)

section \<open>The invariant\<close>

definition prior_consistent :: "log_line list \<Rightarrow> bool" where
  "prior_consistent ls \<longleftrightarrow> (\<forall>sid d rq. find_prior_release sid ls None = Some d \<longrightarrow>
     status (replay sid ls rq) = hold_status (d_action_type d))"

definition outcomes_ok :: "log_line list \<Rightarrow> bool" where
  "outcomes_ok ls \<longleftrightarrow> (\<forall>d. LDec d \<in> set ls \<longrightarrow> d_spend_id d \<noteq> Some [] \<and>
     (get_str (d_details d) ''outcome'' [] = ''release_initiated'' \<longrightarrow> d_action_type d = ''release''))"

definition objects_ok :: "spend_state \<Rightarrow> bool" where
  "objects_ok st \<longleftrightarrow>
     (\<forall>sid r. requests st sid = Some r \<longrightarrow>
        sid \<noteq> [] \<and> r < fresh st \<and> spend_id (heap st r) = sid) \<and>
     (\<forall>p\<in>set (polls st). requests st (spend_id (heap st (p_request p))) = Some (p_request p))"

definition mirrored :: "spend_state \<Rightarrow> bool" where
  "mirrored st \<longleftrightarrow> (\<forall>sid r d. requests st sid = Some r \<longrightarrow> first_queued sid (log_lines st) = Some d \<longrightarrow>
     d_stage d = ''review'' \<longrightarrow>
     log_view (heap st r) =
       log_view (replay sid (log_lines st) (request_of_review sid 0 (d_details d))))"

definition recov_inv :: "spend_state \<Rightarrow> bool" where
  "recov_inv st \<longleftrightarrow> LBad \<notin> set (log_lines st) \<and> prior_consistent (log_lines st) \<and>
     outcomes_ok (log_lines st) \<and> objects_ok st \<and> mirrored st"

lemma recov_invD:
  assumes "recov_inv st"
  shows "LBad \<notin> set (log_lines st)" "prior_consistent (log_lines st)"
    "outcomes_ok (log_lines st)" "objects_ok st" "mirrored st"
  using assms by (simp_all add: recov_inv_def)

text \<open>The invariant reads the store, the two dictionaries of objects and the log only.\<close>

lemma recov_inv_cong:
  assumes "heap st' = heap st" "fresh st' = fresh st" "requests st' = requests st"
    "polls st' = polls st" "log_lines st' = log_lines st"
  shows "recov_inv st' = recov_inv st"
  using assms by (simp add: recov_inv_def objects_ok_def mirrored_def)

lemma recov_inv_set_lsrq [simp]: "recov_inv (set_lsrq r l st) = recov_inv st"
proof -
  have "log_view (heap (set_lsrq r l st) r') = log_view (heap st r')"
    "spend_id (heap (set_lsrq r l st) r') = spend_id (heap st r')" for r' by simp_all
  then show ?thesis by (simp add: recov_inv_def objects_ok_def mirrored_def)
qed

lemma prior_consistent_append:
  assumes "prior_consistent ls" and "LBad \<notin> set ls"
    and "\<And>sid. d_spend_id d = Some sid \<Longrightarrow>
       (d_stage d = ''hold'' \<and> d_action_type d \<in> set release_actions) \<or>
       find_prior_release sid ls None = None \<or> (\<forall>rq. status (replay_decision d rq) = status rq)"
  shows "prior_consistent (ls @ [LDec d])"
  unfolding prior_consistent_def
proof (intro allI impI)
  fix sid e rq
  assume prior: "find_prior_release sid (ls @ [LDec d]) None = Some e"
  show "status (replay sid (ls @ [LDec d]) rq) = hold_status (d_action_type e)"
  proof (cases "d_spend_id d = Some sid")
    case False
    then show ?thesis using prior assms(1,2)
      by (simp add: find_prior_release_append replay_append prior_consistent_def)
  next
    case True
    show ?thesis
    proof (cases "d_stage d = ''hold'' \<and> d_action_type d \<in> set release_actions")
      case hold: True
      then have "e = d" using prior True by (simp add: find_prior_release_append)
      then show ?thesis using hold True assms(2) by (simp add: replay_append replay_decision_hold)
    next
      case False
      then have p: "find_prior_release sid ls None = Some e"
        using prior True by (auto simp: find_prior_release_append)
      then have "status (replay_decision d (replay sid ls rq)) = status (replay sid ls rq)"
        using assms(3)[OF True] False by auto
      then show ?thesis using True p assms(1,2) by (simp add: replay_append prior_consistent_def)
    qed
  qed
qed

lemma objects_ok_unique:
  "objects_ok st \<Longrightarrow> requests st sid = Some r \<Longrightarrow> requests st sid' = Some r \<Longrightarrow> sid' = sid"
  by (metis objects_ok_def)

text \<open>
  Deciding about one request: its object takes a status and the log takes a decision that
  replays to the same status.
\<close>

lemma recov_decide:
  assumes inv: "recov_inv st" and req: "requests st sid = Some r"
    and d: "d = mk_decision aid sid stg act now op det" and nq: "act \<noteq> ''queued''"
    and eff: "\<And>rq. logged_status (status (replay_decision d rq)) = logged_status s"
    and prior: "(stg = ''hold'' \<and> act \<in> set release_actions) \<or>
                find_prior_release sid (log_lines st) None = None"
    and out: "get_str det ''outcome'' [] = ''release_initiated'' \<Longrightarrow> act = ''release''"
  shows "recov_inv (log_decision d (set_status r s st))"
proof -
  let ?st = "log_decision d (set_status r s st)"
  note I = recov_invD[OF inv]
  have ne: "sid \<noteq> []" using I(4) req by (auto simp: objects_ok_def)
  have ll: "log_lines ?st = log_lines st @ [LDec d]" using ne by (simp add: d)
  have fq: "first_queued sid' (log_lines st @ [LDec d]) = first_queued sid' (log_lines st)" for sid'
    using nq by (simp add: first_queued_append d is_queued_def split: option.split)
  have "mirrored ?st"
    unfolding mirrored_def
  proof (intro allI impI)
    fix sid' r' e
    assume a: "requests ?st sid' = Some r'" "first_queued sid' (log_lines ?st) = Some e"
      "d_stage e = ''review''"
    let ?rq = "request_of_review sid' 0 (d_details e)"
    have req': "requests st sid' = Some r'" using a(1) by simp
    have old: "log_view (heap st r') = log_view (replay sid' (log_lines st) ?rq)"
      using I(5) req' a(2,3) by (simp add: mirrored_def ll fq)
    show "log_view (heap ?st r') = log_view (replay sid' (log_lines ?st) ?rq)"
    proof (cases "sid' = sid")
      case True
      then have r': "r' = r" using req req' by simp
      have "log_view ((heap st r)\<lparr>status := s\<rparr>)
          = log_view (replay_decision d (replay sid' (log_lines st) ?rq))"
        using old eff by (simp add: r' log_view_def)
      then show ?thesis using True I(1) ne by (simp add: ll replay_append r' d)
    next
      case False
      then have "r' \<noteq> r" using objects_ok_unique[OF I(4) req] req' by blast
      then show ?thesis using False I(1) old by (simp add: ll replay_append d)
    qed
  qed
  moreover have "prior_consistent (log_lines ?st)"
    unfolding ll by (rule prior_consistent_append[OF I(2) I(1)]) (use prior d in auto)
  moreover have "objects_ok ?st" using I(4) by (auto simp: objects_ok_def)
  moreover have "LBad \<notin> set (log_lines ?st)" using I(1) by (simp add: ll)
  moreover have "outcomes_ok (log_lines ?st)" using I(3) out ne by (auto simp: outcomes_ok_def ll d)
  ultimately show ?thesis by (simp add: recov_inv_def)
qed

text \<open>A decision that replays to nothing.\<close>

lemma recov_note:
  assumes inv: "recov_inv st"
    and d: "d = mk_decision aid sid stg act now op det"
    and eff: "\<And>rq. replay_decision d rq = rq" and nh: "\<not> (stg = ''hold'' \<and> act \<in> set release_actions)"
    and fq: "stg \<noteq> ''review'' \<or> act \<noteq> ''queued''"
    and out: "get_str det ''outcome'' [] \<noteq> ''release_initiated''"
  shows "recov_inv (log_decision d st)"
proof (cases "sid = []")
  case True
  then have "log_decision d st = st" by (simp add: log_decision_def d)
  then show ?thesis using inv by simp
next
  case False
  let ?st = "log_decision d st"
  note I = recov_invD[OF inv]
  have ll: "log_lines ?st = log_lines st @ [LDec d]" using False by (simp add: d)
  have "mirrored ?st"
    unfolding mirrored_def
  proof (intro allI impI)
    fix sid' r' e
    assume a: "requests ?st sid' = Some r'" "first_queued sid' (log_lines ?st) = Some e"
      "d_stage e = ''review''"
    have "first_queued sid' (log_lines st) = Some e"
      using a fq by (auto simp: ll first_queued_append d is_queued_def split: option.splits if_splits)
    then show "log_view (heap ?st r') =
        log_view (replay sid' (log_lines ?st) (request_of_review sid' 0 (d_details e)))"
      using I(1,5) a by (simp add: ll replay_append mirrored_def eff)
  qed
  moreover have "prior_consistent (log_lines ?st)"
    unfolding ll by (rule prior_consistent_append[OF I(2) I(1)]) (simp add: eff)
  moreover have "objects_ok ?st" using I(4) by (auto simp: objects_ok_def)
  moreover have "LBad \<notin> set (log_lines ?st)" using I(1) by (simp add: ll)
  moreover have "outcomes_ok (log_lines ?st)" using I(3) out False by (auto simp: outcomes_ok_def ll d)
  ultimately show ?thesis by (simp add: recov_inv_def)
qed

text \<open>A status the log already replays to.\<close>

lemma recov_set_same:
  assumes inv: "recov_inv st" and req: "requests st sid = Some r"
    and eff: "\<And>rq. first_queued sid (log_lines st) \<noteq> None \<Longrightarrow>
               logged_status (status (replay sid (log_lines st) rq)) = logged_status s"
  shows "recov_inv (set_status r s st)"
proof -
  note I = recov_invD[OF inv]
  have "mirrored (set_status r s st)"
    unfolding mirrored_def
  proof (intro allI impI)
    fix sid' r' e
    assume a: "requests (set_status r s st) sid' = Some r'"
      "first_queued sid' (log_lines (set_status r s st)) = Some e" "d_stage e = ''review''"
    then have "log_view (heap st r') =
        log_view (replay sid' (log_lines st) (request_of_review sid' 0 (d_details e)))"
      using I(5) by (simp add: mirrored_def)
    moreover have "r' = r \<Longrightarrow> sid' = sid" using a(1) req objects_ok_unique[OF I(4)] by simp
    ultimately show "log_view (heap (set_status r s st) r') =
        log_view (replay sid' (log_lines (set_status r s st)) (request_of_review sid' 0 (d_details e)))"
      using eff a(2) by (auto simp: log_view_def)
  qed
  moreover have "objects_ok (set_status r s st)" using I(4) by (auto simp: objects_ok_def)
  ultimately show ?thesis using I by (simp add: recov_inv_def)
qed

lemma recov_start_polling:
  assumes "recov_inv st" and "requests st sid = Some r"
  shows "recov_inv (start_polling r aid op st)"
  using assms by (auto simp: recov_inv_def objects_ok_def mirrored_def start_polling_def log_lines_def)

lemma recov_polls_subset:
  assumes "recov_inv st" and "set ps \<subseteq> set (polls st)"
  shows "recov_inv (st\<lparr>polls := ps\<rparr>)"
  using assms by (auto simp: recov_inv_def objects_ok_def mirrored_def)

section \<open>Looking up keeps the invariant\<close>

lemma status_replay_cong:
  "status rq = status rq' \<Longrightarrow> status (replay sid ls rq) = status (replay sid ls rq')"
proof (induction ls arbitrary: rq rq')
  case (Cons l ls)
  have dec: "status (replay_decision d rq) = status (replay_decision d rq')" for d
    using Cons.prems by (auto simp: replay_decision_def Let_def)
  show ?case
    by (cases l) (use Cons.IH[OF Cons.prems] Cons.IH[OF dec] Cons.prems in simp_all)
qed simp

lemma log_view_replay_now:
  "log_view (replay sid ls (request_of_review sid now d)) =
     log_view (replay sid ls (request_of_review sid 0 d))"
proof -
  have desc: "log_desc (request_of_review sid now d) = log_desc (request_of_review sid 0 d)"
    by (simp add: log_desc_def request_of_review_def)
  have "status (request_of_review sid now d) = status (request_of_review sid 0 d)"
    by (simp add: request_of_review_def)
  then have "status (replay sid ls (request_of_review sid now d)) =
      status (replay sid ls (request_of_review sid 0 d))" by (rule status_replay_cong)
  then show ?thesis using desc by (simp add: log_view_def)
qed

lemma scan_queued_not_mentioned:
  "\<not> mentioned sid ls \<Longrightarrow> fst (scan_queued sid now ls idx) = None"
proof (induction ls)
  case (Cons l ls)
  then show ?case by (cases l) (simp_all add: mentioned_def)
qed simp

lemma outcomes_ok_empty: "outcomes_ok ls \<Longrightarrow> \<not> mentioned [] ls"
  by (auto simp: outcomes_ok_def mentioned_def list_ex_iff split: log_line.splits)

lemma objects_ok_alloc:
  assumes "objects_ok st" and "requests st sid = None" and "sid \<noteq> []" and "spend_id rq = sid"
  shows "objects_ok (st\<lparr>heap := (heap st)(fresh st := rq), fresh := Suc (fresh st),
           requests := (requests st)(sid \<mapsto> fresh st)\<rparr>)" (is "objects_ok ?st'")
  unfolding objects_ok_def
proof (intro conjI allI impI ballI)
  fix s r assume req: "requests ?st' s = Some r"
  show "s \<noteq> []" and "r < fresh ?st'" and "spend_id (heap ?st' r) = s"
    using req assms by (cases "s = sid"; force simp: objects_ok_def)+
next
  fix p assume p: "p \<in> set (polls ?st')"
  then have r: "requests st (spend_id (heap st (p_request p))) = Some (p_request p)"
    using assms(1) by (simp add: objects_ok_def)
  then have "p_request p < fresh st" using assms(1) by (auto simp: objects_ok_def)
  moreover have "spend_id (heap st (p_request p)) \<noteq> sid" using r assms(2) by auto
  ultimately show "requests ?st' (spend_id (heap ?st' (p_request p))) = Some (p_request p)"
    using r by simp
qed

lemma recov_get_request:
  assumes g: "get_request_ref sid now st = (res, st')" and inv: "recov_inv st"
  shows "recov_inv st'" "res = Inr r \<Longrightarrow> requests st' sid = Some r"
proof -
  note I = recov_invD[OF inv]
  have "recov_inv st' \<and> (res = Inr r \<longrightarrow> requests st' sid = Some r)"
  proof (cases "requests st sid")
    case (Some r0)
    then show ?thesis using g inv by auto
  next
    case req: None
    show ?thesis
    proof (cases "scan_queued sid now (log_lines st) (lsrq_index st)")
      case (Pair found idx)
      show ?thesis
      proof (cases found)
        case None
        then have "st' = st\<lparr>lsrq_index := idx\<rparr>" "res = Inl (ErrKey sid)"
          using g req Pair by (auto simp: get_request_ref_def)
        then show ?thesis using recov_inv_cong[of st' st] inv by simp
      next
        case (Some rq)
        have ne: "sid \<noteq> []"
          using scan_queued_not_mentioned[OF outcomes_ok_empty[OF I(3)]] Pair Some
          by (metis fst_conv option.distinct(1))
        have st': "st' = st\<lparr>lsrq_index := idx, heap := (heap st)(fresh st := replay sid (log_lines st) rq),
            fresh := Suc (fresh st), requests := (requests st)(sid \<mapsto> fresh st)\<rparr>" and res: "res = Inr (fresh st)"
          using g req Pair Some by (auto simp: get_request_ref_def alloc_def)
        have sid: "spend_id rq = sid" using Pair Some by (auto dest: scan_queued_spend_id)
        have ll: "log_lines st' = log_lines st" by (simp add: st' log_lines_def)
        have "objects_ok (st\<lparr>lsrq_index := idx\<rparr>)" using I(4) by (simp add: objects_ok_def)
        then have "objects_ok st'"
          using objects_ok_alloc[of "st\<lparr>lsrq_index := idx\<rparr>" sid "replay sid (log_lines st) rq"] req sid ne
          by (simp add: st')
        moreover have "mirrored st'"
          unfolding mirrored_def
        proof (intro allI impI)
          fix sid' r' e
          assume a: "requests st' sid' = Some r'" "first_queued sid' (log_lines st') = Some e"
            "d_stage e = ''review''"
          show "log_view (heap st' r') =
            log_view (replay sid' (log_lines st') (request_of_review sid' 0 (d_details e)))"
          proof (cases "sid' = sid")
            case True
            then have "first_queued sid (log_lines st) = Some e" using a(2) ll by simp
            then have "rq = request_of_review sid now (d_details e)"
              using scan_queued_first[OF I(1) _ a(3), of sid now "lsrq_index st"] Pair Some by auto
            then have "heap st' r' = replay sid (log_lines st) (request_of_review sid now (d_details e))"
              using True a(1) by (simp add: st')
            then show ?thesis using log_view_replay_now[of sid _ now] True ll by simp
          next
            case False
            then have "requests st sid' = Some r'" using a(1) by (simp add: st')
            moreover from this have "r' < fresh st" using I(4) by (auto simp: objects_ok_def)
            ultimately show ?thesis using I(5) a(2,3) ll
              by (simp add: mirrored_def st')
          qed
        qed
        ultimately show ?thesis using I(1-3) res by (simp add: recov_inv_def ll st')
      qed
    qed
  qed
  then show "recov_inv st'" "res = Inr r \<Longrightarrow> requests st' sid = Some r" by blast+
qed

end
