(* ===== verification/Spend_Refinement.thy ===== *)
theory Spend_Refinement
  imports Spend_Recovery
begin

text \<open>
  Every operation, in an order in which the REVIEW decisions on a purchase come before its
  HOLD decisions, keeps the store and the decisions log in agreement.
\<close>

section \<open>Disciplined runs\<close>

text \<open>
  New requests are new objects with an identifier the log does not know; approving and blocking
  come before any release or cancellation; amounts are not edited (an edit is logged, but not
  replayed).
\<close>

fun disciplined :: "spend_event \<Rightarrow> spend_state \<Rightarrow> bool" where
  "disciplined (EvSubmit rq now) st =
     (spend_id rq \<noteq> [] \<and> status rq = PendingReview \<and> requests st (spend_id rq) = None \<and>
      \<not> mentioned (spend_id rq) (log_lines st))"
| "disciplined (EvApprove now aid) st =
     (find_prior_release (py_replace review_prefix [] aid) (log_lines st) None = None)"
| "disciplined (EvBlock now aid reason) st =
     (find_prior_release (py_replace review_prefix [] aid) (log_lines st) None = None)"
| "disciplined (EvEdit now aid amt just) st = False"
| "disciplined (EvRequeue r now) st = False"
| "disciplined _ st = True"

fun disciplined_run :: "spend_config \<Rightarrow> spend_event list \<Rightarrow> spend_state \<Rightarrow> bool" where
  "disciplined_run cfg [] st = True"
| "disciplined_run cfg (e # es) st = (disciplined e st \<and> disciplined_run cfg es (exec_event cfg e st))"

section \<open>REVIEW operations\<close>

lemma get_str_outcome_simps [simp]:
  "get_str ((k, v) # d) ''outcome'' z =
     (if k = ''outcome'' then (case v of JStr s \<Rightarrow> s | _ \<Rightarrow> z) else get_str d ''outcome'' z)"
  "get_str [] k' z = z"
  by (auto simp: get_str_def split: json.split)

lemma replay_decision_mk:
  "act \<notin> set release_actions \<Longrightarrow> act \<noteq> ''approve'' \<Longrightarrow> act \<noteq> ''block'' \<Longrightarrow>
     replay_decision (mk_decision aid sid stg act now op det) rq = rq"
  by (simp add: replay_decision_def release_actions_def)

lemma replay_decision_review:
  "status (replay_decision (mk_decision aid sid ''review'' ''approve'' now op det) rq) = Held"
  "status (replay_decision (mk_decision aid sid ''review'' ''block'' now op det) rq) = Blocked"
  by (simp_all add: replay_decision_def)

text \<open>The state right after a new request has entered the dictionary.\<close>

lemma recov_new_object:
  assumes inv: "recov_inv st" and ne: "spend_id rq \<noteq> []" and new: "requests st (spend_id rq) = None"
    and nm: "\<not> mentioned (spend_id rq) (log_lines st)"
  shows "recov_inv (st\<lparr>heap := (heap st)(fresh st := rq), fresh := Suc (fresh st),
           requests := (requests st)(spend_id rq \<mapsto> fresh st)\<rparr>)" (is "recov_inv ?st")
proof -
  note I = recov_invD[OF inv]
  have "objects_ok ?st" by (rule objects_ok_alloc[OF I(4) new ne refl])
  moreover have "mirrored ?st"
    unfolding mirrored_def
  proof (intro allI impI)
    fix sid r e
    assume a: "requests ?st sid = Some r" "first_queued sid (log_lines ?st) = Some e"
      "d_stage e = ''review''"
    then have "sid \<noteq> spend_id rq" using first_queued_mentioned[OF nm] by auto
    then have "requests st sid = Some r" using a(1) by simp
    moreover from this have "r < fresh st" using I(4) by (auto simp: objects_ok_def)
    ultimately show "log_view (heap ?st r) =
        log_view (replay sid (log_lines ?st) (request_of_review sid 0 (d_details e)))"
      using I(5) a(2,3) by (simp add: mirrored_def)
  qed
  ultimately show ?thesis using I by (simp add: recov_inv_def)
qed

lemma review_details_desc:
  "spend_id rq = sid \<Longrightarrow> log_desc (request_of_review sid now (review_details rq)) = log_desc rq"
  by (simp add: log_desc_def request_of_review_def review_details_def get_str_def get_int_def)

lemma recov_queued:
  assumes inv: "recov_inv st" and req: "requests st sid = Some r"
    and nm: "\<not> mentioned sid (log_lines st)" and st: "status (heap st r) = PendingReview"
    and d: "d = mk_decision aid sid ''review'' ''queued'' now op (review_details (heap st r))"
  shows "recov_inv (log_decision d st)"
proof -
  let ?st = "log_decision d st"
  note I = recov_invD[OF inv]
  have ne: "sid \<noteq> []" and sid: "spend_id (heap st r) = sid"
    using I(4) req by (auto simp: objects_ok_def)
  have ll: "log_lines ?st = log_lines st @ [LDec d]" using ne by (simp add: d)
  have eff: "replay_decision d rq = rq" for rq by (simp add: d replay_decision_mk release_actions_def)
  have fq: "first_queued sid (log_lines st @ [LDec d]) = Some d"
    using first_queued_mentioned[OF nm] by (simp add: first_queued_append is_queued_def d)
  have "mirrored ?st"
    unfolding mirrored_def
  proof (intro allI impI)
    fix sid' r' e
    assume a: "requests ?st sid' = Some r'" "first_queued sid' (log_lines ?st) = Some e"
      "d_stage e = ''review''"
    show "log_view (heap ?st r') =
        log_view (replay sid' (log_lines ?st) (request_of_review sid' 0 (d_details e)))"
    proof (cases "sid' = sid")
      case True
      then have "e = d" "r' = r" using a fq req by (simp_all add: ll)
      moreover have "replay sid (log_lines ?st) rq = rq" for rq
        using replay_not_mentioned[OF nm] I(1) by (simp add: ll replay_append eff)
      ultimately show ?thesis using True st review_details_desc[OF sid, of 0]
        by (simp add: log_view_def d request_of_review_def)
    next
      case False
      then have "first_queued sid' (log_lines st) = Some e"
        using a(2) ne by (simp add: ll first_queued_append is_queued_def d split: option.splits)
      then show ?thesis using False a I(1,5) ne by (simp add: ll replay_append mirrored_def d)
    qed
  qed
  moreover have "prior_consistent (log_lines ?st)"
    unfolding ll by (rule prior_consistent_append[OF I(2) I(1)]) (simp add: eff)
  moreover have "objects_ok ?st" using I(4) by (auto simp: objects_ok_def)
  moreover have "LBad \<notin> set (log_lines ?st)" using I(1) by (simp add: ll)
  moreover have "outcomes_ok (log_lines ?st)"
    using I(3) ne by (auto simp: outcomes_ok_def ll d review_details_def)
  ultimately show ?thesis by (simp add: recov_inv_def)
qed

lemma recov_submit:
  assumes inv: "recov_inv st" and d: "disciplined (EvSubmit rq now) st"
  shows "recov_inv (exec_event cfg (EvSubmit rq now) st)"
proof -
  define r where "r = fresh st"
  define st1 where "st1 = st\<lparr>heap := (heap st)(r := rq), fresh := Suc (fresh st),
           requests := (requests st)(spend_id rq \<mapsto> r)\<rparr>"
  define st2 where "st2 = persist_queue_state r ''review'' (review_prefix @ spend_id rq) now st1"
  have inv1: "recov_inv st1" unfolding st1_def r_def using recov_new_object inv d by simp
  then have inv2: "recov_inv st2"
    using recov_inv_cong[of st2 st1] by (simp add: st2_def persist_queue_state_def log_lines_def)
  have req: "requests st2 (spend_id rq) = Some r" and nm: "\<not> mentioned (spend_id rq) (log_lines st2)"
    and obj: "heap st2 r = rq"
    using d by (simp_all add: st2_def st1_def log_lines_def)
  have blocked: "recov_inv (set_status r Blocked st2)"
    by (rule recov_set_same[OF inv2 req]) (use first_queued_mentioned[OF nm] in simp)
  have noted: "recov_inv (log_decision (mk_decision aid (spend_id rq) ''review'' ''auto_blocked'' now
      ''system'' ((''reason'', v) # (''amount_cents'', w) # (''daily_spent_cents'', x) #
        [(''cap_cents'', y)])) (set_status r Blocked st2))" for aid v w x y
    by (rule recov_note[OF blocked refl]) (simp_all add: replay_decision_mk release_actions_def)
  have queued: "recov_inv (log_decision (mk_decision aid (spend_id rq) ''review'' ''queued'' now
      ''system'' (review_details (heap st2 r))) st2)" for aid
    by (rule recov_queued[OF inv2 req nm _ refl]) (use d obj in simp)
  have card: "recov_inv (add_card c a m k s) = recov_inv s" for c a m k s
    by (rule recov_inv_cong) simp_all
  have alloc: "alloc rq st = (r, st\<lparr>heap := (heap st)(r := rq), fresh := Suc (fresh st)\<rparr>)"
    by (simp add: alloc_def r_def)
  let ?aid = "review_prefix @ spend_id rq" and ?spent = "daily_spend_aggregate now st2"
  have "exec_event cfg (EvSubmit rq now) st =
    (if ?spent + amount_cents rq > daily_spend_cap_cents cfg
     then log_decision (mk_decision ?aid (spend_id rq) ''review'' ''auto_blocked'' now ''system''
            [(''reason'', JStr ''exceeds_daily_spend_cap''), (''amount_cents'', JInt (amount_cents rq)),
             (''daily_spent_cents'', JInt ?spent), (''cap_cents'', JInt (daily_spend_cap_cents cfg))])
            (set_status r Blocked st2)
     else add_card cfg ?aid ''REVIEW'' ''spend_review''
            (log_decision (mk_decision ?aid (spend_id rq) ''review'' ''queued'' now ''system''
               (review_details (heap st2 r))) st2))"
    by (simp add: alloc queue_spend_review_def Let_def st2_def st1_def)
  then show ?thesis using noted queued by (simp only: card split: if_split) blast
qed

lemma recov_frame [simp]:
  "recov_inv (add_card cfg a m k st) = recov_inv st"
  "recov_inv (persist_queue_state r s a n st) = recov_inv st"
  "recov_inv (append_spend_log r n st) = recov_inv st"
  "recov_inv (release_lock sid st) = recov_inv st"
  "recov_inv (st\<lparr>lsrq_index := ix\<rparr>) = recov_inv st"
  "recov_inv (st\<lparr>locks := lk\<rparr>) = recov_inv st"
  "recov_inv (st\<lparr>shutdown := b\<rparr>) = recov_inv st"
  by (rule recov_inv_cong;
      simp add: persist_queue_state_def append_spend_log_def release_lock_def log_lines_def)+

lemma recov_approve:
  assumes inv: "recov_inv st" and d: "disciplined (EvApprove now aid) st"
  shows "recov_inv (exec_event cfg (EvApprove now aid) st)"
proof -
  define sid where "sid = py_replace review_prefix [] aid"
  obtain res st1 where g: "get_request_ref sid now st = (res, st1)"
    by (cases "get_request_ref sid now st")
  note inv1 = recov_get_request(1)[OF g inv] and req1 = recov_get_request(2)[OF g inv]
  have prior: "find_prior_release sid (log_lines st1) None = None"
    using d get_request_ref_frame(8)[OF g] by (simp add: sid_def)
  show ?thesis
  proof (cases res)
    case (Inl e)
    then show ?thesis using g inv1 by (simp add: handle_review_approve_def Let_def flip: sid_def)
  next
    case (Inr r)
    then have req: "requests st1 sid = Some r" using req1 by blast
    then have sid': "spend_id (heap st1 r) = sid"
      using recov_invD(4)[OF inv1] by (simp add: objects_ok_def)
    have ne: "sid \<noteq> []" using recov_invD(4)[OF inv1] req by (auto simp: objects_ok_def)
    define hq where "hq = mk_decision (hold_prefix @ sid) sid ''hold'' ''queued'' now ''system''
      [(''merchant_name'', JStr (merchant_name (heap st1 r))),
       (''amount_cents'', JInt (amount_cents (heap st1 r))), (''warning'', JStr hold_warning)]"
    define st2 where "st2 = log_decision hq st1"
    define ap where "ap = mk_decision aid sid ''review'' ''approve'' now ''operator''
      [(''outcome'', JStr ''moved_to_hold'')]"
    have "recov_inv st2" unfolding st2_def
      by (rule recov_note[OF inv1 hq_def]) (simp_all add: hq_def replay_decision_mk release_actions_def)
    moreover have "requests st2 sid = Some r" using req by (simp add: st2_def)
    moreover have "find_prior_release sid (log_lines st2) None = None"
      using prior ne by (simp add: st2_def hq_def find_prior_release_append release_actions_def)
    ultimately have fin: "recov_inv (log_decision ap (set_status r Held st2))"
      by (intro recov_decide[OF _ _ ap_def])
         (simp_all add: ap_def replay_decision_review)
    have same: "(requests st1)(sid \<mapsto> r) = requests st1" using req by auto
    have "recov_inv (exec_event cfg (EvApprove now aid) st) =
        recov_inv (log_decision ap (set_status r Held st2))"
      by (rule recov_inv_cong)
         (simp_all add: handle_review_approve_def queue_spend_hold_def Let_def g[unfolded sid_def] Inr
           ap_def st2_def hq_def sid'[unfolded sid_def] sid_def same[unfolded sid_def] fun_eq_iff)
    then show ?thesis using fin by simp
  qed
qed

lemma recov_block:
  assumes inv: "recov_inv st" and d: "disciplined (EvBlock now aid reason) st"
  shows "recov_inv (exec_event cfg (EvBlock now aid reason) st)"
proof -
  define sid where "sid = py_replace review_prefix [] aid"
  obtain res st1 where g: "get_request_ref sid now st = (res, st1)"
    by (cases "get_request_ref sid now st")
  note inv1 = recov_get_request(1)[OF g inv] and req1 = recov_get_request(2)[OF g inv]
  have prior: "find_prior_release sid (log_lines st1) None = None"
    using d get_request_ref_frame(8)[OF g] by (simp add: sid_def)
  show ?thesis
  proof (cases res)
    case (Inl e)
    then show ?thesis using g inv1 by (simp add: handle_review_block_def Let_def flip: sid_def)
  next
    case (Inr r)
    have "recov_inv (log_decision (mk_decision aid sid ''review'' ''block'' now ''operator''
        [(''reason'', JStr reason)]) (set_status r Blocked st1))"
      by (rule recov_decide[OF inv1 req1[OF Inr] refl]) (simp_all add: replay_decision_review prior)
    then show ?thesis using g Inr by (simp add: handle_review_block_def Let_def flip: sid_def)
  qed
qed

section \<open>HOLD operations\<close>

lemma replay_hold_mk:
  "act \<in> set release_actions \<Longrightarrow>
     status (replay_decision (mk_decision aid sid ''hold'' act now op det) rq) = hold_status act"
  by (rule trans[OF replay_decision_hold]) simp_all

lemma recov_hold_decide:
  assumes "recov_inv st" "requests st sid = Some r" "act \<in> set release_actions"
    "logged_status s = logged_status (hold_status act)"
    "get_str det ''outcome'' [] = ''release_initiated'' \<Longrightarrow> act = ''release''"
  shows "recov_inv (log_decision (mk_decision aid sid ''hold'' act now op det) (set_status r s st))"
  by (rule recov_decide[OF assms(1,2) refl])
     (use assms(3-5) in \<open>auto simp: replay_hold_mk release_actions_def\<close>)

lemma recov_fail_release:
  assumes "recov_inv st" "requests st sid = Some r"
    "get_str d ''outcome'' [] \<noteq> ''release_initiated''"
  shows "recov_inv (fail_release env aid sid op d r st)"
  unfolding fail_release_def
  by (rule recov_hold_decide) (use assms in \<open>simp_all add: release_actions_def hold_status_def\<close>)

lemma recov_record_session [simp]: "recov_inv (record_session sid r out st) = recov_inv st"
  by (simp add: record_session_def Let_def split: option.split)

lemma recov_notify_step:
  assumes "notify_step env aid sid op r st = (res, st')" "recov_inv st" "requests st sid = Some r"
  shows "recov_inv st'"
proof -
  have rel: "recov_inv (log_decision (mk_decision aid sid ''hold'' ''release'' (now_log env)
      (operator_name op) det) (set_status r s st))" if "logged_status s = Released" for s det
    by (rule recov_hold_decide) (use assms that in \<open>simp_all add: release_actions_def hold_status_def\<close>)
  show ?thesis using assms rel
    by (auto simp: notify_step_def Let_def intro!: recov_start_polling
        split: cli_outcome.splits if_splits)
qed

lemma recov_cap_step:
  assumes c: "cap_step cfg env aid sid op r st = (res, st')" and inv: "recov_inv st"
    and req: "requests st sid = Some r"
  shows "recov_inv st'"
  using c inv req
  by (auto simp: cap_step_def create_step_def Let_def
      intro!: recov_fail_release elim!: recov_notify_step
      split: cli_outcome.splits if_splits)

lemma recov_release_body:
  assumes c: "release_body cfg env aid sid op r st = (res, st')" and inv: "recov_inv st"
    and req: "requests st sid = Some r"
  shows "recov_inv st'"
proof (cases "find_prior_release sid (log_lines st) None")
  case None
  then show ?thesis using c recov_cap_step[OF _ inv req] by (simp add: release_body_def)
next
  case (Some d)
  note I = recov_invD[OF inv]
  show ?thesis
  proof (cases "get_str (d_details d) ''outcome'' [] = ''release_initiated'' \<and>
      truthy_str (get_str_opt (d_details d) ''link_spend_request_id'')")
    case True
    have "LDec d \<in> set (log_lines st)" using find_prior_release_mem[OF Some] by simp
    then have "d_action_type d = ''release''" using I(3) True by (simp add: outcomes_ok_def)
    then have eff: "logged_status (status (replay sid (log_lines st) rq)) = logged_status Released" for rq
      using I(2) Some by (simp add: prior_consistent_def hold_status_def)
    have "recov_inv (set_status r Released st)" by (rule recov_set_same[OF inv req eff])
    then show ?thesis using c Some True by (auto simp: release_body_def)
  next
    case False
    then show ?thesis using c Some recov_cap_step[OF _ inv req]
        recov_cap_step[of cfg env aid sid op r "set_lsrq r l st" for l] inv req
      by (auto simp: release_body_def Let_def split: if_splits)
  qed
qed

lemma recov_release:
  assumes inv: "recov_inv st"
  shows "recov_inv (exec_event cfg (EvRelease env aid op) st)"
proof -
  define sid where "sid = py_replace hold_prefix [] aid"
  obtain res st' where h: "handle_hold_release cfg env aid op st = (res, st')"
    by (cases "handle_hold_release cfg env aid op st")
  from h have "recov_inv st'"
  proof (cases rule: handle_hold_release_cases)
    case (unknown e st1)
    then show ?thesis using recov_get_request(1)[OF unknown(1) inv] by simp
  next
    case (invalid r st1)
    note g = recov_get_request[OF invalid(1) inv]
    show ?thesis unfolding invalid(4) by (rule recov_fail_release) (use g in simp_all)
  next
    case (locked r st1 e)
    then show ?thesis using recov_get_request(1)[OF locked(1) inv] acquire_lock_frame[OF locked(3)]
      recov_inv_cong by metis
  next
    case (body r st1 st2 st3)
    note g = recov_get_request[OF body(1) inv]
    have "recov_inv st2"
      using g(1) recov_inv_cong[of st2 st1] acquire_lock_frame[OF body(3)] by simp
    moreover have "requests st2 (py_replace hold_prefix [] aid) = Some r"
      using g(2) acquire_lock_frame[OF body(3)] by simp
    ultimately have "recov_inv st3" by (rule recov_release_body[OF body(4)])
    then show ?thesis by (simp add: body(5))
  qed
  then show ?thesis by (simp add: h)
qed

lemma recov_cancel:
  assumes inv: "recov_inv st"
  shows "recov_inv (exec_event cfg (EvCancel now aid reason) st)"
proof -
  define sid where "sid = py_replace hold_prefix [] aid"
  obtain res st1 where g: "get_request_ref sid now st = (res, st1)"
    by (cases "get_request_ref sid now st")
  note inv1 = recov_get_request(1)[OF g inv] and req1 = recov_get_request(2)[OF g inv]
  show ?thesis
  proof (cases res)
    case (Inl e)
    then show ?thesis using g inv1 by (simp add: handle_hold_cancel_def Let_def flip: sid_def)
  next
    case (Inr r)
    have "recov_inv (log_decision (mk_decision aid sid ''hold'' ''cancel'' now ''operator''
        [(''reason'', JStr reason)]) (set_status r Cancelled st1))"
      by (rule recov_hold_decide[OF inv1 req1[OF Inr]])
         (simp_all add: release_actions_def hold_status_def)
    then show ?thesis using g Inr by (simp add: handle_hold_cancel_def Let_def flip: sid_def)
  qed
qed

section \<open>Threads and restarts\<close>

lemma poll_verdict_cases:
  "poll_verdict out = Some v \<Longrightarrow> v \<in> {''purchase_approved'', ''purchase_denied'', ''purchase_expired''}"
  by (auto simp: poll_verdict_def Let_def split: option.splits if_splits)

lemma poll_loop_verdict:
  "poll_loop n stop ans k = PollDecided v j \<Longrightarrow>
     v \<in> {''purchase_approved'', ''purchase_denied'', ''purchase_expired'', ''release_failed''}"
  by (induction n stop ans k rule: poll_loop.induct)
     (auto split: if_splits cli_outcome.splits option.splits dest: poll_verdict_cases)

lemma recov_poll:
  assumes inv: "recov_inv st" and p: "p \<in> set (polls st)"
  shows "recov_inv (poll_spend_request stop ans now p st)"
proof (cases "poll_loop max_attempts stop ans 0")
  case (PollDied k)
  then show ?thesis using inv by (simp add: poll_spend_request_def)
next
  case (PollDecided v k)
  let ?r = "p_request p" and ?s = "if v = ''purchase_approved'' then Released else Blocked"
  have req: "requests st (spend_id (heap st ?r)) = Some ?r"
    using recov_invD(4)[OF inv] p by (simp add: objects_ok_def)
  have v: "v \<in> {''purchase_approved'', ''purchase_denied'', ''purchase_expired'', ''release_failed''}"
    by (rule poll_loop_verdict[OF PollDecided])
  have "recov_inv (log_decision (mk_decision a (spend_id (heap st ?r)) ''hold'' v now o'
      ((''outcome'', JStr (if v = ''purchase_approved'' then ''approved'' else ''failed_or_denied''))
        # [(''link_spend_request_id'', x), (''attempts'', y)])) (set_status ?r ?s st))" for a o' x y
    by (rule recov_hold_decide[OF inv req]) (use v in \<open>auto simp: release_actions_def hold_status_def\<close>)
  then show ?thesis using PollDecided by (simp add: poll_spend_request_def Let_def)
qed

lemma recov_resume: "recov_inv st \<Longrightarrow> recov_inv (resume_polls now ps st)"
proof (induction ps arbitrary: st)
  case (Cons p ps)
  obtain sid pr where p: "p = (sid, pr)" by (cases p)
  obtain res st1 where g: "get_request_ref sid now st = (res, st1)"
    by (cases "get_request_ref sid now st")
  note inv1 = recov_get_request[OF g Cons.prems]
  show ?case using Cons.IH Cons.prems inv1 by (auto simp: p g intro: recov_start_polling split: sum.split)
qed simp

lemma recov_fresh_start [simp]:
  "recov_inv st \<Longrightarrow> recov_inv (st\<lparr>requests := Map.empty, polls := []\<rparr>)"
  "recov_inv st \<Longrightarrow> recov_inv (st\<lparr>requests := Map.empty, lsrq_index := ix, polls := []\<rparr>)"
  by (simp_all add: recov_inv_def objects_ok_def mirrored_def log_lines_def)

lemma recov_remove_poll:
  "recov_inv st \<Longrightarrow> recov_inv (st\<lparr>polls := take i (polls st) @ drop (Suc i) (polls st)\<rparr>)"
  by (rule recov_polls_subset) (auto dest: in_set_takeD in_set_dropD)

lemma recov_exec_event:
  assumes "recov_inv st" and "disciplined e st"
  shows "recov_inv (exec_event cfg e st)"
proof (cases e)
  case (EvInvoice now iid amt)
  show ?thesis unfolding EvInvoice exec_event.simps handle_invoice_ready_def
    by (rule recov_note[OF assms(1) refl]) (simp_all add: replay_decision_mk release_actions_def)
next
  case (EvPollEnd i stop ans now)
  have "recov_inv (poll_spend_request stop ans now (polls st ! i) st)" if "i < length (polls st)"
    using recov_poll[OF assms(1)] that by simp
  then show ?thesis using assms(1)
    by (simp add: EvPollEnd finish_poll_def Let_def recov_remove_poll)
next
  case (EvRestart now)
  then show ?thesis using assms(1)
    by (auto simp: new_handler_def recover_and_resume_polling_def
        intro!: recov_resume split: prod.split)
qed (use assms in \<open>simp_all add: recov_submit recov_approve recov_block recov_release recov_cancel
       close_handler_def del: exec_event.simps(1,3,5,6,7)\<close>)

lemma recov_run:
  "recov_inv st \<Longrightarrow> disciplined_run cfg es st \<Longrightarrow> recov_inv (run cfg es st)"
  by (induction es arbitrary: st) (auto intro: recov_exec_event)

text \<open>What a crash leaves is enough: the lookup on the log alone rebuilds the object.\<close>

lemma recov_lookup:
  assumes inv: "recov_inv st" and req: "requests st sid = Some r"
    and rev: "review_logged sid (log_lines st)"
    and crash: "crashed = st\<lparr>requests := Map.empty, lsrq_index := Map.empty, polls := [], shutdown := False\<rparr>"
  shows "\<exists>r' st'. get_request_ref sid now crashed = (Inr r', st') \<and>
           log_view (heap st' r') = log_view (heap st r)"
proof -
  note I = recov_invD[OF inv]
  obtain d where d: "first_queued sid (log_lines st) = Some d" "d_stage d = ''review''"
    using rev by (auto simp: review_logged_def split: option.splits)
  have ll: "log_lines crashed = log_lines st" by (simp add: crash log_lines_def)
  obtain idx where "scan_queued sid now (log_lines st) Map.empty
      = (Some (request_of_review sid now (d_details d)), idx)"
    using scan_queued_first[OF I(1) d] by blast
  then have "\<exists>st'. get_request_ref sid now crashed = (Inr (fresh st), st') \<and>
      heap st' (fresh st) = replay sid (log_lines st) (request_of_review sid now (d_details d))"
    using ll by (simp add: get_request_ref_def alloc_def crash)
  moreover have "log_view (heap st r) =
      log_view (replay sid (log_lines st) (request_of_review sid 0 (d_details d)))"
    using I(5) req d by (simp add: mirrored_def)
  ultimately show ?thesis using log_view_replay_now[of sid "log_lines st" now "d_details d"] by auto
qed

end
