(* ===== verification/Spend_Props.thy ===== *)
theory Spend_Props
  imports Spend_Refinement
begin

text \<open>
  The properties of the spend handler, with the concrete states their witnesses use.
\<close>

section \<open>Concrete inputs\<close>

definition blank_request :: spend_request where
  "blank_request = \<lparr>spend_id = [], claw = [], merchant_name = [], merchant_url = [],
     amount_cents = 0, currency = ''USD'', justification = [], payment_method_id = None,
     credential_type = ''card'', status = PendingReview, created_at = 0,
     link_spend_request_id = None\<rparr>"

definition sample_request :: spend_request where
  "sample_request = blank_request\<lparr>spend_id := ''s1'', claw := ''build'', merchant_name := ''Vercel'',
     amount_cents := 2000, justification := replicate 100 CHR ''x''\<rparr>"

text \<open>A handler on a machine without any file yet.\<close>

definition initial_state :: spend_state where
  "initial_state = \<lparr>heap = (\<lambda>_. blank_request), fresh = 0, requests = Map.empty,
     lsrq_index = Map.empty, decisions = None, spend_log = None, queue_log = [], op_log = [],
     cards = [], polls = [], locks = Map.empty, shutdown = False\<rparr>"

definition sample_config :: spend_config where
  "sample_config = \<lparr>link_cli_path = ''link-cli'', daily_spend_cap_cents = 10000,
     test_mode = True, warroom_bridge_available = True\<rparr>"

definition sample_env :: "int \<Rightarrow> release_env" where
  "sample_env t = \<lparr>now_start = t, now_cap = t, now_spend = t, now_log = t, my_pid = 7,
     pid_alive = (\<lambda>n. n = 7),
     cli_create = CliExit 0 (Some (JList [JObj [(''id'', JStr ''lsrq_1'')]])) [],
     cli_notify = CliExit 0 None [], cli_notify_retry = CliExit 0 None []\<rparr>"

definition queued_state :: spend_state where
  "queued_state = exec_event sample_config (EvSubmit sample_request 1) initial_state"

lemmas sample_defs = initial_state_def sample_config_def sample_env_def sample_request_def
  blank_request_def review_prefix_def hold_prefix_def LINK_CLI_MIN_CONTEXT_LENGTH_def day_us_def

lemmas exec_defs [op_simps] = queue_spend_review_def queue_spend_hold_def handle_review_approve_def
  handle_hold_release_def handle_hold_cancel_def release_body_def cap_step_def create_step_def
  notify_step_def notify_outcome_def acquire_lock_def release_lock_def record_session_def
  fail_release_def start_polling_def log_decision_def append_spend_log_def
  persist_queue_state_def add_card_def set_status_def set_lsrq_def upd_request_def alloc_def
  daily_spend_aggregate_def spend_lines_def log_lines_def mk_decision_def
  validate_justification_def review_details_def Let_def

lemma initial_recov: "recov_inv initial_state"
  by (simp add: recov_inv_def initial_state_def log_lines_def prior_consistent_def outcomes_ok_def
      objects_ok_def mirrored_def)

lemma initial_nonneg: "nonneg_state initial_state"
  by (simp add: nonneg_state_def initial_state_def log_lines_def spend_lines_def blank_request_def)

lemma initial_spends: "daily_spend_aggregate t initial_state = 0"
  by (simp add: daily_spend_aggregate_def spend_lines_def initial_state_def)

section \<open>The daily cap\<close>

text \<open>
  C1. Whatever the claws submit, the operator decides, the threads report and however often the
  handler restarts, what was charged in the 24 hours up to any moment after the last cap check
  stays within the daily cap, provided the clock does not run backwards and no amount is negative.
\<close>

theorem daily_cap_never_exceeded:
  assumes "0 \<le> daily_spend_cap_cents cfg" and "\<forall>e\<in>set es. nonneg_event e"
    and "clocked t es" and "clock_after t es \<le> t'"
  shows "daily_spend_aggregate t' (run cfg es initial_state) \<le> daily_spend_cap_cents cfg"
proof -
  have "spends_within (daily_spend_cap_cents cfg) t initial_state"
    using assms(1) by (simp add: spends_within_def initial_spends)
  from run_spends_within[OF initial_nonneg assms(2) this assms(3)]
  show ?thesis using assms(4) by (simp add: spends_within_def)
qed

theorem daily_cap_never_exceeded_witness:
  "daily_spend_aggregate 9 (run sample_config
     [EvSubmit sample_request 1, EvApprove 2 ''spend-review-s1'',
      EvRelease (sample_env 5) ''spend-hold-s1'' None] initial_state) \<le> 10000"
  using daily_cap_never_exceeded[of sample_config
     "[EvSubmit sample_request 1, EvApprove 2 ''spend-review-s1'',
      EvRelease (sample_env 5) ''spend-hold-s1'' None]" 0 9]
  by (simp add: sample_config_def sample_request_def sample_env_def)

section \<open>Recovery\<close>



section \<open>Charging\<close>

text \<open>
  C3. When the request is known, justified, unlocked and within the cap, and \<^verbatim>\<open>link-cli\<close> opens a
  session, releasing its HOLD charges exactly once (one line, with the request's amount, at the
  time of the charge), unless the last HOLD decision on the purchase is a release that was
  initiated; then nothing is charged. The status of the request plays no part.
\<close>

theorem release_charges_unless_initiated:
  assumes "release_ready cfg env sid r l st" and "py_replace hold_prefix [] aid = sid"
  shows "spend_lines (snd (handle_hold_release cfg env aid op st)) =
           (if already_released sid (log_lines st) then spend_lines st
            else spend_lines st @ [SEntry (spend_id (heap st r)) (Some l) (Some (now_spend env))
                                     (amount_cents (heap st r))])"
  using handle_hold_release_charges[OF assms] by (simp add: charge_line_def)

lemma queued_state_ready:
  "release_ready sample_config (sample_env 5) ''s1'' 0 ''lsrq_1'' queued_state"
  by (simp add: release_ready_def queued_state_def sample_defs exec_defs session_of_def get_str_opt_def)

theorem release_charges_unless_initiated_witness:
  "spend_lines (snd (handle_hold_release sample_config (sample_env 5) ''spend-hold-s1'' None queued_state))
     = [SEntry ''s1'' (Some ''lsrq_1'') (Some 5) 2000]"
proof -
  have "\<not> already_released ''s1'' (log_lines queued_state)"
    by (simp add: queued_state_def sample_defs exec_defs already_released_def)
  moreover have "spend_lines queued_state = []" "spend_id (heap queued_state 0) = ''s1''"
    "amount_cents (heap queued_state 0) = 2000"
    by (simp_all add: queued_state_def sample_defs exec_defs)
  ultimately show ?thesis
    using release_charges_unless_initiated[OF queued_state_ready, of "''spend-hold-s1''" None]
    by (simp add: hold_prefix_def sample_env_def)
qed

text \<open>
  Idempotency: once a release has ended with the request released, releasing again, whatever
  \<^verbatim>\<open>link-cli\<close>, the clock and the operator are by then, charges nothing, decides nothing and starts
  no thread, and leaves the request released.
\<close>

theorem release_twice_charges_once:
  assumes "handle_hold_release cfg env aid op st = (Inr r, st1)"
    and "status (heap st1 r) = Released" and "py_replace hold_prefix [] aid \<noteq> []"
    and "locks st (py_replace hold_prefix [] aid) = None"
    and "handle_hold_release cfg' env' aid op' st1 = (res, st2)"
  shows "res = Inr r \<and> status (heap st2 r) = Released \<and> spend_lines st2 = spend_lines st1 \<and>
         log_lines st2 = log_lines st1 \<and> polls st2 = polls st1"
  using assms(1)
proof (cases rule: handle_hold_release_cases)
  case (body r' st1' st2' st3)
  let ?sid = "py_replace hold_prefix [] aid"
  have r': "r' = r"
    using body(4) by (auto simp: release_body_def cap_step_def create_step_def notify_step_def Let_def
        split: option.splits cli_outcome.splits if_splits)
  have heap: "heap st2' = heap st1'" "requests st2' = requests st1'"
    using acquire_lock_frame[OF body(3)] by simp_all
  have rel: "already_released ?sid (log_lines st1)"
    using release_body_released[OF body(4)] assms(2,3) body(5) r' by simp
  have "requests st3 = requests st2' \<and> justification (heap st3 r) = justification (heap st2' r)"
    using body(4) by (auto simp: release_body_def cap_step_def create_step_def notify_step_def Let_def
        record_session_def split: option.splits cli_outcome.splits if_splits)
  then have "requests st1 ?sid = Some r" "validate_justification (heap st1 r) = None"
    using body(1,2,5) heap r' get_request_ref_requests[OF body(1)]
    by simp_all
  then show ?thesis
    using release_again[OF _ _ _ rel refl assms(5)] body(5) by simp
next
  case (invalid r' st1')
  then show ?thesis using assms(2) by simp
qed simp_all

text \<open>
  C5. The HOLD gate can be passed after it was closed: a purchase that the operator has just
  cancelled (so that its status is \<open>cancelled\<close>) is still charged when a release for it arrives.
\<close>

theorem cancelled_hold_still_charges:
  assumes "release_ready cfg env sid r l st" and "\<not> py_in hold_prefix sid" and "sid \<noteq> []"
    and "handle_hold_cancel now (hold_prefix @ sid) reason st = (res, st1)"
  shows "status (heap st1 r) = Cancelled \<and>
         spend_lines (snd (handle_hold_release cfg env (hold_prefix @ sid) op st1)) =
           spend_lines st @ [SEntry (spend_id (heap st r)) (Some l) (Some (now_spend env))
                               (amount_cents (heap st r))]"
proof -
  have strip: "py_replace hold_prefix [] (hold_prefix @ sid) = sid"
    using assms(2) by (rule strip_hold)
  have st1: "st1 = log_decision (mk_decision (hold_prefix @ sid) sid ''hold'' ''cancel'' now ''operator''
      [(''reason'', JStr reason)]) (set_status r Cancelled st)"
    using assms(1,4) by (auto simp: handle_hold_cancel_def strip release_ready_def)
  have ready: "release_ready cfg env sid r l st1"
    using assms(1) by (simp add: st1 release_ready_def daily_spend_aggregate_def)
  have "\<not> already_released sid (log_lines st1)"
    using assms(3) by (simp add: st1 already_released_def find_prior_release_append release_actions_def)
  then show ?thesis using handle_hold_release_charges[OF ready strip]
    by (simp add: st1 charge_line_def)
qed

theorem cancelled_hold_still_charges_witness:
  "spend_lines (snd (handle_hold_release sample_config (sample_env 5) ''spend-hold-s1'' None
      (snd (handle_hold_cancel 4 ''spend-hold-s1'' ''no'' queued_state))))
   = spend_lines queued_state @ [SEntry (spend_id (heap queued_state 0)) (Some ''lsrq_1'') (Some 5)
       (amount_cents (heap queued_state 0))]"
proof -
  obtain res st1 where h: "handle_hold_cancel 4 (hold_prefix @ ''s1'') ''no'' queued_state = (res, st1)"
    by (cases "handle_hold_cancel 4 (hold_prefix @ ''s1'') ''no'' queued_state")
  show ?thesis using cancelled_hold_still_charges[OF queued_state_ready _ _ h] h
    by (simp add: hold_prefix_def sample_env_def)
qed

text \<open>
  The idempotency check forgets a completed purchase: after the polling thread has logged the
  approval of the phone, a second release of the same HOLD opens a new session and charges again.
\<close>

theorem approved_purchase_charged_again:
  assumes "release_ready cfg env sid r l st" and "\<not> py_in hold_prefix sid" and "sid \<noteq> []"
    and "spend_id (heap st r) = sid" and "p_request p = r"
    and "poll_loop max_attempts stop ans 0 = PollDecided ''purchase_approved'' k"
  shows "status (heap (poll_spend_request stop ans now p st) r) = Released \<and>
         spend_lines (snd (handle_hold_release cfg env (hold_prefix @ sid) op
           (poll_spend_request stop ans now p st))) =
           spend_lines st @ [SEntry sid (Some l) (Some (now_spend env)) (amount_cents (heap st r))]"
proof -
  let ?st1 = "poll_spend_request stop ans now p st"
  have strip: "py_replace hold_prefix [] (hold_prefix @ sid) = sid"
    using assms(2) by (rule strip_hold)
  have heap: "heap ?st1 r = (heap st r)\<lparr>status := Released\<rparr>"
    and fields: "requests ?st1 = requests st" "locks ?st1 = locks st" "spend_lines ?st1 = spend_lines st"
    using assms(4-6) by (simp_all add: poll_spend_request_def Let_def)
  have ready: "release_ready cfg env sid r l ?st1"
    using assms(1) by (simp add: heap fields release_ready_def daily_spend_aggregate_def)
  have "\<not> already_released sid (log_lines ?st1)"
    using assms(3-6)
    by (simp add: poll_spend_request_def Let_def already_released_def find_prior_release_append
        release_actions_def)
  then show ?thesis using handle_hold_release_charges[OF ready strip] assms(4)
    by (simp add: heap fields charge_line_def)
qed

definition approving :: "nat \<Rightarrow> cli_outcome" where
  "approving k = CliExit 0 (Some (JObj [(''status'', JStr ''approved'')])) []"

lemma approving_loop:
  "poll_loop max_attempts (\<lambda>_. False) approving 0 = PollDecided ''purchase_approved'' 1"
  by (simp add: max_attempts_def numeral_eq_Suc approving_def poll_verdict_def get_str_opt_def)

section \<open>The lock\<close>

text \<open>
  A release never leaves a lock behind: when no lock file for the purchase exists before it,
  none exists after it, and the other locks are untouched, on every path, errors of
  \<^verbatim>\<open>link-cli\<close> included.
\<close>

theorem release_leaves_no_lock:
  assumes "locks st (py_replace hold_prefix [] aid) = None"
  shows "locks (snd (handle_hold_release cfg env aid op st)) = locks st"
  using handle_hold_release_locks[OF _ assms, of cfg env op] by (metis prod.collapse)

text \<open>
  Mutual exclusion: while a live process holds the lock file of a purchase, a release of that
  purchase is refused with an error and changes nothing, so it cannot charge.
\<close>

theorem live_lock_excludes:
  assumes "requests st sid = Some r" and "validate_justification (heap st r) = None"
    and "locks st sid = Some (LockPid (Some n))" and "n \<noteq> 0" and "pid_alive env n"
    and "py_replace hold_prefix [] aid = sid"
  shows "handle_hold_release cfg env aid op st = (Inl (ErrLocked sid), st)"
  using assms by (simp add: handle_hold_release_def acquire_lock_def lock_holder_alive_def Let_def)

section \<open>The polling thread\<close>

text \<open>
  The polling loop reports an approval at attempt \<open>k\<close> exactly when \<open>k\<close> is one of the 150
  attempts, the shutdown event was not set before it, every earlier answer was undecided and
  \<^verbatim>\<open>link-cli\<close> answered at attempt \<open>k\<close> that the phone approved.
\<close>

theorem poll_approves_iff:
  "poll_loop max_attempts stop ans 0 = PollDecided ''purchase_approved'' k \<longleftrightarrow>
     1 \<le> k \<and> k \<le> 150 \<and> (\<forall>i. i < k \<longrightarrow> \<not> stop i) \<and>
     (\<forall>i. 0 < i \<and> i < k \<longrightarrow> undecided (ans i)) \<and> approves (ans k)"
  using poll_loop_approved[of max_attempts stop ans 0 k] by (auto simp: max_attempts_def)

theorem poll_approves_iff_witness:
  "poll_loop max_attempts (\<lambda>_. False) approving 0 = PollDecided ''purchase_approved'' 1"
  by (rule poll_approves_iff[THEN iffD2])
     (simp add: approves_def approving_def poll_verdict_def get_str_opt_def)

text \<open>
  One call of \<^verbatim>\<open>link-cli\<close> that takes longer than its time limit ends the polling thread without
  a verdict: the thread is gone, and neither the request nor any log says so.
\<close>

theorem poll_timeout_loses_the_verdict:
  assumes "i < length (polls st)" and "k < max_attempts"
    and "\<forall>j. j \<le> k \<longrightarrow> \<not> stop j" and "\<forall>j. j < k \<longrightarrow> undecided (ans (Suc j))"
    and "ans (Suc k) = CliTimeout"
  shows "finish_poll i stop ans now st = st\<lparr>polls := take i (polls st) @ drop (Suc i) (polls st)\<rparr>"
proof -
  obtain n where n: "max_attempts = k + Suc n" using assms(2) by (metis less_iff_Suc_add add_Suc_right)
  have "poll_loop max_attempts stop ans 0 = poll_loop (Suc n) stop ans (0 + k)"
    unfolding n by (rule poll_loop_skip) (use assms(3,4) in auto)
  also have "\<dots> = PollDied (Suc k)" using assms(3,5) by simp
  finally show ?thesis using assms(1) by (simp add: finish_poll_def poll_spend_request_def)
qed

section \<open>Logs and REVIEW\<close>

text \<open>
  Audit trail: no operation, thread or restart removes, changes or reorders a line of
  \<^verbatim>\<open>decisions.log\<close>; every run only appends.
\<close>

theorem decisions_log_append_only:
  "prefix (log_lines st) (log_lines (run cfg es st))"
  using log_ext_run by (simp add: log_ext_def)

text \<open>
  Submitting a purchase for review enters it in the dictionary, charges nothing and logs one
  decision: beyond the daily cap the request is blocked, the decision says so and no War Room card
  appears; within it the status stays and a REVIEW card is shown when the bridge is there.
\<close>

theorem queue_spend_review_spec:
  assumes "spend_id (heap st r) \<noteq> []" and "queue_spend_review cfg now r st = (aid, st')"
    and "over \<longleftrightarrow> daily_spend_aggregate now st + amount_cents (heap st r) > daily_spend_cap_cents cfg"
  shows "aid = ''spend-review-'' @ spend_id (heap st r) \<and>
    requests st' = (requests st)(spend_id (heap st r) \<mapsto> r) \<and>
    heap st' = (heap st)(r := if over then (heap st r)\<lparr>status := Blocked\<rparr> else heap st r) \<and>
    spend_lines st' = spend_lines st \<and>
    (\<exists>d. log_lines st' = log_lines st @ [LDec d] \<and> d_spend_id d = Some (spend_id (heap st r)) \<and>
         d_stage d = ''review'' \<and> d_action_type d = (if over then ''auto_blocked'' else ''queued'')) \<and>
    cards st' = cards st @
       (if over \<or> \<not> warroom_bridge_available cfg then []
        else [\<lparr>wc_action_id = aid, wc_mode = ''REVIEW'', wc_action_type = ''spend_review''\<rparr>])"
proof (cases over)
  case True
  then have "daily_spend_cap_cents cfg < daily_spend_aggregate now st + amount_cents (heap st r)"
    using assms(3) by simp
  then show ?thesis using assms(1,2) True
    by (auto simp: queue_spend_review_def Let_def review_prefix_def daily_spend_aggregate_def fun_eq_iff)
next
  case False
  then have "\<not> daily_spend_cap_cents cfg < daily_spend_aggregate now st + amount_cents (heap st r)"
    using assms(3) by simp
  then show ?thesis using assms(1,2) False
    by (auto simp: queue_spend_review_def Let_def review_prefix_def daily_spend_aggregate_def
        fun_eq_iff)
qed

text \<open>
  An edit of the amount does not survive a restart: the object has the new amount, the log
  records the edit, and yet the request rebuilt from the log has the amount of the first submission.
\<close>

theorem edit_lost_on_restart:
  assumes "requests st sid = Some r" and "py_replace review_prefix [] aid = sid"
    and "LBad \<notin> set (log_lines st)" and "first_queued sid (log_lines st) = Some d"
    and "d_stage d = ''review''" and "100 \<le> length just" and "sid \<noteq> []"
    and "handle_review_edit now aid amt just st = (res, st1)"
    and "get_request_ref sid now' (st1\<lparr>requests := Map.empty\<rparr>) = (res', st2)"
  shows "amount_cents (heap st1 r) = amt \<and>
    (\<exists>r'. res' = Inr r' \<and> amount_cents (heap st2 r') = get_int (d_details d) ''amount_cents'' 0)"
proof -
  let ?e = "mk_decision aid sid ''review'' ''edit'' now ''operator''
    [(''amount_cents'', JInt amt), (''justification'', JStr just)]"
  have st1: "st1 = log_decision ?e
      (upd_request r (\<lambda>rq. rq\<lparr>amount_cents := amt, justification := just\<rparr>) st)"
    using assms(1,2,6,8)
    by (auto simp: handle_review_edit_def Let_def validate_justification_def
        LINK_CLI_MIN_CONTEXT_LENGTH_def)
  have bad: "LBad \<notin> set (log_lines st1)" using assms(3) by (simp add: st1)
  have fq: "first_queued sid (log_lines st1) = Some d"
    using assms(4,7) by (simp add: st1 first_queued_append)
  obtain idx where "scan_queued sid now' (log_lines st1) (lsrq_index st1)
      = (Some (request_of_review sid now' (d_details d)), idx)"
    using scan_queued_first[OF bad fq assms(5)] by blast
  then show ?thesis using assms(9)
    by (auto simp: st1 get_request_ref_def alloc_def request_of_review_def)
qed

end
