(* ===== verification/Bridge_Props.thy ===== *)
theory Bridge_Props
  imports Spend_Bridge Spend_Props
begin

text \<open>
  What the operator's queue adds to the spend handler: every charge of a session is paid for by an
  approval of its own, an action is decided once, and the ways in which a wrong key loses a
  purchase or misreports a charge.
\<close>

section \<open>Progress of a session\<close>

definition charges :: "bridge \<Rightarrow> nat" where
  "charges b = length (spend_lines (br_handler b))"

definition advances :: "bridge \<Rightarrow> bridge \<Rightarrow> bool" where
  "advances b b' \<longleftrightarrow> wf_warroom (br_room b') \<and> settled_ids (br_room b) \<subseteq> settled_ids (br_room b') \<and>
     charges b' + approved_count (br_room b) \<le> charges b + approved_count (br_room b')"

lemma advances_refl: "wf_warroom (br_room b) \<Longrightarrow> advances b b"
  by (simp add: advances_def)

lemma advances_trans: "advances b b1 \<Longrightarrow> advances b1 b2 \<Longrightarrow> advances b b2"
  by (auto simp: advances_def)

text \<open>The dictionaries of the bridge play no part.\<close>

lemma advances_handler:
  "wf_warroom (br_room b) \<Longrightarrow> br_room b' = br_room b \<Longrightarrow>
     spend_lines (br_handler b') = spend_lines (br_handler b) \<Longrightarrow> advances b b'"
  by (simp add: advances_def charges_def)

lemma advances_queue:
  assumes "wf_warroom (br_room b)" and "new_id i b" and "queue_action now i c t p (br_room b) = (a, w)"
    and "br_room b' = w" and "spend_lines (br_handler b') = spend_lines (br_handler b)"
  shows "advances b b'"
proof -
  have "i \<notin> waiting_ids (br_room b) \<union> settled_ids (br_room b)" using assms(2) by (simp add: new_id_def)
  from queue_action_laws[OF assms(1) this assms(3)] show ?thesis
    using assms(4,5) by (simp add: advances_def charges_def)
qed

lemma advances_block:
  assumes "wf_warroom (br_room b)" and "block_action now wid reason (br_room b) = (act, w)"
    and "spend_lines h = spend_lines (br_handler b)"
  shows "advances b (b\<lparr>br_room := w, br_handler := h\<rparr>)"
  using wr.ref_ok[OF assms(1), of now wid reason] wr.ref_settled[OF assms(1), of now wid reason]
    wr.ref_counts[OF assms(1), of now wid reason] assms(2,3)
  by (simp add: advances_def charges_def)

text \<open>An approval leaves room for one charge.\<close>

lemma advances_approve:
  assumes "wf_warroom (br_room b)" and "approve_action now wid (br_room b) = (Some a, w)"
    and "length (spend_lines h) \<le> Suc (charges b)"
  shows "advances b (b\<lparr>br_room := w, br_handler := h\<rparr>)"
proof -
  have "wid \<in> waiting_ids (br_room b)"
    using wr.app_absent[of wid "br_room b" now] assms(2) by (cases "wid \<in> waiting_ids (br_room b)") auto
  then show ?thesis
    using wr.app_ok[OF assms(1), of now wid] wr.app_settled[OF assms(1), of now wid]
      wr.app_counts[OF assms(1), of now wid] assms(2,3)
    by (simp add: advances_def charges_def)
qed

lemma advances_execute_review:
  assumes "wf_warroom (br_room b)" and "new_id i b"
  shows "advances b (execute_review cfg now now_w i aid b)"
proof -
  obtain res h where rev: "handle_review_approve cfg now aid (br_handler b) = (res, h)"
    by (cases "handle_review_approve cfg now aid (br_handler b)")
  have h: "spend_lines h = spend_lines (br_handler b)"
    using handle_review_approve_spend_lines[of cfg now aid "br_handler b"] rev by simp
  obtain res' h1 where ref: "get_request_ref (py_replace review_prefix [] aid) now h = (res', h1)"
    by (cases "get_request_ref (py_replace review_prefix [] aid) now h")
  have h1: "spend_lines h1 = spend_lines (br_handler b)"
    using get_request_ref_frame[OF ref] h by simp
  show ?thesis
    by (auto simp: execute_review_def rev ref h h1 split: sum.split prod.split
        intro: advances_handler[OF assms(1)] advances_queue[OF assms])
qed

lemma bridge_step_advances:
  assumes "bridge_step cfg b b'" and "wf_warroom (br_room b)"
  shows "advances b b'"
  using assms
proof (induction rule: bridge_step.induct)
  case (Submit i b rq r h now now_w)
  obtain aid h' where sub: "queue_spend_review cfg now r h = (aid, h')"
    by (cases "queue_spend_review cfg now r h")
  have "spend_lines h' = spend_lines (br_handler b)"
    using queue_spend_review_spend_lines[of cfg now r h] sub Submit.hyps(2) by (auto simp: alloc_def)
  then show ?case
    by (auto simp: submit_spend_request_def sub split: prod.split
        intro: advances_handler[OF Submit.prems] advances_queue[OF Submit.prems Submit.hyps(1)])
next
  case (Approve i b now_d now now_w wid)
  show ?case
  proof (cases "tracked (br_review b) (br_room b) wid")
    case (Some aid)
    obtain act w where app: "approve_action now_d wid (br_room b) = (act, w)"
      by (cases "approve_action now_d wid (br_room b)")
    show ?thesis
    proof (cases act)
      case None
      then have "w = br_room b"
        using app by (auto simp: approve_action_settle split: option.splits)
      then show ?thesis using app Some None Approve.prems
        by (simp add: approve_review_def handle_approve_def advances_refl)
    next
      case (Some a)
      let ?b1 = "b\<lparr>br_room := w\<rparr>"
      have step: "advances b ?b1"
        using advances_approve[OF Approve.prems app[unfolded Some], of "br_handler b"]
        by (simp add: charges_def)
      have "new_id i ?b1"
        using Approve.hyps wr.app_known[OF Approve.prems, of now_d wid] app by (simp add: new_id_def)
      with step have "advances ?b1 (execute_review cfg now now_w i aid ?b1)"
        by (intro advances_execute_review) (simp_all add: advances_def)
      then show ?thesis
        using advances_trans[OF step] app Some \<open>tracked (br_review b) (br_room b) wid = Some aid\<close>
        by (simp add: approve_review_def handle_approve_def)
    qed
  qed (use Approve.prems in \<open>simp add: approve_review_def advances_refl\<close>)
next
  case (Block b now_d now wid reason)
  have "spend_lines h = spend_lines (br_handler b)"
    if "handle_review_block now aid reason (br_handler b) = (res, h)" for aid res h
    using handle_review_block_spend_lines[of now aid reason "br_handler b"] that by simp
  then show ?case using Block advances_refl[OF Block] advances_block[OF Block]
    by (auto simp: block_review_def split: option.split prod.split sum.split)
next
  case (Release b now_d env wid)
  show ?case
  proof (cases "tracked (br_hold b) (br_room b) wid")
    case (Some aid)
    obtain act w where app: "approve_action now_d wid (br_room b) = (act, w)"
      by (cases "approve_action now_d wid (br_room b)")
    obtain res h where rel: "handle_hold_release cfg env aid (Some (w_operator w)) (br_handler b) = (res, h)"
      by (cases "handle_hold_release cfg env aid (Some (w_operator w)) (br_handler b)")
    have "length (spend_lines h) \<le> Suc (charges b)"
      using handle_hold_release_at_most_one[of cfg env aid "Some (w_operator w)" "br_handler b"] rel
      by (simp add: charges_def)
    then have some: "act = Some a \<Longrightarrow> advances b (b\<lparr>br_room := w, br_handler := h\<rparr>)" for a
      using advances_approve[OF Release] app by blast
    have none: "act = None \<Longrightarrow> w = br_room b"
      using app by (auto simp: approve_action_settle split: option.splits)
    show ?thesis using Some app rel some none advances_refl[OF Release]
      by (auto simp: release_hold_def handle_approve_def execute_release_def split: option.splits sum.split)
  qed (use Release in \<open>simp add: release_hold_def advances_refl\<close>)
next
  case (Cancel b now_d now wid reason)
  have "spend_lines h = spend_lines (br_handler b)"
    if "handle_hold_cancel now aid reason (br_handler b) = (res, h)" for aid res h
    using handle_hold_cancel_spend_lines[of now aid reason "br_handler b"] that by simp
  then show ?case using Cancel advances_refl[OF Cancel] advances_block[OF Cancel]
    by (auto simp: cancel_hold_def split: option.split prod.split sum.split)
next
  case (Thread b k stop ans now)
  show ?case by (rule advances_handler[OF Thread]) (simp_all add: finish_poll_def Let_def)
qed

lemma bridge_reach_advances:
  assumes "bridge_reach cfg b b'" and "wf_warroom (br_room b)"
  shows "advances b b'"
  using assms
proof (induction rule: bridge_reach.induct)
  case (Step b0 b1 b2)
  then have first: "advances b0 b1" by blast
  then have "advances b1 b2"
    using bridge_step_advances[OF Step.hyps(2)] by (simp add: advances_def)
  with first show ?case by (rule advances_trans)
qed (rule advances_refl)

section \<open>Properties of the queue\<close>

text \<open>
  C7. The War Room queue, whatever is entered under distinct identifiers and decided in whatever
  order: HOLD actions stand before REVIEW actions, everything in the queue is pending, no AUTO
  action ever waits, and each action that was entered is in the queue or among the processed ones.
\<close>

theorem warroom_run_invariant:
  assumes "distinct (entered ops)"
    and "w = run_ops enter_action (approve_action now) (block_action now) ops (new_warroom op modes)"
  shows "sorted (map a_priority (w_queue w)) \<and> get_pending None w = w_queue w \<and>
    auto_count (get_stats w) = 0 \<and> waiting_ids w \<union> settled_ids w = set (entered ops) \<and>
    waiting_ids w \<inter> settled_ids w = {} \<and>
    w_auto w = filter (\<lambda>a. a_status a = AAutoExecuted) (w_processed w)"
proof -
  let ?w0 = "new_warroom op modes"
  have w0: "wf_warroom ?w0" "waiting_ids ?w0 = {}" "settled_ids ?w0 = {}"
    by (simp_all add: new_warroom_def wf_warroom_def waiting_ids_def settled_ids_def)
  then have run: "wf_warroom w" "waiting_ids w \<union> settled_ids w = set (entered ops)"
    using wr.run_ok[OF w0(1) assms(1), of now] assms(2) by auto
  then have "\<forall>a\<in>set (w_queue w). a_status a = APending \<and> a_priority a \<noteq> PAuto"
    by (simp add: wf_warroom_def)
  then have pending: "get_pending None w = w_queue w"
    by (simp add: get_pending_def)
  moreover have "auto_count (get_stats w) = 0"
    using run(1) by (auto simp: get_stats_def pending Let_def filter_empty_conv wf_warroom_def)
  ultimately show ?thesis
    using run wr.disjoint[OF run(1)] by (simp add: wf_warroom_def)
qed

definition sample_modes :: "string \<rightharpoonup> (string \<rightharpoonup> string)" where
  "sample_modes = [''finance'' \<mapsto> [''spend_review'' \<mapsto> ''REVIEW'', ''spend_hold'' \<mapsto> ''HOLD'', ''report'' \<mapsto> ''AUTO'']]"

theorem warroom_run_invariant_witness:
  "get_pending None (run_ops enter_action (approve_action 5) (block_action 5)
     [Enter ''w1'' (''finance'', ''spend_review'', [], 1), Enter ''w2'' (''finance'', ''spend_hold'', [], 2),
      Approve ''w1''] (new_warroom None (Some sample_modes)))
   = w_queue (run_ops enter_action (approve_action 5) (block_action 5)
     [Enter ''w1'' (''finance'', ''spend_review'', [], 1), Enter ''w2'' (''finance'', ''spend_hold'', [], 2),
      Approve ''w1''] (new_warroom None (Some sample_modes)))"
  by (rule warroom_run_invariant[OF _ refl, THEN conjunct2, THEN conjunct1]) simp

text \<open>
  A new action stands behind every waiting action of its own priority, and the order of the
  others is unchanged; an AUTO action is executed at once and leaves the queue as it was.
\<close>

theorem queue_action_order:
  assumes "wf_warroom w" and "i \<notin> waiting_ids w \<union> settled_ids w"
    and "queue_action now i c t p w = (a, w')"
  shows "if get_action_priority w c t = PAuto
     then w_queue w' = w_queue w \<and> w_auto w' = w_auto w @ [a] \<and> a_status a = AAutoExecuted
     else a_status a = APending \<and> a_priority a = get_action_priority w c t \<and>
       sorted (map a_priority (w_queue w')) \<and>
       (\<forall>q. filter (\<lambda>x. a_priority x = q) (w_queue w') =
            filter (\<lambda>x. a_priority x = q) (w_queue w) @ (if a_priority a = q then [a] else []))"
proof (cases "get_action_priority w c t = PAuto")
  case True
  have i: "i \<notin> waiting_ids w" using assms(2) by simp
  show ?thesis
    using queue_action_eq[OF assms(1) i, of now c t p] assms(3) queued_auto_settled[OF assms(1) i True] True
    by (auto simp: Let_def settle_def)
next
  case False
  have i: "i \<notin> waiting_ids w" using assms(2) by simp
  have "a = new_action now i c t p w" "w' = queued (new_action now i c t p w) w"
    using queue_action_eq[OF assms(1) i, of now c t p] assms(3) False by auto
  then show ?thesis using False
    by (simp add: sort_queue_fields) (simp add: sort_queue_def sort_key_stable)
qed

definition sample_room :: warroom where
  "sample_room = snd (queue_action 4 ''w2'' ''finance'' ''spend_hold''
     [(''spend_action_id'', JStr ''spend-hold-s1'')] (new_warroom None (Some sample_modes)))"

lemma sample_room_eq:
  "sample_room = \<lparr>w_operator = ''operator'', w_modes = sample_modes,
     w_queue = [\<lparr>a_id = ''w2'', a_claw = ''finance'', a_type = ''spend_hold'', a_priority = PHold,
        a_status = APending, a_payload = [(''spend_action_id'', JStr ''spend-hold-s1'')],
        a_created = 4, a_decided = None, a_decision = None\<rparr>],
     w_processed = [], w_auto = [],
     w_events = [''w2'' \<mapsto> \<lparr>e_claw = ''finance'', e_type = ''spend_hold'', e_priority = PHold,
        e_payload = [(''spend_action_id'', JStr ''spend-hold-s1'')]\<rparr>]\<rparr>"
  by (simp add: sample_room_def queue_action_def new_warroom_def get_action_priority_def sample_modes_def
      sort_queue_def emit_action_event_def Let_def)

lemma sample_room_facts:
  "wf_warroom sample_room" "waiting_ids sample_room = {''w2''}" "settled_ids sample_room = {}"
  by (simp_all add: sample_room_eq wf_warroom_def waiting_ids_def settled_ids_def)

section \<open>Properties of the bridge\<close>

text \<open>
  C6. No charge without an approval of its own: in a session that starts with an empty War Room,
  whatever is submitted, approved, blocked, released or cancelled in whatever order, the handler
  has charged at most once per action the operator approved.
\<close>

theorem every_charge_has_an_approval:
  assumes "bridge_reach cfg (new_bridge h (new_warroom op modes)) b"
  shows "length (spend_lines (br_handler b)) \<le> length (spend_lines h) + approved_count (br_room b)"
  using bridge_reach_advances[OF assms]
  by (simp add: advances_def new_bridge_def charges_def approved_count_def wf_warroom_def new_warroom_def)

definition sample_bridge :: bridge where
  "sample_bridge = (new_bridge queued_state sample_room)\<lparr>br_hold := [''w2'' \<mapsto> ''spend-hold-s1'']\<rparr>"

theorem every_charge_has_an_approval_witness:
  "length (spend_lines (br_handler (snd (release_hold sample_config 5 (sample_env 5) ''w2''
      (new_bridge queued_state (new_warroom None None))))))
   \<le> length (spend_lines queued_state) + approved_count (br_room (snd (release_hold sample_config 5
        (sample_env 5) ''w2'' (new_bridge queued_state (new_warroom None None)))))"
  by (rule every_charge_has_an_approval) (rule Step[OF Start Release])

text \<open>
  A HOLD action is released at most once: after a release that found the action, and whatever
  happens in the session afterwards, releasing the same action again finds nothing and changes
  nothing, so the handler is not called.
\<close>

theorem released_action_released_once:
  assumes "wf_warroom (br_room b)" and "release_hold cfg now env wid b = ((Some a, out), b1)"
    and "bridge_reach cfg b1 b2"
  shows "release_hold cfg now' env' wid b2 = ((None, None), b2)"
proof -
  have "wid \<in> settled_ids (br_room b1)"
    using assms(1,2) find_action_Some
    by (fastforce simp: release_hold_def handle_approve_def execute_release_def approve_action_settle
        settle_def settled_ids_def split: option.splits prod.splits sum.splits)
  moreover have "wf_warroom (br_room b1)"
    using bridge_step_advances[OF Release assms(1), of cfg now env wid] assms(2) by (simp add: advances_def)
  ultimately have "wf_warroom (br_room b2)" "wid \<in> settled_ids (br_room b2)"
    using bridge_reach_advances[OF assms(3)] by (auto simp: advances_def)
  then have "approve_action now' wid (br_room b2) = (None, br_room b2)"
    using wr.disjoint wr.app_absent by blast
  then show ?thesis
    by (simp add: release_hold_def handle_approve_def split: option.split)
qed

lemma sample_release:
  "\<exists>a out b1. release_hold sample_config 5 (sample_env 5) ''w2'' sample_bridge = ((Some a, out), b1)"
  by (auto simp: release_hold_def handle_approve_def sample_bridge_def new_bridge_def sample_room_eq tracked_def
      approve_action_def find_action_def Let_def split: prod.split)

text \<open>
  The release key on a REVIEW action loses the purchase: the bridge takes the action identifier
  from the payload, the War Room approves the action, the handler does not know the purchase under
  that identifier and the error is only logged. Nothing is charged, and the action can no longer be
  approved.
\<close>

theorem release_key_on_review_loses_purchase:
  assumes "wf_warroom (br_room b)" and "wid \<in> waiting_ids (br_room b)"
    and "br_hold b wid = None" and "find_action_payload (br_room b) wid = Some p"
    and "get_str_opt p ''spend_action_id'' = Some aid" and "aid \<noteq> []"
    and "get_request_ref (py_replace hold_prefix [] aid) (now_start env) (br_handler b) = (Inl e, h)"
    and "release_hold cfg now env wid b = (res, b1)"
  shows "(\<exists>a. res = (Some a, None)) \<and> spend_lines (br_handler b1) = spend_lines (br_handler b) \<and>
    approve_review cfg now2 now3 now4 i wid b1 = (None, b1)"
proof -
  have "p \<noteq> []" using assms(5) by (auto simp: get_str_opt_def)
  then have track: "tracked (br_hold b) (br_room b) wid = Some aid"
    using assms(3-6) by (simp add: tracked_def)
  obtain a w where app: "approve_action now wid (br_room b) = (Some a, w)" "waiting_ids w = waiting_ids (br_room b) - {wid}"
    using wr.app_waiting[OF assms(1,2), of now] by blast
  have "handle_hold_release cfg env aid (Some (w_operator w)) (br_handler b) = (Inl e, h)"
    using assms(7) by (simp add: handle_hold_release_def Let_def)
  then have b1: "b1 = b\<lparr>br_room := w, br_handler := h\<rparr>" "res = (Some a, None)"
    using assms(8) track app(1) by (auto simp: release_hold_def handle_approve_def execute_release_def)
  have "approve_action now2 wid w = (None, w)" using wr.app_absent[of wid w now2] app(2) by simp
  then show ?thesis using get_request_ref_frame(9)[OF assms(7)] b1
    by (simp add: approve_review_def handle_approve_def split: option.split)
qed

text \<open>
  The block key on a HOLD action that was already released still reaches the handler: the War
  Room reports that the action is gone, yet the request is marked cancelled and the decision log
  gets a cancellation, while the charge stays in the spend log.
\<close>

theorem cancel_after_release_recorded:
  assumes "wid \<notin> waiting_ids (br_room b)" and "br_hold b wid = Some (hold_prefix @ sid)"
    and "\<not> py_in hold_prefix sid" and "sid \<noteq> []" and "requests (br_handler b) sid = Some r"
    and "cancel_hold now_d now wid reason b = (res, b')"
  shows "res = Inr None \<and> br_room b' = br_room b \<and>
    status (heap (br_handler b') r) = Cancelled \<and>
    spend_lines (br_handler b') = spend_lines (br_handler b) \<and>
    (\<exists>d. log_lines (br_handler b') = log_lines (br_handler b) @ [LDec d] \<and> d_spend_id d = Some sid \<and>
         d_action_type d = ''cancel'')"
proof -
  have strip: "py_replace hold_prefix [] (hold_prefix @ sid) = sid"
    using assms(3) by (rule strip_hold)
  have track: "tracked (br_hold b) (br_room b) wid = Some (hold_prefix @ sid)"
    using assms(2,4) by (simp add: tracked_def)
  have "block_action now_d wid reason (br_room b) = (None, br_room b)"
    using assms(1) by (rule wr.ref_absent)
  then show ?thesis using assms(4-6) track
    by (auto simp: cancel_hold_def handle_hold_cancel_def strip Let_def)
qed

end
