(* ===== verification/Contracts.thy ===== *)
theory Contracts
  imports Prelude
begin

text \<open>
  \<^verbatim>\<open>milimo-core/src/milimo_core/contracts.py\<close>: the typed messages between claws. A message is
  checked against the sets of roles and message types, the squad's routing matrix and the
  schema of its type. The result carries the reason as a value; the code renders it as a text.
  The matrix shipped in \<^verbatim>\<open>milimo-blueprint/mesh_config.yaml\<close> is here too.
\<close>

section \<open>Roles, message types, schemas\<close>

definition VALID_ROLES :: "string list" where
  "VALID_ROLES =
    [''content'', ''ops'', ''analytics'', ''finance'', ''build'', ''assistant'']"

definition VALID_MESSAGE_TYPES :: "string list" where
  "VALID_MESSAGE_TYPES =
    [''brief'', ''query'', ''response'', ''signal'', ''deliverable'', ''summary'',
      ''finance_summary'', ''draft_ready'', ''content_performance_query'', ''performance_signal'',
      ''brief_acknowledged'', ''deliverable_complete'', ''client_health_signal'',
      ''client_health_signal_ops'', ''revision_request'', ''feature_brief'',
      ''feature_brief_acknowledged'', ''deploy_complete'', ''shipping_summary'',
      ''behavior_query'', ''performance_intel'', ''retention_signals'', ''revenue_anomaly'',
      ''client_health_alert'', ''content_performance_response'', ''behavior_query_response'',
      ''pricing_query'', ''pricing_response'', ''invoice_ready'', ''payment_overdue'',
      ''project_complete'', ''project_brief'', ''client_onboarded'', ''revenue_summary'',
      ''tool_proposal'', ''overdue_alert'', ''assistant_query'', ''assistant_task'',
      ''assistant_response'', ''spend_request'', ''spend_review_decision'',
      ''spend_hold_decision'', ''hold_release'', ''review_approve'', ''review_reject'']"

definition VALID_SENDERS :: "string list" where
  "VALID_SENDERS = VALID_ROLES"

definition VALID_RECIPIENTS :: "string list" where
  "VALID_RECIPIENTS = VALID_ROLES @ [''war_room'']"

record message_schema =
  sender_roles :: "string list option"
  recipient_roles :: "string list option"
  required_payload :: "string list"
  optional_payload :: "string list"
  frequency :: string
  priority :: string
  sla_minutes :: "nat option"
  schedule :: "string option"

definition schema :: "string list option \<Rightarrow> string list option \<Rightarrow> string list \<Rightarrow> string list \<Rightarrow> string
    \<Rightarrow> string \<Rightarrow> nat option \<Rightarrow> string option \<Rightarrow> message_schema" where
  "schema sdr rcp req opt frq pri sla sch =
     \<lparr>sender_roles = sdr, recipient_roles = rcp, required_payload = req, optional_payload = opt,
      frequency = frq, priority = pri, sla_minutes = sla, schedule = sch\<rparr>"

definition schemas_1 :: "(string \<times> message_schema) list" where
  "schemas_1 =
    [(''spend_request'',
       schema (Some [''build'', ''ops'', ''content'', ''assistant'']) (Some [''finance''])
         [''merchant_name'', ''merchant_url'', ''amount_cents'', ''justification''] [''spend_id'',
         ''currency'', ''payment_method_id'', ''credential_type''] ''on_event'' ''REVIEW'' (None)
         (None)),
     (''spend_review_decision'',
       schema (Some [''assistant'', ''war_room'']) (Some [''finance'']) [''action_id'',
         ''decision''] [''amount_cents'', ''justification'', ''reason''] ''on_event'' ''AUTO''
         (None) (None)),
     (''spend_hold_decision'',
       schema (Some [''assistant'', ''war_room'']) (Some [''finance'']) [''action_id'',
         ''decision''] [''reason'', ''operator_id'', ''approver''] ''on_event'' ''AUTO'' (None)
         (None)),
     (''hold_release'',
       schema (Some [''assistant'', ''war_room'']) (Some [''finance'']) [] [''payment_id'',
         ''action_id'', ''operator_id'', ''approver'', ''notes''] ''on_event'' ''AUTO'' (None)
         (None)),
     (''review_approve'',
       schema (Some [''assistant'', ''war_room'']) (Some [''finance'']) [] [''invoice_id'',
         ''project_id'', ''action_id'', ''operator_id''] ''on_event'' ''AUTO'' (None) (None)),
     (''review_reject'',
       schema (Some [''assistant'', ''war_room'']) (Some [''finance'']) [] [''invoice_id'',
         ''project_id'', ''action_id'', ''reason'', ''operator_id''] ''on_event'' ''AUTO'' (None)
         (None)),
     (''draft_ready'',
       schema (Some [''content'']) (Some [''war_room'']) [''draft_id'', ''platform'',
         ''content_type''] [''client_id'', ''project_id'', ''brief_id'', ''approval_probability'',
         ''variants_count'', ''tone'', ''scheduled_time'', ''has_variant_b''] ''on_event''
         ''REVIEW'' (None) (None)),
     (''brief'',
       schema (Some [''ops'']) (Some [''content'']) [''client_id'', ''project_id'',
         ''brief_text'', ''deadline'', ''tone_requirements'', ''platform_targets''] []
         ''on_event'' ''REVIEW'' (None) (None)),
     (''deliverable_complete'',
       schema (Some [''content'']) (Some [''ops'']) [''project_id'', ''published_urls'']
         [''brief_id'', ''client_id'', ''performance_baseline'', ''completed_at''] ''on_event''
         ''AUTO'' (None) (None))]"


definition schemas_2 :: "(string \<times> message_schema) list" where
  "schemas_2 =
    [(''content_performance_query'',
       schema (Some [''content'']) (Some [''analytics'']) [''query''] [''lookback_days'',
         ''platform''] ''weekly'' ''AUTO'' (None) (Some ''monday_06:00'')),
     (''performance_signal'',
       schema (Some [''content'']) (Some [''analytics'']) [''post_id'', ''platform'',
         ''engagement_data'', ''publish_time'', ''content_type''] [''client_id''] ''on_event''
         ''AUTO'' (None) (None)),
     (''brief_acknowledged'',
       schema (Some [''content'']) (Some [''ops'']) [''project_id'',
         ''estimated_first_draft_time'', ''acknowledged_at''] [] ''on_event'' ''REVIEW'' (Some 5)
         (None)),
     (''client_health_signal'',
       schema (Some [''ops'', ''analytics'']) (Some [''content'']) [''client_id'',
         ''health_score'', ''recommended_action''] [''health_factors'', ''signals''] ''on_event''
         ''REVIEW'' (None) (None)),
     (''revision_request'',
       schema (Some [''ops'']) (Some [''content'']) [''project_id'', ''draft_id'',
         ''revision_notes'', ''deadline''] [] ''on_event'' ''REVIEW'' (None) (None)),
     (''finance_summary'',
       schema (Some [''finance'']) (Some [''war_room'']) [''week_revenue'']
         [''week_over_week_pct'', ''invoices_paid'', ''invoices_pending'', ''last_updated'']
         ''on_change'' ''AUTO'' (None) (None)),
     (''deploy_complete'',
       schema (Some [''build'']) (Some [''ops'']) [''deploy_id'', ''project_id''] [''version'',
         ''deployed_at'', ''environment''] ''on_event'' ''AUTO'' (None) (None)),
     (''shipping_summary'',
       schema (Some [''build'']) (Some [''content'']) [''summary''] [''features'', ''fixes'',
         ''week_end''] ''weekly'' ''AUTO'' (None) (None))]"


definition schemas_3 :: "(string \<times> message_schema) list" where
  "schemas_3 =
    [(''performance_intel'',
       schema (Some [''analytics'']) (Some [''content'']) [''report_id''] [''top_performers'',
         ''recommendations'', ''week_end''] ''weekly'' ''AUTO'' (None) (None)),
     (''retention_signals'',
       schema (Some [''analytics'']) (Some [''build'']) [''signal_type''] [''feature_id'',
         ''correlation'', ''recommendation''] ''on_event'' ''AUTO'' (None) (None)),
     (''client_health_signal_ops'',
       schema (Some [''analytics'']) (Some [''ops'']) [''client_id'', ''health_score'']
         [''recommended_action'', ''signals''] ''on_event'' ''REVIEW'' (None) (None)),
     (''client_health_alert'',
       schema (Some [''analytics'']) (Some [''ops'']) [''client_id'', ''health_score'',
         ''alert_type''] [''recommended_action'', ''signals'', ''triggered_at''] ''on_event''
         ''REVIEW'' (None) (None)),
     (''content_performance_response'',
       schema (Some [''analytics'']) (Some [''content'']) [''query_id'', ''results'']
         [''top_performers'', ''recommendations'', ''response_time_ms''] ''on_event'' ''AUTO''
         (Some 2) (None)),
     (''behavior_query_response'',
       schema (Some [''analytics'']) (Some [''build'']) [''query_id'', ''results'']
         [''feature_metrics'', ''user_behavior'', ''response_time_ms''] ''on_event'' ''AUTO''
         (Some 2) (None)),
     (''revenue_anomaly'',
       schema (Some [''analytics'']) (Some [''finance'']) [''anomaly_type'', ''detected_at'']
         [''severity'', ''details''] ''on_event'' ''REVIEW'' (None) (None)),
     (''pricing_response'',
       schema (Some [''finance'']) (Some [''ops'']) [''query_id'', ''floor'', ''ceiling'']
         [''notes'', ''valid_until''] ''on_event'' ''AUTO'' (None) (None)),
     (''invoice_ready'',
       schema (Some [''finance'']) (Some [''ops'']) [''invoice_id'', ''client_id'', ''amount'']
         [''due_date'', ''items''] ''on_event'' ''REVIEW'' (None) (None)),
     (''payment_overdue'',
       schema (Some [''finance'']) (Some [''ops'']) [''invoice_id'', ''client_id'',
         ''days_overdue''] [''amount'', ''last_contact''] ''on_event'' ''REVIEW'' (None) (None))]"


definition schemas_4 :: "(string \<times> message_schema) list" where
  "schemas_4 =
    [(''feature_brief'',
       schema (Some [''ops'']) (Some [''build'']) [''project_id'', ''feature_name'',
         ''description''] [''priority'', ''deadline'', ''client_id''] ''on_event'' ''REVIEW''
         (None) (None)),
     (''project_brief'',
       schema (Some [''ops'']) (Some [''content'', ''build'']) [''project_id'', ''client_id'',
         ''scope'', ''deadline''] [''tone_requirements'', ''platform_targets'', ''budget'',
         ''brief_text''] ''on_event'' ''REVIEW'' (None) (None)),
     (''revenue_summary'',
       schema (Some [''finance'']) (Some [''analytics'']) [''week_total'', ''invoices_paid'',
         ''invoices_pending''] [''week_over_week_pct'', ''period_start'', ''period_end'']
         ''weekly'' ''AUTO'' (None) (None)),
     (''project_complete'',
       schema (Some [''ops'']) (Some [''finance'']) [''project_id'', ''client_id'']
         [''completed_at'', ''final_amount''] ''on_event'' ''AUTO'' (None) (None)),
     (''pricing_query'',
       schema (Some [''ops'']) (Some [''finance'']) [''project_id'', ''scope_description'',
         ''complexity_estimate'', ''deadline''] [''client_id'', ''urgency''] ''on_event'' ''AUTO''
         (Some 10) (None)),
     (''client_onboarded'',
       schema (Some [''ops'']) (Some [''analytics'']) [''client_id'', ''niche'',
         ''project_type'', ''estimated_value''] [] ''on_event'' ''AUTO'' (None) (None)),
     (''behavior_query'',
       schema (Some [''build'']) (Some [''analytics'']) [''query''] [''feature_id'',
         ''time_range''] ''on_event'' ''AUTO'' (None) (None)),
     (''feature_brief_acknowledged'',
       schema (Some [''build'']) (Some [''ops'']) [''project_id'', ''estimated_start'',
         ''clarity_score''] [''missing_elements'', ''deadline_risk''] ''on_event'' ''AUTO'' (Some
         10) (None))]"


definition schemas_5 :: "(string \<times> message_schema) list" where
  "schemas_5 =
    [(''overdue_alert'',
       schema (Some [''finance'']) (Some [''war_room'']) [''invoice_id'', ''client_id'',
         ''amount'', ''days_overdue''] [''last_contact'', ''escalation_level''] ''on_event''
         ''REVIEW'' (None) (None)),
     (''assistant_query'',
       schema (Some [''assistant'']) (Some [''content'', ''ops'', ''analytics'', ''finance'',
         ''build'', ''assistant'']) [''query''] [''context'', ''priority_hint''] ''on_event''
         ''REVIEW'' (None) (None)),
     (''assistant_task'',
       schema (Some [''assistant'']) (Some [''content'', ''ops'', ''analytics'', ''finance'',
         ''build'', ''assistant'']) [''task_description'', ''deadline''] [''context'',
         ''priority_hint'', ''attachments''] ''on_event'' ''REVIEW'' (None) (None)),
     (''assistant_response'',
       schema (Some [''content'', ''ops'', ''analytics'', ''finance'', ''build'',
         ''assistant'']) (None) [''query_id'', ''response''] [''data'', ''confidence'',
         ''generated_at''] ''on_event'' ''AUTO'' (None) (None))]"


definition MESSAGE_TYPE_SCHEMAS :: "(string \<times> message_schema) list" where
  "MESSAGE_TYPE_SCHEMAS = schemas_1 @ schemas_2 @ schemas_3 @ schemas_4 @ schemas_5"

section \<open>Messages and results\<close>

record claw_message =
  sender_role :: string
  recipient_role :: string
  message_type :: string
  payload :: "json dict"
  squad_id :: string
  message_id :: string
  timestamp :: string

datatype reason =
    NoSchema string
  | SchemaSender string "string list" string
  | SchemaRecipient string "string list" string
  | MissingFields string "string list"
  | PassesSchema
  | InvalidSender string
  | InvalidRecipient string
  | InvalidType string
  | Unauthorized string string string "string list"
  | PassesAll

record validation_result =
  valid :: bool
  vr_reason :: reason
  vr_message_id :: string

definition result :: "bool \<Rightarrow> reason \<Rightarrow> claw_message \<Rightarrow> validation_result" where
  "result v why m = \<lparr>valid = v, vr_reason = why, vr_message_id = message_id m\<rparr>"

definition has_field :: "claw_message \<Rightarrow> string \<Rightarrow> bool" where
  "has_field m f = (map_of (payload m) f \<noteq> None)"

section \<open>Payload schema validation\<close>

text \<open>\<open>missing.remove(f)\<close> when \<open>f\<close> is missing and its older spelling is present.\<close>

definition forgive :: "claw_message \<Rightarrow> string \<Rightarrow> string \<Rightarrow> string list \<Rightarrow> string list" where
  "forgive m f alias missing =
     (if f \<in> set missing \<and> has_field m alias then remove1 f missing else missing)"

definition missing_fields :: "claw_message \<Rightarrow> string list \<Rightarrow> string list" where
  "missing_fields m required =
     (let m0 = filter (\<lambda>f. \<not> has_field m f) required;
          m1 = (if message_type m = ''assistant_response''
                then forgive m ''query_id'' ''original_message_id'' m0 else m0)
      in if message_type m = ''pricing_response''
         then forgive m ''ceiling'' ''ceiling_price''
                (forgive m ''floor'' ''floor_price'' (forgive m ''query_id'' ''project_id'' m1))
         else m1)"

definition bad_role :: "(string list \<Rightarrow> reason) \<Rightarrow> string list option \<Rightarrow> string \<Rightarrow> reason option" where
  "bad_role why roles r =
     (case roles of Some rs \<Rightarrow> if r \<notin> set rs then Some (why rs) else None | None \<Rightarrow> None)"

definition validate_payload_schema :: "claw_message \<Rightarrow> validation_result" where
  "validate_payload_schema m =
     (case map_of MESSAGE_TYPE_SCHEMAS (message_type m) of
        None \<Rightarrow> result True (NoSchema (message_type m)) m
      | Some s \<Rightarrow>
          (case bad_role (\<lambda>rs. SchemaSender (message_type m) rs (sender_role m))
                  (sender_roles s) (sender_role m) of
             Some why \<Rightarrow> result False why m
           | None \<Rightarrow>
               (case bad_role (\<lambda>rs. SchemaRecipient (message_type m) rs (recipient_role m))
                       (recipient_roles s) (recipient_role m) of
                  Some why \<Rightarrow> result False why m
                | None \<Rightarrow>
                    (let missing = missing_fields m (required_payload s) in
                     if missing \<noteq> [] then result False (MissingFields (message_type m) missing) m
                     else result True PassesSchema m))))"

section \<open>The contract validator\<close>

record type_config =
  description :: string
  tc_requires_approval :: bool

type_synonym matrix = "(string \<times> (string \<times> string list) list) list"

record contract_validator =
  v_matrix :: matrix
  v_types :: "string \<rightharpoonup> type_config"

text \<open>\<open>_from_dict\<close>: missing keys of a message type take their defaults.\<close>

record raw_type =
  raw_description :: "string option"
  raw_requires_approval :: "bool option"

definition type_config_of :: "raw_type \<Rightarrow> type_config" where
  "type_config_of raw =
     \<lparr>description = (case raw_description raw of Some d \<Rightarrow> d | None \<Rightarrow> []),
      tc_requires_approval = (case raw_requires_approval raw of Some b \<Rightarrow> b | None \<Rightarrow> False)\<rparr>"

definition from_dict :: "matrix option \<Rightarrow> (string \<times> raw_type) list option \<Rightarrow> contract_validator" where
  "from_dict raw_matrix raw_types =
     \<lparr>v_matrix = (case raw_matrix of Some m \<Rightarrow> m | None \<Rightarrow> []),
      v_types = (case raw_types of
                   Some ts \<Rightarrow> map_of (rev (map (\<lambda>(n, c). (n, type_config_of c)) ts))
                 | None \<Rightarrow> Map.empty)\<rparr>"

definition get_allowed_types :: "contract_validator \<Rightarrow> string \<Rightarrow> string \<Rightarrow> string list" where
  "get_allowed_types v s r =
     (case map_of (v_matrix v) s of
        None \<Rightarrow> []
      | Some routes \<Rightarrow> (case map_of routes r of None \<Rightarrow> [] | Some ts \<Rightarrow> ts))"

definition requires_approval :: "contract_validator \<Rightarrow> string \<Rightarrow> bool" where
  "requires_approval v t = (case v_types v t of Some c \<Rightarrow> tc_requires_approval c | None \<Rightarrow> False)"

fun senders_for :: "string \<Rightarrow> matrix \<Rightarrow> string list dict" where
  "senders_for r [] = []"
| "senders_for r ((s, routes) # rest) =
     (case map_of routes r of
        Some (t # ts) \<Rightarrow> (s, t # ts) # senders_for r rest
      | _ \<Rightarrow> senders_for r rest)"

definition get_all_senders_for :: "contract_validator \<Rightarrow> string \<Rightarrow> string list dict" where
  "get_all_senders_for v r = senders_for r (v_matrix v)"

definition validate :: "contract_validator \<Rightarrow> claw_message \<Rightarrow> validation_result" where
  "validate v m =
     (if sender_role m \<notin> set VALID_SENDERS then result False (InvalidSender (sender_role m)) m
      else if recipient_role m \<notin> set VALID_RECIPIENTS
      then result False (InvalidRecipient (recipient_role m)) m
      else if message_type m \<notin> set VALID_MESSAGE_TYPES
      then result False (InvalidType (message_type m)) m
      else (let allowed = get_allowed_types v (sender_role m) (recipient_role m) in
        if message_type m \<notin> set allowed
        then result False (Unauthorized (sender_role m) (message_type m) (recipient_role m) allowed) m
        else (let s = validate_payload_schema m in
          if \<not> valid s then s else result True PassesAll m)))"

section \<open>The shipped configuration\<close>

text \<open>\<^verbatim>\<open>milimo-blueprint/mesh_config.yaml\<close>: the matrix and the types that require approval.\<close>

definition shipped_matrix :: matrix where
  "shipped_matrix =
    [(''content'',
       [(''ops'', [''deliverable'', ''deliverable_complete'']),
        (''analytics'', [''query'', ''content_performance_query'', ''performance_signal'']),
        (''war_room'', [''draft_ready'']),
        (''assistant'', [''assistant_response'']),
        (''finance'', [''spend_request''])]),
     (''ops'',
       [(''content'', [''brief'', ''project_brief'', ''revision_request'']),
        (''finance'', [''query'', ''pricing_query'', ''project_complete'', ''spend_request'']),
        (''build'', [''brief'', ''feature_brief'']),
        (''analytics'', [''client_onboarded'']),
        (''war_room'', [''signal'', ''deliverable'']),
        (''assistant'', [''assistant_response''])]),
     (''analytics'',
       [(''content'', [''response'', ''summary'', ''performance_intel'',
          ''client_health_signal'']),
        (''ops'', [''signal'', ''client_health_signal_ops'']),
        (''finance'', [''summary'', ''revenue_anomaly'']),
        (''build'', [''response'', ''signal'', ''retention_signals'']),
        (''war_room'', [''signal'', ''summary'']),
        (''assistant'', [''assistant_response''])]),
     (''finance'',
       [(''ops'', [''response'', ''signal'', ''pricing_response'', ''invoice_ready'']),
        (''analytics'', [''summary'', ''revenue_summary'']),
        (''war_room'', [''signal'', ''deliverable'', ''finance_summary'', ''overdue_alert'',
          ''spend_hold_decision'', ''hold_release'']),
        (''assistant'', [''assistant_response''])]),
     (''build'',
       [(''ops'', [''signal'', ''deliverable'', ''deploy_complete'',
          ''feature_brief_acknowledged'']),
        (''analytics'', [''query'', ''behavior_query'']),
        (''content'', [''summary'', ''shipping_summary'']),
        (''war_room'', [''signal'', ''deliverable'', ''tool_proposal'']),
        (''assistant'', [''assistant_response'']),
        (''finance'', [''spend_request''])]),
     (''assistant'',
       [(''content'', [''assistant_query'', ''assistant_task'']),
        (''ops'', [''assistant_query'', ''assistant_task'']),
        (''analytics'', [''assistant_query'', ''assistant_task'']),
        (''finance'', [''assistant_query'', ''assistant_task'', ''spend_request'',
          ''spend_review_decision'', ''spend_hold_decision'', ''hold_release'',
          ''review_approve'', ''review_reject'']),
        (''build'', [''assistant_query'', ''assistant_task'']),
        (''war_room'', [''assistant_response''])])]"

definition shipped_approval_types :: "string list" where
  "shipped_approval_types = [''deliverable'', ''draft_ready'', ''invoice_ready'', ''tool_proposal'',
     ''spend_request'']"

definition shipped_validator :: contract_validator where
  "shipped_validator = from_dict (Some shipped_matrix)
     (Some (map (\<lambda>t. (t, \<lparr>raw_description = None, raw_requires_approval = Some True\<rparr>))
                shipped_approval_types))"

end
