(* ===== verification/Contract_Props.thy ===== *)
theory Contract_Props
  imports Contracts
begin

text \<open>
  What the contract validator lets through: an exact characterisation of \<open>validate\<close>, and what it
  means for the configuration shipped with the squad.
\<close>

section \<open>Required fields and their older spellings\<close>

definition aliases :: "string \<Rightarrow> string \<Rightarrow> string list" where
  "aliases t f =
     (if t = ''assistant_response'' \<and> f = ''query_id'' then [''original_message_id'']
      else if t = ''pricing_response'' \<and> f = ''query_id'' then [''project_id'']
      else if t = ''pricing_response'' \<and> f = ''floor'' then [''floor_price'']
      else if t = ''pricing_response'' \<and> f = ''ceiling'' then [''ceiling_price'']
      else [])"

definition field_given :: "claw_message \<Rightarrow> string \<Rightarrow> bool" where
  "field_given m f = (\<exists>a\<in>set (f # aliases (message_type m) f). has_field m a)"

definition role_ok :: "string list option \<Rightarrow> string \<Rightarrow> bool" where
  "role_ok roles r = (case roles of None \<Rightarrow> True | Some rs \<Rightarrow> r \<in> set rs)"

definition schema_roles_ok :: "string \<Rightarrow> string \<Rightarrow> string \<Rightarrow> bool" where
  "schema_roles_ok s r t =
     (case map_of MESSAGE_TYPE_SCHEMAS t of
        None \<Rightarrow> True | Some sc \<Rightarrow> role_ok (sender_roles sc) s \<and> role_ok (recipient_roles sc) r)"

definition required_of :: "string \<Rightarrow> string list" where
  "required_of t = (case map_of MESSAGE_TYPE_SCHEMAS t of None \<Rightarrow> [] | Some sc \<Rightarrow> required_payload sc)"

lemma set_forgive:
  "distinct missing \<Longrightarrow> set (forgive m f a missing) = {g \<in> set missing. \<not> (g = f \<and> has_field m a)}"
  by (auto simp: forgive_def)

lemma distinct_forgive: "distinct missing \<Longrightarrow> distinct (forgive m f a missing)"
  by (simp add: forgive_def distinct_remove1)

lemma missing_fields_empty:
  assumes "distinct req"
  shows "missing_fields m req = [] \<longleftrightarrow> (\<forall>f\<in>set req. field_given m f)"
proof -
  have "set (missing_fields m req) = {f \<in> set req. \<not> field_given m f}"
    using assms
    by (auto simp: missing_fields_def Let_def set_forgive distinct_forgive field_given_def aliases_def)
  then show ?thesis by (metis (mono_tags, lifting) empty_Collect_eq set_empty)
qed

lemma schemas_distinct: "list_all (\<lambda>(t, s). distinct (required_payload s)) MESSAGE_TYPE_SCHEMAS"
  by code_simp

lemma required_distinct: "distinct (required_of t)"
proof (cases "map_of MESSAGE_TYPE_SCHEMAS t")
  case (Some sc)
  then have "(t, sc) \<in> set MESSAGE_TYPE_SCHEMAS" by (rule map_of_SomeD)
  then show ?thesis using schemas_distinct Some by (auto simp: required_of_def list_all_iff)
qed (simp add: required_of_def)

lemma result_fields [simp]:
  "valid (result v why m) = v" "vr_reason (result v why m) = why"
  "vr_message_id (result v why m) = message_id m"
  by (simp_all add: result_def)

lemma bad_role_eq: "bad_role why roles r = (if role_ok roles r then None else Some (why (the roles)))"
  by (simp add: bad_role_def role_ok_def split: option.splits)

lemma valid_schema_iff:
  "valid (validate_payload_schema m) \<longleftrightarrow>
     schema_roles_ok (sender_role m) (recipient_role m) (message_type m) \<and>
     (\<forall>f\<in>set (required_of (message_type m)). field_given m f)"
proof (cases "map_of MESSAGE_TYPE_SCHEMAS (message_type m)")
  case (Some sc)
  then have "distinct (required_payload sc)" using required_distinct[of "message_type m"]
    by (simp add: required_of_def)
  then show ?thesis using Some
    by (auto simp: validate_payload_schema_def schema_roles_ok_def required_of_def Let_def
        missing_fields_empty bad_role_eq)
qed (simp add: validate_payload_schema_def schema_roles_ok_def required_of_def)

lemma valid_validate_iff:
  "valid (validate v m) \<longleftrightarrow>
     sender_role m \<in> set VALID_SENDERS \<and> recipient_role m \<in> set VALID_RECIPIENTS \<and>
     message_type m \<in> set VALID_MESSAGE_TYPES \<and>
     message_type m \<in> set (get_allowed_types v (sender_role m) (recipient_role m)) \<and>
     schema_roles_ok (sender_role m) (recipient_role m) (message_type m) \<and>
     (\<forall>f\<in>set (required_of (message_type m)). field_given m f)"
  by (simp add: validate_def Let_def valid_schema_iff)

text \<open>
  C4. The validator accepts a message exactly when its sender, recipient and type are known, the
  squad's matrix has the route, the schema of the type (if it has one) admits both roles, and the
  payload has every required field or the older spelling the validator still admits for it.
\<close>

theorem validate_accepts_iff:
  "valid (validate v m) \<longleftrightarrow>
     sender_role m \<in> set VALID_SENDERS \<and> recipient_role m \<in> set VALID_RECIPIENTS \<and>
     message_type m \<in> set VALID_MESSAGE_TYPES \<and>
     message_type m \<in> set (get_allowed_types v (sender_role m) (recipient_role m)) \<and>
     schema_roles_ok (sender_role m) (recipient_role m) (message_type m) \<and>
     (\<forall>f\<in>set (required_of (message_type m)). field_given m f)"
  by (rule valid_validate_iff)

theorem validate_accepts_iff_witness:
  "valid (validate shipped_validator \<lparr>sender_role = ''finance'', recipient_role = ''ops'',
     message_type = ''pricing_response'', payload = [(''project_id'', JNull), (''floor_price'', JInt 1),
     (''ceiling'', JInt 2)], squad_id = [], message_id = [], timestamp = []\<rparr>)"
  by (rule validate_accepts_iff[THEN iffD2]) code_simp

section \<open>The shipped configuration\<close>

definition routes :: "matrix \<Rightarrow> (string \<times> string \<times> string) list" where
  "routes mx = concat (map (\<lambda>(s, rs). concat (map (\<lambda>(r, ts). map (\<lambda>t. (s, r, t)) ts) rs)) mx)"

definition dead_routes :: "(string \<times> string \<times> string) list" where
  "dead_routes = [(''ops'', ''build'', ''brief''), (''finance'', ''war_room'', ''spend_hold_decision''),
     (''finance'', ''war_room'', ''hold_release'')]"

text \<open>A message whose payload has every required field.\<close>

definition complete_message :: "string \<Rightarrow> string \<Rightarrow> string \<Rightarrow> claw_message" where
  "complete_message s r t =
     \<lparr>sender_role = s, recipient_role = r, message_type = t,
      payload = map (\<lambda>f. (f, JNull)) (required_of t), squad_id = [], message_id = [], timestamp = []\<rparr>"

lemma allowed_in_routes:
  "t \<in> set (get_allowed_types v s r) \<Longrightarrow> (s, r, t) \<in> set (routes (v_matrix v))"
proof -
  assume t: "t \<in> set (get_allowed_types v s r)"
  then obtain rs ts where "map_of (v_matrix v) s = Some rs" "map_of rs r = Some ts" "t \<in> set ts"
    by (cases "map_of (v_matrix v) s"; cases "map_of (the (map_of (v_matrix v) s)) r")
      (auto simp: get_allowed_types_def)
  then have "(s, rs) \<in> set (v_matrix v)" "(r, ts) \<in> set rs" "t \<in> set ts"
    by (simp_all add: map_of_SomeD)
  then show ?thesis
    by (auto simp: routes_def intro!: bexI[of _ "(s, rs)"] bexI[of _ "(r, ts)"])
qed

lemma shipped_routes_roles:
  "list_all (\<lambda>(s, r, t). s \<in> set VALID_SENDERS \<and> r \<in> set VALID_RECIPIENTS) (routes shipped_matrix)"
  by code_simp

lemma shipped_routes_types:
  "list_all (\<lambda>(s, r, t). t \<in> set VALID_MESSAGE_TYPES) (routes shipped_matrix)"
  by (simp add: routes_def shipped_matrix_def VALID_MESSAGE_TYPES_def)

lemma routes_append: "routes (a @ b) = routes a @ routes b"
  by (simp add: routes_def)

lemma shipped_routes_schema:
  "filter (\<lambda>(s, r, t). \<not> schema_roles_ok s r t) (routes shipped_matrix) = dead_routes"
proof -
  let ?dead = "\<lambda>i. filter (\<lambda>(s, r, t). \<not> schema_roles_ok s r t) (routes [shipped_matrix ! i])"
  have split: "shipped_matrix = [shipped_matrix ! 0] @ [shipped_matrix ! 1] @ [shipped_matrix ! 2]
      @ [shipped_matrix ! 3] @ [shipped_matrix ! 4] @ [shipped_matrix ! 5]"
    by (simp add: shipped_matrix_def)
  have "?dead 0 = []" "?dead 1 = [(''ops'', ''build'', ''brief'')]" "?dead 2 = []"
    "?dead 3 = [(''finance'', ''war_room'', ''spend_hold_decision''), (''finance'', ''war_room'', ''hold_release'')]"
    "?dead 4 = []" "?dead 5 = []"
    by code_simp+
  then show ?thesis
    by (subst split) (simp add: routes_append filter_append dead_routes_def del: append.simps)
qed

lemma shipped_schema_iff:
  "(s, r, t) \<in> set (routes shipped_matrix) \<Longrightarrow> schema_roles_ok s r t \<longleftrightarrow> (s, r, t) \<notin> set dead_routes"
  unfolding shipped_routes_schema[symmetric] by simp

lemma shipped_matrix_of [simp]: "v_matrix shipped_validator = shipped_matrix"
  by (simp add: shipped_validator_def from_dict_def)

lemma complete_message_fields: "f \<in> set (required_of t) \<Longrightarrow> field_given (complete_message s r t) f"
  by (simp add: field_given_def has_field_def complete_message_def map_of_eq_None_iff image_iff)

lemma shipped_routes_allowed:
  "list_all (\<lambda>(s, r, t). t \<in> set (get_allowed_types shipped_validator s r)) (routes shipped_matrix)"
  by code_simp

lemma shipped_route_delivers:
  assumes "(s, r, t) \<in> set (routes shipped_matrix)" and "(s, r, t) \<notin> set dead_routes"
  shows "valid (validate shipped_validator (complete_message s r t))"
proof -
  have "s \<in> set VALID_SENDERS" "r \<in> set VALID_RECIPIENTS" "t \<in> set VALID_MESSAGE_TYPES"
    "t \<in> set (get_allowed_types shipped_validator s r)"
    using shipped_routes_roles shipped_routes_types shipped_routes_allowed assms(1)
    by (auto simp: list_all_iff)
  then show ?thesis
    using shipped_schema_iff[OF assms(1)] assms(2) complete_message_fields[of _ t s r]
    by (simp add: valid_validate_iff complete_message_def)
qed

text \<open>
  Three routes of the shipped matrix can never be used: the schema of the type refuses the
  sender or the recipient the matrix names. Every other route accepts a message with a complete
  payload.
\<close>

theorem shipped_dead_routes:
  assumes "t \<in> set (get_allowed_types shipped_validator s r)"
  shows "(\<exists>m. sender_role m = s \<and> recipient_role m = r \<and> message_type m = t
            \<and> valid (validate shipped_validator m)) \<longleftrightarrow> (s, r, t) \<notin> set dead_routes"
proof -
  have route: "(s, r, t) \<in> set (routes shipped_matrix)" using allowed_in_routes[OF assms] by simp
  show ?thesis
  proof
    assume "(s, r, t) \<notin> set dead_routes"
    from shipped_route_delivers[OF route this] show "\<exists>m. sender_role m = s \<and> recipient_role m = r \<and>
        message_type m = t \<and> valid (validate shipped_validator m)"
      by (intro exI[of _ "complete_message s r t"]) (simp add: complete_message_def)
  qed (use shipped_schema_iff[OF route] in \<open>auto simp: valid_validate_iff\<close>)
qed

definition live_types :: "string list" where
  "live_types = map (\<lambda>(s, r, t). t) (filter (\<lambda>x. x \<notin> set dead_routes) (routes shipped_matrix))"

lemma live_types_eq: "set live_types = {t. \<exists>s r. (s, r, t) \<in> set (routes shipped_matrix) \<and> (s, r, t) \<notin> set dead_routes}"
  by (force simp: live_types_def)

lemma undelivered_types:
  "filter (\<lambda>t. t \<notin> set live_types) VALID_MESSAGE_TYPES =
     [''brief_acknowledged'', ''client_health_alert'', ''content_performance_response'',
      ''behavior_query_response'', ''payment_overdue'']"
  by code_simp

lemma shipped_delivers_iff:
  "(\<exists>m. message_type m = t \<and> valid (validate shipped_validator m)) \<longleftrightarrow> t \<in> set live_types"
proof
  assume "\<exists>m. message_type m = t \<and> valid (validate shipped_validator m)"
  then obtain m where m: "message_type m = t" "valid (validate shipped_validator m)" by blast
  then have "(sender_role m, recipient_role m, t) \<in> set (routes shipped_matrix)"
    using allowed_in_routes[of t shipped_validator] by (simp add: valid_validate_iff)
  then show "t \<in> set live_types"
    using m shipped_schema_iff by (auto simp: valid_validate_iff live_types_eq)
next
  assume "t \<in> set live_types"
  then obtain s r where route: "(s, r, t) \<in> set (routes shipped_matrix)" and "(s, r, t) \<notin> set dead_routes"
    by (auto simp: live_types_eq)
  then have "valid (validate shipped_validator (complete_message s r t))"
    by (intro shipped_route_delivers)
  then show "\<exists>m. message_type m = t \<and> valid (validate shipped_validator m)"
    by (intro exI[of _ "complete_message s r t"]) (simp add: complete_message_def)
qed

text \<open>
  Under the shipped configuration five types of the vocabulary are never accepted, whoever
  sends them to whomever, the overdue notice that Finance sends to Ops among them; every other
  type can be sent.
\<close>

theorem shipped_undeliverable_types:
  "{t \<in> set VALID_MESSAGE_TYPES. \<not> (\<exists>m. message_type m = t \<and> valid (validate shipped_validator m))} =
     {''brief_acknowledged'', ''client_health_alert'', ''content_performance_response'',
      ''behavior_query_response'', ''payment_overdue''}"
proof -
  have "{t \<in> set VALID_MESSAGE_TYPES. t \<notin> set live_types}
      = set (filter (\<lambda>t. t \<notin> set live_types) VALID_MESSAGE_TYPES)"
    by simp
  also have "\<dots> = {''brief_acknowledged'', ''client_health_alert'', ''content_performance_response'',
      ''behavior_query_response'', ''payment_overdue''}"
    unfolding undelivered_types by simp
  finally show ?thesis by (simp add: shipped_delivers_iff)
qed

lemma decision_routes:
  "list_all (\<lambda>(s, r, t). t \<in> set [''spend_review_decision'', ''spend_hold_decision'',
       ''hold_release'', ''review_approve'', ''review_reject''] \<longrightarrow> (s, r) = (''assistant'', ''finance'') \<or> (s, r, t) \<in> set dead_routes)
     (routes shipped_matrix)"
  by code_simp

text \<open>
  The decisions of the operator on a purchase reach Finance from the assistant alone: under
  the shipped configuration no claw can approve, block, release or reject by a message.
\<close>

theorem operator_decisions_only_from_assistant:
  assumes "valid (validate shipped_validator m)"
    and "message_type m \<in> {''spend_review_decision'', ''spend_hold_decision'', ''hold_release'',
           ''review_approve'', ''review_reject''}"
  shows "sender_role m = ''assistant'' \<and> recipient_role m = ''finance''"
proof -
  have route: "(sender_role m, recipient_role m, message_type m) \<in> set (routes shipped_matrix)"
    using assms(1) allowed_in_routes[of "message_type m" shipped_validator] by (simp add: valid_validate_iff)
  moreover have "(sender_role m, recipient_role m, message_type m) \<notin> set dead_routes"
    using shipped_schema_iff[OF route] assms(1) by (simp add: valid_validate_iff)
  ultimately show ?thesis using decision_routes assms(2)
    by (auto simp: list_all_iff)
qed

end
