(* ===== verification/Routing.thy ===== *)
theory Routing
  imports Prelude
begin

text \<open>
  Where an inference call goes: the privacy router of
  \<^verbatim>\<open>milimo-core/src/milimo_core/privacy_router.py\<close>, the failover broker it asks
  (\<^verbatim>\<open>milimo-core/src/milimo_core/failover_broker.py\<close>), and the policy shipped in
  \<^verbatim>\<open>milimo-blueprint/privacy_policy.yaml\<close>. A latency is a number of nanoseconds, which the clock
  of the ping counts in; a failed ping has none and stands for the infinite latency of the code.
\<close>

section \<open>The failover broker\<close>

record broker =
  latency_threshold :: int
  cloud_model :: "string option"
  require_operator_approval :: bool
  failed_over :: bool
  failover_pending :: bool
  broker_approved :: bool
  env_model :: "string option"
  openshell_calls :: "string list list"

definition new_broker :: "int \<Rightarrow> string option \<Rightarrow> bool \<Rightarrow> string option \<Rightarrow> broker" where
  "new_broker threshold model need_approval env =
     \<lparr>latency_threshold = threshold, cloud_model = model, require_operator_approval = need_approval,
      failed_over = False, failover_pending = False, broker_approved = False,
      env_model = env, openshell_calls = []\<rparr>"

definition openshell_command :: "string \<Rightarrow> string \<Rightarrow> string list" where
  "openshell_command provider model =
     [''openshell'', ''inference'', ''set'', ''--provider'', provider, ''--model'', model]"

text \<open>The exit code of \<^verbatim>\<open>openshell\<close>, or its absence, changes only what is logged.\<close>

definition activate_cloud_routing :: "broker \<Rightarrow> broker" where
  "activate_cloud_routing b =
     (if \<not> truthy_str (cloud_model b) then b
      else b\<lparr>env_model := cloud_model b,
             openshell_calls := openshell_calls b
               @ [openshell_command ''nvidia-nim'' (the (cloud_model b))],
             failed_over := True\<rparr>)"

definition restore_local_routing :: "broker \<Rightarrow> broker" where
  "restore_local_routing b =
     b\<lparr>env_model := None,
       openshell_calls := openshell_calls b @ [openshell_command ''openai'' ''local-edge''],
       failed_over := False\<rparr>"

definition breached :: "broker \<Rightarrow> int option \<Rightarrow> bool" where
  "breached b latency = (case latency of None \<Rightarrow> True | Some l \<Rightarrow> l > latency_threshold b)"

definition evaluate_and_route :: "int option \<Rightarrow> broker \<Rightarrow> bool \<times> broker" where
  "evaluate_and_route latency b =
     (if breached b latency
      then (if \<not> failed_over b
            then (if require_operator_approval b
                  then (if \<not> broker_approved b
                        then (False, if \<not> failover_pending b then b\<lparr>failover_pending := True\<rparr> else b)
                        else (failed_over b, b))
                  else (let b1 = activate_cloud_routing b in (failed_over b1, b1)))
            else (failed_over b, b))
      else (let b1 = b\<lparr>failover_pending := False, broker_approved := False\<rparr>
            in (False, if failed_over b1 then restore_local_routing b1 else b1)))"

definition approve_failover :: "broker \<Rightarrow> broker" where
  "approve_failover b =
     (if failover_pending b \<and> \<not> failed_over b
      then activate_cloud_routing (b\<lparr>broker_approved := True, failover_pending := False\<rparr>)
      else b)"

definition deny_failover :: "broker \<Rightarrow> broker" where
  "deny_failover b =
     (if failover_pending b then b\<lparr>failover_pending := False, broker_approved := False\<rparr> else b)"

section \<open>The policy\<close>

datatype backend = CLOUD | LOCAL_NIM | LOCAL_VLLM

definition backend_of :: "string \<Rightarrow> backend option" where
  "backend_of s =
     (if s = ''cloud'' then Some CLOUD else if s = ''local-nim'' then Some LOCAL_NIM
      else if s = ''local-vllm'' then Some LOCAL_VLLM else None)"

fun backend_value :: "backend \<Rightarrow> string" where
  "backend_value CLOUD = ''cloud''"
| "backend_value LOCAL_NIM = ''local-nim''"
| "backend_value LOCAL_VLLM = ''local-vllm''"

record routing_rule =
  rule_type :: string
  rule_description :: string
  rule_backend :: backend
  rule_locked :: bool

record role_override =
  force_backend :: "backend option"
  cloud_allowed :: bool
  force_local_types :: "string list"

record privacy_policy =
  policy_version :: string
  default_backend :: backend
  policy_routes :: "routing_rule list"
  role_overrides :: "string \<rightharpoonup> role_override"
  log_unclassified :: bool

datatype route_reason =
    RoleForces string backend
  | RoleLocalType string string
  | RoleCloudBlocked string
  | PolicyRule string
  | Fallback string
  | FailedOver backend

record routing_decision =
  rd_backend :: backend
  rd_reason :: route_reason
  rd_rule :: "string option"
  rd_overridden :: bool

text \<open>Parsing: \<open>InferenceBackend(x)\<close> raises \<open>ValueError\<close> and \<open>r["data_type"]\<close> raises \<open>KeyError\<close>.\<close>

datatype policy_error = BadBackend string | MissingKey string

record raw_rule =
  raw_data_type :: "string option"
  raw_rule_description :: "string option"
  raw_backend :: "string option"
  raw_locked :: "bool option"

record raw_override =
  raw_force_backend :: "string option"
  raw_cloud_allowed :: "bool option"
  raw_force_local_types :: "string list option"

record raw_policy =
  raw_routes :: "raw_rule list"
  raw_overrides :: "raw_override dict"
  raw_version :: "string option"
  raw_default_backend :: "string option"
  raw_log_unclassified :: "bool option"

definition the_default :: "'a \<Rightarrow> 'a option \<Rightarrow> 'a" where
  "the_default d x = (case x of Some y \<Rightarrow> y | None \<Rightarrow> d)"

definition parse_backend :: "string \<Rightarrow> policy_error + backend" where
  "parse_backend s = (case backend_of s of Some b \<Rightarrow> Inr b | None \<Rightarrow> Inl (BadBackend s))"

definition parse_rule :: "raw_rule \<Rightarrow> policy_error + routing_rule" where
  "parse_rule r =
     (case raw_data_type r of
        None \<Rightarrow> Inl (MissingKey ''data_type'')
      | Some t \<Rightarrow>
          (case raw_backend r of
             None \<Rightarrow> Inl (MissingKey ''backend'')
           | Some s \<Rightarrow>
               (case parse_backend s of
                  Inl e \<Rightarrow> Inl e
                | Inr b \<Rightarrow> Inr \<lparr>rule_type = t, rule_description = the_default [] (raw_rule_description r),
                                rule_backend = b, rule_locked = the_default False (raw_locked r)\<rparr>)))"

fun parse_rules :: "raw_rule list \<Rightarrow> policy_error + routing_rule list" where
  "parse_rules [] = Inr []"
| "parse_rules (r # rs) =
     (case parse_rule r of
        Inl e \<Rightarrow> Inl e
      | Inr x \<Rightarrow> (case parse_rules rs of Inl e \<Rightarrow> Inl e | Inr xs \<Rightarrow> Inr (x # xs)))"

definition parse_override :: "raw_override \<Rightarrow> policy_error + role_override" where
  "parse_override ov =
     (let rest = (\<lambda>fb. \<lparr>force_backend = fb, cloud_allowed = the_default True (raw_cloud_allowed ov),
                        force_local_types = the_default [] (raw_force_local_types ov)\<rparr>)
      in case raw_force_backend ov of
           None \<Rightarrow> Inr (rest None)
         | Some s \<Rightarrow> (case parse_backend s of Inl e \<Rightarrow> Inl e | Inr b \<Rightarrow> Inr (rest (Some b))))"

fun parse_overrides :: "raw_override dict \<Rightarrow> (string \<rightharpoonup> role_override)
    \<Rightarrow> policy_error + (string \<rightharpoonup> role_override)" where
  "parse_overrides [] m = Inr m"
| "parse_overrides ((n, ov) # os) m =
     (case parse_override ov of Inl e \<Rightarrow> Inl e | Inr r \<Rightarrow> parse_overrides os (m(n \<mapsto> r)))"

definition parse_policy :: "raw_policy \<Rightarrow> policy_error + privacy_policy" where
  "parse_policy raw =
     (case parse_rules (raw_routes raw) of
        Inl e \<Rightarrow> Inl e
      | Inr rs \<Rightarrow>
          (case parse_overrides (raw_overrides raw) Map.empty of
             Inl e \<Rightarrow> Inl e
           | Inr os \<Rightarrow>
               (case parse_backend (the_default ''local-nim'' (raw_default_backend raw)) of
                  Inl e \<Rightarrow> Inl e
                | Inr b \<Rightarrow> Inr \<lparr>policy_version = the_default ''0.1.0'' (raw_version raw),
                                default_backend = b, policy_routes = rs, role_overrides = os,
                                log_unclassified = the_default True (raw_log_unclassified raw)\<rparr>)))"

section \<open>The router\<close>

text \<open>The index is a dictionary built from the list of rules: the last rule of a type stays.\<close>

definition route_index :: "privacy_policy \<Rightarrow> string \<rightharpoonup> routing_rule" where
  "route_index p = map_of (rev (map (\<lambda>r. (rule_type r, r)) (policy_routes p)))"

definition decision_of :: "backend \<Rightarrow> route_reason \<Rightarrow> string option \<Rightarrow> bool \<Rightarrow> routing_decision" where
  "decision_of b why rule over =
     \<lparr>rd_backend = b, rd_reason = why, rd_rule = rule, rd_overridden = over\<rparr>"

definition classify :: "privacy_policy \<Rightarrow> string \<Rightarrow> routing_decision" where
  "classify p t =
     (case route_index p t of
        Some r \<Rightarrow> decision_of (rule_backend r) (PolicyRule (rule_description r))
                    (Some (''route:'' @ rule_type r)) False
      | None \<Rightarrow> decision_of (default_backend p) (Fallback t) None False)"

definition resolve_route :: "privacy_policy \<Rightarrow> string \<Rightarrow> string \<Rightarrow> routing_decision" where
  "resolve_route p role t =
     (case role_overrides p role of
        None \<Rightarrow> classify p t
      | Some ov \<Rightarrow>
          (case force_backend ov of
             Some b \<Rightarrow> decision_of b (RoleForces role b) (Some (''role_override:'' @ role)) True
           | None \<Rightarrow>
               if t \<in> set (force_local_types ov)
               then decision_of LOCAL_NIM (RoleLocalType role t)
                      (Some (''role_override:'' @ role @ '':'' @ t)) True
               else if \<not> cloud_allowed ov \<and> map_option rule_backend (route_index p t) = Some CLOUD
               then decision_of LOCAL_NIM (RoleCloudBlocked role)
                      (Some (''role_cloud_block:'' @ role)) True
               else classify p t))"

text \<open>
  With a broker, a local decision asks it first. An exception of the broker is caught; the ping
  catches its own errors, so none is left here.
\<close>

definition route :: "privacy_policy \<Rightarrow> int option \<Rightarrow> string \<Rightarrow> string \<Rightarrow> broker option
    \<Rightarrow> routing_decision \<times> broker option" where
  "route p latency role t br =
     (let d = resolve_route p role t in
      case br of
        None \<Rightarrow> (d, None)
      | Some b \<Rightarrow>
          if rd_backend d = LOCAL_NIM \<or> rd_backend d = LOCAL_VLLM
          then (case evaluate_and_route latency b of
                  (cloud, b1) \<Rightarrow>
                    (if cloud then decision_of CLOUD (FailedOver (rd_backend d)) (rd_rule d) True else d,
                     Some b1))
          else (d, Some b))"

definition is_locked :: "privacy_policy \<Rightarrow> string \<Rightarrow> bool" where
  "is_locked p t = (case route_index p t of Some r \<Rightarrow> rule_locked r | None \<Rightarrow> False)"

definition list_routes :: "privacy_policy \<Rightarrow> (string \<times> string \<times> bool \<times> string) list" where
  "list_routes p =
     map (\<lambda>r. (rule_type r, backend_value (rule_backend r), rule_locked r, rule_description r))
       (policy_routes p)"

definition get_backend_for_role :: "privacy_policy \<Rightarrow> string \<Rightarrow> backend option" where
  "get_backend_for_role p role =
     (case role_overrides p role of Some ov \<Rightarrow> force_backend ov | None \<Rightarrow> None)"

datatype override_reason = NoRule | LockedRule string string | Overridable string

definition validate_squad_override :: "privacy_policy \<Rightarrow> string \<Rightarrow> string \<Rightarrow> bool \<times> override_reason" where
  "validate_squad_override p t new_backend =
     (case route_index p t of
        None \<Rightarrow> (True, NoRule)
      | Some r \<Rightarrow> if rule_locked r then (False, LockedRule t (rule_description r))
                  else (True, Overridable t))"

section \<open>The shipped policy\<close>

definition raw_route :: "string \<Rightarrow> string \<Rightarrow> string \<Rightarrow> bool \<Rightarrow> raw_rule" where
  "raw_route t d b l = \<lparr>raw_data_type = Some t, raw_rule_description = Some d, raw_backend = Some b,
     raw_locked = Some l\<rparr>"

definition shipped_routes :: "raw_rule list" where
  "shipped_routes =
    [raw_route ''financial_records'' ''Revenue, invoices, expenses, payment status'' ''local-nim'' True,
     raw_route ''payment_details'' ''Credit card numbers, bank account info, payment tokens'' ''local-nim'' True,
     raw_route ''pricing_strategy'' ''Rate calculations, margin analysis, cost estimation'' ''local-nim'' True,
     raw_route ''tax_data'' ''Tax categorization, filing data, tax reports'' ''local-nim'' True,
     raw_route ''personal_notes'' ''Private context, personal journal, relationship notes'' ''local-vllm'' True,
     raw_route ''credentials'' ''API keys, passwords, tokens, secrets'' ''local-vllm'' True,
     raw_route ''internal_comms'' ''Internal squad communications, DMs, strategy discussions'' ''local-nim'' False,
     raw_route ''client_contacts'' ''Client names, emails, phone numbers, addresses'' ''local-nim'' True,
     raw_route ''contract_review'' ''Contract terms, legal review, NDA content'' ''local-nim'' True,
     raw_route ''internal_drafts'' ''Internal brainstorming, ideation, rough drafts'' ''local-nim'' False,
     raw_route ''performance_synthesis'' ''Internal performance report generation'' ''local-nim'' False,
     raw_route ''predictive_modeling'' ''Models trained on proprietary squad data'' ''local-nim'' False,
     raw_route ''public_drafts'' ''Client-facing content drafts, proposals'' ''cloud'' False,
     raw_route ''client_communications'' ''Client-facing messages, emails, proposals'' ''cloud'' False,
     raw_route ''trend_research'' ''Trend analysis, market research, competitive intel'' ''cloud'' False,
     raw_route ''market_analysis'' ''Public market trends, industry analysis'' ''cloud'' False,
     raw_route ''scheduling'' ''Calendar optimization, meeting scheduling'' ''cloud'' False,
     raw_route ''boilerplate'' ''Template code, documentation, standard text'' ''cloud'' False]"

definition shipped_raw_policy :: raw_policy where
  "shipped_raw_policy = \<lparr>raw_routes = shipped_routes,
     raw_overrides =
       [(''finance'', \<lparr>raw_force_backend = Some ''local-nim'', raw_cloud_allowed = Some False,
                       raw_force_local_types = None\<rparr>),
        (''build'', \<lparr>raw_force_backend = None, raw_cloud_allowed = None,
                     raw_force_local_types = Some [''source_code'', ''production_logs'', ''deployment_secrets'']\<rparr>)],
     raw_version = Some ''0.1.0'', raw_default_backend = Some ''local-nim'', raw_log_unclassified = Some True\<rparr>"

end
