(* ===== verification/Routing_Props.thy ===== *)
theory Routing_Props
  imports Routing
begin

text \<open>
  Which backend the router can choose, what the failover broker needs before it leaves the local
  backend, and how the two together break the policy's promise that some data stays local.
\<close>

section \<open>Runs of the broker\<close>

datatype broker_event = Ping "int option" | ApproveFailover | DenyFailover

fun broker_step :: "broker_event \<Rightarrow> broker \<Rightarrow> broker" where
  "broker_step (Ping l) b = snd (evaluate_and_route l b)"
| "broker_step ApproveFailover b = approve_failover b"
| "broker_step DenyFailover b = deny_failover b"

fun broker_run :: "broker_event list \<Rightarrow> broker \<Rightarrow> broker" where
  "broker_run [] b = b"
| "broker_run (e # es) b = broker_run es (broker_step e b)"

lemma activate_fields [simp, frame_simps]:
  "require_operator_approval (activate_cloud_routing b) = require_operator_approval b"
  "cloud_model (activate_cloud_routing b) = cloud_model b"
  "broker_approved (activate_cloud_routing b) = broker_approved b"
  "failover_pending (activate_cloud_routing b) = failover_pending b"
  "failed_over (activate_cloud_routing b) = (truthy_str (cloud_model b) \<or> failed_over b)"
  "latency_threshold (activate_cloud_routing b) = latency_threshold b"
  "env_model (activate_cloud_routing b) =
     (if truthy_str (cloud_model b) then cloud_model b else env_model b)"
  by (simp_all add: activate_cloud_routing_def)

lemma breached_upd [simp]:
  "breached (b\<lparr>broker_approved := x, failover_pending := y\<rparr>) l = breached b l"
  by (simp add: breached_def split: option.split)

lemma restore_fields [simp, frame_simps]:
  "require_operator_approval (restore_local_routing b) = require_operator_approval b"
  "cloud_model (restore_local_routing b) = cloud_model b"
  "broker_approved (restore_local_routing b) = broker_approved b"
  "failover_pending (restore_local_routing b) = failover_pending b"
  "failed_over (restore_local_routing b) = False"
  "latency_threshold (restore_local_routing b) = latency_threshold b"
  "env_model (restore_local_routing b) = None"
  by (simp_all add: restore_local_routing_def)

text \<open>
  What every run keeps: a broker that failed over has a cloud model and the process environment
  names it, an approval is not pending any more, and a broker that needs approval and has none
  has not failed over.
\<close>

definition broker_inv :: "broker \<Rightarrow> bool" where
  "broker_inv b \<longleftrightarrow>
     (failed_over b \<longrightarrow> truthy_str (cloud_model b) \<and> env_model b = cloud_model b) \<and>
     (broker_approved b \<longrightarrow> \<not> failover_pending b \<and> require_operator_approval b) \<and>
     (failover_pending b \<longrightarrow> \<not> failed_over b \<and> require_operator_approval b) \<and>
     (require_operator_approval b \<longrightarrow> failed_over b \<longrightarrow> broker_approved b)"

lemma evaluate_inv: "broker_inv b \<Longrightarrow> broker_inv (snd (evaluate_and_route l b))"
  by (cases "breached b l"; cases "failed_over b"; cases "require_operator_approval b";
      cases "broker_approved b"; cases "failover_pending b")
     (simp_all add: broker_inv_def evaluate_and_route_def Let_def)

lemma broker_step_inv: "broker_inv b \<Longrightarrow> broker_inv (broker_step e b)"
  by (cases e; cases "failed_over b"; cases "require_operator_approval b"; cases "broker_approved b";
      cases "failover_pending b")
     (simp_all add: evaluate_inv broker_inv_def[of b] approve_failover_def deny_failover_def,
      simp_all add: broker_inv_def)

lemma broker_run_inv: "broker_inv b \<Longrightarrow> broker_inv (broker_run es b)"
  by (induction es arbitrary: b) (auto simp: broker_step_inv)

lemma broker_step_const [simp]:
  "require_operator_approval (broker_step e b) = require_operator_approval b"
  "cloud_model (broker_step e b) = cloud_model b"
  "latency_threshold (broker_step e b) = latency_threshold b"
  by (cases e; simp add: evaluate_and_route_def Let_def approve_failover_def deny_failover_def)+

lemma broker_run_const [simp]:
  "require_operator_approval (broker_run es b) = require_operator_approval b"
  "cloud_model (broker_run es b) = cloud_model b"
  by (induction es arbitrary: b) auto

lemma unapproved_step:
  assumes "require_operator_approval b" and "\<not> failed_over b" and "\<not> broker_approved b" and "e \<noteq> ApproveFailover"
  shows "\<not> failed_over (broker_step e b) \<and> \<not> broker_approved (broker_step e b)"
  using assms by (cases e) (auto simp: evaluate_and_route_def Let_def deny_failover_def)

text \<open>
  With operator approval required, no sequence of pings and denials ever takes the broker to
  the cloud: while the operator has not approved, it stays local, and every evaluation says so.
\<close>

theorem no_failover_without_approval:
  assumes "ApproveFailover \<notin> set es" and "b = broker_run es (new_broker threshold model True env)"
  shows "\<not> failed_over b \<and> \<not> fst (evaluate_and_route latency b)"
proof -
  have "\<not> failed_over (broker_run es b0) \<and> \<not> broker_approved (broker_run es b0)"
    if "require_operator_approval b0" "\<not> failed_over b0" "\<not> broker_approved b0" for b0
    using assms(1) that
  proof (induction es arbitrary: b0)
    case (Cons e es)
    then show ?case using unapproved_step[of b0 e] by auto
  qed simp
  from this[of "new_broker threshold model True env"] have "\<not> failed_over b" "\<not> broker_approved b"
    using assms(2) by (simp_all add: new_broker_def)
  moreover have "require_operator_approval b" using assms(2) by (simp add: new_broker_def)
  ultimately show ?thesis by (simp add: evaluate_and_route_def Let_def)
qed

text \<open>
  C31. After every run the route is consistent: a broker that failed over has a cloud model and the
  process environment names it, no request is pending while it is failed over, and one healthy
  ping brings it back to the local backend with the environment cleared and every flag down.
\<close>

theorem failover_consistent:
  assumes "b = broker_run es (new_broker threshold model need env)"
  shows "(failed_over b \<longrightarrow> truthy_str model \<and> env_model b = model \<and> \<not> failover_pending b \<and>
            (need \<longrightarrow> broker_approved b)) \<and>
    (l \<le> latency_threshold b \<longrightarrow>
       (case evaluate_and_route (Some l) b of (cloud, b') \<Rightarrow> \<not> cloud \<and> \<not> failed_over b' \<and>
          \<not> failover_pending b' \<and> \<not> broker_approved b' \<and> (failed_over b \<longrightarrow> env_model b' = None)))"
proof -
  have "broker_inv (new_broker threshold model need env)" by (simp add: broker_inv_def new_broker_def)
  then have inv: "broker_inv b" using broker_run_inv assms by blast
  have const: "cloud_model b = model" "require_operator_approval b = need"
    using assms by (simp_all add: new_broker_def)
  have "failed_over b \<longrightarrow> truthy_str model \<and> env_model b = model \<and> \<not> failover_pending b \<and>
      (need \<longrightarrow> broker_approved b)"
    using inv[unfolded broker_inv_def const] by blast
  moreover have "case evaluate_and_route (Some l) b of (cloud, b') \<Rightarrow> \<not> cloud \<and> \<not> failed_over b' \<and>
      \<not> failover_pending b' \<and> \<not> broker_approved b' \<and> (failed_over b \<longrightarrow> env_model b' = None)"
    if "l \<le> latency_threshold b"
  proof -
    have "\<not> breached b (Some l)" using that by (simp add: breached_def)
    then show ?thesis by (simp add: evaluate_and_route_def Let_def)
  qed
  ultimately show ?thesis by blast
qed

theorem failover_consistent_witness:
  "env_model (broker_run [Ping None, ApproveFailover] (new_broker 800 (Some ''m'') True None)) = Some ''m''"
proof -
  have "failed_over (broker_run [Ping None, ApproveFailover] (new_broker 800 (Some ''m'') True None))"
    by (simp add: new_broker_def evaluate_and_route_def breached_def approve_failover_def)
  then show ?thesis
    using failover_consistent[OF refl, of "[Ping None, ApproveFailover]" 800 "Some ''m''" True None] by blast
qed

text \<open>
  An approval without a configured cloud model silences the broker: the approval is recorded,
  nothing fails over, and from then on every breached ping stays local without asking the operator.
\<close>

theorem approval_without_model_silences:
  assumes "failover_pending b" and "\<not> failed_over b" and "require_operator_approval b"
    and "\<not> truthy_str (cloud_model b)" and "\<forall>l\<in>set ls. breached b l"
  shows "broker_run (ApproveFailover # map Ping ls) b = b\<lparr>broker_approved := True, failover_pending := False\<rparr>"
proof -
  let ?b1 = "b\<lparr>broker_approved := True, failover_pending := False\<rparr>"
  have "approve_failover b = ?b1"
    using assms(1,2,4) by (simp add: approve_failover_def activate_cloud_routing_def)
  moreover have "broker_run (map Ping ls) ?b1 = ?b1"
    using assms(5)
  proof (induction ls)
    case (Cons l ls)
    have "snd (evaluate_and_route l ?b1) = ?b1"
      using Cons.prems assms(2,3) by (simp add: evaluate_and_route_def)
    then show ?case using Cons by simp
  qed simp
  ultimately show ?thesis by simp
qed

section \<open>The router\<close>

text \<open>Where a call goes without a broker.\<close>

lemma classify_backend:
  "rd_backend (classify p t) =
     (case route_index p t of Some r \<Rightarrow> rule_backend r | None \<Rightarrow> default_backend p)"
  by (simp add: classify_def decision_of_def split: option.split)

text \<open>
  What the classification decides, on every branch: a forced backend of the role, then its
  local types, then the block of cloud rules for a role without cloud, then the last rule of the
  data type, then the default. A role that may not use the cloud still gets the default backend
  for unclassified data, the cloud included.
\<close>

theorem resolve_route_backend:
  "rd_backend (resolve_route p role t) =
     (let byrule = (case find (\<lambda>r. rule_type r = t) (rev (policy_routes p)) of
                      Some r \<Rightarrow> rule_backend r | None \<Rightarrow> default_backend p)
      in case role_overrides p role of
           None \<Rightarrow> byrule
         | Some ov \<Rightarrow>
             (case force_backend ov of
                Some b \<Rightarrow> b
              | None \<Rightarrow> if t \<in> set (force_local_types ov) then LOCAL_NIM
                        else if \<not> cloud_allowed ov \<and> byrule = CLOUD \<and> (\<exists>r\<in>set (policy_routes p). rule_type r = t)
                        then LOCAL_NIM else byrule))"
proof -
  have map_find: "map_of (map (\<lambda>r. (rule_type r, r)) rs) t = find (\<lambda>r. rule_type r = t) rs" for rs
    by (induction rs) auto
  have idx: "route_index p t = find (\<lambda>r. rule_type r = t) (rev (policy_routes p))"
    by (simp add: route_index_def rev_map map_find)
  have ex: "(\<exists>r\<in>set (policy_routes p). rule_type r = t) \<longleftrightarrow> route_index p t \<noteq> None"
    by (auto simp: idx find_None_iff)
  show ?thesis
    unfolding ex idx[symmetric]
    by (auto simp: resolve_route_def classify_backend decision_of_def Let_def split: option.splits)
qed

definition shipped_policy :: privacy_policy where
  "shipped_policy = (case parse_policy shipped_raw_policy of Inr p \<Rightarrow> p)"

lemma shipped_policy_fields:
  "\<exists>p. parse_policy shipped_raw_policy = Inr p"
  "role_overrides shipped_policy = [''finance'' \<mapsto> \<lparr>force_backend = Some LOCAL_NIM, cloud_allowed = False,
      force_local_types = []\<rparr>, ''build'' \<mapsto> \<lparr>force_backend = None, cloud_allowed = True,
      force_local_types = [''source_code'', ''production_logs'', ''deployment_secrets'']\<rparr>]"
  "default_backend shipped_policy = LOCAL_NIM"
  by (simp_all add: shipped_policy_def parse_policy_def shipped_raw_policy_def shipped_routes_def raw_route_def
      parse_rule_def parse_override_def parse_backend_def backend_of_def the_default_def Let_def)

lemma shipped_locked_local:
  "list_all (\<lambda>r. rule_locked r \<longrightarrow> rule_backend r \<noteq> CLOUD) (policy_routes shipped_policy)"
  by (simp add: shipped_policy_def parse_policy_def shipped_raw_policy_def shipped_routes_def raw_route_def
      parse_rule_def parse_override_def parse_backend_def backend_of_def the_default_def Let_def)

text \<open>
  The shipped policy without a broker keeps its promise: everything Finance asks and every
  locked data type, whoever asks, stays on a local backend.
\<close>

theorem shipped_policy_keeps_local:
  assumes "role = ''finance'' \<or> is_locked shipped_policy t"
  shows "rd_backend (fst (route shipped_policy latency role t None)) \<noteq> CLOUD"
proof (cases "role = ''finance''")
  case True
  then show ?thesis by (simp add: route_def resolve_route_def shipped_policy_fields decision_of_def)
next
  case False
  then obtain r where r: "route_index shipped_policy t = Some r" "rule_locked r"
    using assms by (auto simp: is_locked_def split: option.splits)
  then have "r \<in> set (policy_routes shipped_policy)"
    by (auto simp: route_index_def dest!: map_of_SomeD)
  then have "rule_backend r \<noteq> CLOUD" using shipped_locked_local r(2) by (simp add: list_all_iff)
  then show ?thesis using False r(1)
    by (auto simp: route_def resolve_route_def shipped_policy_fields decision_of_def classify_backend
        split: option.split)
qed

theorem shipped_policy_keeps_local_witness:
  "rd_backend (fst (route shipped_policy None ''finance'' ''trend_research'' None)) \<noteq> CLOUD"
  by (rule shipped_policy_keeps_local) simp

text \<open>
  With a broker the promise is broken: once the broker has failed over, a breached ping sends
  every call with a local decision to the cloud, whatever the role forces and however the data
  type is locked.
\<close>

theorem failover_overrides_locked_routes:
  assumes "failed_over b" and "breached b latency" and "rd_backend (resolve_route p role t) \<noteq> CLOUD"
  shows "rd_backend (fst (route p latency role t (Some b))) = CLOUD"
  using assms
  by (cases "rd_backend (resolve_route p role t)")
     (simp_all add: route_def evaluate_and_route_def decision_of_def)

theorem failover_overrides_locked_routes_witness:
  "is_locked shipped_policy ''payment_details'' \<and>
   rd_backend (fst (route shipped_policy None ''finance'' ''payment_details''
     (Some (broker_run [Ping None, ApproveFailover] (new_broker 800 (Some ''m'') True None))))) = CLOUD"
proof
  show "is_locked shipped_policy ''payment_details''" by code_simp
  show "rd_backend (fst (route shipped_policy None ''finance'' ''payment_details''
     (Some (broker_run [Ping None, ApproveFailover] (new_broker 800 (Some ''m'') True None))))) = CLOUD"
    by (rule failover_overrides_locked_routes)
       (simp_all add: new_broker_def evaluate_and_route_def breached_def approve_failover_def
         resolve_route_def shipped_policy_fields decision_of_def)
qed

end
