(* ===== verification/Mesh.thy ===== *)
theory Mesh
  imports Contracts Routing "HOL-Library.List_Lexorder" "HOL-Library.Char_ord"
begin

text \<open>
  \<^verbatim>\<open>milimo-blueprint/orchestrator/mesh.py\<close>: the squad mesh. A directory of message files is an
  association list from file names to contents; \<open>sorted(dir.glob(...))\<close> sorts it by name. The
  contract validator and the privacy router are the ones of their own theories. A connected
  gateway is an argument of the operations that send: the function that says whether a send
  succeeds. Messages are kept in the clear with a mark that says whether the file is encrypted.
\<close>

section \<open>State\<close>

record claw_node =
  n_address :: string
  n_status :: string
  n_registered :: int
  n_heartbeat :: "int option"
  n_failures :: nat

record inbox_entry =
  ib_message :: claw_message
  ib_needs_approval :: bool
  ib_encrypted :: bool

datatype outbox_entry = BadFile | Queued claw_message

datatype mesh_reason =
    ContractReason reason
  | NotRegistered string
  | HasStatus string string
  | QueuedInOutbox
  | SentToWarRoom
  | QueuedFileBased
  | SentViaGateway
  | GatewayError

record rejection =
  rj_sender :: string
  rj_recipient :: string
  rj_type :: string
  rj_reason :: mesh_reason

record mesh =
  m_validator :: contract_validator
  m_router :: "privacy_policy option"
  m_broker :: "broker option"
  m_squad :: string
  m_encryption :: bool
  m_memory_only :: bool
  m_nodes :: "claw_node dict"
  m_dirs :: "string set"
  m_outbox :: "outbox_entry dict"
  m_inbox :: "string \<Rightarrow> inbox_entry dict"
  m_delivered :: "inbox_entry dict"
  m_rejected :: "rejection dict"
  m_topology :: "(string \<times> string \<times> string) list option"

record delivery_result =
  dr_delivered :: bool
  dr_reason :: mesh_reason
  dr_message_id :: string
  dr_requires_approval :: bool

definition delivery :: "bool \<Rightarrow> mesh_reason \<Rightarrow> claw_message \<Rightarrow> bool \<Rightarrow> delivery_result" where
  "delivery ok why m appr =
     \<lparr>dr_delivered = ok, dr_reason = why, dr_message_id = message_id m, dr_requires_approval = appr\<rparr>"

section \<open>Construction\<close>

datatype transport = FileTransport | UnixTransport | WebsocketTransport

definition starts_with :: "string \<Rightarrow> string \<Rightarrow> bool" where
  "starts_with p s = (take (length p) s = p)"

definition transport_of :: "string \<Rightarrow> transport" where
  "transport_of endpoint =
     (if starts_with ''unix://'' endpoint then UnixTransport
      else if starts_with ''tcp://'' endpoint \<or> starts_with ''ws://'' endpoint then WebsocketTransport
      else FileTransport)"

text \<open>
  Outside development an empty secret stops the construction. \<open>crypto\<close> says whether the
  cryptography library is installed, \<open>disk\<close> whether the directories can be created.
\<close>

definition new_mesh :: "contract_validator \<Rightarrow> privacy_policy option \<Rightarrow> broker option \<Rightarrow> string
    \<Rightarrow> string option \<Rightarrow> string \<Rightarrow> bool \<Rightarrow> bool \<Rightarrow> mesh option" where
  "new_mesh v router br squad env secret crypto disk =
     (if py_lower (the_default ''production'' env) \<notin> {''development'', ''dev''} \<and> secret = [] then None
      else Some \<lparr>m_validator = v, m_router = router, m_broker = br, m_squad = squad,
                 m_encryption = (secret \<noteq> [] \<and> crypto), m_memory_only = \<not> disk, m_nodes = [],
                 m_dirs = {}, m_outbox = [], m_inbox = (\<lambda>_. []), m_delivered = [],
                 m_rejected = [], m_topology = None\<rparr>)"

section \<open>Registration and health\<close>

text \<open>\<open>_ensure_dir\<close> for the inbox of a role, on a disk that stays writable.\<close>

definition ensure_dir :: "string \<Rightarrow> mesh \<Rightarrow> mesh" where
  "ensure_dir role ms = (if m_memory_only ms then ms else ms\<lparr>m_dirs := insert role (m_dirs ms)\<rparr>)"

definition save_topology :: "mesh \<Rightarrow> mesh" where
  "save_topology ms =
     (if m_memory_only ms then ms
      else ms\<lparr>m_topology := Some (map (\<lambda>(r, n). (r, n_address n, n_status n)) (m_nodes ms))\<rparr>)"

definition register_claw :: "int \<Rightarrow> string \<Rightarrow> string \<Rightarrow> mesh \<Rightarrow> bool \<times> mesh" where
  "register_claw now role addr ms =
     (True, save_topology (ensure_dir role
        (ms\<lparr>m_nodes := AList.update role \<lparr>n_address = addr, n_status = ''online'', n_registered = now,
               n_heartbeat = None, n_failures = 0\<rparr> (m_nodes ms)\<rparr>)))"

definition unregister_claw :: "string \<Rightarrow> mesh \<Rightarrow> bool \<times> mesh" where
  "unregister_claw role ms =
     (if map_of (m_nodes ms) role = None then (False, ms)
      else (True, save_topology (ms\<lparr>m_nodes := AList.delete role (m_nodes ms)\<rparr>)))"

definition get_online_claws :: "mesh \<Rightarrow> string list" where
  "get_online_claws ms = map fst (filter (\<lambda>(r, n). n_status n = ''online'') (m_nodes ms))"

definition heartbeat :: "int \<Rightarrow> string \<Rightarrow> mesh \<Rightarrow> bool \<times> mesh" where
  "heartbeat now role ms =
     (case map_of (m_nodes ms) role of
        None \<Rightarrow> (False, ms)
      | Some n \<Rightarrow>
          (let n1 = n\<lparr>n_heartbeat := Some now, n_failures := 0\<rparr>;
               n2 = (if n_status n1 = ''unhealthy'' then n1\<lparr>n_status := ''online''\<rparr> else n1)
           in (True, save_topology (ms\<lparr>m_nodes := AList.update role n2 (m_nodes ms)\<rparr>))))"

definition mark_unhealthy :: "string \<Rightarrow> mesh \<Rightarrow> mesh" where
  "mark_unhealthy role ms =
     (case map_of (m_nodes ms) role of
        None \<Rightarrow> ms
      | Some n \<Rightarrow> save_topology (ms\<lparr>m_nodes := AList.update role
          (n\<lparr>n_failures := Suc (n_failures n), n_status := ''unhealthy''\<rparr>) (m_nodes ms)\<rparr>))"

definition set_node_status :: "string \<Rightarrow> string \<Rightarrow> mesh \<Rightarrow> bool \<times> mesh" where
  "set_node_status role s ms =
     (case map_of (m_nodes ms) role of
        None \<Rightarrow> (False, ms)
      | Some n \<Rightarrow> (True, save_topology (ms\<lparr>m_nodes := AList.update role (n\<lparr>n_status := s\<rparr>) (m_nodes ms)\<rparr>)))"

definition reachable_status :: "string \<Rightarrow> bool" where
  "reachable_status s = (s = ''online'' \<or> s = ''finals-mode'')"

section \<open>Files\<close>

definition file_name :: "claw_message \<Rightarrow> string" where
  "file_name m = py_replace '':'' ''-'' (timestamp m) @ ''_'' @ message_id m @ ''.json''"

definition write_inbox :: "string \<Rightarrow> string \<Rightarrow> inbox_entry \<Rightarrow> mesh \<Rightarrow> mesh" where
  "write_inbox role fn e ms =
     (if role \<in> m_dirs ms
      then ms\<lparr>m_inbox := (m_inbox ms)(role := AList.update fn e (m_inbox ms role))\<rparr> else ms)"

definition write_rejected :: "claw_message \<Rightarrow> mesh_reason \<Rightarrow> mesh \<Rightarrow> mesh" where
  "write_rejected m why ms =
     (if m_memory_only ms then ms
      else ms\<lparr>m_rejected := AList.update (file_name m)
             \<lparr>rj_sender = sender_role m, rj_recipient = recipient_role m, rj_type = message_type m,
              rj_reason = why\<rparr> (m_rejected ms)\<rparr>)"

text \<open>The War Room copy is written without encryption.\<close>

definition route_to_warroom :: "claw_message \<Rightarrow> mesh \<Rightarrow> delivery_result \<times> mesh" where
  "route_to_warroom m ms =
     (delivery True SentToWarRoom m True,
      write_inbox ''war_room'' (file_name m)
        \<lparr>ib_message = m, ib_needs_approval = True, ib_encrypted = False\<rparr> (ensure_dir ''war_room'' ms))"

definition write_message :: "claw_message \<Rightarrow> bool \<Rightarrow> mesh \<Rightarrow> mesh" where
  "write_message m appr ms =
     write_inbox (recipient_role m) (file_name m)
       \<lparr>ib_message = m, ib_needs_approval = appr,
        ib_encrypted = (m_encryption ms \<and> sender_role m \<noteq> [] \<and> recipient_role m \<noteq> [])\<rparr>
       (ensure_dir (recipient_role m) ms)"

definition send_via_file :: "claw_message \<Rightarrow> bool \<Rightarrow> mesh \<Rightarrow> delivery_result \<times> mesh" where
  "send_via_file m appr ms = (delivery True QueuedFileBased m appr, write_message m appr ms)"

type_synonym gateway = "claw_message \<Rightarrow> bool \<Rightarrow> bool \<times> bool"

definition send_via_gateway :: "gateway \<Rightarrow> claw_message \<Rightarrow> bool \<Rightarrow> mesh \<Rightarrow> delivery_result \<times> mesh" where
  "send_via_gateway gw m appr ms =
     (case gw m appr of
        (ok, needs) \<Rightarrow> (delivery ok (if ok then SentViaGateway else GatewayError) m needs, ms))"

definition send_now :: "gateway option \<Rightarrow> claw_message \<Rightarrow> bool \<Rightarrow> mesh \<Rightarrow> delivery_result \<times> mesh" where
  "send_now gw m appr ms =
     (case gw of Some g \<Rightarrow> send_via_gateway g m appr ms | None \<Rightarrow> send_via_file m appr ms)"

section \<open>Sending\<close>

text \<open>The privacy router writes its decision into the payload of the message.\<close>

fun reason_text :: "route_reason \<Rightarrow> string" where
  "reason_text (RoleForces role b) = ''Role override: '' @ role @ '' forces '' @ backend_value b"
| "reason_text (RoleLocalType role t) = ''Role override: '' @ role @ '' forces local for '' @ t"
| "reason_text (RoleCloudBlocked role) = ''Role '' @ role @ '': cloud not allowed, downgraded to local-nim''"
| "reason_text (PolicyRule d) = ''Policy rule: '' @ d"
| "reason_text (Fallback t) = ''Fallback: unclassified data type '' @ [CHR 0x27] @ t @ [CHR 0x27]"
| "reason_text (FailedOver b) =
     ''Failed over from '' @ backend_value b @ '' due to high edge latency (Auto Broker)''"

definition tag_privacy :: "int option \<Rightarrow> claw_message \<Rightarrow> mesh \<Rightarrow> claw_message \<times> mesh" where
  "tag_privacy latency m ms =
     (case m_router ms of
        None \<Rightarrow> (m, ms)
      | Some p \<Rightarrow>
          (case route p latency (sender_role m) (message_type m) (m_broker ms) of
             (d, br) \<Rightarrow>
               (m\<lparr>payload := AList.update ''_privacy_reason'' (JStr (reason_text (rd_reason d)))
                    (AList.update ''_privacy_backend'' (JStr (backend_value (rd_backend d))) (payload m))\<rparr>,
                ms\<lparr>m_broker := br\<rparr>)))"

definition recipient_problem :: "claw_message \<Rightarrow> mesh \<Rightarrow> mesh_reason option" where
  "recipient_problem m ms =
     (if recipient_role m = ''war_room'' then None
      else (case map_of (m_nodes ms) (recipient_role m) of
              None \<Rightarrow> Some (NotRegistered (recipient_role m))
            | Some n \<Rightarrow> if reachable_status (n_status n) then None
                        else Some (HasStatus (recipient_role m) (n_status n))))"

text \<open>\<open>wok\<close> says whether the file can be written into the outbox.\<close>

definition send_message :: "gateway option \<Rightarrow> int option \<Rightarrow> bool \<Rightarrow> claw_message \<Rightarrow> mesh
    \<Rightarrow> delivery_result \<times> mesh" where
  "send_message gw latency wok m0 ms0 =
     (let vr = validate (m_validator ms0) m0 in
      if \<not> valid vr
      then (delivery False (ContractReason (vr_reason vr)) m0 False,
            write_rejected m0 (ContractReason (vr_reason vr)) ms0)
      else (case tag_privacy latency m0 ms0 of
        (m, ms) \<Rightarrow>
          (case recipient_problem m ms of
             Some why \<Rightarrow> (delivery False why m False, write_rejected m why ms)
           | None \<Rightarrow>
               (let appr = requires_approval (m_validator ms) (message_type m);
                    direct = (if appr \<and> recipient_role m \<noteq> ''war_room'' then route_to_warroom m ms
                              else send_now gw m appr ms)
                in if m_memory_only ms then direct
                   else if \<not> wok then direct
                   else (delivery True QueuedInOutbox m appr,
                         ms\<lparr>m_outbox := AList.update (file_name m) (Queued m) (m_outbox ms)\<rparr>)))))"

section \<open>The outbox thread\<close>

definition drop_file :: "string \<Rightarrow> mesh \<Rightarrow> mesh" where
  "drop_file fn ms = ms\<lparr>m_outbox := AList.delete fn (m_outbox ms)\<rparr>"

text \<open>One file of a pass, and whether the pass goes on to the next file.\<close>

definition process_file :: "gateway option \<Rightarrow> string \<Rightarrow> outbox_entry \<Rightarrow> mesh \<Rightarrow> bool \<times> mesh" where
  "process_file gw fn e ms =
     (case e of
        BadFile \<Rightarrow> (True, drop_file fn ms)
      | Queued m \<Rightarrow>
          (let appr = requires_approval (m_validator ms) (message_type m) in
           if appr \<and> recipient_role m \<noteq> ''war_room''
           then (True, drop_file fn (snd (route_to_warroom m ms)))
           else (case recipient_problem m ms of
                   Some (NotRegistered r) \<Rightarrow> (True, drop_file fn (write_rejected m (NotRegistered r) ms))
                 | Some _ \<Rightarrow> (False, ms)
                 | None \<Rightarrow>
                     (case send_now gw m appr ms of
                        (res, ms1) \<Rightarrow> if dr_delivered res then (True, drop_file fn ms1) else (False, ms1)))))"

fun process_files :: "gateway option \<Rightarrow> outbox_entry dict \<Rightarrow> mesh \<Rightarrow> mesh" where
  "process_files gw [] ms = ms"
| "process_files gw ((fn, e) # fs) ms =
     (case process_file gw fn e ms of
        (True, ms1) \<Rightarrow> process_files gw fs ms1
      | (False, ms1) \<Rightarrow> ms1)"

definition outbox_pass :: "gateway option \<Rightarrow> mesh \<Rightarrow> mesh" where
  "outbox_pass gw ms = process_files gw (sort_key fst (m_outbox ms)) ms"

section \<open>Receiving\<close>

text \<open>The file queue of a role, for a role without a connected gateway.\<close>

definition get_pending_messages :: "string \<Rightarrow> mesh \<Rightarrow> claw_message list" where
  "get_pending_messages role ms =
     (if role \<in> m_dirs ms then map (\<lambda>(fn, e). ib_message e) (sort_key fst (m_inbox ms role)) else [])"

text \<open>The pattern \<^verbatim>\<open>*ID*.json\<close>, for an identifier without wildcards.\<close>

definition glob_match :: "string \<Rightarrow> string \<Rightarrow> bool" where
  "glob_match i fn =
     (let n = length fn - 5 in 5 \<le> length fn \<and> drop n fn = ''.json'' \<and> py_in i (take n fn))"

definition ack_message :: "string \<Rightarrow> string \<Rightarrow> mesh \<Rightarrow> bool \<times> mesh" where
  "ack_message role i ms =
     (case find (\<lambda>(fn, e). glob_match i fn) (m_inbox ms role) of
        None \<Rightarrow> (False, ms)
      | Some (fn, e) \<Rightarrow>
          (True, ms\<lparr>m_inbox := (m_inbox ms)(role := AList.delete fn (m_inbox ms role)),
                    m_delivered := AList.update fn e (m_delivered ms)\<rparr>))"

end
