(* ===== verification/Mesh_Props.thy ===== *)
theory Mesh_Props
  imports Mesh Contract_Props
begin

text \<open>
  Properties of the mesh: what \<open>send_message\<close> accepts, the approval gate along every run, the fate
  of a queued message, and the ways in which messages stall, leak or vanish.
\<close>

section \<open>Frames\<close>

lemma delivery_fields [simp, frame_simps]:
  "dr_delivered (delivery ok why m appr) = ok" "dr_reason (delivery ok why m appr) = why"
  "dr_requires_approval (delivery ok why m appr) = appr" "dr_message_id (delivery ok why m appr) = message_id m"
  by (simp_all add: delivery_def)

lemma save_topology_frame [simp, frame_simps]:
  "m_validator (save_topology ms) = m_validator ms" "m_inbox (save_topology ms) = m_inbox ms"
  "m_outbox (save_topology ms) = m_outbox ms"
  by (simp_all add: save_topology_def)

lemma ensure_dir_frame [simp, frame_simps]:
  "m_validator (ensure_dir r ms) = m_validator ms" "m_inbox (ensure_dir r ms) = m_inbox ms"
  "m_outbox (ensure_dir r ms) = m_outbox ms" "m_nodes (ensure_dir r ms) = m_nodes ms"
  "m_rejected (ensure_dir r ms) = m_rejected ms" "m_memory_only (ensure_dir r ms) = m_memory_only ms"
  "m_encryption (ensure_dir r ms) = m_encryption ms"
  by (simp_all add: ensure_dir_def)

lemma ensure_dir_dirs: "m_dirs (ensure_dir r ms) = (if m_memory_only ms then m_dirs ms else insert r (m_dirs ms))"
  by (simp add: ensure_dir_def)

lemma write_inbox_frame [simp, frame_simps]:
  "m_validator (write_inbox r fn e ms) = m_validator ms" "m_outbox (write_inbox r fn e ms) = m_outbox ms"
  "m_nodes (write_inbox r fn e ms) = m_nodes ms" "m_rejected (write_inbox r fn e ms) = m_rejected ms"
  "m_memory_only (write_inbox r fn e ms) = m_memory_only ms"
  by (simp_all add: write_inbox_def)

lemma m_inbox_write_inbox:
  "m_inbox (write_inbox r fn e ms) =
     (if r \<in> m_dirs ms then (m_inbox ms)(r := AList.update fn e (m_inbox ms r)) else m_inbox ms)"
  by (simp add: write_inbox_def)

lemma write_rejected_frame [simp, frame_simps]:
  "m_validator (write_rejected m why ms) = m_validator ms" "m_inbox (write_rejected m why ms) = m_inbox ms"
  "m_outbox (write_rejected m why ms) = m_outbox ms" "m_memory_only (write_rejected m why ms) = m_memory_only ms"
  by (simp_all add: write_rejected_def)

lemma drop_file_frame [simp, frame_simps]:
  "m_validator (drop_file fn ms) = m_validator ms" "m_inbox (drop_file fn ms) = m_inbox ms"
  "m_rejected (drop_file fn ms) = m_rejected ms" "m_memory_only (drop_file fn ms) = m_memory_only ms"
  "map_of (m_outbox (drop_file fn ms)) = (map_of (m_outbox ms))(fn := None)"
  by (simp_all add: drop_file_def)

lemma tag_privacy_frame:
  assumes "tag_privacy latency m ms = (m', ms')"
  shows "message_type m' = message_type m" "recipient_role m' = recipient_role m"
    "sender_role m' = sender_role m" "message_id m' = message_id m" "timestamp m' = timestamp m"
    "m_validator ms' = m_validator ms" "m_inbox ms' = m_inbox ms" "m_nodes ms' = m_nodes ms"
    "m_memory_only ms' = m_memory_only ms" "m_outbox ms' = m_outbox ms" "m_dirs ms' = m_dirs ms"
  using assms by (auto simp: tag_privacy_def split: option.splits prod.splits)

section \<open>What is accepted\<close>


definition sample_message :: claw_message where
  "sample_message = (complete_message ''content'' ''ops'' ''deliverable_complete'')
     \<lparr>message_id := ''m1'', timestamp := ''10:00''\<rparr>"

definition sample_mesh :: mesh where
  "sample_mesh = \<lparr>m_validator = shipped_validator, m_router = None, m_broker = None, m_squad = ''s'',
     m_encryption = True, m_memory_only = False,
     m_nodes = [(''ops'', \<lparr>n_address = ''a'', n_status = ''online'', n_registered = 0, n_heartbeat = None, n_failures = 0\<rparr>)],
     m_dirs = {''ops''}, m_outbox = [], m_inbox = (\<lambda>_. []), m_delivered = [], m_rejected = [], m_topology = None\<rparr>"

lemma sample_message_fields [simp, frame_simps]:
  "sender_role sample_message = ''content''" "recipient_role sample_message = ''ops''"
  "message_type sample_message = ''deliverable_complete''"
  by (simp_all add: sample_message_def complete_message_def)

lemma shipped_requires_approval:
  "requires_approval shipped_validator t = (t \<in> set shipped_approval_types)"
  by (simp add: requires_approval_def shipped_validator_def from_dict_def shipped_approval_types_def
      type_config_of_def)

lemma sample_message_valid: "valid (validate shipped_validator sample_message)"
  by code_simp


section \<open>The approval gate\<close>

datatype mesh_event =
    MRegister int string string
  | MUnregister string
  | MHeartbeat int string
  | MUnhealthy string
  | MSetStatus string string
  | MSend "gateway option" "int option" bool claw_message
  | MPass "gateway option"
  | MAck string string

fun mesh_step :: "mesh_event \<Rightarrow> mesh \<Rightarrow> mesh" where
  "mesh_step (MRegister now r a) ms = snd (register_claw now r a ms)"
| "mesh_step (MUnregister r) ms = snd (unregister_claw r ms)"
| "mesh_step (MHeartbeat now r) ms = snd (heartbeat now r ms)"
| "mesh_step (MUnhealthy r) ms = mark_unhealthy r ms"
| "mesh_step (MSetStatus r s) ms = snd (set_node_status r s ms)"
| "mesh_step (MSend gw latency wok m) ms = snd (send_message gw latency wok m ms)"
| "mesh_step (MPass gw) ms = outbox_pass gw ms"
| "mesh_step (MAck r i) ms = snd (ack_message r i ms)"

fun mesh_run :: "mesh_event list \<Rightarrow> mesh \<Rightarrow> mesh" where
  "mesh_run [] ms = ms"
| "mesh_run (e # es) ms = mesh_run es (mesh_step e ms)"

definition gated :: "contract_validator \<Rightarrow> mesh \<Rightarrow> bool" where
  "gated v ms \<longleftrightarrow> m_validator ms = v \<and>
     (\<forall>r fn e. r \<noteq> ''war_room'' \<longrightarrow> (fn, e) \<in> set (m_inbox ms r) \<longrightarrow>
        \<not> requires_approval v (message_type (ib_message e)) \<and> recipient_role (ib_message e) = r)"

lemma set_update_subset: "set (AList.update k v al) \<subseteq> insert (k, v) (set al)"
  by (induction al) auto

lemma gated_write_inbox:
  assumes "gated v ms" and "r \<noteq> ''war_room'' \<Longrightarrow>
      \<not> requires_approval v (message_type (ib_message e)) \<and> recipient_role (ib_message e) = r"
  shows "gated v (write_inbox r fn e ms)"
  using assms set_update_subset[of fn e "m_inbox ms r"]
  by (auto simp: gated_def m_inbox_write_inbox split: if_splits)

lemma gated_cong: "m_validator ms' = m_validator ms \<Longrightarrow> m_inbox ms' = m_inbox ms \<Longrightarrow> gated v ms' = gated v ms"
  by (simp add: gated_def)

lemma gated_ensure_dir [simp]: "gated v (ensure_dir r ms) = gated v ms"
  by (rule gated_cong) simp_all

lemma gated_route_to_warroom: "gated v ms \<Longrightarrow> gated v (snd (route_to_warroom m ms))"
  by (simp add: route_to_warroom_def gated_write_inbox)

lemma gated_send_now:
  assumes "gated v ms" and "appr \<longrightarrow> recipient_role m = ''war_room''"
    and "appr = requires_approval v (message_type m)"
  shows "gated v (snd (send_now gw m appr ms))"
  using assms
  by (auto simp: send_now_def send_via_gateway_def send_via_file_def write_message_def
      intro!: gated_write_inbox split: option.split prod.split)

lemma gated_send_message:
  assumes "gated v ms"
  shows "gated v (snd (send_message gw latency wok m ms))"
proof -
  obtain m1 ms1 where tag: "tag_privacy latency m ms = (m1, ms1)" by (cases "tag_privacy latency m ms")
  note frame = tag_privacy_frame[OF tag]
  have ms1: "gated v ms1" using assms gated_cong[OF frame(6,7)] by simp
  have val: "m_validator ms1 = v" "m_validator ms = v" using ms1 assms by (simp_all add: gated_def)
  let ?direct = "if requires_approval v (message_type m1) \<and> recipient_role m1 \<noteq> ''war_room''
     then route_to_warroom m1 ms1 else send_now gw m1 (requires_approval v (message_type m1)) ms1"
  have direct: "gated v (snd ?direct)"
    using ms1 by (auto intro: gated_route_to_warroom gated_send_now)
  have rej: "gated v (write_rejected x why y) = gated v y" for x why y
    by (rule gated_cong) simp_all
  have out: "gated v (ms1\<lparr>m_outbox := ob\<rparr>)" for ob
    using ms1 gated_cong[of "ms1\<lparr>m_outbox := ob\<rparr>" ms1] by simp
  show ?thesis using direct assms ms1
    by (auto simp: send_message_def Let_def tag val rej out split: option.split)
qed

lemma gated_process_file:
  assumes "gated v ms" and "process_file gw fn e ms = (go, ms')"
  shows "gated v ms'"
proof -
  have drop: "gated v (drop_file fn x) = gated v x" for x by (rule gated_cong) simp_all
  have rej: "gated v (write_rejected x why y) = gated v y" for x why y by (rule gated_cong) simp_all
  have val: "m_validator ms = v" using assms(1) by (simp add: gated_def)
  show ?thesis
  proof (cases e)
    case (Queued m)
    let ?appr = "requires_approval v (message_type m)"
    have now: "\<not> (?appr \<and> recipient_role m \<noteq> ''war_room'') \<Longrightarrow> gated v (snd (send_now gw m ?appr ms))"
      using assms(1) by (intro gated_send_now) auto
    show ?thesis using assms Queued now
      by (auto simp: process_file_def Let_def val drop rej gated_route_to_warroom
          split: if_splits option.splits mesh_reason.splits prod.splits)
  qed (use assms in \<open>auto simp: process_file_def drop\<close>)
qed

lemma gated_process_files: "gated v ms \<Longrightarrow> gated v (process_files gw fs ms)"
proof (induction gw fs ms rule: process_files.induct)
  case (2 gw fn e fs ms)
  obtain go ms1 where pf: "process_file gw fn e ms = (go, ms1)" by (cases "process_file gw fn e ms")
  then have "gated v ms1" using gated_process_file 2(2) by blast
  then show ?case using 2(1) pf by (cases go) auto
qed simp

lemma set_delete_subset: "set (AList.delete k al) \<subseteq> set al"
  by (induction al) auto

lemma gated_step: "gated v ms \<Longrightarrow> gated v (mesh_step e ms)"
proof (cases e)
  case (MAck r i)
  assume "gated v ms"
  then show ?thesis using MAck set_delete_subset
    by (fastforce simp: ack_message_def gated_def split: option.split prod.split)
next
  case (MSend gw latency wok m)
  assume "gated v ms"
  then show ?thesis using MSend by (simp add: gated_send_message)
next
  case (MPass gw)
  assume "gated v ms"
  then show ?thesis using MPass by (simp add: outbox_pass_def gated_process_files)
qed (auto simp: register_claw_def unregister_claw_def heartbeat_def mark_unhealthy_def set_node_status_def
      Let_def gated_def split: option.split)



section \<open>The fate of a queued message\<close>

definition well_named :: "outbox_entry dict \<Rightarrow> bool" where
  "well_named fs \<longleftrightarrow> distinct (map fst fs) \<and> (\<forall>fn m. (fn, Queued m) \<in> set fs \<longrightarrow> fn = file_name m)"

definition accounted :: "string \<Rightarrow> claw_message \<Rightarrow> mesh \<Rightarrow> bool" where
  "accounted fn m ms \<longleftrightarrow>
     map_of (m_outbox ms) fn = Some (Queued m) \<or>
     (\<exists>r e. r \<in> {''war_room'', recipient_role m} \<and> map_of (m_inbox ms r) fn = Some e \<and> ib_message e = m) \<or>
     (\<exists>x. map_of (m_rejected ms) fn = Some x \<and> rj_recipient x = recipient_role m \<and>
          rj_reason x = NotRegistered (recipient_role m))"

lemma process_file_other:
  assumes "process_file None fn' e ms = (go, ms')" and "fn' \<noteq> fn"
    and "\<And>m'. e = Queued m' \<Longrightarrow> fn' = file_name m'"
  shows "map_of (m_outbox ms') fn = map_of (m_outbox ms) fn \<and>
    (\<forall>r. map_of (m_inbox ms' r) fn = map_of (m_inbox ms r) fn) \<and>
    map_of (m_rejected ms') fn = map_of (m_rejected ms) fn \<and> m_memory_only ms' = m_memory_only ms"
proof (cases e)
  case (Queued m')
  then have "file_name m' \<noteq> fn" using assms(2,3) by simp
  then show ?thesis using assms(1,2) Queued
    by (auto simp: process_file_def Let_def route_to_warroom_def send_now_def send_via_file_def
        write_message_def m_inbox_write_inbox write_rejected_def drop_file_def
        split: if_splits option.splits mesh_reason.splits)
qed (use assms in \<open>auto simp: process_file_def\<close>)

lemma recipient_problem_reason:
  "recipient_problem m ms = Some (NotRegistered r) \<Longrightarrow> r = recipient_role m"
  by (auto simp: recipient_problem_def split: if_splits option.splits)

lemma process_file_own:
  assumes "process_file None (file_name m) (Queued m) ms = (go, ms')" and "\<not> m_memory_only ms"
    and "map_of (m_outbox ms) (file_name m) = Some (Queued m)"
  shows "accounted (file_name m) m ms' \<and> m_memory_only ms' = m_memory_only ms"
proof (cases "recipient_problem m ms")
  case None
  then show ?thesis using assms
    by (auto simp: process_file_def Let_def route_to_warroom_def send_now_def send_via_file_def
        write_message_def m_inbox_write_inbox ensure_dir_dirs accounted_def split: if_splits)
next
  case (Some why)
  then show ?thesis using assms recipient_problem_reason[of m ms]
    by (cases why) (auto simp: process_file_def Let_def route_to_warroom_def
        m_inbox_write_inbox ensure_dir_dirs accounted_def write_rejected_def drop_file_def split: if_splits)
qed

lemma accounted_process_files:
  assumes "accounted fn m ms" and "\<not> m_memory_only ms" and "fn = file_name m" and "well_named fs"
    and "map_of fs fn = Some (Queued m) \<longrightarrow> map_of (m_outbox ms) fn = Some (Queued m)"
    and "\<forall>e. (fn, e) \<in> set fs \<longrightarrow> e = Queued m"
  shows "accounted fn m (process_files None fs ms)"
  using assms
proof (induction "None :: gateway option" fs ms rule: process_files.induct)
  case (2 fn' e fs ms)
  obtain go ms1 where pf: "process_file None fn' e ms = (go, ms1)" by (cases "process_file None fn' e ms")
  have named: "e = Queued m' \<Longrightarrow> fn' = file_name m'" for m' using 2(5) by (auto simp: well_named_def)
  have fs: "well_named fs" using 2(5) by (auto simp: well_named_def)
  have step: "accounted fn m ms1 \<and> \<not> m_memory_only ms1 \<and>
      (map_of fs fn = Some (Queued m) \<longrightarrow> map_of (m_outbox ms1) fn = Some (Queued m))"
  proof (cases "fn' = fn")
    case True
    then have "e = Queued m" "map_of (m_outbox ms) fn = Some (Queued m)" using 2(6,7) by auto
    moreover have "fn \<notin> fst ` set fs" using 2(5) True by (simp add: well_named_def)
    then have "map_of fs fn = None" by (simp add: map_of_eq_None_iff)
    ultimately show ?thesis using process_file_own[of m ms go ms1] pf True 2(3,4) by auto
  next
    case False
    from process_file_other[OF pf False named] show ?thesis using 2(2,3,6) False
      by (auto simp: accounted_def)
  qed
  show ?case
  proof (cases go)
    case True
    have "accounted fn m (process_files None fs ms1)"
      by (rule 2(1)[OF pf[symmetric] _ _ _ 2(4) fs]) (use True step 2(7) in auto)
    then show ?thesis using pf True by simp
  qed (use step pf in simp)
qed simp



text \<open>
  Head-of-line blocking: when the first file of the outbox by name is for a registered claw
  that is neither online nor in finals mode, a pass does nothing at all, so no other message
  moves either, whoever it is for.
\<close>

theorem offline_recipient_blocks_outbox:
  assumes "sort_key fst (m_outbox ms) = (fn, Queued m) # fs"
    and "map_of (m_nodes ms) (recipient_role m) = Some n" and "\<not> reachable_status (n_status n)"
    and "recipient_role m \<noteq> ''war_room''" and "\<not> requires_approval (m_validator ms) (message_type m)"
  shows "outbox_pass gw ms = ms"
  using assms by (simp add: outbox_pass_def process_file_def recipient_problem_def)

text \<open>
  With encryption on, a message that needs approval still lies in the clear: the copy the
  outbox writes into the War Room inbox is not encrypted.
\<close>

theorem warroom_copy_in_clear:
  assumes "requires_approval (m_validator ms) (message_type m)" and "recipient_role m \<noteq> ''war_room''"
    and "\<not> m_memory_only ms" and "process_file gw fn (Queued m) ms = (go, ms')"
  shows "\<exists>e. map_of (m_inbox ms' ''war_room'') (file_name m) = Some e \<and> ib_message e = m \<and> \<not> ib_encrypted e"
  using assms by (auto simp: process_file_def route_to_warroom_def m_inbox_write_inbox ensure_dir_dirs)

text \<open>
  In memory-only mode without a gateway an accepted message vanishes: the caller is told it
  was delivered, and no inbox, outbox or rejected directory holds it.
\<close>

theorem memory_only_loses_messages:
  assumes "m_memory_only ms" and "m_dirs ms = {}" and "valid (validate (m_validator ms) m)"
    and "recipient_problem m ms = None" and "send_message None latency wok m ms = (res, ms')"
  shows "dr_delivered res \<and> m_inbox ms' = m_inbox ms \<and> m_outbox ms' = m_outbox ms \<and> m_rejected ms' = m_rejected ms"
proof -
  obtain m1 ms1 where tag: "tag_privacy latency m ms = (m1, ms1)" by (cases "tag_privacy latency m ms")
  note frame = tag_privacy_frame[OF tag]
  have "m_rejected ms1 = m_rejected ms"
    using tag by (auto simp: tag_privacy_def split: option.splits prod.splits)
  moreover have "recipient_problem m1 ms1 = None" using assms(4)
    by (auto simp: recipient_problem_def frame split: if_splits option.splits)
  ultimately have "dr_delivered res \<and> ms' = ms1 \<and> m_rejected ms1 = m_rejected ms"
    using assms(1-3,5)
    by (auto simp: send_message_def Let_def tag frame route_to_warroom_def send_now_def send_via_file_def
        write_message_def write_inbox_def ensure_dir_def split: if_splits)
  then show ?thesis by (simp add: frame)
qed

end
