(* ===== verification/Failover.thy ===== *)
theory Failover
  imports Mesh
begin

text \<open>
  \<^verbatim>\<open>milimo-blueprint/orchestrator/mesh_failover.py\<close>: the version vectors and the failover manager.
  One pass of the monitoring loop is a function of the time, the topology it reads and a function
  that says whether sending a queued message returns (an exception ends the monitoring thread).
  Times are microseconds. Event handlers run after the record is appended and their exceptions are
  caught, so the records alone are kept; the constant latency and loss figures and the unused
  counter of recovery attempts are left out.
\<close>

section \<open>Version vectors\<close>

record version_vector =
  vv_node :: string
  vv_counters :: "int dict"

definition vv_get :: "version_vector \<Rightarrow> string \<Rightarrow> int" where
  "vv_get v n = (case map_of (vv_counters v) n of Some k \<Rightarrow> k | None \<Rightarrow> 0)"

definition vv_keys :: "version_vector \<Rightarrow> string list" where
  "vv_keys v = map fst (vv_counters v)"

definition increment :: "version_vector \<Rightarrow> version_vector" where
  "increment v = v\<lparr>vv_counters := AList.update (vv_node v) (vv_get v (vv_node v) + 1) (vv_counters v)\<rparr>"

definition merge :: "version_vector \<Rightarrow> version_vector \<Rightarrow> version_vector" where
  "merge a b = \<lparr>vv_node = vv_node a,
     vv_counters = map (\<lambda>n. (n, max (vv_get a n) (vv_get b n))) (remdups (vv_keys a @ vv_keys b))\<rparr>"

text \<open>The loop over the set of keys: a larger counter ends it, a smaller one is remembered.\<close>

fun dominated_by :: "(string \<Rightarrow> int) \<Rightarrow> (string \<Rightarrow> int) \<Rightarrow> string list \<Rightarrow> bool \<Rightarrow> bool" where
  "dominated_by f g [] seen = seen"
| "dominated_by f g (n # ns) seen =
     (if f n > g n then False else dominated_by f g ns (seen \<or> f n < g n))"

definition happens_before :: "version_vector \<Rightarrow> version_vector \<Rightarrow> bool" where
  "happens_before a b =
     dominated_by (vv_get a) (vv_get b) (remdups (vv_keys a @ vv_keys b)) False"

definition concurrent_with :: "version_vector \<Rightarrow> version_vector \<Rightarrow> bool" where
  "concurrent_with a b = (\<not> happens_before a b \<and> \<not> happens_before b a)"

section \<open>The manager\<close>

datatype failover_state = NORMAL | DEGRADED | FAILOVER_ACTIVE | PARTITION | RECOVERING

datatype node_status = NOnline | NUnhealthy | NOffline

datatype region_status = RHealthy | RDegraded | RIsolated

record node_health =
  h_region :: string
  h_status :: node_status
  h_heartbeat :: "int option"
  h_failures :: nat
  h_elapsed :: "int option"

record region_health =
  rh_status :: region_status
  rh_online :: nat
  rh_total :: nat

datatype failover_event =
    NodeOffline string
  | RegionIsolated string
  | PartitionDetected "string list"
  | PartitionHealed
  | RegionRecovered

record topo_node =
  t_region :: "string option"
  t_heartbeat :: "int option"

record failover_manager =
  heartbeat_timeout_ms :: int
  fm_state :: failover_state
  fm_nodes :: "node_health dict"
  fm_regions :: "region_health dict"
  fm_history :: "failover_event list"
  fm_vector :: "version_vector option"
  fm_pending :: "json dict list dict"
  fm_sent :: "json dict list"

definition new_manager :: "int \<Rightarrow> failover_manager" where
  "new_manager timeout = \<lparr>heartbeat_timeout_ms = timeout, fm_state = NORMAL, fm_nodes = [],
     fm_regions = [], fm_history = [], fm_vector = None, fm_pending = [], fm_sent = []\<rparr>"

text \<open>\<open>start()\<close> gives the manager a fresh vector of the squad.\<close>

definition start_manager :: "string \<Rightarrow> failover_manager \<Rightarrow> failover_manager" where
  "start_manager squad fm = fm\<lparr>fm_vector := Some \<lparr>vv_node = squad, vv_counters = []\<rparr>\<rparr>"

definition emit_event :: "failover_event \<Rightarrow> failover_manager \<Rightarrow> failover_manager" where
  "emit_event e fm = fm\<lparr>fm_history := fm_history fm @ [e]\<rparr>"

definition get_node_region :: "topo_node \<Rightarrow> string" where
  "get_node_region n = (case t_region n of Some r \<Rightarrow> r | None \<Rightarrow> ''unknown'')"

text \<open>The topology of the mesh: its nodes have no region.\<close>

definition mesh_topology :: "mesh \<Rightarrow> topo_node dict" where
  "mesh_topology ms = map (\<lambda>(r, n). (r, \<lparr>t_region = None, t_heartbeat = n_heartbeat n\<rparr>)) (m_nodes ms)"

definition offline_count :: "node_health dict \<Rightarrow> nat" where
  "offline_count hs = length (filter (\<lambda>(r, h). h_status h = NOffline) hs)"

definition update_failover_state :: "failover_manager \<Rightarrow> failover_manager" where
  "update_failover_state fm =
     (let k = offline_count (fm_nodes fm) in
      fm\<lparr>fm_state := (if k = 0 then NORMAL else if k < length (fm_nodes fm) then DEGRADED
                      else FAILOVER_ACTIVE)\<rparr>)"

definition put_health :: "string \<Rightarrow> node_health \<Rightarrow> failover_manager \<Rightarrow> failover_manager" where
  "put_health role h fm = fm\<lparr>fm_nodes := AList.update role h (fm_nodes fm)\<rparr>"

definition handle_node_timeout :: "string \<Rightarrow> node_health \<Rightarrow> int \<Rightarrow> failover_manager \<Rightarrow> failover_manager"
where
  "handle_node_timeout role h0 elapsed fm =
     (let h = h0\<lparr>h_failures := Suc (h_failures h0), h_elapsed := Some elapsed\<rparr> in
      case h_status h of
        NOnline \<Rightarrow> put_health role (h\<lparr>h_status := NUnhealthy\<rparr>) (emit_event (NodeOffline role) fm)
      | NUnhealthy \<Rightarrow>
          if h_failures h \<ge> 3
          then update_failover_state (put_health role (h\<lparr>h_status := NOffline\<rparr>) fm)
          else put_health role h fm
      | NOffline \<Rightarrow> put_health role h fm)"

definition check_node :: "int \<Rightarrow> string \<Rightarrow> topo_node \<Rightarrow> failover_manager \<Rightarrow> failover_manager" where
  "check_node now role n fm =
     (let h = (case map_of (fm_nodes fm) role of
                 Some h \<Rightarrow> h
               | None \<Rightarrow> \<lparr>h_region = get_node_region n, h_status = NOnline, h_heartbeat = None,
                          h_failures = 0, h_elapsed = None\<rparr>)
      in case t_heartbeat n of
           None \<Rightarrow> put_health role h fm
         | Some hb \<Rightarrow>
             if now - hb > heartbeat_timeout_ms fm * 1000
             then handle_node_timeout role h (now - hb) fm
             else put_health role
                    (h\<lparr>h_status := NOnline, h_failures := 0, h_heartbeat := Some hb\<rparr>) fm)"

fun check_node_health :: "int \<Rightarrow> topo_node dict \<Rightarrow> failover_manager \<Rightarrow> failover_manager" where
  "check_node_health now [] fm = fm"
| "check_node_health now ((role, n) # ns) fm = check_node_health now ns (check_node now role n fm)"

text \<open>The regions in the order in which the nodes name them first.\<close>

definition regions_of :: "node_health dict \<Rightarrow> string list" where
  "regions_of hs = rev (remdups (rev (map (\<lambda>(r, h). h_region h) hs)))"

definition handle_region_isolated :: "string \<Rightarrow> failover_manager \<Rightarrow> failover_manager" where
  "handle_region_isolated reg fm =
     (if fm_state fm \<noteq> PARTITION then emit_event (RegionIsolated reg) (fm\<lparr>fm_state := DEGRADED\<rparr>) else fm)"

definition region_nodes :: "string \<Rightarrow> node_health dict \<Rightarrow> node_health dict" where
  "region_nodes reg hs = filter (\<lambda>(r, h). h_region h = reg) hs"

definition region_health_of :: "string \<Rightarrow> node_health dict \<Rightarrow> region_health" where
  "region_health_of reg hs =
     (let online = length (filter (\<lambda>(r, h). h_status h = NOnline) (region_nodes reg hs));
          total = length (region_nodes reg hs)
      in \<lparr>rh_status = (if online = total then RHealthy else if online > 0 then RDegraded else RIsolated),
          rh_online = online, rh_total = total\<rparr>)"

definition check_region :: "string \<Rightarrow> failover_manager \<Rightarrow> failover_manager" where
  "check_region reg fm =
     (let rh = region_health_of reg (fm_nodes fm);
          fm1 = fm\<lparr>fm_regions := AList.update reg rh (fm_regions fm)\<rparr>
      in if rh_status rh = RIsolated then handle_region_isolated reg fm1 else fm1)"

definition check_region_health :: "failover_manager \<Rightarrow> failover_manager" where
  "check_region_health fm = fold check_region (regions_of (fm_nodes fm)) fm"

definition detect_partitions :: "failover_manager \<Rightarrow> failover_manager" where
  "detect_partitions fm =
     (if fm_state fm = PARTITION then fm
      else (let healthy = length (filter (\<lambda>(r, h). rh_status h = RHealthy) (fm_regions fm));
                isolated = length (filter (\<lambda>(r, h). rh_status h = RIsolated) (fm_regions fm))
            in if isolated > 0 \<and> healthy > 0
               then emit_event (PartitionDetected
                      (map fst (filter (\<lambda>(r, h). rh_status h = RIsolated) (fm_regions fm))))
                      (fm\<lparr>fm_state := PARTITION\<rparr>)
               else fm))"

text \<open>Replaying: the first message whose sending raises ends it, and the queue stays.\<close>

fun replay_messages :: "(json dict \<Rightarrow> bool) \<Rightarrow> json dict list \<Rightarrow> failover_manager
    \<Rightarrow> bool \<times> failover_manager" where
  "replay_messages sends [] fm = (True, fm)"
| "replay_messages sends (m # ms) fm =
     (if sends m then replay_messages sends ms (fm\<lparr>fm_sent := fm_sent fm @ [m]\<rparr>) else (False, fm))"

definition replay_pending_messages :: "(json dict \<Rightarrow> bool) \<Rightarrow> failover_manager \<Rightarrow> bool \<times> failover_manager"
where
  "replay_pending_messages sends fm =
     (case replay_messages sends (concat (map snd (fm_pending fm))) fm of
        (True, fm1) \<Rightarrow> (True, fm1\<lparr>fm_pending := []\<rparr>)
      | (False, fm1) \<Rightarrow> (False, fm1))"

definition handle_recovery :: "(json dict \<Rightarrow> bool) \<Rightarrow> failover_manager \<Rightarrow> bool \<times> failover_manager" where
  "handle_recovery sends fm =
     (let previous = fm_state fm in
      case replay_pending_messages sends (fm\<lparr>fm_state := RECOVERING\<rparr>) of
        (False, fm1) \<Rightarrow> (False, fm1)
      | (True, fm1) \<Rightarrow>
          (True, emit_event (if previous = PARTITION then PartitionHealed else RegionRecovered)
                   (fm1\<lparr>fm_state := NORMAL\<rparr>)))"

definition attempt_recovery :: "(json dict \<Rightarrow> bool) \<Rightarrow> failover_manager \<Rightarrow> bool \<times> failover_manager" where
  "attempt_recovery sends fm =
     (if fm_state fm = NORMAL then (True, fm)
      else if list_all (\<lambda>(r, h). rh_status h = RHealthy) (fm_regions fm)
      then handle_recovery sends fm else (True, fm))"

text \<open>One round of the monitoring loop, and whether the thread is still alive after it.\<close>

definition monitor_tick :: "int \<Rightarrow> topo_node dict \<Rightarrow> (json dict \<Rightarrow> bool) \<Rightarrow> failover_manager
    \<Rightarrow> bool \<times> failover_manager" where
  "monitor_tick now topo sends fm =
     attempt_recovery sends (detect_partitions (check_region_health (check_node_health now topo fm)))"

definition queue_message :: "json dict \<Rightarrow> failover_manager \<Rightarrow> failover_manager" where
  "queue_message m fm =
     (let r = get_str m ''recipient_role'' [];
          old = (case map_of (fm_pending fm) r of Some ms \<Rightarrow> ms | None \<Rightarrow> [])
      in fm\<lparr>fm_pending := AList.update r (old @ [m]) (fm_pending fm),
            fm_vector := map_option increment (fm_vector fm)\<rparr>)"

definition is_failover_active :: "failover_manager \<Rightarrow> bool" where
  "is_failover_active fm = (fm_state fm = FAILOVER_ACTIVE \<or> fm_state fm = PARTITION)"

definition resolve_conflict :: "json dict \<Rightarrow> json dict \<Rightarrow> json dict" where
  "resolve_conflict local remote =
     (let lt = get_str local ''_timestamp'' []; rt = get_str remote ''_timestamp'' [] in
      if lt > rt then local else if rt > lt then remote
      else if get_str local ''_node_id'' [] > get_str remote ''_node_id'' [] then local else remote)"

end
