(* ===== verification/Failover_Props.thy ===== *)
theory Failover_Props
  imports Failover
begin

text \<open>
  The order of version vectors, and what the failover manager can and cannot report.
\<close>

section \<open>Version vectors\<close>

definition vv_le :: "version_vector \<Rightarrow> version_vector \<Rightarrow> bool" where
  "vv_le a b = (\<forall>n. vv_get a n \<le> vv_get b n)"

lemma dominated_by_iff:
  "dominated_by f g ns seen \<longleftrightarrow> (\<forall>n\<in>set ns. f n \<le> g n) \<and> (seen \<or> (\<exists>n\<in>set ns. f n < g n))"
  by (induction ns arbitrary: seen) auto

lemma vv_get_absent: "n \<notin> set (vv_keys v) \<Longrightarrow> vv_get v n = 0"
  by (simp add: vv_get_def vv_keys_def map_of_eq_None_iff[THEN iffD2])

lemma happens_before_le: "happens_before a b \<longleftrightarrow> vv_le a b \<and> (\<exists>n. vv_get a n < vv_get b n)"
proof
  assume "happens_before a b"
  then have *: "\<forall>n\<in>set (vv_keys a @ vv_keys b). vv_get a n \<le> vv_get b n"
    "\<exists>n\<in>set (vv_keys a @ vv_keys b). vv_get a n < vv_get b n"
    by (simp_all add: happens_before_def dominated_by_iff)
  have "vv_get a n \<le> vv_get b n" for n
  proof (cases "n \<in> set (vv_keys a @ vv_keys b)")
    case False
    then show ?thesis by (simp add: vv_get_absent)
  qed (use *(1) in blast)
  then show "vv_le a b \<and> (\<exists>n. vv_get a n < vv_get b n)" using *(2) by (auto simp: vv_le_def)
next
  assume le: "vv_le a b \<and> (\<exists>n. vv_get a n < vv_get b n)"
  then obtain n where n: "vv_get a n < vv_get b n" by blast
  then have "n \<in> set (vv_keys a @ vv_keys b)" using vv_get_absent[of n] by fastforce
  then show "happens_before a b" using le n
    by (auto simp: happens_before_def dominated_by_iff vv_le_def)
qed

lemma vv_get_merge: "vv_get (merge a b) n = (if n \<in> set (vv_keys a) \<union> set (vv_keys b)
    then max (vv_get a n) (vv_get b n) else 0)"
proof -
  have "map_of (map (\<lambda>n. (n, f n)) ns) n = (if n \<in> set ns then Some (f n) else None)" for f :: "string \<Rightarrow> int" and ns
    by (induction ns) auto
  then show ?thesis unfolding merge_def by (subst vv_get_def) simp
qed

lemma vv_get_merge_max: "vv_get (merge a b) n = max (vv_get a n) (vv_get b n)"
  by (auto simp: vv_get_merge vv_get_absent)

lemma vv_get_increment: "vv_get (increment v) n = vv_get v n + (if n = vv_node v then 1 else 0)"
  by (simp add: vv_get_def increment_def)

text \<open>
  C32. The comparison of version vectors is the causal order: a vector happens before another
  exactly when no counter is larger and one is smaller (an absent counter counts as zero), so the
  relation is irreflexive, transitive and asymmetric, and a vector happens before its increment.
\<close>

theorem happens_before_order:
  "(happens_before a b \<longleftrightarrow> (\<forall>n. vv_get a n \<le> vv_get b n) \<and> (\<exists>n. vv_get a n < vv_get b n)) \<and>
   \<not> happens_before a a \<and>
   (happens_before a b \<longrightarrow> happens_before b c \<longrightarrow> happens_before a c) \<and>
   (happens_before a b \<longrightarrow> \<not> happens_before b a) \<and> happens_before a (increment a)"
proof -
  have "happens_before a b \<Longrightarrow> happens_before b c \<Longrightarrow> happens_before a c"
    unfolding happens_before_le vv_le_def by (meson order.strict_trans2 order.trans)
  moreover have "happens_before a b \<Longrightarrow> \<not> happens_before b a"
    unfolding happens_before_le vv_le_def by (meson not_less)
  moreover have "happens_before a (increment a)"
    by (auto simp: happens_before_le vv_le_def vv_get_increment)
  ultimately show ?thesis by (auto simp: happens_before_le vv_le_def)
qed

theorem happens_before_order_witness:
  "happens_before \<lparr>vv_node = ''a'', vv_counters = []\<rparr>
     (increment (increment \<lparr>vv_node = ''a'', vv_counters = []\<rparr>))"
  using happens_before_order[of "\<lparr>vv_node = ''a'', vv_counters = []\<rparr>" "increment \<lparr>vv_node = ''a'', vv_counters = []\<rparr>"
      "increment (increment \<lparr>vv_node = ''a'', vv_counters = []\<rparr>)"]
    happens_before_order[of "increment \<lparr>vv_node = ''a'', vv_counters = []\<rparr>" _ _]
  by blast

text \<open>
  Merging gives the least upper bound: the merged vector is above both, below every vector that
  is above both, and it does not matter which side merges.
\<close>

theorem merge_least_upper_bound:
  "(\<forall>n. vv_get a n \<le> vv_get (merge a b) n) \<and> (\<forall>n. vv_get b n \<le> vv_get (merge a b) n) \<and>
   ((\<forall>n. vv_get a n \<le> vv_get c n) \<and> (\<forall>n. vv_get b n \<le> vv_get c n) \<longrightarrow>
      (\<forall>n. vv_get (merge a b) n \<le> vv_get c n)) \<and>
   vv_get (merge a b) = vv_get (merge b a)"
  by (auto simp: vv_get_merge_max max.commute)

theorem merge_least_upper_bound_witness:
  "\<forall>n. vv_get (merge \<lparr>vv_node = ''a'', vv_counters = [(''a'', 1)]\<rparr> \<lparr>vv_node = ''b'', vv_counters = [(''b'', 2)]\<rparr>) n
     \<le> vv_get \<lparr>vv_node = ''c'', vv_counters = [(''a'', 1), (''b'', 3)]\<rparr> n"
  by (rule merge_least_upper_bound[THEN conjunct2, THEN conjunct2, THEN conjunct1, THEN mp])
     (simp add: vv_get_def)

text \<open>
  Conflicts: two replicas that count on their own after a common point are concurrent, but so
  are two vectors with the same counters, which \<open>concurrent_with\<close> reports as a conflict.
\<close>

lemma concurrent_with_spec:
  "concurrent_with a a \<and>
   (vv_node a \<noteq> vv_node b \<longrightarrow> vv_get a = vv_get b \<longrightarrow> concurrent_with (increment a) (increment b))"
  by (auto simp: concurrent_with_def happens_before_le vv_le_def vv_get_increment fun_eq_iff
      dest: spec[where x = "vv_node a"] spec[where x = "vv_node b"])

text \<open>
  Last writer wins converges: the two sides of a conflict choose the same version unless
  both the timestamps and the node identifiers are equal; then each takes the version of the other.
\<close>

lemma resolve_conflict_converges:
  "resolve_conflict a b = resolve_conflict b a \<longleftrightarrow>
     a = b \<or> get_str a ''_timestamp'' [] \<noteq> get_str b ''_timestamp'' [] \<or>
     get_str a ''_node_id'' [] \<noteq> get_str b ''_node_id'' []"
  by (auto simp: resolve_conflict_def Let_def)

section \<open>The manager\<close>

lemma put_health_frame [simp, frame_simps]:
  "fm_regions (put_health r h fm) = fm_regions fm" "fm_state (put_health r h fm) = fm_state fm"
  "fm_nodes (put_health r h fm) = AList.update r h (fm_nodes fm)"
  "heartbeat_timeout_ms (put_health r h fm) = heartbeat_timeout_ms fm"
  by (simp_all add: put_health_def)

lemma emit_event_frame [simp, frame_simps]:
  "fm_regions (emit_event e fm) = fm_regions fm" "fm_state (emit_event e fm) = fm_state fm"
  "fm_nodes (emit_event e fm) = fm_nodes fm" "fm_pending (emit_event e fm) = fm_pending fm"
  by (simp_all add: emit_event_def)

lemma set_regions_of [simp]: "set (regions_of hs) = (\<lambda>(r, h). h_region h) ` set hs"
  by (simp add: regions_of_def)

lemma check_region_frame [simp, frame_simps]:
  "fm_nodes (check_region reg fm) = fm_nodes fm"
  "map_of (fm_regions (check_region reg fm)) = (map_of (fm_regions fm))(reg \<mapsto> region_health_of reg (fm_nodes fm))"
  by (simp_all add: check_region_def handle_region_isolated_def Let_def)

lemma fold_check_region:
  "fm_nodes (fold check_region rs fm) = fm_nodes fm \<and>
   map_of (fm_regions (fold check_region rs fm)) =
     (\<lambda>reg. if reg \<in> set rs then Some (region_health_of reg (fm_nodes fm)) else map_of (fm_regions fm) reg)"
  by (induction rs arbitrary: fm) (auto simp: fun_eq_iff)

lemma fold_check_region_state:
  "fm_state fm \<noteq> PARTITION \<Longrightarrow> fm_state (fold check_region rs fm) =
     (if \<exists>reg\<in>set rs. rh_status (region_health_of reg (fm_nodes fm)) = RIsolated then DEGRADED else fm_state fm)"
proof (induction rs arbitrary: fm)
  case (Cons reg rs)
  have st: "fm_state (check_region reg fm) =
      (if rh_status (region_health_of reg (fm_nodes fm)) = RIsolated then DEGRADED else fm_state fm)"
    using Cons.prems by (simp add: check_region_def handle_region_isolated_def Let_def)
  then have "fm_state (check_region reg fm) \<noteq> PARTITION" using Cons.prems by simp
  from Cons.IH[OF this] show ?case by (auto simp: st)
qed simp

text \<open>A round keeps the regions of the nodes it knows, and every region it reports is one of them.\<close>

definition node_regions :: "failover_manager \<Rightarrow> string set" where
  "node_regions fm = (\<lambda>(r, h). h_region h) ` set (fm_nodes fm)"

lemma image_update_same:
  "map_of al k = Some h \<Longrightarrow> h_region h' = h_region h \<Longrightarrow>
     (\<lambda>(r, h). h_region h) ` set (AList.update k h' al) = (\<lambda>(r, h). h_region h) ` set al"
  by (induction al) (auto split: if_splits)

lemma image_update_new:
  "map_of al k = None \<Longrightarrow>
     (\<lambda>(r, h). h_region h) ` set (AList.update k h' al) = insert (h_region h') ((\<lambda>(r, h). h_region h) ` set al)"
  by (induction al) (auto split: if_splits)

lemma update_failover_state_frame [simp, frame_simps]:
  "fm_nodes (update_failover_state fm) = fm_nodes fm" "fm_regions (update_failover_state fm) = fm_regions fm"
  "fm_pending (update_failover_state fm) = fm_pending fm"
  by (simp_all add: update_failover_state_def Let_def)

text \<open>The record of a node after one look at it.\<close>

definition timed_out :: "node_health \<Rightarrow> int \<Rightarrow> node_health" where
  "timed_out h el =
     (let h1 = h\<lparr>h_failures := Suc (h_failures h), h_elapsed := Some el\<rparr> in
      case h_status h of
        NOnline \<Rightarrow> h1\<lparr>h_status := NUnhealthy\<rparr>
      | NUnhealthy \<Rightarrow> if 3 \<le> h_failures h1 then h1\<lparr>h_status := NOffline\<rparr> else h1
      | NOffline \<Rightarrow> h1)"

definition first_health :: "topo_node \<Rightarrow> node_health" where
  "first_health n = \<lparr>h_region = get_node_region n, h_status = NOnline, h_heartbeat = None,
     h_failures = 0, h_elapsed = None\<rparr>"

definition known_health :: "string \<Rightarrow> topo_node \<Rightarrow> failover_manager \<Rightarrow> node_health" where
  "known_health role n fm = (case map_of (fm_nodes fm) role of Some h \<Rightarrow> h | None \<Rightarrow> first_health n)"

definition looked_at :: "int \<Rightarrow> int \<Rightarrow> topo_node \<Rightarrow> node_health \<Rightarrow> node_health" where
  "looked_at timeout now n h =
     (case t_heartbeat n of
        None \<Rightarrow> h
      | Some hb \<Rightarrow> if now - hb > timeout * 1000 then timed_out h (now - hb)
                  else h\<lparr>h_status := NOnline, h_failures := 0, h_heartbeat := Some hb\<rparr>)"

lemma handle_node_timeout_frame [simp, frame_simps]:
  "fm_nodes (handle_node_timeout role h el fm) = AList.update role (timed_out h el) (fm_nodes fm)"
  "fm_regions (handle_node_timeout role h el fm) = fm_regions fm"
  "heartbeat_timeout_ms (handle_node_timeout role h el fm) = heartbeat_timeout_ms fm"
  "fm_state fm \<noteq> PARTITION \<Longrightarrow> fm_state (handle_node_timeout role h el fm) \<noteq> PARTITION"
  by (simp_all add: handle_node_timeout_def timed_out_def Let_def update_failover_state_def emit_event_def
      split: node_status.split)

lemma check_node_eq:
  "check_node now role n fm =
     (case t_heartbeat n of
        None \<Rightarrow> put_health role (known_health role n fm) fm
      | Some hb \<Rightarrow>
          if now - hb > heartbeat_timeout_ms fm * 1000
          then handle_node_timeout role (known_health role n fm) (now - hb) fm
          else put_health role (looked_at (heartbeat_timeout_ms fm) now n (known_health role n fm)) fm)"
  by (simp add: check_node_def known_health_def first_health_def looked_at_def Let_def split: option.split)

lemma check_node_frame [simp, frame_simps]:
  "fm_nodes (check_node now role n fm) =
     AList.update role (looked_at (heartbeat_timeout_ms fm) now n (known_health role n fm)) (fm_nodes fm)"
  "fm_regions (check_node now role n fm) = fm_regions fm"
  "heartbeat_timeout_ms (check_node now role n fm) = heartbeat_timeout_ms fm"
  "fm_state fm \<noteq> PARTITION \<Longrightarrow> fm_state (check_node now role n fm) \<noteq> PARTITION"
  by (simp_all add: check_node_eq looked_at_def split: option.split)

lemma looked_at_region [simp]: "h_region (looked_at t now n h) = h_region h"
  by (simp add: looked_at_def timed_out_def Let_def split: option.split node_status.split)

lemma check_node_regions:
  "node_regions (check_node now role n fm) =
     node_regions fm \<union> (if map_of (fm_nodes fm) role = None then {get_node_region n} else {})"
  by (cases "map_of (fm_nodes fm) role")
     (auto simp: node_regions_def image_update_same image_update_new known_health_def first_health_def)

lemma check_node_health_regions:
  "node_regions fm \<subseteq> node_regions (check_node_health now topo fm)"
  "node_regions (check_node_health now topo fm) \<subseteq> node_regions fm \<union> (\<lambda>(r, n). get_node_region n) ` set topo"
  "fm_regions (check_node_health now topo fm) = fm_regions fm"
  "fm_state fm \<noteq> PARTITION \<Longrightarrow> fm_state (check_node_health now topo fm) \<noteq> PARTITION"
  by (induction now topo fm rule: check_node_health.induct) (auto simp: check_node_regions split: if_splits)

lemma replay_messages_frame:
  assumes "replay_messages sends ms fm = (ok, fm')"
  shows "fm_nodes fm' = fm_nodes fm" "fm_regions fm' = fm_regions fm" "fm_state fm' = fm_state fm"
    "fm_pending fm' = fm_pending fm"
  using assms by (induction sends ms fm rule: replay_messages.induct) (auto split: if_splits)

lemma attempt_recovery_frame:
  assumes "attempt_recovery sends fm = (alive, fm')"
  shows "fm_nodes fm' = fm_nodes fm" and "fm_regions fm' = fm_regions fm"
    and "fm_state fm' = fm_state fm \<or> fm_state fm' \<in> {NORMAL, RECOVERING}"
proof -
  obtain ok fm1 where rep: "replay_messages sends (concat (map snd (fm_pending fm))) (fm\<lparr>fm_state := RECOVERING\<rparr>) = (ok, fm1)"
    by (cases "replay_messages sends (concat (map snd (fm_pending fm))) (fm\<lparr>fm_state := RECOVERING\<rparr>)")
  note frame = replay_messages_frame[OF rep]
  have "fm_nodes fm' = fm_nodes fm \<and> fm_regions fm' = fm_regions fm \<and>
      (fm_state fm' = fm_state fm \<or> fm_state fm' \<in> {NORMAL, RECOVERING})"
    using assms rep frame
    by (cases ok) (auto simp: attempt_recovery_def handle_recovery_def replay_pending_messages_def Let_def
        split: if_splits)
  then show "fm_nodes fm' = fm_nodes fm" "fm_regions fm' = fm_regions fm"
    "fm_state fm' = fm_state fm \<or> fm_state fm' \<in> {NORMAL, RECOVERING}" by blast+
qed

lemma detect_partitions_frame [simp, frame_simps]:
  "fm_nodes (detect_partitions fm) = fm_nodes fm" "fm_regions (detect_partitions fm) = fm_regions fm"
  "fm_pending (detect_partitions fm) = fm_pending fm"
  by (simp_all add: detect_partitions_def Let_def)

lemma check_region_health_nodes [simp]: "fm_nodes (check_region_health fm) = fm_nodes fm"
  by (simp add: check_region_health_def fold_check_region)

lemma monitor_tick_frame:
  assumes "monitor_tick now topo sends fm = (alive, fm')"
  shows "fm_nodes fm' = fm_nodes (check_node_health now topo fm)"
    and "fm_regions fm' = fm_regions (check_region_health (check_node_health now topo fm))"
  using attempt_recovery_frame[OF assms[unfolded monitor_tick_def]] by simp_all

lemma node_regions_tick:
  "monitor_tick now topo sends fm = (alive, fm') \<Longrightarrow> node_regions fm' = node_regions (check_node_health now topo fm)"
  by (simp add: node_regions_def monitor_tick_frame)

section \<open>Runs of the monitor\<close>

text \<open>Rounds with the times and topologies they read, from a manager that has just started.\<close>

fun run_ticks :: "(json dict \<Rightarrow> bool) \<Rightarrow> (int \<times> topo_node dict) list \<Rightarrow> failover_manager \<Rightarrow> failover_manager" where
  "run_ticks sends [] fm = fm"
| "run_ticks sends ((now, topo) # ts) fm =
     (case monitor_tick now topo sends fm of
        (True, fm1) \<Rightarrow> run_ticks sends ts fm1
      | (False, fm1) \<Rightarrow> fm1)"

definition known_regions :: "failover_manager \<Rightarrow> bool" where
  "known_regions fm \<longleftrightarrow> fst ` set (fm_regions fm) \<subseteq> node_regions fm \<and> distinct (map fst (fm_regions fm))"

lemma distinct_check_regions:
  "distinct (map fst (fm_regions fm)) \<Longrightarrow> distinct (map fst (fm_regions (fold check_region rs fm)))"
  by (induction rs arbitrary: fm)
     (simp_all add: check_region_def handle_region_isolated_def Let_def distinct_update)

text \<open>The entries after a round are those of the regions its nodes have.\<close>

lemma region_entries:
  assumes "known_regions fm"
    and "(reg, x) \<in> set (fm_regions (check_region_health (check_node_health now topo fm)))"
  shows "reg \<in> node_regions (check_node_health now topo fm) \<and>
    x = region_health_of reg (fm_nodes (check_node_health now topo fm))"
proof -
  let ?fm = "check_node_health now topo fm"
  have "distinct (map fst (fm_regions (check_region_health ?fm)))"
    using assms(1) unfolding check_region_health_def
    by (intro distinct_check_regions) (simp add: known_regions_def check_node_health_regions)
  then have some: "map_of (fm_regions (check_region_health ?fm)) reg = Some x"
    using assms(2) by (rule map_of_is_SomeI)
  show ?thesis
  proof (cases "reg \<in> node_regions ?fm")
    case True
    then show ?thesis using some by (simp add: check_region_health_def fold_check_region node_regions_def)
  next
    case False
    then have "map_of (fm_regions fm) reg = Some x"
      using some by (simp add: check_region_health_def fold_check_region node_regions_def check_node_health_regions)
    then have "reg \<in> fst ` set (fm_regions fm)" by (force dest: map_of_SomeD)
    then have "reg \<in> node_regions fm" using assms(1) by (auto simp: known_regions_def)
    then show ?thesis using False check_node_health_regions(1)[of fm now topo] by blast
  qed
qed

lemma known_regions_tick:
  assumes "known_regions fm" and "monitor_tick now topo sends fm = (alive, fm')"
  shows "known_regions fm'"
proof -
  let ?fm = "check_node_health now topo fm"
  have "distinct (map fst (fm_regions (check_region_health ?fm)))"
    using assms(1) unfolding check_region_health_def
    by (intro distinct_check_regions) (simp add: known_regions_def check_node_health_regions)
  then show ?thesis using region_entries[OF assms(1), of _ _ now topo]
    by (auto simp: known_regions_def monitor_tick_frame[OF assms(2)] node_regions_tick[OF assms(2)])
qed

lemma known_regions_run: "known_regions fm \<Longrightarrow> known_regions (run_ticks sends ts fm)"
  by (induction sends ts fm rule: run_ticks.induct)
     (auto dest: known_regions_tick split: prod.splits bool.splits)

lemma detect_state:
  "fm_state (detect_partitions fm) =
     (if fm_state fm = PARTITION \<or> (\<exists>(r, h)\<in>set (fm_regions fm). rh_status h = RIsolated) \<and>
          (\<exists>(r, h)\<in>set (fm_regions fm). rh_status h = RHealthy)
      then PARTITION else fm_state fm)"
  by (auto simp: detect_partitions_def Let_def length_greater_0_conv filter_empty_conv)

lemma region_isolated:
  assumes "\<forall>(r, h)\<in>set hs. h_status h \<noteq> NOnline" and "(r, h) \<in> set hs"
  shows "rh_status (region_health_of (h_region h) hs) = RIsolated"
proof -
  have "filter (\<lambda>(r, x). h_status x = NOnline) (region_nodes (h_region h) hs) = []"
    using assms(1) by (auto simp: region_nodes_def filter_empty_conv)
  moreover have "region_nodes (h_region h) hs \<noteq> []"
    using assms(2) by (auto simp: region_nodes_def filter_empty_conv)
  ultimately show ?thesis by (simp add: region_health_of_def Let_def)
qed

text \<open>
  A total outage is never reported as an active failover: whatever rounds came before, when a
  round ends with no node online and the network was not already partitioned, the state is
  DEGRADED and \<open>is_failover_active\<close> says no.
\<close>

theorem total_outage_reported_degraded:
  assumes "fm = run_ticks sends ts (new_manager timeout)" and "fm_state fm \<noteq> PARTITION"
    and "monitor_tick now topo sends fm = (alive, fm')"
    and "fm_nodes fm' \<noteq> []" and "\<forall>(r, h)\<in>set (fm_nodes fm'). h_status h \<noteq> NOnline"
  shows "fm_state fm' = DEGRADED \<and> \<not> is_failover_active fm'"
proof -
  let ?fm1 = "check_node_health now topo fm" and ?fm2 = "check_region_health (check_node_health now topo fm)"
  have known: "known_regions fm"
    using assms(1) known_regions_run[of "new_manager timeout"] by (simp add: known_regions_def new_manager_def)
  have nodes: "fm_nodes ?fm1 = fm_nodes fm'" using monitor_tick_frame[OF assms(3)] by simp
  obtain r h where rh: "(r, h) \<in> set (fm_nodes fm')" using assms(4) by (metis list.set_intros(1) neq_Nil_conv surj_pair)
  have iso: "rh_status x = RIsolated" if "(reg, x) \<in> set (fm_regions ?fm2)" for reg x
    using region_entries[OF known that] region_isolated[OF assms(5)] by (auto simp: nodes node_regions_def)
  have state1: "fm_state ?fm1 \<noteq> PARTITION" using assms(2) by (rule check_node_health_regions(4))
  have "\<exists>reg\<in>set (regions_of (fm_nodes ?fm1)). rh_status (region_health_of reg (fm_nodes ?fm1)) = RIsolated"
    using region_isolated[OF assms(5) rh] rh by (force simp: nodes)
  then have state2: "fm_state ?fm2 = DEGRADED"
    using fold_check_region_state[OF state1] by (simp add: check_region_health_def)
  have "\<not> (\<exists>(reg, x)\<in>set (fm_regions ?fm2). rh_status x = RHealthy)" using iso by fastforce
  then have state3: "fm_state (detect_partitions ?fm2) = DEGRADED" using state2 by (simp add: detect_state)
  have "h_region h \<in> set (regions_of (fm_nodes ?fm1))" using rh by (force simp: nodes)
  then have "map_of (fm_regions ?fm2) (h_region h) \<noteq> None"
    by (simp add: check_region_health_def fold_check_region)
  then obtain x where "(h_region h, x) \<in> set (fm_regions ?fm2)" by (auto dest: map_of_SomeD)
  then have "\<not> list_all (\<lambda>(r, h). rh_status h = RHealthy) (fm_regions (detect_partitions ?fm2))"
    using iso by (fastforce simp: list_all_iff)
  then have "fm' = detect_partitions ?fm2"
    using assms(3) state3 by (simp add: monitor_tick_def attempt_recovery_def)
  then show ?thesis using state3 by (simp add: is_failover_active_def)
qed

text \<open>
  A partition is never detected in the mesh this code runs in: its nodes carry no region, so
  all of them fall into the one region \<^verbatim>\<open>unknown\<close>, and whatever the times, heartbeats and nodes of
  the rounds, the state is never PARTITION.
\<close>

theorem partition_never_detected:
  assumes "\<forall>(now, topo)\<in>set ts. \<exists>ms. topo = mesh_topology ms"
  shows "fm_state (run_ticks sends ts (new_manager timeout)) \<noteq> PARTITION"
proof -
  have "fm_state (run_ticks sends ts fm) \<noteq> PARTITION"
    if "fm_state fm \<noteq> PARTITION" "known_regions fm" "node_regions fm \<subseteq> {''unknown''}" for fm
    using assms that
  proof (induction sends ts fm rule: run_ticks.induct)
    case (2 sends now topo ts fm)
    let ?fm1 = "check_node_health now topo fm"
    obtain ms where topo: "topo = mesh_topology ms" using 2(2) by auto
    then have "(\<lambda>(r, n). get_node_region n) ` set topo \<subseteq> {''unknown''}"
      by (auto simp: mesh_topology_def get_node_region_def)
    then have regions: "node_regions ?fm1 \<subseteq> {''unknown''}"
      using check_node_health_regions(2)[of now topo fm] 2(5) by blast
    have state1: "fm_state ?fm1 \<noteq> PARTITION" using 2(3) by (rule check_node_health_regions(4))
    have state2: "fm_state (check_region_health ?fm1) \<noteq> PARTITION"
      using fold_check_region_state[OF state1] state1 by (simp add: check_region_health_def)
    have entry: "reg = ''unknown'' \<and> x = region_health_of ''unknown'' (fm_nodes ?fm1)"
      if "(reg, x) \<in> set (fm_regions (check_region_health ?fm1))" for reg x
      using region_entries[OF 2(4) that] regions by auto
    have "\<not> ((\<exists>(reg, x)\<in>set (fm_regions (check_region_health ?fm1)). rh_status x = RIsolated) \<and>
        (\<exists>(reg, x)\<in>set (fm_regions (check_region_health ?fm1)). rh_status x = RHealthy))"
    proof (rule notI, elim conjE bexE)
      fix p q
      assume p: "p \<in> set (fm_regions (check_region_health ?fm1))" "case p of (reg, x) \<Rightarrow> rh_status x = RIsolated"
        and q: "q \<in> set (fm_regions (check_region_health ?fm1))" "case q of (reg, x) \<Rightarrow> rh_status x = RHealthy"
      obtain a x b y where pq: "p = (a, x)" "q = (b, y)" by (cases p; cases q)
      have "x = y" using entry[of a x] entry[of b y] p(1) q(1) unfolding pq by blast
      then show False using p(2) q(2) unfolding pq by simp
    qed
    then have state3: "fm_state (detect_partitions (check_region_health ?fm1)) \<noteq> PARTITION"
      unfolding detect_state using state2 by simp
    obtain alive fm' where tick: "monitor_tick now topo sends fm = (alive, fm')"
      by (cases "monitor_tick now topo sends fm")
    have state: "fm_state fm' \<noteq> PARTITION"
      using attempt_recovery_frame(3)[OF tick[unfolded monitor_tick_def]] state3 by auto
    have "node_regions fm' \<subseteq> {''unknown''}" using regions node_regions_tick[OF tick] by simp
    then show ?case
      using 2(1)[OF tick[symmetric]] 2(2) state tick known_regions_tick[OF 2(4) tick] by (cases alive) auto
  qed simp
  from this[of "new_manager timeout"] show ?thesis
    by (simp add: new_manager_def known_regions_def node_regions_def)
qed

lemma replay_messages_spec:
  "replay_messages sends ms fm =
     (list_all sends ms, fm\<lparr>fm_sent := fm_sent fm @ takeWhile sends ms\<rparr>)"
  by (induction sends ms fm rule: replay_messages.induct) auto

text \<open>
  Recovery is all or nothing: when every region is healthy again, the queued messages are sent
  in the order of their queues and the state returns to NORMAL with nothing left to replay; but
  when sending one of them raises, the monitoring thread ends in state RECOVERING with the whole
  queue still there, including what was already sent.
\<close>

theorem recovery_all_or_nothing:
  assumes "fm_state fm \<noteq> NORMAL" and "list_all (\<lambda>(r, h). rh_status h = RHealthy) (fm_regions fm)"
    and "queue = concat (map snd (fm_pending fm))" and "attempt_recovery sends fm = (alive, fm')"
  shows "alive = list_all sends queue \<and> fm_sent fm' = fm_sent fm @ takeWhile sends queue \<and>
    (if alive then fm_state fm' = NORMAL \<and> fm_pending fm' = []
     else fm_state fm' = RECOVERING \<and> fm_pending fm' = fm_pending fm)"
proof (cases "list_all sends queue")
  case True
  then show ?thesis using assms
    by (auto simp: attempt_recovery_def handle_recovery_def replay_pending_messages_def Let_def
        replay_messages_spec emit_event_def)
next
  case False
  then show ?thesis using assms
    by (auto simp: attempt_recovery_def handle_recovery_def replay_pending_messages_def Let_def
        replay_messages_spec)
qed

theorem recovery_all_or_nothing_witness:
  "fm_state (snd (attempt_recovery (\<lambda>m. m \<noteq> [])
     ((new_manager 10000)\<lparr>fm_state := DEGRADED, fm_pending := [(''ops'', [[(''k'', JNull)], []])]\<rparr>))) = RECOVERING"
proof -
  let ?fm = "(new_manager 10000)\<lparr>fm_state := DEGRADED, fm_pending := [(''ops'', [[(''k'', JNull)], []])]\<rparr>"
  obtain alive fm' where rec: "attempt_recovery (\<lambda>m. m \<noteq> []) ?fm = (alive, fm')"
    by (cases "attempt_recovery (\<lambda>m. m \<noteq> []) ?fm")
  show ?thesis using recovery_all_or_nothing[OF _ _ refl rec] rec by (simp add: new_manager_def)
qed

end
