(* ===== verification/Py_Text.thy ===== *)
theory Py_Text
  imports Prelude
begin

text \<open>
  Python's conversions between texts and numbers, the way the code uses them: \<open>s.split(c)\<close>,
  \<open>s.lstrip(c)\<close>, \<open>s.isdigit()\<close>, \<open>int(s)\<close>, \<open>b.hex()\<close> and \<open>bytes.fromhex(s)\<close>, with the round trips the
  components rely on, and the rounding of numbers. Texts are ASCII; a byte string is a list of characters.
\<close>

section \<open>Splitting\<close>

fun py_split :: "char \<Rightarrow> string \<Rightarrow> string list" where
  "py_split sep [] = [[]]"
| "py_split sep (c # cs) =
     (if c = sep then [] # py_split sep cs
      else case py_split sep cs of [] \<Rightarrow> [[c]] | p # ps \<Rightarrow> (c # p) # ps)"

definition py_lstrip :: "char \<Rightarrow> string \<Rightarrow> string" where
  "py_lstrip c s = dropWhile (\<lambda>x. x = c) s"

lemma py_split_not_Nil [simp]: "py_split sep s \<noteq> []"
  by (induction s) (auto split: list.split)

lemma py_split_absent: "sep \<notin> set s \<Longrightarrow> py_split sep s = [s]"
  by (induction s) auto

lemma py_split_append: "sep \<notin> set s \<Longrightarrow> py_split sep (s @ sep # t) = s # py_split sep t"
  by (induction s) auto

lemma py_split_join:
  assumes "xs \<noteq> []" and "\<forall>x \<in> set xs. sep \<notin> set x"
  shows "py_split sep (py_join [sep] xs) = xs"
  using assms by (induction "[sep]" xs rule: py_join.induct) (auto simp: py_split_absent py_split_append)

section \<open>Decimal numbers\<close>

definition digit_char :: "char \<Rightarrow> bool" where
  "digit_char c \<longleftrightarrow> 48 \<le> (of_char c :: nat) \<and> (of_char c :: nat) \<le> 57"

definition py_isdigit :: "string \<Rightarrow> bool" where
  "py_isdigit s \<longleftrightarrow> s \<noteq> [] \<and> list_all digit_char s"

definition digit_val :: "char \<Rightarrow> nat" where
  "digit_val c = of_char c - 48"

definition nat_of_digits :: "string \<Rightarrow> nat" where
  "nat_of_digits s = foldl (\<lambda>n c. 10 * n + digit_val c) 0 s"

definition space_char :: "char \<Rightarrow> bool" where
  "space_char c \<longleftrightarrow> (of_char c :: nat) \<in> {9, 10, 11, 12, 13, 32}"

definition py_strip :: "string \<Rightarrow> string" where
  "py_strip s = rev (dropWhile space_char (rev (dropWhile space_char s)))"

text \<open>\<open>int(s)\<close> skips white space around the number, takes a sign and allows single underscores
  between digits; every other text is a \<open>ValueError\<close>, here \<open>None\<close>.\<close>

fun digit_groups :: "string \<Rightarrow> bool" where
  "digit_groups [] = False"
| "digit_groups [c] = digit_char c"
| "digit_groups (c # d # cs) =
     (digit_char c \<and> (if d = CHR ''_'' then digit_groups cs else digit_groups (d # cs)))"

definition py_uint :: "string \<Rightarrow> nat option" where
  "py_uint s = (if digit_groups s then Some (nat_of_digits (filter (\<lambda>c. c \<noteq> CHR ''_'') s)) else None)"

definition py_int :: "string \<Rightarrow> int option" where
  "py_int s = (case py_strip s of
       [] \<Rightarrow> None
     | c # cs \<Rightarrow>
         if c = CHR ''-'' then map_option (\<lambda>n. - int n) (py_uint cs)
         else if c = CHR ''+'' then map_option int (py_uint cs)
         else map_option int (py_uint (c # cs)))"

lemma digit_literals [str_simps]:
  "char_of (48::nat) = CHR ''0''" "char_of (49::nat) = CHR ''1''" "char_of (50::nat) = CHR ''2''"
  "char_of (51::nat) = CHR ''3''" "char_of (52::nat) = CHR ''4''" "char_of (53::nat) = CHR ''5''"
  "char_of (54::nat) = CHR ''6''" "char_of (55::nat) = CHR ''7''" "char_of (56::nat) = CHR ''8''"
  "char_of (57::nat) = CHR ''9''"
  by (simp_all add: char_of_def bit_Suc_0_iff)

lemma digit_char_of [simp]: "n < 10 \<Longrightarrow> digit_char (char_of (48 + n :: nat))"
  by (simp add: digit_char_def)

lemma digit_val_of [simp]: "n < 10 \<Longrightarrow> digit_val (char_of (48 + n :: nat)) = n"
  by (simp add: digit_val_def)

lemma digit_char_not:
  "digit_char c \<Longrightarrow> c \<noteq> CHR ''_''" "digit_char c \<Longrightarrow> c \<noteq> CHR ''-''" "digit_char c \<Longrightarrow> c \<noteq> CHR ''+''"
  "digit_char c \<Longrightarrow> c \<noteq> CHR ''.''" "digit_char c \<Longrightarrow> c \<noteq> CHR '':''" "digit_char c \<Longrightarrow> \<not> space_char c"
  by (auto simp: digit_char_def space_char_def)

lemma digits_of_nat_chars: "list_all digit_char (digits_of_nat n)"
  by (induction n rule: digits_of_nat.induct) (subst digits_of_nat.simps, simp)

lemma digits_of_nat_not_Nil [simp]: "digits_of_nat n \<noteq> []"
  by (subst digits_of_nat.simps) simp

lemma nat_of_digits_snoc: "nat_of_digits (s @ [c]) = 10 * nat_of_digits s + digit_val c"
  by (simp add: nat_of_digits_def)

lemma nat_of_digits_of_nat [simp]: "nat_of_digits (digits_of_nat n) = n"
proof (induction n rule: digits_of_nat.induct)
  case (1 n)
  show ?case
  proof (cases "n < 10")
    case True
    then show ?thesis by (subst digits_of_nat.simps) (simp add: nat_of_digits_def)
  next
    case False
    then show ?thesis
      using 1 by (subst digits_of_nat.simps) (simp add: nat_of_digits_snoc)
  qed
qed

lemma py_isdigit_digits [simp]: "py_isdigit (digits_of_nat n)"
  by (simp add: py_isdigit_def digits_of_nat_chars)

lemma digit_groups_digits: "list_all digit_char s \<Longrightarrow> s \<noteq> [] \<Longrightarrow> digit_groups s"
  by (induction s rule: digit_groups.induct) (auto dest: digit_char_not)

lemma py_uint_digits: "list_all digit_char s \<Longrightarrow> s \<noteq> [] \<Longrightarrow> py_uint s = Some (nat_of_digits s)"
proof -
  assume s: "list_all digit_char s" "s \<noteq> []"
  then have "\<forall>c \<in> set s. c \<noteq> CHR ''_''" by (metis digit_char_not(1) list_all_iff)
  then show ?thesis using s by (simp add: py_uint_def digit_groups_digits filter_id_conv)
qed

lemma py_strip_id: "s \<noteq> [] \<Longrightarrow> \<not> space_char (hd s) \<Longrightarrow> \<not> space_char (last s) \<Longrightarrow> py_strip s = s"
proof -
  assume s: "s \<noteq> []" "\<not> space_char (hd s)" "\<not> space_char (last s)"
  have drop: "xs \<noteq> [] \<Longrightarrow> \<not> space_char (hd xs) \<Longrightarrow> dropWhile space_char xs = xs" for xs
    by (cases xs) auto
  show ?thesis using s by (simp add: py_strip_def drop hd_rev)
qed

text \<open>Printing a number and reading it back.\<close>

lemma py_int_str_int [simp]: "py_int (py_str_int i) = Some i"
proof -
  have chars: "list_all digit_char (digits_of_nat n)" and ne: "digits_of_nat n \<noteq> []" for n
    by (simp_all add: digits_of_nat_chars)
  have hdl: "digit_char (hd (digits_of_nat n))" "digit_char (last (digits_of_nat n))" for n
    using chars[of n] ne[of n] by (auto simp: list_all_iff)
  have strip: "py_strip (digits_of_nat n) = digits_of_nat n" for n
    using hdl ne by (intro py_strip_id) (auto dest: digit_char_not)
  have strip': "py_strip (CHR ''-'' # digits_of_nat n) = CHR ''-'' # digits_of_nat n" for n
    using digit_char_not(6)[OF hdl(2)[of n]] by (intro py_strip_id) (simp_all add: space_char_def)
  show ?thesis
  proof (cases "i < 0")
    case True
    then show ?thesis
      by (simp add: py_int_def py_str_int_def strip' py_uint_digits chars)
  next
    case False
    obtain c cs where c: "digits_of_nat (nat i) = c # cs"
      using ne[of "nat i"] by (cases "digits_of_nat (nat i)") auto
    have "digit_char c" using hdl(1)[of "nat i"] by (simp add: c)
    then have "c \<noteq> CHR ''-''" "c \<noteq> CHR ''+''" by (auto dest: digit_char_not)
    then show ?thesis
      using False py_uint_digits[OF chars ne, of "nat i"] strip[of "nat i"]
        nat_of_digits_of_nat[of "nat i"]
      by (simp add: py_int_def py_str_int_def c)
  qed
qed

lemma dot_not_in_str_int: "CHR ''.'' \<notin> set (py_str_int i)"
proof -
  have "CHR ''.'' \<notin> set (digits_of_nat n)" for n
    using digits_of_nat_chars[of n] digit_char_not(4) by (metis list_all_iff)
  then show ?thesis by (simp add: py_str_int_def)
qed

section \<open>Hexadecimal byte strings\<close>

definition hex_digit :: "nat \<Rightarrow> char" where
  "hex_digit n = char_of (if n < 10 then 48 + n else 87 + n)"

definition py_hex :: "string \<Rightarrow> string" where
  "py_hex b = concat (map (\<lambda>c. [hex_digit (of_char c div 16), hex_digit (of_char c mod 16)]) b)"

definition hex_value :: "char \<Rightarrow> nat option" where
  "hex_value c = (let n = of_char c :: nat in
     if 48 \<le> n \<and> n \<le> 57 then Some (n - 48)
     else if 97 \<le> n \<and> n \<le> 102 then Some (n - 87)
     else if 65 \<le> n \<and> n \<le> 70 then Some (n - 55)
     else None)"

text \<open>\<open>bytes.fromhex\<close>: white space between the bytes is skipped; anything else raises, here \<open>None\<close>.\<close>

fun py_fromhex :: "string \<Rightarrow> string option" where
  "py_fromhex [] = Some []"
| "py_fromhex [c] = (if space_char c then Some [] else None)"
| "py_fromhex (c # d # cs) =
     (if space_char c then py_fromhex (d # cs)
      else case (hex_value c, hex_value d) of
        (Some a, Some b) \<Rightarrow> map_option ((#) (char_of (16 * a + b))) (py_fromhex cs)
      | _ \<Rightarrow> None)"

lemma hex_digit_facts:
  assumes "n < 16"
  shows "hex_value (hex_digit n) = Some n" "\<not> space_char (hex_digit n)" "hex_digit n \<noteq> CHR '':''"
proof -
  have v: "(of_char (hex_digit n) :: nat) = (if n < 10 then 48 + n else 87 + n)"
    using assms by (simp add: hex_digit_def)
  show "hex_value (hex_digit n) = Some n" using assms by (simp add: hex_value_def v)
  show "\<not> space_char (hex_digit n)" using assms by (simp add: space_char_def v)
  show "hex_digit n \<noteq> CHR '':''"
  proof
    assume "hex_digit n = CHR '':''"
    then have "(of_char (hex_digit n) :: nat) = 58" by simp
    then show False using v assms by (simp split: if_splits)
  qed
qed

lemma py_fromhex_hex [simp]: "py_fromhex (py_hex b) = Some b"
proof (induction b)
  case Nil
  then show ?case by (simp add: py_hex_def)
next
  case (Cons c b)
  have a: "(of_char c :: nat) div 16 < 16"
    using nat_of_char_less_256[of c] by (simp add: less_mult_imp_div_less)
  have "16 * ((of_char c :: nat) div 16) + of_char c mod 16 = of_char c" by simp
  with Cons a show ?case
    by (simp add: py_hex_def hex_digit_facts)
qed

lemma colon_not_in_hex: "CHR '':'' \<notin> set (py_hex b)"
proof
  assume "CHR '':'' \<in> set (py_hex b)"
  then obtain c where "c \<in> set b"
    and "hex_digit (of_char c div 16) = CHR '':'' \<or> hex_digit (of_char c mod 16) = CHR '':''"
    by (auto simp: py_hex_def)
  moreover have "(of_char c :: nat) div 16 < 16" "(of_char c :: nat) mod 16 < 16"
    using nat_of_char_less_256[of c] by (simp_all add: less_mult_imp_div_less)
  ultimately show False using hex_digit_facts(3) by metis
qed

lemma py_in_subset: "py_in a s \<Longrightarrow> set a \<subseteq> set s"
proof (induction s)
  case (Cons c cs)
  show ?case
  proof (cases "py_in a cs")
    case False
    with Cons.prems have "take (length a) (c # cs) = a" by simp
    then show ?thesis by (metis set_take_subset)
  qed (use Cons.IH in auto)
qed simp

section \<open>Rounding\<close>

text \<open>To the nearest, a tie to the even digit; \<open>round2\<close> is \<open>round(q, 2)\<close>.\<close>

definition round_half_even :: "rat \<Rightarrow> int" where
  "round_half_even q = (let f = \<lfloor>q\<rfloor>; d = q - of_int f in
     if d < 1 / 2 then f else if 1 / 2 < d then f + 1 else if even f then f else f + 1)"

definition round2 :: "rat \<Rightarrow> rat" where
  "round2 q = of_int (round_half_even (q * 100)) / 100"

section \<open>Numbers in texts\<close>

text \<open>\<open>f"{q:.nf}"\<close>: rounded to the nearest, a tie to the even digit.\<close>

definition pad_zeros :: "nat \<Rightarrow> string \<Rightarrow> string" where
  "pad_zeros n s = replicate (n - length s) CHR ''0'' @ s"

definition py_fixed :: "nat \<Rightarrow> rat \<Rightarrow> string" where
  "py_fixed n q = (let k = nat \<bar>round_half_even (\<bar>q\<bar> * 10 ^ n)\<bar> in
     (if q < 0 then ''-'' else []) @ digits_of_nat (k div 10 ^ n)
     @ (if n = 0 then [] else ''.'' @ pad_zeros n (digits_of_nat (k mod 10 ^ n))))"

definition percent :: "rat \<Rightarrow> string" where
  "percent q = py_fixed 0 (100 * q) @ ''%''"

end
