(* ===== verification/Json_Read.thy ===== *)
theory Json_Read
  imports Py_Text
begin

text \<open>
  Reading dataclasses back from JSON values. Python does not check the types of the values it
  finds; the model covers the files whose fields have the types the writing code gives them, a
  field of another type is \<open>Untyped\<close>. A required field that is missing is a \<open>TypeError\<close> of the
  constructor, here \<open>MissingField\<close>.
\<close>

datatype read_error = Untyped string | ValueError string | MissingField string

fun json_strs :: "json list \<Rightarrow> string list option" where
  "json_strs [] = Some []"
| "json_strs (JStr s # js) = map_option ((#) s) (json_strs js)"
| "json_strs (_ # js) = None"

definition rd_str :: "json dict \<Rightarrow> string \<Rightarrow> string \<Rightarrow> read_error + string" where
  "rd_str d k def = (case map_of d k of None \<Rightarrow> Inr def | Some (JStr s) \<Rightarrow> Inr s | Some _ \<Rightarrow> Inl (Untyped k))"

definition rd_int :: "json dict \<Rightarrow> string \<Rightarrow> int \<Rightarrow> read_error + int" where
  "rd_int d k def = (case map_of d k of None \<Rightarrow> Inr def | Some (JInt i) \<Rightarrow> Inr i | Some _ \<Rightarrow> Inl (Untyped k))"

definition rd_obj :: "json dict \<Rightarrow> string \<Rightarrow> read_error + json dict" where
  "rd_obj d k = (case map_of d k of None \<Rightarrow> Inr [] | Some (JObj v) \<Rightarrow> Inr v | Some _ \<Rightarrow> Inl (Untyped k))"

definition rd_strs :: "json dict \<Rightarrow> string \<Rightarrow> read_error + string list" where
  "rd_strs d k = (case map_of d k of None \<Rightarrow> Inr []
     | Some (JList js) \<Rightarrow> (case json_strs js of Some l \<Rightarrow> Inr l | None \<Rightarrow> Inl (Untyped k))
     | Some _ \<Rightarrow> Inl (Untyped k))"

definition bind_sum :: "'e + 'a \<Rightarrow> ('a \<Rightarrow> 'e + 'b) \<Rightarrow> 'e + 'b" where
  "bind_sum x f = (case x of Inl e \<Rightarrow> Inl e | Inr a \<Rightarrow> f a)"

lemma bind_sum_simps [simp]: "bind_sum (Inl e) f = Inl e" "bind_sum (Inr a) f = f a"
  by (simp_all add: bind_sum_def)

lemma bind_sum_Inr: "bind_sum x f = Inr b \<longleftrightarrow> (\<exists>a. x = Inr a \<and> f a = Inr b)"
  by (cases x) auto

lemma json_strs_map [simp]: "json_strs (map JStr l) = Some l"
  by (induction l) auto

lemma map_sum_Inr_iff: "map_sum f g x = Inr y \<longleftrightarrow> (\<exists>a. x = Inr a \<and> y = g a)"
  by (cases x) auto

text \<open>A required text, a dictionary of texts and a dictionary of numbers.\<close>

definition rq_str :: "json dict \<Rightarrow> string \<Rightarrow> read_error + string" where
  "rq_str d k = (case map_of d k of None \<Rightarrow> Inl (MissingField k) | Some (JStr s) \<Rightarrow> Inr s
     | Some _ \<Rightarrow> Inl (Untyped k))"

fun str_dict :: "json dict \<Rightarrow> string dict option" where
  "str_dict [] = Some []"
| "str_dict ((k, JStr s) # d) = map_option ((#) (k, s)) (str_dict d)"
| "str_dict (_ # d) = None"

fun num_dict :: "json dict \<Rightarrow> rat dict option" where
  "num_dict [] = Some []"
| "num_dict ((k, JFloat r) # d) = map_option ((#) (k, r)) (num_dict d)"
| "num_dict ((k, JInt i) # d) = map_option ((#) (k, of_int i)) (num_dict d)"
| "num_dict (_ # d) = None"

definition rd_dict :: "(json dict \<Rightarrow> 'a option) \<Rightarrow> 'a \<Rightarrow> json dict \<Rightarrow> string \<Rightarrow> read_error + 'a" where
  "rd_dict f def d k = (case map_of d k of
       None \<Rightarrow> Inr def
     | Some (JObj v) \<Rightarrow> (case f v of Some a \<Rightarrow> Inr a | None \<Rightarrow> Inl (Untyped k))
     | Some _ \<Rightarrow> Inl (Untyped k))"

definition json_strs_dict :: "string dict \<Rightarrow> json dict" where
  "json_strs_dict d = map (\<lambda>(k, v). (k, JStr v)) d"

definition json_nums_dict :: "rat dict \<Rightarrow> json dict" where
  "json_nums_dict d = map (\<lambda>(k, v). (k, JFloat v)) d"

lemma str_dict_json [simp]: "str_dict (json_strs_dict d) = Some d"
  by (induction d) (auto simp: json_strs_dict_def)

lemma num_dict_json [simp]: "num_dict (json_nums_dict d) = Some d"
  by (induction d) (auto simp: json_nums_dict_def)

text \<open>\<open>d.get(k, def)\<close> for any value, and the text of a value in an f-string; how Python prints a value that
  is no text (\<open>pr\<close>) is a parameter.\<close>

definition json_get :: "json dict \<Rightarrow> string \<Rightarrow> json \<Rightarrow> json" where
  "json_get d k def = (case map_of d k of Some v \<Rightarrow> v | None \<Rightarrow> def)"

definition py_text :: "(json \<Rightarrow> string) \<Rightarrow> json \<Rightarrow> string" where
  "py_text pr v = (case v of JStr s \<Rightarrow> s | _ \<Rightarrow> pr v)"

end
