(* ===== verification/Blueprint.thy ===== *)
theory Blueprint
  imports Json_Read
begin

text \<open>
  \<^verbatim>\<open>milimo-core/src/milimo_core/blueprint_manager.py\<close>: versioned snapshots of a claw. The manager
  keeps a state (version, history, provenance chain), a directory of snapshot files and the saved
  copy of its state. The chain of a snapshot is the same Python list as the one in the state when
  the state has one, so chains live in a store and snapshots in memory carry a reference to it; a
  file holds a copy. YAML files, the inventory of the registry and the time are arguments of
  \<open>export\<close>; SHA-256 and \<open>json.dumps(\<dots>, sort_keys=True)\<close> are parameters.
\<close>

section \<open>Snapshots\<close>

record blueprint_meta =
  mt_version :: string
  mt_created_at :: string
  mt_evolved_from :: string
  mt_squad_size :: int
  mt_niche_tags :: "string list"
  mt_business_type :: string
  mt_operational_months :: int

record 'c snapshot =
  bs_meta :: blueprint_meta
  claw_config :: "json dict"
  tools_inventory :: "json dict"
  bs_policy :: "json dict"
  learned_priors :: "json dict"
  integrity_digest :: "string option"
  integrity_chain :: "'c option"

definition meta_dict :: "blueprint_meta \<Rightarrow> json dict" where
  "meta_dict m =
     [(''version'', JStr (mt_version m)), (''created_at'', JStr (mt_created_at m)),
      (''evolved_from'', JStr (mt_evolved_from m)), (''squad_size'', JInt (mt_squad_size m)),
      (''niche_tags'', JList (map JStr (mt_niche_tags m))),
      (''business_type'', JStr (mt_business_type m)),
      (''operational_months'', JInt (mt_operational_months m))]"

definition integrity_dict :: "string list snapshot \<Rightarrow> json dict" where
  "integrity_dict s =
     (case integrity_digest s of None \<Rightarrow> [] | Some d \<Rightarrow> [(''digest'', JStr d)])
     @ (case integrity_chain s of None \<Rightarrow> [] | Some c \<Rightarrow> [(''provenance_chain'', JList (map JStr c))])"

definition snapshot_to_dict :: "string list snapshot \<Rightarrow> json dict" where
  "snapshot_to_dict s =
     [(''meta'', JObj (meta_dict (bs_meta s))), (''claw_config'', JObj (claw_config s)),
      (''tools_inventory'', JObj (tools_inventory s)), (''policy'', JObj (bs_policy s)),
      (''learned_priors'', JObj (learned_priors s)), (''integrity'', JObj (integrity_dict s))]"

text \<open>
  Reading a snapshot back: a missing field takes the default of the dataclass; the default of
  \<open>created_at\<close> is the current time.
\<close>

definition meta_from_dict :: "string \<Rightarrow> json dict \<Rightarrow> read_error + blueprint_meta" where
  "meta_from_dict now d =
     bind_sum (rd_str d ''version'' ''0.1.0'') (\<lambda>v.
     bind_sum (rd_str d ''created_at'' now) (\<lambda>c.
     bind_sum (rd_str d ''evolved_from'' []) (\<lambda>e.
     bind_sum (rd_int d ''squad_size'' 1) (\<lambda>n.
     bind_sum (rd_strs d ''niche_tags'') (\<lambda>t.
     bind_sum (rd_str d ''business_type'' []) (\<lambda>b.
     bind_sum (rd_int d ''operational_months'' 0) (\<lambda>m.
       Inr \<lparr>mt_version = v, mt_created_at = c, mt_evolved_from = e, mt_squad_size = n,
            mt_niche_tags = t, mt_business_type = b, mt_operational_months = m\<rparr>)))))))"

definition digest_from_dict :: "json dict \<Rightarrow> read_error + string option" where
  "digest_from_dict d = (case map_of d ''digest'' of None \<Rightarrow> Inr None
     | Some (JStr s) \<Rightarrow> Inr (Some s) | Some _ \<Rightarrow> Inl (Untyped ''digest''))"

definition chain_from_dict :: "json dict \<Rightarrow> read_error + string list option" where
  "chain_from_dict d = (case map_of d ''provenance_chain'' of None \<Rightarrow> Inr None
     | Some (JList js) \<Rightarrow> (case json_strs js of Some l \<Rightarrow> Inr (Some l) | None \<Rightarrow> Inl (Untyped ''provenance_chain''))
     | Some _ \<Rightarrow> Inl (Untyped ''provenance_chain''))"

definition snapshot_from_dict :: "string \<Rightarrow> json dict \<Rightarrow> read_error + string list snapshot" where
  "snapshot_from_dict now d =
     bind_sum (rd_obj d ''meta'') (\<lambda>md.
     bind_sum (meta_from_dict now md) (\<lambda>m.
     bind_sum (rd_obj d ''claw_config'') (\<lambda>cc.
     bind_sum (rd_obj d ''tools_inventory'') (\<lambda>ti.
     bind_sum (rd_obj d ''policy'') (\<lambda>po.
     bind_sum (rd_obj d ''learned_priors'') (\<lambda>lp.
     bind_sum (rd_obj d ''integrity'') (\<lambda>ig.
     bind_sum (digest_from_dict ig) (\<lambda>dg.
     bind_sum (chain_from_dict ig) (\<lambda>ch.
       Inr \<lparr>bs_meta = m, claw_config = cc, tools_inventory = ti, bs_policy = po,
            learned_priors = lp, integrity_digest = dg, integrity_chain = ch\<rparr>)))))))))"

lemma meta_round_trip [simp]: "meta_from_dict now (meta_dict m) = Inr m"
  by (simp add: meta_from_dict_def meta_dict_def rd_str_def rd_int_def rd_strs_def)

lemma integrity_round_trip [simp]:
  "digest_from_dict (integrity_dict s) = Inr (integrity_digest s)"
  "chain_from_dict (integrity_dict s) = Inr (integrity_chain s)"
  by (auto simp: digest_from_dict_def chain_from_dict_def integrity_dict_def split: option.splits)

lemma snapshot_from_to_dict [simp]: "snapshot_from_dict now (snapshot_to_dict s) = Inr s"
  by (simp add: snapshot_from_dict_def snapshot_to_dict_def rd_obj_def)

section \<open>The manager\<close>

record version_entry =
  ve_version :: string
  ve_reason :: string
  ve_timestamp :: string

text \<open>The state, with the chain as a reference (\<open>nat\<close>) in memory and as a list in the file.\<close>

record 'c bm_state =
  st_version :: string
  version_history :: "version_entry list"
  provenance_chain :: "'c option"
  st_squad_size :: int
  st_niche_tags :: "string list"
  st_business_type :: string
  st_months :: int
  st_priors :: "json dict"

record bp_manager =
  bm_state :: "nat bm_state"
  chain_store :: "nat \<Rightarrow> string list"
  next_chain :: nat
  snapshot_files :: "string \<rightharpoonup> json dict"
  handoff_files :: "string \<rightharpoonup> json dict"
  state_file :: "string list bm_state option"

record hash_lib =
  sha256_hex :: "string \<Rightarrow> string"
  dumps_sorted :: "json \<Rightarrow> string"

definition load_chain :: "nat snapshot \<Rightarrow> bp_manager \<Rightarrow> string list snapshot" where
  "load_chain s mg =
     \<lparr>bs_meta = bs_meta s, claw_config = claw_config s, tools_inventory = tools_inventory s,
      bs_policy = bs_policy s, learned_priors = learned_priors s,
      integrity_digest = integrity_digest s,
      integrity_chain = map_option (chain_store mg) (integrity_chain s)\<rparr>"

definition map_chain :: "('a \<Rightarrow> 'b) \<Rightarrow> 'a bm_state \<Rightarrow> 'b bm_state" where
  "map_chain f s =
     \<lparr>st_version = st_version s, version_history = version_history s,
      provenance_chain = map_option f (provenance_chain s), st_squad_size = st_squad_size s,
      st_niche_tags = st_niche_tags s, st_business_type = st_business_type s,
      st_months = st_months s, st_priors = st_priors s\<rparr>"

definition save_state :: "bp_manager \<Rightarrow> bp_manager" where
  "save_state mg = mg\<lparr>state_file := Some (map_chain (chain_store mg) (bm_state mg))\<rparr>"

definition default_state :: "'c bm_state" where
  "default_state =
     \<lparr>st_version = ''0.1.0'', version_history = [], provenance_chain = None, st_squad_size = 1,
      st_niche_tags = [], st_business_type = [], st_months = 0, st_priors = []\<rparr>"

text \<open>\<open>__init__\<close>: a manager starts from the files that exist; a chain it reads is a new list.\<close>

definition new_manager_on :: "(string \<rightharpoonup> json dict) \<Rightarrow> (string \<rightharpoonup> json dict) \<Rightarrow> string list bm_state option \<Rightarrow> bp_manager" where
  "new_manager_on sf hf f =
     (let disk = (case f of Some s \<Rightarrow> s | None \<Rightarrow> default_state) in
      \<lparr>bm_state = map_chain (\<lambda>_. 0) disk,
       chain_store = (\<lambda>_. case provenance_chain disk of Some c \<Rightarrow> c | None \<Rightarrow> []),
       next_chain = 1, snapshot_files = sf, handoff_files = hf, state_file = f\<rparr>)"

definition restart_manager :: "bp_manager \<Rightarrow> bp_manager" where
  "restart_manager mg = new_manager_on (snapshot_files mg) (handoff_files mg) (state_file mg)"

text \<open>\<open>bump_version\<close>: the patch number goes up; the parts are read with \<open>int\<close>.\<close>

definition version_part :: "string list \<Rightarrow> nat \<Rightarrow> read_error + int" where
  "version_part parts i =
     (if i < length parts
      then (case py_int (parts ! i) of Some n \<Rightarrow> Inr n | None \<Rightarrow> Inl (ValueError (parts ! i)))
      else Inr 0)"

definition next_version :: "string \<Rightarrow> read_error + string" where
  "next_version cur =
     (let parts = py_split CHR ''.'' cur in
      bind_sum (version_part parts 0) (\<lambda>major.
      bind_sum (version_part parts 1) (\<lambda>minor.
      bind_sum (version_part parts 2) (\<lambda>patch.
        Inr (py_join ''.'' [py_str_int major, py_str_int minor, py_str_int (patch + 1)])))))"

definition append_version :: "string \<Rightarrow> string \<Rightarrow> string \<Rightarrow> bp_manager \<Rightarrow> bp_manager" where
  "append_version v reason now mg =
     save_state (mg\<lparr>bm_state := (bm_state mg)\<lparr>st_version := v,
       version_history := version_history (bm_state mg)
         @ [\<lparr>ve_version = v, ve_reason = reason, ve_timestamp = now\<rparr>]\<rparr>\<rparr>)"

definition bump_version :: "string \<Rightarrow> string \<Rightarrow> bp_manager \<Rightarrow> (read_error + string) \<times> bp_manager" where
  "bump_version reason now mg =
     (case next_version (st_version (bm_state mg)) of
        Inl e \<Rightarrow> (Inl e, mg)
      | Inr v \<Rightarrow> (Inr v, append_version v reason now mg))"

definition get_parent_hash :: "bp_manager \<Rightarrow> string" where
  "get_parent_hash mg =
     (case version_history (bm_state mg) of [] \<Rightarrow> [] | h \<Rightarrow> ve_version (last h))"

definition compute_digest :: "hash_lib \<Rightarrow> 'c snapshot \<Rightarrow> string" where
  "compute_digest lib s = sha256_hex lib (dumps_sorted lib (JObj (snapshot_to_dict
     \<lparr>bs_meta = bs_meta s, claw_config = claw_config s, tools_inventory = tools_inventory s,
      bs_policy = bs_policy s, learned_priors = learned_priors s,
      integrity_digest = None, integrity_chain = None\<rparr>)))"

definition snapshot_file_name :: "string \<Rightarrow> string" where
  "snapshot_file_name v = ''v'' @ v @ ''.json''"

record export_sources =
  src_config :: "json dict"
  src_inventory :: "json dict"
  src_policy :: "json dict"
  src_now :: string

definition bare_snapshot :: "string list option \<Rightarrow> export_sources \<Rightarrow> bp_manager \<Rightarrow> nat snapshot" where
  "bare_snapshot tags src mg =
     \<lparr>bs_meta = \<lparr>mt_version = st_version (bm_state mg), mt_created_at = src_now src,
        mt_evolved_from = get_parent_hash mg, mt_squad_size = st_squad_size (bm_state mg),
        mt_niche_tags = (case tags of Some (t # ts) \<Rightarrow> t # ts | _ \<Rightarrow> st_niche_tags (bm_state mg)),
        mt_business_type = st_business_type (bm_state mg),
        mt_operational_months = st_months (bm_state mg)\<rparr>,
      claw_config = src_config src, tools_inventory = src_inventory src, bs_policy = src_policy src,
      learned_priors = st_priors (bm_state mg), integrity_digest = None, integrity_chain = None\<rparr>"

text \<open>
  \<open>export\<close>: \<open>provenance = self._state.get("provenance_chain", [])\<close> is the list of the state when there
  is one, and a new list the state does not keep otherwise; the digest is appended to it in place.
  The state is not saved.
\<close>

definition export_chain :: "bp_manager \<Rightarrow> nat" where
  "export_chain mg = (case provenance_chain (bm_state mg) of Some r \<Rightarrow> r | None \<Rightarrow> next_chain mg)"

definition old_chain :: "bp_manager \<Rightarrow> string list" where
  "old_chain mg = (case provenance_chain (bm_state mg) of Some r \<Rightarrow> chain_store mg r | None \<Rightarrow> [])"

definition export_snapshot :: "hash_lib \<Rightarrow> string list option \<Rightarrow> export_sources \<Rightarrow> bp_manager
    \<Rightarrow> nat snapshot \<times> bp_manager" where
  "export_snapshot lib tags src mg =
     (let bare = bare_snapshot tags src mg;
          digest = compute_digest lib bare;
          r = export_chain mg;
          mg1 = mg\<lparr>chain_store := (chain_store mg)(r := old_chain mg @ [digest]),
                   next_chain := (if r = next_chain mg then Suc (next_chain mg) else next_chain mg)\<rparr>;
          snap = bare\<lparr>integrity_digest := Some digest, integrity_chain := Some r\<rparr>;
          name = snapshot_file_name (mt_version (bs_meta snap))
      in (snap, mg1\<lparr>snapshot_files := (snapshot_files mg1)(name \<mapsto> snapshot_to_dict (load_chain snap mg1))\<rparr>))"

definition handoff_bundle :: "string \<Rightarrow> string list snapshot \<Rightarrow> json dict" where
  "handoff_bundle now s =
     [(''type'', JStr ''milimo-handoff''), (''snapshot'', JObj (snapshot_to_dict s)), (''exported_at'', JStr now)]"

definition handoff_name :: "string \<Rightarrow> string \<Rightarrow> string" where
  "handoff_name role v = ''handoff_'' @ role @ ''_v'' @ v @ ''.json''"

definition export_handoff :: "hash_lib \<Rightarrow> string \<Rightarrow> export_sources \<Rightarrow> bp_manager \<Rightarrow> string \<times> bp_manager" where
  "export_handoff lib role src mg =
     (let (snap, mg1) = export_snapshot lib None src mg;
          path = handoff_name role (mt_version (bs_meta snap))
      in (path, mg1\<lparr>handoff_files := (handoff_files mg1)(path \<mapsto> handoff_bundle (src_now src) (load_chain snap mg1))\<rparr>))"

section \<open>Integrity\<close>

definition verify_integrity :: "hash_lib \<Rightarrow> 'c snapshot \<Rightarrow> bool" where
  "verify_integrity lib s =
     (case integrity_digest s of
        None \<Rightarrow> False
      | Some expected \<Rightarrow> expected \<noteq> [] \<and> compute_digest lib s = expected)"

definition verify_provenance :: "hash_lib \<Rightarrow> string list snapshot \<Rightarrow> bool" where
  "verify_provenance lib s =
     (verify_integrity lib s \<and>
      (case integrity_chain s of
         None \<Rightarrow> False
       | Some chain \<Rightarrow> chain \<noteq> [] \<and> Some (last chain) = integrity_digest s))"

definition import_snapshot :: "string list snapshot \<Rightarrow> bp_manager \<Rightarrow> bp_manager" where
  "import_snapshot s mg =
     (let r = next_chain mg;
          chain = (case integrity_chain s of Some c \<Rightarrow> c | None \<Rightarrow> []);
          name = snapshot_file_name (mt_version (bs_meta s))
      in save_state (mg\<lparr>
           bm_state := (bm_state mg)\<lparr>st_version := mt_version (bs_meta s), provenance_chain := Some r\<rparr>,
           chain_store := (chain_store mg)(r := chain), next_chain := Suc r,
           snapshot_files := (snapshot_files mg)(name \<mapsto> snapshot_to_dict s)\<rparr>))"

definition import_handoff :: "hash_lib \<Rightarrow> string \<Rightarrow> json dict option \<Rightarrow> bp_manager
    \<Rightarrow> (read_error + bool) \<times> bp_manager" where
  "import_handoff lib now file mg =
     (case file of
        None \<Rightarrow> (Inr False, mg)
      | Some bundle \<Rightarrow>
          if map_of bundle ''type'' \<noteq> Some (JStr ''milimo-handoff'') then (Inr False, mg)
          else case bind_sum (rd_obj bundle ''snapshot'') (snapshot_from_dict now) of
            Inl e \<Rightarrow> (Inl e, mg)
          | Inr s \<Rightarrow>
              if \<not> verify_integrity lib s then (Inr False, mg)
              else (Inr True, import_snapshot s mg))"

definition load_file_name :: "string \<Rightarrow> string" where
  "load_file_name v = (if prefix ''v'' v then v else ''v'' @ v) @ ''.json''"

definition load_snapshot :: "string \<Rightarrow> string \<Rightarrow> bp_manager \<Rightarrow> read_error + string list snapshot option" where
  "load_snapshot now v mg =
     (case snapshot_files mg (load_file_name v) of
        None \<Rightarrow> Inr None
      | Some d \<Rightarrow> map_sum id Some (snapshot_from_dict now d))"

definition rollback :: "string \<Rightarrow> string \<Rightarrow> string \<Rightarrow> bp_manager \<Rightarrow> (read_error + bool) \<times> bp_manager" where
  "rollback target reason now mg =
     (case load_snapshot now target mg of
        Inl e \<Rightarrow> (Inl e, mg)
      | Inr None \<Rightarrow> (Inr False, mg)
      | Inr (Some _) \<Rightarrow>
          (Inr True, append_version target (''rollback from '' @ st_version (bm_state mg) @ '': '' @ reason) now mg))"

end
