(* ===== verification/Provenance.thy ===== *)
theory Provenance
  imports Blueprint "HOL-Library.List_Lexorder" "HOL-Library.Char_ord"
begin

text \<open>
  \<^verbatim>\<open>milimo-core/src/milimo_core/provenance_signer.py\<close> and \<^verbatim>\<open>provenance_verifier.py\<close>: attestations of
  blueprints, their signatures and their verification. Ed25519 comes from the package
  \<^verbatim>\<open>cryptography\<close> and is a parameter, as are SHA-256, HMAC, the texts of Python values and the
  reading of ISO times; the theorems state what they need of them. A byte string is a list of
  characters. Errors that Python raises and the code does not catch are values of \<open>prov_error\<close>.
\<close>

section \<open>What the code takes from libraries\<close>

datatype ed_answer = EdValid | EdInvalidSignature | EdFails string

record prov_lib = hash_lib +
  str_value :: "json \<Rightarrow> string"
  hmac_sha256 :: "string \<Rightarrow> string \<Rightarrow> string"
  crypto_available :: bool
  ed_public :: "string \<Rightarrow> string"
  ed_sign :: "string \<Rightarrow> string \<Rightarrow> string"
  ed_verify :: "string \<Rightarrow> string \<Rightarrow> string \<Rightarrow> ed_answer"
  parse_iso :: "string \<Rightarrow> int option"

text \<open>The law of the signature scheme: what a key signs verifies under its public key.\<close>

definition ed_correct :: "prov_lib \<Rightarrow> bool" where
  "ed_correct lib \<longleftrightarrow> (\<forall>sk m. ed_verify lib (ed_public lib sk) (ed_sign lib sk m) m = EdValid)"

section \<open>Attestations\<close>

record author_info =
  ai_squad_id :: string
  ai_public_key :: string
  ai_key_id :: string

record evolution_summary =
  es_tools_added :: "string list"
  es_tools_removed :: "string list"
  es_tools_modified :: "string list"
  es_performance_delta :: rat
  es_policy_changes :: "string list"

record attestation =
  at_version :: string
  at_blueprint_id :: string
  at_blueprint_version :: string
  at_content_hash :: string
  at_timestamp :: string
  at_author :: "author_info option"
  at_parent :: "string option"
  at_summary :: "evolution_summary option"
  at_signature :: string

definition author_dict :: "author_info \<Rightarrow> json dict" where
  "author_dict a = [(''squad_id'', JStr (ai_squad_id a)), (''public_key'', JStr (ai_public_key a)),
     (''key_id'', JStr (ai_key_id a))]"

definition summary_dict :: "evolution_summary \<Rightarrow> json dict" where
  "summary_dict s =
     [(''tools_added'', JList (map JStr (es_tools_added s))),
      (''tools_removed'', JList (map JStr (es_tools_removed s))),
      (''tools_modified'', JList (map JStr (es_tools_modified s))),
      (''performance_delta'', JFloat (es_performance_delta s)),
      (''policy_changes'', JList (map JStr (es_policy_changes s)))]"

definition opt_json :: "('a \<Rightarrow> json) \<Rightarrow> 'a option \<Rightarrow> json" where
  "opt_json f x = (case x of None \<Rightarrow> JNull | Some a \<Rightarrow> f a)"

definition attestation_to_dict :: "attestation \<Rightarrow> json dict" where
  "attestation_to_dict a =
     [(''version'', JStr (at_version a)), (''blueprint_id'', JStr (at_blueprint_id a)),
      (''blueprint_version'', JStr (at_blueprint_version a)), (''content_hash'', JStr (at_content_hash a)),
      (''timestamp'', JStr (at_timestamp a)),
      (''author'', opt_json (\<lambda>x. JObj (author_dict x)) (at_author a)),
      (''parent_attestation'', opt_json JStr (at_parent a)),
      (''evolution_summary'', opt_json (\<lambda>x. JObj (summary_dict x)) (at_summary a)),
      (''signature'', JStr (at_signature a))]"

text \<open>
  \<open>AuthorInfo(**d)\<close> needs exactly its three fields; every field of \<open>EvolutionSummary\<close> has a default.
  A falsy value (none, an empty dictionary) leaves the field \<open>None\<close>.
\<close>

datatype prov_error = BadArguments | ReadError read_error | NotHex

definition lift_read :: "read_error + 'a \<Rightarrow> prov_error + 'a" where
  "lift_read = map_sum ReadError id"

fun read_author :: "json option \<Rightarrow> prov_error + author_info option" where
  "read_author None = Inr None"
| "read_author (Some JNull) = Inr None"
| "read_author (Some (JObj [])) = Inr None"
| "read_author (Some (JObj d)) =
     (if set (map fst d) \<noteq> {''squad_id'', ''public_key'', ''key_id''} then Inl BadArguments
      else bind_sum (lift_read (rd_str d ''squad_id'' [])) (\<lambda>s.
           bind_sum (lift_read (rd_str d ''public_key'' [])) (\<lambda>p.
           bind_sum (lift_read (rd_str d ''key_id'' [])) (\<lambda>k.
             Inr (Some \<lparr>ai_squad_id = s, ai_public_key = p, ai_key_id = k\<rparr>)))))"
| "read_author (Some _) = Inl (ReadError (Untyped ''author''))"

definition rd_rat :: "json dict \<Rightarrow> string \<Rightarrow> rat \<Rightarrow> read_error + rat" where
  "rd_rat d k def = (case map_of d k of None \<Rightarrow> Inr def | Some (JFloat r) \<Rightarrow> Inr r
     | Some (JInt i) \<Rightarrow> Inr (of_int i) | Some _ \<Rightarrow> Inl (Untyped k))"

fun read_summary :: "json option \<Rightarrow> prov_error + evolution_summary option" where
  "read_summary None = Inr None"
| "read_summary (Some JNull) = Inr None"
| "read_summary (Some (JObj [])) = Inr None"
| "read_summary (Some (JObj d)) =
     (if \<not> set (map fst d) \<subseteq> {''tools_added'', ''tools_removed'', ''tools_modified'', ''performance_delta'', ''policy_changes''}
      then Inl BadArguments
      else bind_sum (lift_read (rd_strs d ''tools_added'')) (\<lambda>a.
           bind_sum (lift_read (rd_strs d ''tools_removed'')) (\<lambda>r.
           bind_sum (lift_read (rd_strs d ''tools_modified'')) (\<lambda>m.
           bind_sum (lift_read (rd_rat d ''performance_delta'' 0)) (\<lambda>p.
           bind_sum (lift_read (rd_strs d ''policy_changes'')) (\<lambda>c.
             Inr (Some \<lparr>es_tools_added = a, es_tools_removed = r, es_tools_modified = m,
                        es_performance_delta = p, es_policy_changes = c\<rparr>)))))))"
| "read_summary (Some _) = Inl (ReadError (Untyped ''evolution_summary''))"

fun read_parent :: "json option \<Rightarrow> prov_error + string option" where
  "read_parent None = Inr None"
| "read_parent (Some JNull) = Inr None"
| "read_parent (Some (JStr s)) = Inr (Some s)"
| "read_parent (Some _) = Inl (ReadError (Untyped ''parent_attestation''))"

definition attestation_from_dict :: "json dict \<Rightarrow> prov_error + attestation" where
  "attestation_from_dict d =
     bind_sum (read_author (map_of d ''author'')) (\<lambda>au.
     bind_sum (read_summary (map_of d ''evolution_summary'')) (\<lambda>ev.
     bind_sum (lift_read (rd_str d ''version'' ''1.0'')) (\<lambda>v.
     bind_sum (lift_read (rd_str d ''blueprint_id'' [])) (\<lambda>i.
     bind_sum (lift_read (rd_str d ''blueprint_version'' [])) (\<lambda>bv.
     bind_sum (lift_read (rd_str d ''content_hash'' [])) (\<lambda>ch.
     bind_sum (lift_read (rd_str d ''timestamp'' [])) (\<lambda>ts.
     bind_sum (read_parent (map_of d ''parent_attestation'')) (\<lambda>pa.
     bind_sum (lift_read (rd_str d ''signature'' [])) (\<lambda>sg.
       Inr \<lparr>at_version = v, at_blueprint_id = i, at_blueprint_version = bv, at_content_hash = ch,
            at_timestamp = ts, at_author = au, at_parent = pa, at_summary = ev, at_signature = sg\<rparr>)))))))))"

text \<open>\<open>to_signable_bytes\<close> leaves the signature out, \<open>hash\<close> keeps it.\<close>

definition signable_bytes :: "prov_lib \<Rightarrow> attestation \<Rightarrow> string" where
  "signable_bytes lib a = dumps_sorted lib (JObj (AList.delete ''signature'' (attestation_to_dict a)))"

definition attestation_hash :: "prov_lib \<Rightarrow> attestation \<Rightarrow> string" where
  "attestation_hash lib a = sha256_hex lib (dumps_sorted lib (JObj (attestation_to_dict a)))"

section \<open>The hash of a blueprint's content\<close>

definition tool_component :: "prov_lib \<Rightarrow> string \<times> json \<Rightarrow> string" where
  "tool_component lib kv =
     ''tool:'' @ fst kv @ '':'' @ sha256_hex lib (dumps_sorted lib (snd kv))"

fun policy_value :: "prov_lib \<Rightarrow> json \<Rightarrow> string" where
  "policy_value lib (JObj d) = sha256_hex lib (dumps_sorted lib (JObj d))"
| "policy_value lib (JStr s) = s"
| "policy_value lib v = str_value lib v"

definition policy_component :: "prov_lib \<Rightarrow> string \<times> json \<Rightarrow> string" where
  "policy_component lib kv = ''policy:'' @ fst kv @ '':'' @ policy_value lib (snd kv)"

definition calculate_content_hash :: "prov_lib \<Rightarrow> json dict \<Rightarrow> json dict \<Rightarrow> json \<Rightarrow> json \<Rightarrow> string" where
  "calculate_content_hash lib tools policies evolution baseline =
     sha256_hex lib (py_join [CHR 0x0A]
       (map (tool_component lib) (sort_key fst tools)
        @ map (policy_component lib) (sort_key fst policies)
        @ [''evolution:'' @ sha256_hex lib (dumps_sorted lib evolution),
           ''baseline:'' @ sha256_hex lib (dumps_sorted lib baseline)]))"

definition get_default :: "json dict \<Rightarrow> string \<Rightarrow> json" where
  "get_default d k = (case map_of d k of Some v \<Rightarrow> v | None \<Rightarrow> JObj [])"

definition blueprint_hash :: "prov_lib \<Rightarrow> 'c snapshot \<Rightarrow> string" where
  "blueprint_hash lib b = calculate_content_hash lib (tools_inventory b) (bs_policy b)
     (get_default (claw_config b) ''evolution'') (get_default (learned_priors b) ''performance'')"

section \<open>Signing\<close>

record signer =
  sg_squad_id :: string
  sg_private :: string
  sg_public :: string

text \<open>
  \<open>_load_or_generate_keys\<close>: the key pair found in the keystore, or a generated one, which is saved.
  The pair a generation yields is an argument; with \<^verbatim>\<open>cryptography\<close> its public part belongs to its
  private part, without it they are two independent random strings.
\<close>

type_synonym keystore = "string \<rightharpoonup> string \<times> string"

definition new_signer :: "string \<Rightarrow> string \<times> string \<Rightarrow> keystore \<Rightarrow> signer \<times> keystore" where
  "new_signer squad generated ks =
     (case ks squad of
        Some (sk, pk) \<Rightarrow> (\<lparr>sg_squad_id = squad, sg_private = sk, sg_public = pk\<rparr>, ks)
      | None \<Rightarrow> (\<lparr>sg_squad_id = squad, sg_private = fst generated, sg_public = snd generated\<rparr>,
                 ks(squad \<mapsto> generated)))"

definition sign_bytes :: "prov_lib \<Rightarrow> signer \<Rightarrow> string \<Rightarrow> string" where
  "sign_bytes lib s m =
     py_hex (if crypto_available lib \<and> sg_private s \<noteq> [] then ed_sign lib (sg_private s) m
             else hmac_sha256 lib (sg_private s) m)"

definition unsigned_attestation :: "prov_lib \<Rightarrow> signer \<Rightarrow> 'c snapshot \<Rightarrow> attestation option
    \<Rightarrow> evolution_summary option \<Rightarrow> string \<Rightarrow> string \<Rightarrow> attestation" where
  "unsigned_attestation lib s b parent summary squad now =
     \<lparr>at_version = ''1.0'', at_blueprint_id = squad, at_blueprint_version = mt_version (bs_meta b),
      at_content_hash = ''sha256:'' @ blueprint_hash lib b, at_timestamp = now,
      at_author = Some \<lparr>ai_squad_id = sg_squad_id s, ai_public_key = ''ed25519:'' @ py_hex (sg_public s),
                        ai_key_id = py_hex (take 8 (sg_public s))\<rparr>,
      at_parent = map_option (attestation_hash lib) parent, at_summary = summary, at_signature = []\<rparr>"

text \<open>\<open>getattr(blueprint.meta, "squad_id", self.squad_id)\<close>: the metadata has no such field.\<close>

definition sign_blueprint :: "prov_lib \<Rightarrow> signer \<Rightarrow> 'c snapshot \<Rightarrow> attestation option
    \<Rightarrow> evolution_summary option \<Rightarrow> string \<Rightarrow> attestation" where
  "sign_blueprint lib s b parent summary now =
     (let a = unsigned_attestation lib s b parent summary (sg_squad_id s) now
      in a\<lparr>at_signature := ''ed25519:'' @ sign_bytes lib s (signable_bytes lib a)\<rparr>)"

section \<open>Verification\<close>

record verification =
  vr_valid :: bool
  vr_attestation_id :: string
  vr_signature_valid :: bool
  vr_timestamp_valid :: bool
  vr_errors :: "string list"
  vr_warnings :: "string list"

definition missing_errors :: "attestation \<Rightarrow> string list" where
  "missing_errors a =
     (if at_version a = [] then [''Missing attestation version''] else [])
     @ (if at_blueprint_id a = [] then [''Missing blueprint_id''] else [])
     @ (if at_blueprint_version a = [] then [''Missing blueprint_version''] else [])
     @ (if at_content_hash a = [] then [''Missing content_hash''] else [])
     @ (if at_timestamp a = [] then [''Missing timestamp''] else [])
     @ (case at_author a of
          None \<Rightarrow> [''Missing author information'']
        | Some au \<Rightarrow>
            (if ai_squad_id au = [] then [''Missing author squad_id''] else [])
            @ (if ai_public_key au = [] then [''Missing author public_key''] else []))
     @ (if at_signature a = [] then [''Missing signature''] else [])"

text \<open>The public key and the signature without their prefix, as the code strips it.\<close>

definition bare_key :: "string \<Rightarrow> string" where
  "bare_key s = py_replace ''ed25519:'' [] s"

definition ed_check :: "prov_lib \<Rightarrow> string \<Rightarrow> string \<Rightarrow> string \<Rightarrow> ed_answer" where
  "ed_check lib pk_hex sig_hex m =
     (case py_fromhex pk_hex of
        None \<Rightarrow> EdFails ''non-hexadecimal number found''
      | Some pk \<Rightarrow> (case py_fromhex sig_hex of
          None \<Rightarrow> EdFails ''non-hexadecimal number found''
        | Some sg \<Rightarrow> ed_verify lib pk sg m))"

definition signature_errors :: "prov_lib \<Rightarrow> attestation \<Rightarrow> prov_error + string list" where
  "signature_errors lib a =
     (case at_author a of
        None \<Rightarrow> Inr []
      | Some au \<Rightarrow>
          (let pk_hex = bare_key (ai_public_key au); sig_hex = bare_key (at_signature a);
               m = signable_bytes lib a
           in if crypto_available lib
              then (case ed_check lib pk_hex sig_hex m of
                  EdValid \<Rightarrow> Inr []
                | EdInvalidSignature \<Rightarrow> Inr [''Invalid signature'']
                | EdFails e \<Rightarrow> Inr [''Signature verification error: '' @ e])
              else (case (py_fromhex pk_hex, py_fromhex sig_hex) of
                  (Some pk, Some sg) \<Rightarrow>
                    Inr (if hmac_sha256 lib pk m = sg then [] else [''Invalid signature (HMAC)''])
                | _ \<Rightarrow> Inl NotHex)))"

definition day_us :: int where
  "day_us = 86400000000"

text \<open>The text of the exception a bad time raises is left out of its warning.\<close>

definition timestamp_warnings :: "prov_lib \<Rightarrow> int \<Rightarrow> int \<Rightarrow> attestation \<Rightarrow> string list" where
  "timestamp_warnings lib max_age_days now a =
     (case parse_iso lib (py_replace ''Z'' ''+00:00'' (at_timestamp a)) of
        None \<Rightarrow> [''Could not parse timestamp'']
      | Some t \<Rightarrow>
          (if now + 300000000 < t then [''Attestation timestamp is in the future''] else [])
          @ (if max_age_days * day_us < now - t then [''Attestation is older than '' @ py_str_int max_age_days @ '' days''] else []))"

definition verify_attestation :: "prov_lib \<Rightarrow> int \<Rightarrow> bool \<Rightarrow> int \<Rightarrow> attestation \<Rightarrow> prov_error + verification" where
  "verify_attestation lib max_age strict now a =
     (let missing = missing_errors a; aid = attestation_hash lib a in
      if missing \<noteq> []
      then Inr \<lparr>vr_valid = False, vr_attestation_id = aid, vr_signature_valid = True,
                vr_timestamp_valid = True, vr_errors = missing, vr_warnings = []\<rparr>
      else bind_sum (signature_errors lib a) (\<lambda>es.
        let ws = timestamp_warnings lib max_age now a; fails = strict \<and> ws \<noteq> [] in
        Inr \<lparr>vr_valid = (es = [] \<and> \<not> fails), vr_attestation_id = aid, vr_signature_valid = (es = []),
             vr_timestamp_valid = (ws = []),
             vr_errors = es @ (if fails then [''Strict mode: warnings treated as errors''] else []),
             vr_warnings = ws\<rparr>))"

definition MAX_ATTESTATION_AGE_DAYS :: int where
  "MAX_ATTESTATION_AGE_DAYS = 730"

text \<open>\<open>verify_content\<close>: the hash of the blueprint against the one in the attestation.\<close>

definition verify_content :: "prov_lib \<Rightarrow> attestation \<Rightarrow> 'c snapshot \<Rightarrow> bool" where
  "verify_content lib a b = (blueprint_hash lib b = py_replace ''sha256:'' [] (at_content_hash a))"

definition verify_blueprint_signature :: "prov_lib \<Rightarrow> int \<Rightarrow> attestation \<Rightarrow> 'c snapshot \<Rightarrow> prov_error + bool" where
  "verify_blueprint_signature lib now a b =
     bind_sum (verify_attestation lib MAX_ATTESTATION_AGE_DAYS False now a) (\<lambda>v.
       Inr (vr_valid v \<and> verify_content lib a b))"

section \<open>Concrete parameters\<close>

text \<open>
  The parameters at which witnesses run: a hash that is the text itself, and a signature that
  carries the signing key, whose public key is the key reversed.
\<close>

definition prov_sample :: prov_lib where
  "prov_sample = \<lparr>sha256_hex = (\<lambda>t. ''h'' @ filter (\<lambda>c. c \<noteq> CHR '':'') t), dumps_sorted = (\<lambda>_. ''{}''),
     str_value = (\<lambda>_. []), hmac_sha256 = (\<lambda>k m. k @ m), crypto_available = True, ed_public = rev,
     ed_sign = (\<lambda>k m. k), ed_verify = (\<lambda>pk sg m. if rev pk = sg then EdValid else EdInvalidSignature),
     parse_iso = (\<lambda>_. None)\<rparr>"

lemma prov_sample_correct: "ed_correct prov_sample"
  by (simp add: ed_correct_def prov_sample_def)

end
