(* ===== verification/Chain.thy ===== *)
theory Chain
  imports Provenance
begin

text \<open>
  \<^verbatim>\<open>milimo-core/src/milimo_core/chain_validator.py\<close>: versions and chains of attestations. The
  recursive function \<open>visit\<close> of the code, which shares its set of visited hashes and its result with
  every call, is \<open>visit_all\<close> over a stack of pending calls: \<open>visit_append\<close> and \<open>visit_call\<close> say that
  the stack is the recursion. It ends because every call that does not return at once adds one of
  finitely many hashes to the visited ones.
\<close>

section \<open>Versions\<close>

definition parse_version :: "string \<Rightarrow> nat list" where
  "parse_version v = map nat_of_digits (filter py_isdigit (py_split CHR ''.'' (py_lstrip CHR ''v'' v)))"

text \<open>Python compares tuples lexicographically; the shorter one was padded with zeros.\<close>

fun tuple_less :: "nat list \<Rightarrow> nat list \<Rightarrow> bool" where
  "tuple_less (x # xs) (y # ys) = (x < y \<or> (x = y \<and> tuple_less xs ys))"
| "tuple_less [] ys = (ys \<noteq> [])"
| "tuple_less (x # xs) [] = False"

definition pad_to :: "nat \<Rightarrow> nat list \<Rightarrow> nat list" where
  "pad_to n xs = xs @ replicate (n - length xs) 0"

definition compare_versions :: "string \<Rightarrow> string \<Rightarrow> int" where
  "compare_versions v1 v2 =
     (let p1 = parse_version v1; p2 = parse_version v2; n = max (length p1) (length p2);
          q1 = pad_to n p1; q2 = pad_to n p2
      in if tuple_less q1 q2 then -1 else if tuple_less q2 q1 then 1 else 0)"

text \<open>The loop over neighbours; the message names the first pair that does not increase.\<close>

fun first_bad_step :: "string list \<Rightarrow> (string \<times> string) option" where
  "first_bad_step (p # c # vs) = (if compare_versions c p \<le> 0 then Some (p, c) else first_bad_step (c # vs))"
| "first_bad_step _ = None"

definition is_version_sequence_valid :: "string list \<Rightarrow> bool \<times> string option" where
  "is_version_sequence_valid vs =
     (case first_bad_step vs of
        None \<Rightarrow> (True, None)
      | Some (p, c) \<Rightarrow> (False, Some (''Version sequence invalid: '' @ p @ '' -> '' @ c)))"

section \<open>The chain tree\<close>

record chain_result =
  cr_valid :: bool
  cr_length :: nat
  cr_genesis :: string
  cr_latest :: string
  cr_authors :: "string list"
  cr_versions :: "string list"
  cr_forks :: "string list"
  cr_errors :: "string list"
  cr_warnings :: "string list"

definition fresh_result :: chain_result where
  "fresh_result = \<lparr>cr_valid = True, cr_length = 0, cr_genesis = [], cr_latest = [], cr_authors = [],
     cr_versions = [], cr_forks = [], cr_errors = [], cr_warnings = []\<rparr>"

type_synonym att_index = "(string \<times> attestation) list"
type_synonym chain_tree = "(string \<times> string list) list"

definition attestation_index :: "(attestation \<Rightarrow> string) \<Rightarrow> attestation list \<Rightarrow> att_index" where
  "attestation_index h as = foldl (\<lambda>d a. AList.update (h a) a d) [] as"

definition is_genesis :: "attestation \<Rightarrow> bool" where
  "is_genesis a = (\<not> truthy_str (at_parent a))"

definition tree_key :: "attestation \<Rightarrow> string" where
  "tree_key a = (case at_parent a of Some (c # cs) \<Rightarrow> c # cs | _ \<Rightarrow> ''genesis'')"

definition children_of :: "chain_tree \<Rightarrow> string \<Rightarrow> string list" where
  "children_of t k = (case map_of t k of Some cs \<Rightarrow> cs | None \<Rightarrow> [])"

definition build_chain_tree :: "(attestation \<Rightarrow> string) \<Rightarrow> attestation list \<Rightarrow> chain_tree" where
  "build_chain_tree h as =
     foldl (\<lambda>t a. AList.update (tree_key a) (children_of t (tree_key a) @ [h a]) t) [] as"

section \<open>The traversal\<close>

record visit_state =
  vs_visited :: "string list"
  vs_result :: chain_result

definition add_author :: "attestation \<Rightarrow> chain_result \<Rightarrow> chain_result" where
  "add_author a r = (case at_author a of
       None \<Rightarrow> r
     | Some au \<Rightarrow> if ai_squad_id au \<in> set (cr_authors r) then r
                  else r\<lparr>cr_authors := cr_authors r @ [ai_squad_id au]\<rparr>)"

definition record_fork :: "bool \<Rightarrow> string \<Rightarrow> string list \<Rightarrow> chain_result \<Rightarrow> chain_result" where
  "record_fork allow_forks hash children r =
     (if length children > 1
      then (let r1 = r\<lparr>cr_forks := cr_forks r @ [hash]\<rparr> in
            if allow_forks then r1
            else r1\<lparr>cr_errors := cr_errors r1 @ [''Fork detected at '' @ take 16 hash @ ''...''],
                    cr_valid := False\<rparr>)
      else r)"

definition record_visit :: "bool \<Rightarrow> string \<Rightarrow> string list \<Rightarrow> attestation \<Rightarrow> nat \<Rightarrow> chain_result \<Rightarrow> chain_result" where
  "record_visit allow_forks hash children a depth r =
     (let r1 = add_author a r;
          r2 = r1\<lparr>cr_versions := cr_versions r1 @ [at_blueprint_version a]\<rparr>;
          r3 = (if depth = 0 \<and> cr_genesis r2 = [] then r2\<lparr>cr_genesis := hash\<rparr> else r2);
          r4 = r3\<lparr>cr_latest := hash\<rparr>
      in record_fork allow_forks hash children r4)"

definition child_calls :: "att_index \<Rightarrow> string list \<Rightarrow> nat \<Rightarrow> (attestation \<times> nat) list" where
  "child_calls idx children depth =
     map (\<lambda>h. (the (map_of idx h), Suc depth)) (filter (\<lambda>h. map_of idx h \<noteq> None) children)"

function visit_all :: "(attestation \<Rightarrow> string) \<Rightarrow> bool \<Rightarrow> att_index \<Rightarrow> chain_tree
    \<Rightarrow> (attestation \<times> nat) list \<Rightarrow> visit_state \<Rightarrow> visit_state" where
  "visit_all h forks idx tree [] st = st"
| "visit_all h forks idx tree ((a, depth) # calls) st =
     (if h a \<in> set (vs_visited st) then visit_all h forks idx tree calls st
      else let children = children_of tree (h a) in
        visit_all h forks idx tree (child_calls idx children depth @ calls)
          \<lparr>vs_visited = vs_visited st @ [h a],
           vs_result = record_visit forks (h a) children a depth (vs_result st)\<rparr>)"
  by pat_completeness auto

text \<open>The hashes a traversal can still add.\<close>

definition pending_hashes :: "(attestation \<Rightarrow> string) \<Rightarrow> att_index \<Rightarrow> (attestation \<times> nat) list \<Rightarrow> string list \<Rightarrow> string set" where
  "pending_hashes h idx calls visited =
     ((h \<circ> fst) ` set calls \<union> (h \<circ> snd) ` set idx) - set visited"

lemma finite_pending [simp]: "finite (pending_hashes h idx calls visited)"
  by (simp add: pending_hashes_def)

lemma child_calls_in_index: "(a, d) \<in> set (child_calls idx cs depth) \<Longrightarrow> a \<in> snd ` set idx"
  by (auto simp: child_calls_def) (metis map_of_SomeD image_eqI snd_conv)

lemma pending_visit:
  assumes "h a \<notin> set visited"
  shows "pending_hashes h idx (child_calls idx cs d' @ calls) (visited @ [h a])
    \<subset> pending_hashes h idx ((a, d) # calls) visited"
proof -
  have "h a \<in> pending_hashes h idx ((a, d) # calls) visited"
    using assms by (simp add: pending_hashes_def)
  moreover have "h a \<notin> pending_hashes h idx (child_calls idx cs d' @ calls) (visited @ [h a])"
    by (simp add: pending_hashes_def)
  moreover have "(h \<circ> fst) ` set (child_calls idx cs d') \<subseteq> (h \<circ> snd) ` set idx"
    using child_calls_in_index by fastforce
  then have "pending_hashes h idx (child_calls idx cs d' @ calls) (visited @ [h a])
      \<subseteq> pending_hashes h idx ((a, d) # calls) visited"
    unfolding pending_hashes_def by auto
  ultimately show ?thesis by blast
qed

termination visit_all
proof (relation "measures [\<lambda>(h, f, idx, t, calls, st). card (pending_hashes h idx calls (vs_visited st)),
    \<lambda>(h, f, idx, t, calls, st). length calls]", goal_cases)
  case (2 h forks idx tree a depth calls st)
  have "pending_hashes h idx calls (vs_visited st) \<subseteq> pending_hashes h idx ((a, depth) # calls) (vs_visited st)"
    by (auto simp: pending_hashes_def)
  then have "card (pending_hashes h idx calls (vs_visited st))
      \<le> card (pending_hashes h idx ((a, depth) # calls) (vs_visited st))"
    by (simp add: card_mono)
  then show ?case by (auto simp: le_less)
next
  case (3 h forks idx tree a depth calls st x)
  show ?case
    using psubset_card_mono[OF finite_pending pending_visit[of h a "vs_visited st" idx x depth calls depth, OF 3(1)]]
    by (simp add: 3(2))
qed simp

declare visit_all.simps(2) [simp del]

lemma visit_seen: "h a \<in> set (vs_visited st) \<Longrightarrow>
    visit_all h forks idx tree ((a, d) # calls) st = visit_all h forks idx tree calls st"
  by (simp add: visit_all.simps)

lemma visit_new: "h a \<notin> set (vs_visited st) \<Longrightarrow>
    visit_all h forks idx tree ((a, d) # calls) st =
    visit_all h forks idx tree (child_calls idx (children_of tree (h a)) d @ calls)
      \<lparr>vs_visited = vs_visited st @ [h a],
       vs_result = record_visit forks (h a) (children_of tree (h a)) a d (vs_result st)\<rparr>"
  by (simp add: visit_all.simps Let_def)

text \<open>The stack is the call stack of the code: a call runs to its end before the next one starts.\<close>

lemma visit_append: "visit_all h forks idx tree (xs @ ys) st
    = visit_all h forks idx tree ys (visit_all h forks idx tree xs st)"
proof (induction h forks idx tree xs st rule: visit_all.induct)
  case (2 h forks idx tree a d calls st)
  show ?case
  proof (cases "h a \<in> set (vs_visited st)")
    case True
    then show ?thesis using 2(1) by (simp add: visit_seen)
  next
    case False
    then show ?thesis using 2(2)[OF False refl] by (simp add: visit_new)
  qed
qed simp

lemma visit_call: "h a \<notin> set (vs_visited st) \<Longrightarrow>
    visit_all h forks idx tree [(a, d)] st =
    visit_all h forks idx tree (child_calls idx (children_of tree (h a)) d)
      \<lparr>vs_visited = vs_visited st @ [h a],
       vs_result = record_visit forks (h a) (children_of tree (h a)) a d (vs_result st)\<rparr>"
  by (simp add: visit_new)

section \<open>Validation\<close>

definition traverse_chain :: "(attestation \<Rightarrow> string) \<Rightarrow> bool \<Rightarrow> att_index \<Rightarrow> chain_tree \<Rightarrow> attestation list
    \<Rightarrow> chain_result \<Rightarrow> visit_state" where
  "traverse_chain h forks idx tree genesis r =
     visit_all h forks idx tree (map (\<lambda>a. (a, 0)) genesis) \<lparr>vs_visited = [], vs_result = r\<rparr>"

text \<open>Each attestation is verified; the verifier is a parameter here, with its answer as a value.\<close>

type_synonym verifier = "attestation \<Rightarrow> prov_error + verification"

fun verify_each :: "verifier \<Rightarrow> attestation list \<Rightarrow> chain_result \<Rightarrow> prov_error + chain_result" where
  "verify_each vf [] r = Inr r"
| "verify_each vf (a # as) r = bind_sum (vf a) (\<lambda>v.
     verify_each vf as (if vr_valid v then r
       else r\<lparr>cr_valid := False, cr_errors := cr_errors r @ vr_errors v\<rparr>))"

text \<open>A local variable read before any assignment is an \<open>UnboundLocalError\<close>.\<close>

datatype chain_error = VerifierRaised prov_error | UnboundLocalError string

definition check_versions :: "chain_result \<Rightarrow> chain_error + chain_result" where
  "check_versions r =
     (let seq = (if cr_versions r \<noteq> [] then Some (is_version_sequence_valid (cr_versions r)) else None) in
      case seq of
        None \<Rightarrow> Inl (UnboundLocalError ''seq_valid'')
      | Some (True, _) \<Rightarrow> Inr r
      | Some (False, e) \<Rightarrow> Inr (r\<lparr>cr_valid := False,
            cr_errors := (case e of Some m \<Rightarrow> cr_errors r @ [m] | None \<Rightarrow> cr_errors r)\<rparr>))"

definition apply_strict :: "bool \<Rightarrow> chain_result \<Rightarrow> chain_result" where
  "apply_strict strict r =
     (if strict \<and> cr_warnings r \<noteq> []
      then r\<lparr>cr_valid := False, cr_errors := cr_errors r @ [''Strict mode: warnings treated as errors'']\<rparr>
      else r)"

definition validate_chain :: "(attestation \<Rightarrow> string) \<Rightarrow> verifier \<Rightarrow> bool \<Rightarrow> bool \<Rightarrow> attestation list
    \<Rightarrow> chain_error + chain_result" where
  "validate_chain h vf strict forks as =
     (if as = [] then Inr (fresh_result\<lparr>cr_valid := False, cr_errors := [''Empty attestation chain'']\<rparr>)
      else let idx = attestation_index h as; genesis = filter is_genesis as in
        if genesis = []
        then Inr (fresh_result\<lparr>cr_valid := False,
               cr_errors := [''No genesis attestation found (all have parent references)'']\<rparr>)
        else let r0 = fresh_result\<lparr>cr_warnings := (if length genesis > 1
                        then [''Multiple genesis attestations found: '' @ py_str_int (int (length genesis))]
                        else [])\<rparr>
          in case verify_each vf as r0 of
               Inl e \<Rightarrow> Inl (VerifierRaised e)
             | Inr r1 \<Rightarrow>
                 if \<not> cr_valid r1 then Inr r1
                 else let st = traverse_chain h forks idx (build_chain_tree h as) genesis r1 in
                   map_sum id (\<lambda>r. (apply_strict strict r)\<lparr>cr_length := length as\<rparr>)
                     (check_versions (vs_result st)))"

text \<open>\<open>validate_single_path\<close>: attestations in order; the previous hash is none before the first.\<close>

definition short_hash :: "string option \<Rightarrow> string" where
  "short_hash x = (case x of Some (c # cs) \<Rightarrow> take 16 (c # cs) | _ \<Rightarrow> ''None'')"

definition path_step :: "nat \<Rightarrow> string option \<Rightarrow> attestation \<Rightarrow> verification \<Rightarrow> chain_result \<Rightarrow> chain_result" where
  "path_step i prev a v r =
     (let r1 = (if vr_valid v then r else r\<lparr>cr_valid := False, cr_errors := cr_errors r @ vr_errors v\<rparr>);
          r2 = (if i = 0
                then (if truthy_str (at_parent a)
                      then r1\<lparr>cr_warnings := cr_warnings r1 @ [''Genesis attestation has parent reference'']\<rparr>
                      else r1)
                else if at_parent a \<noteq> prev
                then r1\<lparr>cr_valid := False, cr_errors := cr_errors r1 @ [''Chain break at position '' @ py_str_int (int i)
                       @ '': expected parent '' @ short_hash prev @ ''..., got '' @ short_hash (at_parent a) @ ''...'']\<rparr>
                else r1)
      in add_author a (r2\<lparr>cr_versions := cr_versions r2 @ [at_blueprint_version a]\<rparr>))"

fun path_loop :: "(attestation \<Rightarrow> string) \<Rightarrow> verifier \<Rightarrow> nat \<Rightarrow> string option \<Rightarrow> attestation list
    \<Rightarrow> chain_result \<Rightarrow> prov_error + chain_result" where
  "path_loop h vf i prev [] r = Inr r"
| "path_loop h vf i prev (a # as) r = bind_sum (vf a) (\<lambda>v.
     path_loop h vf (Suc i) (Some (h a)) as (path_step i prev a v r))"

definition validate_single_path :: "(attestation \<Rightarrow> string) \<Rightarrow> verifier \<Rightarrow> attestation list \<Rightarrow> prov_error + chain_result" where
  "validate_single_path h vf as =
     (if as = [] then Inr (fresh_result\<lparr>cr_valid := False, cr_errors := [''Empty attestation chain'']\<rparr>)
      else map_sum id (\<lambda>r. r\<lparr>cr_genesis := h (hd as), cr_latest := h (last as), cr_length := length as\<rparr>)
        (path_loop h vf 0 None as fresh_result))"

definition find_ancestor :: "attestation list \<Rightarrow> string \<Rightarrow> attestation option" where
  "find_ancestor as target =
     find (\<lambda>a. py_lstrip CHR ''v'' (at_blueprint_version a) = py_lstrip CHR ''v'' target) as"

text \<open>\<open>get_chain_summary\<close> sorts by the version as a text; here its first and last entries.\<close>

definition summary_versions :: "attestation list \<Rightarrow> string list" where
  "summary_versions as = map at_blueprint_version (sort_key at_blueprint_version as)"

definition chain_summary :: "attestation list \<Rightarrow> (string \<times> string) option" where
  "chain_summary as = (if as = [] then None else Some (hd (summary_versions as), last (summary_versions as)))"

definition verify_blueprint_provenance :: "(attestation \<Rightarrow> string) \<Rightarrow> verifier \<Rightarrow> bool \<Rightarrow> attestation list
    \<Rightarrow> chain_error + (bool \<times> string list)" where
  "verify_blueprint_provenance h vf strict as =
     map_sum id (\<lambda>r. let errors = cr_errors r @ (if strict then cr_warnings r else [])
                     in (cr_valid r \<and> errors = [], errors))
       (validate_chain h vf strict True as)"

end
