(* ===== verification/Chain_Facts.thy ===== *)
theory Chain_Facts
  imports Chain
begin

text \<open>
  The library of the chain validator: the order of versions, what the index and the tree hold, and
  what the traversal reaches.
\<close>

section \<open>The order of versions\<close>

fun ver_less :: "nat list \<Rightarrow> nat list \<Rightarrow> bool" where
  "ver_less (x # xs) (y # ys) = (x < y \<or> (x = y \<and> ver_less xs ys))"
| "ver_less [] ys = (\<exists>y \<in> set ys. y \<noteq> 0)"
| "ver_less (x # xs) [] = False"

lemma pad_to_Nil: "pad_to n [] = replicate n 0"
  by (simp add: pad_to_def)

lemma pad_to_Cons: "pad_to (Suc n) (x # xs) = x # pad_to n xs"
  by (simp add: pad_to_def)

lemma tuple_less_zeros [simp]: "\<not> tuple_less (replicate n 0) (replicate n 0)"
  by (induction n) auto

lemma find_append: "find P (xs @ ys) = (case find P xs of Some x \<Rightarrow> Some x | None \<Rightarrow> find P ys)"
  by (induction xs) auto

lemma find_SomeD: "find P xs = Some x \<Longrightarrow> x \<in> set xs \<and> P x"
  by (induction xs) (auto split: if_splits)

lemma tuple_less_zeros_left: "length ys \<le> n \<Longrightarrow> tuple_less (replicate n 0) (pad_to n ys) = (\<exists>y \<in> set ys. y \<noteq> 0)"
proof (induction n arbitrary: ys)
  case (Suc n)
  then show ?case by (cases ys) (auto simp: pad_to_Cons pad_to_Nil)
qed (simp add: pad_to_def)

lemma tuple_less_zeros_right: "length xs \<le> n \<Longrightarrow> \<not> tuple_less (pad_to n xs) (replicate n 0)"
proof (induction n arbitrary: xs)
  case (Suc n)
  then show ?case by (cases xs) (auto simp: pad_to_Cons pad_to_Nil)
qed (simp add: pad_to_def)

lemma tuple_less_pad: "length xs \<le> n \<Longrightarrow> length ys \<le> n \<Longrightarrow> tuple_less (pad_to n xs) (pad_to n ys) = ver_less xs ys"
proof (induction xs ys arbitrary: n rule: ver_less.induct)
  case (1 x xs y ys)
  then obtain m where "n = Suc m" "length xs \<le> m" "length ys \<le> m" by (cases n) auto
  then show ?case using 1(1)[of m] by (auto simp: pad_to_Cons)
next
  case (2 ys)
  then show ?case by (simp add: pad_to_Nil tuple_less_zeros_left)
next
  case (3 x xs)
  then show ?case using tuple_less_zeros_right[of "x # xs" n] by (simp add: pad_to_Nil)
qed

lemma ver_less_trans: "ver_less xs ys \<Longrightarrow> ver_less ys zs \<Longrightarrow> ver_less xs zs"
proof (induction xs ys arbitrary: zs rule: ver_less.induct)
  case (1 x xs y ys)
  then show ?case by (cases zs) auto
next
  case (2 ys)
  then show ?case
  proof (induction ys arbitrary: zs)
    case (Cons y ys)
    then show ?case by (cases zs) auto
  qed simp
qed simp

lemma ver_less_asym: "ver_less xs ys \<Longrightarrow> \<not> ver_less ys xs"
proof (induction xs ys rule: ver_less.induct)
  case (2 ys)
  then show ?case by (cases ys) auto
qed auto

abbreviation older :: "string \<Rightarrow> string \<Rightarrow> bool" where
  "older v w \<equiv> ver_less (parse_version v) (parse_version w)"

lemma compare_versions_eq:
  "compare_versions v w = (if older v w then -1 else if older w v then 1 else 0)"
  by (simp add: compare_versions_def Let_def tuple_less_pad)

lemma compare_pos: "compare_versions c p \<le> 0 \<longleftrightarrow> \<not> older p c"
  by (auto simp: compare_versions_eq dest: ver_less_asym)

lemma compare_neg: "compare_versions v w < 0 \<longleftrightarrow> older v w"
  by (auto simp: compare_versions_eq)

lemma older_trans: "transp older"
  by (auto intro!: transpI elim: ver_less_trans)

lemma first_bad_step_None: "first_bad_step vs = None \<longleftrightarrow> sorted_wrt older vs"
proof (induction vs rule: first_bad_step.induct)
  case (1 p c vs)
  have "sorted_wrt older (p # c # vs) \<longleftrightarrow> older p c \<and> sorted_wrt older (c # vs)"
    by (rule sorted_wrt2[OF older_trans])
  then show ?case using 1 by (auto simp: compare_pos)
qed simp_all

lemma sequence_valid_iff: "fst (is_version_sequence_valid vs) \<longleftrightarrow> first_bad_step vs = None"
  by (cases "first_bad_step vs") (auto simp: is_version_sequence_valid_def)

section \<open>The index and the tree\<close>

lemma index_foldl:
  "map_of (foldl (\<lambda>d a. AList.update (h a) a d) d as) k =
     (case find (\<lambda>a. h a = k) (rev as) of Some a \<Rightarrow> Some a | None \<Rightarrow> map_of d k)"
  by (induction as arbitrary: d) (auto simp: find_append split: option.split)

lemma index_lookup: "map_of (attestation_index h as) k = find (\<lambda>a. h a = k) (rev as)"
  by (simp add: attestation_index_def index_foldl split: option.split)

lemma index_Some: "map_of (attestation_index h as) k = Some a \<Longrightarrow> a \<in> set as \<and> h a = k"
  using find_SomeD[of "\<lambda>a. h a = k" "rev as" a] by (simp add: index_lookup)

lemma index_None: "map_of (attestation_index h as) k = None \<longleftrightarrow> k \<notin> h ` set as"
  by (auto simp: index_lookup find_None_iff)

lemma tree_foldl:
  "children_of (foldl (\<lambda>t a. AList.update (tree_key a) (children_of t (tree_key a) @ [h a]) t) t as) k =
     children_of t k @ map h (filter (\<lambda>a. tree_key a = k) as)"
  by (induction as arbitrary: t) (auto simp: children_of_def)

lemma tree_children: "children_of (build_chain_tree h as) k = map h (filter (\<lambda>a. tree_key a = k) as)"
  by (simp add: build_chain_tree_def tree_foldl) (simp add: children_of_def)

section \<open>The traversal\<close>

lemma child_calls_hashes:
  assumes "\<And>k a. map_of idx k = Some a \<Longrightarrow> h a = k"
  shows "(h \<circ> fst) ` set (child_calls idx cs d) = {k \<in> set cs. map_of idx k \<noteq> None}"
  using assms by (fastforce simp: child_calls_def image_iff)

lemma visit_mono: "set (vs_visited st) \<subseteq> set (vs_visited (visit_all h forks idx tree calls st))"
proof (induction h forks idx tree calls st rule: visit_all.induct)
  case (2 h forks idx tree a d calls st)
  then show ?case
    by (cases "h a \<in> set (vs_visited st)") (auto simp: visit_seen visit_new)
qed simp

lemma visit_calls: "(h \<circ> fst) ` set calls \<subseteq> set (vs_visited (visit_all h forks idx tree calls st))"
proof (induction h forks idx tree calls st rule: visit_all.induct)
  case (2 h forks idx tree a d calls st)
  show ?case
  proof (cases "h a \<in> set (vs_visited st)")
    case True
    then show ?thesis
      using 2(1) visit_mono[of st h forks idx tree calls] by (auto simp: visit_seen)
  next
    case False
    note ih = 2(2)[OF False refl]
    note mono = visit_mono[of "\<lparr>vs_visited = vs_visited st @ [h a],
        vs_result = record_visit forks (h a) (children_of tree (h a)) a d (vs_result st)\<rparr>" h forks idx tree
        "child_calls idx (children_of tree (h a)) d @ calls"]
    show ?thesis using ih mono False by (auto simp: visit_new)
  qed
qed simp

lemma visit_distinct: "distinct (vs_visited st) \<Longrightarrow> distinct (vs_visited (visit_all h forks idx tree calls st))"
proof (induction h forks idx tree calls st rule: visit_all.induct)
  case (2 h forks idx tree a d calls st)
  then show ?case
    by (cases "h a \<in> set (vs_visited st)") (auto simp: visit_seen visit_new)
qed simp

text \<open>A set of hashes that holds the calls and is closed under children is not left.\<close>

definition closed_under :: "(attestation \<Rightarrow> string) \<Rightarrow> att_index \<Rightarrow> chain_tree \<Rightarrow> string set \<Rightarrow> bool" where
  "closed_under h idx tree C \<longleftrightarrow>
     (\<forall>k \<in> C. \<forall>c \<in> set (children_of tree k). \<forall>a. map_of idx c = Some a \<longrightarrow> h a \<in> C)"

lemma closed_calls:
  assumes "closed_under h idx tree C" and "k \<in> C"
  shows "\<forall>(a, d) \<in> set (child_calls idx (children_of tree k) d'). h a \<in> C"
  using assms by (auto simp: closed_under_def child_calls_def)

lemma visit_within:
  assumes "closed_under h idx tree C"
  shows "\<forall>(a, d) \<in> set calls. h a \<in> C \<Longrightarrow> set (vs_visited st) \<subseteq> C \<Longrightarrow>
    set (vs_visited (visit_all h forks idx tree calls st)) \<subseteq> C"
  using assms
proof (induction h forks idx tree calls st rule: visit_all.induct)
  case (2 h forks idx tree a d calls st)
  show ?case
  proof (cases "h a \<in> set (vs_visited st)")
    case True
    then show ?thesis using 2 by (auto simp: visit_seen)
  next
    case False
    have "\<forall>(b, e) \<in> set (child_calls idx (children_of tree (h a)) d @ calls). h b \<in> C"
      using closed_calls[OF 2(5), of "h a" d] 2(3) by auto
    then show ?thesis
      using 2(2)[OF False refl] 2(3-5) False by (simp add: visit_new)
  qed
qed simp

lemma visit_closed:
  assumes "\<And>k a. map_of idx k = Some a \<Longrightarrow> h a = k"
  shows "\<forall>k \<in> set (vs_visited st). \<forall>c \<in> set (children_of tree k).
      map_of idx c \<noteq> None \<longrightarrow> c \<in> set (vs_visited st) \<union> (h \<circ> fst) ` set calls \<Longrightarrow>
    \<forall>k \<in> set (vs_visited (visit_all h forks idx tree calls st)). \<forall>c \<in> set (children_of tree k).
      map_of idx c \<noteq> None \<longrightarrow> c \<in> set (vs_visited (visit_all h forks idx tree calls st))"
  using assms
proof (induction h forks idx tree calls st rule: visit_all.induct)
  case (2 h forks idx tree a d calls st)
  show ?case
  proof (cases "h a \<in> set (vs_visited st)")
    case True
    then show ?thesis using 2(1)[OF True] 2(3,4) by (auto simp: visit_seen)
  next
    case False
    let ?cs = "children_of tree (h a)"
    have hashes: "(h \<circ> fst) ` set (child_calls idx ?cs d) = {k \<in> set ?cs. map_of idx k \<noteq> None}"
      by (rule child_calls_hashes) (rule 2(4))
    have "\<forall>k \<in> set (vs_visited st @ [h a]). \<forall>c \<in> set (children_of tree k). map_of idx c \<noteq> None \<longrightarrow>
        c \<in> set (vs_visited st @ [h a]) \<union> (h \<circ> fst) ` set (child_calls idx ?cs d @ calls)"
    proof (intro ballI impI)
      fix k c assume k: "k \<in> set (vs_visited st @ [h a])" and c: "c \<in> set (children_of tree k)" "map_of idx c \<noteq> None"
      show "c \<in> set (vs_visited st @ [h a]) \<union> (h \<circ> fst) ` set (child_calls idx ?cs d @ calls)"
      proof (cases "k = h a")
        case True
        then have "c \<in> (h \<circ> fst) ` set (child_calls idx ?cs d)" using c hashes by blast
        then show ?thesis by auto
      next
        case False
        then have "k \<in> set (vs_visited st)" using k by simp
        then have "c \<in> set (vs_visited st) \<union> (h \<circ> fst) ` set ((a, d) # calls)" using 2(3) c by blast
        then show ?thesis by auto
      qed
    qed
    then show ?thesis using 2(2)[OF False refl] 2(4) False by (simp add: visit_new)
  qed
qed simp

text \<open>Two pairs of index and tree that agree on a closed set give the same traversal.\<close>

lemma child_calls_cong:
  "\<forall>c \<in> set cs. map_of idx c = map_of idx' c \<Longrightarrow> child_calls idx cs d = child_calls idx' cs d"
  unfolding child_calls_def by (rule map_cong) (auto intro: filter_cong)

lemma visit_cong:
  assumes "closed_under h idx tree C"
    and "\<forall>k \<in> C. children_of tree k = children_of tree' k \<and>
      (\<forall>c \<in> set (children_of tree k). map_of idx c = map_of idx' c)"
  shows "\<forall>(a, d) \<in> set calls. h a \<in> C \<Longrightarrow>
    visit_all h forks idx tree calls st = visit_all h forks idx' tree' calls st"
  using assms
proof (induction h forks idx tree calls st rule: visit_all.induct)
  case (2 h forks idx tree a d calls st)
  show ?case
  proof (cases "h a \<in> set (vs_visited st)")
    case True
    then show ?thesis using 2(1)[OF True] 2(3-5) by (simp add: visit_seen)
  next
    case False
    have C: "h a \<in> C" using 2(3) by simp
    then have same: "children_of tree (h a) = children_of tree' (h a)"
      "child_calls idx (children_of tree (h a)) d = child_calls idx' (children_of tree' (h a)) d"
      using 2(5) by (auto intro!: child_calls_cong)
    have "\<forall>(b, e) \<in> set (child_calls idx (children_of tree (h a)) d @ calls). h b \<in> C"
      using closed_calls[OF 2(4) C, of d] 2(3) by auto
    then show ?thesis
      using 2(2)[OF False refl] 2(4,5) False same by (simp add: visit_new)
  qed
qed simp

text \<open>The versions are those of the visited attestations, in the order of the visits.\<close>

lemma record_visit_versions [simp]:
  "cr_versions (record_visit f k cs a d r) = cr_versions r @ [at_blueprint_version a]"
  by (simp add: record_visit_def record_fork_def add_author_def Let_def split: option.split)

lemma visit_versions:
  assumes "\<forall>(a, d) \<in> set calls. map_of idx (h a) = Some a"
    and "\<And>k a. map_of idx k = Some a \<Longrightarrow> map_of idx (h a) = Some a"
    and "cr_versions (vs_result st) = map (\<lambda>k. at_blueprint_version (the (map_of idx k))) (vs_visited st)"
  shows "cr_versions (vs_result (visit_all h forks idx tree calls st)) =
    map (\<lambda>k. at_blueprint_version (the (map_of idx k))) (vs_visited (visit_all h forks idx tree calls st))"
  using assms
proof (induction h forks idx tree calls st rule: visit_all.induct)
  case (2 h forks idx tree a d calls st)
  show ?case
  proof (cases "h a \<in> set (vs_visited st)")
    case True
    then show ?thesis using 2(1)[OF True] 2(3-5) by (simp add: visit_seen)
  next
    case False
    have "\<forall>(b, e) \<in> set (child_calls idx (children_of tree (h a)) d @ calls). map_of idx (h b) = Some b"
      using 2(3,4) by (auto simp: child_calls_def)
    then show ?thesis using 2(2)[OF False refl] 2(3-5) False by (simp add: visit_new)
  qed
qed simp

section \<open>Connected attestations\<close>

text \<open>What a genesis attestation leads to through the parent references.\<close>

inductive connected :: "(attestation \<Rightarrow> string) \<Rightarrow> attestation list \<Rightarrow> string \<Rightarrow> bool" for h as where
  connected_genesis: "a \<in> set as \<Longrightarrow> is_genesis a \<Longrightarrow> connected h as (h a)"
| connected_child: "connected h as p \<Longrightarrow> a \<in> set as \<Longrightarrow> \<not> is_genesis a \<Longrightarrow> at_parent a = Some p \<Longrightarrow>
    connected h as (h a)"

definition proper_hashes :: "(attestation \<Rightarrow> string) \<Rightarrow> attestation list \<Rightarrow> bool" where
  "proper_hashes h as \<longleftrightarrow> (\<forall>a \<in> set as. h a \<noteq> ''genesis'' \<and> h a \<noteq> [])"

lemma connected_proper: "connected h as k \<Longrightarrow> proper_hashes h as \<Longrightarrow> k \<noteq> ''genesis'' \<and> k \<noteq> []"
  by (induction rule: connected.induct) (auto simp: proper_hashes_def)

lemma tree_key_parent: "k \<noteq> ''genesis'' \<Longrightarrow> k \<noteq> [] \<Longrightarrow> tree_key a = k \<longleftrightarrow> \<not> is_genesis a \<and> at_parent a = Some k"
  by (auto simp: tree_key_def is_genesis_def split: option.splits list.splits)

lemma connected_closed:
  assumes "proper_hashes h as"
  shows "closed_under h (attestation_index h as) (build_chain_tree h as) {k. connected h as k}"
  unfolding closed_under_def
proof (intro ballI allI impI)
  fix k c a assume k: "k \<in> {k. connected h as k}"
    and c: "c \<in> set (children_of (build_chain_tree h as) k)" and a: "map_of (attestation_index h as) c = Some a"
  have proper: "k \<noteq> ''genesis''" "k \<noteq> []" using connected_proper k assms by auto
  obtain b where "b \<in> set as" "tree_key b = k" "c = h b" using c by (auto simp: tree_children)
  then have "connected h as c"
    using k proper by (auto simp: tree_key_parent intro: connected_child)
  then show "h a \<in> {k. connected h as k}" using index_Some[OF a] by simp
qed

abbreviation chain_traversal :: "(attestation \<Rightarrow> string) \<Rightarrow> bool \<Rightarrow> attestation list \<Rightarrow> chain_result \<Rightarrow> visit_state" where
  "chain_traversal h forks as r \<equiv>
     traverse_chain h forks (attestation_index h as) (build_chain_tree h as) (filter is_genesis as) r"

lemma traversal_reaches:
  assumes "proper_hashes h as"
  shows "set (vs_visited (chain_traversal h forks as r)) = {k. connected h as k}"
proof
  show "set (vs_visited (chain_traversal h forks as r)) \<subseteq> {k. connected h as k}"
    unfolding traverse_chain_def
    by (rule visit_within[OF connected_closed[OF assms]]) (auto intro: connected_genesis)
  let ?V = "vs_visited (chain_traversal h forks as r)"
  have calls: "(h \<circ> fst) ` set (map (\<lambda>a. (a, 0 :: nat)) (filter is_genesis as)) \<subseteq> set ?V"
    unfolding traverse_chain_def by (rule visit_calls)
  have closed: "\<forall>k \<in> set ?V. \<forall>c \<in> set (children_of (build_chain_tree h as) k).
      map_of (attestation_index h as) c \<noteq> None \<longrightarrow> c \<in> set ?V"
    unfolding traverse_chain_def by (rule visit_closed) (auto dest: index_Some)
  show "{k. connected h as k} \<subseteq> set ?V"
  proof clarify
    fix k assume "connected h as k"
    then show "k \<in> set ?V"
    proof (induction rule: connected.induct)
      case (connected_genesis a)
      then show ?case using calls by force
    next
      case (connected_child p a)
      have "p \<noteq> ''genesis''" "p \<noteq> []" using connected_proper[OF connected_child(1) assms] by auto
      then have "h a \<in> set (children_of (build_chain_tree h as) p)"
        using connected_child by (auto simp: tree_children tree_key_parent)
      moreover have "map_of (attestation_index h as) (h a) \<noteq> None"
        using connected_child(2) by (simp add: index_None)
      ultimately show ?case using closed connected_child.IH by blast
    qed
  qed
qed

lemma traversal_distinct: "distinct (vs_visited (chain_traversal h forks as r))"
  unfolding traverse_chain_def by (rule visit_distinct) simp

lemma index_of_hash:
  assumes "inj_on h (set as)" and "a \<in> set as"
  shows "map_of (attestation_index h as) (h a) = Some a"
proof (cases "map_of (attestation_index h as) (h a)")
  case None
  then show ?thesis using assms(2) by (simp add: index_None)
next
  case (Some b)
  then show ?thesis using index_Some[OF Some] assms by (auto dest: inj_onD)
qed

lemma traversal_versions:
  assumes "inj_on h (set as)" and "cr_versions r = []"
  shows "cr_versions (vs_result (chain_traversal h forks as r)) =
    map (\<lambda>k. at_blueprint_version (the (map_of (attestation_index h as) k)))
      (vs_visited (chain_traversal h forks as r))"
  unfolding traverse_chain_def
proof (rule visit_versions)
  show "map_of (attestation_index h as) (h a) = Some a" if "map_of (attestation_index h as) k = Some a" for k a
    using index_Some[OF that] index_of_hash[OF assms(1)] by auto
qed (use assms in \<open>auto simp: index_of_hash\<close>)

lemma traversal_nonempty:
  assumes "a \<in> set as" and "is_genesis a"
  shows "cr_versions (vs_result (chain_traversal h forks as r)) \<noteq> []"
proof -
  have grow: "cr_versions (vs_result st) \<noteq> [] \<Longrightarrow> cr_versions (vs_result (visit_all h forks idx tree calls st)) \<noteq> []"
    for idx tree calls st
  proof (induction h forks idx tree calls st rule: visit_all.induct)
    case (2 h forks idx tree a d calls st)
    then show ?case by (cases "h a \<in> set (vs_visited st)") (auto simp: visit_seen visit_new)
  qed simp
  obtain g gs where "filter is_genesis as = g # gs"
    using assms by (cases "filter is_genesis as") (auto simp: filter_empty_conv)
  then show ?thesis
    unfolding traverse_chain_def by (simp add: visit_new grow)
qed

end
