(* ===== verification/Blueprint_Merge.thy ===== *)
theory Blueprint_Merge
  imports Blueprint
begin

text \<open>
  \<^verbatim>\<open>milimo-core/src/milimo_core/blueprint_merger.py\<close>: two snapshots become one. Python's
  \<open>list(set(xs))\<close> has no fixed order: the function \<open>uniq\<close> that does it is a parameter, of which the
  theorems use that it keeps one of each group of equal elements (\<open>uniq_ok\<close>). Numbers compare by
  value, so \<open>True\<close>, \<open>1\<close> and \<open>1.0\<close> are equal elements; a list or a dictionary in a set is a
  \<open>TypeError\<close>.
\<close>

section \<open>Python values\<close>

fun num_of :: "json \<Rightarrow> rat option" where
  "num_of (JBool b) = Some (if b then 1 else 0)"
| "num_of (JInt i) = Some (of_int i)"
| "num_of (JFloat r) = Some r"
| "num_of _ = None"

fun is_bool :: "json \<Rightarrow> bool" where
  "is_bool (JBool _) = True"
| "is_bool _ = False"

fun hashable :: "json \<Rightarrow> bool" where
  "hashable (JList _) = False"
| "hashable (JObj _) = False"
| "hashable _ = True"

definition scalar_eq :: "json \<Rightarrow> json \<Rightarrow> bool" where
  "scalar_eq x y \<longleftrightarrow> x = y \<or> (num_of x \<noteq> None \<and> num_of x = num_of y)"

definition uniq_ok :: "(json list \<Rightarrow> json list) \<Rightarrow> bool" where
  "uniq_ok uniq \<longleftrightarrow> (\<forall>xs. set (uniq xs) \<subseteq> set xs \<and> (\<forall>x \<in> set xs. \<exists>y \<in> set (uniq xs). scalar_eq x y))"

definition py_min :: "json \<Rightarrow> json \<Rightarrow> json" where
  "py_min a b = (if the (num_of b) < the (num_of a) then b else a)"

definition py_max :: "json \<Rightarrow> json \<Rightarrow> json" where
  "py_max a b = (if the (num_of a) < the (num_of b) then b else a)"

definition set_list :: "(json list \<Rightarrow> json list) \<Rightarrow> json list \<Rightarrow> read_error + json list" where
  "set_list uniq xs = (if list_all hashable xs then Inr (uniq xs) else Inl (Untyped ''unhashable''))"

definition key_has :: "string \<Rightarrow> string \<Rightarrow> bool" where
  "key_has w k = py_in w (py_lower k)"

section \<open>Policies\<close>

definition merge_numbers :: "string \<Rightarrow> json \<Rightarrow> json \<Rightarrow> json" where
  "merge_numbers k b v =
     (if key_has ''threshold'' k \<or> key_has ''limit'' k
      then (if key_has ''limit'' k then py_min b v else py_max b v)
      else py_max b v)"

definition merge_lists :: "(json list \<Rightarrow> json list) \<Rightarrow> string \<Rightarrow> json list \<Rightarrow> json list \<Rightarrow> read_error + json list" where
  "merge_lists uniq k b v =
     (if \<not> list_all hashable (b @ v) then Inl (Untyped ''unhashable'')
      else if key_has ''allow'' k then Inr (uniq (filter (\<lambda>x. \<exists>y \<in> set v. scalar_eq x y) b))
      else Inr (uniq (b @ v)))"

function merge_policies :: "(json list \<Rightarrow> json list) \<Rightarrow> json dict \<Rightarrow> json dict \<Rightarrow> read_error + json dict"
  and merge_setting :: "(json list \<Rightarrow> json list) \<Rightarrow> string \<Rightarrow> json \<Rightarrow> json \<Rightarrow> read_error + json" where
  "merge_policies uniq merged [] = Inr merged"
| "merge_policies uniq merged ((k, v) # rest) =
     (case map_of merged k of
        None \<Rightarrow> merge_policies uniq (AList.update k v merged) rest
      | Some b \<Rightarrow> bind_sum (merge_setting uniq k b v) (\<lambda>w.
          merge_policies uniq (AList.update k w merged) rest))"
| "merge_setting uniq k b v =
     (case (b, v) of
        (JBool x, JBool y) \<Rightarrow> Inr (JBool (x \<and> y))
      | (JList xs, JList ys) \<Rightarrow> map_sum id JList (merge_lists uniq k xs ys)
      | (JObj d, JObj e) \<Rightarrow> map_sum id JObj (merge_policies uniq d e)
      | _ \<Rightarrow> if num_of b \<noteq> None \<and> num_of v \<noteq> None then Inr (merge_numbers k b v) else Inr b)"
  by pat_completeness auto
termination
  by (relation "measure (\<lambda>x. case x of Inl (u, m, inc) \<Rightarrow> 2 * size (JObj inc)
      | Inr (u, k, b, v) \<Rightarrow> Suc (2 * size v))") auto

declare merge_setting.simps [simp del]

section \<open>Tools, priors, snapshots\<close>

definition merge_tools :: "json dict \<Rightarrow> json dict \<Rightarrow> json dict" where
  "merge_tools base incoming = foldl (\<lambda>m (k, v). AList.update k v m) base incoming"

definition merge_config :: "json dict \<Rightarrow> json dict \<Rightarrow> json dict" where
  "merge_config base incoming =
     foldl (\<lambda>m (k, v). if map_of m k = None then AList.update k v m else m) base incoming"

function merge_priors :: "(json list \<Rightarrow> json list) \<Rightarrow> json dict \<Rightarrow> json dict \<Rightarrow> read_error + json dict"
  and merge_prior :: "(json list \<Rightarrow> json list) \<Rightarrow> string \<Rightarrow> json \<Rightarrow> json \<Rightarrow> read_error + json" where
  "merge_priors uniq merged [] = Inr merged"
| "merge_priors uniq merged ((k, v) # rest) =
     (case map_of merged k of
        None \<Rightarrow> merge_priors uniq (AList.update k v merged) rest
      | Some b \<Rightarrow> bind_sum (merge_prior uniq k b v) (\<lambda>w.
          merge_priors uniq (AList.update k w merged) rest))"
| "merge_prior uniq k b v =
     (case (b, v) of
        (JList xs, JList ys) \<Rightarrow> map_sum id JList (set_list uniq (xs @ ys))
      | (JObj d, JObj e) \<Rightarrow> map_sum id JObj (merge_priors uniq d e)
      | (JStr s, JStr t) \<Rightarrow>
          Inr (JStr (if key_has ''style'' k \<or> key_has ''pattern'' k then s @ '' | '' @ t else s))
      | _ \<Rightarrow> Inr b)"
  by pat_completeness auto
termination
  by (relation "measure (\<lambda>x. case x of Inl (u, m, inc) \<Rightarrow> 2 * size (JObj inc)
      | Inr (u, k, b, v) \<Rightarrow> Suc (2 * size v))") auto

declare merge_prior.simps [simp del]

definition merge_tags :: "(json list \<Rightarrow> json list) \<Rightarrow> string list \<Rightarrow> string list \<Rightarrow> string list" where
  "merge_tags uniq a b = (case json_strs (uniq (map JStr (a @ b))) of Some l \<Rightarrow> l | None \<Rightarrow> [])"

definition merge_snapshots :: "(json list \<Rightarrow> json list) \<Rightarrow> 'c snapshot \<Rightarrow> 'c snapshot \<Rightarrow> read_error + 'c snapshot" where
  "merge_snapshots uniq base incoming =
     bind_sum (merge_policies uniq (bs_policy base) (bs_policy incoming)) (\<lambda>pol.
     bind_sum (merge_priors uniq (learned_priors base) (learned_priors incoming)) (\<lambda>pri.
       Inr \<lparr>bs_meta = (bs_meta base)\<lparr>mt_niche_tags :=
              merge_tags uniq (mt_niche_tags (bs_meta base)) (mt_niche_tags (bs_meta incoming))\<rparr>,
            claw_config = merge_config (claw_config base) (claw_config incoming),
            tools_inventory = merge_tools (tools_inventory base) (tools_inventory incoming),
            bs_policy = pol, learned_priors = pri, integrity_digest = None, integrity_chain = None\<rparr>))"

section \<open>Lookups\<close>

text \<open>The value a merge leaves under a key depends on the two values under that key alone.\<close>

lemma merge_policies_other:
  "merge_policies uniq m inc = Inr r \<Longrightarrow> k \<notin> fst ` set inc \<Longrightarrow> map_of r k = map_of m k"
proof (induction inc arbitrary: m)
  case (Cons kv rest)
  obtain k' v where kv: "kv = (k', v)" by (cases kv)
  from Cons.prems show ?case
    by (auto simp: kv bind_sum_Inr split: option.splits dest!: Cons.IH)
qed simp

lemma merge_policies_at:
  assumes "merge_policies uniq m inc = Inr r" and "distinct (map fst inc)" and "(k, v) \<in> set inc"
  shows "case map_of m k of
      None \<Rightarrow> map_of r k = Some v
    | Some b \<Rightarrow> (\<exists>w. merge_setting uniq k b v = Inr w \<and> map_of r k = Some w)"
  using assms
proof (induction inc arbitrary: m)
  case (Cons kv rest)
  obtain k' v' where kv: "kv = (k', v')" by (cases kv)
  show ?case
  proof (cases "k = k'")
    case True
    then have v: "v' = v" and out: "k \<notin> fst ` set rest"
      using Cons.prems(2,3) by (auto simp: kv rev_image_eqI)
    show ?thesis
      using Cons.prems(1) True out
      by (auto simp: kv v bind_sum_Inr split: option.splits dest!: merge_policies_other)
  next
    case False
    then have "(k, v) \<in> set rest" "distinct (map fst rest)" using Cons.prems by (auto simp: kv)
    then show ?thesis
      using Cons.prems(1) False Cons.IH
      by (fastforce simp: kv bind_sum_Inr split: option.splits)
  qed
qed simp

lemma merge_setting_list:
  assumes "merge_setting uniq k (JList xs) (JList ys) = Inr w"
  obtains zs where "w = JList zs" "merge_lists uniq k xs ys = Inr zs"
proof (cases "merge_lists uniq k xs ys")
  case (Inr zs)
  then show thesis using assms that[of zs] by (simp add: merge_setting.simps)
qed (use assms in \<open>simp add: merge_setting.simps\<close>)

lemma merge_setting_num:
  assumes "num_of b = Some p" "num_of v = Some q" "\<not> (is_bool b \<and> is_bool v)"
  shows "merge_setting uniq k b v = Inr (merge_numbers k b v)"
  using assms by (cases b; cases v) (auto simp: merge_setting.simps)

lemma num_min_max:
  assumes "num_of b = Some p" "num_of v = Some q"
  shows "num_of (py_min b v) = Some (min p q)" "num_of (py_max b v) = Some (max p q)"
  using assms by (auto simp: py_min_def py_max_def min_def max_def)

end
