(* ===== verification/Marketplace.thy ===== *)
theory Marketplace
  imports Blueprint
begin

text \<open>
  \<^verbatim>\<open>milimo-core/src/milimo_core/marketplace_manager.py\<close>: a directory with an index of listings and one
  file per published snapshot. \<open>search\<close> is modelled as it is written: the assignment of \<open>q\<close> is the
  body of an \<open>if\<close>, and \<open>results.append(listing)\<close> stands behind the loop, where \<open>listing\<close> is the
  last one the loop looked at.
\<close>

record listing =
  ls_id :: string
  ls_name :: string
  ls_business_type :: string
  ls_version :: string
  ls_author :: string
  ls_price :: string
  ls_tags :: "string list"
  ls_tool_count :: nat
  ls_fork_count :: nat
  ls_published_at :: string
  ls_verified :: bool

record marketplace =
  mk_listings :: "(string \<times> listing) list"
  mk_files :: "string \<rightharpoonup> json dict"

datatype market_error = UnboundLocal string | FileError read_error

definition alnum_char :: "char \<Rightarrow> bool" where
  "alnum_char c = (let n = of_char c :: nat in
     (48 \<le> n \<and> n \<le> 57) \<or> (65 \<le> n \<and> n \<le> 90) \<or> (97 \<le> n \<and> n \<le> 122))"

definition strip_dashes :: "string \<Rightarrow> string" where
  "strip_dashes s = rev (dropWhile (\<lambda>c. c = CHR ''-'') (rev (dropWhile (\<lambda>c. c = CHR ''-'') s)))"

definition safe_name :: "string \<Rightarrow> string" where
  "safe_name n = strip_dashes (py_lower (map (\<lambda>c. if alnum_char c then c else CHR ''-'') n))"

definition blueprint_id :: "string \<Rightarrow> string \<Rightarrow> string \<Rightarrow> string" where
  "blueprint_id squad n version = ''@'' @ squad @ ''/'' @ safe_name n @ ''-v'' @ version"

definition artifact_name :: "string \<Rightarrow> string" where
  "artifact_name bid = py_replace ''/'' ''_'' bid @ ''.json''"

definition publish :: "string list snapshot \<Rightarrow> string \<Rightarrow> string \<Rightarrow> string \<Rightarrow> string \<Rightarrow> marketplace
    \<Rightarrow> string \<times> marketplace" where
  "publish s price n squad now mk =
     (let m = bs_meta s; bid = blueprint_id squad n (mt_version m);
          l = \<lparr>ls_id = bid, ls_name = n, ls_business_type = mt_business_type m,
               ls_version = mt_version m, ls_author = squad, ls_price = price,
               ls_tags = mt_niche_tags m, ls_tool_count = length (tools_inventory s),
               ls_fork_count = 0, ls_published_at = now,
               ls_verified = (case integrity_digest s of Some d \<Rightarrow> d \<noteq> [] | None \<Rightarrow> False)\<rparr>
      in (bid, \<lparr>mk_listings = AList.update bid l (mk_listings mk),
                mk_files = (mk_files mk)(artifact_name bid \<mapsto> snapshot_to_dict s)\<rparr>))"

definition in_category :: "string \<Rightarrow> listing \<Rightarrow> bool" where
  "in_category category l \<longleftrightarrow> category = [] \<or> py_lower (ls_business_type l) = py_lower category"

fun search_loop :: "string \<Rightarrow> string \<Rightarrow> listing option \<Rightarrow> listing list \<Rightarrow> market_error + listing option" where
  "search_loop query category prev [] = Inr prev"
| "search_loop query category prev (l # ls) =
     (if in_category category l \<and> query = [] then Inl (UnboundLocal ''q'')
      else search_loop query category (Some l) ls)"

definition search :: "string \<Rightarrow> string \<Rightarrow> marketplace \<Rightarrow> market_error + listing list" where
  "search query category mk =
     (case search_loop query category None (map snd (mk_listings mk)) of
        Inl e \<Rightarrow> Inl e
      | Inr None \<Rightarrow> Inl (UnboundLocal ''listing'')
      | Inr (Some l) \<Rightarrow> Inr [l])"

definition get_listing :: "string \<Rightarrow> marketplace \<Rightarrow> listing option" where
  "get_listing bid mk = map_of (mk_listings mk) bid"

definition download :: "string \<Rightarrow> string \<Rightarrow> marketplace
    \<Rightarrow> (market_error + string list snapshot option) \<times> marketplace" where
  "download now bid mk =
     (case map_of (mk_listings mk) bid of
        None \<Rightarrow> (Inr None, mk)
      | Some l \<Rightarrow>
          (case mk_files mk (artifact_name bid) of
             None \<Rightarrow> (Inr None, mk)
           | Some d \<Rightarrow>
               (map_sum FileError Some (snapshot_from_dict now d),
                mk\<lparr>mk_listings := AList.update bid (l\<lparr>ls_fork_count := Suc (ls_fork_count l)\<rparr>)
                     (mk_listings mk)\<rparr>)))"

lemma search_loop_query:
  "query \<noteq> [] \<Longrightarrow>
     search_loop query category prev ls = Inr (if ls = [] then prev else Some (last ls))"
  by (induction ls arbitrary: prev) simp_all

lemma search_loop_no_query:
  "search_loop [] category prev ls =
     (if list_ex (in_category category) ls then Inl (UnboundLocal ''q'')
      else Inr (if ls = [] then prev else Some (last ls)))"
  by (induction ls arbitrary: prev) simp_all

end
