(* ===== verification/Blueprint_Props.thy ===== *)
theory Blueprint_Props
  imports Blueprint_Merge Marketplace
begin

text \<open>
  Properties of the blueprint manager, the merger and the marketplace. A sample manager at the end
  of the first section is what the witnesses run on.
\<close>

section \<open>Handing a blueprint over\<close>

lemma compute_digest_load_chain [simp]: "compute_digest lib (load_chain s mg) = compute_digest lib s"
  by (simp add: compute_digest_def load_chain_def)

lemma compute_digest_sealed [simp]:
  "compute_digest lib (s\<lparr>integrity_digest := d, integrity_chain := c\<rparr>) = compute_digest lib s"
  by (simp add: compute_digest_def)

lemma verify_integrity_load_chain [simp]: "verify_integrity lib (load_chain s mg) = verify_integrity lib s"
proof -
  have "integrity_digest (load_chain s mg) = integrity_digest s" by (simp add: load_chain_def)
  then show ?thesis by (simp add: verify_integrity_def split: option.split)
qed

text \<open>What an export leaves: the snapshot is sealed, its file holds it with the chain of the moment.\<close>

lemma export_facts:
  assumes "export_snapshot lib tags src mg = (snap, mg')"
  shows "integrity_digest snap = Some (compute_digest lib snap)"
    and "integrity_chain snap = Some (export_chain mg)"
    and "chain_store mg' (export_chain mg) = old_chain mg @ [compute_digest lib snap]"
    and "mt_version (bs_meta snap) = st_version (bm_state mg)"
    and "bm_state mg' = bm_state mg"
    and "snapshot_files mg' = (snapshot_files mg)(snapshot_file_name (st_version (bm_state mg))
           \<mapsto> snapshot_to_dict (load_chain snap mg'))"
    and "load_chain snap mg' = \<lparr>bs_meta = bs_meta snap, claw_config = src_config src,
           tools_inventory = src_inventory src, bs_policy = src_policy src,
           learned_priors = st_priors (bm_state mg), integrity_digest = integrity_digest snap,
           integrity_chain = Some (old_chain mg @ [compute_digest lib snap])\<rparr>"
  using assms by (auto simp: export_snapshot_def Let_def bare_snapshot_def load_chain_def compute_digest_def)

lemma export_provenance:
  assumes "export_snapshot lib tags src mg = (snap, mg')"
    and "\<And>t. sha256_hex lib t \<noteq> []"
  shows "verify_provenance lib (load_chain snap mg')"
proof -
  have "compute_digest lib snap \<noteq> []" using assms(2) by (simp add: compute_digest_def)
  then have "verify_integrity lib snap"
    by (simp add: verify_integrity_def export_facts(1)[OF assms(1)])
  then show ?thesis
    by (simp add: verify_provenance_def export_facts(1)[OF assms(1)] export_facts(7)[OF assms(1)]
        flip: verify_integrity_load_chain[of lib snap mg'])
qed


lemma import_bundle:
  "import_handoff lib now (Some (handoff_bundle stamp s)) mg =
     (if verify_integrity lib s then (Inr True, import_snapshot s mg) else (Inr False, mg))"
  by (simp add: import_handoff_def handoff_bundle_def rd_obj_def)

lemma import_snapshot_facts:
  "st_version (bm_state (import_snapshot s mg)) = mt_version (bs_meta s)"
  "snapshot_files (import_snapshot s mg) =
     (snapshot_files mg)(snapshot_file_name (mt_version (bs_meta s)) \<mapsto> snapshot_to_dict s)"
  by (simp_all add: import_snapshot_def save_state_def Let_def)

lemma load_file_name_plain: "\<not> prefix ''v'' v \<Longrightarrow> load_file_name v = snapshot_file_name v"
  by (simp add: load_file_name_def snapshot_file_name_def)

lemma load_stored:
  "\<not> prefix ''v'' v \<Longrightarrow> snapshot_files mg (snapshot_file_name v) = Some (snapshot_to_dict s)
     \<Longrightarrow> load_snapshot now v mg = Inr (Some s)"
  by (simp add: load_snapshot_def load_file_name_plain)

definition sample_lib :: hash_lib where
  "sample_lib = \<lparr>sha256_hex = (\<lambda>t. ''h'' @ t), dumps_sorted =
     (\<lambda>j. case j of JObj d \<Rightarrow> (case map_of d ''meta'' of Some (JObj m) \<Rightarrow> get_str m ''created_at'' [] | _ \<Rightarrow> [])
                  | _ \<Rightarrow> [])\<rparr>"

definition sample_sources :: "string \<Rightarrow> export_sources" where
  "sample_sources now = \<lparr>src_config = [(''role'', JStr ''ops'')], src_inventory = [],
     src_policy = [(''max_spend_limit'', JInt 10)], src_now = now\<rparr>"

definition fresh_manager :: bp_manager where
  "fresh_manager = new_manager_on (\<lambda>_. None) (\<lambda>_. None) None"

lemma sample_sha [simp]: "sha256_hex sample_lib t \<noteq> []"
  by (simp add: sample_lib_def)

lemma fresh_version: "st_version (bm_state fresh_manager) = ''0.1.0''"
  by (simp add: fresh_manager_def new_manager_on_def default_state_def map_chain_def)

text \<open>
  What one manager exports as a handoff another one accepts, whatever its state is: it takes
  over the version, stores the snapshot under it, and the snapshot it loads back carries the
  configuration, inventory, policy and priors of the first manager with a valid provenance.
\<close>

theorem handoff_round_trip:
  assumes "export_handoff lib role src mg = (path, mg1)"
    and "\<And>t. sha256_hex lib t \<noteq> []"
    and "\<not> prefix ''v'' (st_version (bm_state mg))"
  shows "\<exists>b s mg3. handoff_files mg1 path = Some b \<and> import_handoff lib now (Some b) mg2 = (Inr True, mg3)
    \<and> st_version (bm_state mg3) = st_version (bm_state mg)
    \<and> load_snapshot now (st_version (bm_state mg)) mg3 = Inr (Some s) \<and> verify_provenance lib s
    \<and> claw_config s = src_config src \<and> tools_inventory s = src_inventory src
    \<and> bs_policy s = src_policy src \<and> learned_priors s = st_priors (bm_state mg)"
proof -
  obtain snap m where ex: "export_snapshot lib None src mg = (snap, m)" by fastforce
  let ?s = "load_chain snap m"
  note f = export_facts[OF ex]
  have prov: "verify_provenance lib ?s" by (rule export_provenance[OF ex assms(2)])
  then have int: "verify_integrity lib ?s" by (simp add: verify_provenance_def)
  have file1: "handoff_files mg1 path = Some (handoff_bundle (src_now src) ?s)"
    using assms(1) by (auto simp: export_handoff_def ex Let_def)
  have version: "mt_version (bs_meta ?s) = st_version (bm_state mg)"
    using f(4) by (simp add: load_chain_def)
  have "load_snapshot now (st_version (bm_state mg)) (import_snapshot ?s mg2) = Inr (Some ?s)"
    by (rule load_stored[OF assms(3)]) (simp only: import_snapshot_facts version fun_upd_same)
  moreover have "claw_config ?s = src_config src \<and> tools_inventory ?s = src_inventory src
      \<and> bs_policy ?s = src_policy src \<and> learned_priors ?s = st_priors (bm_state mg)"
    by (subst f(7))+ simp
  ultimately show ?thesis
    using file1 int prov version
    by (intro exI[of _ "handoff_bundle (src_now src) ?s"] exI[of _ ?s] exI[of _ "import_snapshot ?s mg2"])
      (simp add: import_bundle import_snapshot_facts)
qed

theorem handoff_round_trip_witness:
  "\<exists>b s mg3. handoff_files (snd (export_handoff sample_lib ''ops'' (sample_sources ''t1'') fresh_manager))
        (fst (export_handoff sample_lib ''ops'' (sample_sources ''t1'') fresh_manager)) = Some b
    \<and> import_handoff sample_lib ''t2'' (Some b) fresh_manager = (Inr True, mg3)
    \<and> load_snapshot ''t2'' ''0.1.0'' mg3 = Inr (Some s)"
  using handoff_round_trip[of sample_lib "''ops''" "sample_sources ''t1''" fresh_manager
      "fst (export_handoff sample_lib ''ops'' (sample_sources ''t1'') fresh_manager)"
      "snd (export_handoff sample_lib ''ops'' (sample_sources ''t1'') fresh_manager)" "''t2''" fresh_manager]
  by (force simp: fresh_version)

text \<open>The chain is not part of what an import checks: any list passes.\<close>

lemma import_ignores_chain:
  "fst (import_handoff lib now (Some (handoff_bundle stamp (s\<lparr>integrity_chain := c\<rparr>))) mg)
     = fst (import_handoff lib now (Some (handoff_bundle stamp s)) mg)"
proof -
  have "verify_integrity lib (s\<lparr>integrity_chain := c\<rparr>) = verify_integrity lib s"
    by (simp add: verify_integrity_def compute_digest_def split: option.split)
  then show ?thesis by (simp add: import_bundle)
qed

section \<open>Versions and chains\<close>

lemma append_version_facts [simp]:
  "st_version (bm_state (append_version v r now mg)) = v"
  "version_history (bm_state (append_version v r now mg)) = version_history (bm_state mg)
     @ [\<lparr>ve_version = v, ve_reason = r, ve_timestamp = now\<rparr>]"
  "snapshot_files (append_version v r now mg) = snapshot_files mg"
  "provenance_chain (bm_state (append_version v r now mg)) = provenance_chain (bm_state mg)"
  by (simp_all add: append_version_def save_state_def)

lemma rollback_found:
  "snapshot_files mg (load_file_name target) = Some (snapshot_to_dict s) \<Longrightarrow>
     rollback target reason now mg = (Inr True,
       append_version target (''rollback from '' @ st_version (bm_state mg) @ '': '' @ reason) now mg)"
  by (simp add: rollback_def load_snapshot_def)

lemma bump_next:
  "next_version (st_version (bm_state mg)) = Inr v \<Longrightarrow>
     bump_version reason now mg = (Inr v, append_version v reason now mg)"
  by (simp add: bump_version_def)

text \<open>
  A version number is issued again after a rollback: bump, export, roll back, bump and export
  leaves two entries of the same version in the history and one file, the one of the second
  export; the first snapshot of that version is gone.
\<close>

theorem rollback_reissues_version:
  assumes "next_version v = Inr v'" and "\<not> prefix ''v'' v'"
    and "st_version (bm_state mg) = v" and "snapshot_files mg (load_file_name v) = Some (snapshot_to_dict old)"
    and "bump_version r1 t1 mg = (res1, mg1)" and "export_snapshot lib tags1 src1 mg1 = (s1, mg2)"
    and "rollback v r2 t2 mg2 = (res2, mg3)" and "bump_version r3 t3 mg3 = (res3, mg4)"
    and "export_snapshot lib tags2 src2 mg4 = (s2, mg5)"
  shows "res1 = Inr v' \<and> res2 = Inr True \<and> res3 = Inr v'
    \<and> load_snapshot now v' mg2 = Inr (Some (load_chain s1 mg2))
    \<and> load_snapshot now v' mg5 = Inr (Some (load_chain s2 mg5))
    \<and> map ve_version (version_history (bm_state mg5)) = map ve_version (version_history (bm_state mg)) @ [v', v, v']"
proof -
  have mg1: "res1 = Inr v'" "mg1 = append_version v' r1 t1 mg"
    using assms(5) bump_next[of mg v' r1 t1] assms(1,3) by auto
  note f1 = export_facts[OF assms(6)]
  have file2: "snapshot_files mg2 (snapshot_file_name v') = Some (snapshot_to_dict (load_chain s1 mg2))"
    by (subst f1(6)) (simp add: mg1)
  have "\<exists>x. snapshot_files mg2 (load_file_name v) = Some (snapshot_to_dict x)"
    using assms(4) by (subst f1(6)) (auto simp: mg1 fun_upd_def)
  then obtain o' where "snapshot_files mg2 (load_file_name v) = Some (snapshot_to_dict o')" ..
  note rb = rollback_found[OF this, of r2 t2]
  have mg3: "res2 = Inr True" "\<exists>r. mg3 = append_version v r t2 mg2" using assms(7) rb by auto
  then obtain r where r: "mg3 = append_version v r t2 mg2" by blast
  have mg4: "res3 = Inr v'" "mg4 = append_version v' r3 t3 mg3"
    using assms(8) bump_next[of mg3 v' r3 t3] assms(1) by (auto simp: r)
  note f2 = export_facts[OF assms(9)]
  have file5: "snapshot_files mg5 (snapshot_file_name v') = Some (snapshot_to_dict (load_chain s2 mg5))"
    by (subst f2(6)) (simp add: mg4)
  show ?thesis
    using load_stored[OF assms(2) file2] load_stored[OF assms(2) file5] mg1 mg3(1) mg4(1) f2(5) f1(5)
    by (simp add: mg4(2) r)
qed


text \<open>The text of a version made of three numbers, and the next one.\<close>

definition version_text :: "int \<Rightarrow> int \<Rightarrow> int \<Rightarrow> string" where
  "version_text a b c = py_join ''.'' [py_str_int a, py_str_int b, py_str_int c]"

lemma version_text_parts: "py_split CHR ''.'' (version_text a b c) = [py_str_int a, py_str_int b, py_str_int c]"
  unfolding version_text_def by (rule py_split_join) (simp_all add: dot_not_in_str_int)

lemma next_version_text: "next_version (version_text a b c) = Inr (version_text a b (c + 1))"
  by (simp add: next_version_def version_text_parts version_part_def Let_def)
    (simp add: version_text_def)

lemma version_text_sample:
  "version_text 0 1 0 = ''0.1.0''" "version_text 0 1 1 = ''0.1.1''"
  by (simp_all add: version_text_def py_str_int_def digits_of_nat.simps str_simps)

definition exported_once :: bp_manager where
  "exported_once = snd (export_snapshot sample_lib None (sample_sources ''t1'') fresh_manager)"

definition after_bump :: bp_manager where
  "after_bump = snd (bump_version ''a'' ''t2'' exported_once)"

definition exported_twice :: bp_manager where
  "exported_twice = snd (export_snapshot sample_lib None (sample_sources ''t3'') after_bump)"

text \<open>
  The chain of an exported snapshot is the list of the manager's own state once a handoff was
  imported: the next export appends its digest to it, and the snapshot exported before, still in
  memory, does not pass \<open>verify_provenance\<close> any more although its digest is right.
\<close>

theorem second_export_breaks_first:
  assumes "provenance_chain (bm_state mg) = Some r" and "\<And>t. sha256_hex lib t \<noteq> []"
    and "export_snapshot lib tags1 src1 mg = (s1, mg1)" and "export_snapshot lib tags2 src2 mg1 = (s2, mg2)"
    and "compute_digest lib s1 \<noteq> compute_digest lib s2"
  shows "verify_provenance lib (load_chain s1 mg1) \<and> \<not> verify_provenance lib (load_chain s1 mg2)
    \<and> verify_integrity lib (load_chain s1 mg2)"
proof -
  note f1 = export_facts[OF assms(3)] and f2 = export_facts[OF assms(4)]
  have r: "export_chain mg = r" "export_chain mg1 = r"
    using assms(1) f1(5) by (simp_all add: export_chain_def)
  have "integrity_chain (load_chain s1 mg2) = Some (old_chain mg1 @ [compute_digest lib s2])"
    using f1(2) f2(3) by (simp add: load_chain_def r)
  moreover have "integrity_digest (load_chain s1 mg2) = Some (compute_digest lib s1)"
    using f1(1) by (simp add: load_chain_def)
  ultimately have "\<not> verify_provenance lib (load_chain s1 mg2)"
    using assms(5) by (simp add: verify_provenance_def)
  moreover have v: "verify_provenance lib (load_chain s1 mg1)" by (rule export_provenance[OF assms(3,2)])
  moreover have "verify_integrity lib (load_chain s1 mg2)"
    using v by (simp add: verify_provenance_def)
  ultimately show ?thesis by simp
qed

definition imported_manager :: bp_manager where
  "imported_manager = fresh_manager\<lparr>bm_state := (bm_state fresh_manager)\<lparr>provenance_chain := Some 1\<rparr>,
     chain_store := (\<lambda>_. [''p'']), next_chain := 2\<rparr>"

text \<open>
  Without an import the state never has a chain: whatever is bumped, exported, handed over, rolled
  back and restarted, the chain of every exported snapshot consists of its own digest.
\<close>

inductive local_step :: "bp_manager \<Rightarrow> bp_manager \<Rightarrow> bool" where
  ls_bump: "local_step mg (snd (bump_version reason now mg))"
| ls_export: "local_step mg (snd (export_snapshot lib tags src mg))"
| ls_handoff: "local_step mg (snd (export_handoff lib role src mg))"
| ls_rollback: "local_step mg (snd (rollback target reason now mg))"
| ls_restart: "local_step mg (restart_manager mg)"

definition no_chain :: "bp_manager \<Rightarrow> bool" where
  "no_chain mg \<longleftrightarrow> provenance_chain (bm_state mg) = None
     \<and> (\<forall>s. state_file mg = Some s \<longrightarrow> provenance_chain s = None)"

lemma no_chain_append: "no_chain mg \<Longrightarrow> no_chain (append_version v r now mg)"
  by (simp add: no_chain_def append_version_def save_state_def map_chain_def)

lemma no_chain_export: "no_chain mg \<Longrightarrow> no_chain (snd (export_snapshot lib tags src mg))"
  by (simp add: no_chain_def export_snapshot_def Let_def)

lemma no_chain_step: "local_step mg mg' \<Longrightarrow> no_chain mg \<Longrightarrow> no_chain mg'"
proof (induction rule: local_step.induct)
  case (ls_bump mg reason now)
  then show ?case by (simp add: bump_version_def no_chain_append split: sum.split)
next
  case (ls_handoff mg lib role src)
  then show ?case
    using no_chain_export[of mg lib None src]
    by (cases "export_snapshot lib None src mg") (simp add: export_handoff_def no_chain_def Let_def)
next
  case (ls_rollback mg target reason now)
  then show ?case by (simp add: rollback_def no_chain_append split: sum.split option.split)
next
  case (ls_restart mg)
  then show ?case
    by (cases "state_file mg")
      (simp_all add: no_chain_def restart_manager_def new_manager_on_def map_chain_def default_state_def)
qed (rule no_chain_export)

lemma local_chain_is_own_digest:
  assumes "local_step\<^sup>*\<^sup>* fresh_manager mg" and "export_snapshot lib tags src mg = (snap, mg')"
  shows "integrity_chain (load_chain snap mg') = Some [compute_digest lib snap]"
proof -
  have "no_chain mg"
    using assms(1)
  proof (induction rule: rtranclp_induct)
    case base
    show ?case by (simp add: no_chain_def fresh_manager_def new_manager_on_def default_state_def map_chain_def)
  qed (rule no_chain_step)
  then show ?thesis
    using export_facts(7)[OF assms(2)] by (simp add: no_chain_def old_chain_def)
qed


section \<open>Merging\<close>

lemma uniq_sub: "uniq_ok uniq \<Longrightarrow> z \<in> set (uniq xs) \<Longrightarrow> z \<in> set xs"
  by (auto simp: uniq_ok_def)

lemma uniq_covers: "uniq_ok uniq \<Longrightarrow> x \<in> set xs \<Longrightarrow> \<exists>y \<in> set (uniq xs). scalar_eq x y"
  by (auto simp: uniq_ok_def)

lemma scalar_eq_str [simp]: "scalar_eq (JStr s) y \<longleftrightarrow> y = JStr s" "scalar_eq x (JStr s) \<longleftrightarrow> x = JStr s"
  by (auto simp: scalar_eq_def)

lemma uniq_str: "uniq_ok uniq \<Longrightarrow> JStr s \<in> set (uniq xs) \<longleftrightarrow> JStr s \<in> set xs"
  using uniq_sub[of uniq "JStr s" xs] uniq_covers[of uniq "JStr s" xs] by auto

text \<open>
  What a merge of two policies leaves under a key both have: a switch is on only when it is on
  in both, a limit is the smaller number, a threshold and \<^emph>\<open>every other number\<close> the larger one, a
  list whose key contains \<open>allow\<close> is the intersection, any other list the union.
\<close>

theorem merge_policies_spec:
  assumes "merge_policies uniq base inc = Inr r" and "distinct (map fst inc)" and "uniq_ok uniq"
    and "map_of base k = Some b" and "(k, v) \<in> set inc"
  shows "\<exists>w. map_of r k = Some w
    \<and> (\<forall>x y. b = JBool x \<and> v = JBool y \<longrightarrow> w = JBool (x \<and> y))
    \<and> (\<forall>p q. num_of b = Some p \<and> num_of v = Some q \<and> \<not> (is_bool b \<and> is_bool v) \<longrightarrow>
         num_of w = Some (if key_has ''limit'' k then min p q else max p q))
    \<and> (\<forall>xs ys. b = JList xs \<and> v = JList ys \<longrightarrow> (\<exists>zs. w = JList zs \<and>
         (\<forall>s. JStr s \<in> set zs \<longleftrightarrow>
           (if key_has ''allow'' k then JStr s \<in> set xs \<and> JStr s \<in> set ys
            else JStr s \<in> set xs \<or> JStr s \<in> set ys))))"
proof -
  obtain w where w: "merge_setting uniq k b v = Inr w" "map_of r k = Some w"
    using merge_policies_at[OF assms(1,2,5)] assms(4) by auto
  have bools: "\<forall>x y. b = JBool x \<and> v = JBool y \<longrightarrow> w = JBool (x \<and> y)"
    using w(1) by (auto simp: merge_setting.simps)
  have nums: "\<forall>p q. num_of b = Some p \<and> num_of v = Some q \<and> \<not> (is_bool b \<and> is_bool v) \<longrightarrow>
         num_of w = Some (if key_has ''limit'' k then min p q else max p q)"
  proof (intro allI impI)
    fix p q assume a: "num_of b = Some p \<and> num_of v = Some q \<and> \<not> (is_bool b \<and> is_bool v)"
    then have "w = merge_numbers k b v"
      using w(1) merge_setting_num[of b p v q uniq k] by (metis sum.inject(2))
    then show "num_of w = Some (if key_has ''limit'' k then min p q else max p q)"
      using a num_min_max[of b p v q] by (simp add: merge_numbers_def)
  qed
  have lists: "\<exists>zs. w = JList zs \<and> (\<forall>s. JStr s \<in> set zs \<longleftrightarrow>
           (if key_has ''allow'' k then JStr s \<in> set xs \<and> JStr s \<in> set ys
            else JStr s \<in> set xs \<or> JStr s \<in> set ys))"
    if l: "b = JList xs" "v = JList ys" for xs ys
  proof -
    obtain zs where z: "w = JList zs" "merge_lists uniq k xs ys = Inr zs"
      using w(1) l merge_setting_list by metis
    let ?src = "if key_has ''allow'' k then filter (\<lambda>x. \<exists>y \<in> set ys. scalar_eq x y) xs else xs @ ys"
    have "zs = uniq ?src" using z(2) by (auto simp: merge_lists_def split: if_splits)
    then have "JStr s \<in> set zs \<longleftrightarrow> JStr s \<in> set ?src" for s
      by (simp only: uniq_str[OF assms(3)])
    then show ?thesis using z(1) by auto
  qed
  show ?thesis using w(2) bools nums lists by blast
qed

lemma remdups_uniq_ok: "uniq_ok remdups"
  by (auto simp: uniq_ok_def scalar_eq_def)

text \<open>
  Two consequences: a number such as \<open>max_connections\<close> is raised, and the hosts of a list named
  \<open>disallowed_hosts\<close> are dropped unless both policies name them, since its key contains \<open>allow\<close>.
\<close>

definition base_policy :: "json dict" where
  "base_policy = [(''max_connections'', JInt 5), (''disallowed_hosts'', JList [JStr ''evil.example''])]"

definition incoming_policy :: "json dict" where
  "incoming_policy = [(''max_connections'', JInt 100), (''disallowed_hosts'', JList [JStr ''bad.example''])]"

lemma disallow_contains_allow: "key_has ''allow'' ''disallowed_hosts''"
  by (simp add: key_has_def py_lower_def lower_char_def)

lemma merge_sample:
  "merge_policies remdups base_policy incoming_policy =
     Inr [(''max_connections'', JInt 100), (''disallowed_hosts'', JList [])]"
  using disallow_contains_allow
  by (simp add: base_policy_def incoming_policy_def merge_setting.simps merge_lists_def merge_numbers_def
      py_max_def py_min_def key_has_def py_lower_def lower_char_def)

theorem merge_policies_spec_witness:
  "\<exists>w. map_of [(''max_connections'', JInt 100), (''disallowed_hosts'', JList [])] ''max_connections'' = Some w
     \<and> num_of w = Some (max 5 100)"
  using merge_policies_spec[OF merge_sample _ remdups_uniq_ok, of "''max_connections''" "JInt 5" "JInt 100"]
  by (simp add: base_policy_def incoming_policy_def key_has_def py_lower_def lower_char_def)

section \<open>The marketplace\<close>

text \<open>
  A search of the marketplace never filters: with a query it returns the last listing of the
  index alone, matching or not; without a query it raises as soon as a listing of the category
  exists, and on an empty index.
\<close>

theorem search_returns_last_listing:
  "search query category mk =
     (if mk_listings mk = [] then Inl (UnboundLocal ''listing'')
      else if query = [] \<and> list_ex (in_category category) (map snd (mk_listings mk)) then Inl (UnboundLocal ''q'')
      else Inr [snd (last (mk_listings mk))])"
  by (cases "query = []") (simp_all add: search_def search_loop_query search_loop_no_query last_map)

text \<open>Downloading what was just published gives the snapshot back and counts a fork.\<close>

lemma download_published:
  assumes "publish s price n squad now mk = (bid, mk')"
  shows "\<exists>mk''. download later bid mk' = (Inr (Some s), mk'')
    \<and> (\<exists>l. get_listing bid mk'' = Some l \<and> ls_fork_count l = 1)"
  using assms by (auto simp: publish_def download_def get_listing_def Let_def)

end
