(* ===== verification/Provenance_Props.thy ===== *)
theory Provenance_Props
  imports Chain_Facts Blueprint_Props
begin

text \<open>
  Properties of attestations and of the chain validator. The witnesses run at
  \<open>prov_sample\<close>.
\<close>

section \<open>Attestations\<close>

text \<open>
  An attestation written with \<open>to_dict\<close> and read with \<open>from_dict\<close> is the same attestation,
  with or without author, parent and summary.
\<close>

theorem attestation_round_trip: "attestation_from_dict (attestation_to_dict a) = Inr a"
proof -
  have author: "read_author (Some (opt_json (\<lambda>x. JObj (author_dict x)) au)) = Inr au" for au
    by (cases au) (auto simp: opt_json_def author_dict_def rd_str_def lift_read_def)
  have summary: "read_summary (Some (opt_json (\<lambda>x. JObj (summary_dict x)) su)) = Inr su" for su
    by (cases su) (auto simp: opt_json_def summary_dict_def rd_strs_def rd_rat_def lift_read_def)
  have parent: "read_parent (Some (opt_json JStr p)) = Inr p" for p
    by (cases p) (auto simp: opt_json_def)
  show ?thesis
    by (simp add: attestation_from_dict_def attestation_to_dict_def author summary parent rd_str_def lift_read_def)
qed

lemma bare_key_hex [simp]: "bare_key (''ed25519:'' @ py_hex b) = py_hex b"
  unfolding bare_key_def
proof (rule py_replace_prefix)
  show "\<not> py_in ''ed25519:'' (py_hex b)"
    using py_in_subset[of "''ed25519:''" "py_hex b"] colon_not_in_hex[of b] by auto
qed simp

lemma bare_hash:
  assumes "CHR '':'' \<notin> set d"
  shows "py_replace ''sha256:'' [] (''sha256:'' @ d) = d"
proof (rule py_replace_prefix)
  show "\<not> py_in ''sha256:'' d" using py_in_subset[of "''sha256:''" d] assms by auto
qed simp

lemma signable_sealed [simp]: "signable_bytes lib (a\<lparr>at_signature := s\<rparr>) = signable_bytes lib a"
  by (simp add: signable_bytes_def attestation_to_dict_def)

definition sample_signer :: signer where
  "sample_signer = \<lparr>sg_squad_id = ''alpha'', sg_private = ''key'', sg_public = rev ''key''\<rparr>"

definition sample_blueprint :: "string \<Rightarrow> string list snapshot" where
  "sample_blueprint v = \<lparr>bs_meta = \<lparr>mt_version = v, mt_created_at = ''t'', mt_evolved_from = [], mt_squad_size = 1,
       mt_niche_tags = [], mt_business_type = [], mt_operational_months = 0\<rparr>,
     claw_config = [], tools_inventory = [], bs_policy = [], learned_priors = [],
     integrity_digest = None, integrity_chain = None\<rparr>"

lemma signed_fields:
  "missing_errors (sign_blueprint lib s b parent summary now) =
     (if mt_version (bs_meta b) = [] then [''Missing blueprint_version''] else [])
     @ (if now = [] then [''Missing timestamp''] else [])
     @ (if sg_squad_id s = [] then [''Missing author squad_id''] else [])" if "sg_squad_id s \<noteq> []"
  using that by (simp add: missing_errors_def sign_blueprint_def unsigned_attestation_def Let_def)

definition raw_signature :: "prov_lib \<Rightarrow> signer \<Rightarrow> string \<Rightarrow> string" where
  "raw_signature lib s m =
     (if crypto_available lib \<and> sg_private s \<noteq> [] then ed_sign lib (sg_private s) m
      else hmac_sha256 lib (sg_private s) m)"

lemma signed_signature:
  assumes "a = sign_blueprint lib s b parent summary now"
  shows "signature_errors lib a =
     Inr (if crypto_available lib
          then (case ed_verify lib (sg_public s) (raw_signature lib s (signable_bytes lib a)) (signable_bytes lib a) of
                 EdValid \<Rightarrow> [] | EdInvalidSignature \<Rightarrow> [''Invalid signature'']
               | EdFails e \<Rightarrow> [''Signature verification error: '' @ e])
          else if hmac_sha256 lib (sg_public s) (signable_bytes lib a) = raw_signature lib s (signable_bytes lib a)
               then [] else [''Invalid signature (HMAC)''])"
proof -
  obtain au where au: "at_author a = Some au" "ai_public_key au = ''ed25519:'' @ py_hex (sg_public s)"
    by (simp add: assms sign_blueprint_def unsigned_attestation_def Let_def)
  have "at_signature a = ''ed25519:'' @ py_hex (raw_signature lib s (signable_bytes lib a))"
    by (simp add: assms sign_blueprint_def sign_bytes_def raw_signature_def Let_def)
  then have sg: "bare_key (at_signature a) = py_hex (raw_signature lib s (signable_bytes lib a))"
    by (simp only: bare_key_hex)
  have pk: "bare_key (ai_public_key au) = py_hex (sg_public s)" by (simp only: au(2) bare_key_hex)
  show ?thesis
    unfolding signature_errors_def au(1) option.case Let_def sg pk ed_check_def py_fromhex_hex prod.case
    by (cases "ed_verify lib (sg_public s) (raw_signature lib s (signable_bytes lib a)) (signable_bytes lib a)")
      simp_all
qed

text \<open>
  C35. What a squad signs passes the verifier, whenever it looks and whatever the parent and the
  summary are: signature and content hash are right, if the key pair belongs together and the
  squad, the version and the time are not empty.
\<close>

theorem signed_blueprint_verifies:
  assumes "ed_correct lib" and "crypto_available lib" and "sg_public s = ed_public lib (sg_private s)"
    and "sg_private s \<noteq> []" and "sg_squad_id s \<noteq> []" and "mt_version (bs_meta b) \<noteq> []" and "now \<noteq> []"
    and "\<And>t. CHR '':'' \<notin> set (sha256_hex lib t)"
  shows "verify_blueprint_signature lib later (sign_blueprint lib s b parent summary now) b = Inr True"
proof -
  let ?a = "sign_blueprint lib s b parent summary now"
  have missing: "missing_errors ?a = []" using assms(5-7) by (simp add: signed_fields)
  have sig: "signature_errors lib ?a = Inr []"
    using assms(1-4) by (simp add: signed_signature[OF refl] ed_correct_def raw_signature_def)
  have "CHR '':'' \<notin> set (blueprint_hash lib b)"
    by (simp add: blueprint_hash_def calculate_content_hash_def assms(8))
  moreover have "at_content_hash ?a = ''sha256:'' @ blueprint_hash lib b"
    by (simp add: sign_blueprint_def unsigned_attestation_def Let_def)
  ultimately have content: "verify_content lib ?a b"
    unfolding verify_content_def by (metis bare_hash)
  show ?thesis
    by (simp add: verify_blueprint_signature_def verify_attestation_def missing sig content Let_def)
qed

theorem signed_blueprint_verifies_witness:
  "verify_blueprint_signature prov_sample 0 (sign_blueprint prov_sample sample_signer (sample_blueprint ''1.0'') None None ''t'')
     (sample_blueprint ''1.0'') = Inr True"
  by (rule signed_blueprint_verifies)
    (simp_all add: ed_correct_def prov_sample_def sample_signer_def sample_blueprint_def)

text \<open>
  Without the package \<^verbatim>\<open>cryptography\<close> signing uses the private key and verification the public
  one: an attestation the squad has just signed verifies exactly when the two keys give the same
  HMAC, which two independent random strings do not.
\<close>

theorem fallback_signature_needs_equal_hmac:
  assumes "\<not> crypto_available lib" and "sg_squad_id s \<noteq> []" and "mt_version (bs_meta b) \<noteq> []" and "now \<noteq> []"
    and "a = sign_blueprint lib s b parent summary now"
  shows "\<exists>v. verify_attestation lib age False later a = Inr v \<and>
    (vr_valid v \<longleftrightarrow> hmac_sha256 lib (sg_public s) (signable_bytes lib a) = hmac_sha256 lib (sg_private s) (signable_bytes lib a))"
proof -
  have missing: "missing_errors a = []" using assms(2-5) by (simp add: signed_fields)
  show ?thesis
    using assms(1) signed_signature[OF assms(5)]
    by (simp add: verify_attestation_def missing raw_signature_def Let_def)
qed

text \<open>
  The content hash does not bind the policy: a setting whose text holds a line break hashes
  like two settings, so the attestation of one policy verifies for another one.
\<close>

theorem content_hash_collision:
  assumes "k1 < k2"
  shows "calculate_content_hash lib tools [(k1, JStr (x @ [CHR 0x0A] @ ''policy:'' @ k2 @ '':'' @ y))] evolution baseline
       = calculate_content_hash lib tools [(k1, JStr x), (k2, JStr y)] evolution baseline"
proof -
  have join: "py_join sep (xs @ (p @ sep @ q) # ys) = py_join sep (xs @ p # q # ys)" for sep xs p q and ys :: "string list"
    by (induction xs rule: induct_list012) (cases ys; simp)+
  have sorted: "sort_key fst [(k1, JStr x), (k2, JStr y)] = [(k1, JStr x), (k2, JStr y)]"
    using less_imp_le[OF assms] by (simp add: sort_key_def)
  show ?thesis
    using join[of "[CHR 0x0A]" "map (tool_component lib) (sort_key fst tools)" "''policy:'' @ k1 @ '':'' @ x"
        "''policy:'' @ k2 @ '':'' @ y"]
    unfolding calculate_content_hash_def sorted by (simp add: policy_component_def)
qed

text \<open>Time alone never makes an attestation invalid outside the strict mode of the verifier.\<close>

lemma time_never_invalidates:
  "map_sum id vr_valid (verify_attestation lib age False t1 a) = map_sum id vr_valid (verify_attestation lib age False t2 a)"
  by (cases "signature_errors lib a") (simp_all add: verify_attestation_def Let_def)

section \<open>Version sequences\<close>

text \<open>
  The loop over neighbouring versions decides that all versions increase: every version of the
  list is older than every later one.
\<close>

theorem version_sequence_sorted:
  "fst (is_version_sequence_valid vs) \<longleftrightarrow> sorted_wrt (\<lambda>v w. compare_versions v w < 0) vs"
  by (simp add: sequence_valid_iff first_bad_step_None compare_neg)

lemma parse_version_text:
  assumes "0 \<le> a" "0 \<le> b" "0 \<le> c"
  shows "parse_version (version_text a b c) = [nat a, nat b, nat c]"
proof -
  obtain ch rest where d: "digits_of_nat (nat a) = ch # rest" by (cases "digits_of_nat (nat a)") auto
  have "digit_char ch" using digits_of_nat_chars[of "nat a"] by (simp add: d)
  then have "ch \<noteq> CHR ''v''" by (auto simp: digit_char_def)
  then have "py_lstrip CHR ''v'' (version_text a b c) = version_text a b c"
    using assms(1) by (simp add: py_lstrip_def version_text_def py_str_int_def d)
  then show ?thesis
    using assms by (simp add: parse_version_def version_text_parts py_str_int_def)
qed

text \<open>
  The versions a manager gives out by bumping, starting from a version of three numbers, pass
  the check of the chain validator, however often it bumps.
\<close>

fun bump_times :: "nat \<Rightarrow> bp_manager \<Rightarrow> bp_manager" where
  "bump_times 0 mg = mg"
| "bump_times (Suc n) mg = bump_times n (snd (bump_version ''tool'' ''now'' mg))"

lemma bump_times_history:
  "st_version (bm_state mg) = version_text a b c \<Longrightarrow>
   map ve_version (version_history (bm_state (bump_times n mg))) =
     map ve_version (version_history (bm_state mg)) @ map (\<lambda>i. version_text a b (c + 1 + int i)) [0..<n]"
proof (induction n arbitrary: mg c)
  case (Suc n)
  let ?mg = "append_version (version_text a b (c + 1)) ''tool'' ''now'' mg"
  have "bump_version ''tool'' ''now'' mg = (Inr (version_text a b (c + 1)), ?mg)"
    using Suc.prems by (intro bump_next) (simp add: next_version_text)
  then have "bump_times (Suc n) mg = bump_times n ?mg" by simp
  then show ?case
    using Suc.IH[of ?mg "c + 1"] by (simp add: map_upt_Suc algebra_simps del: upt_Suc)
qed simp

theorem bumped_versions_valid:
  assumes "st_version (bm_state mg) = version_text a b c" and "version_history (bm_state mg) = []"
    and "0 \<le> a" "0 \<le> b" "0 \<le> c"
  shows "fst (is_version_sequence_valid (map ve_version (version_history (bm_state (bump_times n mg)))))"
proof -
  have "sorted_wrt (\<lambda>i j. older (version_text a b (c + 1 + int i)) (version_text a b (c + 1 + int j))) [0..<n]"
    using assms(3-5) by (intro sorted_wrt_mono_rel[OF _ sorted_wrt_upt]) (simp add: parse_version_text)
  then have "first_bad_step (map (\<lambda>i. version_text a b (c + 1 + int i)) [0..<n]) = None"
    by (simp add: first_bad_step_None sorted_wrt_map)
  then show ?thesis
    using assms(2) bump_times_history[OF assms(1), of n] by (simp add: is_version_sequence_valid_def)
qed

section \<open>Chains\<close>

text \<open>
  C36. The traversal of a chain ends on every list of attestations, also when parent references form
  a cycle, fork, or lead nowhere, and visits exactly the attestations a genesis leads to, each once.
\<close>

theorem traversal_visits_connected_once:
  assumes "proper_hashes h as"
  shows "distinct (vs_visited (traverse_chain h forks (attestation_index h as) (build_chain_tree h as) (filter is_genesis as) r))
    \<and> set (vs_visited (traverse_chain h forks (attestation_index h as) (build_chain_tree h as) (filter is_genesis as) r))
        = {k. connected h as k}"
  by (simp only: traversal_distinct traversal_reaches[OF assms])

definition sample_att :: "string \<Rightarrow> string \<Rightarrow> string option \<Rightarrow> attestation" where
  "sample_att n v p = \<lparr>at_version = ''1.0'', at_blueprint_id = n, at_blueprint_version = v, at_content_hash = ''c'',
     at_timestamp = ''t'', at_author = None, at_parent = p, at_summary = None, at_signature = ''s''\<rparr>"

definition sample_chain :: "attestation list" where
  "sample_chain = [sample_att ''a'' ''1.0'' None, sample_att ''b'' ''1.1'' (Some ''a''), sample_att ''c'' ''2.0'' (Some ''b'')]"

definition sample_verifier :: verifier where
  "sample_verifier a = Inr \<lparr>vr_valid = True, vr_attestation_id = [], vr_signature_valid = True,
     vr_timestamp_valid = True, vr_errors = [], vr_warnings = []\<rparr>"

theorem traversal_visits_connected_once_witness:
  "connected at_blueprint_id sample_chain ''c'' \<and>
   ''c'' \<in> set (vs_visited (traverse_chain at_blueprint_id True (attestation_index at_blueprint_id sample_chain)
      (build_chain_tree at_blueprint_id sample_chain) (filter is_genesis sample_chain) fresh_result))"
proof -
  have a: "connected at_blueprint_id sample_chain ''a''"
    using connected_genesis[of "sample_att ''a'' ''1.0'' None" sample_chain at_blueprint_id]
    by (simp add: sample_chain_def sample_att_def is_genesis_def)
  have b: "connected at_blueprint_id sample_chain ''b''"
    using connected_child[OF a, of "sample_att ''b'' ''1.1'' (Some ''a'')"]
    by (simp add: sample_chain_def sample_att_def is_genesis_def)
  have c: "connected at_blueprint_id sample_chain ''c''"
    using connected_child[OF b, of "sample_att ''c'' ''2.0'' (Some ''b'')"]
    by (simp add: sample_chain_def sample_att_def is_genesis_def)
  moreover have "proper_hashes at_blueprint_id sample_chain"
    by (simp add: proper_hashes_def sample_chain_def sample_att_def)
  ultimately show ?thesis
    using traversal_visits_connected_once[of at_blueprint_id sample_chain] by auto
qed

lemma verify_each_append:
  "verify_each vf (as @ bs) r = bind_sum (verify_each vf as r) (verify_each vf bs)"
proof (induction as arbitrary: r)
  case (Cons a as)
  then show ?case by (cases "vf a") simp_all
qed simp

lemma verify_each_valid: "\<forall>a \<in> set as. \<exists>v. vf a = Inr v \<and> vr_valid v \<Longrightarrow> verify_each vf as r = Inr r"
  by (induction as) auto

lemma verify_each_result: "verify_each vf as r = Inr r' \<Longrightarrow> cr_valid r' \<Longrightarrow> r' = r \<and> cr_valid r"
proof (induction as arbitrary: r)
  case (Cons a as)
  then show ?case by (cases "vf a") (auto split: if_splits dest: Cons.IH)
qed simp

text \<open>What \<open>validate_chain\<close> does when it finds the chain valid.\<close>

definition first_result :: "attestation list \<Rightarrow> chain_result" where
  "first_result as = fresh_result\<lparr>cr_warnings := (if length (filter is_genesis as) > 1
     then [''Multiple genesis attestations found: '' @ py_str_int (int (length (filter is_genesis as)))] else [])\<rparr>"

lemma validate_chain_verified:
  assumes "filter is_genesis as \<noteq> []" and "verify_each vf as (first_result as) = Inr (first_result as)"
  shows "validate_chain h vf strict forks as =
    map_sum id (\<lambda>r. (apply_strict strict r)\<lparr>cr_length := length as\<rparr>)
      (check_versions (vs_result (chain_traversal h forks as (first_result as))))"
proof -
  have "as \<noteq> []" using assms(1) by auto
  moreover have "cr_valid (first_result as)" by (simp add: first_result_def fresh_result_def)
  ultimately show ?thesis
    using assms by (simp add: validate_chain_def first_result_def Let_def)
qed

lemma check_versions_valid: "check_versions r = Inr r' \<Longrightarrow> cr_valid r' \<Longrightarrow>
    r' = r \<and> fst (is_version_sequence_valid (cr_versions r))"
  by (cases "is_version_sequence_valid (cr_versions r)")
    (auto simp: check_versions_def Let_def split: if_splits bool.splits)

lemma apply_strict_valid: "cr_valid (apply_strict strict r) \<Longrightarrow> apply_strict strict r = r"
  by (auto simp: apply_strict_def split: if_splits)

lemma validate_chain_validD:
  assumes "validate_chain h vf strict forks as = Inr r" and "cr_valid r"
  shows "filter is_genesis as \<noteq> []"
    and "verify_each vf as (first_result as) = Inr (first_result as)"
    and "fst (is_version_sequence_valid (cr_versions r))"
    and "cr_versions r = cr_versions (vs_result (chain_traversal h forks as (first_result as)))"
proof -
  show g: "filter is_genesis as \<noteq> []"
    using assms by (auto simp: validate_chain_def Let_def split: if_splits)
  then have ne: "as \<noteq> []" by auto
  show v: "verify_each vf as (first_result as) = Inr (first_result as)"
  proof (cases "verify_each vf as (first_result as)")
    case (Inl e)
    then show ?thesis
      using assms g ne by (simp add: validate_chain_def first_result_def Let_def)
  next
    case (Inr r1)
    have "cr_valid r1"
      using assms g ne Inr by (auto simp: validate_chain_def first_result_def Let_def split: if_splits)
    then show ?thesis using verify_each_result[OF Inr] Inr by simp
  qed
  obtain r2 where r2: "check_versions (vs_result (chain_traversal h forks as (first_result as))) = Inr r2"
    "r = (apply_strict strict r2)\<lparr>cr_length := length as\<rparr>"
    using assms(1) validate_chain_verified[OF g v, of h strict forks]
    by (cases "check_versions (vs_result (chain_traversal h forks as (first_result as)))") auto
  then have "apply_strict strict r2 = r2" "cr_valid r2"
    using assms(2) apply_strict_valid[of strict r2] by auto
  with check_versions_valid[OF r2(1)] r2(2)
  show "fst (is_version_sequence_valid (cr_versions r))"
    "cr_versions r = cr_versions (vs_result (chain_traversal h forks as (first_result as)))" by simp_all
qed

text \<open>
  In a chain found valid, all connected attestations have different versions: two branches of a
  fork that reach the same version make the chain invalid, although forks are allowed.
\<close>

theorem valid_chain_versions_differ:
  assumes "validate_chain h vf strict forks as = Inr r" and "cr_valid r"
    and "proper_hashes h as" and "inj_on h (set as)"
    and "a \<in> set as" "b \<in> set as" "a \<noteq> b" and "connected h as (h a)" "connected h as (h b)"
  shows "compare_versions (at_blueprint_version a) (at_blueprint_version b) \<noteq> 0"
proof -
  let ?V = "vs_visited (chain_traversal h forks as (first_result as))"
  let ?ver = "\<lambda>k. at_blueprint_version (the (map_of (attestation_index h as) k))"
  note d = validate_chain_validD[OF assms(1,2)]
  have "cr_versions (first_result as) = []" by (simp add: first_result_def fresh_result_def)
  then have vers: "cr_versions r = map ?ver ?V" using d(4) traversal_versions[OF assms(4)] by simp
  have "first_bad_step (map ?ver ?V) = None"
    using d(3) vers by (simp add: sequence_valid_iff)
  then have sorted: "sorted_wrt (\<lambda>k l. older (?ver k) (?ver l)) ?V"
    by (simp add: first_bad_step_None sorted_wrt_map)
  have mem: "h a \<in> set ?V" "h b \<in> set ?V" using traversal_reaches[OF assms(3)] assms(8,9) by blast+
  then obtain i j where ij: "i < length ?V" "?V ! i = h a" "j < length ?V" "?V ! j = h b"
    by (auto simp: in_set_conv_nth)
  have "h a \<noteq> h b" using assms(4-7) by (auto dest: inj_onD)
  then have "i < j \<or> j < i" using ij by (metis linorder_neqE_nat)
  moreover have "?ver (h a) = at_blueprint_version a" "?ver (h b) = at_blueprint_version b"
    using index_of_hash[OF assms(4)] assms(5,6) by simp_all
  ultimately have "older (at_blueprint_version a) (at_blueprint_version b)
      \<or> older (at_blueprint_version b) (at_blueprint_version a)"
    using sorted_wrt_nth_less[OF sorted] ij by metis
  then show ?thesis by (auto simp: compare_versions_eq)
qed

definition short_chain :: "attestation list" where
  "short_chain = [sample_att ''a'' ''1.0'' None, sample_att ''b'' ''1.1'' (Some ''a'')]"

lemma sample_compare: "compare_versions ''1.1'' ''1.0'' = 1"
  by (simp add: compare_versions_def parse_version_def py_lstrip_def py_isdigit_def digit_char_def
      nat_of_digits_def digit_val_def pad_to_def Let_def)

lemma short_chain_valid:
  "\<exists>r. validate_chain at_blueprint_id sample_verifier False True short_chain = Inr r \<and> cr_valid r"
  by (simp add: short_chain_def sample_att_def validate_chain_def is_genesis_def sample_verifier_def
      attestation_index_def build_chain_tree_def children_of_def tree_key_def traverse_chain_def Let_def
      fresh_result_def visit_new record_visit_def record_fork_def add_author_def child_calls_def
      check_versions_def is_version_sequence_valid_def apply_strict_def sample_compare)

lemma short_chain_connected:
  "connected at_blueprint_id short_chain ''a''" "connected at_blueprint_id short_chain ''b''"
proof -
  show a: "connected at_blueprint_id short_chain ''a''"
    using connected_genesis[of "sample_att ''a'' ''1.0'' None" short_chain at_blueprint_id]
    by (simp add: short_chain_def sample_att_def is_genesis_def)
  show "connected at_blueprint_id short_chain ''b''"
    using connected_child[OF a, of "sample_att ''b'' ''1.1'' (Some ''a'')"]
    by (simp add: short_chain_def sample_att_def is_genesis_def)
qed

text \<open>
  The validator does not see gaps: attestations whose parent is missing, and everything that
  hangs on them, change nothing but the reported length of a valid chain.
\<close>

theorem orphans_do_not_count:
  assumes "validate_chain h vf strict forks as = Inr r" and "cr_valid r" and "proper_hashes h (as @ os)"
    and "\<forall>x \<in> set os. \<not> is_genesis x \<and> \<not> connected h (as @ os) (h x) \<and> (\<exists>v. vf x = Inr v \<and> vr_valid v)"
  shows "validate_chain h vf strict forks (as @ os) = Inr (r\<lparr>cr_length := length (as @ os)\<rparr>)"
proof -
  note d = validate_chain_validD[OF assms(1,2)]
  have proper: "proper_hashes h as" using assms(3) by (auto simp: proper_hashes_def)
  have gen: "filter is_genesis (as @ os) = filter is_genesis as"
    using assms(4) by (auto simp: filter_empty_conv)
  have first: "first_result (as @ os) = first_result as" by (simp only: first_result_def gen)
  have ver: "verify_each vf (as @ os) (first_result (as @ os)) = Inr (first_result (as @ os))"
    using d(2) verify_each_valid[of os vf] assms(4) by (simp add: verify_each_append first)
  have mono: "connected h as k \<Longrightarrow> connected h (as @ os) k" for k
    by (induction rule: connected.induct) (auto intro: connected.intros)
  have same: "children_of (build_chain_tree h as) k = children_of (build_chain_tree h (as @ os)) k"
    if k: "connected h as k" for k
  proof -
    have "k \<noteq> ''genesis''" "k \<noteq> []" using connected_proper[OF k proper] by auto
    then have "tree_key x \<noteq> k" if "x \<in> set os" for x
      using assms(4) that connected_child[OF mono[OF k], of x] by (auto simp: tree_key_parent)
    then show ?thesis by (simp add: tree_children filter_empty_conv)
  qed
  have idx: "map_of (attestation_index h as) c = map_of (attestation_index h (as @ os)) c"
    if k: "connected h as k" and c: "c \<in> set (children_of (build_chain_tree h as) k)" for k c
  proof -
    have "k \<noteq> ''genesis''" "k \<noteq> []" using connected_proper[OF k proper] by auto
    then obtain x where x: "x \<in> set as" "\<not> is_genesis x" "at_parent x = Some k" "c = h x"
      using c by (auto simp: tree_children tree_key_parent)
    then have "connected h (as @ os) c" using mono[OF k] by (auto intro: connected_child)
    then have "find (\<lambda>a. h a = c) (rev os) = None" using assms(4) by (auto simp: find_None_iff)
    then show ?thesis by (simp add: index_lookup find_append)
  qed
  have "chain_traversal h forks (as @ os) s = chain_traversal h forks as s" for s
    unfolding traverse_chain_def gen
    by (rule visit_cong[OF connected_closed[OF proper], symmetric])
      (use same idx in \<open>auto intro: connected_genesis\<close>)
  then have "validate_chain h vf strict forks (as @ os) =
      map_sum id (\<lambda>r. (apply_strict strict r)\<lparr>cr_length := length (as @ os)\<rparr>)
        (check_versions (vs_result (chain_traversal h forks as (first_result as))))"
    using validate_chain_verified[of "as @ os" vf h strict forks] ver d(1) gen first by simp
  moreover have "Inr r = map_sum id (\<lambda>r. (apply_strict strict r)\<lparr>cr_length := length as\<rparr>)
        (check_versions (vs_result (chain_traversal h forks as (first_result as))))"
    using validate_chain_verified[OF d(1,2), of h strict forks] assms(1) by simp
  ultimately show ?thesis
    by (cases "check_versions (vs_result (chain_traversal h forks as (first_result as)))") auto
qed

text \<open>The local variable \<open>seq_valid\<close> is always assigned: a genesis contributes a version.\<close>

lemma check_versions_traversal:
  assumes "g \<in> set as" and "is_genesis g"
  shows "\<exists>r'. check_versions (vs_result (chain_traversal h forks as r)) = Inr r'"
  using traversal_nonempty[OF assms, of h forks r]
  by (cases "is_version_sequence_valid (cr_versions (vs_result (chain_traversal h forks as r)))")
    (auto simp: check_versions_def Let_def split: bool.split)

lemma validate_chain_never_unbound: "validate_chain h vf strict forks as \<noteq> Inl (UnboundLocalError x)"
proof (cases "filter is_genesis as = []")
  case True
  then show ?thesis by (simp add: validate_chain_def Let_def)
next
  case False
  then obtain g where g: "g \<in> set as" "is_genesis g" by (auto simp: filter_empty_conv)
  then have ne: "as \<noteq> []" by auto
  show ?thesis
  proof (cases "verify_each vf as (first_result as)")
    case (Inl e)
    then show ?thesis using False ne by (simp add: validate_chain_def first_result_def Let_def)
  next
    case (Inr r1)
    obtain r' where "check_versions (vs_result (chain_traversal h forks as r1)) = Inr r'"
      using check_versions_traversal[OF g] by blast
    then show ?thesis using False ne Inr by (simp add: validate_chain_def first_result_def Let_def)
  qed
qed

section \<open>A single path\<close>

definition linked :: "(attestation \<Rightarrow> string) \<Rightarrow> attestation list \<Rightarrow> bool" where
  "linked h as \<longleftrightarrow> (\<forall>i. Suc i < length as \<longrightarrow> at_parent (as ! Suc i) = Some (h (as ! i)))"

lemma path_step_valid:
  "cr_valid (path_step i prev a v r) \<longleftrightarrow> cr_valid r \<and> vr_valid v \<and> (i \<noteq> 0 \<longrightarrow> at_parent a = prev)"
  by (simp add: path_step_def add_author_def Let_def split: option.split)

lemma path_loop_valid:
  assumes "\<forall>a \<in> set as. vf a = Inr (ans a)"
  shows "\<exists>r'. path_loop h vf i prev as r = Inr r' \<and>
    (cr_valid r' \<longleftrightarrow> cr_valid r \<and> (\<forall>a \<in> set as. vr_valid (ans a)) \<and>
      (as \<noteq> [] \<and> i \<noteq> 0 \<longrightarrow> at_parent (hd as) = prev) \<and> linked h as)"
  using assms
proof (induction as arbitrary: i prev r)
  case (Cons a as)
  have link: "linked h (a # as) \<longleftrightarrow> (as \<noteq> [] \<longrightarrow> at_parent (hd as) = Some (h a)) \<and> linked h as"
    by (cases as) (auto simp: linked_def nth_Cons split: nat.split)
  from Cons.prems have ans: "vf a = Inr (ans a)" "\<forall>b \<in> set as. vf b = Inr (ans b)" by simp_all
  obtain r' where "path_loop h vf (Suc i) (Some (h a)) as (path_step i prev a (ans a) r) = Inr r'"
    "cr_valid r' \<longleftrightarrow> cr_valid (path_step i prev a (ans a) r) \<and> (\<forall>a \<in> set as. vr_valid (ans a)) \<and>
      (as \<noteq> [] \<longrightarrow> at_parent (hd as) = Some (h a)) \<and> linked h as"
    using Cons.IH[OF ans(2), of "Suc i" "Some (h a)" "path_step i prev a (ans a) r"] by auto
  then show ?case by (auto simp: ans(1) link path_step_valid)
qed (simp add: linked_def)

text \<open>
  A path is found valid exactly when it is not empty, every attestation verifies and each one
  names the hash of the one before as its parent. Versions are not looked at.
\<close>

theorem single_path_valid_iff:
  assumes "\<forall>a \<in> set as. vf a = Inr (ans a)"
  shows "\<exists>r. validate_single_path h vf as = Inr r \<and>
    (cr_valid r \<longleftrightarrow> as \<noteq> [] \<and> (\<forall>a \<in> set as. vr_valid (ans a)) \<and> linked h as)"
  using path_loop_valid[OF assms, of h 0 None fresh_result]
  by (auto simp: validate_single_path_def fresh_result_def)

end
