(* ===== verification/Op_Log.thy ===== *)
theory Op_Log
  imports Json_Read
begin

text \<open>
  \<^verbatim>\<open>milimo-core/src/milimo_core/operation_log.py\<close>: the log a claw keeps of its actions and of the
  signals of other claws, and the summary of a window of it. A log file is a list of lines; a line is
  the JSON value it holds, or none when it is not JSON. The reading of an ISO time (\<open>ts\<close>) is a
  parameter; a text that is no time is the smallest instant.
\<close>

section \<open>Records\<close>

record action_record =
  ar_action_type :: string
  ar_outcome :: string
  ar_edits :: "string dict"
  ar_metrics :: "rat dict"
  ar_payload :: "json dict"
  ar_claw_role :: string
  ar_squad_id :: string
  ar_timestamp :: string

record cross_signal =
  cs_sender_role :: string
  cs_signal_type :: string
  cs_data :: "json dict"
  cs_timestamp :: string

definition action_to_dict :: "action_record \<Rightarrow> json dict" where
  "action_to_dict a =
     [(''action_type'', JStr (ar_action_type a)), (''outcome'', JStr (ar_outcome a)),
      (''edits'', JObj (json_strs_dict (ar_edits a))), (''metrics'', JObj (json_nums_dict (ar_metrics a))),
      (''payload'', JObj (ar_payload a)), (''claw_role'', JStr (ar_claw_role a)),
      (''squad_id'', JStr (ar_squad_id a)), (''timestamp'', JStr (ar_timestamp a))]"

definition action_from_dict :: "string \<Rightarrow> json dict \<Rightarrow> read_error + action_record" where
  "action_from_dict now d =
     bind_sum (rq_str d ''action_type'') (\<lambda>t.
     bind_sum (rq_str d ''outcome'') (\<lambda>oc.
     bind_sum (rd_dict str_dict [] d ''edits'') (\<lambda>e.
     bind_sum (rd_dict num_dict [] d ''metrics'') (\<lambda>m.
     bind_sum (rd_obj d ''payload'') (\<lambda>p.
     bind_sum (rd_str d ''claw_role'' []) (\<lambda>c.
     bind_sum (rd_str d ''squad_id'' []) (\<lambda>s.
     bind_sum (rd_str d ''timestamp'' now) (\<lambda>ts.
       Inr \<lparr>ar_action_type = t, ar_outcome = oc, ar_edits = e, ar_metrics = m, ar_payload = p,
            ar_claw_role = c, ar_squad_id = s, ar_timestamp = ts\<rparr>))))))))"

definition signal_to_dict :: "cross_signal \<Rightarrow> json dict" where
  "signal_to_dict s =
     [(''sender_role'', JStr (cs_sender_role s)), (''signal_type'', JStr (cs_signal_type s)),
      (''data'', JObj (cs_data s)), (''timestamp'', JStr (cs_timestamp s))]"

definition signal_from_dict :: "string \<Rightarrow> json dict \<Rightarrow> read_error + cross_signal" where
  "signal_from_dict now d =
     bind_sum (rq_str d ''sender_role'') (\<lambda>r.
     bind_sum (rq_str d ''signal_type'') (\<lambda>t.
     bind_sum (rd_obj d ''data'') (\<lambda>x.
     bind_sum (rd_str d ''timestamp'' now) (\<lambda>ts.
       Inr \<lparr>cs_sender_role = r, cs_signal_type = t, cs_data = x, cs_timestamp = ts\<rparr>))))"

lemma action_from_to_dict [simp]: "action_from_dict now (action_to_dict a) = Inr a"
  by (simp add: action_from_dict_def action_to_dict_def rq_str_def rd_str_def rd_obj_def rd_dict_def)

lemma signal_from_to_dict [simp]: "signal_from_dict now (signal_to_dict s) = Inr s"
  by (simp add: signal_from_dict_def signal_to_dict_def rq_str_def rd_str_def rd_obj_def)

section \<open>The log\<close>

record operation_log =
  ol_squad_id :: string
  ol_claw_role :: string
  operations_file :: "json option list"
  signals_file :: "json option list"

definition new_operation_log :: "string \<Rightarrow> string \<Rightarrow> operation_log" where
  "new_operation_log squad role =
     \<lparr>ol_squad_id = squad, ol_claw_role = role, operations_file = [], signals_file = []\<rparr>"

definition stamp_action :: "operation_log \<Rightarrow> action_record \<Rightarrow> action_record" where
  "stamp_action lg a = a\<lparr>
     ar_claw_role := (if ar_claw_role a = [] then ol_claw_role lg else ar_claw_role a),
     ar_squad_id := (if ar_squad_id a = [] then ol_squad_id lg else ar_squad_id a)\<rparr>"

definition record_action :: "action_record \<Rightarrow> operation_log \<Rightarrow> operation_log" where
  "record_action a lg = lg\<lparr>operations_file := operations_file lg @ [Some (JObj (action_to_dict (stamp_action lg a)))]\<rparr>"

definition record_cross_signal :: "cross_signal \<Rightarrow> operation_log \<Rightarrow> operation_log" where
  "record_cross_signal s lg = lg\<lparr>signals_file := signals_file lg @ [Some (JObj (signal_to_dict s))]\<rparr>"

text \<open>
  \<open>_read_actions\<close> skips lines that are not JSON (\<open>JSONDecodeError\<close>); a JSON line without a required
  field, or one that is not an object, raises an error the loop does not catch.
\<close>

fun read_lines :: "(json dict \<Rightarrow> read_error + 'a) \<Rightarrow> ('a \<Rightarrow> bool) \<Rightarrow> json option list \<Rightarrow> read_error + 'a list" where
  "read_lines rd keep [] = Inr []"
| "read_lines rd keep (None # ls) = read_lines rd keep ls"
| "read_lines rd keep (Some (JObj d) # ls) =
     bind_sum (rd d) (\<lambda>a. map_sum id (\<lambda>r. if keep a then a # r else r) (read_lines rd keep ls))"
| "read_lines rd keep (Some _ # ls) = Inl (Untyped ''line'')"

definition get_window :: "(string \<Rightarrow> int) \<Rightarrow> string \<Rightarrow> int \<Rightarrow> int \<Rightarrow> operation_log \<Rightarrow> read_error + action_record list" where
  "get_window ts now_text now days lg =
     read_lines (action_from_dict now_text) (\<lambda>a. now - days * 86400000000 \<le> ts (ar_timestamp a)) (operations_file lg)"

definition get_all_actions :: "string \<Rightarrow> operation_log \<Rightarrow> read_error + action_record list" where
  "get_all_actions now_text lg = read_lines (action_from_dict now_text) (\<lambda>_. True) (operations_file lg)"

definition get_cross_signals :: "(string \<Rightarrow> int) \<Rightarrow> string \<Rightarrow> int \<Rightarrow> int \<Rightarrow> operation_log \<Rightarrow> read_error + cross_signal list" where
  "get_cross_signals ts now_text now days lg =
     read_lines (signal_from_dict now_text) (\<lambda>s. now - days * 86400000000 \<le> ts (cs_timestamp s)) (signals_file lg)"

section \<open>The summary\<close>

record action_summary =
  sm_total :: nat
  sm_by_type :: "nat dict"
  sm_by_outcome :: "nat dict"
  sm_approval_rate :: rat
  sm_edit_rate :: rat
  sm_common_edits :: "nat dict"
  sm_metric_averages :: "rat dict"

definition count_at :: "nat dict \<Rightarrow> string \<Rightarrow> nat" where
  "count_at d k = (case map_of d k of Some n \<Rightarrow> n | None \<Rightarrow> 0)"

definition rat_at :: "rat dict \<Rightarrow> string \<Rightarrow> rat" where
  "rat_at d k = (case map_of d k of Some n \<Rightarrow> n | None \<Rightarrow> 0)"

definition incr :: "string \<Rightarrow> nat dict \<Rightarrow> nat dict" where
  "incr k d = AList.update k (count_at d k + 1) d"

definition tally :: "string list \<Rightarrow> nat dict" where
  "tally ks = foldl (\<lambda>d k. incr k d) [] ks"

text \<open>One pass over the actions, as in the code: \<open>by_type\<close>, \<open>by_outcome\<close>, \<open>common_edits\<close> and the sums and
  counts of the metrics.\<close>

definition count_action :: "nat dict \<times> nat dict \<times> nat dict \<Rightarrow> action_record \<Rightarrow> nat dict \<times> nat dict \<times> nat dict" where
  "count_action t a = (case t of (ty, oc, ed) \<Rightarrow>
     (incr (ar_action_type a) ty, incr (ar_outcome a) oc, foldl (\<lambda>d k. incr k d) ed (map fst (ar_edits a))))"

definition add_metric :: "rat dict \<times> nat dict \<Rightarrow> string \<times> rat \<Rightarrow> rat dict \<times> nat dict" where
  "add_metric t kv = (case t of (totals, counts) \<Rightarrow>
     (AList.update (fst kv) (rat_at totals (fst kv) + snd kv) totals, incr (fst kv) counts))"

definition count_metrics :: "rat dict \<times> nat dict \<Rightarrow> action_record \<Rightarrow> rat dict \<times> nat dict" where
  "count_metrics t a = foldl add_metric t (ar_metrics a)"

definition get_action_summary :: "action_record list \<Rightarrow> action_summary" where
  "get_action_summary as =
     (if as = [] then \<lparr>sm_total = 0, sm_by_type = [], sm_by_outcome = [], sm_approval_rate = 0,
                      sm_edit_rate = 0, sm_common_edits = [], sm_metric_averages = []\<rparr>
      else let (ty, oc, ed) = foldl count_action ([], [], []) as;
               (totals, counts) = foldl count_metrics ([], []) as;
               total = of_nat (length as) :: rat
           in \<lparr>sm_total = length as, sm_by_type = ty, sm_by_outcome = oc,
               sm_approval_rate = of_nat (count_at oc ''approved'' + count_at oc ''auto'') / total,
               sm_edit_rate = of_nat (count_at oc ''edited'') / total, sm_common_edits = ed,
               sm_metric_averages = map (\<lambda>(k, s). (k, s / of_nat (count_at counts k))) totals\<rparr>)"

definition count_records :: "operation_log \<Rightarrow> nat" where
  "count_records lg = length (operations_file lg)"

definition clear_log :: "operation_log \<Rightarrow> operation_log" where
  "clear_log lg = lg\<lparr>operations_file := [], signals_file := []\<rparr>"

section \<open>What the counters count\<close>

lemma count_incr: "count_at (incr k d) j = count_at d j + (if j = k then 1 else 0)"
  by (simp add: incr_def count_at_def)

lemma keys_incr: "fst ` set (incr k d) = insert k (fst ` set d)"
  by (simp add: incr_def dom_update[symmetric] dom_map_of_conv_image_fst[symmetric])

lemma count_foldl: "count_at (foldl (\<lambda>d k. incr k d) d ks) j = count_at d j + count_list ks j"
  by (induction ks arbitrary: d) (simp_all add: count_incr)

lemma keys_foldl: "fst ` set (foldl (\<lambda>d k. incr k d) d ks) = fst ` set d \<union> set ks"
  by (induction ks arbitrary: d) (auto simp: keys_incr)

lemma count_tally: "count_at (tally ks) j = count_list ks j"
  by (simp add: tally_def count_foldl) (simp add: count_at_def)

lemma count_actions_foldl:
  "foldl count_action (ty, oc, ed) as =
     (foldl (\<lambda>d k. incr k d) ty (map ar_action_type as), foldl (\<lambda>d k. incr k d) oc (map ar_outcome as),
      foldl (\<lambda>d k. incr k d) ed (concat (map (\<lambda>a. map fst (ar_edits a)) as)))"
  by (induction as arbitrary: ty oc ed) (simp_all add: count_action_def)

lemma summary_counts:
  assumes "as \<noteq> []"
  shows "sm_by_type (get_action_summary as) = tally (map ar_action_type as)"
    "sm_by_outcome (get_action_summary as) = tally (map ar_outcome as)"
    "sm_common_edits (get_action_summary as) = tally (concat (map (\<lambda>a. map fst (ar_edits a)) as))"
    "sm_approval_rate (get_action_summary as) =
       of_nat (count_list (map ar_outcome as) ''approved'' + count_list (map ar_outcome as) ''auto'')
         / of_nat (length as)"
    "sm_edit_rate (get_action_summary as) = of_nat (count_list (map ar_outcome as) ''edited'') / of_nat (length as)"
    "sm_total (get_action_summary as) = length as"
  using assms
  by (simp_all add: get_action_summary_def count_actions_foldl tally_def[symmetric] count_tally Let_def split: prod.split)

lemma count_list_distinct_sum:
  assumes "distinct js"
  shows "(\<Sum>j \<leftarrow> js. count_list xs j) \<le> length xs"
proof (induction xs)
  case (Cons x xs)
  have "(\<Sum>j \<leftarrow> js. count_list (x # xs) j) = (\<Sum>j \<leftarrow> js. count_list xs j) + (\<Sum>j \<leftarrow> js. if x = j then 1 else 0)"
    by (induction js) auto
  moreover have "(\<Sum>j \<leftarrow> js. if x = j then 1 else 0 :: nat) \<le> 1"
    using assms by (induction js) (auto simp: sum_list_eq_0_iff)
  ultimately show ?case using Cons by simp
qed simp

end
