(* ===== verification/Patterns.thy ===== *)
theory Patterns
  imports Op_Log "HOL-Library.List_Lexorder" "HOL-Library.Char_ord"
begin

text \<open>
  \<^verbatim>\<open>milimo-core/src/milimo_core/pattern_detector.py\<close>: the five heuristics that turn a window of
  actions into evolution patterns, their filter and their ranking. The square root
  (\<open>variance**0.5\<close>) and the hour of a time text are parameters; dictionaries keep their insertion order.
\<close>

definition em_dash :: string where
  "em_dash = [CHR 0xE2, CHR 0x80, CHR 0x94]"

definition nat_text :: "nat \<Rightarrow> string" where
  "nat_text n = py_str_int (int n)"

section \<open>Patterns\<close>

definition EDIT_FREQUENCY_THRESHOLD :: rat where "EDIT_FREQUENCY_THRESHOLD = 25 / 100"
definition LOW_APPROVAL_THRESHOLD :: rat where "LOW_APPROVAL_THRESHOLD = 7 / 10"
definition METRIC_DRIFT_THRESHOLD :: rat where "METRIC_DRIFT_THRESHOLD = 3 / 10"
definition MIN_ACTIONS_FOR_PATTERN :: nat where "MIN_ACTIONS_FOR_PATTERN = 5"

record evolution_pattern =
  ep_type :: string
  ep_description :: string
  ep_metric_target :: string
  ep_data_sources :: "string list"
  ep_confidence :: rat
  ep_action_type :: string
  ep_details :: "json dict"

section \<open>Groups in insertion order\<close>

definition group_add :: "'k \<Rightarrow> 'a \<Rightarrow> ('k \<times> 'a list) list \<Rightarrow> ('k \<times> 'a list) list" where
  "group_add k x d = AList.update k ((case map_of d k of Some l \<Rightarrow> l | None \<Rightarrow> []) @ [x]) d"

definition group_by :: "('b \<Rightarrow> 'k) \<Rightarrow> ('b \<Rightarrow> 'a) \<Rightarrow> 'b list \<Rightarrow> ('k \<times> 'a list) list" where
  "group_by k f xs = foldl (\<lambda>d x. group_add (k x) (f x) d) [] xs"

text \<open>\<open>max(d, key=...)\<close>: the first key with the largest value, and the first with the smallest.\<close>

fun first_max :: "('k \<times> 'v::linorder) list \<Rightarrow> 'k \<times> 'v" where
  "first_max [kv] = kv"
| "first_max (kv # l # kvs) = (let m = first_max (l # kvs) in if snd kv < snd m then m else kv)"

fun first_min :: "('k \<times> 'v::linorder) list \<Rightarrow> 'k \<times> 'v" where
  "first_min [kv] = kv"
| "first_min (kv # l # kvs) = (let m = first_min (l # kvs) in if snd m < snd kv then m else kv)"

section \<open>Recurring edits\<close>

definition edit_values :: "string \<Rightarrow> action_record list \<Rightarrow> string list" where
  "edit_values f edited = concat (map (\<lambda>a. case map_of (ar_edits a) f of Some v \<Rightarrow> [v] | None \<Rightarrow> []) edited)"

definition most_common_type_for_edit :: "action_record list \<Rightarrow> string \<Rightarrow> string" where
  "most_common_type_for_edit edited f =
     (case tally (map ar_action_type (filter (\<lambda>a. map_of (ar_edits a) f \<noteq> None) edited)) of
        [] \<Rightarrow> [] | d \<Rightarrow> fst (first_max d))"

definition by_count_desc :: "nat dict \<Rightarrow> nat dict" where
  "by_count_desc d = sort_key (\<lambda>kv. - int (snd kv)) d"

definition edit_pattern :: "action_summary \<Rightarrow> action_record list \<Rightarrow> string \<times> nat \<Rightarrow> evolution_pattern list" where
  "edit_pattern sm edited fc =
     (let f = fst fc; n = snd fc; frequency = of_nat n / of_nat (max (sm_total sm) 1) :: rat in
      if EDIT_FREQUENCY_THRESHOLD \<le> frequency \<and> MIN_ACTIONS_FOR_PATTERN \<le> n
      then [\<lparr>ep_type = ''classifier'',
             ep_description = nat_text n @ '' of '' @ nat_text (sm_total sm) @ '' actions had '' @ [CHR 0x27] @ f
               @ [CHR 0x27] @ '' edited by the squad over the past week ('' @ percent frequency
               @ '' edit rate for this field)'',
             ep_metric_target = ''approval_rate'',
             ep_data_sources = [''operation_log.edits.'' @ f], ep_confidence = min (frequency * (3 / 2)) (95 / 100),
             ep_action_type = most_common_type_for_edit edited f,
             ep_details = [(''edit_field'', JStr f), (''edit_frequency'', JFloat frequency),
               (''common_corrections'', JObj (map (\<lambda>(v, c). (v, JInt (int c)))
                  (take 5 (by_count_desc (tally (edit_values f edited))))))]\<rparr>]
      else [])"

definition detect_edit_patterns :: "action_summary \<Rightarrow> action_record list \<Rightarrow> evolution_pattern list" where
  "detect_edit_patterns sm as =
     (let edited = filter (\<lambda>a. ar_outcome a = ''edited'') as in
      if edited = [] then [] else concat (map (edit_pattern sm edited) (sm_common_edits sm)))"

section \<open>Low approval\<close>

definition approval_pattern :: "string \<times> string list \<Rightarrow> evolution_pattern list" where
  "approval_pattern g =
     (let outcomes = tally (snd g); total = sum_list (map snd outcomes);
          rate = of_nat (count_at outcomes ''approved'' + count_at outcomes ''auto'') / of_nat total :: rat in
      if total < MIN_ACTIONS_FOR_PATTERN then []
      else if rate < LOW_APPROVAL_THRESHOLD
      then [\<lparr>ep_type = ''predictor'',
             ep_description = [CHR 0x27] @ fst g @ [CHR 0x27] @ '' actions have a '' @ percent rate
               @ '' approval rate ('' @ nat_text (count_at outcomes ''rejected'') @ '' rejected out of ''
               @ nat_text total @ '' total) '' @ em_dash
               @ '' a predictor could filter low-quality outputs before review'',
             ep_metric_target = ''approval_rate'',
             ep_data_sources = [''operation_log.action_type.'' @ fst g],
             ep_confidence = min ((1 - rate) * (12 / 10)) (95 / 100), ep_action_type = fst g,
             ep_details = [(''action_type'', JStr (fst g)), (''approval_rate'', JFloat rate),
               (''outcomes'', JObj (map (\<lambda>(k, c). (k, JInt (int c))) outcomes))]\<rparr>]
      else [])"

definition detect_approval_patterns :: "action_record list \<Rightarrow> evolution_pattern list" where
  "detect_approval_patterns as = concat (map approval_pattern (group_by ar_action_type ar_outcome as))"

section \<open>Timing\<close>

definition approved_outcome :: "string \<Rightarrow> bool" where
  "approved_outcome x \<longleftrightarrow> x = ''approved'' \<or> x = ''auto''"

definition approval_share :: "string list \<Rightarrow> rat" where
  "approval_share xs = of_nat (length (filter approved_outcome xs)) / of_nat (length xs)"

definition hourly_rates :: "(string \<Rightarrow> nat) \<Rightarrow> action_record list \<Rightarrow> (nat \<times> rat) list" where
  "hourly_rates hour as =
     map (\<lambda>(h, xs). (h, approval_share xs))
       (filter (\<lambda>(h, xs). 3 \<le> length xs) (group_by (\<lambda>a. hour (ar_timestamp a)) ar_outcome as))"

definition detect_timing_patterns :: "(string \<Rightarrow> nat) \<Rightarrow> action_record list \<Rightarrow> evolution_pattern list" where
  "detect_timing_patterns hour as =
     (if length (group_by (\<lambda>a. hour (ar_timestamp a)) ar_outcome as) < 4 then []
      else case hourly_rates hour as of
        [] \<Rightarrow> []
      | r # rs \<Rightarrow>
          (let best = first_max (r # rs); worst = first_min (r # rs); spread = snd best - snd worst in
           if spread > 2 / 10
           then [\<lparr>ep_type = ''optimizer'',
                  ep_description = ''Actions at hour '' @ nat_text (fst best) @ '':00 have '' @ percent (snd best)
                    @ '' approval vs '' @ percent (snd worst) @ '' at hour '' @ nat_text (fst worst) @ '':00 ''
                    @ em_dash @ '' a timing optimizer could schedule for peak windows'',
                  ep_metric_target = ''approval_rate'',
                  ep_data_sources = [''operation_log.timestamp''], ep_confidence = min (spread * (3 / 2)) (9 / 10),
                  ep_action_type = [],
                  ep_details = [(''best_hour'', JInt (int (fst best))), (''worst_hour'', JInt (int (fst worst))),
                    (''spread'', JFloat spread), (''hourly_rates'', JObj (map (\<lambda>(h, x). (nat_text h, JFloat x)) (r # rs)))]\<rparr>]
           else []))"

section \<open>Drifting metrics\<close>

definition average :: "rat list \<Rightarrow> rat" where
  "average xs = sum_list xs / of_nat (length xs)"

definition variance :: "rat list \<Rightarrow> rat" where
  "variance xs = sum_list (map (\<lambda>v. (v - average xs) ^ 2) xs) / of_nat (length xs)"

definition drift_direction :: "rat list \<Rightarrow> string" where
  "drift_direction xs =
     (let third = length xs div 3;
          first_avg = sum_list (take third xs) / of_nat (max third 1);
          last_avg = sum_list (if third = 0 then xs else drop (length xs - third) xs) / of_nat (max third 1)
      in if first_avg < last_avg then ''increasing'' else ''decreasing'')"

definition drift_pattern :: "(rat \<Rightarrow> rat) \<Rightarrow> string \<times> rat list \<Rightarrow> evolution_pattern list" where
  "drift_pattern rt g =
     (let xs = snd g; mean = average xs; sd = rt (variance xs); cv = sd / \<bar>mean\<bar> in
      if length xs < MIN_ACTIONS_FOR_PATTERN \<or> mean = 0 then []
      else if cv > METRIC_DRIFT_THRESHOLD
      then [\<lparr>ep_type = ''anomaly_detector'',
             ep_description = ''Metric '' @ [CHR 0x27] @ fst g @ [CHR 0x27] @ '' shows high variance (CV=''
               @ py_fixed 2 cv @ '', trend: '' @ drift_direction xs @ '') '' @ em_dash
               @ '' an anomaly detector could alert on unusual values'',
             ep_metric_target = fst g,
             ep_data_sources = [''operation_log.metrics.'' @ fst g], ep_confidence = min (cv * (8 / 10)) (9 / 10),
             ep_action_type = [],
             ep_details = [(''metric_name'', JStr (fst g)), (''mean'', JFloat mean), (''std_dev'', JFloat sd),
               (''cv'', JFloat cv), (''direction'', JStr (drift_direction xs))]\<rparr>]
      else [])"

definition detect_metric_drift :: "(rat \<Rightarrow> rat) \<Rightarrow> action_record list \<Rightarrow> evolution_pattern list" where
  "detect_metric_drift rt as =
     concat (map (drift_pattern rt) (group_by fst snd (concat (map ar_metrics as))))"

section \<open>Signals of other claws\<close>

definition cross_pattern :: "string \<times> json dict list \<Rightarrow> evolution_pattern list" where
  "cross_pattern g =
     (let n = length (snd g); fields = sort (remdups (concat (map (map fst) (snd g)))) in
      if 3 \<le> n \<and> 2 \<le> length fields
      then [\<lparr>ep_type = ''predictor'',
             ep_description = ''Received '' @ nat_text n @ '' signals from '' @ fst g
               @ '' claw over the past 2 weeks with data fields: '' @ py_join '', '' (take 5 fields) @ '' ''
               @ em_dash @ '' sufficient for a cross-claw predictor'',
             ep_metric_target = ''cross_signal_utilization'',
             ep_data_sources = map (\<lambda>f. ''cross_signal.'' @ fst g @ ''.'' @ f) (take 5 fields),
             ep_confidence = min (of_nat n / 10) (85 / 100), ep_action_type = [],
             ep_details = [(''sender_role'', JStr (fst g)), (''signal_count'', JInt (int n)),
               (''data_fields'', JList (map JStr fields))]\<rparr>]
      else [])"

definition detect_cross_signal_patterns :: "cross_signal list \<Rightarrow> evolution_pattern list" where
  "detect_cross_signal_patterns ss = concat (map cross_pattern (group_by cs_sender_role cs_data ss))"

section \<open>Detection and ranking\<close>

record detector =
  pd_min_confidence :: rat
  pd_max_patterns :: nat

definition all_patterns :: "(string \<Rightarrow> nat) \<Rightarrow> (rat \<Rightarrow> rat) \<Rightarrow> action_summary \<Rightarrow> action_record list
    \<Rightarrow> cross_signal list \<Rightarrow> evolution_pattern list" where
  "all_patterns hour rt sm as ss =
     detect_edit_patterns sm as @ detect_approval_patterns as @ detect_timing_patterns hour as
     @ detect_metric_drift rt as @ detect_cross_signal_patterns ss"

text \<open>\<open>max_patterns\<close> is stored and never read.\<close>

definition detect :: "(string \<Rightarrow> nat) \<Rightarrow> (rat \<Rightarrow> rat) \<Rightarrow> detector \<Rightarrow> action_summary \<Rightarrow> action_record list
    \<Rightarrow> cross_signal list \<Rightarrow> evolution_pattern list" where
  "detect hour rt pd sm as ss =
     (if sm_total sm = 0 then []
      else filter (\<lambda>p. pd_min_confidence pd \<le> ep_confidence p) (all_patterns hour rt sm as ss))"

definition rank :: "evolution_pattern list \<Rightarrow> evolution_pattern option" where
  "rank ps = (case sort_key (\<lambda>p. - ep_confidence p) ps of [] \<Rightarrow> None | p # _ \<Rightarrow> Some p)"

section \<open>Confidence\<close>

lemma edit_confidence: "p \<in> set (edit_pattern sm edited fc) \<Longrightarrow> 0 < ep_confidence p \<and> ep_confidence p \<le> 95 / 100"
  by (auto simp: edit_pattern_def Let_def EDIT_FREQUENCY_THRESHOLD_def min_def split: if_splits)

lemma approval_confidence:
  assumes "p \<in> set (approval_pattern g)"
  shows "0 < ep_confidence p \<and> ep_confidence p \<le> 95 / 100"
proof -
  define rate :: rat where "rate = of_nat (count_at (tally (snd g)) ''approved'' + count_at (tally (snd g)) ''auto'')
      / of_nat (sum_list (map snd (tally (snd g))))"
  have "rate < 7 / 10" "ep_confidence p = min ((1 - rate) * (12 / 10)) (95 / 100)"
    using assms unfolding approval_pattern_def Let_def rate_def[symmetric] LOW_APPROVAL_THRESHOLD_def
    by (simp_all split: if_splits)
  then show ?thesis by (auto simp: min_def)
qed

lemma timing_confidence:
  "p \<in> set (detect_timing_patterns hour as) \<Longrightarrow> 0 < ep_confidence p \<and> ep_confidence p \<le> 95 / 100"
  by (auto simp: detect_timing_patterns_def Let_def min_def split: if_splits list.splits)

lemma drift_confidence: "p \<in> set (drift_pattern rt g) \<Longrightarrow> 0 < ep_confidence p \<and> ep_confidence p \<le> 95 / 100"
  by (auto simp: drift_pattern_def Let_def METRIC_DRIFT_THRESHOLD_def min_def split: if_splits)

lemma cross_confidence: "p \<in> set (cross_pattern g) \<Longrightarrow> 0 < ep_confidence p \<and> ep_confidence p \<le> 95 / 100"
  by (auto simp: cross_pattern_def Let_def min_def split: if_splits)

lemma pattern_confidence:
  "p \<in> set (all_patterns hour rt sm as ss) \<Longrightarrow> 0 < ep_confidence p \<and> ep_confidence p \<le> 95 / 100"
  using edit_confidence approval_confidence timing_confidence drift_confidence cross_confidence
  by (auto simp: all_patterns_def detect_edit_patterns_def detect_approval_patterns_def
      detect_metric_drift_def detect_cross_signal_patterns_def Let_def split: if_splits)

lemma rank_max:
  assumes "rank ps = Some p"
  shows "p \<in> set ps" "\<forall>q \<in> set ps. ep_confidence q \<le> ep_confidence p"
proof -
  obtain rest where s: "sort_key (\<lambda>p. - ep_confidence p) ps = p # rest"
    using assms by (auto simp: rank_def split: list.splits)
  have "set ps = set (p # rest)" by (metis s set_sort)
  moreover have "sorted (map (\<lambda>p. - ep_confidence p) (p # rest))" by (metis s sorted_sort_key)
  ultimately show "p \<in> set ps" "\<forall>q \<in> set ps. ep_confidence q \<le> ep_confidence p" by auto
qed

lemma rank_None: "rank ps = None \<longleftrightarrow> ps = []"
  by (auto simp: rank_def split: list.splits dest: arg_cong[where f = length])

end
