(* ===== verification/Tool_Build.thy ===== *)
theory Tool_Build
  imports Patterns
begin

text \<open>
  \<^verbatim>\<open>milimo-core/src/milimo_core/tool_proposal.py\<close> and \<^verbatim>\<open>tool_builder.py\<close>: the proposal of a tool from a
  pattern, the check of its permissions, and the build with its backtest. A proposal is an object
  several results share; every function here returns it with the status it has afterwards. What an
  inference service generates is a parameter (\<open>None\<close>: nothing usable), as is the hash of the data.
\<close>

section \<open>Proposals\<close>

definition VALID_TOOL_TYPES :: "string list" where
  "VALID_TOOL_TYPES = [''classifier'', ''optimizer'', ''predictor'', ''generator_variant'', ''anomaly_detector'']"

definition VALID_STATUSES :: "string list" where
  "VALID_STATUSES = [''proposed'', ''approved'', ''building'', ''testing'', ''deployed'', ''rejected'',
     ''disabled'', ''failed'']"

record tool_proposal =
  tp_tool_name :: string
  tp_tool_type :: string
  tp_trigger :: evolution_pattern
  tp_metric_target :: string
  tp_data_sources :: "string list"
  tp_estimated_improvement :: rat
  tp_status :: string
  tp_proposal_id :: string
  tp_claw_role :: string
  tp_squad_id :: string
  tp_created_at :: string
  tp_rejection_reason :: string

definition pattern_to_dict :: "evolution_pattern \<Rightarrow> json dict" where
  "pattern_to_dict p =
     [(''pattern_type'', JStr (ep_type p)), (''trigger_description'', JStr (ep_description p)),
      (''metric_target'', JStr (ep_metric_target p)), (''data_sources'', JList (map JStr (ep_data_sources p))),
      (''confidence'', JFloat (ep_confidence p)), (''action_type'', JStr (ep_action_type p)),
      (''details'', JObj (ep_details p))]"

definition rd_rational :: "json dict \<Rightarrow> string \<Rightarrow> rat \<Rightarrow> read_error + rat" where
  "rd_rational d k def = (case map_of d k of None \<Rightarrow> Inr def | Some (JFloat r) \<Rightarrow> Inr r
     | Some (JInt i) \<Rightarrow> Inr (of_int i) | Some _ \<Rightarrow> Inl (Untyped k))"

definition pattern_from_dict :: "json dict \<Rightarrow> read_error + evolution_pattern" where
  "pattern_from_dict d =
     bind_sum (rq_str d ''pattern_type'') (\<lambda>t.
     bind_sum (rq_str d ''trigger_description'') (\<lambda>ds.
     bind_sum (rq_str d ''metric_target'') (\<lambda>m.
     bind_sum (rd_strs d ''data_sources'') (\<lambda>s.
     bind_sum (rd_rational d ''confidence'' 0) (\<lambda>c.
     bind_sum (rd_str d ''action_type'' []) (\<lambda>a.
     bind_sum (rd_obj d ''details'') (\<lambda>de.
       Inr \<lparr>ep_type = t, ep_description = ds, ep_metric_target = m, ep_data_sources = s,
            ep_confidence = c, ep_action_type = a, ep_details = de\<rparr>)))))))"

definition proposal_to_dict :: "tool_proposal \<Rightarrow> json dict" where
  "proposal_to_dict p =
     [(''tool_name'', JStr (tp_tool_name p)), (''tool_type'', JStr (tp_tool_type p)),
      (''trigger_pattern'', JObj (pattern_to_dict (tp_trigger p))),
      (''metric_target'', JStr (tp_metric_target p)),
      (''data_sources_required'', JList (map JStr (tp_data_sources p))),
      (''estimated_improvement'', JFloat (tp_estimated_improvement p)), (''status'', JStr (tp_status p)),
      (''proposal_id'', JStr (tp_proposal_id p)), (''claw_role'', JStr (tp_claw_role p)),
      (''squad_id'', JStr (tp_squad_id p)), (''created_at'', JStr (tp_created_at p)),
      (''rejection_reason'', JStr (tp_rejection_reason p))]"

definition proposal_from_dict :: "string \<Rightarrow> string \<Rightarrow> json dict \<Rightarrow> read_error + tool_proposal" where
  "proposal_from_dict fresh_id now d =
     bind_sum (bind_sum (rd_obj d ''trigger_pattern'') pattern_from_dict) (\<lambda>tr.
     bind_sum (rq_str d ''tool_name'') (\<lambda>n.
     bind_sum (rq_str d ''tool_type'') (\<lambda>t.
     bind_sum (rq_str d ''metric_target'') (\<lambda>m.
     bind_sum (rd_strs d ''data_sources_required'') (\<lambda>s.
     bind_sum (rd_rational d ''estimated_improvement'' 0) (\<lambda>e.
     bind_sum (rd_str d ''status'' ''proposed'') (\<lambda>st.
     bind_sum (rd_str d ''proposal_id'' fresh_id) (\<lambda>i.
     bind_sum (rd_str d ''claw_role'' []) (\<lambda>c.
     bind_sum (rd_str d ''squad_id'' []) (\<lambda>q.
     bind_sum (rd_str d ''created_at'' now) (\<lambda>ca.
     bind_sum (rd_str d ''rejection_reason'' []) (\<lambda>r.
       Inr \<lparr>tp_tool_name = n, tp_tool_type = t, tp_trigger = tr, tp_metric_target = m, tp_data_sources = s,
            tp_estimated_improvement = e, tp_status = st, tp_proposal_id = i, tp_claw_role = c,
            tp_squad_id = q, tp_created_at = ca, tp_rejection_reason = r\<rparr>))))))))))))"

lemma pattern_from_to_dict [simp]: "pattern_from_dict (pattern_to_dict p) = Inr p"
  by (simp add: pattern_from_dict_def pattern_to_dict_def rq_str_def rd_str_def rd_strs_def rd_obj_def
      rd_rational_def)

lemma proposal_from_to_dict [simp]: "proposal_from_dict i now (proposal_to_dict p) = Inr p"
  by (simp add: proposal_from_dict_def proposal_to_dict_def rq_str_def rd_str_def rd_strs_def rd_obj_def
      rd_rational_def)

section \<open>Permissions\<close>

text \<open>The parts of a sandbox policy the check reads.\<close>

record net_policy =
  np_name :: string
  np_hosts :: "string list"

record sandbox_policy =
  sp_read_write :: "string list"
  sp_read_only :: "string list"
  sp_network :: "net_policy list"

datatype permission_error = InvalidToolType string | InvalidStatus string | FilesystemDenied string | NetworkDenied string

definition allowed_mounts :: "sandbox_policy \<Rightarrow> string list" where
  "allowed_mounts p = sp_read_write p @ sp_read_only p"

definition allowed_endpoints :: "sandbox_policy \<Rightarrow> string list" where
  "allowed_endpoints p = concat (map (\<lambda>n. np_name n # np_hosts n) (sp_network p))"

text \<open>\<open>source.split("//")[1].split("/")[0]\<close> for a source that starts with a scheme.\<close>

definition after_scheme :: "string \<Rightarrow> string" where
  "after_scheme s = (if prefix ''https://'' s then drop 8 s else drop 7 s)"

fun until_slashes :: "string \<Rightarrow> string" where
  "until_slashes (CHR 0x2F # CHR 0x2F # s) = []"
| "until_slashes (c # s) = c # until_slashes s"
| "until_slashes [] = []"

definition source_host :: "string \<Rightarrow> string" where
  "source_host s = takeWhile (\<lambda>c. c \<noteq> CHR ''/'') (until_slashes (after_scheme s))"

definition is_file_source :: "string \<Rightarrow> bool" where
  "is_file_source s \<longleftrightarrow> prefix ''/sandbox/'' s \<or> prefix ''/tmp'' s"

definition is_net_source :: "string \<Rightarrow> bool" where
  "is_net_source s \<longleftrightarrow> prefix ''https://'' s \<or> prefix ''http://'' s"

definition check_source :: "sandbox_policy \<Rightarrow> string \<Rightarrow> permission_error option" where
  "check_source p s =
     (if is_file_source s \<and> \<not> list_ex (\<lambda>m. prefix m s) (allowed_mounts p) then Some (FilesystemDenied s)
      else if is_net_source s \<and> source_host s \<notin> set (allowed_endpoints p) then Some (NetworkDenied (source_host s))
      else None)"

fun check_sources :: "sandbox_policy \<Rightarrow> string list \<Rightarrow> permission_error option" where
  "check_sources p [] = None"
| "check_sources p (s # ss) = (case check_source p s of Some e \<Rightarrow> Some e | None \<Rightarrow> check_sources p ss)"

definition validate_permissions :: "tool_proposal \<Rightarrow> sandbox_policy \<Rightarrow> permission_error option" where
  "validate_permissions pr p =
     (if tp_tool_type pr \<notin> set VALID_TOOL_TYPES then Some (InvalidToolType (tp_tool_type pr))
      else if tp_status pr \<notin> set VALID_STATUSES then Some (InvalidStatus (tp_status pr))
      else check_sources p (tp_data_sources pr))"

lemma check_sources_None: "check_sources p ss = None \<longleftrightarrow> (\<forall>s \<in> set ss. check_source p s = None)"
  by (induction ss) (auto split: option.splits)

section \<open>Generating a proposal\<close>

fun words_step :: "string \<Rightarrow> string \<Rightarrow> string list" where
  "words_step cur [] = (if cur = [] then [] else [cur])"
| "words_step cur (c # cs) =
     (if space_char c then (if cur = [] then words_step [] cs else cur # words_step [] cs)
      else words_step (cur @ [c]) cs)"

definition underscore_words :: "string \<Rightarrow> string list" where
  "underscore_words s = words_step [] (map (\<lambda>c. if c = CHR ''_'' then CHR '' '' else c) s)"

text \<open>An entry of the details that is not a text, or an empty list of words, raises.\<close>

datatype name_error = IndexError | NotText string

definition detail_text :: "evolution_pattern \<Rightarrow> string \<Rightarrow> name_error + string" where
  "detail_text p k = (case map_of (ep_details p) k of Some (JStr s) \<Rightarrow> Inr s | _ \<Rightarrow> Inl (NotText k))"

definition has_detail :: "evolution_pattern \<Rightarrow> string \<Rightarrow> bool" where
  "has_detail p k \<longleftrightarrow> map_of (ep_details p) k \<noteq> None"

definition derive_tool_name :: "evolution_pattern \<Rightarrow> string \<Rightarrow> name_error + string" where
  "derive_tool_name p role =
     (if ep_type p = ''classifier'' \<and> has_detail p ''edit_field''
      then map_sum id (\<lambda>f. f @ ''_'' @ ep_type p) (detail_text p ''edit_field'')
      else if ep_type p = ''predictor'' \<and> has_detail p ''action_type''
      then bind_sum (detail_text p ''action_type'') (\<lambda>a.
             case underscore_words a of
               [] \<Rightarrow> Inl IndexError
             | [w] \<Rightarrow> Inr (w @ ''_quality_predictor'')
             | w # v # _ \<Rightarrow> Inr (py_join ''_'' [w, v] @ ''_quality_predictor''))
      else if ep_type p = ''optimizer'' then Inr ''timing_optimizer''
      else if ep_type p = ''anomaly_detector'' \<and> has_detail p ''metric_name''
      then bind_sum (detail_text p ''metric_name'') (\<lambda>a.
             case underscore_words a of [] \<Rightarrow> Inl IndexError | w # _ \<Rightarrow> Inr (w @ ''_anomaly_detector''))
      else if ep_type p = ''predictor'' \<and> has_detail p ''sender_role''
      then map_sum id (\<lambda>r. r @ ''_cross_predictor'') (detail_text p ''sender_role'')
      else Inr (role @ ''_'' @ ep_type p @ ''_'' @ py_fixed 0 (ep_confidence p)))"

definition type_multiplier :: "string \<Rightarrow> rat" where
  "type_multiplier t =
     (if t = ''classifier'' then 12 / 10 else if t = ''optimizer'' then 11 / 10
      else if t = ''generator_variant'' then 8 / 10 else if t = ''anomaly_detector'' then 9 / 10 else 1)"

definition estimate_improvement :: "evolution_pattern \<Rightarrow> rat" where
  "estimate_improvement p = of_int (round_half_even (ep_confidence p * 15 * type_multiplier (ep_type p) * 10)) / 10"

definition generate_proposal :: "string \<Rightarrow> string \<Rightarrow> evolution_pattern \<Rightarrow> string \<Rightarrow> string \<Rightarrow> name_error + tool_proposal" where
  "generate_proposal pid now p role squad =
     map_sum id (\<lambda>n. \<lparr>tp_tool_name = n, tp_tool_type = ep_type p, tp_trigger = p,
         tp_metric_target = ep_metric_target p, tp_data_sources = ep_data_sources p,
         tp_estimated_improvement = estimate_improvement p, tp_status = ''proposed'', tp_proposal_id = pid,
         tp_claw_role = role, tp_squad_id = squad, tp_created_at = now, tp_rejection_reason = []\<rparr>)
       (derive_tool_name p role)"

section \<open>Building\<close>

record built_tool =
  bt_proposal :: tool_proposal
  bt_tool_name :: string
  bt_tool_type :: string
  bt_version :: string
  bt_code :: string
  bt_performance_delta :: rat
  bt_training_data_hash :: string
  bt_baseline_score :: rat
  bt_tool_score :: rat
  bt_claw_role :: string
  bt_squad_id :: string
  bt_built_at :: string
  bt_status :: string

record backtest_result =
  br_baseline_score :: rat
  br_tool_score :: rat
  br_improvement :: rat
  br_sample_size :: nat
  br_passed :: bool

record builder =
  bd_claw_role :: string
  bd_squad_id :: string
  bd_min_improvement :: rat

record build_result =
  bl_proposal :: tool_proposal
  bl_tool :: "built_tool option"
  bl_backtest :: "backtest_result option"
  bl_passed :: bool
  bl_failure :: string

definition newline :: string where
  "newline = [CHR 0x0A]"

definition skeleton_code :: "tool_proposal \<Rightarrow> string" where
  "skeleton_code p =
     ''# Auto-generated tool: '' @ tp_tool_name p @ newline @ ''# Type: '' @ tp_tool_type p @ newline
     @ ''# Metric target: '' @ tp_metric_target p @ newline @ ''# Generated for: '' @ tp_claw_role p @ newline
     @ ''#'' @ newline @ ''# Trigger: '' @ ep_description (tp_trigger p) @ newline @ newline
     @ ''def apply(action_data: dict) -> dict:'' @ newline
     @ ''    '' @ replicate 3 CHR 0x22 @ ''Apply '' @ tp_tool_name p @ '' to an action.'' @ replicate 3 CHR 0x22 @ newline
     @ ''    # Tool logic placeholder '' @ em_dash @ '' inference-generated in production'' @ newline
     @ ''    return action_data'' @ newline"

text \<open>The generated code if the service gives any, else the skeleton: never an empty text.\<close>

definition generate_tool_code :: "string option \<Rightarrow> tool_proposal \<Rightarrow> string" where
  "generate_tool_code inferred p = (case inferred of Some (c # cs) \<Rightarrow> c # cs | _ \<Rightarrow> skeleton_code p)"

definition approval_baseline :: "action_record list \<Rightarrow> rat" where
  "approval_baseline as =
     of_nat (length (filter (\<lambda>a. approved_outcome (ar_outcome a)) as)) / of_nat (max (length as) 1)"

definition metric_values :: "string \<Rightarrow> action_record list \<Rightarrow> rat list" where
  "metric_values m as = concat (map (\<lambda>a. case map_of (ar_metrics a) m of Some v \<Rightarrow> [v] | None \<Rightarrow> []) as)"

definition compute_baseline :: "string \<Rightarrow> action_record list \<Rightarrow> rat" where
  "compute_baseline m as =
     (if m = ''approval_rate'' then approval_baseline as
      else case metric_values m as of [] \<Rightarrow> approval_baseline as | v # vs \<Rightarrow> average (v # vs))"

definition simulate_tool_effect :: "tool_proposal \<Rightarrow> action_record list \<Rightarrow> string \<Rightarrow> rat \<Rightarrow> rat" where
  "simulate_tool_effect p as code baseline = baseline * (1 + ep_confidence (tp_trigger p) * (15 / 100))"

definition backtest :: "builder \<Rightarrow> tool_proposal \<Rightarrow> action_record list \<Rightarrow> string \<Rightarrow> backtest_result" where
  "backtest bd p as code =
     (if as = [] then \<lparr>br_baseline_score = 0, br_tool_score = 0, br_improvement = 0, br_sample_size = 0, br_passed = False\<rparr>
      else let baseline = compute_baseline (tp_metric_target p) as;
               score = simulate_tool_effect p as code baseline;
               improvement = (if baseline = 0 then 0 else (score - baseline) / \<bar>baseline\<bar> * 100)
           in \<lparr>br_baseline_score = baseline, br_tool_score = score, br_improvement = round2 improvement,
               br_sample_size = length as, br_passed = (bd_min_improvement bd \<le> improvement)\<rparr>)"

definition build :: "builder \<Rightarrow> string option \<Rightarrow> (action_record list \<Rightarrow> string) \<Rightarrow> string \<Rightarrow> tool_proposal
    \<Rightarrow> action_record list \<Rightarrow> build_result" where
  "build bd inferred data_hash now p as =
     (let code = generate_tool_code inferred p;
          bt = backtest bd p as code;
          p' = p\<lparr>tp_status := (if br_passed bt then ''deployed'' else ''failed'')\<rparr>;
          tool = \<lparr>bt_proposal = p', bt_tool_name = tp_tool_name p, bt_tool_type = tp_tool_type p,
                  bt_version = ''0.1.0'', bt_code = code, bt_performance_delta = br_improvement bt,
                  bt_training_data_hash = data_hash as, bt_baseline_score = br_baseline_score bt,
                  bt_tool_score = br_tool_score bt, bt_claw_role = bd_claw_role bd,
                  bt_squad_id = bd_squad_id bd, bt_built_at = now,
                  bt_status = (if br_passed bt then ''staged'' else ''disabled'')\<rparr>
      in \<lparr>bl_proposal = p', bl_tool = Some tool, bl_backtest = Some bt, bl_passed = br_passed bt,
          bl_failure = (if br_passed bt then [] else ''Improvement '' @ py_fixed 1 (br_improvement bt)
            @ ''% below threshold '' @ py_fixed 1 (bd_min_improvement bd) @ ''%'')\<rparr>)"

definition tool_to_dict :: "built_tool \<Rightarrow> json dict" where
  "tool_to_dict t =
     [(''proposal'', JObj (proposal_to_dict (bt_proposal t))), (''tool_name'', JStr (bt_tool_name t)),
      (''tool_type'', JStr (bt_tool_type t)), (''version'', JStr (bt_version t)), (''code'', JStr (bt_code t)),
      (''performance_delta'', JFloat (bt_performance_delta t)),
      (''training_data_hash'', JStr (bt_training_data_hash t)), (''baseline_score'', JFloat (bt_baseline_score t)),
      (''tool_score'', JFloat (bt_tool_score t)), (''claw_role'', JStr (bt_claw_role t)),
      (''squad_id'', JStr (bt_squad_id t)), (''built_at'', JStr (bt_built_at t)), (''status'', JStr (bt_status t))]"

definition tool_from_dict :: "string \<Rightarrow> string \<Rightarrow> json dict \<Rightarrow> read_error + built_tool" where
  "tool_from_dict fresh_id now d =
     bind_sum (bind_sum (rd_obj d ''proposal'') (proposal_from_dict fresh_id now)) (\<lambda>p.
     bind_sum (rq_str d ''tool_name'') (\<lambda>n.
     bind_sum (rq_str d ''tool_type'') (\<lambda>t.
     bind_sum (rd_str d ''version'' ''0.1.0'') (\<lambda>v.
     bind_sum (rd_str d ''code'' []) (\<lambda>c.
     bind_sum (rd_rational d ''performance_delta'' 0) (\<lambda>pd.
     bind_sum (rd_str d ''training_data_hash'' []) (\<lambda>h.
     bind_sum (rd_rational d ''baseline_score'' 0) (\<lambda>b.
     bind_sum (rd_rational d ''tool_score'' 0) (\<lambda>s.
     bind_sum (rd_str d ''claw_role'' []) (\<lambda>r.
     bind_sum (rd_str d ''squad_id'' []) (\<lambda>q.
     bind_sum (rd_str d ''built_at'' now) (\<lambda>ba.
     bind_sum (rd_str d ''status'' ''staged'') (\<lambda>st.
       Inr \<lparr>bt_proposal = p, bt_tool_name = n, bt_tool_type = t, bt_version = v, bt_code = c,
            bt_performance_delta = pd, bt_training_data_hash = h, bt_baseline_score = b, bt_tool_score = s,
            bt_claw_role = r, bt_squad_id = q, bt_built_at = ba, bt_status = st\<rparr>)))))))))))))"

lemma tool_from_to_dict [simp]: "tool_from_dict i now (tool_to_dict t) = Inr t"
  by (simp add: tool_from_dict_def tool_to_dict_def rq_str_def rd_str_def rd_obj_def rd_rational_def)

section \<open>The verdict of a backtest\<close>

lemma backtest_empty: "\<not> br_passed (backtest bd p [] code)"
  by (simp add: backtest_def)

lemma backtest_verdict:
  assumes "as \<noteq> []"
  shows "br_passed (backtest bd p as code) \<longleftrightarrow>
    bd_min_improvement bd \<le> sgn (compute_baseline (tp_metric_target p) as) * (ep_confidence (tp_trigger p) * 15)"
proof -
  let ?b = "compute_baseline (tp_metric_target p) as"
  have "(?b * (1 + ep_confidence (tp_trigger p) * (15 / 100)) - ?b) / \<bar>?b\<bar> * 100
      = sgn ?b * (ep_confidence (tp_trigger p) * 15)" if "?b \<noteq> 0"
    using that by (cases "0 < ?b") (simp_all add: sgn_if abs_if field_simps)
  then show ?thesis using assms by (simp add: backtest_def simulate_tool_effect_def Let_def)
qed

end
