(* ===== verification/Tool_Registry.thy ===== *)
theory Tool_Registry
  imports Tool_Build Provenance
begin

text \<open>
  \<^verbatim>\<open>milimo-core/src/milimo_core/tool_registry.py\<close>: the tools of a claw with their provenance and the
  monitoring of regressions, kept in memory and in one JSON file. The keystore and Ed25519 are those
  of \<open>Provenance\<close>; times are texts, read with the parameter \<open>ts\<close>.
\<close>

section \<open>State\<close>

record tool_provenance =
  pv_tool_id :: string
  pv_claw_role :: string
  pv_generated_at :: string
  pv_generation_model :: string
  pv_trigger_pattern :: string
  pv_backtest :: "json dict"
  pv_deployed_at :: string
  pv_signature :: string
  pv_signer_key_id :: string

record monitoring =
  mo_deployed_at :: string
  mo_baseline :: rat
  mo_threshold :: rat
  mo_checks :: "(string \<times> rat) list"

record tool_registry =
  rg_squad_id :: string
  rg_claw_role :: string
  rg_max_tools :: nat
  rg_memory_only :: bool
  rg_tools :: "built_tool dict"
  rg_provenances :: "tool_provenance dict"
  rg_monitoring :: "monitoring dict"
  rg_file :: "json dict option"

definition provenance_to_dict :: "tool_provenance \<Rightarrow> json dict" where
  "provenance_to_dict p =
     [(''tool_id'', JStr (pv_tool_id p)), (''claw_role'', JStr (pv_claw_role p)),
      (''generated_at'', JStr (pv_generated_at p)), (''generation_model'', JStr (pv_generation_model p)),
      (''trigger_pattern'', JStr (pv_trigger_pattern p)), (''backtest_result'', JObj (pv_backtest p)),
      (''deployed_at'', JStr (pv_deployed_at p)), (''signature'', JStr (pv_signature p)),
      (''signer_key_id'', JStr (pv_signer_key_id p))]"

definition provenance_from_dict :: "json dict \<Rightarrow> read_error + tool_provenance" where
  "provenance_from_dict d =
     bind_sum (rq_str d ''tool_id'') (\<lambda>i.
     bind_sum (rq_str d ''claw_role'') (\<lambda>c.
     bind_sum (rq_str d ''generated_at'') (\<lambda>g.
     bind_sum (rd_str d ''generation_model'' ''local-nim'') (\<lambda>m.
     bind_sum (rd_str d ''trigger_pattern'' []) (\<lambda>t.
     bind_sum (rd_obj d ''backtest_result'') (\<lambda>b.
     bind_sum (rd_str d ''deployed_at'' []) (\<lambda>dp.
     bind_sum (rd_str d ''signature'' []) (\<lambda>s.
     bind_sum (rd_str d ''signer_key_id'' []) (\<lambda>k.
       Inr \<lparr>pv_tool_id = i, pv_claw_role = c, pv_generated_at = g, pv_generation_model = m,
            pv_trigger_pattern = t, pv_backtest = b, pv_deployed_at = dp, pv_signature = s,
            pv_signer_key_id = k\<rparr>)))))))))"

definition check_to_json :: "string \<times> rat \<Rightarrow> json" where
  "check_to_json c = JObj [(''timestamp'', JStr (fst c)), (''value'', JFloat (snd c))]"

definition monitoring_to_dict :: "monitoring \<Rightarrow> json dict" where
  "monitoring_to_dict m =
     [(''deployed_at'', JStr (mo_deployed_at m)), (''baseline_metric'', JFloat (mo_baseline m)),
      (''threshold'', JFloat (mo_threshold m)), (''checks'', JList (map check_to_json (mo_checks m)))]"

fun read_checks :: "json list \<Rightarrow> read_error + (string \<times> rat) list" where
  "read_checks [] = Inr []"
| "read_checks (JObj d # js) =
     bind_sum (rq_str d ''timestamp'') (\<lambda>t. bind_sum (rd_rational d ''value'' 0) (\<lambda>v.
       map_sum id ((#) (t, v)) (read_checks js)))"
| "read_checks (_ # js) = Inl (Untyped ''checks'')"

definition monitoring_from_dict :: "json dict \<Rightarrow> read_error + monitoring" where
  "monitoring_from_dict d =
     bind_sum (rq_str d ''deployed_at'') (\<lambda>a.
     bind_sum (rd_rational d ''baseline_metric'' 0) (\<lambda>b.
     bind_sum (rd_rational d ''threshold'' 0) (\<lambda>t.
     bind_sum (case map_of d ''checks'' of Some (JList js) \<Rightarrow> read_checks js | _ \<Rightarrow> Inl (Untyped ''checks'')) (\<lambda>c.
       Inr \<lparr>mo_deployed_at = a, mo_baseline = b, mo_threshold = t, mo_checks = c\<rparr>))))"

text \<open>A dictionary of objects, each read with \<open>rd\<close>.\<close>

fun read_objects :: "(json dict \<Rightarrow> read_error + 'a) \<Rightarrow> json dict \<Rightarrow> read_error + 'a dict" where
  "read_objects rd [] = Inr []"
| "read_objects rd ((k, JObj d) # r) =
     bind_sum (rd d) (\<lambda>a. map_sum id ((#) (k, a)) (read_objects rd r))"
| "read_objects rd ((k, _) # r) = Inl (Untyped k)"

definition objects_json :: "('a \<Rightarrow> json dict) \<Rightarrow> 'a dict \<Rightarrow> json dict" where
  "objects_json f d = map (\<lambda>(k, a). (k, JObj (f a))) d"

lemma read_objects_json: "(\<And>a. rd (f a) = Inr a) \<Longrightarrow> read_objects rd (objects_json f d) = Inr d"
  by (induction d) (auto simp: objects_json_def)

lemma provenance_from_to_dict [simp]: "provenance_from_dict (provenance_to_dict p) = Inr p"
  by (simp add: provenance_from_dict_def provenance_to_dict_def rq_str_def rd_str_def rd_obj_def)

lemma read_checks_json [simp]: "read_checks (map check_to_json cs) = Inr cs"
  by (induction cs) (auto simp: check_to_json_def rq_str_def rd_rational_def)

lemma monitoring_from_to_dict [simp]: "monitoring_from_dict (monitoring_to_dict m) = Inr m"
  by (simp add: monitoring_from_dict_def monitoring_to_dict_def rq_str_def rd_rational_def)

section \<open>Persistence\<close>

definition registry_data :: "tool_registry \<Rightarrow> json dict" where
  "registry_data rg =
     [(''squad_id'', JStr (rg_squad_id rg)), (''claw_role'', JStr (rg_claw_role rg)),
      (''tool_count'', JInt (int (length (rg_tools rg)))),
      (''tools'', JObj (objects_json tool_to_dict (rg_tools rg))),
      (''provenances'', JObj (objects_json provenance_to_dict (rg_provenances rg))),
      (''rollback_monitoring'', JObj (objects_json monitoring_to_dict (rg_monitoring rg)))]"

definition save_registry :: "tool_registry \<Rightarrow> tool_registry" where
  "save_registry rg = (if rg_memory_only rg then rg else rg\<lparr>rg_file := Some (registry_data rg)\<rparr>)"

text \<open>\<open>_load\<close>: signatures are checked and a bad one is logged; the tool is kept.\<close>

definition load_registry :: "string \<Rightarrow> string \<Rightarrow> tool_registry \<Rightarrow> read_error + tool_registry" where
  "load_registry fresh_id now rg =
     (case rg_file rg of
        None \<Rightarrow> Inr rg
      | Some d \<Rightarrow>
          bind_sum (bind_sum (rd_obj d ''tools'') (read_objects (tool_from_dict fresh_id now))) (\<lambda>ts.
          bind_sum (bind_sum (rd_obj d ''provenances'') (read_objects provenance_from_dict)) (\<lambda>ps.
          bind_sum (bind_sum (rd_obj d ''rollback_monitoring'') (read_objects monitoring_from_dict)) (\<lambda>ms.
            Inr (rg\<lparr>rg_tools := ts, rg_provenances := ps, rg_monitoring := ms\<rparr>)))))"

definition new_registry :: "string \<Rightarrow> string \<Rightarrow> nat \<Rightarrow> bool \<Rightarrow> json dict option \<Rightarrow> string \<Rightarrow> string
    \<Rightarrow> read_error + tool_registry" where
  "new_registry squad role max_tools memory_only file fresh_id now =
     load_registry fresh_id now
       \<lparr>rg_squad_id = squad, rg_claw_role = role, rg_max_tools = max_tools, rg_memory_only = memory_only,
        rg_tools = [], rg_provenances = [], rg_monitoring = [], rg_file = file\<rparr>"

section \<open>Provenance\<close>

definition bare_provenance :: "string \<Rightarrow> built_tool \<Rightarrow> tool_provenance" where
  "bare_provenance now t =
     \<lparr>pv_tool_id = bt_tool_name t, pv_claw_role = bt_claw_role t, pv_generated_at = now,
      pv_generation_model = ''local-nim'', pv_trigger_pattern = ep_type (tp_trigger (bt_proposal t)),
      pv_backtest = [(''baseline_score'', JFloat (bt_baseline_score t)), (''tool_score'', JFloat (bt_tool_score t)),
        (''improvement_pct'', JFloat (bt_performance_delta t))],
      pv_deployed_at = now, pv_signature = [], pv_signer_key_id = []\<rparr>"

definition provenance_content :: "prov_lib \<Rightarrow> tool_provenance \<Rightarrow> string" where
  "provenance_content lib p = dumps_sorted lib (JObj (provenance_to_dict p))"

definition create_provenance :: "prov_lib \<Rightarrow> keystore \<Rightarrow> string \<Rightarrow> built_tool \<Rightarrow> tool_registry \<Rightarrow> tool_provenance" where
  "create_provenance lib ks now t rg =
     (let p = bare_provenance now t in
      if crypto_available lib
      then (case ks (rg_squad_id rg) of
              None \<Rightarrow> p
            | Some (sk, pk) \<Rightarrow> p\<lparr>pv_signature := py_hex (ed_sign lib sk (provenance_content lib p)),
                                pv_signer_key_id := py_hex (take 8 pk)\<rparr>)
      else p)"

definition verify_tool_provenance :: "prov_lib \<Rightarrow> keystore \<Rightarrow> string \<Rightarrow> tool_registry \<Rightarrow> bool" where
  "verify_tool_provenance lib ks n rg =
     (case map_of (rg_provenances rg) n of
        None \<Rightarrow> True
      | Some p \<Rightarrow>
          if pv_signature p = [] then True
          else if \<not> crypto_available lib then True
          else (case ks (rg_squad_id rg) of
              None \<Rightarrow> False
            | Some (sk, pk) \<Rightarrow>
                (case py_fromhex (pv_signature p) of
                   None \<Rightarrow> False
                 | Some sg \<Rightarrow>
                     ed_verify lib pk sg
                       (provenance_content lib (p\<lparr>pv_signature := [], pv_signer_key_id := []\<rparr>)) = EdValid)))"

section \<open>Operations\<close>

definition active_count :: "tool_registry \<Rightarrow> nat" where
  "active_count rg = length (filter (\<lambda>(n, t). bt_status t \<noteq> ''disabled'') (rg_tools rg))"

definition register_tool :: "prov_lib \<Rightarrow> keystore \<Rightarrow> string \<Rightarrow> built_tool \<Rightarrow> tool_registry \<Rightarrow> bool \<times> tool_registry" where
  "register_tool lib ks now t rg =
     (if rg_max_tools rg \<le> active_count rg then (False, rg)
      else (True, save_registry (rg\<lparr>
        rg_tools := AList.update (bt_tool_name t) (t\<lparr>bt_status := ''deployed''\<rparr>) (rg_tools rg),
        rg_provenances := AList.update (bt_tool_name t) (create_provenance lib ks now t rg) (rg_provenances rg),
        rg_monitoring := AList.update (bt_tool_name t)
          \<lparr>mo_deployed_at = now, mo_baseline = bt_baseline_score t, mo_threshold = 95 / 100, mo_checks = []\<rparr>
          (rg_monitoring rg)\<rparr>)))"

definition set_tool_status :: "string \<Rightarrow> string \<Rightarrow> tool_registry \<Rightarrow> bool \<times> tool_registry" where
  "set_tool_status s n rg =
     (case map_of (rg_tools rg) n of
        None \<Rightarrow> (False, rg)
      | Some t \<Rightarrow> (True, save_registry (rg\<lparr>rg_tools := AList.update n (t\<lparr>bt_status := s\<rparr>) (rg_tools rg)\<rparr>)))"

definition disable_tool :: "string \<Rightarrow> tool_registry \<Rightarrow> bool \<times> tool_registry" where
  "disable_tool = set_tool_status ''disabled''"

definition enable_tool :: "string \<Rightarrow> tool_registry \<Rightarrow> bool \<times> tool_registry" where
  "enable_tool = set_tool_status ''deployed''"

definition remove_tool :: "string \<Rightarrow> tool_registry \<Rightarrow> bool \<times> tool_registry" where
  "remove_tool n rg =
     (if map_of (rg_tools rg) n = None then (False, rg)
      else (True, save_registry (rg\<lparr>rg_tools := AList.delete n (rg_tools rg),
        rg_provenances := AList.delete n (rg_provenances rg),
        rg_monitoring := AList.delete n (rg_monitoring rg)\<rparr>)))"

definition list_tools :: "string option \<Rightarrow> tool_registry \<Rightarrow> built_tool list" where
  "list_tools status rg =
     sort_key bt_built_at (filter (\<lambda>t. case status of Some (c # cs) \<Rightarrow> bt_status t = c # cs | _ \<Rightarrow> True)
       (map snd (rg_tools rg)))"

definition inventory_entry :: "tool_registry \<Rightarrow> string \<times> built_tool \<Rightarrow> string \<times> json" where
  "inventory_entry rg nt =
     (fst nt, JObj ([(''name'', JStr (bt_tool_name (snd nt))), (''type'', JStr (bt_tool_type (snd nt))),
        (''version'', JStr (bt_version (snd nt))), (''performance_delta'', JFloat (bt_performance_delta (snd nt))),
        (''training_data_hash'', JStr (bt_training_data_hash (snd nt))), (''status'', JStr (bt_status (snd nt))),
        (''built_at'', JStr (bt_built_at (snd nt)))]
      @ (case map_of (rg_provenances rg) (fst nt) of
           None \<Rightarrow> [] | Some p \<Rightarrow> [(''provenance'', JObj (provenance_to_dict p))])))"

definition get_inventory :: "tool_registry \<Rightarrow> json dict" where
  "get_inventory rg = map (inventory_entry rg) (rg_tools rg)"

section \<open>Regression\<close>

datatype rollback_reason = ToolNotFound | NotInMonitoring | MonitoringEnded | BelowThreshold | WithinBounds

record rollback_decision =
  rd_should_rollback :: bool
  rd_reason :: rollback_reason
  rd_baseline :: rat
  rd_threshold :: rat
  rd_days :: int

definition decide_rollback :: "bool \<Rightarrow> rollback_reason \<Rightarrow> rat \<Rightarrow> rat \<Rightarrow> int \<Rightarrow> rollback_decision" where
  "decide_rollback r why b t d =
     \<lparr>rd_should_rollback = r, rd_reason = why, rd_baseline = b, rd_threshold = t, rd_days = d\<rparr>"

definition days_since :: "int \<Rightarrow> int \<Rightarrow> int" where
  "days_since now t = (now - t) div day_us"

definition check_for_regression :: "(string \<Rightarrow> int) \<Rightarrow> int \<Rightarrow> string \<Rightarrow> string \<Rightarrow> rat \<Rightarrow> tool_registry
    \<Rightarrow> rollback_decision \<times> tool_registry" where
  "check_for_regression ts now now_text n v rg =
     (case map_of (rg_tools rg) n of
        None \<Rightarrow> (decide_rollback False ToolNotFound 0 (95 / 100) 0, rg)
      | Some t \<Rightarrow>
          (case map_of (rg_monitoring rg) n of
             None \<Rightarrow> (decide_rollback False NotInMonitoring 0 (95 / 100) 0, rg)
           | Some m \<Rightarrow>
               (let days = days_since now (ts (mo_deployed_at m)) in
                if 7 < days
                then (decide_rollback False MonitoringEnded (mo_baseline m) (mo_threshold m) days, rg)
                else if v < mo_baseline m * mo_threshold m
                then (decide_rollback True BelowThreshold (mo_baseline m) (mo_threshold m) days,
                      save_registry (rg\<lparr>rg_tools := AList.update n (t\<lparr>bt_status := ''rolled_back''\<rparr>) (rg_tools rg)\<rparr>))
                else (decide_rollback False WithinBounds (mo_baseline m) (mo_threshold m) days,
                      rg\<lparr>rg_monitoring := AList.update n
                          (m\<lparr>mo_checks := mo_checks m @ [(now_text, v)]\<rparr>) (rg_monitoring rg)\<rparr>))))"

end
