(* ===== verification/Evolution.thy ===== *)
theory Evolution
  imports Tool_Registry
begin

text \<open>
  \<^verbatim>\<open>milimo-core/src/milimo_core/evolution_cycle.py\<close>: the five stages of a cycle (observe, identify,
  propose, build, deploy) over the log, the detector, the builder and the registry of their own
  theories, and the scheduler with its history file. Everything a run takes from outside (time,
  policy file, inference, keys) is one record.
\<close>

section \<open>Configuration and results\<close>

record evolution_config =
  cf_window_days :: int
  cf_minimum_actions :: nat
  cf_cross_days :: int
  cf_min_confidence :: rat
  cf_max_patterns :: nat
  cf_backtest_weeks :: int
  cf_min_improvement :: rat
  cf_max_tools :: nat
  cf_require_approval :: bool

definition default_config :: evolution_config where
  "default_config = \<lparr>cf_window_days = 7, cf_minimum_actions = 20, cf_cross_days = 14, cf_min_confidence = 6 / 10,
     cf_max_patterns = 5, cf_backtest_weeks = 4, cf_min_improvement = 5, cf_max_tools = 30,
     cf_require_approval = False\<rparr>"

record cycle_result =
  cy_claw_role :: string
  cy_squad_id :: string
  cy_stage :: string
  cy_patterns :: nat
  cy_proposal :: "tool_proposal option"
  cy_build :: "build_result option"
  cy_tool :: "built_tool option"
  cy_skipped :: string
  cy_timestamp :: string

definition result_to_dict :: "cycle_result \<Rightarrow> json dict" where
  "result_to_dict r =
     [(''claw_role'', JStr (cy_claw_role r)), (''squad_id'', JStr (cy_squad_id r)),
      (''stage_reached'', JStr (cy_stage r)), (''patterns_found'', JInt (int (cy_patterns r))),
      (''skipped_reason'', JStr (cy_skipped r)), (''timestamp'', JStr (cy_timestamp r))]
     @ (case cy_proposal r of None \<Rightarrow> [] | Some p \<Rightarrow> [(''proposal'', JObj (proposal_to_dict p))])
     @ (case cy_tool r of None \<Rightarrow> [] | Some t \<Rightarrow> [(''tool_deployed'', JObj (tool_to_dict t))])"

text \<open>A nested object that cannot be read is dropped: every exception is caught.\<close>

definition read_nested :: "(json dict \<Rightarrow> read_error + 'a) \<Rightarrow> json option \<Rightarrow> 'a option" where
  "read_nested rd v = (case v of
       Some (JObj (x # d)) \<Rightarrow> (case rd (x # d) of Inr a \<Rightarrow> Some a | Inl _ \<Rightarrow> None)
     | _ \<Rightarrow> None)"

definition result_from_dict :: "string \<Rightarrow> string \<Rightarrow> json dict \<Rightarrow> read_error + cycle_result" where
  "result_from_dict fresh_id now d =
     bind_sum (rd_str d ''claw_role'' []) (\<lambda>c.
     bind_sum (rd_str d ''squad_id'' []) (\<lambda>s.
     bind_sum (rd_str d ''stage_reached'' []) (\<lambda>st.
     bind_sum (rd_int d ''patterns_found'' 0) (\<lambda>n.
     bind_sum (rd_str d ''skipped_reason'' []) (\<lambda>k.
     bind_sum (rd_str d ''timestamp'' []) (\<lambda>t.
       Inr \<lparr>cy_claw_role = c, cy_squad_id = s, cy_stage = st, cy_patterns = nat n,
            cy_proposal = read_nested (proposal_from_dict fresh_id now) (map_of d ''proposal''),
            cy_build = None,
            cy_tool = read_nested (tool_from_dict fresh_id now) (map_of d ''tool_deployed''),
            cy_skipped = k, cy_timestamp = t\<rparr>))))))"

lemma result_from_to_dict:
  "result_from_dict i now (result_to_dict r) = Inr (r\<lparr>cy_build := None\<rparr>)"
proof -
  have np: "read_nested (proposal_from_dict i now) (Some (JObj (proposal_to_dict p))) = Some p" for p
  proof -
    obtain x d where "proposal_to_dict p = x # d" by (simp add: proposal_to_dict_def)
    then show ?thesis using proposal_from_to_dict[of i now p] by (simp add: read_nested_def)
  qed
  have nt: "read_nested (tool_from_dict i now) (Some (JObj (tool_to_dict t))) = Some t" for t
  proof -
    obtain x d where "tool_to_dict t = x # d" by (simp add: tool_to_dict_def)
    then show ?thesis using tool_from_to_dict[of i now t] by (simp add: read_nested_def)
  qed
  have none: "read_nested (proposal_from_dict i now) None = None" "read_nested (tool_from_dict i now) None = None"
    by (simp_all add: read_nested_def)
  show ?thesis
    by (cases "cy_proposal r"; cases "cy_tool r")
      (simp_all add: result_from_dict_def result_to_dict_def rd_str_def rd_int_def np nt none)
qed

section \<open>A cycle\<close>

record cycle_env =
  ce_now :: int
  ce_now_text :: string
  ce_ts :: "string \<Rightarrow> int"
  ce_hour :: "string \<Rightarrow> nat"
  ce_sqrt :: "rat \<Rightarrow> rat"
  ce_policy :: "sandbox_policy option"
  ce_inferred :: "string option"
  ce_data_hash :: "action_record list \<Rightarrow> string"
  ce_proposal_id :: string
  ce_lib :: prov_lib
  ce_keys :: keystore

record evolution_cycle =
  ec_squad_id :: string
  ec_claw_role :: string
  ec_config :: evolution_config
  ec_log :: operation_log
  ec_registry :: tool_registry
  ec_staging :: "string \<rightharpoonup> built_tool"

datatype cycle_error = LogError read_error | NameError name_error

definition cycle_result_of :: "cycle_env \<Rightarrow> evolution_cycle \<Rightarrow> string \<Rightarrow> nat \<Rightarrow> tool_proposal option
    \<Rightarrow> build_result option \<Rightarrow> built_tool option \<Rightarrow> string \<Rightarrow> cycle_result" where
  "cycle_result_of env ec stage n p b t skipped =
     \<lparr>cy_claw_role = ec_claw_role ec, cy_squad_id = ec_squad_id ec, cy_stage = stage, cy_patterns = n,
      cy_proposal = p, cy_build = b, cy_tool = t, cy_skipped = skipped, cy_timestamp = ce_now_text env\<rparr>"

fun permission_text :: "permission_error \<Rightarrow> string" where
  "permission_text (InvalidToolType t) = ''Invalid tool type: '' @ [CHR 0x27] @ t @ [CHR 0x27]"
| "permission_text (InvalidStatus s) = ''Invalid status: '' @ [CHR 0x27] @ s @ [CHR 0x27]"
| "permission_text (FilesystemDenied s) = ''Tool requires filesystem access to '' @ [CHR 0x27] @ s @ [CHR 0x27]
     @ '' which is not in the claw'' @ [CHR 0x27] @ ''s sandbox policy''"
| "permission_text (NetworkDenied h) = ''Tool requires network access to '' @ [CHR 0x27] @ h @ [CHR 0x27]
     @ '' which is not in the claw'' @ [CHR 0x27] @ ''s egress policy''"

text \<open>Stage 5, after a build that passed: \<open>register\<close> sets the status of the shared tool object.\<close>

definition deploy_stage :: "cycle_env \<Rightarrow> nat \<Rightarrow> build_result \<Rightarrow> evolution_cycle \<Rightarrow> cycle_result \<times> evolution_cycle" where
  "deploy_stage env n b ec =
     (case bl_tool b of
        None \<Rightarrow> (cycle_result_of env ec ''build'' n (Some (bl_proposal b)) None None ''Build produced no tool'', ec)
      | Some t \<Rightarrow>
          (let (ok, rg) = register_tool (ce_lib env) (ce_keys env) (ce_now_text env) t (ec_registry ec) in
           if \<not> ok
           then (cycle_result_of env ec ''deploy'' n (Some (bl_proposal b)) (Some b) None ''Tool registry at capacity'', ec)
           else let t' = t\<lparr>bt_status := ''deployed''\<rparr> in
             (cycle_result_of env ec ''deploy'' n (Some (bl_proposal b)) (Some (b\<lparr>bl_tool := Some t'\<rparr>)) (Some t') [],
              ec\<lparr>ec_registry := rg, ec_staging := (ec_staging ec)(bt_tool_name t \<mapsto> t')\<rparr>)))"

definition cycle_builder :: "evolution_cycle \<Rightarrow> builder" where
  "cycle_builder ec = \<lparr>bd_claw_role = ec_claw_role ec, bd_squad_id = ec_squad_id ec,
     bd_min_improvement = cf_min_improvement (ec_config ec)\<rparr>"

definition build_stage :: "cycle_env \<Rightarrow> nat \<Rightarrow> tool_proposal \<Rightarrow> evolution_cycle
    \<Rightarrow> (cycle_error + cycle_result) \<times> evolution_cycle" where
  "build_stage env n p ec =
     (case get_window (ce_ts env) (ce_now_text env) (ce_now env) (cf_backtest_weeks (ec_config ec) * 7) (ec_log ec) of
        Inl e \<Rightarrow> (Inl (LogError e), ec)
      | Inr historical \<Rightarrow>
          (let b = build (cycle_builder ec) (ce_inferred env) (ce_data_hash env) (ce_now_text env) p historical in
           if \<not> bl_passed b
           then (Inr (cycle_result_of env ec ''build'' n (Some (bl_proposal b)) (Some b) None (bl_failure b)), ec)
           else let (r, ec') = deploy_stage env n b ec in (Inr r, ec')))"

definition propose_stage :: "cycle_env \<Rightarrow> bool \<Rightarrow> nat \<Rightarrow> evolution_pattern \<Rightarrow> evolution_cycle
    \<Rightarrow> (cycle_error + cycle_result) \<times> evolution_cycle" where
  "propose_stage env dry_run n pat ec =
     (case generate_proposal (ce_proposal_id env) (ce_now_text env) pat (ec_claw_role ec) (ec_squad_id ec) of
        Inl e \<Rightarrow> (Inl (NameError e), ec)
      | Inr p \<Rightarrow>
          (case (case ce_policy env of None \<Rightarrow> None | Some pol \<Rightarrow> validate_permissions p pol) of
             Some e \<Rightarrow>
               (Inr (cycle_result_of env ec ''propose'' n
                  (Some (p\<lparr>tp_status := ''rejected'', tp_rejection_reason := permission_text e\<rparr>)) None None
                  (''Permission check failed: '' @ permission_text e)), ec)
           | None \<Rightarrow>
               if dry_run
               then (Inr (cycle_result_of env ec ''propose'' n (Some (p\<lparr>tp_status := ''proposed''\<rparr>)) None None
                       (''Dry run '' @ em_dash @ '' stopped after propose stage'')), ec)
               else if cf_require_approval (ec_config ec)
               then (Inr (cycle_result_of env ec ''propose'' n (Some (p\<lparr>tp_status := ''proposed''\<rparr>)) None None
                       ''Awaiting squad approval for proposal''), ec)
               else build_stage env n p ec))"

definition cycle_detector :: "evolution_cycle \<Rightarrow> detector" where
  "cycle_detector ec = \<lparr>pd_min_confidence = cf_min_confidence (ec_config ec),
     pd_max_patterns = cf_max_patterns (ec_config ec)\<rparr>"

definition identify_stage :: "cycle_env \<Rightarrow> bool \<Rightarrow> action_record list \<Rightarrow> evolution_cycle
    \<Rightarrow> (cycle_error + cycle_result) \<times> evolution_cycle" where
  "identify_stage env dry_run actions ec =
     (case get_cross_signals (ce_ts env) (ce_now_text env) (ce_now env) (cf_cross_days (ec_config ec)) (ec_log ec) of
        Inl e \<Rightarrow> (Inl (LogError e), ec)
      | Inr signals \<Rightarrow>
          (let ps = detect (ce_hour env) (ce_sqrt env) (cycle_detector ec) (get_action_summary actions) actions signals in
           case rank ps of
             None \<Rightarrow> (Inr (cycle_result_of env ec ''identify'' (length ps) None None None
                        ''No patterns above confidence threshold''), ec)
           | Some pat \<Rightarrow> propose_stage env dry_run (length ps) pat ec))"

definition run_cycle :: "cycle_env \<Rightarrow> bool \<Rightarrow> evolution_cycle \<Rightarrow> (cycle_error + cycle_result) \<times> evolution_cycle" where
  "run_cycle env dry_run ec =
     (case get_window (ce_ts env) (ce_now_text env) (ce_now env) (cf_window_days (ec_config ec)) (ec_log ec) of
        Inl e \<Rightarrow> (Inl (LogError e), ec)
      | Inr actions \<Rightarrow>
          if length actions < cf_minimum_actions (ec_config ec)
          then (Inr (cycle_result_of env ec ''observe'' 0 None None None
                  (''Insufficient data: '' @ nat_text (length actions) @ '' actions (need ''
                   @ nat_text (cf_minimum_actions (ec_config ec)) @ '')'')), ec)
          else identify_stage env dry_run actions ec)"

section \<open>The scheduler\<close>

record role_summary =
  ro_last_run :: string
  ro_last_stage :: string
  ro_last_skipped :: "string option"
  ro_tools_deployed :: nat

record scheduler_summary =
  su_total_cycles :: nat
  su_registered :: "string list"
  su_by_role :: "role_summary dict"

record scheduler =
  sc_cycles :: "evolution_cycle dict"
  sc_history :: "cycle_result list"
  sc_history_file :: "json list"
  sc_summary_file :: "scheduler_summary option"

fun read_history :: "string \<Rightarrow> string \<Rightarrow> json list \<Rightarrow> read_error + cycle_result list" where
  "read_history i now [] = Inr []"
| "read_history i now (JObj d # js) =
     bind_sum (result_from_dict i now d) (\<lambda>r. map_sum id ((#) r) (read_history i now js))"
| "read_history i now (_ # js) = Inl (Untyped ''history'')"

definition new_scheduler :: "string \<Rightarrow> string \<Rightarrow> json list \<Rightarrow> scheduler_summary option \<Rightarrow> read_error + scheduler" where
  "new_scheduler i now file summary =
     map_sum id (\<lambda>h. \<lparr>sc_cycles = [], sc_history = h, sc_history_file = file, sc_summary_file = summary\<rparr>)
       (read_history i now file)"

definition register_cycle :: "evolution_cycle \<Rightarrow> scheduler \<Rightarrow> scheduler" where
  "register_cycle ec sc = sc\<lparr>sc_cycles := AList.update (ec_claw_role ec) ec (sc_cycles sc)\<rparr>"

definition unregister_cycle :: "string \<Rightarrow> scheduler \<Rightarrow> scheduler" where
  "unregister_cycle role sc = sc\<lparr>sc_cycles := AList.delete role (sc_cycles sc)\<rparr>"

definition role_entry :: "cycle_result list \<Rightarrow> cycle_result \<Rightarrow> role_summary" where
  "role_entry hist r = \<lparr>ro_last_run = cy_timestamp r, ro_last_stage = cy_stage r,
     ro_last_skipped = (if cy_skipped r = [] then None else Some (cy_skipped r)),
     ro_tools_deployed = length (filter (\<lambda>e. cy_claw_role e = cy_claw_role r \<and> cy_tool e \<noteq> None) hist)\<rparr>"

definition summarize_roles :: "cycle_result list \<Rightarrow> role_summary dict" where
  "summarize_roles hist =
     foldl (\<lambda>d r. if cy_claw_role r \<noteq> [] \<and> map_of d (cy_claw_role r) = None
                  then d @ [(cy_claw_role r, role_entry hist r)] else d) [] (rev hist)"

definition update_summary :: "scheduler \<Rightarrow> scheduler" where
  "update_summary sc = sc\<lparr>sc_summary_file := Some
     \<lparr>su_total_cycles = length (sc_history sc), su_registered = map fst (sc_cycles sc),
      su_by_role = summarize_roles (sc_history sc)\<rparr>\<rparr>"

definition note_result :: "cycle_result \<Rightarrow> scheduler \<Rightarrow> scheduler" where
  "note_result r sc = update_summary (sc\<lparr>sc_history := sc_history sc @ [r],
     sc_history_file := sc_history_file sc @ [JObj (result_to_dict r)]\<rparr>)"

text \<open>One role of \<open>trigger\<close>: an exception gives an \<open>error\<close> result that is returned and not recorded.\<close>

definition trigger_role :: "(string \<Rightarrow> cycle_env) \<Rightarrow> (cycle_error \<Rightarrow> string) \<Rightarrow> bool \<Rightarrow> string \<times> evolution_cycle \<Rightarrow> scheduler
    \<Rightarrow> cycle_result \<times> scheduler" where
  "trigger_role env err dry_run rc sc =
     (let (res, ec') = run_cycle (env (fst rc)) dry_run (snd rc);
          sc' = sc\<lparr>sc_cycles := AList.update (fst rc) ec' (sc_cycles sc)\<rparr>
      in case res of
           Inr r \<Rightarrow> (r, note_result r sc')
         | Inl e \<Rightarrow> (\<lparr>cy_claw_role = fst rc, cy_squad_id = ec_squad_id (snd rc), cy_stage = ''error'', cy_patterns = 0,
                      cy_proposal = None, cy_build = None, cy_tool = None, cy_skipped = err e,
                      cy_timestamp = ce_now_text (env (fst rc))\<rparr>, sc'))"

fun trigger_roles :: "(string \<Rightarrow> cycle_env) \<Rightarrow> (cycle_error \<Rightarrow> string) \<Rightarrow> bool \<Rightarrow> evolution_cycle dict \<Rightarrow> scheduler
    \<Rightarrow> cycle_result list \<times> scheduler" where
  "trigger_roles env err dry_run [] sc = ([], sc)"
| "trigger_roles env err dry_run (rc # rcs) sc =
     (let (r, sc1) = trigger_role env err dry_run rc sc;
          (rs, sc2) = trigger_roles env err dry_run rcs sc1 in (r # rs, sc2))"

definition trigger :: "(string \<Rightarrow> cycle_env) \<Rightarrow> (cycle_error \<Rightarrow> string) \<Rightarrow> string option \<Rightarrow> bool \<Rightarrow> scheduler
    \<Rightarrow> cycle_result list \<times> scheduler" where
  "trigger env err role dry_run sc =
     (case role of
        Some (c # cs) \<Rightarrow>
          (case map_of (sc_cycles sc) (c # cs) of
             None \<Rightarrow> ([], sc)
           | Some ec \<Rightarrow> trigger_roles env err dry_run [(c # cs, ec)] sc)
      | _ \<Rightarrow> trigger_roles env err dry_run (sc_cycles sc) sc)"

definition get_history :: "nat \<Rightarrow> scheduler \<Rightarrow> cycle_result list" where
  "get_history limit sc = (if limit = 0 then sc_history sc else drop (length (sc_history sc) - limit) (sc_history sc))"

end
