(* ===== verification/Registry_Props.thy ===== *)
theory Registry_Props
  imports Tool_Registry
begin

text \<open>
  Properties of the builder and of the registry of evolved tools: the verdict of a backtest,
  persistence, capacity, regression and provenance, over single operations and over runs of them.
\<close>

section \<open>The verdict of a build\<close>

text \<open>
  For a non-empty history and a positive threshold a build passes exactly when the baseline is
  positive and 15 times the confidence of the pattern reaches the threshold: the code of the tool,
  generated or skeleton, has no part in it.
\<close>

theorem build_verdict_ignores_the_tool:
  assumes "as \<noteq> []" and "0 < bd_min_improvement bd"
  shows "bl_passed (build bd code h now p as) \<longleftrightarrow>
    0 < compute_baseline (tp_metric_target p) as \<and> bd_min_improvement bd \<le> ep_confidence (tp_trigger p) * 15
    \<or> compute_baseline (tp_metric_target p) as < 0 \<and> bd_min_improvement bd \<le> - (ep_confidence (tp_trigger p) * 15)"
proof -
  have "bl_passed (build bd code h now p as) \<longleftrightarrow> br_passed (backtest bd p as (generate_tool_code code p))"
    by (simp add: build_def Let_def)
  then show ?thesis
    using assms(2) by (auto simp: backtest_verdict[OF assms(1)] sgn_if split: if_splits)
qed

definition sample_pattern :: evolution_pattern where
  "sample_pattern = \<lparr>ep_type = ''optimizer'', ep_description = ''hours'', ep_metric_target = ''approval_rate'',
     ep_data_sources = [''operation_log.timestamp''], ep_confidence = 6 / 10, ep_action_type = [], ep_details = []\<rparr>"

definition sample_proposal :: tool_proposal where
  "sample_proposal = \<lparr>tp_tool_name = ''timing_optimizer'', tp_tool_type = ''optimizer'', tp_trigger = sample_pattern,
     tp_metric_target = ''approval_rate'', tp_data_sources = [''operation_log.timestamp''],
     tp_estimated_improvement = 9, tp_status = ''proposed'', tp_proposal_id = ''p'', tp_claw_role = ''content'',
     tp_squad_id = ''alpha'', tp_created_at = ''t'', tp_rejection_reason = []\<rparr>"

definition approved_action :: action_record where
  "approved_action = \<lparr>ar_action_type = ''post'', ar_outcome = ''approved'', ar_edits = [], ar_metrics = [],
     ar_payload = [], ar_claw_role = ''content'', ar_squad_id = ''alpha'', ar_timestamp = ''t''\<rparr>"

definition sample_builder :: builder where
  "sample_builder = \<lparr>bd_claw_role = ''content'', bd_squad_id = ''alpha'', bd_min_improvement = 5\<rparr>"

theorem build_verdict_ignores_the_tool_witness:
  "bl_passed (build sample_builder (Some ''raise SystemExit'') (\<lambda>_. []) ''t'' sample_proposal [approved_action])"
  by (subst build_verdict_ignores_the_tool)
    (simp_all add: sample_builder_def sample_proposal_def sample_pattern_def compute_baseline_def
      approval_baseline_def approved_action_def approved_outcome_def)

definition sample_tool :: built_tool where
  "sample_tool = \<lparr>bt_proposal = sample_proposal, bt_tool_name = ''timing_optimizer'', bt_tool_type = ''optimizer'',
     bt_version = ''0.1.0'', bt_code = ''code'', bt_performance_delta = 9, bt_training_data_hash = ''h'',
     bt_baseline_score = 1, bt_tool_score = 109 / 100, bt_claw_role = ''content'', bt_squad_id = ''alpha'',
     bt_built_at = ''t'', bt_status = ''staged''\<rparr>"

definition empty_registry :: "nat \<Rightarrow> tool_registry" where
  "empty_registry n = \<lparr>rg_squad_id = ''alpha'', rg_claw_role = ''content'', rg_max_tools = n,
     rg_memory_only = False, rg_tools = [], rg_provenances = [], rg_monitoring = [], rg_file = None\<rparr>"

section \<open>Runs of the registry\<close>

text \<open>A run applies operations in the order they are called.\<close>

datatype registry_op =
    RegisterOp string built_tool
  | DisableOp string
  | EnableOp string
  | RemoveOp string
  | RegressOp int string string rat

definition registry_step :: "prov_lib \<Rightarrow> keystore \<Rightarrow> (string \<Rightarrow> int) \<Rightarrow> tool_registry \<Rightarrow> registry_op \<Rightarrow> tool_registry" where
  "registry_step lib ks ts rg x = (case x of
       RegisterOp now t \<Rightarrow> snd (register_tool lib ks now t rg)
     | DisableOp n \<Rightarrow> snd (disable_tool n rg)
     | EnableOp n \<Rightarrow> snd (enable_tool n rg)
     | RemoveOp n \<Rightarrow> snd (remove_tool n rg)
     | RegressOp now now_text n v \<Rightarrow> snd (check_for_regression ts now now_text n v rg))"

definition registry_run :: "prov_lib \<Rightarrow> keystore \<Rightarrow> (string \<Rightarrow> int) \<Rightarrow> tool_registry \<Rightarrow> registry_op list \<Rightarrow> tool_registry" where
  "registry_run lib ks ts = foldl (registry_step lib ks ts)"

lemma save_registry_simps [simp]:
  "rg_tools (save_registry rg) = rg_tools rg" "rg_provenances (save_registry rg) = rg_provenances rg"
  "rg_monitoring (save_registry rg) = rg_monitoring rg" "rg_max_tools (save_registry rg) = rg_max_tools rg"
  "rg_memory_only (save_registry rg) = rg_memory_only rg" "rg_squad_id (save_registry rg) = rg_squad_id rg"
  by (simp_all add: save_registry_def)

subsection \<open>Capacity\<close>

lemma length_filter_update: "length (filter P (AList.update k v d)) \<le> length (filter P d) + 1"
  by (induction d) auto

lemma length_filter_update_False: "\<not> P (k, v) \<Longrightarrow> length (filter P (AList.update k v d)) \<le> length (filter P d)"
  by (induction d) auto

lemma length_filter_delete: "length (filter P (AList.delete k d)) \<le> length (filter P d)"
  by (induction d) auto

definition reactivates :: "registry_op \<Rightarrow> bool" where
  "reactivates x = (case x of EnableOp _ \<Rightarrow> True | RegressOp _ _ _ _ \<Rightarrow> True | _ \<Rightarrow> False)"

lemma max_step [simp]: "rg_max_tools (registry_step lib ks ts rg x) = rg_max_tools rg"
  by (cases x)
    (auto simp: registry_step_def register_tool_def disable_tool_def enable_tool_def set_tool_status_def
      remove_tool_def check_for_regression_def Let_def split: option.splits)

lemma set_status_active: "active_count (snd (set_tool_status s n rg)) \<le> active_count rg + 1"
  using length_filter_update[of "\<lambda>(n, t). bt_status t \<noteq> ''disabled''"]
  by (auto simp: set_tool_status_def active_count_def split: option.splits)

lemma disable_active: "active_count (snd (disable_tool n rg)) \<le> active_count rg"
  by (auto simp: disable_tool_def set_tool_status_def active_count_def length_filter_update_False
      split: option.splits)

lemma remove_active: "active_count (snd (remove_tool n rg)) \<le> active_count rg"
  using length_filter_delete[of "\<lambda>(n, t). bt_status t \<noteq> ''disabled''"]
  by (auto simp: remove_tool_def active_count_def)

lemma register_active:
  "active_count (snd (register_tool lib ks now t rg)) \<le> max (rg_max_tools rg) (active_count rg)"
proof (cases "rg_max_tools rg \<le> active_count rg")
  case True
  then show ?thesis by (simp add: register_tool_def)
next
  case False
  have "active_count (snd (register_tool lib ks now t rg)) \<le> active_count rg + 1"
    using False length_filter_update[of "\<lambda>(n, t). bt_status t \<noteq> ''disabled''"]
    by (simp add: register_tool_def active_count_def)
  then show ?thesis using False by linarith
qed

lemma regression_active:
  "active_count (snd (check_for_regression ts now nt n v rg)) \<le> active_count rg + 1"
  using length_filter_update[of "\<lambda>(n, t). bt_status t \<noteq> ''disabled''"]
  by (auto simp: check_for_regression_def active_count_def Let_def split: option.splits)

lemma step_active:
  "active_count (registry_step lib ks ts rg x)
     \<le> max (rg_max_tools rg) (active_count rg) + (if reactivates x then 1 else 0)"
proof (cases x)
  case (RegisterOp now t)
  then show ?thesis using register_active by (simp add: registry_step_def reactivates_def)
next
  case (DisableOp n)
  then show ?thesis using disable_active[of n rg] by (simp add: registry_step_def reactivates_def)
next
  case (EnableOp n)
  then show ?thesis using set_status_active[of "''deployed''" n rg]
    by (simp add: registry_step_def reactivates_def enable_tool_def)
next
  case (RemoveOp n)
  then show ?thesis using remove_active[of n rg] by (simp add: registry_step_def reactivates_def)
next
  case (RegressOp now nt n v)
  then show ?thesis using regression_active[of ts now nt n v rg]
    by (simp add: registry_step_def reactivates_def)
qed

text \<open>
  In every run the number of tools that are not disabled stays within the capacity (or what the
  run started with) plus the number of calls of \<open>enable\<close> and \<open>check_for_regression\<close>, which do not
  look at the capacity; and a run of two registrations can end above a capacity of one.
\<close>

theorem active_tools_bound:
  "active_count (registry_run lib ks ts rg ops)
     \<le> max (rg_max_tools rg) (active_count rg) + length (filter reactivates ops)
   \<and> (\<exists>xs. rg_max_tools (empty_registry 1) < active_count (registry_run lib ks ts (empty_registry 1) xs))"
proof (rule conjI)
  show "active_count (registry_run lib ks ts rg ops)
      \<le> max (rg_max_tools rg) (active_count rg) + length (filter reactivates ops)"
  proof (induction ops arbitrary: rg)
    case (Cons x xs)
    show ?case using Cons[of "registry_step lib ks ts rg x"] step_active[of lib ks ts rg x]
      by (auto simp: registry_run_def split: if_splits)
  qed (simp add: registry_run_def)
next
  let ?xs = "[RegisterOp ''t'' sample_tool, DisableOp ''timing_optimizer'',
      RegisterOp ''t'' (sample_tool\<lparr>bt_tool_name := ''second''\<rparr>), EnableOp ''timing_optimizer'']"
  have "active_count (registry_run lib ks ts (empty_registry 1) ?xs) = 2"
    by (simp add: registry_run_def registry_step_def register_tool_def disable_tool_def enable_tool_def
        set_tool_status_def active_count_def empty_registry_def sample_tool_def)
  then show "\<exists>xs. rg_max_tools (empty_registry 1) < active_count (registry_run lib ks ts (empty_registry 1) xs)"
    by (intro exI[of _ ?xs]) (simp add: empty_registry_def)
qed

subsection \<open>Restarts\<close>

definition no_checks :: "monitoring dict \<Rightarrow> monitoring dict" where
  "no_checks ms = map (\<lambda>(n, m). (n, m\<lparr>mo_checks := []\<rparr>)) ms"

text \<open>The file holds the tools and provenances of the memory; of the monitoring all but the checks.\<close>

definition in_step :: "tool_registry \<Rightarrow> bool" where
  "in_step rg \<longleftrightarrow> \<not> rg_memory_only rg \<and>
     (rg_file rg = None \<and> rg_tools rg = [] \<and> rg_provenances rg = [] \<and> rg_monitoring rg = []
      \<or> (\<exists>ms. rg_file rg = Some (registry_data (rg\<lparr>rg_monitoring := ms\<rparr>)) \<and> no_checks ms = no_checks (rg_monitoring rg)))"

lemma in_step_save: "\<not> rg_memory_only rg \<Longrightarrow> in_step (save_registry rg)"
  unfolding in_step_def save_registry_def
  by (auto intro!: exI[of _ "rg_monitoring rg"] simp: registry_data_def)

lemma no_checks_update: "map_of ms n = Some m \<Longrightarrow> no_checks (AList.update n (m\<lparr>mo_checks := cs\<rparr>) ms) = no_checks ms"
  by (induction ms) (auto simp: no_checks_def)

lemma in_step_checks:
  assumes "in_step rg" and "map_of (rg_monitoring rg) n = Some m"
  shows "in_step (rg\<lparr>rg_monitoring := AList.update n (m\<lparr>mo_checks := cs\<rparr>) (rg_monitoring rg)\<rparr>)"
  using assms by (auto simp: in_step_def registry_data_def no_checks_update)

lemma in_step_step:
  assumes "in_step rg"
  shows "in_step (registry_step lib ks ts rg x)"
proof -
  have m: "\<not> rg_memory_only rg" using assms by (simp add: in_step_def)
  show ?thesis
  proof (cases x)
    case (RegressOp now nt n v)
    then show ?thesis using assms m in_step_checks[OF assms]
      by (auto simp: registry_step_def check_for_regression_def Let_def split: option.splits intro!: in_step_save)
  qed (use assms m in \<open>auto simp: registry_step_def register_tool_def disable_tool_def enable_tool_def
        set_tool_status_def remove_tool_def split: option.splits intro!: in_step_save\<close>)
qed

lemma in_step_run: "in_step rg \<Longrightarrow> in_step (registry_run lib ks ts rg ops)"
  by (induction ops arbitrary: rg) (auto simp: registry_run_def in_step_step)

lemma load_saved:
  "rg_file rg = Some (registry_data sv) \<Longrightarrow> load_registry i now rg =
     Inr (rg\<lparr>rg_tools := rg_tools sv, rg_provenances := rg_provenances sv, rg_monitoring := rg_monitoring sv\<rparr>)"
  by (simp add: load_registry_def registry_data_def rd_obj_def read_objects_json)


section \<open>Regression\<close>

text \<open>
  A check rolls a tool back exactly when the tool is registered and monitored, fewer than eight
  whole days have passed since its deployment and the value is below the threshold of its baseline;
  then its status is changed and saved. Otherwise no tool changes and the file stays as it was.
\<close>

theorem regression_rolls_back_iff:
  "let (d, rg') = check_for_regression ts now nt n v rg in
     (rd_should_rollback d \<longleftrightarrow> (\<exists>t m. map_of (rg_tools rg) n = Some t \<and> map_of (rg_monitoring rg) n = Some m
        \<and> now - ts (mo_deployed_at m) < 8 * day_us \<and> v < mo_baseline m * mo_threshold m))
     \<and> map_of (rg_tools rg') = (if rd_should_rollback d
          then (map_of (rg_tools rg))(n \<mapsto> (the (map_of (rg_tools rg) n))\<lparr>bt_status := ''rolled_back''\<rparr>)
          else map_of (rg_tools rg))
     \<and> (rd_should_rollback d \<or> rg_tools rg' = rg_tools rg \<and> rg_file rg' = rg_file rg)"
proof -
  have days: "7 < days_since now a \<longleftrightarrow> \<not> now - a < 8 * day_us" for a
    using div_mult_mod_eq[of "now - a" day_us] pos_mod_bound[of day_us "now - a"] pos_mod_sign[of day_us "now - a"]
    unfolding days_since_def day_us_def by linarith
  consider (absent) "map_of (rg_tools rg) n = None" | (unmonitored) "map_of (rg_monitoring rg) n = None"
    | (monitored) t m where "map_of (rg_tools rg) n = Some t" "map_of (rg_monitoring rg) n = Some m"
    by blast
  then show ?thesis
  proof cases
    case absent
    then show ?thesis by (simp add: check_for_regression_def decide_rollback_def)
  next
    case unmonitored
    then show ?thesis
      by (cases "map_of (rg_tools rg) n") (simp_all add: check_for_regression_def decide_rollback_def)
  next
    case (monitored t m)
    then show ?thesis by (simp add: check_for_regression_def decide_rollback_def days update_conv Let_def)
  qed
qed

section \<open>Provenance of tools\<close>

text \<open>
  The provenance of a tool registered while the squad has a key pair verifies afterwards.
\<close>

theorem registered_provenance_verifies:
  assumes "ed_correct lib" and "ks (rg_squad_id rg) = Some (sk, ed_public lib sk)"
    and "register_tool lib ks now t rg = (True, rg')"
  shows "verify_tool_provenance lib ks (bt_tool_name t) rg'"
proof -
  let ?p = "create_provenance lib ks now t rg"
  have get: "map_of (rg_provenances rg') (bt_tool_name t) = Some ?p" "rg_squad_id rg' = rg_squad_id rg"
    using assms(3) by (auto simp: register_tool_def update_conv split: if_splits)
  show ?thesis
  proof (cases "crypto_available lib")
    case True
    have p: "?p\<lparr>pv_signature := [], pv_signer_key_id := []\<rparr> = bare_provenance now t"
        "pv_signature ?p = py_hex (ed_sign lib sk (provenance_content lib (bare_provenance now t)))"
      using True assms(2) by (simp_all add: create_provenance_def Let_def bare_provenance_def)
    show ?thesis
      using assms(1,2) True by (simp add: verify_tool_provenance_def get p ed_correct_def)
  qed (simp add: verify_tool_provenance_def get)
qed

end
