(* ===== verification/Evolution_Props.thy ===== *)
theory Evolution_Props
  imports Evolution Registry_Props
begin

text \<open>
  Properties of the evolution pipeline: the summary of the log, the detector, the permission check,
  the backtest, the registry, a cycle and the scheduler.
\<close>

section \<open>The log and its summary\<close>

lemma count_list_filter: "count_list (map f xs) k = length (filter (\<lambda>x. f x = k) xs)"
  by (induction xs) auto

lemma count_three:
  assumes "a \<noteq> b" "a \<noteq> c" "b \<noteq> c"
  shows "count_list xs a + count_list xs b + count_list xs c \<le> length xs"
  using count_list_distinct_sum[of "[a, b, c]" xs] assms by simp

text \<open>
  The counters of a summary are the numbers of actions of each type and outcome, and the rates
  stay within their bounds: approved and edited actions together are at most all of them.
\<close>

theorem summary_counts_and_rates:
  "(\<forall>t. count_at (sm_by_type (get_action_summary as)) t = length (filter (\<lambda>a. ar_action_type a = t) as)) \<and>
   (\<forall>x. count_at (sm_by_outcome (get_action_summary as)) x = length (filter (\<lambda>a. ar_outcome a = x) as)) \<and>
   0 \<le> sm_approval_rate (get_action_summary as) \<and> 0 \<le> sm_edit_rate (get_action_summary as) \<and>
   sm_approval_rate (get_action_summary as) + sm_edit_rate (get_action_summary as) \<le> 1"
proof (cases "as = []")
  case True
  then show ?thesis by (simp add: get_action_summary_def count_at_def)
next
  case False
  have n: "count_list (map ar_outcome as) ''approved'' + count_list (map ar_outcome as) ''auto''
      + count_list (map ar_outcome as) ''edited'' \<le> length as"
    using count_three[of "''approved''" "''auto''" "''edited''" "map ar_outcome as"] by simp
  then have "(of_nat (count_list (map ar_outcome as) ''approved'' + count_list (map ar_outcome as) ''auto''
      + count_list (map ar_outcome as) ''edited'') :: rat) \<le> of_nat (length as)"
    by (rule of_nat_mono)
  then have "sm_approval_rate (get_action_summary as) + sm_edit_rate (get_action_summary as) \<le> 1"
    using False by (simp add: summary_counts[OF False] divide_le_eq_1 flip: add_divide_distrib)
  then show ?thesis
    by (simp add: summary_counts[OF False] count_tally count_list_filter)
qed

text \<open>
  A JSON line without a required field makes every reading raise; otherwise a reading gives the
  records that pass, in order.
\<close>

lemma read_lines_snoc:
  "read_lines rd keep ls = Inr xs \<Longrightarrow> rd d = Inr x \<Longrightarrow> keep x \<Longrightarrow>
     read_lines rd keep (ls @ [Some (JObj d)]) = Inr (xs @ [x])"
  by (induction rd keep ls arbitrary: xs rule: read_lines.induct) (auto simp: bind_sum_Inr map_sum_Inr_iff)

lemma recorded_action_read:
  "get_all_actions now lg = Inr as \<Longrightarrow> get_all_actions now (record_action a lg) = Inr (as @ [stamp_action lg a])"
  by (simp add: get_all_actions_def record_action_def read_lines_snoc)

section \<open>Detection\<close>

text \<open>
  Every pattern the detector returns has a confidence between the configured minimum and 95
  percent, and the pattern a cycle continues with is one of the most confident.
\<close>

theorem detected_confidence_bounds:
  assumes "rank (detect hour rt pd sm as ss) = Some p"
  shows "p \<in> set (detect hour rt pd sm as ss) \<and>
    (\<forall>q \<in> set (detect hour rt pd sm as ss).
       pd_min_confidence pd \<le> ep_confidence q \<and> ep_confidence q \<le> ep_confidence p \<and> ep_confidence q \<le> 95 / 100)"
proof -
  have "q \<in> set (detect hour rt pd sm as ss) \<Longrightarrow>
      pd_min_confidence pd \<le> ep_confidence q \<and> ep_confidence q \<le> 95 / 100" for q
    using pattern_confidence[of q hour rt sm as ss] by (auto simp: detect_def split: if_splits)
  then show ?thesis using rank_max[OF assms] by blast
qed

definition edited_action :: "string \<Rightarrow> action_record" where
  "edited_action v = \<lparr>ar_action_type = ''post'', ar_outcome = ''edited'', ar_edits = [(''tone'', v)], ar_metrics = [],
     ar_payload = [], ar_claw_role = ''content'', ar_squad_id = ''s'', ar_timestamp = ''t''\<rparr>"

definition edited_log :: "action_record list" where
  "edited_log = replicate 5 (edited_action ''calm'')"

definition sample_detector :: detector where
  "sample_detector = \<lparr>pd_min_confidence = 6 / 10, pd_max_patterns = 5\<rparr>"

lemma edited_patterns:
  "\<exists>p. rank (detect (\<lambda>_. 0) id sample_detector (get_action_summary edited_log) edited_log []) = Some p"
proof -
  let ?ps = "detect (\<lambda>_. 0) id sample_detector (get_action_summary edited_log) edited_log []"
  have "?ps \<noteq> []"
    by (simp add: detect_def all_patterns_def detect_edit_patterns_def edited_log_def edited_action_def
        get_action_summary_def count_action_def count_metrics_def incr_def count_at_def edit_pattern_def Let_def
        EDIT_FREQUENCY_THRESHOLD_def MIN_ACTIONS_FOR_PATTERN_def sample_detector_def numeral_eq_Suc)
  then show ?thesis using rank_None[of ?ps] by auto
qed

theorem detected_confidence_bounds_witness:
  "\<exists>p. rank (detect (\<lambda>_. 0) id sample_detector (get_action_summary edited_log) edited_log []) = Some p
     \<and> 6 / 10 \<le> ep_confidence p \<and> ep_confidence p \<le> 95 / 100"
proof -
  obtain p where p: "rank (detect (\<lambda>_. 0) id sample_detector (get_action_summary edited_log) edited_log []) = Some p"
    using edited_patterns by blast
  show ?thesis using p detected_confidence_bounds[OF p] by (auto simp: sample_detector_def)
qed

section \<open>Permissions\<close>

definition log_source :: "string \<Rightarrow> bool" where
  "log_source s \<longleftrightarrow> prefix ''operation_log.'' s \<or> prefix ''cross_signal.'' s"

lemma log_source_unchecked: "log_source s \<Longrightarrow> check_source pol s = None"
  by (auto simp: log_source_def check_source_def is_file_source_def is_net_source_def prefix_def)

definition checkable :: "evolution_pattern \<Rightarrow> bool" where
  "checkable p \<longleftrightarrow> list_all log_source (ep_data_sources p) \<and> ep_type p \<in> set VALID_TOOL_TYPES"

lemma edit_checkable: "p \<in> set (edit_pattern sm edited fc) \<Longrightarrow> checkable p"
  by (auto simp: edit_pattern_def checkable_def log_source_def Let_def VALID_TOOL_TYPES_def split: if_splits)

lemma approval_checkable: "p \<in> set (approval_pattern g) \<Longrightarrow> checkable p"
  by (auto simp: approval_pattern_def checkable_def log_source_def Let_def VALID_TOOL_TYPES_def split: if_splits)

lemma timing_checkable: "p \<in> set (detect_timing_patterns hour as) \<Longrightarrow> checkable p"
  by (auto simp: detect_timing_patterns_def checkable_def log_source_def Let_def VALID_TOOL_TYPES_def
      split: if_splits list.splits)

lemma drift_checkable: "p \<in> set (drift_pattern rt g) \<Longrightarrow> checkable p"
  by (auto simp: drift_pattern_def checkable_def log_source_def Let_def VALID_TOOL_TYPES_def split: if_splits)

lemma cross_checkable: "p \<in> set (cross_pattern g) \<Longrightarrow> checkable p"
  by (auto simp: cross_pattern_def checkable_def log_source_def Let_def VALID_TOOL_TYPES_def list_all_iff
      split: if_splits)

lemma pattern_checkable: "p \<in> set (all_patterns hour rt sm as ss) \<Longrightarrow> checkable p"
  using edit_checkable approval_checkable timing_checkable drift_checkable cross_checkable
  by (auto simp: all_patterns_def detect_edit_patterns_def detect_approval_patterns_def
      detect_metric_drift_def detect_cross_signal_patterns_def Let_def split: if_splits)

text \<open>
  The permission check cannot reject a proposal the pipeline generates: the data sources of
  every detectable pattern name parts of the operation log or of signals, never a path or an
  address, and nothing else of the sandbox policy is compared.
\<close>

theorem permission_check_is_vacuous:
  assumes "p \<in> set (all_patterns hour rt sm as ss)" and "generate_proposal pid now p role squad = Inr pr"
  shows "validate_permissions pr pol = None"
proof -
  have pr: "tp_tool_type pr = ep_type p" "tp_data_sources pr = ep_data_sources p" "tp_status pr = ''proposed''"
    using assms(2) by (auto simp: generate_proposal_def map_sum_Inr_iff)
  show ?thesis
    using pattern_checkable[OF assms(1)]
    by (auto simp: validate_permissions_def checkable_def pr check_sources_None log_source_unchecked VALID_STATUSES_def list_all_iff)
qed

lemma edit_pattern_named: "p \<in> set (edit_pattern sm edited fc) \<Longrightarrow> \<exists>n. derive_tool_name p role = Inr n"
  by (auto simp: edit_pattern_def Let_def derive_tool_name_def has_detail_def detail_text_def split: if_splits)

lemma edited_log_detected: "detect_edit_patterns (get_action_summary edited_log) edited_log \<noteq> []"
  by (simp add: detect_edit_patterns_def edited_log_def edited_action_def
      get_action_summary_def count_action_def count_metrics_def incr_def count_at_def edit_pattern_def Let_def
      EDIT_FREQUENCY_THRESHOLD_def MIN_ACTIONS_FOR_PATTERN_def numeral_eq_Suc)

definition closed_policy :: sandbox_policy where
  "closed_policy = \<lparr>sp_read_write = [], sp_read_only = [], sp_network = []\<rparr>"

theorem permission_check_is_vacuous_witness:
  "\<exists>p pr. p \<in> set (all_patterns (\<lambda>_. 0) id (get_action_summary edited_log) edited_log [])
     \<and> generate_proposal ''i'' ''t'' p ''content'' ''s'' = Inr pr \<and> validate_permissions pr closed_policy = None"
proof -
  obtain p where p: "p \<in> set (detect_edit_patterns (get_action_summary edited_log) edited_log)"
    using edited_log_detected by (meson ex_in_conv set_empty)
  then have a: "p \<in> set (all_patterns (\<lambda>_. 0) id (get_action_summary edited_log) edited_log [])"
    by (simp add: all_patterns_def)
  obtain n where "derive_tool_name p ''content'' = Inr n"
    using p edit_pattern_named by (force simp: detect_edit_patterns_def Let_def split: if_splits)
  then obtain pr where "generate_proposal ''i'' ''t'' p ''content'' ''s'' = Inr pr"
    by (simp add: generate_proposal_def)
  then show ?thesis using a permission_check_is_vacuous[OF a] by blast
qed

section \<open>A cycle\<close>

lemma deploy_frame:
  assumes "deploy_stage env n b ec = (r, ec')" and "ec' \<noteq> ec"
  obtains t where "bl_tool b = Some t" "cy_tool r = Some (t\<lparr>bt_status := ''deployed''\<rparr>)"
    "active_count (ec_registry ec) < rg_max_tools (ec_registry ec)"
    "map_of (rg_tools (ec_registry ec')) (bt_tool_name t) = Some (t\<lparr>bt_status := ''deployed''\<rparr>)"
    "ec_log ec' = ec_log ec"
proof (cases "bl_tool b")
  case None
  then show ?thesis using assms by (simp add: deploy_stage_def)
next
  case (Some t)
  have lt: "active_count (ec_registry ec) < rg_max_tools (ec_registry ec)"
  proof (rule ccontr)
    assume "\<not> active_count (ec_registry ec) < rg_max_tools (ec_registry ec)"
    then show False using assms Some by (simp add: deploy_stage_def register_tool_def)
  qed
  have e: "cy_tool r = Some (t\<lparr>bt_status := ''deployed''\<rparr>)"
      "ec_registry ec' = snd (register_tool (ce_lib env) (ce_keys env) (ce_now_text env) t (ec_registry ec))"
      "ec_log ec' = ec_log ec"
    using assms(1) Some lt by (auto simp: deploy_stage_def register_tool_def cycle_result_of_def Let_def)
  have "map_of (rg_tools (ec_registry ec')) (bt_tool_name t) = Some (t\<lparr>bt_status := ''deployed''\<rparr>)"
    using lt by (simp add: e(2) register_tool_def save_registry_def update_conv)
  then show ?thesis using that[OF Some e(1) lt _ e(3)] by blast
qed

lemma build_tool: "bl_tool (build bd code h now p as) = Some t \<Longrightarrow>
    bt_tool_name t = tp_tool_name p \<and> tp_trigger (bt_proposal t) = tp_trigger p"
  by (auto simp: build_def Let_def)

lemma build_stage_frame:
  assumes "build_stage env n p ec = (res, ec')" and "ec' \<noteq> ec"
  shows "\<exists>r t. res = Inr r \<and> cy_tool r = Some t \<and> bt_status t = ''deployed'' \<and> tp_trigger (bt_proposal t) = tp_trigger p
    \<and> active_count (ec_registry ec) < rg_max_tools (ec_registry ec)
    \<and> map_of (rg_tools (ec_registry ec')) (bt_tool_name t) = Some t \<and> ec_log ec' = ec_log ec"
proof (cases "get_window (ce_ts env) (ce_now_text env) (ce_now env) (cf_backtest_weeks (ec_config ec) * 7) (ec_log ec)")
  case (Inl e)
  then show ?thesis using assms by (simp add: build_stage_def)
next
  case (Inr h)
  let ?b = "build (cycle_builder ec) (ce_inferred env) (ce_data_hash env) (ce_now_text env) p h"
  have passed: "bl_passed ?b" using assms Inr by (auto simp: build_stage_def Let_def split: if_splits)
  obtain r where r: "res = Inr r" "deploy_stage env n ?b ec = (r, ec')"
    using assms(1) Inr passed by (auto simp: build_stage_def Let_def split: prod.splits)
  obtain t where "bl_tool ?b = Some t" "cy_tool r = Some (t\<lparr>bt_status := ''deployed''\<rparr>)"
      "active_count (ec_registry ec) < rg_max_tools (ec_registry ec)"
      "map_of (rg_tools (ec_registry ec')) (bt_tool_name t) = Some (t\<lparr>bt_status := ''deployed''\<rparr>)"
      "ec_log ec' = ec_log ec"
    using deploy_frame[OF r(2) assms(2)] by blast
  then show ?thesis using r(1) build_tool[of "cycle_builder ec"] by force
qed

lemma propose_frame:
  assumes "propose_stage env dry n pat ec = (res, ec')" and "ec' \<noteq> ec"
  shows "\<exists>p. generate_proposal (ce_proposal_id env) (ce_now_text env) pat (ec_claw_role ec) (ec_squad_id ec) = Inr p
    \<and> \<not> dry \<and> \<not> cf_require_approval (ec_config ec) \<and> build_stage env n p ec = (res, ec')"
proof (cases "generate_proposal (ce_proposal_id env) (ce_now_text env) pat (ec_claw_role ec) (ec_squad_id ec)")
  case (Inr p)
  have "(case ce_policy env of None \<Rightarrow> None | Some pol \<Rightarrow> validate_permissions p pol) = None"
    using assms Inr by (auto simp: propose_stage_def split: option.splits)
  then show ?thesis using assms Inr by (auto simp: propose_stage_def split: if_splits)
qed (use assms in \<open>simp add: propose_stage_def\<close>)

lemma identify_frame:
  assumes "identify_stage env dry as ec = (res, ec')" and "ec' \<noteq> ec"
  shows "\<exists>ss pat. rank (detect (ce_hour env) (ce_sqrt env) (cycle_detector ec) (get_action_summary as) as ss) = Some pat
    \<and> propose_stage env dry (length (detect (ce_hour env) (ce_sqrt env) (cycle_detector ec) (get_action_summary as) as ss))
        pat ec = (res, ec')"
  using assms by (auto simp: identify_stage_def Let_def split: sum.splits option.splits)

lemma run_frame:
  assumes "run_cycle env dry ec = (res, ec')" and "ec' \<noteq> ec"
  shows "\<exists>as. get_window (ce_ts env) (ce_now_text env) (ce_now env) (cf_window_days (ec_config ec)) (ec_log ec) = Inr as
    \<and> cf_minimum_actions (ec_config ec) \<le> length as \<and> identify_stage env dry as ec = (res, ec')"
  using assms by (auto simp: run_cycle_def split: sum.splits if_splits)

lemma proposal_trigger: "generate_proposal pid now pat role squad = Inr p \<Longrightarrow> tp_trigger p = pat"
  by (auto simp: generate_proposal_def map_sum_Inr_iff)

text \<open>
  C33. A cycle changes nothing but by deploying: when the state after a run differs, it was no dry
  run, no approval of proposals is required, the window held the minimum of actions, the registry had
  capacity, the tool comes from a pattern of at least the configured confidence and is registered as
  deployed, and the log is as before.
\<close>

theorem cycle_changes_only_by_deploying:
  assumes "run_cycle env dry ec = (res, ec')" and "ec' \<noteq> ec"
  shows "\<not> dry \<and> \<not> cf_require_approval (ec_config ec) \<and> ec_log ec' = ec_log ec
    \<and> active_count (ec_registry ec) < rg_max_tools (ec_registry ec)
    \<and> (\<exists>as. get_window (ce_ts env) (ce_now_text env) (ce_now env) (cf_window_days (ec_config ec)) (ec_log ec) = Inr as
         \<and> cf_minimum_actions (ec_config ec) \<le> length as)
    \<and> (\<exists>r t. res = Inr r \<and> cy_tool r = Some t \<and> bt_status t = ''deployed''
         \<and> cf_min_confidence (ec_config ec) \<le> ep_confidence (tp_trigger (bt_proposal t))
         \<and> map_of (rg_tools (ec_registry ec')) (bt_tool_name t) = Some t)"
proof -
  obtain as where as: "get_window (ce_ts env) (ce_now_text env) (ce_now env) (cf_window_days (ec_config ec)) (ec_log ec) = Inr as"
      "cf_minimum_actions (ec_config ec) \<le> length as" "identify_stage env dry as ec = (res, ec')"
    using run_frame[OF assms] by blast
  obtain ss pat where pat: "rank (detect (ce_hour env) (ce_sqrt env) (cycle_detector ec) (get_action_summary as) as ss) = Some pat"
      "propose_stage env dry (length (detect (ce_hour env) (ce_sqrt env) (cycle_detector ec) (get_action_summary as) as ss))
        pat ec = (res, ec')"
    using identify_frame[OF as(3) assms(2)] by blast
  have conf: "cf_min_confidence (ec_config ec) \<le> ep_confidence pat"
    using rank_max(1)[OF pat(1)] by (simp add: detect_def cycle_detector_def split: if_splits)
  obtain p where p: "generate_proposal (ce_proposal_id env) (ce_now_text env) pat (ec_claw_role ec) (ec_squad_id ec) = Inr p"
      "\<not> dry" "\<not> cf_require_approval (ec_config ec)"
      "build_stage env (length (detect (ce_hour env) (ce_sqrt env) (cycle_detector ec) (get_action_summary as) as ss)) p ec
        = (res, ec')"
    using propose_frame[OF pat(2) assms(2)] by blast
  show ?thesis
    using build_stage_frame[OF p(4) assms(2)] proposal_trigger[OF p(1)] p(2,3) conf as(1,2) by metis
qed

text \<open>A log of ten actions, five of them edited in the same field, deploys a tool.\<close>

definition mixed_log :: "action_record list" where
  "mixed_log = replicate 5 (edited_action ''calm'') @ replicate 5 approved_action"

definition sample_env :: cycle_env where
  "sample_env = \<lparr>ce_now = 0, ce_now_text = ''n'', ce_ts = (\<lambda>_. 0), ce_hour = (\<lambda>_. 0), ce_sqrt = id, ce_policy = None,
     ce_inferred = None, ce_data_hash = (\<lambda>_. ''h''), ce_proposal_id = ''p'', ce_lib = prov_sample, ce_keys = (\<lambda>_. None)\<rparr>"

definition sample_cycle :: evolution_cycle where
  "sample_cycle = \<lparr>ec_squad_id = ''alpha'', ec_claw_role = ''content'',
     ec_config = default_config\<lparr>cf_minimum_actions := 10, cf_min_confidence := 7 / 10\<rparr>,
     ec_log = \<lparr>ol_squad_id = ''alpha'', ol_claw_role = ''content'',
       operations_file = map (\<lambda>a. Some (JObj (action_to_dict a))) mixed_log, signals_file = []\<rparr>,
     ec_registry = empty_registry 1, ec_staging = (\<lambda>_. None)\<rparr>"

lemma read_written_lines:
  "(\<And>a. rd (f a) = Inr a) \<Longrightarrow> read_lines rd keep (map (\<lambda>a. Some (JObj (f a))) as) = Inr (filter keep as)"
  by (induction as) auto

lemma sample_window: "0 \<le> days \<Longrightarrow> get_window (\<lambda>_. 0) n 0 days (ec_log sample_cycle) = Inr mixed_log"
  by (simp add: get_window_def sample_cycle_def read_written_lines)

lemma sample_summary: "sm_common_edits (get_action_summary mixed_log) = [(''tone'', 5)] \<and> sm_total (get_action_summary mixed_log) = 10"
  by (simp add: get_action_summary_def mixed_log_def numeral_eq_Suc count_action_def count_metrics_def
      edited_action_def approved_action_def incr_def count_at_def)

lemma sample_edit_pattern:
  "\<exists>p. edit_pattern (get_action_summary mixed_log) (filter (\<lambda>a. ar_outcome a = ''edited'') mixed_log) (''tone'', 5) = [p]
     \<and> ep_confidence p = 3 / 4 \<and> ep_metric_target p = ''approval_rate''"
  by (simp add: edit_pattern_def sample_summary Let_def EDIT_FREQUENCY_THRESHOLD_def MIN_ACTIONS_FOR_PATTERN_def)

lemma sample_detected:
  "\<exists>p. edit_pattern (get_action_summary mixed_log) (filter (\<lambda>a. ar_outcome a = ''edited'') mixed_log) (''tone'', 5) = [p]
    \<and> detect (\<lambda>_. 0) id (cycle_detector sample_cycle) (get_action_summary mixed_log) mixed_log [] = [p]"
proof -
  obtain p where p: "edit_pattern (get_action_summary mixed_log) (filter (\<lambda>a. ar_outcome a = ''edited'') mixed_log) (''tone'', 5) = [p]"
      "ep_confidence p = 3 / 4"
    using sample_edit_pattern by blast
  have e: "detect_edit_patterns (get_action_summary mixed_log) mixed_log = [p]"
    using p(1) by (simp add: detect_edit_patterns_def sample_summary Let_def)
      (simp add: mixed_log_def edited_action_def numeral_eq_Suc)
  have m: "detect_metric_drift id mixed_log = []"
    by (simp add: detect_metric_drift_def mixed_log_def edited_action_def approved_action_def group_by_def numeral_eq_Suc)
  have t: "detect_timing_patterns (\<lambda>_. 0) mixed_log = []"
    by (simp add: detect_timing_patterns_def mixed_log_def group_by_def group_add_def numeral_eq_Suc
        edited_action_def approved_action_def)
  have a: "ep_confidence q \<noteq> 7 / 10 \<and> ep_confidence q < 7 / 10" if "q \<in> set (detect_approval_patterns mixed_log)" for q
    using that
    by (simp add: detect_approval_patterns_def mixed_log_def group_by_def group_add_def numeral_eq_Suc
        edited_action_def approved_action_def approval_pattern_def tally_def incr_def count_at_def Let_def
        MIN_ACTIONS_FOR_PATTERN_def LOW_APPROVAL_THRESHOLD_def)
  have c: "detect_cross_signal_patterns [] = []" by (simp add: detect_cross_signal_patterns_def group_by_def)
  have "filter (\<lambda>q. 7 / 10 \<le> ep_confidence q) (detect_approval_patterns mixed_log) = []"
    using a by (force simp: filter_empty_conv)
  then have "detect (\<lambda>_. 0) id (cycle_detector sample_cycle) (get_action_summary mixed_log) mixed_log [] = [p]"
    using p(2) by (simp add: detect_def all_patterns_def e m t c sample_summary cycle_detector_def sample_cycle_def)
  then show ?thesis using p(1) by blast
qed

lemma sample_build:
  assumes "ep_confidence (tp_trigger p) = 3 / 4" and "tp_metric_target p = ''approval_rate''"
  shows "bl_passed (build (cycle_builder sample_cycle) code h now p mixed_log)"
proof -
  have "compute_baseline ''approval_rate'' mixed_log = 1 / 2"
    by (simp add: compute_baseline_def approval_baseline_def mixed_log_def numeral_eq_Suc edited_action_def
        approved_action_def approved_outcome_def)
  then show ?thesis
    using assms by (simp add: build_def Let_def backtest_verdict mixed_log_def cycle_builder_def sample_cycle_def default_config_def)
qed

lemma update_not_empty: "AList.update k v d \<noteq> []"
  by (cases d) auto

lemma deploy_adds:
  assumes "bl_tool b = Some t" and "active_count (ec_registry ec) < rg_max_tools (ec_registry ec)"
  shows "rg_tools (ec_registry (snd (deploy_stage env n b ec))) \<noteq> []"
  using assms by (simp add: deploy_stage_def register_tool_def update_not_empty Let_def)

lemma sample_run_deploys:
  "\<exists>r ec'. run_cycle sample_env False sample_cycle = (Inr r, ec') \<and> rg_tools (ec_registry ec') \<noteq> []"
proof -
  obtain p where p: "edit_pattern (get_action_summary mixed_log) (filter (\<lambda>a. ar_outcome a = ''edited'') mixed_log) (''tone'', 5) = [p]"
      "detect (\<lambda>_. 0) id (cycle_detector sample_cycle) (get_action_summary mixed_log) mixed_log [] = [p]"
    using sample_detected by blast
  have conf: "ep_confidence p = 3 / 4" "ep_metric_target p = ''approval_rate''" using p(1) sample_edit_pattern by auto
  obtain n where "derive_tool_name p ''content'' = Inr n"
    using edit_pattern_named[of p _ _ _ "''content''"] p(1) by (metis list.set_intros(1))
  then obtain pr where pr: "generate_proposal ''p'' ''n'' p ''content'' ''alpha'' = Inr pr"
      "ep_confidence (tp_trigger pr) = 3 / 4" "tp_metric_target pr = ''approval_rate''"
    using conf by (simp add: generate_proposal_def)
  let ?b = "build (cycle_builder sample_cycle) None (\<lambda>_. ''h'') ''n'' pr mixed_log"
  have b: "bl_passed ?b" using sample_build[OF pr(2,3)] .
  obtain t where t: "bl_tool ?b = Some t" by (simp add: build_def Let_def)
  have cap: "active_count (ec_registry sample_cycle) < rg_max_tools (ec_registry sample_cycle)"
    by (simp add: sample_cycle_def empty_registry_def active_count_def)
  obtain r ec' where d: "deploy_stage sample_env 1 ?b sample_cycle = (r, ec')" "rg_tools (ec_registry ec') \<noteq> []"
    using deploy_adds[OF t cap] by (metis prod.collapse)
  have e: "ce_ts sample_env = (\<lambda>_. 0)" "ce_now_text sample_env = ''n''" "ce_now sample_env = 0" "ce_hour sample_env = (\<lambda>_. 0)"
      "ce_sqrt sample_env = id" "ce_policy sample_env = None" "ce_proposal_id sample_env = ''p''"
      "ce_inferred sample_env = None" "ce_data_hash sample_env = (\<lambda>_. ''h'')"
    by (simp_all add: sample_env_def)
  have c: "ec_claw_role sample_cycle = ''content''" "ec_squad_id sample_cycle = ''alpha''"
      "cf_minimum_actions (ec_config sample_cycle) = 10" "cf_window_days (ec_config sample_cycle) = 7"
      "cf_backtest_weeks (ec_config sample_cycle) = 4" "\<not> cf_require_approval (ec_config sample_cycle)"
      "length mixed_log = 10"
    by (simp_all add: sample_cycle_def default_config_def mixed_log_def)
  have signals: "get_cross_signals (\<lambda>_. 0) ''n'' 0 k (ec_log sample_cycle) = Inr []" for k
    by (simp add: get_cross_signals_def sample_cycle_def)
  have "build_stage sample_env 1 pr sample_cycle = (Inr r, ec')"
    using b d(1) by (simp add: build_stage_def e c sample_window Let_def)
  then have "propose_stage sample_env False 1 p sample_cycle = (Inr r, ec')"
    using pr(1) by (simp add: propose_stage_def e c)
  then have "identify_stage sample_env False mixed_log sample_cycle = (Inr r, ec')"
    by (simp add: identify_stage_def e signals p(2) rank_def)
  then have "run_cycle sample_env False sample_cycle = (Inr r, ec')"
    by (simp add: run_cycle_def e c sample_window)
  then show ?thesis using d(2) by blast
qed

theorem cycle_changes_only_by_deploying_witness:
  "\<exists>r ec' t. run_cycle sample_env False sample_cycle = (Inr r, ec') \<and> cy_tool r = Some t \<and> bt_status t = ''deployed''
     \<and> map_of (rg_tools (ec_registry ec')) (bt_tool_name t) = Some t"
proof -
  obtain r ec' where run: "run_cycle sample_env False sample_cycle = (Inr r, ec')" "rg_tools (ec_registry ec') \<noteq> []"
    using sample_run_deploys by blast
  have "ec' \<noteq> sample_cycle" using run(2) by (auto simp: sample_cycle_def empty_registry_def)
  from cycle_changes_only_by_deploying[OF run(1) this] show ?thesis using run(1) by auto
qed

section \<open>The scheduler\<close>

definition stored :: "cycle_result \<Rightarrow> cycle_result" where
  "stored r = r\<lparr>cy_build := None\<rparr>"

definition history_kept :: "string \<Rightarrow> string \<Rightarrow> scheduler \<Rightarrow> bool" where
  "history_kept i now sc \<longleftrightarrow> read_history i now (sc_history_file sc) = Inr (map stored (sc_history sc))"

lemma read_history_snoc:
  "read_history i now js = Inr rs \<Longrightarrow> read_history i now (js @ [JObj (result_to_dict r)]) = Inr (rs @ [stored r])"
  by (induction i now js arbitrary: rs rule: read_history.induct)
    (auto simp: result_from_to_dict stored_def bind_sum_Inr map_sum_Inr_iff)

lemma history_note: "history_kept i now sc \<Longrightarrow> history_kept i now (note_result r sc)"
  by (simp add: history_kept_def note_result_def update_summary_def read_history_snoc)

lemma history_role:
  assumes "history_kept i now sc"
  shows "history_kept i now (snd (trigger_role env err dry rc sc))"
proof -
  obtain res ec' where run: "run_cycle (env (fst rc)) dry (snd rc) = (res, ec')" by fastforce
  have "history_kept i now (sc\<lparr>sc_cycles := AList.update (fst rc) ec' (sc_cycles sc)\<rparr>)"
    using assms by (simp add: history_kept_def)
  then show ?thesis by (cases res) (simp_all add: trigger_role_def run history_note Let_def)
qed

lemma history_roles: "history_kept i now sc \<Longrightarrow> history_kept i now (snd (trigger_roles env err dry rcs sc))"
proof (induction rcs arbitrary: sc)
  case (Cons rc rcs)
  then show ?case using history_role by (simp add: Let_def case_prod_beta)
qed simp

lemma history_trigger: "history_kept i now sc \<Longrightarrow> history_kept i now (snd (trigger env err role dry sc))"
  using history_roles[of i now sc env err dry] by (simp add: trigger_def del: trigger_roles.simps split: option.split list.split)

lemma read_history_stored: "read_history i now js = Inr rs \<Longrightarrow> map stored rs = rs"
proof (induction i now js arbitrary: rs rule: read_history.induct)
  case (2 i now d js)
  then obtain r rest where r: "result_from_dict i now d = Inr r" "read_history i now js = Inr rest" "rs = r # rest"
    by (auto simp: bind_sum_Inr map_sum_Inr_iff)
  have "stored r = r" using r(1) by (auto simp: result_from_dict_def stored_def bind_sum_Inr)
  then show ?case using 2(1)[OF r(2)] r(3) by simp
qed auto

text \<open>
  A scheduler opened on a readable history file keeps file and memory in step: after any sequence
  of triggers, failed cycles included, a new scheduler on the file has the history of the old one,
  without the build results, which are not written.
\<close>

theorem history_survives_restart:
  assumes "new_scheduler i now file summary = Inr sc0"
    and "sc = fold (\<lambda>(env, err, role, dry) s. snd (trigger env err role dry s)) calls (sc0\<lparr>sc_cycles := cycles\<rparr>)"
  shows "\<exists>sc'. new_scheduler i now (sc_history_file sc) (sc_summary_file sc) = Inr sc'
    \<and> sc_history sc' = map stored (sc_history sc)"
proof -
  have "history_kept i now (sc0\<lparr>sc_cycles := cycles\<rparr>)"
    using assms(1) by (auto simp: history_kept_def new_scheduler_def map_sum_Inr_iff read_history_stored)
  then have "history_kept i now (fold (\<lambda>(env, err, role, dry) s. snd (trigger env err role dry s)) calls s)"
    if "s = sc0\<lparr>sc_cycles := cycles\<rparr>" for s
    unfolding that
    by (induction calls arbitrary: cycles sc0 rule: rev_induct) (auto simp: history_trigger split: prod.split)
  then show ?thesis unfolding assms(2) by (auto simp: new_scheduler_def history_kept_def)
qed

theorem history_survives_restart_witness:
  "let sc = snd (trigger (\<lambda>_. sample_env) (\<lambda>_. ''error'') None False
       \<lparr>sc_cycles = [(''content'', sample_cycle)], sc_history = [], sc_history_file = [], sc_summary_file = None\<rparr>)
   in \<exists>sc'. new_scheduler ''i'' ''n'' (sc_history_file sc) (sc_summary_file sc) = Inr sc'
        \<and> sc_history sc' = map stored (sc_history sc)"
proof -
  have "new_scheduler ''i'' ''n'' [] None = Inr \<lparr>sc_cycles = [], sc_history = [], sc_history_file = [], sc_summary_file = None\<rparr>"
    by (simp add: new_scheduler_def)
  from history_survives_restart[OF this refl,
      of "[(\<lambda>_. sample_env, \<lambda>_. ''error'', None, False)]" "[(''content'', sample_cycle)]"]
  show ?thesis by (simp add: Let_def)
qed

end
