(* ===== verification/Address_Guard.thy ===== *)
theory Address_Guard
  imports Py_Text "HOL-Library.Word" "HOL-Library.Sublist"
begin

unbundle bit_operations_syntax

text \<open>
  What the code uses of Python's module \<^verbatim>\<open>ipaddress\<close>: addresses of 32 and 128 bits, the reading of
  their texts (\<open>ipaddress.ip_address\<close>) and membership in a network. An IPv6 address can carry a scope.
\<close>

section \<open>Addresses and networks\<close>

datatype ip_addr = IPv4 "32 word" | IPv6 "128 word" "string option"

definition ip4 :: "nat \<Rightarrow> nat \<Rightarrow> nat \<Rightarrow> nat \<Rightarrow> 32 word" where
  "ip4 a b c d = word_of_nat (((a * 256 + b) * 256 + c) * 256 + d)"

definition ip6 :: "nat list \<Rightarrow> 128 word" where
  "ip6 hs = foldl (\<lambda>w h. push_bit 16 w OR word_of_nat h) 0 hs"

text \<open>\<open>ip in network\<close>: the bits of the network mask agree with the network address.\<close>

definition in_network :: "'l::len word \<Rightarrow> 'l word \<times> nat \<Rightarrow> bool" where
  "in_network ip n = (ip AND NOT (mask (LENGTH('l) - snd n)) = fst n)"

section \<open>Reading an address\<close>

definition parse_octet :: "string \<Rightarrow> nat option" where
  "parse_octet s =
     (if s = [] \<or> \<not> py_isdigit s \<or> 3 < length s \<or> (s \<noteq> ''0'' \<and> hd s = CHR ''0'') then None
      else if 255 < nat_of_digits s then None else Some (nat_of_digits s))"

definition parse_ipv4 :: "string \<Rightarrow> 32 word option" where
  "parse_ipv4 s =
     (if CHR ''/'' \<in> set s then None
      else case map parse_octet (py_split CHR ''.'' s) of
        [Some a, Some b, Some c, Some d] \<Rightarrow> Some (ip4 a b c d)
      | _ \<Rightarrow> None)"

fun hex_number :: "nat \<Rightarrow> string \<Rightarrow> nat option" where
  "hex_number acc [] = Some acc"
| "hex_number acc (c # cs) = (case hex_value c of None \<Rightarrow> None | Some v \<Rightarrow> hex_number (16 * acc + v) cs)"

definition parse_hextet :: "string \<Rightarrow> nat option" where
  "parse_hextet s = (if s = [] \<or> 4 < length s then None else hex_number 0 s)"

fun parse_hextets :: "string list \<Rightarrow> nat list option" where
  "parse_hextets [] = Some []"
| "parse_hextets (p # ps) =
     (case (parse_hextet p, parse_hextets ps) of (Some h, Some hs) \<Rightarrow> Some (h # hs) | _ \<Rightarrow> None)"

text \<open>The last part in the IPv4 form stands for two parts of 16 bits.\<close>

fun hex_digits :: "nat \<Rightarrow> string" where
  "hex_digits n = (if n < 16 then [hex_digit n] else hex_digits (n div 16) @ [hex_digit (n mod 16)])"

definition expand_ipv4_tail :: "string list \<Rightarrow> string list option" where
  "expand_ipv4_tail ps =
     (if CHR ''.'' \<in> set (last ps)
      then (case parse_ipv4 (last ps) of
              None \<Rightarrow> None
            | Some w \<Rightarrow> Some (butlast ps @ [hex_digits (unat w div 65536), hex_digits (unat w mod 65536)]))
      else Some ps)"

definition empty_inside :: "string list \<Rightarrow> nat list" where
  "empty_inside ps = filter (\<lambda>i. ps ! i = []) [1..<length ps - 1]"

text \<open>
  The parts before and after a double colon; an empty first or last part belongs to it. Without one
  all parts count. The result is the number of parts on either side and the number of parts skipped.
\<close>

definition split_hextets :: "string list \<Rightarrow> (nat \<times> nat \<times> nat) option" where
  "split_hextets ps =
     (case empty_inside ps of
        [] \<Rightarrow> if length ps = 8 \<and> hd ps \<noteq> [] \<and> last ps \<noteq> [] then Some (8, 0, 0) else None
      | [i] \<Rightarrow>
          (let hi = (if hd ps = [] then i - 1 else i);
               lo = (if last ps = [] then length ps - i - 2 else length ps - i - 1)
           in if (hd ps = [] \<and> hi \<noteq> 0) \<or> (last ps = [] \<and> lo \<noteq> 0) \<or> 8 - (hi + lo) < 1 then None
              else Some (hi, lo, 8 - (hi + lo)))
      | _ \<Rightarrow> None)"

definition parse_ipv6_parts :: "string list \<Rightarrow> 128 word option" where
  "parse_ipv6_parts ps =
     (if 9 < length ps then None
      else case split_hextets ps of
        None \<Rightarrow> None
      | Some (hi, lo, skipped) \<Rightarrow>
          (case (parse_hextets (take hi ps), parse_hextets (drop (length ps - lo) ps)) of
             (Some hs, Some ls) \<Rightarrow> Some (ip6 (hs @ replicate skipped 0 @ ls))
           | _ \<Rightarrow> None))"

definition parse_ipv6_text :: "string \<Rightarrow> 128 word option" where
  "parse_ipv6_text s =
     (if s = [] then None
      else let ps = py_split CHR '':'' s in
        if length ps < 3 then None
        else case expand_ipv4_tail ps of None \<Rightarrow> None | Some qs \<Rightarrow> parse_ipv6_parts qs)"

definition split_scope :: "string \<Rightarrow> (string \<times> string option) option" where
  "split_scope s =
     (case py_split CHR ''%'' s of
        [a] \<Rightarrow> Some (a, None)
      | [a, sc] \<Rightarrow> if sc = [] then None else Some (a, Some sc)
      | _ \<Rightarrow> None)"

definition parse_ipv6 :: "string \<Rightarrow> ip_addr option" where
  "parse_ipv6 s =
     (if CHR ''/'' \<in> set s then None
      else case split_scope s of
        None \<Rightarrow> None
      | Some (a, sc) \<Rightarrow> map_option (\<lambda>w. IPv6 w sc) (parse_ipv6_text a))"

definition parse_ip :: "string \<Rightarrow> ip_addr option" where
  "parse_ip s = (case parse_ipv4 s of Some w \<Rightarrow> Some (IPv4 w) | None \<Rightarrow> parse_ipv6 s)"

section \<open>Networks are intervals\<close>

lemma and_not_mask: "x AND NOT (mask k) = x - take_bit k x" for x :: "'l::len word"
proof -
  have "x = (x AND NOT (mask k)) + take_bit k x"
    by (subst disjunctive_add) (auto simp: bit_simps intro!: bit_word_eqI)
  then show ?thesis by (metis add_diff_cancel_right')
qed

lemma unat_and_not_mask: "unat (x AND NOT (mask k)) = unat x - unat x mod 2 ^ k" for x :: "'l::len word"
proof -
  have take: "unat (take_bit k x) = unat x mod 2 ^ k"
    using unsigned_take_bit_eq[where 'a = nat] by (metis take_bit_eq_mod)
  moreover have "take_bit k x \<le> x" by (simp add: word_le_nat_alt take)
  ultimately show ?thesis by (simp add: and_not_mask unat_sub take)
qed

lemma in_network_interval:
  fixes ip :: "'l::len word"
  assumes "k = LENGTH('l) - len" and "unat base mod 2 ^ k = 0"
  shows "in_network ip (base, len) \<longleftrightarrow> unat base \<le> unat ip \<and> unat ip < unat base + 2 ^ k"
proof -
  let ?m = "2 ^ k :: nat"
  have "in_network ip (base, len) \<longleftrightarrow> unat ip - unat ip mod ?m = unat base"
    by (simp add: in_network_def word_unat_eq_iff[of _ base] unat_and_not_mask assms(1))
  also have "\<dots> \<longleftrightarrow> unat ip div ?m = unat base div ?m"
  proof -
    have "unat base = unat base div ?m * ?m" using assms(2) by (metis add.right_neutral div_mult_mod_eq)
    moreover have "unat ip - unat ip mod ?m = unat ip div ?m * ?m" by (simp add: minus_mod_eq_div_mult)
    ultimately show ?thesis by (metis mult_cancel2 power_not_zero zero_neq_numeral)
  qed
  also have "\<dots> \<longleftrightarrow> unat base \<le> unat ip \<and> unat ip < unat base + ?m"
  proof -
    obtain q where q: "unat base = q * ?m" using assms(2) by (metis add.right_neutral div_mult_mod_eq)
    have m: "0 < ?m" by simp
    have "x div ?m = q \<longleftrightarrow> q * ?m \<le> x \<and> x < q * ?m + ?m" for x
      using div_nat_eqI[of ?m q x] times_div_less_eq_dividend[of ?m x] dividend_less_times_div[OF m, of x]
      by (auto simp: mult.commute)
    then show ?thesis unfolding q by simp
  qed
  finally show ?thesis .
qed

chapter \<open>The guard\<close>

text \<open>
  \<^verbatim>\<open>milimo-core/src/milimo_core/ssrf_validator.py\<close>: the check of the egress endpoints of a network policy
  against private networks and metadata services. Errors and warnings are values; the answers of the
  name service are a parameter (a failed look-up is none, the list has no duplicates, as
  \<open>list(set(\<dots>))\<close> gives it), and so are the endpoints and deny rules of the YAML file, whose missing
  keys are none.
\<close>

section \<open>Constants\<close>

definition PRIVATE_NETWORKS :: "(32 word \<times> nat) list" where
  "PRIVATE_NETWORKS =
     [(ip4 10 0 0 0, 8), (ip4 172 16 0 0, 12), (ip4 192 168 0 0, 16), (ip4 127 0 0 0, 8),
      (ip4 169 254 0 0, 16), (ip4 224 0 0 0, 4), (ip4 240 0 0 0, 4), (ip4 255 255 255 255, 32)]"

definition PRIVATE_IPV6_NETWORKS :: "(128 word \<times> nat) list" where
  "PRIVATE_IPV6_NETWORKS =
     [(ip6 [0, 0, 0, 0, 0, 0, 0, 1], 128), (ip6 [0xfe80, 0, 0, 0, 0, 0, 0, 0], 10),
      (ip6 [0xfc00, 0, 0, 0, 0, 0, 0, 0], 7), (ip6 [0xff00, 0, 0, 0, 0, 0, 0, 0], 8),
      (ip6 [0, 0, 0, 0, 0, 0xffff, 0, 0], 96), (ip6 [0x2001, 0xdb8, 0, 0, 0, 0, 0, 0], 32),
      (ip6 [0x2001, 0x10, 0, 0, 0, 0, 0, 0], 28), (ip6 [0x2001, 0x20, 0, 0, 0, 0, 0, 0], 28)]"

definition METADATA_IPS :: "ip_addr list" where
  "METADATA_IPS = [IPv4 (ip4 169 254 169 254), IPv6 (ip6 [0xfd00, 0xec2, 0, 0, 0, 0, 0, 0x254]) None]"

definition RFC2544_RANGE :: "32 word \<times> nat" where
  "RFC2544_RANGE = (ip4 198 18 0 0, 15)"

section \<open>Policy and results\<close>

record ssrf_policy =
  allow_private_network :: bool
  dangerously_allow_private_network :: bool
  allow_rfc2544_benchmark_range :: bool
  allowed_hostnames :: "string list"
  hostname_allowlist :: "string list"
  require_dns_resolution :: bool
  allow_local_nim :: bool

definition default_ssrf_policy :: ssrf_policy where
  "default_ssrf_policy = \<lparr>allow_private_network = False, dangerously_allow_private_network = False,
     allow_rfc2544_benchmark_range = False, allowed_hostnames = [], hostname_allowlist = [],
     require_dns_resolution = True, allow_local_nim = True\<rparr>"

datatype ssrf_error =
    PrivateIPv4 "32 word" | PrivateIPv6 "128 word" "string option" | MetadataIP ip_addr | InvalidIP string
  | DnsFailed string | DnsDisabled string | LocalNimDenied | InvalidPort int | UnknownProtocol string

datatype ssrf_warning =
    OptionalDnsFailed string | OptionalDnsSkipped string | HttpOn443 | HttpsOn80 | MatchesDenyRule string

record ssrf_result =
  sr_host :: string
  sr_port :: int
  sr_protocol :: string
  sr_valid :: bool
  sr_errors :: "ssrf_error list"
  sr_warnings :: "ssrf_warning list"
  sr_ips :: "string list"

record ssrf_report =
  total_endpoints :: nat
  valid_endpoints :: nat
  invalid_endpoints :: nat
  rp_results :: "ssrf_result list"

definition has_failures :: "ssrf_report \<Rightarrow> bool" where
  "has_failures rp = (0 < invalid_endpoints rp)"

section \<open>Addresses\<close>

definition is_private_ipv4 :: "ssrf_policy \<Rightarrow> 32 word \<Rightarrow> bool" where
  "is_private_ipv4 pol ip =
     (list_ex (in_network ip) PRIVATE_NETWORKS
      \<or> (\<not> allow_rfc2544_benchmark_range pol \<and> in_network ip RFC2544_RANGE))"

definition is_private_ipv6 :: "128 word \<Rightarrow> bool" where
  "is_private_ipv6 ip = list_ex (in_network ip) PRIVATE_IPV6_NETWORKS"

definition is_metadata_ip :: "ip_addr \<Rightarrow> bool" where
  "is_metadata_ip ip = (ip \<in> set METADATA_IPS)"

definition validate_ip :: "ssrf_policy \<Rightarrow> string \<Rightarrow> ssrf_error list" where
  "validate_ip pol s =
     (case parse_ip s of
        None \<Rightarrow> [InvalidIP s]
      | Some (IPv4 w) \<Rightarrow>
          (if is_private_ipv4 pol w \<and> \<not> dangerously_allow_private_network pol then [PrivateIPv4 w] else [])
          @ (if is_metadata_ip (IPv4 w) then [MetadataIP (IPv4 w)] else [])
      | Some (IPv6 w sc) \<Rightarrow>
          (if is_private_ipv6 w \<and> \<not> dangerously_allow_private_network pol then [PrivateIPv6 w sc] else [])
          @ (if is_metadata_ip (IPv6 w sc) then [MetadataIP (IPv6 w sc)] else []))"

definition wildcard_matches :: "string \<Rightarrow> string \<Rightarrow> bool" where
  "wildcard_matches host p =
     (prefix ''*.'' p \<and> (host = drop 2 p \<or> suffix (CHR ''.'' # drop 2 p) host))"

definition is_allowed_hostname :: "ssrf_policy \<Rightarrow> string \<Rightarrow> bool" where
  "is_allowed_hostname pol host =
     (let allowed = allowed_hostnames pol @ hostname_allowlist pol
      in host \<in> set allowed \<or> list_ex (wildcard_matches host) allowed)"

section \<open>Endpoints\<close>

type_synonym dns_cache = "string \<rightharpoonup> string list"

definition resolve_hostname :: "(string \<Rightarrow> string list option) \<Rightarrow> string \<Rightarrow> dns_cache \<Rightarrow> string list \<times> dns_cache" where
  "resolve_hostname look host cache =
     (case cache host of
        Some ips \<Rightarrow> (ips, cache)
      | None \<Rightarrow> (case look host of
            Some ips \<Rightarrow> (ips, cache(host \<mapsto> ips))
          | None \<Rightarrow> ([], cache)))"

definition add_error :: "ssrf_error \<Rightarrow> ssrf_result \<Rightarrow> ssrf_result" where
  "add_error e r = r\<lparr>sr_errors := sr_errors r @ [e], sr_valid := False\<rparr>"

definition add_warning :: "ssrf_warning \<Rightarrow> ssrf_result \<Rightarrow> ssrf_result" where
  "add_warning w r = r\<lparr>sr_warnings := sr_warnings r @ [w]\<rparr>"

definition check_address :: "ssrf_policy \<Rightarrow> ssrf_result \<Rightarrow> string \<Rightarrow> ssrf_result" where
  "check_address pol r ip =
     (let es = validate_ip pol ip in
      if es = [] then r else r\<lparr>sr_errors := sr_errors r @ es, sr_valid := False\<rparr>)"

definition check_dns :: "ssrf_policy \<Rightarrow> (string \<Rightarrow> string list option) \<Rightarrow> string \<Rightarrow> bool \<Rightarrow> ssrf_result \<Rightarrow> dns_cache
    \<Rightarrow> ssrf_result \<times> dns_cache" where
  "check_dns pol look host optional r cache =
     (if require_dns_resolution pol
      then (let (ips, cache') = resolve_hostname look host cache; r1 = r\<lparr>sr_ips := ips\<rparr> in
            (if ips = []
             then (if optional then add_warning (OptionalDnsFailed host) r1 else add_error (DnsFailed host) r1)
             else foldl (check_address pol) r1 ips, cache'))
      else (if optional then add_warning (OptionalDnsSkipped host) r else add_error (DnsDisabled host) r, cache))"

definition check_local_nim :: "ssrf_policy \<Rightarrow> string \<Rightarrow> ssrf_result \<Rightarrow> ssrf_result" where
  "check_local_nim pol host r =
     (if host = ''nim-service.local'' \<and> \<not> allow_local_nim pol then add_error LocalNimDenied r else r)"

definition check_port :: "int \<Rightarrow> ssrf_result \<Rightarrow> ssrf_result" where
  "check_port port r = (if port < 1 \<or> 65535 < port then add_error (InvalidPort port) r else r)"

definition check_protocol :: "string \<Rightarrow> ssrf_result \<Rightarrow> ssrf_result" where
  "check_protocol protocol r =
     (if protocol \<notin> {''http'', ''https'', ''tcp'', ''udp''} then add_error (UnknownProtocol protocol) r else r)"

definition check_mismatch :: "string \<Rightarrow> int \<Rightarrow> ssrf_result \<Rightarrow> ssrf_result" where
  "check_mismatch protocol port r =
     (let r1 = (if protocol = ''http'' \<and> port = 443 then add_warning HttpOn443 r else r)
      in if protocol = ''https'' \<and> port = 80 then add_warning HttpsOn80 r1 else r1)"

text \<open>\<open>_validate_endpoint\<close>: the answer of \<open>_is_allowed_hostname\<close> is asked for and not used.\<close>

definition validate_endpoint :: "ssrf_policy \<Rightarrow> (string \<Rightarrow> string list option) \<Rightarrow> string \<Rightarrow> int \<Rightarrow> string \<Rightarrow> bool
    \<Rightarrow> dns_cache \<Rightarrow> ssrf_result \<times> dns_cache" where
  "validate_endpoint pol look host port protocol optional cache =
     (let r0 = \<lparr>sr_host = host, sr_port = port, sr_protocol = protocol, sr_valid = True, sr_errors = [],
                sr_warnings = [], sr_ips = []\<rparr>;
          r1 = (if is_allowed_hostname pol host then r0 else r0);
          (r2, cache') = check_dns pol look host optional r1 cache
      in (check_mismatch protocol port (check_protocol protocol (check_port port (check_local_nim pol host r2))), cache'))"

section \<open>The policy file\<close>

record endpoint =
  en_host :: "string option"
  en_port :: "int option"
  en_protocol :: "string option"
  en_optional :: bool

record deny_rule =
  dn_host :: "string option"
  dn_port :: "int option"
  dn_protocol :: "string option"
  dn_reason :: "string option"

text \<open>\<open>endpoint["host"]\<close> and its neighbours raise \<open>KeyError\<close> when the key is missing.\<close>

datatype policy_error = KeyError string

definition endpoint_fields :: "endpoint \<Rightarrow> policy_error + (string \<times> int \<times> string)" where
  "endpoint_fields e =
     (case en_host e of None \<Rightarrow> Inl (KeyError ''host'')
      | Some h \<Rightarrow> (case en_port e of None \<Rightarrow> Inl (KeyError ''port'')
         | Some p \<Rightarrow> (case en_protocol e of None \<Rightarrow> Inl (KeyError ''protocol'') | Some q \<Rightarrow> Inr (h, p, q))))"

definition count_result :: "ssrf_result \<Rightarrow> ssrf_report \<Rightarrow> ssrf_report" where
  "count_result r rp =
     (let rp1 = rp\<lparr>rp_results := rp_results rp @ [r]\<rparr>
      in if sr_valid r then rp1\<lparr>valid_endpoints := valid_endpoints rp1 + 1\<rparr>
         else rp1\<lparr>invalid_endpoints := invalid_endpoints rp1 + 1\<rparr>)"

text \<open>The name service may answer differently each time: \<open>look i\<close> are its answers at endpoint \<open>i\<close>.\<close>

fun validate_endpoints :: "ssrf_policy \<Rightarrow> (nat \<Rightarrow> string \<Rightarrow> string list option) \<Rightarrow> nat \<Rightarrow> endpoint list \<Rightarrow> dns_cache
    \<Rightarrow> ssrf_report \<Rightarrow> policy_error + (ssrf_report \<times> dns_cache)" where
  "validate_endpoints pol look i [] cache rp = Inr (rp, cache)"
| "validate_endpoints pol look i (e # es) cache rp =
     (case endpoint_fields e of
        Inl x \<Rightarrow> Inl x
      | Inr (h, p, q) \<Rightarrow>
          (let (r, cache') = validate_endpoint pol (look i) h p q (en_optional e) cache
           in validate_endpoints pol look (Suc i) es cache' (count_result r rp)))"

definition deny_matches :: "deny_rule \<Rightarrow> endpoint \<Rightarrow> bool" where
  "deny_matches d e =
     ((case dn_host d of None \<Rightarrow> True | Some h \<Rightarrow> h = ''*'' \<or> en_host e = Some h)
      \<and> (case dn_port d of None \<Rightarrow> True | Some p \<Rightarrow> en_port e = Some p)
      \<and> (case dn_protocol d of None \<Rightarrow> True | Some q \<Rightarrow> en_protocol e = Some q)
      \<and> dn_host d \<noteq> Some ''169.254.169.254'')"

definition warn_deny :: "deny_rule \<Rightarrow> endpoint \<Rightarrow> ssrf_result \<Rightarrow> ssrf_result" where
  "warn_deny d e r =
     (if Some (sr_host r) = en_host e \<and> Some (sr_port r) = en_port e
      then add_warning (MatchesDenyRule (case dn_reason d of Some s \<Rightarrow> s | None \<Rightarrow> ''No reason'')) r
      else r)"

definition check_deny_conflicts :: "endpoint list \<Rightarrow> deny_rule list \<Rightarrow> ssrf_report \<Rightarrow> ssrf_report" where
  "check_deny_conflicts es ds rp =
     foldl (\<lambda>rp d. foldl (\<lambda>rp e. if deny_matches d e
         then rp\<lparr>rp_results := map (warn_deny d e) (rp_results rp)\<rparr> else rp) rp es) rp ds"

definition validate_policy_file :: "ssrf_policy \<Rightarrow> (nat \<Rightarrow> string \<Rightarrow> string list option) \<Rightarrow> endpoint list \<Rightarrow> deny_rule list
    \<Rightarrow> dns_cache \<Rightarrow> policy_error + (ssrf_report \<times> dns_cache)" where
  "validate_policy_file pol look es ds cache =
     map_sum id (\<lambda>(rp, cache'). (check_deny_conflicts es ds rp, cache'))
       (validate_endpoints pol look 0 es cache
          \<lparr>total_endpoints = length es, valid_endpoints = 0, invalid_endpoints = 0, rp_results = []\<rparr>)"

text \<open>The policy \<open>main\<close> builds from its flags \<open>--allow-private\<close>, \<open>--allow-rfc2544\<close>, \<open>--skip-dns\<close> and
  \<open>--allow-local-nim\<close>.\<close>

definition policy_of_flags :: "bool \<Rightarrow> bool \<Rightarrow> bool \<Rightarrow> bool \<Rightarrow> ssrf_policy" where
  "policy_of_flags allow_private allow_rfc2544 skip_dns local_nim =
     default_ssrf_policy\<lparr>dangerously_allow_private_network := allow_private,
       allow_rfc2544_benchmark_range := allow_rfc2544, require_dns_resolution := \<not> skip_dns,
       allow_local_nim := local_nim\<rparr>"

text \<open>The exit code of \<open>main\<close> once the report is there.\<close>

definition exit_code :: "bool \<Rightarrow> ssrf_report \<Rightarrow> int" where
  "exit_code fail_on_warning rp =
     (if has_failures rp \<or> (fail_on_warning \<and> list_ex (\<lambda>r. sr_warnings r \<noteq> []) (rp_results rp)) then 1 else 0)"

section \<open>The shipped policy\<close>

definition https_endpoint :: "string \<Rightarrow> endpoint" where
  "https_endpoint h = \<lparr>en_host = Some h, en_port = Some 443, en_protocol = Some ''https'', en_optional = False\<rparr>"

text \<open>Endpoints with \<open>access: full\<close> have no \<open>protocol\<close>.\<close>

definition tunnel_endpoint :: "string \<Rightarrow> endpoint" where
  "tunnel_endpoint h = \<lparr>en_host = Some h, en_port = Some 443, en_protocol = None, en_optional = False\<rparr>"

definition shipped_endpoints :: "endpoint list" where
  "shipped_endpoints =
     map https_endpoint [''api.github.com'', ''github.com'', ''registry.npmjs.org'', ''pypi.org'',
       ''files.pythonhosted.org'', ''api.stripe.com'']
     @ map tunnel_endpoint [''api.link.com'', ''login.link.com'', ''app.link.com'']
     @ map https_endpoint [''api.vercel.com'', ''api.sentry.io'', ''api.twitter.com'', ''api.x.com'',
       ''api.linkedin.com'', ''api.tiktok.com'', ''integrate.api.nvidia.com'', ''ipapi.co'']
     @ [\<lparr>en_host = Some ''ip-api.com'', en_port = Some 80, en_protocol = Some ''http'', en_optional = False\<rparr>,
        (https_endpoint ''ncp.api.nvidia.com'')\<lparr>en_optional := True\<rparr>]
     @ map tunnel_endpoint [''portal.nousresearch.com'', ''inference-api.nousresearch.com'']
     @ [\<lparr>en_host = Some ''nim-service.local'', en_port = Some 8000, en_protocol = Some ''http'', en_optional = True\<rparr>]"

definition shipped_deny :: "deny_rule list" where
  "shipped_deny =
     [\<lparr>dn_host = Some ''*'', dn_port = Some 22, dn_protocol = Some ''tcp'', dn_reason = Some ''No SSH from sandbox''\<rparr>,
      \<lparr>dn_host = Some ''*'', dn_port = Some 3306, dn_protocol = Some ''tcp'', dn_reason = Some ''No direct MySQL''\<rparr>,
      \<lparr>dn_host = Some ''*'', dn_port = Some 5432, dn_protocol = Some ''tcp'', dn_reason = Some ''No direct PostgreSQL''\<rparr>,
      \<lparr>dn_host = Some ''169.254.169.254'', dn_port = Some 80, dn_protocol = Some ''http'',
        dn_reason = Some ''Block AWS/GCP/Azure metadata service''\<rparr>]"

end
