(* ===== verification/Address_Props.thy ===== *)
theory Address_Props
  imports Address_Guard Json_Read
begin

text \<open>
  Properties of the egress check: which addresses are refused, as conditions on the numbers a reader
  sees in an address; when an endpoint is valid; what the report counts; and the shipped policy.
\<close>

section \<open>IPv4 addresses\<close>

abbreviation octets :: "nat \<Rightarrow> nat \<Rightarrow> nat \<Rightarrow> nat \<Rightarrow> bool" where
  "octets a b c d \<equiv> a < 256 \<and> b < 256 \<and> c < 256 \<and> d < 256"

lemma unat_ip4:
  assumes "octets a b c d"
  shows "unat (ip4 a b c d) = ((a * 256 + b) * 256 + c) * 256 + d"
proof -
  have "((a * 256 + b) * 256 + c) * 256 + d < 2 ^ LENGTH(32)" using assms by simp
  then show ?thesis unfolding ip4_def by (metis of_nat_inverse)
qed

text \<open>A network whose mask ends within the first two octets.\<close>

lemma in_network_ip4:
  assumes "octets a b c d" "p < 256" "q < 256" and "2 ^ (32 - len) = (65536 * w :: nat)" and "(p * 256 + q) mod w = 0"
  shows "in_network (ip4 a b c d) (ip4 p q 0 0, len) \<longleftrightarrow>
    p * 256 + q \<le> a * 256 + b \<and> a * 256 + b < p * 256 + q + w"
proof -
  let ?x = "a * 256 + b" and ?r = "c * 256 + d"
  have base: "unat (ip4 p q 0 0) = (p * 256 + q) * 65536" using assms(2,3) by (simp add: unat_ip4)
  have n: "unat (ip4 a b c d) = ?x * 65536 + ?r" and r: "?r < 65536" using assms(1) by (simp_all add: unat_ip4)
  have d: "(?x * 65536 + ?r) div 65536 = ?x" using r by simp
  have "unat (ip4 p q 0 0) mod 2 ^ (32 - len) = 0"
    unfolding base assms(4) using assms(5) by (metis mod_mult_mult1 mult.commute mult_zero_right)
  then have "in_network (ip4 a b c d) (ip4 p q 0 0, len) \<longleftrightarrow>
      unat (ip4 p q 0 0) \<le> unat (ip4 a b c d) \<and> unat (ip4 a b c d) < unat (ip4 p q 0 0) + 2 ^ (32 - len)"
    by (rule in_network_interval[rotated]) simp
  also have "\<dots> \<longleftrightarrow> (p * 256 + q) * 65536 \<le> ?x * 65536 + ?r \<and> ?x * 65536 + ?r < (p * 256 + q + w) * 65536"
    unfolding base n assms(4) by (simp add: distrib_right mult.commute[of w])
  also have "\<dots> \<longleftrightarrow> p * 256 + q \<le> ?x \<and> ?x < p * 256 + q + w"
    using less_eq_div_iff_mult_less_eq[of 65536 "p * 256 + q" "?x * 65536 + ?r"]
      div_less_iff_less_mult[of 65536 "?x * 65536 + ?r" "p * 256 + q + w"] by (simp only: d)
  finally show ?thesis .
qed

lemma octet_interval:
  fixes a b :: nat
  assumes "b < 256" and "Q + w \<le> 256"
  shows "P * 256 + Q \<le> a * 256 + b \<and> a * 256 + b < P * 256 + Q + w \<longleftrightarrow> a = P \<and> Q \<le> b \<and> b < Q + w"
proof (cases "a = P")
  case False
  then have "a < P \<or> P < a" by linarith
  then show ?thesis using assms by auto
qed (use assms in auto)

lemma octet_eq: "b < 256 \<Longrightarrow> Q < 256 \<Longrightarrow> a * 256 + b = P * 256 + Q \<longleftrightarrow> a = P \<and> b = (Q :: nat)"
  using octet_interval[of b Q 1 P a] by linarith

lemma in_network_second:
  assumes "octets a b c d" "p < 256" "q + w \<le> 256" "0 < w" and "2 ^ (32 - len) = (65536 * w :: nat)" and "(p * 256 + q) mod w = 0"
  shows "in_network (ip4 a b c d) (ip4 p q 0 0, len) \<longleftrightarrow> a = p \<and> q \<le> b \<and> b < q + w"
  using in_network_ip4[of a b c d p q len w] octet_interval[of b q w p a] assms by simp

lemma in_network_first:
  assumes "octets a b c d" "p < 256" and "2 ^ (32 - len) = (65536 * (256 * v) :: nat)" and "p mod v = 0"
  shows "in_network (ip4 a b c d) (ip4 p 0 0 0, len) \<longleftrightarrow> p \<le> a \<and> a < p + v"
proof -
  have "(p * 256 + 0) mod (256 * v) = 0" using assms(4) by (simp add: mult.commute[of p])
  then show ?thesis
    using in_network_ip4[of a b c d p 0 len "256 * v"] assms(1,2,3) by auto
qed

definition blocked_octets :: "bool \<Rightarrow> nat \<Rightarrow> nat \<Rightarrow> bool" where
  "blocked_octets benchmark a b \<longleftrightarrow> a = 10 \<or> a = 127 \<or> 224 \<le> a \<or> (a = 172 \<and> 16 \<le> b \<and> b < 32)
     \<or> (a = 192 \<and> b = 168) \<or> (a = 169 \<and> b = 254) \<or> (\<not> benchmark \<and> a = 198 \<and> (b = 18 \<or> b = 19))"

lemma private_ipv4_octets:
  assumes "octets a b c d"
  shows "is_private_ipv4 pol (ip4 a b c d) \<longleftrightarrow> blocked_octets (allow_rfc2544_benchmark_range pol) a b"
proof -
  have r: "a < 256" "b < 256" "c < 256" "d < 256" using assms by auto
  note first = in_network_first[OF assms]
  note second = in_network_second[OF assms]
  have n: "in_network (ip4 a b c d) (ip4 10 0 0 0, 8) \<longleftrightarrow> 10 \<le> a \<and> a < 10 + 1"
      "in_network (ip4 a b c d) (ip4 127 0 0 0, 8) \<longleftrightarrow> 127 \<le> a \<and> a < 127 + 1"
      "in_network (ip4 a b c d) (ip4 224 0 0 0, 4) \<longleftrightarrow> 224 \<le> a \<and> a < 224 + 16"
      "in_network (ip4 a b c d) (ip4 240 0 0 0, 4) \<longleftrightarrow> 240 \<le> a \<and> a < 240 + 16"
    by (rule first; simp)+
  have m: "in_network (ip4 a b c d) (ip4 172 16 0 0, 12) \<longleftrightarrow> a = 172 \<and> 16 \<le> b \<and> b < 16 + 16"
      "in_network (ip4 a b c d) (ip4 192 168 0 0, 16) \<longleftrightarrow> a = 192 \<and> 168 \<le> b \<and> b < 168 + 1"
      "in_network (ip4 a b c d) (ip4 169 254 0 0, 16) \<longleftrightarrow> a = 169 \<and> 254 \<le> b \<and> b < 254 + 1"
      "in_network (ip4 a b c d) (ip4 198 18 0 0, 15) \<longleftrightarrow> a = 198 \<and> 18 \<le> b \<and> b < 18 + 2"
    by (rule second; simp)+
  have top: "in_network (ip4 a b c d) (ip4 255 255 255 255, 32) \<Longrightarrow> 240 \<le> a"
  proof -
    assume "in_network (ip4 a b c d) (ip4 255 255 255 255, 32)"
    then have "unat (ip4 a b c d) = unat (ip4 255 255 255 255)" by (simp add: in_network_def)
    then show "240 \<le> a" using r by (simp add: unat_ip4)
  qed
  have one: "p \<le> x \<and> x < p + 1 \<longleftrightarrow> x = p" "p \<le> x \<and> x < p + 2 \<longleftrightarrow> x = p \<or> x = p + 1" for p x :: nat
    by auto
  show ?thesis
  proof (cases "224 \<le> a")
    case True
    then show ?thesis
      using r(1) by (auto simp: is_private_ipv4_def PRIVATE_NETWORKS_def blocked_octets_def n(3,4))
  next
    case False
    then have "\<not> in_network (ip4 a b c d) (ip4 255 255 255 255, 32)" using top by linarith
    then show ?thesis
      using False
      by (simp only: is_private_ipv4_def PRIVATE_NETWORKS_def RFC2544_RANGE_def blocked_octets_def n m one
          list_ex_iff list.set bex_simps snd_conv fst_conv) auto
  qed
qed

definition dotted :: "nat \<Rightarrow> nat \<Rightarrow> nat \<Rightarrow> nat \<Rightarrow> string" where
  "dotted a b c d = py_join ''.'' (map digits_of_nat [a, b, c, d])"

lemma length_digits: "n < 10 ^ Suc k \<Longrightarrow> length (digits_of_nat n) \<le> Suc k"
proof (induction k arbitrary: n)
  case (Suc k)
  then have "n div 10 < 10 ^ Suc k" by (simp add: less_mult_imp_div_less mult.commute)
  then show ?case using Suc.IH[of "n div 10"] by (subst digits_of_nat.simps) simp
qed (simp add: digits_of_nat.simps)

lemma hd_digits: "0 < n \<Longrightarrow> hd (digits_of_nat n) \<noteq> CHR ''0''"
proof (induction n rule: digits_of_nat.induct)
  case (1 n)
  show ?case
  proof (cases "n < 10")
    case True
    have "char_of (48 + n) \<noteq> CHR ''0''"
    proof
      assume "char_of (48 + n) = CHR ''0''"
      then have "digit_val CHR ''0'' = n" using digit_val_of[OF True] by simp
      then show False using 1(2) by (simp add: digit_val_def)
    qed
    then show ?thesis using True by (subst digits_of_nat.simps) simp
  next
    case False
    then show ?thesis using 1(1)[OF False] by (subst digits_of_nat.simps) (simp add: hd_append)
  qed
qed

lemma parse_octet_digits:
  assumes "n < 256"
  shows "parse_octet (digits_of_nat n) = Some n"
proof (cases "n = 0")
  case True
  have "digits_of_nat 0 = ''0''" by (subst digits_of_nat.simps) (simp add: digit_literals)
  then show ?thesis using True py_isdigit_digits[of 0] nat_of_digits_of_nat[of 0] by (simp add: parse_octet_def)
next
  case False
  then show ?thesis using assms length_digits[of n 2] hd_digits[of n] by (simp add: parse_octet_def)
qed

lemma digits_no: "c \<in> {CHR ''.'', CHR ''/'', CHR '':''} \<Longrightarrow> c \<notin> set (digits_of_nat n)"
  using digits_of_nat_chars[of n] by (auto simp: list_all_iff digit_char_def)

lemma parse_dotted: "octets a b c d \<Longrightarrow> parse_ipv4 (dotted a b c d) = Some (ip4 a b c d)"
  by (simp add: parse_ipv4_def dotted_def digits_no py_split_append py_split_absent parse_octet_digits)

text \<open>
  C40. An IPv4 address in dotted form passes exactly when its first octet is none of 10, 127 and 224 to
  255 and it lies outside 172.16 to 172.31, 192.168, 169.254 and (unless allowed) 198.18 and 198.19; the
  metadata address is refused even when private networks are allowed. So 0.0.0.0 and 100.64.0.0/10 pass.
\<close>

theorem validate_dotted_iff:
  assumes "a < 256" "b < 256" "c < 256" "d < 256"
  shows "validate_ip pol (dotted a b c d) = [] \<longleftrightarrow>
    (dangerously_allow_private_network pol \<or> \<not> blocked_octets (allow_rfc2544_benchmark_range pol) a b)
    \<and> \<not> (a = 169 \<and> b = 254 \<and> c = 169 \<and> d = 254)"
proof -
  have o: "octets a b c d" using assms by simp
  have "ip4 a b c d = ip4 169 254 169 254 \<longleftrightarrow> unat (ip4 a b c d) = unat (ip4 169 254 169 254)"
    by (rule word_unat_eq_iff)
  also have "\<dots> \<longleftrightarrow> a = 169 \<and> b = 254 \<and> c = 169 \<and> d = 254"
  proof -
    have eq: "((a * 256 + b) * 256 + c) * 256 + d = ((169 * 256 + 254) * 256 + 169) * 256 + 254 \<longleftrightarrow>
        ((a = 169 \<and> b = 254) \<and> c = 169) \<and> d = 254"
      using assms by (simp only: octet_eq)
    have v: "unat (ip4 169 254 169 254) = ((169 * 256 + 254) * 256 + 169) * 256 + 254" by (rule unat_ip4) simp
    show ?thesis unfolding unat_ip4[OF o] v eq by simp
  qed
  finally have m: "is_metadata_ip (IPv4 (ip4 a b c d)) \<longleftrightarrow> a = 169 \<and> b = 254 \<and> c = 169 \<and> d = 254"
    by (simp add: is_metadata_ip_def METADATA_IPS_def)
  show ?thesis
    by (auto simp: validate_ip_def parse_ip_def parse_dotted[OF o] m private_ipv4_octets[OF o])
qed

theorem validate_dotted_iff_witness:
  "validate_ip default_ssrf_policy (dotted 0 0 0 0) = [] \<and> validate_ip default_ssrf_policy (dotted 10 0 0 1) \<noteq> []"
  using validate_dotted_iff[of 0 0 0 0 default_ssrf_policy] validate_dotted_iff[of 10 0 0 1 default_ssrf_policy]
  by (simp add: blocked_octets_def default_ssrf_policy_def)

section \<open>Endpoints\<close>

lemma check_addresses:
  "foldl (check_address pol) r ips =
     r\<lparr>sr_errors := sr_errors r @ concat (map (validate_ip pol) ips),
       sr_valid := (sr_valid r \<and> (\<forall>ip \<in> set ips. validate_ip pol ip = []))\<rparr>"
  by (induction ips arbitrary: r) (auto simp: check_address_def Let_def)

lemma add_simps [simp]:
  "sr_valid (add_error e r) = False" "sr_valid (add_warning w r) = sr_valid r"
  "sr_host (add_error e r) = sr_host r" "sr_host (add_warning w r) = sr_host r"
  "sr_port (add_error e r) = sr_port r" "sr_port (add_warning w r) = sr_port r"
  by (simp_all add: add_error_def add_warning_def)

lemma check_valid:
  "sr_valid (check_local_nim pol host r) = (sr_valid r \<and> (host = ''nim-service.local'' \<longrightarrow> allow_local_nim pol))"
  "sr_valid (check_port port r) = (sr_valid r \<and> 1 \<le> port \<and> port \<le> 65535)"
  "sr_valid (check_protocol protocol r) = (sr_valid r \<and> protocol \<in> {''http'', ''https'', ''tcp'', ''udp''})"
  "sr_valid (check_mismatch protocol port r) = sr_valid r"
  by (auto simp: check_local_nim_def check_port_def check_protocol_def check_mismatch_def Let_def)

lemma dns_valid:
  "sr_valid (fst (check_dns pol look host optional r cache)) =
    (sr_valid r \<and> (if require_dns_resolution pol
       then (fst (resolve_hostname look host cache) = [] \<longrightarrow> optional)
         \<and> (\<forall>ip \<in> set (fst (resolve_hostname look host cache)). validate_ip pol ip = [])
       else optional))"
proof -
  obtain ips cache' where r: "resolve_hostname look host cache = (ips, cache')" by fastforce
  show ?thesis
    by (cases "require_dns_resolution pol"; cases "ips = []"; cases optional)
      (simp_all add: check_dns_def r check_addresses)
qed

text \<open>
  When an endpoint is valid: its name resolves to addresses that all pass, or it does not resolve
  and is optional; without name resolution exactly the optional ones are valid, unchecked; and local
  inference, port and protocol are in order. The host name lists of the policy have no influence.
\<close>

theorem endpoint_valid_iff:
  "(sr_valid (fst (validate_endpoint pol look host port protocol optional cache)) \<longleftrightarrow>
     (if require_dns_resolution pol \<and> fst (resolve_hostname look host cache) \<noteq> []
      then list_all (\<lambda>ip. validate_ip pol ip = []) (fst (resolve_hostname look host cache))
      else optional)
     \<and> (if host = ''nim-service.local'' then allow_local_nim pol else True)
     \<and> 1 \<le> port \<and> port \<le> 65535 \<and> protocol \<in> {''http'', ''https'', ''tcp'', ''udp''})
   \<and> validate_endpoint pol look host port protocol optional cache =
       validate_endpoint (pol\<lparr>allowed_hostnames := hs, hostname_allowlist := gs\<rparr>) look host port protocol optional cache"
proof -
  have ip: "validate_ip (pol\<lparr>allowed_hostnames := hs, hostname_allowlist := gs\<rparr>) = validate_ip pol"
    by (rule ext) (simp add: validate_ip_def is_private_ipv4_def split: option.split ip_addr.split)
  have "check_address (pol\<lparr>allowed_hostnames := hs, hostname_allowlist := gs\<rparr>) = check_address pol"
    by (intro ext) (simp add: check_address_def ip)
  moreover obtain ips cache' where r: "resolve_hostname look host cache = (ips, cache')" by fastforce
  ultimately have dns: "check_dns (pol\<lparr>allowed_hostnames := hs, hostname_allowlist := gs\<rparr>) look host optional r cache
      = check_dns pol look host optional r cache" for r
    by (cases "ips = []"; cases "require_dns_resolution pol") (simp_all add: check_dns_def)
  have "sr_valid (fst (validate_endpoint pol look host port protocol optional cache)) \<longleftrightarrow>
     (if require_dns_resolution pol \<and> ips \<noteq> [] then list_all (\<lambda>ip. validate_ip pol ip = []) ips else optional)
     \<and> (if host = ''nim-service.local'' then allow_local_nim pol else True)
     \<and> 1 \<le> port \<and> port \<le> 65535 \<and> protocol \<in> {''http'', ''https'', ''tcp'', ''udp''}"
    by (cases "ips = []") (simp_all add: validate_endpoint_def check_valid dns_valid case_prod_beta r Let_def list_all_iff)
  moreover have "check_local_nim (pol\<lparr>allowed_hostnames := hs, hostname_allowlist := gs\<rparr>) host r
      = check_local_nim pol host r" for r
    by (simp add: check_local_nim_def)
  ultimately show ?thesis by (simp add: validate_endpoint_def dns r del: if_split)
qed

section \<open>The report\<close>

lemma check_frame:
  "sr_host (check_local_nim pol h r) = sr_host r" "sr_port (check_local_nim pol h r) = sr_port r"
  "sr_host (check_port p r) = sr_host r" "sr_port (check_port p r) = sr_port r"
  "sr_host (check_protocol q r) = sr_host r" "sr_port (check_protocol q r) = sr_port r"
  "sr_host (check_mismatch q p r) = sr_host r" "sr_port (check_mismatch q p r) = sr_port r"
  "sr_host (fst (check_dns pol look h opt r cache)) = sr_host r"
  "sr_port (fst (check_dns pol look h opt r cache)) = sr_port r"
  by (simp_all add: check_local_nim_def check_port_def check_protocol_def check_mismatch_def check_dns_def
      check_addresses Let_def split: prod.split)

lemma endpoint_host_port:
  "sr_host (fst (validate_endpoint pol look h p q opt cache)) = h
   \<and> sr_port (fst (validate_endpoint pol look h p q opt cache)) = p"
proof -
  let ?r0 = "\<lparr>sr_host = h, sr_port = p, sr_protocol = q, sr_valid = True, sr_errors = [], sr_warnings = [], sr_ips = []\<rparr>"
  obtain r c where r: "check_dns pol look h opt ?r0 cache = (r, c)" by fastforce
  have "sr_host r = h" "sr_port r = p"
    using check_frame(9,10)[of pol look h opt ?r0 cache] by (simp_all add: r)
  then show ?thesis by (simp add: validate_endpoint_def r check_frame)
qed

definition counted :: "ssrf_report \<Rightarrow> bool" where
  "counted rp \<longleftrightarrow> valid_endpoints rp = length (filter sr_valid (rp_results rp))
     \<and> invalid_endpoints rp = length (filter (\<lambda>r. \<not> sr_valid r) (rp_results rp))"

lemma counted_count: "counted rp \<Longrightarrow> counted (count_result r rp)"
  by (simp add: counted_def count_result_def Let_def)

lemma count_fields: "rp_results (count_result r rp) = rp_results rp @ [r]"
  "total_endpoints (count_result r rp) = total_endpoints rp"
  by (simp_all add: count_result_def Let_def)

lemma endpoints_report:
  "validate_endpoints pol look i es cache rp = Inr (rp', cache') \<Longrightarrow> counted rp \<Longrightarrow>
     counted rp' \<and> total_endpoints rp' = total_endpoints rp
     \<and> map (\<lambda>r. Some (sr_host r)) (rp_results rp') = map (\<lambda>r. Some (sr_host r)) (rp_results rp) @ map en_host es"
proof (induction es arbitrary: i cache rp)
  case (Cons e es)
  obtain h p q where f: "endpoint_fields e = Inr (h, p, q)" "en_host e = Some h"
    using Cons.prems(1) by (auto simp: endpoint_fields_def split: option.splits sum.splits)
  obtain r c where r: "validate_endpoint pol (look i) h p q (en_optional e) cache = (r, c)" by fastforce
  have "sr_host r = h" using endpoint_host_port[of pol "look i" h p q "en_optional e" cache] r by simp
  then show ?case
    using Cons.IH[of "Suc i" c "count_result r rp"] Cons.prems f by (simp add: r counted_count count_fields)
qed simp

lemma warn_valid [simp]: "sr_valid (warn_deny d e r) = sr_valid r" "sr_host (warn_deny d e r) = sr_host r"
  by (simp_all add: warn_deny_def)

lemma deny_only_warns:
  "map sr_valid (rp_results (check_deny_conflicts es ds rp)) = map sr_valid (rp_results rp)
   \<and> map sr_host (rp_results (check_deny_conflicts es ds rp)) = map sr_host (rp_results rp)
   \<and> valid_endpoints (check_deny_conflicts es ds rp) = valid_endpoints rp
   \<and> invalid_endpoints (check_deny_conflicts es ds rp) = invalid_endpoints rp
   \<and> total_endpoints (check_deny_conflicts es ds rp) = total_endpoints rp"
proof -
  let ?f = "\<lambda>d rp e. if deny_matches d e then rp\<lparr>rp_results := map (warn_deny d e) (rp_results rp)\<rparr> else rp"
  let ?v = "\<lambda>rp. (map sr_valid (rp_results rp), map sr_host (rp_results rp), valid_endpoints rp, invalid_endpoints rp,
      total_endpoints rp)"
  have inner: "?v (foldl (?f d) rp es) = ?v rp" for d rp
    by (induction es arbitrary: rp) (simp_all add: comp_def)
  have "?v (foldl (\<lambda>rp d. foldl (?f d) rp es) rp ds) = ?v rp"
    by (induction ds arbitrary: rp) (simp_all add: inner)
  then show ?thesis by (simp add: check_deny_conflicts_def)
qed

text \<open>
  A report counts what it lists: one result per endpoint in the order of the file, the valid and
  the invalid ones adding up to the total; a deny rule changes no verdict, whatever it matches.
\<close>

theorem report_counts:
  assumes "validate_policy_file pol look es ds cache = Inr (rp, cache')"
  shows "total_endpoints rp = length es \<and> valid_endpoints rp + invalid_endpoints rp = total_endpoints rp
    \<and> map (\<lambda>r. Some (sr_host r)) (rp_results rp) = map en_host es
    \<and> (has_failures rp \<longleftrightarrow> (\<exists>r \<in> set (rp_results rp). \<not> sr_valid r))
    \<and> (\<exists>rp'. validate_policy_file pol look es [] cache = Inr (rp', cache')
         \<and> map sr_valid (rp_results rp') = map sr_valid (rp_results rp))"
proof -
  let ?rp0 = "\<lparr>total_endpoints = length es, valid_endpoints = 0, invalid_endpoints = 0, rp_results = []\<rparr>"
  obtain r1 where r1: "validate_endpoints pol look 0 es cache ?rp0 = Inr (r1, cache')" "rp = check_deny_conflicts es ds r1"
    using assms by (auto simp: validate_policy_file_def map_sum_Inr_iff)
  note rep = endpoints_report[OF r1(1)]
  have c: "counted r1" "total_endpoints r1 = length es" "map (\<lambda>r. Some (sr_host r)) (rp_results r1) = map en_host es"
    using rep by (simp_all add: counted_def)
  note d = deny_only_warns[of es ds r1, folded r1(2)]
  have len: "length (rp_results r1) = length es" using arg_cong[OF c(3), of length] by simp
  have sum: "valid_endpoints rp + invalid_endpoints rp = length es"
    using c(1) len d sum_length_filter_compl[of sr_valid "rp_results r1"] by (simp add: counted_def)
  have hosts: "map (\<lambda>r. Some (sr_host r)) (rp_results rp) = map en_host es"
  proof -
    have "map Some (map sr_host (rp_results rp)) = map Some (map sr_host (rp_results r1))" using d by simp
    then show ?thesis unfolding list.map_comp using c(3) by (simp add: comp_def)
  qed
  have "has_failures rp \<longleftrightarrow> (\<exists>v \<in> set (map sr_valid (rp_results r1)). \<not> v)"
    using c(1) d by (simp add: has_failures_def counted_def filter_empty_conv)
  then have failures: "has_failures rp \<longleftrightarrow> (\<exists>r \<in> set (rp_results rp). \<not> sr_valid r)"
    unfolding d[THEN conjunct1, symmetric] by simp
  have "validate_policy_file pol look es [] cache = Inr (r1, cache')"
    using r1(1) by (simp add: validate_policy_file_def check_deny_conflicts_def)
  then have without: "\<exists>rp'. validate_policy_file pol look es [] cache = Inr (rp', cache')
         \<and> map sr_valid (rp_results rp') = map sr_valid (rp_results rp)"
    using d[THEN conjunct1, symmetric] by (intro exI[of _ r1] conjI)
  show ?thesis using c(2) d sum hosts failures without by (intro conjI) simp_all
qed

lemma validate_endpoints_total:
  "list_all (\<lambda>e. \<exists>x. endpoint_fields e = Inr x) es \<Longrightarrow>
     \<exists>rp' cache'. validate_endpoints pol look i es cache rp = Inr (rp', cache')"
  by (induction es arbitrary: i cache rp) (auto split: prod.split)

lemma validate_policy_total:
  assumes "list_all (\<lambda>e. \<exists>x. endpoint_fields e = Inr x) es"
  shows "\<exists>rp cache'. validate_policy_file pol look es ds cache = Inr (rp, cache')"
proof -
  obtain rp1 cache' where "validate_endpoints pol look 0 es cache
      \<lparr>total_endpoints = length es, valid_endpoints = 0, invalid_endpoints = 0, rp_results = []\<rparr> = Inr (rp1, cache')"
    using validate_endpoints_total[OF assms] by blast
  then show ?thesis by (simp add: validate_policy_file_def)
qed

definition public_dns :: "nat \<Rightarrow> string \<Rightarrow> string list option" where
  "public_dns i h = Some [dotted 93 184 216 34]"

section \<open>The shipped policy\<close>

lemma validate_endpoints_append:
  "list_all (\<lambda>e. \<exists>x. endpoint_fields e = Inr x) es \<Longrightarrow> endpoint_fields e = Inl x \<Longrightarrow>
     validate_endpoints pol look i (es @ e # fs) cache rp = Inl x"
  by (induction es arbitrary: i cache rp) (auto split: prod.split)

text \<open>
  The shipped \<^verbatim>\<open>milimo-mcp.yaml\<close> cannot be validated: under every policy and every answer of the
  name service the check ends in a \<open>KeyError\<close> at the first endpoint without a protocol, and no
  report is made.
\<close>

theorem shipped_policy_raises:
  "validate_policy_file pol look shipped_endpoints shipped_deny cache = Inl (KeyError ''protocol'')"
proof -
  have split: "shipped_endpoints = map https_endpoint [''api.github.com'', ''github.com'', ''registry.npmjs.org'', ''pypi.org'',
      ''files.pythonhosted.org'', ''api.stripe.com''] @ tunnel_endpoint ''api.link.com'' # drop 7 shipped_endpoints"
    by (simp add: shipped_endpoints_def)
  have good: "list_all (\<lambda>e. \<exists>x. endpoint_fields e = Inr x) (map https_endpoint hs)" for hs
    by (simp add: list_all_iff https_endpoint_def endpoint_fields_def)
  have bad: "endpoint_fields (tunnel_endpoint h) = Inl (KeyError ''protocol'')" for h
    by (simp add: tunnel_endpoint_def endpoint_fields_def)
  have "validate_endpoints pol look i shipped_endpoints cache rp = Inl (KeyError ''protocol'')" for i rp
    by (subst split) (rule validate_endpoints_append[OF good bad])
  then show ?thesis by (simp add: validate_policy_file_def)
qed

end
