(* ===== verification/Cost_Guard.thy ===== *)
theory Cost_Guard
  imports Py_Text Json_Read
begin

text \<open>
  \<^verbatim>\<open>milimo-core/src/milimo_core/metrics_collector.py\<close>: the counters and timings a claw keeps in memory,
  the metrics file it appends to, and the summary that reads the file back and merges both. The file is
  a list of lines (the JSON value of a line, or none when it is not JSON), or none before the first
  write; it is no part of the collector, since several processes append to one file. Times of entries
  are arguments; a write that fails (\<open>ok = False\<close>) is only logged. How Python prints a value that is no
  text (\<open>pr\<close>) and reads a float from a text (\<open>rf\<close>) are parameters.
\<close>

section \<open>Entries\<close>

record metric_entry =
  me_timestamp :: string
  me_claw_role :: string
  me_metric_type :: string
  me_value :: json
  me_unit :: string
  me_tags :: "json dict"

definition entry_to_dict :: "metric_entry \<Rightarrow> json dict" where
  "entry_to_dict e =
     [(''timestamp'', JStr (me_timestamp e)), (''claw_role'', JStr (me_claw_role e)),
      (''metric_type'', JStr (me_metric_type e)), (''value'', me_value e)]
     @ (if me_unit e = [] then [] else [(''unit'', JStr (me_unit e))])
     @ (if me_tags e = [] then [] else [(''tags'', JObj (me_tags e))])"

type_synonym metric_file = "json option list option"

type_synonym counters = "int dict"
type_synonym timings = "rat list dict"

record collector =
  mc_role :: string
  mc_counters :: counters
  mc_timings :: timings

definition new_collector :: "string \<Rightarrow> collector" where
  "new_collector role = \<lparr>mc_role = role, mc_counters = [], mc_timings = []\<rparr>"

definition count_of :: "counters \<Rightarrow> string \<Rightarrow> int" where
  "count_of c k = (case map_of c k of Some n \<Rightarrow> n | None \<Rightarrow> 0)"

definition bump :: "string \<Rightarrow> int \<Rightarrow> counters \<Rightarrow> counters" where
  "bump k n c = AList.update k (count_of c k + n) c"

definition add_timing :: "string \<Rightarrow> rat \<Rightarrow> timings \<Rightarrow> timings" where
  "add_timing k v t = AList.update k ((case map_of t k of Some vs \<Rightarrow> vs | None \<Rightarrow> []) @ [v]) t"

definition increment_counter :: "string \<Rightarrow> int \<Rightarrow> collector \<Rightarrow> collector" where
  "increment_counter k n mc = mc\<lparr>mc_counters := bump k n (mc_counters mc)\<rparr>"

definition record_timing :: "string \<Rightarrow> rat \<Rightarrow> collector \<Rightarrow> collector" where
  "record_timing k v mc = mc\<lparr>mc_timings := add_timing k v (mc_timings mc)\<rparr>"

definition write_metric :: "bool \<Rightarrow> metric_entry \<Rightarrow> metric_file \<Rightarrow> metric_file" where
  "write_metric ok e f =
     (if ok then Some ((case f of Some ls \<Rightarrow> ls | None \<Rightarrow> []) @ [Some (JObj (entry_to_dict e))]) else f)"

section \<open>Recording\<close>

definition entry_of :: "string \<Rightarrow> collector \<Rightarrow> string \<Rightarrow> json \<Rightarrow> string \<Rightarrow> json dict \<Rightarrow> metric_entry" where
  "entry_of now mc ty v unit tags =
     \<lparr>me_timestamp = now, me_claw_role = mc_role mc, me_metric_type = ty, me_value = v, me_unit = unit, me_tags = tags\<rparr>"

definition record_message_processed :: "bool \<Rightarrow> string \<Rightarrow> string \<Rightarrow> rat \<Rightarrow> collector \<times> metric_file \<Rightarrow> collector \<times> metric_file" where
  "record_message_processed ok now ty ms = (\<lambda>(mc, f).
     (record_timing (''latency.'' @ ty) ms (increment_counter (''messages.'' @ ty) 1 (increment_counter ''messages_processed'' 1 mc)),
      write_metric ok (entry_of now mc ''message_processed'' (JFloat ms) ''ms'' [(''message_type'', JStr ty)]) f))"

definition record_error :: "bool \<Rightarrow> string \<Rightarrow> string \<Rightarrow> string \<Rightarrow> collector \<times> metric_file \<Rightarrow> collector \<times> metric_file" where
  "record_error ok now ty msg = (\<lambda>(mc, f).
     (increment_counter (''errors.'' @ ty) 1 (increment_counter ''errors'' 1 mc),
      write_metric ok (entry_of now mc ''error'' (JInt 1) []
        [(''error_type'', JStr ty), (''message'', JStr (take 200 msg))]) f))"

definition record_inference_call :: "bool \<Rightarrow> string \<Rightarrow> string \<Rightarrow> int \<Rightarrow> rat \<Rightarrow> collector \<times> metric_file \<Rightarrow> collector \<times> metric_file" where
  "record_inference_call ok now ty tokens ms = (\<lambda>(mc, f).
     (record_timing (''inference_latency.'' @ ty) ms (increment_counter ''inference_tokens'' tokens
        (increment_counter (''inference.'' @ ty) 1 (increment_counter ''inference_calls'' 1 mc))),
      write_metric ok (entry_of now mc ''inference_call'' (JFloat ms) ''ms''
        [(''data_type'', JStr ty), (''tokens'', JStr (py_str_int tokens))]) f))"

definition sla_counter :: "bool \<Rightarrow> string" where
  "sla_counter compliant = (if compliant then ''sla_compliant'' else ''sla_violation'')"

definition record_sla_compliance :: "(json \<Rightarrow> string) \<Rightarrow> bool \<Rightarrow> string \<Rightarrow> string \<Rightarrow> rat \<Rightarrow> rat \<Rightarrow> collector \<times> metric_file \<Rightarrow> collector \<times> metric_file" where
  "record_sla_compliance pr ok now ty sla actual = (\<lambda>(mc, f).
     (let c = sla_counter (actual \<le> sla) in
      (increment_counter (''sla.'' @ ty @ ''.'' @ c) 1 (increment_counter c 1 mc),
       write_metric ok (entry_of now mc ''sla_compliance'' (JInt (if actual \<le> sla then 1 else 0)) []
         [(''message_type'', JStr ty), (''sla_ms'', JStr (pr (JFloat sla))), (''actual_ms'', JStr (pr (JFloat actual)))]) f)))"

definition record_custom :: "bool \<Rightarrow> string \<Rightarrow> string \<Rightarrow> json \<Rightarrow> string \<Rightarrow> json dict \<Rightarrow> collector \<times> metric_file \<Rightarrow> collector \<times> metric_file" where
  "record_custom ok now ty v unit tags = (\<lambda>(mc, f). (mc, write_metric ok (entry_of now mc ty v unit tags) f))"

section \<open>Reading the file back\<close>

text \<open>A \<open>ValueError\<close> skips the line; any other exception ends the reading. What was counted stays.\<close>

datatype read_exn = Skips | Ends

definition tag_text :: "(json \<Rightarrow> string) \<Rightarrow> json dict \<Rightarrow> string \<Rightarrow> string" where
  "tag_text pr tags k = (case map_of tags k of Some v \<Rightarrow> py_text pr v | None \<Rightarrow> ''unknown'')"

definition json_float :: "(string \<Rightarrow> rat option) \<Rightarrow> json \<Rightarrow> read_exn + rat" where
  "json_float rf v = (case v of
       JInt i \<Rightarrow> Inr (of_int i) | JFloat q \<Rightarrow> Inr q | JBool b \<Rightarrow> Inr (if b then 1 else 0)
     | JStr s \<Rightarrow> (case rf s of Some q \<Rightarrow> Inr q | None \<Rightarrow> Inl Skips)
     | _ \<Rightarrow> Inl Ends)"

definition truncate_rat :: "rat \<Rightarrow> int" where
  "truncate_rat q = (if q < 0 then \<lceil>q\<rceil> else \<lfloor>q\<rfloor>)"

definition json_int :: "json \<Rightarrow> read_exn + int" where
  "json_int v = (case v of
       JInt i \<Rightarrow> Inr i | JFloat q \<Rightarrow> Inr (truncate_rat q) | JBool b \<Rightarrow> Inr (if b then 1 else 0)
     | JStr s \<Rightarrow> (case py_int s of Some i \<Rightarrow> Inr i | None \<Rightarrow> Inl Skips)
     | _ \<Rightarrow> Inl Ends)"

definition json_bool :: "json \<Rightarrow> bool" where
  "json_bool v = (case v of JNull \<Rightarrow> False | JBool b \<Rightarrow> b | JInt i \<Rightarrow> i \<noteq> 0 | JFloat q \<Rightarrow> q \<noteq> 0 | JStr s \<Rightarrow> s \<noteq> []
     | JList xs \<Rightarrow> xs \<noteq> [] | JObj d \<Rightarrow> d \<noteq> [])"

type_synonym read_state = "counters \<times> timings"

definition touch_timing :: "string \<Rightarrow> timings \<Rightarrow> timings" where
  "touch_timing k t = (if map_of t k = None then AList.update k [] t else t)"

definition read_timing :: "(string \<Rightarrow> rat option) \<Rightarrow> string \<Rightarrow> json \<Rightarrow> counters \<Rightarrow> timings \<Rightarrow> read_state \<times> read_exn option" where
  "read_timing rf k v c t =
     (let t' = touch_timing k t in
      case json_float rf v of Inl x \<Rightarrow> ((c, t'), Some x) | Inr q \<Rightarrow> ((c, add_timing k q t'), None))"

definition read_message :: "(json \<Rightarrow> string) \<Rightarrow> (string \<Rightarrow> rat option) \<Rightarrow> json \<Rightarrow> json \<Rightarrow> read_state \<Rightarrow> read_state \<times> read_exn option" where
  "read_message pr rf v tags = (\<lambda>(c, t).
     (let c1 = bump ''messages_processed'' 1 c in
      case tags of
        JObj d \<Rightarrow> (let m = tag_text pr d ''message_type''
                   in read_timing rf (''latency.'' @ m) v (bump (''messages.'' @ m) 1 c1) t)
      | _ \<Rightarrow> ((c1, t), Some Ends)))"

definition read_error_line :: "(json \<Rightarrow> string) \<Rightarrow> json \<Rightarrow> read_state \<Rightarrow> read_state \<times> read_exn option" where
  "read_error_line pr tags = (\<lambda>(c, t).
     (let c1 = bump ''errors'' 1 c in
      case tags of
        JObj d \<Rightarrow> ((bump (''errors.'' @ tag_text pr d ''error_type'') 1 c1, t), None)
      | _ \<Rightarrow> ((c1, t), Some Ends)))"

definition read_inference :: "(json \<Rightarrow> string) \<Rightarrow> (string \<Rightarrow> rat option) \<Rightarrow> json \<Rightarrow> json \<Rightarrow> read_state \<Rightarrow> read_state \<times> read_exn option" where
  "read_inference pr rf v tags = (\<lambda>(c, t).
     (let c1 = bump ''inference_calls'' 1 c in
      case tags of
        JObj d \<Rightarrow>
          (let m = tag_text pr d ''data_type''; c2 = bump (''inference.'' @ m) 1 c1 in
           case json_int (case map_of d ''tokens'' of Some x \<Rightarrow> x | None \<Rightarrow> JStr ''0'') of
             Inl x \<Rightarrow> ((c2, t), Some x)
           | Inr n \<Rightarrow> read_timing rf (''inference_latency.'' @ m) v (bump ''inference_tokens'' n c2) t)
      | _ \<Rightarrow> ((c1, t), Some Ends)))"

definition read_sla :: "(json \<Rightarrow> string) \<Rightarrow> json \<Rightarrow> json \<Rightarrow> read_state \<Rightarrow> read_state \<times> read_exn option" where
  "read_sla pr v tags = (\<lambda>(c, t).
     (let k = sla_counter (json_bool v); c1 = bump k 1 c in
      case tags of
        JObj d \<Rightarrow> ((bump (''sla.'' @ tag_text pr d ''message_type'' @ ''.'' @ k) 1 c1, t), None)
      | _ \<Rightarrow> ((c1, t), Some Ends)))"

definition read_metric :: "(json \<Rightarrow> string) \<Rightarrow> (string \<Rightarrow> rat option) \<Rightarrow> json \<Rightarrow> read_state \<Rightarrow> read_state \<times> read_exn option" where
  "read_metric pr rf j st =
     (case j of
        JObj d \<Rightarrow>
          (let ty = json_get d ''metric_type'' (JStr []); v = json_get d ''value'' (JInt 0); tags = json_get d ''tags'' (JObj []) in
           if ty = JStr ''message_processed'' then read_message pr rf v tags st
           else if ty = JStr ''error'' then read_error_line pr tags st
           else if ty = JStr ''inference_call'' then read_inference pr rf v tags st
           else if ty = JStr ''sla_compliance'' then read_sla pr v tags st
           else (st, None))
      | _ \<Rightarrow> (st, Some Ends))"

fun read_metrics :: "(json \<Rightarrow> string) \<Rightarrow> (string \<Rightarrow> rat option) \<Rightarrow> json option list \<Rightarrow> read_state \<Rightarrow> read_state" where
  "read_metrics pr rf [] st = st"
| "read_metrics pr rf (None # ls) st = read_metrics pr rf ls st"
| "read_metrics pr rf (Some j # ls) st =
     (case read_metric pr rf j st of
        (st', Some Ends) \<Rightarrow> st'
      | (st', _) \<Rightarrow> read_metrics pr rf ls st')"

definition persisted :: "(json \<Rightarrow> string) \<Rightarrow> (string \<Rightarrow> rat option) \<Rightarrow> metric_file \<Rightarrow> read_state" where
  "persisted pr rf f = (case f of Some ls \<Rightarrow> read_metrics pr rf ls ([], []) | None \<Rightarrow> ([], []))"

section \<open>The summary\<close>

definition merge_counters :: "counters \<Rightarrow> counters \<Rightarrow> counters" where
  "merge_counters p m = foldl (\<lambda>d (k, v). AList.update k v d) p m"

record timing_summary =
  ts_count :: nat
  ts_avg :: rat
  ts_min :: rat
  ts_max :: rat
  ts_p95 :: rat

definition list_min :: "rat list \<Rightarrow> rat" where "list_min xs = fold min (tl xs) (hd xs)"
definition list_max :: "rat list \<Rightarrow> rat" where "list_max xs = fold max (tl xs) (hd xs)"

definition timing_of :: "rat list \<Rightarrow> timing_summary" where
  "timing_of xs =
     \<lparr>ts_count = length xs, ts_avg = round2 (sum_list xs / of_nat (length xs)), ts_min = round2 (list_min xs),
      ts_max = round2 (list_max xs),
      ts_p95 = round2 (if 20 \<le> length xs then sort xs ! (length xs * 95 div 100) else list_max xs)\<rparr>"

definition timings_at :: "timings \<Rightarrow> string \<Rightarrow> rat list" where
  "timings_at t k = (case map_of t k of Some vs \<Rightarrow> vs | None \<Rightarrow> [])"

text \<open>The keys of the merged timings come in the order of a set, so the result is a map.\<close>

definition merge_timings :: "timings \<Rightarrow> timings \<Rightarrow> string \<rightharpoonup> timing_summary" where
  "merge_timings p m k =
     (let xs = timings_at p k @ timings_at m k in if xs = [] then None else Some (timing_of xs))"

record metric_summary =
  ms_role :: string
  ms_lookback :: int
  ms_counters :: counters
  ms_timings :: "string \<rightharpoonup> timing_summary"

text \<open>\<open>get_summary\<close> computes the begin of the lookback period and does not use it.\<close>

definition get_summary :: "(json \<Rightarrow> string) \<Rightarrow> (string \<Rightarrow> rat option) \<Rightarrow> int \<Rightarrow> collector \<Rightarrow> metric_file \<Rightarrow> metric_summary" where
  "get_summary pr rf lookback mc f =
     (let (pc, pt) = persisted pr rf f in
      \<lparr>ms_role = mc_role mc, ms_lookback = lookback, ms_counters = merge_counters pc (mc_counters mc),
       ms_timings = merge_timings pt (mc_timings mc)\<rparr>)"

chapter \<open>The cost guard\<close>

text \<open>
  \<^verbatim>\<open>milimo-core/src/milimo_core/cost_guard.py\<close>: the daily token limit over the metrics of six claws. A
  guard has a collector per claw, each with its own metrics file; the files (\<open>files\<close>, by role) are shared
  by all processes, the collectors belong to one.
\<close>

record guard_config =
  gc_daily_token_limit :: int
  gc_alert_threshold_percent :: rat
  gc_warning_threshold_percent :: rat

definition default_guard_config :: guard_config where
  "default_guard_config = \<lparr>gc_daily_token_limit = 50000, gc_alert_threshold_percent = 80, gc_warning_threshold_percent = 60\<rparr>"

record token_usage =
  tu_total_tokens :: int
  tu_daily_limit :: int
  tu_remaining :: int
  tu_percent_used :: rat
  tu_alert_triggered :: bool
  tu_warning_triggered :: bool

record cost_guard =
  cg_config :: guard_config
  cg_collectors :: "(string \<times> collector) list"

type_synonym metric_files = "string \<Rightarrow> metric_file"

definition GUARD_ROLES :: "string list" where
  "GUARD_ROLES = [''build'', ''content'', ''ops'', ''analytics'', ''finance'', ''assistant'']"

definition new_guard :: "guard_config \<Rightarrow> cost_guard" where
  "new_guard cfg = \<lparr>cg_config = cfg, cg_collectors = map (\<lambda>r. (r, new_collector r)) GUARD_ROLES\<rparr>"

definition collect_today_usage :: "(json \<Rightarrow> string) \<Rightarrow> (string \<Rightarrow> rat option) \<Rightarrow> cost_guard \<Rightarrow> metric_files \<Rightarrow> (string \<times> int) list" where
  "collect_today_usage pr rf g files =
     map (\<lambda>(r, mc). (r, count_of (ms_counters (get_summary pr rf 24 mc (files r))) ''inference_tokens'')) (cg_collectors g)"

definition get_usage :: "(json \<Rightarrow> string) \<Rightarrow> (string \<Rightarrow> rat option) \<Rightarrow> cost_guard \<Rightarrow> metric_files \<Rightarrow> token_usage" where
  "get_usage pr rf g files =
     (let cfg = cg_config g; limit = gc_daily_token_limit cfg;
          total = sum_list (map snd (collect_today_usage pr rf g files));
          percent_used = (if 0 < limit then of_int total / of_int limit * 100 else 0)
      in \<lparr>tu_total_tokens = total, tu_daily_limit = limit, tu_remaining = max 0 (limit - total),
          tu_percent_used = percent_used, tu_alert_triggered = gc_alert_threshold_percent cfg \<le> percent_used,
          tu_warning_triggered = gc_warning_threshold_percent cfg \<le> percent_used\<rparr>)"

datatype limit_message = LimitExceeded int int | LimitAlert rat int int | LimitWarning rat int int | LimitOk

definition check_limit :: "(json \<Rightarrow> string) \<Rightarrow> (string \<Rightarrow> rat option) \<Rightarrow> cost_guard \<Rightarrow> metric_files \<Rightarrow> bool \<times> limit_message" where
  "check_limit pr rf g files =
     (let u = get_usage pr rf g files; limit = gc_daily_token_limit (cg_config g) in
      if limit \<le> tu_total_tokens u then (False, LimitExceeded limit (tu_total_tokens u))
      else if tu_alert_triggered u then (True, LimitAlert (tu_percent_used u) (tu_total_tokens u) limit)
      else if tu_warning_triggered u then (True, LimitWarning (tu_percent_used u) (tu_total_tokens u) limit)
      else (True, LimitOk))"

definition record_inference :: "bool \<Rightarrow> string \<Rightarrow> string \<Rightarrow> int \<Rightarrow> cost_guard \<times> metric_files \<Rightarrow> cost_guard \<times> metric_files" where
  "record_inference ok now role tokens = (\<lambda>(g, files).
     case map_of (cg_collectors g) role of
       None \<Rightarrow> (g, files)
     | Some mc \<Rightarrow>
         (let (mc', f') = record_inference_call ok now ''chat'' tokens 0 (mc, files role)
          in (g\<lparr>cg_collectors := AList.update role mc' (cg_collectors g)\<rparr>, files(role := f'))))"

text \<open>The guard of a process: a second configuration given to \<open>get_cost_guard\<close> is ignored.\<close>

definition get_cost_guard :: "guard_config option \<Rightarrow> cost_guard option \<Rightarrow> cost_guard" where
  "get_cost_guard cfg global_guard =
     (case global_guard of Some g \<Rightarrow> g
      | None \<Rightarrow> new_guard (case cfg of Some c \<Rightarrow> c | None \<Rightarrow> default_guard_config))"

definition set_cost_guard :: "guard_config option \<Rightarrow> cost_guard" where
  "set_cost_guard cfg = get_cost_guard cfg None"

section \<open>Several processes\<close>

text \<open>Processes start (again) with a guard and no counters, and record inference calls.\<close>

datatype guard_event = Start nat "guard_config option" | Infer nat bool string string int

type_synonym guard_world = "(nat \<rightharpoonup> cost_guard) \<times> metric_files"

fun guard_step :: "guard_event \<Rightarrow> guard_world \<Rightarrow> guard_world" where
  "guard_step (Start p cfg) (gs, files) = (gs(p \<mapsto> set_cost_guard cfg), files)"
| "guard_step (Infer p ok now role tokens) (gs, files) =
     (case gs p of None \<Rightarrow> (gs, files)
      | Some g \<Rightarrow> (let (g', files') = record_inference ok now role tokens (g, files) in (gs(p \<mapsto> g'), files')))"

definition guard_run :: "guard_event list \<Rightarrow> guard_world" where
  "guard_run es = foldl (\<lambda>w e. guard_step e w) (Map.empty, \<lambda>_. None) es"

end
