(* ===== verification/Cost_Props.thy ===== *)
theory Cost_Props
  imports Cost_Guard
begin

text \<open>
  Properties of the metrics and of the cost guard over them: the metrics file is read back to the
  counters and timings it was written from; what a summary reports; and the usage a process sees, as
  an abstract ledger of tokens.
\<close>

section \<open>Reading back what was written\<close>

datatype metric_event =
    Message string string rat
  | Failure string string string
  | Inference string string int rat
  | Sla string string rat rat
  | Custom string string json string "json dict"

fun metric_step :: "(json \<Rightarrow> string) \<Rightarrow> metric_event \<Rightarrow> collector \<times> metric_file \<Rightarrow> collector \<times> metric_file" where
  "metric_step pr (Message now ty ms) st = record_message_processed True now ty ms st"
| "metric_step pr (Failure now ty msg) st = record_error True now ty msg st"
| "metric_step pr (Inference now ty n ms) st = record_inference_call True now ty n ms st"
| "metric_step pr (Sla now ty sla actual) st = record_sla_compliance pr True now ty sla actual st"
| "metric_step pr (Custom now ty v unit tags) st = record_custom True now ty v unit tags st"

definition metric_run :: "(json \<Rightarrow> string) \<Rightarrow> string \<Rightarrow> metric_event list \<Rightarrow> collector \<times> metric_file" where
  "metric_run pr role es = foldl (\<lambda>st e. metric_step pr e st) (new_collector role, None) es"

definition builtin_types :: "string list" where
  "builtin_types = [''message_processed'', ''error'', ''inference_call'', ''sla_compliance'']"

fun own_type :: "metric_event \<Rightarrow> bool" where
  "own_type (Custom now ty v unit tags) = (ty \<notin> set builtin_types)"
| "own_type _ = True"

lemma entry_fields:
  "json_get (entry_to_dict e) ''metric_type'' x = JStr (me_metric_type e)"
  "json_get (entry_to_dict e) ''value'' x = me_value e"
  "json_get (entry_to_dict e) ''tags'' (JObj []) = JObj (me_tags e)"
  by (simp_all add: json_get_def entry_to_dict_def)

lemma touch_add: "add_timing k q (touch_timing k t) = add_timing k q t"
  by (simp add: add_timing_def touch_timing_def split: option.split)

lemma read_timing_float: "read_timing rf k (JFloat q) c t = ((c, add_timing k q t), None)"
  by (simp add: read_timing_def json_float_def touch_add Let_def)

text \<open>One recorded event: the line it appends, read back, does to counters and timings what the event did.\<close>

definition memory :: "collector \<Rightarrow> read_state" where
  "memory mc = (mc_counters mc, mc_timings mc)"

lemma memory_simps [simp]:
  "memory (increment_counter k n mc) = (bump k n (mc_counters mc), mc_timings mc)"
  "memory (record_timing k v mc) = (mc_counters mc, add_timing k v (mc_timings mc))"
  "mc_counters (increment_counter k n mc) = bump k n (mc_counters mc)"
  "mc_timings (increment_counter k n mc) = mc_timings mc"
  "mc_counters (record_timing k v mc) = mc_counters mc"
  "mc_timings (record_timing k v mc) = add_timing k v (mc_timings mc)"
  "mc_role (increment_counter k n mc) = mc_role mc" "mc_role (record_timing k v mc) = mc_role mc"
  by (simp_all add: memory_def increment_counter_def record_timing_def)

definition lines :: "metric_file \<Rightarrow> json option list" where
  "lines f = (case f of Some ls \<Rightarrow> ls | None \<Rightarrow> [])"

lemma lines_write [simp]:
  "lines (write_metric ok e f) = lines f @ (if ok then [Some (JObj (entry_to_dict e))] else [])"
  by (simp add: lines_def write_metric_def split: option.split)

lemma persisted_lines: "persisted pr rf f = read_metrics pr rf (lines f) ([], [])"
  by (simp add: persisted_def lines_def split: option.split)

lemma read_inference_tags:
  "read_inference pr rf (JFloat ms) (JObj [(''data_type'', JStr ty), (''tokens'', JStr (py_str_int n))]) (c, t) =
    ((bump ''inference_tokens'' n (bump (''inference.'' @ ty) 1 (bump ''inference_calls'' 1 c)),
      add_timing (''inference_latency.'' @ ty) ms t), None)"
  by (simp add: read_inference_def tag_text_def py_text_def json_int_def read_timing_float)

lemma metric_step_reads_back:
  assumes "own_type e"
  shows "\<exists>j. lines (snd (metric_step pr e (mc, f))) = lines f @ [Some j]
    \<and> (\<forall>mc. read_metric pr rf j (memory mc) = (memory (fst (metric_step pr e (mc, f))), None))"
  using assms
  by (cases e)
    (auto simp: record_message_processed_def record_error_def record_inference_call_def record_sla_compliance_def
      record_custom_def entry_of_def Let_def memory_def read_inference_tags[simplified]
      read_metric_def entry_fields read_message_def read_error_line_def read_sla_def tag_text_def py_text_def
      read_timing_float json_bool_def builtin_types_def)

text \<open>Lines that never raise, whatever was read before.\<close>

definition clean_line :: "(json \<Rightarrow> string) \<Rightarrow> (string \<Rightarrow> rat option) \<Rightarrow> json option \<Rightarrow> bool" where
  "clean_line pr rf l \<longleftrightarrow> (\<forall>j st. l = Some j \<longrightarrow> snd (read_metric pr rf j st) = None)"

lemma clean_line_read: "clean_line pr rf (Some j) \<Longrightarrow> read_metric pr rf j st = (fst (read_metric pr rf j st), None)"
  unfolding clean_line_def by (intro prod_eqI) (simp_all only: fst_conv snd_conv)

lemma read_metrics_append:
  "list_all (clean_line pr rf) ls \<Longrightarrow> read_metrics pr rf (ls @ ls') st = read_metrics pr rf ls' (read_metrics pr rf ls st)"
proof (induction ls arbitrary: st)
  case (Cons l ls)
  then show ?case
  proof (cases l)
    case (Some j)
    then have r: "read_metric pr rf j st = (fst (read_metric pr rf j st), None)"
      using Cons.prems by (intro clean_line_read) simp
    have "list_all (clean_line pr rf) ls" using Cons.prems by simp
    note IH = Cons.IH[OF this]
    show ?thesis unfolding Some append_Cons read_metrics.simps by (subst (1 2) r) (simp add: IH)
  qed simp
qed simp

lemma metric_step_persisted:
  assumes "own_type e" and "list_all (clean_line pr rf) (lines f)"
  shows "list_all (clean_line pr rf) (lines (snd (metric_step pr e (mc, f))))
    \<and> (persisted pr rf f = memory mc' \<longrightarrow>
        persisted pr rf (snd (metric_step pr e (mc, f))) = memory (fst (metric_step pr e (mc', f))))"
proof -
  obtain j where j: "lines (snd (metric_step pr e (mc, f))) = lines f @ [Some j]"
    "\<And>mc. read_metric pr rf j (memory mc) = (memory (fst (metric_step pr e (mc, f))), None)"
    using metric_step_reads_back[OF assms(1), of pr mc f rf] by blast
  have "snd (read_metric pr rf j st) = None" for st
    using j(2)[of "\<lparr>mc_role = [], mc_counters = fst st, mc_timings = snd st\<rparr>"]
    unfolding memory_def collector.simps prod.collapse by simp
  then have "clean_line pr rf (Some j)" by (simp add: clean_line_def)
  then show ?thesis
    using assms(2) by (simp add: persisted_lines j read_metrics_append)
qed

text \<open>
  The metrics file of a claw holds all its metrics: after any sequence of records (custom metrics
  under a type of their own) reading the file gives exactly the counters and the timings in memory.
\<close>

theorem metrics_file_reads_back:
  assumes "list_all own_type es"
  shows "persisted pr rf (snd (metric_run pr role es)) =
    (mc_counters (fst (metric_run pr role es)), mc_timings (fst (metric_run pr role es)))"
proof -
  have "list_all (clean_line pr rf) (lines (snd (metric_run pr role es)))
      \<and> persisted pr rf (snd (metric_run pr role es)) = memory (fst (metric_run pr role es))"
    using assms
  proof (induction es rule: rev_induct)
    case Nil
    then show ?case by (simp add: metric_run_def new_collector_def memory_def persisted_lines lines_def)
  next
    case (snoc e es)
    let ?st = "metric_run pr role es"
    have "metric_run pr role (es @ [e]) = metric_step pr e (fst ?st, snd ?st)" by (simp add: metric_run_def)
    then show ?case
      using metric_step_persisted[where e = e and f = "snd ?st" and mc = "fst ?st" and mc' = "fst ?st"] snoc by simp
  qed
  then show ?thesis by (simp add: memory_def)
qed

theorem metrics_file_reads_back_witness:
  "persisted (\<lambda>_. []) (\<lambda>_. None) (snd (metric_run (\<lambda>_. []) ''ops'' [Message ''t'' ''brief'' 12, Inference ''t'' ''chat'' 40 3])) =
    ([(''messages_processed'', 1), (''messages.brief'', 1), (''inference_calls'', 1), (''inference.chat'', 1),
      (''inference_tokens'', 40)], [(''latency.brief'', [12]), (''inference_latency.chat'', [3])])"
proof -
  let ?es = "[Message ''t'' ''brief'' 12, Inference ''t'' ''chat'' 40 3]"
  have "list_all own_type ?es" by simp
  from metrics_file_reads_back[OF this, of "\<lambda>_. []" "\<lambda>_. None" "''ops''"] show ?thesis
    by (simp add: metric_run_def record_message_processed_def record_inference_call_def new_collector_def
        increment_counter_def record_timing_def bump_def count_of_def add_timing_def)
qed

section \<open>What a summary reports\<close>

lemma count_bump: "count_of (bump k n c) j = count_of c j + (if j = k then n else 0)"
  by (simp add: bump_def count_of_def)

lemma map_of_bump: "map_of (bump k n c) = (map_of c)(k \<mapsto> count_of c k + n)"
  by (simp add: bump_def)

lemma distinct_bump: "distinct (map fst c) \<Longrightarrow> distinct (map fst (bump k n c))"
  by (simp add: bump_def distinct_update)

lemma timings_add: "timings_at (add_timing k v t) j = timings_at t j @ (if j = k then [v] else [])"
  by (simp add: add_timing_def timings_at_def split: option.split)

lemma merge_counters_map:
  "distinct (map fst m) \<Longrightarrow> map_of (merge_counters p m) = map_of p ++ map_of m"
proof (induction m rule: rev_induct)
  case (snoc x m)
  obtain k v where x: "x = (k, v)" by fastforce
  have k: "map_of m k = None" using snoc.prems by (simp add: x map_of_eq_None_iff)
  have "map_of (merge_counters p (m @ [x])) = (map_of (merge_counters p m))(k \<mapsto> v)"
    by (simp add: merge_counters_def x)
  also have "\<dots> = (map_of p ++ map_of m)(k \<mapsto> v)" using snoc by simp
  also have "\<dots> = map_of p ++ map_of (m @ [x])"
    using k by (auto simp: x map_add_def fun_eq_iff split: option.split)
  finally show ?case .
qed (simp add: merge_counters_def)

lemma merged_count:
  "distinct (map fst m) \<Longrightarrow>
     count_of (merge_counters p m) k = (case map_of m k of Some n \<Rightarrow> n | None \<Rightarrow> count_of p k)"
  by (simp add: count_of_def merge_counters_map map_add_def split: option.split)

fun message_times :: "string \<Rightarrow> metric_event list \<Rightarrow> rat list" where
  "message_times ty [] = []"
| "message_times ty (Message now ty' ms # es) = (if ty' = ty then [ms] else []) @ message_times ty es"
| "message_times ty (_ # es) = message_times ty es"

lemma message_times_append: "message_times ty (es @ es') = message_times ty es @ message_times ty es'"
  by (induction ty es rule: message_times.induct) auto

lemma metric_step_distinct:
  "distinct (map fst (mc_counters mc)) \<Longrightarrow> distinct (map fst (mc_counters (fst (metric_step pr e (mc, f)))))"
  by (cases e) (auto simp: record_message_processed_def record_error_def record_inference_call_def
      record_sla_compliance_def record_custom_def Let_def distinct_bump)

lemma metric_step_times:
  "timings_at (mc_timings (fst (metric_step pr e (mc, f)))) (''latency.'' @ ty)
    = timings_at (mc_timings mc) (''latency.'' @ ty) @ message_times ty [e]"
  by (cases e) (auto simp: record_message_processed_def record_error_def record_inference_call_def
      record_sla_compliance_def record_custom_def Let_def timings_add)

lemma metric_run_facts:
  "distinct (map fst (mc_counters (fst (metric_run pr role es))))
   \<and> timings_at (mc_timings (fst (metric_run pr role es))) (''latency.'' @ ty) = message_times ty es"
proof (induction es rule: rev_induct)
  case (snoc e es)
  let ?mc = "fst (metric_run pr role es)" and ?f = "snd (metric_run pr role es)"
  have "metric_run pr role (es @ [e]) = metric_step pr e (?mc, ?f)" by (simp add: metric_run_def)
  then show ?case
    unfolding message_times_append metric_step_times using snoc metric_step_distinct[of ?mc pr e ?f]
    by (simp only: metric_step_times simp_thms)
qed (simp add: metric_run_def new_collector_def timings_at_def)

text \<open>
  The summary of a process that wrote all of its file: the counters are right, but every timing
  counts twice, once from memory and once from the file, so the reported number of timings of a
  message type is twice the number of messages (the average is not affected).
\<close>

theorem summary_counts_timings_twice:
  fixes pr rf role es ty h
  defines "s \<equiv> get_summary pr rf h (fst (metric_run pr role es)) (snd (metric_run pr role es))"
  assumes "list_all own_type es"
  shows "count_of (ms_counters s) k = count_of (mc_counters (fst (metric_run pr role es))) k
    \<and> (message_times ty es \<noteq> [] \<longrightarrow>
         (\<exists>t. ms_timings s (''latency.'' @ ty) = Some t \<and> ts_count t = 2 * length (message_times ty es)
            \<and> ts_avg t = ts_avg (timing_of (message_times ty es))))"
proof -
  let ?mc = "fst (metric_run pr role es)" and ?xs = "message_times ty es"
  note p = metrics_file_reads_back[OF assms(2), of pr rf role]
  note facts = metric_run_facts[of pr role es ty]
  have "sum_list (?xs @ ?xs) / of_nat (length (?xs @ ?xs)) = sum_list ?xs / of_nat (length ?xs)"
    by (simp add: mult_2[symmetric] field_simps)
  then have "ts_avg (timing_of (?xs @ ?xs)) = ts_avg (timing_of ?xs)" by (simp only: timing_of_def timing_summary.simps)
  moreover have "ms_timings s (''latency.'' @ ty) = (if ?xs = [] then None else Some (timing_of (?xs @ ?xs)))"
    using facts by (simp add: s_def get_summary_def p merge_timings_def)
  moreover have "ts_count (timing_of (?xs @ ?xs)) = 2 * length ?xs" by (simp add: timing_of_def)
  moreover have "count_of (ms_counters s) k = count_of (mc_counters ?mc) k"
    using facts by (simp add: s_def get_summary_def p merged_count) (simp add: count_of_def split: option.split)
  ultimately show ?thesis by simp
qed

section \<open>The usage a process sees\<close>

text \<open>
  The abstract state: what each running process has recorded itself, and what all have recorded in the
  files. A process sees its own tokens where it has any, and everybody's tokens elsewhere.
\<close>

record ledger =
  lg_own :: "nat \<rightharpoonup> (string \<rightharpoonup> int)"
  lg_all :: "string \<Rightarrow> int"

fun ledger_step :: "guard_event \<Rightarrow> ledger \<Rightarrow> ledger" where
  "ledger_step (Start p cfg) l = l\<lparr>lg_own := (lg_own l)(p \<mapsto> Map.empty)\<rparr>"
| "ledger_step (Infer p ok now r n) l =
     (case lg_own l p of
        None \<Rightarrow> l
      | Some m \<Rightarrow> if r \<notin> set GUARD_ROLES then l
          else l\<lparr>lg_own := (lg_own l)(p \<mapsto> m(r \<mapsto> (case m r of Some k \<Rightarrow> k | None \<Rightarrow> 0) + n)),
                 lg_all := (lg_all l)(r := lg_all l r + (if ok then n else 0))\<rparr>)"

definition ledger_run :: "guard_event list \<Rightarrow> ledger" where
  "ledger_run es = foldl (\<lambda>l e. ledger_step e l) \<lparr>lg_own = Map.empty, lg_all = \<lambda>_. 0\<rparr> es"

definition seen :: "ledger \<Rightarrow> (string \<rightharpoonup> int) \<Rightarrow> string \<Rightarrow> int" where
  "seen l m r = (case m r of Some n \<Rightarrow> n | None \<Rightarrow> lg_all l r)"

definition collectors_match :: "(string \<times> collector) list \<Rightarrow> (string \<rightharpoonup> int) \<Rightarrow> bool" where
  "collectors_match cs m \<longleftrightarrow> (\<exists>C. cs = map (\<lambda>r. (r, C r)) GUARD_ROLES
     \<and> (\<forall>r. distinct (map fst (mc_counters (C r))) \<and> map_of (mc_counters (C r)) ''inference_tokens'' = m r))"

definition files_match :: "(json \<Rightarrow> string) \<Rightarrow> (string \<Rightarrow> rat option) \<Rightarrow> metric_files \<Rightarrow> (string \<Rightarrow> int) \<Rightarrow> bool" where
  "files_match pr rf files a \<longleftrightarrow> (\<forall>r. list_all (clean_line pr rf) (lines (files r))
     \<and> count_of (fst (persisted pr rf (files r))) ''inference_tokens'' = a r)"

definition ledger_rel :: "(json \<Rightarrow> string) \<Rightarrow> (string \<Rightarrow> rat option) \<Rightarrow> guard_world \<Rightarrow> ledger \<Rightarrow> bool" where
  "ledger_rel pr rf w l \<longleftrightarrow> files_match pr rf (snd w) (lg_all l)
     \<and> (\<forall>p. rel_option (\<lambda>g m. collectors_match (cg_collectors g) m) (fst w p) (lg_own l p))"

lemma new_guard_matches: "collectors_match (cg_collectors (set_cost_guard cfg)) Map.empty"
  by (simp add: set_cost_guard_def get_cost_guard_def new_guard_def collectors_match_def new_collector_def)
    (rule exI[of _ new_collector], simp add: new_collector_def)

lemma update_map_roles:
  "distinct rs \<Longrightarrow> r \<in> set rs \<Longrightarrow> AList.update r y (map (\<lambda>r. (r, C r)) rs) = map (\<lambda>r'. (r', (C(r := y)) r')) rs"
  by (induction rs) auto

lemma map_of_roles: "map_of (map (\<lambda>r. (r, C r)) rs) r = (if r \<in> set rs then Some (C r) else None)"
  by (induction rs) auto

lemma inference_counters:
  "mc_counters (fst (record_inference_call ok now ty n ms (mc, f)))
    = bump ''inference_tokens'' n (bump (''inference.'' @ ty) 1 (bump ''inference_calls'' 1 (mc_counters mc)))"
  by (simp add: record_inference_call_def)

lemma inference_file:
  assumes "list_all (clean_line pr rf) (lines f)"
  shows "list_all (clean_line pr rf) (lines (snd (record_inference_call ok now ty n ms (mc, f))))
    \<and> count_of (fst (persisted pr rf (snd (record_inference_call ok now ty n ms (mc, f))))) ''inference_tokens''
      = count_of (fst (persisted pr rf f)) ''inference_tokens'' + (if ok then n else 0)"
proof (cases ok)
  case True
  let ?mc = "\<lparr>mc_role = [], mc_counters = fst (persisted pr rf f), mc_timings = snd (persisted pr rf f)\<rparr>"
  have "persisted pr rf f = memory ?mc" by (simp add: memory_def)
  then have "list_all (clean_line pr rf) (lines (snd (record_inference_call True now ty n ms (mc, f))))
    \<and> persisted pr rf (snd (record_inference_call True now ty n ms (mc, f)))
      = memory (fst (record_inference_call True now ty n ms (?mc, f)))"
    using metric_step_persisted[of "Inference now ty n ms" pr rf f mc ?mc] assms by simp
  then show ?thesis
    using True inference_counters[of True now ty n ms ?mc f] by (simp add: memory_def count_bump)
next
  case False
  then show ?thesis using assms by (simp add: record_inference_call_def write_metric_def)
qed

lemma record_inference_matches:
  assumes c: "collectors_match (cg_collectors g) m" and f: "files_match pr rf files a" and r: "r \<in> set GUARD_ROLES"
  shows "\<exists>g' files'. record_inference ok now r n (g, files) = (g', files')
    \<and> collectors_match (cg_collectors g') (m(r \<mapsto> (case m r of Some k \<Rightarrow> k | None \<Rightarrow> 0) + n))
    \<and> files_match pr rf files' (a(r := a r + (if ok then n else 0)))"
proof -
  obtain C where C: "cg_collectors g = map (\<lambda>r. (r, C r)) GUARD_ROLES"
    "\<And>r. distinct (map fst (mc_counters (C r)))" "\<And>r. map_of (mc_counters (C r)) ''inference_tokens'' = m r"
    using c by (auto simp: collectors_match_def)
  obtain mc' f' where st: "record_inference_call ok now ''chat'' n 0 (C r, files r) = (mc', f')" by fastforce
  have ctr: "mc_counters mc' = bump ''inference_tokens'' n (bump ''inference.chat'' 1 (bump ''inference_calls'' 1 (mc_counters (C r))))"
    using inference_counters[of ok now "''chat''" n 0 "C r" "files r"] st by simp
  have fl: "list_all (clean_line pr rf) (lines f')"
    "count_of (fst (persisted pr rf f')) ''inference_tokens''
      = count_of (fst (persisted pr rf (files r))) ''inference_tokens'' + (if ok then n else 0)"
    using inference_file[of pr rf "files r" ok now "''chat''" n 0 "C r"] f st by (simp_all add: files_match_def)
  have "map_of (mc_counters mc') ''inference_tokens'' = Some ((case m r of Some k \<Rightarrow> k | None \<Rightarrow> 0) + n)"
    using C(3)[of r] by (simp add: ctr map_of_bump count_bump) (simp add: count_of_def)
  moreover have "distinct (map fst (mc_counters mc'))" using C(2)[of r] by (simp add: ctr distinct_bump)
  moreover have "AList.update r mc' (cg_collectors g) = map (\<lambda>r'. (r', (C(r := mc')) r')) GUARD_ROLES"
    unfolding C(1) by (rule update_map_roles[OF _ r]) (simp add: GUARD_ROLES_def)
  ultimately have "collectors_match (AList.update r mc' (cg_collectors g)) (m(r \<mapsto> (case m r of Some k \<Rightarrow> k | None \<Rightarrow> 0) + n))"
    unfolding collectors_match_def using C(2,3) by (intro exI[of _ "C(r := mc')"]) simp
  moreover have "files_match pr rf (files(r := f')) (a(r := a r + (if ok then n else 0)))"
    using f fl by (simp add: files_match_def)
  moreover have "record_inference ok now r n (g, files)
      = (g\<lparr>cg_collectors := AList.update r mc' (cg_collectors g)\<rparr>, files(r := f'))"
    using r by (simp add: record_inference_def C(1) map_of_roles st)
  ultimately show ?thesis by simp
qed

lemma record_inference_other:
  "collectors_match (cg_collectors g) m \<Longrightarrow> r \<notin> set GUARD_ROLES \<Longrightarrow> record_inference ok now r n (g, files) = (g, files)"
  by (auto simp: record_inference_def collectors_match_def map_of_roles)

lemma ledger_step_rel:
  assumes "ledger_rel pr rf w l"
  shows "ledger_rel pr rf (guard_step e w) (ledger_step e l)"
proof -
  obtain gs files where w: "w = (gs, files)" by fastforce
  have f: "files_match pr rf files (lg_all l)" using assms by (simp add: ledger_rel_def w)
  have g: "rel_option (\<lambda>g m. collectors_match (cg_collectors g) m) (gs p) (lg_own l p)" for p
    using assms by (simp add: ledger_rel_def w)
  show ?thesis
  proof (cases e)
    case (Start p cfg)
    then show ?thesis using f g by (simp add: w ledger_rel_def new_guard_matches)
  next
    case (Infer p ok now r n)
    show ?thesis
    proof (cases "gs p")
      case None
      then have "lg_own l p = None" using g[of p] by simp
      then show ?thesis using assms None Infer by (simp add: w)
    next
      case (Some h)
      then obtain m where m: "lg_own l p = Some m" "collectors_match (cg_collectors h) m"
        using g[of p] by (auto simp: option_rel_Some1)
      show ?thesis
      proof (cases "r \<in> set GUARD_ROLES")
        case True
        obtain h' files' where "record_inference ok now r n (h, files) = (h', files')"
          "collectors_match (cg_collectors h') (m(r \<mapsto> (case m r of Some k \<Rightarrow> k | None \<Rightarrow> 0) + n))"
          "files_match pr rf files' ((lg_all l)(r := lg_all l r + (if ok then n else 0)))"
          using record_inference_matches[OF m(2) f True, of ok now n] by blast
        then show ?thesis using Infer Some m(1) True g by (simp add: w ledger_rel_def)
      next
        case False
        then show ?thesis using Infer Some m f g
          by (simp add: w ledger_rel_def record_inference_other[OF m(2)])
      qed
    qed
  qed
qed

lemma ledger_run_rel: "ledger_rel pr rf (guard_run es) (ledger_run es)"
proof (induction es rule: rev_induct)
  case Nil
  then show ?case by (simp add: guard_run_def ledger_run_def ledger_rel_def files_match_def lines_def persisted_def count_of_def)
next
  case (snoc e es)
  then show ?case using ledger_step_rel by (simp add: guard_run_def ledger_run_def)
qed

lemma usage_seen:
  assumes "collectors_match (cg_collectors g) m" and "files_match pr rf files (lg_all l)"
  shows "collect_today_usage pr rf g files = map (\<lambda>r. (r, seen l m r)) GUARD_ROLES"
proof -
  obtain C where C: "cg_collectors g = map (\<lambda>r. (r, C r)) GUARD_ROLES"
    "\<And>r. distinct (map fst (mc_counters (C r)))" "\<And>r. map_of (mc_counters (C r)) ''inference_tokens'' = m r"
    using assms(1) by (auto simp: collectors_match_def)
  have "count_of (ms_counters (get_summary pr rf 24 (C r) (files r))) ''inference_tokens'' = seen l m r" for r
    using assms(2) C(2,3)
    by (cases "m r") (simp_all add: get_summary_def case_prod_beta merged_count seen_def files_match_def)
  then show ?thesis by (simp add: collect_today_usage_def C(1))
qed

text \<open>
  C37. The guards of several processes implement the ledger: for a claw for which a process has recorded
  calls since it started the reported usage is the sum of those alone, for every other claw the sum of
  all calls ever written by any process; the day of a call plays no part.
\<close>

theorem guard_implements_ledger:
  "map_option (\<lambda>g. collect_today_usage pr rf g (snd (guard_run es))) (fst (guard_run es) p)
    = map_option (\<lambda>m. map (\<lambda>r. (r, seen (ledger_run es) m r)) GUARD_ROLES) (lg_own (ledger_run es) p)"
proof -
  note rel = ledger_run_rel[of pr rf es, unfolded ledger_rel_def]
  show ?thesis
    using rel[THEN conjunct2, rule_format, of p]
    by (cases "fst (guard_run es) p"; cases "lg_own (ledger_run es) p") (simp_all add: usage_seen[OF _ rel[THEN conjunct1]])
qed

section \<open>The limit\<close>

lemma check_limit_total:
  "fst (check_limit pr rf g files) \<longleftrightarrow>
     sum_list (map snd (collect_today_usage pr rf g files)) < gc_daily_token_limit (cg_config g)"
  by (auto simp: check_limit_def get_usage_def Let_def)

lemma check_limit_seen:
  assumes "fst (guard_run es) p = Some g" and "lg_own (ledger_run es) p = Some m"
  shows "fst (check_limit pr rf g (snd (guard_run es))) \<longleftrightarrow>
    sum_list (map (seen (ledger_run es) m) GUARD_ROLES) < gc_daily_token_limit (cg_config g)"
proof -
  note rel = ledger_run_rel[of pr rf es, unfolded ledger_rel_def]
  have "collectors_match (cg_collectors g) m" using rel[THEN conjunct2, rule_format, of p] assms by simp
  from usage_seen[OF this rel[THEN conjunct1]] show ?thesis by (simp add: check_limit_total comp_def)
qed

lemma guard_run_snoc: "guard_run (es @ [e]) = guard_step e (guard_run es)" "ledger_run (es @ [e]) = ledger_step e (ledger_run es)"
  by (simp_all add: guard_run_def ledger_run_def)

lemma after_start:
  "fst (guard_run (es @ [Start p cfg])) p = Some (set_cost_guard cfg)"
  "lg_own (ledger_run (es @ [Start p cfg])) p = Some Map.empty"
  "lg_all (ledger_run (es @ [Start p cfg])) = lg_all (ledger_run es)"
  by (cases "guard_run es"; simp add: guard_run_snoc)+

lemma after_infer:
  assumes "fst (guard_run es) p = Some g" and "lg_own (ledger_run es) p = Some m" and "r \<in> set GUARD_ROLES"
  shows "\<exists>g'. fst (guard_run (es @ [Infer p ok now r n])) p = Some g' \<and> cg_config g' = cg_config g"
    and "lg_own (ledger_run (es @ [Infer p ok now r n])) p = Some (m(r \<mapsto> (case m r of Some k \<Rightarrow> k | None \<Rightarrow> 0) + n))"
    and "r' \<noteq> r \<Longrightarrow> lg_all (ledger_run (es @ [Infer p ok now r n])) r' = lg_all (ledger_run es) r'"
proof -
  obtain gs files where w: "guard_run es = (gs, files)" by fastforce
  obtain g' files' where r: "record_inference ok now r n (g, files) = (g', files')" by fastforce
  have "cg_config (fst (record_inference ok now r n (g, files))) = cg_config g"
    by (simp add: record_inference_def case_prod_beta split: option.split)
  then show "\<exists>g'. fst (guard_run (es @ [Infer p ok now r n])) p = Some g' \<and> cg_config g' = cg_config g"
    using assms(1) r by (simp add: guard_run_snoc w)
qed (use assms in \<open>simp_all add: guard_run_snoc\<close>)

text \<open>
  A restart opens the limit again: after any run, however much was used, a process that is started
  and records one call below the limit may go on, if no other claw has used anything. Without that call
  the limit refuses as soon as the calls of all days together reach it.
\<close>

theorem restart_opens_limit:
  assumes "r \<in> set GUARD_ROLES" and "\<forall>r' \<in> set GUARD_ROLES. r' \<noteq> r \<longrightarrow> lg_all (ledger_run es) r' = 0"
    and "n < gc_daily_token_limit cfg"
  shows "(\<exists>g. fst (guard_run (es @ [Start p (Some cfg), Infer p ok now r n])) p = Some g
      \<and> fst (check_limit pr rf g (snd (guard_run (es @ [Start p (Some cfg), Infer p ok now r n])))))
    \<and> (\<exists>g. fst (guard_run (es @ [Start p (Some cfg)])) p = Some g
      \<and> (fst (check_limit pr rf g (snd (guard_run (es @ [Start p (Some cfg)]))))
           \<longleftrightarrow> lg_all (ledger_run es) r < gc_daily_token_limit cfg))"
proof -
  let ?start = "es @ [Start p (Some cfg)]"
  let ?infer = "?start @ [Infer p ok now r n]"
  have total: "sum_list (map f GUARD_ROLES) = f r" if "\<forall>r' \<in> set GUARD_ROLES. r' \<noteq> r \<longrightarrow> f r' = (0::int)" for f
    using that assms(1) by (auto simp: GUARD_ROLES_def)
  have cfg: "cg_config (set_cost_guard (Some cfg)) = cfg"
    by (simp add: set_cost_guard_def get_cost_guard_def new_guard_def)
  have "fst (check_limit pr rf (set_cost_guard (Some cfg)) (snd (guard_run ?start)))
      \<longleftrightarrow> lg_all (ledger_run es) r < gc_daily_token_limit cfg"
    using assms(2) by (simp add: check_limit_seen[OF after_start(1,2)] cfg total seen_def after_start(3))
  moreover obtain g where g: "fst (guard_run ?infer) p = Some g" "cg_config g = cfg"
    using after_infer(1)[OF after_start(1,2) assms(1)] cfg by metis
  moreover have "fst (check_limit pr rf g (snd (guard_run ?infer)))"
    unfolding check_limit_seen[OF g(1) after_infer(2)[OF after_start(1,2) assms(1)]] g(2)
    using assms(2,3) by (subst total) (simp_all add: seen_def after_infer(3)[OF after_start(1,2) assms(1)] after_start(3) del: append.simps append_assoc)
  ultimately show ?thesis using after_start(1)[of es p "Some cfg"] by simp
qed

theorem restart_opens_limit_witness:
  "\<exists>g g'. fst (check_limit (\<lambda>_. []) (\<lambda>_. None) g (snd (guard_run [Start 2 None, Infer 2 True ''t'' ''ops'' 60000,
        Start 3 (Some default_guard_config), Infer 3 True ''t'' ''ops'' 5])))
     \<and> \<not> fst (check_limit (\<lambda>_. []) (\<lambda>_. None) g' (snd (guard_run [Start 2 None, Infer 2 True ''t'' ''ops'' 60000,
        Start 3 (Some default_guard_config)])))"
proof -
  let ?es = "[Start 2 None, Infer 2 True ''t'' ''ops'' 60000]"
  have all: "lg_all (ledger_run ?es) = (\<lambda>_. 0)(''ops'' := 60000)"
    by (simp add: ledger_run_def GUARD_ROLES_def)
  have "''ops'' \<in> set GUARD_ROLES" "\<forall>r' \<in> set GUARD_ROLES. r' \<noteq> ''ops'' \<longrightarrow> lg_all (ledger_run ?es) r' = 0"
    "5 < gc_daily_token_limit default_guard_config"
    by (simp_all add: all) (simp_all add: GUARD_ROLES_def default_guard_config_def)
  from restart_opens_limit[OF this, of 3 True "''t''" "\<lambda>_. []" "\<lambda>_. None"] show ?thesis
    by (auto simp: all default_guard_config_def)
qed

end
