(* ===== verification/Relay.thy ===== *)
theory Relay
  imports Py_Text Json_Read
begin

text \<open>
  \<^verbatim>\<open>milimo-core/src/milimo_core/mesh_relay.py\<close>: the relay server, its connections and the index from a
  squad's role to a connection, the handler of one socket message by message, and the client with its
  states. SHA-256 (\<open>sha\<close>), the length of a printed JSON value (\<open>len\<close>) and the way Python prints a value
  that is no text (\<open>pr\<close>) are parameters; times and dates are arguments. Whether a frame can be sent is
  an argument too, since \<open>ws.send\<close> may raise. A frame is the JSON value it holds, or none when it is
  not JSON.
\<close>

type_synonym frame = "json option"

section \<open>The server\<close>

record relay_connection =
  rc_id :: string
  rc_squad :: json
  rc_role :: json
  rc_region :: json
  rc_connected_at :: string
  rc_last_activity :: string
  rc_bytes_sent :: nat
  rc_bytes_received :: nat

record relay =
  rl_mesh_secret :: string
  rl_max_connections :: int
  rl_connections :: "relay_connection dict"
  rl_role_index :: "string dict"

definition new_relay :: "string \<Rightarrow> int \<Rightarrow> relay" where
  "new_relay secret m = \<lparr>rl_mesh_secret = secret, rl_max_connections = m, rl_connections = [], rl_role_index = []\<rparr>"

definition role_key :: "(json \<Rightarrow> string) \<Rightarrow> json \<Rightarrow> json \<Rightarrow> string" where
  "role_key pr squad role = py_text pr squad @ '':'' @ py_text pr role"

definition hash_secret :: "(string \<Rightarrow> string) \<Rightarrow> string \<Rightarrow> string \<Rightarrow> string \<Rightarrow> string" where
  "hash_secret sha secret today squad = sha (secret @ '':'' @ today @ '':'' @ squad)"

definition fresh_id :: "(string \<Rightarrow> string) \<Rightarrow> string \<Rightarrow> string \<Rightarrow> string" where
  "fresh_id sha key clock = take 16 (sha (key @ '':'' @ clock))"

record instant =
  in_today :: string
  in_now :: string
  in_clock :: string

definition auth_success :: "string \<Rightarrow> json" where
  "auth_success cid = JObj [(''type'', JStr ''auth_success''), (''connection_id'', JStr cid)]"

definition auth_failure :: json where
  "auth_failure = JObj [(''type'', JStr ''error''), (''message'', JStr ''Authentication failed'')]"

text \<open>\<open>_authenticate_connection\<close> up to the reply: the connection is entered before it is sent.\<close>

definition authenticate_connection ::
  "(string \<Rightarrow> string) \<Rightarrow> (json \<Rightarrow> string) \<Rightarrow> instant \<Rightarrow> json dict \<Rightarrow> relay \<Rightarrow> relay \<times> string" where
  "authenticate_connection sha pr t d rl =
     (if rl_max_connections rl \<le> int (length (rl_connections rl)) then (rl, [])
      else
        (let squad = json_get d ''squad_id'' (JStr []); role = json_get d ''role'' (JStr []);
             region = json_get d ''region'' (JStr ''unknown''); secret = json_get d ''secret'' (JStr [])
         in if secret \<noteq> JStr (hash_secret sha (rl_mesh_secret rl) (in_today t) (py_text pr squad)) then (rl, [])
            else
              (let key = role_key pr squad role; cid = fresh_id sha key (in_clock t);
                   conn = \<lparr>rc_id = cid, rc_squad = squad, rc_role = role, rc_region = region,
                           rc_connected_at = in_now t, rc_last_activity = in_now t, rc_bytes_sent = 0, rc_bytes_received = 0\<rparr>
               in (rl\<lparr>rl_connections := AList.update cid conn (rl_connections rl),
                      rl_role_index := AList.update key cid (rl_role_index rl)\<rparr>, cid))))"

definition add_received :: "nat \<Rightarrow> relay_connection \<Rightarrow> relay_connection" where
  "add_received n c = c\<lparr>rc_bytes_received := rc_bytes_received c + n\<rparr>"

definition add_sent :: "nat \<Rightarrow> relay_connection \<Rightarrow> relay_connection" where
  "add_sent n c = c\<lparr>rc_bytes_sent := rc_bytes_sent c + n\<rparr>"

definition change_connection :: "string \<Rightarrow> (relay_connection \<Rightarrow> relay_connection) \<Rightarrow> relay \<Rightarrow> relay" where
  "change_connection cid f rl =
     (case map_of (rl_connections rl) cid of
        None \<Rightarrow> rl
      | Some c \<Rightarrow> rl\<lparr>rl_connections := AList.update cid (f c) (rl_connections rl)\<rparr>)"

text \<open>\<open>_route_message\<close> counts bytes; it hands the message to nobody.\<close>

definition route_message :: "(json \<Rightarrow> string) \<Rightarrow> (json \<Rightarrow> nat) \<Rightarrow> string \<Rightarrow> json dict \<Rightarrow> relay \<Rightarrow> relay" where
  "route_message pr len sender d rl =
     (let n = len (json_get d ''message'' (JObj []));
          key = role_key pr (json_get d ''squad_id'' (JStr [])) (json_get d ''recipient_role'' (JStr []))
      in case map_of (rl_role_index rl) key of
           None \<Rightarrow> rl
         | Some rid \<Rightarrow>
             if rid = [] \<or> map_of (rl_connections rl) rid = None then rl
             else change_connection sender (add_sent n) (change_connection rid (add_received n) rl))"

definition handle_heartbeat :: "string \<Rightarrow> string \<Rightarrow> relay \<Rightarrow> relay" where
  "handle_heartbeat now cid rl = change_connection cid (\<lambda>c. c\<lparr>rc_last_activity := now\<rparr>) rl"

definition remove_connection :: "(json \<Rightarrow> string) \<Rightarrow> string \<Rightarrow> relay \<Rightarrow> relay" where
  "remove_connection pr cid rl =
     (case map_of (rl_connections rl) cid of
        None \<Rightarrow> rl
      | Some c \<Rightarrow> rl\<lparr>rl_connections := AList.delete cid (rl_connections rl),
                    rl_role_index := AList.delete (role_key pr (rc_squad c) (rc_role c)) (rl_role_index rl)\<rparr>)"

text \<open>
  One frame in \<open>_handle_connection\<close>: the relay, the value of \<open>connection_id\<close>, whether the loop goes on,
  and the frames sent. A reply that cannot be sent raises after the connection was entered and before
  \<open>connection_id\<close> is assigned. A message that is no JSON object ends the handler.
\<close>

definition handle_auth ::
  "(string \<Rightarrow> string) \<Rightarrow> (json \<Rightarrow> string) \<Rightarrow> instant \<Rightarrow> bool \<Rightarrow> json dict \<Rightarrow> string \<Rightarrow> relay
    \<Rightarrow> relay \<times> string \<times> bool \<times> json list" where
  "handle_auth sha pr t sendable d cur rl =
     (let (rl', cid) = authenticate_connection sha pr t d rl in
      if cid = [] then (rl', [], False, if sendable then [auth_failure] else [])
      else if sendable then (rl', cid, True, [auth_success cid])
      else (rl', cur, False, []))"

definition handle_frame ::
  "(string \<Rightarrow> string) \<Rightarrow> (json \<Rightarrow> string) \<Rightarrow> (json \<Rightarrow> nat) \<Rightarrow> instant \<Rightarrow> bool \<Rightarrow> frame \<Rightarrow> string \<Rightarrow> relay
    \<Rightarrow> relay \<times> string \<times> bool \<times> json list" where
  "handle_frame sha pr len t sendable fr cur rl =
     (case fr of
        Some (JObj d) \<Rightarrow>
          (let ty = json_get d ''type'' (JStr []) in
           if ty = JStr ''auth'' then handle_auth sha pr t sendable d cur rl
           else if ty = JStr ''route'' then (route_message pr len cur d rl, cur, True, [])
           else if ty = JStr ''heartbeat'' then (handle_heartbeat (in_now t) cur rl, cur, True, [])
           else (rl, cur, True, []))
      | _ \<Rightarrow> (rl, cur, False, []))"

definition end_handler :: "(json \<Rightarrow> string) \<Rightarrow> string \<Rightarrow> relay \<Rightarrow> relay" where
  "end_handler pr cur rl = (if cur = [] then rl else remove_connection pr cur rl)"

record connection_stats =
  st_id :: string
  st_squad :: json
  st_role :: json
  st_region :: json
  st_sent :: nat
  st_received :: nat

definition get_relay_stats :: "relay \<Rightarrow> int \<times> int \<times> connection_stats list" where
  "get_relay_stats rl =
     (int (length (rl_connections rl)), rl_max_connections rl,
      map (\<lambda>(_, c). \<lparr>st_id = rc_id c, st_squad = rc_squad c, st_role = rc_role c, st_region = rc_region c,
                      st_sent = rc_bytes_sent c, st_received = rc_bytes_received c\<rparr>) (rl_connections rl))"

section \<open>Sockets\<close>

text \<open>
  The handlers of all open sockets with their \<open>connection_id\<close>. Every operation of the relay holds its
  lock, so the handlers interleave frame by frame (the look-up in the index alone is made without the
  lock; it is part of its step here).
\<close>

datatype relay_event =
    Accept nat
  | Receive nat instant bool frame
  | HangUp nat

record relay_world =
  rw_relay :: relay
  rw_sockets :: "nat \<rightharpoonup> string"
  rw_sent :: "(nat \<times> json) list"

definition receive_frame ::
  "(string \<Rightarrow> string) \<Rightarrow> (json \<Rightarrow> string) \<Rightarrow> (json \<Rightarrow> nat) \<Rightarrow> nat \<Rightarrow> instant \<Rightarrow> bool \<Rightarrow> frame \<Rightarrow> string \<Rightarrow> relay_world \<Rightarrow> relay_world" where
  "receive_frame sha pr len s t sendable fr cur w =
     (let (rl, cur', goes_on, sent) = handle_frame sha pr len t sendable fr cur (rw_relay w);
          w1 = w\<lparr>rw_sent := rw_sent w @ map (Pair s) sent\<rparr>
      in if goes_on then w1\<lparr>rw_relay := rl, rw_sockets := (rw_sockets w)(s \<mapsto> cur')\<rparr>
         else w1\<lparr>rw_relay := end_handler pr cur' rl, rw_sockets := (rw_sockets w)(s := None)\<rparr>)"

fun relay_step ::
  "(string \<Rightarrow> string) \<Rightarrow> (json \<Rightarrow> string) \<Rightarrow> (json \<Rightarrow> nat) \<Rightarrow> relay_event \<Rightarrow> relay_world \<Rightarrow> relay_world" where
  "relay_step sha pr len (Accept s) w =
     (if rw_sockets w s = None then w\<lparr>rw_sockets := (rw_sockets w)(s \<mapsto> [])\<rparr> else w)"
| "relay_step sha pr len (Receive s t sendable fr) w =
     (case rw_sockets w s of None \<Rightarrow> w | Some cur \<Rightarrow> receive_frame sha pr len s t sendable fr cur w)"
| "relay_step sha pr len (HangUp s) w =
     (case rw_sockets w s of
        None \<Rightarrow> w
      | Some cur \<Rightarrow> w\<lparr>rw_relay := end_handler pr cur (rw_relay w), rw_sockets := (rw_sockets w)(s := None)\<rparr>)"

definition relay_run ::
  "(string \<Rightarrow> string) \<Rightarrow> (json \<Rightarrow> string) \<Rightarrow> (json \<Rightarrow> nat) \<Rightarrow> relay_event list \<Rightarrow> relay_world \<Rightarrow> relay_world" where
  "relay_run sha pr len es w = foldl (\<lambda>w e. relay_step sha pr len e w) w es"

definition start_relay :: "string \<Rightarrow> int \<Rightarrow> relay_world" where
  "start_relay secret m = \<lparr>rw_relay = new_relay secret m, rw_sockets = Map.empty, rw_sent = []\<rparr>"

section \<open>The client\<close>

datatype relay_state = Disconnected | Connecting | Connected | Authenticating | Ready | Error

record relay_config =
  rg_mesh_secret :: string
  rg_squad_id :: string
  rg_role :: string
  rg_region :: string

record relay_client =
  cl_config :: relay_config
  cl_state :: relay_state
  cl_connection_id :: json
  cl_has_ws :: bool
  cl_queue :: "json list"
  cl_running :: bool
  cl_last_heartbeat :: "string option"
  cl_handlers :: "string list"

definition new_client :: "relay_config \<Rightarrow> relay_client" where
  "new_client cfg = \<lparr>cl_config = cfg, cl_state = Disconnected, cl_connection_id = JStr [], cl_has_ws = False,
     cl_queue = [], cl_running = False, cl_last_heartbeat = None, cl_handlers = []\<rparr>"

text \<open>\<open>connect\<close>: starting the thread, and the twenty looks at the state the thread leaves (\<open>seen\<close>).\<close>

definition start_connect :: "relay_client \<Rightarrow> relay_client" where
  "start_connect cl = cl\<lparr>cl_state := Connecting, cl_has_ws := True, cl_running := True\<rparr>"

fun await_ready :: "(nat \<Rightarrow> relay_state) \<Rightarrow> nat \<Rightarrow> nat \<Rightarrow> bool" where
  "await_ready seen i 0 = (seen i = Ready)"
| "await_ready seen i (Suc n) =
     (if seen i = Ready then True else if seen i = Error then False else await_ready seen (Suc i) n)"

definition connect_result :: "(nat \<Rightarrow> relay_state) \<Rightarrow> bool" where
  "connect_result seen = await_ready seen 0 20"

definition auth_payload :: "(string \<Rightarrow> string) \<Rightarrow> instant \<Rightarrow> relay_config \<Rightarrow> json dict" where
  "auth_payload sha t cfg =
     [(''type'', JStr ''auth''), (''squad_id'', JStr (rg_squad_id cfg)), (''role'', JStr (rg_role cfg)),
      (''region'', JStr (rg_region cfg)),
      (''secret'', JStr (hash_secret sha (rg_mesh_secret cfg) (in_today t) (rg_squad_id cfg))),
      (''timestamp'', JStr (in_now t))]"

definition on_open :: "(string \<Rightarrow> string) \<Rightarrow> instant \<Rightarrow> bool \<Rightarrow> relay_client \<Rightarrow> relay_client \<times> json list" where
  "on_open sha t sendable cl =
     (cl\<lparr>cl_state := Authenticating\<rparr>, if sendable then [JObj (auth_payload sha t (cl_config cl))] else [])"

text \<open>\<open>_handle_routed_message\<close>: the call of a handler, or the queue. A sender that is a list or an object
  cannot be looked up and raises, here \<open>None\<close>.\<close>

definition handle_routed :: "json dict \<Rightarrow> relay_client \<Rightarrow> (relay_client \<times> (string \<times> json) list) option" where
  "handle_routed d cl =
     (let m = json_get d ''message'' (JObj []) in
      case json_get d ''sender'' (JStr []) of
        JStr s \<Rightarrow> Some (if s \<in> set (cl_handlers cl) then (cl, [(s, m)]) else (cl\<lparr>cl_queue := cl_queue cl @ [m]\<rparr>, []))
      | JList _ \<Rightarrow> None
      | JObj _ \<Rightarrow> None
      | _ \<Rightarrow> Some (cl\<lparr>cl_queue := cl_queue cl @ [m]\<rparr>, []))"

definition on_message :: "string \<Rightarrow> frame \<Rightarrow> relay_client \<Rightarrow> (relay_client \<times> (string \<times> json) list) option" where
  "on_message now fr cl =
     (case fr of
        None \<Rightarrow> Some (cl, [])
      | Some (JObj d) \<Rightarrow>
          (let ty = json_get d ''type'' (JStr []) in
           if ty = JStr ''auth_success''
           then Some (cl\<lparr>cl_connection_id := json_get d ''connection_id'' (JStr []), cl_state := Ready\<rparr>, [])
           else if ty = JStr ''message'' then handle_routed d cl
           else if ty = JStr ''heartbeat_ack'' then Some (cl\<lparr>cl_last_heartbeat := Some now\<rparr>, [])
           else if ty = JStr ''error'' then Some (cl\<lparr>cl_state := Error\<rparr>, [])
           else Some (cl, []))
      | Some _ \<Rightarrow> None)"

definition on_error :: "relay_client \<Rightarrow> relay_client" where "on_error cl = cl\<lparr>cl_state := Error\<rparr>"

text \<open>\<open>_on_close\<close>, and whether the reconnect it schedules will connect when it wakes up.\<close>

definition on_close :: "relay_client \<Rightarrow> relay_client \<times> bool" where
  "on_close cl = (cl\<lparr>cl_state := Disconnected\<rparr>, cl_running cl)"

definition reconnects :: "relay_client \<Rightarrow> bool" where
  "reconnects cl \<longleftrightarrow> cl_running cl \<and> cl_state cl = Disconnected"

definition client_send :: "string \<Rightarrow> bool \<Rightarrow> string \<Rightarrow> json \<Rightarrow> relay_client \<Rightarrow> bool \<times> json list" where
  "client_send now sendable recipient m cl =
     (if cl_state cl \<noteq> Ready then (False, [])
      else if sendable
      then (True, [JObj [(''type'', JStr ''route''), (''recipient_role'', JStr recipient),
                    (''squad_id'', JStr (rg_squad_id (cl_config cl))), (''message'', m), (''timestamp'', JStr now)]])
      else (False, []))"

definition slice_to :: "int \<Rightarrow> 'a list \<Rightarrow> 'a list" where
  "slice_to n xs = take (nat (if n < 0 then int (length xs) + n else n)) xs"

definition slice_from :: "int \<Rightarrow> 'a list \<Rightarrow> 'a list" where
  "slice_from n xs = drop (nat (if n < 0 then int (length xs) + n else n)) xs"

definition client_receive :: "int \<Rightarrow> relay_client \<Rightarrow> json list \<times> relay_client" where
  "client_receive limit cl = (slice_to limit (cl_queue cl), cl\<lparr>cl_queue := slice_from limit (cl_queue cl)\<rparr>)"

definition subscribe :: "string \<Rightarrow> relay_client \<Rightarrow> relay_client" where
  "subscribe sender cl = cl\<lparr>cl_handlers := List.insert sender (cl_handlers cl)\<rparr>"

definition client_heartbeat :: "bool \<Rightarrow> relay_client \<Rightarrow> bool \<times> json list" where
  "client_heartbeat sendable cl =
     (if cl_state cl \<noteq> Ready \<or> \<not> sendable then (False, [])
      else (True, [JObj [(''type'', JStr ''heartbeat''), (''connection_id'', cl_connection_id cl)]]))"

definition close_client :: "relay_client \<Rightarrow> relay_client" where
  "close_client cl = cl\<lparr>cl_running := False, cl_state := Disconnected\<rparr>"

end
