(* ===== verification/Relay_Props.thy ===== *)
theory Relay_Props
  imports Relay
begin

text \<open>
  Properties of the relay: its capacity and its index along every run of sockets, what the relay ever
  sends, the handshake of a client, and what the client keeps of the messages it is sent.
\<close>

section \<open>The operations of the relay\<close>

lemma keys_update: "fst ` set (AList.update k v al) = insert k (fst ` set al)"
  by (simp add: dom_update[symmetric] dom_map_of_conv_image_fst[symmetric])

lemma length_update: "length (AList.update k v al) = (if k \<in> fst ` set al then length al else Suc (length al))"
  by (induction al) auto

lemma length_change [simp]: "length (rl_connections (change_connection c f rl)) = length (rl_connections rl)"
proof (cases "map_of (rl_connections rl) c")
  case (Some x)
  then have "c \<in> fst ` set (rl_connections rl)" by (metis dom_map_of_conv_image_fst domI)
  then show ?thesis using Some by (simp add: change_connection_def length_update)
qed (simp add: change_connection_def)

lemma change_connection_fields [simp]:
  "rl_role_index (change_connection c f rl) = rl_role_index rl"
  "rl_max_connections (change_connection c f rl) = rl_max_connections rl"
  "rl_mesh_secret (change_connection c f rl) = rl_mesh_secret rl"
  "map_of (rl_connections (change_connection c f rl)) c' =
     (if c' = c then map_option f (map_of (rl_connections rl) c) else map_of (rl_connections rl) c')"
  by (auto simp: change_connection_def split: option.split)

lemma route_message_cases:
  "route_message pr len sender d rl = rl
   \<or> (\<exists>rid n. route_message pr len sender d rl = change_connection sender (add_sent n) (change_connection rid (add_received n) rl))"
  unfolding route_message_def Let_def by (auto split: option.split)

definition conn_key :: "(json \<Rightarrow> string) \<Rightarrow> relay_connection \<Rightarrow> string" where
  "conn_key pr c = role_key pr (rc_squad c) (rc_role c)"

text \<open>The changes that keep the connections, their keys and the index.\<close>

definition same_shape :: "(json \<Rightarrow> string) \<Rightarrow> relay \<Rightarrow> relay \<Rightarrow> bool" where
  "same_shape pr rl rl' \<longleftrightarrow> rl_role_index rl' = rl_role_index rl \<and> rl_max_connections rl' = rl_max_connections rl
     \<and> rl_mesh_secret rl' = rl_mesh_secret rl \<and> length (rl_connections rl') = length (rl_connections rl)
     \<and> (\<forall>c. map_option (conn_key pr) (map_of (rl_connections rl') c) = map_option (conn_key pr) (map_of (rl_connections rl) c))"

lemma same_shape_refl [simp]: "same_shape pr rl rl"
  by (simp add: same_shape_def)

lemma same_shape_change:
  "(\<And>c. conn_key pr (f c) = conn_key pr c) \<Longrightarrow> same_shape pr rl (change_connection cid f rl)"
  by (simp add: same_shape_def option.map_comp comp_def)

lemma same_shape_trans: "same_shape pr a b \<Longrightarrow> same_shape pr b c \<Longrightarrow> same_shape pr a c"
  by (simp add: same_shape_def)

lemma same_shape_route: "same_shape pr rl (route_message pr len sender d rl)"
  using route_message_cases[of pr len sender d rl]
  by (auto intro!: same_shape_trans[OF same_shape_change same_shape_change] simp: conn_key_def add_sent_def add_received_def)

lemma same_shape_heartbeat: "same_shape pr rl (handle_heartbeat now cid rl)"
  unfolding handle_heartbeat_def by (rule same_shape_change) (simp add: conn_key_def)

text \<open>What one frame does: it keeps the shape, or it is an authentication.\<close>

lemma handle_frame_cases:
  obtains (auth) d where "fr = Some (JObj d)" "json_get d ''type'' (JStr []) = JStr ''auth''"
      "handle_frame sha pr len t ok fr cur rl = handle_auth sha pr t ok d cur rl"
  | (other) rl' g where "same_shape pr rl rl'" "handle_frame sha pr len t ok fr cur rl = (rl', cur, g, [])"
proof (cases "\<exists>d. fr = Some (JObj d) \<and> json_get d ''type'' (JStr []) = JStr ''auth''")
  case True
  then show ?thesis using auth by (auto simp: handle_frame_def)
next
  case False
  have stop: ?thesis if "handle_frame sha pr len t ok fr cur rl = (rl, cur, False, [])" using other[OF same_shape_refl that] .
  show ?thesis
  proof (cases fr)
    case (Some x)
    show ?thesis
    proof (cases x)
      case (JObj d)
      let ?ty = "json_get d ''type'' (JStr [])"
      consider (route) "?ty = JStr ''route''" | (heartbeat) "?ty = JStr ''heartbeat''"
        | (unknown) "?ty \<noteq> JStr ''route''" "?ty \<noteq> JStr ''heartbeat''" by blast
      then show ?thesis
      proof cases
        case route
        then show ?thesis using other[OF same_shape_route] Some JObj by (simp add: handle_frame_def)
      next
        case heartbeat
        then show ?thesis using other[OF same_shape_heartbeat] Some JObj by (simp add: handle_frame_def)
      next
        case unknown
        then show ?thesis using other[OF same_shape_refl] Some JObj False by (simp add: handle_frame_def)
      qed
    qed (use stop Some in \<open>simp_all add: handle_frame_def\<close>)
  qed (use stop in \<open>simp add: handle_frame_def\<close>)
qed

section \<open>Capacity\<close>

definition within_capacity :: "int \<Rightarrow> relay \<Rightarrow> bool" where
  "within_capacity m rl \<longleftrightarrow> rl_max_connections rl = m \<and> int (length (rl_connections rl)) \<le> max 0 m"

lemma same_shape_capacity: "same_shape pr rl rl' \<Longrightarrow> within_capacity m rl' = within_capacity m rl"
  by (simp add: same_shape_def within_capacity_def)

lemma authenticate_capacity:
  "within_capacity m rl \<Longrightarrow> within_capacity m (fst (authenticate_connection sha pr t d rl))"
  by (auto simp: within_capacity_def authenticate_connection_def Let_def length_update)

lemma length_delete: "length (AList.delete k al) \<le> length al"
  by (induction al) auto

lemma end_capacity: "within_capacity m rl \<Longrightarrow> within_capacity m (end_handler pr cur rl)"
proof -
  assume "within_capacity m rl"
  then show ?thesis
    using length_delete[of cur "rl_connections rl"]
    by (auto simp: within_capacity_def end_handler_def remove_connection_def split: option.split)
qed

lemma handle_frame_capacity:
  assumes "within_capacity m rl"
  shows "within_capacity m (fst (handle_frame sha pr len t ok fr cur rl))"
proof (cases rule: handle_frame_cases[of fr sha pr len t ok cur rl])
  case (auth d)
  have "fst (handle_auth sha pr t ok d cur rl) = fst (authenticate_connection sha pr t d rl)"
    by (simp add: handle_auth_def case_prod_beta)
  then show ?thesis using authenticate_capacity[OF assms] auth by simp
qed (use assms same_shape_capacity in simp)

lemma receive_capacity:
  "within_capacity m (rw_relay w) \<Longrightarrow> within_capacity m (rw_relay (receive_frame sha pr len s t ok fr cur w))"
  using handle_frame_capacity[of m "rw_relay w" sha pr len t ok fr cur]
  by (cases "handle_frame sha pr len t ok fr cur (rw_relay w)") (auto simp: receive_frame_def end_capacity Let_def)

lemma step_capacity: "within_capacity m (rw_relay w) \<Longrightarrow> within_capacity m (rw_relay (relay_step sha pr len e w))"
  by (cases e) (auto simp: receive_capacity end_capacity split: option.split)

lemma run_capacity: "within_capacity m (rw_relay w) \<Longrightarrow> within_capacity m (rw_relay (relay_run sha pr len es w))"
proof (induction es arbitrary: w)
  case (Cons e es)
  then show ?case using step_capacity by (simp add: relay_run_def)
qed (simp add: relay_run_def)

section \<open>What the relay sends\<close>

lemma handle_frame_sent:
  "set (snd (snd (snd (handle_frame sha pr len t ok fr cur rl)))) \<subseteq> insert auth_failure (range auth_success)"
proof (cases rule: handle_frame_cases[of fr sha pr len t ok cur rl])
  case (auth d)
  then show ?thesis by (auto simp: handle_auth_def case_prod_beta)
qed simp

lemma step_sent:
  assumes "snd ` set (rw_sent w) \<subseteq> insert auth_failure (range auth_success)"
  shows "snd ` set (rw_sent (relay_step sha pr len e w)) \<subseteq> insert auth_failure (range auth_success)"
proof (cases e)
  case (Receive s t ok fr)
  show ?thesis
  proof (cases "rw_sockets w s")
    case (Some cur)
    then show ?thesis
      using assms handle_frame_sent[of sha pr len t ok fr cur "rw_relay w"] Receive
      by (cases "handle_frame sha pr len t ok fr cur (rw_relay w)") (auto simp: receive_frame_def Let_def)
  qed (use assms Receive in simp)
qed (use assms in \<open>auto split: option.split\<close>)

lemma run_sent:
  assumes "snd ` set (rw_sent w) \<subseteq> insert auth_failure (range auth_success)"
  shows "snd ` set (rw_sent (relay_run sha pr len es w)) \<subseteq> insert auth_failure (range auth_success)"
  using assms
proof (induction es arbitrary: w)
  case (Cons e es)
  then show ?case using step_sent[of w sha pr len e] by (simp add: relay_run_def)
qed (simp add: relay_run_def)

text \<open>
  C39. The relay delivers no message: whatever the clients send, every frame the relay ever sends only
  moves the state of the client that gets it; no handler is called, nothing is queued, no heartbeat
  is acknowledged.
\<close>

theorem relay_never_delivers:
  assumes "(s, j) \<in> set (rw_sent (relay_run sha pr len es (start_relay secret m)))"
  shows "\<exists>cl'. on_message now (Some j) cl = Some (cl', []) \<and> cl_queue cl' = cl_queue cl
    \<and> cl_last_heartbeat cl' = cl_last_heartbeat cl \<and> cl_state cl' \<in> {Ready, Error}"
proof -
  have "j \<in> insert auth_failure (range auth_success)"
    using run_sent[of "start_relay secret m" sha pr len es] assms by (force simp: start_relay_def)
  then show ?thesis by (auto simp: on_message_def auth_failure_def auth_success_def json_get_def)
qed

theorem relay_never_delivers_witness:
  "\<exists>cl'. on_message ''t'' (Some auth_failure) (new_client \<lparr>rg_mesh_secret = ''s'', rg_squad_id = ''q'', rg_role = ''ops'', rg_region = []\<rparr>) = Some (cl', []) \<and> cl_queue cl' = []
    \<and> cl_last_heartbeat cl' = None \<and> cl_state cl' \<in> {Ready, Error}"
proof -
  let ?t = "\<lparr>in_today = ''d'', in_now = ''t'', in_clock = ''c''\<rparr>"
  have "(1, auth_failure) \<in> set (rw_sent (relay_run rev (\<lambda>_. []) (\<lambda>_. 0)
      [Accept 1, Receive 1 ?t True (Some (JObj [(''type'', JStr ''auth'')]))] (start_relay ''s'' 0)))"
    by (simp add: relay_run_def start_relay_def receive_frame_def handle_frame_def handle_auth_def
        authenticate_connection_def new_relay_def json_get_def)
  from relay_never_delivers[OF this, of "''t''" "new_client \<lparr>rg_mesh_secret = ''s'', rg_squad_id = ''q'', rg_role = ''ops'', rg_region = []\<rparr>"]
  show ?thesis by (simp add: new_client_def)
qed

section \<open>The role index\<close>

definition keys_of :: "(json \<Rightarrow> string) \<Rightarrow> relay \<Rightarrow> string \<rightharpoonup> string" where
  "keys_of pr rl c = map_option (conn_key pr) (map_of (rl_connections rl) c)"

lemma same_shape_keys: "same_shape pr rl rl' \<Longrightarrow> keys_of pr rl' = keys_of pr rl \<and> rl_role_index rl' = rl_role_index rl"
  by (auto simp: same_shape_def keys_of_def)

text \<open>The role key and the clock of the authentications of a run; ids of different keys must differ.\<close>

fun auth_of :: "(json \<Rightarrow> string) \<Rightarrow> relay_event \<Rightarrow> (string \<times> string) list" where
  "auth_of pr (Receive s t ok (Some (JObj d))) =
     (if json_get d ''type'' (JStr []) = JStr ''auth''
      then [(role_key pr (json_get d ''squad_id'' (JStr [])) (json_get d ''role'' (JStr [])), in_clock t)] else [])"
| "auth_of pr _ = []"

definition ids_apart :: "(string \<Rightarrow> string) \<Rightarrow> (string \<times> string) list \<Rightarrow> bool" where
  "ids_apart sha as \<longleftrightarrow> list_all (\<lambda>(k, c). list_all (\<lambda>(k', c'). fresh_id sha k c = fresh_id sha k' c' \<longrightarrow> k = k') as) as"

lemma ids_apartD:
  "ids_apart sha as \<Longrightarrow> (k, c) \<in> set as \<Longrightarrow> (k', c') \<in> set as \<Longrightarrow> fresh_id sha k c = fresh_id sha k' c' \<Longrightarrow> k = k'"
  by (fastforce simp: ids_apart_def list_all_iff)

definition index_ok :: "(string \<Rightarrow> string) \<Rightarrow> (json \<Rightarrow> string) \<Rightarrow> (string \<times> string) list \<Rightarrow> relay \<Rightarrow> bool" where
  "index_ok sha pr as rl \<longleftrightarrow>
     (\<forall>c k. keys_of pr rl c = Some k \<longrightarrow> (\<exists>t. (k, t) \<in> set as \<and> c = fresh_id sha k t))
     \<and> (\<forall>k c. map_of (rl_role_index rl) k = Some c \<longrightarrow> keys_of pr rl c = Some k)"

lemma authenticate_index:
  assumes "ids_apart sha as" and "index_ok sha pr as rl"
    and "(role_key pr (json_get d ''squad_id'' (JStr [])) (json_get d ''role'' (JStr [])), in_clock t) \<in> set as"
  shows "index_ok sha pr as (fst (authenticate_connection sha pr t d rl))"
proof (cases "authenticate_connection sha pr t d rl = (rl, [])")
  case False
  define key where "key = role_key pr (json_get d ''squad_id'' (JStr [])) (json_get d ''role'' (JStr []))"
  define cid where "cid = fresh_id sha key (in_clock t)"
  let ?rl = "fst (authenticate_connection sha pr t d rl)"
  obtain conn where e: "?rl = rl\<lparr>rl_connections := AList.update cid conn (rl_connections rl),
      rl_role_index := AList.update key cid (rl_role_index rl)\<rparr>" and key: "conn_key pr conn = key"
  proof (rule that)
    let ?c = "\<lparr>rc_id = cid, rc_squad = json_get d ''squad_id'' (JStr []), rc_role = json_get d ''role'' (JStr []),
      rc_region = json_get d ''region'' (JStr ''unknown''), rc_connected_at = in_now t, rc_last_activity = in_now t,
      rc_bytes_sent = 0, rc_bytes_received = 0\<rparr>"
    show "?rl = rl\<lparr>rl_connections := AList.update cid ?c (rl_connections rl), rl_role_index := AList.update key cid (rl_role_index rl)\<rparr>"
      using False by (simp add: authenticate_connection_def Let_def cid_def key_def split: if_splits)
    show "conn_key pr ?c = key" by (simp add: conn_key_def key_def)
  qed
  have k: "keys_of pr ?rl = (keys_of pr rl)(cid \<mapsto> key)" and i: "map_of (rl_role_index ?rl) = (map_of (rl_role_index rl))(key \<mapsto> cid)"
    by (simp_all add: e keys_of_def key fun_eq_iff)
  have ids: "\<exists>t. (k, t) \<in> set as \<and> c = fresh_id sha k t" if "keys_of pr rl c = Some k" for c k
    using assms(2) that by (simp add: index_ok_def)
  have same: "k' = key" if "keys_of pr rl cid = Some k'" for k'
  proof -
    obtain t' where "(k', t') \<in> set as" "cid = fresh_id sha k' t'" using ids[OF \<open>keys_of pr rl cid = Some k'\<close>] by blast
    then show ?thesis using ids_apartD[OF assms(1) _ assms(3)] by (simp add: cid_def key_def)
  qed
  have "\<exists>u. (k', u) \<in> set as \<and> c = fresh_id sha k' u" if "((keys_of pr rl)(cid \<mapsto> key)) c = Some k'" for c k'
  proof (cases "c = cid")
    case True
    then show ?thesis using that assms(3) by (auto simp: cid_def key_def)
  qed (use that ids in simp)
  moreover have "((keys_of pr rl)(cid \<mapsto> key)) c = Some k'" if "((map_of (rl_role_index rl))(key \<mapsto> cid)) k' = Some c" for c k'
  proof (cases "k' = key")
    case False
    then have "keys_of pr rl c = Some k'" using that assms(2) by (simp add: index_ok_def)
    then show ?thesis using same by auto
  qed (use that in simp)
  ultimately show ?thesis by (simp add: index_ok_def k i)
qed (use assms in simp)

lemma remove_index:
  assumes "index_ok sha pr as rl" shows "index_ok sha pr as (remove_connection pr cid rl)"
proof (cases "map_of (rl_connections rl) cid")
  case (Some c)
  let ?rl = "remove_connection pr cid rl"
  have k: "keys_of pr ?rl = (keys_of pr rl)(cid := None)"
    and i: "map_of (rl_role_index ?rl) = (map_of (rl_role_index rl))(conn_key pr c := None)"
    using Some by (auto simp: remove_connection_def keys_of_def conn_key_def fun_eq_iff)
  have "keys_of pr rl cid = Some (conn_key pr c)" using Some by (simp add: keys_of_def)
  then show ?thesis using assms unfolding index_ok_def k i by auto
qed (use assms in \<open>simp add: remove_connection_def\<close>)

lemma end_index: "index_ok sha pr as rl \<Longrightarrow> index_ok sha pr as (end_handler pr cid rl)"
  by (simp add: end_handler_def remove_index)

lemma handle_frame_index:
  assumes "ids_apart sha as" and "index_ok sha pr as rl" and "set (auth_of pr (Receive s t ok fr)) \<subseteq> set as"
  shows "index_ok sha pr as (fst (handle_frame sha pr len t ok fr cur rl))"
proof (cases rule: handle_frame_cases[of fr sha pr len t ok cur rl])
  case (auth d)
  have "fst (handle_auth sha pr t ok d cur rl) = fst (authenticate_connection sha pr t d rl)"
    by (simp add: handle_auth_def case_prod_beta)
  then show ?thesis using authenticate_index[OF assms(1,2), of d t] assms(3) auth by simp
next
  case (other rl' g)
  then show ?thesis using same_shape_keys[OF other(1)] assms(2) by (simp add: index_ok_def)
qed

lemma step_index:
  assumes "ids_apart sha as" and "index_ok sha pr as (rw_relay w)" and "set (auth_of pr e) \<subseteq> set as"
  shows "index_ok sha pr as (rw_relay (relay_step sha pr len e w))"
proof (cases e)
  case (Receive s t ok fr)
  show ?thesis
  proof (cases "rw_sockets w s")
    case (Some cur)
    obtain rl c g out where r: "handle_frame sha pr len t ok fr cur (rw_relay w) = (rl, c, g, out)" by (metis prod_cases4)
    have "index_ok sha pr as rl"
      using handle_frame_index[of sha as pr "rw_relay w" s t ok fr len cur] assms Receive r by simp
    then show ?thesis using Some r Receive by (simp add: receive_frame_def Let_def end_index)
  qed (use assms Receive in simp)
qed (use assms in \<open>auto simp: end_index split: option.split\<close>)

lemma run_index:
  assumes "ids_apart sha as" and "index_ok sha pr as (rw_relay w)" and "set (concat (map (auth_of pr) es)) \<subseteq> set as"
  shows "index_ok sha pr as (rw_relay (relay_run sha pr len es w))"
  using assms(2,3)
proof (induction es arbitrary: w)
  case (Cons e es)
  then show ?case using step_index[OF assms(1)] by (simp add: relay_run_def)
qed (simp add: relay_run_def)

text \<open>
  C38. Along every run of the relay the number of connections stays within the capacity, and what the
  index gives for a role is a live connection of that squad and role, provided the connection ids of
  different roles differ.
\<close>

theorem relay_invariant:
  fixes sha pr len secret m
  assumes "ids_apart sha (concat (map (auth_of pr) es))"
  defines "rl \<equiv> rw_relay (relay_run sha pr len es (start_relay secret m))"
  shows "int (length (rl_connections rl)) \<le> max 0 m
    \<and> (\<forall>key cid. map_of (rl_role_index rl) key = Some cid \<longrightarrow>
         (\<exists>c. map_of (rl_connections rl) cid = Some c \<and> role_key pr (rc_squad c) (rc_role c) = key))"
proof -
  have cap: "within_capacity m rl"
    unfolding rl_def by (rule run_capacity) (simp add: start_relay_def new_relay_def within_capacity_def)
  have "index_ok sha pr (concat (map (auth_of pr) es)) rl"
    unfolding rl_def by (rule run_index[OF assms(1)]) (simp_all add: start_relay_def new_relay_def index_ok_def keys_of_def)
  then have "\<forall>key cid. map_of (rl_role_index rl) key = Some cid \<longrightarrow> keys_of pr rl cid = Some key" by (simp add: index_ok_def)
  then show ?thesis using cap by (auto simp: within_capacity_def keys_of_def conn_key_def)
qed

definition sample_auth :: "json dict" where
  "sample_auth = [(''type'', JStr ''auth''), (''squad_id'', JStr ''q''), (''role'', JStr ''ops''), (''secret'', JStr (rev ''s:d:q''))]"

definition sample_instant :: "string \<Rightarrow> instant" where
  "sample_instant c = \<lparr>in_today = ''d'', in_now = ''t'', in_clock = c\<rparr>"

theorem relay_invariant_witness:
  "let rl = rw_relay (relay_run rev (\<lambda>_. []) (\<lambda>_. 0) [Accept 1, Receive 1 (sample_instant ''1'') True (Some (JObj sample_auth))]
       (start_relay ''s'' 5))
   in length (rl_connections rl) = 1 \<and> int (length (rl_connections rl)) \<le> 5
     \<and> (\<exists>c. map_of (rl_connections rl) (rev ''q:ops:1'') = Some c \<and> role_key (\<lambda>_. []) (rc_squad c) (rc_role c) = ''q:ops'')"
proof -
  let ?es = "[Accept 1, Receive 1 (sample_instant ''1'') True (Some (JObj sample_auth))]"
  have "ids_apart rev (concat (map (auth_of (\<lambda>_. [])) ?es))"
    by (simp add: ids_apart_def sample_auth_def json_get_def)
  note inv = relay_invariant[OF this, of "\<lambda>_. 0" "''s''" 5]
  have run: "rw_relay (relay_run rev (\<lambda>_. []) (\<lambda>_. 0) ?es (start_relay ''s'' 5))
      = fst (authenticate_connection rev (\<lambda>_. []) (sample_instant ''1'') sample_auth (new_relay ''s'' 5))"
    by (simp add: relay_run_def start_relay_def receive_frame_def handle_frame_def handle_auth_def sample_auth_def
        authenticate_connection_def new_relay_def json_get_def hash_secret_def py_text_def sample_instant_def fresh_id_def role_key_def Let_def)
  have "length (rl_connections (fst (authenticate_connection rev (\<lambda>_. []) (sample_instant ''1'') sample_auth (new_relay ''s'' 5)))) = 1"
    "map_of (rl_role_index (fst (authenticate_connection rev (\<lambda>_. []) (sample_instant ''1'') sample_auth (new_relay ''s'' 5)))) ''q:ops''
      = Some (rev ''q:ops:1'')"
    by (simp_all add: sample_auth_def authenticate_connection_def new_relay_def json_get_def hash_secret_def py_text_def
        sample_instant_def fresh_id_def role_key_def Let_def)
  then show ?thesis using inv unfolding Let_def run by auto
qed

section \<open>Reconnecting\<close>

text \<open>
  A claw that reconnects before its old socket is gone becomes unreachable: when the old socket
  ends, the index entry of the role goes with it, the new connection stays, and every message routed
  to that role is dropped without a trace.
\<close>

theorem reconnect_loses_route:
  assumes "rw_sockets w s = Some old" and "old \<noteq> []" and "new \<noteq> old"
    and "map_of (rl_connections (rw_relay w)) old = Some c" and "map_of (rl_connections (rw_relay w)) new = Some c'"
    and "role_key pr (rc_squad c) (rc_role c) = role_key pr (rc_squad c') (rc_role c')"
    and "role_key pr (json_get d ''squad_id'' (JStr [])) (json_get d ''recipient_role'' (JStr [])) = role_key pr (rc_squad c') (rc_role c')"
  shows "let rl = rw_relay (relay_step sha pr len (HangUp s) w) in
    map_of (rl_connections rl) new = Some c' \<and> map_of (rl_connections rl) old = None
    \<and> route_message pr len sender d rl = rl"
  using assms by (simp add: end_handler_def remove_connection_def route_message_def Let_def)

definition reconnected :: relay_world where
  "reconnected = relay_run rev (\<lambda>_. []) (\<lambda>_. 0)
     [Accept 1, Receive 1 (sample_instant ''1'') True (Some (JObj sample_auth)),
      Accept 2, Receive 2 (sample_instant ''2'') True (Some (JObj sample_auth))] (start_relay ''s'' 5)"

lemmas relay_eval = relay_run_def start_relay_def receive_frame_def handle_frame_def handle_auth_def
  authenticate_connection_def new_relay_def json_get_def hash_secret_def py_text_def fresh_id_def role_key_def
  sample_auth_def sample_instant_def

section \<open>A full relay\<close>

definition stuck :: "relay_world \<Rightarrow> bool" where
  "stuck w \<longleftrightarrow> rl_max_connections (rw_relay w) \<le> int (length (rl_connections (rw_relay w))) \<and> ran (rw_sockets w) \<subseteq> {[]}"

lemma authenticate_full:
  "rl_max_connections rl \<le> int (length (rl_connections rl)) \<Longrightarrow> authenticate_connection sha pr t d rl = (rl, [])"
  by (simp add: authenticate_connection_def)

lemma ran_none: "ran m \<subseteq> X \<Longrightarrow> ran (m(s := None)) \<subseteq> X"
  by (auto simp: ran_def)

lemma step_stuck:
  assumes "stuck w"
  shows "stuck (relay_step sha pr len e w) \<and> same_shape pr (rw_relay w) (rw_relay (relay_step sha pr len e w))"
proof (cases e)
  case (Accept s)
  then show ?thesis using assms by (auto simp: stuck_def ran_def)
next
  case (HangUp s)
  show ?thesis
  proof (cases "rw_sockets w s")
    case (Some cur)
    then have "cur = []" using assms by (auto simp: stuck_def ran_def)
    then show ?thesis using assms HangUp Some by (simp add: stuck_def end_handler_def ran_none)
  qed (use assms HangUp in simp)
next
  case (Receive s t ok fr)
  show ?thesis
  proof (cases "rw_sockets w s")
    case (Some cur)
    then have cur: "cur = []" using assms by (auto simp: stuck_def ran_def)
    obtain rl g out where r: "handle_frame sha pr len t ok fr [] (rw_relay w) = (rl, [], g, out)"
      and shape: "same_shape pr (rw_relay w) rl"
    proof (cases rule: handle_frame_cases[of fr sha pr len t ok "[]" "rw_relay w"])
      case (auth d)
      then have "handle_frame sha pr len t ok fr [] (rw_relay w) = (rw_relay w, [], False, if ok then [auth_failure] else [])"
        using assms by (simp add: handle_auth_def authenticate_full stuck_def)
      then show ?thesis by (rule that) simp
    next
      case (other rl' g)
      then show ?thesis using that by simp
    qed
    have "ran ((rw_sockets w)(s \<mapsto> [])) \<subseteq> {[]}" using assms by (auto simp: stuck_def ran_def)
    then show ?thesis
      using assms shape Some Receive
      by (simp add: stuck_def receive_frame_def cur r Let_def end_handler_def ran_none same_shape_def)
  qed (use assms Receive in simp)
qed

lemma run_stuck:
  "stuck w \<Longrightarrow> stuck (relay_run sha pr len es w) \<and> same_shape pr (rw_relay w) (rw_relay (relay_run sha pr len es w))"
proof (induction es arbitrary: w)
  case (Cons e es)
  note st = step_stuck[OF Cons.prems, of sha pr len e]
  then have "stuck (relay_step sha pr len e w)" by simp
  from Cons.IH[OF this] st show ?case
    using same_shape_trans[OF conjunct2[OF st]] by (simp add: relay_run_def)
qed (simp add: relay_run_def)

text \<open>One socket that authenticates again and again: every time a new connection, none removed.\<close>

definition repeated_auth :: "nat \<Rightarrow> (nat \<Rightarrow> instant) \<Rightarrow> json dict \<Rightarrow> nat \<Rightarrow> relay_event list" where
  "repeated_auth s t d n = Accept s # map (\<lambda>i. Receive s (t i) True (Some (JObj d))) [0..<n]"

definition auth_key :: "(json \<Rightarrow> string) \<Rightarrow> json dict \<Rightarrow> string" where
  "auth_key pr d = role_key pr (json_get d ''squad_id'' (JStr [])) (json_get d ''role'' (JStr []))"

definition valid_auth :: "(string \<Rightarrow> string) \<Rightarrow> (json \<Rightarrow> string) \<Rightarrow> string \<Rightarrow> instant \<Rightarrow> json dict \<Rightarrow> bool" where
  "valid_auth sha pr secret t d \<longleftrightarrow> json_get d ''type'' (JStr []) = JStr ''auth''
     \<and> json_get d ''secret'' (JStr []) = JStr (hash_secret sha secret (in_today t) (py_text pr (json_get d ''squad_id'' (JStr []))))"

lemma authenticate_valid:
  assumes "valid_auth sha pr (rl_mesh_secret rl) t d" and "int (length (rl_connections rl)) < rl_max_connections rl"
  shows "\<exists>rl' c. authenticate_connection sha pr t d rl = (rl', fresh_id sha (auth_key pr d) (in_clock t))
    \<and> rl_connections rl' = AList.update (fresh_id sha (auth_key pr d) (in_clock t)) c (rl_connections rl)
    \<and> rl_max_connections rl' = rl_max_connections rl \<and> rl_mesh_secret rl' = rl_mesh_secret rl"
  using assms by (auto simp: authenticate_connection_def valid_auth_def auth_key_def Let_def)

lemma repeated_auth_fills:
  assumes valid: "\<And>i. i < n \<Longrightarrow> valid_auth sha pr secret (t i) d"
    and inj: "inj_on (\<lambda>i. fresh_id sha (auth_key pr d) (in_clock (t i))) {..<n}"
    and ne: "\<And>i. i < n \<Longrightarrow> fresh_id sha (auth_key pr d) (in_clock (t i)) \<noteq> []"
  shows "k \<le> n \<Longrightarrow> (let w = relay_run sha pr len (repeated_auth s t d k) (start_relay secret (int n)) in
    dom (rw_sockets w) = {s} \<and> length (rl_connections (rw_relay w)) = k
    \<and> fst ` set (rl_connections (rw_relay w)) = (\<lambda>i. fresh_id sha (auth_key pr d) (in_clock (t i))) ` {..<k}
    \<and> rl_max_connections (rw_relay w) = int n \<and> rl_mesh_secret (rw_relay w) = secret)"
proof (induction k)
  case 0
  then show ?case by (simp add: repeated_auth_def relay_run_def start_relay_def new_relay_def)
next
  case (Suc k)
  let ?id = "\<lambda>i. fresh_id sha (auth_key pr d) (in_clock (t i))"
  let ?w = "relay_run sha pr len (repeated_auth s t d k) (start_relay secret (int n))"
  have w: "dom (rw_sockets ?w) = {s}" "length (rl_connections (rw_relay ?w)) = k"
      "fst ` set (rl_connections (rw_relay ?w)) = ?id ` {..<k}"
      "rl_max_connections (rw_relay ?w) = int n" "rl_mesh_secret (rw_relay ?w) = secret"
    using Suc by (simp_all add: Let_def)
  obtain cur where cur: "rw_sockets ?w s = Some cur" using w(1) by (metis domD insertI1)
  have k: "k < n" using Suc.prems by simp
  obtain rl c where a: "authenticate_connection sha pr (t k) d (rw_relay ?w) = (rl, ?id k)"
      "rl_connections rl = AList.update (?id k) c (rl_connections (rw_relay ?w))"
      "rl_max_connections rl = int n" "rl_mesh_secret rl = secret"
    using authenticate_valid[of sha pr "rw_relay ?w" "t k" d] valid[OF k] w k by auto
  have "handle_frame sha pr len (t k) True (Some (JObj d)) cur (rw_relay ?w) = (rl, ?id k, True, [auth_success (?id k)])"
    using valid[OF k] ne[OF k] by (simp add: handle_frame_def handle_auth_def a valid_auth_def)
  then have step: "relay_run sha pr len (repeated_auth s t d (Suc k)) (start_relay secret (int n))
      = ?w\<lparr>rw_sent := rw_sent ?w @ [(s, auth_success (?id k))], rw_relay := rl, rw_sockets := (rw_sockets ?w)(s \<mapsto> ?id k)\<rparr>"
    using cur by (simp add: repeated_auth_def relay_run_def receive_frame_def)
  have "?id k \<notin> ?id ` {..<k}"
  proof
    assume "?id k \<in> ?id ` {..<k}"
    then obtain i where "i < k" "?id k = ?id i" by auto
    then show False using inj_onD[OF inj, of k i] k by simp
  qed
  then show ?case unfolding step by (simp add: a w length_update keys_update lessThan_Suc)
qed

text \<open>
  One client can block the relay for good: a socket that authenticates as often as the relay has
  places, and once more, leaves a full relay without any authenticated socket; whatever happens
  afterwards, nothing is removed and nobody can authenticate.
\<close>

theorem one_client_blocks_relay:
  assumes "\<And>i. i < n \<Longrightarrow> valid_auth sha pr secret (t i) d"
    and "inj_on (\<lambda>i. fresh_id sha (auth_key pr d) (in_clock (t i))) {..<n}"
    and "\<And>i. i < n \<Longrightarrow> fresh_id sha (auth_key pr d) (in_clock (t i)) \<noteq> []"
    and "json_get d ''type'' (JStr []) = JStr ''auth''"
  shows "let w = relay_run sha pr len (repeated_auth s t d (Suc n) @ es) (start_relay secret (int n)) in
    length (rl_connections (rw_relay w)) = n \<and> ran (rw_sockets w) \<subseteq> {[]}
    \<and> authenticate_connection sha pr t' d' (rw_relay w) = (rw_relay w, [])"
proof -
  let ?w = "relay_run sha pr len (repeated_auth s t d n) (start_relay secret (int n))"
  let ?v = "relay_run sha pr len (repeated_auth s t d (Suc n)) (start_relay secret (int n))"
  have w: "dom (rw_sockets ?w) = {s}" "length (rl_connections (rw_relay ?w)) = n"
      "rl_max_connections (rw_relay ?w) = int n"
    using repeated_auth_fills[OF assms(1-3), of n len s] by (simp_all add: Let_def)
  obtain cur where cur: "rw_sockets ?w s = Some cur" using w(1) by (metis domD insertI1)
  have "handle_frame sha pr len (t n) True (Some (JObj d)) cur (rw_relay ?w) = (rw_relay ?w, [], False, [auth_failure])"
    using assms(4) w by (simp add: handle_frame_def handle_auth_def authenticate_full)
  then have v: "?v = ?w\<lparr>rw_sent := rw_sent ?w @ [(s, auth_failure)], rw_sockets := (rw_sockets ?w)(s := None)\<rparr>"
    using cur by (simp add: repeated_auth_def relay_run_def receive_frame_def end_handler_def)
  have "(rw_sockets ?w)(s := None) = Map.empty" using w(1) by (simp add: dom_eq_empty_conv[symmetric])
  then have "stuck ?v" unfolding v stuck_def using w by simp
  moreover have "relay_run sha pr len (repeated_auth s t d (Suc n) @ es) (start_relay secret (int n)) = relay_run sha pr len es ?v"
    by (simp add: relay_run_def)
  ultimately show ?thesis
    using run_stuck[of ?v sha pr len es] w(2)
    by (simp add: Let_def stuck_def authenticate_full same_shape_def) (simp add: v)
qed

theorem one_client_blocks_relay_witness:
  "let w = relay_run rev (\<lambda>_. []) (\<lambda>_. 0) (repeated_auth 1 (\<lambda>i. sample_instant (replicate i CHR ''1'')) sample_auth (Suc 2)
       @ [Accept 2, Receive 2 (sample_instant ''9'') True (Some (JObj sample_auth))]) (start_relay ''s'' (int 2)) in
    length (rl_connections (rw_relay w)) = 2
    \<and> authenticate_connection rev (\<lambda>_. []) (sample_instant ''9'') sample_auth (rw_relay w) = (rw_relay w, [])"
proof -
  let ?t = "\<lambda>i. sample_instant (replicate i CHR ''1'')"
  have v: "valid_auth rev (\<lambda>_. []) ''s'' (?t i) sample_auth" for i
    by (simp add: valid_auth_def sample_auth_def json_get_def hash_secret_def py_text_def sample_instant_def)
  have id: "fresh_id rev (auth_key (\<lambda>_. []) sample_auth) (in_clock (?t i)) = take 16 (replicate i CHR ''1'' @ '':spo:q'')" for i
    by (simp add: fresh_id_def auth_key_def sample_auth_def json_get_def role_key_def py_text_def sample_instant_def)
  have "inj_on (\<lambda>i. fresh_id rev (auth_key (\<lambda>_. []) sample_auth) (in_clock (?t i))) {..<2}"
    unfolding id by (auto simp: inj_on_def less_2_cases_iff)
  moreover have "fresh_id rev (auth_key (\<lambda>_. []) sample_auth) (in_clock (?t i)) \<noteq> []" for i
    unfolding id by (cases i) simp_all
  moreover have "json_get sample_auth ''type'' (JStr []) = JStr ''auth''" by (simp add: sample_auth_def json_get_def)
  ultimately show ?thesis
    using one_client_blocks_relay[of 2 rev "\<lambda>_. []" "''s''" ?t sample_auth "\<lambda>_. 0" 1
        "[Accept 2, Receive 2 (sample_instant ''9'') True (Some (JObj sample_auth))]" "sample_instant ''9''" sample_auth] v
    by (simp add: Let_def)
qed

section \<open>The client\<close>

text \<open>
  The handshake of client and relay: the client is ready after the relay's answer exactly when the
  relay has a free place and the two hashes of secret and date agree (and the id is not empty); in
  every other case it is in the state of an error.
\<close>

theorem handshake_ready_iff:
  "let (cl1, frames) = on_open sha t True cl;
       (rl', cid, goes_on, answers) = handle_frame sha pr len t' True (Some (hd frames)) cur rl;
       cfg = cl_config cl
   in map_option (\<lambda>(cl2, calls). cl_state cl2) (on_message now (Some (hd answers)) cl1) =
     Some (if int (length (rl_connections rl)) < rl_max_connections rl
             \<and> hash_secret sha (rg_mesh_secret cfg) (in_today t) (rg_squad_id cfg)
               = hash_secret sha (rl_mesh_secret rl) (in_today t') (rg_squad_id cfg)
             \<and> fresh_id sha (rg_squad_id cfg @ '':'' @ rg_role cfg) (in_clock t') \<noteq> []
           then Ready else Error)"
  by (simp add: on_open_def handle_frame_def auth_payload_def json_get_def handle_auth_def authenticate_connection_def
      py_text_def role_key_def on_message_def auth_failure_def auth_success_def Let_def)

datatype client_event =
    Arrives string frame
  | Take int
  | Subscribe string
  | Opens instant
  | Closes
  | Fails
  | Shuts

text \<open>The client after some events, the messages taken from its queue and the calls of handlers.\<close>

fun client_step ::
  "(string \<Rightarrow> string) \<Rightarrow> client_event \<Rightarrow> relay_client \<times> json list \<times> (string \<times> json) list
    \<Rightarrow> relay_client \<times> json list \<times> (string \<times> json) list" where
  "client_step sha (Arrives now fr) (cl, taken, calls) =
     (case on_message now fr cl of None \<Rightarrow> (cl, taken, calls) | Some (cl', cs) \<Rightarrow> (cl', taken, calls @ cs))"
| "client_step sha (Take n) (cl, taken, calls) = (let (ms, cl') = client_receive n cl in (cl', taken @ ms, calls))"
| "client_step sha (Subscribe r) (cl, taken, calls) = (subscribe r cl, taken, calls)"
| "client_step sha (Opens t) (cl, taken, calls) = (fst (on_open sha t True (start_connect cl)), taken, calls)"
| "client_step sha Closes (cl, taken, calls) = (fst (on_close cl), taken, calls)"
| "client_step sha Fails (cl, taken, calls) = (on_error cl, taken, calls)"
| "client_step sha Shuts (cl, taken, calls) = (close_client cl, taken, calls)"

text \<open>What should arrive: each message goes to the handler of its sender if there is one by then, else to
  the reader, in the order of arrival.\<close>

definition routed_to :: "string list \<Rightarrow> frame \<Rightarrow> json list \<times> (string \<times> json) list" where
  "routed_to subs fr =
     (case fr of
        Some (JObj d) \<Rightarrow>
          (if json_get d ''type'' (JStr []) \<noteq> JStr ''message'' then ([], [])
           else let m = json_get d ''message'' (JObj []) in
             (case json_get d ''sender'' (JStr []) of
                JStr s \<Rightarrow> if s \<in> set subs then ([], [(s, m)]) else ([m], [])
              | JList _ \<Rightarrow> ([], []) | JObj _ \<Rightarrow> ([], []) | _ \<Rightarrow> ([m], [])))
      | _ \<Rightarrow> ([], []))"

fun expected :: "string list \<Rightarrow> client_event list \<Rightarrow> json list \<times> (string \<times> json) list" where
  "expected subs [] = ([], [])"
| "expected subs (Arrives now fr # es) =
     (fst (routed_to subs fr) @ fst (expected subs es), snd (routed_to subs fr) @ snd (expected subs es))"
| "expected subs (Subscribe r # es) = expected (List.insert r subs) es"
| "expected subs (_ # es) = expected subs es"

lemma slice_split: "slice_to n xs @ slice_from n xs = xs"
  by (simp add: slice_to_def slice_from_def)

lemma on_message_routed:
  "case on_message now fr cl of
     None \<Rightarrow> routed_to (cl_handlers cl) fr = ([], [])
   | Some (cl', cs) \<Rightarrow> cl_handlers cl' = cl_handlers cl \<and> cl_queue cl' = cl_queue cl @ fst (routed_to (cl_handlers cl) fr)
       \<and> cs = snd (routed_to (cl_handlers cl) fr)"
  by (simp add: on_message_def routed_to_def handle_routed_def Let_def split: option.split json.split)

lemma client_run_expected:
  "case foldl (\<lambda>st e. client_step sha e st) (cl, taken, calls) es of (cl', taken', calls') \<Rightarrow>
     taken' @ cl_queue cl' = taken @ cl_queue cl @ fst (expected (cl_handlers cl) es)
     \<and> calls' = calls @ snd (expected (cl_handlers cl) es)"
proof (induction es arbitrary: cl taken calls)
  case (Cons e es)
  show ?case
  proof (cases e)
    case (Arrives now fr)
    note m = on_message_routed[where now = now and fr = fr and cl = cl]
    show ?thesis
    proof (cases "on_message now fr cl")
      case None
      then show ?thesis using Cons.IH[where cl = cl and taken = taken and calls = calls] m Arrives by simp
    next
      case (Some p)
      then show ?thesis using Cons.IH[where cl = "fst p" and taken = taken and calls = "calls @ snd p"] m Arrives by (simp add: case_prod_beta)
    qed
  next
    case (Take n)
    then show ?thesis
      using Cons.IH[where cl = "snd (client_receive n cl)" and taken = "taken @ fst (client_receive n cl)" and calls = calls] slice_split[of n "cl_queue cl"]
      by (simp add: client_receive_def case_prod_beta)
  next
    case (Subscribe r)
    then show ?thesis using Cons.IH[where cl = "subscribe r cl" and taken = taken and calls = calls] by (simp add: subscribe_def)
  next
    case (Opens t)
    then show ?thesis
      using Cons.IH[where cl = "fst (on_open sha t True (start_connect cl))" and taken = taken and calls = calls] by (simp add: on_open_def start_connect_def)
  next
    case Closes
    then show ?thesis using Cons.IH[where cl = "fst (on_close cl)" and taken = taken and calls = calls] by (simp add: on_close_def)
  next
    case Fails
    then show ?thesis using Cons.IH[where cl = "on_error cl" and taken = taken and calls = calls] by (simp add: on_error_def)
  next
    case Shuts
    then show ?thesis using Cons.IH[where cl = "close_client cl" and taken = taken and calls = calls] by (simp add: close_client_def)
  qed
qed simp

text \<open>
  The client loses, repeats and reorders nothing: over any sequence of events the messages taken and
  those still queued are exactly the arrived messages without a handler, in order, whatever limits are
  given, negative ones included; handlers are called with exactly the others.
\<close>

theorem client_keeps_messages:
  "case foldl (\<lambda>st e. client_step sha e st) (new_client cfg, [], []) es of (cl, taken, calls) \<Rightarrow>
     (taken @ cl_queue cl, calls) = expected [] es"
  using client_run_expected[where sha = sha and cl = "new_client cfg" and taken = "[]" and calls = "[]" and es = es]
  by (simp add: new_client_def case_prod_beta prod_eq_iff)

end
