(* ===== verification/Containment.thy ===== *)
theory Containment
  imports Prelude
begin

text \<open>
  \<^verbatim>\<open>milimo-core/src/milimo_core/containment.py\<close>: the command that runs a tool inside bubblewrap or Docker.
  What the machine has is an argument: the paths of both programs, whether the Docker daemon answers,
  which system directories exist, the resolved working directory and the path of the interpreter.
\<close>

record host =
  ho_bwrap :: "string option"
  ho_docker :: "string option"
  ho_docker_answers :: bool
  ho_exists :: "string \<Rightarrow> bool"
  ho_executable :: string

definition SYSTEM_DIRS :: "string list" where
  "SYSTEM_DIRS = [''/usr'', ''/lib'', ''/lib64'', ''/bin'', ''/sbin'', ''/etc'']"

definition is_python :: "host \<Rightarrow> string \<Rightarrow> bool" where
  "is_python h a \<longleftrightarrow> a = ''python'' \<or> a = ''python3'' \<or> a = ho_executable h \<or> suffix ''/python'' a \<or> suffix ''/python3'' a"

fun translate_args :: "host \<Rightarrow> string list \<Rightarrow> string list" where
  "translate_args h [] = []"
| "translate_args h (a # as) = (if is_python h a then ''python3'' else a) # as"

definition bwrap_command :: "host \<Rightarrow> string \<Rightarrow> string \<Rightarrow> string list \<Rightarrow> string list" where
  "bwrap_command h bwrap dir args =
     [bwrap, ''--unshare-all'', ''--proc'', ''/proc'', ''--dev'', ''/dev'']
     @ concat (map (\<lambda>p. if ho_exists h p then [''--ro-bind'', p, p] else []) SYSTEM_DIRS)
     @ [''--bind'', dir, dir, ''--chdir'', dir] @ args"

definition docker_command :: "host \<Rightarrow> string \<Rightarrow> string \<Rightarrow> string list \<Rightarrow> string list" where
  "docker_command h docker dir args =
     [docker, ''run'', ''--rm'', ''--net=none'', ''-v'', dir @ '':'' @ dir, ''-w'', dir, ''python:3.11-slim'']
     @ translate_args h args"

definition get_contained_command :: "host \<Rightarrow> string \<Rightarrow> string list \<Rightarrow> string list" where
  "get_contained_command h dir args =
     (case ho_bwrap h of
        Some b \<Rightarrow> bwrap_command h b dir args
      | None \<Rightarrow> (case ho_docker h of
          Some k \<Rightarrow> if ho_docker_answers h then docker_command h k dir args else args
        | None \<Rightarrow> args))"

text \<open>The command runs unconfined exactly when neither program can be used; else the sandbox comes first
  and the arguments of the caller last.\<close>

lemma contained_unless_nothing_found:
  "(ho_bwrap h = None \<and> (ho_docker h = None \<or> \<not> ho_docker_answers h) \<longrightarrow> get_contained_command h dir args = args)
   \<and> (\<forall>b. ho_bwrap h = Some b \<longrightarrow> prefix [b, ''--unshare-all''] (get_contained_command h dir args)
        \<and> suffix args (get_contained_command h dir args))
   \<and> (\<forall>k. ho_bwrap h = None \<and> ho_docker h = Some k \<and> ho_docker_answers h \<longrightarrow>
        prefix [k, ''run'', ''--rm'', ''--net=none''] (get_contained_command h dir args)
        \<and> suffix (tl args) (get_contained_command h dir args))"
proof -
  have "suffix (tl args) (translate_args h args)" by (cases args) (simp_all add: suffix_ConsI)
  then have "suffix (tl args) (docker_command h k dir args)" for k
    unfolding docker_command_def by (rule suffix_appendI)
  moreover have "suffix args (bwrap_command h b dir args)" for b
    unfolding bwrap_command_def by (intro suffix_appendI) simp
  moreover have "prefix [b, ''--unshare-all''] (bwrap_command h b dir args)" for b
    by (simp add: bwrap_command_def)
  moreover have "prefix [k, ''run'', ''--rm'', ''--net=none''] (docker_command h k dir args)" for k
    by (simp add: docker_command_def)
  ultimately show ?thesis by (simp add: get_contained_command_def split: option.split)
qed

end
