(* ===== verification/Effects.thy ===== *)
theory Effects
  imports Json_Read
begin

text \<open>
  Python computations that change a state and may raise: a function from the state to the state it
  leaves and either the exception or the result. What was written before an exception stays written.
  An exception is the name of its class and its text. \<open>keeps\<close> is the rule for invariants: a
  computation keeps a predicate of the state whether it returns or raises.
\<close>

datatype py_exn = PyExn (exn_class: string) (exn_text: string)

type_synonym ('s, 'a) eff = "'s \<Rightarrow> 's \<times> (py_exn + 'a)"

definition ok :: "'a \<Rightarrow> ('s, 'a) eff" where
  "ok a s = (s, Inr a)"

definition throw :: "string \<Rightarrow> string \<Rightarrow> ('s, 'a) eff" where
  "throw c t s = (s, Inl (PyExn c t))"

definition upd :: "('s \<Rightarrow> 's) \<Rightarrow> ('s, unit) eff" where
  "upd f s = (f s, Inr ())"

definition look :: "('s \<Rightarrow> 'a) \<Rightarrow> ('s, 'a) eff" where
  "look g s = (s, Inr (g s))"

definition andthen :: "('s, 'a) eff \<Rightarrow> ('a \<Rightarrow> ('s, 'b) eff) \<Rightarrow> ('s, 'b) eff" where
  "andthen m f s = (case m s of (s', Inl e) \<Rightarrow> (s', Inl e) | (s', Inr a) \<Rightarrow> f a s')"

text \<open>\<open>try: m except Exception as e: h\<close>.\<close>

definition attempt :: "('s, 'a) eff \<Rightarrow> (py_exn \<Rightarrow> ('s, 'a) eff) \<Rightarrow> ('s, 'a) eff" where
  "attempt m h s = (case m s of (s', Inl e) \<Rightarrow> h e s' | (s', Inr a) \<Rightarrow> (s', Inr a))"

text \<open>\<open>except (C1, ..., Cn)\<close>: the other exceptions pass.\<close>

definition attempt_only :: "string list \<Rightarrow> ('s, 'a) eff \<Rightarrow> (py_exn \<Rightarrow> ('s, 'a) eff) \<Rightarrow> ('s, 'a) eff" where
  "attempt_only cs m h =
     attempt m (\<lambda>e. if exn_class e \<in> set cs then h e else (\<lambda>s. (s, Inl e)))"

definition only_if :: "bool \<Rightarrow> ('s, unit) eff \<Rightarrow> ('s, unit) eff" where
  "only_if b m = (if b then m else ok ())"

fun for_each :: "'x list \<Rightarrow> ('x \<Rightarrow> ('s, unit) eff) \<Rightarrow> ('s, unit) eff" where
  "for_each [] body = ok ()"
| "for_each (x # xs) body = andthen (body x) (\<lambda>_. for_each xs body)"

text \<open>A loop that collects the results of its body.\<close>

fun collect :: "'x list \<Rightarrow> ('x \<Rightarrow> ('s, 'a list) eff) \<Rightarrow> ('s, 'a list) eff" where
  "collect [] body = ok []"
| "collect (x # xs) body = andthen (body x) (\<lambda>ys. andthen (collect xs body) (\<lambda>zs. ok (ys @ zs)))"

text \<open>The errors of reading a dataclass from JSON as exceptions.\<close>

fun reader_exn :: "read_error \<Rightarrow> py_exn" where
  "reader_exn (MissingField k) = PyExn ''KeyError'' k"
| "reader_exn (ValueError t) = PyExn ''ValueError'' t"
| "reader_exn (Untyped k) = PyExn ''TypeError'' k"

definition from_read :: "read_error + 'a \<Rightarrow> ('s, 'a) eff" where
  "from_read r s = (s, map_sum reader_exn id r)"

definition lift_exn :: "py_exn + 'a \<Rightarrow> ('s, 'a) eff" where
  "lift_exn r s = (s, r)"

text \<open>The truth value of a JSON value.\<close>

definition json_true :: "json \<Rightarrow> bool" where
  "json_true v = (case v of JNull \<Rightarrow> False | JBool b \<Rightarrow> b | JInt n \<Rightarrow> n \<noteq> 0 | JFloat r \<Rightarrow> r \<noteq> 0 | JStr s \<Rightarrow> s \<noteq> []
     | JList l \<Rightarrow> l \<noteq> [] | JObj d \<Rightarrow> d \<noteq> [])"

named_theorems eff_simps \<open>evaluation of computations\<close>

lemma eff_basic [eff_simps, simp]:
  "ok a s = (s, Inr a)" "throw c t s = (s, Inl (PyExn c t))" "upd f s = (f s, Inr ())"
  "look g s = (s, Inr (g s))" "lift_exn r s = (s, r)"
  by (simp_all add: ok_def throw_def upd_def look_def lift_exn_def)

lemma andthen_simps [simp]:
  "andthen (ok a) f = f a" "andthen (throw c t) f = throw c t"
  by (simp_all add: andthen_def fun_eq_iff)

lemma andthen_upd [simp]: "andthen (upd g) f s = f () (g s)"
  by (simp add: andthen_def)

lemma andthen_look [simp]: "andthen (look g) f s = f (g s) s"
  by (simp add: andthen_def)

lemma andthen_step: "m s = (s', Inr a) \<Longrightarrow> andthen m f s = f a s'"
  by (simp add: andthen_def)

lemma andthen_sure: "snd (m s) = Inr a \<Longrightarrow> andthen m f s = f a (fst (m s))"
  by (cases "m s") (simp add: andthen_def)

lemma andthen_raise: "m s = (s', Inl e) \<Longrightarrow> andthen m f s = (s', Inl e)"
  by (simp add: andthen_def)

lemma attempt_step: "m s = (s', Inr a) \<Longrightarrow> attempt m h s = (s', Inr a)"
  by (simp add: attempt_def)

lemma attempt_raise: "m s = (s', Inl e) \<Longrightarrow> attempt m h s = h e s'"
  by (simp add: attempt_def)

lemma attempt_ok [simp]: "attempt (ok a) h = ok a"
  by (simp add: attempt_def fun_eq_iff)

lemma andthen_lift [simp]:
  "andthen (from_read (Inr a)) f = f a" "andthen (from_read (Inl e)) f s = (s, Inl (reader_exn e))"
  "andthen (lift_exn (Inr a)) f = f a" "andthen (lift_exn (Inl x)) f s = (s, Inl x)"
  by (simp_all add: andthen_def from_read_def fun_eq_iff)

lemma only_if_simps [simp]: "only_if True m = m" "only_if False m = ok ()"
  by (simp_all add: only_if_def)

section \<open>Invariants\<close>

definition keeps :: "('s \<Rightarrow> bool) \<Rightarrow> ('s, 'a) eff \<Rightarrow> bool" where
  "keeps P m \<longleftrightarrow> (\<forall>s. P s \<longrightarrow> P (fst (m s)))"

named_theorems keeps_intros \<open>computations that keep an invariant\<close>

lemma keepsI: "(\<And>s. P s \<Longrightarrow> P (fst (m s))) \<Longrightarrow> keeps P m"
  by (simp add: keeps_def)

lemma keepsD: "keeps P m \<Longrightarrow> P s \<Longrightarrow> P (fst (m s))"
  by (simp add: keeps_def)

lemma keeps_basic [keeps_intros, simp]:
  "keeps P (ok a)" "keeps P (throw c t)" "keeps P (look g)" "keeps P (from_read r)" "keeps P (lift_exn x)"
  by (simp_all add: keeps_def from_read_def)

lemma keeps_upd: "(\<And>s. P s \<Longrightarrow> P (f s)) \<Longrightarrow> keeps P (upd f)"
  by (simp add: keeps_def)

lemma keeps_andthen [keeps_intros]:
  assumes "keeps P m" and "\<And>a. keeps P (f a)"
  shows "keeps P (andthen m f)"
proof (rule keepsI)
  fix s assume "P s"
  then have s': "P (fst (m s))" using assms(1) by (rule keepsD[rotated])
  show "P (fst (andthen m f s))"
  proof (cases "m s")
    case (Pair t r)
    show ?thesis
    proof (cases r)
      case (Inl e)
      then show ?thesis using s' by (simp add: andthen_def Pair)
    next
      case (Inr a)
      then show ?thesis using s' keepsD[OF assms(2), of t a] by (simp add: andthen_def Pair)
    qed
  qed
qed

lemma keeps_attempt [keeps_intros]:
  assumes "keeps P m" and "\<And>e. keeps P (h e)"
  shows "keeps P (attempt m h)"
proof (rule keepsI)
  fix s assume "P s"
  then have s': "P (fst (m s))" using assms(1) by (rule keepsD[rotated])
  show "P (fst (attempt m h s))"
  proof (cases "m s")
    case (Pair t r)
    show ?thesis
    proof (cases r)
      case (Inl e)
      then show ?thesis using s' keepsD[OF assms(2), of t e] by (simp add: attempt_def Pair)
    next
      case (Inr a)
      then show ?thesis using s' by (simp add: attempt_def Pair)
    qed
  qed
qed

lemma keeps_attempt_only [keeps_intros]:
  assumes "keeps P m" and "\<And>e. keeps P (h e)"
  shows "keeps P (attempt_only cs m h)"
  unfolding attempt_only_def
proof (rule keeps_attempt[OF assms(1)])
  fix e
  show "keeps P (if exn_class e \<in> set cs then h e else (\<lambda>s. (s, Inl e)))"
    by (cases "exn_class e \<in> set cs") (simp_all add: assms(2), simp add: keeps_def)
qed

lemma keeps_if [keeps_intros]: "(b \<Longrightarrow> keeps P m) \<Longrightarrow> (\<not> b \<Longrightarrow> keeps P n) \<Longrightarrow> keeps P (if b then m else n)"
  by simp

lemma keeps_only_if [keeps_intros]: "(b \<Longrightarrow> keeps P m) \<Longrightarrow> keeps P (only_if b m)"
  by (simp add: only_if_def)

lemma keeps_for_each [keeps_intros]: "(\<And>x. keeps P (body x)) \<Longrightarrow> keeps P (for_each xs body)"
  by (induction xs) (simp_all add: keeps_andthen)

lemma keeps_collect [keeps_intros]: "(\<And>x. keeps P (body x)) \<Longrightarrow> keeps P (collect xs body)"
  by (induction xs) (simp_all add: keeps_andthen)

lemma keeps_same [keeps_intros]: "keeps P (\<lambda>s. (s, r))"
  by (simp add: keeps_def)

section \<open>Computations that never raise\<close>

definition never_raises :: "('s, 'a) eff \<Rightarrow> bool" where
  "never_raises m \<longleftrightarrow> (\<forall>s. \<exists>a. snd (m s) = Inr a)"

lemma never_raisesE: "never_raises m \<Longrightarrow> (\<And>s' a. m s = (s', Inr a) \<Longrightarrow> R) \<Longrightarrow> R"
  unfolding never_raises_def by (metis prod.collapse)

lemma never_basic [simp]: "never_raises (ok a)" "never_raises (upd f)" "never_raises (look g)"
  by (simp_all add: never_raises_def)

lemma never_then:
  assumes "never_raises m" and "\<And>a. never_raises (f a)"
  shows "never_raises (andthen m f)"
  unfolding never_raises_def
proof
  fix s
  obtain t a where m: "m s = (t, Inr a)" using assms(1) by (rule never_raisesE)
  obtain u b where "f a t = (u, Inr b)" using assms(2) by (rule never_raisesE)
  then show "\<exists>x. snd (andthen m f s) = Inr x" using m by (simp add: andthen_step)
qed

lemma never_if: "(b \<Longrightarrow> never_raises m) \<Longrightarrow> never_raises (only_if b m)"
  by (cases b) simp_all

lemma never_caught: "never_raises (attempt m (\<lambda>_. ok a))"
  unfolding never_raises_def
proof
  fix s
  obtain t r where "m s = (t, r)" by fastforce
  then show "\<exists>x. snd (attempt m (\<lambda>_. ok a) s) = Inr x" by (cases r) (simp_all add: attempt_def)
qed

lemma attempt_never: "never_raises m \<Longrightarrow> attempt m h = m"
  by (rule ext) (metis attempt_step never_raisesE)

end
