(* ===== verification/War_Bridge.thy ===== *)
theory War_Bridge
  imports Effects Contracts
begin

text \<open>
  \<^verbatim>\<open>milimo-hermes-plugin/warroom/warroom_bridge.py\<close>: the War Room cards as files. Every claw writes a
  card for what waits for the operator; approving or vetoing a card moves its file and calls what the
  recipient's claw has registered. The state is extended by the claws with their own (the callbacks
  change both). Files are \<^verbatim>\<open>.json\<close> files, kept under their name without the suffix in the order they
  were last written, which is the order of modification times; a content that is not JSON is \<open>None\<close>.
\<close>

record war_room =
  wr_cards :: "json dict option dict"
  wr_inbox :: "string \<Rightarrow> json dict option dict"
  wr_rejected :: "json dict option dict"

text \<open>\<open>_safe_action_id\<close>.\<close>

definition safe_action_id :: "string \<Rightarrow> py_exn + string" where
  "safe_action_id raw =
     (if CHR ''/'' \<in> set raw \<or> CHR 0x5C \<in> set raw \<or> take 2 raw = ''..'' \<or> py_strip raw \<in> {''.'', ''..''}
      then Inl (PyExn ''ValueError'' (''Invalid action_id: '' @ raw))
      else if py_strip raw = [] then Inl (PyExn ''ValueError'' ''action_id is empty'')
      else Inr (py_strip raw))"

section \<open>Files of cards\<close>

definition put_file :: "string \<Rightarrow> 'v \<Rightarrow> 'v dict \<Rightarrow> 'v dict" where
  "put_file n v fs = filter (\<lambda>(m, _). m \<noteq> n) fs @ [(n, v)]"

text \<open>\<open>candidate.name == action_id or candidate.stem == action_id\<close>.\<close>

definition card_matches :: "string \<Rightarrow> string \<Rightarrow> bool" where
  "card_matches aid stem \<longleftrightarrow> stem @ ''.json'' = aid \<or> stem = aid"

definition find_card :: "string \<Rightarrow> json dict option dict \<Rightarrow> (string \<times> json dict option) option" where
  "find_card aid fs = find (\<lambda>(n, _). card_matches aid n) fs"

definition card_data :: "string \<Rightarrow> string \<Rightarrow> string \<Rightarrow> string \<Rightarrow> string \<Rightarrow> string \<Rightarrow> int \<Rightarrow> json dict \<Rightarrow> json dict" where
  "card_data aid role mode atype summary recipient now body =
     [(''action_id'', JStr aid), (''message_id'', JStr aid), (''claw_role'', JStr role), (''mode'', JStr mode),
      (''action_type'', JStr (if atype = [] then aid else atype)), (''summary'', JStr summary),
      (''timestamp'', JInt now), (''recipient_role'', JStr recipient), (''payload'', JObj body)]"

definition write_warroom_action :: "int \<Rightarrow> string \<Rightarrow> string \<Rightarrow> string \<Rightarrow> string \<Rightarrow> string \<Rightarrow> string \<Rightarrow> json dict
    \<Rightarrow> ('a war_room_scheme, string) eff" where
  "write_warroom_action now raw role mode atype summary recipient body =
     andthen (lift_exn (safe_action_id raw)) (\<lambda>aid.
     andthen (upd (wr_cards_update (put_file aid (Some (card_data aid role mode atype summary recipient now body)))))
       (\<lambda>_. ok aid))"

definition read_warroom_action :: "string \<Rightarrow> ('a war_room_scheme, json dict option) eff" where
  "read_warroom_action raw =
     andthen (lift_exn (safe_action_id raw)) (\<lambda>aid.
     look (\<lambda>s. case find_card aid (wr_cards s) of Some (_, d) \<Rightarrow> d | None \<Rightarrow> None))"

definition remove_warroom_action :: "string \<Rightarrow> ('a war_room_scheme, bool) eff" where
  "remove_warroom_action raw =
     andthen (lift_exn (safe_action_id raw)) (\<lambda>aid.
     andthen (look (\<lambda>s. find_card aid (wr_cards s))) (\<lambda>found.
       case found of
         None \<Rightarrow> ok False
       | Some (n, _) \<Rightarrow> andthen (upd (wr_cards_update (filter (\<lambda>(m, _). m \<noteq> n)))) (\<lambda>_. ok True)))"

section \<open>Approving and vetoing\<close>

text \<open>The callbacks by recipient role, as \<open>register_warroom_action_handler\<close> leaves them.\<close>

record 's action_handlers =
  on_approve :: "string \<Rightarrow> json dict \<Rightarrow> ('s, unit) eff"
  on_veto :: "string \<Rightarrow> json dict \<Rightarrow> ('s, unit) eff"

type_synonym 's handler_table = "string \<rightharpoonup> 's action_handlers"

definition register_warroom_action_handler :: "string \<Rightarrow> 's action_handlers \<Rightarrow> 's handler_table \<Rightarrow> 's handler_table" where
  "register_warroom_action_handler role h t = t(role \<mapsto> h)"

definition card_recipient :: "json dict \<Rightarrow> string" where
  "card_recipient d = (case json_get d ''recipient_role'' (JStr ''finance'') of
       JStr r \<Rightarrow> if r \<in> set VALID_RECIPIENTS then r else ''finance''
     | _ \<Rightarrow> ''finance'')"

text \<open>The search both operations start with: the card, or the exception.\<close>

definition target_card :: "string \<Rightarrow> ('a war_room_scheme, string \<times> json dict) eff" where
  "target_card aid =
     andthen (look (\<lambda>s. find_card aid (wr_cards s))) (\<lambda>found.
       case found of
         None \<Rightarrow> throw ''RuntimeError'' (''Action '' @ aid @ '' not found in War Room hold queue'')
       | Some (n, None) \<Rightarrow> throw ''JSONDecodeError'' n
       | Some (n, Some d) \<Rightarrow> ok (n, d))"

definition call_handler :: "('s, unit) eff option \<Rightarrow> ('s, unit) eff" where
  "call_handler h = (case h of None \<Rightarrow> ok () | Some m \<Rightarrow> attempt m (\<lambda>_. ok ()))"

definition approve_hold_message :: "('a war_room_scheme) handler_table \<Rightarrow> string \<Rightarrow> ('a war_room_scheme, string) eff" where
  "approve_hold_message handlers raw =
     andthen (lift_exn (safe_action_id raw)) (\<lambda>aid.
     andthen (target_card aid) (\<lambda>(n, d).
     andthen (upd (\<lambda>s. s\<lparr>wr_cards := filter (\<lambda>(m, _). m \<noteq> n) (wr_cards s),
                        wr_inbox := (wr_inbox s)(card_recipient d := put_file n (Some d) (wr_inbox s (card_recipient d)))\<rparr>)) (\<lambda>_.
     andthen (call_handler (map_option (\<lambda>h. on_approve h aid d) (handlers (card_recipient d)))) (\<lambda>_.
     andthen (upd (wr_cards_update (filter (\<lambda>(m, _). m \<noteq> aid)))) (\<lambda>_. ok n)))))"

definition veto_hold_message :: "('a war_room_scheme) handler_table \<Rightarrow> string \<Rightarrow> ('a war_room_scheme, string) eff" where
  "veto_hold_message handlers raw =
     andthen (lift_exn (safe_action_id raw)) (\<lambda>aid.
     andthen (target_card aid) (\<lambda>(n, d).
     andthen (upd (\<lambda>s. s\<lparr>wr_cards := filter (\<lambda>(m, _). m \<noteq> n) (wr_cards s), wr_rejected := put_file n (Some d) (wr_rejected s)\<rparr>)) (\<lambda>_.
     andthen (call_handler (map_option (\<lambda>h. on_veto h aid d) (handlers (card_recipient d)))) (\<lambda>_. ok n))))"

section \<open>Facts\<close>

lemma put_file_map_of: "map_of (put_file n v fs) = (map_of fs)(n \<mapsto> v)"
proof
  fix k
  have "map_of (filter (\<lambda>(m, _). m \<noteq> n) fs) k = (if k = n then None else map_of fs k)"
    by (induction fs) auto
  then show "map_of (put_file n v fs) k = ((map_of fs)(n \<mapsto> v)) k"
    by (simp add: put_file_def map_add_def split: option.split)
qed

lemma put_file_keys: "fst ` set (put_file n v fs) = insert n (fst ` set fs)"
  by (force simp: put_file_def)

lemma safe_action_id_plain:
  assumes "CHR ''/'' \<notin> set a" "CHR 0x5C \<notin> set a" "a \<noteq> []" "\<forall>c \<in> set a. \<not> space_char c" "hd a \<noteq> CHR ''.''"
  shows "safe_action_id a = Inr a"
proof -
  obtain c cs where a: "a = c # cs" using assms(3) by (cases a) auto
  have dw: "dropWhile space_char xs = xs" if "\<forall>c \<in> set xs. \<not> space_char c" for xs
    using that by (cases xs) auto
  have "py_strip a = a" using assms(4) by (simp add: py_strip_def dw)
  moreover have "take 2 a \<noteq> ''..''" "a \<noteq> ''.''" "a \<noteq> ''..''" using assms(5) by (auto simp: a)
  ultimately show ?thesis using assms by (simp add: safe_action_id_def)
qed

end
