(* ===== verification/Finance_Store.thy ===== *)
theory Finance_Store
  imports War_Bridge
begin

text \<open>
  \<^verbatim>\<open>milimo-core/src/milimo_core/finance/finance_init.py\<close>: the tree of files of the finance claw, its
  operational log and its log of payment events; and the state of the claw's files that its other
  components share. Dates are day numbers (days since the epoch, what a text \<^verbatim>\<open>YYYY-MM-DD\<close> denotes).
\<close>

section \<open>The tree\<close>

datatype fs_node = NDir | NFile "json dict option"

type_synonym fs_tree = "string \<rightharpoonup> fs_node"

definition REQUIRED_DIRS :: "string list" where
  "REQUIRED_DIRS =
    [''revenue/history'', ''invoices/pending'', ''invoices/approved'', ''invoices/sent'', ''invoices/paid'',
     ''invoices/overdue'', ''expenses/categories'', ''pricing/estimates'', ''pricing/history'',
     ''tax/quarterly'', ''tax/annual'', ''logs'']"

definition weekly_default :: "json dict" where
  "weekly_default = [(''week_total'', JInt 0), (''invoices_paid'', JInt 0), (''invoices_pending'', JInt 0),
     (''week_over_week_pct'', JFloat 0), (''last_updated'', JNull)]"

definition monthly_default :: "json dict" where
  "monthly_default = [(''month_total'', JInt 0), (''invoices_paid'', JInt 0), (''last_updated'', JNull)]"

definition annual_default :: "json dict" where
  "annual_default = [(''year_total'', JInt 0), (''invoices_paid'', JInt 0), (''last_updated'', JNull)]"

definition REQUIRED_FILES :: "(string \<times> json dict option) list" where
  "REQUIRED_FILES =
    [(''revenue/weekly-summary.json'', Some weekly_default),
     (''revenue/monthly-summary.json'', Some monthly_default),
     (''revenue/annual-summary.json'', Some annual_default),
     (''pricing/rules.json'', Some [(''default_hourly_rate'', JInt 0), (''floor_multiplier'', JFloat (8 / 10)),
        (''ceiling_multiplier'', JFloat (3 / 2)), (''scope_weights'', JObj []), (''last_updated'', JNull)]),
     (''tax/categories.json'', Some [(''income_categories'', JList []), (''expense_categories'', JList []),
        (''last_updated'', JNull)]),
     (''expenses/log.jsonl'', None), (''logs/operational.log'', None), (''logs/decisions.log'', None),
     (''logs/payment-events.log'', None)]"

text \<open>The directories above a path, the path itself excluded.\<close>

fun path_parents :: "string \<Rightarrow> string list" where
  "path_parents [] = []"
| "path_parents (c # cs) = (if c = CHR ''/'' then [[]] else []) @ map ((#) c) (path_parents cs)"

text \<open>\<open>mkdir(parents=True, exist_ok=True)\<close>: an error when the path or a directory above it is a file.\<close>

definition is_file :: "fs_tree \<Rightarrow> string \<Rightarrow> bool" where
  "is_file t p = (case t p of Some (NFile _) \<Rightarrow> True | _ \<Rightarrow> False)"

definition is_dir :: "fs_tree \<Rightarrow> string \<Rightarrow> bool" where
  "is_dir t p \<longleftrightarrow> t p = Some NDir"

definition make_dir :: "fs_tree \<Rightarrow> string \<Rightarrow> string + fs_tree" where
  "make_dir t p =
     (if list_ex (is_file t) (path_parents p) then Inl ''Not a directory''
      else if is_file t p then Inl ''File exists''
      else Inr (\<lambda>q. if q = p \<or> q \<in> set (path_parents p) then Some NDir else t q))"

record init_result =
  created_dirs :: "string list"
  created_files :: "string list"
  already_existed :: "string list"
  init_failed :: "(string \<times> string) list"

definition init_success :: "init_result \<Rightarrow> bool" where
  "init_success r \<longleftrightarrow> init_failed r = []"

definition init_dir :: "fs_tree \<times> init_result \<Rightarrow> string \<Rightarrow> fs_tree \<times> init_result" where
  "init_dir = (\<lambda>(t, r) p.
     if t p \<noteq> None then (t, r\<lparr>already_existed := already_existed r @ [p]\<rparr>)
     else (case make_dir t p of
         Inl e \<Rightarrow> (t, r\<lparr>init_failed := init_failed r @ [(p, e)]\<rparr>)
       | Inr t' \<Rightarrow> (t', r\<lparr>created_dirs := created_dirs r @ [p]\<rparr>)))"

definition parent_of :: "string \<Rightarrow> string" where
  "parent_of p = (case rev (path_parents p) of [] \<Rightarrow> [] | d # _ \<Rightarrow> d)"

definition init_file :: "fs_tree \<times> init_result \<Rightarrow> string \<times> json dict option \<Rightarrow> fs_tree \<times> init_result" where
  "init_file = (\<lambda>(t, r) (p, content).
     if t p \<noteq> None then (t, r\<lparr>already_existed := already_existed r @ [p]\<rparr>)
     else (case make_dir t (parent_of p) of
         Inl e \<Rightarrow> (t, r\<lparr>init_failed := init_failed r @ [(p, e)]\<rparr>)
       | Inr t' \<Rightarrow> (t'(p \<mapsto> NFile content), r\<lparr>created_files := created_files r @ [p]\<rparr>)))"

definition initialize :: "fs_tree \<Rightarrow> fs_tree \<times> init_result" where
  "initialize t =
     foldl init_file (foldl init_dir (t, \<lparr>created_dirs = [], created_files = [], already_existed = [], init_failed = []\<rparr>)
       REQUIRED_DIRS) REQUIRED_FILES"

definition validate_tree :: "fs_tree \<Rightarrow> string list \<times> string list" where
  "validate_tree t = (filter (\<lambda>p. \<not> is_dir t p) REQUIRED_DIRS, filter (\<lambda>p. \<not> is_file t p) (map fst REQUIRED_FILES))"

definition tree_valid :: "fs_tree \<Rightarrow> bool" where
  "tree_valid t \<longleftrightarrow> fst (validate_tree t) = [] \<and> snd (validate_tree t) = []"

section \<open>The logs\<close>

text \<open>A line that is not JSON, or lacks a key the reader asks for, is \<open>None\<close>; the readers skip it.\<close>

record fin_entry =
  fe_time :: int
  fe_action :: string
  fe_entity :: string
  fe_amount :: "rat option"
  fe_outcome :: string
  fe_details :: "json dict"

record pay_event =
  pe_time :: int
  pe_type :: string
  pe_invoice :: string
  pe_client :: string
  pe_amount :: rat
  pe_details :: "json dict"

definition DAY :: int where "DAY = 86400 * 1000000"

definition read_recent :: "int \<Rightarrow> int \<Rightarrow> string option \<Rightarrow> fin_entry option list \<Rightarrow> fin_entry list" where
  "read_recent now days atype ls =
     filter (\<lambda>e. now - days * DAY \<le> fe_time e \<and> (case atype of None \<Rightarrow> True | Some a \<Rightarrow> fe_action e = a))
       (concat (map (\<lambda>l. case l of None \<Rightarrow> [] | Some e \<Rightarrow> [e]) ls))"

definition count_by_type :: "int \<Rightarrow> string \<Rightarrow> int \<Rightarrow> fin_entry option list \<Rightarrow> nat" where
  "count_by_type now atype days ls = length (read_recent now days (Some atype) ls)"

definition read_recent_events :: "int \<Rightarrow> int \<Rightarrow> pay_event option list \<Rightarrow> pay_event list" where
  "read_recent_events now days ls =
     filter (\<lambda>e. now - days * DAY \<le> pe_time e) (concat (map (\<lambda>l. case l of None \<Rightarrow> [] | Some e \<Rightarrow> [e]) ls))"

definition get_client_history :: "int \<Rightarrow> string \<Rightarrow> pay_event option list \<Rightarrow> pay_event list" where
  "get_client_history now client ls = filter (\<lambda>e. pe_client e = client) (read_recent_events now 365 ls)"

definition count_overdue_by_client :: "int \<Rightarrow> string \<Rightarrow> pay_event option list \<Rightarrow> nat" where
  "count_overdue_by_client now client ls =
     length (filter (\<lambda>e. pe_type e \<in> {''payment_overdue'', ''repeat_overdue_flagged''}) (get_client_history now client ls))"

section \<open>The state of the claw\<close>

text \<open>
  The files of invoices by directory, each directory in the order it lists its files; the log of
  decisions with the entries of all the handlers that write to it; what the gateway took, and the
  calls made to Stripe.
\<close>

record fin_msg =
  fm_type :: string
  fm_recipient :: string
  fm_payload :: "json dict"
  fm_id :: string
  fm_time :: int

datatype stripe_call = SCreate string rat string string "int option" | SSend string | SGet string

record finance = war_room +
  fn_invoices :: "string \<Rightarrow> json dict option dict"
  fn_estimates :: "string \<rightharpoonup> json dict option"
  fn_oplog :: "fin_entry option list"
  fn_events :: "pay_event option list"
  fn_decisions :: "json dict option list"
  fn_sends :: nat
  fn_outbox :: "fin_msg list"
  fn_stripe :: "stripe_call list"
  fn_summaries :: "string \<rightharpoonup> json dict option"
  fn_history :: "int \<rightharpoonup> json dict option"
  fn_expenses :: "json dict option list"
  fn_categories :: "json dict option dict"
  fn_pricing :: "json dict option dict"
  fn_rules :: "json dict option option"
  fn_tax :: "string \<rightharpoonup> json dict"

text \<open>
  The world of an operation: the clock (it does not advance within one, \<open>fv_stamp\<close> is its text), fresh identifiers, the
  gateway (the text of what it raises), the inference service by kind of question (an exception's
  text or the answer; the prompt is left out), Stripe, the plugin of the War Room, and how Python
  reads a JSON text and a decimal number (\<open>json.loads\<close>, \<open>float\<close>), and the settings of the environment: the
  margin, the hours by complexity, the rate and the multipliers (\<^verbatim>\<open>MILIMO_TARGET_MARGIN\<close>, \<^verbatim>\<open>MILIMO_HOURS_LOW\<close> and so on).
\<close>

record stripe_api =
  st_create :: "string \<Rightarrow> rat \<Rightarrow> string \<Rightarrow> string \<Rightarrow> int option \<Rightarrow> py_exn + json dict"
  st_send :: "string \<Rightarrow> py_exn + json dict"
  st_get :: "string \<Rightarrow> py_exn + json dict"

record fin_env =
  fv_now :: int
  fv_hex :: string
  fv_stamp :: string
  fv_msg_id :: "nat \<Rightarrow> string"
  fv_gateway :: "fin_msg \<Rightarrow> string option"
  fv_infer :: "string \<Rightarrow> string + string"
  fv_bridge :: bool
  fv_loads :: "string \<Rightarrow> json option"
  fv_float :: "string \<Rightarrow> rat option"
  fv_target_margin :: rat
  fv_hours :: "int dict"
  fv_rate :: rat
  fv_floor_mult :: rat
  fv_ceiling_mult :: rat

definition today :: "fin_env \<Rightarrow> int" where
  "today v = fv_now v div DAY"

definition log_op :: "fin_env \<Rightarrow> string \<Rightarrow> string \<Rightarrow> rat option \<Rightarrow> string \<Rightarrow> json dict \<Rightarrow> (finance, unit) eff" where
  "log_op v action entity amount outcome details =
     upd (fn_oplog_update (\<lambda>l. l @ [Some \<lparr>fe_time = fv_now v, fe_action = action, fe_entity = entity,
       fe_amount = amount, fe_outcome = outcome, fe_details = details\<rparr>]))"

definition log_event :: "fin_env \<Rightarrow> string \<Rightarrow> string \<Rightarrow> string \<Rightarrow> rat \<Rightarrow> json dict \<Rightarrow> (finance, unit) eff" where
  "log_event v etype iid client amount details =
     upd (fn_events_update (\<lambda>l. l @ [Some \<lparr>pe_time = fv_now v, pe_type = etype, pe_invoice = iid,
       pe_client = client, pe_amount = amount, pe_details = details\<rparr>]))"

text \<open>\<open>get_invoice_path\<close>: the directory \<^verbatim>\<open>blocked\<close> is in its type but not in its list.\<close>

definition valid_statuses :: "string list" where
  "valid_statuses = [''pending'', ''approved'', ''sent'', ''paid'', ''overdue'']"

definition get_invoice_path :: "string \<Rightarrow> string \<Rightarrow> ('s, string \<times> string) eff" where
  "get_invoice_path status iid =
     (if status \<notin> set valid_statuses then throw ''ValueError'' (''Invalid invoice status: '' @ status)
      else ok (status, iid))"

definition get_tax_quarterly_path :: "int \<Rightarrow> int \<Rightarrow> py_exn + string" where
  "get_tax_quarterly_path year quarter =
     (if quarter \<notin> {1, 2, 3, 4} then Inl (PyExn ''ValueError'' (''Invalid quarter: '' @ py_str_int quarter))
      else Inr (''tax/quarterly/'' @ py_str_int year @ ''-Q'' @ py_str_int quarter @ ''.json''))"

definition write_file :: "string \<times> string \<Rightarrow> json dict \<Rightarrow> (finance, unit) eff" where
  "write_file = (\<lambda>(dir, n) d. upd (\<lambda>s. s\<lparr>fn_invoices := (fn_invoices s)(dir := AList.update n (Some d) (fn_invoices s dir))\<rparr>))"

definition unlink_file :: "string \<times> string \<Rightarrow> (finance, unit) eff" where
  "unlink_file = (\<lambda>(dir, n). upd (\<lambda>s. s\<lparr>fn_invoices := (fn_invoices s)(dir := AList.delete n (fn_invoices s dir))\<rparr>))"

end
