(* ===== verification/Invoices.thy ===== *)
theory Invoices
  imports Finance_Store
begin

text \<open>
  \<^verbatim>\<open>milimo-core/src/milimo_core/finance/\<close>: \<^verbatim>\<open>signal_dispatcher.py\<close> (messages to other claws),
  \<^verbatim>\<open>payment_risk_scorer.py\<close> and \<^verbatim>\<open>invoice_manager.py\<close> (the life of an invoice). An invoice is a file that
  moves between directories; the operations read it, change the object and write it back, in the order
  of the code. Amounts are rationals; a due date is a day number, \<open>None\<close> for a text that is no date.
\<close>

section \<open>Invoices and their files\<close>

record line_item =
  li_description :: json
  li_quantity :: rat
  li_unit_price :: rat
  li_total :: rat

record invoice =
  inv_id :: string
  inv_project :: string
  inv_client :: string
  inv_items :: "line_item list"
  inv_subtotal :: rat
  inv_total :: rat
  inv_currency :: string
  inv_terms :: string
  inv_due :: "int option"
  inv_risk_score :: rat
  inv_risk_level :: string
  inv_status :: string
  inv_stripe :: "string option"
  inv_generated :: "int option"
  inv_approved :: "int option"
  inv_sent :: "int option"
  inv_paid :: "int option"

definition json_date :: "int option \<Rightarrow> json" where
  "json_date d = (case d of Some n \<Rightarrow> JInt n | None \<Rightarrow> JStr [])"

definition json_opt :: "('a \<Rightarrow> json) \<Rightarrow> 'a option \<Rightarrow> json" where
  "json_opt f x = (case x of Some a \<Rightarrow> f a | None \<Rightarrow> JNull)"

definition item_to_dict :: "line_item \<Rightarrow> json" where
  "item_to_dict i = JObj [(''description'', li_description i), (''quantity'', JFloat (li_quantity i)),
     (''unit_price'', JFloat (li_unit_price i)), (''total'', JFloat (li_total i))]"

definition invoice_to_dict :: "invoice \<Rightarrow> json dict" where
  "invoice_to_dict i =
     [(''invoice_id'', JStr (inv_id i)), (''project_id'', JStr (inv_project i)), (''client_id'', JStr (inv_client i)),
      (''line_items'', JList (map item_to_dict (inv_items i))), (''subtotal'', JFloat (inv_subtotal i)),
      (''total'', JFloat (inv_total i)), (''currency'', JStr (inv_currency i)), (''payment_terms'', JStr (inv_terms i)),
      (''due_date'', json_date (inv_due i)), (''payment_risk_score'', JFloat (inv_risk_score i)),
      (''payment_risk_level'', JStr (inv_risk_level i)), (''status'', JStr (inv_status i)),
      (''stripe_invoice_id'', json_opt JStr (inv_stripe i)), (''generated_at'', json_date (inv_generated i)),
      (''approved_at'', json_opt JInt (inv_approved i)), (''sent_at'', json_opt JInt (inv_sent i)),
      (''paid_at'', json_opt JInt (inv_paid i))]"

definition json_num :: "json \<Rightarrow> rat option" where
  "json_num v = (case v of JFloat r \<Rightarrow> Some r | JInt n \<Rightarrow> Some (of_int n) | _ \<Rightarrow> None)"

definition rd_num :: "json dict \<Rightarrow> string \<Rightarrow> rat \<Rightarrow> read_error + rat" where
  "rd_num d k def = (case map_of d k of None \<Rightarrow> Inr def
     | Some v \<Rightarrow> (case json_num v of Some r \<Rightarrow> Inr r | None \<Rightarrow> Inl (Untyped k)))"

definition rq_num :: "json dict \<Rightarrow> string \<Rightarrow> read_error + rat" where
  "rq_num d k = (case map_of d k of None \<Rightarrow> Inl (MissingField k)
     | Some v \<Rightarrow> (case json_num v of Some r \<Rightarrow> Inr r | None \<Rightarrow> Inl (Untyped k)))"

definition rq_json :: "json dict \<Rightarrow> string \<Rightarrow> read_error + json" where
  "rq_json d k = (case map_of d k of None \<Rightarrow> Inl (MissingField k) | Some v \<Rightarrow> Inr v)"

definition rd_date :: "json dict \<Rightarrow> string \<Rightarrow> read_error + int option" where
  "rd_date d k = (case map_of d k of None \<Rightarrow> Inr None | Some (JInt n) \<Rightarrow> Inr (Some n) | Some (JStr _) \<Rightarrow> Inr None
     | Some _ \<Rightarrow> Inl (Untyped k))"

definition rd_opt_int :: "json dict \<Rightarrow> string \<Rightarrow> read_error + int option" where
  "rd_opt_int d k = (case map_of d k of None \<Rightarrow> Inr None | Some JNull \<Rightarrow> Inr None | Some (JInt n) \<Rightarrow> Inr (Some n)
     | Some _ \<Rightarrow> Inl (Untyped k))"

definition rd_opt_str :: "json dict \<Rightarrow> string \<Rightarrow> read_error + string option" where
  "rd_opt_str d k = (case map_of d k of None \<Rightarrow> Inr None | Some JNull \<Rightarrow> Inr None | Some (JStr s) \<Rightarrow> Inr (Some s)
     | Some _ \<Rightarrow> Inl (Untyped k))"

definition item_of_dict :: "json \<Rightarrow> read_error + line_item" where
  "item_of_dict v = (case v of JObj d \<Rightarrow>
       bind_sum (rq_json d ''description'') (\<lambda>de. bind_sum (rq_num d ''quantity'') (\<lambda>q.
       bind_sum (rq_num d ''unit_price'') (\<lambda>u. bind_sum (rq_num d ''total'') (\<lambda>t.
         Inr \<lparr>li_description = de, li_quantity = q, li_unit_price = u, li_total = t\<rparr>))))
     | _ \<Rightarrow> Inl (Untyped ''item''))"

fun map_read :: "('a \<Rightarrow> read_error + 'b) \<Rightarrow> 'a list \<Rightarrow> read_error + 'b list" where
  "map_read f [] = Inr []"
| "map_read f (x # xs) = bind_sum (f x) (\<lambda>y. bind_sum (map_read f xs) (\<lambda>ys. Inr (y # ys)))"

definition rd_items :: "json dict \<Rightarrow> read_error + line_item list" where
  "rd_items d = (case map_of d ''line_items'' of None \<Rightarrow> Inr []
     | Some (JList js) \<Rightarrow> map_read item_of_dict js | Some _ \<Rightarrow> Inl (Untyped ''line_items''))"

definition invoice_of_dict :: "json dict \<Rightarrow> read_error + invoice" where
  "invoice_of_dict d =
     bind_sum (rq_str d ''invoice_id'') (\<lambda>iid. bind_sum (rq_str d ''project_id'') (\<lambda>pid.
     bind_sum (rq_str d ''client_id'') (\<lambda>cid. bind_sum (rd_items d) (\<lambda>items.
     bind_sum (rd_num d ''subtotal'' 0) (\<lambda>sub. bind_sum (rq_num d ''total'') (\<lambda>total.
     bind_sum (rd_str d ''currency'' ''USD'') (\<lambda>cur. bind_sum (rd_str d ''payment_terms'' ''Net 14'') (\<lambda>terms.
     bind_sum (rd_date d ''due_date'') (\<lambda>due. bind_sum (rd_num d ''payment_risk_score'' 0) (\<lambda>rs.
     bind_sum (rd_str d ''payment_risk_level'' ''unknown'') (\<lambda>rl. bind_sum (rd_str d ''status'' ''pending'') (\<lambda>st.
     bind_sum (rd_opt_str d ''stripe_invoice_id'') (\<lambda>sid. bind_sum (rd_date d ''generated_at'') (\<lambda>gen.
     bind_sum (rd_opt_int d ''approved_at'') (\<lambda>app. bind_sum (rd_opt_int d ''sent_at'') (\<lambda>sent.
     bind_sum (rd_opt_int d ''paid_at'') (\<lambda>paid.
       Inr \<lparr>inv_id = iid, inv_project = pid, inv_client = cid, inv_items = items, inv_subtotal = sub,
            inv_total = total, inv_currency = cur, inv_terms = terms, inv_due = due, inv_risk_score = rs,
            inv_risk_level = rl, inv_status = st, inv_stripe = sid, inv_generated = gen, inv_approved = app,
            inv_sent = sent, inv_paid = paid\<rparr>)))))))))))))))))"

lemma map_read_inverse: "(\<And>x. x \<in> set xs \<Longrightarrow> f (g x) = Inr x) \<Longrightarrow> map_read f (map g xs) = Inr xs"
  by (induction xs) simp_all

lemma item_of_dict_to_dict: "item_of_dict (item_to_dict i) = Inr i"
  by (simp add: item_of_dict_def item_to_dict_def rq_json_def rq_num_def json_num_def)

lemma invoice_of_to_dict [simp]: "invoice_of_dict (invoice_to_dict i) = Inr i"
  by (simp add: invoice_of_dict_def invoice_to_dict_def rq_str_def rd_items_def rd_num_def rq_num_def rd_str_def
      rd_date_def rd_opt_str_def rd_opt_int_def json_num_def json_date_def json_opt_def
      map_read_inverse item_of_dict_to_dict split: option.split)

lemma invoice_to_dict_inject: "invoice_to_dict i = invoice_to_dict j \<Longrightarrow> i = j"
  by (metis invoice_of_to_dict sum.inject(2))

text \<open>What the claws read of a file without making an invoice of it.\<close>

lemma invoice_dict_gets [simp]:
  "map_of (invoice_to_dict i) ''total'' = Some (JFloat (inv_total i))"
  "map_of (invoice_to_dict i) ''invoice_id'' = Some (JStr (inv_id i))"
  "map_of (invoice_to_dict i) ''approved_at'' = Some (json_opt JInt (inv_approved i))"
  "map_of (invoice_to_dict i) ''paid_at'' = Some (json_opt JInt (inv_paid i))"
  by (simp_all add: invoice_to_dict_def)

end
