(* ===== verification/Invoice_Approval.thy ===== *)
theory Invoice_Approval
  imports Invoices
begin

text \<open>
  \<^verbatim>\<open>milimo-core/src/milimo_core/finance/signal_dispatcher.py\<close> (the messages to other claws),
  \<^verbatim>\<open>payment_risk_scorer.py\<close> and \<^verbatim>\<open>invoice_manager.py\<close> (the life of an invoice up to its sending).
  The prompts are left out; the answers of the inference service are texts.
\<close>

section \<open>Messages\<close>

definition dispatch_send :: "fin_env \<Rightarrow> string \<Rightarrow> string \<Rightarrow> json dict \<Rightarrow> (finance, unit) eff" where
  "dispatch_send v mtype recipient body =
     andthen (look fn_sends) (\<lambda>n.
     andthen (upd (fn_sends_update Suc)) (\<lambda>_.
       (let m = \<lparr>fm_type = mtype, fm_recipient = recipient, fm_payload = body, fm_id = fv_msg_id v n, fm_time = fv_now v\<rparr>
        in case fv_gateway v m of
             None \<Rightarrow> upd (fn_outbox_update (\<lambda>o'. o' @ [m]))
           | Some e \<Rightarrow> log_op v (mtype @ ''_send_failed'') (fm_id m) None ''failed''
               [(''error'', JStr e), (''recipient'', JStr recipient), (''message_type'', JStr mtype)])))"

definition send_pricing_response :: "fin_env \<Rightarrow> string \<Rightarrow> rat \<Rightarrow> rat \<Rightarrow> json \<Rightarrow> string \<Rightarrow> (finance, unit) eff" where
  "send_pricing_response v pid floor_price ceiling_price notes quality =
     andthen (dispatch_send v ''pricing_response'' ''ops''
       [(''project_id'', JStr pid), (''floor_price'', JFloat floor_price), (''ceiling_price'', JFloat ceiling_price),
        (''scope_notes'', notes), (''data_quality'', JStr quality)]) (\<lambda>_.
     log_op v ''pricing_response_sent'' pid (Some floor_price) ''success''
       [(''data_quality'', JStr quality), (''ceiling'', JFloat ceiling_price)])"

definition send_invoice_ready :: "fin_env \<Rightarrow> invoice \<Rightarrow> (finance, unit) eff" where
  "send_invoice_ready v i =
     andthen (dispatch_send v ''invoice_ready'' ''ops''
       [(''project_id'', JStr (inv_project i)), (''client_id'', JStr (inv_client i)), (''amount'', JFloat (inv_total i)),
        (''invoice_id'', JStr (inv_id i)), (''due_date'', json_date (inv_due i))]) (\<lambda>_.
     log_op v ''invoice_ready_sent'' (inv_id i) (Some (inv_total i)) ''success''
       [(''project_id'', JStr (inv_project i)), (''client_id'', JStr (inv_client i))])"

definition send_payment_overdue :: "fin_env \<Rightarrow> string \<Rightarrow> string \<Rightarrow> int \<Rightarrow> rat \<Rightarrow> string \<Rightarrow> (finance, unit) eff" where
  "send_payment_overdue v cid iid days amount level =
     andthen (dispatch_send v ''payment_overdue'' ''ops''
       [(''client_id'', JStr cid), (''invoice_id'', JStr iid), (''days_overdue'', JInt days), (''amount'', JFloat amount),
        (''risk_level'', JStr level)]) (\<lambda>_.
     log_op v ''payment_overdue_sent'' iid (Some amount) ''success''
       [(''client_id'', JStr cid), (''days_overdue'', JInt days), (''risk_level'', JStr level)])"

definition send_revenue_summary :: "fin_env \<Rightarrow> rat \<Rightarrow> rat \<Rightarrow> int \<Rightarrow> int \<Rightarrow> (finance, unit) eff" where
  "send_revenue_summary v week pct paid waiting =
     andthen (dispatch_send v ''revenue_summary'' ''analytics''
       [(''week_total'', JFloat week), (''week_over_week_pct'', JFloat pct), (''invoices_paid'', JInt paid),
        (''invoices_pending'', JInt waiting)]) (\<lambda>_.
     log_op v ''revenue_summary_sent'' ''weekly'' (Some week) ''success''
       [(''week_over_week_pct'', JFloat pct), (''invoices_paid'', JInt paid), (''invoices_pending'', JInt waiting)])"

section \<open>The risk of a client\<close>

record risk_metrics =
  rm_total :: nat
  rm_on_time_rate :: rat
  rm_avg_days_late :: rat
  rm_overdue :: nat

record risk_score =
  rs_client :: string
  rs_score :: rat
  rs_level :: string
  rs_factors :: "string list"
  rs_analyzed :: nat
  rs_on_time_rate :: rat
  rs_avg_days_late :: rat
  rs_overdue :: nat
  rs_quality :: string

text \<open>\<open>event.details.get("days_to_pay", 0)\<close>, a number.\<close>

definition days_to_pay :: "pay_event \<Rightarrow> rat" where
  "days_to_pay e = (case map_of (pe_details e) ''days_to_pay'' of None \<Rightarrow> 0
     | Some v \<Rightarrow> (case json_num v of Some r \<Rightarrow> r | None \<Rightarrow> 0))"

definition calculate_payment_metrics :: "pay_event list \<Rightarrow> risk_metrics" where
  "calculate_payment_metrics history =
     (let total = length (filter (\<lambda>e. pe_type e = ''invoice_sent'') history);
          received = filter (\<lambda>e. pe_type e = ''payment_received'') history;
          on_time = length (filter (\<lambda>e. days_to_pay e \<le> 14) received);
          late = sum_list (map (\<lambda>e. max 0 (days_to_pay e - 14)) received)
      in \<lparr>rm_total = total,
          rm_on_time_rate = (if 0 < total then of_nat on_time / of_nat total else 1),
          rm_avg_days_late = (if 0 < total then late / of_nat total else 0),
          rm_overdue = length (filter (\<lambda>e. pe_type e = ''payment_overdue'') history)\<rparr>)"

definition classify_risk_level :: "rat \<Rightarrow> string" where
  "classify_risk_level s = (if 7 \<le> s then ''low'' else if 4 \<le> s then ''medium'' else ''high'')"

text \<open>\<open>\d+(?:\.\d+)?\<close> at the start of a text, and \<open>re.search(r"(\d+(?:\.\d+)?)", output)\<close>: the first number.\<close>

definition lead_number :: "string \<Rightarrow> rat option" where
  "lead_number s =
     (let whole = takeWhile digit_char s;
          frac = (case dropWhile digit_char s of c # t \<Rightarrow> if c = CHR ''.'' then takeWhile digit_char t else [] | [] \<Rightarrow> [])
      in if whole = [] then None
         else Some (of_nat (nat_of_digits whole) + of_nat (nat_of_digits frac) / 10 ^ length frac))"

definition parse_score :: "string \<Rightarrow> rat" where
  "parse_score output = (case lead_number (dropWhile (\<lambda>c. \<not> digit_char c) output) of Some r \<Rightarrow> r | None \<Rightarrow> 5)"

definition rule_based_score :: "risk_metrics \<Rightarrow> rat" where
  "rule_based_score m =
     (let base = rm_on_time_rate m * 10 - (if 3 \<le> rm_overdue m then 3 else if 2 \<le> rm_overdue m then 2
                                           else if 1 \<le> rm_overdue m then 1 else 0)
      in max 0 (min 10 base))"

definition generate_factors :: "risk_metrics \<Rightarrow> string list" where
  "generate_factors m =
     (let fs = (if rm_on_time_rate m < 8 / 10 then [''Low on-time rate ('' @ percent (rm_on_time_rate m) @ '')''] else [])
             @ (if 2 \<le> rm_overdue m then [''Multiple overdue invoices ('' @ py_str_int (int (rm_overdue m)) @ '')''] else [])
             @ (if 7 < rm_avg_days_late m then [''Average '' @ py_fixed 0 (rm_avg_days_late m) @ '' days late''] else [])
      in if fs = [] then [''Good payment history''] else fs)"

definition score_client :: "fin_env \<Rightarrow> pay_event option list \<Rightarrow> string \<Rightarrow> risk_score" where
  "score_client v events client =
     (let history = get_client_history (fv_now v) client events in
      if history = [] then
        \<lparr>rs_client = client, rs_score = 5, rs_level = ''medium'', rs_factors = [''No payment history''], rs_analyzed = 0,
         rs_on_time_rate = 1, rs_avg_days_late = 0, rs_overdue = 0, rs_quality = ''no_history''\<rparr>
      else
        (let m = calculate_payment_metrics history;
             s = (case fv_infer v ''payment_risk_scoring'' of Inl _ \<Rightarrow> rule_based_score m | Inr output \<Rightarrow> parse_score output)
         in \<lparr>rs_client = client, rs_score = s, rs_level = classify_risk_level s, rs_factors = generate_factors m,
             rs_analyzed = rm_total m, rs_on_time_rate = rm_on_time_rate m, rs_avg_days_late = rm_avg_days_late m,
             rs_overdue = rm_overdue m, rs_quality = ''complete''\<rparr>))"

section \<open>Line items from an answer\<close>

text \<open>\<open>re.search(r"\[[\s\S]*\]", s)\<close>: from the first \<open>[\<close> to the last \<open>]\<close>.\<close>

definition array_text :: "string \<Rightarrow> string option" where
  "array_text s =
     (let r = rev (dropWhile (\<lambda>c. c \<noteq> CHR '']'') (rev (dropWhile (\<lambda>c. c \<noteq> CHR ''['') s)))
      in if r = [] then None else Some r)"

text \<open>\<open>float(v)\<close>; a text that is no number is a \<open>ValueError\<close>, another value a \<open>TypeError\<close>: both are caught alike.\<close>

definition py_to_float :: "fin_env \<Rightarrow> json \<Rightarrow> rat option" where
  "py_to_float v j = (case j of JInt n \<Rightarrow> Some (of_int n) | JFloat r \<Rightarrow> Some r | JBool b \<Rightarrow> Some (if b then 1 else 0)
     | JStr s \<Rightarrow> fv_float v s | _ \<Rightarrow> None)"

text \<open>The list of the answer; \<open>Default\<close> where an exception is caught, \<open>Escapes\<close> for the \<open>AttributeError\<close> of an
  element that is no object, which is not.\<close>

datatype parsed_items = Items "line_item list" | Default | Escapes

fun parse_items :: "fin_env \<Rightarrow> json list \<Rightarrow> parsed_items" where
  "parse_items v [] = Items []"
| "parse_items v (JObj d # js) =
     (if \<not> json_true (json_get d ''description'' JNull) then parse_items v js
      else case (py_to_float v (json_get d ''quantity'' (JInt 1)), py_to_float v (json_get d ''unit_price'' (JInt 0)),
                 py_to_float v (json_get d ''total'' (JInt 0))) of
        (Some q, Some u, Some t) \<Rightarrow>
          (case parse_items v js of
             Items l \<Rightarrow> Items (\<lparr>li_description = json_get d ''description'' (JStr ''Services''), li_quantity = q,
                               li_unit_price = u, li_total = t\<rparr> # l)
           | p \<Rightarrow> p)
      | _ \<Rightarrow> Default)"
| "parse_items v (_ # js) = Escapes"

definition default_items :: "line_item list" where
  "default_items = [\<lparr>li_description = JStr ''Services rendered'', li_quantity = 1, li_unit_price = 0, li_total = 0\<rparr>]"

definition parse_invoice_line_items :: "fin_env \<Rightarrow> string \<Rightarrow> line_item list option" where
  "parse_invoice_line_items v output =
     (case array_text output of None \<Rightarrow> Some default_items
      | Some t \<Rightarrow> (case fv_loads v t of
            Some (JList js) \<Rightarrow> (case parse_items v js of Items l \<Rightarrow> Some l | Default \<Rightarrow> Some default_items | Escapes \<Rightarrow> None)
          | _ \<Rightarrow> Some default_items))"

section \<open>Generating an invoice\<close>

definition DEFAULT_PAYMENT_TERMS_DAYS :: int where "DEFAULT_PAYMENT_TERMS_DAYS = 14"

definition get_num :: "json dict \<Rightarrow> string \<Rightarrow> rat \<Rightarrow> rat" where
  "get_num d k def = (case map_of d k of Some v \<Rightarrow> (case json_num v of Some r \<Rightarrow> r | None \<Rightarrow> def) | None \<Rightarrow> def)"

definition estimated_total :: "json dict \<Rightarrow> rat" where
  "estimated_total est = (if get_num est ''ceiling_price'' 0 = 0 then get_num est ''floor_price'' 1000
     else get_num est ''ceiling_price'' 0)"

definition invoice_lines :: "fin_env \<Rightarrow> json dict \<Rightarrow> line_item list" where
  "invoice_lines v est =
     (let fallback = [\<lparr>li_description = JStr (''Services rendered: '' @ get_str est ''scope_description'' ''Services rendered''),
                       li_quantity = 1, li_unit_price = estimated_total est, li_total = estimated_total est\<rparr>]
      in case fv_infer v ''invoice_generation'' of Inl _ \<Rightarrow> fallback
       | Inr output \<Rightarrow> (case parse_invoice_line_items v output of Some l \<Rightarrow> l | None \<Rightarrow> fallback))"

definition load_estimate :: "string \<Rightarrow> (finance, json dict) eff" where
  "load_estimate pid = andthen (look (\<lambda>s. fn_estimates s pid)) (\<lambda>f. case f of
       None \<Rightarrow> ok [] | Some None \<Rightarrow> throw ''JSONDecodeError'' pid | Some (Some d) \<Rightarrow> ok d)"

definition generate_invoice :: "fin_env \<Rightarrow> string \<Rightarrow> string \<Rightarrow> (finance, invoice) eff" where
  "generate_invoice v pid cid =
     andthen (load_estimate pid) (\<lambda>est.
     andthen (look (\<lambda>s. score_client v (fn_events s) cid)) (\<lambda>risk.
       (let items = invoice_lines v est;
            subtotal = sum_list (map li_total items);
            i = \<lparr>inv_id = ''inv-'' @ take 8 (fv_hex v), inv_project = pid, inv_client = cid, inv_items = items,
                 inv_subtotal = subtotal, inv_total = subtotal, inv_currency = ''USD'', inv_terms = ''Net 14'',
                 inv_due = Some (today v + DEFAULT_PAYMENT_TERMS_DAYS), inv_risk_score = rs_score risk,
                 inv_risk_level = rs_level risk, inv_status = ''pending'', inv_stripe = None,
                 inv_generated = Some (fv_now v), inv_approved = None, inv_sent = None, inv_paid = None\<rparr>
        in andthen (get_invoice_path ''pending'' (inv_id i)) (\<lambda>p.
           andthen (write_file p (invoice_to_dict i)) (\<lambda>_.
           andthen (log_op v ''invoice_generated'' (inv_id i) (Some (inv_total i)) ''success''
             [(''project_id'', JStr pid), (''client_id'', JStr cid), (''status'', JStr ''pending'')]) (\<lambda>_.
           ok i))))))"

section \<open>The two stages\<close>

definition load_invoice :: "string \<Rightarrow> string \<Rightarrow> (finance, invoice) eff" where
  "load_invoice iid status =
     andthen (get_invoice_path status iid) (\<lambda>(dir, n).
     andthen (look (\<lambda>s. map_of (fn_invoices s dir) n)) (\<lambda>f. case f of
       None \<Rightarrow> throw ''FileNotFoundError'' (''Invoice '' @ iid @ '' not found in '' @ status)
     | Some None \<Rightarrow> throw ''JSONDecodeError'' iid
     | Some (Some d) \<Rightarrow> from_read (invoice_of_dict d)))"

definition handle_stage1_approve :: "fin_env \<Rightarrow> string \<Rightarrow> (finance, invoice) eff" where
  "handle_stage1_approve v iid =
     andthen (load_invoice iid ''pending'') (\<lambda>i0.
       (let i = i0\<lparr>inv_status := ''approved'', inv_approved := Some (fv_now v)\<rparr> in
        andthen (get_invoice_path ''approved'' iid) (\<lambda>p.
        andthen (write_file p (invoice_to_dict i)) (\<lambda>_.
        andthen (get_invoice_path ''pending'' iid) (\<lambda>q.
        andthen (unlink_file q) (\<lambda>_.
        andthen (send_invoice_ready v i) (\<lambda>_.
        andthen (log_op v ''invoice_stage1_approved'' iid (Some (inv_total i)) ''success''
          [(''client_id'', JStr (inv_client i))]) (\<lambda>_.
        ok i))))))))"

definition edited_item :: "json dict \<Rightarrow> read_error + line_item" where
  "edited_item d =
     bind_sum (rq_json d ''description'') (\<lambda>de. bind_sum (rq_num d ''quantity'') (\<lambda>q.
     bind_sum (rq_num d ''unit_price'') (\<lambda>u.
       Inr \<lparr>li_description = de, li_quantity = q, li_unit_price = u, li_total = q * u\<rparr>)))"

definition handle_stage1_edit :: "fin_env \<Rightarrow> string \<Rightarrow> json dict list \<Rightarrow> rat \<Rightarrow> (finance, invoice) eff" where
  "handle_stage1_edit v iid items amount =
     andthen (load_invoice iid ''pending'') (\<lambda>i0.
     andthen (from_read (map_read edited_item items)) (\<lambda>ls.
       (let i = i0\<lparr>inv_items := ls, inv_subtotal := amount, inv_total := amount\<rparr> in
        andthen (get_invoice_path ''pending'' iid) (\<lambda>p.
        andthen (write_file p (invoice_to_dict i)) (\<lambda>_.
        andthen (log_op v ''invoice_edited'' iid (Some amount) ''success''
          [(''line_items_count'', JInt (int (length items)))]) (\<lambda>_.
        ok i))))))"

definition handle_stage1_block :: "fin_env \<Rightarrow> string \<Rightarrow> string \<Rightarrow> (finance, unit) eff" where
  "handle_stage1_block v iid why =
     andthen (load_invoice iid ''pending'') (\<lambda>i0.
       (let i = i0\<lparr>inv_status := ''blocked''\<rparr> in
        andthen (get_invoice_path ''pending'' iid) (\<lambda>p.
        andthen (write_file (''blocked'', iid) (invoice_to_dict i)) (\<lambda>_.
        andthen (unlink_file p) (\<lambda>_.
        log_op v ''invoice_blocked'' iid (Some (inv_total i)) ''blocked''
          [(''reason'', JStr why), (''client_id'', JStr (inv_client i))])))))"

text \<open>A call to Stripe, recorded as made whatever it answers.\<close>

definition ask_stripe :: "stripe_call \<Rightarrow> py_exn + 'a \<Rightarrow> (finance, 'a) eff" where
  "ask_stripe c r = andthen (upd (fn_stripe_update (\<lambda>l. l @ [c]))) (\<lambda>_. lift_exn r)"

definition not_defined :: "string \<Rightarrow> ('s, 'a) eff" where
  "not_defined x = throw ''NameError'' (''name '' @ x @ '' is not defined'')"

text \<open>The description, and the Stripe identifier of an invoice: the one it has, or a new one, written to its file at once.\<close>

definition invoice_text :: "string \<Rightarrow> invoice \<Rightarrow> string" where
  "invoice_text iid i = ''Invoice '' @ iid @ '' - '' @ inv_project i"

definition ensure_stripe_id :: "stripe_api \<Rightarrow> string \<Rightarrow> invoice \<Rightarrow> (finance, string) eff" where
  "ensure_stripe_id api iid i =
     (if truthy_str (inv_stripe i) then ok (the (inv_stripe i))
      else andthen (ask_stripe (SCreate (inv_client i) (inv_total i) (inv_currency i)
             (invoice_text iid i) (inv_due i))
             (st_create api (inv_client i) (inv_total i) (inv_currency i) (invoice_text iid i) (inv_due i))) (\<lambda>r.
           (let sid = get_str r ''id'' [] in
            andthen (get_invoice_path ''approved'' iid) (\<lambda>p.
            andthen (write_file p (invoice_to_dict (i\<lparr>inv_stripe := Some sid\<rparr>))) (\<lambda>_. ok sid)))))"

definition transmit_invoice :: "fin_env \<Rightarrow> stripe_api \<Rightarrow> string \<Rightarrow> invoice \<Rightarrow> (finance, invoice) eff" where
  "transmit_invoice v api iid i0 =
     andthen (ensure_stripe_id api iid i0) (\<lambda>sid.
     andthen (ask_stripe (SSend sid) (st_send api sid)) (\<lambda>_.
       (let i = i0\<lparr>inv_status := ''sent'', inv_sent := Some (fv_now v), inv_stripe := Some sid\<rparr> in
        andthen (get_invoice_path ''sent'' iid) (\<lambda>p.
        andthen (write_file p (invoice_to_dict i)) (\<lambda>_.
        andthen (get_invoice_path ''approved'' iid) (\<lambda>q.
        andthen (unlink_file q) (\<lambda>_.
        andthen (log_event v ''invoice_sent'' iid (inv_client i) (inv_total i) [(''stripe_invoice_id'', JStr sid)]) (\<lambda>_.
        andthen (log_op v ''invoice_sent'' iid (Some (inv_total i)) ''success'' [(''stripe_invoice_id'', JStr sid)]) (\<lambda>_.
        ok i)))))))))"

text \<open>
  The module has no \<open>logger\<close>: without a Stripe client the first statement of the branch that marks the
  invoice as sent locally raises, and the rest of that branch is never reached.
\<close>

definition handle_stage2_hold_release :: "fin_env \<Rightarrow> stripe_api option \<Rightarrow> string \<Rightarrow> (finance, invoice) eff" where
  "handle_stage2_hold_release v client iid =
     andthen (load_invoice iid ''approved'') (\<lambda>i.
       if inv_status i \<noteq> ''approved''
       then throw ''ValueError'' (''Invoice '' @ iid @ '' is not in approved status (status: '' @ inv_status i @ '')'')
       else case client of
         None \<Rightarrow> not_defined ''logger''
       | Some api \<Rightarrow>
           attempt (transmit_invoice v api iid i) (\<lambda>e.
             andthen (log_op v ''invoice_send_failed'' iid (Some (inv_total i)) ''failed'' [(''error'', JStr (exn_text e))])
               (\<lambda>_ s. (s, Inl e))))"

section \<open>Listing\<close>

definition load_invoices_by_status :: "string \<Rightarrow> finance \<Rightarrow> invoice list" where
  "load_invoices_by_status status s =
     concat (map (\<lambda>(n, f). case f of None \<Rightarrow> []
       | Some d \<Rightarrow> (case invoice_of_dict d of Inr i \<Rightarrow> [i] | Inl _ \<Rightarrow> [])) (fn_invoices s status))"

definition get_pending_invoices :: "finance \<Rightarrow> invoice list" where
  "get_pending_invoices = load_invoices_by_status ''pending''"

definition get_approved_invoices :: "finance \<Rightarrow> invoice list" where
  "get_approved_invoices = load_invoices_by_status ''approved''"

definition get_sent_invoices :: "finance \<Rightarrow> invoice list" where
  "get_sent_invoices = load_invoices_by_status ''sent''"

chapter \<open>The approval handler\<close>

text \<open>
  \<^verbatim>\<open>milimo-core/src/milimo_core/finance/approval_handler.py\<close>: what waits for the operator, the decisions
  and their log. The cards are the files of \<open>War_Bridge\<close>, when its module can be imported
  (\<open>fv_bridge\<close>). A line of the log is a JSON object, or \<open>None\<close> (blank or not JSON; both are skipped).
\<close>

definition decision_entry :: "fin_env \<Rightarrow> string \<Rightarrow> string \<Rightarrow> string \<Rightarrow> string \<Rightarrow> string \<Rightarrow> json dict \<Rightarrow> json dict" where
  "decision_entry v aid iid stage atype operator details =
     [(''action_id'', JStr aid), (''invoice_id'', JStr iid), (''stage'', JStr stage), (''action_type'', JStr atype),
      (''timestamp'', JInt (fv_now v)), (''operator'', JStr operator), (''details'', JObj details)]"

text \<open>\<open>_log_decision\<close>: the line, and an entry of the operational log that holds the whole decision.\<close>

definition log_invoice_decision :: "fin_env \<Rightarrow> string \<Rightarrow> string \<Rightarrow> string \<Rightarrow> string \<Rightarrow> string \<Rightarrow> json dict \<Rightarrow> (finance, unit) eff" where
  "log_invoice_decision v aid iid stage atype operator details =
     (let d = decision_entry v aid iid stage atype operator details in
      andthen (upd (fn_decisions_update (\<lambda>l. l @ [Some d]))) (\<lambda>_.
      log_op v (''approval_'' @ stage @ ''_'' @ atype) iid (Some (get_num details ''total'' 0)) ''logged'' d))"

definition card_mode :: "string \<Rightarrow> string" where
  "card_mode stage = (if stage = ''review'' then ''REVIEW'' else ''HOLD'')"

text \<open>The amount of the summary divides by 100.\<close>

definition card_summary :: "string \<Rightarrow> json dict \<Rightarrow> string" where
  "card_summary aid details =
     ''Invoice '' @ get_str details ''invoice_id'' aid @ '': $''
       @ py_fixed 2 (get_num details ''total'' (get_num details ''amount'' 0) / 100)"

definition write_invoice_card :: "fin_env \<Rightarrow> string \<Rightarrow> string \<Rightarrow> string \<Rightarrow> json dict \<Rightarrow> (finance, unit) eff" where
  "write_invoice_card v aid stage atype details =
     only_if (fv_bridge v) (andthen
       (write_warroom_action (fv_now v) aid ''finance'' (card_mode stage) atype (card_summary aid details) ''finance'' details)
       (\<lambda>_. ok ()))"

definition unsync_warroom :: "fin_env \<Rightarrow> string \<Rightarrow> (finance, unit) eff" where
  "unsync_warroom v aid =
     only_if (fv_bridge v) (attempt (andthen (remove_warroom_action aid) (\<lambda>_. ok ())) (\<lambda>_. ok ()))"

text \<open>Queueing: the decision \<^verbatim>\<open>queued\<close>, then the card.\<close>

definition queue_invoice_action :: "fin_env \<Rightarrow> string \<Rightarrow> string \<Rightarrow> string \<Rightarrow> string \<Rightarrow> json dict \<Rightarrow> (finance, string) eff" where
  "queue_invoice_action v aid iid stage atype details =
     andthen (log_invoice_decision v aid iid stage ''queued'' ''system'' details) (\<lambda>_.
     andthen (write_invoice_card v aid stage atype details) (\<lambda>_. ok aid))"

definition queue_invoice_review :: "fin_env \<Rightarrow> invoice \<Rightarrow> (finance, string) eff" where
  "queue_invoice_review v i =
     queue_invoice_action v (''review-'' @ inv_id i) (inv_id i) ''review'' ''invoice_review''
       [(''client_id'', JStr (inv_client i)), (''project_id'', JStr (inv_project i)), (''total'', JFloat (inv_total i)),
        (''risk_level'', JStr (inv_risk_level i))]"

definition queue_invoice_hold :: "fin_env \<Rightarrow> invoice \<Rightarrow> (finance, string) eff" where
  "queue_invoice_hold v i =
     queue_invoice_action v (''hold-'' @ inv_id i) (inv_id i) ''hold'' ''invoice_hold''
       [(''client_id'', JStr (inv_client i)), (''total'', JFloat (inv_total i)), (''due_date'', json_date (inv_due i)),
        (''warning'', JStr ''This will transmit the invoice via Stripe'')]"

definition queue_overdue_review :: "fin_env \<Rightarrow> invoice \<Rightarrow> int \<Rightarrow> (finance, string) eff" where
  "queue_overdue_review v i days =
     queue_invoice_action v (''overdue-review-'' @ inv_id i) (inv_id i) ''review'' ''overdue_review''
       [(''type'', JStr ''overdue''), (''client_id'', JStr (inv_client i)), (''amount'', JFloat (inv_total i)),
        (''days_overdue'', JInt days), (''risk_level'', JStr (inv_risk_level i))]"

definition queue_overdue_hold :: "fin_env \<Rightarrow> invoice \<Rightarrow> int \<Rightarrow> nat \<Rightarrow> (finance, string) eff" where
  "queue_overdue_hold v i days n =
     queue_invoice_action v (''overdue-hold-'' @ inv_id i) (inv_id i) ''hold'' ''overdue_hold''
       [(''type'', JStr ''repeat_overdue''), (''client_id'', JStr (inv_client i)), (''amount'', JFloat (inv_total i)),
        (''days_overdue'', JInt days), (''overdue_count'', JInt (int n))]"

definition queue_margin_alert :: "fin_env \<Rightarrow> string \<Rightarrow> rat \<Rightarrow> rat \<Rightarrow> (finance, string) eff" where
  "queue_margin_alert v pid expected actual =
     queue_invoice_action v (''margin-alert-'' @ pid) [] ''review'' ''margin_alert''
       [(''type'', JStr ''margin_alert''), (''project_id'', JStr pid), (''expected_margin_pct'', JFloat expected),
        (''actual_margin_pct'', JFloat actual), (''gap'', JFloat (expected - actual))]"

definition queue_rate_recommendation :: "fin_env \<Rightarrow> string \<Rightarrow> rat \<Rightarrow> rat \<Rightarrow> (finance, string) eff" where
  "queue_rate_recommendation v recommendation suggested current =
     queue_invoice_action v (''rate-rec-'' @ fv_stamp v) [] ''review'' ''rate_recommendation''
       [(''type'', JStr ''rate_recommendation''), (''recommendation'', JStr recommendation),
        (''suggested_rate'', JFloat suggested), (''current_rate'', JFloat current)]"

section \<open>Decisions\<close>

definition invoice_review_approve :: "fin_env \<Rightarrow> string \<Rightarrow> (finance, unit) eff" where
  "invoice_review_approve v aid =
     andthen (handle_stage1_approve v (py_replace ''review-'' [] aid)) (\<lambda>i.
     andthen (queue_invoice_hold v i) (\<lambda>_.
     andthen (unsync_warroom v aid) (\<lambda>_.
     log_invoice_decision v aid (inv_id i) ''review'' ''approve'' ''operator'' [(''outcome'', JStr ''moved_to_hold'')])))"

definition invoice_review_edit :: "fin_env \<Rightarrow> string \<Rightarrow> json dict list \<Rightarrow> rat \<Rightarrow> (finance, unit) eff" where
  "invoice_review_edit v aid items amount =
     (let iid = py_replace ''review-'' [] aid in
      andthen (handle_stage1_edit v iid items amount) (\<lambda>_.
      log_invoice_decision v aid iid ''review'' ''edit'' ''operator''
        [(''edited_total'', JFloat amount), (''line_items_count'', JInt (int (length items)))]))"

definition invoice_review_block :: "fin_env \<Rightarrow> string \<Rightarrow> string \<Rightarrow> (finance, unit) eff" where
  "invoice_review_block v aid why =
     (let iid = py_replace ''review-'' [] aid in
      andthen (handle_stage1_block v iid why) (\<lambda>_.
      andthen (unsync_warroom v aid) (\<lambda>_.
      log_invoice_decision v aid iid ''review'' ''block'' ''operator'' [(''reason'', JStr why)])))"

definition invoice_hold_release :: "fin_env \<Rightarrow> stripe_api option \<Rightarrow> string \<Rightarrow> (finance, unit) eff" where
  "invoice_hold_release v client aid =
     (let iid = py_replace ''hold-'' [] aid in
      andthen (handle_stage2_hold_release v client iid) (\<lambda>_.
      andthen (unsync_warroom v aid) (\<lambda>_.
      log_invoice_decision v aid iid ''hold'' ''release'' ''operator'' [(''outcome'', JStr ''invoice_sent'')])))"

definition invoice_hold_cancel :: "fin_env \<Rightarrow> string \<Rightarrow> (finance, unit) eff" where
  "invoice_hold_cancel v aid =
     (let iid = py_replace ''hold-'' [] aid in
      andthen (unsync_warroom v aid) (\<lambda>_.
      log_invoice_decision v aid iid ''hold'' ''cancel'' ''operator'' [(''outcome'', JStr ''invoice_stays_approved'')]))"

section \<open>What is waiting\<close>

definition latest_decisions :: "json dict option list \<Rightarrow> json dict dict" where
  "latest_decisions ls = foldl (\<lambda>m l. case l of None \<Rightarrow> m
     | Some e \<Rightarrow> if get_str e ''action_id'' [] = [] then m else AList.update (get_str e ''action_id'' []) e m) [] ls"

definition queued_in :: "string \<Rightarrow> json dict \<Rightarrow> bool" where
  "queued_in stage e \<longleftrightarrow> map_of e ''stage'' = Some (JStr stage) \<and> map_of e ''action_type'' = Some (JStr ''queued'')"

definition get_pending_reviews :: "finance \<Rightarrow> json dict list" where
  "get_pending_reviews s = filter (queued_in ''review'') (map snd (latest_decisions (fn_decisions s)))"

definition get_pending_holds :: "finance \<Rightarrow> json dict list" where
  "get_pending_holds s = filter (queued_in ''hold'') (map snd (latest_decisions (fn_decisions s)))"

end
