(* ===== verification/Payments.thy ===== *)
theory Payments
  imports Invoice_Approval
begin

text \<open>
  \<^verbatim>\<open>milimo-core/src/milimo_core/finance/revenue_tracker.py\<close> (the summaries of revenue) and
  \<^verbatim>\<open>payment_monitor.py\<close> (the payments of sent invoices). A summary file is a JSON object; the write through
  a temporary file and a rename is one step.
\<close>

section \<open>Summaries\<close>

definition load_json :: "json dict option option \<Rightarrow> json dict \<Rightarrow> json dict" where
  "load_json f def = (case f of Some (Some d) \<Rightarrow> d | _ \<Rightarrow> def)"

definition write_summary :: "string \<Rightarrow> json dict \<Rightarrow> (finance, unit) eff" where
  "write_summary n d = upd (fn_summaries_update (\<lambda>m. m(n \<mapsto> Some d)))"

definition write_daily :: "int \<Rightarrow> json dict \<Rightarrow> (finance, unit) eff" where
  "write_daily day d = upd (fn_history_update (\<lambda>m. m(day \<mapsto> Some d)))"

definition add_to_summary :: "fin_env \<Rightarrow> string \<Rightarrow> rat \<Rightarrow> json dict \<Rightarrow> json dict" where
  "add_to_summary v key amount d =
     (let d1 = AList.update key (JFloat (get_num d key 0 + amount)) d;
          d2 = AList.update ''invoices_paid'' (JInt (get_int d1 ''invoices_paid'' 0 + 1)) d1
      in AList.update ''last_updated'' (JInt (fv_now v)) d2)"

definition weekly_file :: string where "weekly_file = ''weekly-summary''"
definition monthly_file :: string where "monthly_file = ''monthly-summary''"
definition annual_file :: string where "annual_file = ''annual-summary''"

definition update_monthly_summary :: "fin_env \<Rightarrow> invoice \<Rightarrow> (finance, unit) eff" where
  "update_monthly_summary v i =
     andthen (look (\<lambda>s. load_json (fn_summaries s monthly_file) monthly_default)) (\<lambda>d.
     write_summary monthly_file (add_to_summary v ''month_total'' (inv_total i) d))"

definition update_annual_summary :: "fin_env \<Rightarrow> invoice \<Rightarrow> (finance, unit) eff" where
  "update_annual_summary v i =
     andthen (look (\<lambda>s. load_json (fn_summaries s annual_file) annual_default)) (\<lambda>d.
     write_summary annual_file (add_to_summary v ''year_total'' (inv_total i) d))"

definition daily_snapshot :: "fin_env \<Rightarrow> invoice \<Rightarrow> json dict" where
  "daily_snapshot v i =
     [(''date'', JInt (today v)),
      (''payments'', JList [JObj [(''invoice_id'', JStr (inv_id i)), (''amount'', JFloat (inv_total i))]]),
      (''total'', JFloat (inv_total i))]"

definition percent_change :: "rat \<Rightarrow> rat \<Rightarrow> rat" where
  "percent_change new old = (if 0 < old then (new - old) / old * 100 else 0)"

definition record_payment :: "fin_env \<Rightarrow> invoice \<Rightarrow> (finance, unit) eff" where
  "record_payment v i =
     andthen (look (\<lambda>s. load_json (fn_summaries s weekly_file) weekly_default)) (\<lambda>d.
       (let previous = get_num d ''week_total'' 0; weekly = add_to_summary v ''week_total'' (inv_total i) d in
        andthen (write_summary weekly_file weekly) (\<lambda>_.
        andthen (write_daily (today v) (daily_snapshot v i)) (\<lambda>_.
        andthen (update_monthly_summary v i) (\<lambda>_.
        andthen (update_annual_summary v i) (\<lambda>_.
        andthen (send_revenue_summary v (get_num weekly ''week_total'' 0)
          (percent_change (get_num weekly ''week_total'' 0) previous)
          (get_int weekly ''invoices_paid'' 0) (get_int weekly ''invoices_pending'' 0)) (\<lambda>_.
        log_op v ''payment_recorded'' (inv_id i) (Some (inv_total i)) ''success''
          [(''week_total'', JFloat (get_num weekly ''week_total'' 0))])))))))"

section \<open>The weekly summary\<close>

record revenue_summary =
  rv_week_start :: "int option"
  rv_week_total :: rat
  rv_pct :: rat
  rv_paid :: int
  rv_pending :: int
  rv_pipeline :: rat
  rv_updated :: "int option"

text \<open>\<open>date.weekday()\<close>: 0 is Monday; day 0 was a Thursday.\<close>

definition weekday :: "int \<Rightarrow> int" where "weekday day = (day + 3) mod 7"

definition file_dicts :: "string \<Rightarrow> finance \<Rightarrow> json dict list" where
  "file_dicts status s = concat (map (\<lambda>(n, f). case f of None \<Rightarrow> [] | Some d \<Rightarrow> [d]) (fn_invoices s status))"

definition load_week_invoices :: "fin_env \<Rightarrow> int \<Rightarrow> finance \<Rightarrow> invoice list" where
  "load_week_invoices v days s =
     concat (map (\<lambda>d. case map_of d ''paid_at'' of
         Some (JInt t) \<Rightarrow> (if fv_now v - days * DAY \<le> t
                          then (case invoice_of_dict d of Inr i \<Rightarrow> [i] | Inl _ \<Rightarrow> []) else [])
       | _ \<Rightarrow> []) (file_dicts ''paid'' s))"

definition count_pending_invoices :: "finance \<Rightarrow> nat" where
  "count_pending_invoices s =
     length (fn_invoices s ''pending'') + length (fn_invoices s ''approved'') + length (fn_invoices s ''sent'')"

definition calculate_pipeline_value :: "finance \<Rightarrow> rat" where
  "calculate_pipeline_value s = sum_list (map (\<lambda>d. get_num d ''total'' 0) (file_dicts ''sent'' s))"

definition get_previous_week_total :: "fin_env \<Rightarrow> finance \<Rightarrow> rat" where
  "get_previous_week_total v s =
     (case fn_history s (today v - (weekday (today v) + 7)) of None \<Rightarrow> 0
      | f \<Rightarrow> get_num (load_json f []) ''week_total'' 0)"

definition revenue_dict :: "revenue_summary \<Rightarrow> json dict" where
  "revenue_dict r =
     [(''week_start'', json_date (rv_week_start r)), (''week_total'', JFloat (rv_week_total r)),
      (''week_over_week_pct'', JFloat (rv_pct r)), (''invoices_paid'', JInt (rv_paid r)),
      (''invoices_pending'', JInt (rv_pending r)), (''pipeline_value'', JFloat (rv_pipeline r)),
      (''last_updated'', json_opt JInt (rv_updated r))]"

definition generate_weekly_summary :: "fin_env \<Rightarrow> (finance, revenue_summary) eff" where
  "generate_weekly_summary v =
     andthen (look id) (\<lambda>s.
       (let week = load_week_invoices v 7 s; week_total = sum_list (map inv_total week);
            start = today v - weekday (today v);
            r = \<lparr>rv_week_start = Some start, rv_week_total = week_total,
                 rv_pct = percent_change week_total (get_previous_week_total v s), rv_paid = int (length week),
                 rv_pending = int (count_pending_invoices s), rv_pipeline = calculate_pipeline_value s,
                 rv_updated = Some (fv_now v)\<rparr>
        in andthen (write_summary weekly_file (revenue_dict r)) (\<lambda>_.
           andthen (send_revenue_summary v (rv_week_total r) (rv_pct r) (rv_paid r) (rv_pending r)) (\<lambda>_.
           andthen (log_op v ''weekly_summary_generated'' (py_str_int start) (Some week_total) ''success''
             [(''invoices_paid'', JInt (rv_paid r)), (''pipeline'', JFloat (rv_pipeline r))]) (\<lambda>_. ok r)))))"

definition get_current_week_summary :: "fin_env \<Rightarrow> finance \<Rightarrow> revenue_summary" where
  "get_current_week_summary v s =
     (let d = load_json (fn_summaries s weekly_file)
            [(''week_start'', JInt (today v)), (''week_total'', JInt 0), (''week_over_week_pct'', JFloat 0),
             (''invoices_paid'', JInt 0), (''invoices_pending'', JInt 0), (''pipeline_value'', JInt 0),
             (''last_updated'', JNull)]
      in \<lparr>rv_week_start = (case map_of d ''week_start'' of Some (JInt n) \<Rightarrow> Some n | _ \<Rightarrow> None),
          rv_week_total = get_num d ''week_total'' 0, rv_pct = get_num d ''week_over_week_pct'' 0,
          rv_paid = get_int d ''invoices_paid'' 0, rv_pending = get_int d ''invoices_pending'' 0,
          rv_pipeline = get_num d ''pipeline_value'' 0,
          rv_updated = (case map_of d ''last_updated'' of Some (JInt n) \<Rightarrow> Some n | _ \<Rightarrow> None)\<rparr>)"

section \<open>Margin and rates\<close>

definition get_current_revenue :: "finance \<Rightarrow> rat" where
  "get_current_revenue s = get_num (load_json (fn_summaries s annual_file) [(''year_total'', JInt 0)]) ''year_total'' 0"

definition get_current_expenses :: "finance \<Rightarrow> rat" where
  "get_current_expenses s =
     sum_list (map (\<lambda>l. case l of None \<Rightarrow> 0 | Some d \<Rightarrow> get_num d ''amount'' 0) (fn_expenses s))"

definition margin_analysis :: "fin_env \<Rightarrow> (finance, json dict) eff" where
  "margin_analysis v =
     andthen (look id) (\<lambda>s.
       (let revenue = get_current_revenue s; expenses = get_current_expenses s;
            margin = (if 0 < revenue then (revenue - expenses) / revenue * 100 else 0);
            gap = fv_target_margin v - margin;
            r = [(''revenue'', JFloat revenue), (''expenses'', JFloat expenses), (''margin_pct'', JFloat margin),
                 (''target_margin'', JFloat (fv_target_margin v)), (''margin_gap'', JFloat gap)]
        in andthen (only_if (10 < gap)
             (andthen (log_op v ''margin_alert'' ''margin'' (Some gap) ''alert'' r) (\<lambda>_.
              andthen (queue_margin_alert v ''margin_analysis'' (fv_target_margin v) margin) (\<lambda>_. ok ())))) (\<lambda>_.
           andthen (log_op v ''margin_analysis_complete'' ''margin'' (Some margin) ''success'' r) (\<lambda>_. ok r))))"

text \<open>\<open>re.search(r"\$(\d+)", output)\<close>.\<close>

fun dollar_number :: "string \<Rightarrow> string option" where
  "dollar_number [] = None"
| "dollar_number (c # cs) =
     (if c = CHR ''$'' \<and> takeWhile digit_char cs \<noteq> [] then Some (takeWhile digit_char cs) else dollar_number cs)"

definition rate_optimization_check :: "fin_env \<Rightarrow> (finance, json dict) eff" where
  "rate_optimization_check v =
     andthen (look (\<lambda>s. get_num (load_json (fn_rules s) [(''default_hourly_rate'', JInt 100)]) ''default_hourly_rate'' 100)) (\<lambda>rate.
       (let output = (case fv_infer v ''rate_benchmarking_narrative'' of Inl _ \<Rightarrow> [] | Inr out \<Rightarrow> out);
            under = py_in ''increase'' (py_lower output);
            found = (if under then dollar_number output else None);
            suggested = (case found of Some n \<Rightarrow> of_nat (nat_of_digits n) | None \<Rightarrow> rate);
            recommendation = (case found of Some n \<Rightarrow> ''Increase rate to $'' @ digits_of_nat (nat_of_digits n) @ ''.0/hour''
                              | None \<Rightarrow> ''No change needed'');
            r = [(''current_rate'', JFloat rate), (''recommendation'', JStr recommendation), (''suggested_rate'', JFloat suggested)]
        in andthen (only_if under (andthen (queue_rate_recommendation v recommendation suggested rate) (\<lambda>_. ok ()))) (\<lambda>_.
           andthen (log_op v ''rate_optimization_check'' ''rates'' (Some rate) ''success'' r) (\<lambda>_. ok r))))"

section \<open>Payments\<close>

record payment_status =
  ps_invoice :: string
  ps_stripe :: string
  ps_status :: string
  ps_paid :: rat
  ps_due_amount :: rat
  ps_due :: "int option"
  ps_days :: int

definition STRIPE_MAX_RETRY_HOURS :: int where "STRIPE_MAX_RETRY_HOURS = 24"

definition HOUR :: int where "HOUR = 3600 * 1000000"

definition hours_of :: "int \<Rightarrow> rat" where
  "hours_of t = of_int t / of_int HOUR"

definition unknown_status :: "invoice \<Rightarrow> payment_status" where
  "unknown_status i =
     \<lparr>ps_invoice = inv_id i, ps_stripe = (case inv_stripe i of Some s \<Rightarrow> s | None \<Rightarrow> []), ps_status = ''unknown'',
      ps_paid = 0, ps_due_amount = inv_total i, ps_due = inv_due i, ps_days = 0\<rparr>"

definition status_of_answer :: "fin_env \<Rightarrow> invoice \<Rightarrow> json dict \<Rightarrow> payment_status" where
  "status_of_answer v i d =
     (let st = get_str d ''status'' ''open''; due = (case inv_due i of Some n \<Rightarrow> n | None \<Rightarrow> today v) in
      \<lparr>ps_invoice = inv_id i, ps_stripe = the (inv_stripe i), ps_status = st, ps_paid = get_num d ''amount_paid'' 0 / 100,
       ps_due_amount = get_num d ''amount_due'' (inv_total i * 100) / 100, ps_due = inv_due i,
       ps_days = (if st = ''open'' then max 0 (today v - due) else 0)\<rparr>)"

text \<open>Without a client the status names a variable that does not exist.\<close>

definition check_invoice_status :: "fin_env \<Rightarrow> stripe_api option \<Rightarrow> invoice \<Rightarrow> (finance, payment_status) eff" where
  "check_invoice_status v client i =
     (if \<not> truthy_str (inv_stripe i) then ok (unknown_status (i\<lparr>inv_stripe := None\<rparr>))
      else case client of None \<Rightarrow> not_defined ''invoice_id''
      | Some api \<Rightarrow> attempt
          (andthen (ask_stripe (SGet (the (inv_stripe i))) (st_get api (the (inv_stripe i)))) (\<lambda>d.
             (let p = status_of_answer v i d in
              andthen (log_event v ''status_check'' (inv_id i) (inv_client i) (inv_total i)
                [(''stripe_status'', JStr (ps_status p)), (''days_overdue'', JInt (ps_days p))]) (\<lambda>_. ok p))))
          (\<lambda>e. andthen (log_op v ''stripe_status_check_failed'' (inv_id i) (Some (inv_total i)) ''failed''
             [(''error'', JStr (exn_text e))]) (\<lambda>_. ok (unknown_status i))))"

definition process_payment_received :: "fin_env \<Rightarrow> invoice \<Rightarrow> (finance, unit) eff" where
  "process_payment_received v i0 =
     (let i = i0\<lparr>inv_status := ''paid'', inv_paid := Some (fv_now v)\<rparr> in
      andthen (get_invoice_path ''paid'' (inv_id i)) (\<lambda>p.
      andthen (write_file p (invoice_to_dict i)) (\<lambda>_.
      andthen (get_invoice_path ''sent'' (inv_id i)) (\<lambda>q.
      andthen (unlink_file q) (\<lambda>_.
      andthen (log_event v ''payment_received'' (inv_id i) (inv_client i) (inv_total i) [(''paid_at'', JInt (fv_now v))]) (\<lambda>_.
      andthen (record_payment v i) (\<lambda>_.
      log_op v ''payment_received'' (inv_id i) (Some (inv_total i)) ''success'' [(''client_id'', JStr (inv_client i))])))))))"

definition overdue_risk :: "nat \<Rightarrow> string" where
  "overdue_risk n = (if 2 \<le> n then ''high'' else if 1 \<le> n then ''medium'' else ''low'')"

text \<open>The first overdue invoice of a client waits for a review, every later one is held.\<close>

definition escalate_overdue :: "fin_env \<Rightarrow> invoice \<Rightarrow> int \<Rightarrow> nat \<Rightarrow> (finance, string) eff" where
  "escalate_overdue v i days n = (if 1 \<le> n then queue_overdue_hold v i days (n + 1) else queue_overdue_review v i days)"

definition process_payment_overdue :: "fin_env \<Rightarrow> invoice \<Rightarrow> (finance, unit) eff" where
  "process_payment_overdue v i0 =
     (let i = i0\<lparr>inv_status := ''overdue''\<rparr>;
          days = (case inv_due i of Some d \<Rightarrow> today v - d | None \<Rightarrow> 1) in
      andthen (get_invoice_path ''overdue'' (inv_id i)) (\<lambda>p.
      andthen (write_file p (invoice_to_dict i)) (\<lambda>_.
      andthen (get_invoice_path ''sent'' (inv_id i)) (\<lambda>q.
      andthen (unlink_file q) (\<lambda>_.
      andthen (look (\<lambda>s. count_overdue_by_client (fv_now v) (inv_client i) (fn_events s))) (\<lambda>n.
      andthen (send_payment_overdue v (inv_client i) (inv_id i) days (inv_total i) (overdue_risk n)) (\<lambda>_.
      andthen (log_event v ''payment_overdue'' (inv_id i) (inv_client i) (inv_total i)
        [(''days_overdue'', JInt days), (''overdue_count'', JInt (int n + 1)), (''risk_level'', JStr (overdue_risk n))]) (\<lambda>_.
      andthen (escalate_overdue v i days n) (\<lambda>_.
      log_op v ''payment_overdue'' (inv_id i) (Some (inv_total i)) ''escalated''
        [(''client_id'', JStr (inv_client i)), (''days_overdue'', JInt days), (''overdue_count'', JInt (int n + 1))])))))))))"

text \<open>The passes over the files of \<^verbatim>\<open>sent/\<close>: a file that cannot be read, or whose handling raises, is skipped.\<close>

definition read_sent :: "string \<Rightarrow> (finance, invoice) eff" where
  "read_sent n = andthen (look (\<lambda>s. map_of (fn_invoices s ''sent'') n)) (\<lambda>f. case f of
       None \<Rightarrow> throw ''FileNotFoundError'' n | Some None \<Rightarrow> throw ''JSONDecodeError'' n
     | Some (Some d) \<Rightarrow> from_read (invoice_of_dict d))"

definition settle_sent :: "fin_env \<Rightarrow> payment_status \<Rightarrow> invoice \<Rightarrow> (finance, unit) eff" where
  "settle_sent v p i =
     (if ps_status p = ''paid'' then process_payment_received v i
      else only_if (0 < ps_days p \<and> inv_status i = ''sent'') (process_payment_overdue v i))"

definition check_sent :: "fin_env \<Rightarrow> stripe_api option \<Rightarrow> string \<Rightarrow> (finance, payment_status list) eff" where
  "check_sent v client n =
     attempt (andthen (read_sent n) (\<lambda>i. andthen (check_invoice_status v client i) (\<lambda>p.
       andthen (attempt (settle_sent v p i) (\<lambda>_. ok ())) (\<lambda>_. ok [p])))) (\<lambda>_. ok [])"

definition check_all_sent_invoices :: "fin_env \<Rightarrow> stripe_api option \<Rightarrow> (finance, payment_status list) eff" where
  "check_all_sent_invoices v client =
     andthen (look (\<lambda>s. map fst (fn_invoices s ''sent''))) (\<lambda>ns. collect ns (check_sent v client))"

definition is_overdue :: "int \<Rightarrow> invoice \<Rightarrow> bool" where
  "is_overdue day i \<longleftrightarrow> inv_status i = ''sent'' \<and> (case inv_due i of Some d \<Rightarrow> d < day | None \<Rightarrow> False)"

definition flag_sent :: "fin_env \<Rightarrow> string \<Rightarrow> (finance, invoice list) eff" where
  "flag_sent v n =
     attempt (andthen (read_sent n) (\<lambda>i. if is_overdue (today v) i
         then andthen (process_payment_overdue v i) (\<lambda>_. ok [i\<lparr>inv_status := ''overdue''\<rparr>]) else ok []))
       (\<lambda>_. ok [])"

definition check_and_flag_overdue :: "fin_env \<Rightarrow> (finance, invoice list) eff" where
  "check_and_flag_overdue v =
     andthen (look (\<lambda>s. map fst (fn_invoices s ''sent''))) (\<lambda>ns. collect ns (flag_sent v))"

section \<open>Sending again\<close>

definition retry_stripe_id :: "stripe_api \<Rightarrow> invoice \<Rightarrow> (finance, string) eff" where
  "retry_stripe_id api i =
     (if truthy_str (inv_stripe i) then ok (the (inv_stripe i))
      else andthen (ask_stripe (SCreate (inv_client i) (inv_total i) (inv_currency i)
             (invoice_text (inv_id i) i) (inv_due i))
             (st_create api (inv_client i) (inv_total i) (inv_currency i) (invoice_text (inv_id i) i) (inv_due i))) (\<lambda>r.
           (let sid = get_str r ''id'' [] in
            andthen (get_invoice_path ''approved'' (inv_id i)) (\<lambda>p.
            andthen (look (\<lambda>s. map_of (fn_invoices s ''approved'') (inv_id i) \<noteq> None)) (\<lambda>there.
            andthen (only_if there (write_file p (invoice_to_dict (i\<lparr>inv_stripe := Some sid\<rparr>)))) (\<lambda>_. ok sid))))))"

definition attempt_stripe_send :: "fin_env \<Rightarrow> stripe_api option \<Rightarrow> invoice \<Rightarrow> (finance, unit) eff" where
  "attempt_stripe_send v client i0 =
     (case client of None \<Rightarrow> not_defined ''logger''
      | Some api \<Rightarrow>
          andthen (retry_stripe_id api i0) (\<lambda>sid.
          andthen (ask_stripe (SSend sid) (st_send api sid)) (\<lambda>_.
            (let i = i0\<lparr>inv_status := ''sent'', inv_sent := Some (fv_now v), inv_stripe := Some sid\<rparr> in
             andthen (get_invoice_path ''sent'' (inv_id i)) (\<lambda>p.
             andthen (write_file p (invoice_to_dict i)) (\<lambda>_.
             andthen (get_invoice_path ''approved'' (inv_id i)) (\<lambda>q. unlink_file q)))))))"

definition retry_failed_stripe_send :: "fin_env \<Rightarrow> stripe_api option \<Rightarrow> invoice \<Rightarrow> (finance, bool) eff" where
  "retry_failed_stripe_send v client i =
     (case inv_approved i of None \<Rightarrow> ok False
      | Some t \<Rightarrow>
          if STRIPE_MAX_RETRY_HOURS * HOUR < fv_now v - t then
            andthen (log_op v ''stripe_retry_exhausted'' (inv_id i) (Some (inv_total i)) ''escalated''
              [(''elapsed_hours'', JFloat (hours_of (fv_now v - t)))]) (\<lambda>_.
            andthen (queue_overdue_review v i ((fv_now v - t) div HOUR)) (\<lambda>_. ok False))
          else
            andthen (log_event v ''retry_attempted'' (inv_id i) (inv_client i) (inv_total i)
              [(''attempt_hours'', JFloat (hours_of (fv_now v - t)))]) (\<lambda>_.
            attempt (andthen (attempt_stripe_send v client i) (\<lambda>_. ok True)) (\<lambda>e.
              andthen (log_op v ''stripe_retry_failed'' (inv_id i) (Some (inv_total i)) ''failed''
                [(''error'', JStr (exn_text e)), (''attempt_hours'', JFloat (hours_of (fv_now v - t)))]) (\<lambda>_. ok False))))"

end
