(* ===== verification/Pricing.thy ===== *)
theory Pricing
  imports Payments "HOL-Library.List_Lexorder" "HOL-Library.Char_ord"
begin

text \<open>
  \<^verbatim>\<open>milimo-core/src/milimo_core/finance/pricing_engine.py\<close> (estimates for the ops claw and their
  calibration) and \<^verbatim>\<open>expense_tracker.py\<close> (the log of expenses and the summaries by tax category).
\<close>

section \<open>Pricing\<close>

record pricing_estimate =
  pr_project :: string
  pr_scope :: string
  pr_complexity :: string
  pr_deadline :: string
  pr_hours :: json
  pr_rate :: json
  pr_floor :: rat
  pr_ceiling :: rat
  pr_notes :: json
  pr_quality :: string
  pr_history :: nat
  pr_generated :: int

definition COMPLEXITY_TO_HOURS :: "int dict" where
  "COMPLEXITY_TO_HOURS = [(''low'', 8), (''medium'', 20), (''high'', 40), (''complex'', 80)]"

definition complexity_hours :: "fin_env \<Rightarrow> string \<Rightarrow> int" where
  "complexity_hours v c = (case map_of (fv_hours v) c of Some h \<Rightarrow> h | None \<Rightarrow> 20)"

text \<open>\<open>{**a, **b}\<close>: the keys of \<open>b\<close> win.\<close>

definition dict_over :: "json dict \<Rightarrow> json dict \<Rightarrow> json dict" where
  "dict_over a b = foldl (\<lambda>d (k, x). AList.update k x d) a b"

definition load_pricing_rules :: "fin_env \<Rightarrow> finance \<Rightarrow> json dict" where
  "load_pricing_rules v s =
     (let defaults = [(''default_hourly_rate'', JFloat (fv_rate v)), (''floor_multiplier'', JFloat (fv_floor_mult v)),
            (''ceiling_multiplier'', JFloat (fv_ceiling_mult v)), (''scope_weights'', JObj []), (''last_updated'', JNull)]
      in case fn_rules s of Some (Some d) \<Rightarrow> dict_over defaults d | _ \<Rightarrow> defaults)"

text \<open>The files by name, the last first; only the first twenty are looked at.\<close>

definition load_historical_calibration :: "string \<Rightarrow> nat \<Rightarrow> finance \<Rightarrow> json dict list" where
  "load_historical_calibration complexity n s =
     take n (concat (map (\<lambda>(_, f). case f of None \<Rightarrow> []
       | Some d \<Rightarrow> if map_of d ''complexity_estimate'' = Some (JStr complexity)
                  then [[(''estimated_hours'', json_get d ''estimated_hours'' (JInt 0)),
                         (''actual_hours'', json_get d ''actual_hours'' (JInt 0)),
                         (''accuracy_pct'', json_get d ''accuracy_pct'' (JInt 100))]]
                  else [])
       (take (n * 2) (rev (sort_key (\<lambda>(m, _). m @ ''.json'') (fn_pricing s))))))"

text \<open>Numbers that arithmetic accepts; a multiplication with another value raises.\<close>

definition py_num :: "json \<Rightarrow> rat option" where
  "py_num v = (case v of JInt n \<Rightarrow> Some (of_int n) | JFloat r \<Rightarrow> Some r | JBool b \<Rightarrow> Some (if b then 1 else 0) | _ \<Rightarrow> None)"

definition mult3 :: "json \<Rightarrow> json \<Rightarrow> json \<Rightarrow> rat option" where
  "mult3 a b c = (case (py_num a, py_num b, py_num c) of (Some x, Some y, Some z) \<Rightarrow> Some (x * y * z) | _ \<Rightarrow> None)"

text \<open>\<open>re.search(r"\{[^}]+\}", output, re.DOTALL)\<close>.\<close>

fun brace_text :: "string \<Rightarrow> string option" where
  "brace_text [] = None"
| "brace_text (c # cs) =
     (let body = takeWhile (\<lambda>x. x \<noteq> CHR ''}'') cs in
      if c = CHR ''{'' \<and> body \<noteq> [] \<and> length body < length cs then Some (c # body @ ''}'') else brace_text cs)"

text \<open>\<open>key["']?\s*[:=]\s*(\d+(?:\.\d+)?)\<close> at the start of a text, and its first match.\<close>

definition key_number :: "string \<Rightarrow> string \<Rightarrow> rat option" where
  "key_number key s =
     (if take (length key) s \<noteq> key then None
      else (let s1 = drop (length key) s;
                s2 = (case s1 of q # t \<Rightarrow> if q = CHR 0x22 \<or> q = CHR 0x27 then t else s1 | [] \<Rightarrow> [])
            in case dropWhile space_char s2 of
                 c # t \<Rightarrow> if c = CHR '':'' \<or> c = CHR ''='' then lead_number (dropWhile space_char t) else None
               | [] \<Rightarrow> None))"

fun find_key_number :: "string \<Rightarrow> string \<Rightarrow> rat option" where
  "find_key_number key [] = None"
| "find_key_number key (c # cs) =
     (case key_number key (c # cs) of Some r \<Rightarrow> Some r | None \<Rightarrow> find_key_number key cs)"

definition parse_inference_output :: "fin_env \<Rightarrow> json dict \<Rightarrow> string \<Rightarrow> json dict" where
  "parse_inference_output v rules output =
     (case (case brace_text output of Some t \<Rightarrow> fv_loads v t | None \<Rightarrow> None) of
        Some (JObj d) \<Rightarrow> d
      | _ \<Rightarrow>
        [(''estimated_hours'', (case find_key_number ''estimated_hours'' output of Some h \<Rightarrow> JFloat h
           | None \<Rightarrow> JInt (complexity_hours v ''medium''))),
         (''recommended_rate'', (case find_key_number ''recommended_rate'' output of Some r \<Rightarrow> JFloat r
           | None \<Rightarrow> json_get rules ''default_hourly_rate'' (JInt 100))),
         (''scope_notes'', JStr ''Parsed from inference output'')])"

definition rule_based_fallback :: "fin_env \<Rightarrow> string \<Rightarrow> string \<Rightarrow> json dict \<Rightarrow> pricing_estimate" where
  "rule_based_fallback v scope complexity rules =
     (let h = complexity_hours v complexity; r = get_num rules ''default_hourly_rate'' 100 in
      \<lparr>pr_project = [], pr_scope = scope, pr_complexity = complexity, pr_deadline = [], pr_hours = JInt h,
       pr_rate = json_get rules ''default_hourly_rate'' (JInt 100),
       pr_floor = round2 (of_int h * r * get_num rules ''floor_multiplier'' (8 / 10)),
       pr_ceiling = round2 (of_int h * r * get_num rules ''ceiling_multiplier'' (3 / 2)),
       pr_notes = JStr (''Rule-based estimate for '' @ complexity @ '' complexity''), pr_quality = ''estimated'',
       pr_history = 0, pr_generated = fv_now v\<rparr>)"

text \<open>The estimate: the answer's, or the fallback's where the service or the arithmetic raises.\<close>

definition price_project :: "fin_env \<Rightarrow> json dict \<Rightarrow> json dict \<Rightarrow> json dict list \<Rightarrow> pricing_estimate" where
  "price_project v m rules historical =
     (let pid = get_str m ''project_id'' []; scope = get_str m ''scope_description'' [];
          complexity = get_str m ''complexity_estimate'' ''medium''; deadline = get_str m ''deadline'' [];
          fallback = (rule_based_fallback v scope complexity rules)\<lparr>pr_project := pid, pr_deadline := deadline\<rparr>
      in case fv_infer v ''scope_cost_estimation'' of
           Inl _ \<Rightarrow> fallback
         | Inr output \<Rightarrow>
            (let parsed = parse_inference_output v rules output;
                 h = json_get parsed ''estimated_hours'' (JInt (complexity_hours v complexity));
                 r = json_get parsed ''recommended_rate'' (json_get rules ''default_hourly_rate'' (JInt 100))
             in case (mult3 h r (json_get rules ''floor_multiplier'' (JFloat (8 / 10))),
                      mult3 h r (json_get rules ''ceiling_multiplier'' (JFloat (3 / 2)))) of
                  (Some f, Some c) \<Rightarrow>
                    \<lparr>pr_project = pid, pr_scope = scope, pr_complexity = complexity, pr_deadline = deadline, pr_hours = h,
                     pr_rate = r, pr_floor = round2 f, pr_ceiling = round2 c,
                     pr_notes = json_get parsed ''scope_notes'' (JStr scope),
                     pr_quality = (if historical = [] then ''estimated'' else ''complete''),
                     pr_history = length historical, pr_generated = fv_now v\<rparr>
                | _ \<Rightarrow> fallback))"

definition estimate_to_dict :: "pricing_estimate \<Rightarrow> json dict" where
  "estimate_to_dict e =
     [(''project_id'', JStr (pr_project e)), (''scope_description'', JStr (pr_scope e)),
      (''complexity_estimate'', JStr (pr_complexity e)), (''deadline'', JStr (pr_deadline e)),
      (''estimated_hours'', pr_hours e), (''recommended_rate'', pr_rate e), (''floor_price'', JFloat (pr_floor e)),
      (''ceiling_price'', JFloat (pr_ceiling e)), (''scope_notes'', pr_notes e), (''data_quality'', JStr (pr_quality e)),
      (''history_projects_used'', JInt (int (pr_history e))), (''generated_at'', JInt (pr_generated e))]"

definition handle_pricing_query :: "fin_env \<Rightarrow> json dict \<Rightarrow> (finance, pricing_estimate) eff" where
  "handle_pricing_query v m =
     andthen (look (\<lambda>s. price_project v m (load_pricing_rules v s)
       (load_historical_calibration (get_str m ''complexity_estimate'' ''medium'') 10 s))) (\<lambda>e.
     andthen (upd (fn_estimates_update (\<lambda>f. f(get_str m ''project_id'' [] \<mapsto> Some (estimate_to_dict e))))) (\<lambda>_.
     andthen (send_pricing_response v (get_str m ''project_id'' []) (pr_floor e) (pr_ceiling e) (pr_notes e) (pr_quality e)) (\<lambda>_.
     andthen (log_op v ''pricing_query_answered'' (get_str m ''project_id'' []) (Some (pr_floor e)) ''success''
       [(''data_quality'', JStr (pr_quality e)), (''history_used'', JInt (int (pr_history e)))]) (\<lambda>_. ok e))))"

definition estimate_accuracy :: "rat \<Rightarrow> rat \<Rightarrow> rat" where
  "estimate_accuracy estimated actual =
     (if 0 < estimated then max 0 (min 100 (100 - \<bar>(actual - estimated) / estimated * 100\<bar>)) else 100)"

definition update_actual_cost :: "fin_env \<Rightarrow> string \<Rightarrow> rat \<Rightarrow> rat \<Rightarrow> (finance, unit) eff" where
  "update_actual_cost v pid hours cost =
     andthen (look (\<lambda>s. fn_estimates s pid)) (\<lambda>f. case f of
       None \<Rightarrow> ok ()
     | Some None \<Rightarrow> throw ''JSONDecodeError'' pid
     | Some (Some d) \<Rightarrow>
        (let a = estimate_accuracy (get_num d ''estimated_hours'' 0) hours in
         andthen (upd (fn_pricing_update (AList.update pid (Some (dict_over d
           [(''actual_hours'', JFloat hours), (''actual_cost'', JFloat cost), (''accuracy_pct'', JFloat (round2 a)),
            (''updated_at'', JInt (fv_now v))]))))) (\<lambda>_.
         log_op v ''pricing_history_updated'' pid (Some cost) ''success'' [(''accuracy_pct'', JFloat a)])))"

section \<open>Expenses\<close>

record expense_entry =
  ex_id :: string
  ex_description :: string
  ex_amount :: rat
  ex_currency :: string
  ex_date :: int
  ex_category :: string
  ex_source :: string
  ex_logged :: int

definition expense_to_dict :: "expense_entry \<Rightarrow> json dict" where
  "expense_to_dict e =
     [(''expense_id'', JStr (ex_id e)), (''description'', JStr (ex_description e)), (''amount'', JFloat (ex_amount e)),
      (''currency'', JStr (ex_currency e)), (''expense_date'', JInt (ex_date e)), (''tax_category'', JStr (ex_category e)),
      (''source'', JStr (ex_source e)), (''logged_at'', JInt (ex_logged e))]"

definition rq_int :: "json dict \<Rightarrow> string \<Rightarrow> read_error + int" where
  "rq_int d k = (case map_of d k of None \<Rightarrow> Inl (MissingField k) | Some (JInt n) \<Rightarrow> Inr n | Some _ \<Rightarrow> Inl (Untyped k))"

definition expense_of_dict :: "json dict \<Rightarrow> read_error + expense_entry" where
  "expense_of_dict d =
     bind_sum (rq_str d ''expense_id'') (\<lambda>i. bind_sum (rq_str d ''description'') (\<lambda>de.
     bind_sum (rq_num d ''amount'') (\<lambda>a. bind_sum (rd_str d ''currency'' ''USD'') (\<lambda>c.
     bind_sum (rq_int d ''expense_date'') (\<lambda>da. bind_sum (rd_str d ''tax_category'' ''uncategorized'') (\<lambda>t.
     bind_sum (rd_str d ''source'' ''manual'') (\<lambda>so. bind_sum (rq_int d ''logged_at'') (\<lambda>lo.
       Inr \<lparr>ex_id = i, ex_description = de, ex_amount = a, ex_currency = c, ex_date = da, ex_category = t,
            ex_source = so, ex_logged = lo\<rparr>))))))))"

definition TAX_CATEGORIES :: "string list" where
  "TAX_CATEGORIES =
    [''office_supplies'', ''software_subscriptions'', ''hardware_equipment'', ''travel'', ''meals_entertainment'',
     ''professional_services'', ''marketing_advertising'', ''education_training'', ''utilities'', ''insurance'',
     ''rent_lease'', ''bank_fees'', ''other_business'', ''uncategorized'']"

definition classify_expense :: "fin_env \<Rightarrow> string" where
  "classify_expense v = (case fv_infer v ''tax_category_classification'' of Inl _ \<Rightarrow> ''uncategorized''
     | Inr output \<Rightarrow> (case find (\<lambda>c. py_in c (py_lower output)) TAX_CATEGORIES of
                       Some c \<Rightarrow> c | None \<Rightarrow> ''uncategorized''))"

definition update_category_summary :: "fin_env \<Rightarrow> string \<Rightarrow> rat \<Rightarrow> (finance, unit) eff" where
  "update_category_summary v category amount =
     andthen (look (\<lambda>s. load_json (map_of (fn_categories s) category)
       [(''total'', JInt 0), (''count'', JInt 0), (''last_updated'', JNull)])) (\<lambda>d.
       (let d1 = AList.update ''total'' (JFloat (get_num d ''total'' 0 + amount)) d;
            d2 = AList.update ''count'' (JInt (get_int d1 ''count'' 0 + 1)) d1
        in upd (fn_categories_update (AList.update category (Some (AList.update ''last_updated'' (JInt (fv_now v)) d2))))))"

definition decrement_category_summary :: "fin_env \<Rightarrow> string \<Rightarrow> rat \<Rightarrow> (finance, unit) eff" where
  "decrement_category_summary v category amount =
     andthen (look (\<lambda>s. map_of (fn_categories s) category)) (\<lambda>f. case f of
       Some (Some d) \<Rightarrow>
         (let d1 = AList.update ''total'' (JFloat (max 0 (get_num d ''total'' 0 - amount))) d;
              d2 = AList.update ''count'' (JInt (max 0 (get_int d1 ''count'' 0 - 1))) d1
          in upd (fn_categories_update (AList.update category (Some (AList.update ''last_updated'' (JInt (fv_now v)) d2)))))
     | _ \<Rightarrow> ok ())"

definition log_expense :: "fin_env \<Rightarrow> string \<Rightarrow> rat \<Rightarrow> int \<Rightarrow> string \<Rightarrow> (finance, expense_entry) eff" where
  "log_expense v about amount date source =
     (let e = \<lparr>ex_id = ''exp-'' @ take 8 (fv_hex v), ex_description = about, ex_amount = amount, ex_currency = ''USD'',
               ex_date = date, ex_category = classify_expense v, ex_source = source, ex_logged = fv_now v\<rparr>
      in andthen (upd (fn_expenses_update (\<lambda>l. l @ [Some (expense_to_dict e)]))) (\<lambda>_.
         andthen (update_category_summary v (ex_category e) amount) (\<lambda>_.
         andthen (log_op v ''expense_logged'' (ex_id e) (Some amount) ''success''
           [(''category'', JStr (ex_category e)), (''source'', JStr source)]) (\<lambda>_. ok e))))"

definition read_expenses :: "(json dict \<Rightarrow> bool) \<Rightarrow> finance \<Rightarrow> expense_entry list" where
  "read_expenses keep s = concat (map (\<lambda>l. case l of None \<Rightarrow> []
     | Some d \<Rightarrow> if keep d then (case expense_of_dict d of Inr e \<Rightarrow> [e] | Inl _ \<Rightarrow> []) else []) (fn_expenses s))"

definition get_uncategorized_expenses :: "finance \<Rightarrow> expense_entry list" where
  "get_uncategorized_expenses = read_expenses (\<lambda>d. map_of d ''tax_category'' = Some (JStr ''uncategorized''))"

definition get_expenses_by_period :: "int \<Rightarrow> int \<Rightarrow> finance \<Rightarrow> expense_entry list" where
  "get_expenses_by_period start finish =
     read_expenses (\<lambda>d. case map_of d ''expense_date'' of Some (JInt n) \<Rightarrow> start \<le> n \<and> n \<le> finish | _ \<Rightarrow> False)"

definition get_category_summary :: "finance \<Rightarrow> rat dict" where
  "get_category_summary s = concat (map (\<lambda>(c, f). case f of None \<Rightarrow> [] | Some d \<Rightarrow> [(c, get_num d ''total'' 0)]) (fn_categories s))"

text \<open>The pass over the log: the rewritten lines, the category and the amount of the last expense found.\<close>

definition recategorize_line :: "string \<Rightarrow> string \<Rightarrow> string \<times> rat \<Rightarrow> json dict option \<Rightarrow> json dict option \<times> (string \<times> rat)" where
  "recategorize_line eid category found l =
     (case l of Some d \<Rightarrow>
        if map_of d ''expense_id'' = Some (JStr eid)
        then (Some (AList.update ''tax_category'' (JStr category) d), (get_str d ''tax_category'' [], get_num d ''amount'' 0))
        else (l, found)
      | None \<Rightarrow> (l, found))"

fun recategorize_lines :: "string \<Rightarrow> string \<Rightarrow> string \<times> rat \<Rightarrow> json dict option list \<Rightarrow> json dict option list \<times> (string \<times> rat)" where
  "recategorize_lines eid category found [] = ([], found)"
| "recategorize_lines eid category found (l # ls) =
     (let (l', found') = recategorize_line eid category found l;
          (ls', found'') = recategorize_lines eid category found' ls
      in (l' # ls', found''))"

definition recategorize_expense :: "fin_env \<Rightarrow> string \<Rightarrow> string \<Rightarrow> (finance, unit) eff" where
  "recategorize_expense v eid category =
     andthen (look (\<lambda>s. recategorize_lines eid category ([], 0) (fn_expenses s))) (\<lambda>(ls, old, amount).
     andthen (upd (fn_expenses_update (\<lambda>_. ls))) (\<lambda>_.
     andthen (only_if (old \<noteq> []) (decrement_category_summary v old amount)) (\<lambda>_.
     andthen (update_category_summary v category amount) (\<lambda>_.
     log_op v ''expense_recategorized'' eid (Some amount) ''success''
       [(''old_category'', JStr old), (''new_category'', JStr category)]))))"

end
