(* ===== verification/Finance_Claw.thy ===== *)
theory Finance_Claw
  imports Pricing Spend_Model
begin

text \<open>
  \<^verbatim>\<open>milimo-core/src/milimo_core/finance/finance_scheduler.py\<close> and \<^verbatim>\<open>finance_claw.py\<close>: the timers, the
  messages the claw receives, its War Room callbacks and its entry points. The spend handler, modelled in
  \<open>Spend_Handler\<close> over its own state, is reached through a record of its operations.
\<close>

section \<open>The calendar\<close>

text \<open>Year, month and day of a day number (proleptic Gregorian, as \<^verbatim>\<open>datetime\<close>), and back.\<close>

definition civil :: "int \<Rightarrow> int \<times> int \<times> int" where
  "civil day =
     (let z = day + 719468; era = z div 146097; doe = z mod 146097;
          yoe = (doe - doe div 1460 + doe div 36524 - doe div 146096) div 365;
          doy = doe - (365 * yoe + yoe div 4 - yoe div 100); mp = (5 * doy + 2) div 153;
          d = doy - (153 * mp + 2) div 5 + 1; m = (if mp < 10 then mp + 3 else mp - 9)
      in (yoe + era * 400 + (if m \<le> 2 then 1 else 0), m, d))"

definition day_number :: "int \<Rightarrow> int \<Rightarrow> int \<Rightarrow> int" where
  "day_number year m d =
     (let y = (if m \<le> 2 then year - 1 else year); era = y div 400; yoe = y mod 400;
          doy = (153 * (if 2 < m then m - 3 else m + 9) + 2) div 5 + d - 1;
          doe = yoe * 365 + yoe div 4 - yoe div 100 + doy
      in era * 146097 + doe - 719468)"

definition year_of :: "int \<Rightarrow> int" where "year_of day = fst (civil day)"
definition quarter_of :: "int \<Rightarrow> int" where "quarter_of day = (fst (snd (civil day)) - 1) div 3 + 1"

definition is_quarter_start :: "int \<Rightarrow> bool" where
  "is_quarter_start day \<longleftrightarrow> fst (snd (civil day)) \<in> {1, 4, 7, 10} \<and> snd (snd (civil day)) = 1"

text \<open>\<open>_seconds_until\<close>, in microseconds.\<close>

definition time_until :: "int \<Rightarrow> int \<Rightarrow> int \<Rightarrow> int option \<Rightarrow> int" where
  "time_until now hour minute wday =
     (let target = now div DAY * DAY + hour * HOUR + minute * 60000000 in
      case wday of
        Some w \<Rightarrow>
          (let days = (w - weekday (now div DAY)) mod 7;
               days' = (if days = 0 \<and> target \<le> now then 7 else days)
           in target + days' * DAY - now)
      | None \<Rightarrow> (if target \<le> now then target + DAY else target) - now)"

section \<open>The scheduler\<close>

datatype job = DailyCheck | WeeklySummary | QuarterlyCheck | StalenessCheck

record fin_claw =
  fc_store :: finance
  fc_running :: bool
  fc_timers :: "(job \<times> int) list"
  fc_initialized :: bool
  fc_components :: bool

definition on_store :: "(finance, 'a) eff \<Rightarrow> (fin_claw, 'a) eff" where
  "on_store m c = (case m (fc_store c) of (s, r) \<Rightarrow> (c\<lparr>fc_store := s\<rparr>, r))"

definition job_delay :: "int \<Rightarrow> job \<Rightarrow> int" where
  "job_delay now j = (case j of DailyCheck \<Rightarrow> time_until now 9 0 None | WeeklySummary \<Rightarrow> time_until now 3 0 (Some 6)
     | QuarterlyCheck \<Rightarrow> time_until now 9 0 None | StalenessCheck \<Rightarrow> time_until now 10 0 None)"

definition schedule_job :: "fin_env \<Rightarrow> job \<Rightarrow> (fin_claw, unit) eff" where
  "schedule_job v j = upd (fc_timers_update (\<lambda>l. l @ [(j, fv_now v + job_delay (fv_now v) j)]))"

definition reschedule :: "fin_env \<Rightarrow> job \<Rightarrow> (fin_claw, unit) eff" where
  "reschedule v j = andthen (look fc_running) (\<lambda>run. only_if run (schedule_job v j))"

definition run_daily_payment_check :: "fin_env \<Rightarrow> stripe_api option \<Rightarrow> (fin_claw, unit) eff" where
  "run_daily_payment_check v client =
     andthen (on_store (attempt
       (andthen (check_all_sent_invoices v client) (\<lambda>_.
        andthen (check_and_flag_overdue v) (\<lambda>_.
        log_op v ''daily_payment_check_complete'' ''daily'' None ''success'' [(''duration_seconds'', JFloat 0)])))
       (\<lambda>e. log_op v ''daily_payment_check_failed'' ''daily'' None ''failed'' [(''error'', JStr (exn_text e))]))) (\<lambda>_.
     reschedule v DailyCheck)"

definition run_weekly_summary :: "fin_env \<Rightarrow> (fin_claw, unit) eff" where
  "run_weekly_summary v =
     andthen (on_store (attempt
       (andthen (generate_weekly_summary v) (\<lambda>r.
        log_op v ''weekly_summary_complete'' (case rv_week_start r of Some n \<Rightarrow> py_str_int n | None \<Rightarrow> [])
          (Some (rv_week_total r)) ''success'' [(''duration_seconds'', JFloat 0)]))
       (\<lambda>e. log_op v ''weekly_summary_failed'' ''weekly'' None ''failed'' [(''error'', JStr (exn_text e))]))) (\<lambda>_.
     reschedule v WeeklySummary)"

definition mock_invoice :: "expense_entry \<Rightarrow> invoice" where
  "mock_invoice e =
     \<lparr>inv_id = ''exp-review-'' @ ex_id e, inv_project = [], inv_client = [], inv_items = [], inv_subtotal = ex_amount e,
      inv_total = ex_amount e, inv_currency = ''USD'', inv_terms = ''Net 14'', inv_due = None, inv_risk_score = 0,
      inv_risk_level = ''unknown'', inv_status = ''pending'', inv_stripe = None, inv_generated = None, inv_approved = None,
      inv_sent = None, inv_paid = None\<rparr>"

definition quarter_bounds :: "int \<Rightarrow> int \<times> int" where
  "quarter_bounds day =
     (let y = year_of day; q = quarter_of day in
      (day_number y ((q - 1) * 3 + 1) 1, day_number y (q * 3) (if q = 1 \<or> q = 4 then 31 else 30)))"

definition quarterly_tax_data :: "fin_env \<Rightarrow> finance \<Rightarrow> nat \<Rightarrow> json dict" where
  "quarterly_tax_data v s n =
     (let es = get_expenses_by_period (fst (quarter_bounds (today v))) (snd (quarter_bounds (today v))) s in
      [(''year'', JInt (year_of (today v))), (''quarter'', JInt (quarter_of (today v))),
       (''total_expenses'', JFloat (sum_list (map ex_amount es))), (''expense_count'', JInt (int (length es))),
       (''uncategorized_count'', JInt (int n)),
       (''category_breakdown'', JObj (map (\<lambda>(c, t). (c, JFloat t)) (get_category_summary s))),
       (''generated_at'', JInt (fv_now v))])"

definition quarter_name :: "fin_env \<Rightarrow> string" where
  "quarter_name v = py_str_int (year_of (today v)) @ ''-Q'' @ py_str_int (quarter_of (today v))"

definition run_quarterly_tax_prep :: "fin_env \<Rightarrow> (finance, unit) eff" where
  "run_quarterly_tax_prep v =
     attempt
       (andthen (look get_uncategorized_expenses) (\<lambda>un.
        andthen (for_each (take 10 un) (\<lambda>e. andthen (queue_overdue_review v (mock_invoice e) 0) (\<lambda>_. ok ()))) (\<lambda>_.
        andthen (look (\<lambda>s. quarterly_tax_data v s (length un))) (\<lambda>d.
        andthen (upd (fn_tax_update (\<lambda>m. m(quarter_name v \<mapsto> d)))) (\<lambda>_.
        log_op v ''quarterly_tax_prep'' (quarter_name v) (Some (get_num d ''total_expenses'' 0)) ''success''
          [(''uncategorized'', JInt (int (length un)))])))))
       (\<lambda>e. log_op v ''quarterly_tax_prep_failed'' ''tax_prep'' None ''failed'' [(''error'', JStr (exn_text e))])"

definition check_stale_hold :: "fin_env \<Rightarrow> json dict option \<Rightarrow> (finance, unit) eff" where
  "check_stale_hold v f = (case f of
       None \<Rightarrow> throw ''JSONDecodeError'' []
     | Some d \<Rightarrow> (case map_of d ''approved_at'' of
         Some (JInt t) \<Rightarrow>
           andthen (from_read (invoice_of_dict d)) (\<lambda>i.
             (let age = fv_now v - t;
                  flag = (\<lambda>action outcome.
                    andthen (log_op v action (get_str d ''invoice_id'' []) (Some (get_num d ''total'' 0)) outcome
                      [(''hours_in_hold'', JFloat (hours_of age))]) (\<lambda>_.
                    andthen (queue_invoice_hold v i) (\<lambda>_. ok ())))
              in if 168 * HOUR < age then flag ''hold_stale_7days'' ''escalated''
                 else if 48 * HOUR < age then flag ''hold_stale_48h'' ''flagged''
                 else ok ()))
       | _ \<Rightarrow> ok ()))"

definition check_hold_staleness :: "fin_env \<Rightarrow> (finance, unit) eff" where
  "check_hold_staleness v =
     andthen (look (\<lambda>s. map snd (fn_invoices s ''approved''))) (\<lambda>fs.
       for_each fs (\<lambda>f. attempt_only [''JSONDecodeError'', ''KeyError'', ''ValueError''] (check_stale_hold v f) (\<lambda>_. ok ())))"

definition log_recovered_job :: "fin_env \<Rightarrow> string \<Rightarrow> rat \<Rightarrow> (fin_claw, unit) eff" where
  "log_recovered_job v name delay =
     on_store (log_op v ''job_recovered'' name None ''recovered'' [(''delay_hours'', JFloat delay)])"

text \<open>The loop over the reversed entries overwrites what it found: the oldest of the last thirty days stays.\<close>

definition last_run_seen :: "string \<Rightarrow> fin_entry list \<Rightarrow> int option" where
  "last_run_seen action entries =
     foldl (\<lambda>t e. if fe_action e = action then Some (fe_time e) else t) None (rev entries)"

definition check_missed_jobs :: "fin_env \<Rightarrow> stripe_api option \<Rightarrow> (fin_claw, unit) eff" where
  "check_missed_jobs v client =
     andthen (look (\<lambda>c. read_recent (fv_now v) 30 None (fn_oplog (fc_store c)))) (\<lambda>es.
     andthen (case last_run_seen ''daily_payment_check_complete'' es of
         Some t \<Rightarrow> only_if (36 * HOUR < fv_now v - t)
           (andthen (run_daily_payment_check v client) (\<lambda>_.
            log_recovered_job v ''daily_payment_check'' (hours_of (fv_now v - t))))
       | None \<Rightarrow> andthen (run_daily_payment_check v client) (\<lambda>_. log_recovered_job v ''daily_payment_check'' 0)) (\<lambda>_.
     (case last_run_seen ''weekly_summary_complete'' es of
         Some t \<Rightarrow> only_if (8 * DAY < fv_now v - t)
           (andthen (run_weekly_summary v) (\<lambda>_.
            log_recovered_job v ''weekly_summary'' (of_int (fv_now v - t) / of_int DAY)))
       | None \<Rightarrow> ok ())))"

definition scheduler_start :: "fin_env \<Rightarrow> stripe_api option \<Rightarrow> (fin_claw, unit) eff" where
  "scheduler_start v client =
     andthen (look fc_running) (\<lambda>run. if run then ok () else
     andthen (upd (fc_running_update (\<lambda>_. True))) (\<lambda>_.
     andthen (schedule_job v DailyCheck) (\<lambda>_.
     andthen (schedule_job v WeeklySummary) (\<lambda>_.
     andthen (schedule_job v QuarterlyCheck) (\<lambda>_.
     andthen (schedule_job v StalenessCheck) (\<lambda>_.
     andthen (check_missed_jobs v client) (\<lambda>_.
     on_store (log_op v ''scheduler_started'' ''scheduler'' None ''success'' []))))))))"

definition scheduler_stop :: "fin_env \<Rightarrow> (fin_claw, unit) eff" where
  "scheduler_stop v =
     andthen (upd (\<lambda>c. c\<lparr>fc_running := False, fc_timers := []\<rparr>)) (\<lambda>_.
     on_store (log_op v ''scheduler_stopped'' ''scheduler'' None ''success'' []))"

text \<open>What a timer runs when it is due; it is no longer pending then.\<close>

definition run_job :: "fin_env \<Rightarrow> stripe_api option \<Rightarrow> job \<Rightarrow> (fin_claw, unit) eff" where
  "run_job v client j = (case j of
       DailyCheck \<Rightarrow> run_daily_payment_check v client
     | WeeklySummary \<Rightarrow> run_weekly_summary v
     | QuarterlyCheck \<Rightarrow> andthen (only_if (is_quarter_start (today v)) (on_store (run_quarterly_tax_prep v))) (\<lambda>_. reschedule v QuarterlyCheck)
     | StalenessCheck \<Rightarrow> andthen (on_store (check_hold_staleness v)) (\<lambda>_. reschedule v StalenessCheck))"

definition fire_timer :: "fin_env \<Rightarrow> stripe_api option \<Rightarrow> nat \<Rightarrow> (fin_claw, unit) eff" where
  "fire_timer v client k =
     andthen (look fc_timers) (\<lambda>ts. if k < length ts \<and> snd (ts ! k) \<le> fv_now v
       then andthen (upd (fc_timers_update (\<lambda>l. take k l @ drop (Suc k) l))) (\<lambda>_. run_job v client (fst (ts ! k)))
       else ok ())"

section \<open>The callbacks of the War Room\<close>

record spend_port =
  sp_queue_review :: "spend_request \<Rightarrow> (finance, string \<times> string) eff"
  sp_review_approve :: "string \<Rightarrow> (finance, string) eff"
  sp_review_edit :: "string \<Rightarrow> int \<Rightarrow> string \<Rightarrow> (finance, unit) eff"
  sp_review_block :: "string \<Rightarrow> string \<Rightarrow> (finance, unit) eff"
  sp_hold_release :: "string \<Rightarrow> string option \<Rightarrow> (finance, string) eff"
  sp_hold_cancel :: "string \<Rightarrow> string \<Rightarrow> (finance, unit) eff"
  sp_invoice_ready :: "string \<Rightarrow> int \<Rightarrow> (finance, unit) eff"

definition has_prefix :: "string \<Rightarrow> string \<Rightarrow> bool" where
  "has_prefix p s \<longleftrightarrow> take (length p) s = p"

definition finance_approve :: "fin_env \<Rightarrow> spend_port \<Rightarrow> string \<Rightarrow> json dict \<Rightarrow> (finance, unit) eff" where
  "finance_approve v sp aid d =
     (if has_prefix ''spend-review-'' aid then invoice_review_approve v aid
      else if has_prefix ''spend-hold-'' aid then andthen (sp_hold_release sp aid (Some ''system'')) (\<lambda>_. ok ())
      else if has_prefix ''review-'' aid then invoice_review_approve v aid
      else if has_prefix ''hold-'' aid then invoice_hold_release v None aid
      else ok ())"

definition finance_veto :: "fin_env \<Rightarrow> spend_port \<Rightarrow> string \<Rightarrow> json dict \<Rightarrow> (finance, unit) eff" where
  "finance_veto v sp aid d =
     (if has_prefix ''spend-review-'' aid then sp_review_block sp aid ''vetoed from war room''
      else if has_prefix ''spend-hold-'' aid then sp_hold_cancel sp aid ''vetoed from war room''
      else if has_prefix ''review-'' aid then invoice_review_block v aid ''vetoed from war room''
      else if has_prefix ''hold-'' aid then invoice_hold_cancel v aid
      else ok ())"

definition finance_handlers :: "fin_env \<Rightarrow> spend_port \<Rightarrow> finance handler_table" where
  "finance_handlers v sp =
     register_warroom_action_handler ''finance'' \<lparr>on_approve = finance_approve v sp, on_veto = finance_veto v sp\<rparr> Map.empty"

section \<open>Messages to the claw\<close>

text \<open>
  The dictionary of the answer is filled in as the handler goes on: what was set before an exception
  stays. The state of a handler is the store with that dictionary.
\<close>

definition in_store :: "(finance, 'a) eff \<Rightarrow> (finance \<times> json dict, 'a) eff" where
  "in_store m = (\<lambda>(s, d). case m s of (s', r) \<Rightarrow> ((s', d), r))"

definition set_key :: "string \<Rightarrow> json \<Rightarrow> (finance \<times> json dict, unit) eff" where
  "set_key k x = upd (\<lambda>(s, d). (s, AList.update k x d))"

definition set_text :: "string \<Rightarrow> string \<Rightarrow> (finance \<times> json dict, unit) eff" where
  "set_text k x = set_key k (JStr x)"

text \<open>\<open>int(v)\<close> of a JSON value; a text that is no number is a \<open>ValueError\<close>, another value a \<open>TypeError\<close>.\<close>

definition json_to_int :: "json \<Rightarrow> ('s, int) eff" where
  "json_to_int j = (case j of JInt n \<Rightarrow> ok n | JFloat r \<Rightarrow> ok (if r < 0 then \<lceil>r\<rceil> else \<lfloor>r\<rfloor>)
     | JBool b \<Rightarrow> ok (if b then 1 else 0)
     | JStr s \<Rightarrow> (case py_int s of Some n \<Rightarrow> ok n | None \<Rightarrow> throw ''ValueError'' s)
     | _ \<Rightarrow> throw ''TypeError'' ''int() argument'')"

definition no_method :: "string \<Rightarrow> string \<Rightarrow> ('s, 'a) eff" where
  "no_method cls m = throw ''AttributeError'' (cls @ '' object has no attribute '' @ m)"

definition inbound_project_complete :: "fin_env \<Rightarrow> json dict \<Rightarrow> (finance \<times> json dict, unit) eff" where
  "inbound_project_complete v body =
     andthen (in_store (generate_invoice v (get_str body ''project_id'' []) (get_str body ''client_id'' []))) (\<lambda>i.
     andthen (set_text ''invoice_id'' (inv_id i)) (\<lambda>_.
     andthen (set_text ''project_id'' (get_str body ''project_id'' [])) (\<lambda>_.
     andthen (set_text ''action'' ''invoice_generated'') (\<lambda>_.
     andthen (in_store (queue_invoice_review v i)) (\<lambda>_. ok ())))))"

definition inbound_spend_request :: "fin_env \<Rightarrow> spend_port \<Rightarrow> string \<Rightarrow> json dict \<Rightarrow> (finance \<times> json dict, unit) eff" where
  "inbound_spend_request v sp sender body =
     andthen (json_to_int (json_get body ''amount_cents'' (JInt 0))) (\<lambda>cents.
       (let rq = \<lparr>spend_id = get_str body ''spend_id'' (take 12 (fv_hex v)), claw = sender,
                  merchant_name = get_str body ''merchant_name'' [], merchant_url = get_str body ''merchant_url'' [],
                  amount_cents = cents, currency = get_str body ''currency'' ''usd'',
                  justification = get_str body ''justification'' [],
                  payment_method_id = get_str_opt body ''payment_method_id'',
                  credential_type = get_str body ''credential_type'' ''card'', status = PendingReview,
                  created_at = fv_now v, link_spend_request_id = None\<rparr>
        in andthen (in_store (sp_queue_review sp rq)) (\<lambda>(aid, st).
           andthen (set_text ''action_id'' aid) (\<lambda>_.
           andthen (set_text ''spend_id'' (spend_id rq)) (\<lambda>_.
           set_text ''action'' (if st = ''blocked'' then ''spend_blocked'' else ''spend_queued_review''))))))"

definition inbound_review_decision :: "spend_port \<Rightarrow> json dict \<Rightarrow> (finance \<times> json dict, unit) eff" where
  "inbound_review_decision sp body =
     (let aid = get_str body ''action_id'' []; decision = get_str body ''decision'' [] in
      andthen
        (if decision = ''approve'' then
           andthen (in_store (sp_review_approve sp aid)) (\<lambda>h. andthen (set_text ''hold_action_id'' h) (\<lambda>_.
             set_text ''action'' ''spend_moved_to_hold''))
         else if decision = ''edit'' then
           andthen (json_to_int (json_get body ''amount_cents'' (JInt 0))) (\<lambda>cents.
           andthen (in_store (sp_review_edit sp aid cents (get_str body ''justification'' []))) (\<lambda>_.
             set_text ''action'' ''spend_review_edited''))
         else if decision = ''block'' then
           andthen (in_store (sp_review_block sp aid (get_str body ''reason'' []))) (\<lambda>_. set_text ''action'' ''spend_blocked'')
         else ok ()) (\<lambda>_.
      set_text ''action_id'' aid))"

definition inbound_hold_decision :: "spend_port \<Rightarrow> json dict \<Rightarrow> (finance \<times> json dict, unit) eff" where
  "inbound_hold_decision sp body =
     (let aid = get_str body ''action_id'' []; decision = get_str body ''decision'' [];
          operator = (if truthy_str (get_str_opt body ''operator_id'') then get_str_opt body ''operator_id''
                      else get_str_opt body ''approver'')
      in andthen
        (if decision = ''release'' then
           andthen (in_store (sp_hold_release sp aid operator)) (\<lambda>st. andthen (set_text ''spend_status'' st) (\<lambda>_.
             set_text ''action'' (if st = ''released'' then ''spend_completed'' else ''spend_release_failed'')))
         else if decision = ''cancel'' then
           andthen (in_store (sp_hold_cancel sp aid (get_str body ''reason'' []))) (\<lambda>_. set_text ''action'' ''spend_hold_cancelled'')
         else ok ()) (\<lambda>_.
      set_text ''action_id'' aid))"

text \<open>The queue the diagnostics count: what is queued and not decided; a line that is not JSON ends the count with nothing.\<close>

definition open_action :: "(json \<times> json) list \<Rightarrow> json dict \<Rightarrow> (json \<times> json) list" where
  "open_action m e =
     (let aid = json_get e ''action_id'' JNull; atype = json_get e ''action_type'' JNull in
      if atype = JStr ''queued'' then AList.update aid (json_get e ''stage'' JNull) m
      else if atype \<in> JStr ` {''approve'', ''edit'', ''block'', ''release'', ''cancel''} then AList.delete aid m else m)"

definition open_actions :: "json dict option list \<Rightarrow> (json \<times> json) list" where
  "open_actions ls = (if None \<in> set ls then [] else foldl open_action [] (concat (map (\<lambda>l. case l of Some e \<Rightarrow> [e] | None \<Rightarrow> []) ls)))"

definition stage_count :: "string \<Rightarrow> (json \<times> json) list \<Rightarrow> int" where
  "stage_count stage m = int (length (filter (\<lambda>(_, s). s = JStr stage) m))"

definition fin_entry_to_dict :: "fin_entry \<Rightarrow> json dict" where
  "fin_entry_to_dict e =
     [(''timestamp'', JInt (fe_time e)), (''action_type'', JStr (fe_action e)), (''entity_id'', JStr (fe_entity e)),
      (''amount'', json_opt JFloat (fe_amount e)), (''outcome'', JStr (fe_outcome e)), (''details'', JObj (fe_details e))]"

definition send_assistant_response :: "fin_env \<Rightarrow> json \<Rightarrow> (finance \<times> json dict, unit) eff" where
  "send_assistant_response v mid =
     upd (\<lambda>(s, d).
       (let m = \<lparr>fm_type = ''assistant_response'', fm_recipient = ''assistant'',
                 fm_payload = [(''original_message_id'', mid), (''response'', JObj d)],
                 fm_id = take 12 (fv_hex v), fm_time = fv_now v\<rparr>
        in (case fv_gateway v m of None \<Rightarrow> fn_outbox_update (\<lambda>l. l @ [m]) s | Some _ \<Rightarrow> s, d)))"

definition inbound_assistant_query :: "fin_env \<Rightarrow> bool \<Rightarrow> json \<Rightarrow> json dict \<Rightarrow> (finance \<times> json dict, unit) eff" where
  "inbound_assistant_query v ready mid body =
     andthen (set_text ''claw'' ''finance'') (\<lambda>_.
     andthen
       (if get_str body ''query'' [] = ''diagnostics'' then
          andthen (look (\<lambda>(s, _). open_actions (fn_decisions s))) (\<lambda>acts.
          andthen (look (\<lambda>(s, _). if ready then drop (length (fn_oplog s) - 5) (fn_oplog s) else [])) (\<lambda>tail.
          andthen (set_text ''status'' ''diagnostics'') (\<lambda>_.
          andthen (set_key ''queue_size'' (JInt (stage_count ''review'' acts + stage_count ''hold'' acts))) (\<lambda>_.
          andthen (set_key ''review_queue_size'' (JInt (stage_count ''review'' acts))) (\<lambda>_.
          andthen (set_key ''hold_queue_size'' (JInt (stage_count ''hold'' acts))) (\<lambda>_.
          set_key ''recent_logs'' (JList (map (\<lambda>l. case l of Some e \<Rightarrow> JObj (fin_entry_to_dict e) | None \<Rightarrow> JNull) tail))))))))
        else set_key ''components'' (JObj (map (\<lambda>c. (c, JBool ready))
               [''pricing_engine'', ''invoice_manager'', ''payment_monitor'', ''revenue_tracker'']))) (\<lambda>_.
     send_assistant_response v mid))"

definition inbound_body :: "fin_env \<Rightarrow> spend_port \<Rightarrow> bool \<Rightarrow> string \<Rightarrow> string \<Rightarrow> json \<Rightarrow> json dict
    \<Rightarrow> (finance \<times> json dict, unit) eff" where
  "inbound_body v sp ready mtype sender mid body =
     (if mtype = ''pricing_query'' then
        andthen (only_if ready (in_store (andthen (handle_pricing_query v body) (\<lambda>_. ok ())))) (\<lambda>_.
        set_text ''action'' ''pricing_query_handled'')
      else if mtype = ''project_complete'' then only_if ready (inbound_project_complete v body)
      else if mtype = ''hold_release'' then only_if ready (no_method ''PaymentMonitor'' ''release_hold'')
      else if mtype = ''review_approve'' then only_if ready (no_method ''FinanceApprovalHandler'' ''process_approval'')
      else if mtype = ''review_reject'' then only_if ready (no_method ''FinanceApprovalHandler'' ''process_rejection'')
      else if mtype = ''invoice_ready'' then only_if ready
        (andthen (json_to_int (json_get body ''amount_cents'' (json_get body ''amount'' (JInt 0)))) (\<lambda>n.
         andthen (in_store (sp_invoice_ready sp (get_str body ''invoice_id'' []) n)) (\<lambda>_.
         andthen (set_text ''invoice_id'' (get_str body ''invoice_id'' [])) (\<lambda>_. set_text ''action'' ''invoice_recorded''))))
      else if mtype = ''spend_request'' then only_if ready (inbound_spend_request v sp sender body)
      else if mtype = ''spend_review_decision'' then only_if ready (inbound_review_decision sp body)
      else if mtype = ''spend_hold_decision'' then only_if ready (inbound_hold_decision sp body)
      else if mtype = ''assistant_query'' then inbound_assistant_query v ready mid body
      else if mtype = ''assistant_task'' then
        andthen (set_text ''claw'' ''finance'') (\<lambda>_.
        andthen (set_text ''task_type'' (get_str body ''task_type'' ''unknown'')) (\<lambda>_.
        andthen (set_text ''status'' ''accepted'') (\<lambda>_. send_assistant_response v mid)))
      else
        andthen (set_text ''status'' ''unknown_type'') (\<lambda>_.
        only_if ready (in_store (log_op v ''unknown_message_type'' mtype None ''ignored'' [(''sender'', JStr sender)]))))"

definition handle_inbound :: "fin_env \<Rightarrow> spend_port \<Rightarrow> json dict \<Rightarrow> fin_claw \<Rightarrow> fin_claw \<times> json dict" where
  "handle_inbound v sp raw c =
     (let mtype = get_str raw ''message_type'' []; sender = get_str raw ''sender_role'' [];
          body = (case map_of raw ''payload'' of Some (JObj d) \<Rightarrow> d | _ \<Rightarrow> []);
          mid = json_get raw ''message_id'' JNull; ready = fc_components c;
          m = andthen (only_if ready (in_store (log_op v ''message_received'' mtype None ''processing'' [(''sender'', JStr sender)]))) (\<lambda>_.
              attempt (inbound_body v sp ready mtype sender mid body) (\<lambda>e.
                andthen (set_text ''status'' ''error'') (\<lambda>_.
                andthen (set_text ''error'' (exn_text e)) (\<lambda>_.
                only_if ready (in_store (log_op v ''message_handler_error'' mtype None ''failed''
                  [(''error'', JStr (exn_text e)), (''sender'', JStr sender)]))))))
      in case m (fc_store c, [(''status'', JStr ''processed''), (''message_type'', JStr mtype), (''role'', JStr ''finance'')]) of
           ((s, d), _) \<Rightarrow> (c\<lparr>fc_store := s\<rparr>, d))"

section \<open>Entry points\<close>

definition claw_startup :: "fin_env \<Rightarrow> string \<Rightarrow> stripe_api option \<Rightarrow> init_result \<Rightarrow> (fin_claw, unit) eff" where
  "claw_startup v squad client r =
     (if \<not> init_success r then throw ''RuntimeError'' ''Failed to initialize Finance filesystem''
      else andthen (upd (fc_components_update (\<lambda>_. True))) (\<lambda>_.
           andthen (on_store (log_op v ''claw_started'' squad None ''success''
             [(''dirs_created'', JInt (int (length (created_dirs r)))), (''files_created'', JInt (int (length (created_files r))))])) (\<lambda>_.
           andthen (scheduler_start v client) (\<lambda>_.
           upd (fc_initialized_update (\<lambda>_. True))))))"

definition claw_shutdown :: "fin_env \<Rightarrow> string \<Rightarrow> (fin_claw, unit) eff" where
  "claw_shutdown v squad =
     andthen (look fc_initialized) (\<lambda>up. if \<not> up then ok () else
     andthen (scheduler_stop v) (\<lambda>_.
     andthen (on_store (log_op v ''claw_stopped'' squad None ''success'' [])) (\<lambda>_.
     upd (fc_initialized_update (\<lambda>_. False)))))"

definition needs_components :: "(fin_claw, 'a) eff \<Rightarrow> (fin_claw, 'a) eff" where
  "needs_components m = andthen (look fc_components) (\<lambda>up. if up then m else throw ''RuntimeError'' ''FinanceClaw not started'')"

definition claw_create_invoice :: "fin_env \<Rightarrow> json dict \<Rightarrow> (fin_claw, json dict) eff" where
  "claw_create_invoice v d = needs_components
     (andthen (from_read (bind_sum (rq_str d ''project_id'') (\<lambda>p. bind_sum (rq_str d ''client_id'') (\<lambda>c. Inr (p, c))))) (\<lambda>(p, c).
      andthen (on_store (generate_invoice v p c)) (\<lambda>i. ok (invoice_to_dict i))))"

text \<open>The default of \<open>spend_id\<close> is evaluated whether it is used or not, and the module has no \<open>uuid\<close>; no component is
  named \<^verbatim>\<open>stripe_client\<close>.\<close>

definition request_agent_spend :: "json dict \<Rightarrow> (fin_claw, json dict) eff" where
  "request_agent_spend d = needs_components (not_defined ''uuid'')"

definition monitor_stripe :: "(fin_claw, json dict) eff" where
  "monitor_stripe = throw ''RuntimeError'' ''FinanceClaw not started''"

definition calculate_pricing :: "fin_env \<Rightarrow> json dict \<Rightarrow> (fin_claw, json dict) eff" where
  "calculate_pricing v d = needs_components
     (andthen (on_store (handle_pricing_query v d)) (\<lambda>_. ok [(''status'', JStr ''pricing_calculated'')]))"

end
