(* ===== verification/Stripe.thy ===== *)
theory Stripe
  imports Invoices
begin

text \<open>
  \<^verbatim>\<open>milimo-core/src/milimo_core/finance/stripe_client.py\<close>: the client that asks the Stripe command line
  first and the HTTP interface otherwise, and checks webhooks. What the subprocess and the network answer
  are functions of the call; every call is recorded. A dictionary of parameters has text, number and truth
  values.
\<close>

datatype version_check = VersionCode int | VersionMissing | VersionTimeout

datatype stripe_step = CliCall "string list" | ApiCall string string "json dict"

record stripe_world =
  sw_version :: version_check
  sw_cli :: "string list \<Rightarrow> json option"
  sw_api :: "string \<Rightarrow> string \<Rightarrow> json dict \<Rightarrow> json dict option"

record stripe_client =
  sc_webhook_secret :: string
  sc_currency :: string
  sc_cli :: "bool option"
  sc_calls :: "stripe_step list"

text \<open>\<open>_check_cli\<close>: only a missing program is caught.\<close>

definition check_cli :: "stripe_world \<Rightarrow> (stripe_client, bool) eff" where
  "check_cli w =
     andthen (look sc_cli) (\<lambda>known. case known of
       Some b \<Rightarrow> ok b
     | None \<Rightarrow> (case sw_version w of
           VersionTimeout \<Rightarrow> throw ''TimeoutExpired'' ''stripe --version''
         | VersionMissing \<Rightarrow> andthen (upd (sc_cli_update (\<lambda>_. Some False))) (\<lambda>_. ok False)
         | VersionCode n \<Rightarrow> andthen (upd (sc_cli_update (\<lambda>_. Some (n = 0)))) (\<lambda>_. ok (n = 0))))"

text \<open>\<open>_stripe_cli\<close>: \<open>sw_cli\<close> gives the JSON printed, \<open>None\<close> where the command fails in any way.\<close>

definition stripe_cli :: "stripe_world \<Rightarrow> string list \<Rightarrow> (stripe_client, json option) eff" where
  "stripe_cli w args =
     andthen (check_cli w) (\<lambda>there. if \<not> there then ok None
       else andthen (upd (sc_calls_update (\<lambda>l. l @ [CliCall (args @ [''--format'', ''json''])]))) (\<lambda>_.
            ok (sw_cli w (args @ [''--format'', ''json'']))))"

definition stripe_http :: "stripe_world \<Rightarrow> string \<Rightarrow> string \<Rightarrow> json dict \<Rightarrow> (stripe_client, json dict option) eff" where
  "stripe_http w meth endpoint data =
     andthen (upd (sc_calls_update (\<lambda>l. l @ [ApiCall meth endpoint data]))) (\<lambda>_. ok (sw_api w meth endpoint data))"

definition param_text :: "json \<Rightarrow> string" where
  "param_text v = (case v of JStr s \<Rightarrow> s | JInt n \<Rightarrow> py_str_int n | JBool b \<Rightarrow> (if b then ''True'' else ''False'') | _ \<Rightarrow> [])"

definition flatten_params :: "json dict \<Rightarrow> string list" where
  "flatten_params d = concat (map (\<lambda>(k, v). [''--'' @ k, param_text v]) d)"

definition metadata_params :: "string dict \<Rightarrow> json dict" where
  "metadata_params m = map (\<lambda>(k, v). (''metadata['' @ k @ '']'', JStr v)) m"

text \<open>\<open>result or {...}\<close>: an empty answer counts as none.\<close>

definition or_error :: "json dict option \<Rightarrow> json dict \<Rightarrow> json dict" where
  "or_error r e = (case r of Some d \<Rightarrow> if d = [] then e else d | None \<Rightarrow> e)"

definition answer_dict :: "json option \<Rightarrow> json dict option" where
  "answer_dict r = (case r of Some (JObj d) \<Rightarrow> if d = [] then None else Some d | _ \<Rightarrow> None)"

definition error_dict :: "string \<Rightarrow> json dict \<Rightarrow> json dict" where
  "error_dict e d = (''error'', JStr e) # d"

text \<open>\<open>int(amount * 100)\<close>.\<close>

definition whole_part :: "rat \<Rightarrow> int" where "whole_part r = (if r < 0 then \<lceil>r\<rceil> else \<lfloor>r\<rfloor>)"

section \<open>Asking the command line, then the interface\<close>

definition cli_or_http :: "stripe_world \<Rightarrow> string list \<Rightarrow> string \<Rightarrow> string \<Rightarrow> json dict \<Rightarrow> json dict \<Rightarrow> (stripe_client, json dict) eff" where
  "cli_or_http w args meth endpoint data err =
     andthen (stripe_cli w args) (\<lambda>r. case answer_dict r of
       Some d \<Rightarrow> ok d
     | None \<Rightarrow> andthen (stripe_http w meth endpoint data) (\<lambda>a. ok (or_error a err)))"

definition invoice_params :: "string \<Rightarrow> string \<Rightarrow> string \<Rightarrow> string \<Rightarrow> string dict \<Rightarrow> json dict" where
  "invoice_params customer currency about due metadata =
     [(''customer'', JStr customer), (''currency'', JStr currency), (''description'', JStr about), (''auto_advance'', JBool True)]
     @ (if due = [] then [] else [(''due_date'', JStr due)]) @ metadata_params metadata"

text \<open>The due date is a text here; an empty one counts as none.\<close>

definition create_invoice :: "stripe_world \<Rightarrow> string \<Rightarrow> rat \<Rightarrow> string \<Rightarrow> string \<Rightarrow> string \<Rightarrow> string dict
    \<Rightarrow> (stripe_client, json dict) eff" where
  "create_invoice w customer amount cur about due metadata =
     andthen (look sc_currency) (\<lambda>def_cur.
       (let currency = (if cur = [] then def_cur else cur);
            data = invoice_params customer currency about due metadata
        in andthen (stripe_cli w ([''invoices'', ''create''] @ flatten_params data)) (\<lambda>r. case answer_dict r of
             Some d \<Rightarrow> ok d
           | None \<Rightarrow> andthen (stripe_http w ''POST'' ''/invoices'' data) (\<lambda>a.
               case (case a of Some d \<Rightarrow> map_option (Pair d) (map_of d ''id'') | None \<Rightarrow> None) of
                 Some (d, sid) \<Rightarrow>
                   andthen (stripe_http w ''POST'' ''/invoiceitems''
                     [(''invoice'', sid), (''amount'', JInt (whole_part (amount * 100))), (''currency'', JStr currency),
                      (''description'', JStr about)]) (\<lambda>_.
                   andthen (stripe_http w ''POST'' (''/invoices/'' @ param_text sid @ ''/finalize'') []) (\<lambda>f.
                   ok (or_error f d)))
               | None \<Rightarrow> ok (error_dict ''Failed to create invoice''
                   [(''customer_id'', JStr customer), (''amount'', JFloat amount)])))))"

definition send_invoice :: "stripe_world \<Rightarrow> string \<Rightarrow> (stripe_client, json dict) eff" where
  "send_invoice w iid = cli_or_http w [''invoices'', ''send'', iid] ''POST'' (''/invoices/'' @ iid @ ''/send'') []
     (error_dict ''Failed to send invoice'' [(''invoice_id'', JStr iid)])"

definition get_invoice :: "stripe_world \<Rightarrow> string \<Rightarrow> (stripe_client, json dict) eff" where
  "get_invoice w iid = cli_or_http w [''invoices'', ''retrieve'', iid] ''GET'' (''/invoices/'' @ iid) []
     (error_dict ''Failed to retrieve invoice'' [(''invoice_id'', JStr iid)])"

definition http_or_error :: "stripe_world \<Rightarrow> string \<Rightarrow> string \<Rightarrow> json dict \<Rightarrow> json dict \<Rightarrow> (stripe_client, json dict) eff" where
  "http_or_error w meth endpoint data err = andthen (stripe_http w meth endpoint data) (\<lambda>a. ok (or_error a err))"

definition finalize_invoice :: "stripe_world \<Rightarrow> string \<Rightarrow> (stripe_client, json dict) eff" where
  "finalize_invoice w iid = http_or_error w ''POST'' (''/invoices/'' @ iid @ ''/finalize'') []
     (error_dict ''Failed to finalize invoice'' [(''invoice_id'', JStr iid)])"

text \<open>Lists: the answer of the command line when it is a list or has \<^verbatim>\<open>data\<close>, else the interface's.\<close>

definition data_list :: "json dict \<Rightarrow> json list option" where
  "data_list d = (case map_of d ''data'' of Some (JList l) \<Rightarrow> Some l | _ \<Rightarrow> None)"

definition cli_list :: "json option \<Rightarrow> json list option" where
  "cli_list r = (case r of Some (JList l) \<Rightarrow> if l = [] then None else Some l | Some (JObj d) \<Rightarrow> data_list d | _ \<Rightarrow> None)"

definition opt_param :: "string \<Rightarrow> string \<Rightarrow> json dict" where
  "opt_param k s = (if s = [] then [] else [(k, JStr s)])"

definition list_invoices :: "stripe_world \<Rightarrow> string \<Rightarrow> string \<Rightarrow> int \<Rightarrow> (stripe_client, json list) eff" where
  "list_invoices w customer state n =
     andthen (stripe_cli w ([''invoices'', ''list'', ''--limit'', py_str_int n]
       @ (if customer = [] then [] else [''--customer'', customer]) @ (if state = [] then [] else [''--status'', state]))) (\<lambda>r.
       case cli_list r of Some l \<Rightarrow> ok l
       | None \<Rightarrow> andthen (stripe_http w ''GET'' ''/invoices'' ([(''limit'', JInt n)] @ opt_param ''customer'' customer @ opt_param ''status'' state)) (\<lambda>a.
           ok (case a of Some d \<Rightarrow> (case data_list d of Some l \<Rightarrow> l | None \<Rightarrow> []) | None \<Rightarrow> [])))"

section \<open>Customers, payments, subscriptions\<close>

definition create_customer :: "stripe_world \<Rightarrow> string \<Rightarrow> string \<Rightarrow> string dict \<Rightarrow> (stripe_client, json dict) eff" where
  "create_customer w email name metadata =
     (let data = [(''email'', JStr email)] @ opt_param ''name'' name @ metadata_params metadata in
      cli_or_http w ([''customers'', ''create''] @ flatten_params data) ''POST'' ''/customers'' data
        (error_dict ''Failed to create customer'' [(''email'', JStr email)]))"

definition get_customer :: "stripe_world \<Rightarrow> string \<Rightarrow> (stripe_client, json dict) eff" where
  "get_customer w cid = cli_or_http w [''customers'', ''retrieve'', cid] ''GET'' (''/customers/'' @ cid) []
     (error_dict ''Failed to retrieve customer'' [(''customer_id'', JStr cid)])"

definition list_customers :: "stripe_world \<Rightarrow> int \<Rightarrow> (stripe_client, json list) eff" where
  "list_customers w n = andthen (stripe_cli w [''customers'', ''list'', ''--limit'', py_str_int n]) (\<lambda>r.
     ok (case cli_list r of Some l \<Rightarrow> l | None \<Rightarrow> []))"

definition create_payment_intent :: "stripe_world \<Rightarrow> rat \<Rightarrow> string \<Rightarrow> string \<Rightarrow> string \<Rightarrow> string dict \<Rightarrow> (stripe_client, json dict) eff" where
  "create_payment_intent w amount cur customer about metadata =
     andthen (look sc_currency) (\<lambda>def_cur. http_or_error w ''POST'' ''/payment_intents''
       ([(''amount'', JInt (whole_part (amount * 100))), (''currency'', JStr (if cur = [] then def_cur else cur)),
         (''description'', JStr about)] @ opt_param ''customer'' customer @ metadata_params metadata)
       (error_dict ''Failed to create payment intent'' [(''amount'', JFloat amount)]))"

definition confirm_payment_intent :: "stripe_world \<Rightarrow> string \<Rightarrow> (stripe_client, json dict) eff" where
  "confirm_payment_intent w i = http_or_error w ''POST'' (''/payment_intents/'' @ i @ ''/confirm'') []
     (error_dict ''Failed to confirm payment intent'' [(''intent_id'', JStr i)])"

definition get_payment_intent :: "stripe_world \<Rightarrow> string \<Rightarrow> (stripe_client, json dict) eff" where
  "get_payment_intent w i = http_or_error w ''GET'' (''/payment_intents/'' @ i) []
     (error_dict ''Failed to retrieve payment intent'' [(''intent_id'', JStr i)])"

definition create_subscription :: "stripe_world \<Rightarrow> string \<Rightarrow> string \<Rightarrow> int \<Rightarrow> string dict \<Rightarrow> (stripe_client, json dict) eff" where
  "create_subscription w customer price trial metadata =
     http_or_error w ''POST'' ''/subscriptions''
       ([(''customer'', JStr customer), (''items[0][price]'', JStr price)]
         @ (if trial = 0 then [] else [(''trial_period_days'', JStr (py_str_int trial))]) @ metadata_params metadata)
       (error_dict ''Failed to create subscription'' [(''customer_id'', JStr customer)])"

definition cancel_subscription :: "stripe_world \<Rightarrow> string \<Rightarrow> (stripe_client, json dict) eff" where
  "cancel_subscription w i = http_or_error w ''DELETE'' (''/subscriptions/'' @ i) []
     (error_dict ''Failed to cancel subscription'' [(''subscription_id'', JStr i)])"

definition get_subscription :: "stripe_world \<Rightarrow> string \<Rightarrow> (stripe_client, json dict) eff" where
  "get_subscription w i = http_or_error w ''GET'' (''/subscriptions/'' @ i) []
     (error_dict ''Failed to retrieve subscription'' [(''subscription_id'', JStr i)])"

definition get_balance :: "stripe_world \<Rightarrow> (stripe_client, json dict) eff" where
  "get_balance w = http_or_error w ''GET'' ''/balance'' [] (error_dict ''Failed to retrieve balance'' [])"

section \<open>Charges\<close>

definition list_charges :: "stripe_world \<Rightarrow> string \<Rightarrow> int \<Rightarrow> (stripe_client, json list) eff" where
  "list_charges w customer n =
     andthen (stripe_http w ''GET'' ''/charges'' ([(''limit'', JInt n)] @ opt_param ''customer'' customer)) (\<lambda>a.
     ok (case a of Some d \<Rightarrow> (case data_list d of Some l \<Rightarrow> l | None \<Rightarrow> []) | None \<Rightarrow> []))"

record charge_summary =
  cs_cents :: int
  cs_revenue :: rat
  cs_succeeded :: nat
  cs_failed :: nat
  cs_currency :: string
  cs_days :: int

text \<open>\<open>created\<close> counts only as a number; seconds since the epoch.\<close>

definition charge_recent :: "rat \<Rightarrow> json dict \<Rightarrow> bool" where
  "charge_recent cutoff d = (case json_num (json_get d ''created'' (JInt 0)) of Some t \<Rightarrow> cutoff \<le> t | None \<Rightarrow> False)"

definition get_revenue_summary :: "stripe_world \<Rightarrow> rat \<Rightarrow> int \<Rightarrow> (stripe_client, charge_summary) eff" where
  "get_revenue_summary w now days =
     andthen (list_charges w [] 100) (\<lambda>cs.
     andthen (look sc_currency) (\<lambda>cur.
       (let recent = filter (charge_recent (now - of_int (days * 86400))) (concat (map (\<lambda>c. case c of JObj d \<Rightarrow> [d] | _ \<Rightarrow> []) cs));
            good = filter (\<lambda>d. map_of d ''status'' = Some (JStr ''succeeded'')) recent;
            cents = sum_list (map (\<lambda>d. get_int d ''amount'' 0) good)
        in ok \<lparr>cs_cents = cents, cs_revenue = of_int cents / 100, cs_succeeded = length good,
               cs_failed = length recent - length good, cs_currency = cur, cs_days = days\<rparr>)))"

section \<open>Webhooks\<close>

text \<open>The header \<^verbatim>\<open>t=timestamp,v1=signature\<close>: parts with an equals sign, the last of a key counts.\<close>

definition header_parts :: "string \<Rightarrow> string dict" where
  "header_parts h = foldl (\<lambda>d p. if CHR ''='' \<in> set p
     then AList.update (py_strip (takeWhile (\<lambda>c. c \<noteq> CHR ''='') p)) (py_strip (tl (dropWhile (\<lambda>c. c \<noteq> CHR ''='') p))) d
     else d) [] (py_split CHR '','' h)"

definition dict_text :: "string dict \<Rightarrow> string \<Rightarrow> string" where
  "dict_text d k = (case map_of d k of Some s \<Rightarrow> s | None \<Rightarrow> [])"

text \<open>\<open>hmac\<close> (the hexadecimal HMAC-SHA-256 of a text under a secret) and \<open>loads\<close> are parameters; \<open>now\<close> is in seconds.\<close>

definition verify_webhook_manual :: "(string \<Rightarrow> string \<Rightarrow> string) \<Rightarrow> (string \<Rightarrow> json option) \<Rightarrow> int \<Rightarrow> string \<Rightarrow> string \<Rightarrow> string
    \<Rightarrow> json option" where
  "verify_webhook_manual hmac loads now secret body header =
     (if secret = [] then None
      else (let ts = dict_text (header_parts header) ''t''; sig = dict_text (header_parts header) ''v1'' in
        if ts = [] \<or> sig = [] then None
        else case py_int ts of
          None \<Rightarrow> None
        | Some n \<Rightarrow> if 300 < \<bar>now - n\<bar> then None
            else if hmac secret (ts @ ''.'' @ body) \<noteq> sig then None else loads body))"

text \<open>With the Stripe package its own check decides (\<open>lib\<close>); without it the manual one.\<close>

definition verify_webhook :: "(string \<Rightarrow> string \<Rightarrow> string \<Rightarrow> json option) option \<Rightarrow> (string \<Rightarrow> string \<Rightarrow> string)
    \<Rightarrow> (string \<Rightarrow> json option) \<Rightarrow> int \<Rightarrow> string \<Rightarrow> string \<Rightarrow> string \<Rightarrow> json option" where
  "verify_webhook lib hmac loads now secret body header =
     (if secret = [] then None
      else case lib of Some f \<Rightarrow> f body header secret | None \<Rightarrow> verify_webhook_manual hmac loads now secret body header)"

section \<open>The client as the finance claw sees it\<close>

text \<open>Its answers in a given state; \<open>show\<close> is the text of a date.\<close>

definition client_api :: "stripe_world \<Rightarrow> (int \<Rightarrow> string) \<Rightarrow> stripe_client \<Rightarrow> stripe_api" where
  "client_api w show c =
     \<lparr>st_create = (\<lambda>customer amount currency about due.
        snd (create_invoice w customer amount currency about (case due of Some d \<Rightarrow> show d | None \<Rightarrow> []) [] c)),
      st_send = (\<lambda>sid. snd (send_invoice w sid c)),
      st_get = (\<lambda>sid. snd (get_invoice w sid c))\<rparr>"

end
