(* ===== verification/Invoice_Facts.thy ===== *)
theory Invoice_Facts
  imports Finance_Claw Stripe
begin

text \<open>
  The library of the finance claw: which operations touch only logs, messages and cards (\<open>quiet\<close>), the
  well-formedness of the invoice directories and its preservation by a move.
\<close>

section \<open>Quiet computations\<close>

text \<open>What a quiet computation leaves alone; the logs only grow.\<close>

definition same_books :: "finance \<Rightarrow> finance \<Rightarrow> bool" where
  "same_books s s' \<longleftrightarrow>
     fn_invoices s' = fn_invoices s \<and> fn_estimates s' = fn_estimates s \<and> fn_events s' = fn_events s
     \<and> fn_stripe s' = fn_stripe s \<and> fn_summaries s' = fn_summaries s \<and> fn_history s' = fn_history s
     \<and> fn_expenses s' = fn_expenses s \<and> fn_categories s' = fn_categories s \<and> fn_pricing s' = fn_pricing s
     \<and> fn_rules s' = fn_rules s \<and> prefix (fn_oplog s) (fn_oplog s') \<and> prefix (fn_decisions s) (fn_decisions s')"

definition quiet :: "(finance, 'a) eff \<Rightarrow> bool" where
  "quiet m \<longleftrightarrow> (\<forall>s. same_books s (fst (m s)))"

lemma same_books_refl [simp]: "same_books s s"
  by (simp add: same_books_def)

lemma same_books_trans: "same_books s t \<Longrightarrow> same_books t u \<Longrightarrow> same_books s u"
  unfolding same_books_def by (auto intro: prefix_order.trans)

lemma quietI: "(\<And>s. same_books s (fst (m s))) \<Longrightarrow> quiet m"
  by (simp add: quiet_def)

lemma quietD: "quiet m \<Longrightarrow> same_books s (fst (m s))"
  by (simp add: quiet_def)

named_theorems quiet_intros \<open>computations that touch only logs, messages and cards\<close>

lemma quiet_basic [quiet_intros, simp]:
  "quiet (ok a)" "quiet (throw c t)" "quiet (look g)" "quiet (from_read r)" "quiet (lift_exn x)"
  by (simp_all add: quiet_def from_read_def)

lemma quiet_upd: "(\<And>s. same_books s (f s)) \<Longrightarrow> quiet (upd f)"
  by (simp add: quiet_def)

lemma quiet_andthen [quiet_intros]:
  assumes "quiet m" and "\<And>a. quiet (f a)"
  shows "quiet (andthen m f)"
proof (rule quietI)
  fix s
  obtain t r where m: "m s = (t, r)" by fastforce
  then have st: "same_books s t" using quietD[OF assms(1), of s] by simp
  show "same_books s (fst (andthen m f s))"
  proof (cases r)
    case (Inl e)
    then show ?thesis using st by (simp add: andthen_def m)
  next
    case (Inr a)
    then show ?thesis using same_books_trans[OF st quietD[OF assms(2)]] by (simp add: andthen_def m)
  qed
qed

lemma quiet_attempt [quiet_intros]:
  assumes "quiet m" and "\<And>e. quiet (h e)"
  shows "quiet (attempt m h)"
proof (rule quietI)
  fix s
  obtain t r where m: "m s = (t, r)" by fastforce
  then have st: "same_books s t" using quietD[OF assms(1), of s] by simp
  show "same_books s (fst (attempt m h s))"
  proof (cases r)
    case (Inl e)
    then show ?thesis using same_books_trans[OF st quietD[OF assms(2)]] by (simp add: attempt_def m)
  next
    case (Inr a)
    then show ?thesis using st by (simp add: attempt_def m)
  qed
qed

lemma quiet_only_if [quiet_intros]: "(b \<Longrightarrow> quiet m) \<Longrightarrow> quiet (only_if b m)"
  by (cases b) simp_all

lemma quiet_for_each [quiet_intros]: "(\<And>x. quiet (f x)) \<Longrightarrow> quiet (for_each xs f)"
  by (induction xs) (simp_all add: quiet_andthen)

lemma quiet_log_op [quiet_intros, simp]: "quiet (log_op v a e am out d)"
  by (simp add: quiet_def log_op_def same_books_def)

lemma quiet_dispatch [quiet_intros, simp]: "quiet (dispatch_send v t r b)"
proof (rule quietI)
  fix s
  show "same_books s (fst (dispatch_send v t r b s))"
    by (simp add: dispatch_send_def Let_def same_books_def log_op_def split: option.split)
qed

lemma quiet_messages [quiet_intros, simp]:
  "quiet (send_pricing_response v p f c n q)" "quiet (send_invoice_ready v i)"
  "quiet (send_payment_overdue v cid iid days a lv)" "quiet (send_revenue_summary v w pct k m)"
  by (simp_all add: send_pricing_response_def send_invoice_ready_def send_payment_overdue_def send_revenue_summary_def
      quiet_andthen)

lemma quiet_log_decision [quiet_intros, simp]: "quiet (log_invoice_decision v aid iid st at' op d)"
  unfolding log_invoice_decision_def Let_def
  by (intro quiet_andthen quiet_upd quiet_log_op) (simp add: same_books_def)

lemma quiet_write_action [quiet_intros, simp]:
  "quiet (write_warroom_action n raw role mode atype summ recipient body :: (finance, string) eff)"
  unfolding write_warroom_action_def
  by (intro quiet_andthen quiet_basic quiet_upd) (simp add: same_books_def)

lemma quiet_remove_action [quiet_intros, simp]: "quiet (remove_warroom_action raw :: (finance, bool) eff)"
proof -
  have u: "quiet (upd (wr_cards_update g) :: (finance, unit) eff)" for g by (rule quiet_upd) (simp add: same_books_def)
  show ?thesis unfolding remove_warroom_action_def
    by (intro quiet_andthen) (auto simp: u intro!: quiet_andthen split: option.split)
qed

lemma quiet_card [quiet_intros, simp]: "quiet (write_invoice_card v aid st at' d)" "quiet (unsync_warroom v aid)"
  by (simp_all add: write_invoice_card_def unsync_warroom_def quiet_only_if quiet_andthen quiet_attempt)

lemma quiet_queue [quiet_intros, simp]:
  "quiet (queue_invoice_action v aid iid st at' d)" "quiet (queue_invoice_review v i)" "quiet (queue_invoice_hold v i)"
  "quiet (queue_overdue_review v i n)" "quiet (queue_overdue_hold v i n k)" "quiet (queue_margin_alert v p e a)"
  "quiet (queue_rate_recommendation v r x y)"
proof -
  have q: "quiet (queue_invoice_action v aid iid st at' d)" for v aid iid st at' d
    by (simp add: queue_invoice_action_def quiet_andthen)
  show "quiet (queue_invoice_action v aid iid st at' d)" "quiet (queue_invoice_review v i)" "quiet (queue_invoice_hold v i)"
    "quiet (queue_overdue_review v i n)" "quiet (queue_overdue_hold v i n k)" "quiet (queue_margin_alert v p e a)"
    "quiet (queue_rate_recommendation v r x y)"
    by (simp_all add: q queue_invoice_review_def queue_invoice_hold_def queue_overdue_review_def queue_overdue_hold_def
        queue_margin_alert_def queue_rate_recommendation_def)
qed

lemma quiet_escalate [quiet_intros, simp]: "quiet (escalate_overdue v i n k)"
  by (simp add: escalate_overdue_def)

lemma quiet_cancel [quiet_intros, simp]: "quiet (invoice_hold_cancel v aid)"
  by (simp add: invoice_hold_cancel_def Let_def quiet_andthen)

lemma quiet_load [quiet_intros, simp]: "quiet (get_invoice_path a n :: (finance, string \<times> string) eff)" "quiet (load_invoice n a)"
    "quiet (read_sent n)" "quiet (load_estimate p)"
proof -
  have p: "quiet (get_invoice_path a n :: (finance, string \<times> string) eff)" for a n by (simp add: get_invoice_path_def)
  then show "quiet (get_invoice_path a n :: (finance, string \<times> string) eff)" .
  show "quiet (load_invoice n a)" unfolding load_invoice_def
    by (intro quiet_andthen p) (auto intro!: quiet_andthen split: option.split prod.split)
  show "quiet (read_sent n)" "quiet (load_estimate p)" unfolding read_sent_def load_estimate_def
    by (auto intro!: quiet_andthen split: option.split)
qed

lemma quiet_staleness [quiet_intros, simp]: "quiet (check_hold_staleness v)"
proof -
  have "quiet (check_stale_hold v f)" for f
    by (simp add: check_stale_hold_def Let_def split: option.split json.split)
      (auto intro!: quiet_andthen)
  then show ?thesis unfolding check_hold_staleness_def attempt_only_def
    by (intro quiet_andthen quiet_for_each quiet_attempt) (auto simp: quiet_def)
qed

text \<open>A predicate of the books is kept by quiet computations.\<close>

lemma quiet_keeps:
  assumes "quiet m" and "\<And>s s'. same_books s s' \<Longrightarrow> P s \<Longrightarrow> P s'"
  shows "keeps P m"
  by (rule keepsI) (rule assms(2)[OF quietD[OF assms(1)]])

section \<open>The directories of invoices\<close>

definition APPROVED_DIRS :: "string list" where
  "APPROVED_DIRS = [''approved'', ''sent'', ''paid'', ''overdue'']"

text \<open>A file in a directory: the invoice of its name, with the directory as its status, and the times it must have.\<close>

definition filed :: "string \<Rightarrow> string \<Rightarrow> invoice \<Rightarrow> bool" where
  "filed dir n i \<longleftrightarrow> inv_id i = n \<and> inv_status i = dir
     \<and> (inv_approved i \<noteq> None \<longleftrightarrow> dir \<in> set APPROVED_DIRS)
     \<and> (inv_sent i \<noteq> None \<longleftrightarrow> dir \<in> {''sent'', ''paid'', ''overdue''})
     \<and> (inv_paid i \<noteq> None \<longleftrightarrow> dir = ''paid'')"

definition well_filed :: "(string \<Rightarrow> json dict option dict) \<Rightarrow> bool" where
  "well_filed fs \<longleftrightarrow>
     (\<forall>dir n f. map_of (fs dir) n = Some f \<longrightarrow> (\<exists>i. f = Some (invoice_to_dict i) \<and> filed dir n i))
     \<and> (\<forall>dir dir' n. map_of (fs dir) n \<noteq> None \<longrightarrow> map_of (fs dir') n \<noteq> None \<longrightarrow> dir = dir')
     \<and> (\<forall>dir. distinct (map fst (fs dir)))"

lemma well_filedD:
  assumes "well_filed fs" and "map_of (fs dir) n = Some f"
  obtains i where "f = Some (invoice_to_dict i)" "filed dir n i"
proof -
  have "\<exists>i. f = Some (invoice_to_dict i) \<and> filed dir n i" using assms by (auto simp: well_filed_def)
  then show ?thesis using that by blast
qed

lemma well_filed_one:
  "well_filed fs \<Longrightarrow> map_of (fs dir) n = Some f \<Longrightarrow> map_of (fs dir') n = Some f' \<Longrightarrow> dir = dir'"
  unfolding well_filed_def by (metis option.distinct(1))

lemma well_filed_distinct: "well_filed fs \<Longrightarrow> distinct (map fst (fs dir))"
  by (simp add: well_filed_def)

text \<open>Writing and removing a file, on the directories.\<close>

definition put_inv :: "string \<Rightarrow> invoice \<Rightarrow> (string \<Rightarrow> json dict option dict) \<Rightarrow> (string \<Rightarrow> json dict option dict)" where
  "put_inv dir i fs = fs(dir := AList.update (inv_id i) (Some (invoice_to_dict i)) (fs dir))"

definition del_inv :: "string \<Rightarrow> string \<Rightarrow> (string \<Rightarrow> json dict option dict) \<Rightarrow> (string \<Rightarrow> json dict option dict)" where
  "del_inv dir n fs = fs(dir := AList.delete n (fs dir))"

lemma put_inv_map_of:
  "map_of (put_inv dir i fs d) n = (if d = dir \<and> n = inv_id i then Some (Some (invoice_to_dict i)) else map_of (fs d) n)"
  by (simp add: put_inv_def)

lemma del_inv_map_of: "map_of (del_inv dir m fs d) n = (if d = dir \<and> n = m then None else map_of (fs d) n)"
  by (simp add: del_inv_def)

lemma write_file_eq [simp]:
  "inv_id i = n \<Longrightarrow> write_file (dir, n) (invoice_to_dict i) s = (s\<lparr>fn_invoices := put_inv dir i (fn_invoices s)\<rparr>, Inr ())"
  by (auto simp: write_file_def put_inv_def)

lemma unlink_file_eq [simp]: "unlink_file (dir, n) s = (s\<lparr>fn_invoices := del_inv dir n (fn_invoices s)\<rparr>, Inr ())"
  by (simp add: unlink_file_def del_inv_def)

lemma well_filed_new:
  assumes "well_filed fs" and "filed dir (inv_id i) i" and "\<And>d. map_of (fs d) (inv_id i) = None"
  shows "well_filed (put_inv dir i fs)"
  unfolding well_filed_def
proof (intro conjI allI impI)
  fix d n f assume "map_of (put_inv dir i fs d) n = Some f"
  then show "\<exists>j. f = Some (invoice_to_dict j) \<and> filed d n j"
    using assms by (auto simp: put_inv_map_of split: if_splits elim: well_filedD)
next
  fix d d' n assume "map_of (put_inv dir i fs d) n \<noteq> None" "map_of (put_inv dir i fs d') n \<noteq> None"
  then show "d = d'" using assms(3) assms(1)
    by (auto simp: put_inv_map_of split: if_splits dest: well_filed_one)
next
  fix d show "distinct (map fst (put_inv dir i fs d))"
    using assms(1) by (simp add: put_inv_def well_filed_distinct distinct_update)
qed

lemma well_filed_same:
  assumes "well_filed fs" and "filed dir (inv_id i) i" and "map_of (fs dir) (inv_id i) = Some f"
  shows "well_filed (put_inv dir i fs)"
  unfolding well_filed_def
proof (intro conjI allI impI)
  fix d n f assume "map_of (put_inv dir i fs d) n = Some f"
  then show "\<exists>j. f = Some (invoice_to_dict j) \<and> filed d n j"
    using assms by (auto simp: put_inv_map_of split: if_splits elim: well_filedD)
next
  fix d d' n assume "map_of (put_inv dir i fs d) n \<noteq> None" "map_of (put_inv dir i fs d') n \<noteq> None"
  then show "d = d'" using assms(3) assms(1)
    by (auto simp: put_inv_map_of split: if_splits dest: well_filed_one)
next
  fix d show "distinct (map fst (put_inv dir i fs d))"
    using assms(1) by (simp add: put_inv_def well_filed_distinct distinct_update)
qed

lemma well_filed_del:
  assumes "well_filed fs"
  shows "well_filed (del_inv dir n fs)"
  unfolding well_filed_def
proof (intro conjI allI impI)
  fix d m f assume "map_of (del_inv dir n fs d) m = Some f"
  then show "\<exists>j. f = Some (invoice_to_dict j) \<and> filed d m j"
    using assms by (auto simp: del_inv_map_of split: if_splits elim: well_filedD)
next
  fix d d' m assume "map_of (del_inv dir n fs d) m \<noteq> None" "map_of (del_inv dir n fs d') m \<noteq> None"
  then show "d = d'" using assms by (auto simp: del_inv_map_of split: if_splits dest: well_filed_one)
next
  fix d show "distinct (map fst (del_inv dir n fs d))"
    using assms by (simp add: del_inv_def well_filed_distinct distinct_delete)
qed

text \<open>Moving: the new file is written first, then the old one is removed.\<close>

lemma put_del_comm:
  "a \<noteq> b \<Longrightarrow> del_inv a n (put_inv b i fs) = put_inv b i (del_inv a n fs)"
  by (auto simp: put_inv_def del_inv_def)

lemma well_filed_move:
  assumes wf: "well_filed fs" and there: "map_of (fs a) (inv_id i) = Some f" and new: "filed b (inv_id i) i" and ne: "a \<noteq> b"
  shows "well_filed (del_inv a (inv_id i) (put_inv b i fs))"
  unfolding put_del_comm[OF ne]
proof (rule well_filed_new[OF well_filed_del[OF wf] new])
  fix d show "map_of (del_inv a (inv_id i) fs d) (inv_id i) = None"
  proof (cases "d = a")
    case True then show ?thesis by (simp add: del_inv_map_of)
  next
    case False
    then have "map_of (fs d) (inv_id i) = None"
      using well_filed_one[OF wf there, of d] by (cases "map_of (fs d) (inv_id i)") auto
    then show ?thesis using False by (simp add: del_inv_map_of)
  qed
qed

end
