(* ===== verification/Invoice_Runs.thy ===== *)
theory Invoice_Runs
  imports Invoice_Facts
begin

text \<open>
  What each operation on invoices does to the books, the operations of a running finance claw as one
  type, and the states it can reach.
\<close>

section \<open>Evaluation\<close>

lemma get_path_eq [simp]:
  "get_invoice_path ''pending'' n = ok (''pending'', n)" "get_invoice_path ''approved'' n = ok (''approved'', n)"
  "get_invoice_path ''sent'' n = ok (''sent'', n)" "get_invoice_path ''paid'' n = ok (''paid'', n)"
  "get_invoice_path ''overdue'' n = ok (''overdue'', n)"
  by (simp_all add: get_invoice_path_def valid_statuses_def)

lemma andthen_write [simp]:
  "inv_id i = n \<Longrightarrow> andthen (write_file (dir, n) (invoice_to_dict i)) f s = f () (s\<lparr>fn_invoices := put_inv dir i (fn_invoices s)\<rparr>)"
  by (simp add: andthen_def)

lemma andthen_unlink [simp]:
  "andthen (unlink_file (dir, n)) f s = f () (s\<lparr>fn_invoices := del_inv dir n (fn_invoices s)\<rparr>)"
  by (simp add: andthen_def)

lemma ask_stripe_eq: "ask_stripe c r s = (s\<lparr>fn_stripe := fn_stripe s @ [c]\<rparr>, r)"
  by (cases s) (simp add: ask_stripe_def)

lemma andthen_stripe [simp]:
  "andthen (ask_stripe c (Inr a)) f s = f a (s\<lparr>fn_stripe := fn_stripe s @ [c]\<rparr>)"
  "andthen (ask_stripe c (Inl e)) f s = (s\<lparr>fn_stripe := fn_stripe s @ [c]\<rparr>, Inl e)"
  by (simp_all add: andthen_def ask_stripe_eq)

lemma log_op_sure [simp]: "snd (log_op v a e am out d s) = Inr ()"
  by (simp add: log_op_def)

lemma log_event_eq: "log_event v t i c am d s = (s\<lparr>fn_events := fn_events s @
    [Some \<lparr>pe_time = fv_now v, pe_type = t, pe_invoice = i, pe_client = c, pe_amount = am, pe_details = d\<rparr>]\<rparr>, Inr ())"
  by (simp add: log_event_def)

lemma log_op_fst: "fst (log_op v a e am out d s) = s\<lparr>fn_oplog := fn_oplog s @ [Some \<lparr>fe_time = fv_now v, fe_action = a,
    fe_entity = e, fe_amount = am, fe_outcome = out, fe_details = d\<rparr>]\<rparr>"
  by (cases s) (simp add: log_op_def)

lemma dispatch_sure [simp]: "snd (dispatch_send v t r b s) = Inr ()"
  by (simp add: dispatch_send_def Let_def log_op_def split: option.split)

lemma messages_sure [simp]:
  "snd (send_invoice_ready v i s) = Inr ()" "snd (send_payment_overdue v cid iid days a lv s) = Inr ()"
  "snd (send_revenue_summary v w pct k m s) = Inr ()" "snd (send_pricing_response v p f c n q s) = Inr ()"
  by (simp_all add: send_invoice_ready_def send_payment_overdue_def send_revenue_summary_def send_pricing_response_def
      andthen_sure)

lemma andthen_messages [simp]:
  "andthen (send_invoice_ready v i) f s = f () (fst (send_invoice_ready v i s))"
  "andthen (send_payment_overdue v cid iid days a lv) f s = f () (fst (send_payment_overdue v cid iid days a lv s))"
  "andthen (send_revenue_summary v w pct k m) f s = f () (fst (send_revenue_summary v w pct k m s))"
  "andthen (log_op v ac en am out d) f s = f () (fst (log_op v ac en am out d s))"
  "andthen (log_event v ty n c amt d) f s = f () (fst (log_event v ty n c amt d s))"
  by (simp_all add: andthen_sure log_event_eq)

lemma load_invoice_eq:
  "map_of (fn_invoices s dir) n = Some (Some (invoice_to_dict i)) \<Longrightarrow> dir \<in> set valid_statuses
   \<Longrightarrow> load_invoice n dir s = (s, Inr i)"
  by (simp add: load_invoice_def get_invoice_path_def from_read_def)

lemma load_invoice_absent:
  "map_of (fn_invoices s dir) n = None \<Longrightarrow> dir \<in> set valid_statuses
   \<Longrightarrow> load_invoice n dir s = (s, Inl (PyExn ''FileNotFoundError'' (''Invoice '' @ n @ '' not found in '' @ dir)))"
  by (simp add: load_invoice_def get_invoice_path_def)

text \<open>Loading from well-formed directories: the invoice of the file, or the state as it was.\<close>

lemma load_invoice_cases:
  assumes "well_filed (fn_invoices s)" and "dir \<in> set valid_statuses"
  obtains i where "map_of (fn_invoices s dir) n = Some (Some (invoice_to_dict i))" "filed dir n i"
      "load_invoice n dir s = (s, Inr i)"
    | e where "load_invoice n dir s = (s, Inl e)" "map_of (fn_invoices s dir) n = None"
proof (cases "map_of (fn_invoices s dir) n")
  case None
  then show ?thesis using load_invoice_absent[OF None assms(2)] that(2) by blast
next
  case (Some f)
  then obtain i where "f = Some (invoice_to_dict i)" "filed dir n i" using assms(1) by (elim well_filedD)
  then show ?thesis using that(1)[of i] load_invoice_eq[of s dir n i] Some assms(2) by simp
qed

lemma keeps_load:
  assumes "\<And>s. P s \<Longrightarrow> well_filed (fn_invoices s)" and "dir \<in> set valid_statuses"
    and "\<And>s i. P s \<Longrightarrow> map_of (fn_invoices s dir) n = Some (Some (invoice_to_dict i)) \<Longrightarrow> filed dir n i \<Longrightarrow> P (fst (f i s))"
  shows "keeps P (andthen (load_invoice n dir) f)"
proof (rule keepsI)
  fix s assume P: "P s"
  from assms(1)[OF P] assms(2) show "P (fst (andthen (load_invoice n dir) f s))"
  proof (cases rule: load_invoice_cases[of s dir n])
    case (1 i)
    then show ?thesis using assms(3)[OF P] by (simp add: andthen_step)
  next
    case (2 e)
    then show ?thesis using P by (simp add: andthen_raise)
  qed
qed

section \<open>The books\<close>

definition paid_dicts :: "(string \<Rightarrow> json dict option dict) \<Rightarrow> json dict list" where
  "paid_dicts fs = concat (map (\<lambda>(n, f). case f of None \<Rightarrow> [] | Some d \<Rightarrow> [d]) (fs ''paid''))"

definition paid_total :: "(string \<Rightarrow> json dict option dict) \<Rightarrow> rat" where
  "paid_total fs = sum_list (map (\<lambda>d. get_num d ''total'' 0) (paid_dicts fs))"

definition approval_logged :: "fin_entry option list \<Rightarrow> string \<Rightarrow> bool" where
  "approval_logged ls n \<longleftrightarrow> (\<exists>e. Some e \<in> set ls \<and> fe_action e = ''invoice_stage1_approved'' \<and> fe_entity e = n)"

definition approvals_ok :: "finance \<Rightarrow> bool" where
  "approvals_ok s \<longleftrightarrow> (\<forall>dir \<in> set APPROVED_DIRS. \<forall>n. map_of (fn_invoices s dir) n \<noteq> None \<longrightarrow> approval_logged (fn_oplog s) n)"

definition year_total :: "finance \<Rightarrow> rat" where
  "year_total s = get_num (load_json (fn_summaries s annual_file) annual_default) ''year_total'' 0"

definition year_count :: "finance \<Rightarrow> int" where
  "year_count s = get_int (load_json (fn_summaries s annual_file) annual_default) ''invoices_paid'' 0"

definition revenue_ok :: "finance \<Rightarrow> bool" where
  "revenue_ok s \<longleftrightarrow> year_total s = paid_total (fn_invoices s) \<and> year_count s = int (length (fn_invoices s ''paid''))"

definition snapshots_ok :: "finance \<Rightarrow> bool" where
  "snapshots_ok s \<longleftrightarrow> (\<forall>day d. fn_history s day = Some (Some d) \<longrightarrow> map_of d ''week_total'' = None)"

text \<open>Invoices in \<^verbatim>\<open>paid/\<close>, \<^verbatim>\<open>overdue/\<close> and \<^verbatim>\<open>blocked/\<close> stay as they are: \<open>F\<close> is a set of such files.\<close>

definition FINAL_DIRS :: "string list" where
  "FINAL_DIRS = [''paid'', ''overdue'', ''blocked'']"

lemma not_final [simp]: "''pending'' \<notin> set FINAL_DIRS" "''approved'' \<notin> set FINAL_DIRS" "''sent'' \<notin> set FINAL_DIRS"
  by (simp_all add: FINAL_DIRS_def)

definition finals_kept :: "(string \<times> string \<times> json dict option) set \<Rightarrow> (string \<Rightarrow> json dict option dict) \<Rightarrow> bool" where
  "finals_kept F fs \<longleftrightarrow> (\<forall>dir n f. (dir, n, f) \<in> F \<longrightarrow> dir \<in> set FINAL_DIRS \<and> map_of (fs dir) n = Some f)"

definition books_ok :: "(string \<times> string \<times> json dict option) set \<Rightarrow> finance \<Rightarrow> bool" where
  "books_ok F s \<longleftrightarrow> well_filed (fn_invoices s) \<and> approvals_ok s \<and> revenue_ok s \<and> snapshots_ok s \<and> finals_kept F (fn_invoices s)"

lemma approval_logged_mono: "set l \<subseteq> set l' \<Longrightarrow> approval_logged l n \<Longrightarrow> approval_logged l' n"
  by (auto simp: approval_logged_def)

lemma approval_logged_snoc:
  "fe_action e = ''invoice_stage1_approved'' \<Longrightarrow> fe_entity e = n \<Longrightarrow> approval_logged (l @ [Some e]) n"
  unfolding approval_logged_def by (rule exI[of _ e]) simp

lemma books_ok_fields:
  assumes "books_ok F s" and "fn_invoices s' = fn_invoices s" "fn_summaries s' = fn_summaries s" "fn_history s' = fn_history s"
    and "set (fn_oplog s) \<subseteq> set (fn_oplog s')"
  shows "books_ok F s'"
  using assms
  by (auto simp: books_ok_def approvals_ok_def revenue_ok_def year_total_def year_count_def snapshots_ok_def
      intro: approval_logged_mono)

lemma books_ok_quiet: "same_books s s' \<Longrightarrow> books_ok F s \<Longrightarrow> books_ok F s'"
  by (rule books_ok_fields) (auto simp: same_books_def dest: set_mono_prefix)

lemma books_quiet: "quiet m \<Longrightarrow> keeps (books_ok F) m"
  by (erule quiet_keeps) (rule books_ok_quiet)

lemma books_well_filed: "books_ok F s \<Longrightarrow> well_filed (fn_invoices s)"
  by (simp add: books_ok_def)

text \<open>A move between directories other than \<^verbatim>\<open>paid\<close>, and a rewrite in place.\<close>

lemma paid_dicts_other: "dir \<noteq> ''paid'' \<Longrightarrow> paid_dicts (put_inv dir i fs) = paid_dicts fs"
  "dir \<noteq> ''paid'' \<Longrightarrow> paid_dicts (del_inv dir n fs) = paid_dicts fs"
  by (simp_all add: paid_dicts_def put_inv_def del_inv_def)

lemma revenue_other:
  "dir \<noteq> ''paid'' \<Longrightarrow> revenue_ok (s\<lparr>fn_invoices := put_inv dir i fs\<rparr>) = revenue_ok (s\<lparr>fn_invoices := fs\<rparr>)"
  "dir \<noteq> ''paid'' \<Longrightarrow> revenue_ok (s\<lparr>fn_invoices := del_inv dir n fs\<rparr>) = revenue_ok (s\<lparr>fn_invoices := fs\<rparr>)"
  by (simp_all add: revenue_ok_def year_total_def year_count_def paid_total_def paid_dicts_other)
    (simp_all add: put_inv_def del_inv_def)

lemma approvals_logged_in:
  "approvals_ok s \<Longrightarrow> map_of (fn_invoices s dir) n \<noteq> None \<Longrightarrow> dir \<in> set APPROVED_DIRS \<Longrightarrow> approval_logged (fn_oplog s) n"
  unfolding approvals_ok_def by blast

lemma approvals_move:
  assumes "approvals_ok s" and "b \<in> set APPROVED_DIRS \<Longrightarrow> approval_logged (fn_oplog s) (inv_id i)"
  shows "approvals_ok (s\<lparr>fn_invoices := del_inv a n (put_inv b i (fn_invoices s))\<rparr>)"
  unfolding approvals_ok_def
proof (intro ballI allI impI)
  fix d m assume d: "d \<in> set APPROVED_DIRS"
    and m: "map_of (fn_invoices (s\<lparr>fn_invoices := del_inv a n (put_inv b i (fn_invoices s))\<rparr>) d) m \<noteq> None"
  show "approval_logged (fn_oplog (s\<lparr>fn_invoices := del_inv a n (put_inv b i (fn_invoices s))\<rparr>)) m"
  proof (cases "d = b \<and> m = inv_id i")
    case True
    then show ?thesis using assms(2) d by simp
  next
    case False
    then have "map_of (fn_invoices s d) m \<noteq> None"
      using m by (auto simp: del_inv_map_of put_inv_map_of split: if_splits)
    then show ?thesis using approvals_logged_in[OF assms(1) _ d] by simp
  qed
qed

lemma approvals_put:
  assumes "approvals_ok s" and "b \<in> set APPROVED_DIRS \<Longrightarrow> approval_logged (fn_oplog s) (inv_id i)"
  shows "approvals_ok (s\<lparr>fn_invoices := put_inv b i (fn_invoices s)\<rparr>)"
  unfolding approvals_ok_def
proof (intro ballI allI impI)
  fix d m assume d: "d \<in> set APPROVED_DIRS"
    and m: "map_of (fn_invoices (s\<lparr>fn_invoices := put_inv b i (fn_invoices s)\<rparr>) d) m \<noteq> None"
  show "approval_logged (fn_oplog (s\<lparr>fn_invoices := put_inv b i (fn_invoices s)\<rparr>)) m"
  proof (cases "d = b \<and> m = inv_id i")
    case True
    then show ?thesis using assms(2) d by simp
  next
    case False
    then have "map_of (fn_invoices s d) m \<noteq> None"
      using m by (auto simp: put_inv_map_of split: if_splits)
    then show ?thesis using approvals_logged_in[OF assms(1) _ d] by simp
  qed
qed

lemma finals_move:
  assumes wf: "well_filed fs" and there: "map_of (fs a) (inv_id i) = Some f" and ne: "a \<noteq> b" "a \<notin> set FINAL_DIRS"
    and F: "finals_kept F fs"
  shows "finals_kept F (del_inv a n (put_inv b i fs))"
  unfolding finals_kept_def
proof (intro allI impI conjI)
  fix dir m g assume m: "(dir, m, g) \<in> F"
  then have d: "dir \<in> set FINAL_DIRS" "map_of (fs dir) m = Some g" using F by (auto simp: finals_kept_def)
  then show "dir \<in> set FINAL_DIRS" by simp
  have "m \<noteq> inv_id i" using well_filed_one[OF wf there, of dir] d ne by auto
  then show "map_of (del_inv a n (put_inv b i fs) dir) m = Some g" using d ne by (auto simp: del_inv_map_of put_inv_map_of)
qed

lemma finals_put:
  assumes "b \<notin> set FINAL_DIRS" and "finals_kept F fs"
  shows "finals_kept F (put_inv b i fs)"
  using assms by (auto simp: finals_kept_def put_inv_map_of)

lemma snapshots_files [simp]: "snapshots_ok (s\<lparr>fn_invoices := f\<rparr>) = snapshots_ok s"
  by (simp add: snapshots_ok_def)

lemma books_move:
  assumes ok: "books_ok F s" and there: "map_of (fn_invoices s a) (inv_id i) = Some f" and new: "filed b (inv_id i) i"
    and ne: "a \<noteq> b" "a \<notin> set FINAL_DIRS" "b \<noteq> ''paid''"
    and logged: "b \<in> set APPROVED_DIRS \<Longrightarrow> approval_logged (fn_oplog s) (inv_id i)"
  shows "books_ok F (s\<lparr>fn_invoices := del_inv a (inv_id i) (put_inv b i (fn_invoices s))\<rparr>)"
proof -
  have ap: "a \<noteq> ''paid''" using ne by (auto simp: FINAL_DIRS_def)
  have "revenue_ok (s\<lparr>fn_invoices := fn_invoices s\<rparr>)" using ok by (simp add: books_ok_def)
  then have "revenue_ok (s\<lparr>fn_invoices := del_inv a (inv_id i) (put_inv b i (fn_invoices s))\<rparr>)"
    using ne ap by (simp only: revenue_other not_False_eq_True)
  then show ?thesis
    using ok well_filed_move[where fs = "fn_invoices s", OF _ there new ne(1)] approvals_move[where a = a and n = "inv_id i", OF _ logged]
      finals_move[where fs = "fn_invoices s", OF _ there ne(1,2), of F "inv_id i"]
    by (simp add: books_ok_def)
qed

lemma books_rewrite:
  assumes ok: "books_ok F s" and there: "map_of (fn_invoices s b) (inv_id i) = Some f" and new: "filed b (inv_id i) i" and ne: "b \<notin> set FINAL_DIRS"
  shows "books_ok F (s\<lparr>fn_invoices := put_inv b i (fn_invoices s)\<rparr>)"
proof -
  have "revenue_ok (s\<lparr>fn_invoices := fn_invoices s\<rparr>)" using ok by (simp add: books_ok_def)
  then have r: "revenue_ok (s\<lparr>fn_invoices := put_inv b i (fn_invoices s)\<rparr>)"
    using ne by (auto simp: revenue_other FINAL_DIRS_def)
  have l: "b \<in> set APPROVED_DIRS \<Longrightarrow> approval_logged (fn_oplog s) (inv_id i)"
    using ok there approvals_logged_in[of s b "inv_id i"] by (simp add: books_ok_def)
  show ?thesis
    using ok well_filed_same[where fs = "fn_invoices s", OF _ new there] approvals_put[OF _ l] r
      finals_put[OF ne, of F "fn_invoices s" i] by (simp add: books_ok_def)
qed

section \<open>The operations keep the books\<close>

text \<open>Once the invoice has moved, what is left to do is quiet.\<close>

lemma approve_tail:
  "inv_id i = iid \<Longrightarrow>
   fst (andthen (get_invoice_path ''approved'' iid) (\<lambda>p.
        andthen (write_file p (invoice_to_dict i)) (\<lambda>_.
        andthen (get_invoice_path ''pending'' iid) (\<lambda>q.
        andthen (unlink_file q) (\<lambda>_.
        andthen (send_invoice_ready v i) (\<lambda>_.
        andthen (log_op v ac iid am out d) (\<lambda>_. ok i)))))) s)
   = fst (log_op v ac iid am out d (fst (send_invoice_ready v i
       (s\<lparr>fn_invoices := del_inv ''pending'' iid (put_inv ''approved'' i (fn_invoices s))\<rparr>))))"
  by simp

lemma books_approve: "keeps (books_ok F) (handle_stage1_approve v iid)"
  unfolding handle_stage1_approve_def Let_def
proof (rule keeps_load[OF books_well_filed])
  show "''pending'' \<in> set valid_statuses" by (simp add: valid_statuses_def)
next
  fix s i0
  assume ok: "books_ok F s" and there: "map_of (fn_invoices s ''pending'') iid = Some (Some (invoice_to_dict i0))"
    and fil: "filed ''pending'' iid i0"
  let ?i = "i0\<lparr>inv_status := ''approved'', inv_approved := Some (fv_now v)\<rparr>"
  let ?e = "\<lparr>fe_time = fv_now v, fe_action = ''invoice_stage1_approved'', fe_entity = iid, fe_amount = Some (inv_total ?i),
     fe_outcome = ''success'', fe_details = [(''client_id'', JStr (inv_client ?i))]\<rparr>"
  have id: "inv_id i0 = iid" "inv_id ?i = iid" using fil by (simp_all add: filed_def)
  let ?t = "s\<lparr>fn_invoices := del_inv ''pending'' iid (put_inv ''approved'' ?i (fn_invoices s))\<rparr>"
  let ?u = "fst (send_invoice_ready v ?i ?t)"
  have same: "same_books ?t ?u" by (rule quietD) simp
  note eq = approve_tail[OF id(2), of v "''invoice_stage1_approved''" "Some (inv_total ?i)" "''success''"
      "[(''client_id'', JStr (inv_client ?i))]" s]
  have "books_ok F (s\<lparr>fn_oplog := fn_oplog s @ [Some ?e]\<rparr>)" (is "books_ok F ?s1")
    by (rule books_ok_fields[OF ok]) auto
  moreover have "map_of (fn_invoices ?s1 ''pending'') (inv_id ?i) = Some (Some (invoice_to_dict i0))" using there id by simp
  moreover have "filed ''approved'' (inv_id ?i) ?i" using fil by (simp add: filed_def APPROVED_DIRS_def)
  moreover have "approval_logged (fn_oplog ?s1) (inv_id ?i)"
    using id by (simp add: approval_logged_snoc)
  ultimately have "books_ok F (?s1\<lparr>fn_invoices := del_inv ''pending'' (inv_id ?i) (put_inv ''approved'' ?i (fn_invoices ?s1))\<rparr>)"
    by (intro books_move) simp_all
  then have b: "books_ok F (?s1\<lparr>fn_invoices := fn_invoices ?t\<rparr>)" using id by simp
  have "set (fn_oplog s) \<subseteq> set (fn_oplog ?u)" using same by (auto simp: same_books_def dest: set_mono_prefix)
  then show "books_ok F (fst (andthen (get_invoice_path ''approved'' iid) (\<lambda>p.
        andthen (write_file p (invoice_to_dict ?i)) (\<lambda>_.
        andthen (get_invoice_path ''pending'' iid) (\<lambda>q.
        andthen (unlink_file q) (\<lambda>_.
        andthen (send_invoice_ready v ?i) (\<lambda>_.
        andthen (log_op v ''invoice_stage1_approved'' iid (Some (inv_total ?i)) ''success''
          [(''client_id'', JStr (inv_client ?i))]) (\<lambda>_. ok ?i)))))) s))"
    unfolding eq log_op_fst using same by (intro books_ok_fields[OF b]) (auto simp: same_books_def)
qed

text \<open>A change of the state that keeps the books, and a quiet rest.\<close>

lemma books_tail: "books_ok F t \<Longrightarrow> quiet m \<Longrightarrow> books_ok F (fst (m t))"
  by (rule keepsD[OF books_quiet])

lemma books_edit: "keeps (books_ok F) (handle_stage1_edit v iid items amount)"
  unfolding handle_stage1_edit_def Let_def
proof (rule keeps_load[OF books_well_filed])
  show "''pending'' \<in> set valid_statuses" by (simp add: valid_statuses_def)
next
  fix s i0
  assume ok: "books_ok F s" and there: "map_of (fn_invoices s ''pending'') iid = Some (Some (invoice_to_dict i0))"
    and fil: "filed ''pending'' iid i0"
  have id: "inv_id i0 = iid" using fil by (simp add: filed_def)
  show "books_ok F (fst (andthen (from_read (map_read edited_item items)) (\<lambda>ls.
       andthen (get_invoice_path ''pending'' iid) (\<lambda>p.
        andthen (write_file p (invoice_to_dict (i0\<lparr>inv_items := ls, inv_subtotal := amount, inv_total := amount\<rparr>))) (\<lambda>_.
        andthen (log_op v ''invoice_edited'' iid (Some amount) ''success'' [(''line_items_count'', JInt (int (length items)))])
          (\<lambda>_. ok (i0\<lparr>inv_items := ls, inv_subtotal := amount, inv_total := amount\<rparr>))))) s))"
  proof (cases "map_read edited_item items")
    case (Inl e)
    then show ?thesis using ok by simp
  next
    case (Inr ls)
    let ?i = "i0\<lparr>inv_items := ls, inv_subtotal := amount, inv_total := amount\<rparr>"
    have "books_ok F (s\<lparr>fn_invoices := put_inv ''pending'' ?i (fn_invoices s)\<rparr>)"
      using there fil id by (intro books_rewrite[OF ok]) (simp_all add: filed_def)
    then have "books_ok F (fst (log_op v ''invoice_edited'' iid (Some amount) ''success'' [(''line_items_count'', JInt (int (length items)))]
        (s\<lparr>fn_invoices := put_inv ''pending'' ?i (fn_invoices s)\<rparr>)))"
      by (rule books_tail) simp
    then show ?thesis using Inr id by simp
  qed
qed

lemma books_block: "keeps (books_ok F) (handle_stage1_block v iid why)"
  unfolding handle_stage1_block_def Let_def
proof (rule keeps_load[OF books_well_filed])
  show "''pending'' \<in> set valid_statuses" by (simp add: valid_statuses_def)
next
  fix s i0
  assume ok: "books_ok F s" and there: "map_of (fn_invoices s ''pending'') iid = Some (Some (invoice_to_dict i0))"
    and fil: "filed ''pending'' iid i0"
  let ?i = "i0\<lparr>inv_status := ''blocked''\<rparr>"
  have id: "inv_id i0 = iid" using fil by (simp add: filed_def)
  have "books_ok F (s\<lparr>fn_invoices := del_inv ''pending'' (inv_id ?i) (put_inv ''blocked'' ?i (fn_invoices s))\<rparr>)"
    using there fil id by (intro books_move[OF ok]) (simp_all add: filed_def APPROVED_DIRS_def)
  from books_tail[OF this, of "log_op v ''invoice_blocked'' iid (Some (inv_total ?i)) ''blocked''
          [(''reason'', JStr why), (''client_id'', JStr (inv_client ?i))]"]
  show "books_ok F (fst (andthen (get_invoice_path ''pending'' iid) (\<lambda>p.
        andthen (write_file (''blocked'', iid) (invoice_to_dict ?i)) (\<lambda>_.
        andthen (unlink_file p) (\<lambda>_.
        log_op v ''invoice_blocked'' iid (Some (inv_total ?i)) ''blocked''
          [(''reason'', JStr why), (''client_id'', JStr (inv_client ?i))]))) s))"
    using id by simp
qed

end
