(* ===== verification/Invoice_Books.thy ===== *)
theory Invoice_Books
  imports Invoice_Runs
begin

text \<open>
  The second stage, payments and the passes over the sent invoices keep the books. \<open>still\<close> computations
  leave the invoice files and the summaries alone; they may call Stripe and log events.
\<close>

definition same_files :: "finance \<Rightarrow> finance \<Rightarrow> bool" where
  "same_files s s' \<longleftrightarrow> fn_invoices s' = fn_invoices s \<and> fn_summaries s' = fn_summaries s \<and> fn_history s' = fn_history s
     \<and> set (fn_oplog s) \<subseteq> set (fn_oplog s')"

definition still :: "(finance, 'a) eff \<Rightarrow> bool" where
  "still m \<longleftrightarrow> (\<forall>s. same_files s (fst (m s)))"

lemma same_files_refl [simp]: "same_files s s"
  by (simp add: same_files_def)

lemma same_files_trans: "same_files s t \<Longrightarrow> same_files t u \<Longrightarrow> same_files s u"
  by (auto simp: same_files_def)

lemma stillI: "(\<And>s. same_files s (fst (m s))) \<Longrightarrow> still m"
  by (simp add: still_def)

lemma stillD: "still m \<Longrightarrow> same_files s (fst (m s))"
  by (simp add: still_def)

lemma quiet_still [simp]: "quiet m \<Longrightarrow> still m"
  by (rule stillI) (simp add: quiet_def same_files_def same_books_def set_mono_prefix)

lemma still_upd: "(\<And>s. same_files s (f s)) \<Longrightarrow> still (upd f)"
  by (simp add: still_def)

lemma still_andthen:
  assumes "still m" and "\<And>a. still (f a)"
  shows "still (andthen m f)"
proof (rule stillI)
  fix s
  obtain t r where m: "m s = (t, r)" by fastforce
  then have st: "same_files s t" using stillD[OF assms(1), of s] by simp
  show "same_files s (fst (andthen m f s))"
  proof (cases r)
    case (Inl e)
    then show ?thesis using st by (simp add: andthen_def m)
  next
    case (Inr a)
    then show ?thesis using same_files_trans[OF st stillD[OF assms(2)]] by (simp add: andthen_def m)
  qed
qed

lemma still_attempt:
  assumes "still m" and "\<And>e. still (h e)"
  shows "still (attempt m h)"
proof (rule stillI)
  fix s
  obtain t r where m: "m s = (t, r)" by fastforce
  then have st: "same_files s t" using stillD[OF assms(1), of s] by simp
  show "same_files s (fst (attempt m h s))"
  proof (cases r)
    case (Inl e)
    then show ?thesis using same_files_trans[OF st stillD[OF assms(2)]] by (simp add: attempt_def m)
  next
    case (Inr a)
    then show ?thesis using st by (simp add: attempt_def m)
  qed
qed

lemma still_log_event [simp]: "still (log_event v t i c a d)"
  unfolding log_event_def by (rule still_upd) (simp add: same_files_def)

lemma still_stripe_call [simp]: "still (ask_stripe c r)"
  unfolding ask_stripe_def by (intro still_andthen still_upd) (simp_all add: same_files_def)

lemma still_raise [simp]: "still (\<lambda>s. (s, Inl e))"
  by (simp add: still_def)

lemma books_same_files: "same_files s s' \<Longrightarrow> books_ok F s \<Longrightarrow> books_ok F s'"
  by (rule books_ok_fields) (auto simp: same_files_def)

lemma books_still: "still m \<Longrightarrow> books_ok F s \<Longrightarrow> books_ok F (fst (m s))"
  by (rule books_same_files[OF stillD])

section \<open>Sending\<close>

lemma ensure_stripe_id_books:
  assumes ok: "books_ok F s" and there: "map_of (fn_invoices s ''approved'') iid = Some (Some (invoice_to_dict i))"
    and fil: "filed ''approved'' iid i"
  shows "books_ok F (fst (ensure_stripe_id api iid i s)) \<and> map_of (fn_invoices (fst (ensure_stripe_id api iid i s)) ''approved'') iid \<noteq> None"
proof (cases "truthy_str (inv_stripe i)")
  case True
  then show ?thesis using ok there by (simp add: ensure_stripe_id_def)
next
  case False
  let ?c = "SCreate (inv_client i) (inv_total i) (inv_currency i) (invoice_text iid i) (inv_due i)"
  let ?a = "st_create api (inv_client i) (inv_total i) (inv_currency i) (invoice_text iid i) (inv_due i)"
  let ?t = "s\<lparr>fn_stripe := fn_stripe s @ [?c]\<rparr>"
  have id: "inv_id i = iid" using fil by (simp add: filed_def)
  have t: "books_ok F ?t" by (rule books_same_files[OF _ ok]) (simp add: same_files_def)
  show ?thesis
  proof (cases ?a)
    case (Inl e)
    then show ?thesis using False t there by (simp add: ensure_stripe_id_def Inl)
  next
    case (Inr r)
    let ?i = "i\<lparr>inv_stripe := Some (get_str r ''id'' [])\<rparr>"
    have "books_ok F (?t\<lparr>fn_invoices := put_inv ''approved'' ?i (fn_invoices ?t)\<rparr>)"
      using there fil id by (intro books_rewrite[OF t]) (simp_all add: filed_def)
    moreover have "fst (ensure_stripe_id api iid i s) = ?t\<lparr>fn_invoices := put_inv ''approved'' ?i (fn_invoices ?t)\<rparr>"
      using False id by (simp add: ensure_stripe_id_def Inr Let_def)
    ultimately show ?thesis using id by (simp add: put_inv_map_of)
  qed
qed

lemma transmit_books:
  assumes ok: "books_ok F s" and there: "map_of (fn_invoices s ''approved'') iid = Some (Some (invoice_to_dict i0))"
    and fil: "filed ''approved'' iid i0"
  shows "books_ok F (fst (transmit_invoice v api iid i0 s))"
proof -
  obtain t r where e: "ensure_stripe_id api iid i0 s = (t, r)" by fastforce
  note t = ensure_stripe_id_books[OF assms, of api, unfolded e fst_conv]
  have id: "inv_id i0 = iid" using fil by (simp add: filed_def)
  show ?thesis
  proof (cases r)
    case (Inl x)
    then show ?thesis using t by (simp add: transmit_invoice_def andthen_raise e Inl)
  next
    case r: (Inr sid)
    let ?u = "t\<lparr>fn_stripe := fn_stripe t @ [SSend sid]\<rparr>"
    have u: "books_ok F ?u" by (rule books_same_files[OF _ conjunct1[OF t]]) (simp add: same_files_def)
    show ?thesis
    proof (cases "st_send api sid")
      case (Inl x)
      then show ?thesis using u
        by (simp add: transmit_invoice_def andthen_step e r Inl)
    next
      case (Inr x)
      let ?i = "i0\<lparr>inv_status := ''sent'', inv_sent := Some (fv_now v), inv_stripe := Some sid\<rparr>"
      let ?w = "?u\<lparr>fn_invoices := del_inv ''approved'' (inv_id ?i) (put_inv ''sent'' ?i (fn_invoices ?u))\<rparr>"
      obtain f where f: "map_of (fn_invoices ?u ''approved'') (inv_id ?i) = Some f" using t id by auto
      have "approval_logged (fn_oplog ?u) (inv_id ?i)"
        using u f approvals_logged_in[of ?u "''approved''" "inv_id ?i"] by (simp add: books_ok_def APPROVED_DIRS_def)
      moreover have "filed ''sent'' (inv_id ?i) ?i" using fil by (simp add: filed_def APPROVED_DIRS_def)
      ultimately have w: "books_ok F ?w"
        by (intro books_move[OF u f]) simp_all
      have "still (andthen (log_event v ''invoice_sent'' iid (inv_client ?i) (inv_total ?i) [(''stripe_invoice_id'', JStr sid)]) (\<lambda>_.
          andthen (log_op v ''invoice_sent'' iid (Some (inv_total ?i)) ''success'' [(''stripe_invoice_id'', JStr sid)]) (\<lambda>_. ok ?i)))"
        by (intro still_andthen) simp_all
      from books_still[OF this w] show ?thesis using id
        by (simp add: transmit_invoice_def andthen_step e r Inr Let_def)
    qed
  qed
qed

lemma books_release: "keeps (books_ok F) (handle_stage2_hold_release v client iid)"
  unfolding handle_stage2_hold_release_def
proof (rule keeps_load[OF books_well_filed])
  show "''approved'' \<in> set valid_statuses" by (simp add: valid_statuses_def)
next
  fix s i
  assume ok: "books_ok F s" and there: "map_of (fn_invoices s ''approved'') iid = Some (Some (invoice_to_dict i))"
    and fil: "filed ''approved'' iid i"
  have st: "inv_status i = ''approved''" using fil by (simp add: filed_def)
  show "books_ok F (fst ((if inv_status i \<noteq> ''approved''
       then throw ''ValueError'' (''Invoice '' @ iid @ '' is not in approved status (status: '' @ inv_status i @ '')'')
       else case client of None \<Rightarrow> not_defined ''logger''
       | Some api \<Rightarrow> attempt (transmit_invoice v api iid i) (\<lambda>e.
             andthen (log_op v ''invoice_send_failed'' iid (Some (inv_total i)) ''failed'' [(''error'', JStr (exn_text e))])
               (\<lambda>_ s. (s, Inl e)))) s))"
  proof (cases client)
    case None
    then show ?thesis using st ok by (simp add: not_defined_def)
  next
    case (Some api)
    obtain t r where m: "transmit_invoice v api iid i s = (t, r)" by fastforce
    have t: "books_ok F t" using transmit_books[OF ok there fil, of v api] m by simp
    show ?thesis
    proof (cases r)
      case (Inl e)
      have "still (andthen (log_op v ''invoice_send_failed'' iid (Some (inv_total i)) ''failed'' [(''error'', JStr (exn_text e))])
               (\<lambda>_ s. (s, Inl e)))"
        by (intro still_andthen) simp_all
      from books_still[OF this t] show ?thesis using st Some by (simp add: attempt_raise m Inl)
    next
      case (Inr a)
      then show ?thesis using st Some t by (simp add: attempt_step m Inr)
    qed
  qed
qed

section \<open>Payments\<close>

lemma add_to_summary_get:
  "get_num (add_to_summary v key amount d) key 0 = (if key = ''invoices_paid'' \<or> key = ''last_updated'' then get_num (add_to_summary v key amount d) key 0
     else get_num d key 0 + amount)"
  "key \<noteq> ''invoices_paid'' \<Longrightarrow> get_int (add_to_summary v key amount d) ''invoices_paid'' 0 = get_int d ''invoices_paid'' 0 + 1"
  by (simp_all add: add_to_summary_def get_num_def get_int_def json_num_def)

lemma record_payment_effect:
  assumes "record_payment v i s = (s', r)"
  shows "r = Inr ()" "fn_invoices s' = fn_invoices s" "fn_stripe s' = fn_stripe s" "fn_events s' = fn_events s"
    "fn_history s' = (fn_history s)(today v \<mapsto> Some (daily_snapshot v i))"
    "fn_summaries s' annual_file =
       Some (Some (add_to_summary v ''year_total'' (inv_total i) (load_json (fn_summaries s annual_file) annual_default)))"
    "set (fn_oplog s) \<subseteq> set (fn_oplog s')"
proof -
  have names: "annual_file \<noteq> weekly_file" "annual_file \<noteq> monthly_file" "monthly_file \<noteq> weekly_file"
    by (simp_all add: annual_file_def weekly_file_def monthly_file_def)
  let ?weekly = "add_to_summary v ''week_total'' (inv_total i) (load_json (fn_summaries s weekly_file) weekly_default)"
  let ?prev = "get_num (load_json (fn_summaries s weekly_file) weekly_default) ''week_total'' 0"
  let ?m = "\<lambda>f. add_to_summary v ''month_total'' (inv_total i) (load_json (f monthly_file) monthly_default)"
  let ?a = "\<lambda>f. add_to_summary v ''year_total'' (inv_total i) (load_json (f annual_file) annual_default)"
  define t where "t = s\<lparr>fn_summaries := (fn_summaries s)(weekly_file \<mapsto> Some ?weekly, monthly_file \<mapsto> Some (?m (fn_summaries s)),
      annual_file \<mapsto> Some (?a (fn_summaries s))), fn_history := (fn_history s)(today v \<mapsto> Some (daily_snapshot v i))\<rparr>"
  let ?tail = "andthen (send_revenue_summary v (get_num ?weekly ''week_total'' 0)
          (percent_change (get_num ?weekly ''week_total'' 0) ?prev)
          (get_int ?weekly ''invoices_paid'' 0) (get_int ?weekly ''invoices_pending'' 0)) (\<lambda>_.
        log_op v ''payment_recorded'' (inv_id i) (Some (inv_total i)) ''success''
          [(''week_total'', JFloat (get_num ?weekly ''week_total'' 0))])"
  have eq: "record_payment v i s = ?tail t"
    unfolding record_payment_def Let_def update_monthly_summary_def update_annual_summary_def write_summary_def write_daily_def t_def
    using names by (cases s) (simp add: fun_upd_def andthen_def del: andthen_messages cong: if_cong)
  have "quiet ?tail" by (intro quiet_andthen) simp_all
  from quietD[OF this, of t] have q: "same_books t s'" unfolding eq[symmetric] assms fst_conv .
  have "snd (?tail t) = Inr ()" by simp
  then show "r = Inr ()" unfolding eq[symmetric] assms snd_conv .
  show "fn_invoices s' = fn_invoices s" "fn_stripe s' = fn_stripe s" "fn_events s' = fn_events s"
    "fn_history s' = (fn_history s)(today v \<mapsto> Some (daily_snapshot v i))"
    "fn_summaries s' annual_file =
       Some (Some (add_to_summary v ''year_total'' (inv_total i) (load_json (fn_summaries s annual_file) annual_default)))"
    using q by (simp_all add: same_books_def t_def)
  show "set (fn_oplog s) \<subseteq> set (fn_oplog s')" using q by (auto simp: same_books_def t_def dest: set_mono_prefix)
qed

text \<open>A new file in a directory comes last.\<close>

lemma update_fresh: "map_of al k = None \<Longrightarrow> AList.update k x al = al @ [(k, x)]"
  by (induction al) (auto split: if_splits)

lemma paid_dicts_new:
  assumes "map_of (fs ''paid'') (inv_id i) = None"
  shows "paid_dicts (put_inv ''paid'' i fs) = paid_dicts fs @ [invoice_to_dict i]"
    and "length (put_inv ''paid'' i fs ''paid'') = Suc (length (fs ''paid''))"
  using assms by (simp_all add: paid_dicts_def put_inv_def update_fresh)

lemma daily_snapshot_no_week: "map_of (daily_snapshot v i) ''week_total'' = None"
  by (simp add: daily_snapshot_def)

lemma received_books:
  assumes ok: "books_ok F s" and there: "map_of (fn_invoices s ''sent'') iid = Some (Some (invoice_to_dict i0))"
    and fil: "filed ''sent'' iid i0"
  shows "books_ok F (fst (process_payment_received v i0 s))"
proof -
  let ?i = "i0\<lparr>inv_status := ''paid'', inv_paid := Some (fv_now v)\<rparr>"
  have id: "inv_id i0 = iid" using fil by (simp add: filed_def)
  let ?fs = "del_inv ''sent'' iid (put_inv ''paid'' ?i (fn_invoices s))"
  let ?t = "s\<lparr>fn_invoices := ?fs\<rparr>"
  let ?t1 = "fst (log_event v ''payment_received'' iid (inv_client i0) (inv_total i0) [(''paid_at'', JInt (fv_now v))] ?t)"
  obtain t2 r where rec: "record_payment v ?i ?t1 = (t2, r)" by fastforce
  note eff = record_payment_effect[OF rec]
  have t1: "fn_invoices ?t1 = ?fs" "fn_history ?t1 = fn_history s" "fn_summaries ?t1 = fn_summaries s" "fn_oplog ?t1 = fn_oplog s"
    by (simp_all add: log_event_eq)
  have none: "map_of (fn_invoices s ''paid'') iid = None"
    using well_filed_one[OF books_well_filed[OF ok] there, of "''paid''"] by (cases "map_of (fn_invoices s ''paid'') iid") auto
  have wf: "well_filed ?fs"
    using well_filed_move[where fs = "fn_invoices s" and a = "''sent''" and b = "''paid''" and i = ?i, OF books_well_filed[OF ok]] there fil id
    by (simp add: filed_def APPROVED_DIRS_def)
  have "approval_logged (fn_oplog s) iid"
    using ok there approvals_logged_in[of s "''sent''" iid] by (simp add: books_ok_def APPROVED_DIRS_def)
  then have "approvals_ok ?t"
    using ok id approvals_move[where s = s and a = "''sent''" and n = iid and b = "''paid''" and i = ?i] by (simp add: books_ok_def)
  then have ap: "approvals_ok t2"
    using eff(2,7) t1 unfolding approvals_ok_def by (auto intro: approval_logged_mono)
  have sums: "year_total t2 = year_total s + inv_total i0" "year_count t2 = year_count s + 1"
    unfolding year_total_def year_count_def eff(6) t1
    by (simp_all add: load_json_def[of "Some (Some x)" for x] add_to_summary_get)
  have "paid_total ?fs = paid_total (fn_invoices s) + inv_total i0" "length (?fs ''paid'') = Suc (length (fn_invoices s ''paid''))"
    using paid_dicts_new[of "fn_invoices s" ?i] none id
    by (simp_all add: paid_total_def paid_dicts_other get_num_def json_num_def) (simp add: del_inv_def)
  then have rev: "revenue_ok t2"
    using ok sums eff(2) t1 by (simp add: books_ok_def revenue_ok_def)
  have sn: "snapshots_ok t2"
    using ok eff(5) t1 daily_snapshot_no_week[of v ?i] by (simp add: books_ok_def snapshots_ok_def)
  have "finals_kept F ?fs"
    using ok finals_move[where fs = "fn_invoices s" and a = "''sent''" and b = "''paid''" and i = ?i and n = iid and F = F,
        OF books_well_filed[OF ok]] there id by (simp add: books_ok_def)
  then have "books_ok F t2" using wf ap rev sn eff(2) t1 by (simp add: books_ok_def)
  from books_tail[OF this, of "log_op v ''payment_received'' iid (Some (inv_total i0)) ''success'' [(''client_id'', JStr (inv_client i0))]"]
  have "books_ok F (fst (log_op v ''payment_received'' iid (Some (inv_total i0)) ''success'' [(''client_id'', JStr (inv_client i0))] t2))"
    by simp
  moreover have "andthen (record_payment v ?i) f ?t1 = f () t2" for f :: "unit \<Rightarrow> (finance, unit) eff"
    by (simp add: andthen_def rec eff(1))
  ultimately show ?thesis using id by (simp add: process_payment_received_def Let_def)
qed

lemma overdue_books:
  assumes ok: "books_ok F s" and there: "map_of (fn_invoices s ''sent'') iid = Some (Some (invoice_to_dict i0))"
    and fil: "filed ''sent'' iid i0"
  shows "books_ok F (fst (process_payment_overdue v i0 s))"
proof -
  let ?i = "i0\<lparr>inv_status := ''overdue''\<rparr>"
  have id: "inv_id i0 = iid" using fil by (simp add: filed_def)
  have "approval_logged (fn_oplog s) iid"
    using ok there approvals_logged_in[of s "''sent''" iid] by (simp add: books_ok_def APPROVED_DIRS_def)
  then have t: "books_ok F (s\<lparr>fn_invoices := del_inv ''sent'' (inv_id ?i) (put_inv ''overdue'' ?i (fn_invoices s))\<rparr>)"
    using there fil id by (intro books_move[OF ok]) (simp_all add: filed_def APPROVED_DIRS_def)
  let ?days = "case inv_due i0 of Some d \<Rightarrow> today v - d | None \<Rightarrow> 1"
  let ?tail = "andthen (look (\<lambda>s. count_overdue_by_client (fv_now v) (inv_client i0) (fn_events s))) (\<lambda>n.
      andthen (send_payment_overdue v (inv_client i0) iid ?days (inv_total i0) (overdue_risk n)) (\<lambda>_.
      andthen (log_event v ''payment_overdue'' iid (inv_client i0) (inv_total i0)
        [(''days_overdue'', JInt ?days), (''overdue_count'', JInt (int n + 1)), (''risk_level'', JStr (overdue_risk n))]) (\<lambda>_.
      andthen (escalate_overdue v ?i ?days n) (\<lambda>_.
      log_op v ''payment_overdue'' iid (Some (inv_total i0)) ''escalated''
        [(''client_id'', JStr (inv_client i0)), (''days_overdue'', JInt ?days), (''overdue_count'', JInt (int n + 1))]))))"
  have "still ?tail" by (intro still_andthen) simp_all
  from books_still[OF this t] show ?thesis using id by (simp add: process_payment_overdue_def Let_def)
qed

section \<open>The passes over the sent invoices\<close>

lemma read_sent_cases:
  assumes "well_filed (fn_invoices s)"
  obtains i where "map_of (fn_invoices s ''sent'') n = Some (Some (invoice_to_dict i))" "filed ''sent'' n i"
      "read_sent n s = (s, Inr i)"
    | e where "read_sent n s = (s, Inl e)"
proof (cases "map_of (fn_invoices s ''sent'') n")
  case None
  then show ?thesis using that(2) by (simp add: read_sent_def)
next
  case (Some f)
  then obtain i where "f = Some (invoice_to_dict i)" "filed ''sent'' n i" using assms by (elim well_filedD)
  then show ?thesis using that(1)[of i] Some by (simp add: read_sent_def from_read_def)
qed

lemma still_check_status [simp]: "still (check_invoice_status v client i)"
proof (cases client)
  case None
  then show ?thesis by (simp add: check_invoice_status_def not_defined_def)
next
  case (Some api)
  have "still (attempt
          (andthen (ask_stripe (SGet (the (inv_stripe i))) (st_get api (the (inv_stripe i)))) (\<lambda>d.
             (let p = status_of_answer v i d in
              andthen (log_event v ''status_check'' (inv_id i) (inv_client i) (inv_total i)
                [(''stripe_status'', JStr (ps_status p)), (''days_overdue'', JInt (ps_days p))]) (\<lambda>_. ok p))))
          (\<lambda>e. andthen (log_op v ''stripe_status_check_failed'' (inv_id i) (Some (inv_total i)) ''failed''
             [(''error'', JStr (exn_text e))]) (\<lambda>_. ok (unknown_status i))))"
    unfolding Let_def by (intro still_attempt still_andthen) simp_all
  then show ?thesis using Some by (simp add: check_invoice_status_def)
qed

lemma settle_books:
  assumes "books_ok F s" "map_of (fn_invoices s ''sent'') n = Some (Some (invoice_to_dict i))" "filed ''sent'' n i"
  shows "books_ok F (fst (settle_sent v p i s))"
  using received_books[OF assms] overdue_books[OF assms] assms(1) by (simp add: settle_sent_def only_if_def)

lemma books_check_sent: "keeps (books_ok F) (check_sent v client n)"
proof (rule keepsI)
  fix s assume ok: "books_ok F s"
  show "books_ok F (fst (check_sent v client n s))"
  proof (cases rule: read_sent_cases[OF books_well_filed[OF ok], of n])
    case (2 e)
    then show ?thesis using ok by (simp add: check_sent_def attempt_def andthen_raise)
  next
    case (1 i)
    obtain t r where c: "check_invoice_status v client i s = (t, r)" by fastforce
    have tf: "same_files s t" using stillD[OF still_check_status, of s v client i] c by simp
    then have t: "books_ok F t" by (rule books_same_files[OF _ ok])
    show ?thesis
    proof (cases r)
      case (Inl e)
      then show ?thesis using t 1(3) c by (simp add: check_sent_def attempt_def andthen_step andthen_raise)
    next
      case (Inr p)
      have "books_ok F (fst (settle_sent v p i t))"
        using settle_books[OF t _ 1(2)] 1(1) tf by (simp add: same_files_def)
      then have "books_ok F (fst (attempt (settle_sent v p i) (\<lambda>_. ok ()) t))"
        by (cases "settle_sent v p i t"; cases "snd (settle_sent v p i t)") (auto simp: attempt_def)
      moreover obtain u q where "attempt (settle_sent v p i) (\<lambda>_. ok ()) t = (u, q)" by fastforce
      ultimately show ?thesis using Inr 1(3) c
        by (cases q) (simp_all add: check_sent_def attempt_def[of "andthen m f" for m f] andthen_step andthen_raise)
    qed
  qed
qed

lemma books_flag_sent: "keeps (books_ok F) (flag_sent v n)"
proof (rule keepsI)
  fix s assume ok: "books_ok F s"
  show "books_ok F (fst (flag_sent v n s))"
  proof (cases rule: read_sent_cases[OF books_well_filed[OF ok], of n])
    case (2 e)
    then show ?thesis using ok by (simp add: flag_sent_def attempt_def andthen_raise)
  next
    case (1 i)
    obtain u q where p: "process_payment_overdue v i s = (u, q)" by fastforce
    have "books_ok F u" using overdue_books[OF ok 1(1,2), of v] p by simp
    then show ?thesis using 1(3) p ok
      by (cases q; cases "is_overdue (today v) i") (simp_all add: flag_sent_def attempt_def andthen_step andthen_raise)
  qed
qed

lemma books_passes: "keeps (books_ok F) (check_all_sent_invoices v client)" "keeps (books_ok F) (check_and_flag_overdue v)"
  unfolding check_all_sent_invoices_def check_and_flag_overdue_def
  by (intro keeps_andthen keeps_collect books_check_sent books_flag_sent; simp)+

section \<open>New invoices and summaries\<close>

definition free_id :: "fin_env \<Rightarrow> finance \<Rightarrow> bool" where
  "free_id v s \<longleftrightarrow> (\<forall>dir. map_of (fn_invoices s dir) (''inv-'' @ take 8 (fv_hex v)) = None)"

lemma books_put_new:
  assumes ok: "books_ok F s" and new: "filed ''pending'' (inv_id i) i" and none: "\<And>d. map_of (fn_invoices s d) (inv_id i) = None"
  shows "books_ok F (s\<lparr>fn_invoices := put_inv ''pending'' i (fn_invoices s)\<rparr>)"
proof -
  have "revenue_ok (s\<lparr>fn_invoices := fn_invoices s\<rparr>)" using ok by (simp add: books_ok_def)
  then have "revenue_ok (s\<lparr>fn_invoices := put_inv ''pending'' i (fn_invoices s)\<rparr>)"
    by (simp add: revenue_other)
  then show ?thesis
    using ok well_filed_new[OF _ new none] approvals_put[of s "''pending''" i] finals_put[of "''pending''" F "fn_invoices s" i]
    by (simp add: books_ok_def APPROVED_DIRS_def)
qed

lemma generate_books:
  assumes ok: "books_ok F s" and new: "free_id v s"
  shows "books_ok F (fst (generate_invoice v pid cid s))"
proof -
  obtain r where l: "load_estimate pid s = (s, r)"
    by (cases "fn_estimates s pid"; cases "the (fn_estimates s pid)") (simp_all add: load_estimate_def)
  show ?thesis
  proof (cases r)
    case (Inl e)
    then show ?thesis using ok l by (simp add: generate_invoice_def andthen_raise)
  next
    case (Inr est)
    let ?sub = "sum_list (map li_total (invoice_lines v est))"
    let ?risk = "score_client v (fn_events s) cid"
    let ?i = "\<lparr>inv_id = ''inv-'' @ take 8 (fv_hex v), inv_project = pid, inv_client = cid, inv_items = invoice_lines v est,
                 inv_subtotal = ?sub, inv_total = ?sub, inv_currency = ''USD'', inv_terms = ''Net 14'',
                 inv_due = Some (today v + DEFAULT_PAYMENT_TERMS_DAYS), inv_risk_score = rs_score ?risk,
                 inv_risk_level = rs_level ?risk, inv_status = ''pending'', inv_stripe = None,
                 inv_generated = Some (fv_now v), inv_approved = None, inv_sent = None, inv_paid = None\<rparr>"
    have t: "books_ok F (s\<lparr>fn_invoices := put_inv ''pending'' ?i (fn_invoices s)\<rparr>)"
      using new by (intro books_put_new[OF ok]) (simp_all add: filed_def APPROVED_DIRS_def free_id_def)
    have "fst (generate_invoice v pid cid s) = fst (log_op v ''invoice_generated'' (inv_id ?i) (Some (inv_total ?i)) ''success''
             [(''project_id'', JStr pid), (''client_id'', JStr cid), (''status'', JStr ''pending'')]
             (s\<lparr>fn_invoices := put_inv ''pending'' ?i (fn_invoices s)\<rparr>))"
      using Inr l by (simp add: generate_invoice_def andthen_step Let_def)
    then show ?thesis using books_tail[OF t quiet_log_op] by simp
  qed
qed

lemma books_weekly: "keeps (books_ok F) (generate_weekly_summary v)"
proof -
  have "books_ok F (fst (write_summary weekly_file d s))" if "books_ok F s" for d s
    using that by (auto simp: write_summary_def books_ok_def approvals_ok_def revenue_ok_def year_total_def year_count_def
        snapshots_ok_def annual_file_def weekly_file_def)
  then have w: "keeps (books_ok F) (write_summary weekly_file d)" for d by (intro keepsI)
  show ?thesis unfolding generate_weekly_summary_def Let_def
    by (intro keeps_andthen w) (simp_all add: books_quiet)
qed

end
