(* ===== verification/Invoice_Ops.thy ===== *)
theory Invoice_Ops
  imports Invoice_Books
begin

text \<open>
  The operations of a running finance claw, the states it reaches, and which of them ask Stripe to send.
  The spend handler is reached through its port; it changes logs and cards only (\<open>spend_quiet\<close>): its own
  files are the state of \<open>Spend_Model\<close>.
\<close>

datatype fin_op =
    ProjectComplete string string
  | CreateInvoice string string
  | ReviewApprove string
  | ReviewEdit string "json dict list" rat
  | ReviewBlock string string
  | HoldRelease "stripe_api option" string
  | HoldCancel string
  | CardApprove string
  | CardVeto string
  | CheckSent "stripe_api option"
  | FlagOverdue
  | StaleHolds
  | WeeklyRevenue
  | MarginCheck
  | RateCheck
  | PricingQuery "json dict"
  | ActualCost string rat rat
  | LogExpense string rat int string
  | Recategorize string string
  | TaxPrep

definition drop_result :: "('s, 'a) eff \<Rightarrow> ('s, unit) eff" where
  "drop_result m = andthen m (\<lambda>_. ok ())"

fun run_op :: "spend_port \<Rightarrow> fin_env \<Rightarrow> fin_op \<Rightarrow> (finance, unit) eff" where
  "run_op sp v (ProjectComplete p c) = andthen (generate_invoice v p c) (\<lambda>i. drop_result (queue_invoice_review v i))"
| "run_op sp v (CreateInvoice p c) = drop_result (generate_invoice v p c)"
| "run_op sp v (ReviewApprove a) = invoice_review_approve v a"
| "run_op sp v (ReviewEdit a items amount) = invoice_review_edit v a items amount"
| "run_op sp v (ReviewBlock a why) = invoice_review_block v a why"
| "run_op sp v (HoldRelease client a) = invoice_hold_release v client a"
| "run_op sp v (HoldCancel a) = invoice_hold_cancel v a"
| "run_op sp v (CardApprove a) = drop_result (approve_hold_message (finance_handlers v sp) a)"
| "run_op sp v (CardVeto a) = drop_result (veto_hold_message (finance_handlers v sp) a)"
| "run_op sp v (CheckSent client) = drop_result (check_all_sent_invoices v client)"
| "run_op sp v FlagOverdue = drop_result (check_and_flag_overdue v)"
| "run_op sp v StaleHolds = check_hold_staleness v"
| "run_op sp v WeeklyRevenue = drop_result (generate_weekly_summary v)"
| "run_op sp v MarginCheck = drop_result (margin_analysis v)"
| "run_op sp v RateCheck = drop_result (rate_optimization_check v)"
| "run_op sp v (PricingQuery m) = drop_result (handle_pricing_query v m)"
| "run_op sp v (ActualCost p h c) = update_actual_cost v p h c"
| "run_op sp v (LogExpense about a d src) = drop_result (log_expense v about a d src)"
| "run_op sp v (Recategorize e c) = recategorize_expense v e c"
| "run_op sp v TaxPrep = run_quarterly_tax_prep v"

fun creates_invoice :: "fin_op \<Rightarrow> bool" where
  "creates_invoice (ProjectComplete p c) = True"
| "creates_invoice (CreateInvoice p c) = True"
| "creates_invoice op = False"

definition spend_quiet :: "spend_port \<Rightarrow> bool" where
  "spend_quiet sp \<longleftrightarrow> (\<forall>aid why op. quiet (sp_hold_release sp aid op) \<and> quiet (sp_review_block sp aid why) \<and> quiet (sp_hold_cancel sp aid why))"

text \<open>The empty books: no invoices, the summaries as the tree is initialised, empty logs.\<close>

definition empty_books :: "finance \<Rightarrow> bool" where
  "empty_books s \<longleftrightarrow> fn_invoices s = (\<lambda>_. []) \<and> fn_summaries s annual_file = Some (Some annual_default) \<and> fn_history s = Map.empty
     \<and> fn_stripe s = []"

inductive claw_run :: "spend_port \<Rightarrow> finance \<Rightarrow> finance \<Rightarrow> bool" for sp s where
  idle: "claw_run sp s s"
| step: "claw_run sp s t \<Longrightarrow> (creates_invoice op \<Longrightarrow> free_id v t) \<Longrightarrow> claw_run sp s (fst (run_op sp v op t))"

definition claw_reachable :: "spend_port \<Rightarrow> finance \<Rightarrow> bool" where
  "claw_reachable sp s \<longleftrightarrow> (\<exists>s0. empty_books s0 \<and> claw_run sp s0 s)"

section \<open>Every operation keeps the books\<close>

lemma still_run_simple:
  "still (margin_analysis v)" "still (rate_optimization_check v)" "still (handle_pricing_query v m)"
  "still (update_actual_cost v p h c)" "still (log_expense v about a d src)" "still (recategorize_expense v e cat)"
  "still (run_quarterly_tax_prep v)"
proof -
  have u: "still (upd (fn_estimates_update f))" "still (upd (fn_pricing_update g))" "still (upd (fn_categories_update h))"
    "still (upd (fn_expenses_update k))" "still (upd (fn_tax_update l))" for f g h k l
    by (intro still_upd; simp add: same_files_def)+
  have cat: "still (update_category_summary v c a)" "still (decrement_category_summary v c a)" for c a
    unfolding update_category_summary_def decrement_category_summary_def Let_def
    by (intro still_andthen u; simp)
      (intro still_andthen; simp add: u split: option.split)
  show "still (margin_analysis v)" "still (rate_optimization_check v)"
    unfolding margin_analysis_def rate_optimization_check_def Let_def
    by (intro quiet_still quiet_andthen quiet_only_if; simp)+
  show "still (handle_pricing_query v m)" unfolding handle_pricing_query_def
    by (intro still_andthen u) simp_all
  show "still (update_actual_cost v p h c)" unfolding update_actual_cost_def Let_def
    by (intro still_andthen; simp add: still_andthen u split: option.split)
  show "still (log_expense v about a d src)" unfolding log_expense_def Let_def
    by (intro still_andthen u cat) simp_all
  show "still (recategorize_expense v e cat)" unfolding recategorize_expense_def
    by (intro still_andthen) (auto simp: only_if_def u cat intro!: still_andthen split: prod.split)
  show "still (run_quarterly_tax_prep v)" unfolding run_quarterly_tax_prep_def
    by (intro still_attempt still_andthen u) (simp_all add: quiet_for_each quiet_andthen)
qed

lemma books_decisions:
  "keeps (books_ok F) (invoice_review_approve v a)" "keeps (books_ok F) (invoice_review_edit v a items amount)"
  "keeps (books_ok F) (invoice_review_block v a why)" "keeps (books_ok F) (invoice_hold_release v client a)"
  unfolding invoice_review_approve_def invoice_review_edit_def invoice_review_block_def invoice_hold_release_def Let_def
  by (intro keeps_andthen books_approve books_edit books_block books_release; simp add: books_quiet)+

lemma books_callbacks:
  assumes "spend_quiet sp"
  shows "keeps (books_ok F) (finance_approve v sp a d)" "keeps (books_ok F) (finance_veto v sp a d)"
  using assms
  by (simp_all add: finance_approve_def finance_veto_def spend_quiet_def books_decisions books_quiet quiet_andthen)

lemma books_wr: "keeps (books_ok F) (upd f)" if "\<And>s. fn_invoices (f s) = fn_invoices s \<and> fn_summaries (f s) = fn_summaries s
    \<and> fn_history (f s) = fn_history s \<and> fn_oplog (f s) = fn_oplog s"
  using that by (intro keeps_upd) (auto intro: books_ok_fields)

lemma quiet_target_card [simp]: "quiet (target_card aid :: (finance, string \<times> json dict) eff)"
  unfolding target_card_def by (intro quiet_andthen) (auto split: option.split)

lemma books_call_handler: "keeps (books_ok F) m \<Longrightarrow> keeps (books_ok F) (call_handler (map_option (\<lambda>h. m) x))"
  by (cases x) (simp_all add: call_handler_def keeps_attempt)

lemma books_cards:
  assumes "spend_quiet sp"
  shows "keeps (books_ok F) (approve_hold_message (finance_handlers v sp) a)"
    and "keeps (books_ok F) (veto_hold_message (finance_handlers v sp) a)"
proof -
  have h: "keeps (books_ok F) (call_handler (map_option (\<lambda>h. on_approve h x d) (finance_handlers v sp r)))"
    "keeps (books_ok F) (call_handler (map_option (\<lambda>h. on_veto h x d) (finance_handlers v sp r)))" for x d r
    by (simp_all add: finance_handlers_def register_warroom_action_handler_def call_handler_def keeps_attempt books_callbacks[OF assms])
  show "keeps (books_ok F) (approve_hold_message (finance_handlers v sp) a)"
    unfolding approve_hold_message_def
    by (intro keeps_andthen) (auto intro!: keeps_andthen books_wr h simp: books_quiet split: prod.split)
  show "keeps (books_ok F) (veto_hold_message (finance_handlers v sp) a)"
    unfolding veto_hold_message_def
    by (intro keeps_andthen) (auto intro!: keeps_andthen books_wr h simp: books_quiet split: prod.split)
qed

lemma keeps_drop: "keeps P m \<Longrightarrow> keeps P (drop_result m)"
  by (simp add: drop_result_def keeps_andthen)

lemma still_drop: "still m \<Longrightarrow> still (drop_result m)"
  by (simp add: drop_result_def still_andthen)

lemma books_run_op:
  assumes sp: "spend_quiet sp" and ok: "books_ok F s" and new: "creates_invoice op \<Longrightarrow> free_id v s"
  shows "books_ok F (fst (run_op sp v op s))"
proof -
  have keep: "keeps (books_ok F) m \<Longrightarrow> books_ok F (fst (m s))" for m :: "(finance, unit) eff"
    using ok by (simp add: keeps_def)
  note still = books_still[OF _ ok]
  show ?thesis
  proof (cases op)
    case (ProjectComplete p c)
    obtain t r where g: "generate_invoice v p c s = (t, r)" by fastforce
    have t: "books_ok F t" using generate_books[OF ok, of v p c] new g ProjectComplete by simp
    show ?thesis
    proof (cases r)
      case (Inl e)
      then show ?thesis using t g ProjectComplete by (simp add: andthen_raise)
    next
      case (Inr i)
      have "books_ok F (fst (drop_result (queue_invoice_review v i) t))"
        by (rule books_tail[OF t]) (simp add: drop_result_def quiet_andthen)
      then show ?thesis using g Inr ProjectComplete by (simp add: andthen_step)
    qed
  next
    case (CreateInvoice p c)
    obtain t r where g: "generate_invoice v p c s = (t, r)" by fastforce
    have "books_ok F t" using generate_books[OF ok, of v p c] new g CreateInvoice by simp
    then show ?thesis using g CreateInvoice by (cases r) (simp_all add: drop_result_def andthen_raise andthen_step)
  qed (simp_all add: keep still keeps_drop still_drop books_quiet books_decisions books_cards[OF sp] books_passes books_weekly still_run_simple)
qed

lemma books_start: "empty_books s \<Longrightarrow> books_ok {} s"
  by (simp add: empty_books_def books_ok_def well_filed_def approvals_ok_def revenue_ok_def snapshots_ok_def year_total_def
      year_count_def load_json_def annual_default_def get_num_def json_num_def get_int_def paid_total_def paid_dicts_def finals_kept_def)

lemma books_run: "claw_run sp s s' \<Longrightarrow> spend_quiet sp \<Longrightarrow> books_ok F s \<Longrightarrow> books_ok F s'"
  by (induction rule: claw_run.induct) (simp_all add: books_run_op)

lemma books_reachable: "claw_reachable sp s \<Longrightarrow> spend_quiet sp \<Longrightarrow> books_ok {} s"
  unfolding claw_reachable_def using books_run books_start by blast

lemma reachable_start: "empty_books s \<Longrightarrow> claw_reachable sp s"
  unfolding claw_reachable_def using claw_run.idle by blast

lemma reachable_step:
  "claw_reachable sp s \<Longrightarrow> (creates_invoice op \<Longrightarrow> free_id v s) \<Longrightarrow> claw_reachable sp (fst (run_op sp v op s))"
  unfolding claw_reachable_def using claw_run.step by blast

section \<open>Who asks Stripe to send\<close>

fun is_send :: "stripe_call \<Rightarrow> bool" where
  "is_send (SGet x) = False"
| "is_send (SSend x) = True"
| "is_send (SCreate a b c d e) = True"

definition sends :: "finance \<Rightarrow> stripe_call list" where
  "sends s = filter is_send (fn_stripe s)"

definition no_send :: "(finance, 'a) eff \<Rightarrow> bool" where
  "no_send m \<longleftrightarrow> (\<forall>s. sends (fst (m s)) = sends s)"

lemma no_send_quiet [simp]: "quiet m \<Longrightarrow> no_send m"
  by (simp add: no_send_def quiet_def same_books_def sends_def)

lemma no_sendI: "(\<And>s. sends (fst (m s)) = sends s) \<Longrightarrow> no_send m"
  by (simp add: no_send_def)

lemma no_send_upd: "(\<And>s. fn_stripe (f s) = fn_stripe s) \<Longrightarrow> no_send (upd f)"
  by (simp add: no_send_def sends_def)

lemma no_send_andthen: "no_send m \<Longrightarrow> (\<And>a. no_send (f a)) \<Longrightarrow> no_send (andthen m f)"
  unfolding no_send_def andthen_def by (simp split: prod.split sum.split) (metis fst_conv)

lemma no_send_attempt: "no_send m \<Longrightarrow> (\<And>e. no_send (h e)) \<Longrightarrow> no_send (attempt m h)"
  unfolding no_send_def attempt_def by (simp split: prod.split sum.split) (metis fst_conv)

lemma no_send_only_if: "no_send m \<Longrightarrow> no_send (only_if b m)"
  by (cases b) simp_all

lemma no_send_collect: "(\<And>x. no_send (f x)) \<Longrightarrow> no_send (collect xs f)"
  by (induction xs) (simp_all add: no_send_andthen)

lemma no_send_basic [simp]:
  "no_send (write_file p d)" "no_send (unlink_file p)" "no_send (log_event v t i c a dt)" "no_send (write_summary n d)"
  "no_send (write_daily day d)" "no_send (ask_stripe (SGet x) r)"
proof -
  show "no_send (write_file p d)" "no_send (unlink_file p)" "no_send (log_event v t i c a dt)" "no_send (write_summary n d)"
    "no_send (write_daily day d)"
    by (auto simp: write_file_def unlink_file_def log_event_def write_summary_def write_daily_def intro!: no_send_upd split: prod.split)
  show "no_send (ask_stripe (SGet x) r)" by (rule no_sendI) (simp add: ask_stripe_eq sends_def)
qed

lemma quiet_path [simp]: "quiet (get_invoice_path a n :: (finance, string \<times> string) eff)"
  by (rule quiet_load)

lemma no_send_invoices:
  "no_send (generate_invoice v p c)" "no_send (handle_stage1_approve v iid)" "no_send (handle_stage1_edit v iid items amount)"
  "no_send (handle_stage1_block v iid why)" "no_send (handle_stage2_hold_release v None iid)"
  unfolding generate_invoice_def handle_stage1_approve_def handle_stage1_edit_def handle_stage1_block_def
    handle_stage2_hold_release_def Let_def
  by (intro no_send_andthen; simp add: not_defined_def)+

lemma no_send_decisions:
  "no_send (invoice_review_approve v a)" "no_send (invoice_review_edit v a items amount)"
  "no_send (invoice_review_block v a why)" "no_send (invoice_hold_release v None a)"
  unfolding invoice_review_approve_def invoice_review_edit_def invoice_review_block_def invoice_hold_release_def Let_def
  by (intro no_send_andthen; simp add: no_send_invoices)+

lemma no_send_payments:
  "no_send (record_payment v i)" "no_send (process_payment_received v i)" "no_send (process_payment_overdue v i)"
  "no_send (check_invoice_status v client i)"
proof -
  show rec: "no_send (record_payment v i)" for i
    unfolding record_payment_def update_monthly_summary_def update_annual_summary_def Let_def
    by (intro no_send_andthen; simp)
  show "no_send (process_payment_received v i)" unfolding process_payment_received_def Let_def
    by (intro no_send_andthen; simp add: rec)
  show "no_send (process_payment_overdue v i)" unfolding process_payment_overdue_def Let_def
    by (intro no_send_andthen; simp)
  show "no_send (check_invoice_status v client i)"
  proof (cases client)
    case None
    then show ?thesis by (simp add: check_invoice_status_def not_defined_def)
  next
    case (Some api)
    have "no_send (attempt
          (andthen (ask_stripe (SGet (the (inv_stripe i))) (st_get api (the (inv_stripe i)))) (\<lambda>d.
             (let p = status_of_answer v i d in
              andthen (log_event v ''status_check'' (inv_id i) (inv_client i) (inv_total i)
                [(''stripe_status'', JStr (ps_status p)), (''days_overdue'', JInt (ps_days p))]) (\<lambda>_. ok p))))
          (\<lambda>e. andthen (log_op v ''stripe_status_check_failed'' (inv_id i) (Some (inv_total i)) ''failed''
             [(''error'', JStr (exn_text e))]) (\<lambda>_. ok (unknown_status i))))"
      unfolding Let_def by (intro no_send_attempt no_send_andthen) (simp_all add: quiet_andthen)
    then show ?thesis using Some by (simp add: check_invoice_status_def)
  qed
qed

lemma no_send_passes: "no_send (check_all_sent_invoices v client)" "no_send (check_and_flag_overdue v)"
proof -
  have "no_send (settle_sent v p i)" for p i
    by (simp add: settle_sent_def no_send_payments no_send_only_if)
  then have "no_send (check_sent v client n)" for n
    unfolding check_sent_def by (intro no_send_attempt no_send_andthen) (simp_all add: no_send_payments)
  then show "no_send (check_all_sent_invoices v client)"
    unfolding check_all_sent_invoices_def by (intro no_send_andthen no_send_collect) simp_all
  have "no_send (flag_sent v n)" for n
    unfolding flag_sent_def by (intro no_send_attempt no_send_andthen) (simp_all add: no_send_payments no_send_andthen)
  then show "no_send (check_and_flag_overdue v)"
    unfolding check_and_flag_overdue_def by (intro no_send_andthen no_send_collect) simp_all
qed

lemma no_send_simple:
  "no_send (margin_analysis v)" "no_send (rate_optimization_check v)" "no_send (handle_pricing_query v m)"
  "no_send (update_actual_cost v p h c)" "no_send (log_expense v about a d src)" "no_send (recategorize_expense v e cat)"
  "no_send (run_quarterly_tax_prep v)" "no_send (generate_weekly_summary v)"
proof -
  have u: "no_send (upd (fn_estimates_update f))" "no_send (upd (fn_pricing_update g))" "no_send (upd (fn_categories_update h))"
    "no_send (upd (fn_expenses_update k))" "no_send (upd (fn_tax_update l))" for f g h k l
    by (intro no_send_upd; simp)+
  have cat: "no_send (update_category_summary v c a)" "no_send (decrement_category_summary v c a)" for c a
    unfolding update_category_summary_def decrement_category_summary_def Let_def
    by (intro no_send_andthen u; simp)
      (intro no_send_andthen; simp add: u split: option.split)
  show "no_send (margin_analysis v)" "no_send (rate_optimization_check v)"
    unfolding margin_analysis_def rate_optimization_check_def Let_def
    by (intro no_send_quiet quiet_andthen quiet_only_if; simp)+
  show "no_send (handle_pricing_query v m)" unfolding handle_pricing_query_def
    by (intro no_send_andthen u) simp_all
  show "no_send (update_actual_cost v p h c)" unfolding update_actual_cost_def Let_def
    by (intro no_send_andthen; simp add: no_send_andthen u split: option.split)
  show "no_send (log_expense v about a d src)" unfolding log_expense_def Let_def
    by (intro no_send_andthen u cat) simp_all
  show "no_send (recategorize_expense v e cat)" unfolding recategorize_expense_def
    by (intro no_send_andthen) (auto simp: only_if_def u cat intro!: no_send_andthen split: prod.split)
  show "no_send (run_quarterly_tax_prep v)" unfolding run_quarterly_tax_prep_def
    by (intro no_send_attempt no_send_andthen u) (simp_all add: quiet_for_each quiet_andthen)
  show "no_send (generate_weekly_summary v)" unfolding generate_weekly_summary_def Let_def
    by (intro no_send_andthen) simp_all
qed

lemma no_send_cards:
  assumes "spend_quiet sp"
  shows "no_send (approve_hold_message (finance_handlers v sp) a)" "no_send (veto_hold_message (finance_handlers v sp) a)"
proof -
  have cb: "no_send (finance_approve v sp x d)" "no_send (finance_veto v sp x d)" for x d
    using assms by (simp_all add: finance_approve_def finance_veto_def spend_quiet_def no_send_decisions quiet_andthen)
  have h: "no_send (call_handler (map_option (\<lambda>h. on_approve h x d) (finance_handlers v sp r)))"
    "no_send (call_handler (map_option (\<lambda>h. on_veto h x d) (finance_handlers v sp r)))" for x d r
    by (simp_all add: finance_handlers_def register_warroom_action_handler_def call_handler_def no_send_attempt cb)
  show "no_send (approve_hold_message (finance_handlers v sp) a)" unfolding approve_hold_message_def
    by (intro no_send_andthen) (auto intro!: no_send_andthen no_send_upd h split: prod.split)
  show "no_send (veto_hold_message (finance_handlers v sp) a)" unfolding veto_hold_message_def
    by (intro no_send_andthen) (auto intro!: no_send_andthen no_send_upd h split: prod.split)
qed

lemma no_send_run:
  assumes sp: "spend_quiet sp" and op: "\<And>api a. op \<noteq> HoldRelease (Some api) a"
  shows "no_send (run_op sp v op)"
proof (cases op)
  case (HoldRelease client a)
  then have "client = None" using op by (cases client) auto
  then show ?thesis using HoldRelease by (simp add: no_send_decisions)
qed (simp_all add: drop_result_def no_send_andthen no_send_decisions no_send_invoices no_send_cards[OF sp] no_send_passes
    no_send_simple quiet_andthen)

end
