(* ===== verification/Invoice_Props.thy ===== *)
theory Invoice_Props
  imports Invoice_Ops
begin

text \<open>
  The properties of the finance claw around the spend handler: the files of invoices, the two stages, the
  calls to Stripe, the summaries of revenue and the queue of the operator.
\<close>

section \<open>Concrete states\<close>

definition quiet_port :: spend_port where
  "quiet_port = \<lparr>sp_queue_review = \<lambda>_. ok ([], []), sp_review_approve = \<lambda>_. ok [], sp_review_edit = \<lambda>_ _ _. ok (),
     sp_review_block = \<lambda>_ _. ok (), sp_hold_release = \<lambda>_ _. ok [], sp_hold_cancel = \<lambda>_ _. ok (), sp_invoice_ready = \<lambda>_ _. ok ()\<rparr>"

lemma quiet_port_quiet [simp]: "spend_quiet quiet_port"
  by (simp add: spend_quiet_def quiet_port_def)

definition new_books :: finance where
  "new_books = \<lparr>wr_cards = [], wr_inbox = \<lambda>_. [], wr_rejected = [], fn_invoices = \<lambda>_. [], fn_estimates = Map.empty, fn_oplog = [],
     fn_events = [], fn_decisions = [], fn_sends = 0, fn_outbox = [], fn_stripe = [],
     fn_summaries = [annual_file \<mapsto> Some annual_default], fn_history = Map.empty, fn_expenses = [], fn_categories = [],
     fn_pricing = [], fn_rules = Some (Some [(''default_hourly_rate'', JInt 0)]), fn_tax = Map.empty\<rparr>"

lemma new_books_empty [simp]: "empty_books new_books"
  by (simp add: empty_books_def new_books_def)

definition plain_env :: fin_env where
  "plain_env = \<lparr>fv_now = 20000 * DAY, fv_hex = ''0123456789ab'', fv_stamp = ''20241004'', fv_msg_id = \<lambda>_. ''m'', fv_gateway = \<lambda>_. None,
     fv_infer = \<lambda>_. Inl ''offline'', fv_bridge = True, fv_loads = \<lambda>_. None, fv_float = \<lambda>_. None, fv_target_margin = 30,
     fv_hours = [(''low'', 8), (''medium'', 20), (''high'', 40), (''complex'', 80)], fv_rate = 100, fv_floor_mult = 8 / 10,
     fv_ceiling_mult = 3 / 2\<rparr>"

text \<open>A claw that has invoiced a project, approved it and run its daily check.\<close>

definition busy_books :: finance where
  "busy_books = fst (run_op quiet_port plain_env FlagOverdue (fst (run_op quiet_port plain_env (ReviewApprove ''review-inv-01234567'')
     (fst (run_op quiet_port plain_env (ProjectComplete ''p1'' ''acme'') new_books)))))"

lemma busy_reachable: "claw_reachable quiet_port busy_books"
proof -
  have "free_id plain_env new_books" by (simp add: free_id_def new_books_def)
  then show ?thesis unfolding busy_books_def by (intro reachable_step reachable_start) simp_all
qed

definition blocked_books :: finance where
  "blocked_books = fst (run_op quiet_port plain_env (ReviewBlock ''review-inv-01234567'' ''no'')
     (fst (run_op quiet_port plain_env (ProjectComplete ''p1'' ''acme'') new_books)))"

text \<open>A Stripe that creates invoices and fails to send them, and an invoice that waits for its release.\<close>

definition half_stripe :: stripe_api where
  "half_stripe = \<lparr>st_create = \<lambda>_ _ _ _ _. Inr [(''id'', JStr ''in-7'')], st_send = \<lambda>_. Inl (PyExn ''RuntimeError'' ''timeout''),
     st_get = \<lambda>_. Inr []\<rparr>"

definition held_invoice :: invoice where
  "held_invoice = \<lparr>inv_id = ''inv-1'', inv_project = ''p1'', inv_client = ''acme'', inv_items = [], inv_subtotal = 100, inv_total = 100,
     inv_currency = ''USD'', inv_terms = ''Net 30'', inv_due = None, inv_risk_score = 20, inv_risk_level = ''low'',
     inv_status = ''approved'', inv_stripe = None, inv_generated = Some 0, inv_approved = Some 0, inv_sent = None, inv_paid = None\<rparr>"

definition held_books :: finance where
  "held_books = new_books\<lparr>wr_cards := [(''hold-inv-1'', Some [(''recipient_role'', JStr ''finance'')])],
     fn_invoices := (\<lambda>_. [])(''approved'' := [(''inv-1'', Some (invoice_to_dict held_invoice))])\<rparr>"

definition cut_off :: stripe_world where
  "cut_off = \<lparr>sw_version = VersionMissing, sw_cli = \<lambda>_. None, sw_api = \<lambda>_ _ _. None\<rparr>"

definition fresh_client :: stripe_client where
  "fresh_client = \<lparr>sc_webhook_secret = [], sc_currency = ''usd'', sc_cli = None, sc_calls = []\<rparr>"

lemma blocked_reachable: "claw_reachable quiet_port blocked_books"
proof -
  have "free_id plain_env new_books" by (simp add: free_id_def new_books_def)
  then show ?thesis unfolding blocked_books_def by (intro reachable_step reachable_start) simp_all
qed

section \<open>Files\<close>

text \<open>
  C11. Every file of an invoice, in every state the claw reaches, can be read back: it is the text of an
  invoice with the identifier of the file's name and the name of its directory as status, with the times
  that directory calls for; and no invoice is in two directories. (The spend handler may do anything to
  logs and cards.)
\<close>

theorem invoices_well_filed:
  "claw_reachable sp s \<Longrightarrow> spend_quiet sp \<Longrightarrow> well_filed (fn_invoices s)"
  using books_reachable by (auto simp: books_ok_def)

theorem invoices_well_filed_witness: "well_filed (fn_invoices busy_books)"
  using invoices_well_filed[OF busy_reachable] by simp

text \<open>Writing an invoice and reading it back gives the same invoice.\<close>

theorem invoice_round_trip: "invoice_of_dict (invoice_to_dict i) = Inr i"
  by simp



section \<open>Two stages\<close>



section \<open>Releasing\<close>

text \<open>Without a client the release stops before it has done anything.\<close>

lemma load_invoice_state: "fst (load_invoice iid dir s) = s"
proof (cases "dir \<in> set valid_statuses")
  case False
  then show ?thesis by (simp add: load_invoice_def get_invoice_path_def)
next
  case True
  show ?thesis
  proof (cases "map_of (fn_invoices s dir) iid")
    case None
    then show ?thesis using True by (simp add: load_invoice_def get_invoice_path_def)
  next
    case (Some f)
    then show ?thesis using True by (cases f) (simp_all add: load_invoice_def get_invoice_path_def from_read_def)
  qed
qed

lemma release_without_client: "\<exists>e. handle_stage2_hold_release v None iid s = (s, Inl e)"
proof -
  obtain t r where l: "load_invoice iid ''approved'' s = (t, r)" by fastforce
  then have t: "t = s" using load_invoice_state[of iid "''approved''" s] by simp
  show ?thesis
  proof (cases r)
    case (Inl e)
    then show ?thesis unfolding handle_stage2_hold_release_def by (simp only: andthen_def l t sum.case prod.case) blast
  next
    case (Inr i)
    then have "handle_stage2_hold_release v None iid s =
        (if inv_status i \<noteq> ''approved''
         then throw ''ValueError'' (''Invoice '' @ iid @ '' is not in approved status (status: '' @ inv_status i @ '')'')
         else not_defined ''logger'') s"
      unfolding handle_stage2_hold_release_def by (simp only: andthen_def l t Inr option.case sum.case prod.case)
    then show ?thesis by (cases "inv_status i = ''approved''") (simp_all add: not_defined_def)
  qed
qed

text \<open>
  C14. Approving the card of a hold in the War Room never sends the invoice: the card is gone from the queue
  and moved to the inbox of the finance claw, and nothing else happens to invoices, Stripe or the log of
  decisions. The callback releases without a Stripe client, and that path ends in a \<open>NameError\<close>, which the bridge
  swallows.
\<close>

theorem card_release_never_sends:
  assumes "safe_action_id aid = Inr aid" and "take 5 aid = ''hold-''"
    and "find_card aid (wr_cards s) = Some (n, Some d)" and "card_recipient d = ''finance''"
    and "approve_hold_message (finance_handlers v sp) aid s = (s', r)"
  shows "r = Inr n \<and> fn_invoices s' = fn_invoices s \<and> fn_stripe s' = fn_stripe s \<and> fn_decisions s' = fn_decisions s
    \<and> map_of (wr_cards s') aid = None \<and> map_of (wr_inbox s' ''finance'') n = Some (Some d)"
proof -
  define t where "t = s\<lparr>wr_cards := filter (\<lambda>(m, _). m \<noteq> n) (wr_cards s),
              wr_inbox := (wr_inbox s)(''finance'' := put_file n (Some d) (wr_inbox s ''finance''))\<rparr>"
  obtain e where e: "handle_stage2_hold_release v None (py_replace ''hold-'' [] aid) t = (t, Inl e)"
    using release_without_client by blast
  obtain rest where aid: "aid = ''hold-'' @ rest" using append_take_drop_id[of 5 aid] assms(2) by metis
  have no: "\<not> has_prefix ''spend-review-'' aid" "\<not> has_prefix ''spend-hold-'' aid" "\<not> has_prefix ''review-'' aid"
    "has_prefix ''hold-'' aid"
    unfolding aid by (simp_all add: has_prefix_def)
  have cb: "finance_approve v sp aid d t = (t, Inl e)"
    using e no by (simp add: finance_approve_def invoice_hold_release_def Let_def andthen_raise)
  let ?call = "call_handler (map_option (\<lambda>h. on_approve h aid d) (finance_handlers v sp ''finance''))"
  have call: "?call t = (t, Inr ())"
    by (simp add: finance_handlers_def register_warroom_action_handler_def call_handler_def attempt_def cb)
  have "approve_hold_message (finance_handlers v sp) aid s
      = andthen ?call (\<lambda>_. andthen (upd (wr_cards_update (filter (\<lambda>(m, _). m \<noteq> aid)))) (\<lambda>_. ok n)) t"
    by (simp add: approve_hold_message_def target_card_def assms(1,3,4) t_def andthen_def[where m = "andthen x y" for x y])
  also have "\<dots> = (wr_cards_update (filter (\<lambda>(m, _). m \<noteq> aid)) t, Inr n)"
    using call by (simp add: andthen_step)
  finally have "s' = wr_cards_update (filter (\<lambda>(m, _). m \<noteq> aid)) t" "r = Inr n" using assms(5) by auto
  moreover have "map_of (filter (\<lambda>(m, _). m \<noteq> aid) xs) aid = None" for xs :: "json dict option dict"
    by (induction xs) auto
  ultimately show ?thesis by (simp add: put_file_map_of t_def del: filter_filter)
qed

theorem card_release_never_sends_witness:
  "fn_stripe (fst (approve_hold_message (finance_handlers plain_env quiet_port) ''hold-inv-1'' held_books)) = []"
proof -
  obtain s' r where e: "approve_hold_message (finance_handlers plain_env quiet_port) ''hold-inv-1'' held_books = (s', r)" by fastforce
  have a: "safe_action_id ''hold-inv-1'' = Inr ''hold-inv-1''" by (rule safe_action_id_plain) (simp_all add: space_char_def)
  have "fn_stripe s' = fn_stripe held_books"
    using card_release_never_sends[OF a, of held_books "''hold-inv-1''" "[(''recipient_role'', JStr ''finance'')]" plain_env quiet_port s' r] e
    by (simp add: held_books_def find_card_def card_matches_def card_recipient_def json_get_def VALID_RECIPIENTS_def)
  then show ?thesis using e by (simp add: held_books_def new_books_def)
qed

text \<open>What the client answers without a command line and without a network.\<close>

definition no_network :: "stripe_world \<Rightarrow> bool" where
  "no_network w \<longleftrightarrow> sw_version w = VersionMissing \<and> sw_api w = (\<lambda>_ _ _. None)"

lemma offline_cli: "no_network w \<Longrightarrow> sc_cli c = None \<Longrightarrow> stripe_cli w args c = (c\<lparr>sc_cli := Some False\<rparr>, Inr None)"
  by (cases c) (simp add: stripe_cli_def check_cli_def no_network_def andthen_def)

lemma offline_answers:
  assumes "no_network w" and "sc_cli c = None"
  shows "snd (create_invoice w cu am cur ab du [] c) = Inr (error_dict ''Failed to create invoice''
           [(''customer_id'', JStr cu), (''amount'', JFloat am)])"
    and "snd (send_invoice w sid c) = Inr (error_dict ''Failed to send invoice'' [(''invoice_id'', JStr sid)])"
proof -
  have cli: "andthen (stripe_cli w args) f c = f None (c\<lparr>sc_cli := Some False\<rparr>)" for args and f :: "json option \<Rightarrow> (stripe_client, 'z) eff"
    using offline_cli[OF assms] by (simp add: andthen_step)
  have api: "sw_api w = (\<lambda>_ _ _. None)" using assms(1) by (simp add: no_network_def)
  show "snd (create_invoice w cu am cur ab du [] c) = Inr (error_dict ''Failed to create invoice''
           [(''customer_id'', JStr cu), (''amount'', JFloat am)])"
    by (simp add: create_invoice_def Let_def cli answer_dict_def stripe_http_def api andthen_def[where m = "andthen x y" for x y])
  show "snd (send_invoice w sid c) = Inr (error_dict ''Failed to send invoice'' [(''invoice_id'', JStr sid)])"
    by (simp add: send_invoice_def cli_or_http_def cli answer_dict_def stripe_http_def api or_error_def
        andthen_def[where m = "andthen x y" for x y])
qed

text \<open>
  With a Stripe client that reaches nothing, neither its command line nor the network, the release of a
  hold succeeds: the client answers with an error as a dictionary, which is taken for an invoice without an
  identifier, and the invoice is moved to \<^verbatim>\<open>sent/\<close> with an empty Stripe identifier.
\<close>

theorem offline_release_marks_sent:
  assumes "no_network w" and "sc_cli c = None"
    and "map_of (fn_invoices s ''approved'') iid = Some (Some (invoice_to_dict i))"
    and "inv_id i = iid" and "inv_status i = ''approved''" and "inv_stripe i = None"
    and "handle_stage2_hold_release v (Some (client_api w show_day c)) iid s = (s', r)"
  shows "\<exists>j. r = Inr j \<and> inv_status j = ''sent'' \<and> inv_stripe j = Some []
    \<and> map_of (fn_invoices s' ''sent'') iid = Some (Some (invoice_to_dict j)) \<and> map_of (fn_invoices s' ''approved'') iid = None"
proof -
  let ?api = "client_api w show_day c"
  let ?i = "i\<lparr>inv_stripe := Some []\<rparr>"
  let ?j = "i\<lparr>inv_status := ''sent'', inv_sent := Some (fv_now v), inv_stripe := Some []\<rparr>"
  let ?c = "SCreate (inv_client i) (inv_total i) (inv_currency i) (invoice_text iid i) (inv_due i)"
  define t where "t = s\<lparr>fn_stripe := fn_stripe s @ [?c], fn_invoices := put_inv ''approved'' ?i (fn_invoices s)\<rparr>"
  have e: "ensure_stripe_id ?api iid i s = (t, Inr [])"
    using assms(4,6) by (simp add: ensure_stripe_id_def client_api_def offline_answers(1)[OF assms(1,2)] Let_def error_dict_def
        get_str_def t_def)
  define u where "u = t\<lparr>fn_stripe := fn_stripe t @ [SSend []],
     fn_invoices := del_inv ''approved'' iid (put_inv ''sent'' ?j (fn_invoices t))\<rparr>"
  define x where "x = fst (log_op v ''invoice_sent'' iid (Some (inv_total i)) ''success'' [(''stripe_invoice_id'', JStr [])]
     (fst (log_event v ''invoice_sent'' iid (inv_client i) (inv_total i) [(''stripe_invoice_id'', JStr [])] u)))"
  have send: "st_send ?api [] = Inr (error_dict ''Failed to send invoice'' [(''invoice_id'', JStr [])])"
    by (simp add: client_api_def offline_answers(2)[OF assms(1,2)])
  have tr: "transmit_invoice v ?api iid i s = (x, Inr ?j)"
    using assms(4) by (simp add: transmit_invoice_def andthen_step e send Let_def x_def u_def)
  have "handle_stage2_hold_release v (Some ?api) iid s = (x, Inr ?j)"
    using load_invoice_eq[OF assms(3)] assms(5)
    by (simp add: handle_stage2_hold_release_def andthen_step attempt_def tr valid_statuses_def)
  then have r: "s' = x" "r = Inr ?j" using assms(7) by auto
  have "fn_invoices x = fn_invoices u" by (simp add: x_def log_op_fst log_event_eq)
  then have "map_of (fn_invoices x ''sent'') iid = Some (Some (invoice_to_dict ?j))" "map_of (fn_invoices x ''approved'') iid = None"
    using assms(4) by (simp_all add: u_def del_inv_map_of put_inv_map_of)
  then show ?thesis using r by (intro exI[of _ ?j]) simp
qed

theorem offline_release_marks_sent_witness:
  "map_of (fn_invoices (fst (handle_stage2_hold_release plain_env (Some (client_api cut_off py_str_int fresh_client)) ''inv-1'' held_books))
     ''approved'') ''inv-1'' = None"
proof -
  obtain s' r where e: "handle_stage2_hold_release plain_env (Some (client_api cut_off py_str_int fresh_client)) ''inv-1'' held_books = (s', r)"
    by fastforce
  then show ?thesis
    using offline_release_marks_sent[of cut_off fresh_client held_books "''inv-1''" held_invoice plain_env py_str_int s' r]
    by (auto simp: no_network_def cut_off_def fresh_client_def held_books_def held_invoice_def)
qed

text \<open>
  When Stripe created the invoice and its sending failed, a second release sends the same Stripe invoice:
  it creates no second one.
\<close>

theorem retry_creates_nothing:
  assumes "map_of (fn_invoices s ''approved'') iid = Some (Some (invoice_to_dict i))"
    and "inv_id i = iid" and "inv_status i = ''approved''" and "\<not> truthy_str (inv_stripe i)"
    and "st_create api (inv_client i) (inv_total i) (inv_currency i) (invoice_text iid i) (inv_due i) = Inr r"
    and "get_str r ''id'' [] = sid" and "sid \<noteq> []" and "st_send api sid = Inl e"
    and "handle_stage2_hold_release v (Some api) iid s = (s1, q)"
  shows "q = Inl e \<and> sends s1 = sends s @ [SCreate (inv_client i) (inv_total i) (inv_currency i) (invoice_text iid i) (inv_due i), SSend sid]
    \<and> sends (fst (handle_stage2_hold_release v' (Some api') iid s1)) = sends s1 @ [SSend sid]"
proof -
  let ?i = "i\<lparr>inv_stripe := Some sid\<rparr>"
  let ?c = "SCreate (inv_client i) (inv_total i) (inv_currency i) (invoice_text iid i) (inv_due i)"
  define t where "t = s\<lparr>fn_stripe := fn_stripe s @ [?c], fn_invoices := put_inv ''approved'' ?i (fn_invoices s)\<rparr>"
  have en: "ensure_stripe_id api iid i s = (t, Inr sid)"
    using assms(2,4,5,6) by (simp add: ensure_stripe_id_def Let_def t_def)
  have tr: "transmit_invoice v api iid i s = (t\<lparr>fn_stripe := fn_stripe t @ [SSend sid]\<rparr>, Inl e)"
    by (simp add: transmit_invoice_def andthen_step en assms(8))
  let ?w = "fst (log_op v ''invoice_send_failed'' iid (Some (inv_total i)) ''failed'' [(''error'', JStr (exn_text e))]
     (t\<lparr>fn_stripe := fn_stripe t @ [SSend sid]\<rparr>))"
  have "handle_stage2_hold_release v (Some api) iid s = (?w, Inl e)"
    using load_invoice_eq[OF assms(1)] assms(3)
    by (simp add: handle_stage2_hold_release_def andthen_step attempt_def tr valid_statuses_def)
  then have s1: "s1 = ?w" "q = Inl e" using assms(9) by auto
  have calls: "sends s1 = sends s @ [?c, SSend sid]" by (simp add: s1 log_op_fst t_def sends_def)
  have "map_of (fn_invoices s1 ''approved'') iid = Some (Some (invoice_to_dict ?i))"
    using assms(2) by (simp add: s1 log_op_fst t_def put_inv_map_of)
  then have load: "load_invoice iid ''approved'' s1 = (s1, Inr ?i)" by (rule load_invoice_eq) (simp add: valid_statuses_def)
  have again: "sends (fst (transmit_invoice v' api' iid ?i s1)) = sends s1 @ [SSend sid]"
    using assms(2,7) by (cases "st_send api' sid") (simp_all add: transmit_invoice_def ensure_stripe_id_def Let_def sends_def log_op_fst log_event_eq)
  obtain y z where yz: "transmit_invoice v' api' iid ?i s1 = (y, z)" by fastforce
  have "sends (fst (handle_stage2_hold_release v' (Some api') iid s1)) = sends y"
    using load assms(3)
    by (cases z) (simp_all add: handle_stage2_hold_release_def andthen_step attempt_def yz sends_def log_op_fst)
  then show ?thesis using s1(2) calls again yz by simp
qed

theorem retry_creates_nothing_witness:
  "sends (fst (handle_stage2_hold_release plain_env (Some half_stripe) ''inv-1''
       (fst (handle_stage2_hold_release plain_env (Some half_stripe) ''inv-1'' held_books))))
     = [SCreate ''acme'' 100 ''USD'' (invoice_text ''inv-1'' held_invoice) None, SSend ''in-7'', SSend ''in-7'']"
proof -
  obtain s' r where e: "handle_stage2_hold_release plain_env (Some half_stripe) ''inv-1'' held_books = (s', r)" by fastforce
  have 0: "map_of (fn_invoices held_books ''approved'') ''inv-1'' = Some (Some (invoice_to_dict held_invoice))" "sends held_books = []"
    by (simp_all add: held_books_def new_books_def sends_def)
  have "half_stripe = half_stripe" "inv_id held_invoice = ''inv-1''" "inv_status held_invoice = ''approved''"
    "\<not> truthy_str (inv_stripe held_invoice)" by (simp_all add: held_invoice_def)
  from retry_creates_nothing[OF 0(1) this(2-4), of half_stripe "[(''id'', JStr ''in-7'')]" "''in-7''" "PyExn ''RuntimeError'' ''timeout''"
      plain_env s' r plain_env half_stripe] e
  show ?thesis by (simp add: 0(2) half_stripe_def get_str_def held_invoice_def)
qed

section \<open>The queue of the operator\<close>

lemma latest_snoc:
  "get_str e ''action_id'' [] = a \<Longrightarrow> a \<noteq> [] \<Longrightarrow> latest_decisions (ls @ [Some e]) = AList.update a e (latest_decisions ls)"
  by (simp add: latest_decisions_def)

lemma latest_keys: "(k, e) \<in> set (latest_decisions ls) \<Longrightarrow> get_str e ''action_id'' [] = k"
  "distinct (map fst (latest_decisions ls))"
proof -
  have "(\<forall>(k, e) \<in> set (latest_decisions ls). get_str e ''action_id'' [] = k) \<and> distinct (map fst (latest_decisions ls))"
  proof (induction ls rule: rev_induct)
    case Nil
    then show ?case by (simp add: latest_decisions_def)
  next
    case (snoc l ls)
    show ?case
    proof (cases "l = None \<or> get_str (the l) ''action_id'' [] = []")
      case True
      then have "latest_decisions (ls @ [l]) = latest_decisions ls"
        by (auto simp: latest_decisions_def split: option.split)
      then show ?thesis using snoc by simp
    next
      case False
      then obtain e where l: "l = Some e" "get_str e ''action_id'' [] \<noteq> []" by auto
      let ?m = "AList.update (get_str e ''action_id'' []) e (latest_decisions ls)"
      have eq: "latest_decisions (ls @ [l]) = ?m" using latest_snoc[OF refl l(2)] l(1) by simp
      have d: "distinct (map fst ?m)" using snoc by (simp add: distinct_update)
      have "get_str y ''action_id'' [] = k" if "(k, y) \<in> set ?m" for k y
      proof -
        have "map_of ?m k = Some y" by (rule map_of_is_SomeI[OF d that])
        then show ?thesis using snoc by (auto split: if_splits dest: map_of_SomeD)
      qed
      then show ?thesis using d by (auto simp: eq)
    qed
  qed
  then show "(k, e) \<in> set (latest_decisions ls) \<Longrightarrow> get_str e ''action_id'' [] = k" "distinct (map fst (latest_decisions ls))"
    by auto
qed

lemma log_decision_fst: "fst (log_invoice_decision v aid iid st at' op d s)
    = fst (log_op v (''approval_'' @ st @ ''_'' @ at') iid (Some (get_num d ''total'' 0)) ''logged'' (decision_entry v aid iid st at' op d)
        (s\<lparr>fn_decisions := fn_decisions s @ [Some (decision_entry v aid iid st at' op d)]\<rparr>))"
  by (cases s) (simp add: log_invoice_decision_def Let_def)

text \<open>
  After an edit in the first stage the invoice is still in \<^verbatim>\<open>pending/\<close>, but no review of it is pending any
  more: the log's latest entry of the action is the edit, and nothing queues it again.
\<close>

theorem edit_leaves_queue:
  assumes "invoice_review_edit v aid items amount s = (s', Inr ())" and "aid \<noteq> []"
  shows "(\<exists>f. map_of (fn_invoices s' ''pending'') (py_replace ''review-'' [] aid) = Some f)
    \<and> map_of (latest_decisions (fn_decisions s')) aid
        = Some (decision_entry v aid (py_replace ''review-'' [] aid) ''review'' ''edit'' ''operator''
            [(''edited_total'', JFloat amount), (''line_items_count'', JInt (int (length items)))])
    \<and> list_all (\<lambda>e. get_str e ''action_id'' [] \<noteq> aid) (get_pending_reviews s')"
proof -
  let ?iid = "py_replace ''review-'' [] aid"
  let ?d = "[(''edited_total'', JFloat amount), (''line_items_count'', JInt (int (length items)))]"
  let ?e = "decision_entry v aid ?iid ''review'' ''edit'' ''operator'' ?d"
  obtain t q where m: "handle_stage1_edit v ?iid items amount s = (t, q)" by fastforce
  obtain i where q: "q = Inr i" using assms(1) m by (cases q) (simp_all add: invoice_review_edit_def Let_def andthen_raise)
  have "fst (invoice_review_edit v aid items amount s) = fst (log_invoice_decision v aid ?iid ''review'' ''edit'' ''operator'' ?d t)"
    using m q by (simp add: invoice_review_edit_def Let_def andthen_step)
  then have s': "fn_decisions s' = fn_decisions t @ [Some ?e]" "fn_invoices s' = fn_invoices t"
    using assms(1) by (simp_all add: log_decision_fst log_op_fst)
  obtain l where l: "load_invoice ?iid ''pending'' s = (s, Inr l)"
  proof (cases "load_invoice ?iid ''pending'' s")
    case (Pair s2 r2)
    then have "s2 = s" using load_invoice_state[of ?iid "''pending''" s] by simp
    then show ?thesis using Pair m q that by (cases r2) (simp_all add: handle_stage1_edit_def andthen_raise)
  qed
  obtain ls where ls: "map_read edited_item items = Inr ls"
    using m q l by (cases "map_read edited_item items") (simp_all add: handle_stage1_edit_def andthen_step)
  have "fn_invoices t ''pending'' = AList.update ?iid (Some (invoice_to_dict (l\<lparr>inv_items := ls, inv_subtotal := amount, inv_total := amount\<rparr>)))
      (fn_invoices s ''pending'')"
    using m l ls by (auto simp: handle_stage1_edit_def andthen_step write_file_def Let_def log_op_fst)
  then have there: "\<exists>f. map_of (fn_invoices s' ''pending'') ?iid = Some f" by (simp add: s'(2))
  have id: "get_str ?e ''action_id'' [] = aid" by (simp add: decision_entry_def get_str_def)
  have latest: "latest_decisions (fn_decisions s') = AList.update aid ?e (latest_decisions (fn_decisions t))"
    unfolding s'(1) by (rule latest_snoc[OF id assms(2)])
  then have ent: "map_of (latest_decisions (fn_decisions s')) aid = Some ?e" by simp
  have "get_str y ''action_id'' [] \<noteq> aid" if y: "y \<in> set (get_pending_reviews s')" for y
  proof
    assume a: "get_str y ''action_id'' [] = aid"
    obtain k where k: "(k, y) \<in> set (latest_decisions (fn_decisions s'))" "queued_in ''review'' y"
      using y by (auto simp: get_pending_reviews_def)
    then have "k = aid" using latest_keys(1)[OF k(1)] a by simp
    then have "y = ?e" using map_of_is_SomeI[OF latest_keys(2) k(1)] ent by simp
    then show False using k(2) by (simp add: queued_in_def decision_entry_def)
  qed
  then show ?thesis using there ent by (simp add: list_all_iff)
qed

theorem edit_leaves_queue_witness:
  "list_all (\<lambda>e. get_str e ''action_id'' [] \<noteq> ''review-inv-01234567'')
     (get_pending_reviews (fst (invoice_review_edit plain_env ''review-inv-01234567'' [] 5
        (fst (run_op quiet_port plain_env (ProjectComplete ''p1'' ''acme'') new_books)))))"
proof -
  let ?r = "invoice_review_edit plain_env ''review-inv-01234567'' [] 5 (fst (run_op quiet_port plain_env (ProjectComplete ''p1'' ''acme'') new_books))"
  have "snd ?r = Inr ()" by code_simp
  then have "?r = (fst ?r, Inr ())" by (metis prod.collapse)
  from edit_leaves_queue[OF this] show ?thesis by simp
qed

end
