(* ===== verification/Finance_Props.thy ===== *)
theory Finance_Props
  imports Invoice_Props
begin

text \<open>
  Revenue, prices and timers of the finance claw.
\<close>

section \<open>Revenue\<close>



text \<open>
  The weekly summary always reports no change to the week before: the total of that week is looked up
  in the file of a day, and no file of a day has one.
\<close>

theorem weekly_change_always_zero:
  assumes "claw_reachable sp s" and "spend_quiet sp" and "generate_weekly_summary v s = (s', Inr r)"
  shows "rv_pct r = 0"
proof -
  have sn: "snapshots_ok s" using books_reachable[OF assms(1,2)] by (simp add: books_ok_def)
  have "get_previous_week_total v s = 0"
  proof (cases "fn_history s (today v - (weekday (today v) + 7))")
    case None
    then show ?thesis by (simp add: get_previous_week_total_def)
  next
    case (Some f)
    then show ?thesis using sn
      by (cases f) (auto simp: get_previous_week_total_def load_json_def get_num_def snapshots_ok_def)
  qed
  moreover have "\<exists>w. rv_pct r = percent_change w (get_previous_week_total v s)"
    using assms(3) by (auto simp: generate_weekly_summary_def Let_def write_summary_def)
  ultimately show ?thesis by (auto simp: percent_change_def)
qed

theorem weekly_change_always_zero_witness:
  "rv_pct (projr (snd (generate_weekly_summary plain_env busy_books))) = 0"
proof -
  have "\<exists>r. snd (generate_weekly_summary plain_env s) = Inr r" for s
    by (simp add: generate_weekly_summary_def Let_def write_summary_def)
  then obtain r where "snd (generate_weekly_summary plain_env busy_books) = Inr r" by blast
  then have "generate_weekly_summary plain_env busy_books = (fst (generate_weekly_summary plain_env busy_books), Inr r)"
    by (simp add: prod_eq_iff)
  from weekly_change_always_zero[OF busy_reachable quiet_port_quiet this] show ?thesis
    using \<open>snd (generate_weekly_summary plain_env busy_books) = Inr r\<close> by simp
qed

section \<open>Prices\<close>

text \<open>
  On the tree as it is initialised every fallback estimate is zero, and so is the invoice of the project:
  the rules file is written with an hourly rate of 0, which wins over the default of the environment.
\<close>

theorem fresh_claw_prices_zero:
  assumes rules: "fn_rules s = map_of REQUIRED_FILES ''pricing/rules.json''"
    and offline: "fv_infer v ''scope_cost_estimation'' = Inl e" "fv_infer v ''invoice_generation'' = Inl e'"
    and priced: "handle_pricing_query v m s = (s1, q)" and project: "get_str m ''project_id'' [] = pid"
    and billed: "generate_invoice v pid cid s1 = (s2, r)"
  shows "(\<exists>est. q = Inr est \<and> pr_floor est = 0 \<and> pr_ceiling est = 0) \<and> (\<exists>i. r = Inr i \<and> inv_total i = 0)"
proof -
  let ?rules = "load_pricing_rules v s"
  have d: "fn_rules s = Some (Some [(''default_hourly_rate'', JInt 0), (''floor_multiplier'', JFloat (8 / 10)),
        (''ceiling_multiplier'', JFloat (3 / 2)), (''scope_weights'', JObj []), (''last_updated'', JNull)])"
    by (simp add: rules REQUIRED_FILES_def)
  have rate: "get_num ?rules ''default_hourly_rate'' 100 = 0"
    by (simp add: load_pricing_rules_def d dict_over_def get_num_def json_num_def Let_def)
  define est where "est = price_project v m ?rules (load_historical_calibration (get_str m ''complexity_estimate'' ''medium'') 10 s)"
  have z: "pr_floor est = 0" "pr_ceiling est = 0"
    by (simp_all add: est_def price_project_def offline(1) rule_based_fallback_def rate Let_def round2_def round_half_even_def)
  let ?t = "s\<lparr>fn_estimates := (fn_estimates s)(pid \<mapsto> Some (estimate_to_dict est))\<rparr>"
  let ?tail = "andthen (send_pricing_response v pid (pr_floor est) (pr_ceiling est) (pr_notes est) (pr_quality est)) (\<lambda>_.
     andthen (log_op v ''pricing_query_answered'' pid (Some (pr_floor est)) ''success''
       [(''data_quality'', JStr (pr_quality est)), (''history_used'', JInt (int (pr_history est)))]) (\<lambda>_. ok est))"
  have eq: "handle_pricing_query v m s = ?tail ?t"
    by (cases s) (simp add: handle_pricing_query_def est_def project fun_upd_def)
  have "quiet ?tail" by (intro quiet_andthen) simp_all
  from quietD[OF this, of ?t] have "same_books ?t s1" unfolding eq[symmetric] priced fst_conv .
  then have e1: "fn_estimates s1 pid = Some (Some (estimate_to_dict est))" by (simp add: same_books_def)
  have "snd (?tail ?t) = Inr est" by (simp add: andthen_sure)
  then have q: "q = Inr est" unfolding eq[symmetric] priced snd_conv .
  have load: "load_estimate pid s1 = (s1, Inr (estimate_to_dict est))" by (simp add: load_estimate_def e1)
  have "estimated_total (estimate_to_dict est) = 0"
    by (simp add: estimated_total_def get_num_def estimate_to_dict_def json_num_def z)
  then have lines: "sum_list (map li_total (invoice_lines v (estimate_to_dict est))) = 0"
    by (simp add: invoice_lines_def offline(2) Let_def)
  have "\<exists>i. snd (generate_invoice v pid cid s1) = Inr i \<and> inv_total i = 0"
    by (simp add: generate_invoice_def andthen_step load Let_def lines)
  then show ?thesis using q z billed by auto
qed

theorem fresh_claw_prices_zero_witness:
  "\<exists>i. snd (generate_invoice plain_env ''p1'' ''acme''
      (fst (handle_pricing_query plain_env [(''project_id'', JStr ''p1'')]
        (new_books\<lparr>fn_rules := map_of REQUIRED_FILES ''pricing/rules.json''\<rparr>)))) = Inr i \<and> inv_total i = 0"
proof -
  let ?s = "new_books\<lparr>fn_rules := map_of REQUIRED_FILES ''pricing/rules.json''\<rparr>"
  let ?m = "[(''project_id'', JStr ''p1'')]"
  obtain s1 q where a: "handle_pricing_query plain_env ?m ?s = (s1, q)" by fastforce
  obtain s2 r where b: "generate_invoice plain_env ''p1'' ''acme'' s1 = (s2, r)" by fastforce
  have "fn_rules ?s = map_of REQUIRED_FILES ''pricing/rules.json''" by simp
  from fresh_claw_prices_zero[OF this _ _ a _ b, of "''offline''" "''offline''"]
  have "\<exists>i. r = Inr i \<and> inv_total i = 0" by (simp add: plain_env_def get_str_def)
  then show ?thesis unfolding a fst_conv b snd_conv .
qed

section \<open>Timers\<close>

lemma div_mod_day: "0 \<le> off \<Longrightarrow> off < DAY \<Longrightarrow> (d * DAY + off) mod DAY = off" "0 \<le> off \<Longrightarrow> off < DAY \<Longrightarrow> (d * DAY + off) div DAY = d"
  by (simp_all add: mult.commute)

text \<open>
  C25. The time until a job is due is positive, at most a day (a week for a weekly job), and the job then falls on its
  hour and minute, and on its day of the week.
\<close>

theorem next_run_bounds:
  assumes "0 \<le> hour" "hour < 24" "0 \<le> minute" "minute < 60" and t: "t = time_until now hour minute wd"
  shows "0 < t \<and> t \<le> (if wd = None then DAY else 7 * DAY) \<and> (now + t) mod DAY = hour * HOUR + minute * 60000000
    \<and> (case wd of None \<Rightarrow> True | Some w \<Rightarrow> weekday ((now + t) div DAY) = w mod 7)"
proof -
  define d r off where "d = now div DAY" and "r = now mod DAY" and "off = hour * HOUR + minute * 60000000"
  have day: "DAY = 86400000000" "HOUR = 3600000000" by (simp_all add: DAY_def HOUR_def)
  have now: "now = d * DAY + r" by (simp add: d_def r_def)
  have r: "0 \<le> r" "r < DAY" by (simp_all add: r_def day)
  have off: "0 \<le> off" "off < DAY" using assms(1-4) by (simp_all add: off_def day)
  have target: "now div DAY * DAY + hour * HOUR + minute * 60000000 = d * DAY + off" by (simp add: d_def off_def)
  show ?thesis
  proof (cases wd)
    case None
    have tt: "t = (if d * DAY + off \<le> now then d * DAY + off + DAY else d * DAY + off) - now"
      unfolding t None time_until_def target Let_def by simp
    then have "now + t = (if d * DAY + off \<le> now then (d + 1) * DAY + off else d * DAY + off)" by (simp add: algebra_simps)
    then have "(now + t) mod DAY = off" using div_mod_day[OF off] by presburger
    moreover have "0 < t" "t \<le> DAY" using tt now r off by (simp_all split: if_splits)
    ultimately show ?thesis by (simp add: None off_def)
  next
    case (Some w)
    define k where "k = (w - weekday d) mod 7"
    define k' where "k' = (if k = 0 \<and> d * DAY + off \<le> now then 7 else k)"
    have k: "0 \<le> k" "k < 7" by (simp_all add: k_def)
    have tt: "t = d * DAY + off + k' * DAY - now"
      unfolding t Some time_until_def target Let_def k'_def k_def d_def by simp
    then have e: "now + t = (d + k') * DAY + off" by (simp add: algebra_simps)
    have "(now + t) mod DAY = off" "(now + t) div DAY = d + k'" unfolding e by (rule div_mod_day[OF off])+
    moreover have "weekday (d + k') = w mod 7"
    proof -
      have "k' mod 7 = (w - weekday d) mod 7" by (simp add: k'_def k_def)
      then have "(d + 3 + k') mod 7 = (d + 3 + (w - (d + 3) mod 7)) mod 7" unfolding weekday_def by (metis mod_add_right_eq)
      also have "d + 3 + (w - (d + 3) mod 7) = w + (d + 3) div 7 * 7"
        using div_mult_mod_eq[of "d + 3" 7] by linarith
      also have "\<dots> mod 7 = w mod 7" by simp
      finally show ?thesis by (simp add: weekday_def ac_simps)
    qed
    moreover have "0 < t \<and> t \<le> 7 * DAY"
    proof (cases "k = 0")
      case True
      then show ?thesis using tt now r off by (simp add: k'_def split: if_splits)
    next
      case False
      then have "1 \<le> k" "k \<le> 6" using k by simp_all
      then show ?thesis using tt now r off False by (simp add: k'_def day)
    qed
    ultimately show ?thesis by (simp add: Some off_def)
  qed
qed

theorem next_run_bounds_witness:
  "time_until (20000 * DAY) 3 0 (Some 6) = 2 * DAY + 3 * HOUR \<and> 0 < time_until (20000 * DAY) 3 0 (Some 6)"
  using next_run_bounds[of 3 0 "time_until (20000 * DAY) 3 0 (Some 6)" "20000 * DAY" "Some 6"]
  by (simp add: time_until_def DAY_def HOUR_def weekday_def)

text \<open>
  The check for missed jobs takes the oldest run it finds in the log of the last thirty days for the last
  one, so a daily check that ran an hour ago counts as missed when an older run is more than 36 hours back.
\<close>

theorem missed_check_takes_oldest:
  "last_run_seen action es = (case filter (\<lambda>e. fe_action e = action) es of [] \<Rightarrow> None | e # _ \<Rightarrow> Some (fe_time e))"
proof (induction es)
  case Nil
  then show ?case by (simp add: last_run_seen_def)
next
  case (Cons e es)
  then show ?case by (simp add: last_run_seen_def)
qed

definition daily_timers :: "fin_claw \<Rightarrow> nat" where
  "daily_timers c = length (filter (\<lambda>(j, _). j = DailyCheck) (fc_timers c))"

lemma andthen_on_store:
  "snd (m (fc_store c)) = Inr a \<Longrightarrow> andthen (on_store m) f c = f a (c\<lparr>fc_store := fst (m (fc_store c))\<rparr>)"
  by (cases "m (fc_store c)") (simp add: on_store_def andthen_def)

lemma attempt_sure: "(\<And>e s. snd (h e s) = Inr ()) \<Longrightarrow> snd (attempt m h s) = Inr ()" for m :: "(finance, unit) eff"
  by (cases "m s"; cases "snd (m s)") (simp_all add: attempt_def)

lemma reschedule_eq: "reschedule v j c =
   (if fc_running c then c\<lparr>fc_timers := fc_timers c @ [(j, fv_now v + job_delay (fv_now v) j)]\<rparr> else c, Inr ())"
  by (cases c) (simp add: reschedule_def schedule_job_def)

lemma daily_store [simp]: "daily_timers (c\<lparr>fc_store := s\<rparr>) = daily_timers c"
  by (simp add: daily_timers_def)

lemma daily_reschedule:
  "daily_timers (fst (reschedule v j c)) = daily_timers c + (if fc_running c \<and> j = DailyCheck then 1 else 0)"
  by (simp add: reschedule_eq daily_timers_def)

lemma daily_on_store:
  "daily_timers (fst (andthen (on_store m) (\<lambda>_. reschedule v j) c)) =
     daily_timers c + (if (\<exists>a. snd (m (fc_store c)) = Inr a) \<and> fc_running c \<and> j = DailyCheck then 1 else 0)"
proof (cases "m (fc_store c)")
  case (Pair s r)
  then show ?thesis by (cases r) (simp_all add: on_store_def andthen_def daily_reschedule)
qed

text \<open>A job sets one daily timer when it is the daily check, and none otherwise.\<close>

lemma run_job_daily:
  assumes "fc_running c"
  shows "daily_timers (fst (run_job v client j c)) = daily_timers c + (if j = DailyCheck then 1 else 0)"
proof (cases j)
  case DailyCheck
  define m where "m = attempt
       (andthen (check_all_sent_invoices v client) (\<lambda>_.
        andthen (check_and_flag_overdue v) (\<lambda>_.
        log_op v ''daily_payment_check_complete'' ''daily'' None ''success'' [(''duration_seconds'', JFloat 0)])))
       (\<lambda>e. log_op v ''daily_payment_check_failed'' ''daily'' None ''failed'' [(''error'', JStr (exn_text e))])"
  have "snd (m s) = Inr ()" for s unfolding m_def by (rule attempt_sure) simp
  then show ?thesis
    using assms by (simp add: DailyCheck run_job_def run_daily_payment_check_def m_def[symmetric] daily_on_store)
next
  case WeeklySummary
  then show ?thesis by (simp add: run_job_def run_weekly_summary_def daily_on_store)
next
  case QuarterlyCheck
  then show ?thesis by (simp add: run_job_def only_if_def daily_on_store daily_reschedule)
next
  case StalenessCheck
  then show ?thesis by (simp add: run_job_def daily_on_store)
qed

lemma running_on_store: "fc_running (fst (andthen (on_store m) (\<lambda>_. reschedule v k) c)) = fc_running c"
  by (cases "m (fc_store c)"; cases "snd (m (fc_store c))") (simp_all add: on_store_def andthen_def reschedule_eq)

lemma run_job_running: "fc_running (fst (run_job v client j c)) = fc_running c"
  by (cases j) (simp_all add: run_job_def run_daily_payment_check_def run_weekly_summary_def only_if_def reschedule_eq
      running_on_store)

lemma run_job_sure:
  "snd (run_job v client DailyCheck c) = Inr ()" "snd (run_job v client WeeklySummary c) = Inr ()"
proof -
  have "snd (andthen (on_store (attempt m h)) (\<lambda>_. reschedule v k) c) = Inr ()"
    if "\<And>e s. snd (h e s) = Inr ()" for m h k
    using attempt_sure[of h m "fc_store c"] that by (simp add: andthen_on_store reschedule_eq)
  then show "snd (run_job v client DailyCheck c) = Inr ()" "snd (run_job v client WeeklySummary c) = Inr ()"
    by (simp_all add: run_job_def run_daily_payment_check_def run_weekly_summary_def)
qed

lemma fire_keeps_daily:
  assumes "fc_running c"
  shows "daily_timers (fst (fire_timer v client k c)) = daily_timers c \<and> fc_running (fst (fire_timer v client k c))"
proof (cases "k < length (fc_timers c) \<and> snd (fc_timers c ! k) \<le> fv_now v")
  case True
  let ?c = "fc_timers_update (\<lambda>l. take k l @ drop (Suc k) l) c"
  have f: "fire_timer v client k c = run_job v client (fst (fc_timers c ! k)) ?c" using True by (simp add: fire_timer_def)
  have "length (filter P (fc_timers c)) = length (filter P (take k (fc_timers c) @ drop (Suc k) (fc_timers c))) + (if P (fc_timers c ! k) then 1 else 0)" for P
    by (subst id_take_nth_drop[of k "fc_timers c"]) (use True in auto)
  then have "daily_timers c = daily_timers ?c + (if fst (fc_timers c ! k) = DailyCheck then 1 else 0)"
    by (simp add: daily_timers_def case_prod_beta)
  then show ?thesis using run_job_daily[of ?c v client] assms f run_job_running[of v client _ ?c] by simp
next
  case False
  then show ?thesis using assms by (auto simp: fire_timer_def)
qed

text \<open>The timers that fire, in any order.\<close>

inductive timers_run :: "fin_claw \<Rightarrow> fin_claw \<Rightarrow> bool" for c where
  wait: "timers_run c c"
| fire: "timers_run c d \<Longrightarrow> timers_run c (fst (fire_timer v client k d))"

text \<open>
  Starting the scheduler where no daily check is in the log leaves two daily timers: one that was set at the
  start, and one the recovered check sets when it is done. A timer that fires sets its successor, so however long
  the claw runs there are two, and every daily check runs twice.
\<close>

theorem start_doubles_daily_timer:
  assumes "\<not> fc_running c" and "fc_timers c = []"
    and "last_run_seen ''daily_payment_check_complete'' (read_recent (fv_now v) 30 None (fn_oplog (fc_store c))) = None"
    and "timers_run (fst (scheduler_start v client c)) d"
  shows "daily_timers d = 2"
proof -
  define c1 where "c1 = c\<lparr>fc_running := True, fc_timers := map (\<lambda>j. (j, fv_now v + job_delay (fv_now v) j))
     [DailyCheck, WeeklySummary, QuarterlyCheck, StalenessCheck]\<rparr>"
  have start: "scheduler_start v client c = andthen (check_missed_jobs v client) (\<lambda>_.
     on_store (log_op v ''scheduler_started'' ''scheduler'' None ''success'' [])) c1"
    using assms(1,2) by (cases c) (simp add: scheduler_start_def schedule_job_def c1_def)
  have c1: "daily_timers c1 = 1" "fc_running c1" "fc_store c1 = fc_store c" by (simp_all add: c1_def daily_timers_def)
  define c2 where "c2 = fst (log_recovered_job v ''daily_payment_check'' 0 (fst (run_job v client DailyCheck c1)))"
  have c2: "daily_timers c2 = 2" "fc_running c2"
    using run_job_daily[OF c1(2), of v client DailyCheck] run_job_running[of v client DailyCheck c1] c1
    by (simp_all add: c2_def log_recovered_job_def on_store_def case_prod_beta)
  let ?es = "read_recent (fv_now v) 30 None (fn_oplog (fc_store c))"
  define m where "m = (case last_run_seen ''weekly_summary_complete'' ?es of
         Some t \<Rightarrow> only_if (8 * DAY < fv_now v - t)
           (andthen (run_weekly_summary v) (\<lambda>_.
            log_recovered_job v ''weekly_summary'' (of_int (fv_now v - t) / of_int DAY)))
       | None \<Rightarrow> ok ())"
  have "run_job v client DailyCheck = run_daily_payment_check v client" by (simp add: run_job_def fun_eq_iff)
  then have "check_missed_jobs v client c1 = m c2"
    using run_job_sure(1)[of v client c1]
    by (simp add: check_missed_jobs_def c1(3) assms(3) m_def c2_def andthen_sure log_recovered_job_def andthen_on_store on_store_def case_prod_beta)
  moreover have "daily_timers (fst (m c2)) = 2 \<and> fc_running (fst (m c2)) \<and> snd (m c2) = Inr ()"
  proof -
    have w: "run_weekly_summary v = run_job v client WeeklySummary" by (simp add: run_job_def fun_eq_iff)
    have "daily_timers (fst (run_job v client WeeklySummary c2)) = 2" "fc_running (fst (run_job v client WeeklySummary c2))"
      using run_job_daily[OF c2(2), of v client WeeklySummary] run_job_running[of v client WeeklySummary c2] c2 by simp_all
    then show ?thesis using c2 run_job_sure(2)[of v client c2]
      by (simp add: m_def only_if_def w andthen_sure log_recovered_job_def on_store_def case_prod_beta split: option.split)
  qed
  ultimately have s: "daily_timers (fst (scheduler_start v client c)) = 2" "fc_running (fst (scheduler_start v client c))"
    by (simp_all add: start andthen_sure on_store_def case_prod_beta)
  from assms(4) have "daily_timers d = 2 \<and> fc_running d"
  proof (induction rule: timers_run.induct)
    case wait
    then show ?case using s by simp
  next
    case (fire d v client k)
    then show ?case using fire_keeps_daily[of d v client k] by simp
  qed
  then show ?thesis by simp
qed

theorem start_doubles_daily_timer_witness:
  "daily_timers (fst (scheduler_start plain_env None
     \<lparr>fc_store = new_books, fc_running = False, fc_timers = [], fc_initialized = False, fc_components = True\<rparr>)) = 2"
  by (rule start_doubles_daily_timer[OF _ _ _ timers_run.wait])
    (simp_all add: new_books_def read_recent_def last_run_seen_def)

end
