(* ===== verification/Claw_Props.thy ===== *)
theory Claw_Props
  imports Finance_Props
begin

text \<open>
  What the messages of the finance claw come to: the ones nobody can serve, the totals of expenses by category, and what the
  contract of the mesh lets through.
\<close>

section \<open>Messages nobody can serve\<close>

lemma in_store_fst: "in_store m (s, d) = ((fst (m s), d), snd (m s))"
  by (simp add: in_store_def split: prod.split)

text \<open>
  The decisions of the War Room that reach the claw as messages are never carried out: \<^verbatim>\<open>hold_release\<close>,
  \<^verbatim>\<open>review_approve\<close> and \<^verbatim>\<open>review_reject\<close> call methods that do not exist, so the answer is an error and
  nothing but the operational log changes.
\<close>

theorem war_room_messages_fail:
  assumes "fc_components c" and "get_str raw ''message_type'' [] \<in> {''hold_release'', ''review_approve'', ''review_reject''}"
    and "handle_inbound v sp raw c = (c', d)"
  shows "map_of d ''status'' = Some (JStr ''error'') \<and> (\<exists>l. c' = c\<lparr>fc_store := (fc_store c)\<lparr>fn_oplog := fn_oplog (fc_store c) @ l\<rparr>\<rparr>)"
proof -
  let ?mt = "get_str raw ''message_type'' []"
  let ?b = "inbound_body v sp True ?mt"
  have body: "\<exists>e. \<forall>sender mid body st. inbound_body v sp True ?mt sender mid body st = (st, Inl e)"
    using assms(2) by (elim insertE) (auto simp: inbound_body_def no_method_def)
  then obtain e where e: "\<And>sender mid body st. inbound_body v sp True ?mt sender mid body st = (st, Inl e)" by blast
  let ?sd = "get_str raw ''sender_role'' []"
  define s1 where "s1 = fst (log_op v ''message_received'' ?mt None ''processing'' [(''sender'', JStr ?sd)] (fc_store c))"
  define s2 where "s2 = fst (log_op v ''message_handler_error'' ?mt None ''failed'' [(''error'', JStr (exn_text e)), (''sender'', JStr ?sd)] s1)"
  have "handle_inbound v sp raw c = (c\<lparr>fc_store := s2\<rparr>,
      AList.update ''error'' (JStr (exn_text e)) (AList.update ''status'' (JStr ''error'')
        [(''status'', JStr ''processed''), (''message_type'', JStr ?mt), (''role'', JStr ''finance'')]))"
    using assms(1) by (simp add: handle_inbound_def Let_def e attempt_def andthen_def in_store_fst set_text_def set_key_def
        s1_def s2_def del: AList.update.simps)
  then have c': "c' = c\<lparr>fc_store := s2\<rparr>" and d: "d = AList.update ''error'' (JStr (exn_text e)) (AList.update ''status'' (JStr ''error'')
        [(''status'', JStr ''processed''), (''message_type'', JStr ?mt), (''role'', JStr ''finance'')])" using assms(3) by auto
  have "s2 = (fc_store c)\<lparr>fn_oplog := fn_oplog s2\<rparr>" "\<exists>l. fn_oplog s2 = fn_oplog (fc_store c) @ l"
    by (simp_all add: s2_def s1_def log_op_fst)
  then have "\<exists>l. c' = c\<lparr>fc_store := (fc_store c)\<lparr>fn_oplog := fn_oplog (fc_store c) @ l\<rparr>\<rparr>" using c' by metis
  then show ?thesis using d by simp
qed

section \<open>Expenses\<close>

definition category_total :: "finance \<Rightarrow> string \<Rightarrow> rat" where
  "category_total s c = get_num (load_json (map_of (fn_categories s) c) []) ''total'' 0"

definition expenses_total :: "expense_entry list \<Rightarrow> string \<Rightarrow> rat" where
  "expenses_total es c = sum_list (map (\<lambda>e. if ex_category e = c then ex_amount e else 0) es)"

definition expenses_ok :: "finance \<Rightarrow> bool" where
  "expenses_ok s \<longleftrightarrow> (\<exists>es. fn_expenses s = map (\<lambda>e. Some (expense_to_dict e)) es \<and> distinct (map ex_id es)
     \<and> (\<forall>e \<in> set es. 0 \<le> ex_amount e \<and> ex_category e \<noteq> []) \<and> (\<forall>c. category_total s c = expenses_total es c))"

lemma category_read:
  "category_total s c = (case map_of (fn_categories s) c of Some (Some d) \<Rightarrow> get_num d ''total'' 0 | _ \<Rightarrow> 0)"
  by (cases "map_of (fn_categories s) c"; cases "the (map_of (fn_categories s) c)")
    (simp_all add: category_total_def load_json_def get_num_def)

text \<open>The summary files of the update and the decrement, seen through their totals.\<close>

lemma category_put:
  "category_total (fn_categories_update (AList.update c (Some d)) s) x = (if x = c then get_num d ''total'' 0 else category_total s x)"
  by (simp add: category_read update_conv')

lemma total_put: "get_num (AList.update k y (AList.update ''count'' x (AList.update ''total'' (JFloat r) d))) ''total'' 0 = r"
  if "k \<noteq> ''total''"
  using that by (simp add: get_num_def update_conv' json_num_def)

lemma category_update:
  "category_total (fst (update_category_summary v c a s)) d = category_total s d + (if d = c then a else 0)"
  "fn_expenses (fst (update_category_summary v c a s)) = fn_expenses s"
  "snd (update_category_summary v c a s) = Inr ()"
proof -
  let ?d = "load_json (map_of (fn_categories s) c) [(''total'', JInt 0), (''count'', JInt 0), (''last_updated'', JNull)]"
  have t: "get_num ?d ''total'' 0 = category_total s c"
    by (cases "map_of (fn_categories s) c"; cases "the (map_of (fn_categories s) c)")
      (simp_all add: category_read load_json_def get_num_def json_num_def)
  show "category_total (fst (update_category_summary v c a s)) d = category_total s d + (if d = c then a else 0)"
    by (simp add: update_category_summary_def Let_def category_put total_put t)
qed (simp_all add: update_category_summary_def Let_def)

lemma category_decrement:
  assumes "0 \<le> a"
  shows "category_total (fst (decrement_category_summary v c a s)) d
      = (if d = c then max 0 (category_total s c - a) else category_total s d)"
    "fn_expenses (fst (decrement_category_summary v c a s)) = fn_expenses s"
    "snd (decrement_category_summary v c a s) = Inr ()"
proof -
  consider "map_of (fn_categories s) c = None" | "map_of (fn_categories s) c = Some None"
    | e where "map_of (fn_categories s) c = Some (Some e)" by (cases "map_of (fn_categories s) c"; force)
  note cases = this
  show "category_total (fst (decrement_category_summary v c a s)) d
      = (if d = c then max 0 (category_total s c - a) else category_total s d)"
    by (cases rule: cases) (use assms in \<open>simp_all add: decrement_category_summary_def Let_def category_put total_put category_read[of s c]\<close>)
  show "fn_expenses (fst (decrement_category_summary v c a s)) = fn_expenses s"
    "snd (decrement_category_summary v c a s) = Inr ()"
    by (cases rule: cases; simp add: decrement_category_summary_def Let_def)+
qed

definition relabel :: "string \<Rightarrow> string \<Rightarrow> expense_entry \<Rightarrow> expense_entry" where
  "relabel eid c e = (if ex_id e = eid then e\<lparr>ex_category := c\<rparr> else e)"

lemma recategorize_line_entry:
  "recategorize_line eid c found (Some (expense_to_dict e)) =
     (Some (expense_to_dict (relabel eid c e)), if ex_id e = eid then (ex_category e, ex_amount e) else found)"
  by (simp add: recategorize_line_def expense_to_dict_def relabel_def get_str_def get_num_def json_num_def)

lemma relabel_amount:
  "ex_id (relabel eid c e) = ex_id e" "ex_amount (relabel eid c e) = ex_amount e"
  "ex_category (relabel eid c e) = (if ex_id e = eid then c else ex_category e)"
  by (simp_all add: relabel_def)

lemma relabel_other: "ex_id e \<noteq> eid \<Longrightarrow> relabel eid c e = e"
  by (simp add: relabel_def)

lemma recategorize_lines_entries:
  "distinct (map ex_id es) \<Longrightarrow> recategorize_lines eid c found (map (\<lambda>e. Some (expense_to_dict e)) es) =
     (map (\<lambda>e. Some (expense_to_dict (relabel eid c e))) es,
      case find (\<lambda>e. ex_id e = eid) es of Some e \<Rightarrow> (ex_category e, ex_amount e) | None \<Rightarrow> found)"
proof (induction es arbitrary: found)
  case Nil
  then show ?case by simp
next
  case (Cons e es)
  show ?case
  proof (cases "ex_id e = eid")
    case True
    then have "find (\<lambda>e. ex_id e = eid) es = None" using Cons.prems by (simp add: find_None_iff) (metis image_eqI)
    then show ?thesis using Cons True by (simp add: recategorize_line_entry)
  next
    case False
    then show ?thesis using Cons by (simp add: recategorize_line_entry)
  qed
qed

lemma expenses_total_Cons:
  "expenses_total (e # es) d = (if ex_category e = d then ex_amount e else 0) + expenses_total es d"
  by (simp add: expenses_total_def)

lemma expenses_total_snoc: "expenses_total (es @ [e]) d = expenses_total es d + (if ex_category e = d then ex_amount e else 0)"
  by (simp add: expenses_total_def)

lemma expenses_total_relabel:
  "distinct (map ex_id es) \<Longrightarrow> expenses_total (map (relabel eid c) es) d =
     (case find (\<lambda>e. ex_id e = eid) es of None \<Rightarrow> expenses_total es d
      | Some e \<Rightarrow> expenses_total es d - (if ex_category e = d then ex_amount e else 0) + (if c = d then ex_amount e else 0))"
proof (induction es)
  case Nil
  then show ?case by simp
next
  case (Cons e es)
  show ?case
  proof (cases "ex_id e = eid")
    case True
    have "\<forall>x \<in> set es. ex_id x \<noteq> eid"
    proof
      fix x assume "x \<in> set es"
      then have "ex_id x \<in> ex_id ` set es" by (rule imageI)
      then show "ex_id x \<noteq> eid" using Cons.prems True by auto
    qed
    then have "map (relabel eid c) es = es" by (simp add: map_idI relabel_other)
    then show ?thesis using True by (simp add: expenses_total_Cons relabel_amount)
  next
    case False
    then show ?thesis using Cons by (simp add: expenses_total_Cons relabel_amount split: option.split)
  qed
qed

lemma expenses_total_bound:
  "\<forall>e \<in> set es. 0 \<le> ex_amount e \<Longrightarrow> 0 \<le> expenses_total es d"
  "\<forall>e \<in> set es. 0 \<le> ex_amount e \<Longrightarrow> x \<in> set es \<Longrightarrow> ex_amount x \<le> expenses_total es (ex_category x)"
proof (induction es)
  case Nil
  {
    case 1
    then show ?case by (simp add: expenses_total_def)
  next
    case 2
    then show ?case by simp
  }
next
  case (Cons e es)
  {
    case 1
    then show ?case using Cons.IH(1) by (simp add: expenses_total_Cons)
  next
    case 2
    have nn: "0 \<le> expenses_total es y" for y
      using 2(1) by (auto simp: expenses_total_def intro!: sum_list_nonneg)
    show ?case
    proof (cases "x = e")
      case True
      then show ?thesis using nn by (simp add: expenses_total_Cons)
    next
      case False
      then have "ex_amount x \<le> expenses_total es (ex_category x)" using Cons.IH(2) 2 by simp
      then show ?thesis using 2(1) by (simp add: expenses_total_Cons)
    qed
  }
qed

text \<open>The two operations on the log of expenses; an amount is not negative, an identifier is fresh, a category is not empty.\<close>

inductive expense_step :: "finance \<Rightarrow> finance \<Rightarrow> bool" where
  log: "0 \<le> amount \<Longrightarrow> (\<And>d. Some d \<in> set (fn_expenses s) \<Longrightarrow> get_str d ''expense_id'' [] \<noteq> ''exp-'' @ take 8 (fv_hex v))
    \<Longrightarrow> expense_step s (fst (log_expense v about amount date source s))"
| move: "category \<noteq> [] \<Longrightarrow> expense_step s (fst (recategorize_expense v eid category s))"

inductive expenses_reached :: "finance \<Rightarrow> bool" where
  empty: "fn_expenses s = [] \<Longrightarrow> fn_categories s = [] \<Longrightarrow> expenses_reached s"
| more: "expenses_reached s \<Longrightarrow> expense_step s t \<Longrightarrow> expenses_reached t"

lemma classify_nonempty: "classify_expense v \<noteq> []"
proof -
  have "c \<noteq> []" if "find P TAX_CATEGORIES = Some c" for P c
  proof -
    have "c \<in> set TAX_CATEGORIES" using that unfolding find_Some_iff by (auto simp del: nth_mem intro: nth_mem)
    then show ?thesis by (auto simp: TAX_CATEGORIES_def)
  qed
  then show ?thesis by (simp add: classify_expense_def split: sum.split option.split)
qed

lemma log_expense_ok:
  assumes "expenses_ok s" and "0 \<le> amount"
    and fresh: "\<And>d. Some d \<in> set (fn_expenses s) \<Longrightarrow> get_str d ''expense_id'' [] \<noteq> ''exp-'' @ take 8 (fv_hex v)"
  shows "expenses_ok (fst (log_expense v about amount date source s))"
proof -
  from assms(1) obtain es where es: "fn_expenses s = map (\<lambda>e. Some (expense_to_dict e)) es" "distinct (map ex_id es)"
    "\<forall>e \<in> set es. 0 \<le> ex_amount e \<and> ex_category e \<noteq> []" "\<And>c. category_total s c = expenses_total es c"
    unfolding expenses_ok_def by blast
  define e where "e = \<lparr>ex_id = ''exp-'' @ take 8 (fv_hex v), ex_description = about, ex_amount = amount, ex_currency = ''USD'',
               ex_date = date, ex_category = classify_expense v, ex_source = source, ex_logged = fv_now v\<rparr>"
  define s1 where "s1 = fn_expenses_update (\<lambda>l. l @ [Some (expense_to_dict e)]) s"
  define s2 where "s2 = fst (update_category_summary v (ex_category e) amount s1)"
  have r: "update_category_summary v (ex_category e) amount s1 = (s2, Inr ())"
    using category_update(3)[of v "ex_category e" amount s1] by (simp add: s2_def prod_eq_iff)
  have "log_expense v about amount date source = andthen (upd (fn_expenses_update (\<lambda>l. l @ [Some (expense_to_dict e)]))) (\<lambda>_.
         andthen (update_category_summary v (ex_category e) amount) (\<lambda>_.
         andthen (log_op v ''expense_logged'' (ex_id e) (Some amount) ''success''
           [(''category'', JStr (ex_category e)), (''source'', JStr source)]) (\<lambda>_. ok e)))"
    by (simp only: log_expense_def Let_def e_def)
  then have fin: "fst (log_expense v about amount date source s) = fst (log_op v ''expense_logged'' (ex_id e) (Some amount) ''success''
           [(''category'', JStr (ex_category e)), (''source'', JStr source)] s2)"
    using r by (simp add: s1_def[symmetric] andthen_step log_op_def)
  have ct: "category_total (fst (log_op v a b x y z s2)) c = category_total s2 c" for a b x y z c
    by (simp add: log_op_def category_read)
  have ex: "fn_expenses (fst (log_op v a b x y z s2)) = map (\<lambda>e. Some (expense_to_dict e)) (es @ [e])" for a b x y z
    by (simp add: log_op_def s2_def category_update(2) s1_def es(1))
  have new: "ex_id e \<notin> set (map ex_id es)"
  proof
    assume "ex_id e \<in> set (map ex_id es)"
    then obtain x where "x \<in> set es" "ex_id x = ex_id e" by auto
    have "Some (expense_to_dict x) \<in> set (fn_expenses s)" unfolding es(1) set_map using \<open>x \<in> set es\<close> by (rule imageI)
    from fresh[OF this] \<open>ex_id x = ex_id e\<close> show False by (simp add: e_def expense_to_dict_def get_str_def)
  qed
  have "category_total s1 c = expenses_total es c" for c using es(4) by (simp add: s1_def category_read)
  then have tot2: "category_total s2 c = expenses_total es c + (if c = ex_category e then amount else 0)" for c
    by (simp add: s2_def category_update(1))
  have am: "ex_amount e = amount" by (simp add: e_def)
  show ?thesis
    unfolding expenses_ok_def fin
  proof (intro exI[of _ "es @ [e]"] conjI ballI allI)
    show "fn_expenses (fst (log_op v ''expense_logged'' (ex_id e) (Some amount) ''success''
      [(''category'', JStr (ex_category e)), (''source'', JStr source)] s2)) = map (\<lambda>e. Some (expense_to_dict e)) (es @ [e])"
      by (rule ex)
    show "distinct (map ex_id (es @ [e]))" using es(2) new by simp
    show "0 \<le> ex_amount x" "ex_category x \<noteq> []" if "x \<in> set (es @ [e])" for x
      using that es(3) assms(2) by (auto simp: e_def classify_nonempty)
    fix c
    show "category_total (fst (log_op v ''expense_logged'' (ex_id e) (Some amount) ''success''
      [(''category'', JStr (ex_category e)), (''source'', JStr source)] s2)) c = expenses_total (es @ [e]) c"
      unfolding ct expenses_total_snoc using tot2 am by simp
  qed
qed

lemma recategorize_ok:
  assumes "expenses_ok s" and "category \<noteq> []"
  shows "expenses_ok (fst (recategorize_expense v eid category s))"
proof -
  from assms(1) obtain es where es: "fn_expenses s = map (\<lambda>e. Some (expense_to_dict e)) es" "distinct (map ex_id es)"
    "\<forall>e \<in> set es. 0 \<le> ex_amount e \<and> ex_category e \<noteq> []" "\<And>c. category_total s c = expenses_total es c"
    unfolding expenses_ok_def by blast
  define hit where "hit = find (\<lambda>e. ex_id e = eid) es"
  define old amount where "old = (case hit of Some e \<Rightarrow> ex_category e | None \<Rightarrow> [])"
    and "amount = (case hit of Some e \<Rightarrow> ex_amount e | None \<Rightarrow> 0)"
  define es' where "es' = map (relabel eid category) es"
  define s1 where "s1 = fn_expenses_update (\<lambda>_. map (\<lambda>e. Some (expense_to_dict e)) es') s"
  have lines: "recategorize_lines eid category ([], 0) (fn_expenses s) = (map (\<lambda>e. Some (expense_to_dict e)) es', (old, amount))"
    by (simp add: es(1) recategorize_lines_entries[OF es(2)] es'_def old_def amount_def hit_def split: option.split)
  have hit: "e \<in> set es \<and> ex_id e = eid" if "hit = Some e" for e
    using that by (auto simp: hit_def find_Some_iff)
  have am: "0 \<le> amount" using hit es(3) by (auto simp: amount_def split: option.split)
  define m where "m = only_if (old \<noteq> []) (decrement_category_summary v old amount)"
  define s2 where "s2 = fst (m s1)"
  have m: "m s1 = (s2, Inr ())" "fn_expenses s2 = fn_expenses s1"
    "category_total s2 d = (if old \<noteq> [] \<and> d = old then max 0 (category_total s1 old - amount) else category_total s1 d)" for d
    using category_decrement[OF am, of v old s1] by (simp_all add: m_def s2_def only_if_def prod_eq_iff)
  define s3 where "s3 = fst (update_category_summary v category amount s2)"
  have u: "update_category_summary v category amount s2 = (s3, Inr ())"
    using category_update(3)[of v category amount s2] by (simp add: s3_def prod_eq_iff)
  have fin: "fst (recategorize_expense v eid category s) = fst (log_op v ''expense_recategorized'' eid (Some amount) ''success''
       [(''old_category'', JStr old), (''new_category'', JStr category)] s3)"
    using m(1) u by (simp add: recategorize_expense_def lines s1_def[symmetric] m_def[symmetric] andthen_step)
  have s1: "category_total s1 d = expenses_total es d" for d using es(4) by (simp add: s1_def category_read)
  have tot: "category_total s3 d = expenses_total es' d" for d
  proof (cases hit)
    case None
    then have "expenses_total es' d = expenses_total es d"
      using expenses_total_relabel[OF es(2), of eid category d] by (simp add: es'_def hit_def)
    then show ?thesis using None s1 by (simp add: s3_def category_update(1) m(3) old_def amount_def)
  next
    case (Some e)
    have o: "old = ex_category e" "amount = ex_amount e" "old \<noteq> []" using Some hit[OF Some] es(3) by (simp_all add: old_def amount_def)
    have "amount \<le> expenses_total es old" using expenses_total_bound(2)[of es e] hit[OF Some] es(3) by (simp add: o)
    then show ?thesis using Some o(3) expenses_total_relabel[OF es(2), of eid category d]
      by (simp add: s3_def category_update(1) m(3) s1 es'_def hit_def[symmetric] o(1,2))
  qed
  have "distinct (map ex_id es')" using es(2) by (simp add: es'_def relabel_amount comp_def)
  moreover have "\<forall>e \<in> set es'. 0 \<le> ex_amount e \<and> ex_category e \<noteq> []" using es(3) assms(2) by (simp add: es'_def relabel_amount)
  moreover have "fn_expenses (fst (log_op v a b x y z s3)) = map (\<lambda>e. Some (expense_to_dict e)) es'" for a b x y z
    by (simp add: log_op_def s3_def category_update(2) m(2) s1_def)
  moreover have "category_total (fst (log_op v a b x y z s3)) d = expenses_total es' d" for a b x y z d
    using tot by (simp add: log_op_def category_read)
  ultimately show ?thesis unfolding fin expenses_ok_def by blast
qed

text \<open>
  The category summaries add up: whatever is logged and recategorised, the total of a category is the sum of the amounts
  of the expenses that the log now files under it.
\<close>

theorem category_totals_add_up:
  assumes "expenses_reached s"
  shows "\<exists>es. fn_expenses s = map (\<lambda>e. Some (expense_to_dict e)) es \<and> category_total s c = expenses_total es c"
proof -
  from assms have "expenses_ok s"
  proof (induction rule: expenses_reached.induct)
    case (empty s)
    then show ?case by (auto simp: expenses_ok_def category_read expenses_total_def intro!: exI[of _ "[]"])
  next
    case (more s t)
    from more.hyps(2) show ?case
    proof (cases rule: expense_step.cases)
      case (log amount v about date source)
      then show ?thesis using log_expense_ok[OF more.IH log(2) log(3)] by simp
    next
      case (move category v eid)
      then show ?thesis using recategorize_ok[OF more.IH move(2)] by simp
    qed
  qed
  then show ?thesis unfolding expenses_ok_def by blast
qed

section \<open>The messages of the claw and the contract\<close>

text \<open>A message as the gateway sends it, and a gateway that takes what the shipped contract validates.\<close>

definition as_claw_message :: "string \<Rightarrow> string \<Rightarrow> fin_msg \<Rightarrow> claw_message" where
  "as_claw_message squad stamp m =
     \<lparr>sender_role = ''finance'', recipient_role = fm_recipient m, message_type = fm_type m, payload = fm_payload m,
      squad_id = squad, message_id = fm_id m, timestamp = stamp\<rparr>"

definition contract_gateway :: "fin_env \<Rightarrow> bool" where
  "contract_gateway v \<longleftrightarrow> (\<exists>squad stamp. \<forall>m. (fv_gateway v m = None) = valid (validate shipped_validator (as_claw_message squad stamp m)))"

lemma dispatch_effect:
  "fn_outbox (fst (dispatch_send v t r b s)) =
     fn_outbox s @ (let m = \<lparr>fm_type = t, fm_recipient = r, fm_payload = b, fm_id = fv_msg_id v (fn_sends s), fm_time = fv_now v\<rparr>
                    in if fv_gateway v m = None then [m] else [])"
  "snd (dispatch_send v t r b s) = Inr ()"
  by (simp_all add: dispatch_send_def Let_def log_op_def split: option.split)

lemma send_then_log:
  "fn_outbox (fst (andthen (dispatch_send v t r b) (\<lambda>_. log_op v a i x o' d) s)) = fn_outbox (fst (dispatch_send v t r b s))"
  "\<exists>l. fn_oplog (fst (andthen (dispatch_send v t r b) (\<lambda>_. log_op v a i x o' d) s)) = l @ [Some \<lparr>fe_time = fv_now v, fe_action = a,
     fe_entity = i, fe_amount = x, fe_outcome = o', fe_details = d\<rparr>]"
  using dispatch_effect(2)[of v t r b s] by (simp_all add: andthen_sure log_op_def)

lemma contract_routes:
  "''pricing_response'' \<in> set (get_allowed_types shipped_validator ''finance'' ''ops'')"
  "''invoice_ready'' \<in> set (get_allowed_types shipped_validator ''finance'' ''ops'')"
  "''revenue_summary'' \<in> set (get_allowed_types shipped_validator ''finance'' ''analytics'')"
  "''payment_overdue'' \<notin> set (get_allowed_types shipped_validator ''finance'' ''ops'')"
  by code_simp+

lemmas contract_eval = as_claw_message_def validate_def validate_payload_schema_def result_def Let_def VALID_SENDERS_def
  VALID_ROLES_def VALID_RECIPIENTS_def VALID_MESSAGE_TYPES_def MESSAGE_TYPE_SCHEMAS_def schemas_1_def schemas_2_def schemas_3_def
  schemas_4_def schemas_5_def schema_def bad_role_def missing_fields_def forgive_def has_field_def

lemma overdue_refused: "\<not> valid (validate shipped_validator (as_claw_message sq st
     \<lparr>fm_type = ''payment_overdue'', fm_recipient = ''ops'', fm_payload = b, fm_id = i, fm_time = t\<rparr>))"
  by (simp add: as_claw_message_def validate_def contract_routes result_def Let_def)

lemma valid_pricing: "valid (validate shipped_validator (as_claw_message sq st
     \<lparr>fm_type = ''pricing_response'', fm_recipient = ''ops'', fm_payload =
       [(''project_id'', a), (''floor_price'', b), (''ceiling_price'', c), (''scope_notes'', d), (''data_quality'', e)],
      fm_id = i, fm_time = t\<rparr>))"
  using contract_routes(1) by (simp add: contract_eval)

lemma valid_invoice: "valid (validate shipped_validator (as_claw_message sq st
     \<lparr>fm_type = ''invoice_ready'', fm_recipient = ''ops'', fm_payload =
       [(''project_id'', a), (''client_id'', b), (''amount'', c), (''invoice_id'', d), (''due_date'', e)],
      fm_id = i, fm_time = t\<rparr>))"
  using contract_routes(2) by (simp add: contract_eval)

lemma valid_revenue: "valid (validate shipped_validator (as_claw_message sq st
     \<lparr>fm_type = ''revenue_summary'', fm_recipient = ''analytics'', fm_payload =
       [(''week_total'', a), (''week_over_week_pct'', b), (''invoices_paid'', c), (''invoices_pending'', d)],
      fm_id = i, fm_time = t\<rparr>))"
  using contract_routes(3) by (simp add: contract_eval)

text \<open>
  Where the gateway takes exactly what the shipped contract validates, the alert on an overdue invoice is never delivered: no route
  from finance to ops carries its type. The claw still logs it as sent with success. The other messages of the claw (a price, an
  invoice, the revenue of the week) pass the contract and are delivered.
\<close>

theorem overdue_alert_lost:
  assumes "contract_gateway v"
  shows "fn_outbox (fst (send_payment_overdue v cid iid days amount level s)) = fn_outbox s
    \<and> (\<exists>l e. fn_oplog (fst (send_payment_overdue v cid iid days amount level s)) = l @ [Some e]
         \<and> fe_action e = ''payment_overdue_sent'' \<and> fe_outcome e = ''success'')
    \<and> map fm_type (fn_outbox (fst (send_pricing_response v pid lo hi notes quality s))) = map fm_type (fn_outbox s) @ [''pricing_response'']
    \<and> map fm_type (fn_outbox (fst (send_invoice_ready v i s))) = map fm_type (fn_outbox s) @ [''invoice_ready'']
    \<and> map fm_type (fn_outbox (fst (send_revenue_summary v week pct paid waiting s))) = map fm_type (fn_outbox s) @ [''revenue_summary'']"
proof -
  obtain sq st where g: "\<And>m. (fv_gateway v m = None) = valid (validate shipped_validator (as_claw_message sq st m))"
    using assms unfolding contract_gateway_def by blast
  have "fn_outbox (fst (send_payment_overdue v cid iid days amount level s)) = fn_outbox s"
    by (simp add: send_payment_overdue_def send_then_log(1) dispatch_effect(1) Let_def g overdue_refused)
  moreover have "\<exists>l e. fn_oplog (fst (send_payment_overdue v cid iid days amount level s)) = l @ [Some e]
         \<and> fe_action e = ''payment_overdue_sent'' \<and> fe_outcome e = ''success''"
    unfolding send_payment_overdue_def by (rule exE[OF send_then_log(2)]) (intro exI conjI, assumption, simp_all)
  moreover have "map fm_type (fn_outbox (fst (send_pricing_response v pid lo hi notes quality s))) = map fm_type (fn_outbox s) @ [''pricing_response'']"
    by (simp add: send_pricing_response_def send_then_log(1) dispatch_effect(1) Let_def g valid_pricing)
  moreover have "map fm_type (fn_outbox (fst (send_invoice_ready v i s))) = map fm_type (fn_outbox s) @ [''invoice_ready'']"
    by (simp add: send_invoice_ready_def send_then_log(1) dispatch_effect(1) Let_def g valid_invoice)
  moreover have "map fm_type (fn_outbox (fst (send_revenue_summary v week pct paid waiting s))) = map fm_type (fn_outbox s) @ [''revenue_summary'']"
    by (simp add: send_revenue_summary_def send_then_log(1) dispatch_effect(1) Let_def g valid_revenue)
  ultimately show ?thesis by blast
qed

theorem overdue_alert_lost_witness:
  "fn_outbox (fst (send_payment_overdue (plain_env\<lparr>fv_gateway := \<lambda>m. if valid (validate shipped_validator (as_claw_message ''sq'' ''now'' m))
      then None else Some ''refused''\<rparr>) ''acme'' ''inv-1'' 3 100 ''low'' new_books)) = []"
proof -
  let ?v = "plain_env\<lparr>fv_gateway := \<lambda>m. if valid (validate shipped_validator (as_claw_message ''sq'' ''now'' m)) then None else Some ''refused''\<rparr>"
  have "contract_gateway ?v" unfolding contract_gateway_def by (rule exI[of _ "''sq''"], rule exI[of _ "''now''"]) simp
  from overdue_alert_lost[OF this, of "''acme''" "''inv-1''" 3 100 "''low''" new_books] show ?thesis by (simp add: new_books_def)
qed

theorem category_totals_add_up_witness:
  "\<exists>es. fn_expenses (fst (log_expense plain_env ''paper'' 12 20000 ''manual'' new_books)) = map (\<lambda>e. Some (expense_to_dict e)) es
     \<and> category_total (fst (log_expense plain_env ''paper'' 12 20000 ''manual'' new_books)) ''uncategorized'' = expenses_total es ''uncategorized''"
proof (rule category_totals_add_up[OF expenses_reached.more[OF expenses_reached.empty]])
  show "expense_step new_books (fst (log_expense plain_env ''paper'' 12 20000 ''manual'' new_books))"
    by (rule expense_step.log) (simp_all add: new_books_def)
qed (simp_all add: new_books_def)

theorem war_room_messages_fail_witness:
  "map_of (snd (handle_inbound plain_env quiet_port [(''message_type'', JStr ''hold_release'')]
     \<lparr>fc_store = new_books, fc_running = True, fc_timers = [], fc_initialized = True, fc_components = True\<rparr>)) ''status''
   = Some (JStr ''error'')"
proof -
  let ?c = "\<lparr>fc_store = new_books, fc_running = True, fc_timers = [], fc_initialized = True, fc_components = True\<rparr>"
  obtain c' d where e: "handle_inbound plain_env quiet_port [(''message_type'', JStr ''hold_release'')] ?c = (c', d)" by fastforce
  have "fc_components ?c" "get_str [(''message_type'', JStr ''hold_release'')] ''message_type'' []
      \<in> {''hold_release'', ''review_approve'', ''review_reject''}" by (simp_all add: get_str_def)
  from war_room_messages_fail[OF this e] show ?thesis by (simp add: e)
qed

end
