(* ===== verification/Client_Props.thy ===== *)
theory Client_Props
  imports Claw_Props
begin

text \<open>
  The Stripe client (what its command line is asked, which webhooks it accepts) and the tree of files the finance claw
  initialises.
\<close>

section \<open>The Stripe client\<close>

text \<open>
  Through the command line an invoice is created without its amount: the one command that is run carries the customer, the
  currency, the description and the due date only, and its answer is the invoice; no invoice item is added.
\<close>

theorem cli_invoice_without_amount:
  assumes "sc_cli c = Some True" and "d \<noteq> []"
    and "args = [''invoices'', ''create''] @ flatten_params (invoice_params customer (if cur = [] then sc_currency c else cur) about due metadata)
           @ [''--format'', ''json'']"
    and "sw_cli w args = Some (JObj d)"
  shows "create_invoice w customer amount cur about due metadata c = (c\<lparr>sc_calls := sc_calls c @ [CliCall args]\<rparr>, Inr d)"
proof -
  let ?a = "[''invoices'', ''create''] @ flatten_params (invoice_params customer (if cur = [] then sc_currency c else cur) about due metadata)"
  have "stripe_cli w ?a c = (c\<lparr>sc_calls := sc_calls c @ [CliCall args]\<rparr>, Inr (Some (JObj d)))"
    using assms(1,3,4) by (cases c) (simp add: stripe_cli_def check_cli_def andthen_def)
  then show ?thesis using assms(2)
    by (simp add: create_invoice_def Let_def andthen_step answer_dict_def)
qed

theorem cli_invoice_without_amount_witness:
  "snd (create_invoice \<lparr>sw_version = VersionCode 0, sw_cli = \<lambda>_. Some (JObj [(''id'', JStr ''in-1'')]), sw_api = \<lambda>_ _ _. None\<rparr>
     ''cus-1'' 500 [] ''work'' [] [] (fresh_client\<lparr>sc_cli := Some True\<rparr>)) = Inr [(''id'', JStr ''in-1'')]"
  by (subst cli_invoice_without_amount[OF _ _ refl, where d = "[(''id'', JStr ''in-1'')]"]) simp_all

text \<open>The header a sender writes.\<close>

definition webhook_header :: "int \<Rightarrow> string \<Rightarrow> string" where
  "webhook_header n sig = ''t='' @ py_str_int n @ '',v1='' @ sig"

lemma str_int_char: "c \<in> set (py_str_int n) \<Longrightarrow> digit_char c \<or> c = CHR ''-''"
  using digits_of_nat_chars[of "nat n"] digits_of_nat_chars[of "nat (- n)"]
  by (auto simp: py_str_int_def list_all_iff split: if_splits)

lemma str_int_plain: "py_str_int n \<noteq> []" "CHR '','' \<notin> set (py_str_int n)" "\<forall>c \<in> set (py_str_int n). \<not> space_char c"
proof -
  show "py_str_int n \<noteq> []" by (simp add: py_str_int_def digits_of_nat_chars)
  show "CHR '','' \<notin> set (py_str_int n)" using str_int_char[of "CHR '',''" n] by (auto simp: digit_char_def)
  show "\<forall>c \<in> set (py_str_int n). \<not> space_char c"
  proof
    fix c assume "c \<in> set (py_str_int n)"
    then show "\<not> space_char c" using str_int_char[of c n] digit_char_not(6)[of c] by (auto simp: space_char_def)
  qed
qed

lemma py_strip_plain: "\<forall>c \<in> set s. \<not> space_char c \<Longrightarrow> py_strip s = s"
  by (cases "s = []") (simp_all add: py_strip_id, simp add: py_strip_def)

lemma webhook_parts:
  assumes "CHR '','' \<notin> set sig" and "\<forall>c \<in> set sig. \<not> space_char c"
  shows "header_parts (webhook_header n sig) = [(''t'', py_str_int n), (''v1'', sig)]"
proof -
  have s: "py_split CHR '','' (webhook_header n sig) = [''t='' @ py_str_int n, ''v1='' @ sig]"
    using py_split_append[of "CHR '',''" "''t='' @ py_str_int n" "''v1='' @ sig"] py_split_absent[of "CHR '',''" "''v1='' @ sig"]
      assms(1) str_int_plain(2)[of n]
    by (simp add: webhook_header_def)
  have st: "py_strip ''t'' = ''t''" "py_strip ''v1'' = ''v1''" by (simp_all add: py_strip_plain space_char_def)
  show ?thesis
    by (simp add: header_parts_def s st py_strip_plain assms(2) str_int_plain(3))
qed



section \<open>The tree of files\<close>

text \<open>What a step of the initialisation does: it only adds, and records what it did.\<close>

definition required_paths :: "string list" where
  "required_paths = REQUIRED_DIRS @ map fst REQUIRED_FILES"

lemma make_dir_adds:
  assumes "make_dir t p = Inr t'"
  shows "t' p = Some NDir" and "t q = Some x \<Longrightarrow> q \<noteq> p \<Longrightarrow> t' q = (if q \<in> set (path_parents p) then Some NDir else Some x)"
    and "q \<in> set (path_parents p) \<Longrightarrow> t q = Some x \<Longrightarrow> x = NDir"
proof -
  have nf: "\<not> list_ex (is_file t) (path_parents p)" and t': "t' = (\<lambda>q. if q = p \<or> q \<in> set (path_parents p) then Some NDir else t q)"
    using assms by (auto simp: make_dir_def split: if_splits)
  show "t' p = Some NDir" by (simp add: t')
  show "t q = Some x \<Longrightarrow> q \<noteq> p \<Longrightarrow> t' q = (if q \<in> set (path_parents p) then Some NDir else Some x)" by (simp add: t')
  show "x = NDir" if "q \<in> set (path_parents p)" "t q = Some x"
  proof (cases x)
    case (NFile f)
    then show ?thesis using that nf by (auto simp: list_ex_iff is_file_def)
  qed
qed


lemma init_dir_step:
  assumes "init_dir (t, r) p = (t', r')"
  shows "t q = Some x \<Longrightarrow> t' q = Some x" and "init_failed r \<noteq> [] \<Longrightarrow> init_failed r' \<noteq> []"
    and "init_failed r' = [] \<Longrightarrow> t' p \<noteq> None"
    and "t p \<noteq> None \<Longrightarrow> t' = t \<and> r' = r\<lparr>already_existed := already_existed r @ [p]\<rparr>"
proof -
  consider (old) "t p \<noteq> None" "t' = t" "r' = r\<lparr>already_existed := already_existed r @ [p]\<rparr>"
    | (bad) e where "t p = None" "t' = t" "r' = r\<lparr>init_failed := init_failed r @ [(p, e)]\<rparr>"
    | (new) "t p = None" "make_dir t p = Inr t'" "r' = r\<lparr>created_dirs := created_dirs r @ [p]\<rparr>"
    using assms by (cases "make_dir t p"; cases "t p = None") (auto simp: init_dir_def)
  note step = this
  show "t' q = Some x" if "t q = Some x"
  proof (cases rule: step)
    case new
    then show ?thesis using make_dir_adds(2,3)[OF new(2), of q x] that by (cases "q = p") (auto split: if_splits)
  qed (use that in simp_all)
  show "init_failed r' \<noteq> []" if "init_failed r \<noteq> []" by (cases rule: step) (use that in simp_all)
  show "t' p \<noteq> None" if "init_failed r' = []"
    by (cases rule: step) (use that in \<open>simp_all add: make_dir_adds(1)\<close>)
  show "t' = t \<and> r' = r\<lparr>already_existed := already_existed r @ [p]\<rparr>" if "t p \<noteq> None"
    by (cases rule: step) (use that in simp_all)
qed

lemma init_file_step:
  assumes "init_file (t, r) (p, f) = (t', r')"
  shows "t q = Some x \<Longrightarrow> t' q = Some x" and "init_failed r \<noteq> [] \<Longrightarrow> init_failed r' \<noteq> []"
    and "init_failed r' = [] \<Longrightarrow> t' p \<noteq> None"
    and "t p \<noteq> None \<Longrightarrow> t' = t \<and> r' = r\<lparr>already_existed := already_existed r @ [p]\<rparr>"
proof -
  consider (old) "t p \<noteq> None" "t' = t" "r' = r\<lparr>already_existed := already_existed r @ [p]\<rparr>"
    | (bad) e where "t p = None" "t' = t" "r' = r\<lparr>init_failed := init_failed r @ [(p, e)]\<rparr>"
    | (new) u where "t p = None" "make_dir t (parent_of p) = Inr u" "t' = u(p \<mapsto> NFile f)"
        "r' = r\<lparr>created_files := created_files r @ [p]\<rparr>"
    using assms by (cases "make_dir t (parent_of p)"; cases "t p = None") (auto simp: init_file_def)
  note step = this
  show "t' q = Some x" if "t q = Some x"
  proof (cases rule: step)
    case (new u)
    have "t (parent_of p) = Some y \<Longrightarrow> y = NDir" for y
      using new(2) by (cases y) (auto simp: make_dir_def is_file_def split: if_splits)
    then show ?thesis using make_dir_adds(1)[OF new(2)] make_dir_adds(2,3)[OF new(2), of q x] that new(1,3)
      by (cases "q = parent_of p") (auto split: if_splits)
  qed (use that in simp_all)
  show "init_failed r' \<noteq> []" if "init_failed r \<noteq> []" by (cases rule: step) (use that in simp_all)
  show "t' p \<noteq> None" if "init_failed r' = []" by (cases rule: step) (use that in simp_all)
  show "t' = t \<and> r' = r\<lparr>already_existed := already_existed r @ [p]\<rparr>" if "t p \<noteq> None"
    by (cases rule: step) (use that in simp_all)
qed

text \<open>A pass over a list of paths, for any step with these four laws.\<close>

locale init_pass =
  fixes step :: "fs_tree \<times> init_result \<Rightarrow> 'p \<Rightarrow> fs_tree \<times> init_result" and path :: "'p \<Rightarrow> string"
  assumes grows: "step (t, r) p = (t', r') \<Longrightarrow> t q = Some x \<Longrightarrow> t' q = Some x"
    and failures: "step (t, r) p = (t', r') \<Longrightarrow> init_failed r \<noteq> [] \<Longrightarrow> init_failed r' \<noteq> []"
    and there: "step (t, r) p = (t', r') \<Longrightarrow> init_failed r' = [] \<Longrightarrow> t' (path p) \<noteq> None"
    and idle: "step (t, r) p = (t', r') \<Longrightarrow> t (path p) \<noteq> None \<Longrightarrow> t' = t \<and> r' = r\<lparr>already_existed := already_existed r @ [path p]\<rparr>"
begin

lemma pass_grows: "foldl step (t, r) ps = (t', r') \<Longrightarrow> t q = Some x \<Longrightarrow> t' q = Some x"
proof (induction ps arbitrary: t r)
  case (Cons p ps)
  obtain u s where "step (t, r) p = (u, s)" by fastforce
  then show ?case using Cons grows[of t r p u s] by auto
qed simp

lemma pass_failures: "foldl step (t, r) ps = (t', r') \<Longrightarrow> init_failed r \<noteq> [] \<Longrightarrow> init_failed r' \<noteq> []"
proof (induction ps arbitrary: t r)
  case (Cons p ps)
  obtain u s where "step (t, r) p = (u, s)" by fastforce
  then show ?case using Cons failures[of t r p u s] by auto
qed simp

lemma pass_there: "foldl step (t, r) ps = (t', r') \<Longrightarrow> init_failed r' = [] \<Longrightarrow> p \<in> set ps \<Longrightarrow> t' (path p) \<noteq> None"
proof (induction ps arbitrary: t r)
  case (Cons a ps)
  obtain u s where s: "step (t, r) a = (u, s)" by fastforce
  then have rest: "foldl step (u, s) ps = (t', r')" using Cons.prems(1) by simp
  then have "init_failed s = []" using pass_failures[OF rest] Cons.prems(2) by blast
  then have "u (path a) \<noteq> None" by (rule there[OF s])
  then have "t' (path a) \<noteq> None" using pass_grows[OF rest] by auto
  then show ?case using Cons.IH[OF rest Cons.prems(2)] Cons.prems(3) by auto
qed simp

lemma pass_idle:
  "\<forall>p \<in> set ps. t (path p) \<noteq> None \<Longrightarrow> foldl step (t, r) ps = (t, r\<lparr>already_existed := already_existed r @ map path ps\<rparr>)"
proof (induction ps arbitrary: r)
  case (Cons p ps)
  obtain u s where s: "step (t, r) p = (u, s)" by fastforce
  then have "u = t" "s = r\<lparr>already_existed := already_existed r @ [path p]\<rparr>" using idle[OF s] Cons.prems by auto
  then show ?case using Cons s by simp
qed simp

end

interpretation dirs: init_pass init_dir id
proof
  fix t r p t' r' assume s: "init_dir (t, r) p = (t', r')"
  note f = init_dir_step[OF s]
  show "t q = Some x \<Longrightarrow> t' q = Some x" for q x by (rule f(1))
  show "init_failed r \<noteq> [] \<Longrightarrow> init_failed r' \<noteq> []" by (rule f(2))
  show "init_failed r' = [] \<Longrightarrow> t' (id p) \<noteq> None" using f(3) by simp
  show "t (id p) \<noteq> None \<Longrightarrow> t' = t \<and> r' = r\<lparr>already_existed := already_existed r @ [id p]\<rparr>" using f(4) by simp
qed

interpretation files: init_pass init_file fst
proof
  fix t r p t' r' assume s: "init_file (t, r) p = (t', r')"
  then have "init_file (t, r) (fst p, snd p) = (t', r')" by simp
  note f = init_file_step[OF this]
  show "t q = Some x \<Longrightarrow> t' q = Some x" for q x by (rule f(1))
  show "init_failed r \<noteq> [] \<Longrightarrow> init_failed r' \<noteq> []" by (rule f(2))
  show "init_failed r' = [] \<Longrightarrow> t' (fst p) \<noteq> None" using f(3) by simp
  show "t (fst p) \<noteq> None \<Longrightarrow> t' = t \<and> r' = r\<lparr>already_existed := already_existed r @ [fst p]\<rparr>" using f(4) by simp
qed

text \<open>
  Initialising never changes a file or directory that is there; after an initialisation without failures every required path
  exists, and a second one creates nothing and reports all of them as there. (It asks only whether a path exists, so a success
  does not make the tree valid: see \<open>success_without_valid\<close>.)
\<close>

theorem initialize_settles:
  assumes "initialize t = (t', r)" and "init_success r"
  shows "(\<forall>q x. t q = Some x \<longrightarrow> t' q = Some x) \<and> (\<forall>p \<in> set required_paths. t' p \<noteq> None)
    \<and> initialize t' = (t', \<lparr>created_dirs = [], created_files = [], already_existed = required_paths, init_failed = []\<rparr>)"
proof -
  let ?r = "\<lparr>created_dirs = [], created_files = [], already_existed = [], init_failed = []\<rparr>"
  obtain u s where d: "foldl init_dir (t, ?r) REQUIRED_DIRS = (u, s)" by fastforce
  then have f: "foldl init_file (u, s) REQUIRED_FILES = (t', r)" using assms(1) by (simp add: initialize_def)
  have ok: "init_failed r = []" "init_failed s = []"
    using assms(2) files.pass_failures[OF f] by (auto simp: init_success_def)
  have keep: "t' q = Some x" if "t q = Some x" for q x using files.pass_grows[OF f] dirs.pass_grows[OF d that] .
  have dirs: "t' p \<noteq> None" if "p \<in> set REQUIRED_DIRS" for p
    using dirs.pass_there[OF d ok(2) that] files.pass_grows[OF f] by auto
  have files: "t' (fst p) \<noteq> None" if "p \<in> set REQUIRED_FILES" for p
    using files.pass_there[OF f ok(1) that] .
  have all: "t' p \<noteq> None" if "p \<in> set required_paths" for p using that dirs files by (auto simp: required_paths_def)
  have "foldl init_dir (t', ?r) REQUIRED_DIRS = (t', ?r\<lparr>already_existed := REQUIRED_DIRS\<rparr>)"
    using dirs.pass_idle[of REQUIRED_DIRS t' ?r] dirs by simp
  moreover have "foldl init_file (t', ?r\<lparr>already_existed := REQUIRED_DIRS\<rparr>) REQUIRED_FILES
      = (t', ?r\<lparr>already_existed := required_paths\<rparr>)"
    using files.pass_idle[of REQUIRED_FILES t' "?r\<lparr>already_existed := REQUIRED_DIRS\<rparr>"] files
    by (simp add: required_paths_def)
  ultimately have "initialize t' = (t', \<lparr>created_dirs = [], created_files = [], already_existed = required_paths, init_failed = []\<rparr>)"
    by (simp add: initialize_def)
  then show ?thesis using keep all by blast
qed

theorem initialize_settles_witness:
  "fst (initialize (fst (initialize Map.empty))) ''logs/decisions.log'' \<noteq> None"
proof -
  have ok: "init_success (snd (initialize Map.empty))" by code_simp
  have "''logs/decisions.log'' \<in> set required_paths" by (simp add: required_paths_def REQUIRED_FILES_def)
  with initialize_settles[OF prod.collapse[symmetric] ok] show ?thesis by simp
qed

text \<open>A file where a directory is required, and a directory where a file is: both count as there.\<close>

lemma success_without_valid:
  "init_success (snd (initialize [''logs/operational.log'' \<mapsto> NDir]))"
  "\<not> tree_valid (fst (initialize [''logs/operational.log'' \<mapsto> NDir]))"
  by code_simp+

end
