(* ===== verification/Gateway.thy ===== *)
theory Gateway
  imports Effects "HOL-Library.List_Lexorder" "HOL-Library.Char_ord"
begin

text \<open>
  \<^verbatim>\<open>milimo-core/src/milimo_core/gateway_adapter.py\<close>: the three ways a claw reaches the others, a Unix
  socket, a web socket and files. What the operating system and the web socket library do is an
  argument: which calls fail, what a socket delivers chunk by chunk, which callbacks run while an operation
  waits. \<open>loads\<close> is \<open>json.loads\<close>. Messages are JSON objects.
\<close>

section \<open>Types\<close>

datatype conn_state = Disconnected | Connecting | Connected | Failed

record gw_config =
  gc_endpoint :: string
  gc_secret :: string
  gc_squad :: string
  gc_role :: string

record send_result =
  sr_success :: bool
  sr_message_id :: json
  sr_requires_approval :: json
  sr_error_code :: json
  sr_error_message :: json

record gw_response =
  gr_status :: json
  gr_data :: json
  gr_error :: json

definition failed_send :: "json \<Rightarrow> json \<Rightarrow> json \<Rightarrow> send_result" where
  "failed_send mid code why = \<lparr>sr_success = False, sr_message_id = mid, sr_requires_approval = JBool False,
     sr_error_code = code, sr_error_message = why\<rparr>"

definition not_connected :: send_result where
  "not_connected = failed_send (JStr []) (JStr ''E001'') (JStr ''Gateway not connected'')"

text \<open>\<open>GatewayResponse(...)\<close> from the answer of the gateway.\<close>

definition response_of :: "json dict \<Rightarrow> gw_response" where
  "response_of d = \<lparr>gr_status = json_get d ''status'' (JStr ''error''),
     gr_data = json_get d ''data'' (json_get d ''params'' (JObj [])), gr_error = json_get d ''error'' JNull\<rparr>"

text \<open>\<open>x.get(k, default)\<close> of a value: another value than an object has no \<open>get\<close>.\<close>

definition obj_get :: "json \<Rightarrow> string \<Rightarrow> json \<Rightarrow> ('s, json) eff" where
  "obj_get j k def = (case j of JObj d \<Rightarrow> ok (json_get d k def) | _ \<Rightarrow> throw ''AttributeError'' ''get'')"

definition conn_text :: "conn_state \<Rightarrow> string" where
  "conn_text s = (case s of Disconnected \<Rightarrow> ''disconnected'' | Connecting \<Rightarrow> ''connecting'' | Connected \<Rightarrow> ''connected'' | Failed \<Rightarrow> ''error'')"

definition health_check :: "gw_config \<Rightarrow> conn_state \<Rightarrow> string option \<Rightarrow> nat \<Rightarrow> json dict" where
  "health_check c st latest errors =
     [(''state'', JStr (conn_text st)), (''endpoint'', JStr (gc_endpoint c)), (''role'', JStr (gc_role c)), (''squad_id'', JStr (gc_squad c)),
      (''last_message_at'', case latest of None \<Rightarrow> JNull | Some t \<Rightarrow> JStr t), (''error_count'', JInt (int errors))]"

text \<open>The result of a sending whose response has come in.\<close>

definition accepted_result :: "gw_response \<Rightarrow> ('s, send_result) eff" where
  "accepted_result r =
     andthen (obj_get (gr_data r) ''message_id'' (JStr [])) (\<lambda>mid.
     andthen (obj_get (gr_data r) ''requires_approval'' (JBool False)) (\<lambda>ap.
     ok \<lparr>sr_success = gr_status r \<in> JStr ` {''queued'', ''delivered''}, sr_message_id = mid, sr_requires_approval = ap,
         sr_error_code = JStr [], sr_error_message = JStr []\<rparr>))"

definition error_result :: "json dict \<Rightarrow> gw_response \<Rightarrow> ('s, send_result) eff" where
  "error_result m r =
     andthen (obj_get (gr_error r) ''code'' (JStr ''E999'')) (\<lambda>code.
     andthen (obj_get (gr_error r) ''message'' (JStr ''Unknown error'')) (\<lambda>why.
     ok (failed_send (json_get m ''message_id'' (JStr [])) code why)))"

section \<open>The Unix socket\<close>

datatype recv = Chunk string | Timeout

record unix_gateway =
  ug_state :: conn_state
  ug_socket :: bool
  ug_requests :: nat
  ug_errors :: nat
  ug_last :: "int option"
  ug_stream :: "recv list"
  ug_sent :: "json list"

record unix_world =
  uw_now :: int
  uw_connects :: bool
  uw_stream :: "recv list"
  uw_writes :: "nat \<Rightarrow> bool"
  uw_loads :: "string \<Rightarrow> json option"

definition new_unix :: unix_gateway where
  "new_unix = \<lparr>ug_state = Disconnected, ug_socket = False, ug_requests = 0, ug_errors = 0, ug_last = None, ug_stream = [], ug_sent = []\<rparr>"

text \<open>The loop that reads until a line break has come in, or the other side has closed (the empty chunk at the end).\<close>

fun read_line :: "string \<Rightarrow> recv list \<Rightarrow> string option \<times> recv list" where
  "read_line acc [] = (Some acc, [])"
| "read_line acc (Timeout # rest) = (None, rest)"
| "read_line acc (Chunk c # rest) =
     (if c = [] then (Some acc, rest)
      else if CHR 0x0A \<in> set (acc @ c) then (Some (acc @ c), rest)
      else read_line (acc @ c) rest)"

definition request_name :: "nat \<Rightarrow> string" where
  "request_name n = ''req-'' @ py_str_int (int n)"

definition count_error :: "(unix_gateway, 'a option) eff" where
  "count_error = andthen (upd (ug_errors_update Suc)) (\<lambda>_. ok None)"

definition unix_request :: "unix_world \<Rightarrow> string \<Rightarrow> json dict \<Rightarrow> (unix_gateway, gw_response option) eff" where
  "unix_request w meth params =
     andthen (look id) (\<lambda>g. if \<not> ug_socket g then ok None else
       (let n = Suc (ug_requests g) in
        andthen (upd (ug_requests_update (\<lambda>_. n))) (\<lambda>_.
        if \<not> uw_writes w n then count_error
        else (let (got, rest) = read_line [] (ug_stream g) in
          andthen (upd (\<lambda>s. s\<lparr>ug_sent := ug_sent s @ [JObj [(''method'', JStr meth), (''params'', JObj params), (''id'', JStr (request_name n))]],
                              ug_stream := rest\<rparr>)) (\<lambda>_.
          case got of
            None \<Rightarrow> count_error
          | Some text \<Rightarrow> (case uw_loads w (py_strip text) of
                None \<Rightarrow> count_error
              | Some (JObj d) \<Rightarrow> ok (Some (response_of d))
              | Some _ \<Rightarrow> throw ''AttributeError'' ''get''))))))"

definition auth_params :: "gw_config \<Rightarrow> json dict" where
  "auth_params c = [(''squad_id'', JStr (gc_squad c)), (''role'', JStr (gc_role c)), (''secret'', JStr (gc_secret c))]"

definition unix_authenticate :: "unix_world \<Rightarrow> gw_config \<Rightarrow> (unix_gateway, bool) eff" where
  "unix_authenticate w c = andthen (unix_request w ''AUTH'' (auth_params c)) (\<lambda>r.
     ok (case r of None \<Rightarrow> False | Some x \<Rightarrow> gr_status x = JStr ''authenticated''))"

definition unix_close :: "(unix_gateway, unit) eff" where
  "unix_close = upd (\<lambda>g. g\<lparr>ug_socket := False, ug_state := Disconnected\<rparr>)"

definition begins_with :: "string \<Rightarrow> string \<Rightarrow> bool" where
  "begins_with p s \<longleftrightarrow> take (length p) s = p"

definition unix_connect :: "unix_world \<Rightarrow> gw_config \<Rightarrow> (unix_gateway, bool) eff" where
  "unix_connect w c =
     (if \<not> begins_with ''unix://'' (gc_endpoint c) then ok False
      else andthen (upd (\<lambda>g. g\<lparr>ug_state := Connecting, ug_socket := True\<rparr>)) (\<lambda>_.
        if \<not> uw_connects w then andthen (upd (\<lambda>g. g\<lparr>ug_state := Failed, ug_errors := Suc (ug_errors g)\<rparr>)) (\<lambda>_. ok False)
        else andthen (upd (\<lambda>g. g\<lparr>ug_state := Connected, ug_stream := uw_stream w\<rparr>)) (\<lambda>_.
             andthen (unix_authenticate w c) (\<lambda>known.
               if known then ok True else andthen unix_close (\<lambda>_. ok False)))))"

definition unix_send :: "unix_world \<Rightarrow> json dict \<Rightarrow> (unix_gateway, send_result) eff" where
  "unix_send w m =
     andthen (look ug_state) (\<lambda>st. if st \<noteq> Connected then ok not_connected else
     andthen (unix_request w ''SEND'' [(''recipient'', json_get m ''recipient_role'' JNull), (''message'', JObj m)]) (\<lambda>r. case r of
       None \<Rightarrow> ok (failed_send (JStr []) (JStr ''E001'') (JStr ''No response from gateway''))
     | Some x \<Rightarrow> if json_true (gr_error x) then error_result m x
         else andthen (upd (ug_last_update (\<lambda>_. Some (uw_now w)))) (\<lambda>_. accepted_result x)))"

definition unix_receive :: "unix_world \<Rightarrow> gw_config \<Rightarrow> int \<Rightarrow> (unix_gateway, json) eff" where
  "unix_receive w c limit =
     andthen (look ug_state) (\<lambda>st. if st \<noteq> Connected then ok (JList []) else
     andthen (unix_request w ''RECEIVE'' [(''role'', JStr (gc_role c)), (''limit'', JInt limit)]) (\<lambda>r. case r of
       None \<Rightarrow> ok (JList [])
     | Some x \<Rightarrow> if json_true (gr_error x) then ok (JList [])
         else andthen (obj_get (gr_data x) ''messages'' (JList [])) (\<lambda>ms.
              andthen (only_if (json_true ms) (upd (ug_last_update (\<lambda>_. Some (uw_now w))))) (\<lambda>_. ok ms))))"

section \<open>The web socket\<close>

text \<open>A callback of the library; a frame is a JSON object whose identifier and event are texts, or no JSON.\<close>

datatype ws_event = Opened | Frame "json dict option" | Error | Closed

record ws_gateway =
  wg_state :: conn_state
  wg_ws :: bool
  wg_queue :: "json dict list"
  wg_waiting :: "string list"
  wg_responses :: "gw_response dict"
  wg_requests :: nat
  wg_subs :: "string dict"
  wg_calls :: "(string \<times> json) list"
  wg_errors :: nat
  wg_last :: "int option"
  wg_sent :: "json dict list"

definition new_ws :: ws_gateway where
  "new_ws = \<lparr>wg_state = Disconnected, wg_ws = False, wg_queue = [], wg_waiting = [], wg_responses = [], wg_requests = 0, wg_subs = [],
     wg_calls = [], wg_errors = 0, wg_last = None, wg_sent = []\<rparr>"

definition ws_on_message :: "json dict \<Rightarrow> ws_gateway \<Rightarrow> ws_gateway" where
  "ws_on_message d g =
     (case json_get d ''id'' (JStr []) of
        JStr i \<Rightarrow> if i \<in> set (wg_waiting g) then wg_responses_update (AList.update i (response_of d)) g else g
      | _ \<Rightarrow> g)"

definition is_response :: "ws_gateway \<Rightarrow> json dict \<Rightarrow> bool" where
  "is_response g d = (case json_get d ''id'' (JStr []) of JStr i \<Rightarrow> i \<in> set (wg_waiting g) | _ \<Rightarrow> False)"

definition ws_frame :: "json dict \<Rightarrow> ws_gateway \<Rightarrow> ws_gateway" where
  "ws_frame d g =
     (if is_response g d then ws_on_message d g
      else case map_of d ''event'' of
        Some (JStr e) \<Rightarrow> (case map_of (wg_subs g) e of
            Some h \<Rightarrow> wg_calls_update (\<lambda>l. l @ [(h, json_get d ''message'' (JObj []))]) g
          | None \<Rightarrow> g)
      | Some _ \<Rightarrow> g
      | None \<Rightarrow> wg_queue_update (\<lambda>l. l @ [d]) g)"

fun ws_event_step :: "ws_event \<Rightarrow> ws_gateway \<Rightarrow> ws_gateway" where
  "ws_event_step Opened g = g\<lparr>wg_state := Connected\<rparr>"
| "ws_event_step (Frame None) g = g"
| "ws_event_step (Frame (Some d)) g = ws_frame d g"
| "ws_event_step Error g = g\<lparr>wg_state := Failed, wg_errors := Suc (wg_errors g)\<rparr>"
| "ws_event_step Closed g = g\<lparr>wg_state := Disconnected\<rparr>"

definition ws_events :: "ws_event list \<Rightarrow> ws_gateway \<Rightarrow> ws_gateway" where
  "ws_events es g = fold ws_event_step es g"

definition ws_close :: "ws_gateway \<Rightarrow> ws_gateway" where
  "ws_close g = g\<lparr>wg_ws := False, wg_state := Disconnected\<rparr>"

text \<open>\<open>_send_request\<close> of this class gives no response, and \<open>_authenticate\<close> asks it.\<close>

definition ws_request :: "string \<Rightarrow> json dict \<Rightarrow> gw_response option" where
  "ws_request meth params = None"

definition ws_authenticate :: "gw_config \<Rightarrow> bool" where
  "ws_authenticate c = (case ws_request ''AUTH'' (auth_params c) of None \<Rightarrow> False | Some x \<Rightarrow> gr_status x = JStr ''authenticated'')"

text \<open>\<open>lib\<close>: the library is there; \<open>starts\<close>: the constructor of the library does not raise; \<open>during\<close>: the callbacks of the half second the code
  waits.\<close>

definition ws_connect :: "gw_config \<Rightarrow> bool \<Rightarrow> bool \<Rightarrow> ws_event list \<Rightarrow> ws_gateway \<Rightarrow> ws_gateway \<times> bool" where
  "ws_connect c lib starts during g =
     (if \<not> lib then (g, False)
      else (let g1 = g\<lparr>wg_state := Connecting\<rparr> in
        if \<not> begins_with ''tcp://'' (gc_endpoint c) \<and> begins_with ''unix://'' (gc_endpoint c) then (g1, False)
        else if \<not> starts then (g1\<lparr>wg_state := Failed, wg_errors := Suc (wg_errors g1)\<rparr>, False)
        else (let g2 = ws_events during (g1\<lparr>wg_ws := True\<rparr>) in
          if wg_state g2 = Connected then
            (if ws_authenticate c then (g2, True) else (ws_close g2, False))
          else (g2, False))))"

definition ws_forget :: "string \<Rightarrow> ws_gateway \<Rightarrow> ws_gateway" where
  "ws_forget i g = g\<lparr>wg_waiting := filter (\<lambda>j. j \<noteq> i) (wg_waiting g)\<rparr>"

definition ws_payload :: "string \<Rightarrow> json dict \<Rightarrow> json dict" where
  "ws_payload i m = [(''id'', JStr i), (''method'', JStr ''SEND''),
     (''params'', JObj [(''recipient'', json_get m ''recipient_role'' JNull), (''message'', JObj m)])]"

text \<open>\<open>fails\<close>: what the library raises; \<open>during\<close>: the callbacks up to the end of the waiting. An exception after the response has been
  taken, from an answer whose parts are no objects, is caught as well. (A response is stored before its event is set, so the
  branch for an event without a response cannot be taken.)\<close>

definition ws_outcome :: "int \<Rightarrow> json dict \<Rightarrow> gw_response \<Rightarrow> (ws_gateway, send_result) eff" where
  "ws_outcome now m x =
     (if json_true (gr_error x) then error_result m x
      else andthen (upd (wg_last_update (\<lambda>_. Some now))) (\<lambda>_. accepted_result x))"

definition ws_caught :: "string \<Rightarrow> py_exn \<Rightarrow> (ws_gateway, send_result) eff" where
  "ws_caught i e = andthen (upd (\<lambda>g. (ws_forget i g)\<lparr>wg_errors := Suc (wg_errors g)\<rparr>)) (\<lambda>_.
     ok (failed_send (JStr []) (JStr ''E001'') (JStr (exn_text e))))"

definition ws_send :: "int \<Rightarrow> string option \<Rightarrow> ws_event list \<Rightarrow> json dict \<Rightarrow> (ws_gateway, send_result) eff" where
  "ws_send now fails during m =
     andthen (look id) (\<lambda>g. if wg_state g \<noteq> Connected then ok not_connected else
       (let n = Suc (wg_requests g); i = request_name n in
        andthen (upd (\<lambda>s. s\<lparr>wg_requests := n, wg_waiting := wg_waiting s @ [i]\<rparr>)) (\<lambda>_.
        attempt
          (case fails of
             Some e \<Rightarrow> throw ''Exception'' e
           | None \<Rightarrow>
               andthen (upd (wg_sent_update (\<lambda>l. l @ [ws_payload i m]))) (\<lambda>_.
               andthen (upd (ws_events during)) (\<lambda>_.
               andthen (look (\<lambda>s. map_of (wg_responses s) i)) (\<lambda>r.
               andthen (upd (\<lambda>s. ws_forget i (wg_responses_update (AList.delete i) s))) (\<lambda>_.
               case r of
                 Some x \<Rightarrow> ws_outcome now m x
               | None \<Rightarrow> ok (failed_send (JStr []) (JStr ''E001'') (JStr ''Request timeout'')))))))
          (ws_caught i))))"

definition ws_receive :: "int \<Rightarrow> nat \<Rightarrow> ws_gateway \<Rightarrow> ws_gateway \<times> json dict list" where
  "ws_receive now limit g =
     (let ms = take limit (wg_queue g); g1 = g\<lparr>wg_queue := drop limit (wg_queue g)\<rparr> in
      (if ms = [] then g1 else g1\<lparr>wg_last := Some now\<rparr>, ms))"

definition ws_subscribe :: "gw_config \<Rightarrow> string \<Rightarrow> string \<Rightarrow> ws_gateway \<Rightarrow> ws_gateway \<times> string" where
  "ws_subscribe c e h g =
     (if wg_state g \<noteq> Connected then (g, [])
      else (let i = ''sub-'' @ e @ ''-'' @ py_str_int (int (wg_requests g)) in
        (g\<lparr>wg_requests := Suc (wg_requests g), wg_subs := AList.update e h (wg_subs g),
           wg_sent := wg_sent g @ [[(''id'', JStr i), (''method'', JStr ''SUBSCRIBE''),
             (''params'', JObj [(''role'', JStr (gc_role c)), (''events'', JList [JStr e])])]]\<rparr>, i)))"

definition ws_unsubscribe :: "string \<Rightarrow> ws_gateway \<Rightarrow> ws_gateway \<times> bool" where
  "ws_unsubscribe e g = (if map_of (wg_subs g) e \<noteq> None then (wg_subs_update (AList.delete e) g, True) else (g, False))"

section \<open>Files\<close>

text \<open>A file is its JSON object, or \<open>None\<close> when it cannot be read. The gateways of all roles share the directories.\<close>

record mesh_files =
  mf_inbox :: "string \<Rightarrow> json dict option dict"
  mf_delivered :: "json dict option dict"
  mf_rejected :: "json dict option dict"

record file_gateway =
  fg_state :: conn_state
  fg_ready :: bool
  fg_errors :: nat
  fg_last :: "int option"

definition new_file_gateway :: file_gateway where
  "new_file_gateway = \<lparr>fg_state = Disconnected, fg_ready = False, fg_errors = 0, fg_last = None\<rparr>"

record file_world =
  fw_now :: int
  fw_stamp :: string
  fw_mkdir :: bool
  fw_write :: "string \<Rightarrow> string option"
  fw_rename :: "string \<Rightarrow> bool"

type_synonym file_state = "file_gateway \<times> mesh_files"

definition file_connect :: "file_world \<Rightarrow> file_state \<Rightarrow> file_state \<times> bool" where
  "file_connect w = (\<lambda>(g, m).
     (let g1 = g\<lparr>fg_ready := True\<rparr> in
      if fw_mkdir w then ((g1\<lparr>fg_state := Connected\<rparr>, m), True) else ((g1\<lparr>fg_state := Failed\<rparr>, m), False)))"

definition dashed :: "string \<Rightarrow> string" where
  "dashed s = map (\<lambda>c. if c = CHR '':'' \<or> c = CHR ''.'' then CHR ''-'' else c) s"

text \<open>The name of a message's file; its timestamp and identifier are texts.\<close>

definition mesh_file_name :: "file_world \<Rightarrow> json dict \<Rightarrow> string" where
  "mesh_file_name w m = dashed (get_str m ''timestamp'' (fw_stamp w)) @ ''_'' @ get_str m ''message_id'' [] @ ''.json''"

definition store_file :: "string \<Rightarrow> 'a \<Rightarrow> 'a dict \<Rightarrow> 'a dict" where
  "store_file n f fs = AList.update n f fs"

definition file_send :: "file_world \<Rightarrow> json dict \<Rightarrow> file_state \<Rightarrow> file_state \<times> send_result" where
  "file_send w m = (\<lambda>(g, d).
     if fg_state g \<noteq> Connected \<or> \<not> fg_ready g then ((g, d), not_connected)
     else (let r = get_str m ''recipient_role'' []; mid = get_str m ''message_id'' []; n = mesh_file_name w m in
       if r = [] then ((g, d), failed_send (JStr []) (JStr ''E003'') (JStr ''Missing recipient_role in message''))
       else case fw_write w n of
         Some e \<Rightarrow> ((g\<lparr>fg_errors := Suc (fg_errors g)\<rparr>, d), failed_send (JStr mid) (JStr ''E001'') (JStr e))
       | None \<Rightarrow>
          ((g\<lparr>fg_last := Some (fw_now w)\<rparr>, d\<lparr>mf_inbox := (mf_inbox d)(r := store_file n (Some m) (mf_inbox d r))\<rparr>),
           \<lparr>sr_success = True, sr_message_id = JStr mid, sr_requires_approval = JBool (r = ''war_room''),
            sr_error_code = JStr [], sr_error_message = JStr []\<rparr>)))"

definition json_name :: "string \<Rightarrow> bool" where
  "json_name n \<longleftrightarrow> 5 \<le> length n \<and> drop (length n - 5) n = ''.json''"

definition inbox_order :: "json dict option dict \<Rightarrow> json dict option dict" where
  "inbox_order fs = sort_key fst (filter (\<lambda>(n, _). json_name n) fs)"

definition file_receive :: "file_world \<Rightarrow> string \<Rightarrow> nat \<Rightarrow> file_state \<Rightarrow> file_state \<times> json dict list" where
  "file_receive w role limit = (\<lambda>(g, d).
     if fg_state g \<noteq> Connected \<or> \<not> fg_ready g then ((g, d), [])
     else (let ms = concat (map (\<lambda>(_, f). case f of Some m \<Rightarrow> [m] | None \<Rightarrow> []) (take limit (inbox_order (mf_inbox d role)))) in
       ((if ms = [] then g else g\<lparr>fg_last := Some (fw_now w)\<rparr>, d), ms)))"

text \<open>The names \<^verbatim>\<open>*id*.json\<close> matches, for an identifier without wild cards; in the order the directory lists them, the first that
  can be moved.\<close>

definition name_has :: "string \<Rightarrow> string \<Rightarrow> bool" where
  "name_has i n \<longleftrightarrow> json_name n \<and> py_in i (take (length n - 5) n)"

definition movable :: "file_world \<Rightarrow> string \<Rightarrow> json dict option dict \<Rightarrow> (string \<times> json dict option) option" where
  "movable w i fs = find (\<lambda>(n, _). name_has i n \<and> fw_rename w n) fs"

definition take_out :: "string \<Rightarrow> 'a dict \<Rightarrow> 'a dict" where
  "take_out n fs = filter (\<lambda>(k, _). k \<noteq> n) fs"

definition file_ack :: "file_world \<Rightarrow> string \<Rightarrow> string \<Rightarrow> file_state \<Rightarrow> file_state \<times> bool" where
  "file_ack w role i = (\<lambda>(g, d).
     if \<not> fg_ready g then ((g, d), False)
     else case movable w i (mf_inbox d role) of
       None \<Rightarrow> ((g, d), False)
     | Some (n, f) \<Rightarrow> ((g, d\<lparr>mf_inbox := (mf_inbox d)(role := take_out n (mf_inbox d role)),
                            mf_delivered := store_file n f (mf_delivered d)\<rparr>), True))"

definition reason_name :: "string \<Rightarrow> string" where
  "reason_name n = take (length n - 5) n @ ''.rejected.json''"

text \<open>The note on the reason is written after the move; when it cannot be, the loop goes on to the next file.\<close>

fun reject_files :: "file_world \<Rightarrow> string \<Rightarrow> string \<Rightarrow> string \<Rightarrow> json dict option dict \<Rightarrow> mesh_files \<Rightarrow> mesh_files \<times> bool" where
  "reject_files w role i why [] d = (d, False)"
| "reject_files w role i why ((n, f) # fs) d =
     (if \<not> (name_has i n \<and> fw_rename w n) then reject_files w role i why fs d
      else (let d1 = d\<lparr>mf_inbox := (mf_inbox d)(role := take_out n (mf_inbox d role)), mf_rejected := store_file n f (mf_rejected d)\<rparr> in
        if fw_write w (reason_name n) \<noteq> None then reject_files w role i why fs d1
        else (d1\<lparr>mf_rejected := store_file (reason_name n)
                (Some [(''reason'', JStr why), (''timestamp'', JStr (fw_stamp w))]) (mf_rejected d1)\<rparr>, True)))"

definition file_reject :: "file_world \<Rightarrow> string \<Rightarrow> string \<Rightarrow> string \<Rightarrow> file_state \<Rightarrow> file_state \<times> bool" where
  "file_reject w role i why = (\<lambda>(g, d).
     if \<not> fg_ready g then ((g, d), False)
     else case reject_files w role i why (mf_inbox d role) d of (d', b) \<Rightarrow> ((g, d'), b))"

definition file_close :: "file_state \<Rightarrow> file_state" where
  "file_close = (\<lambda>(g, d). (g\<lparr>fg_state := Disconnected\<rparr>, d))"

section \<open>The factory\<close>

datatype gateway_kind = UnixSocket | WebSocket | FileBased

definition create_gateway :: "string \<Rightarrow> gateway_kind" where
  "create_gateway endpoint =
     (if begins_with ''unix://'' endpoint then UnixSocket
      else if begins_with ''tcp://'' endpoint \<or> begins_with ''ws://'' endpoint then WebSocket
      else FileBased)"

end
