(* ===== verification/Gateway_Props.thy ===== *)
theory Gateway_Props
  imports Gateway
begin

text \<open>
  What the three gateways promise: none sends unless it is connected (the locale \<open>message_gateway\<close>), the
  Unix socket pairs answers with requests by their order only, the web socket never authenticates, and the
  files keep a message until it is acknowledged.
\<close>

section \<open>The contract the gateways share\<close>

locale message_gateway =
  fixes send :: "json dict \<Rightarrow> 's \<Rightarrow> 's \<times> (py_exn + send_result)" and connected :: "'s \<Rightarrow> bool"
  assumes refuses: "\<not> connected s \<Longrightarrow> send m s = (s, Inr not_connected)"
begin

fun send_all :: "json dict list \<Rightarrow> 's \<Rightarrow> 's \<times> (py_exn + send_result) list" where
  "send_all [] s = (s, [])"
| "send_all (m # ms) s = (let (s1, r) = send m s; (s2, rs) = send_all ms s1 in (s2, r # rs))"

lemma send_all_refused: "\<not> connected s \<Longrightarrow> send_all ms s = (s, replicate (length ms) (Inr not_connected))"
  by (induction ms) (simp_all add: refuses)

end

interpretation unix: message_gateway "unix_send w" "\<lambda>g. ug_state g = Connected" for w
  by unfold_locales (simp add: unix_send_def)

interpretation ws: message_gateway "ws_send now fails during" "\<lambda>g. wg_state g = Connected" for now fails during
  by unfold_locales (simp add: ws_send_def)

interpretation files: message_gateway "\<lambda>m s. (fst (file_send w m s), Inr (snd (file_send w m s)))" "\<lambda>s. fg_state (fst s) = Connected" for w
proof
  fix s :: file_state and m :: "json dict"
  assume "fg_state (fst s) \<noteq> Connected"
  then show "(fst (file_send w m s), Inr (snd (file_send w m s))) = (s, Inr not_connected)"
    by (cases s) (simp add: file_send_def)
qed

section \<open>Answers on the Unix socket\<close>

text \<open>An answer that accepts a message, and the line it comes as.\<close>

definition answer_result :: "json dict \<Rightarrow> send_result" where
  "answer_result d = (case json_get d ''data'' (JObj []) of JObj x \<Rightarrow>
       \<lparr>sr_success = json_get d ''status'' (JStr ''error'') \<in> JStr ` {''queued'', ''delivered''},
        sr_message_id = json_get x ''message_id'' (JStr []), sr_requires_approval = json_get x ''requires_approval'' (JBool False),
        sr_error_code = JStr [], sr_error_message = JStr []\<rparr>
     | _ \<Rightarrow> not_connected)"

definition answer_line :: "unix_world \<Rightarrow> string \<Rightarrow> json dict \<Rightarrow> bool" where
  "answer_line w l d \<longleftrightarrow> l \<noteq> [] \<and> CHR 0x0A \<in> set l \<and> uw_loads w (py_strip l) = Some (JObj d)
     \<and> \<not> json_true (json_get d ''error'' JNull) \<and> (\<exists>x. map_of d ''data'' = Some (JObj x))"

definition sending :: "unix_gateway \<Rightarrow> bool" where
  "sending g \<longleftrightarrow> ug_state g = Connected \<and> ug_socket g"

definition send_each :: "unix_world \<Rightarrow> json dict list \<Rightarrow> (unix_gateway, send_result list) eff" where
  "send_each w ms = collect ms (\<lambda>m. andthen (unix_send w m) (\<lambda>r. ok [r]))"

lemma send_answered:
  assumes "sending g" and "\<And>n. uw_writes w n" and "ug_stream g = Chunk l # rest" and "answer_line w l d"
  shows "\<exists>g'. unix_send w m g = (g', Inr (answer_result d)) \<and> sending g' \<and> ug_stream g' = rest"
proof -
  obtain x where x: "map_of d ''data'' = Some (JObj x)" using assms(4) by (auto simp: answer_line_def)
  let ?g = "g\<lparr>ug_requests := Suc (ug_requests g),
     ug_sent := ug_sent g @ [JObj [(''method'', JStr ''SEND''), (''params'', JObj [(''recipient'', json_get m ''recipient_role'' JNull), (''message'', JObj m)]),
       (''id'', JStr (request_name (Suc (ug_requests g))))]], ug_stream := rest\<rparr>"
  have line: "read_line [] (ug_stream g) = (Some l, rest)" using assms(3,4) by (simp add: answer_line_def)
  have req: "unix_request w ''SEND'' [(''recipient'', json_get m ''recipient_role'' JNull), (''message'', JObj m)] g = (?g, Inr (Some (response_of d)))"
    using assms(1,2,4) by (simp add: unix_request_def line sending_def answer_line_def)
  have res: "accepted_result (response_of d) s = (s, Inr (answer_result d))" for s :: unix_gateway
    using x by (simp add: accepted_result_def response_of_def answer_result_def obj_get_def json_get_def)
  have "unix_send w m g = (?g\<lparr>ug_last := Some (uw_now w)\<rparr>, Inr (answer_result d))"
    using assms(1,4) res by (simp add: unix_send_def sending_def andthen_step req response_of_def answer_line_def)
  then show ?thesis using assms(1) by (auto simp: sending_def)
qed

lemma send_timed_out:
  assumes "sending g" and "\<And>n. uw_writes w n" and "ug_stream g = Timeout # rest"
  shows "\<exists>g'. unix_send w m g = (g', Inr (failed_send (JStr []) (JStr ''E001'') (JStr ''No response from gateway'')))
    \<and> sending g' \<and> ug_stream g' = rest"
proof -
  have line: "read_line [] (ug_stream g) = (None, rest)" using assms(3) by simp
  obtain g' where g': "unix_request w ''SEND'' [(''recipient'', json_get m ''recipient_role'' JNull), (''message'', JObj m)] g = (g', Inr None)"
    "sending g'" "ug_stream g' = rest"
    using assms(1,2) by (simp add: unix_request_def line count_error_def sending_def)
  then have "unix_send w m g = (g', Inr (failed_send (JStr []) (JStr ''E001'') (JStr ''No response from gateway'')))"
    using assms(1) by (simp add: unix_send_def sending_def andthen_step)
  then show ?thesis using g' by blast
qed

lemma send_each_answered:
  assumes "sending g" and "\<And>n. uw_writes w n" and "ug_stream g = map Chunk ls @ rest" and "list_all2 (answer_line w) ls ds"
    and "length ms = length ls"
  shows "snd (send_each w ms g) = Inr (map answer_result ds)"
  using assms(1,3-5)
proof (induction ms arbitrary: g ls ds)
  case Nil
  then show ?case by (simp add: send_each_def)
next
  case (Cons m ms)
  obtain l ls' d ds' where ls: "ls = l # ls'" "ds = d # ds'" "answer_line w l d" "list_all2 (answer_line w) ls' ds'"
    using Cons.prems(3,4) by (cases ls; cases ds) auto
  obtain g' where g': "unix_send w m g = (g', Inr (answer_result d))" "sending g'" "ug_stream g' = map Chunk ls' @ rest"
    using send_answered[OF Cons.prems(1) assms(2) _ ls(3), of "map Chunk ls' @ rest" m] Cons.prems(2) ls(1) by auto
  have "snd (send_each w ms g') = Inr (map answer_result ds')"
    using Cons.IH[OF g'(2,3) ls(4)] Cons.prems(4) ls(1) by simp
  then obtain g2 where "send_each w ms g' = (g2, Inr (map answer_result ds'))" by (cases "send_each w ms g'") simp
  then show ?case using g'(1) ls(2) by (simp add: send_each_def andthen_step[where m = "andthen x y" for x y] andthen_step)
qed

text \<open>
  C27. On the Unix socket the answers are matched with the requests by their order only. While every answer comes in time each
  message gets its own; after one answer that comes late, every later message is given the answer of the one before it, and its
  result says that this other message was accepted. (The identifier in the answer is never compared.)
\<close>

theorem late_answer_shifts_results:
  assumes "sending g" and "\<And>n. uw_writes w n" and "list_all2 (answer_line w) ls ds" and n: "length ms = length ls"
  shows "snd (send_each w ms (g\<lparr>ug_stream := map Chunk ls\<rparr>)) = Inr (map answer_result ds)
    \<and> snd (send_each w (m # ms) (g\<lparr>ug_stream := Timeout # map Chunk ls\<rparr>))
       = Inr (failed_send (JStr []) (JStr ''E001'') (JStr ''No response from gateway'') # map answer_result ds)"
proof
  have s: "sending (g\<lparr>ug_stream := x\<rparr>)" for x using assms(1) by (simp add: sending_def)
  show "snd (send_each w ms (g\<lparr>ug_stream := map Chunk ls\<rparr>)) = Inr (map answer_result ds)"
    by (rule send_each_answered[OF s assms(2) _ assms(3) n, of _ "[]"]) simp
  obtain g' where g': "unix_send w m (g\<lparr>ug_stream := Timeout # map Chunk ls\<rparr>)
      = (g', Inr (failed_send (JStr []) (JStr ''E001'') (JStr ''No response from gateway'')))" "sending g'" "ug_stream g' = map Chunk ls"
    using send_timed_out[OF s assms(2), of "Timeout # map Chunk ls" "map Chunk ls" m] by auto
  have "snd (send_each w ms g') = Inr (map answer_result ds)"
    by (rule send_each_answered[OF g'(2) assms(2) _ assms(3) n, of "[]"]) (simp add: g'(3))
  then obtain g2 where "send_each w ms g' = (g2, Inr (map answer_result ds))" by (cases "send_each w ms g'") simp
  then show "snd (send_each w (m # ms) (g\<lparr>ug_stream := Timeout # map Chunk ls\<rparr>))
       = Inr (failed_send (JStr []) (JStr ''E001'') (JStr ''No response from gateway'') # map answer_result ds)"
    using g'(1) by (simp add: send_each_def andthen_step[where m = "andthen x y" for x y] andthen_step)
qed

definition echo_world :: unix_world where
  "echo_world = \<lparr>uw_now = 0, uw_connects = True, uw_stream = [], uw_writes = \<lambda>_. True,
     uw_loads = \<lambda>t. Some (JObj [(''status'', JStr ''queued''), (''data'', JObj [(''message_id'', JStr t)])])\<rparr>"

theorem late_answer_shifts_results_witness:
  "map sr_message_id (projr (snd (send_each echo_world [[(''message_id'', JStr ''m1'')], [(''message_id'', JStr ''m2'')]]
     (new_unix\<lparr>ug_state := Connected, ug_socket := True, ug_stream := [Timeout, Chunk [CHR ''1'', CHR 0x0A]]\<rparr>))))
   = [JStr [], JStr ''1'']"
proof -
  let ?g = "new_unix\<lparr>ug_state := Connected, ug_socket := True\<rparr>"
  let ?d = "[(''status'', JStr ''queued''), (''data'', JObj [(''message_id'', JStr ''1'')])]"
  have strip: "py_strip [CHR ''1'', CHR 0x0A] = ''1''" by (simp add: py_strip_def space_char_def)
  have "list_all2 (answer_line echo_world) [[CHR ''1'', CHR 0x0A]] [?d]"
    by (simp add: answer_line_def echo_world_def strip json_true_def json_get_def)
  from late_answer_shifts_results[OF _ _ this, of ?g "[[(''message_id'', JStr ''m2'')]]" "[(''message_id'', JStr ''m1'')]"]
  show ?thesis by (simp add: sending_def echo_world_def answer_result_def failed_send_def json_get_def)
qed

section \<open>The web socket\<close>

inductive ws_reached :: "gw_config \<Rightarrow> ws_gateway \<Rightarrow> bool" for c where
  start: "ws_reached c new_ws"
| connect: "ws_reached c g \<Longrightarrow> ws_reached c (fst (ws_connect c lib starts during g))"
| event: "ws_reached c g \<Longrightarrow> ws_reached c (ws_event_step e g)"
| send: "ws_reached c g \<Longrightarrow> ws_reached c (fst (ws_send now fails during m g))"
| receive: "ws_reached c g \<Longrightarrow> ws_reached c (fst (ws_receive now limit g))"
| subscribe: "ws_reached c g \<Longrightarrow> ws_reached c (fst (ws_subscribe c e h g))"
| unsubscribe: "ws_reached c g \<Longrightarrow> ws_reached c (fst (ws_unsubscribe e g))"
| close: "ws_reached c g \<Longrightarrow> ws_reached c (ws_close g)"

definition no_auth :: "ws_gateway \<Rightarrow> bool" where
  "no_auth g \<longleftrightarrow> list_all (\<lambda>p. map_of p ''method'' \<noteq> Some (JStr ''AUTH'')) (wg_sent g)"

lemma ws_frame_sent [simp]: "wg_sent (ws_frame d g) = wg_sent g"
  by (simp add: ws_frame_def ws_on_message_def split: option.split json.split)

lemma ws_event_sent [simp]: "wg_sent (ws_event_step e g) = wg_sent g"
proof (cases e)
  case (Frame d)
  then show ?thesis by (cases d) simp_all
qed simp_all

lemma ws_events_sent [simp]: "wg_sent (ws_events es g) = wg_sent g"
  unfolding ws_events_def by (induction es arbitrary: g) simp_all

lemma ws_connect_sent: "wg_sent (fst (ws_connect c lib starts during g)) = wg_sent g" "\<not> snd (ws_connect c lib starts during g)"
  by (simp_all add: ws_connect_def Let_def ws_authenticate_def ws_request_def ws_close_def)

lemma obj_get_state: "fst (obj_get j k d s) = s"
  by (simp add: obj_get_def split: json.split)

lemma andthen_fst: "(\<And>s. f (fst (m s)) = f s) \<Longrightarrow> (\<And>a s. f (fst (h a s)) = f s) \<Longrightarrow> f (fst (andthen m h s)) = f s"
  by (simp add: andthen_def split: prod.split sum.split) (metis fst_conv)

lemma results_state: "fst (accepted_result r s) = s" "fst (error_result m r s) = s"
proof -
  have "id (fst (accepted_result r s)) = id s"
    unfolding accepted_result_def by (intro andthen_fst) (simp_all add: obj_get_state)
  moreover have "id (fst (error_result m r s)) = id s"
    unfolding error_result_def by (intro andthen_fst) (simp_all add: obj_get_state)
  ultimately show "fst (accepted_result r s) = s" "fst (error_result m r s) = s" by simp_all
qed

lemma ws_outcome_sent: "wg_sent (fst (ws_outcome now m x g)) = wg_sent g"
  by (simp add: ws_outcome_def results_state)

lemma ws_send_sent:
  "wg_sent (fst (ws_send now fails during m g)) = wg_sent g
   \<or> wg_sent (fst (ws_send now fails during m g)) = wg_sent g @ [ws_payload (request_name (Suc (wg_requests g))) m]"
proof (cases "wg_state g = Connected \<and> fails = None")
  case False
  then show ?thesis by (cases fails) (auto simp: ws_send_def Let_def attempt_def ws_caught_def ws_forget_def)
next
  case True
  let ?i = "request_name (Suc (wg_requests g))"
  let ?g = "ws_events during (wg_sent_update (\<lambda>l. l @ [ws_payload ?i m]) (g\<lparr>wg_requests := Suc (wg_requests g), wg_waiting := wg_waiting g @ [?i]\<rparr>))"
  let ?f = "ws_forget ?i (wg_responses_update (AList.delete ?i) ?g)"
  have f: "wg_sent ?f = wg_sent g @ [ws_payload ?i m]" by (simp add: ws_forget_def)
  have eq: "ws_send now fails during m g = attempt (\<lambda>_. (case map_of (wg_responses ?g) ?i of
       Some x \<Rightarrow> ws_outcome now m x | None \<Rightarrow> ok (failed_send (JStr []) (JStr ''E001'') (JStr ''Request timeout''))) ?f) (ws_caught ?i) g"
    using True by (simp add: ws_send_def Let_def attempt_def)
  show ?thesis
  proof (cases "map_of (wg_responses ?g) ?i")
    case None
    then show ?thesis using f by (simp add: eq attempt_def)
  next
    case (Some x)
    obtain h r where hr: "ws_outcome now m x ?f = (h, r)" by fastforce
    have h: "wg_sent h = wg_sent g @ [ws_payload ?i m]" using ws_outcome_sent[of now m x ?f] f unfolding hr by simp
    have "ws_send now fails during m g = (case r of Inl e \<Rightarrow> ws_caught ?i e h | Inr y \<Rightarrow> (h, Inr y))"
      unfolding eq Some option.case attempt_def hr by simp
    then show ?thesis using h by (cases r) (simp_all add: ws_caught_def ws_forget_def)
  qed
qed

text \<open>The gateway whose socket opens after the half second the code waits for it.\<close>

definition opened_late :: "gw_config \<Rightarrow> ws_gateway" where
  "opened_late c = ws_event_step Opened (fst (ws_connect c True True [] new_ws))"

lemma opened_late_reached: "ws_reached c (opened_late c)"
  unfolding opened_late_def by (intro ws_reached.event ws_reached.connect ws_reached.start)

text \<open>
  C28. The web socket never authenticates: connecting reports a failure always, and no run ever sends the secret. Yet a socket that
  opens after the half second the code waits leaves the gateway connected, and a message it then sends is accepted.
\<close>

theorem websocket_never_authenticates:
  assumes "ws_reached c g" and "begins_with ''ws://'' (gc_endpoint c)"
  shows "\<not> snd (ws_connect c lib starts during g) \<and> no_auth g \<and> ws_reached c (opened_late c)
    \<and> snd (ws_send 0 None [Frame (Some [(''id'', JStr (request_name 1)), (''status'', JStr ''queued'')])] m (opened_late c))
        = Inr \<lparr>sr_success = True, sr_message_id = JStr [], sr_requires_approval = JBool False,
               sr_error_code = JStr [], sr_error_message = JStr []\<rparr>"
proof (intro conjI)
  show "\<not> snd (ws_connect c lib starts during g)" by (rule ws_connect_sent)
  show "ws_reached c (opened_late c)" by (rule opened_late_reached)
  show "no_auth g" using assms(1)
  proof (induction rule: ws_reached.induct)
    case start
    then show ?case by (simp add: no_auth_def new_ws_def)
  next
    case (connect g lib starts during)
    then show ?case by (simp add: no_auth_def ws_connect_sent)
  next
    case (event g e)
    then show ?case by (simp add: no_auth_def)
  next
    case (send g now fails during m)
    have "map_of (ws_payload i m) ''method'' = Some (JStr ''SEND'')" for i by (simp add: ws_payload_def)
    then show ?case using send.IH ws_send_sent[of now fails during m g] by (auto simp: no_auth_def)
  next
    case (receive g now limit)
    then show ?case by (simp add: no_auth_def ws_receive_def Let_def)
  next
    case (subscribe g e h)
    then show ?case by (simp add: no_auth_def ws_subscribe_def Let_def)
  next
    case (unsubscribe g e)
    then show ?case by (simp add: no_auth_def ws_unsubscribe_def)
  next
    case (close g)
    then show ?case by (simp add: no_auth_def ws_close_def)
  qed
  have "\<not> begins_with ''unix://'' (gc_endpoint c)"
    using assms(2) by (cases "gc_endpoint c") (auto simp: begins_with_def)
  then have "opened_late c = new_ws\<lparr>wg_state := Connected, wg_ws := True\<rparr>"
    by (simp add: opened_late_def ws_connect_def ws_events_def new_ws_def)
  then show "snd (ws_send 0 None [Frame (Some [(''id'', JStr (request_name 1)), (''status'', JStr ''queued'')])] m (opened_late c))
        = Inr \<lparr>sr_success = True, sr_message_id = JStr [], sr_requires_approval = JBool False,
               sr_error_code = JStr [], sr_error_message = JStr []\<rparr>"
    by (simp add: ws_send_def Let_def ws_forget_def new_ws_def ws_events_def ws_frame_def is_response_def json_get_def ws_on_message_def
        attempt_def ws_outcome_def response_of_def json_true_def accepted_result_def obj_get_def)
qed

theorem websocket_never_authenticates_witness:
  "no_auth (opened_late \<lparr>gc_endpoint = ''ws://hub'', gc_secret = ''s'', gc_squad = ''q'', gc_role = ''finance''\<rparr>)"
proof -
  let ?c = "\<lparr>gc_endpoint = ''ws://hub'', gc_secret = ''s'', gc_squad = ''q'', gc_role = ''finance''\<rparr>"
  have "begins_with ''ws://'' (gc_endpoint ?c)" by (simp add: begins_with_def)
  from websocket_never_authenticates[OF opened_late_reached this] show ?thesis by blast
qed

section \<open>Files\<close>

definition file_ready :: "file_gateway \<Rightarrow> bool" where
  "file_ready g \<longleftrightarrow> fg_state g = Connected \<and> fg_ready g"

lemma mesh_file_name_json: "json_name (mesh_file_name w m)"
  by (simp add: json_name_def mesh_file_name_def)

lemma py_in_end: "py_in i (x @ i)"
proof (induction x)
  case Nil
  then show ?case by (cases i) simp_all
qed simp

lemma mesh_file_name_id: "get_str m ''message_id'' [] = i \<Longrightarrow> name_has i (mesh_file_name w m)"
  by (simp add: name_has_def mesh_file_name_json) (simp add: mesh_file_name_def py_in_end[of i "x @ [CHR ''_'']" for x, simplified])

lemma file_send_stores:
  assumes "file_ready g" and "get_str m ''recipient_role'' [] = r" and "r \<noteq> []" and "fw_write w (mesh_file_name w m) = None"
  shows "file_send w m (g, d) = ((g\<lparr>fg_last := Some (fw_now w)\<rparr>,
      d\<lparr>mf_inbox := (mf_inbox d)(r := store_file (mesh_file_name w m) (Some m) (mf_inbox d r))\<rparr>),
     \<lparr>sr_success = True, sr_message_id = JStr (get_str m ''message_id'' []), sr_requires_approval = JBool (r = ''war_room''),
      sr_error_code = JStr [], sr_error_message = JStr []\<rparr>)"
  using assms by (simp add: file_send_def file_ready_def Let_def)

lemma file_receive_all:
  assumes "file_ready g" and "length (inbox_order (mf_inbox d r)) \<le> limit" and "(n, Some m) \<in> set (mf_inbox d r)" and "json_name n"
  shows "m \<in> set (snd (file_receive w r limit (g, d)))"
proof -
  have "(n, Some m) \<in> set (inbox_order (mf_inbox d r))" using assms(3,4) by (auto simp: inbox_order_def)
  then show ?thesis using assms(1,2) by (force simp: file_receive_def file_ready_def Let_def)
qed

lemma file_receive_keeps: "snd (fst (file_receive w r limit (g, d))) = d"
  by (simp add: file_receive_def Let_def)

lemma store_file_mem: "(n, f) \<in> set (store_file n f fs)"
  by (induction fs) (auto simp: store_file_def)

lemma store_file_keys: "(k, x) \<in> set (store_file n f fs) \<Longrightarrow> k = n \<or> (k, x) \<in> set fs"
  unfolding store_file_def by (induction fs) (auto split: if_splits)

lemma store_file_length: "length (store_file n f fs) \<le> Suc (length fs)"
  unfolding store_file_def by (induction fs) auto

lemma inbox_order_length: "length (inbox_order fs) \<le> length fs"
  by (simp add: inbox_order_def)

lemma find_only:
  assumes "(n, f) \<in> set fs" and "P (n, f)" and "\<And>k x. (k, x) \<in> set fs \<Longrightarrow> P (k, x) \<Longrightarrow> k = n"
  shows "\<exists>x. find P fs = Some (n, x) \<and> (n, x) \<in> set fs"
proof (cases "find P fs")
  case None
  then show ?thesis using assms(1,2) by (auto simp: find_None_iff)
next
  case (Some y)
  then have "P y" "y \<in> set fs" by (auto simp: find_Some_iff)
  then show ?thesis using Some assms(3)[of "fst y" "snd y"] by (cases y) auto
qed

lemma store_file_value:
  assumes "distinct (map fst fs)" and "(n, x) \<in> set (store_file n f fs)"
  shows "x = f"
proof -
  have "distinct (map fst (store_file n f fs))" using assms(1) unfolding store_file_def by (rule distinct_update)
  then show ?thesis using assms(2) store_file_mem[of n f fs] eq_key_imp_eq_value by fastforce
qed


definition plain_files :: file_world where
  "plain_files = \<lparr>fw_now = 0, fw_stamp = ''t'', fw_mkdir = True, fw_write = \<lambda>_. None, fw_rename = \<lambda>_. True\<rparr>"

definition no_files :: mesh_files where
  "no_files = \<lparr>mf_inbox = \<lambda>_. [], mf_delivered = [], mf_rejected = []\<rparr>"

definition open_files :: file_gateway where
  "open_files = new_file_gateway\<lparr>fg_state := Connected, fg_ready := True\<rparr>"


text \<open>A sorted inbox begins with the names below a bound.\<close>

lemma sorted_split_at:
  fixes k :: "'k::linorder"
  shows "sorted (map f xs) \<Longrightarrow> xs = filter (\<lambda>x. f x < k) xs @ filter (\<lambda>x. \<not> f x < k) xs"
proof (induction xs)
  case (Cons x xs)
  show ?case
  proof (cases "f x < k")
    case True
    then show ?thesis using Cons by simp
  next
    case False
    then have "filter (\<lambda>x. f x < k) xs = []" using Cons.prems by (auto simp: filter_empty_conv)
    then show ?thesis using Cons False by simp
  qed
qed simp

lemma first_files:
  assumes "limit \<le> length (filter (\<lambda>(n, _). json_name n \<and> n < k) fs)"
  shows "set (take limit (inbox_order fs)) \<subseteq> {(n, f) \<in> set fs. json_name n \<and> n < k}"
proof -
  let ?a = "filter (\<lambda>x. fst x < k) (inbox_order fs)"
  have a: "?a = sort_key fst (filter (\<lambda>(n, _). json_name n \<and> n < k) fs)"
    by (simp add: inbox_order_def filter_sort case_prod_unfold conj_commute)
  then have "limit \<le> length ?a" using assms by simp
  then have "take limit (inbox_order fs) = take limit ?a"
    using sorted_split_at[of fst "inbox_order fs" k] by (metis sorted_sort_key inbox_order_def take_append diff_is_0_eq take0 append_Nil2)
  then have "set (take limit (inbox_order fs)) \<subseteq> set ?a" by (metis set_take_subset)
  then show ?thesis unfolding a by auto
qed

lemma store_file_below:
  "\<not> n < k \<Longrightarrow> filter (\<lambda>(n, _). json_name n \<and> n < k) (store_file n f fs) = filter (\<lambda>(n, _). json_name n \<and> n < k) fs"
  unfolding store_file_def by (induction fs) auto

definition poisoned :: "string \<Rightarrow> nat \<Rightarrow> string \<Rightarrow> mesh_files \<Rightarrow> bool" where
  "poisoned r limit k d \<longleftrightarrow> limit \<le> length (filter (\<lambda>(n, _). json_name n \<and> n < k) (mf_inbox d r))
     \<and> list_all (\<lambda>(n, f). json_name n \<and> n < k \<longrightarrow> f = None) (mf_inbox d r)"

lemma poisoned_send:
  assumes "poisoned r limit k d" and "\<not> mesh_file_name w m < k"
  shows "poisoned r limit k (snd (fst (file_send w m (g, d))))"
proof -
  let ?fs = "store_file (mesh_file_name w m) (Some m) (mf_inbox d r)"
  have "list_all (\<lambda>(n, f). json_name n \<and> n < k \<longrightarrow> f = None) ?fs"
    using assms store_file_keys[of _ _ "mesh_file_name w m" "Some m" "mf_inbox d r"] by (fastforce simp: poisoned_def list_all_iff)
  then have "poisoned r limit k (d\<lparr>mf_inbox := (mf_inbox d)(x := store_file (mesh_file_name w m) (Some m) (mf_inbox d x))\<rparr>)" for x
    using assms by (cases "r = x") (simp_all add: poisoned_def store_file_below)
  then show ?thesis using assms(1) by (simp add: file_send_def Let_def split: option.split)
qed

lemma poisoned_receive:
  assumes "poisoned r limit k d"
  shows "snd (file_receive w r limit (g, d)) = []"
proof -
  have "f = None" if "(n, f) \<in> set (take limit (inbox_order (mf_inbox d r)))" for n f
    using first_files[of limit k "mf_inbox d r"] assms that by (fastforce simp: poisoned_def list_all_iff)
  then show ?thesis by (fastforce simp: file_receive_def Let_def split: option.split)
qed

definition send_files :: "file_world \<Rightarrow> json dict list \<Rightarrow> file_state \<Rightarrow> file_state" where
  "send_files w ms s = fold (\<lambda>m t. fst (file_send w m t)) ms s"

text \<open>
  As many unreadable files as one reading takes, with names before those of the messages that follow, block an inbox for good:
  whatever is sent after them, receiving gives nothing, because it takes the first names and leaves the unreadable files there.
\<close>

theorem unreadable_files_block_the_inbox:
  assumes "poisoned r limit k d" and "\<And>m. m \<in> set ms \<Longrightarrow> \<not> mesh_file_name w m < k"
  shows "snd (file_receive w r limit (h, snd (send_files w ms (g, d)))) = []"
proof -
  have "poisoned r limit k (snd (send_files w ms (g, d)))" using assms
  proof (induction ms arbitrary: g d)
    case (Cons m ms)
    then show ?case using poisoned_send[of r limit k d w m g] by (cases "fst (file_send w m (g, d))") (simp add: send_files_def)
  qed (simp add: send_files_def)
  then show ?thesis by (rule poisoned_receive)
qed

theorem unreadable_files_block_the_inbox_witness:
  "snd (file_receive plain_files ''ops'' 1 (open_files, snd (send_files plain_files
     [[(''recipient_role'', JStr ''ops''), (''timestamp'', JStr ''2''), (''message_id'', JStr ''m1'')]]
     (open_files, no_files\<lparr>mf_inbox := (\<lambda>_. [(''1.json'', None)])\<rparr>)))) = []"
  by (rule unreadable_files_block_the_inbox[of _ _ "''2''"])
    (simp_all add: poisoned_def no_files_def json_name_def mesh_file_name_def get_str_def dashed_def less_char_def)

section \<open>The factory\<close>

lemma create_gateway_schemes:
  "create_gateway (''unix://'' @ x) = UnixSocket" "create_gateway (''tcp://'' @ x) = WebSocket" "create_gateway (''ws://'' @ x) = WebSocket"
  "create_gateway (''wss://'' @ x) = FileBased" "create_gateway [] = FileBased"
  by (simp_all add: create_gateway_def begins_with_def)

end
