(* ===== verification/Ops_Store.thy ===== *)
theory Ops_Store
  imports Pricing
begin

text \<open>
  \<^verbatim>\<open>milimo-core/src/milimo_core/ops/ops_init.py\<close>: the files and logs of the ops claw, and the state its
  components share. Directories list their entries in the order they were made. A file is a JSON object, or
  \<open>None\<close> when it is no JSON; writing succeeds. An instant is a number of microseconds.
\<close>

section \<open>Entries of the logs\<close>

record ops_entry =
  oe_time :: int
  oe_action :: string
  oe_entity :: string
  oe_outcome :: string
  oe_details :: "json dict"

record comms_entry =
  ce_time :: int
  ce_direction :: string
  ce_client :: string
  ce_project :: "string option"
  ce_channel :: string
  ce_preview :: string
  ce_approved :: "string option"

text \<open>The logs hold these as JSON lines; a line that is none is \<open>None\<close>, and the readers skip it.\<close>

definition readable :: "'a option list \<Rightarrow> 'a list" where
  "readable ls = concat (map (\<lambda>l. case l of None \<Rightarrow> [] | Some e \<Rightarrow> [e]) ls)"

definition ops_read_recent :: "int \<Rightarrow> int \<Rightarrow> string option \<Rightarrow> ops_entry option list \<Rightarrow> ops_entry list" where
  "ops_read_recent now days atype ls =
     filter (\<lambda>e. now - days * DAY \<le> oe_time e \<and> (case atype of None \<Rightarrow> True | Some a \<Rightarrow> oe_action e = a)) (readable ls)"

definition ops_count_by_type :: "int \<Rightarrow> string \<Rightarrow> int \<Rightarrow> ops_entry option list \<Rightarrow> nat" where
  "ops_count_by_type now atype days ls = length (ops_read_recent now days (Some atype) ls)"

definition client_comms :: "int \<Rightarrow> string \<Rightarrow> int \<Rightarrow> comms_entry option list \<Rightarrow> comms_entry list" where
  "client_comms now client days ls =
     filter (\<lambda>e. ce_client e = client \<and> now - days * DAY \<le> ce_time e) (readable ls)"

text \<open>\<open>get_response_times\<close>: the hours from the last message of the client to the next answer.\<close>

fun answer_hours :: "int option \<Rightarrow> comms_entry list \<Rightarrow> rat list" where
  "answer_hours since [] = []"
| "answer_hours since (e # es) =
     (if ce_direction e = ''received'' then answer_hours (Some (ce_time e)) es
      else if ce_direction e = ''sent'' then
        (case since of
           None \<Rightarrow> answer_hours None es
         | Some t \<Rightarrow> (if 0 \<le> hours_of (ce_time e - t) then [hours_of (ce_time e - t)] else []) @ answer_hours None es)
      else answer_hours since es)"

definition get_response_times :: "int \<Rightarrow> string \<Rightarrow> comms_entry option list \<Rightarrow> rat list" where
  "get_response_times now client ls = answer_hours None (sort_key ce_time (client_comms now client 90 ls))"

section \<open>The state\<close>

text \<open>
  What a project's directory holds, by file name; the directories of the clients under \<^verbatim>\<open>active\<close>; the queues of the
  approval handler by action; the messages the gateway took. \<open>os_fresh\<close> counts the identifiers drawn.
\<close>

type_synonym folder = "json dict option dict"

record ops = war_room +
  os_review :: folder
  os_hold :: folder
  os_decisions :: "json dict option list"
  os_log :: "ops_entry option list"
  os_comms :: "comms_entry option list"
  os_templates :: "string \<rightharpoonup> string"
  os_clients :: "string list"
  os_profiles :: "json dict dict"
  os_projects :: "((string \<times> string) \<times> folder) list"
  os_completed :: "((string \<times> string) \<times> folder) list"
  os_prospects :: "folder dict"
  os_confirmed :: "string list"
  os_fresh :: nat
  os_outbox :: "fin_msg list"
  os_pending :: "json dict dict"
  os_orders :: "(json dict \<times> string) dict"

text \<open>
  The world of an operation: the clock, the identifiers \<^verbatim>\<open>uuid4().hex\<close> gives, the gateway (a truth value or what it raises), the inference
  service by kind of question, \<^verbatim>\<open>json.loads\<close>, \<^verbatim>\<open>float\<close> of a text, and what
  \<^verbatim>\<open>datetime.fromisoformat\<close> makes of a text: an instant with or without a time zone, or a \<open>ValueError\<close>; \<^verbatim>\<open>str\<close> of a JSON value, the text of a line of the log, and what a shell command does
  (its outputs and exit code, a timeout, or an exception).
\<close>

datatype iso_time = Aware int | Naive int

datatype shell_result = Ran string string int | TimedOut | NotRun string

record ops_env =
  ov_now :: int
  ov_hex :: "nat \<Rightarrow> string"
  ov_stamp :: string
  ov_squad :: string
  ov_bridge :: bool
  ov_gateway :: "fin_msg \<Rightarrow> py_exn + bool"
  ov_infer :: "string \<Rightarrow> string + string"
  ov_loads :: "string \<Rightarrow> json option"
  ov_float :: "string \<Rightarrow> rat option"
  ov_iso :: "string \<Rightarrow> iso_time option"
  ov_str :: "json \<Rightarrow> string"
  ov_line :: "ops_entry option \<Rightarrow> string"
  ov_shell :: "string \<Rightarrow> shell_result"

definition fresh_hex :: "ops_env \<Rightarrow> nat \<Rightarrow> (ops, string) eff" where
  "fresh_hex v n = andthen (look os_fresh) (\<lambda>k. andthen (upd (os_fresh_update Suc)) (\<lambda>_. ok (take n (ov_hex v k))))"

definition log_ops :: "ops_env \<Rightarrow> string \<Rightarrow> string \<Rightarrow> string \<Rightarrow> json dict \<Rightarrow> (ops, unit) eff" where
  "log_ops v action entity outcome details =
     upd (os_log_update (\<lambda>l. l @ [Some \<lparr>oe_time = ov_now v, oe_action = action, oe_entity = entity, oe_outcome = outcome,
       oe_details = details\<rparr>]))"

definition log_comms :: "ops_env \<Rightarrow> string \<Rightarrow> string \<Rightarrow> string option \<Rightarrow> string \<Rightarrow> string \<Rightarrow> string option \<Rightarrow> (ops, unit) eff" where
  "log_comms v direction client project channel text approved =
     upd (os_comms_update (\<lambda>l. l @ [Some \<lparr>ce_time = ov_now v, ce_direction = direction, ce_client = client, ce_project = project,
       ce_channel = channel, ce_preview = take 100 text, ce_approved = approved\<rparr>]))"

section \<open>Files of clients and projects\<close>

definition get_template :: "string \<Rightarrow> (ops, string) eff" where
  "get_template n = andthen (look (\<lambda>s. os_templates s n)) (\<lambda>t. case t of
       None \<Rightarrow> throw ''FileNotFoundError'' (''Template not found: '' @ n) | Some x \<Rightarrow> ok x)"

definition add_once :: "'a \<Rightarrow> 'a list \<Rightarrow> 'a list" where
  "add_once x xs = (if x \<in> set xs then xs else xs @ [x])"

definition create_client_dirs :: "string \<Rightarrow> (ops, unit) eff" where
  "create_client_dirs c = upd (os_clients_update (add_once c))"

definition project_folder :: "string \<Rightarrow> string \<Rightarrow> ops \<Rightarrow> folder" where
  "project_folder c p s = (case map_of (os_projects s) (c, p) of None \<Rightarrow> [] | Some f \<Rightarrow> f)"

definition put_project :: "string \<Rightarrow> string \<Rightarrow> folder \<Rightarrow> ops \<Rightarrow> ops" where
  "put_project c p f s = s\<lparr>os_clients := add_once c (os_clients s), os_projects := AList.update (c, p) f (os_projects s)\<rparr>"

definition create_project_dirs :: "string \<Rightarrow> string \<Rightarrow> (ops, unit) eff" where
  "create_project_dirs c p = upd (\<lambda>s. put_project c p (project_folder c p s) s)"

text \<open>\<open>write_json_atomic\<close> to a file of a project: the directories above it are made.\<close>

definition write_project :: "string \<Rightarrow> string \<Rightarrow> string \<Rightarrow> json dict \<Rightarrow> (ops, unit) eff" where
  "write_project c p n d = upd (\<lambda>s. put_project c p (AList.update n (Some d) (project_folder c p s)) s)"

definition read_json :: "string \<Rightarrow> folder \<Rightarrow> json dict option" where
  "read_json n f = (case map_of f n of Some (Some d) \<Rightarrow> Some d | _ \<Rightarrow> None)"

definition prospect_folder :: "string \<Rightarrow> ops \<Rightarrow> folder" where
  "prospect_folder i s = (case map_of (os_prospects s) i of None \<Rightarrow> [] | Some f \<Rightarrow> f)"

definition write_prospect :: "string \<Rightarrow> string \<Rightarrow> json dict \<Rightarrow> (ops, unit) eff" where
  "write_prospect i n d = upd (\<lambda>s. s\<lparr>os_prospects := AList.update i (AList.update n (Some d) (prospect_folder i s)) (os_prospects s)\<rparr>)"

definition get_active_clients :: "ops \<Rightarrow> string list" where
  "get_active_clients s = os_clients s"

definition client_projects :: "string \<Rightarrow> ops \<Rightarrow> string list" where
  "client_projects c s = map (\<lambda>((_, p), _). p) (filter (\<lambda>((c', _), _). c' = c) (os_projects s))"

definition get_active_projects :: "ops \<Rightarrow> (string \<times> string) list" where
  "get_active_projects s = concat (map (\<lambda>c. map (\<lambda>p. (c, p)) (client_projects c s)) (os_clients s))"

section \<open>The inference service\<close>

text \<open>\<open>self._inference_client.complete(...)\<close> by kind of question; the prompt is left out.\<close>

definition ask :: "ops_env \<Rightarrow> string \<Rightarrow> ('s, string) eff" where
  "ask v kind = (case ov_infer v kind of Inl e \<Rightarrow> throw ''Exception'' e | Inr t \<Rightarrow> ok t)"

text \<open>The first braces of an answer, read as JSON: \<open>None\<close> without a match, an exception when it is no JSON object.\<close>

definition braced_json :: "ops_env \<Rightarrow> string \<Rightarrow> ('s, json dict option) eff" where
  "braced_json v output = (case brace_text output of
       None \<Rightarrow> ok None
     | Some t \<Rightarrow> (case ov_loads v t of
           Some (JObj d) \<Rightarrow> ok (Some d)
         | Some _ \<Rightarrow> throw ''AttributeError'' ''get''
         | None \<Rightarrow> throw ''JSONDecodeError'' t))"

text \<open>\<open>float(v)\<close> of a JSON value.\<close>

definition to_float :: "ops_env \<Rightarrow> json \<Rightarrow> ('s, rat) eff" where
  "to_float v j = (case j of JInt n \<Rightarrow> ok (of_int n) | JFloat r \<Rightarrow> ok r | JBool b \<Rightarrow> ok (if b then 1 else 0)
     | JStr t \<Rightarrow> (case ov_float v t of Some r \<Rightarrow> ok r | None \<Rightarrow> throw ''ValueError'' t)
     | _ \<Rightarrow> throw ''TypeError'' ''float() argument'')"

end
