(* ===== verification/Ops_Approval.thy ===== *)
theory Ops_Approval
  imports Ops_Store
begin

text \<open>
  \<^verbatim>\<open>milimo-core/src/milimo_core/ops/approval_handler.py\<close>: what waits for the operator, as files in two
  queues, the decisions and their log, and the callbacks the plugin (\<^verbatim>\<open>milimo_hermes_plugin/__init__.py\<close>) registers with
  the War Room for them. What an approval does (\<open>send_fn\<close>, \<open>execute_fn\<close>) is an argument.
\<close>

section \<open>Actions and their files\<close>

record ops_action =
  oa_id :: string
  oa_type :: string
  oa_entity :: string
  oa_mode :: string
  oa_content :: string
  oa_context :: "json dict"
  oa_time :: "int option"
  oa_outcome :: "string option"
  oa_original :: "string option"
  oa_hours :: rat
  oa_flag :: "string option"

definition ops_action_to_dict :: "ops_action \<Rightarrow> json dict" where
  "ops_action_to_dict a =
     [(''action_id'', JStr (oa_id a)), (''action_type'', JStr (oa_type a)), (''entity_id'', JStr (oa_entity a)),
      (''mode'', JStr (oa_mode a)), (''content'', JStr (oa_content a)), (''context'', JObj (oa_context a)),
      (''timestamp'', json_date (oa_time a)), (''outcome'', json_opt JStr (oa_outcome a)),
      (''original_content'', json_opt JStr (oa_original a)), (''hours_waiting'', JFloat (oa_hours a)),
      (''urgency_flag'', json_opt JStr (oa_flag a))]"

definition ops_action_of_dict :: "json dict \<Rightarrow> read_error + ops_action" where
  "ops_action_of_dict d =
     bind_sum (rq_str d ''action_id'') (\<lambda>i. bind_sum (rq_str d ''action_type'') (\<lambda>ty.
     bind_sum (rq_str d ''entity_id'') (\<lambda>en. bind_sum (rq_str d ''mode'') (\<lambda>mo.
     bind_sum (rq_str d ''content'') (\<lambda>co. bind_sum (rd_obj d ''context'') (\<lambda>cx.
     bind_sum (rd_date d ''timestamp'') (\<lambda>ts. bind_sum (rd_opt_str d ''outcome'') (\<lambda>ou.
     bind_sum (rd_opt_str d ''original_content'') (\<lambda>og. bind_sum (rd_num d ''hours_waiting'' 0) (\<lambda>hw.
     bind_sum (rd_opt_str d ''urgency_flag'') (\<lambda>uf.
       Inr \<lparr>oa_id = i, oa_type = ty, oa_entity = en, oa_mode = mo, oa_content = co, oa_context = cx, oa_time = ts,
            oa_outcome = ou, oa_original = og, oa_hours = hw, oa_flag = uf\<rparr>)))))))))))"

lemma ops_action_of_to_dict [simp]: "ops_action_of_dict (ops_action_to_dict a) = Inr a"
  by (simp add: ops_action_of_dict_def ops_action_to_dict_def rq_str_def rd_obj_def rd_date_def rd_opt_str_def rd_num_def json_num_def
      json_date_def json_opt_def split: option.split)

datatype ops_queue = ReviewQueue | HoldQueue

fun queue_of :: "ops_queue \<Rightarrow> ops \<Rightarrow> folder" where
  "queue_of ReviewQueue s = os_review s"
| "queue_of HoldQueue s = os_hold s"

fun on_queue :: "ops_queue \<Rightarrow> (folder \<Rightarrow> folder) \<Rightarrow> ops \<Rightarrow> ops" where
  "on_queue ReviewQueue f s = os_review_update f s"
| "on_queue HoldQueue f s = os_hold_update f s"

definition write_action :: "ops_action \<Rightarrow> ops_queue \<Rightarrow> (ops, unit) eff" where
  "write_action a q = upd (on_queue q (AList.update (oa_id a) (Some (ops_action_to_dict a))))"

text \<open>A file that is no JSON, or lacks a key, is no action.\<close>

definition action_in_file :: "json dict option \<Rightarrow> py_exn + ops_action option" where
  "action_in_file f = (case f of
       None \<Rightarrow> Inr None
     | Some d \<Rightarrow> (case ops_action_of_dict d of
           Inr a \<Rightarrow> Inr (Some a) | Inl (MissingField k) \<Rightarrow> Inr None | Inl e \<Rightarrow> Inl (reader_exn e)))"

definition read_action :: "string \<Rightarrow> ops_queue \<Rightarrow> (ops, ops_action option) eff" where
  "read_action aid q = andthen (look (\<lambda>s. map_of (queue_of q s) aid)) (\<lambda>f. case f of
       None \<Rightarrow> ok None | Some x \<Rightarrow> lift_exn (action_in_file x))"

definition remove_ops_action :: "string \<Rightarrow> ops_queue \<Rightarrow> (ops, bool) eff" where
  "remove_ops_action aid q = andthen (look (\<lambda>s. map_of (queue_of q s) aid \<noteq> None)) (\<lambda>there.
     andthen (only_if there (upd (on_queue q (AList.delete aid)))) (\<lambda>_. ok there))"

section \<open>The War Room\<close>

definition sync_warroom :: "ops_env \<Rightarrow> ops_action \<Rightarrow> (ops, unit) eff" where
  "sync_warroom v a =
     only_if (ov_bridge v) (attempt (andthen
       (write_warroom_action (ov_now v) (oa_id a) ''ops'' (oa_mode a) (oa_type a) (take 200 (oa_content a)) ''ops''
         [(''entity_id'', JStr (oa_entity a)), (''content'', JStr (oa_content a)), (''context'', JObj (oa_context a))])
       (\<lambda>_. ok ())) (\<lambda>_. ok ()))"

definition unsync_action :: "ops_env \<Rightarrow> string \<Rightarrow> (ops, unit) eff" where
  "unsync_action v aid =
     only_if (ov_bridge v) (attempt (andthen (remove_warroom_action aid) (\<lambda>_. ok ())) (\<lambda>_. ok ()))"

section \<open>Queueing\<close>

definition queue_mode :: "ops_queue \<Rightarrow> string" where
  "queue_mode q = (case q of ReviewQueue \<Rightarrow> ''REVIEW'' | HoldQueue \<Rightarrow> ''HOLD'')"

definition ops_new_action :: "ops_env \<Rightarrow> string \<Rightarrow> string \<Rightarrow> string \<Rightarrow> string \<Rightarrow> string \<Rightarrow> json dict \<Rightarrow> ops_action" where
  "ops_new_action v aid mode atype entity content context =
     \<lparr>oa_id = aid, oa_type = atype, oa_entity = entity, oa_mode = mode, oa_content = content, oa_context = context,
      oa_time = Some (ov_now v), oa_outcome = None, oa_original = None, oa_hours = 0, oa_flag = None\<rparr>"

definition queue_ops_action :: "ops_env \<Rightarrow> ops_queue \<Rightarrow> string \<Rightarrow> string \<Rightarrow> string \<Rightarrow> json dict \<Rightarrow> (ops, string) eff" where
  "queue_ops_action v q atype entity content context =
     andthen (fresh_hex v 12) (\<lambda>aid.
       (let a = ops_new_action v aid (queue_mode q) atype entity content context in
        andthen (write_action a q) (\<lambda>_. andthen (sync_warroom v a) (\<lambda>_. ok aid))))"

definition queue_review :: "ops_env \<Rightarrow> string \<Rightarrow> string \<Rightarrow> string \<Rightarrow> json dict \<Rightarrow> (ops, string) eff" where
  "queue_review v = queue_ops_action v ReviewQueue"

definition queue_hold :: "ops_env \<Rightarrow> string \<Rightarrow> string \<Rightarrow> string \<Rightarrow> json dict \<Rightarrow> (ops, string) eff" where
  "queue_hold v = queue_ops_action v HoldQueue"

section \<open>Decisions\<close>

definition ops_decision :: "ops_env \<Rightarrow> ops_action \<Rightarrow> json dict" where
  "ops_decision v a =
     [(''timestamp'', JInt (ov_now v)), (''action_id'', JStr (oa_id a)), (''action_type'', JStr (oa_type a)),
      (''entity_id'', JStr (oa_entity a)), (''mode'', JStr (oa_mode a)), (''outcome'', json_opt JStr (oa_outcome a)),
      (''content_preview'', JStr (take 200 (oa_content a))),
      (''original_content_preview'', if truthy_str (oa_original a) then JStr (take 200 (the (oa_original a))) else JNull),
      (''context'', JObj (oa_context a))]"

definition log_ops_decision :: "ops_env \<Rightarrow> ops_action \<Rightarrow> (ops, unit) eff" where
  "log_ops_decision v a = upd (os_decisions_update (\<lambda>l. l @ [Some (ops_decision v a)]))"

definition log_auto :: "ops_env \<Rightarrow> string \<Rightarrow> string \<Rightarrow> string \<Rightarrow> (ops, unit) eff" where
  "log_auto v atype entity preview =
     andthen (fresh_hex v 12) (\<lambda>aid.
       log_ops_decision v ((ops_new_action v aid ''AUTO'' atype entity (take 200 preview) [])\<lparr>oa_outcome := Some ''auto_executed''\<rparr>))"

text \<open>The action in the review queue, or else in the hold queue.\<close>

definition get_action :: "string \<Rightarrow> (ops, ops_action option) eff" where
  "get_action aid = andthen (read_action aid ReviewQueue) (\<lambda>a. case a of Some x \<Rightarrow> ok (Some x) | None \<Rightarrow> read_action aid HoldQueue)"

definition close_action :: "ops_env \<Rightarrow> string \<Rightarrow> (ops, unit) eff" where
  "close_action v aid =
     andthen (remove_ops_action aid ReviewQueue) (\<lambda>_. andthen (remove_ops_action aid HoldQueue) (\<lambda>_. unsync_action v aid))"

text \<open>Doing what was decided: the effect, the decision and the cleaning up; an exception is logged as the outcome.\<close>

definition carry_out :: "ops_env \<Rightarrow> ops_action \<Rightarrow> string \<Rightarrow> (ops, unit) eff \<Rightarrow> (ops, unit) eff \<Rightarrow> (ops, bool) eff" where
  "carry_out v a outcome effect cleanup =
     attempt
       (andthen effect (\<lambda>_. andthen (log_ops_decision v (a\<lparr>oa_outcome := Some outcome\<rparr>)) (\<lambda>_.
        andthen cleanup (\<lambda>_. ok True))))
       (\<lambda>e. andthen (log_ops_decision v (a\<lparr>oa_outcome := Some (''execution_failed: '' @ exn_text e)\<rparr>)) (\<lambda>_. ok False))"

definition ops_approve :: "ops_env \<Rightarrow> string \<Rightarrow> (ops, unit) eff \<Rightarrow> (ops, bool) eff" where
  "ops_approve v aid send = andthen (get_action aid) (\<lambda>f. case f of
       None \<Rightarrow> ok False
     | Some a \<Rightarrow> carry_out v a ''approved'' send (close_action v aid))"

definition ops_edit :: "ops_env \<Rightarrow> string \<Rightarrow> string \<Rightarrow> (ops, unit) eff \<Rightarrow> (ops, bool) eff" where
  "ops_edit v aid edited send = andthen (get_action aid) (\<lambda>f. case f of
       None \<Rightarrow> ok False
     | Some a \<Rightarrow> carry_out v (a\<lparr>oa_original := Some (oa_content a), oa_content := edited\<rparr>) ''edited_and_sent'' send (close_action v aid))"

definition log_inquiry_declined :: "ops_env \<Rightarrow> string \<Rightarrow> string option \<Rightarrow> (ops, unit) eff" where
  "log_inquiry_declined v i why =
     write_prospect i ''declined.json'' [(''inquiry_id'', JStr i), (''declined_at'', JInt (ov_now v)),
       (''reason'', JStr (if truthy_str why then the why else ''welcome_message_blocked''))]"

definition ops_block :: "ops_env \<Rightarrow> string \<Rightarrow> string option \<Rightarrow> (ops, bool) eff" where
  "ops_block v aid why = andthen (get_action aid) (\<lambda>f. case f of
       None \<Rightarrow> ok False
     | Some a \<Rightarrow>
         andthen (log_ops_decision v (a\<lparr>oa_outcome := Some (''blocked: '' @ (if truthy_str why then the why else ''no_reason_provided''))\<rparr>)) (\<lambda>_.
         andthen (close_action v aid) (\<lambda>_.
         andthen (only_if (oa_type a = ''welcome_message'') (log_inquiry_declined v (oa_entity a) why)) (\<lambda>_. ok True))))"

definition ops_hold_release :: "ops_env \<Rightarrow> string \<Rightarrow> (ops, unit) eff \<Rightarrow> (ops, bool) eff" where
  "ops_hold_release v aid execute = andthen (read_action aid HoldQueue) (\<lambda>f. case f of
       None \<Rightarrow> ok False
     | Some a \<Rightarrow> carry_out v a ''hold_released'' execute
         (andthen (remove_ops_action aid HoldQueue) (\<lambda>_. unsync_action v aid)))"

definition urgency_text :: "int \<Rightarrow> string option \<Rightarrow> string option" where
  "urgency_text hours old = (if 48 \<le> hours then Some ''Response window closing''
     else if 24 \<le> hours then Some (''No decision in 24h '' @ [CHR 0xE2, CHR 0x80, CHR 0x94] @ '' client may disengage'') else old)"

definition add_urgency_flag :: "string \<Rightarrow> int \<Rightarrow> (ops, bool) eff" where
  "add_urgency_flag aid hours = andthen (get_action aid) (\<lambda>f. case f of
       None \<Rightarrow> ok False
     | Some a \<Rightarrow> andthen (write_action (a\<lparr>oa_flag := urgency_text hours (oa_flag a), oa_hours := of_int hours\<rparr>)
           (if oa_mode a = ''REVIEW'' then ReviewQueue else HoldQueue)) (\<lambda>_. ok True))"

text \<open>The listings: actions without a time, whose text is empty, come first.\<close>

definition by_time :: "ops_action list \<Rightarrow> ops_action list" where
  "by_time as = filter (\<lambda>a. oa_time a = None) as
     @ sort_key (\<lambda>a. case oa_time a of Some t \<Rightarrow> t | None \<Rightarrow> 0) (filter (\<lambda>a. oa_time a \<noteq> None) as)"

definition queued_actions :: "ops_queue \<Rightarrow> (ops, ops_action list) eff" where
  "queued_actions q = andthen (look (queue_of q)) (\<lambda>fs.
     andthen (collect fs (\<lambda>(_, f). andthen (lift_exn (action_in_file f)) (\<lambda>x. ok (case x of Some a \<Rightarrow> [a] | None \<Rightarrow> [])))) (\<lambda>as.
     ok (by_time as)))"

definition get_review_queue :: "(ops, ops_action list) eff" where "get_review_queue = queued_actions ReviewQueue"

definition get_hold_queue :: "(ops, ops_action list) eff" where "get_hold_queue = queued_actions HoldQueue"

section \<open>The callbacks of the War Room\<close>

text \<open>The plugin approves with a \<open>send_fn\<close> that does nothing.\<close>

definition ops_handlers :: "ops_env \<Rightarrow> ops handler_table" where
  "ops_handlers v = register_warroom_action_handler ''ops''
     \<lparr>on_approve = (\<lambda>aid _. andthen (ops_approve v aid (ok ())) (\<lambda>_. ok ())),
      on_veto = (\<lambda>aid _. andthen (ops_block v aid (Some ''vetoed from war room'')) (\<lambda>_. ok ()))\<rparr> Map.empty"

end
