(* ===== verification/Ops_Signals.thy ===== *)
theory Ops_Signals
  imports Ops_Approval
begin

text \<open>
  \<^verbatim>\<open>milimo-core/src/milimo_core/ops/signal_dispatcher.py\<close> (the messages to other claws) and
  \<^verbatim>\<open>project_manager.py\<close> (projects from brief to completion).
\<close>

section \<open>Messages\<close>

definition python_or :: "json \<Rightarrow> json \<Rightarrow> json" where
  "python_or a b = (if json_true a then a else b)"

text \<open>The entity of a failed sending; identifiers are texts.\<close>

definition failed_entity :: "json dict \<Rightarrow> string" where
  "failed_entity body =
     (case python_or (json_get body ''project_id'' (json_get body ''client_id'' (JStr ''unknown''))) (JStr ''unknown'') of
        JStr t \<Rightarrow> t | _ \<Rightarrow> [])"

definition ops_send :: "ops_env \<Rightarrow> string \<Rightarrow> string \<Rightarrow> json dict \<Rightarrow> (ops, unit) eff" where
  "ops_send v mtype recipient body =
     andthen (fresh_hex v 12) (\<lambda>mid.
       (let m = \<lparr>fm_type = mtype, fm_recipient = recipient, fm_payload = body, fm_id = mid, fm_time = ov_now v\<rparr>
        in case ov_gateway v m of
             Inr True \<Rightarrow> upd (os_outbox_update (\<lambda>l. l @ [m]))
           | Inr False \<Rightarrow> log_ops v (mtype @ ''_send_failed'') (failed_entity body) ''failed''
               [(''recipient_role'', JStr recipient), (''error'', JStr ''gateway returned false'')]
           | Inl e \<Rightarrow> log_ops v (mtype @ ''_send_exception'') (failed_entity body) ''failed''
               [(''recipient_role'', JStr recipient), (''error'', JStr (exn_text e))]))"

definition is_pricing_confirmed :: "string \<Rightarrow> ops \<Rightarrow> bool" where
  "is_pricing_confirmed p s \<longleftrightarrow> p \<in> set (os_confirmed s)"

definition mark_pricing_confirmed :: "string \<Rightarrow> (ops, unit) eff" where
  "mark_pricing_confirmed p = upd (os_confirmed_update (add_once p))"

definition send_project_brief :: "ops_env \<Rightarrow> string \<Rightarrow> string \<Rightarrow> string \<Rightarrow> string \<Rightarrow> string \<Rightarrow> string list \<Rightarrow> string \<Rightarrow> (ops, unit) eff" where
  "send_project_brief v client project brief deadline tone platforms recipient =
     andthen (look (is_pricing_confirmed project)) (\<lambda>known.
       if \<not> known then throw ''PricingNotConfirmedError'' (''Cannot send project_brief for project '' @ project
         @ '': pricing_response not confirmed. Send pricing_query first.'')
       else andthen (ops_send v ''project_brief'' recipient
           [(''client_id'', JStr client), (''project_id'', JStr project), (''brief_text'', JStr brief), (''deadline'', JStr deadline),
            (''tone_requirements'', JStr tone), (''platform_targets'', JList (map JStr platforms))]) (\<lambda>_.
         log_ops v ''project_brief_sent'' project ''success'' [(''recipient_role'', JStr recipient), (''client_id'', JStr client)]))"

definition send_feature_brief :: "ops_env \<Rightarrow> string \<Rightarrow> string \<Rightarrow> string \<Rightarrow> string \<Rightarrow> string \<Rightarrow> (ops, unit) eff" where
  "send_feature_brief v client project feature deadline criteria =
     andthen (ops_send v ''feature_brief'' ''build''
       [(''project_id'', JStr project), (''feature_name'', JStr (take 100 feature)), (''description'', JStr feature),
        (''deadline'', JStr deadline), (''client_id'', JStr client), (''priority'', JStr ''normal'')]) (\<lambda>_.
     log_ops v ''feature_brief_sent'' project ''success'' [(''client_id'', JStr client)])"

definition pricing_payload :: "string \<Rightarrow> json \<Rightarrow> string \<Rightarrow> string \<Rightarrow> string option \<Rightarrow> json dict" where
  "pricing_payload project scope complexity deadline client =
     [(''project_id'', JStr project), (''scope_description'', scope), (''complexity_estimate'', JStr complexity),
      (''deadline'', JStr deadline)] @ (if truthy_str client then [(''client_id'', JStr (the client))] else [])"

definition send_pricing_query :: "ops_env \<Rightarrow> string \<Rightarrow> json \<Rightarrow> string \<Rightarrow> string \<Rightarrow> string option \<Rightarrow> (ops, unit) eff" where
  "send_pricing_query v project scope complexity deadline client =
     andthen (ops_send v ''pricing_query'' ''finance'' (pricing_payload project scope complexity deadline client)) (\<lambda>_.
     log_ops v ''pricing_query_sent'' project ''success'' [(''deadline'', JStr deadline)])"

definition send_project_complete :: "ops_env \<Rightarrow> string \<Rightarrow> string \<Rightarrow> (ops, unit) eff" where
  "send_project_complete v project client =
     andthen (ops_send v ''project_complete'' ''finance''
       [(''project_id'', JStr project), (''client_id'', JStr client), (''delivered_at'', JInt (ov_now v))]) (\<lambda>_.
     log_ops v ''project_complete_sent'' project ''success'' [(''client_id'', JStr client)])"

definition send_client_health_signal :: "ops_env \<Rightarrow> string \<Rightarrow> rat \<Rightarrow> string list \<Rightarrow> string \<Rightarrow> (ops, unit) eff" where
  "send_client_health_signal v client score factors advice =
     andthen (ops_send v ''client_health_signal'' ''analytics''
       [(''client_id'', JStr client), (''health_score'', JFloat score), (''health_factors'', JList (map JStr factors)),
        (''recommended_action'', JStr advice)]) (\<lambda>_.
     log_ops v ''client_health_signal_sent'' client ''success'' [(''health_score'', JFloat score)])"

definition send_client_onboarded :: "ops_env \<Rightarrow> string \<Rightarrow> json \<Rightarrow> json \<Rightarrow> rat \<Rightarrow> (ops, unit) eff" where
  "send_client_onboarded v client niche kind estimate =
     andthen (ops_send v ''client_onboarded'' ''analytics''
       [(''client_id'', JStr client), (''niche'', niche), (''project_type'', kind), (''estimated_value'', JFloat estimate)]) (\<lambda>_.
     log_ops v ''client_onboarded_sent'' client ''success'' [(''niche'', niche), (''project_type'', kind)])"

definition log_incident :: "ops_env \<Rightarrow> json dict \<Rightarrow> (ops, unit) eff" where
  "log_incident v alert =
     log_ops v ''incident_received'' (get_str alert ''alert_id'' ''unknown'') ''success''
       [(''source'', json_get alert ''source'' (JStr ''unknown'')), (''severity'', json_get alert ''severity'' (JStr ''warning'')),
        (''title'', json_get alert ''title'' (JStr []))]"

section \<open>Projects\<close>

record project_status =
  pj_project :: string
  pj_client :: string
  pj_status :: string
  pj_deadline :: string
  pj_received :: bool
  pj_confirmed :: bool
  pj_risk :: string
  pj_updated :: "int option"

definition rd_bool :: "json dict \<Rightarrow> string \<Rightarrow> bool \<Rightarrow> read_error + bool" where
  "rd_bool d k def = (case map_of d k of None \<Rightarrow> Inr def | Some (JBool b) \<Rightarrow> Inr b | Some _ \<Rightarrow> Inl (Untyped k))"

definition status_to_dict :: "project_status \<Rightarrow> json dict" where
  "status_to_dict p =
     [(''project_id'', JStr (pj_project p)), (''client_id'', JStr (pj_client p)), (''status'', JStr (pj_status p)),
      (''deadline'', JStr (pj_deadline p)), (''deliverable_received'', JBool (pj_received p)),
      (''client_confirmed'', JBool (pj_confirmed p)), (''risk_level'', JStr (pj_risk p)), (''last_updated'', json_date (pj_updated p))]"

definition status_of_dict :: "json dict \<Rightarrow> read_error + project_status" where
  "status_of_dict d =
     bind_sum (rq_str d ''project_id'') (\<lambda>p. bind_sum (rq_str d ''client_id'') (\<lambda>c.
     bind_sum (rd_str d ''status'' ''briefing'') (\<lambda>st. bind_sum (rd_str d ''deadline'' []) (\<lambda>dl.
     bind_sum (rd_bool d ''deliverable_received'' False) (\<lambda>r. bind_sum (rd_bool d ''client_confirmed'' False) (\<lambda>cc.
     bind_sum (rd_str d ''risk_level'' ''normal'') (\<lambda>rl. bind_sum (rd_date d ''last_updated'') (\<lambda>lu.
       Inr \<lparr>pj_project = p, pj_client = c, pj_status = st, pj_deadline = dl, pj_received = r, pj_confirmed = cc,
            pj_risk = rl, pj_updated = lu\<rparr>))))))))"

lemma status_of_to_dict [simp]: "status_of_dict (status_to_dict p) = Inr p"
  by (simp add: status_of_dict_def status_to_dict_def rq_str_def rd_str_def rd_bool_def rd_date_def json_date_def split: option.split)

definition load_status :: "string \<Rightarrow> string \<Rightarrow> (ops, project_status option) eff" where
  "load_status c p = andthen (look (\<lambda>s. read_json ''status.json'' (project_folder c p s))) (\<lambda>f. case f of
       None \<Rightarrow> ok None
     | Some [] \<Rightarrow> ok None
     | Some d \<Rightarrow> andthen (from_read (status_of_dict d)) (\<lambda>x. ok (Some x)))"

definition save_status :: "string \<Rightarrow> string \<Rightarrow> project_status \<Rightarrow> (ops, unit) eff" where
  "save_status c p st = write_project c p ''status.json'' (status_to_dict st)"

definition find_client :: "string \<Rightarrow> ops \<Rightarrow> string option" where
  "find_client p s = map_option fst (find (\<lambda>(_, q). q = p) (get_active_projects s))"

text \<open>The client, given or found: an empty or missing one is not there.\<close>

definition known_client :: "string option \<Rightarrow> string \<Rightarrow> ops \<Rightarrow> string option" where
  "known_client c p s = (if truthy_str c then c else if truthy_str (find_client p s) then find_client p s else None)"

definition create_project :: "ops_env \<Rightarrow> string \<Rightarrow> json dict \<Rightarrow> string \<Rightarrow> (ops, project_status) eff" where
  "create_project v client brief deadline =
     andthen (fresh_hex v 8) (\<lambda>h.
       (let p = ''project-'' @ h;
            st = \<lparr>pj_project = p, pj_client = client, pj_status = ''pricing_pending'', pj_deadline = deadline, pj_received = False,
                  pj_confirmed = False, pj_risk = ''normal'', pj_updated = Some (ov_now v)\<rparr> in
        andthen (create_project_dirs client p) (\<lambda>_.
        andthen (write_project client p ''brief.json''
          (AList.update ''client_id'' (JStr client) (AList.update ''project_id'' (JStr p) brief))) (\<lambda>_.
        andthen (write_project client p ''timeline.json''
          [(''project_id'', JStr p), (''client_id'', JStr client), (''deadline'', JStr deadline), (''milestones'', JList []),
           (''created_at'', JInt (ov_now v))]) (\<lambda>_.
        andthen (save_status client p st) (\<lambda>_.
        andthen (log_ops v ''project_created'' p ''success'' [(''client_id'', JStr client), (''deadline'', JStr deadline)]) (\<lambda>_.
        ok st)))))))"

definition deliverables_summary :: "json dict \<Rightarrow> string" where
  "deliverables_summary body = (case json_get body ''published_urls'' (JList []) of
       JList (u # us) \<Rightarrow> py_join [CHR 0x0A] (map (\<lambda>x. ''- '' @ (case x of JStr t \<Rightarrow> t | _ \<Rightarrow> [])) (u # us))
     | _ \<Rightarrow> ''Deliverables have been sent.'')"

definition draft_delivery_message :: "ops_env \<Rightarrow> string \<Rightarrow> string \<Rightarrow> (ops, string) eff" where
  "draft_delivery_message v client summary =
     andthen (get_template ''delivery-message.md'') (\<lambda>t.
       (let m = py_replace ''{{squad_name}}'' ''Milimo Claw'' (py_replace ''{{deliverables_summary}}'' summary
                  (py_replace ''{{client_name}}'' client t))
        in attempt (andthen (ask v ''delivery_message_drafting'') (\<lambda>r. ok (py_strip r))) (\<lambda>_. ok m)))"

definition message_payload :: "json dict \<Rightarrow> json dict" where
  "message_payload m = (case map_of m ''payload'' of Some (JObj d) \<Rightarrow> d | _ \<Rightarrow> m)"

definition handle_deliverable_complete :: "ops_env \<Rightarrow> json dict \<Rightarrow> (ops, unit) eff" where
  "handle_deliverable_complete v message =
     (let body = message_payload message; p = get_str body ''project_id'' [] in
      if p = [] then ok () else
      andthen (look (known_client (get_str_opt body ''client_id'') p)) (\<lambda>found. case found of
        None \<Rightarrow> ok ()
      | Some c \<Rightarrow>
        andthen (load_status c p) (\<lambda>loaded. case loaded of
          None \<Rightarrow> ok ()
        | Some st \<Rightarrow>
          andthen (save_status c p (st\<lparr>pj_received := True, pj_status := ''delivered'', pj_updated := Some (ov_now v)\<rparr>)) (\<lambda>_.
          andthen (draft_delivery_message v c (deliverables_summary body)) (\<lambda>draft.
          andthen (queue_review v ''delivery_message'' p draft
            [(''client_id'', JStr c), (''project_id'', JStr p), (''deliverables_summary'', JStr (deliverables_summary body))]) (\<lambda>_.
          log_ops v ''deliverable_received'' p ''success'' [(''client_id'', JStr c)]))))))"

definition deploy_text :: "string \<Rightarrow> string \<Rightarrow> string \<Rightarrow> string" where
  "deploy_text p version url =
     ''Deployment complete for project '' @ p @ ''.'' @ [CHR 0x0A, CHR 0x0A] @ ''Version: '' @ version @ [CHR 0x0A]
       @ ''URL: '' @ url @ [CHR 0x0A, CHR 0x0A] @ ''Shall I notify the client?''"

definition handle_deploy_complete :: "ops_env \<Rightarrow> json dict \<Rightarrow> (ops, unit) eff" where
  "handle_deploy_complete v message =
     (let body = message_payload message; p = get_str body ''project_id'' [];
          url = (if get_str body ''deploy_url'' [] = [] then get_str body ''url'' [] else get_str body ''deploy_url'' []);
          version = get_str body ''version'' ''unknown'' in
      if p = [] then ok () else
      andthen (look (known_client (get_str_opt body ''client_id'') p)) (\<lambda>found. case found of
        None \<Rightarrow> ok ()
      | Some c \<Rightarrow>
        andthen (load_status c p) (\<lambda>loaded.
        andthen (case loaded of None \<Rightarrow> ok () | Some st \<Rightarrow> save_status c p (st\<lparr>pj_updated := Some (ov_now v)\<rparr>)) (\<lambda>_.
        andthen (queue_review v ''deploy_notification'' p (deploy_text p version url)
          [(''client_id'', JStr c), (''deploy_url'', JStr url), (''version'', JStr version)]) (\<lambda>_.
        log_ops v ''deploy_received'' p ''success'' [(''client_id'', JStr c), (''version'', JStr version)])))))"

text \<open>
  \<open>shutil.move\<close> of a project: into the completed directory of that name when there is one, which then holds the project
  as a directory of its own; \<open>os_completed\<close> lists what was moved.
\<close>

definition archive_project :: "ops_env \<Rightarrow> string \<Rightarrow> string \<Rightarrow> (ops, unit) eff" where
  "archive_project v c p =
     andthen (upd (\<lambda>s. case map_of (os_projects s) (c, p) of None \<Rightarrow> s
       | Some f \<Rightarrow> s\<lparr>os_projects := AList.delete (c, p) (os_projects s), os_completed := os_completed s @ [((c, p), f)]\<rparr>)) (\<lambda>_.
     log_ops v ''project_archived'' p ''success'' [(''client_id'', JStr c)])"

definition confirm_client_receipt :: "ops_env \<Rightarrow> string \<Rightarrow> (ops, unit) eff" where
  "confirm_client_receipt v p =
     andthen (look (known_client None p)) (\<lambda>found. case found of
       None \<Rightarrow> ok ()
     | Some c \<Rightarrow>
       andthen (load_status c p) (\<lambda>loaded. case loaded of
         None \<Rightarrow> ok ()
       | Some st \<Rightarrow>
         andthen (save_status c p (st\<lparr>pj_confirmed := True, pj_status := ''completed'', pj_updated := Some (ov_now v)\<rparr>)) (\<lambda>_.
         andthen (send_project_complete v p c) (\<lambda>_.
         andthen (archive_project v c p) (\<lambda>_.
         log_ops v ''project_completed'' p ''success'' [(''client_id'', JStr c)])))))"

text \<open>Changing the status of a project that is found and has one.\<close>

definition change_status :: "ops_env \<Rightarrow> string \<Rightarrow> string \<Rightarrow> (ops, unit) eff \<Rightarrow> (ops, unit) eff" where
  "change_status v p new after =
     andthen (look (known_client None p)) (\<lambda>found. case found of
       None \<Rightarrow> ok ()
     | Some c \<Rightarrow>
       andthen (load_status c p) (\<lambda>loaded. case loaded of
         None \<Rightarrow> ok ()
       | Some st \<Rightarrow>
         andthen (save_status c p (st\<lparr>pj_status := new, pj_updated := Some (ov_now v)\<rparr>)) (\<lambda>_. after)))"

definition update_project_status :: "ops_env \<Rightarrow> string \<Rightarrow> string \<Rightarrow> (ops, unit) eff" where
  "update_project_status v p new =
     change_status v p new (log_ops v ''project_status_updated'' p ''success'' [(''new_status'', JStr new)])"

definition project_pricing_response :: "ops_env \<Rightarrow> string \<Rightarrow> (ops, unit) eff" where
  "project_pricing_response v p = change_status v p ''proposal_sent'' (ok ())"

section \<open>Deadlines\<close>

record deadline_risk =
  dr_project :: string
  dr_client :: string
  dr_deadline :: string
  dr_days :: int
  dr_level :: string
  dr_action :: string

definition ELEVATED_RISK_DAYS :: int where "ELEVATED_RISK_DAYS = 5"
definition CRITICAL_RISK_DAYS :: int where "CRITICAL_RISK_DAYS = 1"

definition critical_text :: string where "critical_text = ''Immediate attention required. Deadline imminent.''"
definition elevated_text :: string where "elevated_text = ''Review progress and address blockers.''"

definition risk_text :: "deadline_risk \<Rightarrow> string" where
  "risk_text r =
     (if dr_level r = ''critical'' then ''CRITICAL: Project '' @ dr_project r @ '' deadline in '' @ py_str_int (dr_days r) @ '' day(s).''
      else ''Elevated risk: Project '' @ dr_project r @ '' deadline in '' @ py_str_int (dr_days r) @ '' days.'')
     @ [CHR 0x0A, CHR 0x0A] @ ''Deadline: '' @ dr_deadline r @ [CHR 0x0A] @ ''Recommended: '' @ dr_action r"

text \<open>The days left, rounded down; a deadline without a time zone cannot be subtracted from, which is a \<open>TypeError\<close>.\<close>

definition days_left :: "ops_env \<Rightarrow> string \<Rightarrow> (ops, int option) eff" where
  "days_left v deadline = (case ov_iso v (py_replace ''Z'' ''+00:00'' deadline) of
       None \<Rightarrow> ok None
     | Some (Naive t) \<Rightarrow> throw ''TypeError'' ''can't subtract offset-naive and offset-aware datetimes''
     | Some (Aware t) \<Rightarrow> ok (Some ((t - ov_now v) div DAY)))"

definition report_risk :: "ops_env \<Rightarrow> project_status \<Rightarrow> deadline_risk \<Rightarrow> (ops, deadline_risk option) eff" where
  "report_risk v st r =
     andthen (save_status (pj_client st) (pj_project st) (st\<lparr>pj_risk := dr_level r\<rparr>)) (\<lambda>_.
     andthen ((if dr_level r = ''critical'' then queue_hold v ''deadline_critical'' else queue_review v ''deadline_risk'')
       (dr_project r) (risk_text r)
       [(''client_id'', JStr (dr_client r)), (''deadline'', JStr (dr_deadline r)), (''days_remaining'', JInt (dr_days r))]) (\<lambda>_.
     andthen (log_ops v ''deadline_risk_detected'' (dr_project r) ''flagged''
       [(''risk_level'', JStr (dr_level r)), (''days_remaining'', JInt (dr_days r))]) (\<lambda>_.
     ok (Some r))))"

definition check_project_deadline :: "ops_env \<Rightarrow> project_status \<Rightarrow> (ops, deadline_risk option) eff" where
  "check_project_deadline v st =
     (if pj_status st \<in> {''completed'', ''delivered''} \<or> pj_deadline st = [] then ok None
      else andthen (days_left v (pj_deadline st)) (\<lambda>left. case left of
        None \<Rightarrow> ok None
      | Some n \<Rightarrow>
        (let r = (\<lambda>level action. \<lparr>dr_project = pj_project st, dr_client = pj_client st, dr_deadline = pj_deadline st, dr_days = n,
                    dr_level = level, dr_action = action\<rparr>)
         in if n \<le> CRITICAL_RISK_DAYS then report_risk v st (r ''critical'' critical_text)
            else if n \<le> ELEVATED_RISK_DAYS then report_risk v st (r ''elevated'' elevated_text)
            else ok None)))"

definition open_projects :: "(ops, project_status list) eff" where
  "open_projects = andthen (look get_active_projects) (\<lambda>cps.
     collect cps (\<lambda>(c, p). andthen (load_status c p) (\<lambda>x. ok (case x of
       None \<Rightarrow> [] | Some st \<Rightarrow> if pj_status st = ''completed'' then [] else [st]))))"

definition check_all_deadlines :: "ops_env \<Rightarrow> (ops, deadline_risk list) eff" where
  "check_all_deadlines v = andthen open_projects (\<lambda>ps.
     collect ps (\<lambda>st. andthen (check_project_deadline v st) (\<lambda>r. ok (case r of None \<Rightarrow> [] | Some x \<Rightarrow> [x]))))"

end
