(* ===== verification/Ops_Intake.thy ===== *)
theory Ops_Intake
  imports Ops_Signals
begin

text \<open>
  \<^verbatim>\<open>milimo-core/src/milimo_core/ops/scope_monitor.py\<close> (scope creep and change orders) and
  \<^verbatim>\<open>comms_manager.py\<close> (what clients write, and what is written to them).
\<close>

section \<open>Scope\<close>

record scope_creep =
  sk_project :: string
  sk_client :: string
  sk_scope :: string
  sk_request :: json
  sk_confidence :: rat
  sk_time :: "int option"

definition creep_to_dict :: "scope_creep \<Rightarrow> json dict" where
  "creep_to_dict d =
     [(''project_id'', JStr (sk_project d)), (''client_id'', JStr (sk_client d)), (''original_scope'', JStr (sk_scope d)),
      (''new_request'', sk_request d), (''confidence'', JFloat (sk_confidence d)), (''detected_at'', json_date (sk_time d))]"

definition creep_of_dict :: "json dict \<Rightarrow> read_error + scope_creep" where
  "creep_of_dict d =
     bind_sum (rq_str d ''project_id'') (\<lambda>p. bind_sum (rq_str d ''client_id'') (\<lambda>c.
     bind_sum (rq_str d ''original_scope'') (\<lambda>sc. bind_sum (rq_json d ''new_request'') (\<lambda>r.
     bind_sum (rq_num d ''confidence'') (\<lambda>cf. bind_sum (rd_date d ''detected_at'') (\<lambda>t.
       Inr \<lparr>sk_project = p, sk_client = c, sk_scope = sc, sk_request = r, sk_confidence = cf, sk_time = t\<rparr>))))))"

lemma creep_of_to_dict [simp]: "creep_of_dict (creep_to_dict d) = Inr d"
  by (simp add: creep_of_dict_def creep_to_dict_def rq_str_def rq_json_def rq_num_def rd_date_def json_num_def json_date_def split: option.split)

definition DETECTION_THRESHOLD :: rat where "DETECTION_THRESHOLD = 7 / 10"

text \<open>The text of a value in a template; the request of a detection is a text.\<close>

definition request_text :: "json \<Rightarrow> string" where
  "request_text j = (case j of JStr t \<Rightarrow> t | _ \<Rightarrow> [])"

text \<open>\<open>_load_original_brief\<close>: the first of the three keys that is not empty.\<close>

definition original_brief :: "string \<Rightarrow> string \<Rightarrow> ops \<Rightarrow> string" where
  "original_brief c p s = (case read_json ''brief.json'' (project_folder c p s) of
       None \<Rightarrow> []
     | Some d \<Rightarrow> (case python_or (json_get d ''raw_text'' JNull)
           (python_or (json_get d ''scope_description'' JNull) (json_get d ''brief_text'' JNull)) of JStr t \<Rightarrow> t | _ \<Rightarrow> []))"

text \<open>Every failure, of the service or of reading its answer, is no detection.\<close>

definition detect_scope_creep :: "ops_env \<Rightarrow> string \<Rightarrow> string \<Rightarrow> string \<Rightarrow> string \<Rightarrow> (ops, scope_creep option) eff" where
  "detect_scope_creep v p c scope message =
     attempt (andthen (ask v ''scope_creep_detection'') (\<lambda>t. andthen (braced_json v t) (\<lambda>found. case found of
         None \<Rightarrow> ok None
       | Some d \<Rightarrow>
         if \<not> json_true (json_get d ''is_scope_creep'' (JBool False)) then ok None
         else andthen (to_float v (json_get d ''confidence'' (JFloat (1 / 2)))) (\<lambda>cf.
           ok (Some \<lparr>sk_project = p, sk_client = c, sk_scope = take 500 scope,
                     sk_request = json_get d ''new_request'' (JStr (take 200 message)), sk_confidence = cf, sk_time = Some (ov_now v)\<rparr>)))))
       (\<lambda>_. ok None)"

text \<open>\<open>f"${x:,.nf}"\<close>: the digits before the point in groups of three.\<close>

fun commas_rev :: "string \<Rightarrow> string" where
  "commas_rev (a # b # c # d # ds) = a # b # c # CHR '','' # commas_rev (d # ds)"
| "commas_rev ds = ds"

definition with_commas :: "string \<Rightarrow> string" where
  "with_commas t =
     (let sign = takeWhile (\<lambda>c. c = CHR ''-'') t; u = dropWhile (\<lambda>c. c = CHR ''-'') t in
      sign @ rev (commas_rev (rev (takeWhile digit_char u))) @ dropWhile digit_char u)"

definition money :: "nat \<Rightarrow> rat \<Rightarrow> string" where
  "money n r = ''$'' @ with_commas (py_fixed n r)"

definition draft_change_order :: "ops_env \<Rightarrow> string \<Rightarrow> string \<Rightarrow> rat option \<Rightarrow> (ops, string) eff" where
  "draft_change_order v scope request cost =
     andthen (get_template ''change-order-template.md'') (\<lambda>t.
       (let t1 = py_replace ''{{original_scope}}'' (take 500 scope) t; t2 = py_replace ''{{new_request}}'' request t1;
            t3 = py_replace ''{{additional_cost}}'' (case cost of Some r \<Rightarrow> money 2 r | None \<Rightarrow> ''PENDING - awaiting pricing'') t2;
            t4 = py_replace ''{{revised_timeline}}'' ''TBD'' t3
        in attempt (andthen (ask v ''change_order_drafting'') (\<lambda>r. ok (py_strip r))) (\<lambda>_. ok t4)))"

definition handle_high_confidence :: "ops_env \<Rightarrow> scope_creep \<Rightarrow> (ops, unit) eff" where
  "handle_high_confidence v d =
     andthen (write_project (sk_client d) (sk_project d) (''scope_creep/detection_'' @ ov_stamp v @ ''.json'') (creep_to_dict d)) (\<lambda>_.
     andthen (send_pricing_query v (sk_project d @ ''_scope_change'') (sk_request d) ''medium'' ''ASAP'' (Some (sk_client d))) (\<lambda>_.
     andthen (draft_change_order v (sk_scope d) (request_text (sk_request d)) None) (\<lambda>draft.
     andthen (queue_hold v ''scope_change_order'' (sk_project d) draft
       [(''client_id'', JStr (sk_client d)), (''original_scope'', JStr (sk_scope d)), (''new_request'', sk_request d),
        (''confidence'', JFloat (sk_confidence d))]) (\<lambda>aid.
     upd (os_orders_update (AList.update aid (creep_to_dict d, draft)))))))"

definition check_message :: "ops_env \<Rightarrow> string \<Rightarrow> string \<Rightarrow> string \<Rightarrow> (ops, scope_creep option) eff" where
  "check_message v c p message =
     andthen (look (original_brief c p)) (\<lambda>brief. if brief = [] then ok None else
     andthen (detect_scope_creep v p c brief message) (\<lambda>found. case found of
       None \<Rightarrow> ok None
     | Some d \<Rightarrow>
       andthen (only_if (DETECTION_THRESHOLD < sk_confidence d) (handle_high_confidence v d)) (\<lambda>_.
       andthen (log_ops v ''scope_creep_detected'' p (if DETECTION_THRESHOLD < sk_confidence d then ''flagged'' else ''logged'')
         [(''confidence'', JFloat (sk_confidence d)), (''new_request'', JStr (take 200 (request_text (sk_request d))))]) (\<lambda>_.
       ok (Some d)))))"

definition order_of_project :: "string \<Rightarrow> ops \<Rightarrow> (string \<times> json dict \<times> string) option" where
  "order_of_project p s = find (\<lambda>(_, d, _). map_of d ''project_id'' = Some (JStr p)) (os_orders s)"

definition handle_scope_pricing_response :: "ops_env \<Rightarrow> string \<Rightarrow> rat \<Rightarrow> (ops, unit) eff" where
  "handle_scope_pricing_response v p cost =
     andthen (look (order_of_project p)) (\<lambda>found. case found of
       None \<Rightarrow> ok ()
     | Some (aid, d, _) \<Rightarrow>
       andthen (from_read (creep_of_dict d)) (\<lambda>k.
       andthen (draft_change_order v (sk_scope k) (request_text (sk_request k)) (Some cost)) (\<lambda>draft.
       andthen (queue_hold v ''scope_change_order_priced'' p draft
         [(''client_id'', JStr (sk_client k)), (''original_scope'', JStr (sk_scope k)), (''new_request'', sk_request k),
          (''additional_cost'', JFloat cost)]) (\<lambda>_.
       andthen (only_if (aid \<noteq> []) (upd (os_orders_update (AList.delete aid)))) (\<lambda>_.
       log_ops v ''scope_change_order_priced'' p ''success'' [(''additional_cost'', JFloat cost)])))))"

section \<open>Messages of clients\<close>

definition ROUTINE_TYPES :: "string list" where
  "ROUTINE_TYPES = [''project_update'', ''schedule_confirmation'', ''file_delivery_notification'', ''acknowledgment'']"

definition pricing_words :: "string list" where
  "pricing_words = [''price'', ''cost'', ''budget'', ''how much'', ''rate'', ''charge'', ''fee'']"

text \<open>The answer of the service, or the words; a value that is not a truth value counts as Python counts it.\<close>

definition detect_pricing_question :: "ops_env \<Rightarrow> string \<Rightarrow> (ops, bool) eff" where
  "detect_pricing_question v message =
     (let words = list_ex (\<lambda>w. py_in w (py_lower message)) pricing_words in
      attempt (andthen (ask v ''pricing_question_detection'') (\<lambda>t. andthen (braced_json v t) (\<lambda>found. case found of
          Some d \<Rightarrow> ok (json_true (json_get d ''is_pricing_question'' (JBool False)))
        | None \<Rightarrow> ok words)))
        (\<lambda>_. ok words))"

definition holding_response :: string where
  "holding_response = ''Hi, thanks for asking about pricing! Let me put together a proposal with exact figures and get back to you shortly.''"

definition opt_text :: "string option \<Rightarrow> json" where
  "opt_text x = json_opt JStr x"

definition entity_of :: "string option \<Rightarrow> string \<Rightarrow> string" where
  "entity_of project client = (if truthy_str project then the project else client)"

definition handle_pricing_question :: "ops_env \<Rightarrow> string \<Rightarrow> string option \<Rightarrow> (ops, unit) eff" where
  "handle_pricing_question v client project =
     andthen (queue_review v ''pricing_holding_response'' (entity_of project client) holding_response
       [(''client_id'', JStr client), (''project_id'', opt_text project), (''is_pricing_inquiry'', JBool True)]) (\<lambda>_.
     only_if (truthy_str project)
       (send_pricing_query v (the project) (JStr ''Pricing inquiry from client'') ''medium'' ''TBD'' (Some client)))"

definition draft_response :: "ops_env \<Rightarrow> (ops, string) eff" where
  "draft_response v = attempt (andthen (ask v ''response_drafting'') (\<lambda>t. ok (py_strip t)))
     (\<lambda>_. ok ''Thank you for your message. I'll review this and get back to you shortly.'')"

text \<open>A type that is no text is not routine.\<close>

definition classify_message :: "ops_env \<Rightarrow> (ops, string) eff" where
  "classify_message v = attempt (andthen (ask v ''message_classification'') (\<lambda>t. andthen (braced_json v t) (\<lambda>found. ok (case found of
       Some d \<Rightarrow> get_str d ''message_type'' ''question'' | None \<Rightarrow> ''question'')))) (\<lambda>_. ok ''question'')"

definition comms_inbound :: "ops_env \<Rightarrow> string \<Rightarrow> string option \<Rightarrow> string \<Rightarrow> string \<Rightarrow> (ops, unit) eff" where
  "comms_inbound v client project message channel =
     andthen (log_comms v ''received'' client project channel message None) (\<lambda>_.
     andthen (detect_pricing_question v message) (\<lambda>pricing.
     andthen (only_if pricing (handle_pricing_question v client project)) (\<lambda>_.
     andthen (only_if (truthy_str project) (andthen (check_message v client (the project) message) (\<lambda>_. ok ()))) (\<lambda>_.
     andthen (classify_message v) (\<lambda>kind.
     andthen (if kind \<in> set ROUTINE_TYPES
       then log_auto v ''routine_message'' (entity_of project client) (''Routine '' @ kind @ '': '' @ take 100 message)
       else andthen (draft_response v) (\<lambda>draft.
         andthen (queue_review v ''client_response'' (entity_of project client) draft
           [(''client_id'', JStr client), (''project_id'', opt_text project), (''message_type'', JStr kind),
            (''original_message'', JStr (take 500 message))]) (\<lambda>_. ok ()))) (\<lambda>_.
     log_ops v ''inbound_message_handled'' (entity_of project client) ''success''
       [(''channel'', JStr channel), (''message_type'', JStr kind)]))))))"

definition send_auto_response :: "ops_env \<Rightarrow> string \<Rightarrow> string \<Rightarrow> (ops, unit) eff" where
  "send_auto_response v client message =
     andthen (log_comms v ''sent'' client None ''auto_response'' message None) (\<lambda>_.
     log_ops v ''auto_response_sent'' client ''success'' [(''content_preview'', JStr (take 100 message))])"

definition send_deep_work_response :: "ops_env \<Rightarrow> string \<Rightarrow> string \<Rightarrow> (ops, unit) eff" where
  "send_deep_work_response v client resume =
     andthen (get_template ''deep-work-response.md'') (\<lambda>t.
     andthen (log_comms v ''sent'' client None ''deep_work_auto''
       (py_replace ''{{resume_date}}'' resume (py_replace ''{{client_name}}'' client t)) None) (\<lambda>_.
     log_ops v ''deep_work_response_sent'' client ''success'' [(''resume_date'', JStr resume)]))"

text \<open>\<open>is_deep_work_active\<close> of the configuration file: absent, no JSON, or its object.\<close>

definition is_deep_work_active :: "json dict option option \<Rightarrow> bool" where
  "is_deep_work_active config = (case config of
       Some (Some d) \<Rightarrow> (case json_get d ''deep_work'' (JObj []) of JObj w \<Rightarrow> json_true (json_get w ''active'' (JBool False)) | _ \<Rightarrow> False)
     | _ \<Rightarrow> False)"

definition log_outbound_message :: "ops_env \<Rightarrow> string \<Rightarrow> string option \<Rightarrow> string \<Rightarrow> string \<Rightarrow> string option \<Rightarrow> (ops, unit) eff" where
  "log_outbound_message v client project content channel approved = log_comms v ''sent'' client project channel content approved"

chapter \<open>Inquiries, briefs and proposals\<close>

text \<open>
  \<^verbatim>\<open>milimo-core/src/milimo_core/ops/intake_manager.py\<close>: inquiries from triage to the brief that goes to
  another claw. The sequencing rule of the code, no brief before its price is confirmed, is the
  dispatcher's.
\<close>

section \<open>Triage\<close>

record triage_score =
  ts_inquiry :: string
  ts_budget :: rat
  ts_scope :: rat
  ts_fit :: rat
  ts_combined :: rat
  ts_routing :: string
  ts_time :: "int option"

definition triage_to_dict :: "triage_score \<Rightarrow> json dict" where
  "triage_to_dict t =
     [(''inquiry_id'', JStr (ts_inquiry t)), (''budget_signal'', JFloat (ts_budget t)), (''scope_clarity'', JFloat (ts_scope t)),
      (''niche_fit'', JFloat (ts_fit t)), (''combined_score'', JFloat (ts_combined t)), (''routing'', JStr (ts_routing t)),
      (''scored_at'', json_date (ts_time t))]"

definition triage_of_dict :: "json dict \<Rightarrow> read_error + triage_score" where
  "triage_of_dict d =
     bind_sum (rq_str d ''inquiry_id'') (\<lambda>i. bind_sum (rq_num d ''budget_signal'') (\<lambda>b.
     bind_sum (rq_num d ''scope_clarity'') (\<lambda>sc. bind_sum (rq_num d ''niche_fit'') (\<lambda>f.
     bind_sum (rq_num d ''combined_score'') (\<lambda>c. bind_sum (rq_str d ''routing'') (\<lambda>r.
     bind_sum (rd_date d ''scored_at'') (\<lambda>t.
       Inr \<lparr>ts_inquiry = i, ts_budget = b, ts_scope = sc, ts_fit = f, ts_combined = c, ts_routing = r, ts_time = t\<rparr>)))))))"

lemma triage_of_to_dict [simp]: "triage_of_dict (triage_to_dict t) = Inr t"
  by (simp add: triage_of_dict_def triage_to_dict_def rq_str_def rq_num_def rd_date_def json_num_def json_date_def split: option.split)

definition WELCOME_DRAFT_THRESHOLD :: rat where "WELCOME_DRAFT_THRESHOLD = 8"
definition REVIEW_THRESHOLD :: rat where "REVIEW_THRESHOLD = 5"

definition clamp10 :: "rat \<Rightarrow> rat" where
  "clamp10 r = max 0 (min 10 r)"

definition combined_triage :: "rat \<Rightarrow> rat \<Rightarrow> rat \<Rightarrow> rat" where
  "combined_triage budget scope fit = budget * (4 / 10) + scope * (3 / 10) + fit * (3 / 10)"

definition triage_routing :: "rat \<Rightarrow> string" where
  "triage_routing c = (if WELCOME_DRAFT_THRESHOLD \<le> c then ''draft_welcome''
     else if REVIEW_THRESHOLD \<le> c then ''flag_for_review'' else ''auto_low'')"

text \<open>The three scores of the answer; whatever fails, all three are 5.\<close>

definition triage_answer :: "ops_env \<Rightarrow> (ops, rat \<times> rat \<times> rat) eff" where
  "triage_answer v =
     attempt (andthen (ask v ''client_triage_scoring'') (\<lambda>t. andthen (braced_json v t) (\<lambda>found. case found of
         None \<Rightarrow> throw ''ValueError'' ''No JSON found in response''
       | Some d \<Rightarrow>
         andthen (to_float v (json_get d ''budget_signal'' (JFloat 5))) (\<lambda>b.
         andthen (to_float v (json_get d ''scope_clarity'' (JFloat 5))) (\<lambda>sc.
         andthen (to_float v (json_get d ''niche_fit'' (JFloat 5))) (\<lambda>f. ok (b, sc, f)))))))
       (\<lambda>_. ok (5, 5, 5))"

definition score_inquiry :: "ops_env \<Rightarrow> (ops, triage_score) eff" where
  "score_inquiry v = andthen (triage_answer v) (\<lambda>(b, sc, f).
     (let c = combined_triage (clamp10 b) (clamp10 sc) (clamp10 f) in
      ok \<lparr>ts_inquiry = [], ts_budget = clamp10 b, ts_scope = clamp10 sc, ts_fit = clamp10 f, ts_combined = c,
          ts_routing = triage_routing c, ts_time = Some (ov_now v)\<rparr>))"

definition draft_welcome_message :: "ops_env \<Rightarrow> string \<Rightarrow> (ops, string) eff" where
  "draft_welcome_message v name =
     andthen (get_template ''welcome-message.md'') (\<lambda>t.
     attempt (andthen (ask v ''welcome_message_drafting'') (\<lambda>r. ok (py_strip r)))
       (\<lambda>_. ok (py_replace ''{{squad_name}}'' ''Milimo Claw''
         (py_replace ''{{client_name}}'' (if name = [] then ''there'' else name) t))))"

definition draft_intake_questionnaire :: "ops_env \<Rightarrow> (ops, string) eff" where
  "draft_intake_questionnaire v =
     andthen (get_template ''intake-questionnaire.md'') (\<lambda>t.
     attempt (andthen (ask v ''intake_questionnaire_customization'') (\<lambda>r. ok (py_strip r))) (\<lambda>_. ok t))"

definition triage_context :: "triage_score \<Rightarrow> json dict" where
  "triage_context t =
     [(''triage_score'', JFloat (ts_combined t)), (''budget_signal'', JFloat (ts_budget t)),
      (''scope_clarity'', JFloat (ts_scope t)), (''niche_fit'', JFloat (ts_fit t))]"

text \<open>The name and the text of an inquiry: the second key when the first is missing or empty.\<close>

definition first_text :: "json dict \<Rightarrow> string \<Rightarrow> string \<Rightarrow> string \<Rightarrow> string" where
  "first_text d k1 k2 def = (if get_str d k1 [] \<noteq> [] then get_str d k1 [] else get_str d k2 def)"

definition route_inquiry :: "ops_env \<Rightarrow> json dict \<Rightarrow> triage_score \<Rightarrow> (ops, unit) eff" where
  "route_inquiry v raw t =
     (let i = ts_inquiry t; name = first_text raw ''name'' ''client_name'' ''there'' in
      if WELCOME_DRAFT_THRESHOLD \<le> ts_combined t then
        andthen (draft_welcome_message v name) (\<lambda>w.
        andthen (draft_intake_questionnaire v) (\<lambda>q.
        andthen (queue_review v ''welcome_message'' i
          (''WELCOME MESSAGE:'' @ [CHR 0x0A] @ w @ [CHR 0x0A, CHR 0x0A] @ ''INTAKE QUESTIONNAIRE:'' @ [CHR 0x0A] @ q)
          (triage_context t @ [(''client_name'', JStr name)])) (\<lambda>_. ok ())))
      else if REVIEW_THRESHOLD \<le> ts_combined t then
        andthen (queue_review v ''inquiry_review'' i ''Inquiry requires operator review before drafting response.''
          (triage_context t @ [(''inquiry_text'', JStr (take 500 (first_text raw ''message'' ''inquiry_text'' [])))])) (\<lambda>_. ok ())
      else log_auto v ''inquiry_low_priority'' i (''Low priority inquiry (score: '' @ py_fixed 1 (ts_combined t) @ '')''))"

definition receive_inquiry :: "ops_env \<Rightarrow> json dict \<Rightarrow> (ops, triage_score) eff" where
  "receive_inquiry v raw =
     andthen (if get_str raw ''inquiry_id'' [] \<noteq> [] then ok (get_str raw ''inquiry_id'' []) else fresh_hex v 12) (\<lambda>i.
     andthen (write_prospect i ''inquiry.json''
       (AList.update ''received_at'' (JInt (ov_now v)) (AList.update ''inquiry_id'' (JStr i) raw))) (\<lambda>_.
     andthen (score_inquiry v) (\<lambda>t0.
       (let t = t0\<lparr>ts_inquiry := i\<rparr> in
        andthen (write_prospect i ''triage.json'' (triage_to_dict t)) (\<lambda>_.
        andthen (route_inquiry v raw t) (\<lambda>_.
        andthen (log_ops v ''inquiry_received'' i ''success''
          [(''triage_score'', JFloat (ts_combined t)), (''routing'', JStr (ts_routing t))]) (\<lambda>_.
        ok t)))))))"

section \<open>Briefs\<close>

record client_brief =
  cb_id :: string
  cb_inquiry :: string
  cb_client :: string
  cb_project :: string
  cb_text :: string
  cb_deadline :: "string option"
  cb_scope :: string
  cb_deliverables :: "string list"
  cb_clarity :: rat
  cb_gaps :: "string list"
  cb_time :: "int option"

definition brief_to_dict :: "client_brief \<Rightarrow> json dict" where
  "brief_to_dict b =
     [(''brief_id'', JStr (cb_id b)), (''inquiry_id'', JStr (cb_inquiry b)), (''client_id'', JStr (cb_client b)),
      (''project_id'', JStr (cb_project b)), (''raw_text'', JStr (cb_text b)), (''deadline'', json_opt JStr (cb_deadline b)),
      (''scope_description'', JStr (cb_scope b)), (''deliverables'', JList (map JStr (cb_deliverables b))),
      (''clarity_score'', JFloat (cb_clarity b)), (''gaps'', JList (map JStr (cb_gaps b))), (''created_at'', json_date (cb_time b))]"

definition brief_of_dict :: "json dict \<Rightarrow> read_error + client_brief" where
  "brief_of_dict d =
     bind_sum (rq_str d ''brief_id'') (\<lambda>b. bind_sum (rq_str d ''inquiry_id'') (\<lambda>i.
     bind_sum (rq_str d ''client_id'') (\<lambda>c. bind_sum (rq_str d ''project_id'') (\<lambda>p.
     bind_sum (rq_str d ''raw_text'') (\<lambda>t. bind_sum (rd_opt_str d ''deadline'') (\<lambda>dl.
     bind_sum (rd_str d ''scope_description'' []) (\<lambda>sc. bind_sum (rd_strs d ''deliverables'') (\<lambda>ds.
     bind_sum (rd_num d ''clarity_score'' 0) (\<lambda>cl. bind_sum (rd_strs d ''gaps'') (\<lambda>gs.
     bind_sum (rd_date d ''created_at'') (\<lambda>tm.
       Inr \<lparr>cb_id = b, cb_inquiry = i, cb_client = c, cb_project = p, cb_text = t, cb_deadline = dl, cb_scope = sc,
            cb_deliverables = ds, cb_clarity = cl, cb_gaps = gs, cb_time = tm\<rparr>)))))))))))"

lemma brief_of_to_dict [simp]: "brief_of_dict (brief_to_dict b) = Inr b"
  by (simp add: brief_of_dict_def brief_to_dict_def rq_str_def rd_opt_str_def rd_str_def rd_strs_def rd_num_def rd_date_def
      json_num_def json_date_def json_opt_def split: option.split)

definition default_quality :: "json dict" where
  "default_quality = [(''clarity_score'', JFloat 5), (''gaps'', JList []), (''deadline_present'', JBool True),
     (''scope_clear'', JBool True), (''deliverables_clear'', JBool True)]"

definition check_brief_quality :: "ops_env \<Rightarrow> (ops, json dict) eff" where
  "check_brief_quality v =
     attempt (andthen (ask v ''brief_quality_check'') (\<lambda>t. andthen (braced_json v t) (\<lambda>found. case found of
         Some d \<Rightarrow> ok d | None \<Rightarrow> ok default_quality)))
       (\<lambda>_. ok default_quality)"

definition draft_clarifying_question :: "ops_env \<Rightarrow> string list \<Rightarrow> (ops, string) eff" where
  "draft_clarifying_question v gaps =
     andthen (get_template ''intake-questionnaire.md'') (\<lambda>_.
     attempt (andthen (ask v ''clarifying_question_drafting'') (\<lambda>r. ok (py_strip r)))
       (\<lambda>_. ok (''Thank you for the details! Could you please clarify: '' @ py_join '', '' gaps)))"

text \<open>The fields of a brief come from the answer unchecked; the model covers answers whose fields have the documented types.\<close>

definition create_brief :: "ops_env \<Rightarrow> string \<Rightarrow> string \<Rightarrow> json dict \<Rightarrow> (ops, client_brief) eff" where
  "create_brief v inquiry response quality =
     andthen (fresh_hex v 12) (\<lambda>b. andthen (fresh_hex v 8) (\<lambda>c. andthen (fresh_hex v 8) (\<lambda>p.
     andthen (from_read (bind_sum (rd_opt_str quality ''deadline'') (\<lambda>dl. bind_sum (rd_num quality ''clarity_score'' 5) (\<lambda>cl.
         bind_sum (rd_strs quality ''gaps'') (\<lambda>gs. Inr (dl, cl, gs)))))) (\<lambda>(dl, cl, gs).
       (let br = \<lparr>cb_id = b, cb_inquiry = inquiry, cb_client = ''client-'' @ c, cb_project = ''project-'' @ p, cb_text = response,
                  cb_deadline = dl, cb_scope = take 500 response, cb_deliverables = [], cb_clarity = cl, cb_gaps = gs,
                  cb_time = Some (ov_now v)\<rparr>
        in andthen (write_prospect inquiry ''brief.json'' (brief_to_dict br)) (\<lambda>_. ok br))))))"

definition deadline_or_tbd :: "string option \<Rightarrow> string" where
  "deadline_or_tbd d = (if truthy_str d then the d else ''TBD'')"

text \<open>\<open>brief_quality["gaps"]\<close> is a \<open>KeyError\<close> when the answer has none.\<close>

definition intake_client_response :: "ops_env \<Rightarrow> string \<Rightarrow> string \<Rightarrow> (ops, client_brief option) eff" where
  "intake_client_response v inquiry response =
     andthen (check_brief_quality v) (\<lambda>quality.
     if map_of quality ''gaps'' = None then throw ''KeyError'' ''gaps''
     else andthen (from_read (rd_strs quality ''gaps'')) (\<lambda>gaps.
       if gaps \<noteq> [] then
         andthen (draft_clarifying_question v gaps) (\<lambda>q.
         andthen (queue_review v ''clarifying_question'' inquiry q [(''gaps'', JList (map JStr gaps))]) (\<lambda>_.
         andthen (log_ops v ''brief_quality_gap'' inquiry ''clarifying_question_queued'' [(''gaps'', JList (map JStr gaps))]) (\<lambda>_.
         ok None)))
       else
         andthen (create_brief v inquiry response quality) (\<lambda>br.
         andthen (write_prospect inquiry ''client_response.json''
           [(''inquiry_id'', JStr inquiry), (''response_text'', JStr response), (''received_at'', JInt (ov_now v)),
            (''brief_id'', JStr (cb_id br))]) (\<lambda>_.
         andthen (send_pricing_query v (cb_project br) (JStr (cb_scope br)) ''medium'' (deadline_or_tbd (cb_deadline br)) (Some (cb_client br))) (\<lambda>_.
         andthen (log_ops v ''brief_received'' (cb_id br) ''success''
           [(''project_id'', JStr (cb_project br)), (''clarity_score'', JFloat (cb_clarity br))]) (\<lambda>_.
         ok (Some br)))))))"

definition onboard_client :: "ops_env \<Rightarrow> string \<Rightarrow> string \<Rightarrow> json dict \<Rightarrow> string \<Rightarrow> (ops, string) eff" where
  "onboard_client v inquiry name contact squad_niche =
     andthen (fresh_hex v 8) (\<lambda>h.
       (let c = ''client-'' @ h in
        andthen (create_client_dirs c) (\<lambda>_.
        andthen (upd (os_profiles_update (AList.update c
          [(''client_id'', JStr c), (''name'', JStr name), (''contact_details'', JObj contact), (''inquiry_id'', JStr inquiry),
           (''onboarded_at'', JInt (ov_now v)), (''status'', JStr ''active'')]))) (\<lambda>_.
        andthen (write_prospect inquiry ''client_link.json'' [(''client_id'', JStr c)]) (\<lambda>_.
        andthen (to_float v (json_get contact ''estimated_value'' (JFloat 0))) (\<lambda>estimate.
        andthen (send_client_onboarded v c (json_get contact ''niche'' (JStr squad_niche))
          (json_get contact ''project_type'' (JStr ''general'')) estimate) (\<lambda>_.
        andthen (log_ops v ''client_onboarded'' c ''success'' [(''inquiry_id'', JStr inquiry), (''name'', JStr name)]) (\<lambda>_.
        ok c))))))))"

section \<open>Prices and proposals\<close>

definition draft_proposal :: "string \<Rightarrow> rat \<Rightarrow> rat \<Rightarrow> string \<Rightarrow> (ops, string) eff" where
  "draft_proposal project floor_price ceiling_price notes =
     andthen (get_template ''proposal-template.md'') (\<lambda>t.
       ok (py_replace ''{{scope_description}}'' (take 500 notes)
         (py_replace ''{{price_range}}'' (money 0 floor_price @ '' - '' @ money 0 ceiling_price)
           (py_replace ''{{project_name}}'' project t))))"

definition intake_pricing_response :: "ops_env \<Rightarrow> string \<Rightarrow> rat \<Rightarrow> rat \<Rightarrow> string \<Rightarrow> (ops, unit) eff" where
  "intake_pricing_response v project floor_price ceiling_price notes =
     andthen (upd (os_pending_update (AList.update project
       [(''floor_price'', JFloat floor_price), (''ceiling_price'', JFloat ceiling_price), (''scope_notes'', JStr notes),
        (''received_at'', JInt (ov_now v))]))) (\<lambda>_.
     andthen (mark_pricing_confirmed project) (\<lambda>_.
     andthen (draft_proposal project floor_price ceiling_price notes) (\<lambda>draft.
     andthen (queue_review v ''proposal'' project draft
       [(''floor_price'', JFloat floor_price), (''ceiling_price'', JFloat ceiling_price), (''scope_notes'', JStr notes)]) (\<lambda>_.
     log_ops v ''pricing_response_received'' project ''success''
       [(''floor_price'', JFloat floor_price), (''ceiling_price'', JFloat ceiling_price)]))))"

definition get_pending_pricing :: "string \<Rightarrow> ops \<Rightarrow> json dict option" where
  "get_pending_pricing p s = map_of (os_pending s) p"

definition brief_after_proposal :: "ops_env \<Rightarrow> string \<Rightarrow> string \<Rightarrow> client_brief \<Rightarrow> string \<Rightarrow> (ops, unit) eff" where
  "brief_after_proposal v project client br recipient =
     andthen (send_project_brief v client project (cb_text br) (deadline_or_tbd (cb_deadline br)) ''professional'' [''email''] recipient) (\<lambda>_.
     andthen (create_project_dirs client project) (\<lambda>_.
     andthen (write_project client project ''brief.json'' (brief_to_dict br)) (\<lambda>_.
     andthen (write_project client project ''status.json''
       [(''project_id'', JStr project), (''client_id'', JStr client), (''status'', JStr ''active''), (''created_at'', JInt (ov_now v))]) (\<lambda>_.
     log_ops v ''project_brief_sent'' project ''success'' [(''client_id'', JStr client), (''recipient_role'', JStr recipient)]))))"

section \<open>Waiting\<close>

definition flag_stale :: "ops_env \<Rightarrow> ops_action \<Rightarrow> (ops, unit) eff" where
  "flag_stale v a =
     (case oa_time a of
        None \<Rightarrow> ok ()
      | Some t \<Rightarrow> only_if (oa_type a \<in> {''welcome_message'', ''inquiry_review'', ''proposal''} \<and> 24 * HOUR \<le> ov_now v - t)
          (andthen (add_urgency_flag (oa_id a) ((ov_now v - t) div HOUR)) (\<lambda>_. ok ())))"

definition check_inquiry_staleness :: "ops_env \<Rightarrow> (ops, unit) eff" where
  "check_inquiry_staleness v = andthen get_review_queue (\<lambda>as. for_each as (flag_stale v))"

end
