(* ===== verification/Ops_Health.thy ===== *)
theory Ops_Health
  imports Ops_Intake
begin

text \<open>
  \<^verbatim>\<open>milimo-core/src/milimo_core/ops/health_scorer.py\<close> (how clients are doing),
  \<^verbatim>\<open>incident_analyzer.py\<close> and \<^verbatim>\<open>runbook_executor.py\<close> (alerts and what is done about them).
\<close>

section \<open>The score of a client\<close>

record health_score =
  hs_client :: string
  hs_score :: rat
  hs_level :: string
  hs_factors :: "string list"
  hs_hours :: rat
  hs_revisions :: rat
  hs_scope :: rat
  hs_sentiment :: rat
  hs_time :: "int option"

definition health_to_dict :: "health_score \<Rightarrow> json dict" where
  "health_to_dict h =
     [(''client_id'', JStr (hs_client h)), (''score'', JFloat (hs_score h)), (''health_level'', JStr (hs_level h)),
      (''factors'', JList (map JStr (hs_factors h))), (''response_time_avg_hrs'', JFloat (hs_hours h)),
      (''revision_request_rate'', JFloat (hs_revisions h)), (''scope_adherence_score'', JFloat (hs_scope h)),
      (''communication_sentiment'', JFloat (hs_sentiment h)), (''scored_at'', json_date (hs_time h))]"

definition health_of_dict :: "json dict \<Rightarrow> read_error + health_score" where
  "health_of_dict d =
     bind_sum (rq_str d ''client_id'') (\<lambda>c. bind_sum (rq_num d ''score'') (\<lambda>sc. bind_sum (rq_str d ''health_level'') (\<lambda>l.
     bind_sum (rd_strs d ''factors'') (\<lambda>fs. bind_sum (rd_num d ''response_time_avg_hrs'' 0) (\<lambda>h.
     bind_sum (rd_num d ''revision_request_rate'' 0) (\<lambda>r. bind_sum (rd_num d ''scope_adherence_score'' 0) (\<lambda>sa.
     bind_sum (rd_num d ''communication_sentiment'' 0) (\<lambda>se. bind_sum (rd_date d ''scored_at'') (\<lambda>t.
       Inr \<lparr>hs_client = c, hs_score = sc, hs_level = l, hs_factors = fs, hs_hours = h, hs_revisions = r, hs_scope = sa,
            hs_sentiment = se, hs_time = t\<rparr>)))))))))"

lemma health_of_to_dict [simp]: "health_of_dict (health_to_dict h) = Inr h"
  by (simp add: health_of_dict_def health_to_dict_def rq_str_def rq_num_def rd_strs_def rd_num_def rd_date_def json_num_def
      json_date_def split: option.split)

definition AT_RISK_THRESHOLD :: rat where "AT_RISK_THRESHOLD = 6"
definition HEALTHY_THRESHOLD :: rat where "HEALTHY_THRESHOLD = 8"

definition mean_of :: "rat list \<Rightarrow> rat" where
  "mean_of xs = (if xs = [] then 0 else sum_list xs / of_nat (length xs))"

definition response_time_score :: "rat list \<Rightarrow> rat" where
  "response_time_score hs = (if hs = [] then 7 else
     (let a = mean_of hs in if a \<le> 4 then 10 else if a \<le> 12 then 8 else if a \<le> 24 then 6 else if a \<le> 48 then 4 else 2))"

definition count_revision_requests :: "string \<Rightarrow> ops \<Rightarrow> nat" where
  "count_revision_requests client s = length (filter (\<lambda>d. map_of d ''action_type'' = Some (JStr ''revision_request'')
     \<and> (case map_of d ''context'' of Some (JObj c) \<Rightarrow> map_of c ''client_id'' = Some (JStr client) | _ \<Rightarrow> False)) (readable (os_decisions s)))"

definition count_deliverables :: "string \<Rightarrow> ops \<Rightarrow> nat" where
  "count_deliverables client s = length (filter (\<lambda>p. case read_json ''status.json'' (project_folder client p s) of
     Some d \<Rightarrow> json_true (json_get d ''deliverable_received'' JNull) | None \<Rightarrow> False) (client_projects client s))"

definition revision_rate :: "string \<Rightarrow> ops \<Rightarrow> rat" where
  "revision_rate client s = (if count_deliverables client s = 0 then 0
     else of_nat (count_revision_requests client s) / of_nat (count_deliverables client s))"

definition revision_rate_score :: "string \<Rightarrow> ops \<Rightarrow> rat" where
  "revision_rate_score client s = (if count_deliverables client s = 0 then 7 else
     (let r = revision_rate client s in if r \<le> 1 / 10 then 10 else if r \<le> 1 / 4 then 8 else if r \<le> 1 / 2 then 6
        else if r \<le> 3 / 4 then 4 else 2))"

definition count_scope_creep_events :: "string \<Rightarrow> ops \<Rightarrow> nat" where
  "count_scope_creep_events client s = length (filter (\<lambda>d. map_of d ''action_type'' = Some (JStr ''scope_change_order'')
     \<and> prefix client (get_str d ''entity_id'' [])) (readable (os_decisions s)))"

definition scope_score :: "nat \<Rightarrow> rat" where
  "scope_score n = (if n = 0 then 10 else if n = 1 then 7 else if n = 2 then 5 else 3)"

text \<open>Without messages of the client there is no question; a failure is a 7. The answer is not limited to a range.\<close>

definition sentiment_score :: "ops_env \<Rightarrow> string \<Rightarrow> (ops, rat) eff" where
  "sentiment_score v client = andthen (look (\<lambda>s. filter (\<lambda>e. ce_direction e = ''received'') (client_comms (ov_now v) client 30 (os_comms s)))) (\<lambda>recent.
     if recent = [] then ok 7
     else attempt (andthen (ask v ''communication_sentiment_analysis'') (\<lambda>t. andthen (braced_json v t) (\<lambda>found. case found of
         None \<Rightarrow> ok 7
       | Some d \<Rightarrow> to_float v (json_get d ''sentiment_score'' (JFloat 7))))) (\<lambda>_. ok 7))"

definition combine_scores :: "rat \<Rightarrow> rat \<Rightarrow> rat \<Rightarrow> rat \<Rightarrow> rat" where
  "combine_scores response revision scope sentiment =
     clamp10 (response * (3 / 10) + revision * (1 / 4) + scope * (1 / 4) + sentiment * (1 / 5))"

definition health_level :: "rat \<Rightarrow> string" where
  "health_level c = (if HEALTHY_THRESHOLD \<le> c then ''healthy'' else if AT_RISK_THRESHOLD \<le> c then ''monitor'' else ''at_risk'')"

definition recommended_action :: "string \<Rightarrow> string" where
  "recommended_action level =
     (if level = ''at_risk'' then ''Schedule check-in call, review recent issues, offer remediation''
      else if level = ''monitor'' then ''Increase communication frequency, proactively address concerns''
      else ''Continue current engagement approach'')"

definition health_factors :: "rat \<Rightarrow> rat \<Rightarrow> rat \<Rightarrow> rat \<Rightarrow> string list" where
  "health_factors response revision scope sentiment =
     (if response < 6 then [''Slow response times''] else []) @ (if revision < 6 then [''High revision request rate''] else [])
     @ (if scope < 6 then [''Scope creep issues''] else []) @ (if sentiment < 6 then [''Negative communication sentiment''] else [])"

definition at_risk_text :: "health_score \<Rightarrow> string" where
  "at_risk_text h = ''Client '' @ hs_client h @ '' health score is '' @ py_fixed 1 (hs_score h) @ '' (< 6.0 threshold).'' @ [CHR 0x0A, CHR 0x0A]
     @ ''Factors: '' @ py_join '', '' (hs_factors h) @ [CHR 0x0A, CHR 0x0A] @ ''Recommended action: '' @ recommended_action (hs_level h)"

definition health_of :: "ops_env \<Rightarrow> string \<Rightarrow> rat \<Rightarrow> ops \<Rightarrow> health_score" where
  "health_of v client sentiment s =
     (let hours = get_response_times (ov_now v) client (os_comms s); rt = response_time_score hours; rr = revision_rate_score client s;
          sc = scope_score (count_scope_creep_events client s); c = combine_scores rt rr sc sentiment in
      \<lparr>hs_client = client, hs_score = c, hs_level = health_level c, hs_factors = health_factors rt rr sc sentiment,
       hs_hours = mean_of hours, hs_revisions = revision_rate client s, hs_scope = sc, hs_sentiment = sentiment,
       hs_time = Some (ov_now v)\<rparr>)"

definition score_health :: "ops_env \<Rightarrow> string \<Rightarrow> (ops, health_score) eff" where
  "score_health v client =
     andthen (sentiment_score v client) (\<lambda>sentiment.
     andthen (look (health_of v client sentiment)) (\<lambda>h.
     andthen (send_client_health_signal v client (hs_score h) (hs_factors h) (recommended_action (hs_level h))) (\<lambda>_.
     andthen (only_if (hs_score h < AT_RISK_THRESHOLD) (andthen (queue_review v ''client_at_risk'' client (at_risk_text h)
       [(''health_score'', JFloat (hs_score h)), (''factors'', JList (map JStr (hs_factors h)))]) (\<lambda>_. ok ()))) (\<lambda>_.
     andthen (log_ops v ''client_scored'' client ''success''
       [(''score'', JFloat (hs_score h)), (''health_level'', JStr (hs_level h)), (''factors'', JList (map JStr (hs_factors h)))]) (\<lambda>_.
     ok h)))))"

text \<open>A client whose scoring raises is left out.\<close>

definition score_all_clients :: "ops_env \<Rightarrow> (ops, health_score list) eff" where
  "score_all_clients v = andthen (look get_active_clients) (\<lambda>cs.
     collect cs (\<lambda>c. attempt (andthen (score_health v c) (\<lambda>h. ok [h])) (\<lambda>_. ok [])))"

section \<open>The analysis of an incident\<close>

record incident_analysis =
  ia_alert :: string
  ia_source :: string
  ia_severity :: string
  ia_title :: string
  ia_hypothesis :: json
  ia_actions :: "json list"
  ia_runbook :: string
  ia_confidence :: rat

text \<open>The response without a code block around it.\<close>

definition strip_fences :: "string \<Rightarrow> string" where
  "strip_fences t =
     (let c = py_strip t; fence = replicate 3 CHR 0x60 in
      if \<not> prefix fence c then c
      else (let c1 = (if CHR 0x0A \<in> set c then tl (dropWhile (\<lambda>x. x \<noteq> CHR 0x0A) c) else c);
                c2 = (if suffix fence c1 then (if CHR 0x0A \<in> set c1 then rev (tl (dropWhile (\<lambda>x. x \<noteq> CHR 0x0A) (rev c1))) else c1) else c1)
            in py_strip c2))"

text \<open>\<open>re.search(r"\{[^{}]*\}", text, re.DOTALL)\<close>.\<close>

fun inner_braces :: "string \<Rightarrow> string option" where
  "inner_braces [] = None"
| "inner_braces (c # cs) =
     (let body = takeWhile (\<lambda>x. x \<noteq> CHR ''{'' \<and> x \<noteq> CHR ''}'') cs in
      if c = CHR ''{'' \<and> take 1 (drop (length body) cs) = ''}'' then Some (c # body @ ''}'') else inner_braces cs)"

definition extract_json :: "ops_env \<Rightarrow> string \<Rightarrow> json" where
  "extract_json v t =
     (let failed = JObj [(''root_cause_hypothesis'', JStr (''Analysis failed '' @ [CHR 0xE2, CHR 0x80, CHR 0x94] @ '' investigate manually'')),
            (''recommended_actions'', JList [JStr ''Investigate the incident manually'']), (''runbook_match'', JStr ''investigate''),
            (''confidence'', JFloat (1 / 10))] in
      case inner_braces t of None \<Rightarrow> failed | Some u \<Rightarrow> (case ov_loads v u of Some j \<Rightarrow> j | None \<Rightarrow> failed))"

text \<open>The fields of an alert are texts; so are the runbook and the list of actions of an answer what they are documented to be.\<close>

definition inference_analysis :: "ops_env \<Rightarrow> json dict \<Rightarrow> ('s, incident_analysis) eff" where
  "inference_analysis v alert =
     andthen (ask v ''incident_analysis'') (\<lambda>t.
       (case (case ov_loads v (strip_fences t) of Some j \<Rightarrow> j | None \<Rightarrow> extract_json v t) of
          JObj d \<Rightarrow>
            andthen (to_float v (json_get d ''confidence'' (JFloat (1 / 2)))) (\<lambda>cf.
            ok \<lparr>ia_alert = get_str alert ''alert_id'' ''unknown'', ia_source = get_str alert ''source'' ''unknown'',
                ia_severity = get_str alert ''severity'' ''warning'', ia_title = get_str alert ''title'' [],
                ia_hypothesis = json_get d ''root_cause_hypothesis'' (JStr ''Unable to determine''),
                ia_actions = (case json_get d ''recommended_actions'' (JList [JStr ''Investigate further'']) of JList l \<Rightarrow> l | _ \<Rightarrow> []),
                ia_runbook = get_str d ''runbook_match'' ''investigate'', ia_confidence = cf\<rparr>)
        | _ \<Rightarrow> throw ''AttributeError'' ''get''))"

definition rule_runbook :: "string \<Rightarrow> string \<times> string list \<times> rat" where
  "rule_runbook title =
     (let has = (\<lambda>w. py_in w title) in
      if has ''out of memory'' \<or> has ''oom'' then (''restart_service'',
        [''Restart the affected service'', ''Check memory limits'', ''Review recent deployments''], 7 / 10)
      else if has ''connection'' \<or> has ''timeout'' then (''investigate'',
        [''Check network connectivity'', ''Verify service health'', ''Review load balancer logs''], 1 / 2)
      else if has ''deployment'' \<and> has ''fail'' then (''rollback'',
        [''Rollback to previous deployment'', ''Check deployment logs'', ''Verify build artifacts''], 8 / 10)
      else if has ''disk'' \<or> has ''storage'' then (''clear_cache'', [''Clear temporary files'', ''Check disk usage'', ''Archive old logs''], 6 / 10)
      else if has ''cpu'' \<or> has ''load'' then (''scale_up'',
        [''Scale up instances'', ''Identify resource-intensive processes'', ''Check for runaway processes''], 1 / 2)
      else (''investigate'', [], 3 / 10))"

definition rule_based_analysis :: "json dict \<Rightarrow> incident_analysis" where
  "rule_based_analysis alert =
     (let source = get_str alert ''source'' []; severity = get_str alert ''severity'' ''warning'';
          (runbook, actions, confidence) = rule_runbook (py_lower (get_str alert ''title'' [])) in
      \<lparr>ia_alert = get_str alert ''alert_id'' ''unknown'', ia_source = source, ia_severity = severity, ia_title = get_str alert ''title'' [],
       ia_hypothesis = JStr (''Rule-based analysis: '' @ source @ '' alert with severity '' @ severity),
       ia_actions = map JStr (if severity = ''critical'' \<and> actions = []
         then [''Investigate immediately'', ''Notify on-call team'', ''Check service dashboards''] else actions),
       ia_runbook = runbook, ia_confidence = confidence\<rparr>)"

section \<open>Runbooks\<close>

datatype step = LogStep string | ShellStep string bool | WaitStep int | NotifyStep | OtherStep string

record runbook =
  rb_name :: string
  rb_description :: string
  rb_steps :: "step list"

record runbook_result =
  rr_name :: string
  rr_success :: bool
  rr_executed :: nat
  rr_failed :: nat
  rr_output :: string

text \<open>The commands of the runbooks; the apostrophes of the second are those of the code.\<close>

definition list_command :: string where "list_command = ''nemoclaw list 2>/dev/null || true''"

definition rebuild_command :: string where
  "rebuild_command = ''nemoclaw $(nemoclaw list 2>/dev/null | head -1 | awk '' @ [CHR 0x27] @ ''{print $1}'' @ [CHR 0x27] @ '') rebuild 2>/dev/null || true''"

definition shipped_runbooks :: "runbook dict" where
  "shipped_runbooks =
    [(''restart_service'', \<lparr>rb_name = ''Restart Service'', rb_description = ''Restart a failing sandbox'', rb_steps =
       [LogStep ''Initiating sandbox restart'', ShellStep list_command True, ShellStep rebuild_command True, WaitStep 10,
        ShellStep list_command True, LogStep ''Sandbox restart complete'']\<rparr>),
     (''clear_cache'', \<lparr>rb_name = ''Clear Cache'', rb_description = ''Clear application caches and temporary files'', rb_steps =
       [LogStep ''Initiating cache clear'', ShellStep ''du -sh /tmp 2>/dev/null || true'' True,
        ShellStep ''find /tmp -type f -mtime +1 -delete 2>/dev/null || true'' True, ShellStep ''df -h / 2>/dev/null || true'' True,
        LogStep ''Cache clear complete'']\<rparr>),
     (''scale_up'', \<lparr>rb_name = ''Scale Up'', rb_description = ''Scale up sandbox capacity'', rb_steps =
       [LogStep ''Initiating scale up'', ShellStep list_command True, ShellStep ''nemoclaw build-claw rebuild 2>/dev/null || true'' True,
        WaitStep 15, ShellStep list_command True, LogStep ''Scale up complete'']\<rparr>),
     (''rollback'', \<lparr>rb_name = ''Rollback Deployment'', rb_description = ''Rollback to the previous deployment'', rb_steps =
       [LogStep ''Initiating rollback'', ShellStep ''git log --oneline -5 2>/dev/null || true'' True,
        LogStep (''Rollback requires manual confirmation '' @ [CHR 0xE2, CHR 0x80, CHR 0x94] @ '' queued for review'')]\<rparr>),
     (''investigate'', \<lparr>rb_name = ''Investigate'', rb_description = ''Gather diagnostic information for investigation'', rb_steps =
       [LogStep ''Starting investigation'', ShellStep ''uptime'' True, ShellStep ''free -m 2>/dev/null || true'' True,
        ShellStep ''df -h 2>/dev/null || true'' True, ShellStep list_command True,
        ShellStep ''tail -100 /var/log/syslog 2>/dev/null || true'' True, LogStep ''Investigation data collected'']\<rparr>),
     (''notify_team'', \<lparr>rb_name = ''Notify Team'', rb_description = ''Send notification to the team'', rb_steps =
       [LogStep ''Team notification queued for review'']\<rparr>)]"

definition run_shell_command :: "ops_env \<Rightarrow> string \<Rightarrow> bool \<Rightarrow> string" where
  "run_shell_command v command capture = (case ov_shell v command of
       Ran out err code \<Rightarrow>
         if capture then take 1000 (if py_strip out \<noteq> [] then py_strip out else py_strip err) else ''exit_code='' @ py_str_int code
     | TimedOut \<Rightarrow> ''ERROR: Command timed out after 30s''
     | NotRun e \<Rightarrow> ''ERROR: '' @ e)"

text \<open>The line a step leaves, or the exception: only waiting a negative time raises one.\<close>

fun run_step :: "ops_env \<Rightarrow> step \<Rightarrow> py_exn + string" where
  "run_step v (ShellStep c capture) = Inr (''[shell] '' @ run_shell_command v c capture)"
| "run_step v (WaitStep n) = (if n < 0 then Inl (PyExn ''ValueError'' ''sleep length must be non-negative'')
     else Inr (''[wait] waited '' @ py_str_int n @ ''s''))"
| "run_step v (LogStep m) = Inr (''[log] '' @ m)"
| "run_step v NotifyStep = Inr ''[notify] notification queued''"
| "run_step v (OtherStep a) = Inr (''['' @ a @ ''] unknown action'')"

fun step_name :: "step \<Rightarrow> string" where
  "step_name (ShellStep _ _) = ''shell''" | "step_name (WaitStep _) = ''wait''" | "step_name (LogStep _) = ''log''"
| "step_name NotifyStep = ''notify''" | "step_name (OtherStep a) = a"

fun run_steps :: "ops_env \<Rightarrow> step list \<Rightarrow> nat \<times> nat \<times> string list" where
  "run_steps v [] = (0, 0, [])"
| "run_steps v (st # sts) = (case run_steps v sts of (n, bad, out) \<Rightarrow>
     (case run_step v st of
        Inr line \<Rightarrow> (Suc n, bad, line # out)
      | Inl e \<Rightarrow> (n, Suc bad, (''['' @ step_name st @ ''] ERROR: '' @ exn_text e) # out)))"

end
