(* ===== verification/Ops_Claw.thy ===== *)
theory Ops_Claw
  imports Ops_Health Finance_Claw
begin

text \<open>
  \<^verbatim>\<open>milimo-core/src/milimo_core/ops/ops_scheduler.py\<close> and \<^verbatim>\<open>ops_claw.py\<close>: the timers, what the operator's
  decisions do, the messages the claw receives and its entry points.
\<close>

section \<open>Runbooks and incidents\<close>

datatype ops_job = DeadlineCheck | HealthScoring

text \<open>\<open>oc_components\<close>: startup has made the components. Timers that \<open>stop\<close> does not know are in \<open>oc_loose\<close>.\<close>

record ops_claw =
  oc_store :: ops
  oc_components :: bool
  oc_running :: bool
  oc_scheduling :: bool
  oc_timers :: "(ops_job \<times> int) list"
  oc_loose :: "(ops_job \<times> int) list"
  oc_runbooks :: "runbook dict"
  oc_history :: "runbook_result list"
  oc_analyses :: "incident_analysis list"

definition on_ops :: "(ops, 'a) eff \<Rightarrow> (ops_claw, 'a) eff" where
  "on_ops m c = (case m (oc_store c) of (s, r) \<Rightarrow> (c\<lparr>oc_store := s\<rparr>, r))"

definition execute_runbook :: "ops_env \<Rightarrow> string \<Rightarrow> json dict option \<Rightarrow> (ops_claw, runbook_result) eff" where
  "execute_runbook v name context =
     andthen (look (\<lambda>c. map_of (oc_runbooks c) name)) (\<lambda>found. case found of
       None \<Rightarrow>
         (let r = \<lparr>rr_name = name, rr_success = False, rr_executed = 0, rr_failed = 0, rr_output = ''Unknown runbook: '' @ name\<rparr> in
          andthen (upd (oc_history_update (\<lambda>l. l @ [r]))) (\<lambda>_. ok r))
     | Some rb \<Rightarrow>
         (case run_steps v (rb_steps rb) of (n, bad, out) \<Rightarrow>
           (let r = \<lparr>rr_name = name, rr_success = (bad = 0), rr_executed = n, rr_failed = bad, rr_output = py_join [CHR 0x0A] out\<rparr> in
            andthen (upd (oc_history_update (\<lambda>l. l @ [r]))) (\<lambda>_.
            andthen (on_ops (log_ops v ''runbook_executed'' name (if bad = 0 then ''success'' else ''partial'')
              [(''steps_executed'', JInt (int n)), (''steps_failed'', JInt (int bad)),
               (''context'', case context of Some d \<Rightarrow> JObj d | None \<Rightarrow> JNull)])) (\<lambda>_. ok r)))))"

definition auto_execute_runbooks :: "string list" where
  "auto_execute_runbooks = [''restart_service'', ''clear_cache'', ''investigate'']"

definition remediate :: "ops_env \<Rightarrow> json dict \<Rightarrow> string \<Rightarrow> (ops_claw, runbook_result) eff" where
  "remediate v alert name =
     (if name \<in> set auto_execute_runbooks then execute_runbook v name (Some alert)
      else andthen (on_ops (log_ops v ''runbook_queued_for_review'' (get_str alert ''alert_id'' ''unknown'') ''success''
          [(''runbook'', JStr name), (''severity'', json_get alert ''severity'' JNull), (''alert_source'', json_get alert ''source'' JNull)])) (\<lambda>_.
        ok \<lparr>rr_name = name, rr_success = False, rr_executed = 0, rr_failed = 0,
            rr_output = ''Runbook '' @ name @ '' queued for manual approval''\<rparr>))"

definition register_runbook :: "string \<Rightarrow> string \<Rightarrow> step list \<Rightarrow> (ops_claw, unit) eff" where
  "register_runbook name descr steps =
     upd (oc_runbooks_update (AList.update name \<lparr>rb_name = name, rb_description = descr, rb_steps = steps\<rparr>))"

definition get_available_runbooks :: "ops_claw \<Rightarrow> (string \<times> string \<times> nat) list" where
  "get_available_runbooks c = map (\<lambda>(n, rb). (n, rb_description rb, length (rb_steps rb))) (oc_runbooks c)"

definition last_few :: "nat \<Rightarrow> 'a list \<Rightarrow> 'a list" where
  "last_few n xs = (if n = 0 then xs else drop (length xs - n) xs)"

definition get_execution_history :: "nat \<Rightarrow> ops_claw \<Rightarrow> runbook_result list" where
  "get_execution_history n c = last_few n (oc_history c)"

definition analyze_incident :: "ops_env \<Rightarrow> json dict \<Rightarrow> (ops_claw, incident_analysis) eff" where
  "analyze_incident v alert =
     andthen (attempt (inference_analysis v alert) (\<lambda>_. ok (rule_based_analysis alert))) (\<lambda>a.
     andthen (upd (oc_analyses_update (\<lambda>l. l @ [a]))) (\<lambda>_.
     andthen (on_ops (log_ops v ''incident_analyzed'' (get_str alert ''alert_id'' ''unknown'') ''success''
       [(''source'', json_get alert ''source'' (JStr ''unknown'')), (''severity'', json_get alert ''severity'' (JStr ''warning'')),
        (''runbook_match'', JStr (ia_runbook a)), (''recommended_actions_count'', JInt (int (length (ia_actions a)))),
        (''confidence'', JFloat (ia_confidence a))])) (\<lambda>_. ok a)))"

definition get_critical_incidents :: "ops_claw \<Rightarrow> incident_analysis list" where
  "get_critical_incidents c = filter (\<lambda>a. ia_severity a = ''critical'') (oc_analyses c)"

definition ops_incident :: "ops_env \<Rightarrow> json dict \<Rightarrow> (ops_claw, unit) eff" where
  "ops_incident v alert =
     andthen (look oc_components) (\<lambda>there. only_if there (
       andthen (on_ops (log_incident v alert)) (\<lambda>_.
       andthen (analyze_incident v alert) (\<lambda>a.
       andthen (remediate v alert (ia_runbook a)) (\<lambda>r.
       on_ops (log_ops v ''incident_remediation_complete'' (get_str alert ''alert_id'' ''unknown'')
         (if rr_success r then ''success'' else ''partial'')
         [(''runbook'', JStr (rr_name r)), (''steps_executed'', JInt (int (rr_executed r))), (''steps_failed'', JInt (int (rr_failed r)))]))))))"

section \<open>The scheduler\<close>

text \<open>A run that is less than a minute away is put off by its period.\<close>

definition ops_delay :: "int \<Rightarrow> ops_job \<Rightarrow> int" where
  "ops_delay now j =
     (let d = (case j of DeadlineCheck \<Rightarrow> time_until now 9 0 None | HealthScoring \<Rightarrow> time_until now 2 0 (Some 6)) in
      if d < 60 * 1000000 then d + (case j of DeadlineCheck \<Rightarrow> DAY | HealthScoring \<Rightarrow> 7 * DAY) else d)"

definition ops_schedule :: "ops_env \<Rightarrow> ops_job \<Rightarrow> (ops_claw, unit) eff" where
  "ops_schedule v j = andthen (look oc_scheduling) (\<lambda>run.
     only_if run (upd (oc_timers_update (\<lambda>l. l @ [(j, ov_now v + ops_delay (ov_now v) j)]))))"

definition deadline_pass :: "ops_env \<Rightarrow> (ops, unit) eff" where
  "deadline_pass v =
     attempt
       (andthen (check_all_deadlines v) (\<lambda>_.
        andthen (check_inquiry_staleness v) (\<lambda>_.
        log_ops v ''daily_check_completed'' ''ops_scheduler'' ''success'' [(''duration_seconds'', JFloat 0)])))
       (\<lambda>e. log_ops v ''daily_check_failed'' ''ops_scheduler'' ''failed'' [(''error'', JStr (exn_text e))])"

definition health_pass :: "ops_env \<Rightarrow> (ops, unit) eff" where
  "health_pass v =
     attempt
       (andthen (score_all_clients v) (\<lambda>hs.
        log_ops v ''weekly_health_scoring_completed'' ''ops_scheduler'' ''success''
          [(''clients_scored'', JInt (int (length hs))), (''duration_seconds'', JFloat 0)]))
       (\<lambda>e. log_ops v ''weekly_health_scoring_failed'' ''ops_scheduler'' ''failed'' [(''error'', JStr (exn_text e))])"

definition run_ops_job :: "ops_env \<Rightarrow> ops_job \<Rightarrow> (ops_claw, unit) eff" where
  "run_ops_job v j =
     andthen (look oc_scheduling) (\<lambda>run. only_if run
       (andthen (on_ops (case j of DeadlineCheck \<Rightarrow> deadline_pass v | HealthScoring \<Rightarrow> health_pass v)) (\<lambda>_. ops_schedule v j)))"

definition last_ops_run :: "ops_env \<Rightarrow> string \<Rightarrow> ops \<Rightarrow> int option" where
  "last_ops_run v action s =
     (case ops_read_recent (ov_now v) 30 (Some action) (os_log s) of [] \<Rightarrow> None | es \<Rightarrow> Some (oe_time (last es)))"

definition recover_job :: "ops_env \<Rightarrow> ops_job \<Rightarrow> int option \<Rightarrow> int \<Rightarrow> int \<Rightarrow> (ops_claw, unit) eff" where
  "recover_job v j since limit wait = (case since of
       Some t \<Rightarrow> only_if (limit < ov_now v - t) (run_ops_job v j)
     | None \<Rightarrow> upd (oc_loose_update (\<lambda>l. l @ [(j, ov_now v + wait * 1000000)])))"

definition ops_check_missed :: "ops_env \<Rightarrow> (ops_claw, unit) eff" where
  "ops_check_missed v =
     andthen (look (\<lambda>c. last_ops_run v ''daily_check_completed'' (oc_store c))) (\<lambda>daily.
     andthen (look (\<lambda>c. last_ops_run v ''weekly_health_scoring_completed'' (oc_store c))) (\<lambda>weekly.
     andthen (recover_job v DeadlineCheck daily (36 * HOUR) 5) (\<lambda>_.
     recover_job v HealthScoring weekly (8 * DAY) 10)))"

definition ops_scheduler_start :: "ops_env \<Rightarrow> (ops_claw, unit) eff" where
  "ops_scheduler_start v =
     andthen (look oc_scheduling) (\<lambda>run. only_if (\<not> run) (
       andthen (upd (oc_scheduling_update (\<lambda>_. True))) (\<lambda>_.
       andthen (on_ops (log_ops v ''scheduler_started'' ''ops_scheduler'' ''success'' [])) (\<lambda>_.
       andthen (ops_check_missed v) (\<lambda>_.
       andthen (ops_schedule v DeadlineCheck) (\<lambda>_. ops_schedule v HealthScoring))))))"

definition ops_scheduler_stop :: "ops_env \<Rightarrow> (ops_claw, unit) eff" where
  "ops_scheduler_stop v =
     andthen (upd (\<lambda>c. c\<lparr>oc_scheduling := False, oc_timers := []\<rparr>)) (\<lambda>_.
     on_ops (log_ops v ''scheduler_stopped'' ''ops_scheduler'' ''success'' []))"

section \<open>Decisions of the operator\<close>

definition message_types :: "string list" where
  "message_types = [''welcome_message'', ''client_response'', ''delivery_message'']"

text \<open>\<open>_create_send_fn\<close> and \<open>_create_execute_fn\<close>: both keep the action as it was read before the decision.\<close>

definition send_fn :: "ops_env \<Rightarrow> ops_action \<Rightarrow> (ops, unit) eff" where
  "send_fn v a =
     (if oa_type a \<in> set message_types then send_auto_response v (get_str (oa_context a) ''client_id'' ''unknown'') (oa_content a)
      else if oa_type a = ''proposal'' then
        log_ops v ''proposal_sent'' (get_str (oa_context a) ''project_id'' []) ''success''
          [(''action_id'', JStr (oa_id a)), (''content_preview'', JStr (take 200 (oa_content a)))]
      else ok ())"

definition execute_fn :: "ops_env \<Rightarrow> ops_action \<Rightarrow> (ops, unit) eff" where
  "execute_fn v a =
     (let p = get_str (oa_context a) ''project_id'' [];
          act = (\<lambda>new logged. andthen (update_project_status v p new) (\<lambda>_.
            log_ops v logged p ''success'' [(''action_id'', JStr (oa_id a))]))
      in if oa_type a = ''scope_change_order'' then act ''scope_changed'' ''scope_change_executed''
         else if oa_type a = ''deadline_critical'' then act ''deadline_at_risk'' ''deadline_escalated''
         else ok ())"

definition handle_approval_decision :: "ops_env \<Rightarrow> string \<Rightarrow> string \<Rightarrow> string option \<Rightarrow> (ops, bool) eff" where
  "handle_approval_decision v aid decision edited =
     andthen (get_action aid) (\<lambda>found. case found of
       None \<Rightarrow> ok False
     | Some a \<Rightarrow>
       if decision = ''approved'' then ops_approve v aid (send_fn v a)
       else if decision = ''edited'' \<and> truthy_str edited then ops_edit v aid (the edited) (send_fn v a)
       else if decision = ''blocked'' then ops_block v aid (Some ''operator_blocked'')
       else if decision = ''released'' then ops_hold_release v aid (execute_fn v a)
       else ok False)"

section \<open>Messages to the claw\<close>

definition processed :: "string \<Rightarrow> (string \<times> json) list \<Rightarrow> json dict" where
  "processed mtype extra = [(''status'', JStr ''processed''), (''role'', JStr ''ops''), (''message_type'', JStr mtype)] @ extra"

text \<open>The project a price is for: its own identifier, or the one made of the query's.\<close>

definition priced_project :: "json dict \<Rightarrow> string" where
  "priced_project message =
     (let body = message_payload message in
      if get_str body ''project_id'' [] \<noteq> [] then get_str body ''project_id'' []
      else py_replace ''query_'' ''project_'' (get_str body ''query_id'' []))"

definition ops_pricing_response :: "ops_env \<Rightarrow> json dict \<Rightarrow> (ops, json dict) eff" where
  "ops_pricing_response v message =
     (let body = message_payload message; p = priced_project message;
          pick = (\<lambda>k1 k2. case json_get body k1 JNull of JNull \<Rightarrow>
            (case json_get body k2 (JInt 0) of JNull \<Rightarrow> JInt 0 | j \<Rightarrow> j) | j \<Rightarrow> j);
          notes = (case python_or (json_get body ''notes'' JNull) (json_get body ''scope_notes'' (JStr [])) of JStr t \<Rightarrow> t | j \<Rightarrow> ov_str v j) in
      andthen (to_float v (pick ''floor'' ''floor_price'')) (\<lambda>fl.
      andthen (to_float v (pick ''ceiling'' ''ceiling_price'')) (\<lambda>ce.
      andthen (intake_pricing_response v p fl ce notes) (\<lambda>_.
      andthen (project_pricing_response v p) (\<lambda>_.
      ok (processed ''pricing_response'' [(''project_id'', JStr p)]))))))"

definition text_of :: "ops_env \<Rightarrow> json \<Rightarrow> string" where
  "text_of v j = py_text (ov_str v) j"

text \<open>\<open>x or "unknown"\<close> for an identifier.\<close>

definition id_or :: "json \<Rightarrow> string \<Rightarrow> string" where
  "id_or j def = (case j of JStr t \<Rightarrow> if t = [] then def else t | _ \<Rightarrow> def)"

definition ops_invoice_ready :: "ops_env \<Rightarrow> json dict \<Rightarrow> (ops, json dict) eff" where
  "ops_invoice_ready v message =
     (let body = message_payload message; i = json_get body ''invoice_id'' JNull in
      andthen (log_auto v ''invoice_received'' (id_or i ''unknown'')
        (''Invoice '' @ text_of v i @ '' for $'' @ text_of v (json_get body ''amount'' JNull) @ '' ready for client ''
          @ text_of v (json_get body ''client_id'' JNull))) (\<lambda>_.
      ok (processed ''invoice_ready'' [(''invoice_id'', i)])))"

definition ops_payment_overdue :: "ops_env \<Rightarrow> json dict \<Rightarrow> (ops, json dict) eff" where
  "ops_payment_overdue v message =
     (let body = message_payload message; i = json_get body ''invoice_id'' JNull; c = json_get body ''client_id'' JNull;
          days = json_get body ''days_overdue'' (JInt 0); amount = json_get body ''amount'' (JInt 0) in
      andthen (queue_review v ''payment_overdue'' (id_or i (id_or c ''unknown''))
        (''Payment overdue: Invoice '' @ text_of v i @ '' for client '' @ text_of v c @ [CHR 0x0A, CHR 0x0A] @ ''Days overdue: '' @ text_of v days
          @ [CHR 0x0A] @ ''Amount: $'' @ text_of v amount @ [CHR 0x0A, CHR 0x0A] @ ''Recommended: Send follow-up message to client.'')
        [(''invoice_id'', i), (''client_id'', c), (''days_overdue'', days), (''amount'', amount)]) (\<lambda>_.
      ok (processed ''payment_overdue'' [(''invoice_id'', i)])))"

definition ops_acknowledged :: "ops_env \<Rightarrow> string \<Rightarrow> json dict \<Rightarrow> (ops, json dict) eff" where
  "ops_acknowledged v mtype message =
     (let body = message_payload message; p = json_get body ''project_id'' JNull in
      andthen (log_ops v mtype (id_or p ''unknown'') ''success'' [(''estimated_time'', json_get body ''estimated_first_draft_time'' JNull)]) (\<lambda>_.
      ok (processed mtype [(''project_id'', p)])))"

text \<open>\<open>_send_assistant_response\<close> goes to the gateway itself: what that raises comes out.\<close>

definition answer_assistant :: "ops_env \<Rightarrow> json dict \<Rightarrow> json dict \<Rightarrow> (ops, unit) eff" where
  "answer_assistant v message answer =
     (let m = \<lparr>fm_type = ''assistant_response'', fm_recipient = ''assistant'',
               fm_payload = [(''original_message_id'', json_get message ''message_id'' JNull), (''response'', JObj answer)], fm_id = [], fm_time = 0\<rparr>
      in case ov_gateway v m of
           Inl e \<Rightarrow> lift_exn (Inl e) | Inr b \<Rightarrow> only_if b (upd (os_outbox_update (\<lambda>l. l @ [m]))))"

definition assistant_payload :: "json dict \<Rightarrow> json dict" where
  "assistant_payload m = (case json_get m ''payload'' (JObj []) of JObj d \<Rightarrow> d | _ \<Rightarrow> [])"

text \<open>The directory \<^verbatim>\<open>clients\<close> the count looks into is made by no operation, so it is 0.\<close>

definition ops_assistant_query :: "ops_env \<Rightarrow> bool \<Rightarrow> json dict \<Rightarrow> (ops, json dict) eff" where
  "ops_assistant_query v running message =
     andthen (if get_str (assistant_payload message) ''query'' [] = ''diagnostics'' then
         andthen get_review_queue (\<lambda>rs. andthen get_hold_queue (\<lambda>hs. andthen (look os_log) (\<lambda>lines.
           ok [(''claw'', JStr ''ops''), (''status'', JStr ''diagnostics''), (''queue_size'', JInt (int (length rs + length hs))),
               (''review_queue_size'', JInt (int (length rs))), (''hold_queue_size'', JInt (int (length hs))),
               (''recent_logs'', JList (map (\<lambda>l. JStr (ov_line v l)) (last_few 5 lines)))])))
       else ok [(''claw'', JStr ''ops''), (''status'', JStr (if running then ''online'' else ''offline'')),
           (''components'', JObj [(''intake_manager'', JBool True), (''project_manager'', JBool True), (''scheduler'', JBool True),
              (''health_scorer'', JBool True)]), (''clients'', JInt 0)]) (\<lambda>answer.
     andthen (answer_assistant v message answer) (\<lambda>_. ok answer))"

definition name_char :: "char \<Rightarrow> bool" where
  "name_char c \<longleftrightarrow> (let n = of_char c :: nat in 48 \<le> n \<and> n \<le> 57 \<or> 65 \<le> n \<and> n \<le> 90 \<or> 97 \<le> n \<and> n \<le> 122 \<or> n = 95 \<or> n = 45)"

text \<open>\<open>re.search(r"project\s+([A-Za-z0-9_-]+)", text, re.IGNORECASE)\<close>.\<close>

fun project_in_text :: "string \<Rightarrow> string option" where
  "project_in_text [] = None"
| "project_in_text (c # cs) =
     (let rest = drop 7 (c # cs); name = takeWhile name_char (dropWhile space_char rest) in
      if py_lower (take 7 (c # cs)) = ''project'' \<and> rest \<noteq> [] \<and> space_char (hd rest) \<and> name \<noteq> [] then Some name
      else project_in_text cs)"

definition ops_assistant_task :: "ops_env \<Rightarrow> json dict \<Rightarrow> (ops, json dict) eff" where
  "ops_assistant_task v message =
     (let body = assistant_payload message; task = get_str body ''task_description'' []; low = py_lower task;
          pricing = py_in ''onboard'' low \<or> py_in ''stripe billing'' low \<or> py_in ''pricing'' low;
          answer = [(''claw'', JStr ''ops''),
            (''task_type'', if pricing then JStr ''onboarding'' else json_get body ''task_type'' (JStr ''unknown'')), (''status'', JStr ''accepted'')] in
      andthen (only_if pricing (send_pricing_query v (case project_in_text task of Some p \<Rightarrow> p | None \<Rightarrow> ''proj-1002'') (JStr task) ''medium''
        (get_str body ''deadline'' ''2026-05-30T00:00:00Z'') (Some ''client-enterprise-999''))) (\<lambda>_.
      andthen (answer_assistant v message answer) (\<lambda>_. ok answer)))"

text \<open>Decisions that come over the mesh are only noted.\<close>

definition ops_mesh_decision :: "ops_env \<Rightarrow> string \<Rightarrow> string \<Rightarrow> bool \<Rightarrow> json dict \<Rightarrow> (ops, json dict) eff" where
  "ops_mesh_decision v mtype text reject message =
     (let body = message_payload message; aid = get_str body ''action_id'' [] in
      andthen (log_auto v (''mesh_'' @ mtype) aid
        (text @ aid @ (if reject then '': '' @ text_of v (json_get body ''reason'' (JStr [])) else []))) (\<lambda>_.
      ok (processed mtype (if reject then [(''action_id'', JStr aid)] else []))))"

definition ops_fake_alert :: "ops_env \<Rightarrow> json dict \<Rightarrow> (ops, json dict) eff" where
  "ops_fake_alert v message =
     andthen (log_ops v ''adversarial_alert_rejected'' ''fake_alert'' ''rejected''
       [(''severity'', json_get (message_payload message) ''severity'' (JStr ''unknown'')), (''reason'', JStr ''unverified_sender'')]) (\<lambda>_.
     ok [(''status'', JStr ''rejected''), (''role'', JStr ''ops''), (''message_type'', JStr ''fake_alert''), (''reason'', JStr ''adversarial_input'')])"

text \<open>The handler of a message type; \<open>record_signal\<close> is no method of the health scorer.\<close>

definition ops_handler :: "ops_env \<Rightarrow> bool \<Rightarrow> string \<Rightarrow> (json dict \<Rightarrow> (ops, json dict) eff) option" where
  "ops_handler v running mtype =
     (if mtype = ''deliverable_complete'' then Some (\<lambda>m. andthen (handle_deliverable_complete v m) (\<lambda>_. ok (processed mtype [])))
      else if mtype = ''deploy_complete'' then Some (\<lambda>m. andthen (handle_deploy_complete v m) (\<lambda>_. ok (processed mtype [])))
      else if mtype = ''pricing_response'' then Some (ops_pricing_response v)
      else if mtype = ''invoice_ready'' then Some (ops_invoice_ready v)
      else if mtype = ''payment_overdue'' then Some (ops_payment_overdue v)
      else if mtype = ''brief_acknowledged'' \<or> mtype = ''feature_brief_acknowledged'' then Some (ops_acknowledged v mtype)
      else if mtype = ''assistant_query'' then Some (ops_assistant_query v running)
      else if mtype = ''assistant_task'' then Some (ops_assistant_task v)
      else if mtype = ''hold_release'' then Some (ops_mesh_decision v mtype ''Hold release for action '' False)
      else if mtype = ''review_approve'' then Some (ops_mesh_decision v mtype ''Review approve for action '' False)
      else if mtype = ''review_reject'' then Some (ops_mesh_decision v mtype ''Review reject for action '' True)
      else if mtype = ''client_health_signal'' then Some (\<lambda>_. no_method ''ClientHealthScorer'' ''record_signal'')
      else if mtype = ''fake_alert'' then Some (ops_fake_alert v)
      else None)"

definition ops_handle_inbound :: "ops_env \<Rightarrow> json dict \<Rightarrow> (ops_claw, json dict) eff" where
  "ops_handle_inbound v message =
     (let mtype = get_str message ''message_type'' [] in
      if mtype = [] then ok [(''status'', JStr ''error''), (''error'', JStr ''No message_type''), (''role'', JStr ''ops'')]
      else andthen (look (\<lambda>c. if oc_components c then ops_handler v (oc_running c) mtype else None)) (\<lambda>found. case found of
        None \<Rightarrow> ok [(''status'', JStr ''no_handler''), (''message_type'', JStr mtype), (''role'', JStr ''ops'')]
      | Some h \<Rightarrow> on_ops (attempt (h message) (\<lambda>e.
          andthen (log_ops v ''message_handler_error'' (get_str message ''project_id'' ''unknown'') ''failed''
            [(''error'', JStr (exn_text e)), (''message_type'', JStr mtype)]) (\<lambda>_.
          ok [(''status'', JStr ''error''), (''message_type'', JStr mtype), (''role'', JStr ''ops''), (''error'', JStr (exn_text e))])))))"

section \<open>Startup, shutdown and entry points\<close>

text \<open>The tree of files and the logs are there; the webhook server, a listening socket, is left out.\<close>

text \<open>What is kept in memory only is gone when the claw is started again. A claw object is started once.\<close>

definition forget_memory :: "ops \<Rightarrow> ops" where
  "forget_memory s = s\<lparr>os_pending := [], os_orders := []\<rparr>"

definition ops_startup :: "ops_env \<Rightarrow> (ops_claw, unit) eff" where
  "ops_startup v =
     andthen (on_ops (log_ops v ''claw_startup'' (ov_squad v) ''started'' [])) (\<lambda>_.
     andthen (upd (\<lambda>c. c\<lparr>oc_store := forget_memory (oc_store c), oc_components := True, oc_runbooks := shipped_runbooks, oc_history := [], oc_analyses := []\<rparr>)) (\<lambda>_.
     andthen (ops_scheduler_start v) (\<lambda>_.
     andthen (upd (oc_running_update (\<lambda>_. True))) (\<lambda>_.
     on_ops (log_ops v ''claw_started'' (ov_squad v) ''success'' [])))))"

definition ops_shutdown :: "ops_env \<Rightarrow> (ops_claw, unit) eff" where
  "ops_shutdown v =
     andthen (look oc_components) (\<lambda>there.
     andthen (only_if there (andthen (ops_scheduler_stop v) (\<lambda>_. on_ops (log_ops v ''claw_stopped'' (ov_squad v) ''success'' [])))) (\<lambda>_.
     upd (oc_running_update (\<lambda>_. False))))"

text \<open>The entry points: two call methods that do not exist or need more arguments.\<close>

definition started :: "(ops_claw, 'a) eff \<Rightarrow> (ops_claw, 'a) eff" where
  "started m = andthen (look oc_components) (\<lambda>there.
     if there then m else throw ''RuntimeError'' (''OpsClaw not started '' @ [CHR 0xE2, CHR 0x80, CHR 0x94] @ '' call startup() first''))"

definition manage_project :: "ops_env \<Rightarrow> string \<Rightarrow> string \<Rightarrow> (ops_claw, json dict) eff" where
  "manage_project v p action = started (
     andthen (on_ops (only_if (action = ''update_status'') (update_project_status v p ''active''))) (\<lambda>_.
     ok [(''project_id'', JStr p), (''action'', JStr action)]))"

definition score_client_health :: "string \<Rightarrow> (ops_claw, json dict) eff" where
  "score_client_health client = started (no_method ''ClientHealthScorer'' ''to_dict'')"

definition track_scope :: "json dict \<Rightarrow> (ops_claw, json dict) eff" where
  "track_scope message = started (throw ''TypeError'' ''check_message() missing 2 required positional arguments'')"

definition run_runbook :: "ops_env \<Rightarrow> string \<Rightarrow> json dict \<Rightarrow> (ops_claw, json dict) eff" where
  "run_runbook v name alert = started (andthen (execute_runbook v name (Some alert)) (\<lambda>_. ok [(''runbook'', JStr name)]))"

definition handle_webhook :: "ops_env \<Rightarrow> json dict \<Rightarrow> (ops_claw, json dict) eff" where
  "handle_webhook v alert = started (andthen (ops_incident v alert) (\<lambda>_. ok [(''status'', JStr ''webhook_processed'')]))"

end
