(* ===== verification/Ops_Runs.thy ===== *)
theory Ops_Runs
  imports Ops_Claw
begin

text \<open>
  What every operation of the ops claw keeps: what is in a queue fits it, a brief went out only with a price that
  had come in, and an automatic answer to a client has a decision of the operator behind it.
\<close>

section \<open>Runs\<close>

datatype ops_op =
    Inquiry "json dict" | Response string string | Onboard string string "json dict" string
  | BriefOut string string client_brief string | FeatureOut string string string string string
  | NewProject string "json dict" string | Receipt string | SetStatus string string
  | ClientWrites string "string option" string string | DeepWork string string | ScopePrice string rat
  | Message "json dict" | Decision string string "string option" | CardApprove string | CardVeto string
  | DailyPass | WeeklyPass | Restart

definition run_ops_op :: "ops_env \<Rightarrow> ops_op \<Rightarrow> (ops, unit) eff" where
  "run_ops_op v oper =
     (case oper of
        Inquiry d \<Rightarrow> andthen (receive_inquiry v d) (\<lambda>_. ok ())
      | Response i t \<Rightarrow> andthen (intake_client_response v i t) (\<lambda>_. ok ())
      | Onboard i n d sq \<Rightarrow> andthen (onboard_client v i n d sq) (\<lambda>_. ok ())
      | BriefOut p c b r \<Rightarrow> brief_after_proposal v p c b r
      | FeatureOut c p f dl cr \<Rightarrow> send_feature_brief v c p f dl cr
      | NewProject c b dl \<Rightarrow> andthen (create_project v c b dl) (\<lambda>_. ok ())
      | Receipt p \<Rightarrow> confirm_client_receipt v p
      | SetStatus p st \<Rightarrow> update_project_status v p st
      | ClientWrites c p t ch \<Rightarrow> comms_inbound v c p t ch
      | DeepWork c r \<Rightarrow> send_deep_work_response v c r
      | ScopePrice p r \<Rightarrow> handle_scope_pricing_response v p r
      | Message d \<Rightarrow> (case ops_handler v True (get_str d ''message_type'' []) of None \<Rightarrow> ok () | Some h \<Rightarrow> andthen (h d) (\<lambda>_. ok ()))
      | Decision a d e \<Rightarrow> andthen (handle_approval_decision v a d e) (\<lambda>_. ok ())
      | CardApprove a \<Rightarrow> andthen (approve_hold_message (ops_handlers v) a) (\<lambda>_. ok ())
      | CardVeto a \<Rightarrow> andthen (veto_hold_message (ops_handlers v) a) (\<lambda>_. ok ())
      | DailyPass \<Rightarrow> deadline_pass v
      | WeeklyPass \<Rightarrow> health_pass v
      | Restart \<Rightarrow> upd forget_memory)"

text \<open>A claw that has just been set up, with any templates.\<close>

definition new_ops :: "(string \<rightharpoonup> string) \<Rightarrow> ops" where
  "new_ops templates = \<lparr>wr_cards = [], wr_inbox = (\<lambda>_. []), wr_rejected = [], os_review = [], os_hold = [], os_decisions = [],
     os_log = [], os_comms = [], os_templates = templates, os_clients = [], os_profiles = [], os_projects = [], os_completed = [],
     os_prospects = [], os_confirmed = [], os_fresh = 0, os_outbox = [], os_pending = [], os_orders = []\<rparr>"

text \<open>The states a claw can get into, with what has been asked of it since it was set up.\<close>

inductive ops_reached :: "ops_op list \<Rightarrow> ops \<Rightarrow> bool" where
  start: "ops_reached [] (new_ops templates)"
| step: "ops_reached h s \<Longrightarrow> ops_reached (h @ [oper]) (fst (run_ops_op v oper s))"

definition ops_reachable :: "ops \<Rightarrow> bool" where
  "ops_reachable s \<longleftrightarrow> (\<exists>h. ops_reached h s)"

lemma ops_reachable_start: "ops_reachable (new_ops t)"
  unfolding ops_reachable_def by (rule exI) (rule ops_reached.start)

lemma ops_reachable_step: "ops_reachable s \<Longrightarrow> ops_reachable (fst (run_ops_op v oper s))"
  unfolding ops_reachable_def by (elim exE) (rule exI, rule ops_reached.step)

text \<open>The projects for which a price has come in.\<close>

definition priced :: "ops_op list \<Rightarrow> string set" where
  "priced h = {priced_project d | d. Message d \<in> set h \<and> get_str d ''message_type'' [] = ''pricing_response''}"

lemma priced_snoc: "priced h \<subseteq> priced (h @ [oper])" "priced [oper] \<subseteq> priced (h @ [oper])"
  by (auto simp: priced_def)

section \<open>The invariant\<close>

definition queue_fits :: "ops_queue \<Rightarrow> ops_action \<Rightarrow> bool" where
  "queue_fits q a \<longleftrightarrow> oa_mode a = queue_mode q \<and> (case q of
       HoldQueue \<Rightarrow> map_of (oa_context a) ''project_id'' = None
     | ReviewQueue \<Rightarrow> oa_type a \<notin> {''scope_change_order'', ''deadline_critical''})"

definition queue_ok :: "ops_queue \<Rightarrow> folder \<Rightarrow> bool" where
  "queue_ok q fs \<longleftrightarrow> (\<forall>(i, f) \<in> set fs. \<exists>a. f = Some (ops_action_to_dict a) \<and> oa_id a = i \<and> queue_fits q a)"

text \<open>The content a decision approves, as it was queued, and the answer it stands behind.\<close>

definition approved_text :: "json dict \<Rightarrow> string option" where
  "approved_text d =
     (if map_of d ''outcome'' = Some (JStr ''approved'') then Some (get_str d ''content_preview'' [])
      else if map_of d ''outcome'' = Some (JStr ''edited_and_sent'') then Some (get_str d ''original_content_preview'' [])
      else None)"

definition decided_client :: "json dict \<Rightarrow> string" where
  "decided_client d = (case map_of d ''context'' of Some (JObj c) \<Rightarrow> get_str c ''client_id'' ''unknown'' | _ \<Rightarrow> ''unknown'')"

definition stands_behind :: "json dict \<Rightarrow> comms_entry \<Rightarrow> bool" where
  "stands_behind d e \<longleftrightarrow> map_of d ''action_type'' \<in> Some ` JStr ` set message_types \<and> decided_client d = ce_client e
     \<and> map_option (take 100) (approved_text d) = Some (ce_preview e)"

definition automatic_answer :: "comms_entry \<Rightarrow> bool" where
  "automatic_answer e \<longleftrightarrow> ce_direction e = ''sent'' \<and> ce_channel e = ''auto_response''"

definition brief_priced :: "string list \<Rightarrow> fin_msg \<Rightarrow> bool" where
  "brief_priced confirmed m \<longleftrightarrow> fm_type m = ''project_brief'' \<longrightarrow>
     (\<exists>p. map_of (fm_payload m) ''project_id'' = Some (JStr p) \<and> p \<in> set confirmed)"

definition ops_ok :: "string set \<Rightarrow> ops \<Rightarrow> bool" where
  "ops_ok X s \<longleftrightarrow> queue_ok ReviewQueue (os_review s) \<and> queue_ok HoldQueue (os_hold s)
     \<and> list_all (brief_priced (os_confirmed s)) (os_outbox s) \<and> set (os_confirmed s) \<subseteq> X
     \<and> (\<forall>e \<in> set (readable (os_comms s)). automatic_answer e \<longrightarrow> (\<exists>d \<in> set (readable (os_decisions s)). stands_behind d e))"

text \<open>States that agree on what the invariant speaks of.\<close>

definition ops_core :: "ops \<Rightarrow> folder \<times> folder \<times> json dict option list \<times> comms_entry option list \<times> fin_msg list \<times> string list" where
  "ops_core s = (os_review s, os_hold s, os_decisions s, os_comms s, os_outbox s, os_confirmed s)"

lemma ops_ok_core: "ops_core t = ops_core s \<Longrightarrow> ops_ok X t = ops_ok X s"
  by (simp add: ops_core_def ops_ok_def)

lemma ok_upd:
  assumes "\<And>s. ops_core (f s) = ops_core s"
  shows "keeps (ops_ok X) (upd f)"
  by (rule keeps_upd) (metis assms ops_ok_core)

lemma fresh_hex_eq: "fresh_hex v n s = (os_fresh_update Suc s, Inr (take n (ov_hex v (os_fresh s))))"
  by (simp add: fresh_hex_def)

lemma andthen_fresh [simp]: "andthen (fresh_hex v n) f s = f (take n (ov_hex v (os_fresh s))) (os_fresh_update Suc s)"
  by (simp add: andthen_def fresh_hex_eq)

lemma log_ops_core [simp]: "ops_core (fst (log_ops v a e outc d s)) = ops_core s"
  by (simp add: log_ops_def ops_core_def)

lemma ops_core_fresh [simp]: "ops_core (os_fresh_update f s) = ops_core s"
  by (simp add: ops_core_def)

lemma queue_ok_update: "queue_ok q fs \<Longrightarrow> queue_fits q a \<Longrightarrow> queue_ok q (AList.update (oa_id a) (Some (ops_action_to_dict a)) fs)"
  unfolding queue_ok_def by (induction fs) auto

lemma queue_ok_delete: "queue_ok q fs \<Longrightarrow> queue_ok q (AList.delete i fs)"
  unfolding queue_ok_def AList.delete_eq by auto

lemma queue_ok_find: "queue_ok q fs \<Longrightarrow> map_of fs i = Some f \<Longrightarrow> \<exists>a. f = Some (ops_action_to_dict a) \<and> oa_id a = i \<and> queue_fits q a"
  using map_of_SomeD[of fs i f] by (fastforce simp: queue_ok_def)

lemma readable_snoc [simp]: "readable (l @ [Some e]) = readable l @ [e]"
  by (simp add: readable_def)

lemma ok_queue_of: "ops_ok X s \<Longrightarrow> queue_ok q (queue_of q s)"
  by (cases q) (simp_all add: ops_ok_def)

lemma ok_on_queue: "ops_ok X s \<Longrightarrow> queue_ok q (f (queue_of q s)) \<Longrightarrow> ops_ok X (on_queue q f s)"
  by (cases q) (simp_all add: ops_ok_def)

section \<open>Building blocks\<close>

lemma ok_log [keeps_intros]: "keeps (ops_ok X) (log_ops v a e outc d)"
  unfolding log_ops_def by (rule ok_upd) (simp add: ops_core_def)

lemma ok_fresh [keeps_intros]: "keeps (ops_ok X) (fresh_hex v n)"
  unfolding fresh_hex_def by (intro keeps_intros ok_upd) (simp add: ops_core_def)

lemma ok_log_comms [keeps_intros]:
  assumes "\<not> (dir = ''sent'' \<and> ch = ''auto_response'')"
  shows "keeps (ops_ok X) (log_comms v dir c p ch t ap)"
  unfolding log_comms_def
  by (rule keeps_upd) (use assms in \<open>auto simp: ops_ok_def automatic_answer_def\<close>)

lemma ok_decision [keeps_intros]: "keeps (ops_ok X) (log_ops_decision v a)"
  unfolding log_ops_decision_def by (rule keeps_upd) (auto simp: ops_ok_def)

lemma ok_files [keeps_intros]:
  "keeps (ops_ok X) (create_client_dirs c)" "keeps (ops_ok X) (create_project_dirs c p)" "keeps (ops_ok X) (write_project c p n d)"
  "keeps (ops_ok X) (write_prospect i n d)" "keeps (ops_ok X) (save_status c p st)" "keeps (ops_ok X) (get_template n)"
  unfolding create_client_dirs_def create_project_dirs_def write_project_def write_prospect_def save_status_def get_template_def
  by (auto intro!: ok_upd keeps_andthen simp: ops_core_def put_project_def split: option.split)

text \<open>Only a price that has come in counts as confirmed.\<close>

lemma ok_pricing:
  assumes "\<And>a. keeps (ops_ok X) (f a)" and "p \<in> X"
  shows "keeps (ops_ok X) (andthen (upd (os_pending_update (AList.update p d))) (\<lambda>_. andthen (mark_pricing_confirmed p) f))"
proof (rule keepsI)
  fix s assume s: "ops_ok X s"
  have c: "set (add_once p cs) = insert p (set cs)" for cs by (auto simp: add_once_def)
  have m: "brief_priced (add_once p cs) x" if "brief_priced cs x" for cs x
    using that unfolding brief_priced_def c by blast
  have l: "list_all (brief_priced (add_once p (os_confirmed s))) (os_outbox s)"
    using s m by (simp add: ops_ok_def list_all_iff)
  have "set (add_once p (os_confirmed s)) \<subseteq> X" using s assms(2) unfolding c ops_ok_def by blast
  then have "ops_ok X (os_confirmed_update (add_once p) (os_pending_update (AList.update p d) s))"
    using s l by (simp add: ops_ok_def)
  then show "ops_ok X (fst (andthen (upd (os_pending_update (AList.update p d))) (\<lambda>_. andthen (mark_pricing_confirmed p) f) s))"
    using keepsD[OF assms(1)] by (simp add: mark_pricing_confirmed_def)
qed

lemma ok_write_action:
  assumes "queue_fits q a"
  shows "keeps (ops_ok X) (write_action a q)"
  unfolding write_action_def by (rule keeps_upd) (simp add: ok_on_queue ok_queue_of queue_ok_update assms)

lemma ok_remove [keeps_intros]: "keeps (ops_ok X) (remove_ops_action i q)"
  unfolding remove_ops_action_def
  by (intro keeps_intros keeps_upd) (simp add: ok_on_queue ok_queue_of queue_ok_delete)

lemma ops_core_cards [simp]: "ops_core (wr_cards_update f s) = ops_core s"
  by (simp add: ops_core_def)

lemma ok_war_room [keeps_intros]:
  "keeps (ops_ok X) (write_warroom_action n i r m ty su rc d)" "keeps (ops_ok X) (remove_warroom_action i)"
  unfolding write_warroom_action_def remove_warroom_action_def
  by (auto intro!: keeps_intros ok_upd split: option.split)

lemma ok_sync [keeps_intros]: "keeps (ops_ok X) (sync_warroom v a)" "keeps (ops_ok X) (unsync_action v i)"
  unfolding sync_warroom_def unsync_action_def by (intro keeps_intros)+

lemma ok_queue:
  assumes "q = HoldQueue \<Longrightarrow> map_of ctx ''project_id'' = None"
    and "q = ReviewQueue \<Longrightarrow> ty \<notin> {''scope_change_order'', ''deadline_critical''}"
  shows "keeps (ops_ok X) (queue_ops_action v q ty en co ctx)"
proof -
  have "queue_fits q (ops_new_action v i (queue_mode q) ty en co ctx)" for i
    using assms by (cases q) (simp_all add: queue_fits_def ops_new_action_def)
  then show ?thesis unfolding queue_ops_action_def Let_def by (intro keeps_intros ok_write_action)
qed

lemma ok_queue_review [keeps_intros]:
  "ty \<notin> {''scope_change_order'', ''deadline_critical''} \<Longrightarrow> keeps (ops_ok X) (queue_review v ty en co ctx)"
  unfolding queue_review_def by (rule ok_queue) simp_all

lemma ok_queue_hold [keeps_intros]: "map_of ctx ''project_id'' = None \<Longrightarrow> keeps (ops_ok X) (queue_hold v ty en co ctx)"
  unfolding queue_hold_def by (rule ok_queue) simp_all

lemma ok_auto [keeps_intros]: "keeps (ops_ok X) (log_auto v ty en p)"
  unfolding log_auto_def by (intro keeps_intros)

lemma ok_ask [keeps_intros]: "keeps P (ask v k)" "keeps P (braced_json v t)" "keeps P (to_float v j)"
  unfolding ask_def braced_json_def to_float_def by (auto split: sum.split option.split json.split)

lemma ok_outbox:
  "ops_ok X s \<Longrightarrow> brief_priced (os_confirmed s) m \<Longrightarrow> ops_ok X (os_outbox_update (\<lambda>l. l @ [m]) s)"
  by (simp add: ops_ok_def)

lemma ok_send:
  assumes "mtype = ''project_brief'' \<Longrightarrow> \<exists>p. map_of d ''project_id'' = Some (JStr p) \<and> p \<in> set (os_confirmed s)" and "ops_ok X s"
  shows "ops_ok X (fst (ops_send v mtype r d s))"
proof -
  let ?s = "os_fresh_update Suc s"
  let ?m = "\<lparr>fm_type = mtype, fm_recipient = r, fm_payload = d, fm_id = take 12 (ov_hex v (os_fresh s)), fm_time = ov_now v\<rparr>"
  have s: "ops_ok X ?s" using assms(2) ops_ok_core[OF ops_core_fresh, of X Suc s] by simp
  have m: "brief_priced (os_confirmed ?s) ?m" using assms(1) by (simp add: brief_priced_def)
  have l: "ops_ok X (fst (log_ops v a e outc x ?s))" for a e outc x using s ops_ok_core[OF log_ops_core] by blast
  consider e where "ov_gateway v ?m = Inl e" | "ov_gateway v ?m = Inr True" | "ov_gateway v ?m = Inr False"
    by (metis (full_types) sum.exhaust)
  then show ?thesis by cases (use l ok_outbox[OF s m] in \<open>simp_all add: ops_send_def Let_def\<close>)
qed

lemma ok_other_send [keeps_intros]: "mtype \<noteq> ''project_brief'' \<Longrightarrow> keeps (ops_ok X) (ops_send v mtype r d)"
  by (rule keepsI) (rule ok_send, simp_all)

lemma ok_messages [keeps_intros]:
  "keeps (ops_ok X) (send_feature_brief v c p f dl cr)" "keeps (ops_ok X) (send_pricing_query v p sc cx dl cl)"
  "keeps (ops_ok X) (send_project_complete v p c)" "keeps (ops_ok X) (send_client_health_signal v c h fs ad)"
  "keeps (ops_ok X) (send_client_onboarded v c n k est)" "keeps (ops_ok X) (log_incident v al)"
  unfolding send_feature_brief_def send_pricing_query_def send_project_complete_def send_client_health_signal_def
    send_client_onboarded_def log_incident_def
  by (intro keeps_intros; simp)+

lemma keeps_then:
  assumes "\<And>b. keeps P (f b)" and "P (fst (m s))"
  shows "P (fst (andthen m f s))"
proof (cases "m s")
  case (Pair t r)
  then show ?thesis using assms(2) keepsD[OF assms(1), of t] by (cases r) (simp_all add: andthen_def)
qed

lemma ok_brief [keeps_intros]: "keeps (ops_ok X) (send_project_brief v c p b dl t pl r)"
proof (rule keepsI)
  fix s assume s: "ops_ok X s"
  let ?m = "ops_send v ''project_brief'' r [(''client_id'', JStr c), (''project_id'', JStr p), (''brief_text'', JStr b), (''deadline'', JStr dl),
            (''tone_requirements'', JStr t), (''platform_targets'', JList (map JStr pl))]"
  show "ops_ok X (fst (send_project_brief v c p b dl t pl r s))"
  proof (cases "is_pricing_confirmed p s")
    case True
    then have "ops_ok X (fst (?m s))" using s by (intro ok_send) (simp_all add: is_pricing_confirmed_def)
    then have "ops_ok X (fst (andthen ?m (\<lambda>_. log_ops v x p y z) s))" for x y z by (rule keeps_then[OF ok_log])
    then show ?thesis using True by (simp add: send_project_brief_def)
  qed (simp add: send_project_brief_def s)
qed

chapter \<open>Every operation keeps the invariant\<close>

text \<open>
  Every operation of the ops claw keeps the invariant \<open>ops_ok X\<close>, so it holds in every reachable state. The
  decisions come last: the answer they log and the decision that stands behind it are one step.
\<close>

section \<open>Operations that only use the building blocks\<close>

lemma ok_look_read [keeps_intros]: "keeps (ops_ok X) (load_status c p)" "keeps (ops_ok X) (read_action i q)" "keeps (ops_ok X) (get_action i)"
  unfolding load_status_def read_action_def get_action_def
  by (auto intro!: keeps_andthen split: option.split list.split)

lemma ok_drafts [keeps_intros]:
  "keeps (ops_ok X) (draft_delivery_message v c t)" "keeps (ops_ok X) (draft_change_order v sc rq co)" "keeps (ops_ok X) (draft_response v)"
  "keeps (ops_ok X) (draft_welcome_message v n)" "keeps (ops_ok X) (draft_intake_questionnaire v)" "keeps (ops_ok X) (draft_clarifying_question v gs)"
  "keeps (ops_ok X) (draft_proposal p fl ce nts)" "keeps (ops_ok X) (classify_message v)" "keeps (ops_ok X) (detect_pricing_question v m)"
  "keeps (ops_ok X) (detect_scope_creep v p c sc m)" "keeps (ops_ok X) (triage_answer v)" "keeps (ops_ok X) (score_inquiry v)"
  "keeps (ops_ok X) (check_brief_quality v)" "keeps (ops_ok X) (sentiment_score v c)"
  unfolding draft_delivery_message_def draft_change_order_def draft_response_def draft_welcome_message_def
    draft_intake_questionnaire_def draft_clarifying_question_def draft_proposal_def classify_message_def
    detect_pricing_question_def detect_scope_creep_def triage_answer_def score_inquiry_def check_brief_quality_def
    sentiment_score_def Let_def
  by (auto intro!: keeps_intros split: option.split prod.split)

lemma ok_project_messages [keeps_intros]: "keeps (ops_ok X) (handle_deliverable_complete v m)" "keeps (ops_ok X) (handle_deploy_complete v m)"
  unfolding handle_deliverable_complete_def handle_deploy_complete_def Let_def
  by (auto intro!: keeps_intros split: option.split)

lemma ok_archive [keeps_intros]: "keeps (ops_ok X) (archive_project v c p)"
  unfolding archive_project_def by (auto intro!: keeps_intros ok_upd simp: ops_core_def split: option.split)

lemma ok_projects [keeps_intros]:
  "keeps (ops_ok X) (create_project v c b dl)" "keeps (ops_ok X) (confirm_client_receipt v p)"
  "keeps (ops_ok X) (update_project_status v p st)" "keeps (ops_ok X) (project_pricing_response v p)"
  unfolding create_project_def confirm_client_receipt_def update_project_status_def project_pricing_response_def change_status_def Let_def
  by (auto intro!: keeps_intros split: option.split)

lemma ok_report [keeps_intros]: "keeps (ops_ok X) (report_risk v st r)"
  unfolding report_risk_def by (auto intro!: keeps_intros)

lemma ok_deadlines [keeps_intros]: "keeps (ops_ok X) (check_project_deadline v st)" "keeps (ops_ok X) open_projects"
  unfolding check_project_deadline_def open_projects_def days_left_def Let_def
  by (auto intro!: keeps_intros split: option.split iso_time.split prod.split)

lemma ok_all_deadlines [keeps_intros]: "keeps (ops_ok X) (check_all_deadlines v)"
  unfolding check_all_deadlines_def by (intro keeps_intros)

lemma ok_scope [keeps_intros]: "keeps (ops_ok X) (handle_high_confidence v d)"
  unfolding handle_high_confidence_def by (auto intro!: keeps_intros ok_upd simp: ops_core_def)

lemma ok_check_message [keeps_intros]: "keeps (ops_ok X) (check_message v c p m)"
  unfolding check_message_def by (auto intro!: keeps_intros split: option.split)

lemma ok_scope_price [keeps_intros]: "keeps (ops_ok X) (handle_scope_pricing_response v p r)"
  unfolding handle_scope_pricing_response_def
  by (auto intro!: keeps_intros ok_upd simp: ops_core_def split: option.split prod.split)

lemma ok_comms [keeps_intros]: "keeps (ops_ok X) (handle_pricing_question v c p)" "keeps (ops_ok X) (send_deep_work_response v c r)"
  unfolding handle_pricing_question_def send_deep_work_response_def by (auto intro!: keeps_intros)

lemma ok_comms_inbound [keeps_intros]: "keeps (ops_ok X) (comms_inbound v c p t ch)"
  unfolding comms_inbound_def by (auto intro!: keeps_intros)

lemma ok_intake [keeps_intros]:
  "keeps (ops_ok X) (route_inquiry v raw t)" "keeps (ops_ok X) (receive_inquiry v raw)" "keeps (ops_ok X) (create_brief v i rp q)"
proof -
  show route: "keeps (ops_ok X) (route_inquiry v raw t)" for t
    unfolding route_inquiry_def Let_def by (auto intro!: keeps_intros)
  show "keeps (ops_ok X) (receive_inquiry v raw)" unfolding receive_inquiry_def Let_def by (auto intro!: keeps_intros route)
  show "keeps (ops_ok X) (create_brief v i rp q)" unfolding create_brief_def Let_def by (auto intro!: keeps_intros split: prod.split)
qed

lemma ok_intake_rest [keeps_intros]:
  "keeps (ops_ok X) (intake_client_response v i t)" "keeps (ops_ok X) (onboard_client v i n d sq)"
  "keeps (ops_ok X) (brief_after_proposal v p c b r)"
  unfolding intake_client_response_def onboard_client_def brief_after_proposal_def Let_def
  by (auto intro!: keeps_intros ok_upd simp: ops_core_def)

lemma ok_intake_price: "p \<in> X \<Longrightarrow> keeps (ops_ok X) (intake_pricing_response v p fl ce nt)"
  unfolding intake_pricing_response_def by (rule ok_pricing) (auto intro!: keeps_intros)

lemma ok_price: "priced_project m \<in> X \<Longrightarrow> keeps (ops_ok X) (ops_pricing_response v m)"
  unfolding ops_pricing_response_def Let_def by (intro keeps_intros ok_intake_price) simp_all

text \<open>A flag is written back to the queue the action is in: what is read from a queue fits it.\<close>

lemma read_action_fits:
  assumes "ops_ok X s" and "read_action i q s = (s', Inr (Some a))"
  shows "s' = s \<and> oa_id a = i \<and> queue_fits q a \<and> map_of (queue_of q s) i = Some (Some (ops_action_to_dict a))"
proof (cases "map_of (queue_of q s) i")
  case None
  then show ?thesis using assms(2) by (simp add: read_action_def)
next
  case (Some f)
  then obtain b where b: "f = Some (ops_action_to_dict b)" "oa_id b = i" "queue_fits q b"
    using queue_ok_find[OF ok_queue_of[OF assms(1)]] by blast
  then show ?thesis using assms(2) Some by (simp add: read_action_def action_in_file_def)
qed

lemma read_action_ok:
  assumes "ops_ok X s"
  shows "(map_of (queue_of q s) i = None \<and> read_action i q s = (s, Inr None))
    \<or> (\<exists>a. read_action i q s = (s, Inr (Some a)) \<and> oa_id a = i \<and> queue_fits q a)"
proof (cases "map_of (queue_of q s) i")
  case (Some f)
  then obtain b where "f = Some (ops_action_to_dict b)" "oa_id b = i" "queue_fits q b"
    using queue_ok_find[OF ok_queue_of[OF assms]] by blast
  then show ?thesis using Some by (simp add: read_action_def action_in_file_def)
qed (simp add: read_action_def)

lemma get_action_ok:
  assumes "ops_ok X s"
  shows "get_action i s = (s, Inr None) \<or> (\<exists>a q. get_action i s = (s, Inr (Some a)) \<and> oa_id a = i \<and> queue_fits q a)"
  using read_action_ok[OF assms, of ReviewQueue i] read_action_ok[OF assms, of HoldQueue i]
  by (elim disjE exE conjE) (auto simp: get_action_def andthen_step)

lemma queue_fits_mode: "queue_fits q a \<Longrightarrow> (if oa_mode a = ''REVIEW'' then ReviewQueue else HoldQueue) = q"
  by (cases q) (simp_all add: queue_fits_def queue_mode_def)

lemma ok_flag [keeps_intros]: "keeps (ops_ok X) (add_urgency_flag i h)"
proof (rule keepsI)
  fix s assume s: "ops_ok X s"
  show "ops_ok X (fst (add_urgency_flag i h s))"
    using get_action_ok[OF s, of i]
  proof (elim disjE exE conjE)
    assume "get_action i s = (s, Inr None)"
    then show ?thesis using s by (simp add: add_urgency_flag_def andthen_step)
  next
    fix a q assume a: "get_action i s = (s, Inr (Some a))" "queue_fits q a"
    let ?b = "a\<lparr>oa_flag := urgency_text h (oa_flag a), oa_hours := of_int h\<rparr>"
    have "queue_fits q ?b" using a(2) by (cases q) (simp_all add: queue_fits_def)
    then have k: "keeps (ops_ok X) (andthen (write_action ?b q) (\<lambda>_. ok True))" by (intro keeps_intros ok_write_action)
    have "(if oa_mode a = ''REVIEW'' then ReviewQueue else HoldQueue) = q" by (rule queue_fits_mode[OF a(2)])
    then show ?thesis using keepsD[OF k s] a(1) by (simp add: add_urgency_flag_def andthen_step)
  qed
qed

lemma ok_listing [keeps_intros]: "keeps (ops_ok X) (queued_actions q)"
  unfolding queued_actions_def by (auto intro!: keeps_intros split: prod.split)

lemma ok_staleness [keeps_intros]: "keeps (ops_ok X) (check_inquiry_staleness v)"
  unfolding check_inquiry_staleness_def get_review_queue_def flag_stale_def by (auto intro!: keeps_intros split: option.split)

lemma ok_health [keeps_intros]: "keeps (ops_ok X) (score_health v c)"
  unfolding score_health_def by (auto intro!: keeps_intros)

lemma ok_passes [keeps_intros]: "keeps (ops_ok X) (deadline_pass v)" "keeps (ops_ok X) (health_pass v)"
  unfolding deadline_pass_def health_pass_def score_all_clients_def by (intro keeps_intros)+

section \<open>Messages\<close>

lemma ok_answer [keeps_intros]: "keeps (ops_ok X) (answer_assistant v m r)"
  unfolding answer_assistant_def Let_def
proof (cases "ov_gateway v \<lparr>fm_type = ''assistant_response'', fm_recipient = ''assistant'', fm_payload =
    [(''original_message_id'', json_get m ''message_id'' JNull), (''response'', JObj r)], fm_id = [], fm_time = 0\<rparr>")
  case (Inr b)
  have "keeps (ops_ok X) (upd (os_outbox_update (\<lambda>l. l @ [x])))" if "fm_type x = ''assistant_response''" for x
    by (rule keeps_upd) (simp add: ok_outbox brief_priced_def that)
  then show "keeps (ops_ok X) (case ov_gateway v \<lparr>fm_type = ''assistant_response'', fm_recipient = ''assistant'', fm_payload =
      [(''original_message_id'', json_get m ''message_id'' JNull), (''response'', JObj r)], fm_id = [], fm_time = 0\<rparr> of
      Inl e \<Rightarrow> lift_exn (Inl e) | Inr b \<Rightarrow> only_if b (upd (os_outbox_update (\<lambda>l. l @
        [\<lparr>fm_type = ''assistant_response'', fm_recipient = ''assistant'', fm_payload =
      [(''original_message_id'', json_get m ''message_id'' JNull), (''response'', JObj r)], fm_id = [], fm_time = 0\<rparr>]))))"
    using Inr by (simp add: keeps_only_if)
qed simp

lemma ok_inbound [keeps_intros]:
  "keeps (ops_ok X) (ops_invoice_ready v m)" "keeps (ops_ok X) (ops_payment_overdue v m)"
  "keeps (ops_ok X) (ops_acknowledged v ty m)" "keeps (ops_ok X) (ops_assistant_query v b m)" "keeps (ops_ok X) (ops_assistant_task v m)"
  "keeps (ops_ok X) (ops_mesh_decision v ty tx rj m)" "keeps (ops_ok X) (ops_fake_alert v m)"
  unfolding ops_invoice_ready_def ops_payment_overdue_def ops_acknowledged_def
    ops_assistant_query_def ops_assistant_task_def ops_mesh_decision_def ops_fake_alert_def get_review_queue_def get_hold_queue_def Let_def
  by (auto intro!: keeps_intros split: option.split)

lemma ok_handler:
  assumes "ops_handler v b ty = Some h" and "ty = ''pricing_response'' \<Longrightarrow> priced_project m \<in> X"
  shows "keeps (ops_ok X) (h m)"
proof (cases "ty = ''pricing_response''")
  case True
  have "keeps (ops_ok X) (ops_pricing_response v m)" by (rule ok_price) (rule assms(2)[OF True])
  then show ?thesis using assms(1) True by (auto simp: ops_handler_def split: if_splits)
next
  case False
  then show ?thesis using assms(1) unfolding ops_handler_def no_method_def by (auto split: if_splits intro!: keeps_intros)
qed

section \<open>Decisions\<close>

lemma andthen_assoc: "andthen (andthen m f) g = andthen m (\<lambda>a. andthen (f a) g)"
proof
  fix s
  obtain t r where "m s = (t, r)" by fastforce
  then show "andthen (andthen m f) g s = andthen m (\<lambda>a. andthen (f a) g) s" by (cases r) (simp_all add: andthen_def)
qed

lemma never_close: "never_raises (close_action v i)" "never_raises (remove_ops_action i q)" "never_raises (unsync_action v i)"
proof -
  show r: "never_raises (remove_ops_action i q)" for i q
    unfolding remove_ops_action_def by (intro never_then never_if) simp_all
  show u: "never_raises (unsync_action v i)" for i
    unfolding unsync_action_def by (intro never_if never_caught)
  show "never_raises (close_action v i)" unfolding close_action_def by (intro never_then r u)
qed

lemma never_logs: "never_raises (log_ops_decision v a)" "never_raises (log_ops v x y z d)" "never_raises (log_comms v x c p ch t ap)"
  by (simp_all add: log_ops_decision_def log_ops_def log_comms_def)

lemma never_send: "never_raises (send_fn v a)"
  unfolding send_fn_def send_auto_response_def by (auto intro!: never_then never_logs)

lemma carry_out_never:
  assumes "never_raises effect" and "never_raises cleanup"
  shows "carry_out v a outcome effect cleanup = andthen effect (\<lambda>_. andthen (log_ops_decision v (a\<lparr>oa_outcome := Some outcome\<rparr>)) (\<lambda>_.
    andthen cleanup (\<lambda>_. ok True)))"
  unfolding carry_out_def by (intro attempt_never never_then assms never_logs) simp_all

lemma ok_close [keeps_intros]: "keeps (ops_ok X) (close_action v i)"
  unfolding close_action_def by (intro keeps_intros)

lemma ok_carry_out [keeps_intros]:
  "keeps (ops_ok X) effect \<Longrightarrow> keeps (ops_ok X) cleanup \<Longrightarrow> keeps (ops_ok X) (carry_out v a outcome effect cleanup)"
  unfolding carry_out_def by (intro keeps_intros)

text \<open>The answer of a message and the decision that follows it.\<close>

definition sent_answer :: "ops_env \<Rightarrow> ops_action \<Rightarrow> ops \<Rightarrow> ops" where
  "sent_answer v a s = fst (send_auto_response v (get_str (oa_context a) ''client_id'' ''unknown'') (oa_content a) s)"

lemma send_fn_message:
  "oa_type a \<in> set message_types \<Longrightarrow> send_fn v a s = (sent_answer v a s, Inr ())"
  by (simp add: send_fn_def sent_answer_def send_auto_response_def log_comms_def log_ops_def)

lemma ok_sent_decided:
  assumes "ops_ok X s" and "oa_type a \<in> set message_types" and "oa_type b = oa_type a" and "oa_context b = oa_context a"
    and prev: "map_option (take 100) (approved_text (ops_decision v b)) = Some (take 100 (oa_content a))"
  shows "ops_ok X (fst (andthen (send_fn v a) (\<lambda>_. log_ops_decision v b) s))"
proof -
  let ?e = "\<lparr>ce_time = ov_now v, ce_direction = ''sent'', ce_client = get_str (oa_context a) ''client_id'' ''unknown'',
    ce_project = None, ce_channel = ''auto_response'', ce_preview = take 100 (oa_content a), ce_approved = None\<rparr>"
  let ?t = "fst (andthen (send_fn v a) (\<lambda>_. log_ops_decision v b) s)"
  have t: "os_review ?t = os_review s" "os_hold ?t = os_hold s" "os_outbox ?t = os_outbox s" "os_confirmed ?t = os_confirmed s"
    "readable (os_comms ?t) = readable (os_comms s) @ [?e]" "readable (os_decisions ?t) = readable (os_decisions s) @ [ops_decision v b]"
    using assms(2) by (simp_all add: andthen_step[OF send_fn_message] sent_answer_def send_auto_response_def log_comms_def log_ops_def
        log_ops_decision_def)
  have "stands_behind (ops_decision v b) ?e"
    using assms(2-4) prev by (simp add: stands_behind_def decided_client_def ops_decision_def image_iff)
  then show ?thesis using assms(1) unfolding ops_ok_def t by auto
qed

lemma ok_decided_message:
  assumes "never_raises cleanup" and "keeps (ops_ok X) cleanup" and "oa_type b = oa_type a" and "oa_context b = oa_context a"
    and prev: "map_option (take 100) (approved_text (ops_decision v (b\<lparr>oa_outcome := Some outcome\<rparr>))) = Some (take 100 (oa_content a))"
  shows "keeps (ops_ok X) (carry_out v b outcome (send_fn v a) cleanup)"
proof (cases "oa_type a \<in> set message_types")
  case False
  then have "keeps (ops_ok X) (send_fn v a)" unfolding send_fn_def by (auto intro!: keeps_intros)
  then show ?thesis by (rule ok_carry_out[OF _ assms(2)])
next
  case True
  let ?log = "log_ops_decision v (b\<lparr>oa_outcome := Some outcome\<rparr>)"
  have "carry_out v b outcome (send_fn v a) cleanup = andthen (andthen (send_fn v a) (\<lambda>_. ?log)) (\<lambda>_. andthen cleanup (\<lambda>_. ok True))"
    by (simp add: carry_out_never[OF never_send assms(1)] andthen_assoc)
  moreover have "keeps (ops_ok X) (andthen (send_fn v a) (\<lambda>_. ?log))"
    by (rule keepsI) (rule ok_sent_decided[OF _ True], simp_all add: assms(3,4) prev)
  ultimately show ?thesis by (auto intro!: keeps_intros assms(2))
qed

lemma approved_decision: "map_option (take 100) (approved_text (ops_decision v (a\<lparr>oa_outcome := Some ''approved''\<rparr>))) = Some (take 100 (oa_content a))"
  by (simp add: approved_text_def ops_decision_def json_opt_def get_str_def)

lemma edited_decision:
  "map_option (take 100) (approved_text (ops_decision v (a\<lparr>oa_original := Some (oa_content a), oa_content := e, oa_outcome := Some ''edited_and_sent''\<rparr>)))
   = Some (take 100 (oa_content a))"
  by (cases "oa_content a") (simp_all add: approved_text_def ops_decision_def json_opt_def get_str_def)

lemma ok_approve [keeps_intros]: "keeps (ops_ok X) effect \<Longrightarrow> keeps (ops_ok X) (ops_approve v i effect)"
  unfolding ops_approve_def by (auto intro!: keeps_intros split: option.split)

lemma ok_block [keeps_intros]: "keeps (ops_ok X) (ops_block v i w)"
  unfolding ops_block_def log_inquiry_declined_def by (auto intro!: keeps_intros split: option.split)

lemma ok_release [keeps_intros]: "keeps (ops_ok X) effect \<Longrightarrow> keeps (ops_ok X) (ops_hold_release v i effect)"
  unfolding ops_hold_release_def by (auto intro!: keeps_intros split: option.split)

lemma ok_execute [keeps_intros]: "keeps (ops_ok X) (execute_fn v a)"
  unfolding execute_fn_def Let_def by (auto intro!: keeps_intros)

lemma found_approve: "get_action i s = (s, Inr (Some a)) \<Longrightarrow> ops_approve v i m s = carry_out v a ''approved'' m (close_action v i) s"
  by (simp add: ops_approve_def andthen_step)

lemma found_edit: "get_action i s = (s, Inr (Some a)) \<Longrightarrow>
    ops_edit v i e m s = carry_out v (a\<lparr>oa_original := Some (oa_content a), oa_content := e\<rparr>) ''edited_and_sent'' m (close_action v i) s"
  by (simp add: ops_edit_def andthen_step)

lemma ok_decide [keeps_intros]: "keeps (ops_ok X) (handle_approval_decision v i d e)"
proof (rule keepsI)
  fix s assume s: "ops_ok X s"
  from get_action_ok[OF s, of i] show "ops_ok X (fst (handle_approval_decision v i d e s))"
  proof (elim disjE exE conjE)
    assume "get_action i s = (s, Inr None)"
    then show ?thesis using s by (simp add: handle_approval_decision_def andthen_step)
  next
    fix a q assume a: "get_action i s = (s, Inr (Some a))"
    have approve: "keeps (ops_ok X) (carry_out v a ''approved'' (send_fn v a) (close_action v i))"
      by (rule ok_decided_message[OF never_close(1) ok_close refl refl approved_decision])
    have edit: "keeps (ops_ok X) (carry_out v (a\<lparr>oa_original := Some (oa_content a), oa_content := x\<rparr>) ''edited_and_sent'' (send_fn v a) (close_action v i))" for x
      by (rule ok_decided_message[OF never_close(1) ok_close]) (simp_all add: edited_decision)
    have block: "keeps (ops_ok X) (ops_block v i w)" for w by (intro keeps_intros)
    have release: "keeps (ops_ok X) (ops_hold_release v i (execute_fn v a))" by (intro keeps_intros)
    show ?thesis
      using s a keepsD[OF approve s] keepsD[OF edit s] keepsD[OF block s] keepsD[OF release s]
      by (simp add: handle_approval_decision_def andthen_step found_approve found_edit)
  qed
qed

section \<open>Cards\<close>

lemma ok_target [keeps_intros]: "keeps (ops_ok X) (target_card i)"
  unfolding target_card_def by (auto intro!: keeps_intros split: option.split prod.split)

lemma ok_call [keeps_intros]: "(\<And>m. h = Some m \<Longrightarrow> keeps (ops_ok X) m) \<Longrightarrow> keeps (ops_ok X) (call_handler h)"
  unfolding call_handler_def by (auto intro!: keeps_intros split: option.split)

lemma ok_callbacks:
  assumes "ops_handlers v r = Some h"
  shows "keeps (ops_ok X) (on_approve h i d)" "keeps (ops_ok X) (on_veto h i d)"
  using assms by (auto simp: ops_handlers_def register_warroom_action_handler_def split: if_splits intro!: keeps_intros)

lemma ok_cards [keeps_intros]:
  "keeps (ops_ok X) (approve_hold_message (ops_handlers v) i)" "keeps (ops_ok X) (veto_hold_message (ops_handlers v) i)"
  unfolding approve_hold_message_def veto_hold_message_def
  by (auto intro!: keeps_intros ok_upd ok_callbacks simp: ops_core_def split: prod.split)

section \<open>Every operation\<close>

lemma ok_run_op:
  assumes "priced [oper] \<subseteq> X"
  shows "keeps (ops_ok X) (run_ops_op v oper)"
proof (cases "\<exists>d. oper = Message d")
  case True
  then obtain d where d: "oper = Message d" by blast
  have "keeps (ops_ok X) (h d)" if "ops_handler v True (get_str d ''message_type'' []) = Some h" for h
    by (rule ok_handler[OF that]) (use assms in \<open>auto simp: d priced_def\<close>)
  then show ?thesis unfolding d run_ops_op_def by (auto intro!: keeps_intros split: option.split)
next
  case False
  then show ?thesis unfolding run_ops_op_def forget_memory_def
    by (cases oper) (auto intro!: keeps_intros ok_upd simp: ops_core_def)
qed

lemma new_ops_ok: "ops_ok X (new_ops t)"
  by (simp add: ops_ok_def new_ops_def queue_ok_def readable_def)

lemma ops_ok_more: "ops_ok X s \<Longrightarrow> X \<subseteq> Y \<Longrightarrow> ops_ok Y s"
  unfolding ops_ok_def by blast

lemma ops_invariant: "ops_reached h s \<Longrightarrow> ops_ok (priced h) s"
proof (induction rule: ops_reached.induct)
  case (step h s oper v)
  show ?case by (rule keepsD[OF ok_run_op ops_ok_more]) (rule priced_snoc step)+
qed (rule new_ops_ok)

lemma reachable_ok: "ops_reachable s \<Longrightarrow> \<exists>X. ops_ok X s"
  using ops_invariant unfolding ops_reachable_def by blast

end
