(* ===== verification/Ops_Props.thy ===== *)
theory Ops_Props
  imports Ops_Runs Contracts
begin

text \<open>
  What the ops claw promises its operator and its clients, and where it does not keep it: what a decision sends,
  what a brief needs, what a released hold changes, what one deadline does to all others, and which of its
  messages the shipped contract lets through.
\<close>

section \<open>What a decision leaves\<close>

definition ops_rest :: "ops \<Rightarrow> json dict option list \<times> ops_entry option list \<times> comms_entry option list \<times> fin_msg list
    \<times> string list \<times> ((string \<times> string) \<times> folder) list" where
  "ops_rest s = (os_decisions s, os_log s, os_comms s, os_outbox s, os_clients s, os_projects s)"

lemma rest_on_queue [simp]: "ops_rest (on_queue q f s) = ops_rest s" "ops_rest (wr_cards_update g s) = ops_rest s"
  "ops_rest (os_review_update f s) = ops_rest s" "ops_rest (os_hold_update f s) = ops_rest s"
  by (cases q) (simp_all add: ops_rest_def)

lemma rest_close: "keeps (\<lambda>u. ops_rest u = x) (close_action v i)" "keeps (\<lambda>u. ops_rest u = x) (remove_ops_action i q)"
  "keeps (\<lambda>u. ops_rest u = x) (unsync_action v i)"
  unfolding close_action_def remove_ops_action_def unsync_action_def remove_warroom_action_def
  by (auto intro!: keeps_intros keeps_upd split: option.split)

lemma decided_at:
  assumes "effect s = (t, Inr ())" and "never_raises cleanup" and "\<And>x. keeps (\<lambda>u. ops_rest u = x) cleanup"
  shows "ops_rest (fst (carry_out v a outcome effect cleanup s)) = ops_rest (fst (log_ops_decision v (a\<lparr>oa_outcome := Some outcome\<rparr>) t))"
proof -
  let ?u = "fst (log_ops_decision v (a\<lparr>oa_outcome := Some outcome\<rparr>) t)"
  obtain w where w: "cleanup ?u = (w, Inr ())" using assms(2) by (metis (full_types) never_raisesE old.unit.exhaust)
  have "ops_rest w = ops_rest ?u" using keepsD[OF assms(3), of ?u "ops_rest ?u"] w by simp
  moreover have "fst (carry_out v a outcome effect cleanup s) = w"
    using w by (simp add: carry_out_def attempt_def andthen_step assms(1) log_ops_decision_def)
  ultimately show ?thesis by simp
qed

lemma decided_rest:
  assumes "never_raises effect" and "never_raises cleanup" and "\<And>x. keeps (\<lambda>u. ops_rest u = x) cleanup"
  shows "ops_rest (fst (carry_out v a outcome effect cleanup s))
    = ops_rest (fst (log_ops_decision v (a\<lparr>oa_outcome := Some outcome\<rparr>) (fst (effect s))))"
proof -
  obtain t where "effect s = (t, Inr ())" using assms(1) by (metis (full_types) never_raisesE old.unit.exhaust)
  then show ?thesis using decided_at[OF _ assms(2,3)] by simp
qed

lemmas closed_rest = decided_rest[OF _ never_close(1) rest_close(1)]

lemma fst_only: "fst (andthen m (\<lambda>_. ok ()) s) = fst (m s)"
  by (simp add: andthen_def split: prod.split sum.split)

section \<open>Answers to clients\<close>


text \<open>The world of the witnesses: no service answers, every message is taken, dates are as given.\<close>

definition quiet_world :: "(string \<Rightarrow> iso_time option) \<Rightarrow> ops_env" where
  "quiet_world dates = \<lparr>ov_now = 0, ov_hex = (\<lambda>n. replicate n CHR ''a''), ov_stamp = ''t'', ov_squad = ''sq'', ov_bridge = True,
     ov_gateway = (\<lambda>_. Inr True), ov_infer = (\<lambda>_. Inl ''offline''), ov_loads = (\<lambda>_. None), ov_float = (\<lambda>_. None), ov_iso = dates,
     ov_str = (\<lambda>_. []), ov_line = (\<lambda>_. []), ov_shell = (\<lambda>_. TimedOut)\<rparr>"

definition written_to :: ops where
  "written_to = fst (run_ops_op (quiet_world (\<lambda>_. None)) (ClientWrites ''acme'' None ''hello'' ''email'') (new_ops Map.empty))"

lemma written_reachable: "ops_reachable written_to"
  unfolding written_to_def by (intro ops_reachable_step ops_reachable_start)

definition draft_reply :: ops_action where
  "draft_reply = ops_new_action (quiet_world (\<lambda>_. None)) [] ''REVIEW'' ''client_response'' ''acme''
     ''Thank you for your message. I'll review this and get back to you shortly.''
     [(''client_id'', JStr ''acme''), (''project_id'', JNull), (''message_type'', JStr ''question''), (''original_message'', JStr ''hello'')]"

lemma written_queue: "os_review written_to = [([], Some (ops_action_to_dict draft_reply))]"
  by code_simp

lemma written_action: "get_action [] written_to = (written_to, Inr (Some draft_reply))"
  by (simp add: get_action_def read_action_def andthen_def written_queue action_in_file_def)

text \<open>
  C16. An edit never reaches the client. When the operator edits a waiting message, what is sent is the text the claw had
  drafted, while the log of decisions says that the edited text was sent.
\<close>

theorem edited_text_is_never_sent:
  assumes "get_action i s = (s, Inr (Some a))" and "oa_type a \<in> set message_types" and "e \<noteq> []"
  shows "readable (os_comms (fst (handle_approval_decision v i ''edited'' (Some e) s)))
       = readable (os_comms s) @ [\<lparr>ce_time = ov_now v, ce_direction = ''sent'', ce_client = get_str (oa_context a) ''client_id'' ''unknown'',
           ce_project = None, ce_channel = ''auto_response'', ce_preview = take 100 (oa_content a), ce_approved = None\<rparr>]
    \<and> (\<exists>d. os_decisions (fst (handle_approval_decision v i ''edited'' (Some e) s)) = os_decisions s @ [Some d]
         \<and> map_of d ''outcome'' = Some (JStr ''edited_and_sent'') \<and> map_of d ''content_preview'' = Some (JStr (take 200 e)))"
proof -
  let ?b = "a\<lparr>oa_original := Some (oa_content a), oa_content := e\<rparr>"
  have "handle_approval_decision v i ''edited'' (Some e) s = ops_edit v i e (send_fn v a) s"
    using assms(1,3) by (simp add: handle_approval_decision_def andthen_step)
  then have "ops_rest (fst (handle_approval_decision v i ''edited'' (Some e) s))
      = ops_rest (fst (log_ops_decision v (?b\<lparr>oa_outcome := Some ''edited_and_sent''\<rparr>) (sent_answer v a s)))"
    using assms(2) by (simp add: found_edit[OF assms(1)] closed_rest never_send send_fn_message)
  then show ?thesis
    by (auto simp: ops_rest_def log_ops_decision_def sent_answer_def send_auto_response_def log_comms_def log_ops_def
        ops_decision_def json_opt_def)
qed

theorem edited_text_is_never_sent_witness:
  "readable (os_comms (fst (handle_approval_decision (quiet_world (\<lambda>_. None)) [] ''edited'' (Some ''no'') written_to)))
     = readable (os_comms written_to) @ [\<lparr>ce_time = 0, ce_direction = ''sent'', ce_client = ''acme'', ce_project = None, ce_channel = ''auto_response'',
         ce_preview = take 100 ''Thank you for your message. I'll review this and get back to you shortly.'', ce_approved = None\<rparr>]"
  using edited_text_is_never_sent[OF written_action, of "''no''" "quiet_world (\<lambda>_. None)"]
  by (simp add: draft_reply_def ops_new_action_def message_types_def get_str_def quiet_world_def)


section \<open>The War Room\<close>

lemma never_raises_unit: "never_raises m \<Longrightarrow> \<exists>t. m s = (t, Inr ())"
  by (metis (full_types) never_raisesE old.unit.exhaust)

lemma call_quiet:
  assumes "never_raises m"
  shows "call_handler (Some (andthen m (\<lambda>_. ok ()))) s = (fst (m s), Inr ())"
proof -
  obtain t a where "m s = (t, Inr a)" using assms by (rule never_raisesE)
  then show ?thesis by (simp add: call_handler_def attempt_def andthen_step)
qed

text \<open>What decides an action with an effect that does nothing: the decision and nothing else.\<close>

lemma approve_without_effect:
  assumes "get_action i s = (s, Inr (Some a))"
  shows "ops_rest (fst (ops_approve v i (ok ()) s)) = ops_rest (os_decisions_update (\<lambda>l. l @ [Some (ops_decision v (a\<lparr>oa_outcome := Some ''approved''\<rparr>))]) s)"
  by (simp add: found_approve[OF assms] closed_rest log_ops_decision_def)

lemma approve_returns:
  assumes "get_action i s = (s, Inr (Some a))"
  shows "\<exists>t. ops_approve v i (ok ()) s = (t, Inr True)"
proof -
  have "never_raises (andthen (ok ()) (\<lambda>_. andthen (log_ops_decision v (a\<lparr>oa_outcome := Some ''approved''\<rparr>)) (\<lambda>_. close_action v i)))"
    by (intro never_then never_logs never_close) simp
  then obtain t where "andthen (log_ops_decision v (a\<lparr>oa_outcome := Some ''approved''\<rparr>)) (\<lambda>_. close_action v i) s = (t, Inr ())"
    using never_raises_unit by fastforce
  then have "andthen (andthen (log_ops_decision v (a\<lparr>oa_outcome := Some ''approved''\<rparr>)) (\<lambda>_. close_action v i)) (\<lambda>_. ok True) s = (t, Inr True)"
    by (simp add: andthen_step)
  then show ?thesis by (simp add: found_approve[OF assms] carry_out_never[OF _ never_close(1)] andthen_assoc)
qed

text \<open>
  Approving a card in the War Room does nothing but close it. The callback approves with an effect that does nothing, so for
  an action that waits, of whatever kind, only the decision \<open>approved\<close> is written: nothing is sent to the client or to another claw, no project
  changes, and the log of operations says nothing.
\<close>

theorem card_approval_sends_nothing:
  assumes "safe_action_id raw = Inr i" and "find_card i (wr_cards s) = Some (n, Some d)" and "card_recipient d = ''ops''"
    and "map_of (os_review s) i = Some (Some (ops_action_to_dict a)) \<or>
         map_of (os_review s) i = None \<and> map_of (os_hold s) i = Some (Some (ops_action_to_dict a))"
  shows "(let t = fst (approve_hold_message (ops_handlers v) raw s) in
      os_comms t = os_comms s \<and> os_outbox t = os_outbox s \<and> os_projects t = os_projects s \<and> os_log t = os_log s
      \<and> os_decisions t = os_decisions s @ [Some (ops_decision v (a\<lparr>oa_outcome := Some ''approved''\<rparr>))])"
proof -
  let ?s = "s\<lparr>wr_cards := filter (\<lambda>(m, _). m \<noteq> n) (wr_cards s),
      wr_inbox := (wr_inbox s)(''ops'' := put_file n (Some d) (wr_inbox s ''ops''))\<rparr>"
  have g: "get_action i ?s = (?s, Inr (Some a))"
    using assms(4) by (auto simp: get_action_def read_action_def action_in_file_def andthen_def)
  obtain t where t: "ops_approve v i (ok ()) ?s = (t, Inr True)" using approve_returns[OF g] by blast
  obtain z where h: "ops_handlers v ''ops'' = Some z" "on_approve z i d = andthen (ops_approve v i (ok ())) (\<lambda>_. ok ())"
    by (simp add: ops_handlers_def register_warroom_action_handler_def)
  have call: "call_handler (Some (andthen (ops_approve v i (ok ())) (\<lambda>_. ok ()))) ?s = (t, Inr ())"
    using t by (simp add: call_handler_def attempt_def andthen_step)
  have "fst (approve_hold_message (ops_handlers v) raw s) = wr_cards_update (filter (\<lambda>(m, _). m \<noteq> i)) t"
    using assms(1-3) call by (simp add: h approve_hold_message_def target_card_def andthen_step)
  moreover have "ops_rest t = ops_rest (os_decisions_update (\<lambda>l. l @ [Some (ops_decision v (a\<lparr>oa_outcome := Some ''approved''\<rparr>))]) ?s)"
    using approve_without_effect[OF g, of v] t by simp
  ultimately show ?thesis by (simp add: ops_rest_def Let_def)
qed

theorem card_approval_sends_nothing_witness:
  "\<exists>s. os_comms (fst (approve_hold_message (ops_handlers (quiet_world (\<lambda>_. None))) ''aa'' s)) = []
     \<and> length (os_decisions (fst (approve_hold_message (ops_handlers (quiet_world (\<lambda>_. None))) ''aa'' s))) = 1"
proof
  let ?v = "quiet_world (\<lambda>_. None)"
  let ?s = "(new_ops Map.empty)\<lparr>os_review := [(''aa'', Some (ops_action_to_dict (draft_reply\<lparr>oa_id := ''aa''\<rparr>)))],
    wr_cards := [(''aa'', Some (card_data ''aa'' ''ops'' ''REVIEW'' ''client_response'' ''hi'' ''ops'' 0 []))]\<rparr>"
  have i: "safe_action_id ''aa'' = Inr ''aa''" by (rule safe_action_id_plain) (simp_all add: space_char_def)
  from card_approval_sends_nothing[OF i, of ?s "''aa''" "card_data ''aa'' ''ops'' ''REVIEW'' ''client_response'' ''hi'' ''ops'' 0 []"
      "draft_reply\<lparr>oa_id := ''aa''\<rparr>" ?v]
  show "os_comms (fst (approve_hold_message (ops_handlers ?v) ''aa'' ?s)) = []
     \<and> length (os_decisions (fst (approve_hold_message (ops_handlers ?v) ''aa'' ?s))) = 1"
    by (simp add: find_card_def card_matches_def card_recipient_def card_data_def json_get_def VALID_RECIPIENTS_def VALID_ROLES_def Let_def new_ops_def)
qed

section \<open>Holds\<close>

lemma no_client_for_empty:
  assumes "\<And>c. map_of (os_projects s) (c, []) = None"
  shows "known_client None [] s = None"
proof -
  have "(c, []) \<notin> set (get_active_projects s)" for c
    using assms[of c] by (force simp: get_active_projects_def client_projects_def map_of_eq_None_iff)
  then have "find (\<lambda>(_, q). q = []) (get_active_projects s) = None" by (auto simp: find_None_iff)
  then show ?thesis by (simp add: known_client_def find_client_def)
qed

text \<open>
  Releasing a hold never changes a project. The context of a hold never has the identifier of its project, in no reachable
  state, so what the release executes (a change of scope, an escalated deadline) looks for a project with an empty name: unless there
  is one, all projects stay as they are.
\<close>

theorem hold_release_changes_no_project:
  assumes "ops_reachable s" and "\<And>c. map_of (os_projects s) (c, []) = None"
  shows "os_projects (fst (handle_approval_decision v i ''released'' e s)) = os_projects s"
proof -
  obtain X where ok: "ops_ok X s" using reachable_ok[OF assms(1)] by blast
  have rest: "os_projects (fst (carry_out v a ''hold_released'' m (andthen (remove_ops_action i HoldQueue) (\<lambda>_. unsync_action v i)) s)) = os_projects t"
    if "m s = (t, Inr ())" for m a t
  proof -
    have "keeps (\<lambda>u. ops_rest u = x) (andthen (remove_ops_action i HoldQueue) (\<lambda>_. unsync_action v i))" for x
      by (intro keeps_intros rest_close)
    then have "ops_rest (fst (carry_out v a ''hold_released'' m (andthen (remove_ops_action i HoldQueue) (\<lambda>_. unsync_action v i)) s))
        = ops_rest (fst (log_ops_decision v (a\<lparr>oa_outcome := Some ''hold_released''\<rparr>) t))"
      by (intro decided_at that never_then never_close)
    then show ?thesis by (simp add: ops_rest_def log_ops_decision_def)
  qed
  have empty: "execute_fn v a s = (fst (execute_fn v a s), Inr ()) \<and> os_projects (fst (execute_fn v a s)) = os_projects s"
    if "queue_fits q a" for a q
  proof (cases "oa_type a \<in> {''scope_change_order'', ''deadline_critical''}")
    case True
    then have "map_of (oa_context a) ''project_id'' = None" using that by (cases q) (auto simp: queue_fits_def)
    then have "get_str (oa_context a) ''project_id'' [] = []" by (simp add: get_str_def)
    then show ?thesis using True no_client_for_empty[OF assms(2)]
      by (auto simp: execute_fn_def Let_def update_project_status_def change_status_def log_ops_def andthen_def)
  next
    case False
    then show ?thesis by (simp add: execute_fn_def Let_def)
  qed
  from get_action_ok[OF ok, of i] show ?thesis
  proof (elim disjE exE conjE)
    assume "get_action i s = (s, Inr None)"
    then show ?thesis by (simp add: handle_approval_decision_def andthen_step)
  next
    fix a q assume a: "get_action i s = (s, Inr (Some a))" "queue_fits q a"
    have d: "handle_approval_decision v i ''released'' e s = ops_hold_release v i (execute_fn v a) s"
      using a(1) by (simp add: handle_approval_decision_def andthen_step)
    from read_action_ok[OF ok, of HoldQueue i] show ?thesis
    proof (elim disjE exE conjE)
      assume "read_action i HoldQueue s = (s, Inr None)"
      then show ?thesis by (simp add: d ops_hold_release_def andthen_step)
    next
      fix b assume b: "read_action i HoldQueue s = (s, Inr (Some b))"
      have e: "execute_fn v a s = (fst (execute_fn v a s), Inr ())" "os_projects (fst (execute_fn v a s)) = os_projects s"
        using empty[OF a(2)] by blast+
      show ?thesis using rest[of "execute_fn v a" "fst (execute_fn v a s)" b, OF e(1)] e(2) b by (simp add: d ops_hold_release_def andthen_step)
    qed
  qed
qed

definition hold_world :: ops_env where
  "hold_world = quiet_world (\<lambda>_. Some (Aware 0))"

text \<open>A claw with one project, whose deadline the daily check has found to be near.\<close>

definition near_deadline :: ops where
  "near_deadline = fst (run_ops_op hold_world DailyPass (fst (run_ops_op hold_world (NewProject ''acme'' [] ''now'') (new_ops Map.empty))))"

theorem hold_release_changes_no_project_witness:
  "os_projects (fst (handle_approval_decision hold_world ''a'' ''released'' None near_deadline)) = os_projects near_deadline
   \<and> map oa_type (projr (snd (get_hold_queue near_deadline))) = [''deadline_critical'']"
proof
  have r: "ops_reachable near_deadline" unfolding near_deadline_def by (intro ops_reachable_step ops_reachable_start)
  have "map fst (os_projects near_deadline) = [(''acme'', ''project-'')]" by code_simp
  then have "map_of (os_projects near_deadline) (c, []) = None" for c
    by (cases "os_projects near_deadline") (auto simp: map_of_eq_None_iff)
  then show "os_projects (fst (handle_approval_decision hold_world ''a'' ''released'' None near_deadline)) = os_projects near_deadline"
    by (intro hold_release_changes_no_project[OF r])
  show "map oa_type (projr (snd (get_hold_queue near_deadline))) = [''deadline_critical'']" by code_simp
qed

section \<open>Briefs and prices\<close>


definition some_brief :: client_brief where
  "some_brief = \<lparr>cb_id = ''b'', cb_inquiry = ''i'', cb_client = ''acme'', cb_project = ''p1'', cb_text = ''a site'', cb_deadline = None,
     cb_scope = ''a site'', cb_deliverables = [], cb_clarity = 5, cb_gaps = [], cb_time = None\<rparr>"

text \<open>A price comes in, the claw is started again, and then the brief goes out.\<close>

definition some_price :: "json dict" where
  "some_price = [(''message_type'', JStr ''pricing_response''), (''project_id'', JStr ''p1'')]"

definition briefed :: ops where
  "briefed = fst (run_ops_op hold_world (BriefOut ''p1'' ''acme'' some_brief ''content'')
     (fst (run_ops_op hold_world Restart (fst (run_ops_op hold_world (Message some_price) (new_ops (\<lambda>_. Some ''template'')))))))"


section \<open>The daily check\<close>

lemma collect_unchanged:
  assumes "\<And>x. b x (g s) = (g s, snd (b x s))" and "\<And>x. fst (b x s) = s"
  shows "collect xs b (g s) = (g s, snd (collect xs b s)) \<and> fst (collect xs b s) = s"
proof (induction xs)
  case (Cons x xs)
  obtain r where r: "b x s = (s, r)" using assms(2)[of x] by (metis prod.collapse)
  obtain r' where r': "collect xs b s = (s, r')" using Cons by (metis prod.collapse)
  show ?case using Cons assms(1)[of x] by (cases r; cases r') (simp_all add: r r' andthen_def)
qed simp

lemma load_status_log: "load_status c p (os_log_update f s) = (os_log_update f s, snd (load_status c p s))" "fst (load_status c p s) = s"
  by (simp_all add: load_status_def project_folder_def andthen_def from_read_def split: option.split list.split sum.split)

definition open_part :: "string \<times> string \<Rightarrow> (ops, project_status list) eff" where
  "open_part = (\<lambda>(c, p). andthen (load_status c p) (\<lambda>x. ok (case x of None \<Rightarrow> [] | Some st \<Rightarrow> if pj_status st = ''completed'' then [] else [st])))"

lemma open_part_log: "open_part x (os_log_update f s) = (os_log_update f s, snd (open_part x s))" "fst (open_part x s) = s"
proof -
  obtain c p where x: "x = (c, p)" by (cases x)
  obtain r where r: "load_status c p s = (s, r)" using load_status_log(2)[of c p s] by (cases "load_status c p s") simp
  then have "load_status c p (os_log_update f s) = (os_log_update f s, r)" by (simp add: load_status_log(1))
  then show "open_part x (os_log_update f s) = (os_log_update f s, snd (open_part x s))" "fst (open_part x s) = s"
    using r by (cases r; simp add: open_part_def x andthen_def)+
qed

lemma open_projects_parts: "open_projects s = collect (get_active_projects s) open_part s"
  by (simp add: open_projects_def open_part_def andthen_def look_def)

lemma open_projects_log:
  assumes "open_projects s = (s, Inr ps)"
  shows "open_projects (os_log_update f s) = (os_log_update f s, Inr ps)"
proof -
  have g: "get_active_projects (os_log_update f s) = get_active_projects s"
    by (simp add: get_active_projects_def get_active_clients_def client_projects_def)
  show ?thesis
    using collect_unchanged[of open_part "os_log_update f" s "get_active_projects s", OF open_part_log] assms
    by (simp add: open_projects_parts g)
qed

lemma open_projects_same: "fst (open_projects s) = s"
  using collect_unchanged[of open_part id s] open_part_log(2) by (simp add: open_projects_parts prod_eq_iff)

text \<open>A project the check passes over.\<close>

definition no_risk :: "ops_env \<Rightarrow> project_status \<Rightarrow> bool" where
  "no_risk v st \<longleftrightarrow> pj_status st \<in> {''completed'', ''delivered''} \<or> pj_deadline st = []
     \<or> (case ov_iso v (py_replace ''Z'' ''+00:00'' (pj_deadline st)) of None \<Rightarrow> True
        | Some (Naive _) \<Rightarrow> False | Some (Aware t) \<Rightarrow> ELEVATED_RISK_DAYS < (t - ov_now v) div DAY)"

definition naive_deadline :: "ops_env \<Rightarrow> project_status \<Rightarrow> bool" where
  "naive_deadline v st \<longleftrightarrow> pj_status st \<notin> {''completed'', ''delivered''} \<and> pj_deadline st \<noteq> []
     \<and> (\<exists>t. ov_iso v (py_replace ''Z'' ''+00:00'' (pj_deadline st)) = Some (Naive t))"

lemma no_risk_check: "no_risk v st \<Longrightarrow> check_project_deadline v st s = (s, Inr None)"
  by (auto simp: no_risk_def check_project_deadline_def days_left_def CRITICAL_RISK_DAYS_def ELEVATED_RISK_DAYS_def Let_def
      split: option.splits iso_time.splits)

definition naive_error :: py_exn where
  "naive_error = PyExn ''TypeError'' ''can't subtract offset-naive and offset-aware datetimes''"

lemma naive_check: "naive_deadline v st \<Longrightarrow> check_project_deadline v st s = (s, Inl naive_error)"
  by (auto simp: naive_error_def naive_deadline_def check_project_deadline_def days_left_def)

definition failed_check :: "ops_env \<Rightarrow> ops_entry" where
  "failed_check v = \<lparr>oe_time = ov_now v, oe_action = ''daily_check_failed'', oe_entity = ''ops_scheduler'', oe_outcome = ''failed'',
     oe_details = [(''error'', JStr ''can't subtract offset-naive and offset-aware datetimes'')]\<rparr>"

definition risk_part :: "ops_env \<Rightarrow> project_status \<Rightarrow> (ops, deadline_risk list) eff" where
  "risk_part v st = andthen (check_project_deadline v st) (\<lambda>r. ok (case r of None \<Rightarrow> [] | Some x \<Rightarrow> [x]))"

lemma risk_part_no_risk: "no_risk v st \<Longrightarrow> risk_part v st s = (s, Inr [])"
  using no_risk_check[of v st s] by (simp add: risk_part_def andthen_def)

lemma risk_part_naive: "naive_deadline v st \<Longrightarrow> risk_part v st s = (s, Inl naive_error)"
  using naive_check[of v st s] by (simp add: risk_part_def andthen_def)

lemma naive_pass:
  assumes "open_projects s = (s, Inr (pre @ st # post))" and "\<And>x. x \<in> set pre \<Longrightarrow> no_risk v x" and "naive_deadline v st"
  shows "deadline_pass v s = (os_log_update (\<lambda>l. l @ [Some (failed_check v)]) s, Inr ())"
proof -
  have "collect (pre @ st # post) (risk_part v) s = (s, Inl naive_error)" using assms(2)
  proof (induction pre)
    case Nil
    then show ?case using risk_part_naive[OF assms(3), of s] by (simp add: andthen_def)
  next
    case (Cons x pre)
    have "risk_part v x s = (s, Inr [])" by (rule risk_part_no_risk) (simp add: Cons.prems)
    moreover have "collect (pre @ st # post) (risk_part v) s = (s, Inl naive_error)" by (rule Cons.IH) (simp add: Cons.prems)
    ultimately show ?case by (simp add: andthen_def)
  qed
  moreover have "check_all_deadlines v = andthen open_projects (\<lambda>ps. collect ps (risk_part v))"
    by (simp add: check_all_deadlines_def risk_part_def[abs_def])
  ultimately have "check_all_deadlines v s = (s, Inl naive_error)"
    using assms(1) by (simp add: andthen_def)
  then show ?thesis by (simp add: deadline_pass_def attempt_def andthen_raise log_ops_def failed_check_def naive_error_def)
qed

text \<open>
  C18. One deadline without a time zone stops the daily check, for good. When the check comes to such a project, the projects
  after it are not looked at and no waiting inquiry is flagged, however near their deadlines; only a failure is logged,
  and as nothing else changes the same happens on every following day.
\<close>

theorem naive_deadline_stops_daily_check:
  assumes "open_projects s = (s, Inr (pre @ st # post))"
    and "\<And>v x. v \<in> set vs \<Longrightarrow> x \<in> set pre \<Longrightarrow> no_risk v x" and "\<And>v. v \<in> set vs \<Longrightarrow> naive_deadline v st"
  shows "fold (\<lambda>v t. fst (deadline_pass v t)) vs s = os_log_update (\<lambda>l. l @ map (\<lambda>v. Some (failed_check v)) vs) s"
  using assms
proof (induction vs arbitrary: s)
  case (Cons v vs)
  let ?s = "os_log_update (\<lambda>l. l @ [Some (failed_check v)]) s"
  have d: "deadline_pass v s = (?s, Inr ())" by (rule naive_pass[OF Cons.prems(1)]) (simp_all add: Cons.prems)
  have "fold (\<lambda>v t. fst (deadline_pass v t)) vs ?s = os_log_update (\<lambda>l. l @ map (\<lambda>v. Some (failed_check v)) vs) ?s"
    by (rule Cons.IH[OF open_projects_log[OF Cons.prems(1)]]) (simp_all add: Cons.prems)
  then show ?case by (simp add: d)
qed simp

definition naive_world :: ops_env where
  "naive_world = quiet_world (\<lambda>t. if t = ''tomorrow'' then Some (Naive 0) else Some (Aware 0))"

definition two_projects :: ops where
  "two_projects = fst (run_ops_op naive_world (NewProject ''acme'' [] ''now'')
     (fst (run_ops_op naive_world (NewProject ''acme'' [] ''tomorrow'') (new_ops Map.empty))))"

theorem naive_deadline_stops_daily_check_witness:
  "os_hold (fst (deadline_pass naive_world two_projects)) = []
   \<and> map pj_deadline (projr (snd (open_projects two_projects))) = [''tomorrow'', ''now'']"
proof -
  have o: "map pj_deadline (projr (snd (open_projects two_projects))) = [''tomorrow'', ''now'']" by code_simp
  have s: "map pj_status (projr (snd (open_projects two_projects))) = [''pricing_pending'', ''pricing_pending'']" by code_simp
  have r: "isl (snd (open_projects two_projects)) = False" by code_simp
  obtain x where x: "open_projects two_projects = (two_projects, x)"
    using open_projects_same[of two_projects] by (cases "open_projects two_projects") simp
  then obtain ps where ps: "x = Inr ps" using r by (cases x) simp_all
  obtain st sts where st: "ps = [] @ st # sts" "pj_deadline st = ''tomorrow''" "pj_status st = ''pricing_pending''"
    using o s unfolding x ps by (auto simp: map_eq_Cons_conv)
  have p: "open_projects two_projects = (two_projects, Inr ([] @ st # sts))" using x ps st by simp
  have "ov_iso naive_world (py_replace ''Z'' ''+00:00'' ''tomorrow'') = Some (Naive 0)" by code_simp
  then have n: "naive_deadline naive_world st" using st by (simp add: naive_deadline_def)
  have f: "fold (\<lambda>v t. fst (deadline_pass v t)) [naive_world] two_projects
      = os_log_update (\<lambda>l. l @ map (\<lambda>v. Some (failed_check v)) [naive_world]) two_projects"
    by (rule naive_deadline_stops_daily_check[OF p(1)]) (simp_all add: n)
  have h: "os_hold two_projects = []" by code_simp
  show ?thesis using f h o by simp
qed

section \<open>What the contract lets through\<close>

text \<open>A message as the gateway sends it, and a gateway that takes what the shipped contract validates.\<close>

definition as_ops_message :: "string \<Rightarrow> string \<Rightarrow> fin_msg \<Rightarrow> claw_message" where
  "as_ops_message squad stamp m =
     \<lparr>sender_role = ''ops'', recipient_role = fm_recipient m, message_type = fm_type m, payload = fm_payload m,
      squad_id = squad, message_id = fm_id m, timestamp = stamp\<rparr>"

definition ops_contract_gateway :: "ops_env \<Rightarrow> bool" where
  "ops_contract_gateway v \<longleftrightarrow> (\<exists>squad stamp. \<forall>m. (ov_gateway v m = Inr True) = valid (validate shipped_validator (as_ops_message squad stamp m)))"

lemma ops_send_effect:
  "os_outbox (fst (ops_send v t r b s)) = os_outbox s @ (let m = \<lparr>fm_type = t, fm_recipient = r, fm_payload = b,
      fm_id = take 12 (ov_hex v (os_fresh s)), fm_time = ov_now v\<rparr> in if ov_gateway v m = Inr True then [m] else [])"
  "snd (ops_send v t r b s) = Inr ()"
  by (simp_all add: ops_send_def Let_def log_ops_def split: sum.split bool.split)

lemma ops_send_then_log:
  "os_outbox (fst (andthen (ops_send v t r b) (\<lambda>_. log_ops v a i x d) s)) = os_outbox (fst (ops_send v t r b s))"
  "\<exists>l. os_log (fst (andthen (ops_send v t r b) (\<lambda>_. log_ops v a i x d) s)) = l @ [Some \<lparr>oe_time = ov_now v, oe_action = a,
     oe_entity = i, oe_outcome = x, oe_details = d\<rparr>]"
  using ops_send_effect(2)[of v t r b s] by (simp_all add: andthen_sure log_ops_def)

lemma ops_routes:
  "''project_brief'' \<notin> set (get_allowed_types shipped_validator ''ops'' ''build'')"
  "''client_health_signal'' \<notin> set (get_allowed_types shipped_validator ''ops'' ''analytics'')"
  "''pricing_query'' \<in> set (get_allowed_types shipped_validator ''ops'' ''finance'')"
  "''project_complete'' \<in> set (get_allowed_types shipped_validator ''ops'' ''finance'')"
  "''feature_brief'' \<in> set (get_allowed_types shipped_validator ''ops'' ''build'')"
  "''client_onboarded'' \<in> set (get_allowed_types shipped_validator ''ops'' ''analytics'')"
  by code_simp+

lemmas ops_contract_eval = as_ops_message_def validate_def validate_payload_schema_def result_def Let_def VALID_SENDERS_def
  VALID_ROLES_def VALID_RECIPIENTS_def VALID_MESSAGE_TYPES_def MESSAGE_TYPE_SCHEMAS_def schemas_1_def schemas_2_def schemas_3_def
  schemas_4_def schemas_5_def schema_def bad_role_def missing_fields_def forgive_def has_field_def

lemma brief_refused: "\<not> valid (validate shipped_validator (as_ops_message sq st
     \<lparr>fm_type = ''project_brief'', fm_recipient = r, fm_payload = [(''client_id'', a), (''project_id'', b), (''brief_text'', c),
        (''deadline'', d), (''tone_requirements'', e), (''platform_targets'', f)], fm_id = i, fm_time = t\<rparr>))"
proof -
  let ?m = "as_ops_message sq st \<lparr>fm_type = ''project_brief'', fm_recipient = r, fm_payload = [(''client_id'', a), (''project_id'', b),
    (''brief_text'', c), (''deadline'', d), (''tone_requirements'', e), (''platform_targets'', f)], fm_id = i, fm_time = t\<rparr>"
  have "(case map_of MESSAGE_TYPE_SCHEMAS ''project_brief'' of None \<Rightarrow> False | Some x \<Rightarrow> ''scope'' \<in> set (required_payload x))"
    by code_simp
  then obtain x where x: "map_of MESSAGE_TYPE_SCHEMAS (message_type ?m) = Some x" "''scope'' \<in> set (required_payload x)"
    by (cases "map_of MESSAGE_TYPE_SCHEMAS ''project_brief''") (simp_all add: as_ops_message_def)
  have "\<not> has_field ?m ''scope''" by (simp add: has_field_def as_ops_message_def)
  moreover have "message_type ?m = ''project_brief''" by (simp add: as_ops_message_def)
  ultimately have "missing_fields ?m (required_payload x) \<noteq> []" using x(2) by (auto simp: missing_fields_def filter_empty_conv Let_def)
  then have "\<not> valid (validate_payload_schema ?m)"
    by (simp add: validate_payload_schema_def x(1) result_def Let_def split: option.split)
  then show ?thesis by (simp add: validate_def result_def Let_def)
qed

lemma health_signal_refused: "\<not> valid (validate shipped_validator (as_ops_message sq st
     \<lparr>fm_type = ''client_health_signal'', fm_recipient = ''analytics'', fm_payload = b, fm_id = i, fm_time = t\<rparr>))"
  by (simp add: as_ops_message_def validate_def ops_routes result_def Let_def)

lemma query_passes: "valid (validate shipped_validator (as_ops_message sq st
     \<lparr>fm_type = ''pricing_query'', fm_recipient = ''finance'', fm_payload = pricing_payload p sc cx dl cl, fm_id = i, fm_time = t\<rparr>))"
  using ops_routes(3) by (simp add: ops_contract_eval pricing_payload_def)

lemma complete_passes: "valid (validate shipped_validator (as_ops_message sq st
     \<lparr>fm_type = ''project_complete'', fm_recipient = ''finance'', fm_payload = [(''project_id'', a), (''client_id'', b), (''delivered_at'', c)],
      fm_id = i, fm_time = t\<rparr>))"
  using ops_routes(4) by (simp add: ops_contract_eval)

lemma feature_passes: "valid (validate shipped_validator (as_ops_message sq st
     \<lparr>fm_type = ''feature_brief'', fm_recipient = ''build'', fm_payload = [(''project_id'', a), (''feature_name'', b), (''description'', c),
        (''deadline'', d), (''client_id'', e), (''priority'', f)], fm_id = i, fm_time = t\<rparr>))"
  using ops_routes(5) by (simp add: ops_contract_eval)

lemma onboarded_passes: "valid (validate shipped_validator (as_ops_message sq st
     \<lparr>fm_type = ''client_onboarded'', fm_recipient = ''analytics'', fm_payload = [(''client_id'', a), (''niche'', b), (''project_type'', c),
        (''estimated_value'', d)], fm_id = i, fm_time = t\<rparr>))"
  using ops_routes(6) by (simp add: ops_contract_eval)

text \<open>
  C19. Where the gateway takes exactly what the shipped contract validates, no project brief and no signal about a client's health
  is ever delivered: the brief has no scope field and the signal no route to analytics. The claw logs both as sent with
  success. Its other messages (a question for a price, a finished project, a feature for build, a new client) pass.
\<close>

theorem briefs_and_health_signals_lost:
  assumes "ops_contract_gateway v" and "p \<in> set (os_confirmed s)"
  shows "os_outbox (fst (send_project_brief v c p b dl tone pl r s)) = os_outbox s
    \<and> (\<exists>l e. os_log (fst (send_project_brief v c p b dl tone pl r s)) = l @ [Some e] \<and> oe_action e = ''project_brief_sent'' \<and> oe_outcome e = ''success'')
    \<and> os_outbox (fst (send_client_health_signal v c sc fs adv s)) = os_outbox s
    \<and> (\<exists>l e. os_log (fst (send_client_health_signal v c sc fs adv s)) = l @ [Some e] \<and> oe_action e = ''client_health_signal_sent'' \<and> oe_outcome e = ''success'')
    \<and> map fm_type (os_outbox (fst (send_pricing_query v p scope cx dl cl s))) = map fm_type (os_outbox s) @ [''pricing_query'']
    \<and> map fm_type (os_outbox (fst (send_project_complete v p c s))) = map fm_type (os_outbox s) @ [''project_complete'']
    \<and> map fm_type (os_outbox (fst (send_feature_brief v c p f dl cr s))) = map fm_type (os_outbox s) @ [''feature_brief'']
    \<and> map fm_type (os_outbox (fst (send_client_onboarded v c n k est s))) = map fm_type (os_outbox s) @ [''client_onboarded'']"
proof -
  obtain sq st where g: "\<And>m. (ov_gateway v m = Inr True) = valid (validate shipped_validator (as_ops_message sq st m))"
    using assms(1) by (auto simp: ops_contract_gateway_def)
  have k: "is_pricing_confirmed p s" using assms(2) by (simp add: is_pricing_confirmed_def)
  have brief: "send_project_brief v c p b dl tone pl r s = andthen (ops_send v ''project_brief'' r
      [(''client_id'', JStr c), (''project_id'', JStr p), (''brief_text'', JStr b), (''deadline'', JStr dl),
       (''tone_requirements'', JStr tone), (''platform_targets'', JList (map JStr pl))])
      (\<lambda>_. log_ops v ''project_brief_sent'' p ''success'' [(''recipient_role'', JStr r), (''client_id'', JStr c)]) s"
    using k by (simp add: send_project_brief_def)
  have b1: "os_outbox (fst (send_project_brief v c p b dl tone pl r s)) = os_outbox s"
    unfolding brief ops_send_then_log(1) ops_send_effect(1) by (simp add: g brief_refused)
  have b2: "\<exists>l e. os_log (fst (send_project_brief v c p b dl tone pl r s)) = l @ [Some e] \<and> oe_action e = ''project_brief_sent'' \<and> oe_outcome e = ''success''"
    using ops_send_then_log(2)[of v "''project_brief''" r] unfolding brief by fastforce
  have h1: "os_outbox (fst (send_client_health_signal v c sc fs adv s)) = os_outbox s"
    unfolding send_client_health_signal_def ops_send_then_log(1) ops_send_effect(1) by (simp add: g health_signal_refused)
  have h2: "\<exists>l e. os_log (fst (send_client_health_signal v c sc fs adv s)) = l @ [Some e] \<and> oe_action e = ''client_health_signal_sent'' \<and> oe_outcome e = ''success''"
    using ops_send_then_log(2)[of v "''client_health_signal''" "''analytics''"] unfolding send_client_health_signal_def by fastforce
  have others: "map fm_type (os_outbox (fst (send_pricing_query v p scope cx dl cl s))) = map fm_type (os_outbox s) @ [''pricing_query'']"
    "map fm_type (os_outbox (fst (send_project_complete v p c s))) = map fm_type (os_outbox s) @ [''project_complete'']"
    "map fm_type (os_outbox (fst (send_feature_brief v c p f dl cr s))) = map fm_type (os_outbox s) @ [''feature_brief'']"
    "map fm_type (os_outbox (fst (send_client_onboarded v c n k est s))) = map fm_type (os_outbox s) @ [''client_onboarded'']"
    unfolding send_pricing_query_def send_project_complete_def send_feature_brief_def send_client_onboarded_def
      ops_send_then_log(1) ops_send_effect(1)
    by (simp_all add: g query_passes complete_passes feature_passes onboarded_passes)
  show ?thesis using b1 b2 h1 h2 others by simp
qed

definition contract_world :: ops_env where
  "contract_world = hold_world\<lparr>ov_gateway := (\<lambda>m. Inr (valid (validate shipped_validator (as_ops_message ''sq'' ''t'' m))))\<rparr>"

theorem briefs_and_health_signals_lost_witness:
  "os_outbox (fst (send_project_brief contract_world ''acme'' ''p1'' ''a site'' ''soon'' ''friendly'' [] ''content'' briefed)) = os_outbox briefed
   \<and> map fm_type (os_outbox (fst (send_pricing_query contract_world ''p1'' (JStr ''a site'') ''low'' ''soon'' None briefed)))
     = [''project_brief'', ''pricing_query'']"
proof -
  have g: "ops_contract_gateway contract_world" unfolding ops_contract_gateway_def contract_world_def
    by (intro exI[of _ "''sq''"] exI[of _ "''t''"]) simp
  have p: "''p1'' \<in> set (os_confirmed briefed)" by code_simp
  have o: "map fm_type (os_outbox briefed) = [''project_brief'']" by code_simp
  show ?thesis using briefs_and_health_signals_lost[OF g p] o by simp
qed

end
