(* ===== verification/Build_Store.thy ===== *)
theory Build_Store
  imports Pricing
begin

text \<open>
  \<^verbatim>\<open>milimo-core/src/milimo_core/build/build_init.py\<close> and \<^verbatim>\<open>approval_handler.py\<close>: the files and logs of the build claw,
  what waits for the operator and what a decision does, from the War Room too.
\<close>

section \<open>Log entries\<close>

record build_entry =
  be_time :: int
  be_action :: string
  be_entity :: string
  be_outcome :: string
  be_details :: "json dict"

text \<open>A line of the log that is no entry is \<open>None\<close>; the reader skips it.\<close>

definition build_read_recent :: "int \<Rightarrow> int \<Rightarrow> string option \<Rightarrow> build_entry option list \<Rightarrow> build_entry list" where
  "build_read_recent now days atype ls =
     concat (map (\<lambda>l. case l of None \<Rightarrow> []
       | Some e \<Rightarrow> if be_time e < now - days * DAY \<or> (truthy_str atype \<and> be_action e \<noteq> the atype) then [] else [e]) ls)"

definition build_count_by_type :: "int \<Rightarrow> string \<Rightarrow> int \<Rightarrow> build_entry option list \<Rightarrow> nat" where
  "build_count_by_type now atype days ls = length (build_read_recent now days (Some atype) ls)"

definition get_last_run_time :: "int \<Rightarrow> string \<Rightarrow> build_entry option list \<Rightarrow> int option" where
  "get_last_run_time now atype ls =
     (case build_read_recent now 365 (Some atype) ls of [] \<Rightarrow> None | e # es \<Rightarrow> Some (fold max (map be_time es) (be_time e)))"

section \<open>Actions\<close>

text \<open>An action that waits. \<open>execute_fn\<close> and \<open>next_step_fn\<close> of an action are never given: they stay \<open>None\<close>.\<close>

datatype build_mode = ReviewMode | HoldMode

record build_action =
  ba_id :: string
  ba_type :: string
  ba_mode :: build_mode
  ba_entity :: string
  ba_summary :: string
  ba_metadata :: "json dict"
  ba_created :: int

record approval_result =
  ar_executed :: bool
  ar_decision :: string
  ar_action :: string
  ar_details :: "json dict"

section \<open>The state\<close>

text \<open>Files by name; one that is no JSON is \<open>None\<close>, and \<open>read_json\<close> gives it as an empty dictionary.\<close>

type_synonym build_folder = "json dict option dict"

datatype pr_place = Drafted | Approved | Merged
datatype deploy_place = PendingDeploys | DeployHistory

text \<open>What the claw asks GitHub and the hosting service to do.\<close>

datatype outside_call =
    CreatePr string string string | MergePr json | CreateBranch string | CommitFile string string string
  | CreateIssue string | TriggerDeployment

record behavior_query =
  bq_id :: string
  bq_query :: string
  bq_sent :: int
  bq_days :: int

record build_files = war_room +
  bs_pending :: "build_action dict"
  bs_log :: "build_entry option list"
  bs_pr_log :: "json dict list"
  bs_deploy_log :: "json dict list"
  bs_prs :: "pr_place \<Rightarrow> build_folder"
  bs_deploys :: "deploy_place \<Rightarrow> build_folder"
  bs_locks :: "int option dict"
  bs_plan :: "json dict option"
  bs_velocity :: "json dict option"
  bs_signals :: "json dict option"
  bs_patterns :: build_folder
  bs_active :: build_folder
  bs_costs :: "json dict option list"
  bs_alerts :: "json dict list"
  bs_changelog :: "string option"
  bs_devlogs :: "string dict"
  bs_files :: "string dict"
  bs_calls :: "outside_call list"
  bs_outbox :: "fin_msg list"
  bs_fallback :: "fin_msg list"
  bs_query :: "behavior_query option"
  bs_retention :: "json dict option"
  bs_shipping :: "json dict list"
  bs_slas :: "int dict"
  bs_timers :: "(string \<times> int) list"
  bs_asked :: nat
  bs_fresh :: nat

text \<open>
  The world of an operation. The clients of GitHub and of the hosting service are the ones the service factory makes: none, the stub
  of \<^verbatim>\<open>stubs/\<close>, or the client of \<^verbatim>\<open>github_client.py\<close> and \<^verbatim>\<open>vercel_client.py\<close>, whose requests may fail (\<open>bv_request\<close>, by kind of
  call). \<open>bv_stamp\<close> is \<^verbatim>\<open>strftime\<close> by format, \<open>bv_alive\<close> whether \<^verbatim>\<open>os.kill(pid, 0)\<close> returns, \<open>bv_infer\<close> the answer of the
  inference service by kind of question and by its number, \<open>bv_tests\<close> the outcome of the test command by attempt, \<open>bv_md5\<close> the
  digest in hexadecimal, \<open>bv_iso\<close> the moment a text with a time zone stands for, \<open>bv_writable\<close> whether a path can be written, \<open>bv_repo\<close> the directory of the repository.
\<close>

datatype client = NoClient | StubClient | RealClient

datatype test_run =
    TestsExit int string string "(int \<times> int) option" | NoPytest "(int \<times> string) option" | TestsTimeout | TestsRaise

record build_env =
  bv_now :: int
  bv_hex :: "nat \<Rightarrow> string"
  bv_stamp :: "string \<Rightarrow> string"
  bv_bridge :: bool
  bv_pid :: int
  bv_alive :: "int \<Rightarrow> bool"
  bv_gateway :: "(fin_msg \<Rightarrow> py_exn + bool) option"
  bv_infer :: "string \<Rightarrow> nat \<Rightarrow> py_exn + string"
  bv_github :: client
  bv_request :: "string \<Rightarrow> py_exn option"
  bv_issues :: "nat \<Rightarrow> py_exn + json dict list"
  bv_issue :: "py_exn + json dict"
  bv_issue_number :: int
  bv_open_prs :: "json dict list"
  bv_hosting :: client
  bv_trigger :: "py_exn + string"
  bv_ready :: "py_exn + string"
  bv_tests :: "nat \<Rightarrow> test_run"
  bv_sentry :: client
  bv_events :: "py_exn + json dict list"
  bv_usage :: "py_exn + json dict"
  bv_vulnerable :: "json dict list"
  bv_scanning :: "json dict list"
  bv_float :: "string \<Rightarrow> rat option"
  bv_iso :: "string \<Rightarrow> int option"
  bv_md5 :: "string \<Rightarrow> string"
  bv_str :: "json \<Rightarrow> string"
  bv_line :: "build_entry option \<Rightarrow> string"
  bv_documented :: "string \<Rightarrow> bool"
  bv_squad :: string
  bv_repo :: string
  bv_writable :: "string \<Rightarrow> bool"

definition build_hex :: "build_env \<Rightarrow> nat \<Rightarrow> (build_files, string) eff" where
  "build_hex v n = andthen (look bs_fresh) (\<lambda>k. andthen (upd (bs_fresh_update Suc)) (\<lambda>_. ok (take n (bv_hex v k))))"

text \<open>\<open>self._inference.complete(...)\<close>; the prompt is left out.\<close>

definition build_ask :: "build_env \<Rightarrow> string \<Rightarrow> (build_files, string) eff" where
  "build_ask v kind = andthen (look bs_asked) (\<lambda>k. andthen (upd (bs_asked_update Suc)) (\<lambda>_. lift_exn (bv_infer v kind k)))"

text \<open>A call of the GitHub client: what the stub does, what the client does when its request succeeds.\<close>

definition github :: "build_env \<Rightarrow> string \<Rightarrow> (build_files, 'a) eff \<Rightarrow> (build_files, 'a) eff \<Rightarrow> (build_files, 'a) eff" where
  "github v kind stub live = (case bv_github v of
       NoClient \<Rightarrow> throw ''AttributeError'' (''NoneType object has no attribute '' @ kind)
     | StubClient \<Rightarrow> stub
     | RealClient \<Rightarrow> (case bv_request v kind of Some e \<Rightarrow> lift_exn (Inl e) | None \<Rightarrow> live))"

definition called :: "outside_call \<Rightarrow> (build_files, unit) eff" where
  "called c = upd (bs_calls_update (\<lambda>l. l @ [c]))"

definition log_build :: "build_env \<Rightarrow> string \<Rightarrow> string \<Rightarrow> string \<Rightarrow> json dict \<Rightarrow> (build_files, unit) eff" where
  "log_build v action entity outcome details =
     upd (bs_log_update (\<lambda>l. l @ [Some \<lparr>be_time = bv_now v, be_action = action, be_entity = entity, be_outcome = outcome,
       be_details = details\<rparr>]))"

definition log_pr :: "build_env \<Rightarrow> string \<Rightarrow> string \<Rightarrow> json dict \<Rightarrow> (build_files, unit) eff" where
  "log_pr v event pr details =
     upd (bs_pr_log_update (\<lambda>l. l @ [[(''timestamp'', JInt (bv_now v)), (''event_type'', JStr event), (''pr_id'', JStr pr),
       (''details'', JObj details)]]))"

definition get_pr_history :: "string \<Rightarrow> build_files \<Rightarrow> json dict list" where
  "get_pr_history pr s = filter (\<lambda>d. map_of d ''pr_id'' = Some (JStr pr)) (bs_pr_log s)"

definition log_deploy :: "build_env \<Rightarrow> string \<Rightarrow> string \<Rightarrow> json dict \<Rightarrow> (build_files, unit) eff" where
  "log_deploy v event deploy details =
     upd (bs_deploy_log_update (\<lambda>l. l @ [[(''timestamp'', JInt (bv_now v)), (''event_type'', JStr event), (''deploy_id'', JStr deploy),
       (''details'', JObj details)]]))"

definition build_read_json :: "string \<Rightarrow> build_folder \<Rightarrow> json dict" where
  "build_read_json n f = (case map_of f n of Some (Some d) \<Rightarrow> d | _ \<Rightarrow> [])"

text \<open>A dictionary given a key, as \<^verbatim>\<open>d[k] = v\<close> does.\<close>

abbreviation with_key :: "string \<Rightarrow> json \<Rightarrow> json dict \<Rightarrow> json dict" where
  "with_key \<equiv> AList.update"

definition put_pr :: "pr_place \<Rightarrow> string \<Rightarrow> json dict \<Rightarrow> (build_files, unit) eff" where
  "put_pr place pr d = upd (\<lambda>s. s\<lparr>bs_prs := (bs_prs s)(place := AList.update pr (Some d) (bs_prs s place))\<rparr>)"

definition drop_pr :: "pr_place \<Rightarrow> string \<Rightarrow> (build_files, unit) eff" where
  "drop_pr place pr = upd (\<lambda>s. s\<lparr>bs_prs := (bs_prs s)(place := AList.delete pr (bs_prs s place))\<rparr>)"

definition put_deploy :: "deploy_place \<Rightarrow> string \<Rightarrow> json dict \<Rightarrow> (build_files, unit) eff" where
  "put_deploy place i d = upd (\<lambda>s. s\<lparr>bs_deploys := (bs_deploys s)(place := AList.update i (Some d) (bs_deploys s place))\<rparr>)"

definition drop_deploy :: "deploy_place \<Rightarrow> string \<Rightarrow> (build_files, unit) eff" where
  "drop_deploy place i = upd (\<lambda>s. s\<lparr>bs_deploys := (bs_deploys s)(place := AList.delete i (bs_deploys s place))\<rparr>)"

section \<open>Queueing\<close>

definition mode_text :: "build_mode \<Rightarrow> string" where
  "mode_text m = (case m of ReviewMode \<Rightarrow> ''REVIEW'' | HoldMode \<Rightarrow> ''HOLD'')"

text \<open>What all the queueing methods end with: the card of the War Room, whose failure is ignored.\<close>

definition show_action :: "build_env \<Rightarrow> build_action \<Rightarrow> (build_files, unit) eff" where
  "show_action v a =
     only_if (bv_bridge v) (attempt (andthen
       (write_warroom_action (bv_now v) (ba_id a) ''build'' (mode_text (ba_mode a)) (ba_type a) (ba_summary a) ''build'' (ba_metadata a))
       (\<lambda>_. ok ())) (\<lambda>_. ok ()))"

definition build_new_action :: "build_env \<Rightarrow> string \<Rightarrow> string \<Rightarrow> build_mode \<Rightarrow> string \<Rightarrow> string \<Rightarrow> json dict \<Rightarrow> build_action" where
  "build_new_action v pre atype mode entity summary metadata =
     \<lparr>ba_id = pre @ entity, ba_type = atype, ba_mode = mode, ba_entity = entity, ba_summary = summary, ba_metadata = metadata,
      ba_created = bv_now v\<rparr>"

definition keep_pending :: "build_action \<Rightarrow> (build_files, unit) eff" where
  "keep_pending a = upd (bs_pending_update (AList.update (ba_id a) a))"

definition queue_pr_review :: "build_env \<Rightarrow> string \<Rightarrow> string \<Rightarrow> string \<Rightarrow> int \<Rightarrow> nat \<Rightarrow> string \<Rightarrow> int \<Rightarrow> string \<Rightarrow> (build_files, string) eff" where
  "queue_pr_review v pr title branch issue files tests ntests url =
     (let a = build_new_action v ''pr-review-'' ''pr_review'' ReviewMode pr (''Review PR #'' @ py_str_int issue @ '': '' @ title)
        [(''pr_id'', JStr pr), (''pr_title'', JStr title), (''branch'', JStr branch), (''issue_number'', JInt issue),
         (''files_changed'', JInt (int files)), (''lines_added'', JInt 0), (''lines_removed'', JInt 0), (''test_result'', JStr tests),
         (''tests_count'', JInt ntests), (''github_pr_url'', JStr url)] in
      andthen (keep_pending a) (\<lambda>_.
      andthen (log_pr v ''review_queued'' pr [(''title'', JStr title)]) (\<lambda>_.
      andthen (log_build v ''pr_review_queued'' pr ''queued'' [(''pr_id'', JStr pr), (''mode'', JStr ''REVIEW'')]) (\<lambda>_.
      andthen (show_action v a) (\<lambda>_. ok (ba_id a))))))"

definition queue_pr_merge_hold :: "build_env \<Rightarrow> string \<Rightarrow> json \<Rightarrow> json \<Rightarrow> (build_files, string) eff" where
  "queue_pr_merge_hold v pr title url =
     (let a = build_new_action v ''pr-merge-hold-'' ''pr_merge_hold'' HoldMode pr (''Hold merge for PR: '' @ py_text (bv_str v) title)
        [(''pr_id'', JStr pr), (''pr_title'', title), (''github_pr_url'', url)] in
      andthen (keep_pending a) (\<lambda>_.
      andthen (log_pr v ''hold_queued'' pr [(''title'', title)]) (\<lambda>_.
      andthen (log_build v ''pr_merge_hold_queued'' pr ''queued'' [(''pr_id'', JStr pr), (''mode'', JStr ''HOLD'')]) (\<lambda>_.
      andthen (show_action v a) (\<lambda>_. ok (ba_id a))))))"

definition queue_deploy_hold :: "build_env \<Rightarrow> string \<Rightarrow> string \<Rightarrow> string \<Rightarrow> string list \<Rightarrow> (build_files, string) eff" where
  "queue_deploy_hold v i version target changes =
     (let a = build_new_action v ''deploy-hold-'' ''deploy_hold'' HoldMode i (''Hold deployment '' @ version @ '' to '' @ target)
        [(''deploy_id'', JStr i), (''version'', JStr version), (''deploy_target'', JStr target),
         (''changes_summary'', JList (map JStr changes))] in
      andthen (keep_pending a) (\<lambda>_.
      andthen (log_deploy v ''hold_queued'' i [(''version'', JStr version)]) (\<lambda>_.
      andthen (log_build v ''deploy_hold_queued'' i ''queued'' [(''deploy_id'', JStr i), (''mode'', JStr ''HOLD'')]) (\<lambda>_.
      andthen (show_action v a) (\<lambda>_. ok (ba_id a))))))"

definition queue_sprint_plan_review :: "build_env \<Rightarrow> string \<Rightarrow> json list \<Rightarrow> rat \<Rightarrow> (build_files, string) eff" where
  "queue_sprint_plan_review v plan issues hours =
     (let a = build_new_action v ''sprint-plan-'' ''sprint_plan'' ReviewMode plan
        (''Review sprint plan: '' @ py_str_int (int (length issues)) @ '' issues, '' @ bv_str v (JFloat hours) @ ''h'')
        [(''plan_id'', JStr plan), (''issues'', JList issues), (''total_hours'', JFloat hours), (''retention_context'', JNull)] in
      andthen (keep_pending a) (\<lambda>_.
      andthen (log_build v ''sprint_plan_queued'' plan ''queued'' [(''plan_id'', JStr plan), (''total_hours'', JFloat hours)]) (\<lambda>_.
      andthen (show_action v a) (\<lambda>_. ok (ba_id a)))))"

definition queue_security_pr :: "build_env \<Rightarrow> string \<Rightarrow> json list \<Rightarrow> string \<Rightarrow> (build_files, string) eff" where
  "queue_security_pr v pr vulns summary =
     (let a = build_new_action v ''security-pr-'' ''security_pr'' ReviewMode pr summary
        [(''pr_id'', JStr pr), (''vulns'', JList vulns)] in
      andthen (keep_pending a) (\<lambda>_.
      andthen (log_build v ''security_pr_queued'' pr ''queued'' [(''pr_id'', JStr pr)]) (\<lambda>_.
      andthen (show_action v a) (\<lambda>_. ok (ba_id a)))))"

definition queue_dependency_review :: "build_env \<Rightarrow> string \<Rightarrow> json list \<Rightarrow> string \<Rightarrow> (build_files, string) eff" where
  "queue_dependency_review v i findings summary =
     (let a = build_new_action v ''dependency-review-'' ''dependency_review'' ReviewMode i summary
        [(''review_id'', JStr i), (''findings'', JList findings)] in
      andthen (keep_pending a) (\<lambda>_.
      andthen (log_build v ''dependency_review_queued'' i ''queued'' [(''review_id'', JStr i)]) (\<lambda>_.
      andthen (show_action v a) (\<lambda>_. ok (ba_id a)))))"

section \<open>Decisions\<close>

definition approval_outcome :: "bool \<Rightarrow> string \<Rightarrow> string \<Rightarrow> json dict \<Rightarrow> approval_result" where
  "approval_outcome done decision aid details = \<lparr>ar_executed = done, ar_decision = decision, ar_action = aid, ar_details = details\<rparr>"

definition not_found :: "string \<Rightarrow> approval_result" where
  "not_found aid = approval_outcome False ''error'' aid [(''error'', JStr (''Action '' @ aid @ '' not found''))]"

definition drop_pending :: "string \<Rightarrow> (build_files, unit) eff" where
  "drop_pending aid = upd (bs_pending_update (AList.delete aid))"

text \<open>\<open>build_hold_release\<close>, with what \<open>execute_fn\<close> does, if one is given.\<close>

definition build_hold_release :: "build_env \<Rightarrow> string \<Rightarrow> (build_files, json) eff option \<Rightarrow> (build_files, approval_result) eff" where
  "build_hold_release v aid execute =
     andthen (look (\<lambda>s. map_of (bs_pending s) aid)) (\<lambda>found. case found of
       None \<Rightarrow> ok (not_found aid)
     | Some a \<Rightarrow>
         if ba_mode a \<noteq> HoldMode then ok (approval_outcome False ''error'' aid [(''error'', JStr (''Action '' @ aid @ '' is not in HOLD mode''))])
         else andthen (case execute of None \<Rightarrow> ok JNull | Some m \<Rightarrow> m) (\<lambda>r.
           andthen (log_build v (ba_type a @ ''_released'') (ba_entity a) ''released'' [(''action_id'', JStr aid)]) (\<lambda>_.
           andthen (drop_pending aid) (\<lambda>_. ok (approval_outcome True ''released'' aid [(''result'', r)])))))"

definition build_approve :: "build_env \<Rightarrow> string \<Rightarrow> (build_files, unit) eff option \<Rightarrow> (build_files, approval_result) eff" where
  "build_approve v aid next_step =
     andthen (look (\<lambda>s. map_of (bs_pending s) aid)) (\<lambda>found. case found of
       None \<Rightarrow> ok (not_found aid)
     | Some a \<Rightarrow> (case ba_mode a of
           ReviewMode \<Rightarrow>
             andthen (case next_step of None \<Rightarrow> ok () | Some m \<Rightarrow> m) (\<lambda>_.
             andthen (log_build v (ba_type a @ ''_approved'') (ba_entity a) ''approved'' [(''action_id'', JStr aid)]) (\<lambda>_.
             andthen (drop_pending aid) (\<lambda>_. ok (approval_outcome True ''approved'' aid [(''mode'', JStr ''REVIEW'')]))))
         | HoldMode \<Rightarrow> build_hold_release v aid None))"

definition build_block :: "build_env \<Rightarrow> string \<Rightarrow> json \<Rightarrow> (build_files, approval_result) eff" where
  "build_block v aid reason =
     andthen (look (\<lambda>s. map_of (bs_pending s) aid)) (\<lambda>found. andthen (drop_pending aid) (\<lambda>_. case found of
       None \<Rightarrow> ok (not_found aid)
     | Some a \<Rightarrow>
         andthen (log_build v (ba_type a @ ''_blocked'') (ba_entity a) ''blocked'' [(''reason'', reason)]) (\<lambda>_.
         ok (approval_outcome False ''blocked'' aid [(''reason'', reason)]))))"

definition build_hold_cancel :: "build_env \<Rightarrow> string \<Rightarrow> (build_files, approval_result) eff" where
  "build_hold_cancel v aid =
     andthen (look (\<lambda>s. map_of (bs_pending s) aid)) (\<lambda>found. andthen (drop_pending aid) (\<lambda>_. case found of
       None \<Rightarrow> ok (not_found aid)
     | Some a \<Rightarrow>
         andthen (log_build v (ba_type a @ ''_cancelled'') (ba_entity a) ''cancelled'' []) (\<lambda>_.
         ok (approval_outcome False ''cancelled'' aid []))))"

definition get_pending_actions_by_type :: "string \<Rightarrow> build_files \<Rightarrow> build_action list" where
  "get_pending_actions_by_type atype s = filter (\<lambda>a. ba_type a = atype) (map snd (bs_pending s))"

definition get_pending_action :: "string \<Rightarrow> build_files \<Rightarrow> build_action option" where
  "get_pending_action aid s = map_of (bs_pending s) aid"

definition get_all_pending_actions :: "build_files \<Rightarrow> build_action list" where
  "get_all_pending_actions s = map snd (bs_pending s)"

text \<open>
  The callbacks of the War Room are \<open>handle_approve\<close> and \<open>handle_block\<close> themselves: the data of the card, a dictionary that is
  not empty, is taken for the next step and called, or for the reason.
\<close>

definition call_data :: "(build_files, unit) eff" where
  "call_data = throw ''TypeError'' ''dict object is not callable''"

definition build_handlers :: "build_env \<Rightarrow> build_files handler_table" where
  "build_handlers v = register_warroom_action_handler ''build''
     \<lparr>on_approve = (\<lambda>aid d. andthen (build_approve v aid (if d = [] then None else Some call_data)) (\<lambda>_. ok ())),
      on_veto = (\<lambda>aid d. andthen (build_block v aid (JObj d)) (\<lambda>_. ok ()))\<rparr> Map.empty"

end
