(* ===== verification/Build_Flow.thy ===== *)
theory Build_Flow
  imports Build_Store
begin

text \<open>
  \<^verbatim>\<open>milimo-core/src/milimo_core/build/signal_dispatcher.py\<close>, \<^verbatim>\<open>code_generator.py\<close> and \<^verbatim>\<open>pr_manager.py\<close>: the messages of
  the claw, generated code and pull requests, with the calls of \<^verbatim>\<open>github_client.py\<close> and its stub.
\<close>

definition quoted :: "string \<Rightarrow> string" where
  "quoted t = CHR 0x27 # t @ [CHR 0x27]"

section \<open>Messages\<close>

definition FEATURE_BRIEF_SLA_SECONDS :: int where "FEATURE_BRIEF_SLA_SECONDS = 600"

text \<open>What the gateway answers is not looked at; without a gateway, or when it raises, the message becomes a file.\<close>

definition build_send :: "build_env \<Rightarrow> string \<Rightarrow> string \<Rightarrow> string \<Rightarrow> json dict \<Rightarrow> (build_files, unit) eff" where
  "build_send v mtype recipient mid body =
     (let m = \<lparr>fm_type = mtype, fm_recipient = recipient, fm_payload = body, fm_id = mid, fm_time = bv_now v\<rparr>;
          to_file = upd (bs_fallback_update (\<lambda>l. filter (\<lambda>x. \<not> (fm_recipient x = recipient \<and> fm_id x = mid)) l @ [m])) in
      case bv_gateway v of
        None \<Rightarrow> to_file
      | Some g \<Rightarrow> (case g m of Inl _ \<Rightarrow> to_file | Inr b \<Rightarrow> only_if b (upd (bs_outbox_update (\<lambda>l. l @ [m])))))"

definition send_deploy_complete :: "build_env \<Rightarrow> json \<Rightarrow> string \<Rightarrow> json \<Rightarrow> (build_files, unit) eff" where
  "send_deploy_complete v project url version =
     andthen (build_send v ''deploy_complete'' ''ops'' (''deploy-complete-'' @ py_text (bv_str v) project)
       [(''project_id'', project), (''deploy_url'', JStr url), (''version'', version), (''deployed_at'', JInt (bv_now v))]) (\<lambda>_.
     log_build v ''deploy_complete_sent'' (py_text (bv_str v) project) ''success''
       [(''project_id'', project), (''deploy_url'', JStr url), (''version'', version)])"

definition send_shipping_summary :: "build_env \<Rightarrow> string \<Rightarrow> nat \<Rightarrow> nat \<Rightarrow> json list \<Rightarrow> json list \<Rightarrow> (build_files, unit) eff" where
  "send_shipping_summary v week merged resolved features changes =
     andthen (build_send v ''shipping_summary'' ''content'' (''shipping-summary-'' @ week)
       [(''week_of'', JStr week), (''prs_merged'', JInt (int merged)), (''issues_resolved'', JInt (int resolved)),
        (''features_shipped'', JList features), (''notable_changes'', JList changes)]) (\<lambda>_.
     log_build v ''shipping_summary_sent'' week ''success''
       [(''prs_merged'', JInt (int merged)), (''issues_resolved'', JInt (int resolved))])"

definition send_behavior_query :: "build_env \<Rightarrow> string \<Rightarrow> int \<Rightarrow> (build_files, string) eff" where
  "send_behavior_query v query days =
     (let i = ''bq-'' @ bv_stamp v ''%Y%m%d%H%M%S'' in
      andthen (upd (bs_query_update (\<lambda>_. Some \<lparr>bq_id = i, bq_query = query, bq_sent = bv_now v, bq_days = days\<rparr>))) (\<lambda>_.
      andthen (build_send v ''behavior_query'' ''analytics'' i [(''query'', JStr query), (''lookback_days'', JInt days)]) (\<lambda>_.
      andthen (log_build v ''behavior_query_sent'' i ''success'' [(''query'', JStr query), (''lookback_days'', JInt days)]) (\<lambda>_.
      ok i))))"

text \<open>The timer the dictionary knows for a project is cancelled.\<close>

definition cancel_sla :: "string \<Rightarrow> (build_files, unit) eff" where
  "cancel_sla p = upd (\<lambda>s. case map_of (bs_slas s) p of
       None \<Rightarrow> s
     | Some t \<Rightarrow> s\<lparr>bs_slas := AList.delete p (bs_slas s), bs_timers := remove1 (p, t) (bs_timers s)\<rparr>)"

definition send_feature_brief_acknowledged :: "build_env \<Rightarrow> string \<Rightarrow> json \<Rightarrow> string \<Rightarrow> string list \<Rightarrow> (build_files, unit) eff" where
  "send_feature_brief_acknowledged v project begins clarity missing =
     (if clarity \<notin> {''clear'', ''low''}
      then throw ''ValueError'' (''Invalid clarity_score: '' @ bv_str v (JStr clarity) @ ''. Must be 'clear' or 'low'.'')
      else andthen (cancel_sla project) (\<lambda>_.
        andthen (build_send v ''feature_brief_acknowledged'' ''ops'' (''brief-ack-'' @ project)
          ([(''project_id'', JStr project), (''estimated_start'', begins), (''clarity_score'', JStr clarity)]
           @ (if missing = [] then [] else [(''missing_elements'', JList (map JStr missing))]))) (\<lambda>_.
        log_build v ''feature_brief_acknowledged'' project ''success'' [(''clarity_score'', JStr clarity)])))"

definition build_payload :: "json dict \<Rightarrow> json dict" where
  "build_payload message = (case map_of message ''payload'' of Some (JObj d) \<Rightarrow> d | _ \<Rightarrow> [])"

definition handle_feature_brief :: "build_env \<Rightarrow> json dict \<Rightarrow> (build_files, unit) eff" where
  "handle_feature_brief v message =
     (if map_of message ''message_type'' \<noteq> Some (JStr ''feature_brief'')
      then throw ''ValueError'' (''Expected message_type 'feature_brief', got ''
        @ bv_str v (json_get message ''message_type'' JNull))
      else (let body = build_payload message; p = get_str body ''project_id'' ''unknown'';
                due = bv_now v + FEATURE_BRIEF_SLA_SECONDS * 1000000 in
        andthen (upd (\<lambda>s. s\<lparr>bs_slas := AList.update p due (bs_slas s), bs_timers := bs_timers s @ [(p, due)]\<rparr>)) (\<lambda>_.
        log_build v ''feature_brief_received'' p ''success''
          [(''feature_name'', json_get body ''feature_name'' JNull), (''description'', JStr (take 100 (get_str body ''description'' []))),
           (''sla_timer_started'', JBool True), (''sla_seconds'', JInt FEATURE_BRIEF_SLA_SECONDS)])))"

definition send_overdue_ack_warning :: "build_env \<Rightarrow> string \<Rightarrow> (build_files, unit) eff" where
  "send_overdue_ack_warning v p =
     andthen (send_feature_brief_acknowledged v p (JStr ''TBD'') ''low'' []) (\<lambda>_.
     log_build v ''feature_brief_ack_delayed'' p ''delayed''
       [(''claw'', JStr ''build''), (''severity'', JStr ''warning''),
        (''message'', JStr (''Feature brief '' @ p @ '' acknowledgment overdue''))])"

text \<open>A timer runs out.\<close>

definition sla_fires :: "build_env \<Rightarrow> (build_files, unit) eff" where
  "sla_fires v = andthen (look (\<lambda>s. find (\<lambda>(_, t). t \<le> bv_now v) (bs_timers s))) (\<lambda>found. case found of
       None \<Rightarrow> ok ()
     | Some (p, t) \<Rightarrow> andthen (upd (bs_timers_update (remove1 (p, t)))) (\<lambda>_. send_overdue_ack_warning v p))"

definition handle_retention_signals :: "build_env \<Rightarrow> json dict \<Rightarrow> (build_files, unit) eff" where
  "handle_retention_signals v message =
     (let body = build_payload message in
      andthen (upd (\<lambda>s. s\<lparr>bs_retention := Some body, bs_signals := Some body\<rparr>)) (\<lambda>_.
      log_build v ''retention_signals_received'' (get_str body ''feature_id'' ''unknown'') ''success''
        [(''signal_type'', json_get body ''signal_type'' JNull)]))"

definition handle_behavior_query_response :: "build_env \<Rightarrow> json dict \<Rightarrow> (build_files, unit) eff" where
  "handle_behavior_query_response v message =
     andthen (upd (bs_query_update (\<lambda>_. None))) (\<lambda>_.
     log_build v ''behavior_query_response_received'' (get_str message ''message_id'' ''unknown'') ''success'' [])"

definition has_pending_behavior_query :: "build_files \<Rightarrow> bool" where
  "has_pending_behavior_query s \<longleftrightarrow> bs_query s \<noteq> None"

definition get_pending_query_age_seconds :: "int \<Rightarrow> build_files \<Rightarrow> rat option" where
  "get_pending_query_age_seconds now s = map_option (\<lambda>q. of_int (now - bq_sent q) / 1000000) (bs_query s)"

definition accumulate_shipping_data :: "build_env \<Rightarrow> string \<Rightarrow> int \<Rightarrow> string \<Rightarrow> string list \<Rightarrow> (build_files, unit) eff" where
  "accumulate_shipping_data v pr issue feature changes =
     upd (bs_shipping_update (\<lambda>l. l @ [[(''pr_id'', JStr pr), (''issue_number'', JInt issue), (''feature_name'', JStr feature),
       (''changes'', JList (map JStr changes)), (''merged_at'', JInt (bv_now v))]]))"

text \<open>The features are a set in the code; here they are listed by their last occurrence.\<close>

definition shipping_summary :: "build_files \<Rightarrow> nat \<times> nat \<times> json list \<times> json list" where
  "shipping_summary s = (length (bs_shipping s), length (bs_shipping s),
     remdups (map (\<lambda>d. json_get d ''feature_name'' JNull) (bs_shipping s)),
     concat (map (\<lambda>d. case map_of d ''changes'' of Some (JList l) \<Rightarrow> l | _ \<Rightarrow> []) (bs_shipping s)))"

definition normalize_message :: "build_env \<Rightarrow> json dict \<Rightarrow> json dict" where
  "normalize_message v raw =
     [(''event'', JStr (''build.'' @ py_text (bv_str v) (json_get raw ''message_type'' (JStr ''unknown'')))),
      (''source'', json_get raw ''sender_role'' (JStr ''unknown'')),
      (''repo_name'', json_get (build_payload raw) ''project_id'' JNull),
      (''timestamp'', json_get raw ''timestamp'' (JInt (bv_now v))), (''metadata'', JObj (build_payload raw))]"

section \<open>Generated code\<close>

definition SECRET_FILES :: "string list" where
  "SECRET_FILES = [''.env'', ''.env.local'', ''.env.production'', ''secrets.json'', ''credentials.json'']"

text \<open>\<open>s.split()\<close>, \<open>s.strip(c)\<close> and the number of non-overlapping occurrences.\<close>

fun split_words :: "string \<Rightarrow> string list" where
  "split_words [] = [[]]"
| "split_words (c # cs) =
     (if space_char c then [] # split_words cs
      else case split_words cs of [] \<Rightarrow> [[c]] | p # ps \<Rightarrow> (c # p) # ps)"

definition py_words :: "string \<Rightarrow> string list" where
  "py_words t = filter (\<lambda>w. w \<noteq> []) (split_words t)"

definition strip_char :: "char \<Rightarrow> string \<Rightarrow> string" where
  "strip_char c t = rev (dropWhile (\<lambda>x. x = c) (rev (dropWhile (\<lambda>x. x = c) t)))"

fun count_in :: "nat \<Rightarrow> string \<Rightarrow> string \<Rightarrow> nat" where
  "count_in 0 needle t = 0"
| "count_in (Suc n) needle t =
     (if t = [] then 0
      else if take (length needle) t = needle then Suc (count_in n needle (drop (length needle) t))
      else count_in n needle (tl t))"

definition title_words :: "string \<Rightarrow> string list" where
  "title_words title =
     filter (\<lambda>w. 3 < length w) (concat (map (\<lambda>w. py_split (CHR ''.'') (strip_char (CHR ''.'') w)) (py_words (py_lower title))))"

definition base_name :: "string \<Rightarrow> string" where
  "base_name path = rev (takeWhile (\<lambda>c. c \<noteq> CHR ''/'') (rev path))"

text \<open>\<open>repo / name\<close>: an absolute name is taken as it is.\<close>

definition join_path :: "string \<Rightarrow> string \<Rightarrow> string" where
  "join_path repo name = (if take 1 name = ''/'' then name else repo @ ''/'' @ name)"

definition in_repo :: "build_env \<Rightarrow> build_files \<Rightarrow> (string \<times> string) list" where
  "in_repo v s = concat (map (\<lambda>(path, text). if take (length (bv_repo v) + 1) path = bv_repo v @ ''/''
     then [(drop (length (bv_repo v) + 1) path, text)] else []) (bs_files s))"

definition read_codebase_context :: "build_env \<Rightarrow> string \<Rightarrow> build_files \<Rightarrow> string" where
  "read_codebase_context v title s =
     (let ws = title_words title;
          parts = concat (map (\<lambda>(path, content).
            if base_name path \<in> set SECRET_FILES then []
            else if list_ex (\<lambda>w. py_in w (py_lower content)) ws then [''--- '' @ path @ '' ---'' @ [CHR 0x0A] @ content] else [])
            (in_repo v s))
      in if parts = [] then ''No relevant context found.'' else py_join [CHR 0x0A, CHR 0x0A] parts)"

definition generate_implementation :: "build_env \<Rightarrow> int \<Rightarrow> (build_files, string) eff" where
  "generate_implementation v issue =
     andthen (build_ask v ''source_code_generation'') (\<lambda>t.
     andthen (log_build v ''code_generated'' (py_str_int issue) ''success''
       [(''data_type'', JStr ''source_code_generation''), (''response_length'', JInt (int (length t)))]) (\<lambda>_. ok t))"

definition create_branch_name :: "build_env \<Rightarrow> int \<Rightarrow> string" where
  "create_branch_name v issue = ''fix/issue-'' @ py_str_int issue @ ''-'' @ bv_stamp v ''%Y%m%d%H%M%S''"

definition starts :: "string \<Rightarrow> string \<Rightarrow> bool" where
  "starts t p \<longleftrightarrow> take (length p) t = p"

text \<open>\<open>line.split(":", 1)[1].strip().rstrip("-").strip()\<close> of a file marker.\<close>

definition marked_name :: "string \<Rightarrow> string" where
  "marked_name line =
     py_strip (rev (dropWhile (\<lambda>c. c = CHR ''-'') (rev (py_strip (drop 1 (dropWhile (\<lambda>c. c \<noteq> CHR '':'') line))))))"

text \<open>
  The loop over the lines: the file being read (an empty name counts as none), its lines, and the files so far with their contents;
  a file without a line is not recorded, and neither is one that no marker ends.
\<close>

fun parse_files :: "string \<Rightarrow> string list \<Rightarrow> string list \<Rightarrow> (string list \<times> string dict) \<Rightarrow> string list \<times> string dict" where
  "parse_files cur body [] acc = acc"
| "parse_files cur body (l # ls) (names, texts) =
     (if starts l ''--- filepath:'' \<or> starts l ''--- end ---'' then
        (let acc = (if cur \<noteq> [] \<and> body \<noteq> [] then (names @ [cur], AList.update cur (py_join [CHR 0x0A] body) texts) else (names, texts)) in
         if starts l ''--- filepath:'' then parse_files (marked_name l) [] ls acc else parse_files [] [] ls acc)
      else parse_files cur (if cur \<noteq> [] then body @ [l] else body) ls (names, texts))"

definition answered_files :: "build_env \<Rightarrow> string \<Rightarrow> string list \<times> string dict" where
  "answered_files v text =
     (case parse_files [] [] (py_split (CHR 0x0A) text) ([], []) of
        ([], _) \<Rightarrow> (let n = ''fix_'' @ bv_stamp v ''%Y%m%d'' @ ''.py'' in ([n], [(n, text)]))
      | found \<Rightarrow> found)"

definition text_of_file :: "string dict \<Rightarrow> string \<Rightarrow> string" where
  "text_of_file texts n = (case map_of texts n of Some t \<Rightarrow> t | None \<Rightarrow> [])"

text \<open>\<open>commit_file(branch=..., file_path=..., content=...)\<close>: the stub has no parameter \<^verbatim>\<open>branch\<close>.\<close>

definition commit_file :: "build_env \<Rightarrow> string \<Rightarrow> string \<Rightarrow> string \<Rightarrow> (build_files, unit) eff" where
  "commit_file v branch path content =
     github v ''commit_file'' (throw ''TypeError'' (''commit_file() got an unexpected keyword argument '' @ quoted ''branch''))
       (called (CommitFile branch path content))"

definition write_to_branch :: "build_env \<Rightarrow> string \<Rightarrow> string \<Rightarrow> (build_files, string list) eff" where
  "write_to_branch v branch text =
     (case answered_files v text of (names, texts) \<Rightarrow>
        andthen (for_each names (\<lambda>n. only_if (bv_writable v (join_path (bv_repo v) n))
          (upd (bs_files_update (AList.update (join_path (bv_repo v) n) (text_of_file texts n)))))) (\<lambda>_.
        andthen (attempt
          (andthen (github v ''create_branch'' (ok ()) (called (CreateBranch branch))) (\<lambda>_.
           for_each names (\<lambda>n. commit_file v branch n (text_of_file texts n))))
          (\<lambda>_. ok ())) (\<lambda>_.
        andthen (log_build v ''branch_created'' branch ''success'' [(''files_changed'', JList (map JStr names))]) (\<lambda>_.
        ok names))))"

text \<open>\<open>run_tests\<close>: the status with the numbers of tests that pass and that fail.\<close>

definition read_tests :: "test_run \<Rightarrow> string \<times> int \<times> int" where
  "read_tests r = (case r of
       TestsExit rc out err js \<Rightarrow>
         if rc = 0 then (case js of Some (p, f) \<Rightarrow> (''passing'', p, f) | None \<Rightarrow> (''passing'', 0, 0))
         else (let bad = length (filter (\<lambda>l. py_in ''FAILED'' l \<or> py_in ''ERROR'' l) (py_split (CHR 0x0A) out @ py_split (CHR 0x0A) err))
               in if bad = 0 then (''skipped'', 0, 0) else (''failing'', 0, int bad))
     | NoPytest None \<Rightarrow> (''skipped'', 0, 0)
     | NoPytest (Some (rc, out)) \<Rightarrow>
         if rc = 0 then (''passing'', 0, 0)
         else (''failing'', 0, int (count_in (length out) ''FAIL'' out + count_in (length out) ''ERROR'' out))
     | TestsTimeout \<Rightarrow> (''timeout'', 0, 0)
     | TestsRaise \<Rightarrow> (''error'', 0, 0))"

record complexity_score =
  cx_issue :: int
  cx_title :: string
  cx_tier :: string
  cx_hours :: rat
  cx_clarity :: string
  cx_missing :: "string list"

record resolution =
  rs_issue :: int
  rs_branch :: string
  rs_files :: "string list"
  rs_tests :: string
  rs_passing :: int
  rs_failing :: int
  rs_attempts :: nat
  rs_status :: string
  rs_summary :: "string option"

definition MAX_FIX_ATTEMPTS :: nat where "MAX_FIX_ATTEMPTS = 3"

definition analyze_failure_and_fix :: "build_env \<Rightarrow> (build_files, string) eff" where
  "analyze_failure_and_fix v = build_ask v ''source_code_generation''"

text \<open>The attempts that are left, the number of the next one, and the failures of the last.\<close>

fun try_fixes :: "build_env \<Rightarrow> int \<Rightarrow> string \<Rightarrow> nat \<Rightarrow> nat \<Rightarrow> int \<Rightarrow> (build_files, resolution) eff" where
  "try_fixes v issue branch 0 n failing =
     ok \<lparr>rs_issue = issue, rs_branch = branch, rs_files = [], rs_tests = ''failing'', rs_passing = 0, rs_failing = failing,
         rs_attempts = MAX_FIX_ATTEMPTS, rs_status = ''failed_after_max_attempts'',
         rs_summary = Some (''Failed after '' @ py_str_int (int MAX_FIX_ATTEMPTS) @ '' attempts'')\<rparr>"
| "try_fixes v issue branch (Suc k) n failing =
     andthen (generate_implementation v issue) (\<lambda>text.
     andthen (write_to_branch v branch text) (\<lambda>files.
       (case read_tests (bv_tests v n) of (status, p, f) \<Rightarrow>
          if status = ''passing'' \<or> status = ''skipped''
          then ok \<lparr>rs_issue = issue, rs_branch = branch, rs_files = files, rs_tests = status, rs_passing = p, rs_failing = f,
                   rs_attempts = n, rs_status = ''ready_for_pr'', rs_summary = None\<rparr>
          else andthen (if k = 0 then ok () else
              andthen (analyze_failure_and_fix v) (\<lambda>fix_text.
                if fix_text = [] then ok () else andthen (write_to_branch v branch fix_text) (\<lambda>_. ok ()))) (\<lambda>_.
            try_fixes v issue branch k (Suc n) f))))"

text \<open>The body of the issue is asked for, but only the prompts use it: a failure changes nothing.\<close>

definition resolve_issue :: "build_env \<Rightarrow> complexity_score \<Rightarrow> (build_files, resolution) eff" where
  "resolve_issue v c = try_fixes v (cx_issue c) (create_branch_name v (cx_issue c)) MAX_FIX_ATTEMPTS 1 0"

text \<open>Lines with the digest of their content.\<close>

definition hash_anchor_line :: "build_env \<Rightarrow> nat \<Rightarrow> string \<Rightarrow> string" where
  "hash_anchor_line v n content = digits_of_nat n @ ''#'' @ take 6 (bv_md5 v content) @ ''| '' @ content"

definition verify_hash_anchor :: "build_env \<Rightarrow> string \<Rightarrow> string \<Rightarrow> bool" where
  "verify_hash_anchor v line actual \<longleftrightarrow>
     (let head = takeWhile (\<lambda>c. c \<noteq> CHR ''|'') line; after = dropWhile (\<lambda>c. c \<noteq> CHR ''#'') head in
      CHR ''|'' \<in> set line \<and> after \<noteq> [] \<and> tl after = take 6 (bv_md5 v (py_strip actual)))"

section \<open>Pull requests\<close>

record pr_record =
  pr_id :: string
  pr_issue :: int
  pr_branch :: string
  pr_title :: string
  pr_text :: string
  pr_number :: int
  pr_url :: string
  pr_files :: nat
  pr_tests :: string
  pr_tests_count :: int
  pr_status :: string
  pr_review :: "string option"
  pr_hold :: "string option"
  pr_opened :: int

definition pr_to_dict :: "pr_record \<Rightarrow> json dict" where
  "pr_to_dict r =
     [(''pr_id'', JStr (pr_id r)), (''issue_number'', JInt (pr_issue r)), (''branch_name'', JStr (pr_branch r)), (''title'', JStr (pr_title r)),
      (''description'', JStr (pr_text r)), (''github_pr_number'', JInt (pr_number r)), (''github_pr_url'', JStr (pr_url r)),
      (''files_changed'', JInt (int (pr_files r))), (''lines_added'', JInt 0), (''lines_removed'', JInt 0),
      (''test_status'', JStr (pr_tests r)), (''tests_count'', JInt (pr_tests_count r)), (''status'', JStr (pr_status r)),
      (''review_action_id'', json_opt JStr (pr_review r)), (''hold_action_id'', json_opt JStr (pr_hold r)), (''opened_at'', JInt (pr_opened r)),
      (''approved_at'', JNull), (''merged_at'', JNull)]"

text \<open>\<open>create_pull_request(title=..., body=..., head_branch=...)\<close>: the client calls this parameter \<^verbatim>\<open>branch\<close>.\<close>

definition create_pull_request :: "build_env \<Rightarrow> string \<Rightarrow> string \<Rightarrow> string \<Rightarrow> (build_files, int \<times> string) eff" where
  "create_pull_request v title body branch =
     (case bv_github v of
        NoClient \<Rightarrow> throw ''AttributeError'' ''NoneType object has no attribute create_pull_request''
      | StubClient \<Rightarrow> ok (0, [])
      | RealClient \<Rightarrow> throw ''TypeError'' (''create_pull_request() got an unexpected keyword argument '' @ quoted ''head_branch''))"

definition open_pr :: "build_env \<Rightarrow> resolution \<Rightarrow> (build_files, pr_record) eff" where
  "open_pr v r =
     andthen (build_hex v 8) (\<lambda>h.
     andthen (build_ask v ''pr_description_generation'') (\<lambda>text.
       (let title = ''Fix #'' @ py_str_int (rs_issue r) in
        andthen (create_pull_request v title text (rs_branch r)) (\<lambda>(number, url).
          (let p = \<lparr>pr_id = ''pr-'' @ h, pr_issue = rs_issue r, pr_branch = rs_branch r, pr_title = title, pr_text = text, pr_number = number,
                    pr_url = url, pr_files = length (rs_files r), pr_tests = rs_tests r, pr_tests_count = rs_passing r + rs_failing r,
                    pr_status = ''drafted'', pr_review = None, pr_hold = None, pr_opened = bv_now v\<rparr> in
           andthen (put_pr Drafted (pr_id p) (pr_to_dict p)) (\<lambda>_.
           andthen (queue_pr_review v (pr_id p) title (pr_branch p) (pr_issue p) (pr_files p) (pr_tests p) (pr_tests_count p) url) (\<lambda>aid.
           andthen (put_pr Drafted (pr_id p) (pr_to_dict (p\<lparr>pr_review := Some aid\<rparr>))) (\<lambda>_.
           andthen (log_pr v ''pr_created'' (pr_id p) [(''issue'', JInt (pr_issue p))]) (\<lambda>_.
           andthen (log_build v ''pr_opened'' (pr_id p) ''success'' [(''issue_number'', JInt (pr_issue p)), (''status'', JStr ''drafted'')]) (\<lambda>_.
           ok (p\<lparr>pr_review := Some aid\<rparr>)))))))))))"

definition handle_review_approved :: "build_env \<Rightarrow> string \<Rightarrow> (build_files, unit) eff" where
  "handle_review_approved v pr =
     andthen (look (\<lambda>s. (map_of (bs_prs s Drafted) pr \<noteq> None, build_read_json pr (bs_prs s Drafted)))) (\<lambda>(there, old).
       if \<not> there then throw ''ValueError'' (''PR '' @ pr @ '' not found in drafted/'')
       else (let d = with_key ''approved_at'' (JInt (bv_now v)) (with_key ''status'' (JStr ''approved'') old) in
         andthen (put_pr Approved pr d) (\<lambda>_.
         andthen (drop_pr Drafted pr) (\<lambda>_.
         andthen (queue_pr_merge_hold v pr (json_get d ''title'' (JStr [])) (json_get d ''github_pr_url'' (JStr []))) (\<lambda>aid.
         andthen (put_pr Approved pr (with_key ''hold_action_id'' (JStr aid) d)) (\<lambda>_.
         andthen (log_pr v ''review_approved'' pr []) (\<lambda>_.
         log_build v ''pr_review_approved'' pr ''approved'' [(''hold_action_id'', JStr aid)])))))))"

text \<open>\<open>PRRecord(**data)\<close>: every key has to be a field, and the fields without a default have to be there.\<close>

definition from_kwargs :: "string \<Rightarrow> string list \<Rightarrow> string list \<Rightarrow> json dict \<Rightarrow> py_exn + json dict" where
  "from_kwargs cls required optional d =
     (case find (\<lambda>k. k \<notin> set (required @ optional)) (map fst d) of
        Some k \<Rightarrow> Inl (PyExn ''TypeError'' (cls @ ''.__init__() got an unexpected keyword argument '' @ quoted k))
      | None \<Rightarrow> (case find (\<lambda>k. map_of d k = None) required of
            Some k \<Rightarrow> Inl (PyExn ''TypeError'' (cls @ ''.__init__() missing required argument '' @ k))
          | None \<Rightarrow> Inr d))"

definition pr_of_data :: "json dict \<Rightarrow> py_exn + json dict" where
  "pr_of_data = from_kwargs ''PRRecord''
     [''pr_id'', ''issue_number'', ''branch_name'', ''title'', ''description'', ''github_pr_number'', ''github_pr_url'', ''files_changed'',
      ''lines_added'', ''lines_removed'', ''test_status'', ''tests_count'', ''status'']
     [''review_action_id'', ''hold_action_id'', ''opened_at'', ''approved_at'', ''merged_at'']"

definition merge_pull_request :: "build_env \<Rightarrow> json \<Rightarrow> (build_files, unit) eff" where
  "merge_pull_request v number = github v ''merge_pull_request'' (ok ()) (called (MergePr number))"

definition handle_merge_hold_released :: "build_env \<Rightarrow> string \<Rightarrow> (build_files, json dict) eff" where
  "handle_merge_hold_released v pr =
     andthen (look (\<lambda>s. (map_of (bs_prs s Approved) pr \<noteq> None, build_read_json pr (bs_prs s Approved)))) (\<lambda>(there, old).
       if \<not> there then throw ''ValueError'' (''PR not found in approved/: '' @ pr)
       else andthen (merge_pull_request v (json_get old ''github_pr_number'' (JInt 0))) (\<lambda>_.
         (let d = with_key ''merged_at'' (JInt (bv_now v)) (with_key ''status'' (JStr ''merged'') old) in
          andthen (put_pr Merged pr d) (\<lambda>_.
          andthen (drop_pr Approved pr) (\<lambda>_.
          andthen (log_pr v ''pr_merged'' pr []) (\<lambda>_.
          andthen (log_build v ''pr_merged'' pr ''success'' []) (\<lambda>_.
          lift_exn (pr_of_data d))))))))"

definition handle_review_blocked :: "build_env \<Rightarrow> string \<Rightarrow> string \<Rightarrow> (build_files, unit) eff" where
  "handle_review_blocked v pr reason =
     andthen (look (\<lambda>s. (map_of (bs_prs s Drafted) pr \<noteq> None, build_read_json pr (bs_prs s Drafted)))) (\<lambda>(there, old).
     andthen (only_if there (put_pr Drafted pr (with_key ''block_reason'' (JStr reason) (with_key ''status'' (JStr ''blocked'') old)))) (\<lambda>_.
     andthen (log_pr v ''review_blocked'' pr [(''reason'', JStr reason)]) (\<lambda>_.
     log_build v ''pr_blocked'' pr ''blocked'' [(''reason'', JStr reason)])))"

text \<open>\<open>detect_conflicts\<close> reads \<^verbatim>\<open>head.ref\<close> and \<^verbatim>\<open>files\<close> of what the client lists.\<close>

definition detect_conflicts :: "build_env \<Rightarrow> string \<Rightarrow> string list \<Rightarrow> json dict list \<Rightarrow> string list" where
  "detect_conflicts v branch files prs =
     concat (map (\<lambda>p. (let b = (case map_of p ''head'' of Some (JObj h) \<Rightarrow> get_str h ''ref'' [] | _ \<Rightarrow> []);
           fs = (case map_of p ''files'' of Some (JList l) \<Rightarrow> l | _ \<Rightarrow> []) in
         if b = branch then []
         else if list_ex (\<lambda>f. JStr f \<in> set fs) files
         then [''PR #'' @ py_text (bv_str v) (json_get p ''number'' (JStr ''?'')) @ '' ('' @ b @ '')''] else [])) prs)"

text \<open>\<open>get_open_pull_requests\<close> of the client: the branch is \<^verbatim>\<open>headRefName\<close> there, and there are no files.\<close>

definition listed_pr :: "json dict \<Rightarrow> json dict" where
  "listed_pr p =
     [(''number'', json_get p ''number'' JNull), (''title'', json_get p ''title'' JNull),
      (''author'', JObj [(''login'', case map_of p ''user'' of Some (JObj u) \<Rightarrow> json_get u ''login'' JNull | _ \<Rightarrow> JNull)]),
      (''createdAt'', json_get p ''created_at'' JNull), (''updatedAt'', json_get p ''updated_at'' JNull), (''labels'', json_get p ''labels'' (JList [])),
      (''url'', json_get p ''html_url'' JNull),
      (''headRefName'', case map_of p ''head'' of Some (JObj h) \<Rightarrow> json_get h ''ref'' JNull | _ \<Rightarrow> JNull),
      (''baseRefName'', case map_of p ''base'' of Some (JObj b) \<Rightarrow> json_get b ''ref'' JNull | _ \<Rightarrow> JNull),
      (''mergeable'', json_get p ''mergeable'' JNull)]"

definition pr_conflicts :: "build_env \<Rightarrow> string \<Rightarrow> string list \<Rightarrow> (build_files, string list) eff" where
  "pr_conflicts v branch files =
     github v ''get_open_pull_requests'' (ok []) (ok (detect_conflicts v branch files (map listed_pr (bv_open_prs v))))"

chapter \<open>Deployments and sprint plans\<close>

text \<open>
  \<^verbatim>\<open>milimo-core/src/milimo_core/build/deploy_manager.py\<close> and \<^verbatim>\<open>issue_manager.py\<close>: deployments with their lock, and issues
  with the sprint plans made of them.
\<close>

section \<open>Deployments\<close>

record deploy_record =
  dp_id :: string
  dp_pr :: string
  dp_version :: string
  dp_target :: string
  dp_status :: string
  dp_hold :: "string option"
  dp_staged :: int

definition deploy_to_dict :: "deploy_record \<Rightarrow> json dict" where
  "deploy_to_dict r =
     [(''deploy_id'', JStr (dp_id r)), (''pr_id'', JStr (dp_pr r)), (''version'', JStr (dp_version r)), (''deploy_target'', JStr (dp_target r)),
      (''status'', JStr (dp_status r)), (''hold_action_id'', json_opt JStr (dp_hold r)), (''deploy_url'', JNull), (''staged_at'', JInt (dp_staged r)),
      (''deployed_at'', JNull), (''error_message'', JNull)]"

definition deploy_of_data :: "json dict \<Rightarrow> py_exn + json dict" where
  "deploy_of_data = from_kwargs ''DeployRecord'' [''deploy_id'', ''pr_id'', ''version'', ''deploy_target'', ''status'']
     [''hold_action_id'', ''deploy_url'', ''staged_at'', ''deployed_at'', ''error_message'']"

definition stage_deployment :: "build_env \<Rightarrow> pr_record \<Rightarrow> (build_files, deploy_record) eff" where
  "stage_deployment v p =
     andthen (build_hex v 8) (\<lambda>h.
       (let d = \<lparr>dp_id = ''deploy-'' @ h, dp_pr = pr_id p, dp_version = ''v'' @ py_str_int (pr_issue p) @ ''.'' @ bv_stamp v ''%Y%m%d%H%M%S'',
                 dp_target = ''vercel'', dp_status = ''staged'', dp_hold = None, dp_staged = bv_now v\<rparr> in
        andthen (put_deploy PendingDeploys (dp_id d) (deploy_to_dict d)) (\<lambda>_.
        andthen (queue_deploy_hold v (dp_id d) (dp_version d) (dp_target d) [pr_title p]) (\<lambda>aid.
        andthen (put_deploy PendingDeploys (dp_id d) (deploy_to_dict (d\<lparr>dp_hold := Some aid\<rparr>))) (\<lambda>_.
        andthen (log_deploy v ''staged'' (dp_id d) [(''version'', JStr (dp_version d))]) (\<lambda>_.
        andthen (log_build v ''deployment_staged'' (dp_id d) ''success'' [(''version'', JStr (dp_version d)), (''pr_id'', JStr (dp_pr d))]) (\<lambda>_.
        ok (d\<lparr>dp_hold := Some aid\<rparr>))))))))"

text \<open>
  The lock file of a pull request holds the number of a process, or what is none. Taking it: a lock whose process is alive is an
  error, any other is removed. Nothing else runs between this and the making of the new file.
\<close>

definition take_deploy_lock :: "build_env \<Rightarrow> string \<Rightarrow> (build_files, unit) eff" where
  "take_deploy_lock v pr =
     andthen (look (\<lambda>s. map_of (bs_locks s) pr)) (\<lambda>found. case found of
       Some (Some pid) \<Rightarrow>
         if bv_alive v pid
         then throw ''RuntimeError'' (''Deployment for PR '' @ pr @ '' is already in progress by PID '' @ py_str_int pid)
         else upd (bs_locks_update (AList.update pr (Some (bv_pid v))))
     | _ \<Rightarrow> upd (bs_locks_update (AList.update pr (Some (bv_pid v)))))"

definition drop_deploy_lock :: "string \<Rightarrow> (build_files, unit) eff" where
  "drop_deploy_lock pr = upd (bs_locks_update (AList.delete pr))"

text \<open>\<open>try: ... finally\<close>: the cleaning up, then the result or the exception.\<close>

definition finally_do :: "('s, 'a) eff \<Rightarrow> ('s, unit) eff \<Rightarrow> ('s, 'a) eff" where
  "finally_do m c = andthen (attempt (andthen m (\<lambda>a. ok (Inr a))) (\<lambda>e. ok (Inl e))) (\<lambda>r. andthen c (\<lambda>_. lift_exn r))"

text \<open>
  The hosting service: the address and the state asked for right after. The stub answers the trigger with an empty text, which has no
  method \<^verbatim>\<open>get\<close>; without a client the deployment counts as ready.
\<close>

definition deploy_now :: "build_env \<Rightarrow> (build_files, string \<times> string) eff" where
  "deploy_now v = (case bv_hosting v of
       NoClient \<Rightarrow> ok ([], ''ready'')
     | StubClient \<Rightarrow> throw ''AttributeError'' ''str object has no attribute get''
     | RealClient \<Rightarrow>
         andthen (lift_exn (bv_trigger v)) (\<lambda>url.
         andthen (called TriggerDeployment) (\<lambda>_.
         andthen (lift_exn (bv_ready v)) (\<lambda>st. ok (url, st)))))"

definition deploy_done :: "build_env \<Rightarrow> string \<Rightarrow> json dict \<Rightarrow> string \<Rightarrow> (build_files, json dict) eff" where
  "deploy_done v i old url =
     (let d = with_key ''deploy_url'' (JStr url) (with_key ''deployed_at'' (JInt (bv_now v)) (with_key ''status'' (JStr ''deployed'') old)) in
      andthen (put_deploy DeployHistory i d) (\<lambda>_.
      andthen (drop_deploy PendingDeploys i) (\<lambda>_.
      andthen (send_deploy_complete v (json_get d ''pr_id'' (JStr [])) url (json_get d ''version'' (JStr []))) (\<lambda>_.
      andthen (log_deploy v ''deployed'' i [(''url'', JStr url)]) (\<lambda>_.
      andthen (log_build v ''deployment_completed'' i ''success'' [(''deploy_url'', JStr url)]) (\<lambda>_.
      lift_exn (deploy_of_data d)))))))"

definition deploy_failed :: "build_env \<Rightarrow> string \<Rightarrow> json dict \<Rightarrow> string \<Rightarrow> (build_files, json dict) eff" where
  "deploy_failed v i old st =
     (let d = with_key ''error_message'' (JStr (''Deployment status: '' @ st)) (with_key ''status'' (JStr ''failed'') old) in
      andthen (put_deploy PendingDeploys i d) (\<lambda>_.
      andthen (log_deploy v ''failed'' i [(''status'', JStr st)]) (\<lambda>_.
      andthen (log_build v ''deployment_failed'' i ''failed'' [(''status'', JStr st)]) (\<lambda>_.
      lift_exn (deploy_of_data d)))))"

definition handle_deploy_hold_released :: "build_env \<Rightarrow> string \<Rightarrow> (build_files, json dict) eff" where
  "handle_deploy_hold_released v i =
     andthen (look (\<lambda>s. (map_of (bs_deploys s PendingDeploys) i \<noteq> None, build_read_json i (bs_deploys s PendingDeploys)))) (\<lambda>(there, old).
       if \<not> there then
         andthen (look (\<lambda>s. (map_of (bs_deploys s DeployHistory) i \<noteq> None, build_read_json i (bs_deploys s DeployHistory)))) (\<lambda>(past, d).
           if past then lift_exn (deploy_of_data d) else throw ''ValueError'' (''Deploy '' @ i @ '' not found in pending/''))
       else (let pr = py_text (bv_str v) (json_get old ''pr_id'' (JStr [])) in
         andthen (take_deploy_lock v pr) (\<lambda>_.
         andthen (finally_do (deploy_now v) (drop_deploy_lock pr)) (\<lambda>(url, st).
           if st = ''ready'' \<or> st = ''success'' then deploy_done v i old url else deploy_failed v i old st))))"

definition handle_deploy_hold_cancelled :: "build_env \<Rightarrow> string \<Rightarrow> (build_files, unit) eff" where
  "handle_deploy_hold_cancelled v i =
     andthen (look (\<lambda>s. (map_of (bs_deploys s PendingDeploys) i \<noteq> None, build_read_json i (bs_deploys s PendingDeploys)))) (\<lambda>(there, old).
     andthen (only_if there (put_deploy PendingDeploys i (with_key ''status'' (JStr ''cancelled'') old))) (\<lambda>_.
     andthen (log_deploy v ''cancelled'' i []) (\<lambda>_.
     log_build v ''deployment_cancelled'' i ''cancelled'' [])))"

section \<open>Issues\<close>

definition RATE_LIMIT_BACKOFF_SECONDS :: "int list" where "RATE_LIMIT_BACKOFF_SECONDS = [30, 60, 120]"

text \<open>The attempts that are left and the number of the next; sleeping changes nothing.\<close>

fun fetch_attempts :: "build_env \<Rightarrow> nat \<Rightarrow> nat \<Rightarrow> (build_files, json dict list) eff" where
  "fetch_attempts v 0 n = ok []"
| "fetch_attempts v (Suc k) n =
     (case bv_issues v n of
        Inr issues \<Rightarrow> andthen (log_build v ''issues_fetched'' ''github'' ''success'' [(''count'', JInt (int (length issues)))]) (\<lambda>_. ok issues)
      | Inl e \<Rightarrow> if py_in ''rate limit'' (py_lower (exn_text e)) then (if k = 0 then ok [] else fetch_attempts v k (Suc n)) else lift_exn (Inl e))"

text \<open>The stub lists no issue; the log says so.\<close>

definition fetch_open_issues :: "build_env \<Rightarrow> (build_files, json dict list) eff" where
  "fetch_open_issues v = (case bv_github v of
       NoClient \<Rightarrow> throw ''AttributeError'' ''NoneType object has no attribute get_open_issues''
     | StubClient \<Rightarrow> andthen (log_build v ''issues_fetched'' ''github'' ''success'' [(''count'', JInt 0)]) (\<lambda>_. ok [])
     | RealClient \<Rightarrow> fetch_attempts v (length RATE_LIMIT_BACKOFF_SECONDS) 0)"

text \<open>The first two words of the answer; a second one that is no number counts like no answer.\<close>

definition upper_char :: "char \<Rightarrow> char" where
  "upper_char c = (let n = of_char c :: nat in if 97 \<le> n \<and> n \<le> 122 then char_of (n - 32) else c)"

definition tier_and_hours :: "build_env \<Rightarrow> (build_files, string \<times> rat) eff" where
  "tier_and_hours v =
     attempt (andthen (build_ask v ''issue_complexity_scoring'') (\<lambda>t. case py_words t of
         [] \<Rightarrow> ok (''M'', 8)
       | [w] \<Rightarrow> ok (map upper_char w, 8)
       | w # h # _ \<Rightarrow> (case bv_float v h of Some x \<Rightarrow> ok (map upper_char w, x) | None \<Rightarrow> throw ''ValueError'' h)))
       (\<lambda>_. ok (''M'', 8))"

definition score_issue_complexity :: "build_env \<Rightarrow> json dict \<Rightarrow> (build_files, complexity_score) eff" where
  "score_issue_complexity v issue =
     (case json_get issue ''body'' (JStr []) of
        JStr body \<Rightarrow>
          (let acceptance = py_in ''acceptance criteria'' (py_lower body); described = 50 < length body;
               n = get_int issue ''number'' 0 in
           andthen (tier_and_hours v) (\<lambda>(tier, hours).
             (let c = \<lparr>cx_issue = n, cx_title = get_str issue ''title'' [], cx_tier = tier, cx_hours = hours,
                       cx_clarity = (if acceptance \<and> described then ''clear'' else ''low''),
                       cx_missing = (if described then [] else [''description'']) @ (if acceptance then [] else [''acceptance_criteria''])\<rparr> in
              andthen (log_build v ''issue_scored'' (py_str_int n) ''success''
                [(''tier'', JStr tier), (''hours'', JFloat hours), (''clarity'', JStr (cx_clarity c))]) (\<lambda>_. ok c))))
      | _ \<Rightarrow> throw ''AttributeError'' ''NoneType object has no attribute lower'')"

definition is_question :: "json dict \<Rightarrow> bool" where
  "is_question issue \<longleftrightarrow> (case map_of issue ''labels'' of
     Some (JList l) \<Rightarrow> list_ex (\<lambda>x. case x of JObj d \<Rightarrow> json_get d ''name'' (JStr []) = JStr ''question'' | _ \<Rightarrow> False) l | _ \<Rightarrow> False)"

definition scored_issue :: "complexity_score \<Rightarrow> json dict" where
  "scored_issue c =
     [(''issue_number'', JInt (cx_issue c)), (''title'', JStr (cx_title c)), (''complexity_tier'', JStr (cx_tier c)),
      (''estimated_hours'', JFloat (cx_hours c)), (''clarity_score'', JStr (cx_clarity c))]"

text \<open>The plan: its identifier, and the issues with their sizes. Waiting for signals changes nothing of it.\<close>

definition generate_sprint_plan :: "build_env \<Rightarrow> (build_files, string \<times> complexity_score list) eff" where
  "generate_sprint_plan v =
     andthen (fetch_open_issues v) (\<lambda>issues.
     andthen (collect issues (\<lambda>i. if is_question i then ok [] else andthen (score_issue_complexity v i) (\<lambda>c. ok [c]))) (\<lambda>cs.
       (let i = ''sprint-'' @ bv_stamp v ''%Y%m%d''; hours = sum_list (map cx_hours cs); js = map (\<lambda>c. JObj (scored_issue c)) cs in
        andthen (upd (bs_plan_update (\<lambda>_. Some
          [(''plan_id'', JStr i), (''generated_at'', JInt (bv_now v)), (''approved_at'', JNull), (''issues'', JList js),
           (''total_estimated_hours'', JFloat hours), (''status'', JStr ''pending_review'')]))) (\<lambda>_.
        andthen (queue_sprint_plan_review v i js hours) (\<lambda>_.
        andthen (log_build v ''sprint_plan_generated'' i ''success'' [(''issue_count'', JInt (int (length cs))), (''total_hours'', JFloat hours)]) (\<lambda>_.
        ok (i, cs)))))))"

definition plan_data :: "build_files \<Rightarrow> json dict" where
  "plan_data s = (case bs_plan s of None \<Rightarrow> [] | Some d \<Rightarrow> d)"

definition handle_sprint_plan_approved :: "build_env \<Rightarrow> string \<Rightarrow> (build_files, json option) eff" where
  "handle_sprint_plan_approved v i =
     andthen (look plan_data) (\<lambda>d.
       if map_of d ''plan_id'' \<noteq> Some (JStr i) then ok None
       else (let e = with_key ''approved_at'' (JInt (bv_now v)) (with_key ''status'' (JStr ''approved'') d) in
         andthen (upd (bs_plan_update (\<lambda>_. Some e))) (\<lambda>_.
         ok (case map_of e ''issues'' of Some (JList (x # _)) \<Rightarrow> Some x | _ \<Rightarrow> None))))"

text \<open>The velocity file; without a list of sprints it starts anew.\<close>

definition velocity_data :: "build_files \<Rightarrow> json dict" where
  "velocity_data s = (case bs_velocity s of
       Some d \<Rightarrow> if map_of d ''sprints'' \<noteq> None then d
         else [(''sprints'', JList []), (''avg_hours_per_week'', JInt 0), (''estimation_accuracy_pct'', JInt 0)]
     | None \<Rightarrow> [(''sprints'', JList []), (''avg_hours_per_week'', JInt 0), (''estimation_accuracy_pct'', JInt 0)])"

fun hours_sum :: "string \<Rightarrow> json list \<Rightarrow> rat option" where
  "hours_sum k [] = Some 0"
| "hours_sum k (JObj d # l) = (case (map_of d k, hours_sum k l) of
     (Some (JFloat r), Some t) \<Rightarrow> Some (r + t) | (Some (JInt n), Some t) \<Rightarrow> Some (of_int n + t) | _ \<Rightarrow> None)"
| "hours_sum k (_ # l) = None"

definition accuracy_pct :: "rat \<Rightarrow> rat \<Rightarrow> rat" where
  "accuracy_pct actual estimated = (1 - abs (actual - estimated) / estimated) * 100"

definition update_velocity :: "build_env \<Rightarrow> rat \<Rightarrow> rat \<Rightarrow> string \<Rightarrow> (build_files, unit) eff" where
  "update_velocity v estimated actual sprint =
     andthen (look velocity_data) (\<lambda>d.
       (let old = (case map_of d ''sprints'' of Some (JList l) \<Rightarrow> l | _ \<Rightarrow> []);
            l = old @ [JObj [(''sprint_id'', JStr sprint), (''estimated_hours'', JFloat estimated), (''actual_hours'', JFloat actual),
                             (''completed_at'', JInt (bv_now v))]] in
        case (hours_sum ''actual_hours'' l, hours_sum ''estimated_hours'' l) of
          (Some a, Some e) \<Rightarrow>
            (let avg = a / of_nat (length l); d1 = with_key ''avg_hours_per_week'' (JFloat avg) (with_key ''sprints'' (JList l) d);
                 d2 = (if 0 < e then with_key ''estimation_accuracy_pct'' (JFloat (accuracy_pct a e)) d1 else d1) in
             andthen (upd (bs_velocity_update (\<lambda>_. Some d2))) (\<lambda>_.
             log_build v ''velocity_updated'' sprint ''success''
               [(''estimated'', JFloat estimated), (''actual'', JFloat actual), (''avg_hours'', JFloat avg)]))
        | _ \<Rightarrow> throw ''KeyError'' ''hours''))"

definition issue_for_brief :: "build_env \<Rightarrow> string \<Rightarrow> string \<Rightarrow> string \<Rightarrow> string \<Rightarrow> (build_files, unit) eff" where
  "issue_for_brief v client project feature deadline =
     andthen (case bv_iso v deadline of
         Some t \<Rightarrow> only_if (t - bv_now v < 3 * DAY) (log_build v ''deadline_risk_flagged'' project ''warning''
           [(''deadline'', JStr deadline), (''days_remaining'', JFloat (of_int (round_half_even (of_int (t - bv_now v) / of_int DAY * 10)) / 10)),
            (''severity'', JStr ''high'')])
       | None \<Rightarrow> ok ()) (\<lambda>_.
     andthen (attempt (github v ''create_issue'' (ok 0)
         (andthen (called (CreateIssue (''Feature Brief: '' @ take 80 feature))) (\<lambda>_. ok (bv_issue_number v)))) (\<lambda>_. ok 0)) (\<lambda>n.
     log_build v ''feature_brief_processed'' project ''success'' [(''client_id'', JStr client), (''issue_number'', JInt n)]))"

end
