(* ===== verification/Build_Watch.thy ===== *)
theory Build_Watch
  imports Build_Flow Payments
begin

text \<open>
  \<^verbatim>\<open>milimo-core/src/milimo_core/build/error_monitor.py\<close>, \<^verbatim>\<open>cost_monitor.py\<close>, \<^verbatim>\<open>dependency_auditor.py\<close> and
  \<^verbatim>\<open>doc_maintainer.py\<close>: the passes over errors, costs and dependencies, and the documents of the week.
\<close>

section \<open>Errors\<close>

record error_event =
  ee_id :: string
  ee_type :: string
  ee_message :: json
  ee_count :: int

definition event_severity :: "error_event \<Rightarrow> int" where
  "event_severity e = min 5 (ee_count e)"

record error_pattern =
  ep_id :: string
  ep_cause :: string
  ep_fix :: string
  ep_applied :: int
  ep_rate :: json

definition error_pattern_to_dict :: "error_pattern \<Rightarrow> json dict" where
  "error_pattern_to_dict p = [(''pattern_id'', JStr (ep_id p)), (''root_cause'', JStr (ep_cause p)), (''fix_template'', JStr (ep_fix p)),
     (''times_applied'', JInt (ep_applied p)), (''success_rate'', ep_rate p)]"

definition error_pattern_of_dict :: "json dict \<Rightarrow> error_pattern" where
  "error_pattern_of_dict d = \<lparr>ep_id = get_str d ''pattern_id'' [], ep_cause = get_str d ''root_cause'' [], ep_fix = get_str d ''fix_template'' [],
     ep_applied = get_int d ''times_applied'' 0, ep_rate = json_get d ''success_rate'' (JFloat 0)\<rparr>"

lemma error_pattern_of_to_dict [simp]: "error_pattern_of_dict (error_pattern_to_dict p) = p"
  by (simp add: error_pattern_of_dict_def error_pattern_to_dict_def get_str_def get_int_def json_get_def)

text \<open>What \<open>get_recent_errors\<close> of the Sentry client makes of an event.\<close>

definition listed_error :: "json dict \<Rightarrow> json dict" where
  "listed_error e =
     [(''event_id'', json_get e ''event_id'' JNull), (''title'', json_get e ''title'' JNull), (''message'', json_get e ''message'' JNull),
      (''timestamp'', json_get e ''timestamp'' JNull), (''level'', json_get e ''level'' JNull), (''url'', json_get e ''url'' JNull)]"

text \<open>An event of the last 24 hours; one whose time cannot be read is left out.\<close>

definition event_recent :: "build_env \<Rightarrow> json dict \<Rightarrow> bool" where
  "event_recent v e = (case json_get e ''timestamp'' JNull of
       JStr t \<Rightarrow> (case bv_iso v (py_replace ''Z'' ''+00:00'' t) of Some x \<Rightarrow> bv_now v - DAY \<le> x | None \<Rightarrow> False)
     | _ \<Rightarrow> False)"

definition recent_errors :: "build_env \<Rightarrow> (build_files, json dict list) eff" where
  "recent_errors v = (case bv_sentry v of
       NoClient \<Rightarrow> throw ''AttributeError'' ''NoneType object has no attribute get_recent_errors''
     | StubClient \<Rightarrow> ok []
     | RealClient \<Rightarrow> andthen (lift_exn (bv_events v)) (\<lambda>es. ok (map listed_error (filter (event_recent v) es))))"

definition error_of_dict :: "json dict \<Rightarrow> error_event" where
  "error_of_dict e = \<lparr>ee_id = get_str e ''id'' [], ee_type = get_str e ''type'' ''Unknown'', ee_message = json_get e ''message'' (JStr []),
     ee_count = get_int e ''count'' 1\<rparr>"

text \<open>The groups in the order of their first errors.\<close>

definition group_by_root_cause :: "error_event list \<Rightarrow> (string \<times> error_event list) list" where
  "group_by_root_cause es = map (\<lambda>c. (c, filter (\<lambda>e. ee_type e = c) es)) (rev (remdups (rev (map ee_type es))))"

definition load_known_pattern :: "string \<Rightarrow> build_files \<Rightarrow> error_pattern option" where
  "load_known_pattern cause s =
     find (\<lambda>p. ep_cause p = cause) (concat (map (\<lambda>(_, f). case f of None \<Rightarrow> [] | Some d \<Rightarrow> [error_pattern_of_dict d]) (bs_patterns s)))"

definition save_new_pattern :: "build_env \<Rightarrow> string \<Rightarrow> error_event list \<Rightarrow> (build_files, unit) eff" where
  "save_new_pattern v cause es =
     (let i = ''error-'' @ bv_stamp v ''%Y%m%d%H%M%S'' in
      andthen (upd (bs_active_update (AList.update i (Some
        [(''group_id'', JStr i), (''root_cause'', JStr cause), (''error_count'', JInt (int (length es))), (''first_seen'', JInt (bv_now v)),
         (''messages'', JList (map ee_message (take 5 es)))])))) (\<lambda>_.
      andthen (queue_pr_review v i (''Investigate '' @ cause @ '' errors'') (''fix/'' @ i) 0 0 ''unknown'' 0 []) (\<lambda>_.
      log_build v ''new_error_pattern'' i ''queued'' [(''root_cause'', JStr cause), (''count'', JInt (int (length es)))])))"

definition auto_draft_pattern_fix :: "build_env \<Rightarrow> error_pattern \<Rightarrow> (build_files, unit) eff" where
  "auto_draft_pattern_fix v p =
     (let q = p\<lparr>ep_applied := ep_applied p + 1\<rparr> in
      andthen (upd (bs_patterns_update (AList.update (ep_id q) (Some (error_pattern_to_dict q))))) (\<lambda>_.
      log_build v ''pattern_fix_applied'' (ep_id q) ''success'' [(''root_cause'', JStr (ep_cause q)), (''times_applied'', JInt (ep_applied q))]))"

definition run_monitoring_pass :: "build_env \<Rightarrow> (build_files, json dict list) eff" where
  "run_monitoring_pass v =
     andthen (recent_errors v) (\<lambda>raw.
       (let groups = group_by_root_cause (map error_of_dict raw) in
        andthen (collect groups (\<lambda>(cause, es).
          andthen (look (load_known_pattern cause)) (\<lambda>known. case known of
            Some p \<Rightarrow> andthen (auto_draft_pattern_fix v p) (\<lambda>_.
              ok [[(''root_cause'', JStr cause), (''status'', JStr ''pattern_matched''), (''error_count'', JInt (int (length es))),
                   (''pattern_id'', JStr (ep_id p))]])
          | None \<Rightarrow> andthen (save_new_pattern v cause es) (\<lambda>_.
              ok [[(''root_cause'', JStr cause), (''status'', JStr ''new_pattern''), (''error_count'', JInt (int (length es)))]])))) (\<lambda>rs.
        andthen (log_build v ''error_monitoring_pass'' ''monitoring'' ''success'' [(''groups'', JInt (int (length rs)))]) (\<lambda>_.
        ok rs))))"

definition promote_to_known_pattern :: "build_env \<Rightarrow> string \<Rightarrow> string \<Rightarrow> (build_files, unit) eff" where
  "promote_to_known_pattern v i fix_text =
     andthen (look (\<lambda>s. (map_of (bs_active s) i \<noteq> None, build_read_json i (bs_active s)))) (\<lambda>(there, d).
       only_if there
         (let p = \<lparr>ep_id = i, ep_cause = get_str d ''root_cause'' ''Unknown'', ep_fix = fix_text, ep_applied = 0, ep_rate = JFloat 0\<rparr> in
          andthen (upd (\<lambda>s. s\<lparr>bs_patterns := AList.update i (Some (error_pattern_to_dict p)) (bs_patterns s), bs_active := AList.delete i (bs_active s)\<rparr>)) (\<lambda>_.
          log_build v ''pattern_promoted'' i ''success'' [(''root_cause'', JStr (ep_cause p))])))"

section \<open>Costs\<close>

definition DRIFT_THRESHOLD :: rat where "DRIFT_THRESHOLD = 15 / 100"

definition round4 :: "rat \<Rightarrow> rat" where
  "round4 r = of_int (round_half_even (r * 10000)) / 10000"

text \<open>The costs on record that are greater than nothing; a line that is no JSON is skipped.\<close>

definition positive_costs :: "json dict option list \<Rightarrow> rat list" where
  "positive_costs ls = concat (map (\<lambda>l. case l of None \<Rightarrow> [] | Some d \<Rightarrow>
     (case json_get d ''total_cost_usd'' (JFloat 0) of
        JFloat r \<Rightarrow> if 0 < r then [r] else [] | JInt n \<Rightarrow> if 0 < n then [of_int n] else [] | _ \<Rightarrow> [])) ls)"

definition calculate_baseline :: "build_files \<Rightarrow> rat" where
  "calculate_baseline s = (let costs = positive_costs (bs_costs s); last4 = drop (length costs - 4) costs in
     if last4 = [] then 0 else sum_list last4 / of_nat (length last4))"

definition cost_drift :: "rat \<Rightarrow> rat \<Rightarrow> rat" where
  "cost_drift cost base = (if 0 < base then abs (cost - base) / base else 0)"

record cost_check =
  ck_total :: rat
  ck_baseline :: rat
  ck_drift :: rat
  ck_alert :: bool

definition run_daily_check :: "build_env \<Rightarrow> (build_files, cost_check) eff" where
  "run_daily_check v =
     andthen (lift_exn (bv_usage v)) (\<lambda>u.
     andthen (look calculate_baseline) (\<lambda>base.
       (let cost = (case json_get u ''total_cost_usd'' (JFloat 0) of JFloat r \<Rightarrow> r | JInt n \<Rightarrow> of_int n | _ \<Rightarrow> 0);
            drift = cost_drift cost base; alert = (DRIFT_THRESHOLD < drift) in
        andthen (upd (bs_costs_update (\<lambda>l. l @ [Some
          [(''week_of'', JStr (bv_stamp v ''%Y-W%W'')), (''total_cost_usd'', JFloat cost), (''total_tokens'', json_get u ''total_tokens'' (JInt 0)),
           (''cost_by_model'', json_get u ''cost_by_model'' (JObj [])), (''calls_by_data_type'', json_get u ''calls_by_data_type'' (JObj [])),
           (''baseline_cost_usd'', JFloat base), (''drift_pct'', JFloat (round4 drift))]]))) (\<lambda>_.
        andthen (only_if alert (upd (bs_alerts_update (\<lambda>l. l @
          [[(''timestamp'', JInt (bv_now v)), (''total_cost_usd'', JFloat cost), (''baseline_cost_usd'', JFloat base),
            (''drift_pct'', JFloat (round4 drift)), (''alert'', JBool True)]])))) (\<lambda>_.
        andthen (log_build v ''cost_daily_check'' ''cost-monitoring'' (if alert then ''alert'' else ''ok'')
          [(''total_cost'', JFloat cost), (''baseline'', JFloat base), (''drift_pct'', JFloat (round4 drift))]) (\<lambda>_.
        ok \<lparr>ck_total = cost, ck_baseline = base, ck_drift = drift, ck_alert = alert\<rparr>))))))"

section \<open>Dependencies\<close>

record vulnerability =
  vn_package :: json
  vn_version :: json
  vn_patched :: json
  vn_severity :: json
  vn_cve :: json
  vn_fix :: json

definition of_dependabot :: "json dict \<Rightarrow> vulnerability" where
  "of_dependabot a = \<lparr>vn_package = json_get a ''package'' (JStr ''unknown''), vn_version = json_get a ''current_version'' (JStr ''unknown''),
     vn_patched = json_get a ''patched_version'' JNull, vn_severity = json_get a ''severity'' (JStr ''medium''), vn_cve = json_get a ''cve_id'' JNull,
     vn_fix = json_get a ''fix_complexity'' (JStr ''simple'')\<rparr>"

definition of_scanning :: "json dict \<Rightarrow> vulnerability" where
  "of_scanning a = \<lparr>vn_package = json_get a ''tool'' (JStr ''code-scanning''), vn_version = JStr [], vn_patched = JNull,
     vn_severity = json_get a ''severity'' (JStr ''medium''), vn_cve = json_get a ''cve_id'' JNull,
     vn_fix = json_get a ''fix_complexity'' (JStr ''simple'')\<rparr>"

definition is_simple :: "vulnerability \<Rightarrow> bool" where
  "is_simple x \<longleftrightarrow> vn_fix x = JStr ''simple''"

definition auto_draft_security_pr :: "build_env \<Rightarrow> vulnerability list \<Rightarrow> (build_files, string option) eff" where
  "auto_draft_security_pr v xs =
     (let fixes = filter is_simple xs; i = ''security-'' @ bv_stamp v ''%Y%m%d'' in
      if fixes = [] then ok None
      else andthen (queue_security_pr v i
          (map (\<lambda>x. JObj [(''package'', vn_package x), (''current_version'', vn_version x), (''patched_version'', vn_patched x),
             (''severity'', vn_severity x), (''cve_id'', vn_cve x)]) fixes)
          (''Security update: '' @ py_str_int (int (length fixes)) @ '' vulnerabilities'')) (\<lambda>aid.
        andthen (log_build v ''security_pr_queued'' i ''queued'' [(''vuln_count'', JInt (int (length fixes))), (''action_id'', JStr aid)]) (\<lambda>_.
        ok (Some aid))))"

definition queue_manual_investigation :: "build_env \<Rightarrow> vulnerability \<Rightarrow> (build_files, string) eff" where
  "queue_manual_investigation v x =
     (let n = py_text (bv_str v) (vn_package x); i = ''dep-review-'' @ n @ ''-'' @ bv_stamp v ''%Y%m%d'' in
      andthen (queue_dependency_review v i
        [JObj [(''package'', vn_package x), (''current_version'', vn_version x), (''patched_version'', vn_patched x), (''severity'', vn_severity x),
               (''cve_id'', vn_cve x), (''complexity'', JStr ''breaking_change'')]]
        (''Manual investigation needed: '' @ n @ '' '' @ py_text (bv_str v) (vn_severity x))) (\<lambda>aid.
      andthen (log_build v ''dependency_review_queued'' i ''queued'' [(''package'', vn_package x)]) (\<lambda>_. ok aid)))"

definition queue_no_fix_review :: "build_env \<Rightarrow> vulnerability \<Rightarrow> (build_files, string) eff" where
  "queue_no_fix_review v x =
     (let n = py_text (bv_str v) (vn_package x); i = ''no-fix-'' @ n in
      andthen (queue_dependency_review v i
        [JObj [(''package'', vn_package x), (''severity'', vn_severity x), (''cve_id'', vn_cve x), (''complexity'', JStr ''no_fix'')]]
        (''No fix available: '' @ n @ '' ('' @ py_text (bv_str v) (vn_severity x) @ '')'')) (\<lambda>aid.
      andthen (log_build v ''no_fix_review_queued'' i ''queued'' [(''package'', vn_package x)]) (\<lambda>_. ok aid)))"

record audit_result =
  au_found :: "vulnerability list"
  au_critical :: nat
  au_high :: nat
  au_medium :: nat
  au_low :: nat

definition count_severity :: "string \<Rightarrow> vulnerability list \<Rightarrow> nat" where
  "count_severity t xs = length (filter (\<lambda>x. vn_severity x = JStr t) xs)"

text \<open>The client answers a failed request with an empty list.\<close>

definition run_full_audit :: "build_env \<Rightarrow> (build_files, audit_result) eff" where
  "run_full_audit v =
     andthen (case bv_github v of
         NoClient \<Rightarrow> throw ''AttributeError'' ''NoneType object has no attribute get_dependabot_alerts''
       | StubClient \<Rightarrow> ok ([], []) | RealClient \<Rightarrow> ok (bv_vulnerable v, bv_scanning v)) (\<lambda>(bot, scan).
       (let xs = map of_dependabot bot @ map of_scanning scan in
        andthen (for_each xs (\<lambda>x.
          if is_simple x then ok ()
          else if vn_fix x = JStr ''breaking_change'' then andthen (queue_manual_investigation v x) (\<lambda>_. ok ())
          else if vn_fix x = JStr ''no_fix'' then andthen (queue_no_fix_review v x) (\<lambda>_. ok ())
          else ok ())) (\<lambda>_.
        andthen (only_if (filter is_simple xs \<noteq> []) (andthen (auto_draft_security_pr v (filter is_simple xs)) (\<lambda>_. ok ()))) (\<lambda>_.
        ok \<lparr>au_found = xs, au_critical = count_severity ''critical'' xs, au_high = count_severity ''high'' xs,
            au_medium = count_severity ''medium'' xs, au_low = count_severity ''low'' xs\<rparr>))))"

section \<open>Documents\<close>

definition update_changelog :: "build_env \<Rightarrow> string \<Rightarrow> string \<Rightarrow> string \<Rightarrow> (build_files, string) eff" where
  "update_changelog v title number ptype =
     andthen (build_ask v ''changelog_generation'') (\<lambda>text.
       (let entry = [CHR 0x0A] @ ''## '' @ bv_stamp v ''%Y-%m-%d'' @ [CHR 0x0A, CHR 0x0A] @ text @ [CHR 0x0A] in
        andthen (upd (bs_changelog_update (\<lambda>c. Some (case c of
          Some old \<Rightarrow> entry @ old | None \<Rightarrow> ''# Changelog'' @ [CHR 0x0A] @ entry)))) (\<lambda>_.
        andthen (log_build v ''changelog_updated'' (''pr-'' @ number) ''success'' [(''pr_title'', JStr title), (''pr_type'', JStr ptype)]) (\<lambda>_.
        ok (''CHANGELOG.md updated with PR #'' @ number)))))"

definition nl :: string where "nl = [CHR 0x0A]"

definition entries_of :: "string \<Rightarrow> build_entry list \<Rightarrow> build_entry list" where
  "entries_of atype es = filter (\<lambda>e. be_action e = atype) es"

definition devlog_text :: "build_env \<Rightarrow> build_entry list \<Rightarrow> string" where
  "devlog_text v es =
     (let merged = entries_of ''pr_merged'' es; deploys = entries_of ''deploy_completed'' es; issues = entries_of ''issue_closed'' es;
          num = (\<lambda>l. py_str_int (int (length (l :: build_entry list)))) in
      ''# Weekly Devlog '' @ [CHR 0xE2, CHR 0x80, CHR 0x94] @ '' Week '' @ bv_stamp v ''%Y-%W'' @ nl @ nl @ ''## Summary'' @ nl
      @ ''- PRs merged: '' @ num merged @ nl @ ''- Deploys: '' @ num deploys @ nl @ ''- Issues closed: '' @ num issues @ nl @ nl
      @ (if merged = [] then [] else ''## Merged PRs'' @ nl
          @ concat (map (\<lambda>e. ''- '' @ be_entity e @ '': '' @ py_text (bv_str v) (json_get (be_details e) ''title'' (JStr ''Unknown'')) @ nl) (take 10 merged)) @ nl)
      @ (if deploys = [] then [] else ''## Deployments'' @ nl
          @ concat (map (\<lambda>e. ''- '' @ be_entity e @ '': '' @ be_outcome e @ nl) (take 5 deploys)) @ nl))"

definition generate_weekly_devlog :: "build_env \<Rightarrow> (build_files, string) eff" where
  "generate_weekly_devlog v =
     andthen (look (\<lambda>s. build_read_recent (bv_now v) 7 None (bs_log s))) (\<lambda>es.
       (let text = devlog_text v es; week = bv_stamp v ''%Y-%W'' in
        andthen (upd (bs_devlogs_update (AList.update week text))) (\<lambda>_.
        andthen (look shipping_summary) (\<lambda>(merged, resolved, features, changes).
        andthen (only_if (0 < merged) (send_shipping_summary v (bv_stamp v ''%Y-W%W'') merged resolved features changes)) (\<lambda>_.
        andthen (log_build v ''devlog_generated'' (''week-'' @ week) ''success''
          [(''pr_count'', JInt (int (length (entries_of ''pr_merged'' es)))), (''deploy_count'', JInt (int (length (entries_of ''deploy_completed'' es))))]) (\<lambda>_.
        ok text))))))"

definition api_routes_changed :: "string list \<Rightarrow> bool" where
  "api_routes_changed fs = list_ex (\<lambda>f. py_in ''route'' (py_lower f) \<or> py_in ''api'' (py_lower f) \<or> py_in ''endpoint'' (py_lower f)) fs"

definition ends_with :: "string \<Rightarrow> string \<Rightarrow> bool" where
  "ends_with t e \<longleftrightarrow> length e \<le> length t \<and> drop (length t - length e) t = e"

definition check_doc_drift :: "build_env \<Rightarrow> string list \<Rightarrow> string list" where
  "check_doc_drift v fs = filter (\<lambda>f. (ends_with f ''.py'' \<or> ends_with f ''.ts'' \<or> ends_with f ''.js'')
     \<and> bv_documented v (map (\<lambda>c. if c = CHR ''/'' then CHR ''_'' else c) f @ ''.md'')) fs"

definition generate_api_docs :: string where
  "generate_api_docs = ''# API Documentation'' @ nl @ nl @ ''Generated from source code.''"

end
