(* ===== verification/Build_Claw.thy ===== *)
theory Build_Claw
  imports Build_Watch
begin

text \<open>
  \<^verbatim>\<open>milimo-core/src/milimo_core/build/build_scheduler.py\<close> and \<^verbatim>\<open>build_claw.py\<close>: the timers of the claw, the messages it
  receives, the threads they start, the operator's decisions and the entry points.
\<close>

section \<open>The claw\<close>

datatype build_job = ErrorJob | CostJob | AuditJob | DevlogJob

text \<open>A thread that has been started: the pipeline of a brief, or of a task of the assistant.\<close>

datatype build_thread = SprintThread "json dict" | TaskThread "json dict"

record build_claw =
  bc_store :: build_files
  bc_started :: bool
  bc_running :: bool
  bc_timers :: "(build_job \<times> int) list"
  bc_threads :: "build_thread list"

definition on_build :: "(build_files, 'a) eff \<Rightarrow> (build_claw, 'a) eff" where
  "on_build m c = (case m (bc_store c) of (s, r) \<Rightarrow> (c\<lparr>bc_store := s\<rparr>, r))"

section \<open>The scheduler\<close>

definition job_interval :: "build_job \<Rightarrow> int" where
  "job_interval j = (case j of ErrorJob \<Rightarrow> 30 * 60 * 1000000 | CostJob \<Rightarrow> DAY | AuditJob \<Rightarrow> 7 * DAY | DevlogJob \<Rightarrow> 7 * DAY)"

definition build_schedule :: "build_env \<Rightarrow> build_job \<Rightarrow> (build_claw, unit) eff" where
  "build_schedule v j = andthen (look bc_running) (\<lambda>run.
     only_if run (upd (bc_timers_update (\<lambda>l. l @ [(j, bv_now v + job_interval j)]))))"

definition error_pass :: "build_env \<Rightarrow> (build_files, unit) eff" where
  "error_pass v =
     attempt
       (andthen (run_monitoring_pass v) (\<lambda>_.
        log_build v ''error_monitoring_pass'' ''monitoring'' ''success'' [(''interval_seconds'', JInt (30 * 60))]))
       (\<lambda>e. log_build v ''error_monitoring_pass'' ''monitoring'' ''error'' [(''error'', JStr (exn_text e))])"

definition cost_pass :: "build_env \<Rightarrow> (build_files, unit) eff" where
  "cost_pass v =
     attempt (andthen (run_daily_check v) (\<lambda>_. log_build v ''cost_monitoring_pass'' ''costs'' ''success'' [])) (\<lambda>_. ok ())"

definition audit_pass :: "build_env \<Rightarrow> (build_files, unit) eff" where
  "audit_pass v =
     attempt (andthen (run_full_audit v) (\<lambda>_. log_build v ''dependency_audit'' ''dependencies'' ''success'' [])) (\<lambda>_. ok ())"

definition devlog_pass :: "build_env \<Rightarrow> (build_files, unit) eff" where
  "devlog_pass v =
     attempt (andthen (generate_weekly_devlog v) (\<lambda>_. log_build v ''devlog_generated'' ''docs'' ''success'' [])) (\<lambda>_. ok ())"

definition build_weekday :: "build_env \<Rightarrow> int" where
  "build_weekday v = weekday (bv_now v div DAY)"

text \<open>What a job does when its timer runs out; on another day the weekly ones do nothing.\<close>

definition build_pass :: "build_env \<Rightarrow> build_job \<Rightarrow> (build_files, unit) eff" where
  "build_pass v j = (case j of
       ErrorJob \<Rightarrow> error_pass v
     | CostJob \<Rightarrow> cost_pass v
     | AuditJob \<Rightarrow> only_if (build_weekday v = 0) (audit_pass v)
     | DevlogJob \<Rightarrow> only_if (build_weekday v = 4) (devlog_pass v))"

definition run_build_job :: "build_env \<Rightarrow> build_job \<Rightarrow> (build_claw, unit) eff" where
  "run_build_job v j =
     andthen (look bc_running) (\<lambda>run. only_if run (andthen (on_build (build_pass v j)) (\<lambda>_. build_schedule v j)))"

text \<open>A missed audit runs outside \<^verbatim>\<open>try\<close> and without the log entry of the job.\<close>

definition build_check_missed :: "build_env \<Rightarrow> (build_claw, unit) eff" where
  "build_check_missed v =
     andthen (look (\<lambda>c. get_last_run_time (bv_now v) ''error_monitoring_pass'' (bs_log (bc_store c)))) (\<lambda>errors.
     andthen (only_if (case errors of Some t \<Rightarrow> 30 * 60 * 1000000 < bv_now v - t | None \<Rightarrow> True) (run_build_job v ErrorJob)) (\<lambda>_.
     andthen (look (\<lambda>c. get_last_run_time (bv_now v) ''dependency_audit'' (bs_log (bc_store c)))) (\<lambda>audit.
     only_if (case audit of Some t \<Rightarrow> 8 * DAY < bv_now v - t | None \<Rightarrow> False)
       (andthen (on_build (run_full_audit v)) (\<lambda>_. ok ())))))"

definition build_scheduler_start :: "build_env \<Rightarrow> (build_claw, unit) eff" where
  "build_scheduler_start v =
     andthen (upd (bc_running_update (\<lambda>_. True))) (\<lambda>_.
     andthen (build_check_missed v) (\<lambda>_.
     for_each [ErrorJob, CostJob, AuditJob, DevlogJob] (build_schedule v)))"

definition build_scheduler_stop :: "(build_claw, unit) eff" where
  "build_scheduler_stop = upd (\<lambda>c. c\<lparr>bc_running := False, bc_timers := []\<rparr>)"

section \<open>Messages of the assistant\<close>

definition build_answer :: "build_env \<Rightarrow> json dict \<Rightarrow> json dict \<Rightarrow> (build_files, unit) eff" where
  "build_answer v message answer =
     (let i = get_str message ''message_id'' [];
          m = \<lparr>fm_type = ''assistant_response'', fm_recipient = ''assistant'',
               fm_payload = [(''original_message_id'', JStr i), (''response'', JObj answer)], fm_id = i, fm_time = bv_now v\<rparr> in
      case bv_gateway v of
        None \<Rightarrow> ok ()
      | Some g \<Rightarrow> (case g m of Inl _ \<Rightarrow> ok () | Inr b \<Rightarrow> only_if b (upd (bs_outbox_update (\<lambda>l. l @ [m])))))"

definition build_diagnostics :: "build_env \<Rightarrow> build_files \<Rightarrow> json dict" where
  "build_diagnostics v s =
     (let rs = filter (\<lambda>a. ba_mode a = ReviewMode) (get_all_pending_actions s);
          hs = filter (\<lambda>a. ba_mode a = HoldMode) (get_all_pending_actions s) in
      [(''status'', JStr ''diagnostics''), (''queue_size'', JInt (int (length rs + length hs))),
       (''review_queue_size'', JInt (int (length rs))), (''hold_queue_size'', JInt (int (length hs))),
       (''recent_logs'', JList (map (\<lambda>l. JStr (bv_line v l)) (drop (length (bs_log s) - 5) (bs_log s))))])"

definition build_assistant_query :: "build_env \<Rightarrow> json dict \<Rightarrow> (build_files, json dict) eff" where
  "build_assistant_query v message =
     andthen (look (build_diagnostics v)) (\<lambda>diag.
       (let answer = [(''status'', JStr ''ok''), (''role'', JStr ''build''), (''message_type'', JStr ''assistant_query''),
              (''response'', JObj (if get_str (build_payload message) ''query'' [] = ''diagnostics'' then diag
                 else [(''status'', JStr ''running''), (''squad_id'', JStr (bv_squad v))]))] in
        andthen (build_answer v message answer) (\<lambda>_. ok answer)))"

definition start_thread :: "build_thread \<Rightarrow> (build_claw, unit) eff" where
  "start_thread t = upd (bc_threads_update (\<lambda>l. l @ [t]))"

definition build_assistant_task :: "build_env \<Rightarrow> json dict \<Rightarrow> (build_claw, json dict) eff" where
  "build_assistant_task v message =
     (let body = build_payload message; task = get_str body ''task_description'' [];
          answer = [(''status'', JStr ''queued''), (''role'', JStr ''build''), (''message_type'', JStr ''assistant_task''),
            (''task_description'', JStr task), (''deadline'', json_get body ''deadline'' JNull),
            (''message'', JStr (''Task '' @ quoted (take 50 task @ ''...'') @ '' received and queued for execution.''))] in
      andthen (start_thread (TaskThread message)) (\<lambda>_.
      andthen (on_build (build_answer v message answer)) (\<lambda>_. ok answer)))"

definition task_score :: "string \<Rightarrow> complexity_score" where
  "task_score task = \<lparr>cx_issue = 9999, cx_title = ''Assistant Task: '' @ take 60 task, cx_tier = ''M'', cx_hours = 8, cx_clarity = ''clear'',
     cx_missing = []\<rparr>"

definition execute_assistant_task_pipeline :: "build_env \<Rightarrow> json dict \<Rightarrow> (build_files, unit) eff" where
  "execute_assistant_task_pipeline v message =
     (let task = get_str (build_payload message) ''task_description'' [] in
      attempt
        (andthen (resolve_issue v (task_score task)) (\<lambda>r.
         build_answer v message
           [(''claw'', JStr ''build''), (''task_description'', JStr task),
            (''status'', JStr (if rs_status r = ''ready_for_pr'' then ''success'' else ''failed'')), (''branch'', JStr (rs_branch r)),
            (''files_changed'', JList (map JStr (rs_files r))), (''test_result'', JStr (rs_tests r)), (''tests_passing'', JInt (rs_passing r)),
            (''tests_failing'', JInt (rs_failing r)), (''attempts'', JInt (int (rs_attempts r))),
            (''message'', JStr (''Task resolution finished with status: '' @ rs_status r))]))
        (\<lambda>e. build_answer v message
           [(''claw'', JStr ''build''), (''task_description'', JStr task), (''status'', JStr ''error''), (''error'', JStr (exn_text e)),
            (''message'', JStr (''Task execution failed: '' @ exn_text e))]))"

section \<open>From the brief to pull requests\<close>

definition feature_brief_with_execution :: "build_env \<Rightarrow> json dict \<Rightarrow> (build_claw, json dict) eff" where
  "feature_brief_with_execution v message =
     andthen (on_build (handle_feature_brief v message)) (\<lambda>_.
     andthen (start_thread (SprintThread message)) (\<lambda>_.
     ok [(''status'', JStr ''pipeline_started''), (''message_type'', JStr ''feature_brief''), (''role'', JStr ''build''),
         (''message'', JStr ''Sprint planning pipeline started. Use launcher_status() to monitor progress.'')]))"

definition score_of_issue :: "json dict \<Rightarrow> complexity_score" where
  "score_of_issue d = \<lparr>cx_issue = get_int d ''issue_number'' 0, cx_title = get_str d ''title'' [], cx_tier = get_str d ''complexity_tier'' ''M'',
     cx_hours = (case json_get d ''estimated_hours'' (JFloat 8) of JFloat r \<Rightarrow> r | JInt n \<Rightarrow> of_int n | _ \<Rightarrow> 8),
     cx_clarity = get_str d ''clarity_score'' ''clear'', cx_missing = []\<rparr>"

text \<open>An issue that fails is left; one that is no dictionary stops the plan, since the handler reads it again.\<close>

definition execute_issue :: "build_env \<Rightarrow> json \<Rightarrow> (build_files, unit) eff" where
  "execute_issue v j = (case j of
       JObj d \<Rightarrow> attempt
         (andthen (resolve_issue v (score_of_issue d)) (\<lambda>r.
          only_if (rs_status r = ''ready_for_pr'') (andthen (open_pr v r) (\<lambda>_. ok ())))) (\<lambda>_. ok ())
     | _ \<Rightarrow> throw ''AttributeError'' ''object has no attribute get'')"

definition execute_approved_plan :: "build_env \<Rightarrow> json dict \<Rightarrow> (build_files, unit) eff" where
  "execute_approved_plan v plan = (case json_get plan ''issues'' (JList []) of
       JList js \<Rightarrow> for_each js (execute_issue v)
     | _ \<Rightarrow> throw ''TypeError'' ''object is not iterable'')"

text \<open>
  The watcher looks at the plan every 30 seconds for 24 hours; \<open>busy n\<close> is what the rest of the system does to the state while it
  waits for the n-th time. An exception counts as a wait.
\<close>

definition WATCH_POLLS :: nat where "WATCH_POLLS = 86400 div 30"

definition watch_step :: "build_env \<Rightarrow> (build_files, bool) eff" where
  "watch_step v = attempt
     (andthen (look bs_plan) (\<lambda>p. case p of
        None \<Rightarrow> ok False
      | Some d \<Rightarrow>
          if map_of d ''status'' = Some (JStr ''approved'') then andthen (execute_approved_plan v d) (\<lambda>_. ok True)
          else ok (map_of d ''status'' = Some (JStr ''rejected'')))) (\<lambda>_. ok False)"

fun watch_polls :: "build_env \<Rightarrow> (nat \<Rightarrow> build_files \<Rightarrow> build_files) \<Rightarrow> nat \<Rightarrow> nat \<Rightarrow> (build_files, unit) eff" where
  "watch_polls v busy 0 n = ok ()"
| "watch_polls v busy (Suc k) n =
     andthen (watch_step v) (\<lambda>finished. if finished then ok () else andthen (upd (busy n)) (\<lambda>_. watch_polls v busy k (Suc n)))"

text \<open>The plan's identifier is only logged.\<close>

definition watch_for_approval :: "build_env \<Rightarrow> (nat \<Rightarrow> build_files \<Rightarrow> build_files) \<Rightarrow> string \<Rightarrow> (build_files, unit) eff" where
  "watch_for_approval v busy plan = watch_polls v busy WATCH_POLLS 0"

text \<open>The plan that has to be watched, unless it has no issue.\<close>

definition plan_and_acknowledge :: "build_env \<Rightarrow> json dict \<Rightarrow> (build_files, string option) eff" where
  "plan_and_acknowledge v message =
     andthen (generate_sprint_plan v) (\<lambda>(plan, cs).
     andthen (send_feature_brief_acknowledged v (get_str (build_payload message) ''project_id'' ''unknown'') (JInt (bv_now v))
       (if list_ex (\<lambda>c. cx_clarity c = ''low'') cs then ''low'' else ''clear'') []) (\<lambda>_.
     ok (if cs = [] then None else Some plan)))"

definition execute_sprint_pipeline :: "build_env \<Rightarrow> (nat \<Rightarrow> build_files \<Rightarrow> build_files) \<Rightarrow> json dict \<Rightarrow> (build_files, unit) eff" where
  "execute_sprint_pipeline v busy message =
     attempt
       (andthen (plan_and_acknowledge v message) (\<lambda>p. case p of None \<Rightarrow> ok () | Some plan \<Rightarrow> watch_for_approval v busy plan))
       (\<lambda>_. ok ())"

definition run_build_thread :: "build_env \<Rightarrow> (nat \<Rightarrow> build_files \<Rightarrow> build_files) \<Rightarrow> build_thread \<Rightarrow> (build_files, unit) eff" where
  "run_build_thread v busy t = (case t of
       SprintThread m \<Rightarrow> execute_sprint_pipeline v busy m
     | TaskThread m \<Rightarrow> execute_assistant_task_pipeline v m)"

section \<open>Inbound messages and decisions\<close>

definition build_processed :: "string \<Rightarrow> json dict" where
  "build_processed mtype = [(''status'', JStr ''processed''), (''message_type'', JStr mtype), (''role'', JStr ''build'')]"

definition build_handle_inbound :: "build_env \<Rightarrow> json dict \<Rightarrow> (build_claw, json dict) eff" where
  "build_handle_inbound v message =
     andthen (look bc_started) (\<lambda>started.
       (let mtype = get_str message ''message_type'' ''unknown'' in
        if started \<and> mtype = ''feature_brief'' then feature_brief_with_execution v message
        else if started \<and> mtype = ''retention_signals'' then
          andthen (on_build (handle_retention_signals v message)) (\<lambda>_. ok (build_processed mtype))
        else if started \<and> mtype = ''behavior_query_response'' then
          andthen (on_build (handle_behavior_query_response v message)) (\<lambda>_. ok (build_processed mtype))
        else if started \<and> mtype = ''assistant_query'' then on_build (build_assistant_query v message)
        else if started \<and> mtype = ''assistant_task'' then build_assistant_task v message
        else ok [(''status'', JStr ''no_handler''), (''message_type'', JStr mtype), (''role'', JStr ''build''),
                 (''error'', JStr (''No handler for message type: '' @ mtype))]))"

definition build_approval_decision :: "build_env \<Rightarrow> string \<Rightarrow> string \<Rightarrow> string \<Rightarrow> (build_claw, approval_result option) eff" where
  "build_approval_decision v aid decision reason =
     andthen (look bc_started) (\<lambda>started.
       (let run = (\<lambda>m. if started then andthen (on_build m) (\<lambda>r. ok (Some r)) else ok None) in
        if decision = ''approve'' then run (build_approve v aid None)
        else if decision = ''block'' then run (build_block v aid (JStr reason))
        else if decision = ''cancel'' then run (build_hold_cancel v aid)
        else throw ''ValueError'' (''Unknown decision: '' @ decision)))"

text \<open>
  The part of the plugin's \<^verbatim>\<open>_handle_legacy_decision\<close> that is about the claw: what the tool does when the bridge of the War Room is not
  there. The notification is left out.
\<close>

definition build_tool_item :: "string \<Rightarrow> bool" where
  "build_tool_item item \<longleftrightarrow> starts item ''pr-review-'' \<or> starts item ''pr-merge-hold-'' \<or> starts item ''deploy-hold-''"

definition build_tool_action :: "build_env \<Rightarrow> string \<Rightarrow> string \<Rightarrow> string \<Rightarrow> (build_files, string) eff" where
  "build_tool_action v action item reason =
     (if action = ''approve''
      then andthen (build_approve v item None) (\<lambda>r. ok (if ar_executed r then ''approved'' else ''failed''))
      else andthen (build_block v item (JStr (if reason = [] then ''vetoed from war room'' else reason)))
        (\<lambda>r. ok (if ar_executed r then ''rejected'' else ''failed'')))"

section \<open>Startup and entry points\<close>

text \<open>What is only in memory: the actions that wait, and what the dispatcher knows.\<close>

definition build_forget :: "build_files \<Rightarrow> build_files" where
  "build_forget s = s\<lparr>bs_pending := [], bs_query := None, bs_retention := None, bs_shipping := [], bs_slas := [], bs_timers := []\<rparr>"

text \<open>A new process: the files are as the last one left them.\<close>

definition build_startup :: "build_env \<Rightarrow> (build_claw, unit) eff" where
  "build_startup v =
     andthen (upd (\<lambda>c. c\<lparr>bc_store := build_forget (bc_store c), bc_started := True, bc_timers := [], bc_threads := []\<rparr>)) (\<lambda>_.
     build_scheduler_start v)"

definition build_shutdown :: "(build_claw, unit) eff" where
  "build_shutdown = andthen (look bc_started) (\<lambda>started. only_if started build_scheduler_stop)"

definition need_started :: "(build_files, 'a) eff \<Rightarrow> (build_claw, 'a) eff" where
  "need_started m = andthen (look bc_started) (\<lambda>started.
     if started then on_build m else throw ''RuntimeError'' ''BuildClaw not started - call startup() first'')"

definition create_pr :: "build_env \<Rightarrow> resolution \<Rightarrow> (build_claw, pr_record) eff" where
  "create_pr v r = need_started (open_pr v r)"

definition deploy_to_vercel :: "build_env \<Rightarrow> string \<Rightarrow> (build_claw, json dict) eff" where
  "deploy_to_vercel v i = need_started (handle_deploy_hold_released v i)"

definition audit_dependencies :: "build_env \<Rightarrow> vulnerability list \<Rightarrow> (build_claw, string option) eff" where
  "audit_dependencies v xs = need_started (auto_draft_security_pr v xs)"

definition monitor_errors :: "build_env \<Rightarrow> (build_claw, json dict list) eff" where
  "monitor_errors v = need_started (run_monitoring_pass v)"

definition monitor_costs :: "build_env \<Rightarrow> (build_claw, cost_check) eff" where
  "monitor_costs v = need_started (run_daily_check v)"

definition generate_docs :: "build_env \<Rightarrow> string \<Rightarrow> string \<Rightarrow> string \<Rightarrow> (build_claw, string) eff" where
  "generate_docs v title number ptype = need_started (update_changelog v title number ptype)"

definition generate_code :: "build_env \<Rightarrow> string \<Rightarrow> (build_claw, string \<times> string) eff" where
  "generate_code v task = need_started (andthen (resolve_issue v (task_score task)) (\<lambda>r. ok (rs_status r, rs_branch r)))"

end
