(* ===== verification/Build_Facts.thy ===== *)
theory Build_Facts
  imports Build_Claw
begin

text \<open>
  Everything that can be asked of the build claw as one list of operations, the states it can get into, and what all of them keep:
  nothing leaves the drafts and nothing is merged or deployed.
\<close>

section \<open>Operations\<close>

datatype build_entry_point =
    CreatePr resolution | DeployToVercel string | AuditDependencies "vulnerability list" | MonitorErrors | MonitorCosts
  | GenerateDocs string string string | GenerateCode string

text \<open>
  A thread of a brief is the planning and then the looks at the plan, one operation each, so that anything can happen between them.
  \<open>ApprovePlan\<close> is the command of the bridge that approves the plan's file.
\<close>

datatype build_op =
    Inbound "json dict" | PlanBrief "json dict" | WatchPlan | AssistantWork "json dict" | TimerFires build_job | SlaFires
  | Decision string string string | ToolDecision string string string | BuildCardApprove string | BuildCardVeto string
  | ApprovePlan string | EntryPoint build_entry_point | StartClaw | StopClaw

definition run_entry_point :: "build_env \<Rightarrow> build_entry_point \<Rightarrow> (build_claw, unit) eff" where
  "run_entry_point v e = (case e of
       CreatePr r \<Rightarrow> andthen (create_pr v r) (\<lambda>_. ok ())
     | DeployToVercel i \<Rightarrow> andthen (deploy_to_vercel v i) (\<lambda>_. ok ())
     | AuditDependencies xs \<Rightarrow> andthen (audit_dependencies v xs) (\<lambda>_. ok ())
     | MonitorErrors \<Rightarrow> andthen (monitor_errors v) (\<lambda>_. ok ())
     | MonitorCosts \<Rightarrow> andthen (monitor_costs v) (\<lambda>_. ok ())
     | GenerateDocs t n p \<Rightarrow> andthen (generate_docs v t n p) (\<lambda>_. ok ())
     | GenerateCode t \<Rightarrow> andthen (generate_code v t) (\<lambda>_. ok ()))"

definition run_build_op :: "build_env \<Rightarrow> build_op \<Rightarrow> (build_claw, unit) eff" where
  "run_build_op v oper = (case oper of
       Inbound m \<Rightarrow> andthen (build_handle_inbound v m) (\<lambda>_. ok ())
     | PlanBrief m \<Rightarrow> andthen (on_build (plan_and_acknowledge v m)) (\<lambda>_. ok ())
     | WatchPlan \<Rightarrow> andthen (on_build (watch_step v)) (\<lambda>_. ok ())
     | AssistantWork m \<Rightarrow> on_build (execute_assistant_task_pipeline v m)
     | TimerFires j \<Rightarrow> run_build_job v j
     | SlaFires \<Rightarrow> on_build (sla_fires v)
     | Decision a d r \<Rightarrow> andthen (build_approval_decision v a d r) (\<lambda>_. ok ())
     | ToolDecision act i r \<Rightarrow> andthen (on_build (build_tool_action v act i r)) (\<lambda>_. ok ())
     | BuildCardApprove i \<Rightarrow> andthen (on_build (approve_hold_message (build_handlers v) i)) (\<lambda>_. ok ())
     | BuildCardVeto i \<Rightarrow> andthen (on_build (veto_hold_message (build_handlers v) i)) (\<lambda>_. ok ())
     | ApprovePlan i \<Rightarrow> andthen (on_build (handle_sprint_plan_approved v i)) (\<lambda>_. ok ())
     | EntryPoint e \<Rightarrow> run_entry_point v e
     | StartClaw \<Rightarrow> build_startup v
     | StopClaw \<Rightarrow> build_shutdown)"

text \<open>The files of a build claw that has just been set up, with any files in the repository.\<close>

definition new_build :: "string dict \<Rightarrow> build_files" where
  "new_build repo = \<lparr>wr_cards = [], wr_inbox = (\<lambda>_. []), wr_rejected = [], bs_pending = [], bs_log = [], bs_pr_log = [], bs_deploy_log = [],
     bs_prs = (\<lambda>_. []), bs_deploys = (\<lambda>_. []), bs_locks = [],
     bs_plan = Some [(''plan_id'', JNull), (''generated_at'', JNull), (''approved_at'', JNull), (''issues'', JList []),
       (''total_estimated_hours'', JInt 0), (''status'', JStr ''empty'')],
     bs_velocity = Some [(''sprints'', JList []), (''avg_hours_per_week'', JInt 0), (''estimation_accuracy_pct'', JInt 0)],
     bs_signals = None, bs_patterns = [], bs_active = [], bs_costs = [], bs_alerts = [], bs_changelog = Some (''# Changelog'' @ nl @ nl @ ''All notable changes documented here.'' @ nl), bs_devlogs = [],
     bs_files = repo, bs_calls = [], bs_outbox = [], bs_fallback = [], bs_query = None, bs_retention = None, bs_shipping = [],
     bs_slas = [], bs_timers = [], bs_asked = 0, bs_fresh = 0\<rparr>"

definition new_claw :: "string dict \<Rightarrow> build_claw" where
  "new_claw repo = \<lparr>bc_store = new_build repo, bc_started = False, bc_running = False, bc_timers = [], bc_threads = []\<rparr>"

text \<open>Operations come in any order, each in a world of its own.\<close>

inductive build_reached :: "build_claw \<Rightarrow> bool" where
  start: "build_reached (new_claw repo)"
| step: "build_reached c \<Longrightarrow> build_reached (fst (run_build_op v oper c))"

section \<open>The invariant\<close>

definition only_drafts :: "outside_call \<Rightarrow> bool" where
  "only_drafts c \<longleftrightarrow> (case c of CreateBranch b \<Rightarrow> True | CommitFile b p t \<Rightarrow> True | _ \<Rightarrow> False)"

definition nothing_shipped :: "build_files \<Rightarrow> bool" where
  "nothing_shipped s \<longleftrightarrow> bs_prs s Approved = [] \<and> bs_prs s Merged = [] \<and> bs_deploys s PendingDeploys = [] \<and> bs_deploys s DeployHistory = []
     \<and> list_all only_drafts (bs_calls s)"

abbreviation unshipped :: "build_claw \<Rightarrow> bool" where
  "unshipped c \<equiv> nothing_shipped (bc_store c)"

definition shipped_core where
  "shipped_core s = (bs_prs s Approved, bs_prs s Merged, bs_deploys s PendingDeploys, bs_deploys s DeployHistory, bs_calls s)"

lemma nothing_shipped_core: "shipped_core t = shipped_core s \<Longrightarrow> nothing_shipped t = nothing_shipped s"
  by (simp add: shipped_core_def nothing_shipped_def)

lemma ns_upd:
  assumes "\<And>s. shipped_core (f s) = shipped_core s"
  shows "keeps nothing_shipped (upd f)"
  by (rule keeps_upd) (metis assms nothing_shipped_core)

lemma keeps_on_build [keeps_intros]: "keeps nothing_shipped m \<Longrightarrow> keeps unshipped (on_build m)"
proof (rule keepsI)
  fix c assume "keeps nothing_shipped m" "unshipped c"
  then have "nothing_shipped (fst (m (bc_store c)))" by (rule keepsD)
  then show "unshipped (fst (on_build m c))" by (cases "m (bc_store c)") (simp add: on_build_def)
qed

lemma ns_store [keeps_intros]:
  "keeps nothing_shipped (build_hex v n)" "keeps nothing_shipped (build_ask v k)" "keeps nothing_shipped (log_build v a e outc d)"
  "keeps nothing_shipped (log_pr v a e d)" "keeps nothing_shipped (log_deploy v a e d)" "keeps nothing_shipped (put_pr Drafted i d)"
  "keeps nothing_shipped (keep_pending pa)" "keeps nothing_shipped (drop_pending i)"
  unfolding build_hex_def build_ask_def log_build_def log_pr_def log_deploy_def put_pr_def keep_pending_def drop_pending_def
  by (auto intro!: keeps_intros ns_upd simp: shipped_core_def)

lemma ns_called [keeps_intros]: "only_drafts c \<Longrightarrow> keeps nothing_shipped (called c)"
  unfolding called_def by (rule keeps_upd) (simp add: nothing_shipped_def)

lemma ns_github [keeps_intros]: "keeps nothing_shipped m \<Longrightarrow> keeps nothing_shipped n \<Longrightarrow> keeps nothing_shipped (github v k m n)"
  unfolding github_def by (auto intro!: keeps_intros split: client.split option.split)

lemma ns_show [keeps_intros]: "keeps nothing_shipped (show_action v a)"
  unfolding show_action_def write_warroom_action_def by (auto intro!: keeps_intros ns_upd simp: shipped_core_def)

lemma ns_queue [keeps_intros]:
  "keeps nothing_shipped (queue_pr_review v p t b n f ts k u)" "keeps nothing_shipped (queue_sprint_plan_review v pl js h)"
  "keeps nothing_shipped (queue_security_pr v p l t)" "keeps nothing_shipped (queue_dependency_review v i l t)"
  unfolding queue_pr_review_def queue_sprint_plan_review_def queue_security_pr_def queue_dependency_review_def Let_def
  by (intro keeps_intros)+

lemma ns_decide [keeps_intros]:
  "keeps nothing_shipped (build_hold_release v i None)" "keeps nothing_shipped (build_block v i r)"
  "keeps nothing_shipped (build_hold_cancel v i)"
  unfolding build_hold_release_def build_block_def build_hold_cancel_def
  by (auto intro!: keeps_intros split: option.split)

lemma ns_approve [keeps_intros]: "(\<And>m. n = Some m \<Longrightarrow> keeps nothing_shipped m) \<Longrightarrow> keeps nothing_shipped (build_approve v i n)"
  unfolding build_approve_def by (auto intro!: keeps_intros split: option.split build_mode.split)

lemma ns_cards [keeps_intros]:
  assumes "\<And>m. h = Some m \<Longrightarrow> keeps nothing_shipped m"
  shows "keeps nothing_shipped (call_handler h)"
  using assms unfolding call_handler_def by (cases h) (auto intro!: keeps_intros)

lemma ns_handlers:
  assumes "build_handlers v r = Some z"
  shows "keeps nothing_shipped (on_approve z i d)" "keeps nothing_shipped (on_veto z i d)"
  using assms unfolding build_handlers_def register_warroom_action_handler_def call_data_def
  by (auto intro!: keeps_intros split: if_splits)

lemma ns_target [keeps_intros]: "keeps nothing_shipped (target_card i)"
  unfolding target_card_def by (auto intro!: keeps_intros split: option.split)

lemma ns_warroom [keeps_intros]:
  "keeps nothing_shipped (approve_hold_message (build_handlers v) i)" "keeps nothing_shipped (veto_hold_message (build_handlers v) i)"
  unfolding approve_hold_message_def veto_hold_message_def
  by (auto intro!: keeps_intros ns_upd ns_handlers simp: shipped_core_def)

section \<open>Every operation keeps it\<close>

lemma ns_send [keeps_intros]: "keeps nothing_shipped (build_send v ty rc i b)"
  unfolding build_send_def Let_def
  by (auto intro!: keeps_intros ns_upd simp: shipped_core_def split: option.split sum.split)

lemma ns_messages [keeps_intros]:
  "keeps nothing_shipped (send_shipping_summary v w n k fs cs)" "keeps nothing_shipped (send_feature_brief_acknowledged v p b c ms)"
  "keeps nothing_shipped (handle_feature_brief v m)" "keeps nothing_shipped (handle_retention_signals v m)"
  "keeps nothing_shipped (handle_behavior_query_response v m)"
  unfolding send_shipping_summary_def send_feature_brief_acknowledged_def cancel_sla_def handle_feature_brief_def
    handle_retention_signals_def handle_behavior_query_response_def Let_def
  by (auto intro!: keeps_intros ns_upd simp: shipped_core_def split: option.split)

lemma ns_sla [keeps_intros]: "keeps nothing_shipped (sla_fires v)"
  unfolding sla_fires_def send_overdue_ack_warning_def
  by (auto intro!: keeps_intros ns_upd simp: shipped_core_def split: option.split)

lemma ns_commit [keeps_intros]: "keeps nothing_shipped (commit_file v b p t)"
  unfolding commit_file_def by (intro keeps_intros) (simp add: only_drafts_def)

lemma ns_branch [keeps_intros]: "keeps nothing_shipped (write_to_branch v b t)"
  unfolding write_to_branch_def
  by (auto intro!: keeps_intros ns_upd simp: shipped_core_def only_drafts_def split: prod.split)

lemma ns_fixes [keeps_intros]: "keeps nothing_shipped (try_fixes v i b k n f)"
  by (induction k arbitrary: n f)
    (auto simp: generate_implementation_def analyze_failure_and_fix_def intro!: keeps_intros split: prod.split)

lemma ns_resolve [keeps_intros]: "keeps nothing_shipped (resolve_issue v c)"
  unfolding resolve_issue_def by (rule ns_fixes)

lemma ns_open_pr [keeps_intros]: "keeps nothing_shipped (open_pr v r)"
  unfolding open_pr_def create_pull_request_def Let_def
  by (auto intro!: keeps_intros split: client.split prod.split)

lemma ns_attempts [keeps_intros]: "keeps nothing_shipped (fetch_attempts v k n)"
  by (induction k arbitrary: n) (auto intro!: keeps_intros split: sum.split)

lemma ns_plan [keeps_intros]: "keeps nothing_shipped (generate_sprint_plan v)"
  unfolding generate_sprint_plan_def fetch_open_issues_def score_issue_complexity_def tier_and_hours_def Let_def
  by (auto intro!: keeps_intros ns_upd simp: shipped_core_def split: client.split json.split list.split option.split)

lemma ns_plan_approved [keeps_intros]: "keeps nothing_shipped (handle_sprint_plan_approved v i)"
  unfolding handle_sprint_plan_approved_def Let_def
  by (auto intro!: keeps_intros ns_upd simp: shipped_core_def)

lemma ns_watch [keeps_intros]: "keeps nothing_shipped (watch_step v)"
  unfolding watch_step_def execute_approved_plan_def execute_issue_def
  by (auto intro!: keeps_intros split: option.split json.split)

lemma ns_polls [keeps_intros]: "(\<And>n s. nothing_shipped s \<Longrightarrow> nothing_shipped (busy n s)) \<Longrightarrow> keeps nothing_shipped (watch_polls v busy k n)"
  by (induction k arbitrary: n) (auto intro!: keeps_intros keeps_upd)

lemma ns_pipeline [keeps_intros]: "keeps nothing_shipped (plan_and_acknowledge v m)"
  unfolding plan_and_acknowledge_def by (auto intro!: keeps_intros split: prod.split)

lemma ns_answer [keeps_intros]: "keeps nothing_shipped (build_answer v m a)"
  unfolding build_answer_def Let_def
  by (auto intro!: keeps_intros ns_upd simp: shipped_core_def split: option.split sum.split)

lemma ns_assistant [keeps_intros]:
  "keeps nothing_shipped (build_assistant_query v m)" "keeps nothing_shipped (execute_assistant_task_pipeline v m)"
  unfolding build_assistant_query_def execute_assistant_task_pipeline_def Let_def by (auto intro!: keeps_intros)

text \<open>The whole thread, whatever happens between two looks.\<close>

lemma ns_thread: "(\<And>n s. nothing_shipped s \<Longrightarrow> nothing_shipped (busy n s)) \<Longrightarrow> keeps nothing_shipped (run_build_thread v busy t)"
  unfolding run_build_thread_def execute_sprint_pipeline_def watch_for_approval_def execute_assistant_task_pipeline_def Let_def
  by (auto intro!: keeps_intros split: build_thread.split option.split)

lemma ns_monitoring [keeps_intros]: "keeps nothing_shipped (run_monitoring_pass v)"
  unfolding run_monitoring_pass_def recent_errors_def save_new_pattern_def auto_draft_pattern_fix_def Let_def
  by (auto intro!: keeps_intros ns_upd simp: shipped_core_def split: client.split option.split prod.split)

lemma ns_costs [keeps_intros]: "keeps nothing_shipped (run_daily_check v)"
  unfolding run_daily_check_def Let_def by (auto intro!: keeps_intros ns_upd simp: shipped_core_def)

lemma ns_security [keeps_intros]: "keeps nothing_shipped (auto_draft_security_pr v xs)"
  unfolding auto_draft_security_pr_def Let_def by (auto intro!: keeps_intros)

lemma ns_audit [keeps_intros]: "keeps nothing_shipped (run_full_audit v)"
  unfolding run_full_audit_def queue_manual_investigation_def queue_no_fix_review_def Let_def
  by (auto intro!: keeps_intros split: client.split prod.split)

lemma ns_docs [keeps_intros]: "keeps nothing_shipped (generate_weekly_devlog v)" "keeps nothing_shipped (update_changelog v t n p)"
  unfolding generate_weekly_devlog_def update_changelog_def Let_def
  by (auto intro!: keeps_intros ns_upd simp: shipped_core_def split: prod.split)

lemma ns_pass [keeps_intros]: "keeps nothing_shipped (build_pass v j)"
  unfolding build_pass_def error_pass_def cost_pass_def audit_pass_def devlog_pass_def
  by (auto intro!: keeps_intros split: build_job.split)

text \<open>There is nothing to deploy: the release finds no record and raises.\<close>

lemma ns_deploy [keeps_intros]: "keeps nothing_shipped (handle_deploy_hold_released v i)"
proof (rule keepsI)
  fix s assume s: "nothing_shipped s"
  then have "handle_deploy_hold_released v i s = (s, Inl (PyExn ''ValueError'' (''Deploy '' @ i @ '' not found in pending/'')))"
    by (simp add: handle_deploy_hold_released_def nothing_shipped_def)
  then show "nothing_shipped (fst (handle_deploy_hold_released v i s))" using s by simp
qed

section \<open>The claw\<close>

lemma un_upd: "(\<And>c. bc_store (f c) = bc_store c) \<Longrightarrow> keeps unshipped (upd f)"
  by (rule keeps_upd) simp

lemma un_job [keeps_intros]: "keeps unshipped (run_build_job v j)" "keeps unshipped (build_schedule v j)"
  unfolding run_build_job_def build_schedule_def by (auto intro!: keeps_intros un_upd)

lemma un_scheduler [keeps_intros]: "keeps unshipped (build_scheduler_start v)" "keeps unshipped build_scheduler_stop"
  unfolding build_scheduler_start_def build_check_missed_def build_scheduler_stop_def
  by (auto intro!: keeps_intros un_upd)

lemma un_startup [keeps_intros]: "keeps unshipped (build_startup v)"
proof -
  have "nothing_shipped (build_forget s) = nothing_shipped s" for s by (simp add: build_forget_def nothing_shipped_def)
  then have "keeps unshipped (upd (\<lambda>c. c\<lparr>bc_store := build_forget (bc_store c), bc_started := True, bc_timers := [], bc_threads := []\<rparr>))"
    by (intro keeps_upd) simp
  then show ?thesis unfolding build_startup_def by (intro keeps_intros)
qed

lemma un_shutdown [keeps_intros]: "keeps unshipped build_shutdown"
  unfolding build_shutdown_def by (intro keeps_intros)

lemma un_need [keeps_intros]: "keeps nothing_shipped m \<Longrightarrow> keeps unshipped (need_started m)"
  unfolding need_started_def by (auto intro!: keeps_intros)

lemma un_inbound [keeps_intros]: "keeps unshipped (build_handle_inbound v m)"
  unfolding build_handle_inbound_def feature_brief_with_execution_def build_assistant_task_def start_thread_def Let_def
  by (auto intro!: keeps_intros un_upd)

lemma un_decision [keeps_intros]: "keeps unshipped (build_approval_decision v a d r)"
  unfolding build_approval_decision_def Let_def by (auto intro!: keeps_intros)

lemma un_entry [keeps_intros]: "keeps unshipped (run_entry_point v e)"
  unfolding run_entry_point_def create_pr_def deploy_to_vercel_def audit_dependencies_def monitor_errors_def monitor_costs_def
    generate_docs_def generate_code_def
  by (auto intro!: keeps_intros split: build_entry_point.split)

lemma un_op: "keeps unshipped (run_build_op v oper)"
  unfolding run_build_op_def build_tool_action_def by (auto intro!: keeps_intros split: build_op.split)

lemma reached_unshipped: "build_reached c \<Longrightarrow> unshipped c"
proof (induction rule: build_reached.induct)
  case (start repo)
  show ?case by (simp add: new_claw_def new_build_def nothing_shipped_def)
next
  case (step c v oper)
  then show ?case using keepsD[OF un_op] by blast
qed

end
