(* ===== verification/Build_Props.thy ===== *)
theory Build_Props
  imports Build_Facts
begin

text \<open>
  What the build claw does with its operator's decisions, with the lock of a deployment, with generated code that fails its
  tests, and with its weekly timers.
\<close>

section \<open>Worlds for the witnesses\<close>

definition build_world :: "client \<Rightarrow> int \<Rightarrow> build_env" where
  "build_world c now = \<lparr>bv_now = now, bv_hex = (\<lambda>_. ''12345678''), bv_stamp = (\<lambda>_. ''20260101''), bv_bridge = True, bv_pid = 7,
     bv_alive = (\<lambda>p. p = 7), bv_gateway = None, bv_infer = (\<lambda>_ _. Inr ''text''), bv_github = c, bv_request = (\<lambda>_. None),
     bv_issues = (\<lambda>_. Inr []), bv_issue = Inr [], bv_issue_number = 0, bv_open_prs = [], bv_hosting = c, bv_trigger = Inr ''url'',
     bv_ready = Inr ''ready'', bv_tests = (\<lambda>_. TestsExit 0 [] [] None), bv_sentry = NoClient, bv_events = Inr [], bv_usage = Inr [],
     bv_vulnerable = [], bv_scanning = [], bv_float = (\<lambda>_. None), bv_iso = (\<lambda>_. None), bv_md5 = (\<lambda>_. ''abcdef''), bv_str = (\<lambda>_. []),
     bv_line = (\<lambda>_. []), bv_documented = (\<lambda>_. False), bv_squad = ''squad'', bv_repo = ''/repo'', bv_writable = (\<lambda>_. True)\<rparr>"

section \<open>What the claw ships\<close>


definition drafted_resolution :: resolution where
  "drafted_resolution = \<lparr>rs_issue = 3, rs_branch = ''fix'', rs_files = [''a.py''], rs_tests = ''passing'', rs_passing = 1, rs_failing = 0,
     rs_attempts = 1, rs_status = ''ready_for_pr'', rs_summary = None\<rparr>"

definition drafted_claw :: build_claw where
  "drafted_claw = fst (run_build_op (build_world StubClient 0) (ToolDecision ''approve'' ''pr-review-pr-12345678'' [])
     (fst (run_build_op (build_world StubClient 0) (EntryPoint (CreatePr drafted_resolution))
       (fst (run_build_op (build_world StubClient 0) StartClaw (new_claw []))))))"

lemma drafted_reached: "build_reached drafted_claw"
  unfolding drafted_claw_def by (intro build_reached.intros)


section \<open>The weekly timers\<close>

lemma weekday_weeks: "weekday (d + int k * 7) = weekday d"
  unfolding weekday_def by presburger



section \<open>Approving a card\<close>

definition release_entry :: "build_env \<Rightarrow> build_action \<Rightarrow> build_entry" where
  "release_entry v a = \<lparr>be_time = bv_now v, be_action = ba_type a @ ''_released'', be_entity = ba_entity a, be_outcome = ''released'',
     be_details = [(''action_id'', JStr (ba_id a))]\<rparr>"

lemma approve_review_raises:
  assumes "map_of (bs_pending s) i = Some a" and "ba_mode a = ReviewMode"
  shows "build_approve v i (Some call_data) s = (s, Inl (PyExn ''TypeError'' ''dict object is not callable''))"
  using assms by (simp add: build_approve_def call_data_def)

lemma approve_hold_releases:
  assumes "map_of (bs_pending s) i = Some a" and "ba_mode a = HoldMode" and "ba_id a = i"
  shows "build_approve v i m s = (s\<lparr>bs_log := bs_log s @ [Some (release_entry v a)], bs_pending := AList.delete i (bs_pending s)\<rparr>,
    Inr (approval_outcome True ''released'' i [(''result'', JNull)]))"
  using assms by (simp add: build_approve_def build_hold_release_def log_build_def drop_pending_def release_entry_def)

text \<open>
  C21. Approving the card of a review of the build claw in the War Room closes the card and nothing else: the callback calls the data of
  the card as the next step, the exception is swallowed, and the action still waits, with no line in the log. The card of a hold is
  released: the action is gone and the release is in the log. In neither case a pull request or a deployment changes, or anything is
  asked of GitHub or of the hosting service.
\<close>

theorem build_card_approval:
  assumes "safe_action_id raw = Inr i" and "find_card i (wr_cards s) = Some (n, Some d)" and "card_recipient d = ''build''"
    and "map_of (bs_pending s) i = Some a" and "ba_id a = i"
  shows "(let t = fst (approve_hold_message (build_handlers v) raw s) in
      map_of (wr_cards t) n = None
      \<and> (if ba_mode a = ReviewMode then bs_pending t = bs_pending s \<and> bs_log t = bs_log s
         else map_of (bs_pending t) i = None \<and> bs_log t = bs_log s @ [Some (release_entry v a)])
      \<and> bs_prs t = bs_prs s \<and> bs_deploys t = bs_deploys s \<and> bs_calls t = bs_calls s)"
proof -
  let ?s = "s\<lparr>wr_cards := filter (\<lambda>(m, _). m \<noteq> n) (wr_cards s),
      wr_inbox := (wr_inbox s)(''build'' := put_file n (Some d) (wr_inbox s ''build''))\<rparr>"
  have pend: "map_of (bs_pending ?s) i = Some a" using assms(4) by simp
  have data: "d \<noteq> []" using assms(3) by (auto simp: card_recipient_def json_get_def VALID_RECIPIENTS_def split: if_splits)
  have gone: "map_of (filter (\<lambda>x. (case x of (m, _) \<Rightarrow> m \<noteq> n) \<and> (case x of (m, _) \<Rightarrow> m \<noteq> i)) fs) n = None"
    for fs :: "json dict option dict" by (induction fs) auto
  obtain z where h: "build_handlers v ''build'' = Some z"
      "on_approve z i d = andthen (build_approve v i (Some call_data)) (\<lambda>_. ok ())"
    using data by (simp add: build_handlers_def register_warroom_action_handler_def)
  have run: "fst (approve_hold_message (build_handlers v) raw s) =
      wr_cards_update (filter (\<lambda>(m, _). m \<noteq> i)) (fst (call_handler (Some (andthen (build_approve v i (Some call_data)) (\<lambda>_. ok ()))) ?s))"
  proof -
    have "snd (call_handler (Some (andthen (build_approve v i (Some call_data)) (\<lambda>_. ok ()))) ?s) = Inr ()"
      by (cases "andthen (build_approve v i (Some call_data)) (\<lambda>_. ok ()) ?s"; rename_tac t r, case_tac r)
         (simp_all add: call_handler_def attempt_def)
    then show ?thesis using assms(1-3) by (simp add: h approve_hold_message_def target_card_def andthen_sure andthen_step)
  qed
  show ?thesis
  proof (cases "ba_mode a")
    case ReviewMode
    have "call_handler (Some (andthen (build_approve v i (Some call_data)) (\<lambda>_. ok ()))) ?s = (?s, Inr ())"
      by (simp add: call_handler_def attempt_def andthen_def approve_review_raises[OF pend ReviewMode])
    then show ?thesis using run ReviewMode by (simp add: Let_def gone)
  next
    case HoldMode
    have "fst (call_handler (Some (andthen (build_approve v i (Some call_data)) (\<lambda>_. ok ()))) ?s)
        = ?s\<lparr>bs_log := bs_log ?s @ [Some (release_entry v a)], bs_pending := AList.delete i (bs_pending ?s)\<rparr>"
      by (simp add: call_handler_def attempt_def andthen_def approve_hold_releases[OF pend HoldMode assms(5)])
    then show ?thesis using run HoldMode by (simp add: Let_def gone AList.delete_conv')
  qed
qed

theorem build_card_approval_witness:
  "\<exists>s. map_of (bs_pending (fst (approve_hold_message (build_handlers (build_world StubClient 0)) ''aa'' s))) ''aa'' \<noteq> None
     \<and> map_of (wr_cards (fst (approve_hold_message (build_handlers (build_world StubClient 0)) ''aa'' s))) ''aa'' = None"
proof -
  let ?v = "build_world StubClient 0"
  let ?a = "build_new_action ?v [] ''pr_review'' ReviewMode ''aa'' ''text'' []"
  let ?d = "card_data ''aa'' ''build'' ''REVIEW'' ''pr_review'' ''text'' ''build'' 0 []"
  let ?s = "(new_build [])\<lparr>bs_pending := [(''aa'', ?a)], wr_cards := [(''aa'', Some ?d)]\<rparr>"
  have i: "safe_action_id ''aa'' = Inr ''aa''" by (rule safe_action_id_plain) (simp_all add: space_char_def)
  have "find_card ''aa'' (wr_cards ?s) = Some (''aa'', Some ?d)" "card_recipient ?d = ''build''"
      "map_of (bs_pending ?s) ''aa'' = Some ?a" "ba_id ?a = ''aa''" "ba_mode ?a = ReviewMode"
    by (simp_all add: find_card_def card_matches_def card_recipient_def card_data_def json_get_def VALID_RECIPIENTS_def VALID_ROLES_def
        build_new_action_def)
  then show ?thesis using build_card_approval[OF i, of ?s "''aa''" ?d ?a ?v] by (intro exI[of _ ?s]) (simp add: Let_def)
qed

section \<open>The lock of a deployment\<close>

definition pr_of_deploy :: "build_env \<Rightarrow> string \<Rightarrow> build_files \<Rightarrow> string" where
  "pr_of_deploy v i s = py_text (bv_str v) (json_get (build_read_json i (bs_deploys s PendingDeploys)) ''pr_id'' (JStr []))"

definition lock_holder :: "build_env \<Rightarrow> string \<Rightarrow> build_files \<Rightarrow> int option" where
  "lock_holder v pr s = (case map_of (bs_locks s) pr of Some (Some pid) \<Rightarrow> if bv_alive v pid then Some pid else None | _ \<Rightarrow> None)"

lemma keeps_locks [keeps_intros]:
  "keeps (\<lambda>u. bs_locks u = x) (deploy_now v)" "keeps (\<lambda>u. bs_locks u = x) (deploy_done v i old url)"
  "keeps (\<lambda>u. bs_locks u = x) (deploy_failed v i old st)"
  unfolding deploy_now_def called_def deploy_done_def deploy_failed_def put_deploy_def drop_deploy_def log_deploy_def log_build_def
    send_deploy_complete_def build_send_def Let_def
  by (auto intro!: keeps_intros keeps_upd split: client.split option.split sum.split)

text \<open>What \<^verbatim>\<open>finally\<close> leaves, whatever the computation does.\<close>

lemma finally_state: "fst (finally_do m (upd f) s) = f (fst (m s))"
  by (cases "m s"; rename_tac t r, case_tac r) (simp_all add: finally_do_def attempt_def andthen_def)

lemma take_lock:
  "take_deploy_lock v pr s = (case lock_holder v pr s of
     Some pid \<Rightarrow> (s, Inl (PyExn ''RuntimeError'' (''Deployment for PR '' @ pr @ '' is already in progress by PID '' @ py_str_int pid)))
   | None \<Rightarrow> (s\<lparr>bs_locks := AList.update pr (Some (bv_pid v)) (bs_locks s)\<rparr>, Inr ()))"
  by (simp add: take_deploy_lock_def lock_holder_def split: option.split)


definition staged_build :: build_files where
  "staged_build = (new_build [])\<lparr>bs_deploys := (\<lambda>p. case p of PendingDeploys \<Rightarrow> [(''d1'', Some [(''deploy_id'', JStr ''d1''), (''pr_id'', JStr ''p1'')])] | _ \<Rightarrow> []),
     bs_locks := [(''p1'', Some 9)]\<rparr>"


section \<open>Generated code that fails its tests\<close>

definition tests_pass :: "build_env \<Rightarrow> nat \<Rightarrow> bool" where
  "tests_pass v n \<longleftrightarrow> fst (read_tests (bv_tests v n)) \<in> {''passing'', ''skipped''}"

lemma keeps_asked: "keeps (\<lambda>u. bs_asked u = x) (write_to_branch v b t)"
  unfolding write_to_branch_def commit_file_def github_def called_def log_build_def
  by (auto intro!: keeps_intros keeps_upd split: prod.split client.split option.split)

lemma never_for_each: "(\<And>x. never_raises (f x)) \<Longrightarrow> never_raises (for_each xs f)"
  by (induction xs) (simp_all add: never_then)

lemma writes_branch: "\<exists>t fs. write_to_branch v b text s = (t, Inr fs) \<and> bs_asked t = bs_asked s"
proof -
  have "never_raises (write_to_branch v b text)"
    unfolding write_to_branch_def log_build_def
    by (auto intro!: never_then never_for_each never_if never_caught split: prod.split)
  then obtain t fs where w: "write_to_branch v b text s = (t, Inr fs)" by (rule never_raisesE)
  have "bs_asked (fst (write_to_branch v b text s)) = bs_asked s" by (rule keepsD[OF keeps_asked]) simp
  then show ?thesis using w by simp
qed

lemma asks_once: "\<forall>k n. \<exists>t. bv_infer v k n = Inr t \<Longrightarrow> \<exists>t x. build_ask v k s = (t, Inr x) \<and> bs_asked t = Suc (bs_asked s)"
  by (auto simp: build_ask_def)

lemma generates_once:
  assumes "\<forall>k n. \<exists>t. bv_infer v k n = Inr t"
  shows "\<exists>t x. generate_implementation v i s = (t, Inr x) \<and> bs_asked t = Suc (bs_asked s)"
proof -
  obtain t x where "build_ask v ''source_code_generation'' s = (t, Inr x)" "bs_asked t = Suc (bs_asked s)"
    using asks_once[OF assms] by blast
  then show ?thesis by (simp add: generate_implementation_def log_build_def andthen_step)
qed

lemma fix_asks_once:
  assumes "\<forall>k n. \<exists>t. bv_infer v k n = Inr t"
  shows "\<exists>t. andthen (analyze_failure_and_fix v) (\<lambda>x. if x = [] then ok () else andthen (write_to_branch v b x) (\<lambda>_. ok ())) s = (t, Inr ())
    \<and> bs_asked t = Suc (bs_asked s)"
proof -
  obtain t x where a: "analyze_failure_and_fix v s = (t, Inr x)" "bs_asked t = Suc (bs_asked s)"
    using asks_once[OF assms] unfolding analyze_failure_and_fix_def by blast
  obtain u fs where w: "write_to_branch v b x t = (u, Inr fs)" "bs_asked u = bs_asked t" using writes_branch by blast
  show ?thesis using a w by (cases "x = []") (simp_all add: andthen_step)
qed

lemma tries_fixes:
  assumes "\<forall>k n. \<exists>t. bv_infer v k n = Inr t"
  shows "\<exists>t r. try_fixes v i b k n f s = (t, Inr r) \<and> bs_asked t \<le> bs_asked s + (2 * k - 1)
    \<and> (case find (tests_pass v) [n..<n + k] of
         Some m \<Rightarrow> rs_status r = ''ready_for_pr'' \<and> rs_attempts r = m
       | None \<Rightarrow> rs_status r = ''failed_after_max_attempts'' \<and> rs_attempts r = MAX_FIX_ATTEMPTS)"
proof (induction k arbitrary: n f s)
  case 0
  show ?case by simp
next
  case (Suc k)
  obtain t ans where g: "generate_implementation v i s = (t, Inr ans)" "bs_asked t = Suc (bs_asked s)"
    using generates_once[OF assms] by blast
  obtain u fs where w: "write_to_branch v b ans t = (u, Inr fs)" "bs_asked u = bs_asked t" using writes_branch by blast
  obtain st pg fg where rd: "read_tests (bv_tests v n) = (st, pg, fg)" by (cases "read_tests (bv_tests v n)") auto
  have range: "[n..<n + Suc k] = n # [Suc n..<Suc n + k]" by (simp add: upt_conv_Cons)
  show ?case
  proof (cases "st = ''passing'' \<or> st = ''skipped''")
    case True
    then have "tests_pass v n" by (auto simp: tests_pass_def rd)
    then have "find (tests_pass v) [n..<n + Suc k] = Some n" by (simp only: range find.simps if_True)
    then show ?thesis using True g w by (simp add: andthen_step rd del: upt_Suc add_Suc_right)
  next
    case False
    define repair where "repair = (if k = 0 then ok () else andthen (analyze_failure_and_fix v)
      (\<lambda>x. if x = [] then ok () else andthen (write_to_branch v b x) (\<lambda>_. ok ())))"
    obtain z where z: "repair u = (z, Inr ())" "bs_asked z \<le> bs_asked u + (if k = 0 then 0 else 1)"
      using fix_asks_once[OF assms, of b u] unfolding repair_def by (cases "k = 0") auto
    have "\<not> tests_pass v n" using False by (simp add: tests_pass_def rd)
    then have find: "find (tests_pass v) [n..<n + Suc k] = find (tests_pass v) [Suc n..<Suc n + k]" by (simp only: range find.simps if_False)
    have run: "try_fixes v i b (Suc k) n f s = try_fixes v i b k (Suc n) fg z"
      using False g w z by (simp add: andthen_step rd repair_def[symmetric])
    obtain y r where y: "try_fixes v i b k (Suc n) fg z = (y, Inr r)" "bs_asked y \<le> bs_asked z + (2 * k - 1)"
        "(case find (tests_pass v) [Suc n..<Suc n + k] of Some m \<Rightarrow> rs_status r = ''ready_for_pr'' \<and> rs_attempts r = m
          | None \<Rightarrow> rs_status r = ''failed_after_max_attempts'' \<and> rs_attempts r = MAX_FIX_ATTEMPTS)"
      using Suc.IH by blast
    have "bs_asked y \<le> bs_asked s + (2 * Suc k - 1)" using y(2) z(2) g(2) w(2) by (cases k) auto
    then show ?thesis using y(1,3) run find by (intro exI[of _ y] exI[of _ r]) (simp only: fst_conv snd_conv simp_thms)
  qed
qed

text \<open>
  C23. Resolving an issue ends, after at most three attempts and five questions to the inference service, when the service answers: it
  is ready for a pull request exactly when the tests of one of the three attempts pass or are skipped, and the first such attempt is
  the number it reports; otherwise it has failed after three attempts.
\<close>

theorem resolve_issue_tries_three_times:
  assumes "\<forall>k n. \<exists>t. bv_infer v k n = Inr t"
  shows "\<exists>t r. resolve_issue v c s = (t, Inr r) \<and> bs_asked t \<le> bs_asked s + 5
    \<and> (if tests_pass v 1 \<or> tests_pass v 2 \<or> tests_pass v 3
       then rs_status r = ''ready_for_pr'' \<and> rs_attempts r = (if tests_pass v 1 then 1 else if tests_pass v 2 then 2 else 3)
       else rs_status r = ''failed_after_max_attempts'' \<and> rs_attempts r = 3)"
proof -
  have "[1..<1 + MAX_FIX_ATTEMPTS] = [1, 2, 3]" by (simp add: MAX_FIX_ATTEMPTS_def upt_rec)
  then show ?thesis
    using tries_fixes[OF assms, of "cx_issue c" "create_branch_name v (cx_issue c)" MAX_FIX_ATTEMPTS 1 0 s]
    by (auto simp: resolve_issue_def MAX_FIX_ATTEMPTS_def split: if_splits)
qed

theorem resolve_issue_tries_three_times_witness:
  "\<exists>t r. resolve_issue (build_world StubClient 0) (task_score ''x'') (new_build []) = (t, Inr r) \<and> rs_status r = ''ready_for_pr''"
proof -
  have "\<forall>k n. \<exists>t. bv_infer (build_world StubClient 0) k n = Inr t" by (simp add: build_world_def)
  moreover have "tests_pass (build_world StubClient 0) 1" by (simp add: tests_pass_def build_world_def read_tests_def)
  ultimately show ?thesis
    using resolve_issue_tries_three_times[of "build_world StubClient 0" "task_score ''x''" "new_build []"] by auto
qed

section \<open>Decisions that come too late\<close>

text \<open>Logs, cards and waiting actions leave the records of pull requests and deployments and the calls alone.\<close>

definition build_records where
  "build_records s = (bs_prs s, bs_deploys s, bs_locks s, bs_calls s)"

lemma records_log [simp]: "build_records (fst (log_pr v a e d s)) = build_records s" "build_records (fst (log_build v a e outc d s)) = build_records s"
  "build_records (fst (log_deploy v a e d s)) = build_records s" "snd (log_pr v a e d s) = Inr ()" "snd (log_build v a e outc d s) = Inr ()"
  "snd (log_deploy v a e d s) = Inr ()"
  by (simp_all add: log_pr_def log_build_def log_deploy_def build_records_def)

lemma keeps_records: "keeps (\<lambda>u. build_records u = x) (queue_pr_merge_hold v pr ti url)"
    "keeps (\<lambda>u. build_records u = x) (send_deploy_complete v pj ur vs)"
  unfolding queue_pr_merge_hold_def keep_pending_def log_pr_def log_build_def show_action_def write_warroom_action_def
    send_deploy_complete_def build_send_def Let_def
  by (auto intro!: keeps_intros keeps_upd simp: build_records_def split: option.split sum.split)

lemma holds_queued: "snd (queue_pr_merge_hold v pr ti url s) = Inr (''pr-merge-hold-'' @ pr)"
    "build_records (fst (queue_pr_merge_hold v pr ti url s)) = build_records s"
proof -
  have "never_raises (show_action v a)" for a unfolding show_action_def by (intro never_if never_caught)
  then obtain y where "snd (show_action v a u) = Inr y" for a u unfolding never_raises_def by (metis old.unit.exhaust)
  then show "snd (queue_pr_merge_hold v pr ti url s) = Inr (''pr-merge-hold-'' @ pr)"
    by (simp add: queue_pr_merge_hold_def keep_pending_def build_new_action_def Let_def andthen_sure)
  show "build_records (fst (queue_pr_merge_hold v pr ti url s)) = build_records s" by (rule keepsD[OF keeps_records(1)]) simp
qed

text \<open>The record of a pull request the operator has blocked.\<close>

definition blocked_data :: "string \<Rightarrow> json dict \<Rightarrow> json dict" where
  "blocked_data why d = with_key ''block_reason'' (JStr why) (with_key ''status'' (JStr ''blocked'') d)"

definition approved_data :: "int \<Rightarrow> string \<Rightarrow> json dict \<Rightarrow> json dict" where
  "approved_data now i d =
     with_key ''hold_action_id'' (JStr (''pr-merge-hold-'' @ i)) (with_key ''approved_at'' (JInt now) (with_key ''status'' (JStr ''approved'') d))"

lemma blocks:
  assumes "map_of (bs_prs s Drafted) i = Some (Some d)"
  shows "snd (handle_review_blocked v i why s) = Inr ()"
    and "map_of (bs_prs (fst (handle_review_blocked v i why s)) Drafted) i = Some (Some (blocked_data why d))"
    and "bs_calls (fst (handle_review_blocked v i why s)) = bs_calls s"
  using assms by (simp_all add: handle_review_blocked_def build_read_json_def put_pr_def log_pr_def log_build_def blocked_data_def)

lemma approves:
  assumes "map_of (bs_prs s Drafted) i = Some (Some d)"
  shows "snd (handle_review_approved v i s) = Inr ()"
    and "map_of (bs_prs (fst (handle_review_approved v i s)) Approved) i = Some (Some (approved_data (bv_now v) i d))"
    and "bs_calls (fst (handle_review_approved v i s)) = bs_calls s"
proof -
  let ?d = "with_key ''approved_at'' (JInt (bv_now v)) (with_key ''status'' (JStr ''approved'') d)"
  let ?s = "s\<lparr>bs_prs := (bs_prs s)(Approved := AList.update i (Some ?d) (bs_prs s Approved), Drafted := AList.delete i (bs_prs s Drafted))\<rparr>"
  let ?q = "queue_pr_merge_hold v i (json_get ?d ''title'' (JStr [])) (json_get ?d ''github_pr_url'' (JStr [])) ?s"
  have q: "snd ?q = Inr (''pr-merge-hold-'' @ i)" "build_records (fst ?q) = build_records ?s" by (rule holds_queued)+
  have run: "handle_review_approved v i s = andthen (put_pr Approved i (approved_data (bv_now v) i d)) (\<lambda>_.
      andthen (log_pr v ''review_approved'' i []) (\<lambda>_.
      log_build v ''pr_review_approved'' i ''approved'' [(''hold_action_id'', JStr (''pr-merge-hold-'' @ i))])) (fst ?q)"
    using assms q(1) by (simp add: handle_review_approved_def build_read_json_def put_pr_def drop_pr_def approved_data_def Let_def fun_upd_twist andthen_sure)
  show "snd (handle_review_approved v i s) = Inr ()"
    "map_of (bs_prs (fst (handle_review_approved v i s)) Approved) i = Some (Some (approved_data (bv_now v) i d))"
    "bs_calls (fst (handle_review_approved v i s)) = bs_calls s"
    using q(2) by (simp_all add: run put_pr_def log_pr_def log_build_def build_records_def)
qed

text \<open>
  Blocking a pull request neither stops it nor leaves a record that can be read. The manager never looks at the status, so a blocked
  draft can be approved and its hold released: the pull request is merged, and then the release raises, because the reason for which it
  was blocked is no field of the record that is made of the file.
\<close>

theorem blocked_pr_is_merged_then_raises:
  assumes "map_of (bs_prs s Drafted) i = Some (Some (pr_to_dict p))" and "bv_github v = RealClient"
    and "bv_request v ''merge_pull_request'' = None"
    and "s1 = fst (handle_review_blocked v i why s)" and "s2 = fst (handle_review_approved v i s1)"
  shows "\<exists>t e d. handle_merge_hold_released v i s2 = (t, Inl e) \<and> exn_class e = ''TypeError''
    \<and> bs_calls t = bs_calls s @ [MergePr (JInt (pr_number p))]
    \<and> map_of (bs_prs t Merged) i = Some (Some d) \<and> map_of d ''status'' = Some (JStr ''merged'')"
proof -
  define d where "d = approved_data (bv_now v) i (blocked_data why (pr_to_dict p))"
  have s1: "map_of (bs_prs s1 Drafted) i = Some (Some (blocked_data why (pr_to_dict p)))" "bs_calls s1 = bs_calls s"
    using blocks[OF assms(1)] by (simp_all add: assms(4))
  have s2: "map_of (bs_prs s2 Approved) i = Some (Some d)" "bs_calls s2 = bs_calls s"
    using approves[OF s1(1)] s1(2) by (simp_all add: assms(5) d_def)
  define e where "e = with_key ''merged_at'' (JInt (bv_now v)) (with_key ''status'' (JStr ''merged'') d)"
  have number: "json_get d ''github_pr_number'' (JInt 0) = JInt (pr_number p)"
    by (simp add: d_def approved_data_def blocked_data_def pr_to_dict_def json_get_def)
  have bad: "pr_of_data e = Inl (PyExn ''TypeError'' (''PRRecord.__init__() got an unexpected keyword argument '' @ quoted ''block_reason''))"
    by (simp add: e_def d_def approved_data_def blocked_data_def pr_to_dict_def pr_of_data_def from_kwargs_def)
  have "map_of e ''status'' = Some (JStr ''merged'')" by (simp add: e_def AList.update_conv')
  then show ?thesis
    using assms(2,3) s2 number bad
    by (simp add: handle_merge_hold_released_def build_read_json_def merge_pull_request_def github_def called_def put_pr_def drop_pr_def
        log_pr_def log_build_def e_def[symmetric])
qed

definition drafted_pr :: pr_record where
  "drafted_pr = \<lparr>pr_id = ''p1'', pr_issue = 3, pr_branch = ''fix'', pr_title = ''title'', pr_text = [], pr_number = 5, pr_url = [], pr_files = 1,
     pr_tests = ''passing'', pr_tests_count = 1, pr_status = ''drafted'', pr_review = None, pr_hold = None, pr_opened = 0\<rparr>"

theorem blocked_pr_is_merged_then_raises_witness:
  "\<exists>s2 t e. handle_merge_hold_released (build_world RealClient 0) ''p1'' s2 = (t, Inl e) \<and> bs_calls t = [MergePr (JInt 5)]"
proof -
  let ?v = "build_world RealClient 0"
  let ?s = "(new_build [])\<lparr>bs_prs := (\<lambda>p. case p of Drafted \<Rightarrow> [(''p1'', Some (pr_to_dict drafted_pr))] | _ \<Rightarrow> [])\<rparr>"
  have "map_of (bs_prs ?s Drafted) ''p1'' = Some (Some (pr_to_dict drafted_pr))" "bv_github ?v = RealClient"
      "bv_request ?v ''merge_pull_request'' = None" "bs_calls ?s = []"
    by (simp_all add: build_world_def new_build_def)
  then show ?thesis using blocked_pr_is_merged_then_raises[of ?s "''p1''" drafted_pr ?v, OF _ _ _ refl refl] by (fastforce simp: drafted_pr_def)
qed

text \<open>Cancelling a deployment does not stop it either: its record stays pending, and a release deploys it.\<close>

theorem cancelled_deployment_is_deployed:
  assumes "map_of (bs_deploys s PendingDeploys) i = Some (Some (deploy_to_dict d))" and "lock_holder v (dp_pr d) s = None"
    and "bv_hosting v = RealClient" and "bv_trigger v = Inr url" and "bv_ready v = Inr ''ready''"
    and "s1 = fst (handle_deploy_hold_cancelled v i s)"
  shows "map_of (bs_deploys s1 PendingDeploys) i = Some (Some (with_key ''status'' (JStr ''cancelled'') (deploy_to_dict d)))
    \<and> (\<exists>t e. handle_deploy_hold_released v i s1 = (t, Inr e) \<and> map_of e ''status'' = Some (JStr ''deployed'')
        \<and> bs_calls t = bs_calls s @ [TriggerDeployment] \<and> map_of (bs_deploys t DeployHistory) i = Some (Some e))"
proof -
  define c where "c = with_key ''status'' (JStr ''cancelled'') (deploy_to_dict d)"
  have s1: "map_of (bs_deploys s1 PendingDeploys) i = Some (Some c)" "bs_locks s1 = bs_locks s" "bs_calls s1 = bs_calls s"
    using assms(1) by (simp_all add: assms(6) handle_deploy_hold_cancelled_def build_read_json_def put_deploy_def log_deploy_def log_build_def c_def)
  define pr where "pr = dp_pr d"
  have pr: "py_text (bv_str v) (json_get c ''pr_id'' (JStr [])) = pr"
    by (simp add: c_def deploy_to_dict_def json_get_def py_text_def pr_def)
  have free: "lock_holder v pr s1 = None" using assms(2) s1(2) by (simp add: lock_holder_def pr_def)
  let ?l = "s1\<lparr>bs_locks := AList.update pr (Some (bv_pid v)) (bs_locks s1)\<rparr>"
  let ?u = "?l\<lparr>bs_calls := bs_calls s1 @ [TriggerDeployment], bs_locks := AList.delete pr (bs_locks ?l)\<rparr>"
  have now: "finally_do (deploy_now v) (drop_deploy_lock pr) ?l = (?u, Inr (url, ''ready''))"
    using assms(3-5) by (simp add: finally_do_def deploy_now_def called_def drop_deploy_lock_def attempt_def andthen_def)
  have run: "handle_deploy_hold_released v i s1 = deploy_done v i c url ?u"
    using s1(1) now free
    by (simp add: handle_deploy_hold_released_def build_read_json_def Let_def pr take_lock andthen_step)
  define e where "e = with_key ''deploy_url'' (JStr url) (with_key ''deployed_at'' (JInt (bv_now v)) (with_key ''status'' (JStr ''deployed'') c))"
  have good: "deploy_of_data e = Inr e"
    by (simp add: e_def c_def deploy_to_dict_def deploy_of_data_def from_kwargs_def)
  have st: "map_of e ''status'' = Some (JStr ''deployed'')" by (simp add: e_def AList.update_conv')
  define w where "w = ?u\<lparr>bs_deploys := (bs_deploys ?u)(DeployHistory := AList.update i (Some e) (bs_deploys ?u DeployHistory),
      PendingDeploys := AList.delete i (bs_deploys ?u PendingDeploys))\<rparr>"
  let ?send = "send_deploy_complete v (json_get e ''pr_id'' (JStr [])) url (json_get e ''version'' (JStr [])) w"
  have "never_raises (send_deploy_complete v a ur vs)" for a ur vs
    unfolding send_deploy_complete_def build_send_def log_build_def Let_def
    by (auto intro!: never_then never_if split: option.split sum.split)
  then have send: "snd ?send = Inr ()" unfolding never_raises_def by (metis old.unit.exhaust)
  have records: "build_records (fst ?send) = build_records w" by (rule keepsD[OF keeps_records(2)]) simp
  have "deploy_done v i c url ?u = andthen (log_deploy v ''deployed'' i [(''url'', JStr url)]) (\<lambda>_.
      andthen (log_build v ''deployment_completed'' i ''success'' [(''deploy_url'', JStr url)]) (\<lambda>_. lift_exn (Inr e))) (fst ?send)"
    using send by (simp add: deploy_done_def e_def[symmetric] put_deploy_def drop_deploy_def w_def fun_upd_twist Let_def andthen_sure good)
  then have "snd (deploy_done v i c url ?u) = Inr e" "build_records (fst (deploy_done v i c url ?u)) = build_records w"
    using records by (simp_all add: log_deploy_def log_build_def build_records_def)
  then have "bs_calls (fst (deploy_done v i c url ?u)) = bs_calls s @ [TriggerDeployment]"
      "map_of (bs_deploys (fst (deploy_done v i c url ?u)) DeployHistory) i = Some (Some e)" "snd (deploy_done v i c url ?u) = Inr e"
    by (simp_all add: build_records_def w_def s1(3))
  then show ?thesis using s1(1) st run by (cases "deploy_done v i c url ?u") (simp add: c_def[symmetric])
qed

section \<open>Files of errors\<close>

text \<open>
  However many root causes a pass of the error monitor finds, it leaves at most one new file: the files are named after the second.
\<close>

theorem one_error_file_per_pass:
  "fst ` set (bs_active (fst (run_monitoring_pass v s))) \<subseteq> insert (''error-'' @ bv_stamp v ''%Y%m%d%H%M%S'') (fst ` set (bs_active s))"
proof -
  define i where "i = ''error-'' @ bv_stamp v ''%Y%m%d%H%M%S''"
  define Q where "Q = (\<lambda>fs :: build_folder. fst ` set fs \<subseteq> insert i (fst ` set (bs_active s)))"
  have put: "Q fs \<Longrightarrow> Q (AList.update i f fs)" for fs f by (simp add: Q_def dom_update)
  have same: "keeps (\<lambda>u. Q (bs_active u)) (queue_pr_review v p t b n f ts k ur)" "keeps (\<lambda>u. Q (bs_active u)) (log_build v a e oc d)"
    for p t b n f ts k ur a e oc d
    unfolding queue_pr_review_def keep_pending_def log_pr_def log_build_def show_action_def write_warroom_action_def Let_def
    by (auto intro!: keeps_intros keeps_upd)
  have new: "keeps (\<lambda>u. Q (bs_active u)) (save_new_pattern v c es)" for c es
    unfolding save_new_pattern_def Let_def i_def[symmetric] by (intro keeps_intros same keeps_upd) (simp add: put)
  have "keeps (\<lambda>u. Q (bs_active u)) (run_monitoring_pass v)"
    unfolding run_monitoring_pass_def recent_errors_def auto_draft_pattern_fix_def Let_def
    by (auto intro!: keeps_intros same new keeps_upd split: client.split option.split prod.split)
  moreover have "Q (bs_active s)" by (auto simp: Q_def)
  ultimately have "Q (bs_active (fst (run_monitoring_pass v s)))" by (rule keepsD)
  then show ?thesis by (simp only: Q_def i_def)
qed

section \<open>Anchored lines\<close>

lemma digits_plain: "CHR ''|'' \<notin> set (digits_of_nat n)" "CHR ''#'' \<notin> set (digits_of_nat n)"
  using digits_of_nat_chars[of n] by (auto simp: list_all_iff digit_char_def)

text \<open>
  An anchored line verifies against a text exactly when the first six digits of the digest of its content are those of the text
  without the blanks around it: a line with an indentation does not verify against itself unless the two digests agree.
\<close>

theorem hash_anchor_verifies_iff:
  assumes "\<And>t. CHR ''|'' \<notin> set (bv_md5 v t)" and "\<And>t. CHR ''#'' \<notin> set (bv_md5 v t)"
  shows "verify_hash_anchor v (hash_anchor_line v n content) actual \<longleftrightarrow> take 6 (bv_md5 v content) = take 6 (bv_md5 v (py_strip actual))"
proof -
  let ?h = "digits_of_nat n @ ''#'' @ take 6 (bv_md5 v content)"
  have "CHR ''|'' \<notin> set ?h" using assms(1)[of content] digits_plain(1)[of n] in_set_takeD[of _ 6] by fastforce
  then have head: "takeWhile (\<lambda>c. c \<noteq> CHR ''|'') (?h @ ''| '' @ content) = ?h"
    by (subst takeWhile_append2) auto
  have after: "dropWhile (\<lambda>c. c \<noteq> CHR ''#'') ?h = ''#'' @ take 6 (bv_md5 v content)"
    using digits_plain(2)[of n] by (subst dropWhile_append2) auto
  have "hash_anchor_line v n content = ?h @ ''| '' @ content" by (simp add: hash_anchor_line_def)
  then show ?thesis using head after by (simp add: verify_hash_anchor_def Let_def)
qed

end
