(* ===== verification/Spec2Isabelle.thy ===== *)
theory Spec2Isabelle
  imports Bridge_Props Contract_Props Routing_Props Mesh_Props Failover_Props Provenance_Props Evolution_Props
    Registry_Props Blueprint_Props Address_Props Cost_Props Relay_Props Containment
    Client_Props Gateway_Props Ops_Props Build_Props
begin

text \<open>
  A verification development of the core of Milimo Claw: the Python code that lets a squad of
  agents (claws) exchange messages, route their inference calls, spend money under the control of
  one operator, and evolve their own tools and blueprints.

  \<^bold>\<open>The parts of the program and the theories that model them.\<close>

  \<^item> The spend handler, \<^verbatim>\<open>milimo-core/src/milimo_core/finance/spend_handler.py\<close>: a purchase passes a
    REVIEW and a HOLD stage before \<^verbatim>\<open>link-cli\<close> charges it. \<open>Spend_Model\<close> has the data, the log files
    and the state of a handler (request objects live in a heap, since the dictionary, the polling
    threads and the callers share them); \<open>Spend_Handler\<close> the REVIEW operations and the recovery of one
    request from the decision log; \<open>Spend_Release\<close> the release of a HOLD (lock file, idempotency
    check, daily cap, the subprocess calls), the polling threads and the recovery of a whole handler.
    Every \<open>_log_decision\<close> and every file append is a definition; times, process identifiers and the
    answers of \<^verbatim>\<open>link-cli\<close> are arguments.
    \<open>Spend_Facts\<close>, \<open>Spend_Safety\<close>, \<open>Spend_Runs\<close>, \<open>Spend_Recovery\<close> and \<open>Spend_Refinement\<close> are its
    library: frames, the effect of a release on the spend log, runs of events and their invariants,
    and the simulation between live request objects and what the log lets a restart rebuild.
    \<open>Spend_Props\<close> holds the properties.
  \<^item> The message contracts, \<^verbatim>\<open>milimo_core/contracts.py\<close> and \<^verbatim>\<open>mesh_config.yaml\<close>: \<open>Contracts\<close> has every
    schema, the validator and the shipped routing matrix; \<open>Contract_Props\<close> characterises the
    messages that pass and compares the matrix with the schemas.
  \<^item> The operator's queue, \<^verbatim>\<open>orchestrator/solo_warroom.py\<close>: \<open>Warroom\<close>. \<open>Decision_Queue\<close> states its
    contract as the locale \<open>decision_queue\<close> (an entry waits, is settled once, never returns), proves
    the consequences inside it and interprets it on the War Room.
  \<^item> The bridge between the two, \<^verbatim>\<open>orchestrator/finance/spend_warroom_bridge.py\<close>: \<open>Spend_Bridge\<close>, with a
    step relation for a session of claws and operator; \<open>Bridge_Props\<close> rests on the locale's facts.
  \<^item> The privacy router and the failover broker it asks, \<^verbatim>\<open>milimo_core/privacy_router.py\<close> and
    \<^verbatim>\<open>milimo_core/failover_broker.py\<close>, with the shipped \<^verbatim>\<open>privacy_policy.yaml\<close>: \<open>Routing\<close> and
    \<open>Routing_Props\<close>.
  \<^item> The squad mesh, \<^verbatim>\<open>orchestrator/mesh.py\<close>: \<open>Mesh\<close> and \<open>Mesh_Props\<close>. It calls the validator and the
    router; directories of message files are association lists by file name.
  \<^item> The failover manager, \<^verbatim>\<open>orchestrator/mesh_failover.py\<close>: \<open>Failover\<close> and \<open>Failover_Props\<close>. It reads
    the topology of the mesh.

  \<^item> Blueprints, \<^verbatim>\<open>milimo_core/blueprint_manager.py\<close>, \<^verbatim>\<open>blueprint_merger.py\<close> and
    \<^verbatim>\<open>marketplace_manager.py\<close>: \<open>Blueprint\<close> (the state of a manager, its snapshot and handoff files; the
    provenance chains live in a store, since snapshots and the state share one list),
    \<open>Blueprint_Merge\<close> and \<open>Marketplace\<close>; \<open>Blueprint_Props\<close>.
  \<^item> Attestations and chains, \<^verbatim>\<open>milimo_core/provenance_signer.py\<close>, \<^verbatim>\<open>provenance_verifier.py\<close> and
    \<^verbatim>\<open>chain_validator.py\<close>: \<open>Provenance\<close>, \<open>Chain\<close> (the recursive traversal as a function on a stack, with
    its termination), \<open>Chain_Facts\<close> and \<open>Provenance_Props\<close>. They attest the snapshots of the blueprint
    manager.
  \<^item> The evolution of tools: \<open>Op_Log\<close> (\<^verbatim>\<open>milimo_core/operation_log.py\<close>), \<open>Patterns\<close>
    (\<^verbatim>\<open>pattern_detector.py\<close>), \<open>Tool_Build\<close> (\<^verbatim>\<open>tool_proposal.py\<close>, \<^verbatim>\<open>tool_builder.py\<close>), \<open>Tool_Registry\<close>
    (\<^verbatim>\<open>tool_registry.py\<close>, with the keys of \<open>Provenance\<close>) and \<open>Evolution\<close> (\<^verbatim>\<open>evolution_cycle.py\<close>: the five
    stages over all of them, and the scheduler). \<open>Registry_Props\<close> and \<open>Evolution_Props\<close> hold the properties.

  \<^item> The egress check, \<^verbatim>\<open>milimo_core/ssrf_validator.py\<close> with the shipped \<^verbatim>\<open>policies/milimo-mcp.yaml\<close>:
    \<open>Address_Guard\<close> (Python's \<^verbatim>\<open>ipaddress\<close>, addresses as words of 32 and 128 bits, and the guard) and
    \<open>Address_Props\<close>.
  \<^item> Metrics and the token limit, \<^verbatim>\<open>milimo_core/metrics_collector.py\<close> and \<^verbatim>\<open>cost_guard.py\<close>: \<open>Cost_Guard\<close>
    (with several processes on the same files) and \<open>Cost_Props\<close>.
  \<^item> The relay, \<^verbatim>\<open>milimo_core/mesh_relay.py\<close>: \<open>Relay\<close> (server, sockets, client) and \<open>Relay_Props\<close>.
  \<^item> The sandbox command, \<^verbatim>\<open>milimo_core/containment.py\<close>: \<open>Containment\<close>.

  \<^item> The finance claw around the spend handler, \<^verbatim>\<open>milimo_core/finance/\<close>, in the order of its calls. \<open>Effects\<close> has
    Python computations that change a state and may raise (what was written before an exception stays
    written) and the rule for invariants of such computations. \<open>War_Bridge\<close> (\<^verbatim>\<open>warroom_bridge.py\<close>: cards as
    files, the callbacks by role), \<open>Finance_Store\<close> (\<^verbatim>\<open>finance_init.py\<close>; the state of the claw's files and
    the world of an operation: clock, gateway, inference, Stripe), \<open>Invoices\<close> and \<open>Invoice_Approval\<close>
    (\<^verbatim>\<open>signal_dispatcher.py\<close>, \<^verbatim>\<open>payment_risk_scorer.py\<close>, \<^verbatim>\<open>invoice_manager.py\<close>,
    \<^verbatim>\<open>approval_handler.py\<close>), \<open>Payments\<close> (\<^verbatim>\<open>revenue_tracker.py\<close>, \<^verbatim>\<open>payment_monitor.py\<close>), \<open>Pricing\<close>
    (\<^verbatim>\<open>pricing_engine.py\<close>, \<^verbatim>\<open>expense_tracker.py\<close>), \<open>Finance_Claw\<close> (\<^verbatim>\<open>finance_scheduler.py\<close>,
    \<^verbatim>\<open>finance_claw.py\<close>: timers, callbacks, inbound messages) and \<open>Stripe\<close> (\<^verbatim>\<open>stripe_client.py\<close>).
    The claw reaches the spend handler through a record of operations, \<open>spend_port\<close>; the properties
    let it do anything to logs and cards (\<open>spend_quiet\<close>). \<open>Invoice_Facts\<close>, \<open>Invoice_Runs\<close>, \<open>Invoice_Books\<close> and
    \<open>Invoice_Ops\<close> are the library: what leaves the files alone, the effect of each operation on them,
    the invariant of the books and the runs of the claw. \<open>Invoice_Props\<close>, \<open>Finance_Props\<close>, \<open>Claw_Props\<close> and
    \<open>Client_Props\<close> hold the properties; the last states a pass of the initialisation as the locale
    \<open>init_pass\<close>, interpreted on the passes over directories and over files.
  \<^item> The gateway adapters, \<^verbatim>\<open>milimo_core/gateway_adapter.py\<close>: \<open>Gateway\<close> (the Unix socket with its buffer, the web
    socket with its callbacks as events, the files of the mesh directories) and \<open>Gateway_Props\<close>. The mesh
    and the claws hand their messages to one of them.
  \<^item> The ops claw, \<^verbatim>\<open>milimo_core/ops/\<close>, in the order of its calls: \<open>Ops_Store\<close> (\<^verbatim>\<open>ops_init.py\<close>; the claw's files and the
    world of an operation), \<open>Ops_Approval\<close> (\<^verbatim>\<open>approval_handler.py\<close> and the callbacks the Hermes plugin registers in the War
    Room), \<open>Ops_Signals\<close> (\<^verbatim>\<open>signal_dispatcher.py\<close>, \<^verbatim>\<open>project_manager.py\<close>), \<open>Ops_Intake\<close> (\<^verbatim>\<open>scope_monitor.py\<close>,
    \<^verbatim>\<open>comms_manager.py\<close>, \<^verbatim>\<open>intake_manager.py\<close>), \<open>Ops_Health\<close> (\<^verbatim>\<open>health_scorer.py\<close>,
    \<^verbatim>\<open>incident_analyzer.py\<close>, \<^verbatim>\<open>runbook_executor.py\<close>) and \<open>Ops_Claw\<close> (\<^verbatim>\<open>ops_scheduler.py\<close>, \<^verbatim>\<open>ops_claw.py\<close>). 
    \<open>Ops_Runs\<close> defines the runs of the claw, restarts included, and proves their invariant operation by operation;
    \<open>Ops_Props\<close> holds the properties.
  \<^item> The build claw, \<^verbatim>\<open>milimo_core/build/\<close>: \<open>Build_Store\<close> (\<^verbatim>\<open>build_init.py\<close>, \<^verbatim>\<open>approval_handler.py\<close>; the claw's files and the
    world of an operation), \<open>Build_Flow\<close> (\<^verbatim>\<open>signal_dispatcher.py\<close>, \<^verbatim>\<open>code_generator.py\<close>, \<^verbatim>\<open>pr_manager.py\<close> and what it calls of
    \<^verbatim>\<open>github_client.py\<close>, \<^verbatim>\<open>deploy_manager.py\<close>, \<^verbatim>\<open>issue_manager.py\<close>), \<open>Build_Watch\<close> (\<^verbatim>\<open>error_monitor.py\<close>,
    \<^verbatim>\<open>cost_monitor.py\<close>, \<^verbatim>\<open>dependency_auditor.py\<close>, \<^verbatim>\<open>doc_maintainer.py\<close>) and \<open>Build_Claw\<close> (\<^verbatim>\<open>build_scheduler.py\<close>,
    \<^verbatim>\<open>build_claw.py\<close>: timers, messages, the threads of briefs and tasks, decisions, entry points). \<open>Build_Facts\<close> defines the
    states the claw can get into, a look at a sprint plan being an operation of its own, and what all operations keep;
    \<open>Build_Props\<close> holds the properties.

  \<open>Py_Text\<close> and \<open>Json_Read\<close> model what these use of Python's strings and of reading dataclasses from
  JSON. \<open>Prelude\<close> holds what all share: JSON values, Python's string and dictionary operations and the
  collections of simplification facts.

  \<^bold>\<open>What the theorems show.\<close>

  For the spend handler: the daily cap holds along every run, restarts included; a restart rebuilds
  what the log records; when a release charges and when it must not; mutual exclusion by the lock
  file; the verdict of the polling loop; the decision log only grows. For the War Room and the
  bridge: the order of the queue, that nothing entered is lost, and that every charge of a session
  has an approval of its own. For contracts, routing and mesh: exactly what is accepted, what stays
  local, that no message which needs approval reaches a claw, that an outbox pass loses nothing.
  For failover: version vectors are the causal order with merge as least upper bound, and what the
  manager reports. For blueprints and provenance: handoffs and attestations come through intact,
  policies merge key by key as stated, a signed blueprint verifies, the traversal of a chain ends and
  visits what a genesis reaches. For evolution: a cycle changes nothing but by deploying, the registry
  and the history survive a restart, what rolls a tool back and how far the capacity holds. For the egress check:
  which addresses and endpoints pass. For metrics and limit: the file reads back, and the usage a
  process sees is that of an abstract ledger. For the relay: capacity and index along every run, and
  a client that loses no message. For the finance claw: every file of an invoice can be read back and is
  filed where its status says, Stripe is called only after both stages, the annual summary is the sum of
  what was paid, category totals add up, timers fall on their times, a signed webhook is accepted. For the gateways: a file sent is received until it is
  acknowledged, and what a late answer does. For the ops claw: every automatic answer has a decision of the
  operator behind it, and a brief goes out only after a price has come in. For the build claw: an issue is
  tried three times at most, and the lock of a deployment keeps two of them apart and is never left behind. Other theorems show where the code does not do what its documentation says: a
  cancelled or completed purchase can be charged again, an edit does not survive a restart, failover
  sends locked data to the cloud, five message types cannot be delivered in the shipped
  configuration, a partition can never be detected, an invoice released from the War Room is never sent,
  an overdue alert, a project brief and a health signal are never delivered, an edited answer goes out unedited, an
  approval in the War Room sends nothing, one deadline without a time zone stops the daily check, the build claw
  never merges or deploys what its operator approves, and its audit of dependencies runs on Mondays only if it was
  started on one.

  \<^bold>\<open>Bounds.\<close> No definition runs on fuel: the loops are structural recursions, and the polling loop
  of a purchase runs over the 150 attempts the code allows (\<open>max_attempts\<close>). The watcher of a sprint plan runs over the
  2880 looks of its 24 hours (\<open>WATCH_POLLS\<close>), resolving an issue over the three attempts of \<open>MAX_FIX_ATTEMPTS\<close>. The traversal of a chain is a
  function whose termination is proved. Python's integers are unbounded and so are the amounts;
  Python's floats are exact rationals, so rounding of their arithmetic is not modelled; times are integers of microseconds, latencies of nanoseconds. In the finance claw the clock does
  not advance within an operation, dates are day numbers, and the payload of a message is an object.

  \<^bold>\<open>What is not modelled.\<close> The discovery of proxy variables for the environment of \<^verbatim>\<open>link-cli\<close>, the
  parsing of its output (the JSON value found is an input), printed briefs and log lines, the
  revenue widget, the comparison of two blueprints, the calls of inference services that generate the
  code of a tool (the code is an input), hashes and signatures (parameters with the laws the theorems
  name), YAML files, sockets and encryption (a mark on a file says whether it is encrypted), region
  detection, event handlers of the failover manager, the prompts of the finance claw (the answer of the
  inference service is an input by kind of question) and the wiring of plugins at its start, the web server and the
  making of the directories of the ops and build claws, their prompts, and the content, analytics and assistant claws. What a socket delivers, what a shell command prints and which calls of the system fail are arguments. Texts that nothing reads are values of
  datatypes. Two operations of one handler do not run at the same time in the model: the code
  keeps concurrent releases of a purchase apart by the lock file, whose acquisition is modelled.
\<close>

end
